(* ===== verification/Prelude.thy ===== *)
theory Prelude
  imports Main
begin

text \<open>
  Shared vocabulary of the development: the result type of fallible code, the named
  collections that carry the component proofs, generic lemmas on lists, and the interface
  \<open>preserving_machine\<close> that every component with state and operations instantiates.
\<close>

section \<open>Results\<close>

text \<open>
  A Go function returning \<open>(T, error)\<close> is a value of \<open>'e + 'a\<close>: \<^const>\<open>Inl\<close> is the
  non-nil error, \<^const>\<open>Inr\<close> the value with a nil error.
\<close>

type_synonym ('e, 'a) result = "'e + 'a"

fun bindR :: "('e, 'a) result \<Rightarrow> ('a \<Rightarrow> ('e, 'b) result) \<Rightarrow> ('e, 'b) result" where
  "bindR (Inl e) f = Inl e"
| "bindR (Inr x) f = f x"

fun is_ok :: "('e, 'a) result \<Rightarrow> bool" where
  "is_ok (Inl e) = False"
| "is_ok (Inr x) = True"

lemma is_ok_iff: "is_ok r \<longleftrightarrow> (\<exists>x. r = Inr x)"
  by (cases r) auto

lemma bindR_Inr_iff: "bindR r f = Inr y \<longleftrightarrow> (\<exists>x. r = Inr x \<and> f x = Inr y)"
  by (cases r) auto

lemma bindR_Inl_iff: "bindR r f = Inl e \<longleftrightarrow> r = Inl e \<or> (\<exists>x. r = Inr x \<and> f x = Inl e)"
  by (cases r) auto

section \<open>Collections of facts\<close>

named_theorems frame_simps \<open>what an operation leaves unchanged\<close>
named_theorems inv_intros \<open>operations that keep an invariant\<close>

section \<open>Lists\<close>

lemma takeWhile_dropWhile_cases:
  obtains "dropWhile P xs = []" "\<forall>x\<in>set xs. P x"
  | y ys where "dropWhile P xs = y # ys" "\<not> P y"
proof (cases "dropWhile P xs")
  case Nil
  then show thesis using that(1) by (simp add: dropWhile_eq_Nil_conv)
next
  case (Cons y ys)
  then have "\<not> P y" by (metis hd_dropWhile list.sel(1) list.distinct(1))
  with Cons show thesis by (rule that(2))
qed

lemma dropWhile_suffix: "\<exists>ps. xs = ps @ dropWhile P xs \<and> (\<forall>x\<in>set ps. P x)"
  by (metis set_takeWhileD takeWhile_dropWhile_id)

lemma drop_is_suffix: "\<exists>ps. xs = ps @ drop n xs"
  by (metis append_take_drop_id)

lemma map_update_list: "map f (xs[i := y]) = (map f xs)[i := f y]"
  by (rule map_update)

lemma sum_list_mono_pointwise:
  fixes f g :: "'a \<Rightarrow> nat"
  shows "(\<And>x. x \<in> set xs \<Longrightarrow> f x \<le> g x) \<Longrightarrow> sum_list (map f xs) \<le> sum_list (map g xs)"
  by (induction xs) (auto intro: add_mono)

lemma find_Some_first:
  "find P xs = Some x \<longleftrightarrow>
     (\<exists>ys zs. xs = ys @ x # zs \<and> P x \<and> (\<forall>y\<in>set ys. \<not> P y))"
proof (induction xs)
  case Nil
  show ?case by simp
next
  case (Cons a xs)
  show ?case
  proof (cases "P a")
    case True
    then show ?thesis
      by (auto simp: Cons_eq_append_conv)
  next
    case False
    then show ?thesis using Cons
      by (auto simp: Cons_eq_append_conv) (metis append_Cons set_ConsD)
  qed
qed

section \<open>Machines whose steps keep an invariant\<close>

text \<open>
  The contract shared by the stateful components: a start state satisfying an invariant,
  and a step function (one constructor of the label type per operation or interleaving
  choice) that keeps it. The client facts are about whole runs.
\<close>

fun run_steps :: "('s \<Rightarrow> 'l \<Rightarrow> 's) \<Rightarrow> 's \<Rightarrow> 'l list \<Rightarrow> 's" where
  "run_steps step s [] = s"
| "run_steps step s (l # ls) = run_steps step (step s l) ls"

lemma run_steps_append [simp]:
  "run_steps step s (xs @ ys) = run_steps step (run_steps step s xs) ys"
  by (induction xs arbitrary: s) auto

lemma run_steps_snoc: "run_steps step s (xs @ [l]) = step (run_steps step s xs) l"
  by simp

locale preserving_machine =
  fixes step :: "'s \<Rightarrow> 'l \<Rightarrow> 's"
    and inv :: "'s \<Rightarrow> bool"
  assumes step_inv: "inv s \<Longrightarrow> inv (step s l)"
begin

lemma run_inv: "inv s \<Longrightarrow> inv (run_steps step s ls)"
  by (induction ls arbitrary: s) (auto intro: step_inv)

lemma run_prefix_inv: "inv s \<Longrightarrow> inv (run_steps step s (take n ls))"
  by (rule run_inv)

end

end
