(* ===== verification/GoText.thy ===== *)
theory GoText
  imports Prelude "HOL-Library.Sublist"
begin

text \<open>
  The part of Go's \<open>strings\<close>, \<open>strconv\<close> and \<open>fmt\<close> packages that the program uses. A Go
  string is a sequence of bytes, so it is a \<^typ>\<open>string\<close> whose characters are the bytes
  (\<^typ>\<open>char\<close> has exactly 256 values); \<open>len(s)\<close> is \<^const>\<open>length\<close>.
\<close>

section \<open>Prefixes, suffixes, substrings\<close>

definition has_prefix :: "string \<Rightarrow> string \<Rightarrow> bool" where
  "has_prefix s p \<longleftrightarrow> prefix p s"

definition has_suffix :: "string \<Rightarrow> string \<Rightarrow> bool" where
  "has_suffix s p \<longleftrightarrow> suffix p s"

definition trim_prefix :: "string \<Rightarrow> string \<Rightarrow> string" where
  "trim_prefix s p = (if has_prefix s p then drop (length p) s else s)"

definition trim_suffix :: "string \<Rightarrow> string \<Rightarrow> string" where
  "trim_suffix s t = (if has_suffix s t then take (length s - length t) s else s)"

fun contains_sub :: "string \<Rightarrow> string \<Rightarrow> bool" where
  "contains_sub [] p = (p = [])"
| "contains_sub (c # s) p = (has_prefix (c # s) p \<or> contains_sub s p)"

lemma has_prefix_append [simp]: "has_prefix (p @ s) p"
  by (simp add: has_prefix_def)

lemma trim_prefix_append [simp]: "trim_prefix (p @ s) p = s"
  by (simp add: trim_prefix_def)

lemma has_prefix_code [code]: "has_prefix s p \<longleftrightarrow> take (length p) s = p"
  by (auto simp: has_prefix_def prefix_def) (metis append_take_drop_id)

section \<open>White space\<close>

text \<open>
  The UTF-8 encodings of the code points for which \<open>unicode.IsSpace\<close> holds: the six ASCII
  ones, U+0085, U+00A0, U+1680, U+2000 to U+200A, U+2028, U+2029, U+202F, U+205F, U+3000.
\<close>

definition space_encodings :: "string list" where
  "space_encodings =
     [[CHR 0x09], [CHR 0x0A], [CHR 0x0B], [CHR 0x0C], [CHR 0x0D], [CHR 0x20],
      [CHR 0xC2, CHR 0x85], [CHR 0xC2, CHR 0xA0], [CHR 0xE1, CHR 0x9A, CHR 0x80],
      [CHR 0xE2, CHR 0x80, CHR 0x80], [CHR 0xE2, CHR 0x80, CHR 0x81],
      [CHR 0xE2, CHR 0x80, CHR 0x82], [CHR 0xE2, CHR 0x80, CHR 0x83],
      [CHR 0xE2, CHR 0x80, CHR 0x84], [CHR 0xE2, CHR 0x80, CHR 0x85],
      [CHR 0xE2, CHR 0x80, CHR 0x86], [CHR 0xE2, CHR 0x80, CHR 0x87],
      [CHR 0xE2, CHR 0x80, CHR 0x88], [CHR 0xE2, CHR 0x80, CHR 0x89],
      [CHR 0xE2, CHR 0x80, CHR 0x8A], [CHR 0xE2, CHR 0x80, CHR 0xA8],
      [CHR 0xE2, CHR 0x80, CHR 0xA9], [CHR 0xE2, CHR 0x80, CHR 0xAF],
      [CHR 0xE2, CHR 0x81, CHR 0x9F], [CHR 0xE3, CHR 0x80, CHR 0x80]]"

fun strip_any :: "string list \<Rightarrow> string \<Rightarrow> string option" where
  "strip_any [] s = None"
| "strip_any (e # es) s =
     (if e \<noteq> [] \<and> take (length e) s = e then Some (drop (length e) s) else strip_any es s)"

lemma strip_any_shorter: "strip_any es s = Some t \<Longrightarrow> length t < length s"
proof (induction es)
  case (Cons e es)
  then show ?case
    by (cases e; cases s) (auto split: if_splits)
qed simp

function trim_left_by :: "string list \<Rightarrow> string \<Rightarrow> string" where
  "trim_left_by es s =
     (case strip_any es s of None \<Rightarrow> s | Some t \<Rightarrow> trim_left_by es t)"
  by pat_completeness auto
termination
  by (relation "measure (\<lambda>(es, s). length s)") (auto simp: strip_any_shorter)

declare trim_left_by.simps [simp del]

text \<open>
  Trimming on the right decodes the last rune; an encoding of a space at the end is found by
  matching the reversed encodings on the reversed string.
\<close>

definition trim_left :: "string \<Rightarrow> string" where
  "trim_left s = trim_left_by space_encodings s"

definition trim_right :: "string \<Rightarrow> string" where
  "trim_right s = rev (trim_left_by (map rev space_encodings) (rev s))"

definition trim_space :: "string \<Rightarrow> string" where
  "trim_space s = trim_right (trim_left s)"

definition is_blank :: "string \<Rightarrow> bool" where
  "is_blank s \<longleftrightarrow> trim_space s = []"

lemma trim_left_by_Nil [simp]: "trim_left_by es [] = []"
proof -
  have "strip_any es [] = None"
    by (induction es) auto
  then show ?thesis
    by (simp add: trim_left_by.simps)
qed

lemma trim_left_by_id: "strip_any es s = None \<Longrightarrow> trim_left_by es s = s"
  by (simp add: trim_left_by.simps)

lemma trim_left_by_length: "length (trim_left_by es s) \<le> length s"
proof (induction es s rule: trim_left_by.induct)
  case (1 es s)
  show ?case
  proof (cases "strip_any es s")
    case None
    then show ?thesis by (simp add: trim_left_by.simps [of es s])
  next
    case (Some t)
    from "1.IH" [OF Some] strip_any_shorter [OF Some] show ?thesis
      by (simp add: Some trim_left_by.simps [of es s])
  qed
qed

lemma trim_space_Nil [simp]: "trim_space [] = []"
  by (simp add: trim_space_def trim_right_def trim_left_def)

lemma is_blank_Nil [simp]: "is_blank []"
  by (simp add: is_blank_def)

lemma trim_space_length: "length (trim_space s) \<le> length s"
proof -
  have "length (trim_right t) \<le> length t" for t
    using trim_left_by_length [of _ "rev t"] by (simp add: trim_right_def)
  then show ?thesis
    using trim_left_by_length [of space_encodings s] le_trans unfolding trim_space_def trim_left_def by blast
qed

text \<open>A byte that is in no space stops the trimming.\<close>

lemma trim_left_by_stops:
  "\<forall>e\<in>set es. c \<notin> set e \<Longrightarrow> \<exists>w z. trim_left_by es (a @ c # b) = w @ c # b \<and> a = z @ w"
proof (induction "length a" arbitrary: a rule: less_induct)
  case less
  show ?case
  proof (cases "strip_any es (a @ c # b)")
    case None
    then show ?thesis by (auto simp: trim_left_by.simps [of es "a @ c # b"])
  next
    case (Some t)
    have "\<exists>e\<in>set es. e \<noteq> [] \<and> take (length e) (a @ c # b) = e \<and> t = drop (length e) (a @ c # b)"
      using Some by (induction es) (auto split: if_splits)
    then obtain e where e: "e \<in> set es" "e \<noteq> []" "take (length e) (a @ c # b) = e" "t = drop (length e) (a @ c # b)"
      by blast
    have "length e \<le> length a"
    proof (rule ccontr)
      assume "\<not> ?thesis"
      then have "c \<in> set (take (length e) (a @ c # b))" by (cases "length e - length a") auto
      then have "c \<in> set e" unfolding e(3) .
      then show False using e(1) less(2) by blast
    qed
    then have t: "t = drop (length e) a @ c # b" using e(4) by simp
    have "length (drop (length e) a) < length a" using e(2) \<open>length e \<le> length a\<close> by (cases e) auto
    from less(1) [OF this less(2)] obtain w z
      where w: "trim_left_by es t = w @ c # b" "drop (length e) a = z @ w" using t by blast
    have "trim_left_by es (a @ c # b) = w @ c # b" using Some w(1) by (simp add: trim_left_by.simps [of es "a @ c # b"])
    moreover have "a = (take (length e) a @ z) @ w" using append_take_drop_id [of "length e" a] w(2) by simp
    ultimately show ?thesis by blast
  qed
qed

lemma trim_keeps:
  assumes "c \<in> {CHR 0x7D, CHR 0x22}" "b \<in> {CHR ''['', CHR 0x7B, CHR 0x22}"
  shows "\<exists>t. trim_space (b # x @ c # tail) = b # x @ c # t \<and> (\<exists>z. tail = t @ z)"
proof -
  have b: "\<forall>e\<in>set space_encodings. hd e \<noteq> b" "[] \<notin> set space_encodings"
    using assms(2) by (simp_all add: space_encodings_def, elim disjE, simp_all)
  have c: "\<forall>e\<in>set (map rev space_encodings). c \<notin> set e"
    using assms(1) by (simp add: space_encodings_def, elim disjE, simp_all)
  have "strip_any es (b # y) = None" if "\<forall>e\<in>set es. hd e \<noteq> b" "[] \<notin> set es" for es y
    using that by (induction es) (auto simp: neq_Nil_conv)
  then have left: "trim_left (b # y) = b # y" for y using b by (simp add: trim_left_def trim_left_by_id)
  obtain w z where w: "trim_left_by (map rev space_encodings) (rev tail @ c # rev (b # x)) = w @ c # rev (b # x)"
      "rev tail = z @ w"
    using trim_left_by_stops [OF c, of "rev tail" "rev (b # x)"] by blast
  have "tail = rev w @ rev z" using w(2) by (metis rev_append rev_rev_ident)
  then show ?thesis using w(1) by (simp add: trim_space_def left trim_right_def)
qed

section \<open>Joining and splitting\<close>

fun join_strings :: "string \<Rightarrow> string list \<Rightarrow> string" where
  "join_strings sep [] = []"
| "join_strings sep [x] = x"
| "join_strings sep (x # y # xs) = x @ sep @ join_strings sep (y # xs)"

text \<open>\<open>strings.Split(s, sep)\<close> for a separator of one byte.\<close>

fun split_byte :: "char \<Rightarrow> string \<Rightarrow> string list" where
  "split_byte c [] = [[]]"
| "split_byte c (x # xs) =
     (if x = c then [] # split_byte c xs
      else (case split_byte c xs of [] \<Rightarrow> [[x]] | w # ws \<Rightarrow> (x # w) # ws))"

lemma split_byte_nonempty [simp]: "split_byte c s \<noteq> []"
  by (induction s) (auto split: list.splits)

lemma join_split_byte: "join_strings [c] (split_byte c s) = s"
proof (induction s)
  case (Cons x xs)
  show ?case
  proof (cases "split_byte c xs")
    case Nil
    then show ?thesis by simp
  next
    case (Cons w ws)
    with Cons.IH show ?thesis by (cases ws) auto
  qed
qed simp

lemma split_byte_plain: "c \<notin> set s \<Longrightarrow> split_byte c s = [s]"
  by (induction s) auto

lemma split_byte_append: "c \<notin> set s \<Longrightarrow> split_byte c (s @ c # t) = s # split_byte c t"
  by (induction s) auto

text \<open>The part of \<open>strings.Cut(s, sep)\<close> before the first separator byte.\<close>

definition cut_before :: "char \<Rightarrow> string \<Rightarrow> string" where
  "cut_before c s = takeWhile (\<lambda>x. x \<noteq> c) s"

section \<open>Decimal numbers\<close>

fun digits_of :: "nat \<Rightarrow> string" where
  "digits_of n =
     (if n < 10 then [char_of (48 + n)] else digits_of (n div 10) @ [char_of (48 + n mod 10)])"

declare digits_of.simps [simp del]

text \<open>\<open>fmt\<close>'s \<open>%d\<close>.\<close>

definition fmt_int :: "int \<Rightarrow> string" where
  "fmt_int i = (if i < 0 then ''-'' @ digits_of (nat (- i)) else digits_of (nat i))"

lemma digits_of_nonempty [simp]: "digits_of n \<noteq> []"
  by (subst digits_of.simps) simp

lemma digits_of_inject: "digits_of n = digits_of m \<Longrightarrow> n = m"
proof (induction n arbitrary: m rule: digits_of.induct)
  case (1 n)
  have c: "char_of (48 + a) = (char_of (48 + b) :: char) \<Longrightarrow> a = b" if "a < 10" "b < 10" for a b :: nat
    using that by (simp add: char_of_eq_iff take_bit_eq_mod)
  have two: "k \<ge> 10 \<Longrightarrow> length (digits_of k) \<ge> 2" for k
    by (subst digits_of.simps) (simp add: Suc_le_eq)
  show ?case
  proof (cases "n < 10")
    case True
    have "length (digits_of n) = 1" using True by (subst digits_of.simps) simp
    then have "m < 10" using two [of m] 1(2) by (metis not_less numeral_le_one_iff semiring_norm(69))
    then show ?thesis using True 1(2) c [of n m] by (simp add: digits_of.simps [of n] digits_of.simps [of m])
  next
    case False
    then have "length (digits_of m) \<ge> 2" using two [of n] 1(2) by simp
    moreover have "m < 10 \<Longrightarrow> length (digits_of m) = 1" by (subst digits_of.simps) simp
    ultimately have "\<not> m < 10" by auto
    then have e: "digits_of (n div 10) = digits_of (m div 10)" "char_of (48 + n mod 10) = (char_of (48 + m mod 10) :: char)"
      using 1(2) False digits_of.simps [of n] digits_of.simps [of m] by simp_all
    have "n div 10 = m div 10" using 1(1) [OF False e(1)] .
    moreover have "n mod 10 = m mod 10" using e(2) by (intro c) simp_all
    ultimately show ?thesis by (metis div_mult_mod_eq)
  qed
qed

section \<open>Quoting\<close>

text \<open>
  \<open>fmt\<close>'s \<open>%q\<close> (\<open>strconv.Quote\<close>): exact for ASCII text; bytes from 0x80 on are kept, which
  is what \<open>Quote\<close> does for printable text in valid UTF-8.
\<close>

definition hex_digit :: "nat \<Rightarrow> char" where
  "hex_digit n = (if n < 10 then char_of (48 + n) else char_of (87 + n))"

definition quote_char :: "char \<Rightarrow> string" where
  "quote_char c =
     (if c = CHR 0x22 then [CHR 0x5C, CHR 0x22]
      else if c = CHR 0x5C then [CHR 0x5C, CHR 0x5C]
      else if c = CHR 0x07 then [CHR 0x5C, CHR ''a'']
      else if c = CHR 0x08 then [CHR 0x5C, CHR ''b'']
      else if c = CHR 0x0C then [CHR 0x5C, CHR ''f'']
      else if c = CHR 0x0A then [CHR 0x5C, CHR ''n'']
      else if c = CHR 0x0D then [CHR 0x5C, CHR ''r'']
      else if c = CHR 0x09 then [CHR 0x5C, CHR ''t'']
      else if c = CHR 0x0B then [CHR 0x5C, CHR ''v'']
      else if of_char c < (0x20 :: nat) \<or> c = CHR 0x7F
        then [CHR 0x5C, CHR ''x'', hex_digit (of_char c div 16), hex_digit (of_char c mod 16)]
      else [c])"

definition fmt_q :: "string \<Rightarrow> string" where
  "fmt_q s = [CHR 0x22] @ concat (map quote_char s) @ [CHR 0x22]"

section \<open>UTF-8 boundaries\<close>

text \<open>\<open>utf8.RuneStart(b)\<close>: the byte is not a continuation byte \<open>10xxxxxx\<close>.\<close>

definition rune_start :: "char \<Rightarrow> bool" where
  "rune_start c \<longleftrightarrow> of_char c div (64 :: nat) \<noteq> 2"

text \<open>
  The loop \<open>for cut > 0 && !utf8.RuneStart(s[cut]) { cut-- }\<close> used wherever a text is cut to a
  byte budget.
\<close>

fun rune_cut :: "string \<Rightarrow> nat \<Rightarrow> nat" where
  "rune_cut s 0 = 0"
| "rune_cut s (Suc n) = (if rune_start (s ! Suc n) then Suc n else rune_cut s n)"

lemma rune_cut_le: "rune_cut s n \<le> n"
  by (induction n) auto

lemma rune_cut_boundary: "rune_cut s n = 0 \<or> rune_start (s ! rune_cut s n)"
  by (induction n) auto

text \<open>
  A text made of whole characters: each chunk is a starting byte followed by continuation
  bytes only, which valid UTF-8 always is.
\<close>

definition rune_chunk :: "string \<Rightarrow> bool" where
  "rune_chunk r \<longleftrightarrow> r \<noteq> [] \<and> rune_start (hd r) \<and> (\<forall>c\<in>set (tl r). \<not> rune_start c)"

lemma cut_at_boundary:
  assumes "\<forall>r\<in>set rs. rune_chunk r" "n < length (concat rs)" "rune_start (concat rs ! n)"
  shows "\<exists>k. take n (concat rs) = concat (take k rs)"
  using assms
proof (induction rs arbitrary: n)
  case (Cons r rs)
  show ?case
  proof (cases "n < length r")
    case True
    have "n = 0"
    proof (rule ccontr)
      assume "n \<noteq> 0"
      with True have "concat (r # rs) ! n \<in> set (tl r)"
        by (cases r; cases n) (auto simp: nth_append)
      with Cons.prems(1,3) show False
        unfolding rune_chunk_def by (meson list.set_intros(1))
    qed
    then show ?thesis by (intro exI [of _ 0]) simp
  next
    case False
    with Cons.prems have "n - length r < length (concat rs)"
        "rune_start (concat rs ! (n - length r))"
      by (auto simp: nth_append)
    with Cons obtain k where "take (n - length r) (concat rs) = concat (take k rs)"
      by fastforce
    with False show ?thesis by (intro exI [of _ "Suc k"]) simp
  qed
qed simp

lemma rune_cut_whole_runes:
  assumes "\<forall>r\<in>set rs. rune_chunk r" "n < length (concat rs)"
  shows "\<exists>k. take (rune_cut (concat rs) n) (concat rs) = concat (take k rs)"
proof (cases "rune_cut (concat rs) n = 0")
  case True
  then show ?thesis by (intro exI [of _ 0]) simp
next
  case False
  then show ?thesis
    using rune_cut_boundary [of "concat rs" n] rune_cut_le [of "concat rs" n] assms
    by (intro cut_at_boundary) auto
qed

section \<open>Lower case\<close>

text \<open>\<open>strings.ToLower\<close> on ASCII letters; every other byte is kept.\<close>

definition lower_char :: "char \<Rightarrow> char" where
  "lower_char c =
     (if (65 :: nat) \<le> of_char c \<and> of_char c \<le> (90 :: nat) then char_of ((of_char c :: nat) + 32) else c)"

definition to_lower :: "string \<Rightarrow> string" where
  "to_lower s = map lower_char s"

text \<open>\<open>strings.Fields\<close>: the maximal runs of bytes that are no white space (ASCII).\<close>

definition ascii_space :: "char \<Rightarrow> bool" where
  "ascii_space c \<longleftrightarrow> [c] \<in> set (take 6 space_encodings)"

fun fields_acc :: "string \<Rightarrow> string \<Rightarrow> string list" where
  "fields_acc acc [] = (if acc = [] then [] else [rev acc])"
| "fields_acc acc (c # s) =
     (if ascii_space c then (if acc = [] then [] else [rev acc]) @ fields_acc [] s
      else fields_acc (c # acc) s)"

definition go_fields :: "string \<Rightarrow> string list" where
  "go_fields s = fields_acc [] s"

end
