(* ===== verification/Json.thy ===== *)
theory Json
  imports GoText "HOL-Library.Char_ord" "HOL-Library.List_Lexorder"
begin

text \<open>
  The part of Go's \<open>encoding/json\<close> the program uses: compact encoding with HTML escaping,
  decoding of a document, and the decoding of string fields into a struct. Numbers are kept as
  their text. Texts are assumed to be valid UTF-8 (Go replaces an invalid byte by U+FFFD).
\<close>

section \<open>Values and encoding\<close>

datatype json =
    JNull
  | JBool bool
  | JNum string
  | JStr string
  | JArr "json list"
  | JObj "(string \<times> json) list"

definition esc_char :: "char \<Rightarrow> string" where
  "esc_char c =
     (if c = CHR 0x22 then [CHR 0x5C, CHR 0x22]
      else if c = CHR 0x5C then [CHR 0x5C, CHR 0x5C]
      else if c = CHR 0x08 then [CHR 0x5C, CHR ''b'']
      else if c = CHR 0x0C then [CHR 0x5C, CHR ''f'']
      else if c = CHR 0x0A then [CHR 0x5C, CHR ''n'']
      else if c = CHR 0x0D then [CHR 0x5C, CHR ''r'']
      else if c = CHR 0x09 then [CHR 0x5C, CHR ''t'']
      else if of_char c < (0x20 :: nat) \<or> c = CHR ''<'' \<or> c = CHR ''>'' \<or> c = CHR 0x26
        then [CHR 0x5C, CHR ''u'', CHR ''0'', CHR ''0'',
              hex_digit (of_char c div 16), hex_digit (of_char c mod 16)]
      else [c])"

text \<open>U+2028 and U+2029 are escaped as well.\<close>

definition is_separator :: "char \<Rightarrow> char \<Rightarrow> char \<Rightarrow> bool" where
  "is_separator c d e \<longleftrightarrow> c = CHR 0xE2 \<and> d = CHR 0x80 \<and> (e = CHR 0xA8 \<or> e = CHR 0xA9)"

fun enc_body :: "string \<Rightarrow> string" where
  "enc_body (c # d # e # s) =
     (if is_separator c d e
      then [CHR 0x5C, CHR ''u'', CHR ''2'', CHR ''0'', CHR ''2'',
            if e = CHR 0xA8 then CHR ''8'' else CHR ''9''] @ enc_body s
      else esc_char c @ enc_body (d # e # s))"
| "enc_body (c # s) = esc_char c @ enc_body s"
| "enc_body [] = []"

definition enc_string :: "string \<Rightarrow> string" where
  "enc_string s = CHR 0x22 # enc_body s @ [CHR 0x22]"

fun encode :: "json \<Rightarrow> string" where
  "encode JNull = ''null''"
| "encode (JBool b) = (if b then ''true'' else ''false'')"
| "encode (JNum n) = n"
| "encode (JStr s) = enc_string s"
| "encode (JArr js) = ''['' @ join_strings '','' (map encode js) @ '']''"
| "encode (JObj ms) =
     CHR 0x7B # join_strings '','' (map (\<lambda>(k, v). enc_string k @ '':'' @ encode v) ms) @ [CHR 0x7D]"

section \<open>Decoding strings\<close>

definition hex_val :: "char \<Rightarrow> nat option" where
  "hex_val c =
     (let n = of_char c :: nat in
      if 48 \<le> n \<and> n \<le> 57 then Some (n - 48)
      else if 97 \<le> n \<and> n \<le> 102 then Some (n - 87)
      else if 65 \<le> n \<and> n \<le> 70 then Some (n - 55)
      else None)"

definition hex4 :: "char \<Rightarrow> char \<Rightarrow> char \<Rightarrow> char \<Rightarrow> nat option" where
  "hex4 a b c d =
     (case (hex_val a, hex_val b, hex_val c, hex_val d) of
        (Some w, Some x, Some y, Some z) \<Rightarrow> Some (w * 4096 + x * 256 + y * 16 + z)
      | _ \<Rightarrow> None)"

definition utf8_encode :: "nat \<Rightarrow> string" where
  "utf8_encode n =
     (if n < 0x80 then [char_of n]
      else if n < 0x800 then [char_of (0xC0 + n div 64), char_of (0x80 + n mod 64)]
      else if n < 0x10000 then
        [char_of (0xE0 + n div 4096), char_of (0x80 + n div 64 mod 64), char_of (0x80 + n mod 64)]
      else [char_of (0xF0 + n div 262144), char_of (0x80 + n div 4096 mod 64),
            char_of (0x80 + n div 64 mod 64), char_of (0x80 + n mod 64)])"

definition simple_escape :: "char \<Rightarrow> char option" where
  "simple_escape c =
     (if c = CHR 0x22 \<or> c = CHR 0x5C \<or> c = CHR ''/'' then Some c
      else if c = CHR ''b'' then Some (CHR 0x08)
      else if c = CHR ''f'' then Some (CHR 0x0C)
      else if c = CHR ''n'' then Some (CHR 0x0A)
      else if c = CHR ''r'' then Some (CHR 0x0D)
      else if c = CHR ''t'' then Some (CHR 0x09)
      else None)"

definition surrogate_high :: "nat \<Rightarrow> bool" where
  "surrogate_high u \<longleftrightarrow> 0xD800 \<le> u \<and> u < 0xDC00"

definition surrogate_low :: "nat \<Rightarrow> bool" where
  "surrogate_low u \<longleftrightarrow> 0xDC00 \<le> u \<and> u < 0xE000"

text \<open>A low surrogate escape at the start of the rest, for the pair it completes.\<close>

fun low_follows :: "string \<Rightarrow> nat option" where
  "low_follows (s # u # a # b # c # d # rest) =
     (if s = CHR 0x5C \<and> u = CHR ''u'' then
        (case hex4 a b c d of
           Some l \<Rightarrow> if surrogate_low l then Some l else None
         | None \<Rightarrow> None)
      else None)"
| "low_follows _ = None"

definition prepend :: "string \<Rightarrow> (string \<times> string) option \<Rightarrow> (string \<times> string) option" where
  "prepend p r = map_option (\<lambda>(s, rest). (p @ s, rest)) r"

text \<open>The body of a string up to its closing quote.\<close>

function parse_body :: "string \<Rightarrow> (string \<times> string) option" where
  "parse_body [] = None"
| "parse_body (c # s) =
     (if c = CHR 0x22 then Some ([], s)
      else if c = CHR 0x5C then
        (case s of
           [] \<Rightarrow> None
         | e # s' \<Rightarrow>
             if e = CHR ''u'' then
               (case s' of
                  h1 # h2 # h3 # h4 # s'' \<Rightarrow>
                    (case hex4 h1 h2 h3 h4 of
                       None \<Rightarrow> None
                     | Some u \<Rightarrow>
                         if surrogate_high u then
                           (case low_follows s'' of
                              Some l \<Rightarrow> prepend (utf8_encode (0x10000 + (u - 0xD800) * 1024 + (l - 0xDC00)))
                                         (parse_body (drop 6 s''))
                            | None \<Rightarrow> prepend (utf8_encode 0xFFFD) (parse_body s''))
                         else if surrogate_low u then prepend (utf8_encode 0xFFFD) (parse_body s'')
                         else prepend (utf8_encode u) (parse_body s''))
                | _ \<Rightarrow> None)
             else
               (case simple_escape e of
                  None \<Rightarrow> None
                | Some x \<Rightarrow> prepend [x] (parse_body s')))
      else if of_char c < (0x20 :: nat) then None
      else prepend [c] (parse_body s))"
  by pat_completeness auto
termination by (relation "measure length") auto

declare parse_body.simps [simp del]

lemma parse_body_quote [simp]: "parse_body (CHR 0x22 # s) = Some ([], s)"
  by (simp add: parse_body.simps)

lemma prepend_Some [simp]: "prepend p (Some (s, rest)) = Some (p @ s, rest)"
  by (simp add: prepend_def)

section \<open>Decoding documents\<close>

definition json_space :: "char \<Rightarrow> bool" where
  "json_space c \<longleftrightarrow> c = CHR 0x20 \<or> c = CHR 0x09 \<or> c = CHR 0x0A \<or> c = CHR 0x0D"

definition skip_ws :: "string \<Rightarrow> string" where
  "skip_ws s = dropWhile json_space s"

definition is_digit :: "char \<Rightarrow> bool" where
  "is_digit c \<longleftrightarrow> (48 :: nat) \<le> of_char c \<and> of_char c \<le> (57 :: nat)"

definition digits1 :: "string \<Rightarrow> string option" where
  "digits1 s = (case s of [] \<Rightarrow> None | c # _ \<Rightarrow> if is_digit c then Some (dropWhile is_digit s) else None)"

text \<open>The number grammar: sign, integer part without leading zeros, fraction, exponent.\<close>

definition number_end :: "string \<Rightarrow> string option" where
  "number_end s =
     (let s1 = (case s of c # r \<Rightarrow> if c = CHR ''-'' then r else s | [] \<Rightarrow> s) in
      case (case s1 of c # r \<Rightarrow> if c = CHR ''0'' then Some r else digits1 s1 | [] \<Rightarrow> None) of
        None \<Rightarrow> None
      | Some s2 \<Rightarrow>
          (case (case s2 of c # r \<Rightarrow> if c = CHR ''.'' then digits1 r else Some s2 | [] \<Rightarrow> Some s2) of
             None \<Rightarrow> None
           | Some s3 \<Rightarrow>
               (case s3 of
                  c # r \<Rightarrow>
                    if c = CHR ''e'' \<or> c = CHR ''E'' then
                      digits1 (case r of d # r' \<Rightarrow> if d = CHR ''+'' \<or> d = CHR ''-'' then r' else r | [] \<Rightarrow> r)
                    else Some s3
                | [] \<Rightarrow> Some s3)))"

definition number_char :: "char \<Rightarrow> bool" where
  "number_char c \<longleftrightarrow> is_digit c \<or> c \<in> set ''+-.eE''"

definition valid_number :: "string \<Rightarrow> bool" where
  "valid_number n \<longleftrightarrow> number_end n = Some []"

definition parse_number :: "string \<Rightarrow> (json \<times> string) option" where
  "parse_number s =
     (let n = takeWhile number_char s in
      if valid_number n then Some (JNum n, dropWhile number_char s) else None)"

definition expect :: "string \<Rightarrow> json \<Rightarrow> string \<Rightarrow> (json \<times> string) option" where
  "expect w v s = (if take (length w) s = w then Some (v, drop (length w) s) else None)"

text \<open>
  The fuel bounds the nesting; every nested call is behind a consumed byte, so the length of
  the document is enough.
\<close>

fun parse_value :: "nat \<Rightarrow> string \<Rightarrow> (json \<times> string) option"
  and parse_elems :: "nat \<Rightarrow> string \<Rightarrow> (json list \<times> string) option"
  and parse_members :: "nat \<Rightarrow> string \<Rightarrow> ((string \<times> json) list \<times> string) option" where
  "parse_value 0 s = None"
| "parse_value (Suc n) s =
     (case skip_ws s of
        [] \<Rightarrow> None
      | c # r \<Rightarrow>
          if c = CHR 0x22 then map_option (\<lambda>(t, r'). (JStr t, r')) (parse_body r)
          else if c = CHR ''['' then
            (case skip_ws r of
               d # r' \<Rightarrow> if d = CHR '']'' then Some (JArr [], r')
                         else map_option (\<lambda>(js, r''). (JArr js, r'')) (parse_elems n r)
             | [] \<Rightarrow> None)
          else if c = CHR 0x7B then
            (case skip_ws r of
               d # r' \<Rightarrow> if d = CHR 0x7D then Some (JObj [], r')
                         else map_option (\<lambda>(ms, r''). (JObj ms, r'')) (parse_members n r)
             | [] \<Rightarrow> None)
          else if c = CHR ''t'' then expect ''true'' (JBool True) (c # r)
          else if c = CHR ''f'' then expect ''false'' (JBool False) (c # r)
          else if c = CHR ''n'' then expect ''null'' JNull (c # r)
          else parse_number (c # r))"
| "parse_elems 0 s = None"
| "parse_elems (Suc n) s =
     (case parse_value n s of
        None \<Rightarrow> None
      | Some (j, r) \<Rightarrow>
          (case skip_ws r of
             d # r' \<Rightarrow> if d = CHR '']'' then Some ([j], r')
                       else if d = CHR '','' then map_option (\<lambda>(js, r''). (j # js, r'')) (parse_elems n r')
                       else None
           | [] \<Rightarrow> None))"
| "parse_members 0 s = None"
| "parse_members (Suc n) s =
     (case skip_ws s of
        q # r0 \<Rightarrow>
          if q \<noteq> CHR 0x22 then None
          else
            (case parse_body r0 of
               None \<Rightarrow> None
             | Some (k, r1) \<Rightarrow>
                 (case skip_ws r1 of
                    col # r2 \<Rightarrow>
                      if col \<noteq> CHR '':'' then None
                      else
                        (case parse_value n r2 of
                           None \<Rightarrow> None
                         | Some (v, r3) \<Rightarrow>
                             (case skip_ws r3 of
                                d # r4 \<Rightarrow>
                                  if d = CHR 0x7D then Some ([(k, v)], r4)
                                  else if d = CHR '','' then
                                    map_option (\<lambda>(ms, r5). ((k, v) # ms, r5)) (parse_members n r4)
                                  else None
                              | [] \<Rightarrow> None))
                  | [] \<Rightarrow> None))
      | [] \<Rightarrow> None)"

definition parse_json :: "string \<Rightarrow> json option" where
  "parse_json s =
     (case parse_value (Suc (length s)) s of
        Some (j, r) \<Rightarrow> if skip_ws r = [] then Some j else None
      | None \<Rightarrow> None)"

definition json_valid :: "string \<Rightarrow> bool" where
  "json_valid s \<longleftrightarrow> parse_json s \<noteq> None"

section \<open>Encoded strings decode to themselves\<close>

lemma hex_val_digit: "n < 16 \<Longrightarrow> hex_val (hex_digit n) = Some n"
  by (simp add: hex_val_def hex_digit_def Let_def)

lemma hex_val_zero: "hex_val (CHR ''0'') = Some 0"
  by (simp add: hex_val_def)

lemma parse_body_plain:
  "c \<noteq> CHR 0x22 \<Longrightarrow> c \<noteq> CHR 0x5C \<Longrightarrow> \<not> of_char c < (0x20 :: nat) \<Longrightarrow>
     parse_body (c # s) = prepend [c] (parse_body s)"
  by (simp add: parse_body.simps)

lemma parse_body_simple:
  "simple_escape e = Some x \<Longrightarrow> e \<noteq> CHR ''u'' \<Longrightarrow>
     parse_body (CHR 0x5C # e # s) = prepend [x] (parse_body s)"
  by (simp add: parse_body.simps)

lemma parse_body_hex:
  "hex4 a b c d = Some u \<Longrightarrow> \<not> surrogate_high u \<Longrightarrow> \<not> surrogate_low u \<Longrightarrow>
     parse_body (CHR 0x5C # CHR ''u'' # a # b # c # d # s) = prepend (utf8_encode u) (parse_body s)"
  by (simp add: parse_body.simps)

lemma of_char_bound: "of_char c < (256 :: nat)"
  using of_char_mod_256 [where ?'a = nat, of c] by (metis mod_less_divisor zero_less_numeral)

lemma parse_body_esc_hex:
  assumes "of_char c < (0x80 :: nat)"
  shows "parse_body ([CHR 0x5C, CHR ''u'', CHR ''0'', CHR ''0'',
      hex_digit (of_char c div 16), hex_digit (of_char c mod 16)] @ s) = prepend [c] (parse_body s)"
proof -
  let ?n = "of_char c :: nat"
  have "hex4 (CHR ''0'') (CHR ''0'') (hex_digit (?n div 16)) (hex_digit (?n mod 16)) = Some ?n"
    using assms by (simp add: hex4_def hex_val_zero hex_val_digit)
  moreover have "\<not> surrogate_high ?n" "\<not> surrogate_low ?n"
    using assms by (simp_all add: surrogate_high_def surrogate_low_def)
  moreover have "utf8_encode ?n = [c]" using assms by (simp add: utf8_encode_def)
  ultimately show ?thesis by (simp add: parse_body_hex)
qed

lemma parse_body_esc: "parse_body (esc_char c @ s) = prepend [c] (parse_body s)"
proof (cases "of_char c < (0x20 :: nat) \<or> c = CHR ''<'' \<or> c = CHR ''>'' \<or> c = CHR 0x26")
  case True
  then have "of_char c < (0x80 :: nat)" by auto
  then show ?thesis
    using parse_body_esc_hex [of c s] True
    by (auto simp: esc_char_def parse_body_simple simple_escape_def)
next
  case False
  then show ?thesis
    by (simp add: esc_char_def parse_body_simple simple_escape_def parse_body_plain)
qed

lemma parse_body_separator:
  assumes "is_separator c d e"
  shows "parse_body ([CHR 0x5C, CHR ''u'', CHR ''2'', CHR ''0'', CHR ''2'',
      if e = CHR 0xA8 then CHR ''8'' else CHR ''9''] @ s) = prepend [c, d, e] (parse_body s)"
proof -
  have "hex4 (CHR ''2'') (CHR ''0'') (CHR ''2'') (CHR ''8'') = Some 0x2028"
    "hex4 (CHR ''2'') (CHR ''0'') (CHR ''2'') (CHR ''9'') = Some 0x2029"
    by (simp_all add: hex4_def hex_val_def)
  moreover have "utf8_encode 0x2028 = [CHR 0xE2, CHR 0x80, CHR 0xA8]"
    "utf8_encode 0x2029 = [CHR 0xE2, CHR 0x80, CHR 0xA9]"
    by (simp_all add: utf8_encode_def char_of_eq_iff take_bit_eq_mod)
  ultimately show ?thesis
    using assms by (auto simp: is_separator_def parse_body_hex surrogate_high_def surrogate_low_def)
qed

lemma prepend_prepend [simp]: "prepend p (prepend q r) = prepend (p @ q) r"
  by (cases r) (auto simp: prepend_def)

lemma parse_enc_body: "parse_body (enc_body s @ t) = prepend s (parse_body t)"
proof (induction s rule: enc_body.induct, goal_cases)
  case (1 c d e s)
  then show ?case
    using parse_body_separator [of c d e "enc_body s @ t"] parse_body_esc [of c "enc_body (d # e # s) @ t"]
    by (cases "is_separator c d e") simp_all
next
  case (2 c)
  then show ?case using parse_body_esc [of c t] by simp
next
  case (3 c v)
  then show ?case using parse_body_esc [of c "esc_char v @ t"] by simp
next
  case 4
  then show ?case by (cases "parse_body t") (auto simp: prepend_def)
qed

lemma parse_enc_string: "parse_body (enc_body s @ CHR 0x22 # t) = Some (s, t)"
  by (simp add: parse_enc_body)

section \<open>Encoded documents decode to themselves\<close>

fun wf_json :: "json \<Rightarrow> bool" where
  "wf_json (JNum n) = (valid_number n \<and> list_all number_char n)"
| "wf_json (JArr js) = list_all wf_json js"
| "wf_json (JObj ms) = list_all (\<lambda>m. wf_json (snd m)) ms"
| "wf_json _ = True"

text \<open>The byte after a number must not extend it.\<close>

definition ends_number :: "string \<Rightarrow> bool" where
  "ends_number s \<longleftrightarrow> (case s of [] \<Rightarrow> True | c # _ \<Rightarrow> \<not> number_char c)"

lemma valid_number_start:
  assumes "valid_number n"
  obtains c cs where "n = c # cs" "is_digit c \<or> c = CHR ''-''"
proof (cases n)
  case Nil
  then show thesis using assms by (simp add: valid_number_def number_end_def)
next
  case (Cons c cs)
  have "is_digit c \<or> c = CHR ''-''"
  proof (rule ccontr)
    assume "\<not> (is_digit c \<or> c = CHR ''-'')"
    moreover from this have "c \<noteq> CHR ''0''" by (auto simp: is_digit_def)
    ultimately have "number_end n = None"
      by (simp add: Cons number_end_def digits1_def)
    then show False using assms by (simp add: valid_number_def)
  qed
  then show thesis using that Cons by blast
qed

lemma takeWhile_number: "list_all number_char n \<Longrightarrow> ends_number r \<Longrightarrow>
    takeWhile number_char (n @ r) = n \<and> dropWhile number_char (n @ r) = r"
  by (induction n) (auto simp: ends_number_def split: list.splits)

lemma parse_number_append:
  "wf_json (JNum n) \<Longrightarrow> ends_number r \<Longrightarrow> parse_number (n @ r) = Some (JNum n, r)"
  by (simp add: parse_number_def takeWhile_number)

definition starts_plain :: "string \<Rightarrow> bool" where
  "starts_plain s \<longleftrightarrow> (case s of [] \<Rightarrow> False | c # _ \<Rightarrow> \<not> json_space c \<and> c \<noteq> CHR '']'')"

lemma starts_plain_skip: "starts_plain s \<Longrightarrow> skip_ws (s @ t) = s @ t"
  by (cases s) (auto simp: starts_plain_def skip_ws_def)

lemma encode_starts_plain:
  assumes "wf_json j"
  shows "starts_plain (encode j)"
proof (cases j)
  case (JNum n)
  then obtain c cs where "n = c # cs" "is_digit c \<or> c = CHR ''-''"
    using assms valid_number_start [of n] by auto
  then show ?thesis using JNum by (auto simp: starts_plain_def json_space_def is_digit_def)
qed (auto simp: starts_plain_def enc_string_def json_space_def)

lemma skip_ws_punct [simp]:
  "skip_ws (CHR '']'' # s) = CHR '']'' # s" "skip_ws (CHR 0x7D # s) = CHR 0x7D # s"
  "skip_ws (CHR '','' # s) = CHR '','' # s" "skip_ws (CHR '':'' # s) = CHR '':'' # s"
  "skip_ws (CHR 0x22 # s) = CHR 0x22 # s" "skip_ws (CHR ''['' # s) = CHR ''['' # s"
  "skip_ws (CHR 0x7B # s) = CHR 0x7B # s" "skip_ws [] = []"
  by (simp_all add: skip_ws_def json_space_def)

lemma ends_number_punct [simp]:
  "ends_number []" "ends_number (CHR '']'' # s)" "ends_number (CHR 0x7D # s)" "ends_number (CHR '','' # s)"
  by (simp_all add: ends_number_def number_char_def is_digit_def)

definition parses :: "json \<Rightarrow> bool" where
  "parses j \<longleftrightarrow> (\<forall>n r. length (encode j) \<le> n \<longrightarrow> ends_number r \<longrightarrow>
     parse_value (Suc n) (encode j @ r) = Some (j, r))"

lemma parse_elems_encode:
  assumes "\<forall>j\<in>set js. parses j" "js \<noteq> []" "length (join_strings '','' (map encode js)) + 2 \<le> n"
  shows "parse_elems n (join_strings '','' (map encode js) @ CHR '']'' # r) = Some (js, r)"
  using assms
proof (induction js arbitrary: n)
  case (Cons j js)
  obtain m where m: "n = Suc (Suc m)" using Cons.prems(3) by (cases n; cases "n - 1") auto
  show ?case
  proof (cases js)
    case Nil
    then show ?thesis using Cons.prems by (simp add: m parses_def)
  next
    case (Cons k ks)
    have "parse_elems (Suc m) (join_strings '','' (map encode js) @ CHR '']'' # r) = Some (js, r)"
      using Cons.IH [of "Suc m"] Cons.prems Cons by (simp del: parse_elems.simps add: m)
    moreover have "parse_value (Suc m) (encode j @ CHR '','' # t) = Some (j, CHR '','' # t)" for t
      using Cons.prems Cons by (simp add: m parses_def)
    ultimately show ?thesis
      unfolding m by (simp del: parse_elems.simps add: parse_elems.simps(2) [of "Suc m"] Cons)
  qed
qed simp

definition enc_member :: "string \<times> json \<Rightarrow> string" where
  "enc_member m = (case m of (k, v) \<Rightarrow> enc_string k @ '':'' @ encode v)"

lemma enc_member_pair [simp]: "enc_member (k, v) = enc_string k @ '':'' @ encode v"
  by (simp add: enc_member_def)

lemma encode_object:
  "encode (JObj ms) = CHR 0x7B # join_strings '','' (map enc_member ms) @ [CHR 0x7D]"
proof -
  have "(\<lambda>(k, v). enc_string k @ '':'' @ encode v) = enc_member"
    by (simp add: fun_eq_iff enc_member_def)
  then show ?thesis by simp
qed

lemma parse_members_encode:
  assumes "\<forall>m\<in>set ms. parses (snd m)" "ms \<noteq> []"
    "length (join_strings '','' (map enc_member ms)) + 2 \<le> n"
  shows "parse_members n (join_strings '','' (map enc_member ms) @ CHR 0x7D # r) = Some (ms, r)"
  using assms
proof (induction ms arbitrary: n)
  case (Cons mem ms)
  obtain k v where mem: "mem = (k, v)" by (cases mem)
  obtain m where m: "n = Suc (Suc m)" using Cons.prems(3) by (cases n; cases "n - 1") auto
  have key: "skip_ws (enc_string k @ t) = CHR 0x22 # enc_body k @ CHR 0x22 # t" for t
    by (simp add: enc_string_def)
  show ?case
  proof (cases ms)
    case Nil
    have "parse_value (Suc m) (encode v @ CHR 0x7D # r) = Some (v, CHR 0x7D # r)"
      using Cons.prems by (simp add: m mem Nil parses_def)
    then show ?thesis
      unfolding m
      by (simp del: parse_value.simps add: parse_members.simps(2) [of "Suc m"] mem Nil key parse_enc_string)
  next
    case (Cons k2 ks)
    have "parse_members (Suc m) (join_strings '','' (map enc_member ms) @ CHR 0x7D # r) = Some (ms, r)"
      using Cons.IH [of "Suc m"] Cons.prems Cons by (simp del: parse_members.simps add: m mem)
    moreover have "parse_value (Suc m) (encode v @ CHR '','' # t) = Some (v, CHR '','' # t)" for t
      using Cons.prems Cons by (simp add: m mem parses_def)
    ultimately show ?thesis
      unfolding m
      by (simp del: parse_members.simps parse_value.simps
          add: parse_members.simps(2) [of "Suc m"] Cons mem key parse_enc_string)
  qed
qed simp

lemma join_strings_starts:
  "starts_plain x \<Longrightarrow> starts_plain (join_strings sep (x # xs))"
  by (cases xs) (auto simp: starts_plain_def split: list.splits)

lemma skip_ws_elems:
  assumes "\<forall>j\<in>set js. wf_json j" "js \<noteq> []"
  obtains c cs where "join_strings '','' (map encode js) = c # cs" "\<not> json_space c" "c \<noteq> CHR '']''"
proof -
  obtain j ks where "js = j # ks" using assms(2) by (cases js) auto
  then have "starts_plain (join_strings '','' (map encode js))"
    using assms(1) join_strings_starts encode_starts_plain by simp
  then show thesis using that by (auto simp: starts_plain_def split: list.splits)
qed

lemma skip_ws_keep: "\<not> json_space c \<Longrightarrow> skip_ws (c # s) = c # s"
  by (simp add: skip_ws_def)

lemma parses_number:
  assumes "wf_json (JNum n)"
  shows "parses (JNum n)"
proof -
  obtain c cs where n: "n = c # cs" "is_digit c \<or> c = CHR ''-''"
    using assms valid_number_start [of n] by auto
  have "\<not> json_space c" using n(2) by (auto simp: json_space_def is_digit_def)
  moreover have "c \<noteq> CHR 0x22" "c \<noteq> CHR ''[''" "c \<noteq> CHR 0x7B" "c \<noteq> CHR ''t''" "c \<noteq> CHR ''f''" "c \<noteq> CHR ''n''"
    using n(2) by (auto simp: is_digit_def)
  ultimately show ?thesis
    using parse_number_append [OF assms]
    by (auto simp: parses_def n(1) skip_ws_keep)
qed

lemma parses_array:
  assumes "\<forall>j\<in>set js. parses j" "\<forall>j\<in>set js. wf_json j"
  shows "parses (JArr js)"
proof (cases "js = []")
  case True
  then show ?thesis by (simp add: parses_def)
next
  case False
  obtain c cs where e: "join_strings '','' (map encode js) = c # cs" "\<not> json_space c" "c \<noteq> CHR '']''"
    using skip_ws_elems [OF assms(2) False] .
  have "parse_elems n (c # cs @ CHR '']'' # r) = Some (js, r)" if "length cs + 3 \<le> n" for n r
    using parse_elems_encode [OF assms(1) False, of n r] that by (simp add: e)
  then show ?thesis
    by (simp del: parse_elems.simps add: parses_def e skip_ws_keep)
qed

lemma parses_object:
  assumes "\<forall>m\<in>set ms. parses (snd m)"
  shows "parses (JObj ms)"
proof (cases "ms = []")
  case True
  then show ?thesis by (simp add: parses_def)
next
  case False
  then obtain k v ks where ms: "ms = (k, v) # ks" by (cases ms) auto
  have q: "\<exists>cs. join_strings '','' (map enc_member ms) = CHR 0x22 # cs"
    by (cases ks) (auto simp: ms enc_string_def)
  then obtain cs where e: "join_strings '','' (map enc_member ms) = CHR 0x22 # cs" by blast
  have "parse_members n (CHR 0x22 # cs @ CHR 0x7D # r) = Some (ms, r)" if "length cs + 3 \<le> n" for n r
    using parse_members_encode [OF assms False, of n r] that by (simp add: e)
  then show ?thesis
    by (simp del: parse_members.simps encode.simps add: parses_def encode_object e)
qed

lemma wf_parses: "wf_json j \<Longrightarrow> parses j"
proof (induction j)
  case (JNum n)
  then show ?case by (rule parses_number)
next
  case (JArr js)
  then show ?case by (intro parses_array) (auto simp: list_all_iff)
next
  case (JObj ms)
  then show ?case by (intro parses_object) (auto simp: list_all_iff)
qed (auto simp: parses_def expect_def enc_string_def parse_enc_string skip_ws_keep json_space_def)

lemma parse_encode:
  assumes "wf_json j"
  shows "parse_json (encode j) = Some j"
proof -
  have "parse_value (Suc (length (encode j))) (encode j @ []) = Some (j, [])"
    using wf_parses [OF assms] unfolding parses_def using ends_number_punct(1) by blast
  then show ?thesis by (simp del: parse_value.simps add: parse_json_def)
qed

text \<open>
  Encoding a document (its numbers in JSON's grammar) and decoding the text gives the
  document back: the escapes, the HTML escapes and the line separators included; the nesting
  fuel is enough, and the text counts as valid.
\<close>

lemma json_roundtrip:
  assumes "wf_json j"
  shows "parse_json (encode j) = Some j \<and> json_valid (encode j)"
  using parse_encode [OF assms] by (simp add: json_valid_def)

lemma json_roundtrip_witness:
  "parse_json (encode (JObj [(''k<'', JArr [JNum ''-1.5e3'', JStr [CHR 0x22, CHR 0x0A], JNull])]))
   = Some (JObj [(''k<'', JArr [JNum ''-1.5e3'', JStr [CHR 0x22, CHR 0x0A], JNull])])"
proof -
  have "wf_json (JObj [(''k<'', JArr [JNum ''-1.5e3'', JStr [CHR 0x22, CHR 0x0A], JNull])])"
    by (simp add: valid_number_def number_end_def digits1_def number_char_def is_digit_def)
  from json_roundtrip [OF this] show ?thesis by blast
qed

section \<open>Decoding into a struct of strings\<close>

text \<open>
  \<open>json.Unmarshal\<close> into a struct whose fields are strings: keys match up to case, a later
  member overrides an earlier one, null leaves a field alone, another type is an error, unknown
  keys are ignored, and a null document decodes to the zero struct.
\<close>

definition field_matches :: "string \<Rightarrow> string \<Rightarrow> bool" where
  "field_matches name key \<longleftrightarrow> to_lower key = to_lower name"

fun string_field :: "string \<Rightarrow> (string \<times> json) list \<Rightarrow> string \<Rightarrow> string" where
  "string_field name [] acc = acc"
| "string_field name ((k, v) # ms) acc =
     string_field name ms (case v of JStr s \<Rightarrow> if field_matches name k then s else acc | _ \<Rightarrow> acc)"

definition string_or_null :: "json \<Rightarrow> bool" where
  "string_or_null v \<longleftrightarrow> (case v of JStr s \<Rightarrow> True | JNull \<Rightarrow> True | _ \<Rightarrow> False)"

definition unmarshal_strings :: "string list \<Rightarrow> string \<Rightarrow> (string \<Rightarrow> string) option" where
  "unmarshal_strings names doc =
     (case parse_json doc of
        Some JNull \<Rightarrow> Some (\<lambda>n. [])
      | Some (JObj ms) \<Rightarrow>
          if \<forall>(k, v)\<in>set ms. (\<exists>n\<in>set names. field_matches n k) \<longrightarrow> string_or_null v
          then Some (\<lambda>n. string_field n ms []) else None
      | _ \<Rightarrow> None)"

text \<open>\<open>json.Marshal\<close> of a \<open>map[string]string\<close> sorts the keys.\<close>

definition marshal_map :: "(string \<times> string) list \<Rightarrow> string" where
  "marshal_map kvs = encode (JObj (map (\<lambda>(k, v). (k, JStr v)) (sort_key fst kvs)))"

lemma wf_string_members: "wf_json (JObj (map (\<lambda>(k, v). (k, JStr v)) kvs))"
  by (auto simp: list_all_iff)

lemma parse_marshal_map:
  "parse_json (marshal_map kvs) = Some (JObj (map (\<lambda>(k, v). (k, JStr v)) (sort_key fst kvs)))"
  unfolding marshal_map_def by (rule parse_encode [OF wf_string_members])

end
