(* ===== verification/Store.thy ===== *)
theory Store
  imports Json "HOL-Library.Product_Lexorder"
begin

text \<open>
  The SQLite store of \<open>internal/db\<close>: the tables as lists of rows in insertion order and one
  definition per statement the program runs on jobs, tasks, dependencies, progress, feed,
  blockers and worker sessions. Every statement may fail: the state carries the driver errors
  still to come (\<open>db_faults\<close>, indexed by the number of statements run), and a statement that
  fails changes nothing. Times are numbers; the RFC 3339 texts the code compares order the same
  way. Rows that compare equal under an \<open>ORDER BY\<close> keep their insertion order.
\<close>

section \<open>Rows\<close>

datatype job_status =
    JobPending | JobSettingUp | JobActive | JobPaused | JobCompleted | JobFailed | JobCancelled

datatype task_status =
    TaskPending | TaskInProgress | TaskCompleted | TaskFailed | TaskBlocked | TaskCancelled

fun job_status_text :: "job_status \<Rightarrow> string" where
  "job_status_text JobPending = ''pending''"
| "job_status_text JobSettingUp = ''setting_up''"
| "job_status_text JobActive = ''active''"
| "job_status_text JobPaused = ''paused''"
| "job_status_text JobCompleted = ''completed''"
| "job_status_text JobFailed = ''failed''"
| "job_status_text JobCancelled = ''cancelled''"

fun task_status_text :: "task_status \<Rightarrow> string" where
  "task_status_text TaskPending = ''pending''"
| "task_status_text TaskInProgress = ''in_progress''"
| "task_status_text TaskCompleted = ''completed''"
| "task_status_text TaskFailed = ''failed''"
| "task_status_text TaskBlocked = ''blocked''"
| "task_status_text TaskCancelled = ''cancelled''"

record job =
  job_id :: string
  job_title :: string
  job_description :: string
  job_type :: string
  job_status :: job_status
  job_workspace :: string
  job_created :: nat
  job_updated :: nat
  job_metadata :: string

record task =
  task_id :: string
  task_job :: string
  task_title :: string
  task_status :: task_status
  task_worker :: string
  task_graph :: string
  task_parent :: string
  task_order :: int
  task_depth :: int
  task_created :: nat
  task_updated :: nat
  task_description :: string
  task_summary :: string
  task_metadata :: string
  task_result :: string
  task_recommendations :: string

text \<open>The zero \<open>Task\<close> a composite literal starts from.\<close>

definition new_task :: "string \<Rightarrow> string \<Rightarrow> string \<Rightarrow> task_status \<Rightarrow> task" where
  "new_task tid jid title st =
     \<lparr>task_id = tid, task_job = jid, task_title = title, task_status = st, task_worker = [],
      task_graph = [], task_parent = [], task_order = 0, task_depth = 0, task_created = 0,
      task_updated = 0, task_description = [], task_summary = [], task_metadata = [],
      task_result = [], task_recommendations = []\<rparr>"

datatype feed_type =
    FeedUserMessage | FeedOperatorMessage | FeedSystemEvent | FeedConsultationTrace
  | FeedTaskStarted | FeedTaskCompleted | FeedTaskFailed | FeedBlockerReported | FeedJobComplete

record feed_entry =
  feed_id :: nat
  feed_job :: string
  feed_kind :: feed_type
  feed_content :: string
  feed_created :: nat

record progress_report =
  prog_id :: nat
  prog_job :: string
  prog_task :: string
  prog_worker :: string
  prog_status :: string
  prog_message :: string
  prog_created :: nat

datatype row_session_status = RowActive | RowCompleted | RowFailed | RowCancelled

record session_row =
  sr_id :: string
  sr_worker :: string
  sr_job :: string
  sr_task :: string
  sr_status :: row_session_status
  sr_tokens_in :: int
  sr_tokens_out :: int
  sr_started :: nat
  sr_ended :: "nat option"

record blocker_record =
  blk_request :: string
  blk_source :: string
  blk_job :: string
  blk_task :: string
  blk_questions :: string
  blk_created :: nat
  blk_resolved :: "nat option"
  blk_disposition :: string
  blk_answer :: string

record db =
  db_jobs :: "job list"
  db_tasks :: "task list"
  db_deps :: "(string \<times> string) list"
  db_feed :: "feed_entry list"
  db_progress :: "progress_report list"
  db_sessions :: "session_row list"
  db_blockers :: "blocker_record list"
  db_clock :: "nat \<Rightarrow> nat"
  db_stmt :: nat
  db_faults :: "nat \<Rightarrow> string option"

definition db_now :: "db \<Rightarrow> nat" where
  "db_now d = db_clock d (db_stmt d)"

section \<open>Errors and statements\<close>

datatype db_error =
    SqlFault string string     \<comment> \<open>what was being done, the driver's text\<close>
  | NotFound string            \<comment> \<open>wraps \<open>ErrNotFound\<close>; the text before it\<close>

fun db_error_text :: "db_error \<Rightarrow> string" where
  "db_error_text (SqlFault what e) = what @ '': '' @ e"
| "db_error_text (NotFound what) = (if what = [] then ''not found'' else what @ '': not found'')"

type_synonym 'a store_op = "db \<Rightarrow> (db_error + 'a) \<times> db"

definition sql :: "string \<Rightarrow> (db \<Rightarrow> (db_error + 'a) \<times> db) \<Rightarrow> 'a store_op" where
  "sql what body d =
     (let d' = d\<lparr>db_stmt := Suc (db_stmt d)\<rparr>
      in case db_faults d (db_stmt d) of
           Some e \<Rightarrow> (Inl (SqlFault what e), d')
         | None \<Rightarrow> body d')"

definition update_rows :: "('r \<Rightarrow> bool) \<Rightarrow> ('r \<Rightarrow> 'r) \<Rightarrow> 'r list \<Rightarrow> 'r list" where
  "update_rows P f rows = map (\<lambda>r. if P r then f r else r) rows"

text \<open>\<open>checkRowsAffected\<close> on the rows a condition selects.\<close>

definition check_affected :: "string \<Rightarrow> string \<Rightarrow> ('r \<Rightarrow> bool) \<Rightarrow> 'r list \<Rightarrow> db_error + unit" where
  "check_affected entity ident P rows =
     (if \<not> (\<exists>r\<in>set rows. P r) then Inl (NotFound (entity @ '' '' @ fmt_q ident)) else Inr ())"

text \<open>An \<open>UPDATE tasks\<close> statement and the check of its row count.\<close>

definition update_tasks ::
  "string \<Rightarrow> string \<Rightarrow> (task \<Rightarrow> bool) \<Rightarrow> (task \<Rightarrow> task) \<Rightarrow> unit store_op" where
  "update_tasks what tid P f =
     sql what (\<lambda>d. (check_affected ''task'' tid P (db_tasks d),
       d\<lparr>db_tasks := update_rows P (\<lambda>t. (f t)\<lparr>task_updated := db_now d\<rparr>) (db_tasks d)\<rparr>))"

section \<open>Jobs\<close>

definition stamp :: "nat \<Rightarrow> nat \<Rightarrow> nat" where
  "stamp t current = (if t = 0 then current else t)"

definition create_job :: "job \<Rightarrow> unit store_op" where
  "create_job j =
     sql ''inserting job'' (\<lambda>d.
       if job_id j \<in> job_id ` set (db_jobs d)
       then (Inl (SqlFault ''inserting job'' ''UNIQUE constraint failed: jobs.id''), d)
       else (Inr (), d\<lparr>db_jobs := db_jobs d @
              [j\<lparr>job_created := stamp (job_created j) (db_now d),
                 job_updated := stamp (job_updated j) (db_now d)\<rparr>]\<rparr>))"

definition get_job :: "string \<Rightarrow> job store_op" where
  "get_job jid =
     sql ''scanning job'' (\<lambda>d.
       (case find (\<lambda>j. job_id j = jid) (db_jobs d) of
          None \<Rightarrow> Inl (NotFound (''job '' @ fmt_q jid))
        | Some j \<Rightarrow> Inr j, d))"

record job_filter =
  jf_status :: "job_status option"
  jf_type :: "string option"
  jf_limit :: int
  jf_offset :: int

definition jobs_newest_first :: "job list \<Rightarrow> job list" where
  "jobs_newest_first js = sort_key (\<lambda>j. - int (job_created j)) js"

definition list_jobs :: "job_filter \<Rightarrow> job list store_op" where
  "list_jobs f =
     sql ''listing jobs'' (\<lambda>d.
       (let sel = filter (\<lambda>j. (case jf_status f of None \<Rightarrow> True | Some s \<Rightarrow> job_status j = s)
                           \<and> (case jf_type f of None \<Rightarrow> True | Some t \<Rightarrow> job_type j = t)) (db_jobs d);
            rows = jobs_newest_first sel;
            rows = (if 0 < jf_offset f then drop (nat (jf_offset f)) rows else rows);
            rows = (if 0 < jf_limit f then take (nat (jf_limit f)) rows else rows)
        in Inr rows, d))"

definition list_all_jobs :: "job list store_op" where
  "list_all_jobs = sql ''listing jobs'' (\<lambda>d. (Inr (jobs_newest_first (db_jobs d)), d))"

record job_update =
  ju_title :: "string option"
  ju_description :: "string option"
  ju_status :: "job_status option"
  ju_workspace :: "string option"

definition apply_job_update :: "job_update \<Rightarrow> job \<Rightarrow> job" where
  "apply_job_update u j =
     j\<lparr>job_title := case_option (job_title j) id (ju_title u),
       job_description := case_option (job_description j) id (ju_description u),
       job_status := case_option (job_status j) id (ju_status u),
       job_workspace := case_option (job_workspace j) id (ju_workspace u)\<rparr>"

definition update_job :: "string \<Rightarrow> job_update \<Rightarrow> unit store_op" where
  "update_job jid u =
     (if ju_title u = None \<and> ju_description u = None \<and> ju_status u = None \<and> ju_workspace u = None
      then (\<lambda>d. (Inr (), d))
      else sql ''updating job'' (\<lambda>d. (check_affected ''job'' jid (\<lambda>j. job_id j = jid) (db_jobs d),
             d\<lparr>db_jobs := update_rows (\<lambda>j. job_id j = jid)
                 (\<lambda>j. (apply_job_update u j)\<lparr>job_updated := db_now d\<rparr>) (db_jobs d)\<rparr>)))"

definition update_job_status :: "string \<Rightarrow> job_status \<Rightarrow> unit store_op" where
  "update_job_status jid st =
     sql ''updating job status'' (\<lambda>d. (check_affected ''job'' jid (\<lambda>j. job_id j = jid) (db_jobs d),
       d\<lparr>db_jobs := update_rows (\<lambda>j. job_id j = jid)
           (\<lambda>j. j\<lparr>job_status := st, job_updated := db_now d\<rparr>) (db_jobs d)\<rparr>))"

section \<open>Tasks\<close>

definition create_task :: "task \<Rightarrow> unit store_op" where
  "create_task t =
     sql ''inserting task'' (\<lambda>d.
       if task_id t \<in> task_id ` set (db_tasks d)
       then (Inl (SqlFault ''inserting task'' ''UNIQUE constraint failed: tasks.id''), d)
       else if task_job t \<notin> job_id ` set (db_jobs d)
       then (Inl (SqlFault ''inserting task'' ''FOREIGN KEY constraint failed''), d)
       else (Inr (), d\<lparr>db_tasks := db_tasks d @
              [t\<lparr>task_created := stamp (task_created t) (db_now d),
                 task_updated := stamp (task_updated t) (db_now d),
                 task_result := [], task_recommendations := []\<rparr>]\<rparr>))"

definition get_task :: "string \<Rightarrow> task store_op" where
  "get_task tid =
     sql ''scanning task'' (\<lambda>d.
       (case find (\<lambda>t. task_id t = tid) (db_tasks d) of
          None \<Rightarrow> Inl (NotFound [])
        | Some t \<Rightarrow> Inr t, d))"

definition in_task_order :: "task list \<Rightarrow> task list" where
  "in_task_order ts = sort_key (\<lambda>t. (task_order t, task_created t)) ts"

definition list_tasks_for_job :: "string \<Rightarrow> task list store_op" where
  "list_tasks_for_job jid =
     sql ''listing tasks'' (\<lambda>d. (Inr (in_task_order (filter (\<lambda>t. task_job t = jid) (db_tasks d))), d))"

definition update_task_status :: "string \<Rightarrow> task_status \<Rightarrow> string \<Rightarrow> unit store_op" where
  "update_task_status tid st summary =
     update_tasks ''updating task status'' tid (\<lambda>t. task_id t = tid)
       (\<lambda>t. t\<lparr>task_status := st, task_summary := summary\<rparr>)"

definition update_task_result :: "string \<Rightarrow> string \<Rightarrow> string \<Rightarrow> unit store_op" where
  "update_task_result tid res recs =
     update_tasks ''updating task result'' tid (\<lambda>t. task_id t = tid)
       (\<lambda>t. t\<lparr>task_result := res, task_recommendations := recs\<rparr>)"

definition assign_task_to_graph :: "string \<Rightarrow> string \<Rightarrow> unit store_op" where
  "assign_task_to_graph tid g =
     update_tasks ''assigning task to graph'' tid (\<lambda>t. task_id t = tid \<and> task_status t = TaskPending)
       (\<lambda>t. t\<lparr>task_graph := g, task_status := TaskInProgress\<rparr>)"

definition pre_assign_task_graph :: "string \<Rightarrow> string \<Rightarrow> unit store_op" where
  "pre_assign_task_graph tid g =
     update_tasks ''pre-assigning task graph'' tid (\<lambda>t. task_id t = tid \<and> task_status t = TaskPending)
       (\<lambda>t. t\<lparr>task_graph := g\<rparr>)"

definition retry_task_row :: "string \<Rightarrow> string \<Rightarrow> unit store_op" where
  "retry_task_row tid g =
     update_tasks ''retrying task'' tid (\<lambda>t. task_id t = tid \<and> task_status t = TaskFailed)
       (\<lambda>t. t\<lparr>task_graph := g, task_status := TaskInProgress, task_summary := [],
              task_result := [], task_recommendations := []\<rparr>)"

definition set_task_metadata :: "string \<Rightarrow> string \<Rightarrow> unit store_op" where
  "set_task_metadata tid meta =
     update_tasks ''setting task metadata'' tid (\<lambda>t. task_id t = tid) (\<lambda>t. t\<lparr>task_metadata := meta\<rparr>)"

definition add_task_dependency :: "string \<Rightarrow> string \<Rightarrow> unit store_op" where
  "add_task_dependency tid dep =
     sql ''adding task dependency'' (\<lambda>d.
       if (tid, dep) \<in> set (db_deps d)
       then (Inl (SqlFault ''adding task dependency''
               ''UNIQUE constraint failed: task_dependencies.task_id, task_dependencies.depends_on''), d)
       else if tid \<notin> task_id ` set (db_tasks d) \<or> dep \<notin> task_id ` set (db_tasks d)
       then (Inl (SqlFault ''adding task dependency'' ''FOREIGN KEY constraint failed''), d)
       else (Inr (), d\<lparr>db_deps := db_deps d @ [(tid, dep)]\<rparr>))"

text \<open>The \<open>NOT EXISTS\<close> clause: some dependency's row is not completed.\<close>

definition has_open_dependency :: "db \<Rightarrow> string \<Rightarrow> bool" where
  "has_open_dependency d tid \<longleftrightarrow>
     (\<exists>(a, b)\<in>set (db_deps d). a = tid \<and>
        (\<exists>dep\<in>set (db_tasks d). task_id dep = b \<and> task_status dep \<noteq> TaskCompleted))"

definition get_ready_tasks :: "string \<Rightarrow> task list store_op" where
  "get_ready_tasks jid =
     sql ''getting ready tasks'' (\<lambda>d.
       (Inr (in_task_order (filter (\<lambda>t. task_job t = jid \<and> task_status t = TaskPending
                \<and> \<not> has_open_dependency d (task_id t)) (db_tasks d))), d))"

definition list_task_dependents :: "string \<Rightarrow> task list store_op" where
  "list_task_dependents tid =
     sql ''listing task dependents'' (\<lambda>d.
       (Inr (in_task_order (filter (\<lambda>t. (task_id t, tid) \<in> set (db_deps d)) (db_tasks d))), d))"

section \<open>Task metadata\<close>

definition marshal_task_metadata :: "string \<Rightarrow> string" where
  "marshal_task_metadata toolchain =
     (if toolchain = [] then [] else encode (JObj [(''toolchain'', JStr toolchain)]))"

definition parse_task_metadata :: "string \<Rightarrow> string" where
  "parse_task_metadata raw =
     (case parse_json raw of Some (JObj ms) \<Rightarrow> string_field ''toolchain'' ms [] | _ \<Rightarrow> [])"

section \<open>Progress and feed\<close>

definition report_progress :: "progress_report \<Rightarrow> nat store_op" where
  "report_progress r =
     sql ''inserting progress report'' (\<lambda>d.
       if prog_job r \<notin> job_id ` set (db_jobs d)
       then (Inl (SqlFault ''inserting progress report'' ''FOREIGN KEY constraint failed''), d)
       else (let n = Suc (length (db_progress d))
             in (Inr n, d\<lparr>db_progress := db_progress d @
                   [r\<lparr>prog_id := n, prog_created := stamp (prog_created r) (db_now d)\<rparr>]\<rparr>)))"

definition get_recent_progress :: "string \<Rightarrow> int \<Rightarrow> progress_report list store_op" where
  "get_recent_progress jid limit =
     sql ''listing progress reports'' (\<lambda>d.
       (Inr (take (nat (if limit \<le> 0 then 50 else limit))
          (sort_key (\<lambda>r. - int (prog_created r)) (filter (\<lambda>r. prog_job r = jid) (db_progress d)))), d))"

definition create_feed_entry :: "feed_type \<Rightarrow> string \<Rightarrow> string \<Rightarrow> nat store_op" where
  "create_feed_entry kind content jid =
     sql ''inserting feed entry'' (\<lambda>d.
       (let n = Suc (length (db_feed d))
        in (Inr n, d\<lparr>db_feed := db_feed d @
              [\<lparr>feed_id = n, feed_job = jid, feed_kind = kind, feed_content = content,
                feed_created = db_now d\<rparr>]\<rparr>)))"

definition list_recent_feed :: "int \<Rightarrow> feed_entry list store_op" where
  "list_recent_feed limit =
     sql ''listing recent feed entries'' (\<lambda>d.
       (Inr (take (nat (if limit \<le> 0 then 50 else limit))
          (sort_key (\<lambda>r. - int (feed_created r)) (db_feed d))), d))"

section \<open>Worker sessions and recovery\<close>

definition create_session :: "session_row \<Rightarrow> unit store_op" where
  "create_session s =
     sql ''inserting session'' (\<lambda>d.
       if sr_id s \<in> sr_id ` set (db_sessions d)
       then (Inl (SqlFault ''inserting session'' ''UNIQUE constraint failed: worker_sessions.id''), d)
       else (Inr (), d\<lparr>db_sessions := db_sessions d @
              [s\<lparr>sr_started := stamp (sr_started s) (db_now d)\<rparr>]\<rparr>))"

text \<open>
  \<open>ReconcileInterrupted\<close>: two statements; a failure of the second leaves the effect of the first.
\<close>

definition reconcile_sessions :: "nat store_op" where
  "reconcile_sessions =
     sql ''reconciling interrupted sessions'' (\<lambda>d.
       (Inr (length (filter (\<lambda>s. sr_status s = RowActive) (db_sessions d))),
        d\<lparr>db_sessions := update_rows (\<lambda>s. sr_status s = RowActive)
            (\<lambda>s. s\<lparr>sr_status := RowFailed, sr_ended := Some (db_now d)\<rparr>) (db_sessions d)\<rparr>))"

definition reconcile_tasks :: "nat store_op" where
  "reconcile_tasks =
     sql ''reconciling interrupted tasks'' (\<lambda>d.
       (Inr (length (filter (\<lambda>t. task_status t = TaskInProgress) (db_tasks d))),
        d\<lparr>db_tasks := update_rows (\<lambda>t. task_status t = TaskInProgress)
            (\<lambda>t. t\<lparr>task_status := TaskPending, task_summary := [], task_updated := db_now d\<rparr>) (db_tasks d)\<rparr>))"

definition reconcile_interrupted :: "(nat \<times> nat) store_op" where
  "reconcile_interrupted d =
     (case reconcile_sessions d of
        (Inl e, d') \<Rightarrow> (Inl e, d')
      | (Inr n, d') \<Rightarrow>
          (case reconcile_tasks d' of
             (Inl e, d'') \<Rightarrow> (Inl e, d'')
           | (Inr k, d'') \<Rightarrow> (Inr (n, k), d'')))"

section \<open>Blockers\<close>

definition create_blocker :: "blocker_record \<Rightarrow> unit store_op" where
  "create_blocker b =
     sql ''inserting blocker'' (\<lambda>d.
       if blk_request b \<in> blk_request ` set (db_blockers d)
       then (Inl (SqlFault ''inserting blocker'' ''UNIQUE constraint failed: blockers.request_id''), d)
       else (Inr (), d\<lparr>db_blockers := db_blockers d @
              [b\<lparr>blk_created := stamp (blk_created b) (db_now d), blk_resolved := None,
                 blk_disposition := [], blk_answer := [],
                 blk_questions := (if blk_questions b = [] then ''[]'' else blk_questions b)\<rparr>]\<rparr>))"

definition resolve_blocker_record :: "string \<Rightarrow> string \<Rightarrow> string \<Rightarrow> nat \<Rightarrow> unit store_op" where
  "resolve_blocker_record rid disposition answer at =
     sql ''resolving blocker record'' (\<lambda>d.
       (Inr (), d\<lparr>db_blockers := update_rows (\<lambda>b. blk_request b = rid \<and> blk_resolved b = None)
          (\<lambda>b. b\<lparr>blk_resolved := Some (stamp at (db_now d)), blk_disposition := disposition,
                 blk_answer := answer\<rparr>) (db_blockers d)\<rparr>))"

definition list_blocker_history :: "int \<Rightarrow> blocker_record list store_op" where
  "list_blocker_history limit =
     sql ''listing blocker history'' (\<lambda>d.
       (Inr (take (nat (if limit \<le> 0 then 200 else limit))
          (sort_key (\<lambda>b. - int (case_option 0 id (blk_resolved b)))
             (filter (\<lambda>b. blk_resolved b \<noteq> None) (db_blockers d)))), d))"

definition list_pending_blockers :: "blocker_record list store_op" where
  "list_pending_blockers =
     sql ''listing pending blockers'' (\<lambda>d.
       (Inr (sort_key blk_created (filter (\<lambda>b. blk_resolved b = None) (db_blockers d))), d))"

definition sweep_unresolved_blockers :: "nat store_op" where
  "sweep_unresolved_blockers =
     sql ''sweeping unresolved blockers'' (\<lambda>d.
       (Inr (length (filter (\<lambda>b. blk_resolved b = None) (db_blockers d))),
        d\<lparr>db_blockers := update_rows (\<lambda>b. blk_resolved b = None)
            (\<lambda>b. b\<lparr>blk_resolved := Some (db_now d), blk_disposition := ''cancelled''\<rparr>) (db_blockers d)\<rparr>))"

section \<open>How a statement ends\<close>

definition tick :: "db \<Rightarrow> db" where
  "tick d = d\<lparr>db_stmt := Suc (db_stmt d)\<rparr>"

lemma tick_simps [simp]:
  "db_jobs (tick d) = db_jobs d" "db_tasks (tick d) = db_tasks d" "db_deps (tick d) = db_deps d"
  "db_feed (tick d) = db_feed d" "db_progress (tick d) = db_progress d"
  "db_sessions (tick d) = db_sessions d" "db_blockers (tick d) = db_blockers d"
  "db_faults (tick d) = db_faults d" "db_clock (tick d) = db_clock d" "db_stmt (tick d) = Suc (db_stmt d)"
  by (simp_all add: tick_def)

lemma sql_cases:
  assumes "sql what body d = (r, d')"
  obtains (fault) e where "r = Inl (SqlFault what e)" "d' = tick d"
  | (run) "db_faults d (db_stmt d) = None" "body (tick d) = (r, d')"
  using assms by (auto simp: sql_def Let_def tick_def split: option.splits)

lemma sql_ok: "db_faults d (db_stmt d) = None \<Longrightarrow> sql what body d = body (tick d)"
  by (simp add: sql_def tick_def)

lemma update_rows_fields:
  "(\<And>r. g (f r) = g r) \<Longrightarrow> map g (update_rows P f rows) = map g rows"
  by (simp add: update_rows_def)

lemma set_update_rows: "set (update_rows P f rows) = f ` {r \<in> set rows. P r} \<union> {r \<in> set rows. \<not> P r}"
  by (auto simp: update_rows_def)

lemma update_rows_none: "\<not> (\<exists>r\<in>set rows. P r) \<Longrightarrow> update_rows P f rows = rows"
  by (auto simp: update_rows_def intro: map_idI)

section \<open>Keyed tables\<close>

text \<open>
  A table whose rows are told apart by a key: an update that keeps the key keeps the keys
  distinct, and a lookup finds the updated row.
\<close>

locale keyed_table =
  fixes key :: "'r \<Rightarrow> string"
    and upd :: "'r \<Rightarrow> 'r"
  assumes upd_key: "key (upd r) = key r"
begin

lemma keys_update: "map key (update_rows P upd rows) = map key rows"
  by (rule update_rows_fields) (rule upd_key)

lemma distinct_update: "distinct (map key rows) \<Longrightarrow> distinct (map key (update_rows P upd rows))"
  by (simp add: keys_update)

lemma find_update:
  "find (\<lambda>r. key r = k) (update_rows P upd rows)
     = map_option (\<lambda>r. if P r then upd r else r) (find (\<lambda>r. key r = k) rows)"
  by (induction rows) (auto simp: update_rows_def upd_key)

end

lemma find_key:
  assumes "distinct (map key rows)" "r \<in> set rows"
  shows "find (\<lambda>x. key x = key r) rows = Some r"
  using assms by (induction rows) (auto simp: image_iff)

lemma find_key_None: "find (\<lambda>x. key x = k) rows = None \<longleftrightarrow> k \<notin> key ` set rows"
  by (auto simp: find_None_iff)

interpretation job_row: keyed_table job_id "\<lambda>j. j\<lparr>job_status := st, job_updated := n\<rparr>" for st n
  by unfold_locales simp

interpretation job_edit: keyed_table job_id "\<lambda>j. (apply_job_update u j)\<lparr>job_updated := n\<rparr>" for u n
  by unfold_locales (simp add: apply_job_update_def)

text \<open>The changes to a task row keep its id and its job.\<close>

definition keeps_task :: "(task \<Rightarrow> task) \<Rightarrow> bool" where
  "keeps_task f \<longleftrightarrow> (\<forall>t. task_id (f t) = task_id t \<and> task_job (f t) = task_job t)"

lemma keeps_task_updates [simp]:
  "keeps_task (\<lambda>t. t\<lparr>task_status := st, task_summary := m\<rparr>)"
  "keeps_task (\<lambda>t. t\<lparr>task_result := r, task_recommendations := m\<rparr>)"
  "keeps_task (\<lambda>t. t\<lparr>task_graph := g, task_status := st\<rparr>)"
  "keeps_task (\<lambda>t. t\<lparr>task_graph := g\<rparr>)"
  "keeps_task (\<lambda>t. t\<lparr>task_metadata := m\<rparr>)"
  "keeps_task (\<lambda>t. t\<lparr>task_graph := g, task_status := st, task_summary := m,
     task_result := r, task_recommendations := q\<rparr>)"
  by (simp_all add: keeps_task_def)

section \<open>Integrity of the tables\<close>

definition db_ok :: "db \<Rightarrow> bool" where
  "db_ok d \<longleftrightarrow>
     distinct (map job_id (db_jobs d)) \<and> distinct (map task_id (db_tasks d))
     \<and> task_job ` set (db_tasks d) \<subseteq> job_id ` set (db_jobs d)
     \<and> distinct (db_deps d)
     \<and> fst ` set (db_deps d) \<union> snd ` set (db_deps d) \<subseteq> task_id ` set (db_tasks d)
     \<and> prog_job ` set (db_progress d) \<subseteq> job_id ` set (db_jobs d)
     \<and> distinct (map sr_id (db_sessions d)) \<and> distinct (map blk_request (db_blockers d))"

lemma db_ok_tick [simp]: "db_ok (tick d) = db_ok d"
  by (simp add: db_ok_def)

lemma db_ok_fieldsI:
  assumes "db_ok d" "map job_id (db_jobs d') = map job_id (db_jobs d)"
    "map (\<lambda>t. (task_id t, task_job t)) (db_tasks d') = map (\<lambda>t. (task_id t, task_job t)) (db_tasks d)"
    "db_deps d' = db_deps d" "db_progress d' = db_progress d"
    "map sr_id (db_sessions d') = map sr_id (db_sessions d)"
    "map blk_request (db_blockers d') = map blk_request (db_blockers d)"
  shows "db_ok d'"
proof -
  have "map task_id (db_tasks d') = map task_id (db_tasks d)"
    "map task_job (db_tasks d') = map task_job (db_tasks d)"
    using arg_cong [OF assms(3), of "map fst"] arg_cong [OF assms(3), of "map snd"]
    by (simp_all add: comp_def)
  moreover have "job_id ` set (db_jobs d') = job_id ` set (db_jobs d)"
    using assms(2) by (metis list.set_map)
  moreover have "task_id ` set (db_tasks d') = task_id ` set (db_tasks d)"
    "task_job ` set (db_tasks d') = task_job ` set (db_tasks d)"
    using calculation by (metis list.set_map)+
  ultimately show ?thesis
    using assms(1,4-7) unfolding db_ok_def assms(2) by simp
qed

lemma update_tasks_effect:
  assumes "update_tasks what tid P f d = (r, d')"
  shows "d' = tick d \<and> is_ok r = False
    \<or> d' = (tick d)\<lparr>db_tasks := update_rows P (\<lambda>t. (f t)\<lparr>task_updated := db_now (tick d)\<rparr>) (db_tasks d)\<rparr>
      \<and> r = check_affected ''task'' tid P (db_tasks d)"
  using assms unfolding update_tasks_def
  by (elim sql_cases) auto

lemma update_tasks_ok:
  assumes "db_ok d" "keeps_task f" "update_tasks what tid P f d = (r, d')"
  shows "db_ok d'"
proof -
  let ?f = "\<lambda>t. (f t)\<lparr>task_updated := db_now (tick d)\<rparr>"
  let ?d = "(tick d)\<lparr>db_tasks := update_rows P ?f (db_tasks d)\<rparr>"
  have "map (\<lambda>t. (task_id t, task_job t)) (update_rows P ?f (db_tasks d))
      = map (\<lambda>t. (task_id t, task_job t)) (db_tasks d)"
    using assms(2) by (intro update_rows_fields) (simp add: keeps_task_def)
  moreover have "db_tasks ?d = update_rows P ?f (db_tasks d)" by simp
  ultimately have e: "map (\<lambda>t. (task_id t, task_job t)) (db_tasks ?d)
      = map (\<lambda>t. (task_id t, task_job t)) (db_tasks d)" by (simp only:)
  have "db_ok ?d"
    by (rule db_ok_fieldsI [OF assms(1) _ e]) simp_all
  then show ?thesis using update_tasks_effect [OF assms(3)] assms(1) by auto
qed

text \<open>Every writing statement, as one step of the store.\<close>

datatype store_write =
    WCreateJob job | WUpdateJob string job_update | WUpdateJobStatus string job_status
  | WCreateTask task | WUpdateTaskStatus string task_status string
  | WUpdateTaskResult string string string | WAssignGraph string string
  | WPreAssign string string | WRetry string string | WSetMetadata string string
  | WAddDependency string string | WProgress progress_report
  | WFeed feed_type string string | WCreateSession session_row
  | WReconcileSessions | WReconcileTasks
  | WCreateBlocker blocker_record | WResolveBlocker string string string nat | WSweepBlockers

fun store_step :: "db \<Rightarrow> store_write \<Rightarrow> db" where
  "store_step d (WCreateJob j) = snd (create_job j d)"
| "store_step d (WUpdateJob i u) = snd (update_job i u d)"
| "store_step d (WUpdateJobStatus i s) = snd (update_job_status i s d)"
| "store_step d (WCreateTask t) = snd (create_task t d)"
| "store_step d (WUpdateTaskStatus i s m) = snd (update_task_status i s m d)"
| "store_step d (WUpdateTaskResult i r m) = snd (update_task_result i r m d)"
| "store_step d (WAssignGraph i g) = snd (assign_task_to_graph i g d)"
| "store_step d (WPreAssign i g) = snd (pre_assign_task_graph i g d)"
| "store_step d (WRetry i g) = snd (retry_task_row i g d)"
| "store_step d (WSetMetadata i m) = snd (set_task_metadata i m d)"
| "store_step d (WAddDependency a b) = snd (add_task_dependency a b d)"
| "store_step d (WProgress r) = snd (report_progress r d)"
| "store_step d (WFeed k c j) = snd (create_feed_entry k c j d)"
| "store_step d (WCreateSession s) = snd (create_session s d)"
| "store_step d WReconcileSessions = snd (reconcile_sessions d)"
| "store_step d WReconcileTasks = snd (reconcile_tasks d)"
| "store_step d (WCreateBlocker b) = snd (create_blocker b d)"
| "store_step d (WResolveBlocker i s a t) = snd (resolve_blocker_record i s a t d)"
| "store_step d WSweepBlockers = snd (sweep_unresolved_blockers d)"

lemma db_ok_snd_sql:
  assumes "db_ok d" "db_ok (snd (body (tick d)))"
  shows "db_ok (snd (sql what body d))"
  using assms by (simp add: sql_def Let_def tick_def [symmetric] split: option.split)

lemma db_ok_update_tasks:
  "db_ok d \<Longrightarrow> keeps_task f \<Longrightarrow> db_ok (snd (update_tasks what tid P f d))"
  by (metis prod.collapse update_tasks_ok)

lemma db_ok_jobs_update:
  assumes "db_ok d" "rows = db_jobs d" "\<And>j. job_id (f j) = job_id j"
  shows "db_ok (d\<lparr>db_jobs := update_rows P f rows\<rparr>)"
proof -
  have "map job_id (update_rows P f rows) = map job_id (db_jobs d)"
    unfolding assms(2) by (rule update_rows_fields) (rule assms(3))
  then show ?thesis by (intro db_ok_fieldsI [OF assms(1)]) simp_all
qed

lemma db_ok_sessions_update:
  assumes "db_ok d" "rows = db_sessions d" "\<And>s. sr_id (f s) = sr_id s"
  shows "db_ok (d\<lparr>db_sessions := update_rows P f rows\<rparr>)"
proof -
  have "map sr_id (update_rows P f rows) = map sr_id (db_sessions d)"
    unfolding assms(2) by (rule update_rows_fields) (rule assms(3))
  then show ?thesis by (intro db_ok_fieldsI [OF assms(1)]) simp_all
qed

lemma db_ok_blockers_update:
  assumes "db_ok d" "rows = db_blockers d" "\<And>b. blk_request (f b) = blk_request b"
  shows "db_ok (d\<lparr>db_blockers := update_rows P f rows\<rparr>)"
proof -
  have "map blk_request (update_rows P f rows) = map blk_request (db_blockers d)"
    unfolding assms(2) by (rule update_rows_fields) (rule assms(3))
  then show ?thesis by (intro db_ok_fieldsI [OF assms(1)]) simp_all
qed

lemma db_ok_tasks_update:
  assumes "db_ok d" "rows = db_tasks d" "keeps_task f"
  shows "db_ok (d\<lparr>db_tasks := update_rows P f rows\<rparr>)"
proof -
  let ?d = "d\<lparr>db_tasks := update_rows P f rows\<rparr>"
  have "map (\<lambda>t. (task_id t, task_job t)) (update_rows P f rows)
      = map (\<lambda>t. (task_id t, task_job t)) (db_tasks d)"
    unfolding assms(2) using assms(3) by (intro update_rows_fields) (simp add: keeps_task_def)
  moreover have "db_tasks ?d = update_rows P f rows" by simp
  ultimately have e: "map (\<lambda>t. (task_id t, task_job t)) (db_tasks ?d)
      = map (\<lambda>t. (task_id t, task_job t)) (db_tasks d)" by (simp only:)
  show ?thesis by (rule db_ok_fieldsI [OF assms(1) _ e]) simp_all
qed

lemmas task_update_ops =
  update_task_status_def update_task_result_def assign_task_to_graph_def pre_assign_task_graph_def
  retry_task_row_def set_task_metadata_def

lemma create_job_ok [inv_intros]: "db_ok d \<Longrightarrow> db_ok (snd (create_job j d))"
  unfolding create_job_def by (rule db_ok_snd_sql, assumption) (auto simp: db_ok_def)

lemma create_task_ok [inv_intros]: "db_ok d \<Longrightarrow> db_ok (snd (create_task t d))"
  unfolding create_task_def by (rule db_ok_snd_sql, assumption) (auto simp: db_ok_def)

lemma add_task_dependency_ok [inv_intros]: "db_ok d \<Longrightarrow> db_ok (snd (add_task_dependency a b d))"
  unfolding add_task_dependency_def by (rule db_ok_snd_sql, assumption) (auto simp: db_ok_def)

lemma report_progress_ok [inv_intros]: "db_ok d \<Longrightarrow> db_ok (snd (report_progress r d))"
  unfolding report_progress_def by (rule db_ok_snd_sql, assumption) (auto simp: db_ok_def Let_def)

lemma create_feed_entry_ok [inv_intros]: "db_ok d \<Longrightarrow> db_ok (snd (create_feed_entry k c i d))"
  unfolding create_feed_entry_def by (rule db_ok_snd_sql, assumption) (auto simp: db_ok_def Let_def)

lemma create_session_ok [inv_intros]: "db_ok d \<Longrightarrow> db_ok (snd (create_session s d))"
  unfolding create_session_def by (rule db_ok_snd_sql, assumption) (auto simp: db_ok_def)

lemma create_blocker_ok [inv_intros]: "db_ok d \<Longrightarrow> db_ok (snd (create_blocker b d))"
  unfolding create_blocker_def by (rule db_ok_snd_sql, assumption) (auto simp: db_ok_def)

lemma update_job_status_ok [inv_intros]: "db_ok d \<Longrightarrow> db_ok (snd (update_job_status i s d))"
  unfolding update_job_status_def by (rule db_ok_snd_sql, assumption) (simp add: db_ok_jobs_update)

lemma reconcile_sessions_ok [inv_intros]: "db_ok d \<Longrightarrow> db_ok (snd (reconcile_sessions d))"
  unfolding reconcile_sessions_def by (rule db_ok_snd_sql, assumption) (simp add: db_ok_sessions_update)

lemma resolve_blocker_record_ok [inv_intros]: "db_ok d \<Longrightarrow> db_ok (snd (resolve_blocker_record i s a t d))"
  unfolding resolve_blocker_record_def by (rule db_ok_snd_sql, assumption) (simp add: db_ok_blockers_update)

lemma sweep_unresolved_blockers_ok [inv_intros]: "db_ok d \<Longrightarrow> db_ok (snd (sweep_unresolved_blockers d))"
  unfolding sweep_unresolved_blockers_def by (rule db_ok_snd_sql, assumption) (simp add: db_ok_blockers_update)

lemma reconcile_tasks_ok [inv_intros]: "db_ok d \<Longrightarrow> db_ok (snd (reconcile_tasks d))"
  unfolding reconcile_tasks_def
  by (rule db_ok_snd_sql, assumption) (simp add: db_ok_tasks_update keeps_task_def)

lemma update_job_ok [inv_intros]: "db_ok d \<Longrightarrow> db_ok (snd (update_job i u d))"
  unfolding update_job_def
  by (simp del: not_None_eq, intro impI, rule db_ok_snd_sql, assumption)
    (simp add: db_ok_jobs_update apply_job_update_def)

lemma store_step_ok: "db_ok d \<Longrightarrow> db_ok (store_step d w)"
  by (cases w) (simp_all add: task_update_ops db_ok_update_tasks inv_intros)

interpretation store_machine: preserving_machine store_step db_ok
  by unfold_locales (rule store_step_ok)


section \<open>What a guarded update does\<close>

definition lookup_task :: "db \<Rightarrow> string \<Rightarrow> task option" where
  "lookup_task d tid = find (\<lambda>t. task_id t = tid) (db_tasks d)"

definition lookup_job :: "db \<Rightarrow> string \<Rightarrow> job option" where
  "lookup_job d jid = find (\<lambda>j. job_id j = jid) (db_jobs d)"

lemma lookup_task_tick [simp]: "lookup_task (tick d) = lookup_task d"
  by (simp add: lookup_task_def fun_eq_iff)

lemma lookup_job_tick [simp]: "lookup_job (tick d) = lookup_job d"
  by (simp add: lookup_job_def fun_eq_iff)

lemma lookup_task_iff:
  assumes "db_ok d"
  shows "lookup_task d tid = Some t \<longleftrightarrow> t \<in> set (db_tasks d) \<and> task_id t = tid"
proof
  assume "lookup_task d tid = Some t"
  then show "t \<in> set (db_tasks d) \<and> task_id t = tid"
    by (auto simp: lookup_task_def find_Some_first)
next
  assume t: "t \<in> set (db_tasks d) \<and> task_id t = tid"
  have "distinct (map task_id (db_tasks d))" using assms by (simp add: db_ok_def)
  from find_key [OF this] t show "lookup_task d tid = Some t"
    by (auto simp: lookup_task_def)
qed

lemma get_task_lookup:
  "get_task tid d = (r, d') \<Longrightarrow> d' = tick d \<and> (\<forall>t. r = Inr t \<longrightarrow> lookup_task d tid = Some t)"
  unfolding get_task_def by (elim sql_cases) (auto simp: lookup_task_def split: option.splits)

lemma get_job_lookup:
  "get_job jid d = (r, d') \<Longrightarrow> d' = tick d \<and> (\<forall>j. r = Inr j \<longrightarrow> lookup_job d jid = Some j)"
  unfolding get_job_def by (elim sql_cases) (auto simp: lookup_job_def split: option.splits)

lemma find_task_update:
  assumes "keeps_task f"
  shows "find (\<lambda>t. task_id t = k) (update_rows P f rows)
     = map_option (\<lambda>t. if P t then f t else t) (find (\<lambda>t. task_id t = k) rows)"
  using assms by (intro keyed_table.find_update keyed_table.intro) (simp add: keeps_task_def)

text \<open>
  A guarded update of one task: it succeeds exactly when the statement runs and the guard
  holds of the task, then changes that task alone; otherwise no task changes.
\<close>

lemma update_tasks_correct:
  assumes "db_ok d" "keeps_task f" "\<And>t. P t \<Longrightarrow> task_id t = tid"
    and "update_tasks what tid P f d = (r, d')"
  shows "is_ok r \<longleftrightarrow> db_faults d (db_stmt d) = None \<and> (\<exists>t. lookup_task d tid = Some t \<and> P t)"
    and "\<not> is_ok r \<Longrightarrow> db_tasks d' = db_tasks d"
    and "is_ok r \<Longrightarrow> lookup_task d' k =
      (if k = tid then map_option (\<lambda>t. (f t)\<lparr>task_updated := db_now (tick d)\<rparr>) (lookup_task d tid)
       else lookup_task d k)"
proof -
  let ?f = "\<lambda>t. (f t)\<lparr>task_updated := db_now (tick d)\<rparr>"
  have kf: "keeps_task ?f" using assms(2) by (simp add: keeps_task_def)
  have ex: "(\<exists>t\<in>set (db_tasks d). P t) \<longleftrightarrow> (\<exists>t. lookup_task d tid = Some t \<and> P t)"
    using assms(3) by (auto simp: lookup_task_iff [OF assms(1)])
  have cases: "db_faults d (db_stmt d) \<noteq> None \<and> d' = tick d \<and> \<not> is_ok r
    \<or> db_faults d (db_stmt d) = None
      \<and> d' = (tick d)\<lparr>db_tasks := update_rows P ?f (db_tasks d)\<rparr>
      \<and> r = check_affected ''task'' tid P (db_tasks d)"
    using assms(4) by (auto simp: update_tasks_def sql_def Let_def tick_def split: option.splits)
  show ok: "is_ok r \<longleftrightarrow> db_faults d (db_stmt d) = None \<and> (\<exists>t. lookup_task d tid = Some t \<and> P t)"
    using cases ex by (auto simp: check_affected_def)
  show "\<not> is_ok r \<Longrightarrow> db_tasks d' = db_tasks d"
    using cases ex update_rows_none [of "db_tasks d" P ?f] by (auto simp: check_affected_def split: if_splits)
  assume "is_ok r"
  then obtain t0 where d': "d' = (tick d)\<lparr>db_tasks := update_rows P ?f (db_tasks d)\<rparr>"
    and t0: "lookup_task d tid = Some t0" "P t0"
    using cases ok by blast
  have e: "lookup_task d' k = map_option (\<lambda>t. if P t then ?f t else t) (lookup_task d k)"
    unfolding d' lookup_task_def using find_task_update [OF kf] by simp
  show "lookup_task d' k =
      (if k = tid then map_option ?f (lookup_task d tid) else lookup_task d k)"
  proof (cases "k = tid")
    case True
    then show ?thesis using e t0 by simp
  next
    case False
    have "\<not> P u" if "lookup_task d k = Some u" for u
      using that False assms(3) [of u] lookup_task_iff [OF assms(1), of k u] by blast
    then show ?thesis using e False by (cases "lookup_task d k") simp_all
  qed
qed

section \<open>Claims about the statements\<close>

lemma assign_task_effect:
  assumes "db_ok d" "assign_task_to_graph tid g d = (r, d')"
  shows "(is_ok r \<longleftrightarrow> db_faults d (db_stmt d) = None
        \<and> (\<exists>t. lookup_task d tid = Some t \<and> task_status t = TaskPending))
    \<and> (if is_ok r
       then lookup_task d' = (lookup_task d)(tid := map_option
          (\<lambda>t. t\<lparr>task_graph := g, task_status := TaskInProgress, task_updated := db_now (tick d)\<rparr>) (lookup_task d tid))
       else db_tasks d' = db_tasks d)"
proof -
  let ?f = "\<lambda>t. t\<lparr>task_graph := g, task_status := TaskInProgress\<rparr>"
  let ?P = "\<lambda>t. task_id t = tid \<and> task_status t = TaskPending"
  have e: "update_tasks ''assigning task to graph'' tid ?P ?f d = (r, d')"
    using assms(2) by (simp add: assign_task_to_graph_def)
  have k: "keeps_task ?f" by simp
  note u = update_tasks_correct [of d ?f ?P tid, OF assms(1) k conjunct1 e]
  have "is_ok r \<longleftrightarrow> db_faults d (db_stmt d) = None
        \<and> (\<exists>t. lookup_task d tid = Some t \<and> task_status t = TaskPending)"
    using u(1) lookup_task_iff [OF assms(1)] by blast
  then show ?thesis using u(2) u(3) by (auto simp: fun_eq_iff)
qed

text \<open>
  Dispatching a task to a graph is guarded: the statement succeeds exactly when it runs and
  the task is pending, then only that task changes, to in progress on that graph; in every
  other case (missing, not pending, a failing statement) no task changes and an error is
  returned.
\<close>

theorem assign_task_to_graph_correct:
  assumes "db_ok d" "assign_task_to_graph tid g d = (r, d')"
  shows "(is_ok r \<longleftrightarrow> db_faults d (db_stmt d) = None
        \<and> (\<exists>t. lookup_task d tid = Some t \<and> task_status t = TaskPending))
    \<and> (if is_ok r
       then lookup_task d' = (lookup_task d)(tid := map_option
          (\<lambda>t. t\<lparr>task_graph := g, task_status := TaskInProgress, task_updated := db_now (tick d)\<rparr>) (lookup_task d tid))
       else db_tasks d' = db_tasks d)"
  by (rule assign_task_effect [OF assms])

text \<open>
  Retrying is guarded the same way by the failed status, and clears the stale results.
\<close>

theorem retry_task_row_correct:
  assumes "db_ok d" "retry_task_row tid g d = (r, d')"
  shows "(is_ok r \<longleftrightarrow> db_faults d (db_stmt d) = None
        \<and> (\<exists>t. lookup_task d tid = Some t \<and> task_status t = TaskFailed))
    \<and> (if is_ok r
       then (\<exists>t. lookup_task d' tid = Some t \<and> task_status t = TaskInProgress \<and> task_graph t = g
               \<and> task_summary t = [] \<and> task_result t = [] \<and> task_recommendations t = [])
            \<and> (\<forall>k. k \<noteq> tid \<longrightarrow> lookup_task d' k = lookup_task d k)
       else db_tasks d' = db_tasks d)"
proof -
  let ?f = "\<lambda>t. t\<lparr>task_graph := g, task_status := TaskInProgress, task_summary := [],
      task_result := [], task_recommendations := []\<rparr>"
  let ?P = "\<lambda>t. task_id t = tid \<and> task_status t = TaskFailed"
  have e: "update_tasks ''retrying task'' tid ?P ?f d = (r, d')"
    using assms(2) by (simp add: retry_task_row_def)
  have k: "keeps_task ?f" by simp
  note u = update_tasks_correct [of d ?f ?P tid, OF assms(1) k conjunct1 e]
  have ok: "is_ok r \<longleftrightarrow> db_faults d (db_stmt d) = None
        \<and> (\<exists>t. lookup_task d tid = Some t \<and> task_status t = TaskFailed)"
    using u(1) lookup_task_iff [OF assms(1)] by blast
  then show ?thesis using u(2) u(3) by auto
qed

text \<open>
  The ready tasks of a job are exactly its pending tasks all of whose recorded dependencies
  are completed, each once, in the order of their sort order and creation.
\<close>

theorem get_ready_tasks_correct:
  assumes "db_ok d" "get_ready_tasks jid d = (Inr ts, d')"
  shows "set ts = {t \<in> set (db_tasks d). task_job t = jid \<and> task_status t = TaskPending
           \<and> (\<forall>b. (task_id t, b) \<in> set (db_deps d) \<longrightarrow>
                (\<exists>dep. lookup_task d b = Some dep \<and> task_status dep = TaskCompleted))}
    \<and> distinct (map task_id ts)
    \<and> sorted (map (\<lambda>t. (task_order t, task_created t)) ts)"
proof -
  let ?sel = "filter (\<lambda>t. task_job t = jid \<and> task_status t = TaskPending
      \<and> \<not> has_open_dependency (tick d) (task_id t)) (db_tasks d)"
  have ts: "ts = in_task_order ?sel"
    using assms(2) unfolding get_ready_tasks_def by (elim sql_cases) auto
  have dep: "has_open_dependency (tick d) a \<longleftrightarrow>
      \<not> (\<forall>b. (a, b) \<in> set (db_deps d) \<longrightarrow> (\<exists>t. lookup_task d b = Some t \<and> task_status t = TaskCompleted))"
    for a
  proof -
    have "\<exists>t. lookup_task d b = Some t" if "(a, b) \<in> set (db_deps d)" for b
    proof -
      have "snd (a, b) \<in> snd ` set (db_deps d)" using that by (rule imageI)
      then have "b \<in> task_id ` set (db_tasks d)" using assms(1) by (auto simp: db_ok_def)
      then show ?thesis by (auto simp: lookup_task_iff [OF assms(1)])
    qed
    moreover have "has_open_dependency (tick d) a \<longleftrightarrow>
        (\<exists>b t. (a, b) \<in> set (db_deps d) \<and> lookup_task d b = Some t \<and> task_status t \<noteq> TaskCompleted)"
      by (auto simp: has_open_dependency_def lookup_task_iff [OF assms(1)])
    ultimately show ?thesis by fastforce
  qed
  have "distinct (map task_id ?sel)" using assms(1) by (simp add: db_ok_def distinct_map_filter)
  moreover have "distinct (map task_id ts) \<longleftrightarrow> distinct (map task_id ?sel)"
    unfolding ts in_task_order_def by (simp only: distinct_map set_sort distinct_sort)
  moreover have "sorted (map (\<lambda>t. (task_order t, task_created t)) ts)"
    unfolding ts in_task_order_def by (rule sorted_sort_key)
  ultimately show ?thesis
    unfolding ts in_task_order_def by (auto simp: dep)
qed

text \<open>
  After a successful recovery no session row is active and no task in progress; the tasks
  that were in progress are pending (not failed) again with their graph, the others are
  untouched, and a second recovery finds nothing to do.
\<close>

theorem reconcile_interrupted_correct:
  assumes "reconcile_interrupted d = (Inr (n, k), d')"
  shows "(\<forall>s\<in>set (db_sessions d'). sr_status s \<noteq> RowActive)
    \<and> (\<forall>t\<in>set (db_tasks d'). task_status t \<noteq> TaskInProgress)
    \<and> k = length (filter (\<lambda>t. task_status t = TaskInProgress) (db_tasks d))
    \<and> map (\<lambda>t. (task_id t, task_graph t,
             if task_status t = TaskInProgress then TaskPending else task_status t)) (db_tasks d)
        = map (\<lambda>t. (task_id t, task_graph t, task_status t)) (db_tasks d')
    \<and> (\<forall>n' k' d''. reconcile_interrupted d' = (Inr (n', k'), d'') \<longrightarrow>
          n' = 0 \<and> k' = 0 \<and> db_tasks d'' = db_tasks d' \<and> db_sessions d'' = db_sessions d')"
proof -
  obtain d1 where d1: "reconcile_sessions d = (Inr n, d1)" "reconcile_tasks d1 = (Inr k, d')"
    using assms by (auto simp: reconcile_interrupted_def split: prod.splits sum.splits)
  have s: "db_sessions d1 = update_rows (\<lambda>s. sr_status s = RowActive)
        (\<lambda>s. s\<lparr>sr_status := RowFailed, sr_ended := Some (db_now (tick d))\<rparr>) (db_sessions d)"
      "db_tasks d1 = db_tasks d"
    using d1(1) unfolding reconcile_sessions_def by (auto elim!: sql_cases)
  have t: "db_sessions d' = db_sessions d1"
      "db_tasks d' = update_rows (\<lambda>t. task_status t = TaskInProgress)
        (\<lambda>t. t\<lparr>task_status := TaskPending, task_summary := [], task_updated := db_now (tick d1)\<rparr>) (db_tasks d1)"
      "k = length (filter (\<lambda>t. task_status t = TaskInProgress) (db_tasks d1))"
    using d1(2) unfolding reconcile_tasks_def by (auto elim!: sql_cases)
  have a: "\<forall>s\<in>set (db_sessions d'). sr_status s \<noteq> RowActive"
    unfolding t(1) s(1) set_update_rows by auto
  have b: "\<forall>t\<in>set (db_tasks d'). task_status t \<noteq> TaskInProgress"
    unfolding t(2) set_update_rows by auto
  have "n' = 0 \<and> k' = 0 \<and> db_tasks d'' = db_tasks d' \<and> db_sessions d'' = db_sessions d'"
    if r: "reconcile_interrupted d' = (Inr (n', k'), d'')" for n' k' d''
  proof -
    obtain d2 where d2: "reconcile_sessions d' = (Inr n', d2)" "reconcile_tasks d2 = (Inr k', d'')"
      using r by (auto simp: reconcile_interrupted_def split: prod.splits sum.splits)
    have "n' = 0" "db_sessions d2 = db_sessions d'" "db_tasks d2 = db_tasks d'"
      using d2(1) a unfolding reconcile_sessions_def
      by (auto elim!: sql_cases simp: filter_empty_conv update_rows_none)
    moreover from this have "k' = 0" "db_sessions d'' = db_sessions d2" "db_tasks d'' = db_tasks d2"
      using d2(2) b unfolding reconcile_tasks_def
      by (auto elim!: sql_cases simp: filter_empty_conv update_rows_none)
    ultimately show ?thesis by simp
  qed
  moreover have "map (\<lambda>t. (task_id t, task_graph t,
             if task_status t = TaskInProgress then TaskPending else task_status t)) (db_tasks d)
        = map (\<lambda>t. (task_id t, task_graph t, task_status t)) (db_tasks d')"
    unfolding t(2) s(2) update_rows_def map_map by (rule map_cong) simp_all
  moreover have "k = length (filter (\<lambda>t. task_status t = TaskInProgress) (db_tasks d))"
    using t(3) s(2) by simp
  ultimately show ?thesis using a b by blast
qed

text \<open>
  The blocker history is final: once a blocker is resolved no later write changes its row,
  so the first disposition (answered, dismissed, cancelled) stands.
\<close>

theorem resolved_blockers_final:
  assumes "b \<in> set (db_blockers d)" "blk_resolved b \<noteq> None"
  shows "b \<in> set (db_blockers (run_steps store_step d ws))"
proof -
  have keep: "b \<in> set (update_rows P f rows)" if "b \<in> set rows" "\<not> P b"
    for P :: "blocker_record \<Rightarrow> bool" and f rows
    using that by (simp add: set_update_rows)
  have step: "b \<in> set (db_blockers (store_step d w))" if "b \<in> set (db_blockers d)" for d w
    using that assms(2)
    by (cases w) (auto simp: create_job_def update_job_def update_job_status_def create_task_def
      add_task_dependency_def report_progress_def create_feed_entry_def create_session_def
      reconcile_sessions_def reconcile_tasks_def create_blocker_def resolve_blocker_record_def
      sweep_unresolved_blockers_def task_update_ops update_tasks_def sql_def Let_def keep
      split: option.split)
  show ?thesis using assms(1) by (induction ws arbitrary: d) (auto intro: step)
qed

text \<open>
  The toolchain a task was decomposed for survives being stored on the task's metadata.
\<close>

theorem task_metadata_roundtrip: "parse_task_metadata (marshal_task_metadata toolchain) = toolchain"
proof (cases "toolchain = []")
  case True
  then show ?thesis by (simp add: parse_task_metadata_def marshal_task_metadata_def parse_json_def skip_ws_def)
next
  case False
  have "parse_json (encode (JObj [(''toolchain'', JStr toolchain)])) = Some (JObj [(''toolchain'', JStr toolchain)])"
    by (rule parse_encode) simp
  then show ?thesis
    using False by (simp add: parse_task_metadata_def marshal_task_metadata_def field_matches_def)
qed

section \<open>The statements on a concrete store\<close>

definition sample_job :: job where
  "sample_job = \<lparr>job_id = ''j1'', job_title = ''Build'', job_description = ''build it'', job_type = [],
     job_status = JobActive, job_workspace = ''/home/u/ws/j1'', job_created = 1, job_updated = 1,
     job_metadata = []\<rparr>"

definition sample_db :: db where
  "sample_db = \<lparr>db_jobs = [sample_job],
     db_tasks = [(new_task ''t1'' ''j1'' ''first'' TaskCompleted)\<lparr>task_graph := ''g''\<rparr>,
                 (new_task ''t2'' ''j1'' ''second'' TaskPending)\<lparr>task_graph := ''g'', task_order := 1\<rparr>,
                 (new_task ''t3'' ''j1'' ''third'' TaskFailed)\<lparr>task_graph := ''g'', task_order := 2\<rparr>],
     db_deps = [(''t2'', ''t1''), (''t3'', ''t1'')], db_feed = [], db_progress = [], db_sessions = [],
     db_blockers = [], db_clock = (\<lambda>n. 10 + n), db_stmt = 0, db_faults = (\<lambda>n. None)\<rparr>"

lemma sample_db_ok: "db_ok sample_db"
  by (simp add: db_ok_def sample_db_def sample_job_def new_task_def)


lemma assign_task_witness:
  "is_ok (fst (assign_task_to_graph ''t2'' ''g'' sample_db))
   \<and> \<not> is_ok (fst (assign_task_to_graph ''t1'' ''g'' sample_db))"
proof -
  have "db_faults sample_db (db_stmt sample_db) = None"
    "lookup_task sample_db ''t1'' = Some ((new_task ''t1'' ''j1'' ''first'' TaskCompleted)\<lparr>task_graph := ''g''\<rparr>)"
    "lookup_task sample_db ''t2''
      = Some ((new_task ''t2'' ''j1'' ''second'' TaskPending)\<lparr>task_graph := ''g'', task_order := 1\<rparr>)"
    by (simp_all add: sample_db_def lookup_task_def new_task_def)
  then show ?thesis
    using assign_task_to_graph_correct [OF sample_db_ok prod.collapse [symmetric], of "''t2''" "''g''"]
      assign_task_to_graph_correct [OF sample_db_ok prod.collapse [symmetric], of "''t1''" "''g''"]
    by (simp add: new_task_def)
qed

lemma retry_task_row_witness:
  "is_ok (fst (retry_task_row ''t3'' ''g2'' sample_db)) \<and>
   (\<exists>t. lookup_task (snd (retry_task_row ''t3'' ''g2'' sample_db)) ''t3'' = Some t \<and> task_graph t = ''g2'')"
proof -
  have "is_ok (fst (retry_task_row ''t3'' ''g2'' sample_db))"
    by (simp add: retry_task_row_def update_tasks_def sql_def sample_db_def check_affected_def new_task_def)
  then show ?thesis
    using retry_task_row_correct [OF sample_db_ok prod.collapse [symmetric], of "''t3''" "''g2''"] by auto
qed

lemma get_ready_tasks_witness:
  "\<exists>ts d'. get_ready_tasks ''j1'' sample_db = (Inr ts, d') \<and> task_id ` set ts = {''t2''}"
proof -
  obtain ts d' where r: "get_ready_tasks ''j1'' sample_db = (Inr ts, d')"
    unfolding get_ready_tasks_def sql_def Let_def by (simp add: sample_db_def)
  have "{t \<in> set (db_tasks sample_db). task_job t = ''j1'' \<and> task_status t = TaskPending
           \<and> (\<forall>b. (task_id t, b) \<in> set (db_deps sample_db) \<longrightarrow>
                (\<exists>dep. lookup_task sample_db b = Some dep \<and> task_status dep = TaskCompleted))}
      = {(new_task ''t2'' ''j1'' ''second'' TaskPending)\<lparr>task_graph := ''g'', task_order := 1\<rparr>}"
    by (auto simp: sample_db_def new_task_def lookup_task_def)
  then have "task_id ` set ts = {''t2''}"
    using get_ready_tasks_correct [OF sample_db_ok r] by (simp add: new_task_def)
  then show ?thesis using r by blast
qed

lemma reconcile_interrupted_witness:
  "\<exists>d'. reconcile_interrupted sample_db = (Inr (0, 0), d') \<and> (\<forall>t\<in>set (db_tasks d'). task_status t \<noteq> TaskInProgress)"
proof -
  have "fst (reconcile_interrupted sample_db) = Inr (0, 0)"
    by (simp add: reconcile_interrupted_def reconcile_sessions_def reconcile_tasks_def sql_def Let_def
      sample_db_def new_task_def)
  then obtain d' where r: "reconcile_interrupted sample_db = (Inr (0, 0), d')" by (metis prod.collapse)
  then show ?thesis using reconcile_interrupted_correct [OF r] by blast
qed

definition sample_blocker :: blocker_record where
  "sample_blocker = \<lparr>blk_request = ''ask-1'', blk_source = [], blk_job = [], blk_task = [],
     blk_questions = ''[]'', blk_created = 3, blk_resolved = Some 4, blk_disposition = ''answered'',
     blk_answer = ''yes''\<rparr>"

lemma resolved_blockers_witness:
  "sample_blocker \<in> set (db_blockers (run_steps store_step
     (sample_db\<lparr>db_blockers := [sample_blocker]\<rparr>) [WSweepBlockers, WResolveBlocker ''ask-1'' ''dismissed'' [] 9]))"
  by (rule resolved_blockers_final) (simp_all add: sample_blocker_def)

end
