(* ===== verification/World.thy ===== *)
theory World
  imports Store
begin

text \<open>
  The state the orchestration code works on: the store, the graph runs started in the
  background, the events queued for the operator and the service events broadcast; the actions
  on it (a result or an error text, and the new state); and the invariant of serial execution.
\<close>

section \<open>Decomposition graphs and siblings\<close>

definition graph_coarse_decompose :: string where
  "graph_coarse_decompose = ''coarse-decompose''"

definition graph_fine_decompose :: string where
  "graph_fine_decompose = ''fine-decompose''"

definition is_decomposition_graph :: "string \<Rightarrow> bool" where
  "is_decomposition_graph g \<longleftrightarrow> g = graph_coarse_decompose \<or> g = graph_fine_decompose"

definition sibling_titles :: "task list \<Rightarrow> string \<Rightarrow> string list" where
  "sibling_titles ts exclude =
     map task_title (filter (\<lambda>t. task_id t \<noteq> exclude \<and> \<not> is_decomposition_graph (task_graph t)) ts)"

definition format_sibling_titles :: "string list \<Rightarrow> string" where
  "format_sibling_titles titles =
     join_strings [CHR 0x0A] (map (\<lambda>t. ''- '' @ t) (filter (\<lambda>t. t \<noteq> []) (map trim_space titles)))"

definition em_dash :: string where "em_dash = [CHR 0xE2, CHR 0x80, CHR 0x94]"

definition no_siblings_placeholder :: string where
  "no_siblings_placeholder = ''(none '' @ em_dash @ '' this is the only task in this job)''"

definition siblings_artifact :: "string \<Rightarrow> string" where
  "siblings_artifact formatted =
     (if trim_space formatted = [] then no_siblings_placeholder else formatted)"

section \<open>State\<close>

record task_request =
  rq_job :: string
  rq_job_title :: string
  rq_job_description :: string
  rq_task :: string
  rq_title :: string
  rq_description :: string
  rq_graph :: string
  rq_toolchain :: string
  rq_siblings :: string
  rq_workspace :: string
  rq_provider :: string
  rq_model :: string

datatype broadcast =
    JobCreated string string string          \<comment> \<open>job, title, description\<close>
  | TaskCreated string string string string  \<comment> \<open>task, job, title, graph\<close>
  | TaskAssigned string string string string \<comment> \<open>task, job, graph, title\<close>

datatype op_event =
    EvUserMessage string string              \<comment> \<open>text, turn\<close>
  | EvTaskStarted string string string string     \<comment> \<open>task, job, graph, title\<close>
  | EvTaskCompleted string string string string string bool
      \<comment> \<open>task, job, graph, summary, recommendations, has next task\<close>
  | EvTaskFailed string string string string      \<comment> \<open>task, job, graph, error\<close>
  | EvProgressUpdate string string string
  | EvJobComplete string string string            \<comment> \<open>job, title, summary\<close>
  | EvNewTaskRequest string string string string  \<comment> \<open>job, graph, description, reason\<close>
  | EvUserResponse string string                  \<comment> \<open>text, request\<close>

record world =
  w_db :: db
  w_ids :: nat
  w_runs :: "task_request list"
  w_queue :: "op_event list"
  w_service_events :: "broadcast list"
  w_dirs :: "string list"

section \<open>Actions\<close>

type_synonym 'a act = "world \<Rightarrow> (string + 'a) \<times> world"

definition returnA :: "'a \<Rightarrow> 'a act" where
  "returnA x w = (Inr x, w)"

definition failA :: "string \<Rightarrow> 'a act" where
  "failA e w = (Inl e, w)"

definition bindA :: "'a act \<Rightarrow> ('a \<Rightarrow> 'b act) \<Rightarrow> 'b act" where
  "bindA m k w = (case m w of (Inl e, w') \<Rightarrow> (Inl e, w') | (Inr x, w') \<Rightarrow> k x w')"

text \<open>An early return with an error.\<close>

definition guardA :: "bool \<Rightarrow> string \<Rightarrow> 'a act \<Rightarrow> 'a act" where
  "guardA bad e m = (if bad then failA e else m)"

definition on_db :: "'a store_op \<Rightarrow> world \<Rightarrow> (db_error + 'a) \<times> world" where
  "on_db q w = (case q (w_db w) of (r, d) \<Rightarrow> (r, w\<lparr>w_db := d\<rparr>))"

text \<open>A store call whose error is wrapped with a context, one whose error is only logged.\<close>

definition dbA :: "string \<Rightarrow> 'a store_op \<Rightarrow> 'a act" where
  "dbA ctx q w =
     (case on_db q w of (Inl e, w') \<Rightarrow> (Inl (ctx @ '': '' @ db_error_text e), w') | (Inr x, w') \<Rightarrow> (Inr x, w'))"

definition logged :: "'a store_op \<Rightarrow> unit act" where
  "logged q w = (Inr (), snd (on_db q w))"

definition effectA :: "(world \<Rightarrow> world) \<Rightarrow> unit act" where
  "effectA f w = (Inr (), f w)"

definition spawn_run :: "task_request \<Rightarrow> world \<Rightarrow> world" where
  "spawn_run rq w = w\<lparr>w_runs := w_runs w @ [rq]\<rparr>"

definition send_event :: "op_event \<Rightarrow> world \<Rightarrow> world" where
  "send_event ev w = w\<lparr>w_queue := w_queue w @ [ev]\<rparr>"

section \<open>Serial execution\<close>

text \<open>The real (not decomposition) tasks of a job that are in progress.\<close>

definition is_running :: "string \<Rightarrow> task \<Rightarrow> bool" where
  "is_running jid t \<longleftrightarrow> task_job t = jid \<and> task_status t = TaskInProgress
     \<and> \<not> is_decomposition_graph (task_graph t)"

definition running :: "db \<Rightarrow> string \<Rightarrow> task list" where
  "running d jid = filter (is_running jid) (db_tasks d)"

definition serial :: "db \<Rightarrow> bool" where
  "serial d \<longleftrightarrow> (\<forall>jid. length (running d jid) \<le> 1)"

text \<open>The executable form looks at the jobs that have tasks only.\<close>

definition serial_check :: "db \<Rightarrow> bool" where
  "serial_check d \<longleftrightarrow> list_all (\<lambda>t. length (running d (task_job t)) \<le> 1) (db_tasks d)"

lemma serial_code [code]: "serial d = serial_check d"
proof
  assume "serial d"
  then show "serial_check d" by (simp add: serial_def serial_check_def list_all_iff)
next
  assume *: "serial_check d"
  have "length (running d jid) \<le> 1" for jid
  proof (cases "running d jid")
    case (Cons t ts)
    then have "t \<in> set (running d jid)" by simp
    then have "t \<in> set (db_tasks d)" "task_job t = jid" by (auto simp: running_def is_running_def)
    then show ?thesis using * by (auto simp: serial_check_def list_all_iff)
  qed simp
  then show "serial d" by (simp add: serial_def)
qed

definition world_ok :: "world \<Rightarrow> bool" where
  "world_ok w \<longleftrightarrow> db_ok (w_db w) \<and> serial (w_db w)"

lemma serial_tick [simp]: "serial (tick d) = serial d"
  by (simp add: serial_def running_def)

text \<open>Fewer running tasks keep a store serial.\<close>

lemma serial_mono:
  assumes "serial d" "\<And>jid. length (running d' jid) \<le> length (running d jid)"
  shows "serial d'"
  using assms unfolding serial_def by (meson le_trans)

lemma running_update_le:
  assumes "\<And>t. t \<in> set rows \<Longrightarrow> P t \<Longrightarrow> is_running jid (f t) \<Longrightarrow> is_running jid t"
  shows "length (filter (is_running jid) (update_rows P f rows)) \<le> length (filter (is_running jid) rows)"
  using assms
proof (induction rows)
  case (Cons r rows)
  then show ?case using Cons.prems [of r] by (auto simp: update_rows_def)
qed (simp add: update_rows_def)

lemma serial_update:
  assumes "serial d" "\<And>jid t. P t \<Longrightarrow> is_running jid (f t) \<Longrightarrow> is_running jid t"
  shows "serial (snd (update_tasks what tid P f d))"
proof (rule serial_mono [OF assms(1)])
  fix jid
  obtain r d' where e: "update_tasks what tid P f d = (r, d')" by fastforce
  have "is_running jid (f t) \<Longrightarrow> is_running jid t" if "P t" for t by (rule assms(2) [OF that])
  then have le: "length (filter (is_running jid)
      (update_rows P (\<lambda>t. (f t)\<lparr>task_updated := db_now (tick d)\<rparr>) (db_tasks d)))
    \<le> length (filter (is_running jid) (db_tasks d))"
    by (intro running_update_le) (simp add: is_running_def)
  show "length (running (snd (update_tasks what tid P f d)) jid) \<le> length (running d jid)"
    using update_tasks_effect [OF e] le by (auto simp: e running_def)
qed

text \<open>The one task that may start running, when no other runs.\<close>

lemma serial_start:
  assumes "db_ok d" "serial d"
    and "\<And>t. t \<in> set (db_tasks d) \<Longrightarrow> P t \<Longrightarrow> task_id t = tid \<and> task_job t = jid"
    and "\<And>t. t \<in> set (db_tasks d) \<Longrightarrow> is_running jid t \<Longrightarrow> task_id t = tid"
    and "keeps_task f"
  shows "serial (snd (update_tasks what tid P f d))"
  unfolding serial_def
proof
  fix k
  let ?f = "\<lambda>t. (f t)\<lparr>task_updated := db_now (tick d)\<rparr>"
  obtain r d' where e: "update_tasks what tid P f d = (r, d')" by fastforce
  have "length (filter (is_running k) (update_rows P ?f (db_tasks d))) \<le> 1"
  proof (cases "k = jid")
    case True
    let ?xs = "filter (is_running k) (update_rows P ?f (db_tasks d))"
    have "distinct (map task_id (db_tasks d))" using assms(1) by (simp add: db_ok_def)
    moreover have "map task_id (update_rows P ?f (db_tasks d)) = map task_id (db_tasks d)"
      using assms(5) by (intro update_rows_fields) (simp add: keeps_task_def)
    ultimately have "distinct (map task_id ?xs)" by (simp add: distinct_map_filter)
    moreover have "task_id x = tid" if "x \<in> set ?xs" for x
      using that assms(3,4,5) True by (auto simp: set_update_rows keeps_task_def)
    then have "set (map task_id ?xs) \<subseteq> {tid}" by auto
    ultimately have "length (map task_id ?xs) \<le> card {tid}"
      by (metis card_mono distinct_card finite.emptyI finite.insertI)
    then show ?thesis by simp
  next
    case False
    have "length (filter (is_running k) (update_rows P ?f (db_tasks d)))
        \<le> length (filter (is_running k) (db_tasks d))"
      using assms(3,5) False by (intro running_update_le) (auto simp: is_running_def keeps_task_def)
    then show ?thesis using assms(2) by (auto simp: serial_def running_def intro: le_trans)
  qed
  then show "length (running (snd (update_tasks what tid P f d)) k) \<le> 1"
    using update_tasks_effect [OF e] assms(2) by (auto simp: e running_def serial_def)
qed

section \<open>Actions keep the invariant\<close>

text \<open>
  \<open>okA m w\<close>: running \<open>m\<close> in \<open>w\<close> ends in a world that is in order. The rules follow the
  structure of an action, so that a tool handler is proved by applying them to its text.
\<close>

definition okA :: "'a act \<Rightarrow> world \<Rightarrow> bool" where
  "okA m w \<longleftrightarrow> world_ok (snd (m w))"

named_theorems ok_rules \<open>rules that follow the structure of an action\<close>

lemma okA_return [ok_rules]: "world_ok w \<Longrightarrow> okA (returnA x) w"
  by (simp add: okA_def returnA_def)

lemma okA_fail [ok_rules]: "world_ok w \<Longrightarrow> okA (failA e) w"
  by (simp add: okA_def failA_def)

lemma okA_guard [ok_rules]: "world_ok w \<Longrightarrow> (\<not> bad \<Longrightarrow> okA m w) \<Longrightarrow> okA (guardA bad e m) w"
  by (simp add: guardA_def okA_fail)

lemma okA_bind:
  "okA m w \<Longrightarrow> (\<And>x w'. m w = (Inr x, w') \<Longrightarrow> world_ok w' \<Longrightarrow> okA (k x) w') \<Longrightarrow> okA (bindA m k) w"
  by (auto simp: okA_def bindA_def split: prod.split sum.split)

text \<open>Store calls that keep a store in order, whatever their result.\<close>

definition safe_query :: "'a store_op \<Rightarrow> bool" where
  "safe_query q \<longleftrightarrow> (\<forall>d. db_ok d \<and> serial d \<longrightarrow> db_ok (snd (q d)) \<and> serial (snd (q d)))"

lemma dbA_snd [simp]: "snd (dbA ctx q w) = w\<lparr>w_db := snd (q (w_db w))\<rparr>"
  by (simp add: dbA_def on_db_def split: prod.split sum.split)

lemma logged_snd [simp]: "snd (logged q w) = w\<lparr>w_db := snd (q (w_db w))\<rparr>"
  by (simp add: logged_def on_db_def split: prod.split)

lemma okA_db: "safe_query q \<Longrightarrow> world_ok w \<Longrightarrow> okA (dbA ctx q) w"
  by (simp add: okA_def world_ok_def safe_query_def)

lemma okA_logged: "safe_query q \<Longrightarrow> world_ok w \<Longrightarrow> okA (logged q) w"
  by (simp add: okA_def world_ok_def safe_query_def)

lemma okA_effect: "world_ok (f w) \<Longrightarrow> okA (effectA f) w"
  by (simp add: okA_def effectA_def)

lemma world_ok_same_db [simp]:
  "world_ok (spawn_run rq w) = world_ok w" "world_ok (send_event ev w) = world_ok w"
  "world_ok (w\<lparr>w_ids := n\<rparr>) = world_ok w" "world_ok (w\<lparr>w_dirs := ds\<rparr>) = world_ok w"
  "world_ok (w\<lparr>w_service_events := es\<rparr>) = world_ok w"
  by (simp_all add: world_ok_def spawn_run_def send_event_def)

section \<open>Which store calls are safe\<close>

lemma safe_sql:
  assumes "\<And>d. db_ok d \<Longrightarrow> serial d \<Longrightarrow> db_ok (snd (body (tick d))) \<and> serial (snd (body (tick d)))"
  shows "safe_query (sql what body)"
  using assms by (simp add: safe_query_def sql_def Let_def tick_def [symmetric] split: option.split)

lemma safe_reads [ok_rules]:
  "safe_query (get_job jid)" "safe_query (get_task tid)" "safe_query (list_tasks_for_job jid)"
  "safe_query (get_ready_tasks jid)" "safe_query (list_task_dependents tid)"
  "safe_query (list_jobs flt)" "safe_query list_all_jobs" "safe_query (get_recent_progress jid n)"
  "safe_query (list_recent_feed n)" "safe_query list_pending_blockers" "safe_query (list_blocker_history n)"
  by (auto simp: get_job_def get_task_def list_tasks_for_job_def get_ready_tasks_def
      list_task_dependents_def list_jobs_def list_all_jobs_def get_recent_progress_def
      list_recent_feed_def list_pending_blockers_def list_blocker_history_def intro!: safe_sql)

text \<open>Statements that leave the tasks alone.\<close>

lemma safe_if_tasks_kept:
  assumes "\<And>d. db_ok d \<Longrightarrow> db_ok (snd (q d))" "\<And>d. db_tasks (snd (q d)) = db_tasks d"
  shows "safe_query q"
  using assms by (simp add: safe_query_def serial_def running_def)

lemma tasks_kept [simp]:
  "db_tasks (snd (create_job j d)) = db_tasks d"
  "db_tasks (snd (update_job i u d)) = db_tasks d"
  "db_tasks (snd (update_job_status i s d)) = db_tasks d"
  "db_tasks (snd (add_task_dependency a b d)) = db_tasks d"
  "db_tasks (snd (report_progress r d)) = db_tasks d"
  "db_tasks (snd (create_feed_entry k c i d)) = db_tasks d"
  "db_tasks (snd (create_session sr d)) = db_tasks d"
  "db_tasks (snd (create_blocker bl d)) = db_tasks d"
  "db_tasks (snd (resolve_blocker_record i x y t d)) = db_tasks d"
  by (simp_all add: create_job_def update_job_def update_job_status_def add_task_dependency_def
      report_progress_def create_feed_entry_def create_session_def create_blocker_def
      resolve_blocker_record_def sql_def Let_def split: option.split)

lemma safe_writes [ok_rules]:
  "safe_query (create_job j)" "safe_query (update_job i u)" "safe_query (update_job_status i s)"
  "safe_query (add_task_dependency a b)" "safe_query (report_progress r)"
  "safe_query (create_feed_entry k c i)" "safe_query (create_session sr)"
  "safe_query (create_blocker bl)" "safe_query (resolve_blocker_record i x y tm)"
  by (auto intro!: safe_if_tasks_kept inv_intros)

text \<open>Statements on the tasks that never start one.\<close>

lemma safe_task_updates [ok_rules]:
  "st \<noteq> TaskInProgress \<Longrightarrow> safe_query (update_task_status tid st m)"
  "safe_query (update_task_result tid r m)"
  "safe_query (pre_assign_task_graph tid g)"
  "safe_query (set_task_metadata tid m)"
  by (auto simp: safe_query_def task_update_ops is_running_def intro!: db_ok_update_tasks serial_update)

text \<open>New tasks are pending, or decomposition tasks.\<close>

lemma safe_create_task [ok_rules]:
  assumes "task_status t \<noteq> TaskInProgress \<or> is_decomposition_graph (task_graph t)"
  shows "safe_query (create_task t)"
proof -
  have "serial (snd (create_task t d))" if "serial d" for d
    using that assms
    by (auto simp: create_task_def sql_def Let_def serial_def running_def is_running_def split: option.split)
  then show ?thesis by (simp add: safe_query_def inv_intros)
qed

lemma safe_reconcile [ok_rules]: "safe_query reconcile_interrupted"
proof -
  have s: "safe_query reconcile_sessions"
    by (rule safe_if_tasks_kept) (auto simp: inv_intros, simp add: reconcile_sessions_def sql_def Let_def split: option.split)
  have "serial (snd (reconcile_tasks d))" if "serial d" for d
  proof (rule serial_mono [OF that])
    fix jid
    have "length (filter (is_running jid) (update_rows (\<lambda>t. task_status t = TaskInProgress)
        (\<lambda>t. t\<lparr>task_status := TaskPending, task_summary := [], task_updated := n\<rparr>) (db_tasks d)))
      \<le> length (filter (is_running jid) (db_tasks d))" for n
      by (rule running_update_le) (simp add: is_running_def)
    then show "length (running (snd (reconcile_tasks d)) jid) \<le> length (running d jid)"
      unfolding reconcile_tasks_def sql_def Let_def
      by (simp add: running_def split: option.split)
  qed
  then have t: "safe_query reconcile_tasks" by (simp add: safe_query_def inv_intros)
  show ?thesis unfolding safe_query_def
  proof (intro allI impI)
    fix d
    assume d: "db_ok d \<and> serial d"
    show "db_ok (snd (reconcile_interrupted d)) \<and> serial (snd (reconcile_interrupted d))"
      using s t d unfolding reconcile_interrupted_def safe_query_def
      by (fastforce split: prod.split sum.split)
  qed
qed

end
