(* ===== verification/Decompose.thy ===== *)
theory Decompose
  imports World
begin

text \<open>
  The decomposition service: \<open>internal/service/decompose.go\<close> and the broadcasts of
  \<open>internal/service/local_broadcast_jobs.go\<close> that drive it. New jobs start a coarse
  decomposition, tasks without a graph a fine decomposition; each is a bootstrap task run on a
  system graph whose output is turned into tasks, a graph assignment, or a verdict. Functions
  without a result are actions whose error is the text logged at their early return.
\<close>

section \<open>More actions\<close>

definition tryA :: "'a store_op \<Rightarrow> (db_error + 'a) act" where
  "tryA q w = (case on_db q w of (r, w') \<Rightarrow> (Inr r, w'))"

definition ignoreA :: "'a act \<Rightarrow> unit act" where
  "ignoreA m w = (Inr (), snd (m w))"

fun eachA :: "('a \<Rightarrow> unit act) \<Rightarrow> 'a list \<Rightarrow> unit act" where
  "eachA f [] = returnA ()"
| "eachA f (x # xs) = bindA (ignoreA (f x)) (\<lambda>_. eachA f xs)"

lemma tryA_snd [simp]: "snd (tryA q w) = w\<lparr>w_db := snd (q (w_db w))\<rparr>"
  by (simp add: tryA_def on_db_def split: prod.split)

lemma okA_try [ok_rules]: "safe_query q \<Longrightarrow> world_ok w \<Longrightarrow> okA (tryA q) w"
  by (simp add: okA_def world_ok_def safe_query_def)

lemma okA_if [ok_rules]:
  "(b \<Longrightarrow> okA m w) \<Longrightarrow> (\<not> b \<Longrightarrow> okA n w) \<Longrightarrow> okA (if b then m else n) w"
  by simp

lemma okA_ignore [ok_rules]: "okA m w \<Longrightarrow> okA (ignoreA m) w"
  by (simp add: okA_def ignoreA_def)

lemma okA_each: "(\<And>x w. x \<in> set xs \<Longrightarrow> world_ok w \<Longrightarrow> okA (f x) w) \<Longrightarrow> world_ok w \<Longrightarrow> okA (eachA f xs) w"
  by (induction xs arbitrary: w) (auto intro!: ok_rules okA_bind)

section \<open>The output of a decomposition graph\<close>

record decomposed_task =
  dt_title :: string
  dt_description :: string
  dt_depends :: "int list"

record decomposition_result =
  dr_tasks :: "decomposed_task list"
  dr_graph :: string
  dr_toolchain :: string
  dr_rejected :: bool
  dr_no_graph :: bool
  dr_reason :: string

definition field_values :: "string \<Rightarrow> (string \<times> json) list \<Rightarrow> json list" where
  "field_values name ms = map snd (filter (\<lambda>(k, v). field_matches name k) ms)"

definition dec_string :: "string \<Rightarrow> (string \<times> json) list \<Rightarrow> string option" where
  "dec_string name ms =
     (if list_all string_or_null (field_values name ms) then Some (string_field name ms []) else None)"

fun dec_bools :: "bool \<Rightarrow> json list \<Rightarrow> bool option" where
  "dec_bools b [] = Some b"
| "dec_bools b (JBool c # vs) = dec_bools c vs"
| "dec_bools b (JNull # vs) = dec_bools b vs"
| "dec_bools b (v # vs) = None"

fun digits_value :: "nat \<Rightarrow> string \<Rightarrow> nat option" where
  "digits_value acc [] = Some acc"
| "digits_value acc (c # cs) =
     (if is_digit c then digits_value (acc * 10 + (of_char c - 48)) cs else None)"

text \<open>A JSON number as a Go \<open>int\<close>: no fraction, no exponent, 64 bits.\<close>

definition dec_int :: "json \<Rightarrow> int option" where
  "dec_int v =
     (case v of
        JNull \<Rightarrow> Some 0
      | JNum n \<Rightarrow>
          (case (case n of c # cs \<Rightarrow> if c = CHR ''-'' then map_option (\<lambda>k. - int k) (digits_value 0 cs)
                            else map_option int (digits_value 0 n) | [] \<Rightarrow> None) of
             Some i \<Rightarrow> if - (2 ^ 63) \<le> i \<and> i < 2 ^ 63 then Some i else None
           | None \<Rightarrow> None)
      | _ \<Rightarrow> None)"

definition dec_list :: "(json \<Rightarrow> 'a option) \<Rightarrow> json list \<Rightarrow> 'a list option" where
  "dec_list f vs =
     (case vs of
        [] \<Rightarrow> Some []
      | _ \<Rightarrow> (case last vs of
                JNull \<Rightarrow> Some []
              | JArr js \<Rightarrow> those (map f js)
              | _ \<Rightarrow> None))"

definition dec_task :: "json \<Rightarrow> decomposed_task option" where
  "dec_task v =
     (case v of
        JNull \<Rightarrow> Some \<lparr>dt_title = [], dt_description = [], dt_depends = []\<rparr>
      | JObj ms \<Rightarrow>
          (case (dec_string ''title'' ms, dec_string ''description'' ms,
                 dec_list dec_int (field_values ''depends_on'' ms)) of
             (Some t, Some d, Some ds) \<Rightarrow> Some \<lparr>dt_title = t, dt_description = d, dt_depends = ds\<rparr>
           | _ \<Rightarrow> None)
      | _ \<Rightarrow> None)"

definition empty_result :: decomposition_result where
  "empty_result = \<lparr>dr_tasks = [], dr_graph = [], dr_toolchain = [], dr_rejected = False,
     dr_no_graph = False, dr_reason = []\<rparr>"

definition decode_result :: "string \<Rightarrow> decomposition_result option" where
  "decode_result output =
     (if output = [] then Some empty_result
      else case parse_json output of
        Some JNull \<Rightarrow> Some empty_result
      | Some (JObj ms) \<Rightarrow>
          (case (dec_list dec_task (field_values ''tasks'' ms), dec_string ''graph_id'' ms,
                 dec_string ''toolchain'' ms) of
             (Some ts, Some g, Some tc) \<Rightarrow>
               (case (dec_bools False (field_values ''rejected'' ms),
                      dec_bools False (field_values ''no_graph'' ms), dec_string ''reason'' ms) of
                  (Some rj, Some ng, Some rs) \<Rightarrow>
                    Some \<lparr>dr_tasks = ts, dr_graph = g, dr_toolchain = tc, dr_rejected = rj,
                          dr_no_graph = ng, dr_reason = rs\<rparr>
                | _ \<Rightarrow> None)
           | _ \<Rightarrow> None)
      | _ \<Rightarrow> None)"

section \<open>Starting a decomposition\<close>

text \<open>
  What the service is configured with: a graph executor, the default provider and model, the
  ids \<open>newTaskID\<close> produces, whether an operator is attached.
\<close>

record service_env =
  sv_executor :: bool
  sv_provider :: string
  sv_model :: string
  sv_task_id :: "nat \<Rightarrow> string"
  sv_operator :: bool

definition new_task_id :: "service_env \<Rightarrow> string act" where
  "new_task_id sv w = (Inr (sv_task_id sv (w_ids w)), w\<lparr>w_ids := Suc (w_ids w)\<rparr>)"

definition max_decompose_depth :: int where "max_decompose_depth = 3"

definition decompose_metadata :: "string \<Rightarrow> string \<Rightarrow> string" where
  "decompose_metadata jid parent =
     encode (JObj ((if jid = [] then [] else [(''decomposes_job'', JStr jid)])
       @ (if parent = [] then [] else [(''decomposes_parent_id'', JStr parent)])))"

text \<open>The request for a run of \<open>graph\<close> on a task of the job; \<open>ts\<close> are the job's tasks.\<close>

definition request_for ::
  "job \<Rightarrow> task \<Rightarrow> string \<Rightarrow> string \<Rightarrow> task list \<Rightarrow> string \<Rightarrow> string \<Rightarrow> task_request" where
  "request_for j t graph toolchain ts prov model =
     \<lparr>rq_job = task_job t, rq_job_title = job_title j, rq_job_description = job_description j,
      rq_task = task_id t, rq_title = task_title t, rq_description = task_description t,
      rq_graph = graph, rq_toolchain = toolchain,
      rq_siblings = format_sibling_titles (sibling_titles ts (task_id t)),
      rq_workspace = job_workspace j, rq_provider = prov, rq_model = model\<rparr>"

definition dispatch_bootstrap ::
  "service_env \<Rightarrow> task \<Rightarrow> job \<Rightarrow> string \<Rightarrow> string \<Rightarrow> string \<Rightarrow> unit act" where
  "dispatch_bootstrap sv boot j title descr subject =
     bindA (if subject = [] then returnA []
            else bindA (tryA (list_tasks_for_job (task_job boot)))
              (\<lambda>r. returnA (case r of Inl e \<Rightarrow> []
                 | Inr ts \<Rightarrow> format_sibling_titles (sibling_titles ts subject))))
       (\<lambda>siblings. effectA (spawn_run
          \<lparr>rq_job = task_job boot, rq_job_title = job_title j, rq_job_description = job_description j,
           rq_task = task_id boot, rq_title = title, rq_description = descr,
           rq_graph = task_graph boot, rq_toolchain = [], rq_siblings = siblings,
           rq_workspace = job_workspace j, rq_provider = sv_provider sv, rq_model = sv_model sv\<rparr>))"

definition dispatch_coarse_decompose :: "service_env \<Rightarrow> string \<Rightarrow> string \<Rightarrow> string \<Rightarrow> unit act" where
  "dispatch_coarse_decompose sv jid title descr =
     (if \<not> sv_executor sv then returnA ()
      else bindA (new_task_id sv) (\<lambda>tid.
        let boot = (new_task tid jid (''Decompose: '' @ title) TaskInProgress)
              \<lparr>task_graph := graph_coarse_decompose, task_metadata := decompose_metadata jid []\<rparr>
        in bindA (dbA ''failed to create coarse-decompose bootstrap task'' (create_task boot)) (\<lambda>_.
           bindA (dbA ''failed to fetch job for coarse-decompose dispatch'' (get_job jid)) (\<lambda>j.
           dispatch_bootstrap sv boot j title descr []))))"

definition dispatch_fine_decompose :: "service_env \<Rightarrow> task \<Rightarrow> job \<Rightarrow> unit act" where
  "dispatch_fine_decompose sv parent j =
     (if \<not> sv_executor sv then returnA ()
      else if max_decompose_depth \<le> task_depth parent then returnA ()
      else bindA (new_task_id sv) (\<lambda>tid.
        let boot = (new_task tid (task_job parent) (''Pick graph: '' @ task_title parent) TaskInProgress)
              \<lparr>task_graph := graph_fine_decompose, task_metadata := decompose_metadata [] (task_id parent),
               task_depth := task_depth parent\<rparr>
        in bindA (dbA ''failed to create fine-decompose bootstrap task'' (create_task boot)) (\<lambda>_.
           dispatch_bootstrap sv boot j (task_title parent) (task_description parent) (task_id parent))))"

section \<open>The broadcasts\<close>

text \<open>When the readiness query fails the task is taken to be ready.\<close>

definition task_is_ready :: "task \<Rightarrow> bool act" where
  "task_is_ready t =
     bindA (tryA (get_ready_tasks (task_job t)))
       (\<lambda>r. returnA (case r of Inl e \<Rightarrow> True | Inr ts \<Rightarrow> task_id t \<in> task_id ` set ts))"

definition dispatch_fine_for_task :: "service_env \<Rightarrow> string \<Rightarrow> unit act" where
  "dispatch_fine_for_task sv tid =
     bindA (dbA ''fine-decompose lookup failed; task missing'' (get_task tid)) (\<lambda>t.
     bindA (task_is_ready t) (\<lambda>ready.
       if \<not> ready then returnA ()
       else bindA (dbA ''fine-decompose lookup failed; job missing'' (get_job (task_job t))) (\<lambda>j.
         dispatch_fine_decompose sv t j)))"

definition dispatch_fine_for_ready :: "service_env \<Rightarrow> string \<Rightarrow> unit act" where
  "dispatch_fine_for_ready sv jid =
     bindA (dbA ''failed to list ready tasks after completion'' (get_ready_tasks jid)) (\<lambda>ts.
       eachA (\<lambda>t. if task_graph t \<noteq> [] then returnA () else dispatch_fine_for_task sv (task_id t)) ts)"

definition note_event :: "broadcast \<Rightarrow> world \<Rightarrow> world" where
  "note_event b w = w\<lparr>w_service_events := w_service_events w @ [b]\<rparr>"

text \<open>The three broadcasts of \<open>SystemEventBroadcaster\<close> as the service implements them.\<close>

fun service_broadcast :: "service_env \<Rightarrow> broadcast \<Rightarrow> world \<Rightarrow> world" where
  "service_broadcast sv (JobCreated jid title descr) w =
     (let w' = note_event (JobCreated jid title descr) w
      in if trim_space descr \<noteq> [] then snd (dispatch_coarse_decompose sv jid title descr w') else w')"
| "service_broadcast sv (TaskCreated tid jid title graph) w =
     (let w' = note_event (TaskCreated tid jid title graph) w
      in if graph = [] then snd (dispatch_fine_for_task sv tid w') else w')"
| "service_broadcast sv (TaskAssigned tid jid graph title) w =
     note_event (TaskAssigned tid jid graph title) w"

section \<open>Applying a result\<close>

text \<open>
  The tasks of a result are created first (a failed creation leaves an empty id), then their
  dependencies, then they are announced.
\<close>

fun create_tasks :: "service_env \<Rightarrow> (nat \<Rightarrow> decomposed_task \<Rightarrow> string \<Rightarrow> task) \<Rightarrow> nat
    \<Rightarrow> decomposed_task list \<Rightarrow> string list act" where
  "create_tasks sv mk i [] = returnA []"
| "create_tasks sv mk i (t # ts) =
     bindA (new_task_id sv) (\<lambda>tid.
     bindA (tryA (create_task (mk i t tid))) (\<lambda>r.
     bindA (create_tasks sv mk (Suc i) ts) (\<lambda>ids.
       returnA ((case r of Inl e \<Rightarrow> [] | Inr u \<Rightarrow> tid) # ids))))"

definition wire_dependencies :: "string list \<Rightarrow> (decomposed_task \<times> string) list \<Rightarrow> unit act" where
  "wire_dependencies ids =
     eachA (\<lambda>(t, tid). if tid = [] then returnA ()
       else eachA (\<lambda>k. if k < 0 \<or> int (length ids) \<le> k \<or> ids ! nat k = [] then returnA ()
                       else logged (add_task_dependency tid (ids ! nat k))) (dt_depends t))"

definition announce_tasks :: "service_env \<Rightarrow> string \<Rightarrow> (decomposed_task \<times> string) list \<Rightarrow> unit act" where
  "announce_tasks sv jid =
     eachA (\<lambda>(t, tid). if tid = [] then returnA ()
       else effectA (service_broadcast sv (TaskCreated tid jid (dt_title t) [])))"

definition apply_coarse_result :: "service_env \<Rightarrow> string \<Rightarrow> decomposition_result \<Rightarrow> unit act" where
  "apply_coarse_result sv jid res =
     (if jid = [] then failA ''coarse-decompose completed without a job reference''
      else if dr_tasks res = [] then failA ''coarse-decompose produced no tasks''
      else bindA (create_tasks sv (\<lambda>i t tid. (new_task tid jid (dt_title t) TaskPending)
             \<lparr>task_description := dt_description t, task_summary := dt_description t,
              task_order := int i\<rparr>) 0 (dr_tasks res)) (\<lambda>ids.
           bindA (wire_dependencies ids (zip (dr_tasks res) ids)) (\<lambda>_.
           announce_tasks sv jid (zip (dr_tasks res) ids))))"

definition persist_toolchain :: "string \<Rightarrow> string \<Rightarrow> unit act" where
  "persist_toolchain tid toolchain =
     (if toolchain = [] then returnA ()
      else logged (set_task_metadata tid (marshal_task_metadata toolchain)))"

definition assign_graph_to_parent :: "service_env \<Rightarrow> task \<Rightarrow> string \<Rightarrow> string \<Rightarrow> unit act" where
  "assign_graph_to_parent sv parent graph toolchain =
     bindA (dbA ''failed to fetch job for graph assignment'' (get_job (task_job parent))) (\<lambda>j.
     bindA (dbA ''failed to list sibling tasks'' (list_tasks_for_job (task_job parent))) (\<lambda>ts.
       if \<exists>t\<in>set ts. task_id t \<noteq> task_id parent \<and> task_status t = TaskInProgress
            \<and> \<not> is_decomposition_graph (task_graph t)
       then bindA (dbA ''pre-assign failed'' (pre_assign_task_graph (task_id parent) graph)) (\<lambda>_.
            bindA (persist_toolchain (task_id parent) toolchain) (\<lambda>_.
            effectA (service_broadcast sv (TaskAssigned (task_id parent) (task_job parent) graph (task_title parent)))))
       else bindA (dbA ''assign-to-graph failed'' (assign_task_to_graph (task_id parent) graph)) (\<lambda>_.
            bindA (persist_toolchain (task_id parent) toolchain) (\<lambda>_.
            bindA (effectA (spawn_run (request_for j parent graph toolchain ts (sv_provider sv) (sv_model sv)))) (\<lambda>_.
            effectA (service_broadcast sv (TaskAssigned (task_id parent) (task_job parent) graph (task_title parent))))))))"

definition warning_sign :: string where
  "warning_sign = [CHR 0xE2, CHR 0x9A, CHR 0xA0, CHR 0xEF, CHR 0xB8, CHR 0x8F]"

definition handle_no_graph_fit :: "task \<Rightarrow> string \<Rightarrow> unit act" where
  "handle_no_graph_fit parent reason0 =
     (let reason = (if reason0 = [] then ''no installed graph fits this kind of work'' else reason0);
          summary = ''No installed graph fits this task: '' @ reason
            @ ''. Install or define a graph for this kind of work, or rescope the job.''
      in bindA (dbA ''failed to mark no-graph task failed''
            (update_task_status (task_id parent) TaskFailed summary)) (\<lambda>_.
         logged (create_feed_entry FeedSystemEvent
           (warning_sign @ '' No graph fits task '' @ fmt_q (task_title parent) @ '' '' @ em_dash @ '' '' @ reason)
           (task_job parent))))"

definition replace_parent :: "service_env \<Rightarrow> task \<Rightarrow> decomposition_result \<Rightarrow> unit act" where
  "replace_parent sv parent res =
     bindA (dbA ''failed to mark parent as split'' (update_task_status (task_id parent) TaskCompleted
        (''Split into '' @ fmt_int (int (length (dr_tasks res))) @ '' subtasks: '' @ dr_reason res))) (\<lambda>_.
     bindA (create_tasks sv (\<lambda>i t tid. (new_task tid (task_job parent) (dt_title t) TaskPending)
        \<lparr>task_description := dt_description t, task_summary := dt_description t,
         task_parent := task_id parent, task_order := task_order parent * 100 + int i,
         task_depth := task_depth parent + 1\<rparr>) 0 (dr_tasks res)) (\<lambda>ids.
     bindA (wire_dependencies ids (zip (dr_tasks res) ids)) (\<lambda>_.
       announce_tasks sv (task_job parent) (zip (dr_tasks res) ids))))"

definition apply_fine_result :: "service_env \<Rightarrow> string \<Rightarrow> decomposition_result \<Rightarrow> unit act" where
  "apply_fine_result sv parent_id res =
     (if parent_id = [] then failA ''fine-decompose completed without a parent reference''
      else bindA (dbA ''fine-decompose parent task missing on completion'' (get_task parent_id)) (\<lambda>parent.
        if dr_graph res \<noteq> [] then assign_graph_to_parent sv parent (dr_graph res) (dr_toolchain res)
        else if dr_no_graph res then handle_no_graph_fit parent (dr_reason res)
        else if dr_rejected res \<and> dr_tasks res \<noteq> [] then replace_parent sv parent res
        else failA ''fine-decompose produced neither graph_id nor subtasks''))"

definition consume_decomposition_output :: "service_env \<Rightarrow> string \<Rightarrow> string \<Rightarrow> string \<Rightarrow> unit act" where
  "consume_decomposition_output sv graph boot_id output =
     bindA (dbA ''decomposition bootstrap task missing on completion'' (get_task boot_id)) (\<lambda>boot.
       case (if task_metadata boot = [] then Some (\<lambda>n. [])
             else unmarshal_strings [''decomposes_job'', ''decomposes_parent_id''] (task_metadata boot)) of
         None \<Rightarrow> failA ''malformed decomposition bootstrap metadata''
       | Some meta \<Rightarrow>
           (case decode_result output of
              None \<Rightarrow> failA ''malformed decomposition-result output''
            | Some res \<Rightarrow>
                if graph = graph_coarse_decompose then apply_coarse_result sv (meta ''decomposes_job'') res
                else if graph = graph_fine_decompose then apply_fine_result sv (meta ''decomposes_parent_id'') res
                else returnA ()))"

section \<open>Task outcomes\<close>

definition broadcast_task_completed ::
  "service_env \<Rightarrow> string \<Rightarrow> string \<Rightarrow> string \<Rightarrow> string \<Rightarrow> string \<Rightarrow> bool \<Rightarrow> unit act" where
  "broadcast_task_completed sv jid tid graph summary output has_next =
     (if is_decomposition_graph graph then ignoreA (consume_decomposition_output sv graph tid output)
      else bindA (ignoreA (dispatch_fine_for_ready sv jid)) (\<lambda>_.
        if \<not> sv_operator sv then returnA ()
        else effectA (send_event (EvTaskCompleted tid jid graph summary [] has_next))))"

definition broadcast_task_failed :: "service_env \<Rightarrow> string \<Rightarrow> string \<Rightarrow> string \<Rightarrow> string \<Rightarrow> unit act" where
  "broadcast_task_failed sv jid tid graph err =
     bindA (if is_decomposition_graph graph then logged (update_job_status jid JobFailed) else returnA ()) (\<lambda>_.
       if \<not> sv_operator sv then returnA ()
       else effectA (send_event (EvTaskFailed tid jid graph err)))"

section \<open>The gate\<close>

text \<open>What the gate has seen: no other real task of the job is in progress.\<close>

definition gate_open :: "task list \<Rightarrow> string \<Rightarrow> bool" where
  "gate_open ts tid \<longleftrightarrow> \<not> (\<exists>t\<in>set ts. task_id t \<noteq> tid \<and> task_status t = TaskInProgress
     \<and> \<not> is_decomposition_graph (task_graph t))"

text \<open>A task read earlier still names its job (the job of a task never changes).\<close>

definition snapshot_of :: "task \<Rightarrow> db \<Rightarrow> bool" where
  "snapshot_of p d \<longleftrightarrow> (\<forall>t\<in>set (db_tasks d). task_id t = task_id p \<longrightarrow> task_job t = task_job p)"

lemma dbA_list_tasks:
  assumes "dbA ctx (list_tasks_for_job jid) w = (Inr ts, w')"
  shows "set ts = {t \<in> set (db_tasks (w_db w')). task_job t = jid}" "w_db w' = tick (w_db w)"
proof -
  obtain d' where "list_tasks_for_job jid (w_db w) = (Inr ts, d')" "w' = w\<lparr>w_db := d'\<rparr>"
    using assms by (auto simp: dbA_def on_db_def split: prod.splits sum.splits)
  moreover from this have "ts = in_task_order (filter (\<lambda>t. task_job t = jid) (db_tasks (w_db w)))"
      "d' = tick (w_db w)"
    unfolding list_tasks_for_job_def by (auto elim!: sql_cases)
  ultimately show "set ts = {t \<in> set (db_tasks (w_db w')). task_job t = jid}" "w_db w' = tick (w_db w)"
    by (auto simp: in_task_order_def)
qed

lemma dbA_get_job:
  "dbA ctx (get_job jid) w = (r, w') \<Longrightarrow> w_db w' = tick (w_db w)"
  by (drule arg_cong [where f = "\<lambda>x. w_db (snd x)"])
    (auto simp: get_job_def sql_def Let_def tick_def split: option.splits)

lemma dbA_get_task:
  assumes "dbA ctx (get_task tid) w = (Inr t, w')"
  shows "lookup_task (w_db w') tid = Some t" "w_db w' = tick (w_db w)"
proof -
  obtain d' where "get_task tid (w_db w) = (Inr t, d')" "w' = w\<lparr>w_db := d'\<rparr>"
    using assms by (auto simp: dbA_def on_db_def split: prod.splits sum.splits)
  then show "lookup_task (w_db w') tid = Some t" "w_db w' = tick (w_db w)"
    using get_task_lookup by fastforce+
qed

lemma snapshot_lookup:
  assumes "db_ok d" "lookup_task d tid = Some t"
  shows "snapshot_of t d"
proof -
  have t: "task_id t = tid" using assms lookup_task_iff by blast
  show ?thesis unfolding snapshot_of_def
  proof (intro ballI impI)
    fix u
    assume "u \<in> set (db_tasks d)" "task_id u = task_id t"
    then have "lookup_task d tid = Some u" using t lookup_task_iff [OF assms(1)] by simp
    then show "task_job u = task_job t" using assms(2) by simp
  qed
qed

lemma gated_assign:
  assumes "world_ok w" "snapshot_of p (w_db w)"
    and "set ts = {t \<in> set (db_tasks (w_db w)). task_job t = task_job p}" "gate_open ts (task_id p)"
  shows "okA (dbA ctx (assign_task_to_graph (task_id p) g)) w"
proof -
  have "serial (snd (assign_task_to_graph (task_id p) g (w_db w)))"
    unfolding assign_task_to_graph_def
  proof (rule serial_start)
    show "db_ok (w_db w)" "serial (w_db w)" using assms(1) by (simp_all add: world_ok_def)
    show "task_id t = task_id p \<and> task_job t = task_job p"
      if "t \<in> set (db_tasks (w_db w))" "task_id t = task_id p \<and> task_status t = TaskPending" for t
      using that assms(2) by (simp add: snapshot_of_def)
    show "task_id t = task_id p" if "t \<in> set (db_tasks (w_db w))" "is_running (task_job p) t" for t
      using that assms(3,4) by (auto simp: gate_open_def is_running_def)
  qed simp
  moreover have "db_ok (snd (assign_task_to_graph (task_id p) g (w_db w)))"
    using assms(1) by (simp add: world_ok_def assign_task_to_graph_def db_ok_update_tasks)
  ultimately show ?thesis by (simp add: okA_def world_ok_def)
qed

section \<open>Decomposition keeps execution serial\<close>

lemma world_ok_note [simp]: "world_ok (note_event b w) = world_ok w"
  by (simp add: note_event_def)

lemma okA_new_task_id [ok_rules]: "world_ok w \<Longrightarrow> okA (new_task_id sv) w"
  by (simp add: okA_def new_task_id_def)

lemma okA_dispatch_bootstrap [ok_rules]:
  "world_ok w \<Longrightarrow> okA (dispatch_bootstrap sv b j t d s) w"
  unfolding dispatch_bootstrap_def
  by (intro okA_bind ok_rules okA_effect) simp_all

lemma okA_coarse [ok_rules]: "world_ok w \<Longrightarrow> okA (dispatch_coarse_decompose sv jid t d) w"
  unfolding dispatch_coarse_decompose_def Let_def
  by (intro okA_bind ok_rules okA_db) (simp_all add: is_decomposition_graph_def)

lemma okA_fine [ok_rules]: "world_ok w \<Longrightarrow> okA (dispatch_fine_decompose sv p j) w"
  unfolding dispatch_fine_decompose_def Let_def
  by (intro okA_bind ok_rules okA_db) (simp_all add: is_decomposition_graph_def)

lemma okA_task_is_ready [ok_rules]: "world_ok w \<Longrightarrow> okA (task_is_ready t) w"
  unfolding task_is_ready_def by (intro okA_bind ok_rules) simp_all

lemma okA_fine_for_task [ok_rules]: "world_ok w \<Longrightarrow> okA (dispatch_fine_for_task sv tid) w"
  unfolding dispatch_fine_for_task_def by (intro okA_bind ok_rules okA_db) simp_all

lemma okA_fine_for_ready [ok_rules]: "world_ok w \<Longrightarrow> okA (dispatch_fine_for_ready sv jid) w"
  unfolding dispatch_fine_for_ready_def by (intro okA_bind ok_rules okA_db okA_each) simp_all

lemma service_broadcast_ok: "world_ok w \<Longrightarrow> world_ok (service_broadcast sv b w)"
  using okA_coarse okA_fine_for_task by (cases b) (simp_all add: Let_def okA_def)

lemma okA_create_tasks:
  assumes "\<And>i t tid. task_status (mk i t tid) = TaskPending"
  shows "world_ok w \<Longrightarrow> okA (create_tasks sv mk i ts) w"
proof (induction ts arbitrary: i w)
  case (Cons t ts)
  then show ?case
    by (auto intro!: okA_bind ok_rules simp: assms)
qed (simp add: ok_rules)

lemma okA_wire: "world_ok w \<Longrightarrow> okA (wire_dependencies ids ps) w"
  unfolding wire_dependencies_def
  by (intro okA_each) (auto intro!: ok_rules okA_each okA_logged)

lemma okA_announce: "world_ok w \<Longrightarrow> okA (announce_tasks sv jid ps) w"
  unfolding announce_tasks_def
  by (intro okA_each) (auto intro!: ok_rules okA_effect service_broadcast_ok)

lemma okA_persist_toolchain: "world_ok w \<Longrightarrow> okA (persist_toolchain tid tc) w"
  unfolding persist_toolchain_def by (intro ok_rules okA_logged)

lemma okA_coarse_result: "world_ok w \<Longrightarrow> okA (apply_coarse_result sv jid res) w"
  unfolding apply_coarse_result_def
  by (intro okA_bind ok_rules okA_create_tasks okA_wire okA_announce) (simp_all add: new_task_def)

lemmas okA_queries = safe_reads [THEN okA_db] safe_writes [THEN okA_db] safe_task_updates [THEN okA_db]
  safe_create_task [THEN okA_db]

lemma okA_assign_graph_to_parent:
  assumes "world_ok w" "snapshot_of parent (w_db w)"
  shows "okA (assign_graph_to_parent sv parent graph tc) w"
  unfolding assign_graph_to_parent_def
proof (intro okA_bind okA_queries ok_rules okA_persist_toolchain okA_effect)
  fix j w1 ts w2
  assume j: "dbA ''failed to fetch job for graph assignment'' (get_job (task_job parent)) w = (Inr j, w1)"
    and l: "dbA ''failed to list sibling tasks'' (list_tasks_for_job (task_job parent)) w1 = (Inr ts, w2)"
    and ok: "world_ok w2"
    and gate: "\<not> (\<exists>t\<in>set ts. task_id t \<noteq> task_id parent \<and> task_status t = TaskInProgress
            \<and> \<not> is_decomposition_graph (task_graph t))"
  have "snapshot_of parent (w_db w2)"
    using assms(2) dbA_get_job [OF j] dbA_list_tasks(2) [OF l] by (simp add: snapshot_of_def)
  moreover have "gate_open ts (task_id parent)" using gate by (simp add: gate_open_def)
  ultimately show "okA (dbA ''assign-to-graph failed'' (assign_task_to_graph (task_id parent) graph)) w2"
    using gated_assign [OF ok] dbA_list_tasks(1) [OF l] by blast
qed (use assms in \<open>simp_all add: service_broadcast_ok\<close>)

lemma okA_handle_no_graph: "world_ok w \<Longrightarrow> okA (handle_no_graph_fit p r) w"
  unfolding handle_no_graph_fit_def Let_def
  by (intro okA_bind okA_db okA_logged ok_rules) simp_all

lemma okA_replace_parent: "world_ok w \<Longrightarrow> okA (replace_parent sv p res) w"
  unfolding replace_parent_def
  by (intro okA_bind okA_db ok_rules okA_create_tasks okA_wire okA_announce) (simp_all add: new_task_def)

lemma okA_fine_result:
  assumes "world_ok w"
  shows "okA (apply_fine_result sv pid res) w"
  unfolding apply_fine_result_def
proof (intro okA_bind okA_db ok_rules okA_handle_no_graph okA_replace_parent)
  fix parent w1
  assume "dbA ''fine-decompose parent task missing on completion'' (get_task pid) w = (Inr parent, w1)" "world_ok w1"
  then show "okA (assign_graph_to_parent sv parent (dr_graph res) (dr_toolchain res)) w1"
    by (intro okA_assign_graph_to_parent) (auto simp: world_ok_def dest: dbA_get_task(1) intro: snapshot_lookup)
qed (use assms in simp_all)

lemma okA_consume: "world_ok w \<Longrightarrow> okA (consume_decomposition_output sv g b out) w"
  unfolding consume_decomposition_output_def
  by (intro okA_bind okA_db ok_rules)
    (auto split: option.split intro!: ok_rules okA_coarse_result okA_fine_result)

lemma okA_task_completed: "world_ok w \<Longrightarrow> okA (broadcast_task_completed sv jid tid g m out nx) w"
  unfolding broadcast_task_completed_def
  by (intro okA_bind ok_rules okA_consume okA_effect) simp_all

lemma okA_task_failed: "world_ok w \<Longrightarrow> okA (broadcast_task_failed sv jid tid g e) w"
  unfolding broadcast_task_failed_def
  by (intro okA_bind ok_rules okA_logged okA_effect) simp_all

end
