(* ===== verification/SystemTools.thy ===== *)
theory SystemTools
  imports Decompose
begin

text \<open>
  The orchestration tools of \<open>internal/operator/system_tools.go\<close> (and the read-only job list of
  \<open>internal/operator/tools.go\<close>): every tool as an action on the world, its arguments decoded
  from the JSON text of the call. The operating system's answers (home directory, absolute
  paths, symbolic links, directory creation) and the generated ids are fields of the
  environment, as is the broadcaster the tools notify.
\<close>

section \<open>Environment\<close>

record graph_info =
  gi_id :: string
  gi_name :: string
  gi_description :: string
  gi_tags :: "string list"

record tools_env =
  te_has_executor :: bool
  te_catalog :: "graph_info list option"
  te_work_dir :: string
  te_home :: "string + string"
  te_abs :: "string \<Rightarrow> string + string"
  te_eval_symlinks :: "string \<Rightarrow> (bool \<times> string) + string"
  te_uuid :: "nat \<Rightarrow> string + string"
  te_mkdir :: "string \<Rightarrow> string option"
  te_json_error :: "string \<Rightarrow> string"
  te_provider :: string
  te_model :: string
  te_broadcast :: "broadcast \<Rightarrow> world \<Rightarrow> world"

definition known_graph :: "tools_env \<Rightarrow> string \<Rightarrow> bool" where
  "known_graph env g \<longleftrightarrow> (case te_catalog env of None \<Rightarrow> True | Some gs \<Rightarrow> g \<in> gi_id ` set gs)"

definition unknown_graph_text :: "string \<Rightarrow> string" where
  "unknown_graph_text g =
     ''graph '' @ fmt_q g @ '' is not loaded (use query_graphs to list available graphs)''"

text \<open>Decoding the arguments of a call into string fields.\<close>

definition decode_args :: "tools_env \<Rightarrow> string \<Rightarrow> string list \<Rightarrow> string \<Rightarrow> (string \<Rightarrow> string) act" where
  "decode_args env tool names args =
     (case unmarshal_strings names args of
        None \<Rightarrow> failA (''parsing '' @ tool @ '' args: '' @ te_json_error env args)
      | Some f \<Rightarrow> returnA f)"

definition gen_uuid :: "tools_env \<Rightarrow> string \<Rightarrow> string act" where
  "gen_uuid env ctx w =
     (case te_uuid env (w_ids w) of
        Inl e \<Rightarrow> (Inl (ctx @ '': '' @ e), w\<lparr>w_ids := Suc (w_ids w)\<rparr>)
      | Inr i \<Rightarrow> (Inr i, w\<lparr>w_ids := Suc (w_ids w)\<rparr>))"

section \<open>The workspace guard\<close>

text \<open>A path that does not exist stands for itself.\<close>

definition resolve_links :: "tools_env \<Rightarrow> string \<Rightarrow> string \<Rightarrow> string + string" where
  "resolve_links env ctx p =
     (case te_eval_symlinks env p of
        Inr q \<Rightarrow> Inr q
      | Inl (not_exist, e) \<Rightarrow> if not_exist then Inr p else Inl (ctx @ '': '' @ e))"

definition under_home :: "string \<Rightarrow> string \<Rightarrow> bool" where
  "under_home home p \<longleftrightarrow> p = home \<or> has_prefix p (home @ ''/'')"

definition validate_work_dir :: "tools_env \<Rightarrow> string \<Rightarrow> string + unit" where
  "validate_work_dir env dir =
     (case te_home env of
        Inl e \<Rightarrow> Inl (''determining home directory: '' @ e)
      | Inr home \<Rightarrow>
     (case te_abs env dir of
        Inl e \<Rightarrow> Inl (''resolving workspace directory: '' @ e)
      | Inr abs_work \<Rightarrow>
     (case te_abs env home of
        Inl e \<Rightarrow> Inl (''resolving home directory: '' @ e)
      | Inr abs_home \<Rightarrow>
     (case resolve_links env ''resolving workspace symlinks'' abs_work of
        Inl e \<Rightarrow> Inl e
      | Inr work \<Rightarrow>
     (case resolve_links env ''resolving home directory symlinks'' abs_home of
        Inl e \<Rightarrow> Inl e
      | Inr rhome \<Rightarrow>
          if under_home rhome work then Inr ()
          else Inl (''workspace directory '' @ fmt_q dir @ '' is outside the user's home directory (''
                 @ rhome @ ''); this is not allowed for safety''))))))"

definition check_work_dir :: "tools_env \<Rightarrow> string \<Rightarrow> string \<Rightarrow> unit act" where
  "check_work_dir env ctx dir =
     (case validate_work_dir env dir of Inl e \<Rightarrow> failA (ctx @ e) | Inr u \<Rightarrow> returnA u)"

section \<open>Creating jobs and tasks\<close>

fun is_terminal_job_status :: "job_status \<Rightarrow> bool" where
  "is_terminal_job_status JobCompleted = True"
| "is_terminal_job_status JobFailed = True"
| "is_terminal_job_status JobCancelled = True"
| "is_terminal_job_status _ = False"

definition make_dir :: "tools_env \<Rightarrow> string \<Rightarrow> unit act" where
  "make_dir env dir w =
     (case te_mkdir env dir of
        Some e \<Rightarrow> (Inl (''creating job workspace directory: '' @ e), w)
      | None \<Rightarrow> (Inr (), w\<lparr>w_dirs := w_dirs w @ [dir]\<rparr>))"

definition new_job :: "string \<Rightarrow> string \<Rightarrow> string \<Rightarrow> string \<Rightarrow> job" where
  "new_job jid title descr dir =
     \<lparr>job_id = jid, job_title = title, job_description = descr, job_type = [],
      job_status = JobPending, job_workspace = dir, job_created = 0, job_updated = 0, job_metadata = []\<rparr>"

text \<open>The workspace: another job's, by its id, or a new directory named after the job.\<close>

definition job_workspace_dir :: "tools_env \<Rightarrow> string \<Rightarrow> string \<Rightarrow> string act" where
  "job_workspace_dir env of_job jid =
     (if of_job = [] then returnA (te_work_dir env @ ''/'' @ jid)
      else bindA (dbA (''workspace_of_job: looking up job '' @ fmt_q of_job) (get_job of_job)) (\<lambda>src.
        guardA (job_workspace src = [])
          (''workspace_of_job: job '' @ fmt_q of_job @ '' has no workspace directory'')
          (returnA (job_workspace src))))"

text \<open>A failed insert removes the directory again, unless it belongs to another job.\<close>

definition insert_job :: "bool \<Rightarrow> job \<Rightarrow> unit act" where
  "insert_job reused j w =
     (case dbA ''creating job'' (create_job j) w of
        (Inl e, w') \<Rightarrow> (Inl e, if reused then w' else w'\<lparr>w_dirs := removeAll (job_workspace j) (w_dirs w')\<rparr>)
      | (Inr u, w') \<Rightarrow> (Inr u, w'))"

definition create_job_tool :: "tools_env \<Rightarrow> string \<Rightarrow> string act" where
  "create_job_tool env args =
     bindA (check_work_dir env [] (te_work_dir env)) (\<lambda>_.
     bindA (decode_args env ''create_job'' [''title'', ''description'', ''workspace_of_job''] args) (\<lambda>p.
     guardA (p ''title'' = []) ''title is required'' (
     guardA (p ''description'' = []) ''description is required'' (
     bindA (gen_uuid env ''generating job ID'') (\<lambda>jid.
     bindA (job_workspace_dir env (p ''workspace_of_job'') jid) (\<lambda>dir.
     bindA (make_dir env dir) (\<lambda>_.
     bindA (insert_job (p ''workspace_of_job'' \<noteq> []) (new_job jid (p ''title'') (p ''description'') dir)) (\<lambda>_.
     bindA (effectA (te_broadcast env (JobCreated jid (p ''title'') (p ''description'')))) (\<lambda>_.
     returnA (marshal_map [(''job_id'', jid)]))))))))))"

definition lightning :: string where "lightning = [CHR 0xE2, CHR 0x9A, CHR 0xA1]"

definition finished_job_text :: "job \<Rightarrow> string \<Rightarrow> string" where
  "finished_job_text j what =
     ''job '' @ job_id j @ '' is '' @ job_status_text (job_status j) @ ''; '' @ what
     @ ''. To continue this work, create a follow-up job with create_job and workspace_of_job: ''
     @ fmt_q (job_id j) @ '' so it shares the same workspace''"

text \<open>What follows the assignment: the run, the broadcast, the job's promotion, the feed entry.\<close>

definition start_run :: "tools_env \<Rightarrow> task \<Rightarrow> job \<Rightarrow> string \<Rightarrow> task list \<Rightarrow> string act" where
  "start_run env t j g ts =
     bindA (effectA (spawn_run (request_for j t g (parse_task_metadata (task_metadata t)) ts
        (te_provider env) (te_model env)))) (\<lambda>_.
     bindA (effectA (te_broadcast env (TaskAssigned (task_id t) (task_job t) g (task_title t)))) (\<lambda>_.
     bindA (if job_status j = JobPending then logged (update_job_status (task_job t) JobActive)
            else returnA ()) (\<lambda>_.
     bindA (logged (create_feed_entry FeedTaskStarted
        (lightning @ '' '' @ g @ '' started task: '' @ task_title t) (task_job t))) (\<lambda>_.
     returnA (marshal_map [(''task_id'', task_id t), (''graph_id'', g), (''status'', ''in_progress'')])))))"

text \<open>
  \<open>dispatchGraphTask\<close>: with a sibling in progress the graph is only recorded, otherwise the task
  starts.
\<close>

definition dispatch_graph_task :: "tools_env \<Rightarrow> task \<Rightarrow> job \<Rightarrow> string \<Rightarrow> string act" where
  "dispatch_graph_task env t j g =
     guardA (\<not> te_has_executor env) ''cannot assign task: no graph executor configured'' (
     guardA (\<not> known_graph env g) (unknown_graph_text g) (
     bindA (dbA ''checking job tasks'' (list_tasks_for_job (task_job t))) (\<lambda>ts.
     case find (\<lambda>u. task_id u \<noteq> task_id t \<and> task_status u = TaskInProgress) ts of
       Some u \<Rightarrow>
         bindA (dbA ''pre-assigning graph'' (pre_assign_task_graph (task_id t) g)) (\<lambda>_.
         returnA (''Task '' @ fmt_q (task_title t) @ '' queued for graph '' @ fmt_q g @ '' '' @ em_dash
           @ '' task '' @ fmt_q (task_title u) @ '' is currently in progress. ''
           @ ''This task will start automatically when the current task completes.''))
     | None \<Rightarrow>
         bindA (dbA ''assigning task to graph'' (assign_task_to_graph (task_id t) g)) (\<lambda>_.
         start_run env t j g ts))))"

definition create_task_tool :: "tools_env \<Rightarrow> string \<Rightarrow> string act" where
  "create_task_tool env args =
     bindA (decode_args env ''create_task'' [''job_id'', ''title'', ''description'', ''graph_id''] args) (\<lambda>p.
     guardA (p ''job_id'' = []) ''job_id is required'' (
     guardA (p ''title'' = []) ''title is required'' (
     bindA (dbA ''getting job'' (get_job (p ''job_id''))) (\<lambda>j.
     guardA (is_terminal_job_status (job_status j))
       (finished_job_text j ''tasks cannot be added to a finished job'') (
     guardA (p ''graph_id'' \<noteq> [] \<and> \<not> known_graph env (p ''graph_id'')) (unknown_graph_text (p ''graph_id'')) (
     bindA (dbA ''listing job tasks'' (list_tasks_for_job (p ''job_id''))) (\<lambda>siblings.
     bindA (gen_uuid env ''generating task ID'') (\<lambda>tid.
     let t = (new_task tid (p ''job_id'') (p ''title'') TaskPending)
               \<lparr>task_description := p ''description'', task_summary := p ''description'',
                task_order := int (length siblings)\<rparr>
     in bindA (dbA ''creating task'' (create_task t)) (\<lambda>_.
     bindA (effectA (te_broadcast env (TaskCreated tid (p ''job_id'') (p ''title'') (p ''graph_id'')))) (\<lambda>_.
     if p ''graph_id'' \<noteq> [] then dispatch_graph_task env t j (p ''graph_id'')
     else returnA (marshal_map
       [(''task_id'', tid), (''job_id'', p ''job_id''), (''status'', task_status_text TaskPending)])))))))))))"

definition assign_task_tool :: "tools_env \<Rightarrow> string \<Rightarrow> string act" where
  "assign_task_tool env args =
     bindA (decode_args env ''assign_task'' [''task_id'', ''graph_id''] args) (\<lambda>p.
     guardA (p ''task_id'' = []) ''task_id is required'' (
     guardA (p ''graph_id'' = []) ''graph_id is required'' (
     bindA (dbA ''getting task'' (get_task (p ''task_id''))) (\<lambda>t.
     guardA (task_status t \<noteq> TaskPending)
       (''task '' @ fmt_q (p ''task_id'') @ '' is '' @ task_status_text (task_status t) @ '', not pending'') (
     bindA (dbA ''getting job for workspace'' (get_job (task_job t))) (\<lambda>j.
     guardA (is_terminal_job_status (job_status j))
       (finished_job_text j ''tasks cannot be dispatched in a finished job'') (
     bindA (check_work_dir env ''job workspace validation failed: '' (job_workspace j)) (\<lambda>_.
     dispatch_graph_task env t j (p ''graph_id'')))))))))"

section \<open>Retrying\<close>

definition retry_task_tool :: "tools_env \<Rightarrow> string \<Rightarrow> string act" where
  "retry_task_tool env args =
     bindA (decode_args env ''retry_task'' [''task_id'', ''graph_id''] args) (\<lambda>p.
     guardA (p ''task_id'' = []) ''task_id is required'' (
     guardA (\<not> te_has_executor env) ''cannot retry task: no graph executor configured'' (
     bindA (dbA ''getting task'' (get_task (p ''task_id''))) (\<lambda>t.
     guardA (task_status t \<noteq> TaskFailed)
       (''task '' @ fmt_q (task_title t) @ '' is '' @ task_status_text (task_status t)
        @ '', not failed '' @ em_dash @ '' retry_task only re-runs failed tasks'') (
     let g = (if p ''graph_id'' = [] then task_graph t else p ''graph_id'') in
     guardA (g = []) (''task '' @ fmt_q (task_title t)
        @ '' has no graph to retry; pass graph_id (use query_graphs to list)'') (
     guardA (\<not> known_graph env g) (unknown_graph_text g) (
     bindA (dbA ''getting job for workspace'' (get_job (task_job t))) (\<lambda>j.
     bindA (check_work_dir env ''job workspace validation failed: '' (job_workspace j)) (\<lambda>_.
     bindA (dbA ''listing job tasks'' (list_tasks_for_job (task_job t))) (\<lambda>ts.
     case find (\<lambda>u. task_id u \<noteq> task_id t \<and> task_status u = TaskInProgress) ts of
       Some u \<Rightarrow> returnA (''Cannot retry task '' @ fmt_q (task_title t) @ '' yet '' @ em_dash @ '' task ''
         @ fmt_q (task_title u) @ '' is currently in progress and tasks in a job run serially. ''
         @ ''Retry after the current task completes.'')
     | None \<Rightarrow>
         bindA (dbA ''resetting task for retry'' (retry_task_row (task_id t) g)) (\<lambda>_.
         bindA (effectA (spawn_run (request_for j t g (parse_task_metadata (task_metadata t)) ts
            (te_provider env) (te_model env)))) (\<lambda>_.
         bindA (effectA (te_broadcast env (TaskAssigned (task_id t) (task_job t) g (task_title t)))) (\<lambda>_.
         returnA (''Retrying task '' @ fmt_q (task_title t) @ '' on graph '' @ fmt_q g
            @ '' in place (job '' @ fmt_q (job_title j) @ '' is unchanged).''))))))))))))))"

section \<open>Queries\<close>

definition nl :: string where "nl = [CHR 0x0A]"

definition display_name :: "string \<Rightarrow> string \<Rightarrow> string" where
  "display_name name ident = (if name \<noteq> [] then name else ident)"

definition graph_lines :: "graph_info \<Rightarrow> string" where
  "graph_lines g =
     nl @ ''- '' @ display_name (gi_name g) (gi_id g) @ '' (id: '' @ gi_id g @ '')'' @ nl
     @ (if gi_description g \<noteq> [] then ''  Description: '' @ trim_space (gi_description g) @ nl else [])
     @ (if gi_tags g \<noteq> [] then ''  Tags: '' @ join_strings '', '' (gi_tags g) @ nl else [])"

definition query_graphs_tool :: "tools_env \<Rightarrow> string act" where
  "query_graphs_tool env =
     returnA (case te_catalog env of
        None \<Rightarrow> ''No graphs are currently loaded.''
      | Some [] \<Rightarrow> ''No graphs are currently loaded.''
      | Some gs \<Rightarrow> ''Available graphs:'' @ nl @ concat (map graph_lines gs))"

definition contract_home :: "tools_env \<Rightarrow> string \<Rightarrow> string" where
  "contract_home env p =
     (case te_home env of
        Inl e \<Rightarrow> p
      | Inr home \<Rightarrow>
          if home = [] then p
          else if has_prefix p (home @ ''/'') then ''~/'' @ drop (length home + 1) p
          else if p = home then ''~'' else p)"

definition right_arrow :: string where "right_arrow = [CHR 0xE2, CHR 0x86, CHR 0x92]"

definition task_lines :: "task \<Rightarrow> string" where
  "task_lines t =
     ''  - ['' @ task_status_text (task_status t) @ ''] '' @ task_title t @ '' (id: '' @ task_id t @ '')''
     @ (if task_graph t \<noteq> [] then '' '' @ right_arrow @ '' graph '' @ task_graph t else [])
     @ (if task_description t \<noteq> [] then nl @ ''    Description: '' @ task_description t else [])
     @ (if task_summary t \<noteq> [] \<and> task_summary t \<noteq> task_description t
        then nl @ ''    Status: '' @ task_summary t else [])
     @ nl"

definition query_job_tool :: "tools_env \<Rightarrow> string \<Rightarrow> string act" where
  "query_job_tool env args =
     bindA (decode_args env ''query_job'' [''job_id''] args) (\<lambda>p.
     guardA (p ''job_id'' = []) ''job_id is required'' (
     bindA (dbA ''getting job'' (get_job (p ''job_id''))) (\<lambda>j.
     bindA (dbA ''listing tasks'' (list_tasks_for_job (p ''job_id''))) (\<lambda>ts.
     returnA (''Job: '' @ job_title j @ '' (id: '' @ job_id j @ '')'' @ nl
       @ ''Status: '' @ job_status_text (job_status j) @ nl
       @ (if job_description j \<noteq> [] then ''Description: '' @ job_description j @ nl else [])
       @ (if job_workspace j \<noteq> [] then ''Workspace: '' @ contract_home env (job_workspace j) @ nl else [])
       @ (if ts = [] then nl @ ''No tasks.''
          else nl @ ''Tasks ('' @ fmt_int (int (length ts)) @ ''):'' @ nl @ concat (map task_lines ts)))))))"

definition surface_to_user_tool :: "tools_env \<Rightarrow> string \<Rightarrow> string act" where
  "surface_to_user_tool env args =
     bindA (decode_args env ''surface_to_user'' [''text''] args) (\<lambda>p.
     guardA (p ''text'' = []) ''text is required'' (
     bindA (dbA ''creating feed entry'' (create_feed_entry FeedSystemEvent (p ''text'') [])) (\<lambda>_.
     returnA (''Surfaced to user: '' @ p ''text''))))"

definition list_jobs_tool :: "tools_env \<Rightarrow> string act" where
  "list_jobs_tool env =
     bindA (dbA ''listing jobs'' list_all_jobs) (\<lambda>js.
     returnA (if js = [] then ''No jobs.''
       else ''Jobs ('' @ fmt_int (int (length js)) @ ''):'' @ nl
         @ concat (map (\<lambda>j. nl @ ''- '' @ job_title j @ '' (id: '' @ job_id j @ '')'' @ nl
              @ ''  Status: '' @ job_status_text (job_status j) @ nl
              @ (if job_workspace j \<noteq> [] then ''  Workspace: '' @ contract_home env (job_workspace j) @ nl
                 else [])) js)))"

definition unknown_tool_text :: "string \<Rightarrow> string" where
  "unknown_tool_text name = ''unknown tool: '' @ name"

definition system_execute :: "tools_env \<Rightarrow> string \<Rightarrow> string \<Rightarrow> string act" where
  "system_execute env name args =
     (if name = ''create_job'' then create_job_tool env args
      else if name = ''create_task'' then create_task_tool env args
      else if name = ''assign_task'' then assign_task_tool env args
      else if name = ''retry_task'' then retry_task_tool env args
      else if name = ''query_graphs'' then query_graphs_tool env
      else if name = ''query_job'' then query_job_tool env args
      else if name = ''query_job_context'' then query_job_tool env args
      else if name = ''surface_to_user'' then surface_to_user_tool env args
      else failA (unknown_tool_text name))"

section \<open>The tools keep execution serial\<close>

lemma okA_decode_args [ok_rules]: "world_ok w \<Longrightarrow> okA (decode_args env tool names args) w"
  by (simp add: decode_args_def okA_return okA_fail split: option.split)

lemma okA_gen_uuid [ok_rules]: "world_ok w \<Longrightarrow> okA (gen_uuid env ctx) w"
  by (simp add: okA_def gen_uuid_def split: sum.split)

lemma okA_check_work_dir [ok_rules]: "world_ok w \<Longrightarrow> okA (check_work_dir env ctx dir) w"
  by (simp add: check_work_dir_def okA_return okA_fail split: sum.split)

lemma okA_make_dir [ok_rules]: "world_ok w \<Longrightarrow> okA (make_dir env dir) w"
  by (simp add: okA_def make_dir_def split: option.split)

lemma okA_insert_job [ok_rules]: "world_ok w \<Longrightarrow> okA (insert_job reused j) w"
proof -
  assume "world_ok w"
  then have "okA (dbA ''creating job'' (create_job j)) w" by (intro okA_queries)
  then show ?thesis
    by (cases "dbA ''creating job'' (create_job j) w")
      (auto simp: okA_def insert_job_def simp del: dbA_snd split: sum.split)
qed

lemma okA_job_workspace_dir [ok_rules]: "world_ok w \<Longrightarrow> okA (job_workspace_dir env i j) w"
  unfolding job_workspace_dir_def by (intro okA_bind okA_queries ok_rules)

lemma gate_open_find:
  "find (\<lambda>u. task_id u \<noteq> tid \<and> task_status u = TaskInProgress) ts = None \<Longrightarrow> gate_open ts tid"
  by (auto simp: gate_open_def find_None_iff)

lemma gated_retry:
  assumes "world_ok w" "snapshot_of p (w_db w)"
    and "set ts = {t \<in> set (db_tasks (w_db w)). task_job t = task_job p}" "gate_open ts (task_id p)"
  shows "okA (dbA ctx (retry_task_row (task_id p) g)) w"
proof -
  have "serial (snd (retry_task_row (task_id p) g (w_db w)))"
    unfolding retry_task_row_def
  proof (rule serial_start)
    show "db_ok (w_db w)" "serial (w_db w)" using assms(1) by (simp_all add: world_ok_def)
    show "task_id t = task_id p \<and> task_job t = task_job p"
      if "t \<in> set (db_tasks (w_db w))" "task_id t = task_id p \<and> task_status t = TaskFailed" for t
      using that assms(2) by (simp add: snapshot_of_def)
    show "task_id t = task_id p" if "t \<in> set (db_tasks (w_db w))" "is_running (task_job p) t" for t
      using that assms(3,4) by (auto simp: gate_open_def is_running_def)
  qed simp
  moreover have "db_ok (snd (retry_task_row (task_id p) g (w_db w)))"
    using assms(1) by (simp add: world_ok_def retry_task_row_def db_ok_update_tasks)
  ultimately show ?thesis by (simp add: okA_def world_ok_def)
qed

text \<open>
  What the tools rely on in the broadcaster: a broadcast leaves the world in order, and
  announcing a task that already has its graph touches no row.
\<close>

locale tool_host =
  fixes env :: tools_env
  assumes broadcast_ok: "world_ok w \<Longrightarrow> world_ok (te_broadcast env b w)"
    and broadcast_quiet: "g \<noteq> [] \<Longrightarrow> w_db (te_broadcast env (TaskCreated tid jid title g) w) = w_db w"
begin

lemma okA_broadcast: "world_ok w \<Longrightarrow> okA (effectA (te_broadcast env b)) w"
  by (rule okA_effect) (rule broadcast_ok)

lemma okA_create_job: "world_ok w \<Longrightarrow> okA (create_job_tool env args) w"
  unfolding create_job_tool_def by (intro okA_bind okA_broadcast ok_rules)

lemma okA_dispatch:
  assumes "world_ok w" "snapshot_of t (w_db w)"
  shows "okA (dispatch_graph_task env t j g) w"
proof -
  have start: "okA (dbA c (assign_task_to_graph (task_id t) g)) w1"
    if "dbA ''checking job tasks'' (list_tasks_for_job (task_job t)) w = (Inr ts, w1)" "world_ok w1"
      "find (\<lambda>u. task_id u \<noteq> task_id t \<and> task_status u = TaskInProgress) ts = None" for ts w1 c
  proof -
    have "snapshot_of t (w_db w1)" using assms(2) dbA_list_tasks(2) [OF that(1)] by (simp add: snapshot_of_def)
    then show ?thesis
      using gated_assign [OF that(2)] dbA_list_tasks(1) [OF that(1)] gate_open_find [OF that(3)] by blast
  qed
  have run: "okA (start_run env t j g ts) w1" if "world_ok w1" for ts w1
    unfolding start_run_def using that
    by (intro okA_bind okA_broadcast okA_logged ok_rules okA_effect) simp_all
  show ?thesis
    unfolding dispatch_graph_task_def
    by (intro okA_guard okA_bind okA_queries assms(1))
      (auto split: option.split intro!: okA_bind okA_queries okA_return start run)
qed

lemma okA_assign: "world_ok w \<Longrightarrow> okA (assign_task_tool env args) w"
  unfolding assign_task_tool_def
proof (intro okA_bind okA_queries ok_rules)
  fix p w1 t w2 j w3 u w4
  assume t: "dbA ''getting task'' (get_task (p ''task_id'')) w1 = (Inr t, w2)" and w2: "world_ok w2"
    and j: "dbA ''getting job for workspace'' (get_job (task_job t)) w2 = (Inr j, w3)"
    and c: "check_work_dir env ''job workspace validation failed: '' (job_workspace j) w3 = (Inr u, w4)"
    and w4: "world_ok w4"
  have "snapshot_of t (w_db w2)"
    using dbA_get_task(1) [OF t] w2 by (intro snapshot_lookup) (simp_all add: world_ok_def)
  moreover have "w4 = w3"
    using c by (auto simp: check_work_dir_def failA_def returnA_def split: sum.splits)
  ultimately show "okA (dispatch_graph_task env t j (p ''graph_id'')) w4"
    using w4 dbA_get_job [OF j] by (intro okA_dispatch) (simp_all add: snapshot_of_def)
qed

lemma okA_retry: "world_ok w \<Longrightarrow> okA (retry_task_tool env args) w"
  unfolding retry_task_tool_def Let_def
proof (intro okA_bind okA_queries ok_rules)
  fix p w1 and t :: task and w2 j w3 u w4 and ts :: "task list" and w5
  let ?g = "if p ''graph_id'' = [] then task_graph t else p ''graph_id''"
  assume t: "dbA ''getting task'' (get_task (p ''task_id'')) w1 = (Inr t, w2)" and w2: "world_ok w2"
    and j: "dbA ''getting job for workspace'' (get_job (task_job t)) w2 = (Inr j, w3)"
    and c: "check_work_dir env ''job workspace validation failed: '' (job_workspace j) w3 = (Inr u, w4)"
    and l: "dbA ''listing job tasks'' (list_tasks_for_job (task_job t)) w4 = (Inr ts, w5)"
    and w5: "world_ok w5"
  have "snapshot_of t (w_db w2)"
    using dbA_get_task(1) [OF t] w2 by (intro snapshot_lookup) (simp_all add: world_ok_def)
  moreover have "w4 = w3"
    using c by (auto simp: check_work_dir_def failA_def returnA_def split: sum.splits)
  ultimately have s: "snapshot_of t (w_db w5)"
    using dbA_get_job [OF j] dbA_list_tasks(2) [OF l] by (simp add: snapshot_of_def)
  have start: "okA (dbA ctx (retry_task_row (task_id t) g)) w5"
    if "find (\<lambda>u. task_id u \<noteq> task_id t \<and> task_status u = TaskInProgress) ts = None" for ctx g
    using gated_retry [OF w5 s] dbA_list_tasks(1) [OF l] gate_open_find [OF that] by blast
  show "okA (case find (\<lambda>u. task_id u \<noteq> task_id t \<and> task_status u = TaskInProgress) ts of
      None \<Rightarrow> bindA (dbA ''resetting task for retry'' (retry_task_row (task_id t) ?g)) (\<lambda>_.
         bindA (effectA (spawn_run (request_for j t ?g (parse_task_metadata (task_metadata t)) ts
            (te_provider env) (te_model env)))) (\<lambda>_.
         bindA (effectA (te_broadcast env (TaskAssigned (task_id t) (task_job t) ?g (task_title t)))) (\<lambda>_.
         returnA (''Retrying task '' @ fmt_q (task_title t) @ '' on graph '' @ fmt_q ?g
            @ '' in place (job '' @ fmt_q (job_title j) @ '' is unchanged).''))))
    | Some u \<Rightarrow> returnA (''Cannot retry task '' @ fmt_q (task_title t) @ '' yet '' @ em_dash @ '' task ''
         @ fmt_q (task_title u) @ '' is currently in progress and tasks in a job run serially. ''
         @ ''Retry after the current task completes.'')) w5"
    using w5 by (auto split: option.split intro!: okA_bind okA_return okA_effect broadcast_ok start)
qed

lemma dbA_create_task:
  assumes "dbA ctx (create_task t) w = (Inr x, w')" "world_ok w"
  shows "snapshot_of t (w_db w')"
proof -
  have "fst (create_task t (w_db w)) = Inr x" "w_db w' = snd (create_task t (w_db w))"
    using assms(1) by (auto simp: dbA_def on_db_def split: prod.splits sum.splits)
  then show ?thesis
    by (auto simp: create_task_def sql_def Let_def snapshot_of_def image_iff split: option.splits if_splits)
qed

lemma okA_create_task: "world_ok w \<Longrightarrow> okA (create_task_tool env args) w"
  unfolding create_task_tool_def Let_def
proof (intro okA_bind okA_queries okA_broadcast ok_rules)
  fix p w1 j w2 ts w3 tid w4 x w5 y w6
  let ?t = "(new_task tid (p ''job_id'') (p ''title'') TaskPending)
      \<lparr>task_description := p ''description'', task_summary := p ''description'', task_order := int (length ts)\<rparr>"
  assume c: "dbA ''creating task'' (create_task ?t) w4 = (Inr x, w5)" and "world_ok w4"
    and b: "effectA (te_broadcast env (TaskCreated tid (p ''job_id'') (p ''title'') (p ''graph_id''))) w5 = (Inr y, w6)"
    and w6: "world_ok w6" and g: "p ''graph_id'' \<noteq> []"
  then have "snapshot_of ?t (w_db w5)" using dbA_create_task by blast
  moreover have "w_db w6 = w_db w5" using b broadcast_quiet [OF g] by (auto simp: effectA_def)
  ultimately show "okA (dispatch_graph_task env ?t j (p ''graph_id'')) w6"
    using w6 by (intro okA_dispatch) simp_all
qed (simp_all add: new_task_def)

lemma okA_queries_tools:
  "world_ok w \<Longrightarrow> okA (query_graphs_tool env) w" "world_ok w \<Longrightarrow> okA (query_job_tool env args) w"
  "world_ok w \<Longrightarrow> okA (surface_to_user_tool env args) w" "world_ok w \<Longrightarrow> okA (list_jobs_tool env) w"
  unfolding query_graphs_tool_def query_job_tool_def surface_to_user_tool_def list_jobs_tool_def
  by (intro okA_bind okA_queries ok_rules; assumption)+

lemma execute_ok: "world_ok w \<Longrightarrow> okA (system_execute env name args) w"
  unfolding system_execute_def
  by (intro okA_if okA_fail okA_create_job okA_create_task okA_assign okA_retry okA_queries_tools)

end

text \<open>The service's broadcasts meet what the tools rely on.\<close>

definition with_service :: "service_env \<Rightarrow> tools_env \<Rightarrow> tools_env" where
  "with_service sv env = env\<lparr>te_broadcast := service_broadcast sv\<rparr>"

interpretation service_host: tool_host "with_service sv env" for sv env
  by unfold_locales (simp_all add: with_service_def service_broadcast_ok note_event_def)

section \<open>Claims about the tools\<close>

text \<open>
  Whatever tool the model calls with whatever arguments, and whichever statements fail on
  the way, the store stays in order and no job ends up with two real tasks in progress.
\<close>

theorem tools_keep_serial:
  assumes "world_ok w"
  shows "world_ok (snd (system_execute (with_service sv env) name args w))"
  using service_host.execute_ok [OF assms] by (simp add: okA_def)

text \<open>How an action that succeeds went through its parts.\<close>

lemma bindA_Inr:
  assumes "bindA m k w = (Inr y, w')"
  obtains x w1 where "m w = (Inr x, w1)" "k x w1 = (Inr y, w')"
  using assms by (auto simp: bindA_def split: prod.splits sum.splits)

lemma guardA_Inr:
  assumes "guardA bad e m w = (Inr y, w')"
  obtains "\<not> bad" "m w = (Inr y, w')"
  using assms by (auto simp: guardA_def failA_def split: if_splits)

lemma dbA_Inr:
  assumes "dbA ctx q w = (Inr x, w')"
  obtains d where "q (w_db w) = (Inr x, d)" "w' = w\<lparr>w_db := d\<rparr>"
  using assms by (auto simp: dbA_def on_db_def split: prod.splits sum.splits)

lemma bindA_simps [simp]:
  "bindA (effectA f) k w = k () (f w)"
  "bindA (logged q) k w = k () (w\<lparr>w_db := snd (q (w_db w))\<rparr>)"
  "bindA (returnA x) k w = k x w"
  by (simp_all add: bindA_def effectA_def logged_def on_db_def returnA_def split: prod.split)

lemma lookup_kept [simp]:
  "lookup_task (snd (update_job_status i s d)) = lookup_task d"
  "lookup_task (snd (create_feed_entry k c i d)) = lookup_task d"
  by (simp_all add: fun_eq_iff lookup_task_def)

lemma start_run_effect:
  assumes "start_run (with_service sv env) t j g ts w = (r, w')"
  shows "w_runs w' = w_runs w @ [request_for j t g (parse_task_metadata (task_metadata t)) ts
        (te_provider env) (te_model env)] \<and> lookup_task (w_db w') = lookup_task (w_db w)"
proof -
  have "w' = snd (start_run (with_service sv env) t j g ts w)" using assms by simp
  then show ?thesis
    by (cases "job_status j = JobPending")
      (simp_all add: start_run_def with_service_def note_event_def spawn_run_def returnA_def)
qed

text \<open>
  C35. A dispatch that succeeds either found another task of the job in progress, then it starts
  nothing and only records the graph; or it found none, then the task is in progress on the
  graph and exactly one run is started, for this task, this graph and the job's workspace.
\<close>

theorem dispatch_graph_task_correct:
  assumes "world_ok w"
    and "dispatch_graph_task (with_service sv env) t j g w = (Inr msg, w')"
  shows "te_has_executor env \<and> known_graph env g
    \<and> (if \<exists>u\<in>set (db_tasks (w_db w)). task_job u = task_job t \<and> task_id u \<noteq> task_id t
             \<and> task_status u = TaskInProgress
       then w_runs w' = w_runs w
         \<and> (\<exists>u. lookup_task (w_db w') (task_id t) = Some u \<and> task_status u = TaskPending \<and> task_graph u = g)
       else (\<exists>rq. w_runs w' = w_runs w @ [rq] \<and> rq_task rq = task_id t \<and> rq_graph rq = g
               \<and> rq_workspace rq = job_workspace j)
         \<and> (\<exists>u. lookup_task (w_db w') (task_id t) = Some u \<and> task_status u = TaskInProgress \<and> task_graph u = g))"
proof -
  let ?busy = "\<lambda>u. task_id u \<noteq> task_id t \<and> task_status u = TaskInProgress"
  obtain ts w1 where known: "te_has_executor env" "known_graph env g"
    and l: "dbA ''checking job tasks'' (list_tasks_for_job (task_job t)) w = (Inr ts, w1)"
    and start: "find ?busy ts = None \<Longrightarrow> bindA (dbA ''assigning task to graph'' (assign_task_to_graph (task_id t) g))
         (\<lambda>_. start_run (with_service sv env) t j g ts) w1 = (Inr msg, w')"
    and queue: "find ?busy ts \<noteq> None \<Longrightarrow> \<exists>x. dbA ''pre-assigning graph'' (pre_assign_task_graph (task_id t) g) w1 = (Inr x, w')"
    using assms(2) unfolding dispatch_graph_task_def
    by (auto elim!: guardA_Inr bindA_Inr simp: with_service_def known_graph_def returnA_def split: option.splits)
  have w1: "w1 = w\<lparr>w_db := tick (w_db w)\<rparr>"
    using dbA_list_tasks(2) [OF l] l by (auto elim!: dbA_Inr)
  have ok1: "db_ok (w_db w1)" using assms(1) by (simp add: w1 world_ok_def)
  have busy: "(\<exists>u\<in>set ts. ?busy u) \<longleftrightarrow> (\<exists>u\<in>set (db_tasks (w_db w)). task_job u = task_job t
      \<and> task_id u \<noteq> task_id t \<and> task_status u = TaskInProgress)"
    using dbA_list_tasks(1) [OF l] by (auto simp: w1)
  show ?thesis
  proof (cases "find ?busy ts = None")
    case True
    then have nb: "\<not> (\<exists>u\<in>set ts. ?busy u)" by (auto simp: find_None_iff)
    obtain x w2 where a: "dbA ''assigning task to graph'' (assign_task_to_graph (task_id t) g) w1 = (Inr x, w2)"
      and s: "start_run (with_service sv env) t j g ts w2 = (Inr msg, w')"
      using start [OF True] by (rule bindA_Inr)
    obtain d where d: "assign_task_to_graph (task_id t) g (w_db w1) = (Inr x, d)" "w2 = w1\<lparr>w_db := d\<rparr>"
      using a by (rule dbA_Inr)
    have "\<exists>u. lookup_task d (task_id t) = Some u \<and> task_status u = TaskInProgress \<and> task_graph u = g"
      using assign_task_effect [OF ok1 d(1)] by auto
    then show ?thesis
      using known nb busy start_run_effect [OF s] by (auto simp: d(2) w1 request_for_def)
  next
    case False
    then have b: "\<exists>u\<in>set ts. ?busy u" by (auto simp: find_Some_iff)
    obtain x where "dbA ''pre-assigning graph'' (pre_assign_task_graph (task_id t) g) w1 = (Inr x, w')"
      using queue [OF False] by blast
    then obtain d where d: "pre_assign_task_graph (task_id t) g (w_db w1) = (Inr x, d)" "w' = w1\<lparr>w_db := d\<rparr>"
      by (rule dbA_Inr)
    let ?P = "\<lambda>v. task_id v = task_id t \<and> task_status v = TaskPending"
    have e: "update_tasks ''pre-assigning task graph'' (task_id t) ?P (\<lambda>v. v\<lparr>task_graph := g\<rparr>) (w_db w1) = (Inr x, d)"
      using d(1) by (simp add: pre_assign_task_graph_def)
    have k: "keeps_task (\<lambda>v. v\<lparr>task_graph := g\<rparr>)" by simp
    have P: "\<And>v. ?P v \<Longrightarrow> task_id v = task_id t" by simp
    note up = update_tasks_correct [OF ok1 k P e]
    have "\<exists>v. lookup_task d (task_id t) = Some v \<and> task_status v = TaskPending \<and> task_graph v = g"
      using up(1) up(3) [of "task_id t"] by auto
    then show ?thesis using known b busy by (simp add: d(2) w1)
  qed
qed

text \<open>When an action has started a run, its parts show how far it came.\<close>

definition starts :: "'a act \<Rightarrow> world \<Rightarrow> bool" where
  "starts m w \<longleftrightarrow> w_runs (snd (m w)) \<noteq> w_runs w"

lemma starts_bindE:
  assumes "starts (bindA m k) w" "\<not> starts m w"
  obtains x w1 where "m w = (Inr x, w1)" "starts (k x) w1"
  using assms by (auto simp: starts_def bindA_def split: prod.splits sum.splits)

lemma starts_guardE:
  assumes "starts (guardA bad e m) w"
  obtains "\<not> bad" "starts m w"
  using assms by (auto simp: starts_def guardA_def failA_def split: if_splits)

lemma starts_simps [simp]:
  "\<not> starts (returnA x) w" "\<not> starts (failA e) w" "\<not> starts (dbA ctx q) w" "\<not> starts (logged q) w"
  by (simp_all add: starts_def returnA_def failA_def)

lemma starts_decode [simp]: "\<not> starts (decode_args env tool names args) w"
  by (simp add: decode_args_def split: option.split)

lemma starts_check [simp]: "\<not> starts (check_work_dir env ctx dir) w"
  by (simp add: check_work_dir_def split: sum.split)

lemma decode_args_Inr:
  "decode_args env tool names args w = (Inr p, w') \<Longrightarrow> unmarshal_strings names args = Some p \<and> w' = w"
  by (simp add: decode_args_def returnA_def failA_def split: option.splits)

lemma check_work_dir_Inr:
  "check_work_dir env ctx dir w = (Inr u, w') \<Longrightarrow> validate_work_dir env dir = Inr () \<and> w' = w"
  by (simp add: check_work_dir_def returnA_def failA_def split: sum.splits)

lemma dbA_get_job_Inr:
  assumes "dbA ctx (get_job jid) w = (Inr j, w')"
  shows "lookup_job (w_db w) jid = Some j \<and> w_db w' = tick (w_db w)"
  using assms by (elim dbA_Inr) (auto dest: get_job_lookup)

text \<open>
  \<open>assign_task\<close> starts a run only for a task that was pending, in a job that is not finished,
  on a loaded graph, with an executor, and in a workspace the guard accepts: under the home
  directory after resolving symbolic links.
\<close>

theorem assign_task_starts_safely:
  assumes "starts (assign_task_tool env args) w"
  shows "\<exists>p t j. unmarshal_strings [''task_id'', ''graph_id''] args = Some p
    \<and> lookup_task (w_db w) (p ''task_id'') = Some t \<and> task_status t = TaskPending
    \<and> lookup_job (w_db w) (task_job t) = Some j \<and> \<not> is_terminal_job_status (job_status j)
    \<and> validate_work_dir env (job_workspace j) = Inr ()
    \<and> te_has_executor env \<and> known_graph env (p ''graph_id'')"
proof -
  obtain p w1 t w2 j w3 w4 u where p: "decode_args env ''assign_task'' [''task_id'', ''graph_id''] args w = (Inr p, w1)"
    and t: "dbA ''getting task'' (get_task (p ''task_id'')) w1 = (Inr t, w2)" "task_status t = TaskPending"
    and j: "dbA ''getting job for workspace'' (get_job (task_job t)) w2 = (Inr j, w3)"
    "\<not> is_terminal_job_status (job_status j)"
    and c: "check_work_dir env ''job workspace validation failed: '' (job_workspace j) w3 = (Inr u, w4)"
    and d: "starts (dispatch_graph_task env t j (p ''graph_id'')) w4"
    using assms unfolding assign_task_tool_def by (elim starts_bindE starts_guardE) auto
  have "te_has_executor env" "known_graph env (p ''graph_id'')"
    using d unfolding dispatch_graph_task_def by (auto elim!: starts_guardE)
  moreover have "lookup_task (w_db w) (p ''task_id'') = Some t" "w_db w2 = tick (w_db w)"
    using dbA_get_task [OF t(1)] decode_args_Inr [OF p] by simp_all
  moreover have "lookup_job (w_db w) (task_job t) = Some j"
    using dbA_get_job_Inr [OF j(1)] calculation by simp
  ultimately show ?thesis
    using decode_args_Inr [OF p] check_work_dir_Inr [OF c] t(2) j(2) by blast
qed

text \<open>
  \<open>create_task\<close> on a finished job is refused, whatever else the call says: no task is added,
  none changes, nothing is started.
\<close>

theorem create_task_refuses_finished_job:
  assumes "unmarshal_strings [''job_id'', ''title'', ''description'', ''graph_id''] args = Some p"
    and "lookup_job (w_db w) (p ''job_id'') = Some j" "is_terminal_job_status (job_status j)"
  shows "\<exists>e w'. create_task_tool env args w = (Inl e, w') \<and> db_tasks (w_db w') = db_tasks (w_db w)
    \<and> w_runs w' = w_runs w"
proof (cases "p ''job_id'' = [] \<or> p ''title'' = []")
  case True
  then show ?thesis
    using assms(1) by (auto simp: create_task_tool_def decode_args_def bindA_def returnA_def guardA_def failA_def)
next
  case False
  obtain r w1 where g: "dbA ''getting job'' (get_job (p ''job_id'')) w = (r, w1)" by fastforce
  have w1: "db_tasks (w_db w1) = db_tasks (w_db w) \<and> w_runs w1 = w_runs w"
    using dbA_get_job [OF g] arg_cong [OF g, of "\<lambda>x. w_runs (snd x)"] by simp
  have "r = Inr j \<or> (\<exists>e. r = Inl e)"
    using g dbA_get_job_Inr [of _ _ w _ w1] assms(2) by (cases r) (auto dest: dbA_get_job_Inr)
  then show ?thesis
    using assms(1,3) False g w1
    by (auto simp: create_task_tool_def decode_args_def bindA_def returnA_def guardA_def failA_def)
qed

section \<open>What the guards leave open\<close>

lemma unmarshal_encode:
  "unmarshal_strings names (encode (JObj (map (\<lambda>(k, v). (k, JStr v)) kvs)))
     = Some (\<lambda>n. string_field n (map (\<lambda>(k, v). (k, JStr v)) kvs) [])"
proof -
  have "parse_json (encode (JObj (map (\<lambda>(k, v). (k, JStr v)) kvs)))
      = Some (JObj (map (\<lambda>(k, v). (k, JStr v)) kvs))"
    by (rule parse_encode [OF wf_string_members])
  then show ?thesis by (auto simp: unmarshal_strings_def string_or_null_def)
qed

definition sample_service :: service_env where
  "sample_service = \<lparr>sv_executor = True, sv_provider = ''p'', sv_model = ''m'',
     sv_task_id = (\<lambda>n. ''s'' @ digits_of n), sv_operator = True\<rparr>"

definition sample_tools :: tools_env where
  "sample_tools = with_service sample_service
     \<lparr>te_has_executor = True, te_catalog = Some [\<lparr>gi_id = ''g'', gi_name = ''G'', gi_description = [], gi_tags = []\<rparr>],
      te_work_dir = ''/home/u/ws'', te_home = Inr ''/home/u'', te_abs = (\<lambda>p. Inr p),
      te_eval_symlinks = (\<lambda>p. Inr p), te_uuid = (\<lambda>n. Inr (''u'' @ digits_of n)),
      te_mkdir = (\<lambda>p. None), te_json_error = (\<lambda>p. ''bad''), te_provider = ''p'', te_model = ''m'',
      te_broadcast = (\<lambda>b w. w)\<rparr>"

definition world_of :: "db \<Rightarrow> world" where
  "world_of d = \<lparr>w_db = d, w_ids = 0, w_runs = [], w_queue = [], w_service_events = [], w_dirs = []\<rparr>"

lemma sample_serial: "serial sample_db"
  by (simp add: serial_code serial_check_def running_def is_running_def sample_db_def new_task_def)

lemma sample_world_ok: "world_ok (world_of sample_db)"
  by (simp add: world_ok_def world_of_def sample_db_ok sample_serial)

definition call_args :: "(string \<times> string) list \<Rightarrow> string" where
  "call_args kvs = encode (JObj (map (\<lambda>(k, v). (k, JStr v)) kvs))"

lemmas sample_simps =
  sample_tools_def sample_service_def with_service_def world_of_def sample_db_def sample_job_def new_task_def

definition outside_world :: world where
  "outside_world = world_of (sample_db\<lparr>db_jobs := [sample_job\<lparr>job_workspace := ''/etc''\<rparr>]\<rparr>)"

definition finished_world :: world where
  "finished_world = world_of (sample_db\<lparr>db_jobs := [sample_job\<lparr>job_status := JobCompleted\<rparr>]\<rparr>)"

lemma other_worlds_ok: "world_ok outside_world" "world_ok finished_world"
  using sample_db_ok sample_serial
  by (simp_all add: world_ok_def outside_world_def finished_world_def world_of_def db_ok_def serial_def
      running_def sample_db_def sample_job_def)

text \<open>
  Unlike \<open>assign_task\<close>, \<open>create_task\<close> with a graph does not check the job's workspace: for a
  job row whose workspace lies outside the home directory it starts a run there.
\<close>

theorem create_task_skips_workspace_guard:
  "\<exists>w args rq. world_ok w \<and> w_runs w = []
     \<and> w_runs (snd (create_task_tool sample_tools args w)) = [rq]
     \<and> \<not> is_ok (validate_work_dir sample_tools (rq_workspace rq))"
proof -
  let ?args = "call_args [(''job_id'', ''j1''), (''title'', ''x''), (''graph_id'', ''g'')]"
  have "map rq_workspace (w_runs (snd (create_task_tool sample_tools ?args outside_world))) = [''/etc'']"
    by code_simp
  then obtain rq where "w_runs (snd (create_task_tool sample_tools ?args outside_world)) = [rq]"
    "rq_workspace rq = ''/etc''" by auto
  moreover have "\<not> is_ok (validate_work_dir sample_tools ''/etc'')" by code_simp
  moreover have "w_runs outside_world = []" by code_simp
  ultimately show ?thesis using other_worlds_ok(1) by metis
qed

text \<open>
  Unlike \<open>create_task\<close> and \<open>assign_task\<close>, \<open>retry_task\<close> does not ask whether the job is finished:
  a failed task of a completed job is set in progress and run again.
\<close>

theorem retry_task_ignores_finished_job:
  "\<exists>w args j t. world_ok w \<and> lookup_job (w_db w) ''j1'' = Some j \<and> is_terminal_job_status (job_status j)
     \<and> lookup_task (w_db (snd (retry_task_tool sample_tools args w))) ''t3'' = Some t
     \<and> task_job t = ''j1'' \<and> task_status t = TaskInProgress
     \<and> map rq_task (w_runs (snd (retry_task_tool sample_tools args w))) = [''t3'']"
proof -
  let ?w' = "snd (retry_task_tool sample_tools (call_args [(''task_id'', ''t3'')]) finished_world)"
  have "map_option (\<lambda>t. (task_job t, task_status t)) (lookup_task (w_db ?w') ''t3'') = Some (''j1'', TaskInProgress)
     \<and> map rq_task (w_runs ?w') = [''t3'']"
    by code_simp
  moreover have "map_option (\<lambda>j. is_terminal_job_status (job_status j)) (lookup_job (w_db finished_world) ''j1'') = Some True"
    by code_simp
  ultimately show ?thesis using other_worlds_ok(2) by fastforce
qed

text \<open>
  The gate and the assignment are separate statements, and the tools (on the operator's
  goroutine) and the decomposition service (on an executor's) pass it independently: two
  dispatches that both looked before either assigned leave two real tasks of one job in
  progress.
\<close>

theorem gate_is_not_atomic:
  "\<exists>d t1 t2 ts1 ts2. db_ok d \<and> serial d
     \<and> fst (list_tasks_for_job ''j1'' d) = Inr ts1 \<and> gate_open ts1 t1
     \<and> fst (list_tasks_for_job ''j1'' d) = Inr ts2 \<and> gate_open ts2 t2
     \<and> \<not> serial (snd (assign_task_to_graph t2 ''g'' (snd (assign_task_to_graph t1 ''g'' d))))"
proof -
  let ?d = "sample_db\<lparr>db_tasks := [new_task ''t1'' ''j1'' ''first'' TaskPending,
      new_task ''t2'' ''j1'' ''second'' TaskPending, new_task ''t3'' ''j1'' ''third'' TaskFailed]\<rparr>"
  have "db_ok ?d" by (simp add: db_ok_def sample_db_def sample_job_def new_task_def)
  moreover have "serial ?d" by code_simp
  moreover have "list_all (\<lambda>t. task_status t \<noteq> TaskInProgress) (case fst (list_tasks_for_job ''j1'' ?d) of Inr ts \<Rightarrow> ts | Inl e \<Rightarrow> [])
      \<and> is_ok (fst (list_tasks_for_job ''j1'' ?d))"
    by code_simp
  then obtain ts where "fst (list_tasks_for_job ''j1'' ?d) = Inr ts" "\<forall>t\<in>set ts. task_status t \<noteq> TaskInProgress"
    by (cases "fst (list_tasks_for_job ''j1'' ?d)") (auto simp: list_all_iff)
  moreover from this have "gate_open ts tid" for tid by (simp add: gate_open_def)
  moreover have "\<not> serial (snd (assign_task_to_graph ''t2'' ''g'' (snd (assign_task_to_graph ''t1'' ''g'' ?d))))"
    by code_simp
  ultimately show ?thesis by metis
qed

section \<open>The statements on concrete calls\<close>

definition plain_tools :: tools_env where
  "plain_tools = sample_tools\<lparr>te_broadcast := (\<lambda>b w. w)\<rparr>"

lemma sample_tools_service: "with_service sample_service plain_tools = sample_tools"
  by (simp add: plain_tools_def sample_tools_def with_service_def)

lemma tools_keep_serial_witness:
  "world_ok (snd (system_execute (with_service sample_service plain_tools) ''retry_task''
     (call_args [(''task_id'', ''t3'')]) (world_of sample_db)))"
  by (rule tools_keep_serial [OF sample_world_ok])

lemma dispatch_graph_task_witness:
  "\<exists>t w'. lookup_task sample_db ''t2'' = Some t
     \<and> snd (dispatch_graph_task (with_service sample_service plain_tools) t sample_job ''g'' (world_of sample_db)) = w'
     \<and> map rq_task (w_runs w') = [''t2'']"
proof -
  let ?t = "(new_task ''t2'' ''j1'' ''second'' TaskPending)\<lparr>task_graph := ''g'', task_order := 1\<rparr>"
  have t: "lookup_task sample_db ''t2'' = Some ?t"
    by (simp add: lookup_task_def sample_db_def new_task_def)
  have "is_ok (fst (dispatch_graph_task (with_service sample_service plain_tools) ?t sample_job ''g'' (world_of sample_db)))"
    by code_simp
  then obtain msg w' where r: "dispatch_graph_task (with_service sample_service plain_tools) ?t sample_job ''g''
      (world_of sample_db) = (Inr msg, w')"
    by (cases "dispatch_graph_task (with_service sample_service plain_tools) ?t sample_job ''g'' (world_of sample_db)")
      (auto simp: is_ok_iff)
  have idle: "\<not> (\<exists>u\<in>set (db_tasks (w_db (world_of sample_db))). task_job u = task_job ?t \<and> task_id u \<noteq> task_id ?t
      \<and> task_status u = TaskInProgress)"
    by (simp add: world_of_def sample_db_def new_task_def)
  have "\<exists>rq. w_runs w' = w_runs (world_of sample_db) @ [rq] \<and> rq_task rq = task_id ?t"
    using dispatch_graph_task_correct [OF sample_world_ok r] unfolding if_not_P [OF idle] by blast
  then have "map rq_task (w_runs w') = [''t2'']" by (auto simp: world_of_def new_task_def)
  then show ?thesis using t r by auto
qed

lemma assign_task_starts_witness:
  "\<exists>p t. unmarshal_strings [''task_id'', ''graph_id''] (call_args [(''task_id'', ''t2''), (''graph_id'', ''g'')]) = Some p
     \<and> lookup_task sample_db (p ''task_id'') = Some t \<and> task_status t = TaskPending"
proof -
  have "w_runs (snd (assign_task_tool sample_tools (call_args [(''task_id'', ''t2''), (''graph_id'', ''g'')])
      (world_of sample_db))) \<noteq> []"
    by code_simp
  then have "starts (assign_task_tool sample_tools (call_args [(''task_id'', ''t2''), (''graph_id'', ''g'')]))
      (world_of sample_db)"
    by (simp add: starts_def world_of_def)
  from assign_task_starts_safely [OF this] show ?thesis by (auto simp: world_of_def)
qed

lemma create_task_refuses_witness:
  "\<exists>e w'. create_task_tool sample_tools (call_args [(''job_id'', ''j1''), (''title'', ''x'')]) finished_world = (Inl e, w')
     \<and> w_runs w' = []"
proof -
  let ?ms = "[(''job_id'', ''j1''), (''title'', ''x'')]"
  have u: "unmarshal_strings [''job_id'', ''title'', ''description'', ''graph_id''] (call_args ?ms)
      = Some (\<lambda>n. string_field n (map (\<lambda>(k, v). (k, JStr v)) ?ms) [])"
    unfolding call_args_def by (rule unmarshal_encode)
  have j: "string_field ''job_id'' (map (\<lambda>(k, v). (k, JStr v)) ?ms) [] = ''j1''" by code_simp
  have "lookup_job (w_db finished_world) ''j1'' = Some (sample_job\<lparr>job_status := JobCompleted\<rparr>)"
    by (simp add: lookup_job_def finished_world_def world_of_def sample_db_def sample_job_def)
  then have "\<exists>e w'. create_task_tool sample_tools (call_args ?ms) finished_world = (Inl e, w')
      \<and> db_tasks (w_db w') = db_tasks (w_db finished_world) \<and> w_runs w' = w_runs finished_world"
    by (intro create_task_refuses_finished_job [OF u]) (simp_all only: j, simp)
  then show ?thesis by (auto simp: finished_world_def world_of_def)
qed

end
