(* ===== verification/Workspace.thy ===== *)
theory Workspace
  imports SystemTools "HOL-Library.Word"
begin

text \<open>
  \<open>internal/operator/workspace_tools.go\<close>: the tool \<open>setup_workspace\<close>, which clones repositories
  into a job's workspace, and the address filter it uses, \<open>IsPrivateIP\<close> of
  \<open>internal/httputil/ssrf.go\<close>. URL parsing, name resolution and \<open>git\<close> are parameters.
\<close>

unbundle bit_operations_syntax

section \<open>Private networks\<close>

text \<open>An address is its 4 or 16 bytes; \<open>To4\<close> also accepts an IPv4 address mapped into IPv6.\<close>

type_synonym ip = "8 word list"

definition mapped_prefix :: ip where
  "mapped_prefix = replicate 10 0 @ [0xFF, 0xFF]"

definition to4 :: "ip \<Rightarrow> ip option" where
  "to4 ip =
     (if length ip = 4 then Some ip
      else if length ip = 16 \<and> take 12 ip = mapped_prefix then Some (drop 12 ip)
      else None)"

text \<open>Byte \<open>i\<close> of a mask of \<open>ones\<close> leading one bits.\<close>

definition mask_byte :: "nat \<Rightarrow> nat \<Rightarrow> 8 word" where
  "mask_byte ones i = (let k = min 8 (ones - 8 * i) in push_bit (8 - k) (mask k))"

definition cidr_contains :: "ip \<times> nat \<Rightarrow> ip \<Rightarrow> bool" where
  "cidr_contains net ip0 =
     (let ip = (case to4 ip0 of Some x \<Rightarrow> x | None \<Rightarrow> ip0); nn = fst net
      in length ip = length nn
         \<and> list_all (\<lambda>i. nn ! i AND mask_byte (snd net) i = ip ! i AND mask_byte (snd net) i)
             [0..<length nn])"

definition private_networks :: "(ip \<times> nat) list" where
  "private_networks =
     [([127, 0, 0, 0], 8), ([10, 0, 0, 0], 8), ([172, 16, 0, 0], 12), ([192, 168, 0, 0], 16),
      ([169, 254, 0, 0], 16),
      (replicate 15 0 @ [1], 128), (0xFC # replicate 15 0, 7), (0xFE # 0x80 # replicate 14 0, 10)]"

definition is_private_ip :: "ip \<Rightarrow> bool" where
  "is_private_ip ip = list_ex (\<lambda>net. cidr_contains net ip) private_networks"

section \<open>The tool\<close>

record repo_spec =
  rs_url :: string
  rs_name :: string

record clone_env =
  cl_url :: "string \<Rightarrow> string + (string \<times> string)"       \<comment> \<open>scheme and host name\<close>
  cl_lookup :: "string \<Rightarrow> string + ip list"
  cl_ip_text :: "ip \<Rightarrow> string"
  cl_git :: "string \<Rightarrow> string \<Rightarrow> string \<Rightarrow> string option"   \<comment> \<open>directory, URL, name: the error text\<close>

definition strip_slashes :: "string \<Rightarrow> string" where
  "strip_slashes s = rev (dropWhile (\<lambda>c. c = CHR ''/'') (rev s))"

definition path_base :: "string \<Rightarrow> string" where
  "path_base p =
     (if p = [] then ''.''
      else let b = last (split_byte CHR ''/'' (strip_slashes p)) in if b = [] then ''/'' else b)"

definition repo_name :: "string \<Rightarrow> string \<Rightarrow> string" where
  "repo_name url name =
     (if name \<noteq> [] then name
      else let b = trim_suffix (path_base url) ''.git'' in if b = [] \<or> b = ''.'' then ''repo'' else b)"

definition name_char :: "char \<Rightarrow> bool" where
  "name_char c \<longleftrightarrow>
     (let n = (of_char c :: nat)
      in 97 \<le> n \<and> n \<le> 122 \<or> 65 \<le> n \<and> n \<le> 90 \<or> 48 \<le> n \<and> n \<le> 57 \<or> c \<in> set ''._-'')"

definition valid_repo_name :: "string \<Rightarrow> bool" where
  "valid_repo_name s \<longleftrightarrow> s \<noteq> [] \<and> list_all name_char s"

definition allowed_git_schemes :: "string list" where
  "allowed_git_schemes = [''https'', ''http'', ''ssh'', ''git'']"

definition quoted_dash :: string where "quoted_dash = [CHR 0x27, CHR 0x2D, CHR 0x27]"

definition validate_git_clone_args :: "clone_env \<Rightarrow> string \<Rightarrow> string \<Rightarrow> string option" where
  "validate_git_clone_args ce url name =
     (if has_prefix url ''-'' then Some (''invalid git URL: must not start with '' @ quoted_dash)
      else if has_prefix name ''-'' then Some (''invalid repo name: must not start with '' @ quoted_dash)
      else case cl_url ce url of
        Inl e \<Rightarrow> Some (''invalid git URL: '' @ e)
      | Inr (scheme, host) \<Rightarrow>
          if scheme \<notin> set allowed_git_schemes
          then Some (''invalid git URL scheme '' @ fmt_q scheme @ '': only https, http, ssh, and git are allowed'')
          else if \<not> valid_repo_name name
          then Some (''invalid repo name '' @ fmt_q name
            @ '': must contain only alphanumeric characters, dots, underscores, and hyphens'')
          else None)"

definition validate_clone_host :: "clone_env \<Rightarrow> string \<Rightarrow> string option" where
  "validate_clone_host ce url =
     (case cl_url ce url of
        Inl e \<Rightarrow> Some (''invalid git URL: '' @ e)
      | Inr (scheme, host) \<Rightarrow>
          if scheme \<notin> {''http'', ''https'', ''git''} then None
          else if host = [] then Some ''invalid git URL: missing host''
          else case cl_lookup ce host of
            Inl e \<Rightarrow> Some (''resolving clone host '' @ fmt_q host @ '': '' @ e)
          | Inr ips \<Rightarrow>
              (case find is_private_ip ips of
                 None \<Rightarrow> None
               | Some ip \<Rightarrow> Some (''clone host '' @ fmt_q host @ '' resolves to private/reserved IP ''
                   @ cl_ip_text ce ip @ '': cloning over '' @ scheme
                   @ '' from private hosts is blocked (use ssh for internal repos)'')))"

text \<open>One repository: its directory name and the error, if any.\<close>

definition clone_repo :: "clone_env \<Rightarrow> string \<Rightarrow> repo_spec \<Rightarrow> string \<times> string option" where
  "clone_repo ce dir r =
     (let name = repo_name (rs_url r) (rs_name r)
      in (name, case validate_git_clone_args ce (rs_url r) name of
                  Some e \<Rightarrow> Some e
                | None \<Rightarrow> (case validate_clone_host ce (rs_url r) of
                             Some e \<Rightarrow> Some e
                           | None \<Rightarrow> cl_git ce dir (rs_url r) name)))"

definition setup_summary :: "string \<Rightarrow> (string \<times> string option) list \<Rightarrow> string" where
  "setup_summary dir outcomes =
     encode (JObj
       [(''cloned'', JArr (map (\<lambda>r. JStr (fst r)) (filter (\<lambda>r. snd r = None) outcomes))),
        (''failed'', JArr (map (\<lambda>r. JObj [(''name'', JStr (fst r)), (''error'', JStr (the (snd r)))])
                        (filter (\<lambda>r. snd r \<noteq> None) outcomes))),
        (''workspace'', JStr dir)])"

definition dec_repo :: "json \<Rightarrow> repo_spec option" where
  "dec_repo v =
     (case v of
        JNull \<Rightarrow> Some \<lparr>rs_url = [], rs_name = []\<rparr>
      | JObj ms \<Rightarrow>
          (case (dec_string ''url'' ms, dec_string ''name'' ms) of
             (Some u, Some n) \<Rightarrow> Some \<lparr>rs_url = u, rs_name = n\<rparr> | _ \<Rightarrow> None)
      | _ \<Rightarrow> None)"

definition decode_setup :: "string \<Rightarrow> (string \<times> repo_spec list) option" where
  "decode_setup args =
     (case parse_json args of
        Some JNull \<Rightarrow> Some ([], [])
      | Some (JObj ms) \<Rightarrow>
          (case (dec_string ''job_id'' ms, dec_list dec_repo (field_values ''repos'' ms)) of
             (Some j, Some rs) \<Rightarrow> Some (j, rs) | _ \<Rightarrow> None)
      | _ \<Rightarrow> None)"

definition setup_workspace_tool :: "tools_env \<Rightarrow> clone_env \<Rightarrow> string \<Rightarrow> string act" where
  "setup_workspace_tool env ce args =
     (case decode_setup args of
        None \<Rightarrow> failA (''parsing setup_workspace args: '' @ te_json_error env args)
      | Some (jid, repos) \<Rightarrow>
          guardA (jid = []) ''job_id is required'' (
          guardA (repos = []) ''repos is required and must not be empty'' (
          bindA (dbA (''getting job '' @ fmt_q jid) (get_job jid)) (\<lambda>j.
          bindA (dbA ''setting job status to setting_up'' (update_job_status jid JobSettingUp)) (\<lambda>_.
          returnA (setup_summary (job_workspace j) (map (clone_repo ce (job_workspace j)) repos)))))))"

lemma okA_setup_workspace [ok_rules]: "world_ok w \<Longrightarrow> okA (setup_workspace_tool env ce args) w"
  unfolding setup_workspace_tool_def
  by (auto split: option.split prod.split intro!: okA_bind okA_queries ok_rules)

section \<open>Which addresses are private\<close>

lemma mask_bytes:
  "mask_byte 8 0 = -1" "mask_byte 8 (Suc 0) = 0" "mask_byte 8 2 = 0" "mask_byte 8 3 = 0"
  "mask_byte 12 0 = -1" "mask_byte 12 (Suc 0) = 0xF0" "mask_byte 12 2 = 0" "mask_byte 12 3 = 0"
  "mask_byte 16 0 = -1" "mask_byte 16 (Suc 0) = -1" "mask_byte 16 2 = 0" "mask_byte 16 3 = 0"
  by (simp_all add: mask_byte_def Let_def mask_eq_exp_minus_1)

lemma byte_cases: "(\<forall>n\<in>set [0..<256]. P (word_of_nat n)) \<Longrightarrow> P (b :: 8 word)"
proof -
  assume *: "\<forall>n\<in>set [0..<256]. P (word_of_nat n)"
  have "unat b < 2 ^ LENGTH(8)" by (rule unsigned_less)
  then have "unat b \<in> set [0..<256]" by simp
  then have "P (word_of_nat (unat b))" using * by (rule bspec [rotated])
  then show ?thesis by simp
qed

lemma second_nibble: "(16 :: 8 word) = b AND 0xF0 \<longleftrightarrow> 16 \<le> b \<and> b \<le> 31"
  by (rule byte_cases [of _ b]) code_simp

lemma cidr_v4:
  "cidr_contains ([w, x, y, z], k) [a, b, c, d] \<longleftrightarrow>
     w AND mask_byte k 0 = a AND mask_byte k 0 \<and> x AND mask_byte k 1 = b AND mask_byte k 1
     \<and> y AND mask_byte k 2 = c AND mask_byte k 2 \<and> z AND mask_byte k 3 = d AND mask_byte k 3"
  by (simp add: cidr_contains_def to4_def Let_def upt_rec numeral_eq_Suc)

lemma cidr_v6_of_v4: "length (fst net) \<noteq> 4 \<Longrightarrow> \<not> cidr_contains net [a, b, c, d]"
  by (simp add: cidr_contains_def to4_def Let_def)

definition private_v4 :: "8 word \<Rightarrow> 8 word \<Rightarrow> bool" where
  "private_v4 a b \<longleftrightarrow> a = 127 \<or> a = 10 \<or> a = 172 \<and> 16 \<le> b \<and> b \<le> 31 \<or> a = 192 \<and> b = 168 \<or> a = 169 \<and> b = 254"

lemma private_v4_iff: "is_private_ip [a, b, c, d] \<longleftrightarrow> private_v4 a b"
  unfolding is_private_ip_def private_networks_def private_v4_def
  by (simp add: cidr_v4 cidr_v6_of_v4 mask_bytes second_nibble eq_commute [of _ a] eq_commute [of _ b])

lemma private_mapped: "is_private_ip (mapped_prefix @ [a, b, c, d]) = is_private_ip [a,b,c,d]"
proof -
  have "to4 (mapped_prefix @ [a, b, c, d]) = to4 [a, b, c, d]" by (simp add: to4_def mapped_prefix_def)
  then have "cidr_contains net (mapped_prefix @ [a, b, c, d]) = cidr_contains net [a, b, c, d]" for net
    by (simp add: cidr_contains_def to4_def)
  then show ?thesis by (simp add: is_private_ip_def)
qed

lemma mask_bytes_v6:
  "i < 16 \<Longrightarrow> mask_byte 128 i = -1"
  "mask_byte 7 0 = 0xFE" "mask_byte 10 0 = -1" "mask_byte 10 (Suc 0) = 0xC0"
  "2 \<le> i \<Longrightarrow> mask_byte 10 i = 0" "1 \<le> i \<Longrightarrow> mask_byte 7 i = 0"
  by (simp_all add: mask_byte_def Let_def mask_eq_exp_minus_1)


lemma list_all_upt_first:
  "(\<And>i. k \<le> i \<Longrightarrow> i < n \<Longrightarrow> P i) \<Longrightarrow> k \<le> n \<Longrightarrow> list_all P [0..<n] \<longleftrightarrow> list_all P [0..<k]"
  by (auto simp: list_all_iff)

lemma private_v6_iff:
  assumes "length ip = 16" "take 12 ip \<noteq> mapped_prefix"
  shows "is_private_ip ip \<longleftrightarrow> ip = replicate 15 0 @ [1] \<or> ip ! 0 AND 0xFE = 0xFC
     \<or> ip ! 0 = 0xFE \<and> ip ! 1 AND 0xC0 = 0x80"
proof -
  have t: "to4 ip = None" using assms by (simp add: to4_def)
  have c: "cidr_contains (nn, k) ip \<longleftrightarrow> list_all (\<lambda>i. nn ! i AND mask_byte k i = ip ! i AND mask_byte k i) [0..<16]"
    if "length nn = 16" for nn k using assms(1) that by (simp add: cidr_contains_def t Let_def)
  have "cidr_contains (replicate 15 0 @ [1], 128) ip \<longleftrightarrow> ip = replicate 15 0 @ [1]"
    using assms(1) by (auto simp: c list_all_iff mask_bytes_v6 list_eq_iff_nth_eq)
  moreover have "cidr_contains (0xFC # replicate 15 0, 7) ip \<longleftrightarrow> ip ! 0 AND 0xFE = 0xFC"
    by (subst c, simp, subst list_all_upt_first [where k = 1]) (auto simp: mask_bytes_v6)
  moreover have "cidr_contains (0xFE # 0x80 # replicate 14 0, 10) ip \<longleftrightarrow> ip ! 0 = 0xFE \<and> ip ! 1 AND 0xC0 = 0x80"
    by (subst c, simp, subst list_all_upt_first [where k = 2]) (auto simp: mask_bytes_v6 upt_rec)
  moreover have "\<not> cidr_contains net ip" if "length (fst net) = 4" for net
    using assms(1) that by (simp add: cidr_contains_def t Let_def)
  ultimately show ?thesis by (simp add: is_private_ip_def private_networks_def)
qed

section \<open>Claims\<close>

text \<open>
  An IPv4 address, plain or mapped into IPv6, is private exactly when it lies in one of the
  five listed ranges; any other 16-byte address exactly when it is the loopback, unique local or
  link-local.
\<close>

theorem is_private_ip_correct:
  assumes "length ip = 16" "take 12 ip \<noteq> mapped_prefix"
  shows "is_private_ip [a, b, c, d] = private_v4 a b
    \<and> is_private_ip (mapped_prefix @ [a, b, c, d]) = private_v4 a b
    \<and> is_private_ip ip = (ip = replicate 15 0 @ [1] \<or> ip ! 0 AND 0xFE = 0xFC
         \<or> ip ! 0 = 0xFE \<and> ip ! 1 AND 0xC0 = 0x80)"
  using private_v6_iff [OF assms] by (simp add: private_v4_iff private_mapped)

lemma is_private_ip_witness:
  "is_private_ip [172, 31, 0, 1] \<and> \<not> is_private_ip [172, 32, 0, 1] \<and> is_private_ip (0xFE # 0x80 # replicate 14 0)"
proof -
  have "length (0xFE # 0x80 # replicate 14 0 :: ip) = 16" by simp
  moreover have "take 12 (0xFE # 0x80 # replicate 14 0) \<noteq> mapped_prefix" by code_simp
  ultimately show ?thesis
    using is_private_ip_correct [of "0xFE # 0x80 # replicate 14 0" 172 31 0 1]
      is_private_ip_correct [of "0xFE # 0x80 # replicate 14 0" 172 32 0 1]
    by (simp add: private_v4_def)
qed

text \<open>
  C38. The answer of \<open>git\<close> for a repository matters only if the URL has an allowed scheme, neither
  argument starts with a dash, the directory name is made of safe characters, and for every
  scheme but \<open>ssh\<close> the host resolved to addresses none of which is private. So \<open>git\<close> is not run
  otherwise.
\<close>

theorem git_runs_only_when_checked:
  assumes "clone_repo (ce\<lparr>cl_git := g\<rparr>) dir r \<noteq> clone_repo (ce\<lparr>cl_git := g'\<rparr>) dir r"
  shows "\<exists>scheme host. cl_url ce (rs_url r) = Inr (scheme, host)
    \<and> scheme \<in> set allowed_git_schemes
    \<and> \<not> has_prefix (rs_url r) ''-'' \<and> \<not> has_prefix (repo_name (rs_url r) (rs_name r)) ''-''
    \<and> valid_repo_name (repo_name (rs_url r) (rs_name r))
    \<and> (scheme = ''ssh'' \<or> host \<noteq> [] \<and> (\<exists>ips. cl_lookup ce host = Inr ips \<and> \<not> list_ex is_private_ip ips))"
proof -
  let ?n = "repo_name (rs_url r) (rs_name r)"
  have v: "validate_git_clone_args (ce\<lparr>cl_git := k\<rparr>) u n = validate_git_clone_args ce u n"
    "validate_clone_host (ce\<lparr>cl_git := k\<rparr>) u = validate_clone_host ce u" for k u n
    by (simp_all add: validate_git_clone_args_def validate_clone_host_def split: sum.split option.split)
  have a: "validate_git_clone_args ce (rs_url r) ?n = None" and h: "validate_clone_host ce (rs_url r) = None"
    using assms by (auto simp: clone_repo_def Let_def v split: option.splits)
  from a obtain scheme host where u: "cl_url ce (rs_url r) = Inr (scheme, host)"
    "scheme \<in> set allowed_git_schemes" "\<not> has_prefix (rs_url r) ''-''" "\<not> has_prefix ?n ''-''" "valid_repo_name ?n"
    by (auto simp: validate_git_clone_args_def split: if_splits sum.splits)
  moreover have "scheme = ''ssh'' \<or> host \<noteq> [] \<and> (\<exists>ips. cl_lookup ce host = Inr ips \<and> \<not> list_ex is_private_ip ips)"
    using h u(1,2)
    by (auto simp: validate_clone_host_def allowed_git_schemes_def list_ex_iff find_None_iff
        split: if_splits sum.splits option.splits)
  ultimately show ?thesis by blast
qed

definition sample_clone :: clone_env where
  "sample_clone = \<lparr>cl_url = (\<lambda>u. Inr (''https'', ''example.com'')),
     cl_lookup = (\<lambda>h. Inr [[93, 184, 216, 34]]), cl_ip_text = (\<lambda>ip. ''ip''),
     cl_git = (\<lambda>d u n. None)\<rparr>"

lemma git_runs_witness:
  "\<exists>ips. cl_lookup sample_clone ''example.com'' = Inr ips \<and> \<not> list_ex is_private_ip ips"
proof -
  let ?r = "\<lparr>rs_url = ''https://example.com/a.git'', rs_name = []\<rparr>"
  have "clone_repo (sample_clone\<lparr>cl_git := (\<lambda>d u n. None)\<rparr>) ''/w'' ?r
      \<noteq> clone_repo (sample_clone\<lparr>cl_git := (\<lambda>d u n. Some ''no'')\<rparr>) ''/w'' ?r"
    by code_simp
  from git_runs_only_when_checked [OF this] show ?thesis by (auto simp: sample_clone_def)
qed

text \<open>
  The unspecified address \<open>0.0.0.0\<close>, which names the local host, is in none of the listed
  networks: a name that resolves to it passes the check.
\<close>

theorem unspecified_address_passes:
  "\<not> is_private_ip [0, 0, 0, 0] \<and> \<not> is_private_ip (replicate 16 0)
     \<and> validate_clone_host (sample_clone\<lparr>cl_lookup := (\<lambda>h. Inr [[0, 0, 0, 0]])\<rparr>) ''http://h/r'' = None"
proof -
  have z: "\<not> is_private_ip [0, 0, 0, 0]" by (simp add: private_v4_iff private_v4_def)
  have "take 12 (replicate 16 0) \<noteq> mapped_prefix" by code_simp
  moreover have "replicate 16 0 \<noteq> (replicate 15 0 @ [1] :: ip)" by code_simp
  ultimately have "\<not> is_private_ip (replicate 16 0)"
    by (simp add: private_v6_iff nth_replicate)
  with z show ?thesis by (simp add: validate_clone_host_def sample_clone_def)
qed

lemma find_update_rows:
  assumes "\<And>x. key (f x) = key x"
  shows "find (\<lambda>x. key x = k) (update_rows P f xs) = map_option (\<lambda>x. if P x then f x else x) (find (\<lambda>x. key x = k) xs)"
  by (induction xs) (auto simp: update_rows_def assms)

lemma update_job_status_lookup:
  assumes "update_job_status jid st d = (Inr u, d')"
  shows "\<exists>j. lookup_job d jid = Some j"
    "lookup_job d' k = map_option (\<lambda>j. if job_id j = jid then j\<lparr>job_status := st, job_updated := db_now (tick d)\<rparr> else j)
       (lookup_job d k)"
proof -
  have e: "check_affected ''job'' jid (\<lambda>j. job_id j = jid) (db_jobs d) = Inr u"
    "d' = (tick d)\<lparr>db_jobs := update_rows (\<lambda>j. job_id j = jid)
        (\<lambda>j. j\<lparr>job_status := st, job_updated := db_now (tick d)\<rparr>) (db_jobs d)\<rparr>"
    using assms unfolding update_job_status_def by (auto elim!: sql_cases)
  show "\<exists>j. lookup_job d jid = Some j"
    using e(1) find_None_iff [of "\<lambda>j. job_id j = jid" "db_jobs d"]
    by (cases "lookup_job d jid") (auto simp: check_affected_def lookup_job_def split: if_splits)
  show "lookup_job d' k = map_option (\<lambda>j. if job_id j = jid then j\<lparr>job_status := st, job_updated := db_now (tick d)\<rparr> else j)
       (lookup_job d k)"
    unfolding lookup_job_def e(2) by (simp add: find_update_rows)
qed

text \<open>
  A call of \<open>setup_workspace\<close> that succeeds, whatever status the job had and whatever was
  cloned, leaves the job setting up; it starts nothing and touches no task. Nothing in the
  program moves a job out of this status but cancelling and completing it.
\<close>

theorem setup_workspace_leaves_setting_up:
  assumes "setup_workspace_tool env ce args w = (Inr msg, w')"
  shows "\<exists>jid repos j j'. decode_setup args = Some (jid, repos) \<and> repos \<noteq> []
    \<and> lookup_job (w_db w) jid = Some j \<and> lookup_job (w_db w') jid = Some j'
    \<and> j' = j\<lparr>job_status := JobSettingUp, job_updated := job_updated j'\<rparr>
    \<and> msg = setup_summary (job_workspace j) (map (clone_repo ce (job_workspace j)) repos)
    \<and> db_tasks (w_db w') = db_tasks (w_db w) \<and> w_runs w' = w_runs w \<and> w_queue w' = w_queue w"
proof -
  obtain jid repos j w1 u where d: "decode_setup args = Some (jid, repos)" "repos \<noteq> []"
    and g: "dbA (''getting job '' @ fmt_q jid) (get_job jid) w = (Inr j, w1)"
    and s: "dbA ''setting job status to setting_up'' (update_job_status jid JobSettingUp) w1 = (Inr u, w')"
    and m: "msg = setup_summary (job_workspace j) (map (clone_repo ce (job_workspace j)) repos)"
    using assms unfolding setup_workspace_tool_def
    by (auto elim!: guardA_Inr bindA_Inr simp: failA_def returnA_def split: option.splits)
  obtain d' where d': "update_job_status jid JobSettingUp (w_db w1) = (Inr u, d')" "w' = w1\<lparr>w_db := d'\<rparr>"
    using s by (rule dbA_Inr)
  have w1: "w1 = w\<lparr>w_db := tick (w_db w)\<rparr>" and j: "lookup_job (w_db w) jid = Some j"
    using dbA_get_job_Inr [OF g] g by (auto elim!: dbA_Inr)
  have i: "job_id j = jid" using j by (auto simp: lookup_job_def find_Some_iff)
  have "db_tasks d' = db_tasks (w_db w1)"
    using arg_cong [OF d'(1), of "\<lambda>x. db_tasks (snd x)"] by simp
  moreover have "lookup_job d' jid = Some (j\<lparr>job_status := JobSettingUp, job_updated := db_now (tick (w_db w1))\<rparr>)"
    using update_job_status_lookup(2) [OF d'(1), of jid] j i by (simp add: w1)
  ultimately show ?thesis using d j m by (simp add: d'(2) w1)
qed

lemma setup_workspace_witness:
  "\<exists>j'. lookup_job (w_db (snd (setup_workspace_tool sample_tools sample_clone
      (encode (JObj [(''job_id'', JStr ''j1''), (''repos'', JArr [JObj [(''url'', JStr ''https://x/y'')]])]))
      finished_world))) ''j1'' = Some j' \<and> job_status j' = JobSettingUp"
proof -
  let ?a = "encode (JObj [(''job_id'', JStr ''j1''), (''repos'', JArr [JObj [(''url'', JStr ''https://x/y'')]])])"
  have "is_ok (fst (setup_workspace_tool sample_tools sample_clone ?a finished_world))
     \<and> map_option fst (decode_setup ?a) = Some ''j1''"
    by code_simp
  then obtain msg w' where r: "setup_workspace_tool sample_tools sample_clone ?a finished_world = (Inr msg, w')"
    and d: "\<And>r. decode_setup ?a = Some r \<Longrightarrow> fst r = ''j1''"
    by (cases "setup_workspace_tool sample_tools sample_clone ?a finished_world") (auto simp: is_ok_iff)
  then have s: "snd (setup_workspace_tool sample_tools sample_clone ?a finished_world) = w'" by simp
  obtain jid repos j j' where "decode_setup ?a = Some (jid, repos)"
    and j: "lookup_job (w_db w') jid = Some j'" "j' = j\<lparr>job_status := JobSettingUp, job_updated := job_updated j'\<rparr>"
    using setup_workspace_leaves_setting_up [OF r] by blast
  then have "jid = ''j1''" using d by fastforce
  moreover have "job_status j' = JobSettingUp" by (subst j(2)) simp
  ultimately show ?thesis using j(1) unfolding s by blast
qed

end
