(* ===== verification/History.thy ===== *)
theory History
  imports GoText
begin

text \<open>
  The message-history primitives of \<open>internal/contextwindow/history.go\<close>, the crash-tail trim
  of \<open>internal/operator/operator.go\<close> and the argument repair of
  \<open>internal/provider/provider.go\<close>. The lemmas show which cuts of a conversation keep it
  acceptable to a model endpoint: every tool result answers a call of the round it follows,
  and every call of a closed round has its result.
\<close>

section \<open>Messages\<close>

record tool_call =
  tc_id :: string
  tc_name :: string
  tc_args :: string

record message =
  msg_role :: string
  msg_content :: string
  msg_tool_calls :: "tool_call list"
  msg_tool_call_id :: string

definition text_message :: "string \<Rightarrow> string \<Rightarrow> message" where
  "text_message r c =
     \<lparr>msg_role = r, msg_content = c, msg_tool_calls = [], msg_tool_call_id = []\<rparr>"

definition is_user :: "message \<Rightarrow> bool" where
  "is_user m \<longleftrightarrow> msg_role m = ''user''"

definition is_assistant :: "message \<Rightarrow> bool" where
  "is_assistant m \<longleftrightarrow> msg_role m = ''assistant''"

definition is_tool :: "message \<Rightarrow> bool" where
  "is_tool m \<longleftrightarrow> msg_role m = ''tool''"

lemmas role_defs = is_user_def is_assistant_def is_tool_def

lemma role_disjoint [simp]:
  "is_user m \<Longrightarrow> \<not> is_tool m"
  "is_assistant m \<Longrightarrow> \<not> is_tool m"
  "is_user m \<Longrightarrow> \<not> is_assistant m"
  by (simp_all add: role_defs)

lemma text_message_sel [simp]:
  "msg_role (text_message r c) = r" "msg_content (text_message r c) = c"
  "msg_tool_calls (text_message r c) = []" "msg_tool_call_id (text_message r c) = []"
  by (simp_all add: text_message_def)

section \<open>Operations\<close>

definition message_bytes :: "message \<Rightarrow> nat" where
  "message_bytes m =
     length (msg_content m) + length (msg_tool_call_id m)
     + sum_list (map (\<lambda>tc. length (tc_name tc) + length (tc_args tc)) (msg_tool_calls m))"

definition estimate_tokens :: "message list \<Rightarrow> nat" where
  "estimate_tokens msgs = sum_list (map message_bytes msgs) div 4"

definition safe_start :: "message \<Rightarrow> bool" where
  "safe_start m \<longleftrightarrow> is_user m \<or> (is_assistant m \<and> msg_tool_calls m = [])"

definition tail_from_safe_boundary :: "message list \<Rightarrow> message list" where
  "tail_from_safe_boundary msgs =
     (case dropWhile (\<lambda>m. \<not> safe_start m) msgs of
        [] \<Rightarrow> dropWhile is_tool msgs
      | m # rest \<Rightarrow> m # rest)"

definition truncate_messages :: "message list \<Rightarrow> nat \<Rightarrow> message list" where
  "truncate_messages msgs n =
     (if length msgs \<le> n then msgs
      else tail_from_safe_boundary (drop (length msgs - n) msgs))"

text \<open>The loop of \<open>trimIncompleteTail\<close> drops messages at the end while the last is no safe end.\<close>

definition trim_incomplete_tail :: "message list \<Rightarrow> message list" where
  "trim_incomplete_tail msgs = rev (dropWhile (\<lambda>m. \<not> safe_start m) (rev msgs))"

text \<open>\<open>json.Valid\<close> is the argument \<open>valid\<close>.\<close>

definition normalize_tool_call_args :: "(string \<Rightarrow> bool) \<Rightarrow> tool_call list \<Rightarrow> tool_call list" where
  "normalize_tool_call_args valid tcs =
     map (\<lambda>tc. if tc_args tc = [] \<or> \<not> valid (tc_args tc) then tc\<lparr>tc_args := ''{}''\<rparr> else tc) tcs"

section \<open>Conversations an endpoint accepts\<close>

text \<open>
  \<open>paired ids msgs\<close>: every tool result in \<open>msgs\<close> answers a call of the closest message before
  it that is no tool result; \<open>ids\<close> are the calls open when \<open>msgs\<close> starts.
\<close>

fun paired :: "string list \<Rightarrow> message list \<Rightarrow> bool" where
  "paired ids [] = True"
| "paired ids (m # ms) =
     (if is_tool m then msg_tool_call_id m \<in> set ids \<and> paired ids ms
      else paired (map tc_id (msg_tool_calls m)) ms)"

text \<open>Every tool call has its result in the block of tool results that follows.\<close>

fun answered :: "message list \<Rightarrow> bool" where
  "answered [] = True"
| "answered (m # ms) =
     ((\<forall>tc\<in>set (msg_tool_calls m).
         tc_id tc \<in> set (map msg_tool_call_id (takeWhile is_tool ms))) \<and> answered ms)"

text \<open>Only assistant messages carry tool calls.\<close>

definition calls_by_assistant :: "message list \<Rightarrow> bool" where
  "calls_by_assistant msgs \<longleftrightarrow> (\<forall>m\<in>set msgs. msg_tool_calls m \<noteq> [] \<longrightarrow> is_assistant m)"

definition acceptable :: "message list \<Rightarrow> bool" where
  "acceptable msgs \<longleftrightarrow> paired [] msgs \<and> answered msgs"

definition opens_cleanly :: "message list \<Rightarrow> bool" where
  "opens_cleanly msgs \<longleftrightarrow> (case msgs of [] \<Rightarrow> True | m # _ \<Rightarrow> \<not> is_tool m)"

lemma safe_start_not_tool [simp]: "safe_start m \<Longrightarrow> \<not> is_tool m"
  by (auto simp: safe_start_def)

lemma paired_cleanly_any: "opens_cleanly msgs \<Longrightarrow> paired ids msgs \<longleftrightarrow> paired ids' msgs"
  by (cases msgs) (auto simp: opens_cleanly_def)

lemma paired_append_right: "paired ids (ps @ qs) \<Longrightarrow> \<exists>ids'. paired ids' qs"
  by (induction ps arbitrary: ids) (auto split: if_splits)

lemma paired_append_left: "paired ids (ps @ qs) \<Longrightarrow> paired ids ps"
  by (induction ps arbitrary: ids) (auto split: if_splits)

lemma answered_append_right: "answered (ps @ qs) \<Longrightarrow> answered qs"
  by (induction ps) auto

lemma paired_suffix:
  assumes "paired ids (ps @ qs)" "opens_cleanly qs"
  shows "paired [] qs"
proof -
  obtain ids' where "paired ids' qs"
    using paired_append_right [OF assms(1)] by blast
  with paired_cleanly_any [OF assms(2), of ids' "[]"] show ?thesis by simp
qed

section \<open>Cutting at a safe boundary\<close>

lemma dropWhile_opens_cleanly: "opens_cleanly (dropWhile is_tool msgs)"
  by (induction msgs) (auto simp: opens_cleanly_def)

lemma dropWhile_safe_head: "dropWhile (\<lambda>m. \<not> safe_start m) msgs = m # ms \<Longrightarrow> safe_start m"
  using hd_dropWhile [of "\<lambda>m. \<not> safe_start m" msgs] by simp

lemma tail_none_safe:
  "dropWhile (\<lambda>m. \<not> safe_start m) msgs = [] \<Longrightarrow>
     tail_from_safe_boundary msgs = dropWhile is_tool msgs"
  unfolding tail_from_safe_boundary_def by (simp only: list.case)

lemma tail_some_safe:
  "dropWhile (\<lambda>m. \<not> safe_start m) msgs = m # ms \<Longrightarrow>
     tail_from_safe_boundary msgs = m # ms"
  unfolding tail_from_safe_boundary_def by (simp only: list.case)

lemma tail_is_suffix: "\<exists>ps. msgs = ps @ tail_from_safe_boundary msgs"
proof (cases "dropWhile (\<lambda>m. \<not> safe_start m) msgs")
  case Nil
  show ?thesis
    unfolding tail_none_safe [OF Nil] by (metis takeWhile_dropWhile_id)
next
  case (Cons m ms)
  show ?thesis
    unfolding tail_some_safe [OF Cons] using Cons by (metis takeWhile_dropWhile_id)
qed

lemma tail_opens_cleanly: "opens_cleanly (tail_from_safe_boundary msgs)"
proof (cases "dropWhile (\<lambda>m. \<not> safe_start m) msgs")
  case Nil
  show ?thesis
    unfolding tail_none_safe [OF Nil] by (rule dropWhile_opens_cleanly)
next
  case (Cons m ms)
  with dropWhile_safe_head [OF this] show ?thesis
    by (simp add: tail_some_safe [OF Cons] opens_cleanly_def)
qed

lemma tail_length: "length (tail_from_safe_boundary msgs) \<le> length msgs"
  using tail_is_suffix [of msgs] by (metis length_append le_add2)

text \<open>The tail is empty exactly when the window holds tool results only.\<close>

lemma tail_Nil_iff: "tail_from_safe_boundary msgs = [] \<longleftrightarrow> (\<forall>m\<in>set msgs. is_tool m)"
proof
  assume "tail_from_safe_boundary msgs = []"
  then show "\<forall>m\<in>set msgs. is_tool m"
    by (cases "dropWhile (\<lambda>m. \<not> safe_start m) msgs")
      (simp_all only: tail_none_safe tail_some_safe dropWhile_eq_Nil_conv list.distinct)
next
  assume a: "\<forall>m\<in>set msgs. is_tool m"
  then have none: "dropWhile (\<lambda>m. \<not> safe_start m) msgs = []"
    by (auto simp: dropWhile_eq_Nil_conv safe_start_def)
  from a show "tail_from_safe_boundary msgs = []"
    unfolding tail_none_safe [OF none] by (simp add: dropWhile_eq_Nil_conv)
qed

section \<open>The interface of a window cut\<close>

text \<open>
  What the operator and the worker sessions rely on when they shorten a history: the result is
  a suffix of it that opens cleanly, or the history itself.
\<close>

locale window_cut =
  fixes cut :: "message list \<Rightarrow> message list"
  assumes cut_suffix: "\<exists>ps. msgs = ps @ cut msgs"
    and cut_opens: "opens_cleanly msgs \<Longrightarrow> opens_cleanly (cut msgs)"
begin

lemma cut_length: "length (cut msgs) \<le> length msgs"
  using cut_suffix [of msgs] by (metis length_append le_add2)

lemma cut_paired: "opens_cleanly msgs \<Longrightarrow> paired [] msgs \<Longrightarrow> paired [] (cut msgs)"
  using cut_suffix [of msgs] paired_suffix [OF _ cut_opens] by metis

lemma cut_answered: "answered msgs \<Longrightarrow> answered (cut msgs)"
  using cut_suffix [of msgs] answered_append_right by metis

lemma cut_acceptable: "opens_cleanly msgs \<Longrightarrow> acceptable msgs \<Longrightarrow> acceptable (cut msgs)"
  by (simp add: acceptable_def cut_paired cut_answered)

lemma cut_subset: "set (cut msgs) \<subseteq> set msgs"
  using cut_suffix [of msgs] by (metis Un_upper2 set_append)

end

interpretation tail_cut: window_cut tail_from_safe_boundary
  by unfold_locales (rule tail_is_suffix, rule tail_opens_cleanly)

lemma truncate_is_suffix: "\<exists>ps. msgs = ps @ truncate_messages msgs n"
proof (cases "length msgs \<le> n")
  case False
  obtain ps where "drop (length msgs - n) msgs = ps @ truncate_messages msgs n"
    using tail_is_suffix [of "drop (length msgs - n) msgs"] False
    by (auto simp: truncate_messages_def)
  then have "msgs = (take (length msgs - n) msgs @ ps) @ truncate_messages msgs n"
    by (metis append.assoc append_take_drop_id)
  then show ?thesis by blast
qed (simp add: truncate_messages_def)

interpretation truncate_cut: window_cut "\<lambda>msgs. truncate_messages msgs n" for n
  by unfold_locales (rule truncate_is_suffix, simp add: truncate_messages_def tail_opens_cleanly)

lemma acceptable_opens_cleanly: "acceptable msgs \<Longrightarrow> opens_cleanly msgs"
  by (cases msgs) (auto simp: acceptable_def opens_cleanly_def)

lemma truncate_length: "length (truncate_messages msgs n) \<le> n"
  using tail_length [of "drop (length msgs - n) msgs"]
  by (auto simp: truncate_messages_def)

text \<open>
  Truncating a conversation never corrupts it: of an acceptable history the result is
  again acceptable (no tool result without its call, no call without its result), is a suffix
  of the history, holds at most the given number of messages, and is the history itself when
  that already fits.
\<close>

theorem truncate_messages_correct:
  assumes "acceptable msgs"
  shows "acceptable (truncate_messages msgs n)
    \<and> length (truncate_messages msgs n) \<le> n
    \<and> suffix (truncate_messages msgs n) msgs
    \<and> (length msgs \<le> n \<longrightarrow> truncate_messages msgs n = msgs)"
  using truncate_cut.cut_acceptable [OF acceptable_opens_cleanly [OF assms] assms]
    truncate_length truncate_is_suffix [of msgs n]
  by (auto simp: suffix_def truncate_messages_def)

section \<open>Restoring after a crash\<close>

lemma trim_is_prefix: "\<exists>qs. msgs = trim_incomplete_tail msgs @ qs"
proof -
  have "rev msgs = takeWhile (\<lambda>m. \<not> safe_start m) (rev msgs)
      @ dropWhile (\<lambda>m. \<not> safe_start m) (rev msgs)"
    by simp
  then have "msgs = rev (dropWhile (\<lambda>m. \<not> safe_start m) (rev msgs))
      @ rev (takeWhile (\<lambda>m. \<not> safe_start m) (rev msgs))"
    by (metis rev_append rev_rev_ident)
  then show ?thesis by (metis trim_incomplete_tail_def)
qed

lemma trim_ends_safely: "trim_incomplete_tail msgs = ms @ [m] \<Longrightarrow> safe_start m"
  using dropWhile_safe_head [of "rev msgs" m "rev ms"]
  by (metis rev.simps(2) rev_rev_ident trim_incomplete_tail_def)

text \<open>A prefix of an answered history is answered once it ends at a safe message.\<close>

lemma takeWhile_tool_append:
  "\<lbrakk>ms \<noteq> []; \<not> is_tool (last ms)\<rbrakk> \<Longrightarrow> takeWhile is_tool (ms @ qs) = takeWhile is_tool ms"
  by (induction ms) (auto split: if_splits)

lemma answered_prefix:
  assumes "answered (ps @ qs)" "calls_by_assistant ps" "ps \<noteq> []" "safe_start (last ps)"
  shows "answered ps"
  using assms
proof (induction ps)
  case (Cons m ms)
  show ?case
  proof (cases "ms = []")
    case True
    with Cons.prems have "msg_tool_calls m = []"
      by (auto simp: safe_start_def calls_by_assistant_def)
    with True show ?thesis by simp
  next
    case False
    with Cons.prems have "takeWhile is_tool (ms @ qs) = takeWhile is_tool ms"
      by (intro takeWhile_tool_append) auto
    with Cons False show ?thesis
      by (auto simp: calls_by_assistant_def)
  qed
qed simp

text \<open>
  A conversation in progress: what was persisted of it so far, some messages still missing.
\<close>

definition partial_history :: "message list \<Rightarrow> bool" where
  "partial_history ms \<longleftrightarrow> (\<exists>rest. acceptable (ms @ rest) \<and> calls_by_assistant (ms @ rest))"

lemma partial_take: "acceptable full \<Longrightarrow> calls_by_assistant full \<Longrightarrow> partial_history (take k full)"
  unfolding partial_history_def by (metis append_take_drop_id)

lemma trim_partial:
  assumes "partial_history ms"
  shows "acceptable (trim_incomplete_tail ms)"
    "trim_incomplete_tail ms \<noteq> [] \<Longrightarrow> safe_start (last (trim_incomplete_tail ms))"
proof -
  let ?t = "trim_incomplete_tail ms"
  obtain rest where rest: "acceptable (ms @ rest)" "calls_by_assistant (ms @ rest)"
    using assms by (auto simp: partial_history_def)
  obtain qs where qs: "ms = ?t @ qs"
    using trim_is_prefix by blast
  then have full: "ms @ rest = ?t @ (qs @ rest)" by (metis append.assoc)
  have safe: "?t \<noteq> [] \<Longrightarrow> safe_start (last ?t)"
    using trim_ends_safely by (metis append_butlast_last_id)
  have "paired [] ?t"
    using rest(1) full paired_append_left unfolding acceptable_def by metis
  moreover have "answered ?t"
  proof (cases "?t = []")
    case False
    have "calls_by_assistant ?t"
      using rest(2) full unfolding calls_by_assistant_def by (metis UnI1 set_append)
    then show ?thesis
      using rest(1) full answered_prefix [OF _ _ False safe [OF False]]
      unfolding acceptable_def by metis
  qed simp
  ultimately show "acceptable ?t" by (simp add: acceptable_def)
  show "?t \<noteq> [] \<Longrightarrow> safe_start (last ?t)" by (rule safe)
qed

lemma truncate_partial:
  assumes "partial_history ms"
  shows "partial_history (truncate_messages ms n)"
proof (cases "truncate_messages ms n = []")
  case True
  then show ?thesis unfolding partial_history_def
    by (intro exI [of _ "[]"]) (simp add: acceptable_def calls_by_assistant_def)
next
  case False
  let ?t = "truncate_messages ms n"
  obtain ps where ps: "ms = ps @ ?t" using truncate_is_suffix by blast
  obtain rest where rest: "acceptable (ms @ rest)" "calls_by_assistant (ms @ rest)"
    using assms by (auto simp: partial_history_def)
  have full: "ms @ rest = ps @ (?t @ rest)" using ps by (metis append.assoc)
  have "ms \<noteq> []" using ps False by auto
  then have "opens_cleanly ms"
    using acceptable_opens_cleanly [OF rest(1)] by (cases ms) (auto simp: opens_cleanly_def)
  then have "opens_cleanly ?t" by (rule truncate_cut.cut_opens)
  then have "opens_cleanly (?t @ rest)" using False by (cases ?t) (auto simp: opens_cleanly_def)
  then have "acceptable (?t @ rest)"
    using rest(1) full paired_suffix answered_append_right unfolding acceptable_def by metis
  moreover have "calls_by_assistant (?t @ rest)"
    using rest(2) full unfolding calls_by_assistant_def by (metis UnI2 set_append)
  ultimately show ?thesis by (auto simp: partial_history_def)
qed

text \<open>
  Truncation inside a round: as long as the call and its results fit, they stay, and what
  stays before them is acceptable.
\<close>

lemma tail_before_round:
  assumes "is_assistant am" "msg_tool_calls am \<noteq> []" "\<forall>t\<in>set ts. is_tool t"
  shows "\<exists>qs. tail_from_safe_boundary (ps @ am # ts) = qs @ am # ts \<and> suffix qs ps \<and> opens_cleanly qs"
proof (cases "dropWhile (\<lambda>m. \<not> safe_start m) ps")
  case Nil
  then have none: "\<forall>m\<in>set ps. \<not> safe_start m" by (simp add: dropWhile_eq_Nil_conv)
  have am: "\<not> safe_start am" "\<not> is_tool am" using assms(1,2) by (auto simp: safe_start_def)
  have "\<forall>t\<in>set ts. \<not> safe_start t" using assms(3) safe_start_not_tool by blast
  then have "dropWhile (\<lambda>m. \<not> safe_start m) (ps @ am # ts) = []"
    using none am by (simp add: dropWhile_eq_Nil_conv)
  then have "tail_from_safe_boundary (ps @ am # ts) = dropWhile is_tool (ps @ am # ts)"
    by (rule tail_none_safe)
  also have "\<dots> = dropWhile is_tool ps @ am # ts"
    using am by (induction ps) auto
  finally show ?thesis
    using suffix_dropWhile dropWhile_opens_cleanly by blast
next
  case (Cons m ms)
  then have "dropWhile (\<lambda>m. \<not> safe_start m) (ps @ am # ts) = m # ms @ am # ts"
    by (metis append_Cons dropWhile_append1 dropWhile_eq_Nil_conv list.distinct(1))
  then have "tail_from_safe_boundary (ps @ am # ts) = (m # ms) @ am # ts"
    using tail_some_safe by fastforce
  moreover have "suffix (m # ms) ps" using Cons suffix_dropWhile by metis
  moreover have "opens_cleanly (m # ms)"
    using dropWhile_safe_head [OF Cons] by (simp add: opens_cleanly_def)
  ultimately show ?thesis by blast
qed

lemma truncate_round:
  assumes "acceptable ps" "is_assistant am" "msg_tool_calls am \<noteq> []" "\<forall>t\<in>set ts. is_tool t" "length ts < n"
  shows "\<exists>qs. truncate_messages (ps @ am # ts) n = qs @ am # ts \<and> suffix qs ps \<and> acceptable qs"
proof (cases "length (ps @ am # ts) \<le> n")
  case True
  then show ?thesis using assms(1) by (auto simp: truncate_messages_def)
next
  case False
  let ?k = "length (ps @ am # ts) - n"
  have "?k \<le> length ps" using assms(5) by simp
  then have "drop ?k (ps @ am # ts) = drop ?k ps @ am # ts" by simp
  then obtain qs where qs: "truncate_messages (ps @ am # ts) n = qs @ am # ts" "suffix qs (drop ?k ps)" "opens_cleanly qs"
    using False tail_before_round [OF assms(2-4), of "drop ?k ps"] by (auto simp: truncate_messages_def)
  have s: "suffix qs ps" using qs(2) suffix_drop suffix_order.trans by blast
  then obtain os where os: "ps = os @ qs" by (auto simp: suffix_def)
  have "acceptable qs"
    using assms(1) qs(3) unfolding os acceptable_def
    by (auto intro: paired_suffix answered_append_right)
  then show ?thesis using qs(1) s by blast
qed

text \<open>
  A crash in the middle of a turn is repaired on restore: whatever prefix of an acceptable
  conversation was persisted, trimming its incomplete tail yields an acceptable conversation
  that is a prefix of what was persisted and ends with a user message or an assistant message
  without tool calls.
\<close>

theorem trim_restores_acceptable:
  assumes "acceptable full" "calls_by_assistant full"
  shows "acceptable (trim_incomplete_tail (take k full))
    \<and> prefix (trim_incomplete_tail (take k full)) (take k full)
    \<and> (trim_incomplete_tail (take k full) \<noteq> [] \<longrightarrow>
         safe_start (last (trim_incomplete_tail (take k full))))"
  using trim_partial [OF partial_take [OF assms]] trim_is_prefix [of "take k full"]
  by (auto simp: prefix_def)

section \<open>Repairing tool-call arguments\<close>

lemma normalize_length [simp]:
  "length (normalize_tool_call_args valid tcs) = length tcs"
  by (simp add: normalize_tool_call_args_def)

lemma normalize_ids [simp]:
  "map tc_id (normalize_tool_call_args valid tcs) = map tc_id tcs"
  by (simp add: normalize_tool_call_args_def)

lemma normalize_names [simp]:
  "map tc_name (normalize_tool_call_args valid tcs) = map tc_name tcs"
  by (simp add: normalize_tool_call_args_def)

lemma normalize_valid:
  "valid ''{}'' \<Longrightarrow> tc \<in> set (normalize_tool_call_args valid tcs) \<Longrightarrow> valid (tc_args tc)"
  by (auto simp: normalize_tool_call_args_def split: if_splits)

lemma normalize_idempotent:
  "valid ''{}'' \<Longrightarrow> normalize_tool_call_args valid (normalize_tool_call_args valid tcs)
     = normalize_tool_call_args valid tcs"
  by (simp add: normalize_tool_call_args_def)

section \<open>The statements on a concrete conversation\<close>

definition sample_call :: message where
  "sample_call = \<lparr>msg_role = ''assistant'', msg_content = [],
     msg_tool_calls = [\<lparr>tc_id = ''c1'', tc_name = ''read_file'', tc_args = ''{}''\<rparr>], msg_tool_call_id = []\<rparr>"

definition sample_result :: message where
  "sample_result = \<lparr>msg_role = ''tool'', msg_content = ''package main'', msg_tool_calls = [],
     msg_tool_call_id = ''c1''\<rparr>"

definition sample_conversation :: "message list" where
  "sample_conversation =
     [text_message ''user'' ''fix it'', sample_call, sample_result, text_message ''assistant'' ''done'']"

lemmas sample_defs = sample_conversation_def sample_call_def sample_result_def text_message_def role_defs

lemma sample_acceptable: "acceptable sample_conversation"
  by (simp add: acceptable_def sample_defs)

lemma truncate_messages_witness:
  "acceptable (truncate_messages sample_conversation 3)
   \<and> truncate_messages sample_conversation 3 = [text_message ''assistant'' ''done'']"
proof -
  have "truncate_messages sample_conversation 3 = [text_message ''assistant'' ''done'']"
    by (simp add: truncate_messages_def tail_from_safe_boundary_def safe_start_def sample_defs)
  then show ?thesis using truncate_messages_correct [OF sample_acceptable, of 3] by simp
qed

lemma trim_restores_witness:
  "acceptable (trim_incomplete_tail (take 2 sample_conversation))
   \<and> trim_incomplete_tail (take 2 sample_conversation) = [text_message ''user'' ''fix it'']"
proof -
  have calls: "calls_by_assistant sample_conversation"
    by (simp add: calls_by_assistant_def sample_defs)
  have "trim_incomplete_tail (take 2 sample_conversation) = [text_message ''user'' ''fix it'']"
    by (simp add: trim_incomplete_tail_def safe_start_def sample_defs)
  then show ?thesis using trim_restores_acceptable [OF sample_acceptable calls, of 2] by simp
qed

end
