(* ===== verification/WorkerSession.thy ===== *)
theory WorkerSession
  imports History
begin

text \<open>
  The worker session of \<open>internal/runtime/session.go\<close> and its history compaction
  (\<open>internal/runtime/session_compact.go\<close>), with the error classification of
  \<open>internal/provider/errors.go\<close>. The session's conversation, compaction counters and
  persisted transcript are one record; the provider, the tools and the cancellation of the
  context are arguments. Subscribers (the observer channels) are not modelled.
\<close>

section \<open>Endpoint errors\<close>

datatype go_error =
    ApiError string int string  \<comment> \<open>provider, status code, body\<close>
  | OtherError string           \<comment> \<open>any other error, by its text\<close>

definition overflow_markers :: "string list" where
  "overflow_markers =
     [''context_length_exceeded'', ''prompt is too long'', ''maximum context length'',
      ''exceeds the available context'', ''context length'', ''context window'',
      ''too many tokens'']"

definition contains_overflow_marker :: "string \<Rightarrow> bool" where
  "contains_overflow_marker s \<longleftrightarrow>
     list_ex (\<lambda>marker. contains_sub (to_lower s) marker) overflow_markers"

fun is_context_overflow :: "go_error \<Rightarrow> bool" where
  "is_context_overflow (ApiError p code body) =
     (if code < 400 \<or> 500 \<le> code \<or> code = 429 then False else contains_overflow_marker body)"
| "is_context_overflow (OtherError txt) = contains_overflow_marker txt"

section \<open>Tier 1: eliding tool results\<close>

definition compact_keep_turns :: nat where "compact_keep_turns = 4"

definition elided_stub_prefix :: string where "elided_stub_prefix = ''[elided tool result''"

text \<open>
  The loop of \<open>protectedTailStart\<close> runs from the last message to the first; on the reversed
  history the index of the current message is the number of messages left.
\<close>

fun protected_scan :: "message list \<Rightarrow> nat \<Rightarrow> nat \<Rightarrow> nat" where
  "protected_scan [] turns keep = 0"
| "protected_scan (m # rest) turns keep =
     (if is_assistant m
      then (if Suc turns = keep then length rest else protected_scan rest (Suc turns) keep)
      else protected_scan rest turns keep)"

definition protected_tail_start :: "message list \<Rightarrow> nat \<Rightarrow> nat" where
  "protected_tail_start msgs keep = protected_scan (rev msgs) 0 keep"

text \<open>The map from call ids to tool names: a later call with the same id overwrites.\<close>

definition tool_name_of :: "message list \<Rightarrow> string \<Rightarrow> string" where
  "tool_name_of msgs i =
     (case map_of (rev (concat (map (\<lambda>m. map (\<lambda>tc. (tc_id tc, tc_name tc)) (msg_tool_calls m)) msgs))) i of
        None \<Rightarrow> [] | Some n \<Rightarrow> n)"

definition elidable :: "(string \<Rightarrow> string) \<Rightarrow> message \<Rightarrow> bool" where
  "elidable name m \<longleftrightarrow>
     is_tool m \<and> \<not> (name (msg_tool_call_id m) = ''spawn_worker''
                   \<or> has_prefix (msg_content m) elided_stub_prefix)"

definition elide_message :: "(string \<Rightarrow> string) \<Rightarrow> message \<Rightarrow> message" where
  "elide_message name m =
     (if elidable name m
      then let n = name (msg_tool_call_id m)
           in m\<lparr>msg_content := elided_stub_prefix @ '': '' @ (if n = [] then ''unknown'' else n) @ '']''\<rparr>
      else m)"

definition elide_tool_results :: "message list \<Rightarrow> nat \<Rightarrow> message list \<times> nat" where
  "elide_tool_results msgs keep =
     (let p = protected_tail_start msgs keep; name = tool_name_of msgs
      in (map (elide_message name) (take p msgs) @ drop p msgs,
          length (filter (elidable name) (take p msgs))))"

section \<open>Tier 2: summary and tail\<close>

definition summary_banner :: string where
  "summary_banner =
     ''[Compaction summary '' @ [CHR 0xE2, CHR 0x80, CHR 0x94] @ '' earlier conversation was compacted to fit the ''
     @ ''context window. Progress so far:]'' @ [CHR 0x0A, CHR 0x0A]"

definition rebuild_history :: "message list \<Rightarrow> string \<Rightarrow> nat \<Rightarrow> message list" where
  "rebuild_history msgs summary keep =
     (case msgs of
        [] \<Rightarrow> []
      | m0 # _ \<Rightarrow>
          (let tail = tail_from_safe_boundary (drop (protected_tail_start msgs keep) msgs);
               out = [m0] @ (if summary = [] then [] else [text_message ''user'' (summary_banner @ summary)]);
               tail' = (if tail \<noteq> [] \<and> length tail = length msgs then tl tail else tail)
           in out @ tail'))"

definition transcript_lines :: "message \<Rightarrow> string list" where
  "transcript_lines m =
     (if is_user m then [''TASK/INPUT: '' @ msg_content m]
      else if is_assistant m then
        (if msg_content m = [] then [] else [''WORKER: '' @ msg_content m])
        @ map (\<lambda>tc. ''WORKER: [called '' @ tc_name tc @ '']'') (msg_tool_calls m)
      else if is_tool m then
        (let first = cut_before (CHR 0x0A) (msg_content m)
         in [''RESULT: '' @ (if 200 < length first
                              then take 200 first @ [CHR 0xE2, CHR 0x80, CHR 0xA6] else first)])
      else [])"

text \<open>The newest lines within the byte budget: \<open>start\<close> moves down while the next line fits.\<close>

fun newest_within :: "nat \<Rightarrow> nat \<Rightarrow> string list \<Rightarrow> string list \<Rightarrow> string list" where
  "newest_within max_bytes used [] acc = acc"
| "newest_within max_bytes used (l # older) acc =
     (if used + length l + 1 \<le> max_bytes
      then newest_within max_bytes (used + length l + 1) older (l # acc) else acc)"

definition render_transcript :: "message list \<Rightarrow> nat \<Rightarrow> string" where
  "render_transcript msgs max_bytes =
     trim_space (join_strings [CHR 0x0A]
       (newest_within max_bytes 0 (rev (concat (map transcript_lines msgs))) []))"

definition summary_input_max_bytes :: nat where "summary_input_max_bytes = 16 * 1024"

text \<open>\<open>complete\<close> is the one-shot call to the session's provider on the rendered transcript.\<close>

definition summarize_history :: "(string \<Rightarrow> go_error + string) \<Rightarrow> message list \<Rightarrow> string" where
  "summarize_history complete msgs =
     (let transcript = render_transcript msgs summary_input_max_bytes
      in if transcript = [] then []
         else (case complete (''Conversation being compacted:'' @ [CHR 0x0A, CHR 0x0A] @ transcript) of
                 Inl _ \<Rightarrow> [] | Inr summary \<Rightarrow> summary))"

section \<open>The session\<close>

text \<open>A persisted row of \<open>session_messages\<close>: sequence number, message, superseded flag.\<close>

record row =
  row_seq :: nat
  row_msg :: message
  row_superseded :: bool

datatype session_status = SActive | SCompleted | SFailed | SCancelled

record session =
  ses_messages :: "message list"
  ses_compactions :: nat
  ses_suppressed :: bool
  ses_last_input :: int
  ses_tokens_in :: int
  ses_tokens_out :: int
  ses_has_store :: bool
  ses_seq :: nat
  ses_rows :: "row list"
  ses_status :: session_status

definition new_session :: "bool \<Rightarrow> string \<Rightarrow> session" where
  "new_session has_store initial =
     \<lparr>ses_messages = (if initial = [] then [] else [text_message ''user'' initial]),
      ses_compactions = 0, ses_suppressed = False, ses_last_input = 0,
      ses_tokens_in = 0, ses_tokens_out = 0, ses_has_store = has_store,
      ses_seq = 0, ses_rows = [], ses_status = SActive\<rparr>"

definition append_message :: "session \<Rightarrow> message \<Rightarrow> session" where
  "append_message s m = s\<lparr>ses_messages := ses_messages s @ [m]\<rparr>"

definition persist_message :: "session \<Rightarrow> message \<Rightarrow> session" where
  "persist_message s m =
     (if \<not> ses_has_store s then s
      else s\<lparr>ses_seq := Suc (ses_seq s),
             ses_rows := ses_rows s @ [\<lparr>row_seq = Suc (ses_seq s), row_msg = m, row_superseded = False\<rparr>]\<rparr>)"

text \<open>\<open>MarkSessionMessagesSuperseded\<close>: every row at or below \<open>max_seq\<close>.\<close>

definition mark_superseded :: "session \<Rightarrow> nat \<Rightarrow> session" where
  "mark_superseded s max_seq =
     s\<lparr>ses_rows := map (\<lambda>r. if row_seq r \<le> max_seq then r\<lparr>row_superseded := True\<rparr> else r) (ses_rows s)\<rparr>"

definition persist_all :: "session \<Rightarrow> message list \<Rightarrow> session" where
  "persist_all s msgs = foldl persist_message s msgs"

section \<open>Compaction\<close>

definition over_budget :: "int \<Rightarrow> int \<Rightarrow> int \<Rightarrow> int \<Rightarrow> bool" where
  "over_budget before window threshold estimate \<longleftrightarrow>
     (if window \<le> 0 \<or> threshold \<le> 0 then before * 3 < estimate * 4
      else window * threshold \<le> estimate * 100)"

text \<open>
  What a compaction is given besides the session: the one-shot completion and the text of the
  marker row as a function of tier, tokens before, estimate after and elided results (its
  \<open>%.1fk\<close> rendering of token counts is not modelled).
\<close>

record compaction_env =
  ce_complete :: "string \<Rightarrow> go_error + string"
  ce_marker :: "nat \<Rightarrow> int \<Rightarrow> int \<Rightarrow> nat \<Rightarrow> string"

definition history_estimate :: "message list \<Rightarrow> int" where
  "history_estimate msgs = int (estimate_tokens msgs)"

definition install_history :: "session \<Rightarrow> message list \<Rightarrow> int \<Rightarrow> bool \<Rightarrow> session" where
  "install_history s hist estimate suppress =
     s\<lparr>ses_messages := hist, ses_compactions := Suc (ses_compactions s),
       ses_last_input := estimate,
       ses_suppressed := (if suppress then True else ses_suppressed s)\<rparr>"

definition compact :: "compaction_env \<Rightarrow> int \<Rightarrow> int \<Rightarrow> int \<Rightarrow> session \<Rightarrow> session" where
  "compact env before window threshold s =
     (let over = over_budget before window threshold;
          (elided, n) = elide_tool_results (ses_messages s) compact_keep_turns;
          est1 = history_estimate elided
      in if over est1 then
           (let summary = summarize_history (ce_complete env) elided;
                hist = rebuild_history elided summary compact_keep_turns;
                est2 = history_estimate hist;
                superseded_seq = ses_seq s;
                s1 = install_history s hist est2 (over est2);
                s2 = persist_message s1 (text_message ''system'' (ce_marker env 2 before est2 n));
                s3 = (if ses_has_store s2 \<and> 0 < superseded_seq then mark_superseded s2 superseded_seq else s2)
            in persist_all s3 hist)
         else if n = 0 then
           (if over (history_estimate (ses_messages s)) then s\<lparr>ses_suppressed := True\<rparr> else s)
         else
           persist_message (install_history s elided est1 (over est1))
             (text_message ''system'' (ce_marker env 1 before est1 n)))"

definition force_compact :: "compaction_env \<Rightarrow> session \<Rightarrow> session" where
  "force_compact env s = compact env (history_estimate (ses_messages s)) 0 0 s"

text \<open>
  \<open>wiring\<close> is \<^const>\<open>None\<close> when the threshold pointer or the window source is nil, otherwise the
  current threshold and the resolved window.
\<close>

definition maybe_compact :: "compaction_env \<Rightarrow> (int \<times> int) option \<Rightarrow> session \<Rightarrow> session" where
  "maybe_compact env wiring s =
     (case wiring of
        None \<Rightarrow> s
      | Some (threshold, window) \<Rightarrow>
          if threshold \<le> 0 then s
          else if window \<le> 0 then s
          else if ses_last_input s \<le> 0 then s
          else if ses_last_input s * 100 < window * threshold then s\<lparr>ses_suppressed := False\<rparr>
          else if ses_suppressed s then s
          else compact env (ses_last_input s) window threshold s)"

section \<open>What elision leaves alone\<close>

definition skeleton :: "message \<Rightarrow> message" where
  "skeleton m = m\<lparr>msg_content := []\<rparr>"

lemma skeleton_eqD:
  assumes "skeleton a = skeleton b"
  shows "msg_role a = msg_role b" "msg_tool_calls a = msg_tool_calls b"
    "msg_tool_call_id a = msg_tool_call_id b"
  using assms by (cases a; cases b; simp add: skeleton_def)+

lemma skeleton_eq_is_tool: "skeleton a = skeleton b \<Longrightarrow> is_tool a = is_tool b"
  using skeleton_eqD(1) [of a b] by (simp add: is_tool_def)

lemma skeleton_eq_is_assistant: "skeleton a = skeleton b \<Longrightarrow> is_assistant a = is_assistant b"
  using skeleton_eqD(1) [of a b] by (simp add: is_assistant_def)

lemma skeleton_eq_paired:
  "map skeleton xs = map skeleton ys \<Longrightarrow> paired ids xs = paired ids ys"
proof (induction xs arbitrary: ys ids)
  case (Cons x xs)
  then obtain y zs where ys: "ys = y # zs" "skeleton x = skeleton y"
      "map skeleton xs = map skeleton zs"
    by (auto simp: Cons_eq_map_conv)
  show ?case
    using Cons.IH [OF ys(3)] skeleton_eqD [OF ys(2)] skeleton_eq_is_tool [OF ys(2)]
    by (simp add: ys(1))
qed simp

lemma skeleton_eq_takeWhile:
  "map skeleton xs = map skeleton ys \<Longrightarrow>
     map msg_tool_call_id (takeWhile is_tool xs) = map msg_tool_call_id (takeWhile is_tool ys)"
proof (induction xs arbitrary: ys)
  case (Cons x xs)
  then obtain y zs where ys: "ys = y # zs" "skeleton x = skeleton y"
      "map skeleton xs = map skeleton zs"
    by (auto simp: Cons_eq_map_conv)
  show ?case
    using Cons.IH [OF ys(3)] skeleton_eqD(3) [OF ys(2)] skeleton_eq_is_tool [OF ys(2)]
    by (simp add: ys(1))
qed simp

lemma skeleton_eq_answered:
  "map skeleton xs = map skeleton ys \<Longrightarrow> answered xs = answered ys"
proof (induction xs arbitrary: ys)
  case (Cons x xs)
  then obtain y zs where ys: "ys = y # zs" "skeleton x = skeleton y"
      "map skeleton xs = map skeleton zs"
    by (auto simp: Cons_eq_map_conv)
  have "set (map msg_tool_call_id (takeWhile is_tool xs))
      = set (map msg_tool_call_id (takeWhile is_tool zs))"
    by (simp only: skeleton_eq_takeWhile [OF ys(3)])
  then show ?case
    using Cons.IH [OF ys(3)] skeleton_eqD(2) [OF ys(2)]
    unfolding ys(1) answered.simps by metis
qed simp

lemma skeleton_eq_acceptable:
  "map skeleton xs = map skeleton ys \<Longrightarrow> acceptable xs = acceptable ys"
  unfolding acceptable_def using skeleton_eq_paired [of xs ys] skeleton_eq_answered [of xs ys] by blast

lemma skeleton_elide [simp]: "skeleton (elide_message name m) = skeleton m"
  by (simp add: elide_message_def skeleton_def Let_def)

lemma elide_fst:
  "fst (elide_tool_results msgs keep) =
     map (elide_message (tool_name_of msgs)) (take (protected_tail_start msgs keep) msgs)
     @ drop (protected_tail_start msgs keep) msgs"
  by (simp add: elide_tool_results_def Let_def)

lemma elide_skeleton: "map skeleton (fst (elide_tool_results msgs keep)) = map skeleton msgs"
proof -
  have "map skeleton (fst (elide_tool_results msgs keep))
      = map skeleton (take (protected_tail_start msgs keep) msgs
          @ drop (protected_tail_start msgs keep) msgs)"
    unfolding elide_fst map_append by (simp add: comp_def)
  then show ?thesis by simp
qed

lemma elide_length [simp]: "length (fst (elide_tool_results msgs keep)) = length msgs"
  by (simp add: elide_fst)

lemma protected_scan_cong:
  "map skeleton xs = map skeleton ys \<Longrightarrow> protected_scan xs t k = protected_scan ys t k"
proof (induction xs arbitrary: ys t)
  case (Cons x xs)
  then obtain y zs where ys: "ys = y # zs" "skeleton x = skeleton y"
      "map skeleton xs = map skeleton zs"
    by (auto simp: Cons_eq_map_conv)
  have "length xs = length zs" using ys(3) map_eq_imp_length_eq by blast
  then show ?case
    using Cons.IH [OF ys(3)] skeleton_eq_is_assistant [OF ys(2)] by (simp add: ys(1))
qed simp

lemma protected_tail_cong:
  "map skeleton xs = map skeleton ys \<Longrightarrow> protected_tail_start xs k = protected_tail_start ys k"
  unfolding protected_tail_start_def
  by (intro protected_scan_cong) (simp add: rev_map [symmetric])

lemma tool_name_cong:
  assumes "map skeleton xs = map skeleton ys"
  shows "tool_name_of xs = tool_name_of ys"
proof -
  have "map msg_tool_calls xs = map msg_tool_calls ys"
    using arg_cong [OF assms, of "map msg_tool_calls"] by (simp add: skeleton_def comp_def)
  from arg_cong [OF this, of "map (map (\<lambda>tc. (tc_id tc, tc_name tc)))"]
  have "map (\<lambda>m. map (\<lambda>tc. (tc_id tc, tc_name tc)) (msg_tool_calls m)) xs
      = map (\<lambda>m. map (\<lambda>tc. (tc_id tc, tc_name tc)) (msg_tool_calls m)) ys"
    by (simp add: comp_def)
  then show ?thesis by (simp add: tool_name_of_def fun_eq_iff)
qed

section \<open>Correctness of elision\<close>

lemma elided_not_elidable:
  "elidable name m \<Longrightarrow> \<not> elidable name (elide_message name m)"
  by (simp add: elide_message_def elidable_def Let_def has_prefix_def)

lemma elide_message_idem [simp]:
  "elide_message name (elide_message name m) = elide_message name m"
  using elided_not_elidable [of name m] by (cases "elidable name m") (simp_all add: elide_message_def)

lemma elided_count: "elidable name (elide_message name m) = False"
  using elided_not_elidable [of name m] by (cases "elidable name m") (simp_all add: elide_message_def)

lemma elide_twice:
  "elide_tool_results (fst (elide_tool_results msgs keep)) keep
     = (fst (elide_tool_results msgs keep), 0)"
proof -
  let ?out = "fst (elide_tool_results msgs keep)"
  let ?p = "protected_tail_start msgs keep"
  have p: "protected_tail_start ?out keep = ?p"
    by (rule protected_tail_cong [OF elide_skeleton])
  have names: "tool_name_of ?out = tool_name_of msgs"
    by (rule tool_name_cong [OF elide_skeleton])
  have "length (take ?p msgs) = min ?p (length msgs)" by simp
  then have split: "take ?p ?out = map (elide_message (tool_name_of msgs)) (take ?p msgs)"
      "drop ?p ?out = drop ?p msgs"
    by (cases "?p \<le> length msgs"; simp add: elide_fst)+
  show ?thesis
    unfolding elide_tool_results_def [of ?out] p names Let_def split
    by (simp add: elide_fst comp_def filter_map elided_count)
qed

text \<open>The protected zone holds exactly the wanted number of assistant turns, or everything.\<close>

lemma protected_scan_le: "protected_scan ms t k \<le> length ms"
  by (induction ms arbitrary: t) (auto intro: le_SucI)

lemma protected_scan_turns:
  assumes "t < k"
  shows "(k \<le> t + length (filter is_assistant ms) \<longrightarrow>
            protected_scan ms t k < length ms
            \<and> t + length (filter is_assistant (take (length ms - protected_scan ms t k) ms)) = k)
       \<and> (t + length (filter is_assistant ms) < k \<longrightarrow> protected_scan ms t k = 0)"
  using assms
proof (induction ms arbitrary: t)
  case (Cons m ms)
  show ?case
  proof (cases "is_assistant m \<and> Suc t = k")
    case True
    then show ?thesis by auto
  next
    case False
    define t' where "t' = (if is_assistant m then Suc t else t)"
    have t': "t' < k" using False Cons.prems by (auto simp: t'_def)
    have scan: "protected_scan (m # ms) t k = protected_scan ms t' k"
      using False by (simp add: t'_def)
    have "length (m # ms) - protected_scan ms t' k = Suc (length ms - protected_scan ms t' k)"
      using protected_scan_le [of ms t' k] by simp
    then show ?thesis
      using Cons.IH [OF t'] unfolding scan by (auto simp: t'_def)
  qed
qed simp

lemma protected_tail_turns:
  assumes "0 < keep"
  shows "protected_tail_start msgs keep = 0
    \<or> length (filter is_assistant (drop (protected_tail_start msgs keep) msgs)) = keep"
proof -
  let ?j = "protected_scan (rev msgs) 0 keep"
  have "take (length (rev msgs) - ?j) (rev msgs) = rev (drop ?j msgs)"
    using protected_scan_le [of "rev msgs" 0 keep] by (simp add: take_rev)
  then show ?thesis
    using protected_scan_turns [OF assms, of "rev msgs"]
    by (cases "keep \<le> length (filter is_assistant (rev msgs))")
      (auto simp: protected_tail_start_def rev_filter [symmetric])
qed

text \<open>
  Tier-1 compaction touches nothing but the contents of old tool results: roles, tool
  calls, call ids and the number and order of messages stay, so the conversation is acceptable
  exactly when it was before; the last \<open>keep\<close> assistant turns and everything after them stay
  verbatim; and eliding an elided history changes nothing more.
\<close>

theorem elide_tool_results_correct:
  assumes "0 < keep"
  shows "map skeleton (fst (elide_tool_results msgs keep)) = map skeleton msgs
    \<and> acceptable (fst (elide_tool_results msgs keep)) = acceptable msgs
    \<and> (\<exists>p. drop p (fst (elide_tool_results msgs keep)) = drop p msgs
          \<and> (p = 0 \<or> length (filter is_assistant (drop p msgs)) = keep))
    \<and> elide_tool_results (fst (elide_tool_results msgs keep)) keep
        = (fst (elide_tool_results msgs keep), 0)"
proof -
  let ?p = "protected_tail_start msgs keep"
  have "?p \<le> length msgs"
    using protected_scan_le [of "rev msgs" 0 keep] by (simp add: protected_tail_start_def)
  then have "drop ?p (fst (elide_tool_results msgs keep)) = drop ?p msgs"
    by (simp add: elide_fst)
  then show ?thesis
    using elide_skeleton [of msgs keep] skeleton_eq_acceptable [OF elide_skeleton [of msgs keep]]
      elide_twice [of msgs keep] protected_tail_turns [OF assms, of msgs] by blast
qed

section \<open>Correctness of the rebuilt history\<close>

lemma acceptable_user_Cons:
  assumes "is_user m" "msg_tool_calls m = []"
  shows "acceptable (m # ms) \<longleftrightarrow> acceptable ms"
  using assms by (simp add: acceptable_def)

lemma paired_Nil_opens: "paired [] ms \<Longrightarrow> opens_cleanly ms"
  by (cases ms) (auto simp: opens_cleanly_def)

lemma acceptable_suffix:
  "acceptable (ps @ qs) \<Longrightarrow> opens_cleanly qs \<Longrightarrow> acceptable qs"
  unfolding acceptable_def using paired_suffix answered_append_right by blast

lemma acceptable_tail:
  assumes "acceptable msgs"
  shows "acceptable (tail_from_safe_boundary (drop p msgs))"
proof -
  obtain ps where "drop p msgs = ps @ tail_from_safe_boundary (drop p msgs)"
    using tail_is_suffix by blast
  then have "msgs = (take p msgs @ ps) @ tail_from_safe_boundary (drop p msgs)"
    by (metis append.assoc append_take_drop_id)
  then show ?thesis
    using acceptable_suffix assms tail_opens_cleanly by metis
qed

definition task_first :: "message list \<Rightarrow> bool" where
  "task_first msgs \<longleftrightarrow>
     (case msgs of [] \<Rightarrow> False | m # _ \<Rightarrow> is_user m \<and> msg_tool_calls m = [])"

lemma task_firstE:
  assumes "task_first msgs"
  obtains m ms where "msgs = m # ms" "is_user m" "msg_tool_calls m = []"
  using assms by (cases msgs) (auto simp: task_first_def)

lemma user_text_message [simp]: "is_user (text_message ''user'' c)"
  by (simp add: is_user_def)

lemma rebuild_shape:
  assumes "task_first msgs" "acceptable msgs"
  shows "\<exists>mid tail. rebuild_history msgs summary keep = hd msgs # mid @ tail
    \<and> (mid = [] \<or> mid = [text_message ''user'' (summary_banner @ summary)])
    \<and> acceptable tail \<and> suffix tail msgs"
proof -
  obtain m ms where msgs: "msgs = m # ms" "is_user m" "msg_tool_calls m = []"
    using assms(1) by (rule task_firstE)
  define tail where "tail = tail_from_safe_boundary (drop (protected_tail_start msgs keep) msgs)"
  define tail' where "tail' = (if tail \<noteq> [] \<and> length tail = length msgs then tl tail else tail)"
  have acc: "acceptable tail"
    unfolding tail_def by (rule acceptable_tail [OF assms(2)])
  obtain ps where ps: "drop (protected_tail_start msgs keep) msgs = ps @ tail"
    using tail_is_suffix unfolding tail_def by blast
  have suf: "suffix tail msgs"
    using ps by (metis append.assoc append_take_drop_id suffix_def)
  have "acceptable tail' \<and> suffix tail' msgs"
  proof (cases "tail \<noteq> [] \<and> length tail = length msgs")
    case True
    then have "tail = msgs" using suf by (auto simp: suffix_def)
    with True have "tail' = ms" by (simp add: tail'_def msgs(1))
    moreover have "acceptable ms"
      using assms(2) msgs by (simp add: acceptable_user_Cons)
    ultimately show ?thesis by (simp add: msgs(1) suffix_ConsI)
  next
    case False
    then have "tail' = tail" by (auto simp: tail'_def)
    then show ?thesis using acc suf by simp
  qed
  moreover have "rebuild_history msgs summary keep
      = hd msgs # (if summary = [] then [] else [text_message ''user'' (summary_banner @ summary)]) @ tail'"
    unfolding rebuild_history_def tail'_def tail_def Let_def by (simp add: msgs(1))
  ultimately show ?thesis
    by (intro exI [of _ "if summary = [] then [] else [text_message ''user'' (summary_banner @ summary)]"]
        exI [of _ tail']) simp
qed

text \<open>
  Tier-2 compaction keeps a worker's conversation usable: of an acceptable history that
  starts with its task, the rebuilt history is acceptable, still starts with that very task
  message, and every message of it is one of the original history or the one summary message.
\<close>

theorem rebuild_history_correct:
  assumes "task_first msgs" "acceptable msgs"
  shows "acceptable (rebuild_history msgs summary keep)
    \<and> task_first (rebuild_history msgs summary keep)
    \<and> hd (rebuild_history msgs summary keep) = hd msgs
    \<and> set (rebuild_history msgs summary keep)
        \<subseteq> insert (text_message ''user'' (summary_banner @ summary)) (set msgs)"
proof -
  obtain m ms where msgs: "msgs = m # ms" "is_user m" "msg_tool_calls m = []"
    using assms(1) by (rule task_firstE)
  obtain mid tail where r: "rebuild_history msgs summary keep = m # mid @ tail"
      "mid = [] \<or> mid = [text_message ''user'' (summary_banner @ summary)]"
      "acceptable tail" "suffix tail msgs"
    using rebuild_shape [OF assms, of summary keep] by (auto simp: msgs(1))
  have "acceptable (m # mid @ tail)"
    using r(2,3) msgs(2,3) by (auto simp: acceptable_user_Cons)
  moreover have "set tail \<subseteq> set msgs" using r(4) by (rule set_mono_suffix)
  ultimately show ?thesis
    using r(2) msgs(2,3) unfolding r(1) by (auto simp: task_first_def msgs(1))
qed

section \<open>The statements on a concrete conversation\<close>

lemma elide_tool_results_witness:
  "acceptable (fst (elide_tool_results sample_conversation 1)) = True
   \<and> elide_tool_results (fst (elide_tool_results sample_conversation 1)) 1
     = (fst (elide_tool_results sample_conversation 1), 0)"
  using elide_tool_results_correct [of 1 sample_conversation] sample_acceptable by simp

lemma rebuild_history_witness:
  "acceptable (rebuild_history sample_conversation ''sum'' 1)
   \<and> hd (rebuild_history sample_conversation ''sum'' 1) = text_message ''user'' ''fix it''"
proof -
  have "task_first sample_conversation" by (simp add: task_first_def sample_defs)
  from rebuild_history_correct [OF this sample_acceptable, of "''sum''" 1]
  show ?thesis by (simp add: sample_conversation_def)
qed

end
