(* ===== verification/WorkerRun.thy ===== *)
theory WorkerRun
  imports WorkerSession
begin

text \<open>
  The conversation loop \<open>Session.Run\<close> of \<open>internal/runtime/session.go\<close> and the invariant it
  keeps: the live conversation is acceptable to an endpoint and starts with the task, and the
  transcript rows that are not superseded mirror it.
\<close>

section \<open>Streams\<close>

datatype stream_event =
    EvText string
  | EvReasoning string
  | EvToolCall "tool_call option"
  | EvUsage "(int \<times> int) option"
  | EvError go_error
  | EvDone

text \<open>
  \<open>collectResponse\<close> on the events it receives; the flag says that it then observes the
  cancelled context instead of the closed channel.
\<close>

fun collect_response ::
  "go_error \<Rightarrow> session \<Rightarrow> string \<Rightarrow> tool_call list \<Rightarrow> stream_event list \<Rightarrow> bool
     \<Rightarrow> session \<times> (go_error + message \<times> tool_call list)" where
  "collect_response ctx_err s acc tcs [] ctx_done =
     (if ctx_done then (s, Inl ctx_err)
      else (s, Inr (\<lparr>msg_role = ''assistant'', msg_content = acc,
                     msg_tool_calls = tcs, msg_tool_call_id = []\<rparr>, tcs)))"
| "collect_response ctx_err s acc tcs (ev # evs) ctx_done =
     (case ev of
        EvText t \<Rightarrow> collect_response ctx_err s (acc @ t) tcs evs ctx_done
      | EvReasoning t \<Rightarrow> collect_response ctx_err s acc tcs evs ctx_done
      | EvToolCall None \<Rightarrow> collect_response ctx_err s acc tcs evs ctx_done
      | EvToolCall (Some tc) \<Rightarrow> collect_response ctx_err s acc (tcs @ [tc]) evs ctx_done
      | EvUsage None \<Rightarrow> collect_response ctx_err s acc tcs evs ctx_done
      | EvUsage (Some (i, out)) \<Rightarrow>
          collect_response ctx_err
            (s\<lparr>ses_tokens_in := ses_tokens_in s + i,
               ses_tokens_out := ses_tokens_out s + out,
               ses_last_input := i\<rparr>) acc tcs evs ctx_done
      | EvError e \<Rightarrow> (s, Inl e)
      | EvDone \<Rightarrow> collect_response ctx_err s acc tcs evs ctx_done)"

section \<open>Tool calls of a turn\<close>

definition max_tool_result_bytes :: nat where "max_tool_result_bytes = 8 * 1024"

definition truncation_note :: string where
  "truncation_note = CHR 0x0A # ''[... truncated: result exceeded 8KB ...]''"

definition cap_tool_result :: "string \<Rightarrow> string \<Rightarrow> string" where
  "cap_tool_result name result =
     (if name \<noteq> ''spawn_worker'' \<and> max_tool_result_bytes < length result
      then take (rune_cut result max_tool_result_bytes) result @ truncation_note
      else result)"

type_synonym 'w tool_exec = "string \<Rightarrow> string \<Rightarrow> 'w \<Rightarrow> (string + string) \<times> 'w"

definition tool_message :: "tool_call \<Rightarrow> string \<Rightarrow> message" where
  "tool_message tc result =
     \<lparr>msg_role = ''tool'', msg_content = result, msg_tool_calls = [], msg_tool_call_id = tc_id tc\<rparr>"

fun exec_tool_calls :: "'w tool_exec \<Rightarrow> tool_call list \<Rightarrow> session \<Rightarrow> 'w \<Rightarrow> session \<times> 'w" where
  "exec_tool_calls exec [] s w = (s, w)"
| "exec_tool_calls exec (tc # tcs) s w =
     (let (r, w') = exec (tc_name tc) (tc_args tc) w;
          result = (case r of Inl err \<Rightarrow> ''error: '' @ err | Inr res \<Rightarrow> res);
          m = tool_message tc (cap_tool_result (tc_name tc) result)
      in exec_tool_calls exec tcs (persist_message (append_message s m) m) w')"

section \<open>The loop\<close>

datatype run_error =
    CtxError go_error
  | StartingStream go_error
  | CollectingResponse go_error
  | MaxTurnsExceeded nat

text \<open>
  The surroundings of a run. The request counter \<open>n\<close> indexes what they answer: whether the
  context is cancelled at the top of the iteration, what the provider streams for a history
  (or how it refuses), whether the context is cancelled once a response failed, and the
  current compaction threshold and window. \<open>re_max_turns\<close> is what \<open>newSession\<close> derives from
  the option (\<open>effective_max_turns\<close> below).
\<close>

record 'w run_env =
  re_cancelled_top :: "nat \<Rightarrow> bool"
  re_cancelled_after :: "nat \<Rightarrow> bool"
  re_ctx_err :: go_error
  re_chat :: "nat \<Rightarrow> message list \<Rightarrow> go_error + stream_event list \<times> bool"
  re_exec :: "'w tool_exec"
  re_valid_json :: "string \<Rightarrow> bool"
  re_wiring :: "nat \<Rightarrow> (int \<times> int) option"
  re_compaction :: compaction_env
  re_max_turns :: nat

definition effective_max_turns :: "int \<Rightarrow> nat" where
  "effective_max_turns opt = (if opt \<le> 0 then 50 else nat opt)"

definition set_status :: "session \<Rightarrow> session_status \<Rightarrow> session" where
  "set_status s st = s\<lparr>ses_status := st\<rparr>"

type_synonym 'w run_result = "session \<times> 'w \<times> nat \<times> run_error option"

text \<open>
  One pass through the body of the loop either returns from \<open>Run\<close> or continues with a new
  turn counter (a retry after a forced compaction re-uses its turn).
\<close>

datatype 'w iteration =
    Return "'w run_result"
  | Continue nat nat bool session 'w

definition loop_iteration ::
  "'w run_env \<Rightarrow> nat \<Rightarrow> nat \<Rightarrow> bool \<Rightarrow> session \<Rightarrow> 'w \<Rightarrow> 'w iteration" where
  "loop_iteration env n turn retried s w =
     (if re_max_turns env \<le> turn
      then Return (set_status s SFailed, w, n, Some (MaxTurnsExceeded (re_max_turns env)))
      else if re_cancelled_top env n
      then Return (set_status s SCancelled, w, n, Some (CtxError (re_ctx_err env)))
      else
        (let s1 = maybe_compact (re_compaction env) (re_wiring env n) s
         in case re_chat env n (ses_messages s1) of
              Inl e \<Rightarrow>
                if \<not> retried \<and> is_context_overflow e
                then Continue (Suc n) turn True (force_compact (re_compaction env) s1) w
                else Return (set_status s1 SFailed, w, Suc n, Some (StartingStream e))
            | Inr (evs, ctx_done) \<Rightarrow>
                (case collect_response (re_ctx_err env) s1 [] [] evs ctx_done of
                   (s2, Inl e) \<Rightarrow>
                     (let cancelled = ctx_done \<or> re_cancelled_after env n
                      in if \<not> cancelled \<and> \<not> retried \<and> is_context_overflow e
                         then Continue (Suc n) turn True (force_compact (re_compaction env) s2) w
                         else Return (set_status s2 (if cancelled then SCancelled else SFailed), w, Suc n,
                                      Some (CollectingResponse e)))
                 | (s2, Inr (am, tcs)) \<Rightarrow>
                     (let tcs' = normalize_tool_call_args (re_valid_json env) tcs;
                          am' = am\<lparr>msg_tool_calls := normalize_tool_call_args (re_valid_json env) (msg_tool_calls am)\<rparr>;
                          s3 = persist_message (append_message s2 am') am'
                      in if tcs' = [] then Return (set_status s3 SCompleted, w, Suc n, None)
                         else (let (s4, w') = exec_tool_calls (re_exec env) tcs' s3 w
                               in Continue (Suc n) (Suc turn) False s4 w')))))"

lemma loop_iteration_decreases:
  "loop_iteration env n turn retried s w = Continue n' turn' retried' s' w' \<Longrightarrow>
     turn < re_max_turns env \<and> n' = Suc n
     \<and> (turn' = turn \<and> \<not> retried \<and> retried' \<or> turn' = Suc turn \<and> \<not> retried')"
  unfolding loop_iteration_def Let_def
  by (auto split: if_splits sum.splits prod.splits)

function session_loop ::
  "'w run_env \<Rightarrow> nat \<Rightarrow> nat \<Rightarrow> bool \<Rightarrow> session \<Rightarrow> 'w \<Rightarrow> 'w run_result" where
  "session_loop env n turn retried s w =
     (case loop_iteration env n turn retried s w of
        Return r \<Rightarrow> r
      | Continue n' turn' retried' s' w' \<Rightarrow> session_loop env n' turn' retried' s' w')"
  by pat_completeness auto
termination
  by (relation "measure (\<lambda>(env, n, turn, retried, s, w).
        2 * (re_max_turns env - turn) + (if retried then 0 else 1))")
    (auto dest!: loop_iteration_decreases)

declare session_loop.simps [simp del]

definition run_session :: "'w run_env \<Rightarrow> session \<Rightarrow> 'w \<Rightarrow> 'w run_result" where
  "run_session env s w =
     (let s0 = (case ses_messages s of [] \<Rightarrow> s | m # _ \<Rightarrow> persist_message s m)
      in session_loop env 0 0 False s0 w)"

text \<open>\<open>FinalText\<close>: the last assistant message with a text.\<close>

definition final_text :: "session \<Rightarrow> string" where
  "final_text s =
     (case find (\<lambda>m. is_assistant m \<and> msg_content m \<noteq> []) (rev (ses_messages s)) of
        None \<Rightarrow> [] | Some m \<Rightarrow> msg_content m)"

definition initial_message :: "session \<Rightarrow> string" where
  "initial_message s =
     (case ses_messages s of [] \<Rightarrow> [] | m # _ \<Rightarrow> if is_user m then msg_content m else [])"

section \<open>Small facts on the operations\<close>

lemma message_ops_simps [simp]:
  "ses_messages (append_message s m) = ses_messages s @ [m]"
  "ses_messages (persist_message s m) = ses_messages s"
  "ses_messages (mark_superseded s k) = ses_messages s"
  "ses_messages (install_history s h e b) = h"
  "ses_messages (set_status s st) = ses_messages s"
  "ses_rows (append_message s m) = ses_rows s"
  "ses_rows (install_history s h e b) = ses_rows s"
  "ses_rows (set_status s st) = ses_rows s"
  "ses_seq (append_message s m) = ses_seq s"
  "ses_seq (install_history s h e b) = ses_seq s"
  "ses_seq (set_status s st) = ses_seq s"
  "ses_seq (mark_superseded s k) = ses_seq s"
  "ses_has_store (append_message s m) = ses_has_store s"
  "ses_has_store (persist_message s m) = ses_has_store s"
  "ses_has_store (mark_superseded s k) = ses_has_store s"
  "ses_has_store (install_history s h e b) = ses_has_store s"
  "ses_has_store (set_status s st) = ses_has_store s"
  "ses_status (set_status s st) = st"
  by (simp_all add: append_message_def persist_message_def mark_superseded_def
      install_history_def set_status_def)

lemma persist_all_simps [simp]:
  "ses_messages (persist_all s ms) = ses_messages s"
  "ses_has_store (persist_all s ms) = ses_has_store s"
  by (induction ms arbitrary: s) (simp_all add: persist_all_def)

section \<open>The transcript mirrors the conversation\<close>

definition live_rows :: "session \<Rightarrow> message list" where
  "live_rows s = map row_msg (filter (\<lambda>r. \<not> row_superseded r) (ses_rows s))"

definition is_system :: "message \<Rightarrow> bool" where
  "is_system m \<longleftrightarrow> msg_role m = ''system''"

text \<open>Tier-1 stubs exist in the live history only, so tool contents are left out of the comparison.\<close>

definition erase :: "message \<Rightarrow> message" where
  "erase m = (if is_tool m then skeleton m else m)"

definition mirror :: "session \<Rightarrow> bool" where
  "mirror s \<longleftrightarrow> (ses_has_store s \<longrightarrow>
     map erase (filter (\<lambda>m. \<not> is_system m) (live_rows s)) = map erase (ses_messages s)
     \<and> (\<forall>r\<in>set (ses_rows s). 0 < row_seq r \<and> row_seq r \<le> ses_seq s))"

definition session_ok :: "session \<Rightarrow> bool" where
  "session_ok s \<longleftrightarrow>
     acceptable (ses_messages s) \<and> task_first (ses_messages s)
     \<and> (\<forall>m\<in>set (ses_messages s). \<not> is_system m) \<and> mirror s"

lemma live_rows_persist:
  "ses_has_store s \<Longrightarrow> live_rows (persist_message s m) = live_rows s @ [m]"
  by (simp add: live_rows_def persist_message_def)

lemma live_rows_persist_all:
  "ses_has_store s \<Longrightarrow> live_rows (persist_all s ms) = live_rows s @ ms"
  by (induction ms arbitrary: s) (simp_all add: persist_all_def live_rows_persist)

definition rows_bounded :: "session \<Rightarrow> bool" where
  "rows_bounded s \<longleftrightarrow> (\<forall>r\<in>set (ses_rows s). 0 < row_seq r \<and> row_seq r \<le> ses_seq s)"

lemma rows_bounded_persist: "rows_bounded s \<Longrightarrow> rows_bounded (persist_message s m)"
  by (auto simp: rows_bounded_def persist_message_def)

lemma rows_bounded_persist_all: "rows_bounded s \<Longrightarrow> rows_bounded (persist_all s ms)"
  by (induction ms arbitrary: s) (auto simp: persist_all_def rows_bounded_persist)

lemma rows_bounded_mark: "rows_bounded s \<Longrightarrow> rows_bounded (mark_superseded s k)"
  by (auto simp: rows_bounded_def mark_superseded_def)

lemma rows_bounded_other [simp]:
  "rows_bounded (install_history s h e b) = rows_bounded s"
  "rows_bounded (append_message s m) = rows_bounded s"
  by (simp_all add: rows_bounded_def)

lemma mirror_alt:
  "mirror s \<longleftrightarrow> (ses_has_store s \<longrightarrow>
     map erase (filter (\<lambda>m. \<not> is_system m) (live_rows s)) = map erase (ses_messages s) \<and> rows_bounded s)"
  by (simp add: mirror_def rows_bounded_def)

lemma live_rows_other [simp]:
  "live_rows (install_history s h e b) = live_rows s"
  "live_rows (append_message s m) = live_rows s"
  "live_rows (set_status s st) = live_rows s"
  by (simp_all add: live_rows_def)

lemma mirror_append:
  "mirror s \<Longrightarrow> \<not> is_system m \<Longrightarrow> mirror (persist_message (append_message s m) m)"
  by (auto simp: mirror_alt live_rows_persist rows_bounded_persist)

text \<open>Marking everything up to the sequence number from before the marker leaves the marker alone.\<close>

lemma live_rows_mark:
  assumes "rows_bounded s" "ses_has_store s"
  shows "live_rows (mark_superseded (persist_message s m) (ses_seq s)) = [m]"
proof -
  have "filter (\<lambda>r. \<not> row_superseded r)
      (map (\<lambda>r. if row_seq r \<le> ses_seq s then r\<lparr>row_superseded := True\<rparr> else r) (ses_rows s)) = []"
    using assms(1) by (auto simp: rows_bounded_def filter_empty_conv)
  then show ?thesis
    using assms(2) by (simp add: live_rows_def mark_superseded_def persist_message_def)
qed

section \<open>Compaction keeps the session invariant\<close>

lemma elide_message_id: "\<not> is_tool m \<Longrightarrow> elide_message name m = m"
  by (simp add: elide_message_def elidable_def)

lemma elide_message_is_tool [simp]: "is_tool (elide_message name m) = is_tool m"
  by (rule skeleton_eq_is_tool) simp

lemma erase_elide [simp]: "erase (elide_message name m) = erase m"
  by (cases "is_tool m") (simp_all add: erase_def elide_message_id)

lemma erase_elide_results:
  "map erase (fst (elide_tool_results msgs k)) = map erase msgs"
proof -
  have "map erase (fst (elide_tool_results msgs k))
      = map erase (take (protected_tail_start msgs k) msgs @ drop (protected_tail_start msgs k) msgs)"
    unfolding elide_fst map_append by (simp add: comp_def)
  then show ?thesis by simp
qed

lemma elide_acceptable: "acceptable (fst (elide_tool_results msgs k)) = acceptable msgs"
  by (rule skeleton_eq_acceptable [OF elide_skeleton])

lemma elide_system:
  assumes "\<forall>m\<in>set msgs. \<not> is_system m"
  shows "\<forall>m\<in>set (fst (elide_tool_results msgs k)). \<not> is_system m"
proof -
  have "is_system (elide_message name m) = is_system m" for name m
    using skeleton_eqD(1) [OF skeleton_elide [of name m]] by (simp add: is_system_def)
  then show ?thesis
    using assms unfolding elide_fst by (auto dest: in_set_takeD in_set_dropD)
qed

lemma elide_task_first:
  assumes "task_first msgs"
  shows "task_first (fst (elide_tool_results msgs k))"
proof -
  obtain m ms where msgs: "msgs = m # ms" "is_user m" "msg_tool_calls m = []"
    using assms by (rule task_firstE)
  have "elide_message name m = m" for name
    using msgs(2) by (simp add: elide_message_id)
  then show ?thesis
    using msgs(2,3) by (cases "protected_tail_start msgs k") (simp_all add: elide_fst msgs(1) task_first_def)
qed

lemma system_marker: "is_system (text_message ''system'' c)"
  by (simp add: is_system_def)

lemma user_not_system [simp]: "\<not> is_system (text_message ''user'' c)"
  by (simp add: is_system_def)

lemma filter_not_system:
  "\<forall>m\<in>set ms. \<not> is_system m \<Longrightarrow> filter (\<lambda>m. \<not> is_system m) ms = ms"
  by simp

lemma tier1_ok:
  assumes "session_ok s"
  shows "session_ok (persist_message
    (install_history s (fst (elide_tool_results (ses_messages s) k)) est b) (text_message ''system'' c))"
proof -
  have "mirror s" using assms by (simp add: session_ok_def)
  then have "mirror (persist_message
      (install_history s (fst (elide_tool_results (ses_messages s) k)) est b) (text_message ''system'' c))"
    by (auto simp: mirror_alt live_rows_persist rows_bounded_persist system_marker erase_elide_results)
  then show ?thesis
    using assms elide_system [of "ses_messages s" k]
    by (simp add: session_ok_def elide_acceptable elide_task_first)
qed

lemma tier2_mirror:
  assumes "mirror s" "\<forall>m\<in>set hist. \<not> is_system m"
    and s2: "s2 = persist_message (install_history s hist est b) (text_message ''system'' c)"
    and s3: "s3 = (if ses_has_store s2 \<and> 0 < ses_seq s then mark_superseded s2 (ses_seq s) else s2)"
  shows "mirror (persist_all s3 hist)"
proof (cases "ses_has_store s")
  case True
  let ?i = "install_history s hist est b"
  have bounded: "rows_bounded s" using assms(1) True by (simp add: mirror_alt)
  have live: "live_rows s3 = [text_message ''system'' c]"
  proof (cases "0 < ses_seq s")
    case True
    then show ?thesis
      using live_rows_mark [of ?i "text_message ''system'' c"] bounded \<open>ses_has_store s\<close>
      by (simp add: s3 s2)
  next
    case False
    then have "ses_rows s = []"
      using bounded by (cases "ses_rows s") (auto simp: rows_bounded_def)
    then have "live_rows s = []" by (simp add: live_rows_def)
    with False show ?thesis using \<open>ses_has_store s\<close> by (simp add: s3 s2 live_rows_persist)
  qed
  have "rows_bounded s3"
    using bounded by (simp add: s3 s2 rows_bounded_mark rows_bounded_persist)
  moreover have "ses_has_store s3" "ses_messages s3 = hist"
    using True by (simp_all add: s3 s2)
  ultimately show ?thesis
    using live assms(2)
    by (simp add: mirror_alt live_rows_persist_all rows_bounded_persist_all system_marker filter_not_system)
next
  case False
  then have "\<not> ses_has_store s3" by (simp add: s3 s2)
  then show ?thesis by (simp add: mirror_alt)
qed

lemma rebuild_not_system:
  assumes "task_first msgs" "acceptable msgs" "\<forall>m\<in>set msgs. \<not> is_system m"
  shows "\<forall>m\<in>set (rebuild_history msgs summary k). \<not> is_system m"
proof -
  obtain mid tail where r: "rebuild_history msgs summary k = hd msgs # mid @ tail"
      "mid = [] \<or> mid = [text_message ''user'' (summary_banner @ summary)]" "suffix tail msgs"
    using rebuild_shape [OF assms(1,2), of summary k] by blast
  have "set tail \<subseteq> set msgs" using r(3) by (rule set_mono_suffix)
  moreover have "hd msgs \<in> set msgs" using assms(1) by (auto elim: task_firstE)
  ultimately show ?thesis using r(1,2) assms(3) by auto
qed

lemma rebuild_ok:
  assumes "task_first msgs" "acceptable msgs"
  shows "acceptable (rebuild_history msgs summary k)" "task_first (rebuild_history msgs summary k)"
proof -
  obtain m ms where msgs: "msgs = m # ms" "is_user m" "msg_tool_calls m = []"
    using assms(1) by (rule task_firstE)
  obtain mid tail where r: "rebuild_history msgs summary k = m # mid @ tail"
      "mid = [] \<or> mid = [text_message ''user'' (summary_banner @ summary)]" "acceptable tail"
    using rebuild_shape [OF assms, of summary k] by (auto simp: msgs(1))
  show "acceptable (rebuild_history msgs summary k)"
    using r(2,3) msgs(2,3) unfolding r(1) by (auto simp: acceptable_user_Cons)
  show "task_first (rebuild_history msgs summary k)"
    using msgs(2,3) unfolding r(1) by (simp add: task_first_def)
qed

lemma tier2_ok:
  assumes "session_ok s"
    and "hist = rebuild_history (fst (elide_tool_results (ses_messages s) k)) summary k"
    and "s2 = persist_message (install_history s hist est b) (text_message ''system'' c)"
    and "s3 = (if ses_has_store s2 \<and> 0 < ses_seq s then mark_superseded s2 (ses_seq s) else s2)"
  shows "session_ok (persist_all s3 hist)"
proof -
  let ?e = "fst (elide_tool_results (ses_messages s) k)"
  have e: "task_first ?e" "acceptable ?e" "\<forall>m\<in>set ?e. \<not> is_system m"
    using assms(1) elide_system [of "ses_messages s" k]
    by (simp_all add: session_ok_def elide_task_first elide_acceptable)
  have sys: "\<forall>m\<in>set hist. \<not> is_system m"
    unfolding assms(2) by (rule rebuild_not_system [OF e])
  have "mirror (persist_all s3 hist)"
    using assms(1) by (intro tier2_mirror [OF _ sys assms(3,4)]) (simp add: session_ok_def)
  moreover have "ses_messages s3 = hist" by (simp add: assms(3,4))
  ultimately show ?thesis
    using rebuild_ok [OF e(1,2)] sys by (simp add: session_ok_def assms(2))
qed

lemma mirror_suppressed [simp]: "mirror (s\<lparr>ses_suppressed := b\<rparr>) = mirror s"
  by (simp add: mirror_def live_rows_def)

lemma session_ok_suppressed [simp]: "session_ok (s\<lparr>ses_suppressed := b\<rparr>) = session_ok s"
  by (simp add: session_ok_def)

lemma compact_ok:
  assumes "session_ok s"
  shows "session_ok (compact env before window threshold s)"
proof -
  obtain elided n where e: "elide_tool_results (ses_messages s) compact_keep_turns = (elided, n)"
    by fastforce
  then have el: "elided = fst (elide_tool_results (ses_messages s) compact_keep_turns)" by simp
  show ?thesis
  proof (cases "over_budget before window threshold (history_estimate elided)")
    case True
    define hist where
      "hist = rebuild_history elided (summarize_history (ce_complete env) elided) compact_keep_turns"
    define s2 where "s2 = persist_message
        (install_history s hist (history_estimate hist)
          (over_budget before window threshold (history_estimate hist)))
        (text_message ''system'' (ce_marker env 2 before (history_estimate hist) n))"
    define s3 where
      "s3 = (if ses_has_store s2 \<and> 0 < ses_seq s then mark_superseded s2 (ses_seq s) else s2)"
    have "compact env before window threshold s = persist_all s3 hist"
      unfolding compact_def Let_def e split hist_def s2_def s3_def by (simp only: True if_True)
    moreover have "session_ok (persist_all s3 hist)"
      by (rule tier2_ok [OF assms hist_def [unfolded el] s2_def s3_def])
    ultimately show ?thesis by simp
  next
    case False
    then show ?thesis
      using tier1_ok [OF assms, of compact_keep_turns] assms
      unfolding compact_def Let_def e split by (simp add: el)
  qed
qed

lemma maybe_compact_ok: "session_ok s \<Longrightarrow> session_ok (maybe_compact env wiring s)"
  by (auto simp: maybe_compact_def compact_ok split: option.splits prod.splits)

lemma force_compact_ok: "session_ok s \<Longrightarrow> session_ok (force_compact env s)"
  by (simp add: force_compact_def compact_ok)

text \<open>
  Compaction of either tier keeps the session sound: the conversation stays acceptable and
  starts with the task, and the transcript rows that are not superseded are, marker rows and
  tool-result contents apart, exactly the live conversation.
\<close>

theorem compact_preserves_session:
  assumes "session_ok s"
  shows "session_ok (compact env before window threshold s)
    \<and> ses_status (compact env before window threshold s) = ses_status s"
proof -
  have status: "ses_status (persist_message s m) = ses_status s"
      "ses_status (mark_superseded s k) = ses_status s"
      "ses_status (install_history s h e b) = ses_status s" for s m k h e b
    by (simp_all add: persist_message_def mark_superseded_def install_history_def)
  have status_all: "ses_status (persist_all s ms) = ses_status s" for s ms
    by (induction ms arbitrary: s) (simp_all add: persist_all_def status)
  have "ses_status (compact env before window threshold s) = ses_status s"
    unfolding compact_def Let_def by (simp add: status status_all split: prod.split)
  with compact_ok [OF assms] show ?thesis by simp
qed

text \<open>
  When nothing can be elided and tier 2 is not due, a compaction changes nothing at all: in
  particular the branch that would suppress further compactions there is never taken.
\<close>

theorem compact_nothing_to_do:
  assumes "snd (elide_tool_results (ses_messages s) compact_keep_turns) = 0"
    and "\<not> over_budget before window threshold (history_estimate (ses_messages s))"
  shows "compact env before window threshold s = s"
proof -
  obtain elided where e: "elide_tool_results (ses_messages s) compact_keep_turns = (elided, 0)"
    using assms(1) by (metis prod.collapse)
  let ?p = "protected_tail_start (ses_messages s) compact_keep_turns"
  have "filter (elidable (tool_name_of (ses_messages s))) (take ?p (ses_messages s)) = []"
    using assms(1) by (simp add: elide_tool_results_def Let_def)
  then have "map (elide_message (tool_name_of (ses_messages s))) (take ?p (ses_messages s))
      = take ?p (ses_messages s)"
    by (intro map_idI) (auto simp: elide_message_def filter_empty_conv)
  then have "elided = ses_messages s"
    using e elide_fst [of "ses_messages s" compact_keep_turns] by simp
  with assms(2) show ?thesis
    unfolding compact_def Let_def e by simp
qed

section \<open>The loop keeps the invariant\<close>

lemma collect_frame:
  "collect_response ce s acc tcs evs d = (s', r) \<Longrightarrow>
     ses_messages s' = ses_messages s \<and> ses_rows s' = ses_rows s \<and> ses_seq s' = ses_seq s
     \<and> ses_has_store s' = ses_has_store s \<and> ses_status s' = ses_status s"
  by (induction ce s acc tcs evs d rule: collect_response.induct)
    (auto split: if_splits stream_event.splits option.splits)

lemma collect_message_role:
  "collect_response ce s acc tcs evs d = (s', Inr (am, tcs')) \<Longrightarrow>
     msg_role am = ''assistant'' \<and> msg_tool_calls am = tcs'"
proof (induction evs arbitrary: s acc tcs)
  case Nil
  then show ?case by (auto split: if_splits)
next
  case (Cons ev evs)
  then show ?case by (cases ev) (auto split: option.splits)
qed

lemma collect_message:
  "collect_response ce s acc tcs evs d = (s', Inr (am, tcs')) \<Longrightarrow>
     is_assistant am \<and> msg_tool_calls am = tcs' \<and> \<not> is_system am"
  by (drule collect_message_role) (simp add: is_assistant_def is_system_def)

lemma collect_ok:
  "collect_response ce s acc tcs evs d = (s', r) \<Longrightarrow> session_ok s \<Longrightarrow> session_ok s'"
  using collect_frame [of ce s acc tcs evs d s' r]
  by (simp add: session_ok_def mirror_def live_rows_def)

lemma tool_message_simps [simp]:
  "is_tool (tool_message tc r)" "\<not> is_system (tool_message tc r)"
  "msg_tool_calls (tool_message tc r) = []" "msg_tool_call_id (tool_message tc r) = tc_id tc"
  by (simp_all add: tool_message_def is_tool_def is_system_def)

lemma exec_appends:
  assumes "exec_tool_calls exec tcs s w = (s', w')"
  shows "\<exists>ts. ses_messages s' = ses_messages s @ ts \<and> map msg_tool_call_id ts = map tc_id tcs
    \<and> (\<forall>t\<in>set ts. is_tool t \<and> \<not> is_system t \<and> msg_tool_calls t = [])
    \<and> (mirror s \<longrightarrow> mirror s')"
  using assms
proof (induction tcs arbitrary: s w)
  case (Cons tc tcs)
  obtain r w1 where r: "exec (tc_name tc) (tc_args tc) w = (r, w1)" by fastforce
  define m where "m = tool_message tc (cap_tool_result (tc_name tc)
      (case r of Inl err \<Rightarrow> ''error: '' @ err | Inr res \<Rightarrow> res))"
  have "exec_tool_calls exec tcs (persist_message (append_message s m) m) w1 = (s', w')"
    using Cons.prems by (simp add: r m_def Let_def)
  from Cons.IH [OF this] obtain ts where
    "ses_messages s' = ses_messages s @ [m] @ ts" "map msg_tool_call_id ts = map tc_id tcs"
    "\<forall>t\<in>set ts. is_tool t \<and> \<not> is_system t \<and> msg_tool_calls t = []"
    "mirror (persist_message (append_message s m) m) \<longrightarrow> mirror s'"
    by auto
  then show ?case
    by (intro exI [of _ "m # ts"]) (auto simp: m_def mirror_append)
qed simp

lemma paired_append:
  assumes "opens_cleanly ys" "paired [] ys"
  shows "paired ids xs \<Longrightarrow> paired ids (xs @ ys)"
proof (induction xs arbitrary: ids)
  case Nil
  show ?case using assms(2) paired_cleanly_any [OF assms(1), of ids "[]"] by simp
qed (simp split: if_splits)

lemma takeWhile_subset_append: "set (takeWhile P xs) \<subseteq> set (takeWhile P (xs @ ys))"
  by (induction xs) auto

lemma answered_append: "answered xs \<Longrightarrow> answered ys \<Longrightarrow> answered (xs @ ys)"
proof (induction xs)
  case (Cons x xs)
  have "msg_tool_call_id ` set (takeWhile is_tool xs)
      \<subseteq> msg_tool_call_id ` set (takeWhile is_tool (xs @ ys))"
    by (rule image_mono [OF takeWhile_subset_append])
  then show ?case using Cons by auto
qed simp

lemma acceptable_append:
  "acceptable xs \<Longrightarrow> acceptable ys \<Longrightarrow> acceptable (xs @ ys)"
  by (simp add: acceptable_def paired_append paired_Nil_opens answered_append)

lemma paired_results:
  "\<forall>t\<in>set ts. is_tool t \<Longrightarrow> set (map msg_tool_call_id ts) \<subseteq> set ids \<Longrightarrow> paired ids ts"
  by (induction ts) auto

lemma answered_results:
  "\<forall>t\<in>set ts. msg_tool_calls t = [] \<Longrightarrow> answered ts"
  by (induction ts) auto

text \<open>A finished tool round is acceptable by itself.\<close>

lemma acceptable_round:
  assumes "is_assistant am" "\<forall>t\<in>set ts. is_tool t \<and> msg_tool_calls t = []"
    "map msg_tool_call_id ts = map tc_id (msg_tool_calls am)"
  shows "acceptable (am # ts)"
proof -
  have tw: "takeWhile is_tool ts = ts" using assms(2) by simp
  have ids: "set (map msg_tool_call_id ts) = set (map tc_id (msg_tool_calls am))"
    using assms(3) by simp
  have "paired (map tc_id (msg_tool_calls am)) ts"
    using assms(2) ids by (intro paired_results) auto
  moreover have "answered ts" using assms(2) by (intro answered_results) auto
  moreover have "\<forall>tc\<in>set (msg_tool_calls am). tc_id tc \<in> set (map msg_tool_call_id ts)"
    unfolding ids by simp
  ultimately show ?thesis
    using assms(1) by (simp add: acceptable_def tw)
qed

lemma task_first_append: "task_first xs \<Longrightarrow> task_first (xs @ ys)"
  by (cases xs) (auto simp: task_first_def)

lemma set_status_ok [simp]: "session_ok (set_status s st) = session_ok s"
  by (simp add: session_ok_def mirror_def)

text \<open>Every way through the body keeps the invariant.\<close>

definition iteration_ok :: "'w iteration \<Rightarrow> bool" where
  "iteration_ok it \<longleftrightarrow>
     (case it of Return (s, w, n, e) \<Rightarrow> session_ok s | Continue n turn retried s w \<Rightarrow> session_ok s)"

lemma completed_round_ok:
  assumes "session_ok s2" "is_assistant am" "\<not> is_system am"
    and "exec_tool_calls exec (msg_tool_calls am) (persist_message (append_message s2 am) am) w = (s4, w')"
  shows "session_ok s4"
proof -
  obtain ts where ts: "ses_messages s4 = ses_messages s2 @ [am] @ ts"
      "map msg_tool_call_id ts = map tc_id (msg_tool_calls am)"
      "\<forall>t\<in>set ts. is_tool t \<and> \<not> is_system t \<and> msg_tool_calls t = []"
      "mirror (persist_message (append_message s2 am) am) \<longrightarrow> mirror s4"
    using exec_appends [OF assms(4)] by auto
  have "acceptable (am # ts)" using acceptable_round [OF assms(2)] ts(2,3) by blast
  then have "acceptable (ses_messages s2 @ am # ts)"
    using assms(1) by (intro acceptable_append) (simp_all add: session_ok_def)
  then show ?thesis
    using assms(1,3) ts mirror_append [of s2 am]
    by (auto simp: session_ok_def task_first_append)
qed

lemma plain_answer_ok:
  assumes "session_ok s2" "is_assistant am" "\<not> is_system am" "msg_tool_calls am = []"
  shows "session_ok (persist_message (append_message s2 am) am)"
  by (rule completed_round_ok [OF assms(1-3), where w = "()" and w' = "()" and exec = undefined])
    (simp add: assms(4))

lemma loop_iteration_ok:
  assumes "session_ok s"
  shows "iteration_ok (loop_iteration env n turn retried s w)"
proof -
  let ?s1 = "maybe_compact (re_compaction env) (re_wiring env n) s"
  have s1: "session_ok ?s1" by (rule maybe_compact_ok [OF assms])
  have round: "iteration_ok
      (let tcs' = normalize_tool_call_args (re_valid_json env) tcs;
           am' = am\<lparr>msg_tool_calls := normalize_tool_call_args (re_valid_json env) (msg_tool_calls am)\<rparr>;
           s3 = persist_message (append_message s2 am') am'
       in if tcs' = [] then Return (set_status s3 SCompleted, w, Suc n, None)
          else (let (s4, w') = exec_tool_calls (re_exec env) tcs' s3 w
                in Continue (Suc n) (Suc turn) False s4 w'))"
    if "collect_response (re_ctx_err env) ?s1 [] [] evs d = (s2, Inr (am, tcs))" for evs d s2 am tcs
  proof -
    define am' where
      "am' = am\<lparr>msg_tool_calls := normalize_tool_call_args (re_valid_json env) (msg_tool_calls am)\<rparr>"
    have s2: "session_ok s2" by (rule collect_ok [OF that s1])
    have am: "is_assistant am'" "\<not> is_system am'"
        "normalize_tool_call_args (re_valid_json env) tcs = msg_tool_calls am'"
      using collect_message [OF that] by (simp_all add: am'_def is_assistant_def is_system_def)
    show ?thesis
      unfolding Let_def am'_def [symmetric] am(3)
      using plain_answer_ok [OF s2 am(1,2)] completed_round_ok [OF s2 am(1,2)]
      by (auto simp: iteration_ok_def split: prod.split)
  qed
  show ?thesis
    unfolding loop_iteration_def
    using assms s1 round force_compact_ok collect_ok [OF _ s1]
    by (auto simp: Let_def iteration_ok_def split: sum.split prod.split)
qed

lemma session_loop_ok:
  "session_ok s \<Longrightarrow> session_ok (fst (session_loop env n turn retried s w))"
proof (induction env n turn retried s w rule: session_loop.induct)
  case (1 env n turn retried s w)
  show ?case
  proof (cases "loop_iteration env n turn retried s w")
    case (Return r)
    then show ?thesis
      using loop_iteration_ok [OF 1(2), of env n turn retried w]
      by (subst session_loop.simps) (auto simp: iteration_ok_def)
  next
    case (Continue n' turn' retried' s' w')
    then have "session_ok s'"
      using loop_iteration_ok [OF 1(2), of env n turn retried w] by (simp add: iteration_ok_def)
    then show ?thesis
      using 1(1) [OF Continue] Continue by (subst session_loop.simps) simp
  qed
qed

text \<open>Each turn costs one request, and at most one more for its retry after a forced compaction.\<close>

lemma loop_iteration_requests:
  "loop_iteration env n turn retried s w = Return (s', w', n', e) \<Longrightarrow>
     n' = n \<or> turn < re_max_turns env \<and> n' = Suc n"
  unfolding loop_iteration_def Let_def
  by (auto split: if_splits sum.splits prod.splits)

lemma session_loop_requests:
  "fst (snd (snd (session_loop env n turn retried s w))) + (if retried \<and> turn < re_max_turns env then 1 else 0)
     \<le> n + 2 * (re_max_turns env - turn)"
proof (induction env n turn retried s w rule: session_loop.induct)
  case (1 env n turn retried s w)
  show ?case
  proof (cases "loop_iteration env n turn retried s w")
    case (Return r)
    obtain s' w' n' e where r: "r = (s', w', n', e)" by (cases r)
    then show ?thesis
      using loop_iteration_requests [OF Return [unfolded r]] Return
      by (subst session_loop.simps) auto
  next
    case (Continue n' turn' retried' s' w')
    note d = loop_iteration_decreases [OF Continue]
    then show ?thesis
      using 1(1) [OF Continue] Continue
      by (subst session_loop.simps) (auto split: if_splits)
  qed
qed

text \<open>How a run ends: the status says which of the exits was taken.\<close>

definition exit_status :: "'w run_result \<Rightarrow> bool" where
  "exit_status r \<longleftrightarrow>
     (case r of (s, w, n, e) \<Rightarrow>
        (case e of
           None \<Rightarrow> ses_status s = SCompleted \<and> ses_messages s \<noteq> []
                   \<and> is_assistant (last (ses_messages s)) \<and> msg_tool_calls (last (ses_messages s)) = []
         | Some (MaxTurnsExceeded k) \<Rightarrow> ses_status s = SFailed
         | Some (CtxError c) \<Rightarrow> ses_status s = SCancelled
         | Some (StartingStream c) \<Rightarrow> ses_status s = SFailed
         | Some (CollectingResponse c) \<Rightarrow> ses_status s \<in> {SFailed, SCancelled}))"

lemma loop_iteration_exit:
  assumes "loop_iteration env n turn retried s w = Return r"
  shows "exit_status r"
proof -
  have "exit_status (set_status (persist_message (append_message s2 am') am') SCompleted, w, k, None)"
    if "is_assistant am'" "msg_tool_calls am' = []" for s2 am' k
    using that by (simp add: exit_status_def)
  moreover have "is_assistant (am\<lparr>msg_tool_calls := tcs'\<rparr>)"
    if "collect_response ce s1 [] [] evs d = (s2, Inr (am, tcs))" for ce s1 evs d s2 am tcs tcs'
    using collect_message [OF that] by (simp add: is_assistant_def)
  moreover have "normalize_tool_call_args v (msg_tool_calls am) = normalize_tool_call_args v tcs"
    if "collect_response ce s1 [] [] evs d = (s2, Inr (am, tcs))" for ce s1 evs d s2 am tcs v
    using collect_message [OF that] by simp
  ultimately show ?thesis
    using assms unfolding loop_iteration_def Let_def
    by (auto split: if_splits sum.splits prod.splits simp: exit_status_def)
qed

lemma session_loop_exit: "exit_status (session_loop env n turn retried s w)"
proof (induction env n turn retried s w rule: session_loop.induct)
  case (1 env n turn retried s w)
  show ?case
  proof (cases "loop_iteration env n turn retried s w")
    case (Return r)
    then show ?thesis
      by (subst session_loop.simps) (simp add: loop_iteration_exit [OF Return])
  next
    case (Continue n' turn' retried' s' w')
    then show ?thesis
      using 1 [OF Continue] by (subst session_loop.simps) simp
  qed
qed

section \<open>Runs from the start\<close>

lemma session_ok_start:
  assumes "task \<noteq> []"
  shows "session_ok (persist_message (new_session store task) (text_message ''user'' task))"
proof -
  let ?m = "text_message ''user'' task"
  have sys: "\<not> is_system ?m" by (simp add: is_system_def text_message_def)
  have tool: "\<not> is_tool ?m" by (simp add: is_tool_def text_message_def)
  have calls: "msg_tool_calls ?m = []" by (simp add: text_message_def)
  have msgs: "ses_messages (new_session store task) = [?m]" using assms by (simp add: new_session_def)
  have "acceptable [?m]" by (simp add: acceptable_def tool calls)
  moreover have "task_first [?m]" by (simp add: task_first_def calls)
  moreover have "mirror (persist_message (new_session store task) ?m)"
    using assms sys by (simp add: mirror_def live_rows_def persist_message_def new_session_def)
  ultimately show ?thesis using sys by (simp add: session_ok_def msgs)
qed

lemma run_session_start:
  assumes "task \<noteq> []"
  shows "run_session env (new_session store task) w
    = session_loop env 0 0 False (persist_message (new_session store task) (text_message ''user'' task)) w"
  using assms by (simp add: run_session_def new_session_def)

text \<open>
  C1. A run started on a non-empty task, whatever the provider, the tools and the compaction
  completions answer, ends after at most twice the turn limit of requests in a session that is
  sound (acceptable conversation, task first, transcript mirrors it), and its status names the
  exit: completed exactly when \<open>Run\<close> returns no error, and then the conversation ends with an
  assistant message that calls no tool.
\<close>

theorem run_session_sound:
  assumes "task \<noteq> []"
    and "run_session env (new_session store task) w = (s, w', n, e)"
  shows "session_ok s \<and> n \<le> 2 * re_max_turns env
    \<and> (ses_status s = SCompleted \<longleftrightarrow> e = None)
    \<and> (e = None \<longrightarrow> is_assistant (last (ses_messages s)) \<and> msg_tool_calls (last (ses_messages s)) = [])"
proof -
  let ?s0 = "persist_message (new_session store task) (text_message ''user'' task)"
  have r: "session_loop env 0 0 False ?s0 w = (s, w', n, e)"
    using assms(2) unfolding run_session_start [OF assms(1)] .
  have "session_ok s"
    using session_loop_ok [OF session_ok_start [OF assms(1), of store], of env 0 0 False w] r by simp
  moreover have "n \<le> 2 * re_max_turns env"
    using session_loop_requests [of env 0 0 False ?s0 w] r by simp
  moreover have "exit_status (s, w', n, e)"
    using session_loop_exit [of env 0 0 False ?s0 w] r by simp
  ultimately show ?thesis
    by (auto simp: exit_status_def split: option.splits run_error.splits)
qed

text \<open>Two surroundings that differ only in what the provider does with unsound conversations.\<close>

definition agree_on_sound :: "'w run_env \<Rightarrow> 'w run_env \<Rightarrow> bool" where
  "agree_on_sound e1 e2 \<longleftrightarrow>
     e2 = e1\<lparr>re_chat := re_chat e2\<rparr>
     \<and> (\<forall>n h. acceptable h \<and> task_first h \<longrightarrow> re_chat e1 n h = re_chat e2 n h)"

lemma agree_fields:
  assumes "agree_on_sound e1 e2"
  shows "re_max_turns e2 = re_max_turns e1" "re_cancelled_top e2 = re_cancelled_top e1"
    "re_cancelled_after e2 = re_cancelled_after e1" "re_ctx_err e2 = re_ctx_err e1"
    "re_exec e2 = re_exec e1" "re_valid_json e2 = re_valid_json e1"
    "re_wiring e2 = re_wiring e1" "re_compaction e2 = re_compaction e1"
proof -
  have "e2 = e1\<lparr>re_chat := re_chat e2\<rparr>" using assms by (simp add: agree_on_sound_def)
  then obtain c where "e2 = e1\<lparr>re_chat := c\<rparr>" by blast
  then show "re_max_turns e2 = re_max_turns e1" "re_cancelled_top e2 = re_cancelled_top e1"
    "re_cancelled_after e2 = re_cancelled_after e1" "re_ctx_err e2 = re_ctx_err e1"
    "re_exec e2 = re_exec e1" "re_valid_json e2 = re_valid_json e1"
    "re_wiring e2 = re_wiring e1" "re_compaction e2 = re_compaction e1" by simp_all
qed

lemma agree_iteration:
  assumes "agree_on_sound e1 e2" "session_ok s"
  shows "loop_iteration e2 n turn retried s w = loop_iteration e1 n turn retried s w"
proof -
  let ?s1 = "maybe_compact (re_compaction e1) (re_wiring e1 n) s"
  have "session_ok ?s1" by (rule maybe_compact_ok [OF assms(2)])
  then have "re_chat e2 n (ses_messages ?s1) = re_chat e1 n (ses_messages ?s1)"
    using assms(1) by (simp add: session_ok_def agree_on_sound_def)
  then show ?thesis
    unfolding loop_iteration_def agree_fields [OF assms(1)] Let_def by simp
qed

lemma agree_loop:
  "agree_on_sound e1 e2 \<Longrightarrow> session_ok s \<Longrightarrow>
     session_loop e2 n turn retried s w = session_loop e1 n turn retried s w"
proof (induction e1 n turn retried s w rule: session_loop.induct)
  case (1 env n turn retried s w)
  note it = agree_iteration [OF 1(2,3), of n turn retried w]
  show ?case
  proof (cases "loop_iteration env n turn retried s w")
    case (Return r)
    then show ?thesis by (simp add: session_loop.simps [of _ n] it)
  next
    case (Continue n' turn' retried' s' w')
    then have "session_ok s'"
      using loop_iteration_ok [OF 1(3), of env n turn retried w] by (simp add: iteration_ok_def)
    from 1(1) [OF Continue 1(2) this] show ?thesis
      by (simp add: session_loop.simps [of _ n] it Continue)
  qed
qed

text \<open>
  C3. The provider is only ever asked with a conversation it can accept: every tool result
  answers a call of the assistant message before it, every call is answered, and the task comes
  first. Two providers that agree on such conversations, however they differ on others, give
  the same run.
\<close>

theorem provider_sees_sound_histories:
  assumes "task \<noteq> []" "agree_on_sound env env'"
  shows "run_session env' (new_session store task) w = run_session env (new_session store task) w"
  using agree_loop [OF assms(2) session_ok_start [OF assms(1)]]
  by (simp add: run_session_start [OF assms(1)])

section \<open>Tool results\<close>

text \<open>
  Whatever a tool returns, a capped result exceeds the cap by no more than the note and is
  a prefix of whole runes with the note behind it; a result within the cap, or one of
  \<open>spawn_worker\<close>, is passed on unchanged.
\<close>

theorem cap_tool_result_correct:
  assumes "\<forall>r\<in>set rs. rune_chunk r"
  shows "if name = ''spawn_worker'' \<or> length (concat rs) \<le> max_tool_result_bytes
     then cap_tool_result name (concat rs) = concat rs
     else (\<exists>k. cap_tool_result name (concat rs) = concat (take k rs) @ truncation_note
            \<and> length (concat (take k rs)) \<le> max_tool_result_bytes)"
proof (cases "name = ''spawn_worker'' \<or> length (concat rs) \<le> max_tool_result_bytes")
  case True
  then show ?thesis by (auto simp: cap_tool_result_def)
next
  case False
  then have "max_tool_result_bytes < length (concat rs)" by simp
  from rune_cut_whole_runes [OF assms this] obtain k where
    k: "take (rune_cut (concat rs) max_tool_result_bytes) (concat rs) = concat (take k rs)" by blast
  have "length (concat (take k rs)) \<le> max_tool_result_bytes"
    unfolding k [symmetric] using rune_cut_le [of "concat rs" max_tool_result_bytes] by simp
  then show ?thesis using False k by (auto simp: cap_tool_result_def intro!: exI [of _ k])
qed

section \<open>The statements on concrete runs\<close>

text \<open>A provider that first asks for a tool and then answers, in an unlimited window.\<close>

definition sample_env :: "unit run_env" where
  "sample_env =
     \<lparr>re_cancelled_top = (\<lambda>n. False), re_cancelled_after = (\<lambda>n. False),
      re_ctx_err = OtherError ''context canceled'',
      re_chat = (\<lambda>n h. Inr (if n = 0
          then [EvToolCall (Some \<lparr>tc_id = ''c1'', tc_name = ''read_file'', tc_args = []\<rparr>), EvDone]
          else [EvText ''all '', EvText ''done'', EvDone], False)),
      re_exec = (\<lambda>name args w. (Inr ''package main'', w)),
      re_valid_json = (\<lambda>s. s = ''{}''), re_wiring = (\<lambda>n. None),
      re_compaction = \<lparr>ce_complete = (\<lambda>s. Inr []), ce_marker = (\<lambda>t b a k. [])\<rparr>,
      re_max_turns = 5\<rparr>"

lemma sample_run:
  "case run_session sample_env (new_session True ''go'') () of (s, w, n, e) \<Rightarrow>
     n = 2 \<and> e = None \<and> length (ses_messages s) = 4 \<and> length (ses_rows s) = 4 \<and> final_text s = ''all done''"
  by code_simp

lemma run_session_sound_witness:
  "\<exists>s w n. run_session sample_env (new_session True ''go'') () = (s, w, n, None)
     \<and> session_ok s \<and> n = 2 \<and> ses_status s = SCompleted"
proof -
  obtain s w n e where r: "run_session sample_env (new_session True ''go'') () = (s, w, n, e)"
    by (cases "run_session sample_env (new_session True ''go'') ()") auto
  then have "n = 2" "e = None" using sample_run by simp_all
  then show ?thesis using run_session_sound [OF _ r] r by auto
qed

lemma provider_sees_sound_witness:
  "run_session (sample_env\<lparr>re_chat := (\<lambda>n h. if acceptable h \<and> task_first h then re_chat sample_env n h
       else Inl (OtherError ''bad request''))\<rparr>) (new_session True ''go'') ()
   = run_session sample_env (new_session True ''go'') ()"
  by (rule provider_sees_sound_histories) (simp_all add: agree_on_sound_def)

lemma compact_preserves_witness:
  "session_ok (compact (re_compaction sample_env) 90 100 80
     (persist_message (new_session True ''go'') (text_message ''user'' ''go'')))"
  using compact_preserves_session [OF session_ok_start [of "''go''" True]] by simp

lemma compact_nothing_witness:
  "compact (re_compaction sample_env) 90 100 80 (new_session True ''go'') = new_session True ''go''"
proof (rule compact_nothing_to_do)
  show "snd (elide_tool_results (ses_messages (new_session True ''go'')) compact_keep_turns) = 0"
    by code_simp
  show "\<not> over_budget 90 100 80 (history_estimate (ses_messages (new_session True ''go'')))"
    by code_simp
qed

lemma cap_tool_result_witness:
  "cap_tool_result ''read_file'' (concat [''a'', ''b'']) = ''ab''"
proof -
  have "\<forall>r\<in>set [''a'', ''b'']. rune_chunk r" by code_simp
  from cap_tool_result_correct [OF this, of "''read_file''"] show ?thesis
    by (simp add: max_tool_result_bytes_def)
qed

end
