(* ===== verification/OperatorTurn.thy ===== *)
theory OperatorTurn
  imports Workspace WorkerRun
begin

text \<open>
  A turn of the operator, \<open>handleUserMessage\<close> of \<open>internal/operator/operator.go\<close>: the
  conversation it keeps and persists, the rounds with the model, the tools it dispatches to
  (\<open>tools.go\<close>), the guard against creating a job twice and the two bounds that end a turn.
  The model's answers, the context's state, the session file's writes and the tools that only
  talk to the user or the knowledge base are fields of the environment.
\<close>

section \<open>State\<close>

text \<open>What the operator's callbacks have been given.\<close>

datatype op_output =
    OutEvent op_event
  | OutText string string                     \<comment> \<open>turn, text\<close>
  | OutReasoning string string
  | OutToolCall string string string bool     \<comment> \<open>tool, arguments, result, error\<close>
  | OutTurnDone string int int nat int        \<comment> \<open>turn, tokens in, out, reasoning, context\<close>
  | OutCompaction nat nat string              \<comment> \<open>tokens before, estimated after, archive\<close>

record operator =
  op_messages :: "message list"
  op_tokens :: nat
  op_suppressed :: bool
  op_turn :: string
  op_requests :: nat
  op_saved :: "(message list \<times> nat) option"
  op_archives :: "(string \<times> message list \<times> nat) list"
  op_out :: "op_output list"
  op_world :: world

record operator_env =
  oe_tools :: tools_env
  oe_clone :: clone_env
  oe_other_tool :: "string \<Rightarrow> string \<Rightarrow> nat \<Rightarrow> string + string"
  oe_chat :: "nat \<Rightarrow> message list \<Rightarrow> go_error + stream_event list \<times> bool"
  oe_cancelled :: "nat \<Rightarrow> bool"
  oe_ctx_err :: go_error
  oe_session_file :: bool
  oe_write_ok :: "message list \<times> nat \<Rightarrow> bool"

fun go_error_text :: "go_error \<Rightarrow> string" where
  "go_error_text (ApiError p code body) = p @ '' API error ('' @ fmt_int code @ ''): '' @ body"
| "go_error_text (OtherError txt) = txt"

definition emit :: "op_output \<Rightarrow> operator \<Rightarrow> operator" where
  "emit x s = s\<lparr>op_out := op_out s @ [x]\<rparr>"

definition emit_text :: "string \<Rightarrow> operator \<Rightarrow> operator" where
  "emit_text t s = emit (OutText (op_turn s) t) s"

definition emit_reasoning :: "string \<Rightarrow> operator \<Rightarrow> operator" where
  "emit_reasoning t s = emit (OutReasoning (op_turn s) t) s"

text \<open>Running an action of the tools in the operator's world.\<close>

definition in_world :: "'a act \<Rightarrow> operator \<Rightarrow> (string + 'a) \<times> operator" where
  "in_world m s = (case m (op_world s) of (r, w) \<Rightarrow> (r, s\<lparr>op_world := w\<rparr>))"

section \<open>The conversation\<close>

definition max_messages :: nat where "max_messages = 200"

definition persist_session :: "operator_env \<Rightarrow> operator \<Rightarrow> operator" where
  "persist_session env s =
     (if \<not> oe_session_file env then s
      else if \<not> oe_write_ok env (op_messages s, op_tokens s) then s
      else s\<lparr>op_saved := Some (op_messages s, op_tokens s)\<rparr>)"

definition append_msg :: "operator_env \<Rightarrow> message \<Rightarrow> operator \<Rightarrow> operator" where
  "append_msg env m s =
     persist_session env (s\<lparr>op_messages := truncate_messages (op_messages s @ [m]) max_messages\<rparr>)"

text \<open>
  \<open>loadSession\<close>: a missing, unreadable or corrupt file (\<open>None\<close>) leaves the operator as it is.
\<close>

definition load_session :: "operator_env \<Rightarrow> (message list \<times> nat) option \<Rightarrow> operator \<Rightarrow> operator" where
  "load_session env file s =
     (if \<not> oe_session_file env then s
      else case file of
        None \<Rightarrow> s
      | Some (ms, tokens) \<Rightarrow>
          (let msgs = trim_incomplete_tail (truncate_messages ms max_messages)
           in if msgs = [] then s
              else s\<lparr>op_messages := msgs,
                     op_tokens := (if tokens = 0 then estimate_tokens msgs else tokens)\<rparr>))"

section \<open>Reading a response\<close>

record turn_usage =
  us_in :: int
  us_out :: int

fun collect_turn ::
  "go_error \<Rightarrow> operator \<Rightarrow> string \<Rightarrow> tool_call list \<Rightarrow> turn_usage \<Rightarrow> stream_event list \<Rightarrow> bool
     \<Rightarrow> operator \<times> (go_error + message \<times> tool_call list \<times> turn_usage)" where
  "collect_turn ctx_err s acc tcs u [] ctx_done =
     (if ctx_done then (s, Inl ctx_err)
      else (s, Inr (\<lparr>msg_role = ''assistant'', msg_content = acc,
                     msg_tool_calls = tcs, msg_tool_call_id = []\<rparr>, tcs, u)))"
| "collect_turn ctx_err s acc tcs u (ev # evs) ctx_done =
     (case ev of
        EvText t \<Rightarrow> collect_turn ctx_err (emit_text t s) (acc @ t) tcs u evs ctx_done
      | EvReasoning t \<Rightarrow> collect_turn ctx_err (emit_reasoning t s) acc tcs u evs ctx_done
      | EvToolCall None \<Rightarrow> collect_turn ctx_err s acc tcs u evs ctx_done
      | EvToolCall (Some tc) \<Rightarrow> collect_turn ctx_err s acc (tcs @ [tc]) u evs ctx_done
      | EvUsage None \<Rightarrow> collect_turn ctx_err s acc tcs u evs ctx_done
      | EvUsage (Some (i, out)) \<Rightarrow>
          collect_turn ctx_err s acc tcs (u\<lparr>us_in := us_in u + i, us_out := us_out u + out\<rparr>) evs ctx_done
      | EvError e \<Rightarrow> (s, Inl e)
      | EvDone \<Rightarrow> collect_turn ctx_err s acc tcs u evs ctx_done)"

section \<open>Tools\<close>

definition operator_execute :: "operator_env \<Rightarrow> string \<Rightarrow> string \<Rightarrow> operator \<Rightarrow> (string + string) \<times> operator" where
  "operator_execute env name args s =
     (let tools = oe_tools env in
      if name = ''surface_to_user'' then in_world (system_execute tools ''surface_to_user'' args) s
      else if name = ''list_jobs'' then in_world (list_jobs_tool tools) s
      else if name = ''query_job'' then in_world (system_execute tools ''query_job'' args) s
      else if name = ''query_graphs'' then in_world (system_execute tools ''query_graphs'' ''{}'') s
      else if name = ''setup_workspace'' then in_world (setup_workspace_tool tools (oe_clone env) args) s
      else if name = ''create_job'' then in_world (system_execute tools ''create_job'' args) s
      else if name = ''create_task'' then in_world (system_execute tools ''create_task'' args) s
      else if name = ''retry_task'' then in_world (system_execute tools ''retry_task'' args) s
      else if name \<in> {''ask_user'', ''kb_search'', ''kb_write_user''}
        then (oe_other_tool env name args (op_requests s), s)
      else (Inl (unknown_tool_text name), s))"

section \<open>The guard against duplicate jobs\<close>

definition create_job_title_from_args :: "string \<Rightarrow> string option" where
  "create_job_title_from_args args =
     (case unmarshal_strings [''title''] args of
        None \<Rightarrow> None
      | Some f \<Rightarrow> if f ''title'' = [] then None else Some (f ''title''))"

definition normalize_job_title :: "string \<Rightarrow> string" where
  "normalize_job_title title = join_strings '' '' (go_fields (to_lower title))"

definition duplicate_job_text :: "string \<Rightarrow> string \<Rightarrow> string" where
  "duplicate_job_text title prior =
     ''A job titled '' @ fmt_q title @ '' was already created earlier in this turn (result: '' @ prior
     @ ''). Do not create another job for this request '' @ em_dash @ '' use the existing job.''"

definition duplicate_create_job_result :: "string \<Rightarrow> string \<Rightarrow> (string \<rightharpoonup> string) \<Rightarrow> string option" where
  "duplicate_create_job_result name args seen =
     (if name \<noteq> ''create_job'' then None
      else case create_job_title_from_args args of
        None \<Rightarrow> None
      | Some title \<Rightarrow> map_option (duplicate_job_text title) (seen (normalize_job_title title)))"

section \<open>A turn\<close>

definition max_turn_rounds :: nat where "max_turn_rounds = 25"

definition max_consecutive_failed_rounds :: nat where "max_consecutive_failed_rounds = 3"

record turn =
  tn_in :: int
  tn_out :: int
  tn_last :: int
  tn_failed_rounds :: nat
  tn_last_error :: string
  tn_seen :: "string \<rightharpoonup> string"

definition new_turn :: turn where
  "new_turn = \<lparr>tn_in = 0, tn_out = 0, tn_last = 0, tn_failed_rounds = 0, tn_last_error = [],
     tn_seen = (\<lambda>_. None)\<rparr>"

text \<open>One tool call: its result, whether it failed, the turn's record of it.\<close>

definition run_call :: "operator_env \<Rightarrow> tool_call \<Rightarrow> turn \<Rightarrow> operator \<Rightarrow> string \<times> bool \<times> turn \<times> operator" where
  "run_call env tc t s =
     (case duplicate_create_job_result (tc_name tc) (tc_args tc) (tn_seen t) of
        Some dup \<Rightarrow> (dup, False, t, s)
      | None \<Rightarrow>
          (case operator_execute env (tc_name tc) (tc_args tc) s of
             (Inl e, s') \<Rightarrow> (''error: '' @ e, True, t\<lparr>tn_last_error := e\<rparr>, s')
           | (Inr r, s') \<Rightarrow>
               (r, False,
                (case (if tc_name tc = ''create_job'' then create_job_title_from_args (tc_args tc) else None) of
                   None \<Rightarrow> t
                 | Some title \<Rightarrow> t\<lparr>tn_seen := (tn_seen t)(normalize_job_title title \<mapsto> r)\<rparr>), s')))"

definition tool_result_message :: "string \<Rightarrow> tool_call \<Rightarrow> message" where
  "tool_result_message r tc =
     \<lparr>msg_role = ''tool'', msg_content = r, msg_tool_calls = [], msg_tool_call_id = tc_id tc\<rparr>"

fun run_calls :: "operator_env \<Rightarrow> tool_call list \<Rightarrow> nat \<Rightarrow> turn \<Rightarrow> operator \<Rightarrow> nat \<times> turn \<times> operator" where
  "run_calls env [] failed t s = (failed, t, s)"
| "run_calls env (tc # tcs) failed t s =
     (case run_call env tc t s of
        (result, bad, t', s') \<Rightarrow>
          run_calls env tcs (if bad then Suc failed else failed) t'
            (append_msg env (tool_result_message result tc)
              (emit (OutToolCall (tc_name tc) (tc_args tc) result bad) s')))"

definition stuck_text :: "nat \<Rightarrow> string \<Rightarrow> string" where
  "stuck_text n err =
     ''[stopped after '' @ fmt_int (int n) @ '' straight rounds of failed tool calls '' @ em_dash
     @ '' last error: '' @ err @ '']''"

text \<open>One round, up to the next request: whether the turn goes on.\<close>

definition turn_round :: "operator_env \<Rightarrow> turn \<Rightarrow> operator \<Rightarrow> bool \<times> turn \<times> operator" where
  "turn_round env t s =
     (case oe_chat env (op_requests s) (op_messages s) of
        Inl e \<Rightarrow> (False, t, emit_text (''[operator error: '' @ go_error_text e @ '']'')
                            (s\<lparr>op_requests := Suc (op_requests s)\<rparr>))
      | Inr (evs, ctx_done) \<Rightarrow>
          (case collect_turn (oe_ctx_err env) (s\<lparr>op_requests := Suc (op_requests s)\<rparr>) [] []
                  \<lparr>us_in = 0, us_out = 0\<rparr> evs ctx_done of
             (s1, Inl e) \<Rightarrow> (False, t, emit_text (''[operator error: '' @ go_error_text e @ '']'') s1)
           | (s1, Inr (am, tcs, u)) \<Rightarrow>
               (let t1 = t\<lparr>tn_in := tn_in t + us_in u, tn_out := tn_out t + us_out u, tn_last := us_in u\<rparr>;
                    s2 = (if 0 < us_in u then s1\<lparr>op_tokens := nat (us_in u)\<rparr> else s1);
                    calls = normalize_tool_call_args json_valid tcs;
                    s3 = append_msg env (am\<lparr>msg_tool_calls := normalize_tool_call_args json_valid (msg_tool_calls am)\<rparr>) s2
                in if calls = [] then (False, t1, s3)
                   else case run_calls env calls 0 t1 s3 of
                     (failed, t2, s4) \<Rightarrow>
                       if failed = length calls
                       then (let n = Suc (tn_failed_rounds t2); t3 = t2\<lparr>tn_failed_rounds := n\<rparr>
                             in if max_consecutive_failed_rounds \<le> n
                                then (False, t3, emit_text (stuck_text n (tn_last_error t3)) s4)
                                else (True, t3, s4))
                       else (True, t2\<lparr>tn_failed_rounds := 0\<rparr>, s4))))"

text \<open>The argument counts the rounds left.\<close>

fun turn_loop :: "operator_env \<Rightarrow> nat \<Rightarrow> turn \<Rightarrow> operator \<Rightarrow> turn \<times> operator" where
  "turn_loop env 0 t s =
     (if oe_cancelled env (op_requests s) then (t, s)
      else (t, emit_text (''[stopped after '' @ fmt_int (int max_turn_rounds)
              @ '' tool rounds without finishing this turn]'') s))"
| "turn_loop env (Suc n) t s =
     (if oe_cancelled env (op_requests s) then (t, s)
      else case turn_round env t s of
        (True, t', s') \<Rightarrow> turn_loop env n t' s'
      | (False, t', s') \<Rightarrow> (t', s'))"

definition handle_user_message :: "operator_env \<Rightarrow> string \<Rightarrow> string \<Rightarrow> operator \<Rightarrow> operator" where
  "handle_user_message env msg turn s =
     (case turn_loop env max_turn_rounds new_turn
             (append_msg env (text_message ''user'' msg) (s\<lparr>op_turn := turn\<rparr>)) of
        (t, s') \<Rightarrow> emit (OutTurnDone turn (tn_in t) (tn_out t) 0 (tn_last t)) (s'\<lparr>op_turn := []\<rparr>))"

definition send_to_llm :: "operator_env \<Rightarrow> string \<Rightarrow> operator \<Rightarrow> operator" where
  "send_to_llm env msg = handle_user_message env msg []"

section \<open>The conversation stays acceptable\<close>

fun calls_of :: "stream_event list \<Rightarrow> tool_call list" where
  "calls_of [] = []"
| "calls_of (EvToolCall (Some tc) # evs) = tc # calls_of evs"
| "calls_of (ev # evs) = calls_of evs"

text \<open>What the proof asks of the model: no single response has as many calls as messages are kept.\<close>

definition few_calls :: "operator_env \<Rightarrow> bool" where
  "few_calls env \<longleftrightarrow> (\<forall>n h. case oe_chat env n h of
      Inl e \<Rightarrow> True | Inr (evs, d) \<Rightarrow> length (calls_of evs) < max_messages)"

definition restorable :: "operator \<Rightarrow> bool" where
  "restorable s \<longleftrightarrow> (case op_saved s of None \<Rightarrow> True | Some (ms, n) \<Rightarrow> partial_history ms)"

definition conv_ok :: "operator \<Rightarrow> bool" where
  "conv_ok s \<longleftrightarrow> acceptable (op_messages s) \<and> calls_by_assistant (op_messages s)
     \<and> length (op_messages s) \<le> max_messages \<and> restorable s"

lemma emit_frame [simp]:
  "op_messages (emit x s) = op_messages s" "op_saved (emit x s) = op_saved s"
  "op_world (emit x s) = op_world s" "op_requests (emit x s) = op_requests s"
  "op_turn (emit x s) = op_turn s" "op_archives (emit x s) = op_archives s"
  "op_tokens (emit x s) = op_tokens s"
  by (simp_all add: emit_def)

lemma emit_text_frame [simp]:
  "op_messages (emit_text x s) = op_messages s" "op_saved (emit_text x s) = op_saved s"
  "op_world (emit_text x s) = op_world s" "op_requests (emit_text x s) = op_requests s"
  "op_archives (emit_text x s) = op_archives s" "op_tokens (emit_text x s) = op_tokens s"
  by (simp_all add: emit_text_def)

lemma emit_reasoning_frame [simp]:
  "op_messages (emit_reasoning x s) = op_messages s" "op_saved (emit_reasoning x s) = op_saved s"
  "op_world (emit_reasoning x s) = op_world s" "op_requests (emit_reasoning x s) = op_requests s"
  "op_archives (emit_reasoning x s) = op_archives s" "op_tokens (emit_reasoning x s) = op_tokens s"
  by (simp_all add: emit_reasoning_def)

lemma collect_turn_frame:
  "collect_turn ce s acc tcs u evs d = (s', r) \<Longrightarrow>
     op_messages s' = op_messages s \<and> op_saved s' = op_saved s \<and> op_world s' = op_world s
     \<and> op_requests s' = op_requests s \<and> op_archives s' = op_archives s \<and> op_tokens s' = op_tokens s"
  by (induction ce s acc tcs u evs d rule: collect_turn.induct)
    (auto split: if_splits stream_event.splits option.splits)

lemma collect_turn_message:
  "collect_turn ce s acc tcs u evs d = (s', Inr (am, tcs', u')) \<Longrightarrow>
     msg_role am = ''assistant'' \<and> msg_tool_calls am = tcs' \<and> tcs' = tcs @ calls_of evs"
proof (induction evs arbitrary: s acc tcs u)
  case (Cons ev evs)
  then show ?case
    by (cases ev) (simp_all split: option.splits prod.splits, metis append.assoc append_Cons append_Nil)
qed (auto split: if_splits)

lemma append_msg_frame [simp]:
  "op_messages (append_msg env m s) = truncate_messages (op_messages s @ [m]) max_messages"
  "op_world (append_msg env m s) = op_world s" "op_requests (append_msg env m s) = op_requests s"
  by (simp_all add: append_msg_def persist_session_def)

lemma restorable_append:
  assumes "restorable s" "partial_history (op_messages s @ [m])"
  shows "restorable (append_msg env m s)"
  using assms truncate_partial [OF assms(2)]
  by (simp add: restorable_def append_msg_def persist_session_def)

lemma in_world_frame: "in_world m s = (r, s') \<Longrightarrow> s' = s\<lparr>op_world := op_world s'\<rparr>"
  by (auto simp: in_world_def split: prod.splits)

lemma operator_execute_frame:
  "operator_execute env name args s = (r, s') \<Longrightarrow> s' = s\<lparr>op_world := op_world s'\<rparr>"
  unfolding operator_execute_def Let_def by (auto split: if_splits dest: in_world_frame)

lemma run_call_frame:
  assumes "run_call env tc t s = (r, bad, t', s')"
  shows "s' = s\<lparr>op_world := op_world s'\<rparr>"
  using assms operator_execute_frame
  by (fastforce simp: run_call_def split: option.splits prod.splits sum.splits)

lemma tool_result_simps [simp]:
  "is_tool (tool_result_message r tc)" "msg_tool_calls (tool_result_message r tc) = []"
  "msg_tool_call_id (tool_result_message r tc) = tc_id tc"
  by (simp_all add: tool_result_message_def is_tool_def)

lemma calls_by_assistant_append [simp]:
  "calls_by_assistant (xs @ ys) \<longleftrightarrow> calls_by_assistant xs \<and> calls_by_assistant ys"
  by (auto simp: calls_by_assistant_def)

lemma calls_by_assistant_suffix: "suffix xs ys \<Longrightarrow> calls_by_assistant ys \<Longrightarrow> calls_by_assistant xs"
  by (auto simp: suffix_def)

text \<open>A round in progress: a clean history, the call and the results so far.\<close>

definition round_at :: "message \<Rightarrow> message list \<Rightarrow> tool_call list \<Rightarrow> operator \<Rightarrow> bool" where
  "round_at am ts todo s \<longleftrightarrow> (\<exists>ps. op_messages s = ps @ am # ts \<and> acceptable ps \<and> calls_by_assistant ps)
     \<and> is_assistant am \<and> msg_tool_calls am \<noteq> [] \<and> length (msg_tool_calls am) < max_messages
     \<and> (\<forall>t\<in>set ts. is_tool t \<and> msg_tool_calls t = [])
     \<and> map msg_tool_call_id ts @ map tc_id todo = map tc_id (msg_tool_calls am)
     \<and> length (op_messages s) \<le> max_messages \<and> restorable s"

lemma calls_by_assistant_round:
  "is_assistant am \<Longrightarrow> \<forall>t\<in>set ts. msg_tool_calls t = [] \<Longrightarrow> calls_by_assistant (am # ts)"
  by (auto simp: calls_by_assistant_def)

lemma round_partial:
  fixes todo :: "tool_call list"
  assumes "acceptable ps" "calls_by_assistant ps" "is_assistant am"
    and "\<forall>t\<in>set ts. is_tool t \<and> msg_tool_calls t = []"
    and "map msg_tool_call_id ts @ map tc_id todo = map tc_id (msg_tool_calls am)"
  shows "partial_history (ps @ am # ts)"
proof -
  let ?rest = "map (tool_result_message []) todo"
  have ids: "map msg_tool_call_id ?rest = map tc_id todo" by (simp add: comp_def)
  have "acceptable (am # ts @ ?rest)"
    using assms(4,5) by (intro acceptable_round [OF assms(3)]) (auto simp: ids simp del: map_map)
  then have "acceptable (ps @ am # ts @ ?rest)" using acceptable_append [OF assms(1)] by blast
  moreover have "calls_by_assistant (am # ts @ ?rest)"
    using assms(4) by (intro calls_by_assistant_round [OF assms(3)]) auto
  then have "calls_by_assistant (ps @ am # ts @ ?rest)" using assms(2) by simp
  ultimately show ?thesis unfolding partial_history_def by (intro exI [of _ ?rest]) simp
qed

lemma round_step:
  assumes "round_at am ts (tc # todo) s" "op_messages s' = op_messages s" "op_saved s' = op_saved s"
  shows "round_at am (ts @ [tool_result_message r tc]) todo (append_msg env (tool_result_message r tc) s')"
proof -
  let ?m = "tool_result_message r tc"
  obtain ps where ps: "op_messages s = ps @ am # ts" "acceptable ps" "calls_by_assistant ps"
    using assms(1) by (auto simp: round_at_def)
  have am: "is_assistant am" "msg_tool_calls am \<noteq> []" "length (msg_tool_calls am) < max_messages"
    and ts: "\<forall>t\<in>set (ts @ [?m]). is_tool t \<and> msg_tool_calls t = []"
    and ids: "map msg_tool_call_id (ts @ [?m]) @ map tc_id todo = map tc_id (msg_tool_calls am)"
    and r: "restorable s"
    using assms(1) by (auto simp: round_at_def)
  have "length (ts @ [?m]) < max_messages" using arg_cong [OF ids, of length] am(3) by simp
  then obtain qs where qs: "truncate_messages (ps @ am # ts @ [?m]) max_messages = qs @ am # ts @ [?m]"
    "suffix qs ps" "acceptable qs"
    using truncate_round [OF ps(2) am(1,2), of "ts @ [?m]"] ts by auto
  have m: "op_messages (append_msg env ?m s') = qs @ am # ts @ [?m]"
    using qs(1) by (simp add: assms(2) ps(1))
  have "partial_history (op_messages s' @ [?m])"
    using round_partial [OF ps(2,3) am(1) ts ids] by (simp add: assms(2) ps(1))
  then have "restorable (append_msg env ?m s')"
    using r assms(3) by (intro restorable_append) (simp_all add: restorable_def)
  moreover have "length (op_messages (append_msg env ?m s')) \<le> max_messages" by (simp add: truncate_length)
  ultimately show ?thesis
    unfolding round_at_def using m qs(2,3) ps(3) am ts ids calls_by_assistant_suffix by blast
qed

lemma run_calls_round:
  assumes "round_at am ts tcs s" "run_calls env tcs failed t s = (failed', t', s')"
  shows "\<exists>ts'. round_at am ts' [] s'"
  using assms
proof (induction tcs arbitrary: ts failed t s)
  case (Cons tc tcs)
  obtain r bad t1 s1 where c: "run_call env tc t s = (r, bad, t1, s1)" by (metis prod_cases4)
  let ?s2 = "emit (OutToolCall (tc_name tc) (tc_args tc) r bad) s1"
  have f: "op_messages ?s2 = op_messages s" "op_saved ?s2 = op_saved s"
    by (subst run_call_frame [OF c], simp add: emit_def)+
  have "round_at am (ts @ [tool_result_message r tc]) tcs (append_msg env (tool_result_message r tc) ?s2)"
    by (rule round_step [OF Cons.prems(1) f])
  then show ?case using Cons.prems(2) by (intro Cons.IH) (auto simp: c)
qed auto

lemma round_done: "round_at am ts [] s \<Longrightarrow> conv_ok s"
  unfolding round_at_def conv_ok_def
  by (auto intro!: acceptable_append acceptable_round calls_by_assistant_round)

lemma conv_ok_frame:
  "op_messages s' = op_messages s \<Longrightarrow> op_saved s' = op_saved s \<Longrightarrow> conv_ok s' = conv_ok s"
  by (simp add: conv_ok_def restorable_def)

text \<open>A message without calls closes the history again.\<close>

lemma append_plain:
  assumes "conv_ok s" "\<not> is_tool m" "msg_tool_calls m = []"
  shows "conv_ok (append_msg env m s)"
proof -
  have one: "acceptable [m]" "calls_by_assistant [m]" using assms(2,3) by (simp_all add: acceptable_def calls_by_assistant_def)
  have a: "acceptable (op_messages s @ [m])" "calls_by_assistant (op_messages s @ [m])"
    using assms(1) one by (auto simp: conv_ok_def intro: acceptable_append)
  have "suffix (truncate_messages (op_messages s @ [m]) max_messages) (op_messages s @ [m])"
    using truncate_is_suffix by (auto simp: suffix_def)
  then have "calls_by_assistant (truncate_messages (op_messages s @ [m]) max_messages)"
    using a(2) by (rule calls_by_assistant_suffix)
  moreover have "partial_history (op_messages s @ [m])"
    unfolding partial_history_def using a by (intro exI [of _ "[]"]) simp
  then have "restorable (append_msg env m s)" using assms(1) by (intro restorable_append) (simp_all add: conv_ok_def)
  ultimately show ?thesis
    using truncate_cut.cut_acceptable [OF acceptable_opens_cleanly [OF a(1)] a(1)]
    by (simp add: conv_ok_def truncate_length)
qed

lemma append_call:
  assumes "conv_ok s" "is_assistant am" "msg_tool_calls am \<noteq> []" "length (msg_tool_calls am) < max_messages"
  shows "round_at am [] (msg_tool_calls am) (append_msg env am s)"
proof -
  have s: "acceptable (op_messages s)" "calls_by_assistant (op_messages s)" "restorable s"
    using assms(1) by (simp_all add: conv_ok_def)
  obtain qs where qs: "truncate_messages (op_messages s @ [am]) max_messages = qs @ [am]"
    "suffix qs (op_messages s)" "acceptable qs"
    using truncate_round [OF s(1) assms(2,3), of "[]" max_messages] by (auto simp: max_messages_def)
  have "partial_history (op_messages s @ [am])"
    using round_partial [OF s(1,2) assms(2), of "[]" "msg_tool_calls am"] by simp
  then have "restorable (append_msg env am s)" using s(3) by (intro restorable_append)
  then show ?thesis
    using qs s(2) assms(2-4) calls_by_assistant_suffix truncate_length [of "op_messages s @ [am]" max_messages]
    unfolding round_at_def by auto
qed

lemma conv_ok_out [simp]:
  "conv_ok (emit x s) = conv_ok s" "conv_ok (emit_text y s) = conv_ok s"
  "conv_ok (s\<lparr>op_requests := n\<rparr>) = conv_ok s" "conv_ok (s\<lparr>op_tokens := k\<rparr>) = conv_ok s"
  "conv_ok (s\<lparr>op_turn := u\<rparr>) = conv_ok s" "conv_ok (s\<lparr>op_world := w\<rparr>) = conv_ok s"
  by (rule conv_ok_frame; simp)+

lemma few_callsD:
  "few_calls env \<Longrightarrow> oe_chat env n h = Inr (evs, d) \<Longrightarrow> length (calls_of evs) < max_messages"
  unfolding few_calls_def by (drule spec [of _ n], drule spec [of _ h]) simp

lemma run_calls_frame:
  "run_calls env tcs failed t s = (failed', t', s') \<Longrightarrow> op_requests s' = op_requests s"
proof (induction tcs arbitrary: failed t s)
  case (Cons tc tcs)
  obtain r bad t1 s1 where c: "run_call env tc t s = (r, bad, t1, s1)" by (metis prod_cases4)
  have "op_requests s1 = op_requests s" by (subst run_call_frame [OF c]) simp
  then show ?case using Cons by (fastforce simp: c)
qed simp

lemma turn_round_requests:
  "turn_round env t s = (c, t', s') \<Longrightarrow> op_requests s' = Suc (op_requests s)"
  unfolding turn_round_def Let_def
  by (auto split: sum.splits prod.splits if_splits dest!: collect_turn_frame run_calls_frame)

lemma turn_round_conv:
  assumes "conv_ok s" "few_calls env" "turn_round env t s = (c, t', s')"
  shows "conv_ok s'"
proof (cases "oe_chat env (op_requests s) (op_messages s)")
  case (Inl e)
  then show ?thesis using assms(1,3) by (auto simp: turn_round_def)
next
  case (Inr p)
  obtain evs d where p: "p = (evs, d)" by fastforce
  let ?s0 = "s\<lparr>op_requests := Suc (op_requests s)\<rparr>"
  obtain s1 r where col: "collect_turn (oe_ctx_err env) ?s0 [] [] \<lparr>us_in = 0, us_out = 0\<rparr> evs d = (s1, r)"
    by fastforce
  have s1: "conv_ok s1"
    using assms(1) conv_ok_frame [of s1 s] collect_turn_frame [OF col] by simp
  show ?thesis
  proof (cases r)
    case (Inl e)
    then show ?thesis using assms(3) Inr p col s1 by (auto simp: turn_round_def)
  next
    case (Inr q)
    obtain am tcs u where q: "q = (am, tcs, u)" by (metis prod_cases3)
    have am: "msg_role am = ''assistant''" "msg_tool_calls am = tcs" "tcs = calls_of evs"
      using collect_turn_message [OF col [unfolded Inr q]] by simp_all
    define calls where "calls = normalize_tool_call_args json_valid tcs"
    define am' where "am' = am\<lparr>msg_tool_calls := calls\<rparr>"
    define s2 where "s2 = (if 0 < us_in u then s1\<lparr>op_tokens := nat (us_in u)\<rparr> else s1)"
    have s2: "conv_ok s2" using s1 by (simp add: s2_def)
    have am': "is_assistant am'" "\<not> is_tool am'" "msg_tool_calls am' = calls"
      using am(1) by (simp_all add: am'_def role_defs)
    have len: "length calls < max_messages"
      using few_callsD [OF assms(2)] \<open>oe_chat env (op_requests s) (op_messages s) = Inr p\<close> am(3)
      by (simp add: calls_def p)
    show ?thesis
    proof (cases "calls = []")
      case True
      have a: "am\<lparr>msg_tool_calls := []\<rparr> = am'" using True by (simp add: am'_def)
      have "conv_ok (append_msg env am' s2)" using append_plain [OF s2] am' True by simp
      then show ?thesis
        using assms(3) \<open>oe_chat env (op_requests s) (op_messages s) = Inr p\<close> True
        by (auto simp: turn_round_def p col Inr q Let_def am(2) calls_def [symmetric] a s2_def [symmetric])
    next
      case False
      let ?t1 = "t\<lparr>tn_in := tn_in t + us_in u, tn_out := tn_out t + us_out u, tn_last := us_in u\<rparr>"
      obtain failed t2 s4 where run: "run_calls env calls 0 ?t1 (append_msg env am' s2) = (failed, t2, s4)"
        by (metis prod_cases3)
      have s': "s' = s4 \<or> (\<exists>x. s' = emit_text x s4)"
        using assms(3) \<open>oe_chat env (op_requests s) (op_messages s) = Inr p\<close> False run
        by (auto simp: turn_round_def p col Inr q Let_def am(2) calls_def [symmetric] am'_def [symmetric] s2_def [symmetric]
            split: if_splits)
      have "round_at am' [] calls (append_msg env am' s2)"
        using append_call [OF s2 am'(1)] am'(3) False len by simp
      then have "conv_ok s4" using run_calls_round [OF _ run] round_done by blast
      then show ?thesis using s' by auto
    qed
  qed
qed

lemma turn_loop_conv:
  "conv_ok s \<Longrightarrow> few_calls env \<Longrightarrow> conv_ok (snd (turn_loop env n t s))"
proof (induction n arbitrary: t s)
  case (Suc n)
  then show ?case by (auto split: prod.splits bool.splits dest: turn_round_conv)
qed simp

lemma turn_loop_requests: "op_requests (snd (turn_loop env n t s)) \<le> op_requests s + n"
proof (induction n arbitrary: t s)
  case (Suc n)
  obtain c t' s' where r: "turn_round env t s = (c, t', s')" by (metis prod_cases3)
  show ?case
    using Suc.IH [of t' s'] turn_round_requests [OF r] by (simp add: r split: bool.splits)
qed simp

lemma handle_user_message_snd:
  "\<exists>x. handle_user_message env msg turn s
     = emit x ((snd (turn_loop env max_turn_rounds new_turn
         (append_msg env (text_message ''user'' msg) (s\<lparr>op_turn := turn\<rparr>))))\<lparr>op_turn := []\<rparr>)"
  by (auto simp: handle_user_message_def split: prod.split)

lemma handle_user_message_conv:
  assumes "conv_ok s" "few_calls env"
  shows "conv_ok (handle_user_message env msg turn s)"
proof -
  have "conv_ok (append_msg env (text_message ''user'' msg) (s\<lparr>op_turn := turn\<rparr>))"
    using assms(1) by (intro append_plain) (simp_all add: is_tool_def)
  then show ?thesis
    using turn_loop_conv [OF _ assms(2)] handle_user_message_snd [of env msg turn s] by auto
qed

section \<open>A model that keeps failing\<close>

definition operator_tool_names :: "string list" where
  "operator_tool_names = [''surface_to_user'', ''list_jobs'', ''query_job'', ''query_graphs'', ''setup_workspace'',
     ''create_job'', ''create_task'', ''retry_task'', ''ask_user'', ''kb_search'', ''kb_write_user'']"

definition is_error_event :: "stream_event \<Rightarrow> bool" where
  "is_error_event ev \<longleftrightarrow> (case ev of EvError e \<Rightarrow> True | _ \<Rightarrow> False)"

text \<open>Every response consists of calls of tools that do not exist.\<close>

definition stuck :: "operator_env \<Rightarrow> bool" where
  "stuck env \<longleftrightarrow> (\<forall>n h. \<exists>evs. oe_chat env n h = Inr (evs, False) \<and> \<not> list_ex is_error_event evs
     \<and> calls_of evs \<noteq> [] \<and> (\<forall>tc\<in>set (calls_of evs). tc_name tc \<notin> set operator_tool_names))"

lemma collect_turn_ok:
  "\<not> list_ex is_error_event evs \<Longrightarrow>
     \<exists>s' am u. collect_turn ce s acc tcs v evs False = (s', Inr (am, tcs @ calls_of evs, u))"
proof (induction evs arbitrary: s acc tcs v)
  case (Cons ev evs)
  then have IH: "\<exists>s' am u. collect_turn ce s acc tcs v evs False = (s', Inr (am, tcs @ calls_of evs, u))"
    for s acc tcs v by simp
  show ?case
  proof (cases ev)
    case (EvToolCall r)
    then show ?thesis
    proof (cases r)
      case (Some tc)
      then show ?thesis using EvToolCall IH [of s acc "tcs @ [tc]" v] by simp
    qed (simp add: IH)
  next
    case (EvUsage r)
    then show ?thesis by (cases r) (auto simp: IH)
  qed (use Cons.prems in \<open>simp_all add: IH is_error_event_def\<close>)
qed simp

lemma run_call_unknown:
  assumes "tc_name tc \<notin> set operator_tool_names"
  shows "run_call env tc t s = (''error: '' @ unknown_tool_text (tc_name tc), True,
     t\<lparr>tn_last_error := unknown_tool_text (tc_name tc)\<rparr>, s)"
  using assms
  by (simp add: run_call_def duplicate_create_job_result_def operator_execute_def operator_tool_names_def)

lemma run_calls_unknown:
  assumes "\<forall>tc\<in>set tcs. tc_name tc \<notin> set operator_tool_names"
  shows "\<exists>e s'. run_calls env tcs failed t s = (failed + length tcs, t\<lparr>tn_last_error := e\<rparr>, s')"
  using assms
proof (induction tcs arbitrary: failed t s)
  case Nil
  show ?case by (simp, rule exI [of _ "tn_last_error t"], simp)
next
  case (Cons tc tcs)
  have u: "tc_name tc \<notin> set operator_tool_names" using Cons.prems by simp
  have IH: "\<exists>e s'. run_calls env tcs k v w = (k + length tcs, v\<lparr>tn_last_error := e\<rparr>, s')" for k v w
    using Cons by simp
  obtain e s' where "run_calls env tcs (Suc failed) (t\<lparr>tn_last_error := unknown_tool_text (tc_name tc)\<rparr>)
      (append_msg env (tool_result_message (''error: '' @ unknown_tool_text (tc_name tc)) tc)
        (emit (OutToolCall (tc_name tc) (tc_args tc) (''error: '' @ unknown_tool_text (tc_name tc)) True) s))
      = (Suc failed + length tcs, t\<lparr>tn_last_error := e\<rparr>, s')"
    using IH [of "Suc failed" "t\<lparr>tn_last_error := unknown_tool_text (tc_name tc)\<rparr>"] by fastforce
  then show ?case by (auto simp: run_call_unknown [OF u])
qed

lemma stuck_round:
  assumes "stuck env"
  obtains t' s' where "turn_round env t s = (Suc (tn_failed_rounds t) < max_consecutive_failed_rounds, t', s')"
    "tn_failed_rounds t' = Suc (tn_failed_rounds t)"
proof -
  obtain evs where e: "oe_chat env (op_requests s) (op_messages s) = Inr (evs, False)"
    "\<not> list_ex is_error_event evs" "calls_of evs \<noteq> []"
    and unknown: "\<forall>tc\<in>set (calls_of evs). tc_name tc \<notin> set operator_tool_names"
    using assms unfolding stuck_def by metis
  obtain s1 am u where c: "collect_turn (oe_ctx_err env) (s\<lparr>op_requests := Suc (op_requests s)\<rparr>) [] []
      \<lparr>us_in = 0, us_out = 0\<rparr> evs False = (s1, Inr (am, [] @ calls_of evs, u))"
    by (metis collect_turn_ok [OF e(2)])
  let ?calls = "normalize_tool_call_args json_valid (calls_of evs)"
  have "tc_name ` set ?calls = tc_name ` set (calls_of evs)"
    using normalize_names [of json_valid "calls_of evs"] by (metis set_map)
  then have "\<forall>tc\<in>set ?calls. tc_name tc \<notin> set operator_tool_names" using unknown by (metis imageE imageI)
  note run = run_calls_unknown [OF this]
  let ?t1 = "t\<lparr>tn_in := tn_in t + us_in u, tn_out := tn_out t + us_out u, tn_last := us_in u\<rparr>"
  let ?s3 = "append_msg env (am\<lparr>msg_tool_calls := normalize_tool_call_args json_valid (msg_tool_calls am)\<rparr>)
      (if 0 < us_in u then s1\<lparr>op_tokens := nat (us_in u)\<rparr> else s1)"
  obtain x s4 where r: "run_calls env ?calls 0 ?t1 ?s3 = (length ?calls, ?t1\<lparr>tn_last_error := x\<rparr>, s4)"
    using run [of env 0 ?t1 ?s3] by auto
  have ne: "?calls \<noteq> []" using e(3) by (simp add: normalize_tool_call_args_def)
  show thesis
    using that ne
    by (cases "Suc (tn_failed_rounds t) < max_consecutive_failed_rounds")
      (auto simp: turn_round_def e(1) c Let_def r not_less not_le
        simp del: normalize_length)
qed


section \<open>Claims about a turn\<close>


text \<open>
  Two models that answer alike on acceptable histories within the bound.
\<close>

definition agree_on_acceptable :: "operator_env \<Rightarrow> operator_env \<Rightarrow> bool" where
  "agree_on_acceptable e1 e2 \<longleftrightarrow> e2 = e1\<lparr>oe_chat := oe_chat e2\<rparr>
     \<and> (\<forall>n h. acceptable h \<and> length h \<le> max_messages \<longrightarrow> oe_chat e1 n h = oe_chat e2 n h)"

lemma same_fields:
  "oe_tools (e\<lparr>oe_chat := c\<rparr>) = oe_tools e" "oe_clone (e\<lparr>oe_chat := c\<rparr>) = oe_clone e"
  "oe_other_tool (e\<lparr>oe_chat := c\<rparr>) = oe_other_tool e" "oe_ctx_err (e\<lparr>oe_chat := c\<rparr>) = oe_ctx_err e"
  "oe_cancelled (e\<lparr>oe_chat := c\<rparr>) = oe_cancelled e" "oe_chat (e\<lparr>oe_chat := c\<rparr>) = c"
  by simp_all

lemma same_tools_execute: "operator_execute (e\<lparr>oe_chat := c\<rparr>) = operator_execute e"
  unfolding operator_execute_def same_fields by (rule refl)

lemma same_append: "append_msg (e\<lparr>oe_chat := c\<rparr>) = append_msg e"
  by (simp add: append_msg_def persist_session_def fun_eq_iff)

lemma same_call: "run_call (e\<lparr>oe_chat := c\<rparr>) tc t s = run_call e tc t s"
  unfolding run_call_def same_tools_execute by (rule refl)

lemma same_calls: "run_calls (e\<lparr>oe_chat := c\<rparr>) tcs failed t s = run_calls e tcs failed t s"
  by (induction tcs arbitrary: failed t s) (simp_all add: same_append same_call)

lemma agree_round:
  assumes "agree_on_acceptable e1 e2" "conv_ok s"
  shows "turn_round e2 t s = turn_round e1 t s"
proof -
  have e2: "e2 = e1\<lparr>oe_chat := oe_chat e2\<rparr>" and c: "oe_chat e2 n (op_messages s) = oe_chat e1 n (op_messages s)" for n
    using assms by (auto simp: agree_on_acceptable_def conv_ok_def)
  have "turn_round (e1\<lparr>oe_chat := oe_chat e2\<rparr>) t s = turn_round e1 t s"
    unfolding turn_round_def same_append same_calls same_fields c by (rule refl)
  then show ?thesis using e2 by metis
qed

lemma agree_turn_loop:
  assumes "agree_on_acceptable e1 e2" "few_calls e1"
  shows "conv_ok s \<Longrightarrow> turn_loop e2 n t s = turn_loop e1 n t s"
proof (induction n arbitrary: t s)
  case 0
  have "oe_cancelled e2 = oe_cancelled e1"
    using arg_cong [OF conjunct1 [OF assms(1) [unfolded agree_on_acceptable_def]], of oe_cancelled] by simp
  then show ?case by simp
next
  case (Suc n)
  have "oe_cancelled e2 = oe_cancelled e1"
    using arg_cong [OF conjunct1 [OF assms(1) [unfolded agree_on_acceptable_def]], of oe_cancelled] by simp
  moreover have "conv_ok s'" if "turn_round e1 t s = (c, t', s')" for c t' s'
    using turn_round_conv [OF Suc.prems assms(2) that] .
  ultimately show ?case
    using Suc.IH by (auto simp: agree_round [OF assms(1) Suc.prems] split: prod.split bool.split)
qed

text \<open>
  The model is only ever sent acceptable histories of at most 200 messages: what it would
  answer to any other does not matter for a turn.
\<close>

theorem operator_sends_sound_histories:
  assumes "conv_ok s" "few_calls env" "agree_on_acceptable env env'"
  shows "handle_user_message env' msg turn s = handle_user_message env msg turn s"
proof -
  have e: "env' = env\<lparr>oe_chat := oe_chat env'\<rparr>" using assms(3) by (simp add: agree_on_acceptable_def)
  have a: "append_msg env' = append_msg env" using same_append e by metis
  have "conv_ok (append_msg env (text_message ''user'' msg) (s\<lparr>op_turn := turn\<rparr>))"
    using assms(1) by (intro append_plain) (simp_all add: is_tool_def)
  then show ?thesis
    by (simp add: handle_user_message_def a agree_turn_loop [OF assms(3,2)])
qed

text \<open>What a restart makes of a session file.\<close>

lemma restored_messages:
  assumes "partial_history ms"
  defines "msgs \<equiv> trim_incomplete_tail (truncate_messages ms max_messages)"
  shows "acceptable msgs \<and> calls_by_assistant msgs \<and> length msgs \<le> max_messages \<and> (msgs \<noteq> [] \<longrightarrow> safe_start (last msgs))"
proof -
  let ?t = "truncate_messages ms max_messages"
  have p: "partial_history ?t" using assms(1) by (rule truncate_partial)
  obtain qs where q: "?t = msgs @ qs" using trim_is_prefix unfolding msgs_def by blast
  have "calls_by_assistant ?t" using p by (auto simp: partial_history_def)
  then have "calls_by_assistant msgs" using q calls_by_assistant_append by metis
  moreover have "length msgs \<le> max_messages"
    using q truncate_length [of ms max_messages] by (metis le_add1 le_trans length_append)
  ultimately show ?thesis using trim_partial [OF p] by (simp add: msgs_def)
qed

lemma load_session_ok:
  assumes "restorable s" "op_messages s = []"
  shows "conv_ok (load_session env (op_saved s) s)"
proof (cases "op_saved s")
  case None
  then show ?thesis
    using assms by (simp add: load_session_def conv_ok_def acceptable_def calls_by_assistant_def)
next
  case (Some p)
  obtain ms n where p: "p = (ms, n)" by fastforce
  have "partial_history ms" using assms(1) by (simp add: restorable_def Some p)
  then show ?thesis
    using restored_messages [of ms] assms
    by (simp add: load_session_def Some p Let_def conv_ok_def restorable_def acceptable_def calls_by_assistant_def)
qed


section \<open>The statements on a concrete operator\<close>

definition fresh_operator :: "world \<Rightarrow> operator" where
  "fresh_operator w = \<lparr>op_messages = [], op_tokens = 0, op_suppressed = False, op_turn = [],
     op_requests = 0, op_saved = None, op_archives = [], op_out = [], op_world = w\<rparr>"

lemma fresh_ok: "conv_ok (fresh_operator w)"
  by (simp add: fresh_operator_def conv_ok_def restorable_def acceptable_def calls_by_assistant_def)

text \<open>It lists the jobs in its first round and answers in the second.\<close>

definition sample_chat :: "nat \<Rightarrow> message list \<Rightarrow> go_error + stream_event list \<times> bool" where
  "sample_chat n h = Inr (if n = 0
     then [EvToolCall (Some \<lparr>tc_id = ''c1'', tc_name = ''list_jobs'', tc_args = []\<rparr>), EvUsage (Some (7, 2)), EvDone]
     else [EvText ''done'', EvDone], False)"

definition sample_operator_env :: operator_env where
  "sample_operator_env = \<lparr>oe_tools = sample_tools, oe_clone = sample_clone,
     oe_other_tool = (\<lambda>name args n. Inr ''ok''), oe_chat = sample_chat, oe_cancelled = (\<lambda>n. False),
     oe_ctx_err = OtherError ''context canceled'', oe_session_file = True, oe_write_ok = (\<lambda>f. True)\<rparr>"

lemma sample_few_calls: "few_calls sample_operator_env"
  by (simp add: few_calls_def sample_operator_env_def sample_chat_def max_messages_def)


lemma operator_sends_witness:
  "handle_user_message (sample_operator_env\<lparr>oe_chat := (\<lambda>n h. if acceptable h \<and> length h \<le> max_messages
       then sample_chat n h else Inl (OtherError ''bad request''))\<rparr>) ''hi'' [] (fresh_operator (world_of sample_db))
   = handle_user_message sample_operator_env ''hi'' [] (fresh_operator (world_of sample_db))"
  by (rule operator_sends_sound_histories [OF fresh_ok sample_few_calls])
    (simp add: agree_on_acceptable_def sample_operator_env_def)



end
