(* ===== verification/Handoff.thy ===== *)
theory Handoff
  imports OperatorTurn
begin

text \<open>
  The digest handoff of \<open>internal/operator/handoff.go\<close> and \<open>digest.go\<close>: when the operator's
  context has filled up to the threshold, its conversation is archived and replaced by one
  message that holds the orchestration state read from the store and a note by the model. The
  clock's texts (ages, the archive's time stamp) and the model's note are parameters.
\<close>

section \<open>The digest\<close>

record handoff_env =
  ho_threshold :: int
  ho_window :: "int option"
  ho_age :: "nat \<Rightarrow> string"             \<comment> \<open>time since, rounded to minutes\<close>
  ho_elapsed :: "nat \<Rightarrow> string"         \<comment> \<open>time since, rounded to seconds\<close>
  ho_stamp :: string
  ho_role :: "string option"             \<comment> \<open>the composed prompt of the handoff role\<close>
  ho_complete :: "string \<Rightarrow> string \<Rightarrow> go_error + string"

definition one_line :: "string \<Rightarrow> string" where
  "one_line s = join_strings '' '' (go_fields s)"

definition dec_question :: "json \<Rightarrow> string option" where
  "dec_question v =
     (case v of JNull \<Rightarrow> Some [] | JObj ms \<Rightarrow> dec_string ''question'' ms | _ \<Rightarrow> None)"

definition blocker_questions :: "string \<Rightarrow> string" where
  "blocker_questions raw =
     (case parse_json raw of
        Some (JArr js) \<Rightarrow>
          (case those (map dec_question js) of
             Some (q # qs) \<Rightarrow> join_strings '' | '' (q # qs)
           | _ \<Rightarrow> raw)
      | _ \<Rightarrow> raw)"

definition get_active_sessions :: "session_row list store_op" where
  "get_active_sessions =
     sql ''listing active sessions'' (\<lambda>d.
       (Inr (sort_key (\<lambda>r. - int (sr_started r)) (filter (\<lambda>r. sr_status r = RowActive) (db_sessions d))), d))"

text \<open>Running an action for each element and joining the texts.\<close>

fun concatA :: "('a \<Rightarrow> string act) \<Rightarrow> 'a list \<Rightarrow> string act" where
  "concatA f [] = returnA []"
| "concatA f (x # xs) = bindA (f x) (\<lambda>a. bindA (concatA f xs) (\<lambda>b. returnA (a @ b)))"

definition code_quoted :: "string \<Rightarrow> string" where
  "code_quoted s = [CHR 0x60] @ s @ [CHR 0x60]"

definition digest_task_line :: "task \<Rightarrow> string" where
  "digest_task_line t =
     ''  - ['' @ task_status_text (task_status t) @ ''] '' @ task_title t @ '' ('' @ code_quoted (task_id t) @ '')''
     @ (if task_status t = TaskFailed \<and> task_summary t \<noteq> []
        then '' '' @ em_dash @ '' '' @ one_line (task_summary t) else []) @ nl"

definition digest_job :: "job \<Rightarrow> string act" where
  "digest_job j =
     bindA (tryA (list_tasks_for_job (job_id j))) (\<lambda>r.
     returnA (''- **'' @ job_title j @ ''** ('' @ code_quoted (job_id j) @ '', '' @ job_status_text (job_status j)
       @ ''): '' @ one_line (job_description j) @ nl
       @ (case r of Inl e \<Rightarrow> ''  - (task listing unavailable)'' @ nl
                  | Inr ts \<Rightarrow> concat (map digest_task_line ts))))"

definition jobs_with :: "job_status \<Rightarrow> int \<Rightarrow> job_filter" where
  "jobs_with st n = \<lparr>jf_status = Some st, jf_type = None, jf_limit = n, jf_offset = 0\<rparr>"

text \<open>The jobs of each status, in this order; what a failed listing leaves is its note.\<close>

fun collect_jobs :: "int \<Rightarrow> (job_status \<Rightarrow> string) \<Rightarrow> job_status list \<Rightarrow> (string \<times> job list) act" where
  "collect_jobs n note [] = returnA ([], [])"
| "collect_jobs n note (st # sts) =
     bindA (tryA (list_jobs (jobs_with st n))) (\<lambda>r.
     bindA (collect_jobs n note sts) (\<lambda>(txt', js').
     returnA (case r of Inl e \<Rightarrow> (note st @ txt', js') | Inr js \<Rightarrow> (txt', js @ js'))))"

definition unavailable_note :: "job_status \<Rightarrow> string" where
  "unavailable_note st =
     nl @ ''(job listing for status '' @ fmt_q (job_status_text st) @ '' unavailable)'' @ nl"

definition write_active_jobs :: "string act" where
  "write_active_jobs =
     bindA (collect_jobs 0 unavailable_note [JobActive, JobSettingUp, JobPending, JobPaused]) (\<lambda>(notes, js).
     bindA (concatA digest_job js) (\<lambda>body.
     returnA (notes @ nl @ ''### Jobs in flight'' @ nl @ nl @ (if js = [] then ''None.'' @ nl else body))))"

definition write_pending_blockers :: "handoff_env \<Rightarrow> string act" where
  "write_pending_blockers he =
     bindA (tryA list_pending_blockers) (\<lambda>r.
     returnA (case r of
        Inl e \<Rightarrow> nl @ ''### Pending questions to the user'' @ nl @ nl @ ''(unavailable)'' @ nl
      | Inr bs \<Rightarrow>
          if bs = [] then []
          else nl @ ''### Pending questions to the user'' @ nl @ nl
            @ concat (map (\<lambda>b. ''- ['' @ (if blk_source b = [] then ''operator'' else blk_source b)
                @ '', waiting '' @ ho_age he (blk_created b) @ ''] ''
                @ one_line (blocker_questions (blk_questions b)) @ nl) bs)))"

definition write_active_sessions :: "handoff_env \<Rightarrow> string act" where
  "write_active_sessions he =
     bindA (tryA get_active_sessions) (\<lambda>r.
     returnA (case r of
        Inl e \<Rightarrow> nl @ ''### Workers in flight'' @ nl @ nl @ ''(unavailable)'' @ nl
      | Inr rs \<Rightarrow>
          if rs = [] then []
          else nl @ ''### Workers in flight'' @ nl @ nl
            @ concat (map (\<lambda>s. ''- '' @ sr_worker s @ '' on task '' @ code_quoted (sr_task s) @ '' (job ''
                @ code_quoted (sr_job s) @ '', running '' @ ho_elapsed he (sr_started s) @ '')'' @ nl) rs)))"

definition digest_recent_jobs :: int where "digest_recent_jobs = 5"

definition write_recent_jobs :: "string act" where
  "write_recent_jobs =
     bindA (collect_jobs digest_recent_jobs (\<lambda>st. []) [JobCompleted, JobFailed, JobCancelled]) (\<lambda>(notes, js).
     returnA (if js = [] then []
       else nl @ ''### Recently finished jobs'' @ nl @ nl
         @ concat (map (\<lambda>j. ''- **'' @ job_title j @ ''** ('' @ code_quoted (job_id j) @ '', ''
             @ job_status_text (job_status j) @ '')'' @ nl) js)))"

definition trim_newlines :: "string \<Rightarrow> string" where
  "trim_newlines s = rev (dropWhile (\<lambda>c. c = CHR 0x0A) (rev s))"

definition build_digest :: "handoff_env \<Rightarrow> string act" where
  "build_digest he =
     bindA write_active_jobs (\<lambda>a.
     bindA (write_pending_blockers he) (\<lambda>b.
     bindA (write_active_sessions he) (\<lambda>c.
     bindA write_recent_jobs (\<lambda>d.
     returnA (trim_newlines (''## Orchestration state'' @ nl @ a @ b @ c @ d))))))"

section \<open>Archives\<close>

definition archive_keep :: nat where "archive_keep = 20"

definition archive_candidate :: "string \<Rightarrow> nat \<Rightarrow> string" where
  "archive_candidate ts i =
     ''operator-'' @ ts @ (if i = 1 then [] else ''-'' @ digits_of i) @ ''.json''"

text \<open>The loop tries \<open>i = 1, 2, ...\<close>; among one more names than there are archives one is free.\<close>

definition archive_name :: "string \<Rightarrow> string list \<Rightarrow> string" where
  "archive_name ts taken =
     (case find (\<lambda>i. archive_candidate ts i \<notin> set taken) [1..<length taken + 2] of
        Some i \<Rightarrow> archive_candidate ts i
      | None \<Rightarrow> archive_candidate ts 1)"

definition prune_archives :: "(string \<times> 'a) list \<Rightarrow> nat \<Rightarrow> (string \<times> 'a) list" where
  "prune_archives files keep =
     (if length files \<le> keep then files
      else let doomed = take (length files - keep) (sort (map fst files))
           in filter (\<lambda>f. fst f \<notin> set doomed) files)"

definition archive_session :: "operator_env \<Rightarrow> handoff_env \<Rightarrow> operator \<Rightarrow> string option \<times> operator" where
  "archive_session env he s =
     (let name = archive_name (ho_stamp he) (map fst (op_archives s));
          snapshot = (op_messages s, op_tokens s)
      in if \<not> oe_session_file env \<or> \<not> oe_write_ok env snapshot then (None, s)
         else (Some name, s\<lparr>op_archives := prune_archives (op_archives s @ [(name, snapshot)]) archive_keep\<rparr>))"

section \<open>The note\<close>

definition handoff_header :: string where "handoff_header = ''# Operator handoff''"

definition strip_max_messages :: nat where "strip_max_messages = 40"
definition strip_max_bytes :: nat where "strip_max_bytes = 16 * 1024"

definition strip_lines :: "message \<Rightarrow> string list" where
  "strip_lines m =
     (if is_user m then (if has_prefix (msg_content m) handoff_header then [] else [''USER: '' @ msg_content m])
      else if is_assistant m then
        (if msg_content m = [] then [] else [''OPERATOR: '' @ msg_content m])
        @ map (\<lambda>tc. ''OPERATOR: [called '' @ tc_name tc @ '']'') (msg_tool_calls m)
      else [])"

definition strip_transcript :: "message list \<Rightarrow> nat \<Rightarrow> nat \<Rightarrow> string" where
  "strip_transcript msgs max_msgs max_bytes =
     trim_space (join_strings nl (newest_within max_bytes 0
       (rev (concat (map strip_lines (drop (length msgs - max_msgs) msgs)))) []))"

definition build_narrative :: "handoff_env \<Rightarrow> message list \<Rightarrow> string" where
  "build_narrative he msgs =
     (case ho_role he of
        None \<Rightarrow> []
      | Some system \<Rightarrow>
          (let transcript = strip_transcript msgs strip_max_messages strip_max_bytes
           in if system = [] \<or> transcript = [] then []
              else case ho_complete he system (''Transcript of the session being handed off:'' @ nl @ nl @ transcript) of
                Inl e \<Rightarrow> [] | Inr note \<Rightarrow> note))"

section \<open>The handoff\<close>

definition post_feed_entry :: "feed_type \<Rightarrow> string \<Rightarrow> string \<Rightarrow> operator \<Rightarrow> operator" where
  "post_feed_entry kind txt jid s = snd (in_world (logged (create_feed_entry kind txt jid)) s)"

definition handoff_text :: "string \<Rightarrow> string \<Rightarrow> string" where
  "handoff_text digest note =
     handoff_header @ nl @ nl
     @ ''This session resumes from a digest handoff: the previous conversation ''
     @ ''reached its context budget and was archived. The orchestration state ''
     @ ''below is authoritative (Go-owned, from the database); use your tools ''
     @ ''to look up anything not covered.'' @ nl @ nl @ digest
     @ (if note = [] then [] else nl @ nl @ ''## Handoff note from the previous session'' @ nl @ nl @ note)"

definition tilde_arrow :: string where "tilde_arrow = '' '' @ right_arrow @ '' ~''"

definition operator_compact :: "operator_env \<Rightarrow> handoff_env \<Rightarrow> nat \<Rightarrow> int \<Rightarrow> operator \<Rightarrow> operator" where
  "operator_compact env he before window s =
     (case archive_session env he s of
        (None, s1) \<Rightarrow> s1
      | (Some name, s1) \<Rightarrow>
          (case in_world (build_digest he) s1 of
             (d, s2) \<Rightarrow>
               (let digest = (case d of Inr txt \<Rightarrow> txt | Inl e \<Rightarrow> []);
                    seeded = [text_message ''user'' (handoff_text digest (build_narrative he (op_messages s2)))];
                    after = estimate_tokens seeded;
                    s3 = (if window * ho_threshold he \<le> int after * 100 then s2\<lparr>op_suppressed := True\<rparr> else s2);
                    s4 = persist_session env (s3\<lparr>op_messages := seeded, op_tokens := after\<rparr>)
                in emit (OutCompaction before after name)
                     (post_feed_entry FeedSystemEvent
                       (''Operator compacted its session ('' @ fmt_int (int before) @ tilde_arrow
                        @ fmt_int (int after) @ '' tokens); previous conversation archived as '' @ name @ ''.'')
                       [] s4))))"

definition operator_maybe_compact :: "operator_env \<Rightarrow> handoff_env \<Rightarrow> operator \<Rightarrow> operator" where
  "operator_maybe_compact env he s =
     (if oe_cancelled env (op_requests s) then s
      else if ho_threshold he \<le> 0 \<or> ho_window he = None \<or> \<not> oe_session_file env then s
      else let window = the (ho_window he) in
        if window \<le> 0 then s
        else if op_tokens s = 0 \<or> length (op_messages s) \<le> 1 then s
        else if int (op_tokens s) * 100 < window * ho_threshold he then s\<lparr>op_suppressed := False\<rparr>
        else if op_suppressed s then s
        else operator_compact env he (op_tokens s) window s)"

section \<open>The handoff keeps the operator in order\<close>

lemma okA_concat: "(\<And>x w. world_ok w \<Longrightarrow> okA (f x) w) \<Longrightarrow> world_ok w \<Longrightarrow> okA (concatA f xs) w"
  by (induction xs arbitrary: w) (auto intro!: ok_rules okA_bind)

lemma safe_sessions [ok_rules]: "safe_query get_active_sessions"
  by (auto simp: get_active_sessions_def intro!: safe_sql)

lemma okA_digest_job: "world_ok w \<Longrightarrow> okA (digest_job j) w"
  unfolding digest_job_def by (intro okA_bind ok_rules; assumption)

lemma okA_collect_jobs: "world_ok w \<Longrightarrow> okA (collect_jobs n note sts) w"
  by (induction sts arbitrary: w) (auto intro!: okA_bind ok_rules split: prod.split)

lemma okA_digest: "world_ok w \<Longrightarrow> okA (build_digest he) w"
  unfolding build_digest_def write_active_jobs_def write_pending_blockers_def write_active_sessions_def
    write_recent_jobs_def
  by (auto intro!: okA_bind okA_concat okA_digest_job okA_collect_jobs ok_rules split: prod.split)

text \<open>
  What a turn relies on in the tools: no call leaves the world out of order. Everything else a
  turn does leaves the store alone.
\<close>

locale turn_host =
  fixes env :: operator_env
  assumes tools_ok: "world_ok w \<Longrightarrow> okA (system_execute (oe_tools env) name args) w"
begin

lemma in_world_tools: "in_world m s = (r, s') \<Longrightarrow> okA m (op_world s) \<Longrightarrow> world_ok (op_world s')"
  by (auto simp: in_world_def okA_def split: prod.splits)

lemma okA_list_jobs: "world_ok w \<Longrightarrow> okA (list_jobs_tool (oe_tools env)) w"
  unfolding list_jobs_tool_def by (intro okA_bind okA_queries ok_rules)

lemma execute_world:
  "operator_execute env name args s = (r, s') \<Longrightarrow> world_ok (op_world s) \<Longrightarrow> world_ok (op_world s')"
  unfolding operator_execute_def Let_def
  by (auto split: if_splits elim!: in_world_tools intro: tools_ok okA_list_jobs okA_setup_workspace)

lemma run_call_world:
  "run_call env tc t s = (r, bad, t', s') \<Longrightarrow> world_ok (op_world s) \<Longrightarrow> world_ok (op_world s')"
  using execute_world by (fastforce simp: run_call_def split: option.splits prod.splits sum.splits)

lemma run_calls_world:
  "run_calls env tcs failed t s = (failed', t', s') \<Longrightarrow> world_ok (op_world s) \<Longrightarrow> world_ok (op_world s')"
proof (induction tcs arbitrary: failed t s)
  case (Cons tc tcs)
  obtain r bad t1 s1 where c: "run_call env tc t s = (r, bad, t1, s1)" by (metis prod_cases4)
  show ?case
    by (rule Cons.IH [OF Cons.prems(1) [unfolded run_calls.simps c prod.case]])
      (simp add: run_call_world [OF c Cons.prems(2)])
qed simp

lemma turn_round_world:
  assumes "turn_round env t s = (c, t', s')" "world_ok (op_world s)"
  shows "world_ok (op_world s')"
  using assms unfolding turn_round_def Let_def
  by (auto split: sum.splits prod.splits if_splits dest!: collect_turn_frame elim!: run_calls_world)

lemma turn_loop_world: "world_ok (op_world s) \<Longrightarrow> world_ok (op_world (snd (turn_loop env n t s)))"
proof (induction n arbitrary: t s)
  case (Suc n)
  then show ?case by (auto split: prod.splits bool.splits dest: turn_round_world)
qed simp

lemma user_message_world:
  assumes "world_ok (op_world s)"
  shows "world_ok (op_world (handle_user_message env msg turn s))"
  using turn_loop_world [of "append_msg env (text_message ''user'' msg) (s\<lparr>op_turn := turn\<rparr>)" max_turn_rounds new_turn]
    assms handle_user_message_snd [of env msg turn s]
  by auto

end

text \<open>The tools on the service's broadcasts are such tools.\<close>

definition on_service :: "service_env \<Rightarrow> operator_env \<Rightarrow> operator_env" where
  "on_service sv env = env\<lparr>oe_tools := with_service sv (oe_tools env)\<rparr>"

interpretation service_turn: turn_host "on_service sv env" for sv env
  by unfold_locales (simp add: on_service_def service_host.execute_ok)

lemma sample_on_service: "on_service sample_service (sample_operator_env\<lparr>oe_tools := plain_tools\<rparr>) = sample_operator_env"
  by (simp add: on_service_def sample_operator_env_def sample_tools_service)

text \<open>The archive's name is free.\<close>

lemma archive_candidate_inject:
  "archive_candidate ts i = archive_candidate ts j \<Longrightarrow> 1 \<le> i \<Longrightarrow> 1 \<le> j \<Longrightarrow> i = j"
  by (auto simp: archive_candidate_def split: if_splits dest: digits_of_inject)

lemma archive_name_fresh: "archive_name ts taken \<notin> set taken"
proof (cases "find (\<lambda>i. archive_candidate ts i \<notin> set taken) [1..<length taken + 2]")
  case None
  let ?names = "map (archive_candidate ts) [1..<length taken + 2]"
  have "set ?names \<subseteq> set taken" using None by (auto simp: find_None_iff)
  then have "card (set ?names) \<le> length taken" by (metis card_mono card_length finite_set le_trans)
  moreover have "distinct ?names"
    by (auto simp: distinct_map inj_on_def simp del: upt_Suc dest: archive_candidate_inject)
  then have "card (set ?names) = length ?names" by (rule distinct_card)
  moreover have "length ?names = length taken + 1" by (simp del: upt_Suc)
  ultimately show ?thesis by linarith
next
  case (Some i)
  then have "archive_candidate ts i \<notin> set taken" by (auto simp: find_Some_iff simp del: upt_Suc)
  then show ?thesis by (simp only: archive_name_def Some option.case) simp
qed

lemma in_world_ok:
  assumes "in_world m s = (r, s')" "okA m (op_world s)"
  shows "world_ok (op_world s')"
  using assms by (auto simp: in_world_def okA_def split: prod.splits)

lemma post_feed_frame [simp]:
  "op_messages (post_feed_entry k c j s) = op_messages s" "op_saved (post_feed_entry k c j s) = op_saved s"
  "op_archives (post_feed_entry k c j s) = op_archives s" "op_requests (post_feed_entry k c j s) = op_requests s"
  "op_out (post_feed_entry k c j s) = op_out s"
  by (simp_all add: post_feed_entry_def in_world_def split: prod.split)

lemma post_feed_ok: "world_ok (op_world s) \<Longrightarrow> world_ok (op_world (post_feed_entry k c j s))"
  unfolding post_feed_entry_def
  by (cases "in_world (logged (create_feed_entry k c j)) s")
    (auto intro!: in_world_ok okA_logged ok_rules)

lemma conv_ok_archives [simp]:
  "conv_ok (s\<lparr>op_archives := a\<rparr>) = conv_ok s" "conv_ok (s\<lparr>op_suppressed := b\<rparr>) = conv_ok s"
  "conv_ok (post_feed_entry k c j s) = conv_ok s"
  by (rule conv_ok_frame; simp)+

lemma compact_effect:
  assumes "conv_ok s" "world_ok (op_world s)"
    and s'_def: "s' = operator_compact env he before window s"
  shows "conv_ok s' \<and> world_ok (op_world s')
    \<and> (s' = s \<or> (\<exists>txt name. op_messages s' = [text_message ''user'' (handoff_header @ txt)]
         \<and> name \<notin> fst ` set (op_archives s)
         \<and> op_archives s' = prune_archives (op_archives s @ [(name, op_messages s, op_tokens s)]) archive_keep))"
proof (cases "oe_session_file env \<and> oe_write_ok env (op_messages s, op_tokens s)")
  case False
  then have "s' = s" by (auto simp: s'_def operator_compact_def archive_session_def)
  then show ?thesis using assms by simp
next
  case True
  define name where "name = archive_name (ho_stamp he) (map fst (op_archives s))"
  define s1 where "s1 = s\<lparr>op_archives := prune_archives (op_archives s @ [(name, op_messages s, op_tokens s)]) archive_keep\<rparr>"
  have a: "archive_session env he s = (Some name, s1)"
    using True by (simp add: archive_session_def name_def s1_def Let_def)
  obtain d s2 where d: "in_world (build_digest he) s1 = (d, s2)" by fastforce
  have w2: "world_ok (op_world s2)"
    using assms(2) by (intro in_world_ok [OF d] okA_digest) (simp add: s1_def)
  have s2: "s2 = s1\<lparr>op_world := op_world s2\<rparr>" using in_world_frame [OF d] .
  define digest where "digest = (case d of Inr txt \<Rightarrow> txt | Inl e \<Rightarrow> [])"
  define msg where "msg = text_message ''user'' (handoff_text digest (build_narrative he (op_messages s2)))"
  define s3 where "s3 = (if window * ho_threshold he \<le> int (estimate_tokens [msg]) * 100 then s2\<lparr>op_suppressed := True\<rparr> else s2)"
  define s4 where "s4 = persist_session env (s3\<lparr>op_messages := [msg], op_tokens := estimate_tokens [msg]\<rparr>)"
  have c2: "conv_ok s2" using assms(1) by (subst s2) (simp add: s1_def)
  have one: "acceptable [msg]" "calls_by_assistant [msg]"
    by (simp_all add: msg_def acceptable_def calls_by_assistant_def is_tool_def)
  then have "partial_history [msg]" unfolding partial_history_def by (intro exI [of _ "[]"]) simp
  then have c4: "conv_ok s4"
    using c2 one by (simp add: s4_def s3_def conv_ok_def restorable_def persist_session_def max_messages_def)
  have f4: "op_messages s4 = [msg]" "op_archives s4 = op_archives s1" "op_world s4 = op_world s2"
    using arg_cong [OF s2, of op_archives] by (simp_all add: s4_def s3_def persist_session_def)
  obtain body where t: "handoff_text digest (build_narrative he (op_messages s2)) = handoff_header @ body"
    by (simp add: handoff_text_def)
  have s': "\<exists>x kind content. s' = emit x (post_feed_entry kind content [] s4)"
    unfolding s'_def operator_compact_def a by (auto simp: d Let_def digest_def [symmetric] msg_def [symmetric]
        s3_def [symmetric] s4_def [symmetric])
  have "name \<notin> fst ` set (op_archives s)"
    using archive_name_fresh [of "ho_stamp he" "map fst (op_archives s)"] by (simp add: name_def)
  then show ?thesis
    using s' c4 f4 w2 post_feed_ok t by (auto simp: s1_def msg_def)
qed


text \<open>
  Pruning goes by name. With twenty archives whose time stamps lie ahead of the clock, the
  archive a handoff has just written is the one that is removed.
\<close>

theorem prune_can_drop_newest:
  "\<exists>files. length files = archive_keep
     \<and> (''operator-2026-01-01.json'', x) \<notin> set (prune_archives (files @ [(''operator-2026-01-01.json'', x)]) archive_keep)"
proof -
  let ?new = "''operator-2026-01-01.json''"
  let ?names = "map (archive_candidate ''2026-01-02'') [1..<21]"
  let ?files = "map (\<lambda>n. (n, x)) ?names"
  have first: "take 1 (sort (?names @ [?new])) = [?new]" by code_simp
  have m: "map fst (?files @ [(?new, x)]) = ?names @ [?new]" by (simp add: comp_def)
  have l: "length (?files @ [(?new, x)]) - archive_keep = 1" "\<not> length (?files @ [(?new, x)]) \<le> archive_keep"
    by (simp_all add: archive_keep_def)
  have "prune_archives (?files @ [(?new, x)]) archive_keep
      = filter (\<lambda>f. fst f \<notin> set [?new]) (?files @ [(?new, x)])"
    unfolding prune_archives_def Let_def m if_not_P [OF l(2)] l(1) first ..
  then have "(?new, x) \<notin> set (prune_archives (?files @ [(?new, x)]) archive_keep)"
    by (simp only: set_filter mem_Collect_eq) simp
  moreover have "length ?files = archive_keep" by (simp add: archive_keep_def)
  ultimately show ?thesis by blast
qed

definition sample_handoff :: handoff_env where
  "sample_handoff = \<lparr>ho_threshold = 80, ho_window = Some 5, ho_age = (\<lambda>t. ''1m0s''), ho_elapsed = (\<lambda>t. ''5s''),
     ho_stamp = ''2026-01-01T00-00-00Z'', ho_role = Some ''note'', ho_complete = (\<lambda>p t. Inr ''go on'')\<rparr>"

definition sample_turned :: operator where
  "sample_turned = handle_user_message sample_operator_env ''hi'' [] (fresh_operator (world_of sample_db))"

lemma sample_turned_tools:
  "op_world (fresh_operator w) = w" "oe_session_file sample_operator_env" "oe_write_ok sample_operator_env f"
  by (simp_all add: fresh_operator_def sample_operator_env_def)


end
