(* ===== verification/EventLoop.thy ===== *)
theory EventLoop
  imports Handoff
begin

text \<open>
  The operator's event loop, \<open>handleEvent\<close> and what it calls in
  \<open>internal/operator/operator.go\<close>: the feed entries, the mechanical steps that advance a job
  (\<open>assignNextTask\<close>, \<open>checkJobComplete\<close>, \<open>recoverInterrupted\<close>) and the events that are put to
  the model. The store is configured.
\<close>

section \<open>Texts\<close>

definition check_mark :: string where "check_mark = [CHR 0xE2, CHR 0x9C, CHR 0x85]"
definition cross_mark :: string where "cross_mark = [CHR 0xE2, CHR 0x9D, CHR 0x8C]"
definition party_popper :: string where "party_popper = [CHR 0xF0, CHR 0x9F, CHR 0x8E, CHR 0x89]"
definition recycle_sign :: string where
  "recycle_sign = [CHR 0xE2, CHR 0x99, CHR 0xBB, CHR 0xEF, CHR 0xB8, CHR 0x8F]"

definition recommendation_prompt :: "string \<Rightarrow> string \<Rightarrow> string \<Rightarrow> string \<Rightarrow> string" where
  "recommendation_prompt tid graph summary recs =
     ''Task '' @ fmt_q tid @ '' completed by team '' @ graph @ ''. Summary: '' @ summary @ nl @ nl
     @ ''The team recommends: '' @ recs @ nl @ nl
     @ ''Decide how to proceed. If a recommendation is worth acting on, call create_task ''
     @ ''with this job's ID to queue it as follow-up work; if it needs a human decision, ''
     @ ''use ask_user; otherwise summarize via surface_to_user.''"

definition failure_prompt :: "string \<Rightarrow> string \<Rightarrow> string \<Rightarrow> string list \<Rightarrow> string" where
  "failure_prompt tid graph err blocked =
     ''Task '' @ fmt_q tid @ '' (graph '' @ graph @ '') failed with error: '' @ err @ nl @ nl
     @ ''Decide how to proceed. If this looks transient or fixable '' @ em_dash @ '' an environment, ''
     @ ''dependency, or build issue, or something a clearer instruction would resolve '' @ em_dash @ '' ''
     @ ''prefer retry_task with this task_id to re-run it in place. Do NOT create a new ''
     @ ''job to redo work that is already partly done. If a human decision is needed, use ''
     @ ''ask_user or surface_to_user. Only create a new job when the work genuinely needs ''
     @ ''to be re-scoped from scratch.''
     @ (if blocked = [] then []
        else nl @ nl @ ''IMPORTANT: '' @ fmt_int (int (length blocked)) @ '' queued task(s) depend on this task and cannot ''
          @ ''start until it succeeds: '' @ join_strings ''; '' blocked @ ''. Leaving it failed stalls them indefinitely.'')"

definition new_task_prompt :: "string \<Rightarrow> string \<Rightarrow> string \<Rightarrow> string \<Rightarrow> string" where
  "new_task_prompt jid graph descr reason =
     ''Graph '' @ graph @ '' recommends creating a new task for job '' @ jid @ '': '' @ descr @ nl @ nl
     @ ''Reason: '' @ reason @ nl @ nl
     @ ''Decide whether this work is worth doing. If yes, call create_task with this job_id '' @ em_dash @ '' ''
     @ ''the framework picks a graph and starts the task when it becomes ready. Do NOT create ''
     @ ''a new job for follow-up work on an existing job. If the decision belongs to a human, ''
     @ ''use ask_user; otherwise surface_to_user to explain why you declined.''"

definition stalled_prompt :: "string \<Rightarrow> string \<Rightarrow> string" where
  "stalled_prompt jid detail =
     ''The framework failed to advance job '' @ jid @ '' to its next task: '' @ detail @ nl @ nl
     @ ''Nothing retries this automatically '' @ em_dash @ '' the job is stalled until someone acts. ''
     @ ''Inspect the job with query_job, then surface the problem to the user with ''
     @ ''surface_to_user (or ask_user if a decision is needed), explaining what failed ''
     @ ''and what could fix it.''"

section \<open>Advancing a job\<close>

definition run_query :: "'a store_op \<Rightarrow> operator \<Rightarrow> (db_error + 'a) \<times> operator" where
  "run_query q s = (case on_db q (op_world s) of (r, w) \<Rightarrow> (r, s\<lparr>op_world := w\<rparr>))"

definition blocked_dependents :: "string \<Rightarrow> operator \<Rightarrow> string list \<times> operator" where
  "blocked_dependents tid s =
     (case run_query (list_task_dependents tid) s of
        (Inl e, s') \<Rightarrow> ([], s')
      | (Inr ts, s') \<Rightarrow> (map task_title (filter (\<lambda>t. task_status t = TaskPending) ts), s'))"

definition report_advance_failure :: "operator_env \<Rightarrow> string \<Rightarrow> string \<Rightarrow> operator \<Rightarrow> operator" where
  "report_advance_failure env jid detail s =
     send_to_llm env (stalled_prompt jid detail)
       (post_feed_entry FeedSystemEvent (warning_sign @ '' '' @ detail) jid s)"

definition first_graphed :: "task list \<Rightarrow> task option" where
  "first_graphed ts = find (\<lambda>t. task_graph t \<noteq> []) ts"

definition assign_next_task :: "operator_env \<Rightarrow> string \<Rightarrow> operator \<Rightarrow> operator" where
  "assign_next_task env jid s =
     (case run_query (get_ready_tasks jid) s of
        (Inl e, s1) \<Rightarrow> report_advance_failure env jid
          (''could not determine the next ready task: '' @ db_error_text e) s1
      | (Inr ready, s1) \<Rightarrow>
          (case first_graphed ready of
             None \<Rightarrow> s1
           | Some t \<Rightarrow>
               (case in_world (system_execute (oe_tools env) ''assign_task''
                        (marshal_map [(''task_id'', task_id t), (''graph_id'', task_graph t)])) s1 of
                  (Inr r, s2) \<Rightarrow> s2
                | (Inl e, s2) \<Rightarrow> report_advance_failure env jid
                    (''could not start task '' @ fmt_q (task_title t) @ '' on graph ''
                     @ fmt_q (task_graph t) @ '': '' @ e) s2)))"

definition has_graphed_task :: "task list \<Rightarrow> bool" where
  "has_graphed_task ts = list_ex (\<lambda>t. task_graph t \<noteq> []) ts"

definition recover_job :: "operator_env \<Rightarrow> job \<Rightarrow> operator \<Rightarrow> operator" where
  "recover_job env j s =
     (case run_query (get_ready_tasks (job_id j)) s of
        (Inl e, s1) \<Rightarrow> s1
      | (Inr ready, s1) \<Rightarrow>
          if \<not> has_graphed_task ready then s1
          else assign_next_task env (job_id j)
            (post_feed_entry FeedSystemEvent
              (recycle_sign @ '' Resumed job after server restart: '' @ job_title j) (job_id j) s1))"

definition recover_interrupted :: "operator_env \<Rightarrow> operator \<Rightarrow> operator" where
  "recover_interrupted env s =
     (case run_query (list_jobs (jobs_with JobActive 0)) s of
        (Inl e, s1) \<Rightarrow> s1
      | (Inr js, s1) \<Rightarrow> fold (recover_job env) js s1)"

section \<open>Completing a job\<close>

definition notify :: "op_event \<Rightarrow> operator \<Rightarrow> operator" where
  "notify ev s = emit (OutEvent ev) s"

definition job_complete :: "operator_env \<Rightarrow> string \<Rightarrow> string \<Rightarrow> operator \<Rightarrow> operator" where
  "job_complete env jid title s =
     (let s1 = snd (in_world (logged (update_job_status jid JobCompleted)) s);
          content = party_popper @ '' Job complete: '' @ title
      in emit_text (nl @ content @ nl) (post_feed_entry FeedJobComplete content jid s1))"

fun is_terminal_task_status :: "task_status \<Rightarrow> bool" where
  "is_terminal_task_status TaskCompleted = True"
| "is_terminal_task_status TaskFailed = True"
| "is_terminal_task_status TaskCancelled = True"
| "is_terminal_task_status st = False"

definition check_job_complete :: "operator_env \<Rightarrow> string \<Rightarrow> operator \<Rightarrow> operator" where
  "check_job_complete env jid s =
     (case run_query (list_tasks_for_job jid) s of
        (Inl e, s1) \<Rightarrow> s1
      | (Inr ts, s1) \<Rightarrow>
          if ts = [] then s1
          else if list_ex (\<lambda>t. \<not> is_terminal_task_status (task_status t)) ts then s1
          else (case run_query (get_job jid) s1 of
                  (Inl e, s2) \<Rightarrow> s2
                | (Inr j, s2) \<Rightarrow>
                    job_complete env jid (job_title j)
                      (notify (EvJobComplete jid (job_title j) ''All tasks completed'') s2)))"

section \<open>Handling an event\<close>

fun handle_known :: "operator_env \<Rightarrow> op_event \<Rightarrow> operator \<Rightarrow> operator" where
  "handle_known env (EvUserMessage msg turn) s =
     handle_user_message env msg turn (post_feed_entry FeedUserMessage msg [] s)"
| "handle_known env (EvTaskStarted tid jid graph title) s =
     post_feed_entry FeedTaskStarted (lightning @ '' '' @ graph @ '' started task: '' @ title) jid s"
| "handle_known env (EvTaskCompleted tid jid graph summary recs has_next) s =
     (let s1 = post_feed_entry FeedTaskCompleted (check_mark @ '' '' @ graph @ '' completed task: '' @ summary) jid s
      in if has_next then assign_next_task env jid s1
         else if recs \<noteq> [] then send_to_llm env (recommendation_prompt tid graph summary recs) s1
         else check_job_complete env jid s1)"
| "handle_known env (EvTaskFailed tid jid graph err) s =
     (case blocked_dependents tid s of
        (blocked, s1) \<Rightarrow>
          send_to_llm env (failure_prompt tid graph err blocked)
            (post_feed_entry FeedTaskFailed
              (cross_mark @ '' '' @ graph @ '' failed task: '' @ err
               @ (if blocked = [] then []
                  else '' (blocks '' @ fmt_int (int (length blocked)) @ '' queued task(s): ''
                    @ join_strings ''; '' blocked @ '')'')) jid s1))"
| "handle_known env (EvProgressUpdate tid worker msg) s = s"
| "handle_known env (EvJobComplete jid title summary) s = job_complete env jid title s"
| "handle_known env (EvNewTaskRequest jid graph descr reason) s =
     send_to_llm env (new_task_prompt jid graph descr reason)
       (post_feed_entry FeedSystemEvent
         (''Graph '' @ graph @ '' requests new task: '' @ descr @ '' (reason: '' @ reason @ '')'') jid s)"
| "handle_known env (EvUserResponse msg request) s =
     send_to_llm env (if request = [] then msg else ''[Response to request '' @ request @ ''] '' @ msg)
       (post_feed_entry FeedUserMessage msg [] s)"

definition handle_event :: "operator_env \<Rightarrow> op_event \<Rightarrow> operator \<Rightarrow> operator" where
  "handle_event env ev s = handle_known env ev (notify ev s)"

text \<open>
  \<open>run\<close>: recovery and a first check of the context on start, then one event after the other.
\<close>

definition operator_start :: "operator_env \<Rightarrow> handoff_env \<Rightarrow> operator \<Rightarrow> operator" where
  "operator_start env he s = operator_maybe_compact env he (recover_interrupted env s)"

definition operator_next :: "operator_env \<Rightarrow> handoff_env \<Rightarrow> operator \<Rightarrow> operator" where
  "operator_next env he s =
     (case w_queue (op_world s) of
        [] \<Rightarrow> s
      | ev # evs \<Rightarrow>
          operator_maybe_compact env he
            (handle_event env ev (s\<lparr>op_world := (op_world s)\<lparr>w_queue := evs\<rparr>\<rparr>)))"

section \<open>Every event keeps the operator in order\<close>

definition operator_ok :: "operator \<Rightarrow> bool" where
  "operator_ok s \<longleftrightarrow> conv_ok s \<and> world_ok (op_world s)"

lemma run_query_frame:
  "run_query q s = (r, s') \<Longrightarrow> s' = s\<lparr>op_world := (op_world s)\<lparr>w_db := snd (q (w_db (op_world s)))\<rparr>\<rparr>"
  by (auto simp: run_query_def on_db_def split: prod.splits)

lemma run_query_result: "run_query q s = (r, s') \<Longrightarrow> r = fst (q (w_db (op_world s)))"
  by (auto simp: run_query_def on_db_def split: prod.splits)

lemma run_query_ok:
  assumes "run_query q s = (r, s')" "safe_query q" "operator_ok s"
  shows "operator_ok s'"
  using assms(2,3) unfolding run_query_frame [OF assms(1)]
  by (simp add: operator_ok_def world_ok_def safe_query_def)

lemma in_world_operator_ok:
  assumes "in_world m s = (r, s')" "okA m (op_world s)" "operator_ok s"
  shows "operator_ok s'"
proof -
  have "conv_ok s'" using assms(3) by (subst in_world_frame [OF assms(1)]) (simp add: operator_ok_def)
  then show ?thesis using in_world_ok [OF assms(1,2)] by (simp add: operator_ok_def)
qed

lemma logged_operator_ok: "safe_query q \<Longrightarrow> operator_ok s \<Longrightarrow> operator_ok (snd (in_world (logged q) s))"
  by (rule in_world_operator_ok [OF surjective_pairing])
    (auto intro: okA_logged simp: operator_ok_def)

lemma post_feed_operator_ok [intro]: "operator_ok s \<Longrightarrow> operator_ok (post_feed_entry k c j s)"
  by (simp add: operator_ok_def post_feed_ok)

lemma emit_operator_ok [simp]:
  "operator_ok (emit x s) = operator_ok s" "operator_ok (emit_text y s) = operator_ok s"
  "operator_ok (notify ev s) = operator_ok s"
  by (simp_all add: operator_ok_def notify_def)

lemma operator_maybe_compact_ok: "operator_ok s \<Longrightarrow> operator_ok (operator_maybe_compact env he s)"
  using compact_effect [OF _ _ refl, of s env he]
  by (auto simp: operator_ok_def operator_maybe_compact_def Let_def)

lemma job_complete_ok: "operator_ok s \<Longrightarrow> operator_ok (job_complete env jid title s)"
  unfolding job_complete_def Let_def by (auto intro!: logged_operator_ok ok_rules)

lemma check_job_complete_ok:
  assumes "operator_ok s"
  shows "operator_ok (check_job_complete env jid s)"
proof -
  obtain r s1 where r: "run_query (list_tasks_for_job jid) s = (r, s1)" by fastforce
  obtain q s2 where q: "run_query (get_job jid) s1 = (q, s2)" by fastforce
  have s1: "operator_ok s1" by (rule run_query_ok [OF r _ assms]) (rule ok_rules)
  have "operator_ok s2" by (rule run_query_ok [OF q _ s1]) (rule ok_rules)
  with s1 show ?thesis
    by (auto simp: check_job_complete_def r q job_complete_ok split: sum.split)
qed

context turn_host
begin

lemma user_message_ok:
  "operator_ok s \<Longrightarrow> few_calls env \<Longrightarrow> operator_ok (handle_user_message env msg turn s)"
  by (simp add: operator_ok_def handle_user_message_conv user_message_world)

lemma send_ok: "operator_ok s \<Longrightarrow> few_calls env \<Longrightarrow> operator_ok (send_to_llm env msg s)"
  unfolding send_to_llm_def by (rule user_message_ok)

lemma assign_next_ok:
  assumes "operator_ok s" "few_calls env"
  shows "operator_ok (assign_next_task env jid s)"
proof -
  obtain r s1 where r: "run_query (get_ready_tasks jid) s = (r, s1)" by fastforce
  have s1: "operator_ok s1" by (rule run_query_ok [OF r _ assms(1)]) (rule ok_rules)
  have report: "operator_ok s' \<Longrightarrow> operator_ok (report_advance_failure env jid d s')" for s' d
    unfolding report_advance_failure_def using assms(2) by (auto intro!: send_ok)
  have "operator_ok s2" if "in_world (system_execute (oe_tools env) name args) s1 = (q, s2)" for name args q s2
    using that s1 by (intro in_world_operator_ok [OF that] tools_ok) (simp_all add: operator_ok_def)
  then show ?thesis
    using s1 by (auto simp: assign_next_task_def r report split: sum.split option.split prod.split)
qed

lemma recover_job_ok:
  assumes "few_calls env" "operator_ok s"
  shows "operator_ok (recover_job env j s)"
proof -
  obtain r s1 where r: "run_query (get_ready_tasks (job_id j)) s = (r, s1)" by fastforce
  have "operator_ok s1" by (rule run_query_ok [OF r _ assms(2)]) (rule ok_rules)
  then show ?thesis
    using assms(1) by (auto simp: recover_job_def r split: sum.split intro!: assign_next_ok)
qed

lemma recover_ok:
  assumes "few_calls env" "operator_ok s"
  shows "operator_ok (recover_interrupted env s)"
proof -
  obtain r s1 where r: "run_query (list_jobs (jobs_with JobActive 0)) s = (r, s1)" by fastforce
  have s1: "operator_ok s1" by (rule run_query_ok [OF r _ assms(2)]) (rule ok_rules)
  have "operator_ok (fold (recover_job env) js s1)" for js
    using s1
  proof (induction js arbitrary: s1)
    case (Cons j js)
    then show ?case using recover_job_ok [OF assms(1)] by simp
  qed simp
  then show ?thesis using s1 by (auto simp: recover_interrupted_def r split: sum.split)
qed

lemma handle_event_ok:
  assumes "few_calls env" "operator_ok s"
  shows "operator_ok (handle_event env ev s)"
proof -
  have s: "operator_ok (notify ev s)" using assms(2) by simp
  show ?thesis
  proof (cases ev)
    case (EvTaskCompleted tid jid graph summary recs has_next)
    then show ?thesis
      using s assms(1) by (auto simp: handle_event_def Let_def intro!: assign_next_ok send_ok check_job_complete_ok)
  next
    case (EvTaskFailed tid jid graph err)
    obtain r s1 where r: "run_query (list_task_dependents tid) (notify ev s) = (r, s1)" by fastforce
    have "operator_ok s1" by (rule run_query_ok [OF r _ s]) (rule ok_rules)
    then show ?thesis
      using r assms(1) EvTaskFailed
      by (auto simp: handle_event_def blocked_dependents_def split: sum.split intro!: send_ok)
  qed (use s assms(1) in \<open>auto simp: handle_event_def intro!: user_message_ok send_ok job_complete_ok\<close>)
qed

lemma operator_next_ok:
  assumes "few_calls env" "operator_ok s"
  shows "operator_ok (operator_next env he s)"
proof (cases "w_queue (op_world s)")
  case (Cons ev evs)
  have "operator_ok (s\<lparr>op_world := (op_world s)\<lparr>w_queue := evs\<rparr>\<rparr>)"
    using assms(2) by (simp add: operator_ok_def world_ok_def)
  then show ?thesis
    using assms(1) Cons by (simp add: operator_next_def operator_maybe_compact_ok handle_event_ok)
qed (simp add: operator_next_def assms(2))

lemma operator_start_ok: "few_calls env \<Longrightarrow> operator_ok s \<Longrightarrow> operator_ok (operator_start env he s)"
  unfolding operator_start_def by (intro operator_maybe_compact_ok recover_ok)

end

section \<open>When no statement fails\<close>

definition faultless :: "db \<Rightarrow> bool" where
  "faultless d \<longleftrightarrow> db_faults d = (\<lambda>n. None)"

lemma faultless_sql: "faultless d \<Longrightarrow> sql what body d = body (tick d)"
  by (simp add: faultless_def sql_ok)

lemma faultless_tick [simp]: "faultless (tick d) = faultless d"
  by (simp add: faultless_def)

lemma faultless_reads:
  assumes "faultless d"
  shows "lookup_task d tid = Some t \<Longrightarrow> get_task tid d = (Inr t, tick d)"
    "lookup_job d jid = Some j \<Longrightarrow> get_job jid d = (Inr j, tick d)"
    "lookup_job d jid = None \<Longrightarrow> \<exists>e. get_job jid d = (Inl e, tick d)"
    "list_tasks_for_job jid d = (Inr (in_task_order (filter (\<lambda>t. task_job t = jid) (db_tasks d))), tick d)"
    "\<exists>ready. get_ready_tasks jid d = (Inr ready, tick d)"
  using assms
  by (simp_all add: get_task_def get_job_def list_tasks_for_job_def get_ready_tasks_def faultless_sql
      lookup_task_def lookup_job_def)

lemma run_query_eq: "q (w_db (op_world s)) = (r, d) \<Longrightarrow> run_query q s = (r, s\<lparr>op_world := (op_world s)\<lparr>w_db := d\<rparr>\<rparr>)"
  by (simp add: run_query_def on_db_def)

lemma dbA_eq: "q (w_db w) = (Inr x, d) \<Longrightarrow> dbA ctx q w = (Inr x, w\<lparr>w_db := d\<rparr>)"
  by (simp add: dbA_def on_db_def)

lemma update_job_status_faultless:
  assumes "faultless d" "lookup_job d jid = Some j"
  shows "\<exists>d'. update_job_status jid st d = (Inr (), d')"
proof -
  have "\<exists>r\<in>set (db_jobs d). job_id r = jid" using assms(2) by (auto simp: lookup_job_def find_Some_iff)
  then show ?thesis using assms(1) by (auto simp: update_job_status_def faultless_sql check_affected_def)
qed

lemma post_feed_db [simp]:
  "db_jobs (w_db (op_world (post_feed_entry k c i s))) = db_jobs (w_db (op_world s))"
  "db_tasks (w_db (op_world (post_feed_entry k c i s))) = db_tasks (w_db (op_world s))"
  "w_runs (op_world (post_feed_entry k c i s)) = w_runs (op_world s)"
  "w_queue (op_world (post_feed_entry k c i s)) = w_queue (op_world s)"
proof -
  have "op_world (post_feed_entry k c i s)
      = (op_world s)\<lparr>w_db := snd (create_feed_entry k c i (w_db (op_world s)))\<rparr>"
    by (simp add: post_feed_entry_def in_world_def logged_def on_db_def split: prod.split)
  moreover have "db_jobs (snd (create_feed_entry k c i d)) = db_jobs d" for d
    by (simp add: create_feed_entry_def sql_def Let_def split: option.split)
  ultimately show "db_jobs (w_db (op_world (post_feed_entry k c i s))) = db_jobs (w_db (op_world s))"
    "db_tasks (w_db (op_world (post_feed_entry k c i s))) = db_tasks (w_db (op_world s))"
    "w_runs (op_world (post_feed_entry k c i s)) = w_runs (op_world s)"
    "w_queue (op_world (post_feed_entry k c i s)) = w_queue (op_world s)"
    by simp_all
qed

lemma lookup_job_jobs: "db_jobs d' = db_jobs d \<Longrightarrow> lookup_job d' = lookup_job d"
  by (simp add: lookup_job_def fun_eq_iff)

lemma job_complete_effect:
  assumes "update_job_status jid JobCompleted (w_db (op_world s)) = (Inr u, d')"
  shows "lookup_job (w_db (op_world (job_complete env jid title s))) = lookup_job d'"
    "last (op_out (job_complete env jid title s)) = OutText (op_turn s) (nl @ party_popper @ '' Job complete: '' @ title @ nl)"
proof -
  have s1: "snd (in_world (logged (update_job_status jid JobCompleted)) s) = s\<lparr>op_world := (op_world s)\<lparr>w_db := d'\<rparr>\<rparr>"
    by (simp add: in_world_def logged_def on_db_def assms)
  show "lookup_job (w_db (op_world (job_complete env jid title s))) = lookup_job d'"
    by (rule lookup_job_jobs) (simp add: job_complete_def Let_def s1)
  have "op_turn (post_feed_entry k c i s2) = op_turn s2" for k c i s2
    by (simp add: post_feed_entry_def in_world_def split: prod.split)
  then show "last (op_out (job_complete env jid title s)) = OutText (op_turn s) (nl @ party_popper @ '' Job complete: '' @ title @ nl)"
    by (simp add: job_complete_def Let_def s1 emit_text_def emit_def)
qed

text \<open>
  C9. When no statement fails, the completion check marks a job completed exactly when it has
  tasks and every one of them is completed, failed or cancelled, and tells the user so; whatever
  the job's status was and however many of its tasks failed. Otherwise it changes nothing and
  says nothing.
\<close>

theorem check_job_complete_correct:
  assumes "faultless (w_db (op_world s))" "lookup_job (w_db (op_world s)) jid = Some j"
    and "s' = check_job_complete env jid s"
  shows "if (\<exists>t\<in>set (db_tasks (w_db (op_world s))). task_job t = jid)
         \<and> \<not> (\<exists>t\<in>set (db_tasks (w_db (op_world s))). task_job t = jid \<and> \<not> is_terminal_task_status (task_status t))
     then (\<exists>j'. lookup_job (w_db (op_world s')) jid = Some j' \<and> job_status j' = JobCompleted \<and> job_title j' = job_title j)
       \<and> last (op_out s') = OutText (op_turn s) (nl @ party_popper @ '' Job complete: '' @ job_title j @ nl)
     else db_jobs (w_db (op_world s')) = db_jobs (w_db (op_world s)) \<and> op_out s' = op_out s"
proof -
  let ?d = "w_db (op_world s)"
  let ?ts = "in_task_order (filter (\<lambda>t. task_job t = jid) (db_tasks ?d))"
  let ?s1 = "s\<lparr>op_world := (op_world s)\<lparr>w_db := tick ?d\<rparr>\<rparr>"
  let ?s2 = "s\<lparr>op_world := (op_world s)\<lparr>w_db := tick (tick ?d)\<rparr>\<rparr>"
  have q1: "run_query (list_tasks_for_job jid) s = (Inr ?ts, ?s1)"
    by (rule run_query_eq) (rule faultless_reads(4) [OF assms(1)])
  have q2: "run_query (get_job jid) ?s1 = (Inr j, ?s2)"
    using run_query_eq [of "get_job jid" ?s1 "Inr j"] faultless_reads(2) [of "tick ?d" jid j] assms(1,2) by simp
  have ts: "set ?ts = {t \<in> set (db_tasks ?d). task_job t = jid}" by (auto simp: in_task_order_def)
  have empty: "?ts = [] \<longleftrightarrow> \<not> (\<exists>t\<in>set (db_tasks ?d). task_job t = jid)"
    using ts by (metis (mono_tags, lifting) Collect_empty_eq set_empty)
  have open_ts: "list_ex (\<lambda>t. \<not> is_terminal_task_status (task_status t)) ?ts
      \<longleftrightarrow> (\<exists>t\<in>set (db_tasks ?d). task_job t = jid \<and> \<not> is_terminal_task_status (task_status t))"
    unfolding list_ex_iff ts by blast
  show ?thesis
  proof (cases "?ts = [] \<or> list_ex (\<lambda>t. \<not> is_terminal_task_status (task_status t)) ?ts")
    case True
    then have "s' = ?s1" by (auto simp: assms(3) check_job_complete_def q1)
    moreover have "\<not> ((\<exists>t\<in>set (db_tasks ?d). task_job t = jid)
         \<and> \<not> (\<exists>t\<in>set (db_tasks ?d). task_job t = jid \<and> \<not> is_terminal_task_status (task_status t)))"
      using True empty open_ts by blast
    ultimately show ?thesis by (simp add: if_not_P)
  next
    case False
    let ?s3 = "notify (EvJobComplete jid (job_title j) ''All tasks completed'') ?s2"
    have s': "s' = job_complete env jid (job_title j) ?s3"
      using False by (simp add: assms(3) check_job_complete_def q1 q2)
    obtain d' where d': "update_job_status jid JobCompleted (w_db (op_world ?s3)) = (Inr (), d')"
      using update_job_status_faultless [of "tick (tick ?d)" jid j] assms(1,2) by (auto simp: notify_def)
    have "job_id j = jid" using assms(2) by (auto simp: lookup_job_def find_Some_iff)
    then have "\<exists>j'. lookup_job d' jid = Some j' \<and> job_status j' = JobCompleted \<and> job_title j' = job_title j"
      using update_job_status_lookup(2) [OF d', of jid] assms(2) by (simp add: notify_def)
    moreover have "op_turn ?s3 = op_turn s" by (simp add: notify_def)
    ultimately show ?thesis
      using False empty open_ts job_complete_effect [OF d'] by (simp add: s')
  qed
qed

section \<open>Progress\<close>

lemma assign_args:
  "\<exists>p. unmarshal_strings [''task_id'', ''graph_id''] (marshal_map [(''task_id'', a), (''graph_id'', b)]) = Some p
     \<and> p ''task_id'' = a \<and> p ''graph_id'' = b"
proof -
  have le: "\<not> ''task_id'' \<le> (''graph_id'' :: string)" by code_simp
  have "sort_key fst [(''task_id'', a), (''graph_id'', b)] = [(''graph_id'', b), (''task_id'', a)]"
    using le by simp
  then have doc: "parse_json (marshal_map [(''task_id'', a), (''graph_id'', b)])
      = Some (JObj [(''graph_id'', JStr b), (''task_id'', JStr a)])"
    by (simp add: parse_marshal_map)
  have m: "field_matches ''task_id'' ''task_id''" "\<not> field_matches ''task_id'' ''graph_id''"
    "field_matches ''graph_id'' ''graph_id''" "\<not> field_matches ''graph_id'' ''task_id''"
    by code_simp+
  show ?thesis by (simp add: unmarshal_strings_def doc string_or_null_def m)
qed

lemma starting_task:
  assumes "faultless d" "lookup_task d tid = Some t" "task_status t = TaskPending"
  shows "\<exists>d'. assign_task_to_graph tid g d = (Inr (), d')"
proof -
  have "\<exists>r\<in>set (db_tasks d). task_id r = tid \<and> task_status r = TaskPending"
    using assms(2,3) by (auto simp: lookup_task_def find_Some_iff)
  then show ?thesis
    using assms(1) by (auto simp: assign_task_to_graph_def update_tasks_def faultless_sql check_affected_def)
qed

text \<open>What the next assignment needs besides a task: a job to run it in.\<close>

definition dispatchable :: "tools_env \<Rightarrow> job \<Rightarrow> string \<Rightarrow> bool" where
  "dispatchable env j g \<longleftrightarrow> \<not> is_terminal_job_status (job_status j)
     \<and> validate_work_dir env (job_workspace j) = Inr () \<and> te_has_executor env \<and> known_graph env g"

lemma assign_tool_starts:
  assumes "world_ok w" "faultless (w_db w)"
    and t: "lookup_task (w_db w) tid = Some t" "task_status t = TaskPending"
    and j: "lookup_job (w_db w) (task_job t) = Some j" "dispatchable (with_service sv env) j g"
    and idle: "\<not> (\<exists>u\<in>set (db_tasks (w_db w)). task_job u = task_job t \<and> task_status u = TaskInProgress)"
    and p: "unmarshal_strings [''task_id'', ''graph_id''] args = Some p" "p ''task_id'' = tid" "p ''graph_id'' = g"
    and ne: "tid \<noteq> []" "g \<noteq> []"
  shows "\<exists>w' m rq. assign_task_tool (with_service sv env) args w = (Inr m, w') \<and> w_runs w' = w_runs w @ [rq]
     \<and> rq_task rq = tid \<and> rq_graph rq = g \<and> rq_workspace rq = job_workspace j
     \<and> (\<exists>u. lookup_task (w_db w') tid = Some u \<and> task_status u = TaskInProgress \<and> task_graph u = g)"
proof -
  let ?env = "with_service sv env"
  define d where "d = w_db w"
  have tid: "task_id t = tid" using t(1) by (auto simp: lookup_task_def find_Some_iff)
  let ?ts = "in_task_order (filter (\<lambda>u. task_job u = task_job t) (db_tasks d))"
  let ?w1 = "w\<lparr>w_db := tick d\<rparr>" and ?w2 = "w\<lparr>w_db := tick (tick d)\<rparr>" and ?w3 = "w\<lparr>w_db := tick (tick (tick d))\<rparr>"
  have g1: "dbA ''getting task'' (get_task tid) w = (Inr t, ?w1)"
    using faultless_reads(1) [OF assms(2) t(1)] by (simp add: dbA_eq d_def)
  have g2: "dbA ''getting job for workspace'' (get_job (task_job t)) ?w1 = (Inr j, ?w2)"
    using faultless_reads(2) [of "tick d"] assms(2) j(1) dbA_eq [of "get_job (task_job t)" ?w1] by (simp add: d_def)
  have g3: "dbA ''checking job tasks'' (list_tasks_for_job (task_job t)) ?w2 = (Inr ?ts, ?w3)"
    using faultless_reads(4) [of "tick (tick d)"] assms(2) dbA_eq [of "list_tasks_for_job (task_job t)" ?w2] by (simp add: d_def)
  have none: "find (\<lambda>u. task_id u \<noteq> task_id t \<and> task_status u = TaskInProgress) ?ts = None"
    using idle by (auto simp: find_None_iff in_task_order_def d_def)
  obtain d' where d': "assign_task_to_graph tid g (tick (tick (tick d))) = (Inr (), d')"
    using starting_task [of "tick (tick (tick d))" tid t g] assms(2) t by (auto simp: d_def)
  let ?w4 = "w\<lparr>w_db := d'\<rparr>"
  have g4: "dbA ''assigning task to graph'' (assign_task_to_graph (task_id t) g) ?w3 = (Inr (), ?w4)"
    using dbA_eq [of "assign_task_to_graph tid g" ?w3] d' by (simp add: tid)
  have ok: "db_ok (tick (tick (tick d)))" using assms(1) by (simp add: world_ok_def d_def)
  obtain m w' where s: "start_run ?env t j g ?ts ?w4 = (m, w')" by fastforce
  have m: "\<exists>x. m = Inr x"
    using arg_cong [OF s, of fst]
    by (cases "job_status j = JobPending") (auto simp: start_run_def returnA_def)
  have path: "assign_task_tool ?env args w = (m, w')"
    using p ne t(2) j(2) s
    by (simp add: assign_task_tool_def decode_args_def bindA_def g1 g2 guardA_def
        dispatchable_def check_work_dir_def dispatch_graph_task_def g3 none g4 returnA_def)
  have "\<exists>u. lookup_task d' tid = Some u \<and> task_status u = TaskInProgress \<and> task_graph u = g"
    using assign_task_effect [OF ok d'] by auto
  then show ?thesis
    using path m start_run_effect [OF s] by (auto simp: request_for_def tid)
qed

text \<open>
  C10. A job does not stall while it can go on: when no statement fails, the next assignment
  starts the first ready task that has a graph, provided the job is not finished, its workspace
  is accepted, the graph is loaded, and nothing else of the job is in progress. Exactly one run
  is started, on the task's own graph, and the task is in progress.
\<close>

theorem assign_next_task_progress:
  assumes "operator_ok s" "faultless (w_db (op_world s))"
    and "get_ready_tasks jid (w_db (op_world s)) = (Inr ready, d1)" "first_graphed ready = Some t"
    and "task_id t \<noteq> []" "lookup_job (w_db (op_world s)) jid = Some j"
    and "dispatchable (oe_tools (on_service sv env)) j (task_graph t)"
    and "\<not> (\<exists>u\<in>set (db_tasks (w_db (op_world s))). task_job u = jid \<and> task_status u = TaskInProgress)"
    and "s' = assign_next_task (on_service sv env) jid s"
  shows "task_status t = TaskPending \<and> (\<exists>rq. w_runs (op_world s') = w_runs (op_world s) @ [rq]
      \<and> rq_task rq = task_id t \<and> rq_graph rq = task_graph t \<and> rq_workspace rq = job_workspace j)
    \<and> (\<exists>u. lookup_task (w_db (op_world s')) (task_id t) = Some u
         \<and> task_status u = TaskInProgress \<and> task_graph u = task_graph t)"
proof -
  let ?d = "w_db (op_world s)"
  let ?s1 = "s\<lparr>op_world := (op_world s)\<lparr>w_db := d1\<rparr>\<rparr>"
  have q: "run_query (get_ready_tasks jid) s = (Inr ready, ?s1)" using run_query_eq [of "get_ready_tasks jid" s] assms(3) by simp
  have d1: "d1 = tick ?d" "ready = in_task_order (filter (\<lambda>t. task_job t = jid \<and> task_status t = TaskPending
       \<and> \<not> has_open_dependency (tick ?d) (task_id t)) (db_tasks ?d))"
    using assms(3) by (auto simp: get_ready_tasks_def faultless_sql [OF assms(2)])
  have t: "t \<in> set ready" "task_graph t \<noteq> []"
    using assms(4) by (auto simp: first_graphed_def find_Some_iff)
  then have tt: "t \<in> set (db_tasks ?d)" "task_job t = jid" "task_status t = TaskPending"
    by (auto simp: d1(2) in_task_order_def)
  have ok: "world_ok (op_world s)" using assms(1) by (simp add: operator_ok_def)
  have l: "lookup_task ?d (task_id t) = Some t"
    using ok tt(1) lookup_task_iff by (simp add: world_ok_def)
  obtain p where p: "unmarshal_strings [''task_id'', ''graph_id'']
      (marshal_map [(''task_id'', task_id t), (''graph_id'', task_graph t)]) = Some p"
    "p ''task_id'' = task_id t" "p ''graph_id'' = task_graph t"
    using assign_args by blast
  have tools: "oe_tools (on_service sv env) = with_service sv (oe_tools env)" by (simp add: on_service_def)
  have "\<exists>w' m rq. assign_task_tool (with_service sv (oe_tools env))
        (marshal_map [(''task_id'', task_id t), (''graph_id'', task_graph t)]) (op_world ?s1) = (Inr m, w')
     \<and> w_runs w' = w_runs (op_world ?s1) @ [rq]
     \<and> rq_task rq = task_id t \<and> rq_graph rq = task_graph t \<and> rq_workspace rq = job_workspace j
     \<and> (\<exists>u. lookup_task (w_db w') (task_id t) = Some u \<and> task_status u = TaskInProgress \<and> task_graph u = task_graph t)"
    by (rule assign_tool_starts [OF _ _ _ tt(3) _ _ _ p])
      (use ok assms(2,5-8) l tt(2) t(2) in \<open>simp_all add: d1(1) world_ok_def tools\<close>)
  then obtain w' m rq where a: "assign_task_tool (with_service sv (oe_tools env))
        (marshal_map [(''task_id'', task_id t), (''graph_id'', task_graph t)]) (op_world ?s1) = (Inr m, w')"
     "w_runs w' = w_runs (op_world ?s1) @ [rq]"
     "rq_task rq = task_id t" "rq_graph rq = task_graph t" "rq_workspace rq = job_workspace j"
     "\<exists>u. lookup_task (w_db w') (task_id t) = Some u \<and> task_status u = TaskInProgress \<and> task_graph u = task_graph t"
    by blast
  have "op_world s' = w'"
    unfolding assms(9) assign_next_task_def q using a(1)
    by (simp add: assms(4) in_world_def system_execute_def tools)
  then show ?thesis using a(2-6) tt(3) by auto
qed

section \<open>A job that restarts do not resume\<close>

text \<open>The next process: interrupted rows are reset, and no run survives.\<close>

definition restarted :: "world \<Rightarrow> world" where
  "restarted w = w\<lparr>w_db := snd (reconcile_interrupted (w_db w)), w_runs := [], w_queue := []\<rparr>"

definition set_up_and_running :: world where
  "set_up_and_running =
     snd (assign_task_tool sample_tools (call_args [(''task_id'', ''t2''), (''graph_id'', ''g'')])
       (snd (setup_workspace_tool sample_tools sample_clone
         (encode (JObj [(''job_id'', JStr ''j1''), (''repos'', JArr [JObj [(''url'', JStr ''https://x/y'')]])]))
         (world_of sample_db))))"

text \<open>
  A job whose workspace was set up stays in that status when its tasks run, because a
  dispatch only activates pending jobs; and recovery only looks at active jobs. So after a crash
  its interrupted task is pending with its graph again, and nothing resumes it.
\<close>

theorem set_up_job_not_resumed:
  "map rq_task (w_runs set_up_and_running) = [''t2'']
   \<and> map_option job_status (lookup_job (w_db set_up_and_running) ''j1'') = Some JobSettingUp
   \<and> map_option (\<lambda>t. (task_status t, task_graph t)) (lookup_task (w_db (restarted set_up_and_running)) ''t2'')
       = Some (TaskPending, ''g'')
   \<and> w_runs (op_world (recover_interrupted sample_operator_env (fresh_operator (restarted set_up_and_running)))) = []"
  by code_simp

section \<open>The statements on concrete operators\<close>

lemma sample_faultless: "faultless sample_db" "faultless (sample_db\<lparr>db_tasks := ts\<rparr>)"
  by (simp_all add: faultless_def sample_db_def)

text \<open>The only task has failed: the job is completed.\<close>

lemma check_job_complete_witness:
  "\<exists>j'. lookup_job (w_db (op_world (check_job_complete sample_operator_env ''j1''
      (fresh_operator (world_of (sample_db\<lparr>db_tasks := [new_task ''t3'' ''j1'' ''third'' TaskFailed]\<rparr>)))))) ''j1'' = Some j'
    \<and> job_status j' = JobCompleted"
proof -
  let ?d = "sample_db\<lparr>db_tasks := [new_task ''t3'' ''j1'' ''third'' TaskFailed]\<rparr>"
  let ?s = "fresh_operator (world_of ?d)"
  have w: "w_db (op_world ?s) = ?d" by (simp add: fresh_operator_def world_of_def)
  have f: "faultless (w_db (op_world ?s))" unfolding w by (rule sample_faultless)
  have j: "lookup_job (w_db (op_world ?s)) ''j1'' = Some sample_job"
    unfolding w by (simp add: lookup_job_def sample_db_def sample_job_def)
  have all: "(\<exists>t\<in>set (db_tasks (w_db (op_world ?s))). task_job t = ''j1'')
      \<and> \<not> (\<exists>t\<in>set (db_tasks (w_db (op_world ?s))). task_job t = ''j1'' \<and> \<not> is_terminal_task_status (task_status t))"
    unfolding w by (simp add: new_task_def)
  show ?thesis
    using check_job_complete_correct [OF f j refl, of sample_operator_env] unfolding if_P [OF all] by blast
qed

lemma assign_next_witness:
  "\<exists>u. lookup_task (w_db (op_world (assign_next_task sample_operator_env ''j1'' (fresh_operator (world_of sample_db))))) ''t2''
       = Some u \<and> task_status u = TaskInProgress"
proof -
  let ?s = "fresh_operator (world_of sample_db)"
  let ?t = "(new_task ''t2'' ''j1'' ''second'' TaskPending)\<lparr>task_graph := ''g'', task_order := 1\<rparr>"
  have w: "w_db (op_world ?s) = sample_db" by (simp add: fresh_operator_def world_of_def)
  have ok: "operator_ok ?s" using sample_world_ok fresh_ok by (simp add: operator_ok_def fresh_operator_def)
  have f: "faultless (w_db (op_world ?s))" unfolding w by (rule sample_faultless)
  have "map_option task_id (case fst (get_ready_tasks ''j1'' sample_db) of Inr ts \<Rightarrow> first_graphed ts | Inl e \<Rightarrow> None) = Some ''t2''"
    by code_simp
  moreover obtain ready where r: "get_ready_tasks ''j1'' (w_db (op_world ?s)) = (Inr ready, tick sample_db)"
    using faultless_reads(5) [OF f] unfolding w by blast
  ultimately obtain t where t: "first_graphed ready = Some t" "task_id t = ''t2''" unfolding w by auto
  have "t \<in> set ready" using t(1) by (auto simp: first_graphed_def find_Some_iff)
  then have "t \<in> set (db_tasks sample_db)"
    using r by (auto simp: w get_ready_tasks_def faultless_sql [OF sample_faultless(1)] in_task_order_def)
  then have g: "task_graph t = ''g''" using t(2) by (auto simp: sample_db_def new_task_def)
  have j: "lookup_job (w_db (op_world ?s)) ''j1'' = Some sample_job"
    unfolding w by (simp add: lookup_job_def sample_db_def sample_job_def)
  have d: "dispatchable (oe_tools (on_service sample_service (sample_operator_env\<lparr>oe_tools := plain_tools\<rparr>))) sample_job (task_graph t)"
    unfolding g by code_simp
  have idle: "\<not> (\<exists>u\<in>set (db_tasks (w_db (op_world ?s))). task_job u = ''j1'' \<and> task_status u = TaskInProgress)"
    unfolding w by (simp add: sample_db_def new_task_def)
  have ne: "task_id t \<noteq> []" using t(2) by simp
  show ?thesis
    using assign_next_task_progress [OF ok f r t(1) ne j d idle refl] by (auto simp: sample_on_service t(2))
qed

end
