(* ===== verification/Executor.thy ===== *)
theory Executor
  imports EventLoop "HOL-Library.AList"
begin

text \<open>
  The executor's life cycle of a run (\<open>internal/graphexec/executor.go\<close>): registration,
  cancellation and draining, how a run's outcome is settled in the store and reported, and the
  two operations of the service that cut into it, \<open>Cancel\<close> and \<open>RetryTask\<close> of
  \<open>internal/service/local_jobs.go\<close>. What the graph itself does is the outcome of the run.
\<close>

section \<open>State\<close>

text \<open>A handle's cancel function is the identity of the context it cancels.\<close>

record task_handle =
  th_job :: string
  th_context :: nat

record executor =
  ex_draining :: bool
  ex_running :: "(string \<times> task_handle) list"
  ex_tasks :: nat                     \<comment> \<open>the wait group\<close>
  ex_cancelled :: "nat list"
  ex_contexts :: nat                  \<comment> \<open>contexts made so far\<close>

definition new_executor :: executor where
  "new_executor = \<lparr>ex_draining = False, ex_running = [], ex_tasks = 0, ex_cancelled = [], ex_contexts = 0\<rparr>"

definition begin_task :: "task_request \<Rightarrow> executor \<Rightarrow> (string + nat) \<times> executor" where
  "begin_task rq e =
     (if ex_draining e then (Inl ''executor is shutting down'', e)
      else let c = ex_contexts e
        in (Inr c, e\<lparr>ex_running := AList.update (rq_task rq) \<lparr>th_job = rq_job rq, th_context = c\<rparr> (ex_running e),
                     ex_tasks := Suc (ex_tasks e), ex_contexts := Suc c\<rparr>))"

definition end_task :: "string \<Rightarrow> executor \<Rightarrow> executor" where
  "end_task tid e =
     (let e1 = (case map_of (ex_running e) tid of
                  None \<Rightarrow> e
                | Some h \<Rightarrow> e\<lparr>ex_running := AList.delete tid (ex_running e),
                              ex_cancelled := th_context h # ex_cancelled e\<rparr>)
      in e1\<lparr>ex_tasks := ex_tasks e1 - 1\<rparr>)"

definition cancel_job_runs :: "string \<Rightarrow> executor \<Rightarrow> nat \<times> executor" where
  "cancel_job_runs jid e =
     (let hs = filter (\<lambda>h. th_job h = jid) (map snd (ex_running e))
      in (length hs, e\<lparr>ex_cancelled := map th_context hs @ ex_cancelled e\<rparr>))"

definition drain :: "executor \<Rightarrow> executor" where
  "drain e = e\<lparr>ex_draining := True\<rparr>"

section \<open>Settling a run\<close>

definition max_summary_len :: nat where "max_summary_len = 500"

definition truncate_summary :: "string \<Rightarrow> string" where
  "truncate_summary s = (if length s \<le> max_summary_len then s else take max_summary_len s @ ''...'')"

definition fail_dispatch :: "service_env \<Rightarrow> task_request \<Rightarrow> string \<Rightarrow> unit act" where
  "fail_dispatch sv rq err =
     bindA (logged (update_task_status (rq_task rq) TaskFailed (''Dispatch failed: '' @ err))) (\<lambda>_.
     broadcast_task_failed sv (rq_job rq) (rq_task rq) (rq_graph rq) err)"

text \<open>
  The end of \<open>Execute\<close>: a run cancelled by a shutdown is left as it is, another cancelled run
  marks its task cancelled and is not reported, a failed one is marked and reported, and so is a
  success.
\<close>

definition settle_error :: "service_env \<Rightarrow> task_request \<Rightarrow> bool \<Rightarrow> bool \<Rightarrow> string \<Rightarrow> unit act" where
  "settle_error sv rq cancelled draining err =
     (if cancelled \<and> draining then returnA ()
      else bindA (logged (update_task_status (rq_task rq)
             (if cancelled then TaskCancelled else TaskFailed)
             (if cancelled then ''Cancelled while running'' else ''Graph execution failed: '' @ err))) (\<lambda>_.
           if cancelled then returnA ()
           else broadcast_task_failed sv (rq_job rq) (rq_task rq) (rq_graph rq) err))"

definition settle_success :: "service_env \<Rightarrow> task_request \<Rightarrow> string \<Rightarrow> string \<Rightarrow> unit act" where
  "settle_success sv rq final output =
     bindA (logged (update_task_status (rq_task rq) TaskCompleted (truncate_summary final))) (\<lambda>_.
     bindA (tryA (get_ready_tasks (rq_job rq))) (\<lambda>r.
     broadcast_task_completed sv (rq_job rq) (rq_task rq) (rq_graph rq) (truncate_summary final) output
       (case r of Inl e \<Rightarrow> False | Inr ready \<Rightarrow> 0 < length ready)))"

datatype outcome =
    PrepareFailed string
  | RunFailed string
  | RunDone string string      \<comment> \<open>final text, output of the exit node\<close>

definition settle :: "service_env \<Rightarrow> task_request \<Rightarrow> bool \<Rightarrow> bool \<Rightarrow> outcome \<Rightarrow> unit act" where
  "settle sv rq cancelled draining out =
     (case out of
        PrepareFailed err \<Rightarrow> fail_dispatch sv rq err
      | RunFailed err \<Rightarrow> settle_error sv rq cancelled draining err
      | RunDone final output \<Rightarrow> settle_success sv rq final output)"

section \<open>The service's operations on jobs\<close>

text \<open>A missing row is reported with the service's own error, whose text is \<open>not found\<close>.\<close>

definition as_service :: "'a store_op \<Rightarrow> 'a store_op" where
  "as_service q d =
     (case q d of
        (Inl (NotFound what), d') \<Rightarrow> (Inl (NotFound []), d')
      | (r, d') \<Rightarrow> (r, d'))"

lemma as_service_snd [simp]: "snd (as_service q d) = snd (q d)"
  by (simp add: as_service_def split: prod.split sum.split db_error.split)

lemma as_service_Inr: "q d = (Inr x, d') \<Longrightarrow> as_service q d = (Inr x, d')"
  by (simp add: as_service_def)

lemma okA_as_service: "safe_query q \<Longrightarrow> world_ok w \<Longrightarrow> okA (dbA ctx (as_service q)) w"
  by (intro okA_db) (simp_all add: safe_query_def)

fun cancellable :: "job_status \<Rightarrow> bool" where
  "cancellable JobActive = True"
| "cancellable JobPending = True"
| "cancellable JobSettingUp = True"
| "cancellable st = False"

fun is_open_task_status :: "task_status \<Rightarrow> bool" where
  "is_open_task_status TaskPending = True"
| "is_open_task_status TaskBlocked = True"
| "is_open_task_status TaskInProgress = True"
| "is_open_task_status st = False"

definition sweep_task :: "task \<Rightarrow> unit act" where
  "sweep_task t =
     (if is_open_task_status (task_status t)
      then logged (update_task_status (task_id t) TaskCancelled ''Cancelled with job'') else returnA ())"

definition cancel_job :: "string \<Rightarrow> executor \<Rightarrow> world \<Rightarrow> (string + unit) \<times> executor \<times> world" where
  "cancel_job jid e w =
     (case dbA (''getting job '' @ jid) (as_service (get_job jid)) w of
        (Inl err, w1) \<Rightarrow> (Inl err, e, w1)
      | (Inr j, w1) \<Rightarrow>
          if \<not> cancellable (job_status j)
          then (Inl (''job '' @ jid @ '' cannot be cancelled (status: '' @ job_status_text (job_status j) @ '')''), e, w1)
          else (case dbA (''cancelling job '' @ jid) (update_job_status jid JobCancelled) w1 of
             (Inl err, w2) \<Rightarrow> (Inl err, e, w2)
           | (Inr u, w2) \<Rightarrow>
               (case bindA (dbA (''listing tasks for cancelled job '' @ jid) (list_tasks_for_job jid)) (eachA sweep_task) w2 of
                  (r, w3) \<Rightarrow> (r, snd (cancel_job_runs jid e), w3))))"

definition redispatch_task_graph :: "service_env \<Rightarrow> task \<Rightarrow> job \<Rightarrow> string \<Rightarrow> unit act" where
  "redispatch_task_graph sv t j g =
     bindA (tryA (list_tasks_for_job (task_job t))) (\<lambda>r.
     bindA (effectA (spawn_run (request_for j t g (parse_task_metadata (task_metadata t))
        (case r of Inl e \<Rightarrow> [] | Inr ts \<Rightarrow> ts) (sv_provider sv) (sv_model sv)))) (\<lambda>_.
     effectA (service_broadcast sv (TaskAssigned (task_id t) (task_job t) g (task_title t)))))"

definition user_retry_task :: "service_env \<Rightarrow> string \<Rightarrow> unit act" where
  "user_retry_task sv tid =
     guardA (\<not> sv_executor sv) ''no graph executor configured'' (
     bindA (dbA (''getting task '' @ tid) (as_service (get_task tid))) (\<lambda>t.
     guardA (task_status t \<noteq> TaskFailed)
       (''task '' @ tid @ '' cannot be retried (status: '' @ task_status_text (task_status t) @ '')'') (
     guardA (task_graph t = []) (''task '' @ tid @ '' has no bound graph to retry'') (
     bindA (dbA (''getting job for task '' @ tid) (get_job (task_job t))) (\<lambda>j.
     bindA (dbA (''resetting task '' @ tid @ '' for retry'') (retry_task_row tid (task_graph t))) (\<lambda>_.
     redispatch_task_graph sv t j (task_graph t)))))))"

section \<open>Outcomes keep the world in order\<close>

lemma okA_fail_dispatch: "world_ok w \<Longrightarrow> okA (fail_dispatch sv rq err) w"
  unfolding fail_dispatch_def by (intro okA_bind okA_logged okA_task_failed ok_rules) simp_all

lemma okA_settle: "world_ok w \<Longrightarrow> okA (settle sv rq c d out) w"
  unfolding settle_def settle_error_def settle_success_def
  by (cases out)
    (auto intro!: okA_bind okA_logged okA_task_failed okA_task_completed okA_fail_dispatch ok_rules)

lemma okA_sweep: "world_ok w \<Longrightarrow> okA (eachA sweep_task ts) w"
  by (intro okA_each) (auto simp: sweep_task_def intro!: okA_logged ok_rules)

lemma cancel_job_ok:
  assumes "cancel_job jid e w = (r, e', w')" "world_ok w"
  shows "world_ok w'"
proof -
  obtain r1 w1 where g: "dbA (''getting job '' @ jid) (as_service (get_job jid)) w = (r1, w1)" by fastforce
  have "okA (dbA (''getting job '' @ jid) (as_service (get_job jid))) w"
    using assms(2) by (intro okA_as_service ok_rules)
  then have w1: "world_ok w1" unfolding okA_def g by simp
  obtain r2 w2 where u: "dbA (''cancelling job '' @ jid) (update_job_status jid JobCancelled) w1 = (r2, w2)" by fastforce
  have "okA (dbA (''cancelling job '' @ jid) (update_job_status jid JobCancelled)) w1"
    using w1 by (intro okA_queries)
  then have w2: "world_ok w2" unfolding okA_def u by simp
  obtain r3 w3 where s: "bindA (dbA (''listing tasks for cancelled job '' @ jid) (list_tasks_for_job jid))
      (eachA sweep_task) w2 = (r3, w3)" by fastforce
  have "okA (bindA (dbA (''listing tasks for cancelled job '' @ jid) (list_tasks_for_job jid)) (eachA sweep_task)) w2"
    using w2 by (intro okA_bind okA_sweep okA_queries)
  then have w3: "world_ok w3" unfolding okA_def s by simp
  show ?thesis
    using assms(1) w1 w2 w3
    unfolding cancel_job_def g by (cases r1; cases r2) (auto simp: u [simplified] s [simplified] split: if_splits)
qed

end
