(* ===== verification/Orchestration.thy ===== *)
theory Orchestration
  imports Executor
begin

text \<open>
  The whole orchestration as one machine: the operator with its queue, the executor with the runs
  in flight and the service's operations, step by step in any order. A step is one handler of
  one party; what interleaves inside handlers is the subject of the claim on the gate.
\<close>

section \<open>The system\<close>

record active_run =
  ar_context :: nat
  ar_request :: task_request
  ar_settled :: bool

record system =
  sy_op :: operator
  sy_exec :: executor
  sy_active :: "active_run list"
  sy_stopped :: bool

datatype system_move =
    Post op_event               \<comment> \<open>the user sends a message or an answer\<close>
  | Operate                     \<comment> \<open>the operator handles its next event\<close>
  | Launch nat                  \<comment> \<open>a run handed to the executor begins\<close>
  | Settle nat outcome          \<comment> \<open>a run ends and is recorded and reported\<close>
  | Release nat                 \<comment> \<open>its goroutine leaves\<close>
  | CancelJob string
  | Stop                        \<comment> \<open>shutdown begins: the service's context is cancelled\<close>
  | Drain                       \<comment> \<open>and then the executor is told to drain\<close>
  | Crash                       \<comment> \<open>the process dies and starts again\<close>

record system_env =
  se_operator :: operator_env
  se_handoff :: handoff_env
  se_service :: service_env

definition sy_world :: "system \<Rightarrow> world" where
  "sy_world sy = op_world (sy_op sy)"

definition set_world :: "world \<Rightarrow> system \<Rightarrow> system" where
  "set_world w sy = sy\<lparr>sy_op := (sy_op sy)\<lparr>op_world := w\<rparr>\<rparr>"

definition event_ch_size :: nat where "event_ch_size = 256"

definition post :: "op_event \<Rightarrow> system \<Rightarrow> system" where
  "post ev sy =
     (if (case ev of EvUserMessage m u \<Rightarrow> True | EvUserResponse m r \<Rightarrow> True | _ \<Rightarrow> False)
         \<and> length (w_queue (sy_world sy)) < event_ch_size
      then set_world (send_event ev (sy_world sy)) sy else sy)"

definition launch :: "service_env \<Rightarrow> nat \<Rightarrow> system \<Rightarrow> system" where
  "launch sv k sy =
     (let w = sy_world sy in
      if k < length (w_runs w)
      then let rq = w_runs w ! k;
               w1 = w\<lparr>w_runs := take k (w_runs w) @ drop (Suc k) (w_runs w)\<rparr>
           in (case begin_task rq (sy_exec sy) of
                 (Inl err, e) \<Rightarrow> set_world (snd (fail_dispatch sv rq err w1)) (sy\<lparr>sy_exec := e\<rparr>)
               | (Inr c, e) \<Rightarrow> set_world w1 (sy\<lparr>sy_exec := e,
                   sy_active := sy_active sy @ [\<lparr>ar_context = c, ar_request = rq, ar_settled = False\<rparr>]\<rparr>))
      else sy)"

text \<open>The context of a run is cancelled by its handle, or with the service's own.\<close>

definition run_cancelled :: "system \<Rightarrow> active_run \<Rightarrow> bool" where
  "run_cancelled sy r \<longleftrightarrow> sy_stopped sy \<or> ar_context r \<in> set (ex_cancelled (sy_exec sy))"

definition settle_run :: "service_env \<Rightarrow> nat \<Rightarrow> outcome \<Rightarrow> system \<Rightarrow> system" where
  "settle_run sv k out sy =
     (if k < length (sy_active sy) \<and> \<not> ar_settled (sy_active sy ! k)
      then let r = sy_active sy ! k in
        set_world (snd (settle sv (ar_request r) (run_cancelled sy r) (ex_draining (sy_exec sy)) out (sy_world sy)))
          (sy\<lparr>sy_active := (sy_active sy)[k := r\<lparr>ar_settled := True\<rparr>]\<rparr>)
      else sy)"

definition release_run :: "nat \<Rightarrow> system \<Rightarrow> system" where
  "release_run k sy =
     (if k < length (sy_active sy) \<and> ar_settled (sy_active sy ! k)
      then sy\<lparr>sy_exec := end_task (rq_task (ar_request (sy_active sy ! k))) (sy_exec sy),
              sy_active := take k (sy_active sy) @ drop (Suc k) (sy_active sy)\<rparr>
      else sy)"

definition cancel_step :: "string \<Rightarrow> system \<Rightarrow> system" where
  "cancel_step jid sy =
     (case cancel_job jid (sy_exec sy) (sy_world sy) of
        (r, e, w) \<Rightarrow> set_world w (sy\<lparr>sy_exec := e\<rparr>))"

definition restart :: "system_env \<Rightarrow> system \<Rightarrow> system" where
  "restart env sy =
     (let s = (fresh_operator (restarted (sy_world sy)))
                \<lparr>op_requests := op_requests (sy_op sy), op_saved := op_saved (sy_op sy),
                 op_archives := op_archives (sy_op sy)\<rparr>
      in \<lparr>sy_op = operator_start (se_operator env) (se_handoff env)
                    (load_session (se_operator env) (op_saved s) s),
          sy_exec = new_executor, sy_active = [], sy_stopped = False\<rparr>)"

fun system_step :: "system_env \<Rightarrow> system \<Rightarrow> system_move \<Rightarrow> system" where
  "system_step env sy (Post ev) = post ev sy"
| "system_step env sy Operate =
     (if sy_stopped sy then sy
      else sy\<lparr>sy_op := operator_next (se_operator env) (se_handoff env) (sy_op sy)\<rparr>)"
| "system_step env sy (Launch k) = launch (se_service env) k sy"
| "system_step env sy (Settle k out) = settle_run (se_service env) k out sy"
| "system_step env sy (Release k) = release_run k sy"
| "system_step env sy (CancelJob jid) = cancel_step jid sy"
| "system_step env sy Stop = sy\<lparr>sy_stopped := True\<rparr>"
| "system_step env sy Drain = (if sy_stopped sy then sy\<lparr>sy_exec := drain (sy_exec sy)\<rparr> else sy)"
| "system_step env sy Crash = restart env sy"

section \<open>The invariant\<close>

text \<open>
  The executor's books: the wait group counts the runs in flight, contexts are told apart, and
  every handle is the handle of a run in flight, under its task and job.
\<close>

definition books_ok :: "system \<Rightarrow> bool" where
  "books_ok sy \<longleftrightarrow>
     ex_tasks (sy_exec sy) = length (sy_active sy)
     \<and> distinct (map fst (ex_running (sy_exec sy)))
     \<and> distinct (map ar_context (sy_active sy))
     \<and> (\<forall>r\<in>set (sy_active sy). ar_context r < ex_contexts (sy_exec sy))
     \<and> (\<forall>(tid, h)\<in>set (ex_running (sy_exec sy)). \<exists>r\<in>set (sy_active sy).
          ar_context r = th_context h \<and> rq_task (ar_request r) = tid \<and> rq_job (ar_request r) = th_job h)"

definition system_ok :: "system \<Rightarrow> bool" where
  "system_ok sy \<longleftrightarrow> operator_ok (sy_op sy) \<and> books_ok sy"

lemma set_world_simps [simp]:
  "sy_exec (set_world w sy) = sy_exec sy" "sy_active (set_world w sy) = sy_active sy"
  "sy_stopped (set_world w sy) = sy_stopped sy" "sy_op (set_world w sy) = (sy_op sy)\<lparr>op_world := w\<rparr>"
  by (simp_all add: set_world_def)

lemma operator_ok_world: "operator_ok s \<Longrightarrow> world_ok w \<Longrightarrow> operator_ok (s\<lparr>op_world := w\<rparr>)"
  by (simp add: operator_ok_def)

lemma books_world [simp]: "books_ok (set_world w sy) = books_ok sy" "books_ok (sy\<lparr>sy_op := s\<rparr>) = books_ok sy"
  by (simp_all add: books_ok_def)

lemma books_handle:
  "books_ok sy \<Longrightarrow> (tid, h) \<in> set (ex_running (sy_exec sy)) \<Longrightarrow>
     \<exists>r\<in>set (sy_active sy). ar_context r = th_context h \<and> rq_task (ar_request r) = tid \<and> rq_job (ar_request r) = th_job h"
  unfolding books_ok_def by blast

lemma in_update: "x \<in> set (AList.update k v al) \<Longrightarrow> x = (k, v) \<or> x \<in> set al \<and> fst x \<noteq> k \<or> x \<in> set al"
  by (induction al) (auto split: if_splits)

lemma books_begin:
  assumes "books_ok sy" "begin_task rq (sy_exec sy) = (Inr c, e)"
  shows "books_ok (sy\<lparr>sy_exec := e, sy_active := sy_active sy @ [\<lparr>ar_context = c, ar_request = rq, ar_settled = False\<rparr>]\<rparr>)"
proof -
  let ?e = "sy_exec sy" and ?h = "\<lparr>th_job = rq_job rq, th_context = c\<rparr>"
  have e: "c = ex_contexts ?e" "e = ?e\<lparr>ex_running := AList.update (rq_task rq) ?h (ex_running ?e),
      ex_tasks := Suc (ex_tasks ?e), ex_contexts := Suc c\<rparr>"
    using assms(2) by (auto simp: begin_task_def Let_def split: if_splits)
  have ok: "ex_tasks ?e = length (sy_active sy)" "distinct (map fst (ex_running ?e))"
      "distinct (map ar_context (sy_active sy))" "\<And>r. r \<in> set (sy_active sy) \<Longrightarrow> ar_context r < c"
      "\<And>tid h. (tid, h) \<in> set (ex_running ?e) \<Longrightarrow> \<exists>r\<in>set (sy_active sy).
          ar_context r = th_context h \<and> rq_task (ar_request r) = tid \<and> rq_job (ar_request r) = th_job h"
    using assms(1) by (auto simp: books_ok_def e(1))
  have "c \<notin> ar_context ` set (sy_active sy)" using ok(4) by blast
  moreover have "distinct (map fst (AList.update (rq_task rq) ?h (ex_running ?e)))"
    using ok(2) by (rule AList.distinct_update)
  ultimately show ?thesis
    using ok unfolding books_ok_def e(2)
    by (auto simp: less_SucI dest!: in_update)
qed

lemma books_end:
  assumes "books_ok sy" "k < length (sy_active sy)" "e = end_task (rq_task (ar_request (sy_active sy ! k))) (sy_exec sy)"
  shows "books_ok (sy\<lparr>sy_exec := e, sy_active := take k (sy_active sy) @ drop (Suc k) (sy_active sy)\<rparr>)"
proof -
  let ?e = "sy_exec sy" and ?l = "sy_active sy" and ?r = "sy_active sy ! k"
  let ?tid = "rq_task (ar_request ?r)"
  have l: "?l = take k ?l @ ?r # drop (Suc k) ?l" using assms(2) by (rule id_take_nth_drop)
  have e: "ex_running e = AList.delete ?tid (ex_running ?e)" "ex_tasks e = ex_tasks ?e - 1" "ex_contexts e = ex_contexts ?e"
    by (auto simp: assms(3) end_task_def Let_def AList.delete_id map_of_eq_None_iff split: option.split)
  have other: "\<exists>r\<in>set (take k ?l @ drop (Suc k) ?l).
      ar_context r = th_context h \<and> rq_task (ar_request r) = tid \<and> rq_job (ar_request r) = th_job h"
    if "(tid, h) \<in> set (AList.delete ?tid (ex_running ?e))" for tid h
  proof -
    have "(tid, h) \<in> set (ex_running ?e)" "tid \<noteq> ?tid" using that by (auto simp: AList.delete_eq)
    then obtain r where "r \<in> set ?l" "ar_context r = th_context h" "rq_task (ar_request r) = tid" "rq_job (ar_request r) = th_job h"
      using assms(1) by (fastforce simp: books_ok_def)
    moreover have "r \<noteq> ?r" using calculation(3) \<open>tid \<noteq> ?tid\<close> by auto
    ultimately show ?thesis using arg_cong [OF l, of set] by auto
  qed
  have "distinct (map ar_context (take k ?l @ ?r # drop (Suc k) ?l))"
    using assms(1) l by (simp add: books_ok_def)
  then have d: "distinct (map ar_context (take k ?l @ drop (Suc k) ?l))" by auto
  have n: "length (take k ?l @ drop (Suc k) ?l) = length ?l - 1" using assms(2) by simp
  have b: "\<And>r. r \<in> set (take k ?l @ drop (Suc k) ?l) \<Longrightarrow> ar_context r < ex_contexts ?e"
    using assms(1) by (auto simp: books_ok_def dest: in_set_takeD in_set_dropD)
  have "distinct (map fst (AList.delete ?tid (ex_running ?e)))" "ex_tasks ?e = length ?l"
    using assms(1) by (auto simp: books_ok_def AList.distinct_delete)
  then show ?thesis
    using d n b other unfolding books_ok_def by (auto simp: e)
qed

section \<open>Every step keeps the system in order\<close>

lemma launch_ok:
  assumes "system_ok sy"
  shows "system_ok (launch sv k sy)"
proof (cases "k < length (w_runs (sy_world sy))")
  case True
  let ?w = "sy_world sy"
  let ?rq = "w_runs ?w ! k" and ?w1 = "?w\<lparr>w_runs := take k (w_runs ?w) @ drop (Suc k) (w_runs ?w)\<rparr>"
  obtain res e where b: "begin_task ?rq (sy_exec sy) = (res, e)" by fastforce
  have w: "world_ok ?w1" using assms by (simp add: system_ok_def operator_ok_def world_ok_def sy_world_def)
  have bo: "books_ok sy" and oo: "operator_ok (sy_op sy)" using assms by (simp_all add: system_ok_def)
  show ?thesis
  proof (cases res)
    case (Inl err)
    then have e: "e = sy_exec sy" using b by (auto simp: begin_task_def Let_def split: if_splits)
    have "world_ok (snd (fail_dispatch sv ?rq err ?w1))" using okA_fail_dispatch [OF w] by (simp add: okA_def)
    then show ?thesis
      using True b Inl e bo oo by (simp add: launch_def Let_def system_ok_def operator_ok_world)
  next
    case (Inr c)
    then show ?thesis
      using True b w oo books_begin [OF bo b [unfolded Inr]]
      by (simp add: launch_def Let_def system_ok_def operator_ok_world)
  qed
qed (use assms in \<open>simp add: launch_def\<close>)

lemma settle_ok:
  assumes "system_ok sy"
  shows "system_ok (settle_run sv k out sy)"
proof -
  have "world_ok (sy_world sy)" using assms by (simp add: system_ok_def operator_ok_def sy_world_def)
  then have w: "world_ok (snd (settle sv rq c d out (sy_world sy)))" for rq c d
    using okA_settle by (simp add: okA_def)
  have "books_ok (sy\<lparr>sy_active := (sy_active sy)[k := (sy_active sy ! k)\<lparr>ar_settled := True\<rparr>]\<rparr>)"
    if k: "k < length (sy_active sy)"
  proof -
    let ?l = "sy_active sy" and ?l' = "(sy_active sy)[k := (sy_active sy ! k)\<lparr>ar_settled := True\<rparr>]"
    have m: "map ar_context ?l' = map ar_context ?l" "map ar_request ?l' = map ar_request ?l"
      using k by (simp_all add: map_update list_update_same_conv)
    have s: "P (ar_context r) (ar_request r)" if "\<forall>r\<in>set ?l. P (ar_context r) (ar_request r)" "r \<in> set ?l'" for P r
      using that k set_update_subset_insert [of ?l k] by fastforce
    have x: "\<exists>r\<in>set ?l'. P (ar_context r) (ar_request r)" if some: "\<exists>r\<in>set ?l. P (ar_context r) (ar_request r)" for P
    proof -
      obtain r where r: "r \<in> set ?l" "P (ar_context r) (ar_request r)" using some by blast
      obtain i where "i < length ?l" "?l ! i = r" using r(1) unfolding in_set_conv_nth by blast
      then have "i < length ?l" "P (ar_context (?l ! i)) (ar_request (?l ! i))" using r(2) by simp_all
      then have "i < length ?l'" "P (ar_context (?l' ! i)) (ar_request (?l' ! i))" by (cases "i = k"; simp)+
      then show ?thesis by (metis nth_mem)
    qed
    have bo: "books_ok sy" using assms by (simp add: system_ok_def)
    have h: "\<exists>r\<in>set ?l'. ar_context r = th_context h \<and> rq_task (ar_request r) = tid \<and> rq_job (ar_request r) = th_job h"
      if "(tid, h) \<in> set (ex_running (sy_exec sy))" for tid h
      by (rule x) (rule books_handle [OF bo that])
    have "\<forall>r\<in>set ?l'. ar_context r < ex_contexts (sy_exec sy)"
      using bo s [of "\<lambda>c q. c < ex_contexts (sy_exec sy)"] by (auto simp: books_ok_def)
    then show ?thesis using bo h unfolding books_ok_def by (auto simp: m)
  qed
  then show ?thesis
    using assms w by (simp add: settle_run_def Let_def system_ok_def operator_ok_world)
qed

lemma release_ok: "system_ok sy \<Longrightarrow> system_ok (release_run k sy)"
  by (simp add: release_run_def system_ok_def books_end)

lemma cancel_ok:
  assumes "system_ok sy"
  shows "system_ok (cancel_step jid sy)"
proof -
  obtain r e w where c: "cancel_job jid (sy_exec sy) (sy_world sy) = (r, e, w)" by (metis prod_cases3)
  have w: "world_ok w" using cancel_job_ok [OF c] assms by (simp add: system_ok_def operator_ok_def sy_world_def)
  have "e = sy_exec sy \<or> e = snd (cancel_job_runs jid (sy_exec sy))"
    using c by (auto simp: cancel_job_def split: prod.splits sum.splits if_splits)
  then have "books_ok (sy\<lparr>sy_exec := e\<rparr>)"
    using assms by (auto simp: system_ok_def books_ok_def cancel_job_runs_def Let_def)
  then show ?thesis using assms w by (simp add: cancel_step_def c system_ok_def operator_ok_world)
qed

lemma post_ok: "system_ok sy \<Longrightarrow> system_ok (post ev sy)"
  by (auto simp: post_def system_ok_def operator_ok_def sy_world_def send_event_def world_ok_def)

text \<open>A restart loses the conversation in memory and the runs, and finds the saved session.\<close>

lemma restart_ok:
  assumes "system_ok sy" "few_calls (on_service sv env)" "se_operator e = on_service sv env"
  shows "system_ok (restart e sy)"
proof -
  let ?s = "(fresh_operator (restarted (sy_world sy)))
      \<lparr>op_requests := op_requests (sy_op sy), op_saved := op_saved (sy_op sy), op_archives := op_archives (sy_op sy)\<rparr>"
  have "world_ok (sy_world sy)" using assms(1) by (simp add: system_ok_def operator_ok_def sy_world_def)
  then have w: "world_ok (restarted (sy_world sy))"
    using safe_reconcile by (simp add: restarted_def world_ok_def safe_query_def)
  have "restorable ?s" using assms(1) by (simp add: system_ok_def operator_ok_def conv_ok_def restorable_def)
  then have "conv_ok (load_session (se_operator e) (op_saved ?s) ?s)"
    by (intro load_session_ok) (simp_all add: fresh_operator_def)
  moreover have "op_world (load_session (se_operator e) (op_saved ?s) ?s) = restarted (sy_world sy)"
    by (simp add: load_session_def fresh_operator_def Let_def split: option.split)
  ultimately have "operator_ok (load_session (se_operator e) (op_saved ?s) ?s)"
    using w by (simp add: operator_ok_def)
  then have "operator_ok (operator_start (se_operator e) (se_handoff e) (load_session (se_operator e) (op_saved ?s) ?s))"
    using service_turn.operator_start_ok assms(2) unfolding assms(3) by blast
  then show ?thesis by (simp add: restart_def Let_def system_ok_def books_ok_def new_executor_def)
qed

text \<open>The environments whose operator has the service's tools and a moderate model.\<close>

definition served :: "system_env \<Rightarrow> bool" where
  "served e \<longleftrightarrow> (\<exists>sv env. se_operator e = on_service sv env) \<and> few_calls (se_operator e)"

lemma system_step_ok:
  assumes "served e" "system_ok sy"
  shows "system_ok (system_step e sy mv)"
proof -
  obtain sv env where e: "se_operator e = on_service sv env" "few_calls (on_service sv env)"
    using assms(1) by (auto simp: served_def)
  have next_ok: "operator_ok s \<Longrightarrow> operator_ok (operator_next (se_operator e) (se_handoff e) s)" for s
    unfolding e(1) by (rule service_turn.operator_next_ok [OF e(2)])
  have drained: "books_ok (sy\<lparr>sy_exec := drain (sy_exec sy)\<rparr>)" "books_ok (sy\<lparr>sy_stopped := True\<rparr>)"
    using assms(2) by (auto simp: system_ok_def books_ok_def drain_def)
  then have drained_ok: "system_ok (sy\<lparr>sy_exec := drain (sy_exec sy)\<rparr>)" "system_ok (sy\<lparr>sy_stopped := True\<rparr>)"
    using assms(2) by (simp_all add: system_ok_def)
  show ?thesis
  proof (cases mv)
    case Operate
    then show ?thesis using assms(2) next_ok by (simp add: system_ok_def)
  next
    case Crash
    then show ?thesis using restart_ok [OF assms(2) e(2,1)] by simp
  qed (use assms(2) in \<open>simp_all add: post_ok launch_ok settle_ok release_ok cancel_ok drained_ok\<close>)
qed

interpretation orchestration: preserving_machine "system_step e"
    "\<lambda>sy. served e \<longrightarrow> system_ok sy" for e
  by unfold_locales (use system_step_ok in blast)

definition boot :: "system_env \<Rightarrow> world \<Rightarrow> system" where
  "boot e w = \<lparr>sy_op = operator_start (se_operator e) (se_handoff e) (fresh_operator w),
     sy_exec = new_executor, sy_active = [], sy_stopped = False\<rparr>"

lemma boot_ok:
  assumes "served e" "world_ok w"
  shows "system_ok (boot e w)"
proof -
  obtain sv env where e: "se_operator e = on_service sv env" "few_calls (on_service sv env)"
    using assms(1) by (auto simp: served_def)
  have "operator_ok (fresh_operator w)" using assms(2) fresh_ok by (simp add: operator_ok_def fresh_operator_def)
  then have "operator_ok (operator_start (se_operator e) (se_handoff e) (fresh_operator w))"
    unfolding e(1) by (rule service_turn.operator_start_ok [OF e(2)])
  then show ?thesis by (simp add: boot_def system_ok_def books_ok_def new_executor_def)
qed


section \<open>Concrete histories\<close>

definition sample_system_env :: system_env where
  "sample_system_env = \<lparr>se_operator = sample_operator_env,
     se_handoff = sample_handoff\<lparr>ho_threshold := 0\<rparr>, se_service = sample_service\<rparr>"

lemma sample_served: "served sample_system_env"
proof -
  have "se_operator sample_system_env = on_service sample_service (sample_operator_env\<lparr>oe_tools := plain_tools\<rparr>)"
    by (simp add: sample_system_env_def sample_on_service)
  moreover have "few_calls (se_operator sample_system_env)"
    using sample_few_calls by (simp add: sample_system_env_def)
  ultimately show ?thesis by (auto simp: served_def)
qed

text \<open>Recovery starts the pending task; its run begins, fails and leaves.\<close>

definition recovered_run :: "system_move list" where
  "recovered_run = [Launch 0, Settle 0 (RunFailed ''boom''), Release 0]"


end
