(* ===== verification/Stopping.thy ===== *)
theory Stopping
  imports Orchestration
begin

text \<open>
  What stops a run: the user's cancelling of its job, the shutdown of the process, and a retry
  that begins before the old run has left. The theorems are about the operations of
  \<open>Executor\<close> and \<open>Orchestration\<close>.
\<close>

section \<open>Updates of tasks when no statement fails\<close>

lemma update_status_faultless:
  assumes "faultless d"
  obtains r n where "update_task_status tid st msg d = (r, (tick d)\<lparr>db_tasks := update_rows (\<lambda>t. task_id t = tid)
    (\<lambda>t. t\<lparr>task_status := st, task_summary := msg, task_updated := n\<rparr>) (db_tasks d)\<rparr>)"
  using that assms by (simp add: update_task_status_def update_tasks_def faultless_sql)

text \<open>What the tasks are and in which status, in order.\<close>

definition task_states :: "db \<Rightarrow> (string \<times> string \<times> task_status) list" where
  "task_states d = map (\<lambda>t. (task_id t, task_job t, task_status t)) (db_tasks d)"

lemma sweep_one:
  assumes "faultless (w_db w)"
  shows "\<exists>d. sweep_task t w = (Inr (), w\<lparr>w_db := d\<rparr>) \<and> faultless d \<and> db_jobs d = db_jobs (w_db w)
    \<and> task_states d = map (\<lambda>(i, j, st). (i, j, if is_open_task_status (task_status t) \<and> i = task_id t
        then TaskCancelled else st)) (task_states (w_db w))"
proof (cases "is_open_task_status (task_status t)")
  case True
  obtain r n where u: "update_task_status (task_id t) TaskCancelled ''Cancelled with job'' (w_db w)
      = (r, (tick (w_db w))\<lparr>db_tasks := update_rows (\<lambda>u. task_id u = task_id t)
          (\<lambda>u. u\<lparr>task_status := TaskCancelled, task_summary := ''Cancelled with job'', task_updated := n\<rparr>)
          (db_tasks (w_db w))\<rparr>)"
    by (rule update_status_faultless [OF assms])
  show ?thesis
    using True assms
    by (auto simp: sweep_task_def logged_def on_db_def u [simplified] task_states_def update_rows_def faultless_def)
next
  case False
  then show ?thesis using assms by (auto simp: sweep_task_def returnA_def intro!: exI [of _ "w_db w"])
qed

lemma sweep_all:
  assumes "faultless (w_db w)"
  shows "\<exists>d. eachA sweep_task ts w = (Inr (), w\<lparr>w_db := d\<rparr>) \<and> faultless d \<and> db_jobs d = db_jobs (w_db w)
    \<and> task_states d = map (\<lambda>(i, j, st). (i, j, if \<exists>t\<in>set ts. is_open_task_status (task_status t) \<and> i = task_id t
        then TaskCancelled else st)) (task_states (w_db w))"
  using assms
proof (induction ts arbitrary: w)
  case Nil
  then show ?case by (auto simp: returnA_def intro!: exI [of _ "w_db w"])
next
  case (Cons t ts)
  obtain d where d: "sweep_task t w = (Inr (), w\<lparr>w_db := d\<rparr>)" "faultless d" "db_jobs d = db_jobs (w_db w)"
    "task_states d = map (\<lambda>(i, j, st). (i, j, if is_open_task_status (task_status t) \<and> i = task_id t
        then TaskCancelled else st)) (task_states (w_db w))"
    using sweep_one [OF Cons.prems] by blast
  let ?w = "w\<lparr>w_db := d\<rparr>"
  have "faultless (w_db ?w)" using d(2) by simp
  then obtain d' where d': "eachA sweep_task ts ?w = (Inr (), ?w\<lparr>w_db := d'\<rparr>)" "faultless d'" "db_jobs d' = db_jobs d"
    "task_states d' = map (\<lambda>(i, j, st). (i, j, if \<exists>t\<in>set ts. is_open_task_status (task_status t) \<and> i = task_id t
        then TaskCancelled else st)) (task_states d)"
    using Cons.IH by fastforce
  have "eachA sweep_task (t # ts) w = (Inr (), w\<lparr>w_db := d'\<rparr>)"
    using d' d(1) by (simp add: bindA_def ignoreA_def)
  moreover have "task_states d' = map (\<lambda>(i, j, st). (i, j, if \<exists>t\<in>set (t # ts). is_open_task_status (task_status t)
      \<and> i = task_id t then TaskCancelled else st)) (task_states (w_db w))"
    unfolding d'(4) d(4) map_map by (rule map_cong) auto
  ultimately show ?case using d d' by (intro exI [of _ d']) simp
qed

section \<open>Cancelling a job\<close>

text \<open>
  C13. Cancelling a job that is active, pending or setting up, when no statement fails: the job
  is cancelled, every task of it that was pending, blocked or in progress is cancelled and no
  other task changes its status, and the context of every run registered for the job is
  cancelled. In any other status the call is refused and neither the tables nor the executor
  change.
\<close>

theorem cancel_job_correct:
  assumes "faultless (w_db w)" "db_ok (w_db w)" "lookup_job (w_db w) jid = Some j"
    and "cancel_job jid e w = (r, e', w')"
  shows "if cancellable (job_status j)
     then r = Inr () \<and> (\<exists>j'. lookup_job (w_db w') jid = Some j' \<and> job_status j' = JobCancelled)
       \<and> task_states (w_db w') = map (\<lambda>(i, k, st). (i, k,
           if k = jid \<and> is_open_task_status st then TaskCancelled else st)) (task_states (w_db w))
       \<and> (\<forall>(tid, h)\<in>set (ex_running e). th_job h = jid \<longrightarrow> th_context h \<in> set (ex_cancelled e'))
     else \<not> is_ok r \<and> e' = e \<and> db_jobs (w_db w') = db_jobs (w_db w) \<and> db_tasks (w_db w') = db_tasks (w_db w)"
proof -
  let ?w1 = "w\<lparr>w_db := tick (w_db w)\<rparr>"
  have g: "dbA (''getting job '' @ jid) (as_service (get_job jid)) w = (Inr j, ?w1)"
    by (rule dbA_eq) (rule as_service_Inr, rule faultless_reads(2) [OF assms(1,3)])
  show ?thesis
  proof (cases "cancellable (job_status j)")
    case False
    then have "(r, e', w') = (Inl (''job '' @ jid @ '' cannot be cancelled (status: ''
        @ job_status_text (job_status j) @ '')''), e, ?w1)"
      using assms(4) unfolding cancel_job_def g by simp
    then show ?thesis using False by simp
  next
    case True
    have f1: "faultless (w_db ?w1)" and j1: "lookup_job (w_db ?w1) jid = Some j"
      using assms(1,3) by (simp_all add: lookup_job_def)
    obtain d2 where u: "update_job_status jid JobCancelled (w_db ?w1) = (Inr (), d2)"
      using update_job_status_faultless [OF f1 j1] by blast
    let ?w2 = "?w1\<lparr>w_db := d2\<rparr>"
    have f2: "faultless d2" "db_tasks d2 = db_tasks (w_db w)"
      using u f1 by (auto simp: update_job_status_def faultless_sql faultless_def)
    have l2: "\<exists>j'. lookup_job d2 jid = Some j' \<and> job_status j' = JobCancelled"
    proof -
      have i: "job_id j = jid" using j1 by (auto simp: lookup_job_def dest: find_Some_iff [THEN iffD1])
      show ?thesis unfolding update_job_status_lookup(2) [OF u, of jid] j1 by (simp add: i)
    qed
    have c: "dbA (''cancelling job '' @ jid) (update_job_status jid JobCancelled) ?w1 = (Inr (), ?w2)"
      by (rule dbA_eq) (rule u)
    let ?ts = "in_task_order (filter (\<lambda>t. task_job t = jid) (db_tasks d2))"
    have ls: "dbA (''listing tasks for cancelled job '' @ jid) (list_tasks_for_job jid) ?w2
        = (Inr ?ts, ?w2\<lparr>w_db := tick d2\<rparr>)"
      by (rule dbA_eq) (use faultless_reads(4) [OF f2(1)] in simp)
    obtain d3 where s: "eachA sweep_task ?ts (?w2\<lparr>w_db := tick d2\<rparr>) = (Inr (), ?w2\<lparr>w_db := d3\<rparr>)" "db_jobs d3 = db_jobs d2"
      "task_states d3 = map (\<lambda>(i, k, st). (i, k, if \<exists>t\<in>set ?ts. is_open_task_status (task_status t) \<and> i = task_id t
        then TaskCancelled else st)) (task_states d2)"
      using sweep_all [of "?w2\<lparr>w_db := tick d2\<rparr>" ?ts] f2(1) by (auto simp: task_states_def)
    have res: "(r, e', w') = (Inr (), snd (cancel_job_runs jid e), ?w2\<lparr>w_db := d3\<rparr>)"
      using assms(4) True unfolding cancel_job_def g by (simp add: c [simplified] bindA_def ls [simplified] s(1) [simplified])
    have mem: "set ?ts = {t \<in> set (db_tasks (w_db w)). task_job t = jid}" by (auto simp: in_task_order_def f2(2))
    have inj: "inj_on task_id (set (db_tasks (w_db w)))"
      using assms(2) by (simp add: db_ok_def distinct_map)
    have "task_states d3 = map (\<lambda>(i, k, st). (i, k,
        if k = jid \<and> is_open_task_status st then TaskCancelled else st)) (task_states (w_db w))"
      unfolding s(3) mem using inj by (auto simp: task_states_def f2(2) dest: inj_onD)
    moreover have "\<forall>(tid, h)\<in>set (ex_running e). th_job h = jid \<longrightarrow> th_context h \<in> set (ex_cancelled e')"
      using res by (force simp: cancel_job_runs_def Let_def)
    ultimately show ?thesis
      using True res l2 s(2) by (simp add: lookup_job_def)
  qed
qed

section \<open>Shutting down\<close>

text \<open>
  C16. What a shutdown leaves of a task depends on which of its two stages the failing run
  meets. The service's context is cancelled first and the executor told to drain after that. A
  run that ends with an error once it drains leaves its task in progress, and the next process
  makes it pending again with the same graph. A run that ends in between marks the task
  cancelled, which no later process resumes.
\<close>

theorem shutdown_decides_task:
  assumes "faultless (w_db (sy_world sy))" "k < length (sy_active sy)" "\<not> ar_settled (sy_active sy ! k)"
    and "lookup_task (w_db (sy_world sy)) (rq_task (ar_request (sy_active sy ! k))) = Some t"
    and "task_status t = TaskInProgress" "sy_stopped sy"
    and "w = restarted (sy_world (settle_run sv k (RunFailed err) sy))"
  shows "\<exists>u. lookup_task (w_db w) (rq_task (ar_request (sy_active sy ! k))) = Some u
     \<and> task_graph u = task_graph t
     \<and> task_status u = (if ex_draining (sy_exec sy) then TaskPending else TaskCancelled)"
proof -
  let ?r = "sy_active sy ! k" and ?w = "sy_world sy"
  let ?tid = "rq_task (ar_request ?r)"
  have run: "run_cancelled sy ?r" using assms(6) by (simp add: run_cancelled_def)
  define w1 where "w1 = snd (settle_error sv (ar_request ?r) True (ex_draining (sy_exec sy)) err ?w)"
  have w: "w = restarted w1"
    using assms(2,3) run unfolding assms(7) w1_def by (simp add: settle_run_def settle_def Let_def sy_world_def)
  have later: "\<exists>u. lookup_task (w_db w) ?tid = Some u \<and> task_graph u = task_graph v
      \<and> task_status u = (if task_status v = TaskInProgress then TaskPending else task_status v)"
    if f: "faultless (w_db w1)" and l: "lookup_task (w_db w1) ?tid = Some v" for v
  proof -
    obtain n d1 where 1: "reconcile_sessions (w_db w1) = (Inr n, d1)" "faultless d1" "db_tasks d1 = db_tasks (w_db w1)"
      using f by (auto simp: reconcile_sessions_def faultless_sql [OF f] faultless_def)
    obtain m d2 s where 2: "reconcile_tasks d1 = (Inr m, d2)" "db_tasks d2 = update_rows (\<lambda>t. task_status t = TaskInProgress)
        (\<lambda>t. t\<lparr>task_status := TaskPending, task_summary := [], task_updated := s\<rparr>) (db_tasks d1)"
      by (auto simp: reconcile_tasks_def faultless_sql [OF 1(2)])
    have "w_db w = d2" by (simp add: w restarted_def reconcile_interrupted_def 1 2)
    then show ?thesis
      using l by (simp add: lookup_task_def 2(2) 1(3) find_update_rows)
  qed
  show ?thesis
  proof (cases "ex_draining (sy_exec sy)")
    case True
    then have "w1 = ?w" by (simp add: w1_def settle_error_def returnA_def)
    then show ?thesis using later assms(1,4,5) True by simp
  next
    case False
    obtain r n where u: "update_task_status ?tid TaskCancelled ''Cancelled while running'' (w_db ?w)
        = (r, (tick (w_db ?w))\<lparr>db_tasks := update_rows (\<lambda>t. task_id t = ?tid)
            (\<lambda>t. t\<lparr>task_status := TaskCancelled, task_summary := ''Cancelled while running'', task_updated := n\<rparr>)
            (db_tasks (w_db ?w))\<rparr>)"
      by (rule update_status_faultless [OF assms(1)])
    have d: "w_db w1 = (tick (w_db ?w))\<lparr>db_tasks := update_rows (\<lambda>t. task_id t = ?tid)
            (\<lambda>t. t\<lparr>task_status := TaskCancelled, task_summary := ''Cancelled while running'', task_updated := n\<rparr>)
            (db_tasks (w_db ?w))\<rparr>"
      using False by (simp add: w1_def settle_error_def bindA_def logged_def on_db_def returnA_def u [simplified])
    have i: "task_id t = ?tid" using assms(4) by (auto simp: lookup_task_def dest: find_Some_iff [THEN iffD1])
    have "lookup_task (w_db w1) ?tid = Some (t\<lparr>task_status := TaskCancelled,
        task_summary := ''Cancelled while running'', task_updated := n\<rparr>)"
      using assms(4) i by (simp add: d lookup_task_def find_update_rows)
    moreover have "faultless (w_db w1)" using assms(1) by (simp add: d faultless_def)
    ultimately show ?thesis using later False by fastforce
  qed
qed

section \<open>A retry beside the run it retries\<close>

text \<open>
  When a task is dispatched again while the goroutine of its first run has settled but not
  yet left, the first run's leaving takes the second run's handle: it cancels the context of the
  second run, not its own, and cancelling the job no longer reaches that run, which the wait
  group still counts.
\<close>

theorem stale_end_cancels_retry:
  "let e1 = snd (begin_task rq new_executor); e2 = snd (begin_task rq e1); e3 = end_task (rq_task rq) e2
   in fst (begin_task rq e1) = Inr 1 \<and> ex_cancelled e3 = [1] \<and> ex_running e3 = []
      \<and> fst (cancel_job_runs (rq_job rq) e3) = 0 \<and> ex_tasks e3 = 1"
  by (simp add: begin_task_def end_task_def cancel_job_runs_def new_executor_def Let_def)

section \<open>The statements on concrete systems\<close>

definition running_db :: db where
  "running_db = sample_db\<lparr>db_tasks := [(new_task ''t2'' ''j1'' ''second'' TaskInProgress)\<lparr>task_graph := ''g''\<rparr>], db_deps := []\<rparr>"

definition running_request :: task_request where
  "running_request = request_for sample_job ((new_task ''t2'' ''j1'' ''second'' TaskInProgress)\<lparr>task_graph := ''g''\<rparr>)
     ''g'' (parse_task_metadata []) [] ''p'' ''m''"

lemma running_facts:
  "faultless running_db" "db_ok running_db" "lookup_job running_db ''j1'' = Some sample_job"
  "lookup_task running_db ''t2'' = Some ((new_task ''t2'' ''j1'' ''second'' TaskInProgress)\<lparr>task_graph := ''g''\<rparr>)"
  by (simp_all add: running_db_def faultless_def db_ok_def sample_db_def sample_job_def new_task_def
      lookup_job_def lookup_task_def)

lemma cancel_job_witness:
  "\<exists>e' w'. cancel_job ''j1'' (snd (begin_task running_request new_executor)) (world_of running_db) = (Inr (), e', w')
     \<and> task_states (w_db w') = [(''t2'', ''j1'', TaskCancelled)]"
proof -
  obtain r e' w' where c: "cancel_job ''j1'' (snd (begin_task running_request new_executor)) (world_of running_db) = (r, e', w')"
    by (metis prod_cases3)
  have w: "w_db (world_of running_db) = running_db" by (simp add: world_of_def)
  have a: "cancellable (job_status sample_job)" by (simp add: sample_job_def)
  have "r = Inr ()" "task_states (w_db w') = map (\<lambda>(i, k, st). (i, k,
      if k = ''j1'' \<and> is_open_task_status st then TaskCancelled else st)) (task_states running_db)"
    using cancel_job_correct [of "world_of running_db" "''j1''" sample_job, OF _ _ _ c] running_facts
    unfolding w if_P [OF a] by blast+
  then show ?thesis using c by (simp add: running_db_def task_states_def new_task_def)
qed

lemma shutdown_witness:
  "\<exists>u. lookup_task (w_db (restarted (sy_world (settle_run sample_service 0 (RunFailed ''context canceled'')
      \<lparr>sy_op = fresh_operator (world_of running_db), sy_exec = snd (begin_task running_request new_executor),
       sy_active = [\<lparr>ar_context = 0, ar_request = running_request, ar_settled = False\<rparr>], sy_stopped = True\<rparr>)))) ''t2''
     = Some u \<and> task_status u = TaskCancelled"
proof -
  let ?sy = "\<lparr>sy_op = fresh_operator (world_of running_db), sy_exec = snd (begin_task running_request new_executor),
       sy_active = [\<lparr>ar_context = 0, ar_request = running_request, ar_settled = False\<rparr>], sy_stopped = True\<rparr>"
  have w: "w_db (sy_world ?sy) = running_db" by (simp add: sy_world_def fresh_operator_def world_of_def)
  have d: "\<not> ex_draining (sy_exec ?sy)" by (simp add: begin_task_def new_executor_def Let_def)
  have t: "rq_task (ar_request (sy_active ?sy ! 0)) = ''t2''"
    by (simp add: running_request_def request_for_def new_task_def Let_def)
  have p: "task_status ((new_task ''t2'' ''j1'' ''second'' TaskInProgress)\<lparr>task_graph := ''g''\<rparr>) = TaskInProgress"
    by (simp add: new_task_def)
  show ?thesis
    using shutdown_decides_task [of ?sy 0, unfolded w t, OF running_facts(1) _ _ running_facts(4) p _ refl,
        of sample_service "''context canceled''"] d by auto
qed

end
