(* ===== verification/FilePath.thy ===== *)
theory FilePath
  imports GoText
begin

text \<open>
  What the tools use of \<open>path/filepath\<close> and of a file system with symbolic links: \<open>Clean\<close>,
  \<open>Join\<close>, \<open>Dir\<close>, \<open>Base\<close>, \<open>Rel\<close>, \<open>EvalSymlinks\<close>, and the kernel's resolution of a path that
  is opened, created or made a directory. A location of the file system is the list of the
  names that lead to it from the root.
\<close>

section \<open>Paths as texts\<close>

definition slash :: char where "slash = CHR ''/''"

definition is_abs :: "string \<Rightarrow> bool" where
  "is_abs s \<longleftrightarrow> s \<noteq> [] \<and> hd s = slash"

definition path_parts :: "string \<Rightarrow> string list" where
  "path_parts s = filter (\<lambda>c. c \<noteq> [] \<and> c \<noteq> ''.'') (split_byte slash s)"

text \<open>\<open>Clean\<close>: the parts so far are reversed.\<close>

fun clean_parts :: "bool \<Rightarrow> string list \<Rightarrow> string list \<Rightarrow> string list" where
  "clean_parts rooted acc [] = rev acc"
| "clean_parts rooted acc (c # cs) =
     (if c \<noteq> ''..'' then clean_parts rooted (c # acc) cs
      else case acc of
             [] \<Rightarrow> clean_parts rooted (if rooted then [] else [c]) cs
           | d # ds \<Rightarrow> clean_parts rooted (if d = ''..'' then c # acc else ds) cs)"

definition render :: "string list \<Rightarrow> string" where
  "render ps = slash # join_strings [slash] ps"

definition clean :: "string \<Rightarrow> string" where
  "clean s =
     (let ps = clean_parts (is_abs s) [] (path_parts s)
      in if is_abs s then render ps else if ps = [] then ''.'' else join_strings [slash] ps)"

definition join_path :: "string list \<Rightarrow> string" where
  "join_path es = (case filter (\<lambda>e. e \<noteq> []) es of [] \<Rightarrow> [] | xs \<Rightarrow> clean (join_strings [slash] xs))"

definition dir_of :: "string \<Rightarrow> string" where
  "dir_of s = clean (rev (dropWhile (\<lambda>c. c \<noteq> slash) (rev s)))"

definition base_of :: "string \<Rightarrow> string" where
  "base_of s =
     (if s = [] then ''.''
      else let b = last (split_byte slash (rev (dropWhile (\<lambda>c. c = slash) (rev s))))
        in if b = [] then [slash] else b)"

text \<open>\<open>Rel\<close>: \<open>None\<close> is its error.\<close>

fun common_length :: "string list \<Rightarrow> string list \<Rightarrow> nat" where
  "common_length (x # xs) (y # ys) = (if x = y then Suc (common_length xs ys) else 0)"
| "common_length xs ys = 0"

definition rel_path :: "string \<Rightarrow> string \<Rightarrow> string option" where
  "rel_path base targ =
     (let b = clean base; t = clean targ
      in if b = t then Some ''.''
         else if is_abs b \<noteq> is_abs t then None
         else let bs = path_parts b; ts = path_parts t; n = common_length bs ts
           in if n < length bs \<and> bs ! n = ''..'' then None
              else Some (join_strings [slash] (replicate (length bs - n) ''..'' @ drop n ts)))"

section \<open>The file system\<close>

datatype node = NFile string | NDir | NLink string

type_synonym fs = "string list \<Rightarrow> node option"

record os_env =
  os_cwd :: string
  os_home :: "string option"
  os_error_text :: "string \<Rightarrow> string \<Rightarrow> string"   \<comment> \<open>operation and path\<close>

definition abs_path :: "os_env \<Rightarrow> string \<Rightarrow> string" where
  "abs_path oe s = (if is_abs s then clean s else join_path [os_cwd oe, s])"

text \<open>
  Resolving the names \<open>cs\<close> from the directory \<open>dest\<close>, following at most \<open>n\<close> links. A name that
  is followed by another one, be it empty, has to be a directory.
\<close>

function walk :: "nat \<Rightarrow> fs \<Rightarrow> string list \<Rightarrow> string list \<Rightarrow> string list option" where
  "walk n fs dest [] = Some dest"
| "walk n fs dest (c # cs) =
     (if c = [] \<or> c = ''.'' then walk n fs dest cs
      else if c = ''..'' then walk n fs (butlast dest) cs
      else case fs (dest @ [c]) of
             None \<Rightarrow> None
           | Some NDir \<Rightarrow> walk n fs (dest @ [c]) cs
           | Some (NFile x) \<Rightarrow> if cs = [] then Some (dest @ [c]) else None
           | Some (NLink t) \<Rightarrow>
               if n = 0 then None
               else walk (n - 1) fs (if is_abs t then [] else dest) (split_byte slash t @ cs))"
  by pat_completeness auto
termination
  by (relation "measures [\<lambda>(n, fs, dest, cs). n, \<lambda>(n, fs, dest, cs). length cs]") auto

text \<open>
  Where a file opened for writing is: like \<open>walk\<close>, but the last name need not exist, and a last
  link leads on to a file that need not exist.
\<close>

function follow :: "nat \<Rightarrow> fs \<Rightarrow> string list \<Rightarrow> string list \<Rightarrow> string list option" where
  "follow n fs dest [] = None"
| "follow n fs dest (c # cs) =
     (if c = [] \<or> c = ''.'' then follow n fs dest cs
      else if c = ''..'' then follow n fs (butlast dest) cs
      else case fs (dest @ [c]) of
             None \<Rightarrow> if cs = [] then Some (dest @ [c]) else None
           | Some NDir \<Rightarrow> follow n fs (dest @ [c]) cs
           | Some (NFile x) \<Rightarrow> if cs = [] then Some (dest @ [c]) else None
           | Some (NLink t) \<Rightarrow>
               if n = 0 then None
               else follow (n - 1) fs (if is_abs t then [] else dest) (split_byte slash t @ cs))"
  by pat_completeness auto
termination
  by (relation "measures [\<lambda>(n, fs, dest, cs). n, \<lambda>(n, fs, dest, cs). length cs]") auto

definition go_link_limit :: nat where "go_link_limit = 255"
definition kernel_link_limit :: nat where "kernel_link_limit = 40"

text \<open>\<open>EvalSymlinks\<close> and \<open>Abs\<close>, which the tools always apply together.\<close>

definition real_path :: "os_env \<Rightarrow> fs \<Rightarrow> string \<Rightarrow> string list option" where
  "real_path oe fs s = walk go_link_limit fs [] (split_byte slash (abs_path oe s))"

definition stat_path :: "fs \<Rightarrow> string \<Rightarrow> node option" where
  "stat_path fs s =
     (case walk kernel_link_limit fs [] (split_byte slash s) of None \<Rightarrow> None | Some p \<Rightarrow> fs p)"

definition read_path :: "fs \<Rightarrow> string \<Rightarrow> string option" where
  "read_path fs s = (case stat_path fs s of Some (NFile x) \<Rightarrow> Some x | _ \<Rightarrow> None)"

definition write_path :: "fs \<Rightarrow> string \<Rightarrow> string \<Rightarrow> fs option" where
  "write_path fs s x =
     map_option (\<lambda>p. fs(p \<mapsto> NFile x)) (follow kernel_link_limit fs [] (split_byte slash s))"

text \<open>\<open>MkdirAll\<close> of an absolute path without \<open>..\<close>, given by its parts.\<close>

definition make_dir_at :: "fs \<Rightarrow> string list \<Rightarrow> bool \<times> fs" where
  "make_dir_at fs ps =
     (case walk kernel_link_limit fs [] (butlast ps) of
        None \<Rightarrow> (False, fs)
      | Some d \<Rightarrow>
          (let p = d @ [last ps]
           in if fs p = None \<and> fs d = Some NDir then (True, fs(p \<mapsto> NDir))
              else (fs p = Some NDir, fs)))"

function mkdir_all :: "fs \<Rightarrow> string list \<Rightarrow> bool \<times> fs" where
  "mkdir_all fs ps =
     (case walk kernel_link_limit fs [] ps of
        Some p \<Rightarrow> (fs p = Some NDir, fs)
      | None \<Rightarrow>
          if ps = [] then (False, fs)
          else (case mkdir_all fs (butlast ps) of
                  (False, fs1) \<Rightarrow> (False, fs1)
                | (True, fs1) \<Rightarrow> make_dir_at fs1 ps))"
  by pat_completeness auto
termination
  by (relation "measure (\<lambda>(fs, ps). length ps)") auto

declare mkdir_all.simps [simp del]

section \<open>Parts and texts\<close>

definition plain_part :: "string \<Rightarrow> bool" where
  "plain_part c \<longleftrightarrow> c \<noteq> [] \<and> c \<noteq> ''.'' \<and> c \<noteq> ''..'' \<and> slash \<notin> set c"

lemma split_byte_parts: "x \<in> set (split_byte c s) \<Longrightarrow> c \<notin> set x"
proof (induction s arbitrary: x)
  case (Cons a s)
  then show ?case
    by (cases "split_byte c s") (auto split: if_splits)
qed simp

lemma split_join: "ps \<noteq> [] \<Longrightarrow> \<forall>p\<in>set ps. slash \<notin> set p \<Longrightarrow> split_byte slash (join_strings [slash] ps) = ps"
proof (induction ps rule: induct_list012)
  case (3 x y zs)
  then show ?case using split_byte_append [of slash x "join_strings [slash] (y # zs)"] by simp
qed (auto simp: split_byte_plain)

lemma split_render: "\<forall>p\<in>set ps. plain_part p \<Longrightarrow>
    split_byte slash (render ps) = [] # (if ps = [] then [[]] else ps)"
  by (auto simp: render_def plain_part_def split_join)

lemma parts_render [simp]: "\<forall>p\<in>set ps. plain_part p \<Longrightarrow> path_parts (render ps) = ps"
  by (auto simp: path_parts_def split_render plain_part_def filter_id_conv)

lemma render_inject: "\<forall>p\<in>set ps. plain_part p \<Longrightarrow> \<forall>p\<in>set qs. plain_part p \<Longrightarrow> render ps = render qs \<Longrightarrow> ps = qs"
  by (metis parts_render)

text \<open>The textual test for being below a directory is the test on the parts.\<close>

lemma join_snoc: "xs \<noteq> [] \<Longrightarrow> join_strings s (xs @ ys) = join_strings s xs @ (if ys = [] then [] else s @ join_strings s ys)"
  by (induction xs rule: induct_list012) (auto simp: neq_Nil_conv)

lemma below_render:
  assumes "\<forall>p\<in>set ps. plain_part p" "\<forall>w\<in>set ws. plain_part w"
    and "has_prefix (render ps) (render ws @ [slash])"
  shows "\<exists>c cs. ps = ws @ c # cs"
proof -
  obtain t where t: "render ps = render ws @ slash # t"
    using assms(3) by (auto simp: has_prefix_def prefix_def)
  have "ws \<noteq> []"
  proof
    assume "ws = []"
    then have "render ps = slash # slash # t" using t by (simp add: render_def)
    then have "split_byte slash (render ps) = [] # [] # split_byte slash t" by simp
    then show False using split_render [OF assms(1)] assms(1)
      by (cases ps) (auto simp: plain_part_def split: if_splits)
  qed
  have j: "split_byte slash (join_strings [slash] ws @ slash # t) = ws @ split_byte slash t"
    using \<open>ws \<noteq> []\<close> assms(2)
  proof (induction ws rule: induct_list012)
    case (3 x y zs)
    then show ?case
      using split_byte_append [of slash x "join_strings [slash] (y # zs) @ slash # t"]
      by (auto simp: plain_part_def)
  qed (auto simp: plain_part_def split_byte_append)
  have "split_byte slash (render ps) = [] # ws @ split_byte slash t"
    unfolding t by (simp add: render_def j)
  then have "(if ps = [] then [[]] else ps) = ws @ split_byte slash t"
    unfolding split_render [OF assms(1)] by simp
  moreover obtain c cs where "split_byte slash t = c # cs"
    by (cases "split_byte slash t") simp_all
  ultimately have e: "(if ps = [] then [[]] else ps) = ws @ c # cs" by simp
  have "ps \<noteq> []"
  proof
    assume "ps = []"
    then have "length (ws @ c # cs) = 1" unfolding e [symmetric] by simp
    then show False using \<open>ws \<noteq> []\<close> by simp
  qed
  then show ?thesis using e by auto
qed

section \<open>Cleaned absolute paths\<close>

lemma clean_parts_plain:
  assumes "\<forall>c\<in>set acc. plain_part c" "\<forall>c\<in>set cs. c \<noteq> [] \<and> c \<noteq> ''.'' \<and> slash \<notin> set c"
  shows "\<forall>c\<in>set (clean_parts True acc cs). plain_part c"
  using assms
proof (induction cs arbitrary: acc)
  case (Cons c cs)
  note IH = Cons.IH
  show ?case
  proof (cases "c = ''..''")
    case True
    have cs: "\<forall>c\<in>set cs. c \<noteq> [] \<and> c \<noteq> ''.'' \<and> slash \<notin> set c" using Cons.prems(2) by simp
    show ?thesis
    proof (cases acc)
      case Nil
      then show ?thesis using IH [OF _ cs, of "[]"] True by simp
    next
      case (Cons d ds)
      then have "plain_part d" "\<forall>c\<in>set ds. plain_part c" using Cons.prems(1) by simp_all
      then show ?thesis using IH [OF _ cs, of ds] True Cons by (simp add: plain_part_def)
    qed
  next
    case False
    then have "\<forall>d\<in>set (c # acc). plain_part d" using Cons.prems by (simp add: plain_part_def)
    moreover have "\<forall>c\<in>set cs. c \<noteq> [] \<and> c \<noteq> ''.'' \<and> slash \<notin> set c" using Cons.prems(2) by simp
    ultimately have "\<forall>d\<in>set (clean_parts True (c # acc) cs). plain_part d" by (rule IH)
    then show ?thesis using False by simp
  qed
qed simp

lemma path_parts_simple: "c \<in> set (path_parts s) \<Longrightarrow> c \<noteq> [] \<and> c \<noteq> ''.'' \<and> slash \<notin> set c"
  by (auto simp: path_parts_def dest: split_byte_parts)

lemma clean_abs:
  assumes "is_abs s"
  obtains ps where "clean s = render ps" "\<forall>c\<in>set ps. plain_part c"
  using that [of "clean_parts True [] (path_parts s)"] clean_parts_plain [of "[]" "path_parts s"] path_parts_simple assms
  by (auto simp: clean_def Let_def)

lemma is_abs_join: "is_abs c \<Longrightarrow> is_abs (join_strings [slash] (c # cs))"
  by (cases cs; cases c) (auto simp: is_abs_def)

lemma abs_path_plain:
  assumes "is_abs (os_cwd oe)"
  obtains ps where "abs_path oe s = render ps" "\<forall>c\<in>set ps. plain_part c"
proof (cases "is_abs s")
  case True
  then show thesis using that clean_abs [of s] by (auto simp: abs_path_def)
next
  case False
  have "join_path [os_cwd oe, s] = clean (join_strings [slash] (if s = [] then [os_cwd oe] else [os_cwd oe, s]))"
    using assms by (auto simp: join_path_def is_abs_def)
  moreover have "is_abs (join_strings [slash] (if s = [] then [os_cwd oe] else [os_cwd oe, s]))"
    using is_abs_join [OF assms, of "[]"] is_abs_join [OF assms, of "[s]"] by simp
  ultimately show thesis using that False clean_abs by (metis abs_path_def)
qed

section \<open>Links and their absence\<close>

definition no_links :: "fs \<Rightarrow> string list \<Rightarrow> bool" where
  "no_links fs ps \<longleftrightarrow> (\<forall>q t. prefix q ps \<longrightarrow> fs q \<noteq> Some (NLink t))"

text \<open>A location that is what its own path names: directories lead to it and it is no link.\<close>

definition resolved_at :: "fs \<Rightarrow> string list \<Rightarrow> bool" where
  "resolved_at fs r \<longleftrightarrow> (\<forall>q. strict_prefix q r \<longrightarrow> fs q = Some NDir)
     \<and> (fs r = Some NDir \<or> (\<exists>x. fs r = Some (NFile x))) \<and> (\<forall>c\<in>set r. plain_part c)"

lemma resolved_no_links: "resolved_at fs r \<Longrightarrow> no_links fs r"
  by (auto simp: resolved_at_def no_links_def strict_prefix_def)

lemma resolved_butlast: "resolved_at fs r \<Longrightarrow> fs r = Some NDir \<Longrightarrow> resolved_at fs (butlast r) \<and> fs (butlast r) = Some NDir"
  by (cases r rule: rev_cases) (auto simp: resolved_at_def strict_prefix_def)

lemma resolved_snoc:
  assumes "resolved_at fs r" "fs r = Some NDir" "plain_part c" "fs (r @ [c]) = Some NDir \<or> (\<exists>x. fs (r @ [c]) = Some (NFile x))"
  shows "resolved_at fs (r @ [c])"
  using assms by (auto simp: resolved_at_def strict_prefix_def prefix_snoc)

lemma walk_resolved:
  assumes "walk n fs dest cs = Some r" "resolved_at fs dest" "fs dest = Some NDir" "fs [] = Some NDir"
    and "\<forall>c\<in>set cs. slash \<notin> set c"
  shows "resolved_at fs r"
  using assms
proof (induction n fs dest cs rule: walk.induct)
  case (2 n fs dest c cs)
  have root: "resolved_at fs []" using "2.prems"(4) by (simp add: resolved_at_def)
  show ?case
  proof (cases "c = [] \<or> c = ''.''")
    case True
    then show ?thesis using "2.IH"(1) "2.prems" by auto
  next
    case skip: False
    show ?thesis
    proof (cases "c = ''..''")
      case True
      then show ?thesis using "2.IH"(2) "2.prems" skip resolved_butlast by auto
    next
      case False
      then have c: "plain_part c" using skip "2.prems"(5) by (simp add: plain_part_def)
      note sn = resolved_snoc [OF "2.prems"(2,3) c]
      show ?thesis
      proof (cases "fs (dest @ [c])")
        case None
        then show ?thesis using "2.prems"(1) skip False by simp
      next
        case (Some nd)
        show ?thesis
        proof (cases nd)
          case (NFile x)
          then show ?thesis using "2.prems"(1) skip False Some sn by (auto split: if_splits)
        next
          case NDir
          then show ?thesis
            using "2.IH"(3) [OF skip False] "2.prems" skip False Some sn by auto
        next
          case (NLink t)
          have sl: "\<forall>c\<in>set (split_byte slash t @ cs). slash \<notin> set c"
            using "2.prems"(5) by (auto dest: split_byte_parts)
          have "resolved_at fs (if is_abs t then [] else dest)" "fs (if is_abs t then [] else dest) = Some NDir"
            using root "2.prems" by auto
          then show ?thesis
            using "2.IH"(4) [OF skip False] "2.prems" skip False Some NLink sl by (auto split: if_splits)
        qed
      qed
    qed
  qed
qed simp

text \<open>Without links a path is where its parts say.\<close>

lemma no_links_prefix: "no_links fs ps \<Longrightarrow> prefix q ps \<Longrightarrow> no_links fs q"
  by (auto simp: no_links_def)

lemma walk_straight:
  "walk n fs dest cs = Some r \<Longrightarrow> no_links fs (dest @ cs) \<Longrightarrow> \<forall>c\<in>set cs. plain_part c \<Longrightarrow> r = dest @ cs"
proof (induction cs arbitrary: dest)
  case (Cons c cs)
  have "fs (dest @ [c]) \<noteq> Some (NLink t)" for t using Cons.prems(2) by (auto simp: no_links_def)
  then show ?case
    using Cons.prems Cons.IH [of "dest @ [c]"]
    by (auto simp: plain_part_def split: option.splits node.splits if_splits)
qed simp

lemma follow_straight:
  "follow n fs dest cs = Some r \<Longrightarrow> no_links fs (dest @ cs) \<Longrightarrow> \<forall>c\<in>set cs. plain_part c \<Longrightarrow> r = dest @ cs"
proof (induction cs arbitrary: dest)
  case (Cons c cs)
  have "fs (dest @ [c]) \<noteq> Some (NLink t)" for t using Cons.prems(2) by (auto simp: no_links_def)
  then show ?case
    using Cons.prems Cons.IH [of "dest @ [c]"]
    by (auto simp: plain_part_def split: option.splits node.splits if_splits)
qed simp

lemma walk_skip_empty [simp]: "walk n fs dest ([] # cs) = walk n fs dest cs" "follow n fs dest ([] # cs) = follow n fs dest cs"
  by simp_all

lemma walk_render:
  "\<forall>c\<in>set ps. plain_part c \<Longrightarrow> walk n fs [] (split_byte slash (render ps)) = walk n fs [] ps"
  "\<forall>c\<in>set ps. plain_part c \<Longrightarrow> follow n fs [] (split_byte slash (render ps)) = follow n fs [] ps"
  by (auto simp: split_render)

text \<open>What \<open>MkdirAll\<close> and a write change when no link is on the way.\<close>

lemma make_dir_at_changes:
  assumes "make_dir_at fs ps = (k, fs')" "no_links fs ps" "ps \<noteq> []" "\<forall>c\<in>set ps. plain_part c" "fs' q \<noteq> fs q"
  shows "q = ps \<and> fs q = None \<and> fs' q = Some NDir"
proof -
  obtain d where d: "walk kernel_link_limit fs [] (butlast ps) = Some d"
    using assms(1,5) by (auto simp: make_dir_at_def split: option.splits)
  have "no_links fs (butlast ps)" using assms(2) by (rule no_links_prefix) (rule prefixeq_butlast)
  then have "d = butlast ps" using walk_straight [OF d] assms(4) by (auto dest: in_set_butlastD)
  then show ?thesis using assms(1,3,5) d by (auto simp: make_dir_at_def Let_def split: if_splits)
qed

lemma mkdir_all_changes:
  "mkdir_all fs ps = (k, fs') \<Longrightarrow> no_links fs ps \<Longrightarrow> \<forall>c\<in>set ps. plain_part c \<Longrightarrow>
     \<forall>q. fs' q \<noteq> fs q \<longrightarrow> prefix q ps \<and> fs q = None \<and> fs' q = Some NDir"
proof (induction fs ps arbitrary: k fs' rule: mkdir_all.induct)
  case (1 fs ps)
  show ?case
  proof (cases "walk kernel_link_limit fs [] ps")
    case (Some p)
    then show ?thesis using "1.prems"(1) by (simp add: mkdir_all.simps)
  next
    case None
    show ?thesis
    proof (cases "ps = []")
      case True
      then show ?thesis using None by simp
    next
      case ne: False
      obtain k1 fs1 where r: "mkdir_all fs (butlast ps) = (k1, fs1)" by fastforce
      have nl: "no_links fs (butlast ps)" using "1.prems"(2) by (rule no_links_prefix) (rule prefixeq_butlast)
      have pl: "\<forall>c\<in>set (butlast ps). plain_part c" using "1.prems"(3) by (auto dest: in_set_butlastD)
      have c1: "\<forall>q. fs1 q \<noteq> fs q \<longrightarrow> prefix q (butlast ps) \<and> fs q = None \<and> fs1 q = Some NDir"
        using "1.IH" [OF None ne r nl pl] .
      have up: "prefix q (butlast ps) \<Longrightarrow> prefix q ps" for q by (rule prefix_order.trans) (auto intro: prefixeq_butlast)
      have nl1: "no_links fs1 ps"
        using "1.prems"(2) c1 unfolding no_links_def by (metis node.distinct(5) option.inject)
      show ?thesis
      proof (cases k1)
        case False
        then show ?thesis using "1.prems"(1) None ne r c1 up by (auto simp: mkdir_all.simps [of fs ps])
      next
        case True
        then have m: "make_dir_at fs1 ps = (k, fs')"
          using "1.prems"(1) None ne r by (simp add: mkdir_all.simps [of fs ps])
        show ?thesis
          using make_dir_at_changes [OF m nl1 ne "1.prems"(3)] c1 up by (metis prefix_order.refl)
      qed
    qed
  qed
qed

lemma write_path_changes:
  assumes "write_path fs (render ps) x = Some fs'" "no_links fs ps" "\<forall>c\<in>set ps. plain_part c"
  shows "fs' = fs(ps \<mapsto> NFile x)"
  using assms follow_straight [of kernel_link_limit fs "[]" ps] by (auto simp: write_path_def walk_render)

text \<open>The directory of a cleaned path has all parts but the last.\<close>

lemma clean_parts_id: "\<forall>c\<in>set cs. plain_part c \<Longrightarrow> clean_parts rooted acc cs = rev acc @ cs"
  by (induction cs arbitrary: acc) (auto simp: plain_part_def)

lemma clean_render: "\<forall>c\<in>set ps. plain_part c \<Longrightarrow> clean (render ps) = render ps"
  by (simp add: clean_def Let_def clean_parts_id) (simp add: is_abs_def render_def)

lemma parts_join_slash:
  "ps \<noteq> [] \<Longrightarrow> \<forall>c\<in>set ps. plain_part c \<Longrightarrow>
     split_byte slash (join_strings [slash] ps @ slash # t) = ps @ split_byte slash t"
proof (induction ps rule: induct_list012)
  case (3 x y zs)
  then show ?case
    using split_byte_append [of slash x "join_strings [slash] (y # zs) @ slash # t"]
    by (auto simp: plain_part_def)
qed (auto simp: plain_part_def split_byte_append)

lemma dir_render:
  assumes "\<forall>c\<in>set ps. plain_part c"
  shows "path_parts (dir_of (render ps)) = butlast ps"
proof (cases ps rule: rev_cases)
  case Nil
  then show ?thesis by (simp add: dir_of_def render_def clean_def is_abs_def path_parts_def)
next
  case (snoc qs c)
  have c: "slash \<notin> set c" and qs: "\<forall>c\<in>set qs. plain_part c" using assms snoc by (auto simp: plain_part_def)
  let ?d = "if qs = [] then [slash] else render qs @ [slash]"
  have "render ps = ?d @ c" by (auto simp: snoc render_def join_snoc)
  moreover have "dropWhile (\<lambda>x. x \<noteq> slash) (rev c @ rev ?d) = rev ?d"
    using c by (subst dropWhile_append2) auto
  ultimately have d: "dir_of (render ps) = clean ?d" by (simp add: dir_of_def)
  have a: "is_abs ?d" by (simp add: is_abs_def render_def)
  have "path_parts ?d = qs"
    using qs parts_join_slash [of qs "[]"] by (auto simp: path_parts_def render_def plain_part_def filter_id_conv)
  then have "clean ?d = render qs" using a qs by (simp only: clean_def Let_def clean_parts_id) simp
  then show ?thesis using d qs snoc by simp
qed

end
