(* ===== verification/FileTools.thy ===== *)
theory FileTools
  imports FilePath
begin

text \<open>
  The workers' file tools of \<open>internal/runtime/tools.go\<close>: the sandbox \<open>resolvePath\<close>, reading,
  writing and editing files, job notes, and the diff limits of \<open>internal/runtime/diff.go\<close>. A
  tool's arguments are the decoded ones, or the decoder's error. Notifications to the display are
  left out. A write either takes effect or fails without effect.
\<close>

section \<open>The tools' settings\<close>

record core_tools =
  ct_work_dir :: string
  ct_alias :: string
  ct_allow_shell :: bool
  ct_kb_enabled :: bool
  ct_note_label :: string
  ct_worker :: string
  ct_job :: string
  ct_task :: string
  ct_denied :: "string list"

section \<open>The sandbox\<close>

definition apply_alias :: "core_tools \<Rightarrow> string \<Rightarrow> string" where
  "apply_alias ct p =
     (if ct_alias ct = [] \<or> ct_alias ct = ct_work_dir ct then p
      else if p = ct_alias ct then clean (ct_work_dir ct)
      else if has_prefix p (ct_alias ct @ [slash])
      then join_path [ct_work_dir ct, drop (length (ct_alias ct) + 1) p]
      else p)"

text \<open>
  The real location of a path, or of its nearest existing ancestor together with the names that
  are missing below it.
\<close>

function nearest_existing :: "fs \<Rightarrow> string list \<Rightarrow> string list \<times> string list" where
  "nearest_existing fs ps =
     (case walk go_link_limit fs [] ps of
        Some r \<Rightarrow> (r, [])
      | None \<Rightarrow>
          if ps = [] then ([], [])
          else (case nearest_existing fs (butlast ps) of (r, missing) \<Rightarrow> (r, missing @ [last ps])))"
  by pat_completeness auto
termination
  by (relation "measure (\<lambda>(fs, ps). length ps)") auto

declare nearest_existing.simps [simp del]

definition resolve_path :: "os_env \<Rightarrow> core_tools \<Rightarrow> fs \<Rightarrow> string \<Rightarrow> string + string" where
  "resolve_path oe ct fs path =
     (if path = [] then Inl ''path is empty''
      else let named = (if is_abs path then apply_alias ct (clean path)
                        else clean (join_path [ct_work_dir ct, path]))
      in case real_path oe fs (ct_work_dir ct) of
           None \<Rightarrow> Inl (''resolving work directory: '' @ os_error_text oe ''lstat'' (ct_work_dir ct))
         | Some w \<Rightarrow>
             (let p = (case nearest_existing fs (path_parts (abs_path oe named)) of
                         (r, missing) \<Rightarrow> render (r @ missing))
              in if \<not> has_prefix p (render w @ [slash]) \<and> p \<noteq> render w
                 then Inl (''path '' @ fmt_q path @ '' escapes working directory'')
                 else Inr p))"

definition display_path :: "os_env \<Rightarrow> core_tools \<Rightarrow> fs \<Rightarrow> string \<Rightarrow> string" where
  "display_path oe ct fs p =
     (case real_path oe fs (ct_work_dir ct) of
        None \<Rightarrow> p
      | Some w \<Rightarrow>
          (case rel_path (render w) p of
             None \<Rightarrow> p
           | Some rel \<Rightarrow> if rel = ''..'' \<or> has_prefix rel ''../'' then p else rel))"

section \<open>Reading\<close>

definition newline :: char where "newline = CHR 0x0A"

text \<open>The lines a \<open>Scanner\<close> yields; a longer line than its buffer ends the scan with an error.\<close>

definition max_scan_line_bytes :: int where "max_scan_line_bytes = 4 * 1024 * 1024"

definition raw_lines :: "string \<Rightarrow> string list" where
  "raw_lines s = (let ls = split_byte newline s in if last ls = [] then butlast ls else ls)"

definition drop_cr :: "string \<Rightarrow> string" where
  "drop_cr l = (if l \<noteq> [] \<and> last l = CHR 0x0D then butlast l else l)"

definition numbered_line :: "nat \<Rightarrow> string \<Rightarrow> string" where
  "numbered_line n l = digits_of n @ '': '' @ drop_cr l @ [newline]"

fun scan_window :: "nat \<Rightarrow> nat \<Rightarrow> nat \<Rightarrow> nat \<Rightarrow> string list \<Rightarrow> string + string list" where
  "scan_window offset limit n written [] = Inr []"
| "scan_window offset limit n written (l # ls) =
     (if max_scan_line_bytes \<le> int (length l) then Inl ''bufio.Scanner: token too long''
      else if Suc n < offset then scan_window offset limit (Suc n) written ls
      else if limit \<le> written then Inr []
      else case scan_window offset limit (Suc n) (Suc written) ls of
             Inl e \<Rightarrow> Inl e
           | Inr out \<Rightarrow> Inr (numbered_line (Suc n) l # out))"

definition default_read_limit :: nat where "default_read_limit = 2000"

definition read_file :: "os_env \<Rightarrow> core_tools \<Rightarrow> fs \<Rightarrow> string + string \<times> int \<times> int \<Rightarrow> string + string" where
  "read_file oe ct fs args =
     (case args of
        Inl e \<Rightarrow> Inl (''parsing arguments: '' @ e)
      | Inr (path, offset, limit) \<Rightarrow>
          (case resolve_path oe ct fs path of
             Inl e \<Rightarrow> Inl e
           | Inr p \<Rightarrow>
               (case stat_path fs p of
                  Some (NFile x) \<Rightarrow>
                    (case scan_window (if offset < 1 then 1 else nat offset)
                            (if limit < 1 then default_read_limit else nat limit) 0 0 (raw_lines x) of
                       Inl e \<Rightarrow> Inl (''reading file: '' @ e)
                     | Inr [] \<Rightarrow> Inr ''(empty file or offset beyond end)''
                     | Inr out \<Rightarrow> Inr (concat out))
                | Some nd \<Rightarrow> Inl (''reading file: '' @ os_error_text oe ''read'' p)
                | None \<Rightarrow> Inl (''opening file: '' @ os_error_text oe ''open'' p))))"

section \<open>Writing\<close>

definition max_write_content_size :: int where "max_write_content_size = 50 * 1024 * 1024"

definition make_and_write :: "os_env \<Rightarrow> string \<Rightarrow> string \<Rightarrow> string \<Rightarrow> string \<Rightarrow> fs \<Rightarrow> (string + unit) \<times> fs" where
  "make_and_write oe making writing p x fs =
     (case mkdir_all fs (path_parts (dir_of p)) of
        (False, fs1) \<Rightarrow> (Inl (making @ os_error_text oe ''mkdir'' (dir_of p)), fs1)
      | (True, fs1) \<Rightarrow>
          (case write_path fs1 p x of
             None \<Rightarrow> (Inl (writing @ os_error_text oe ''open'' p), fs1)
           | Some fs2 \<Rightarrow> (Inr (), fs2)))"

definition write_file :: "os_env \<Rightarrow> core_tools \<Rightarrow> fs \<Rightarrow> string + string \<times> string \<Rightarrow> (string + string) \<times> fs" where
  "write_file oe ct fs args =
     (case args of
        Inl e \<Rightarrow> (Inl (''parsing arguments: '' @ e), fs)
      | Inr (path, x) \<Rightarrow>
          (case resolve_path oe ct fs path of
             Inl e \<Rightarrow> (Inl e, fs)
           | Inr p \<Rightarrow>
               if max_write_content_size < int (length x)
               then (Inl (''content too large to write: '' @ digits_of (length x) @ '' bytes (max ''
                       @ fmt_int max_write_content_size @ '')''), fs)
               else case make_and_write oe ''creating directories: '' ''writing file: '' p x fs of
                      (Inl e, fs1) \<Rightarrow> (Inl e, fs1)
                    | (Inr u, fs1) \<Rightarrow>
                        (Inr (''wrote '' @ digits_of (length x) @ '' bytes to '' @ display_path oe ct fs1 p), fs1)))"

section \<open>Editing\<close>

text \<open>\<open>strings.Count\<close> and \<open>strings.Replace\<close> with one replacement. The empty text counts the runes.\<close>

function count_sub :: "string \<Rightarrow> string \<Rightarrow> nat" where
  "count_sub p [] = 0"
| "count_sub p (c # s) =
     (if has_prefix (c # s) p then Suc (count_sub p (drop (length p - 1) s)) else count_sub p s)"
  by pat_completeness auto
termination
  by (relation "measure (\<lambda>(p, s). length s)") auto

definition count_text :: "string \<Rightarrow> string \<Rightarrow> nat" where
  "count_text s p = (if p = [] then Suc (length (filter rune_start s)) else count_sub p s)"

fun replace_first :: "string \<Rightarrow> string \<Rightarrow> string \<Rightarrow> string" where
  "replace_first p r [] = (if p = [] then r else [])"
| "replace_first p r (c # s) =
     (if has_prefix (c # s) p then r @ drop (length p) (c # s) else c # replace_first p r s)"

definition max_edit_file_size :: int where "max_edit_file_size = 10 * 1024 * 1024"

definition edit_file ::
  "os_env \<Rightarrow> core_tools \<Rightarrow> fs \<Rightarrow> string + string \<times> string \<times> string \<Rightarrow> (string + string) \<times> fs" where
  "edit_file oe ct fs args =
     (case args of
        Inl e \<Rightarrow> (Inl (''parsing arguments: '' @ e), fs)
      | Inr (path, old, new) \<Rightarrow>
          (case resolve_path oe ct fs path of
             Inl e \<Rightarrow> (Inl e, fs)
           | Inr p \<Rightarrow>
               (case stat_path fs p of
                  None \<Rightarrow> (Inl (''stat file: '' @ os_error_text oe ''stat'' p), fs)
                | Some (NFile x) \<Rightarrow>
                    if max_edit_file_size < int (length x)
                    then (Inl (''file too large to edit: '' @ digits_of (length x) @ '' bytes (max ''
                            @ fmt_int max_edit_file_size @ '')''), fs)
                    else let n = count_text x old in
                      if n = 0 then (Inl (''old_string not found in '' @ path), fs)
                      else if 1 < n
                      then (Inl (''old_string found '' @ digits_of n @ '' times in '' @ path @ '' (must be unique)''), fs)
                      else case write_path fs p (replace_first old new x) of
                             None \<Rightarrow> (Inl (''writing file: '' @ os_error_text oe ''open'' p), fs)
                           | Some fs1 \<Rightarrow> (Inr (''edited '' @ display_path oe ct fs1 p), fs1)
                | Some nd \<Rightarrow> (Inl (''reading file: '' @ os_error_text oe ''read'' p), fs))))"

section \<open>The sandbox holds\<close>

lemma nearest_existing_parts:
  assumes "nearest_existing fs ps = (r, missing)" "fs [] = Some NDir" "\<forall>c\<in>set ps. plain_part c"
  shows "resolved_at fs r \<and> (\<forall>c\<in>set missing. plain_part c)"
  using assms
proof (induction fs ps arbitrary: r missing rule: nearest_existing.induct)
  case (1 fs ps)
  have root: "resolved_at fs []" using "1.prems"(2) by (simp add: resolved_at_def)
  show ?case
  proof (cases "walk go_link_limit fs [] ps")
    case (Some x)
    then have "resolved_at fs x"
      by (rule walk_resolved) (use root "1.prems" in \<open>auto simp: plain_part_def\<close>)
    then show ?thesis using "1.prems"(1) Some by (simp add: nearest_existing.simps)
  next
    case None
    show ?thesis
    proof (cases "ps = []")
      case True
      then show ?thesis using "1.prems" root None by simp
    next
      case False
      obtain r1 m1 where n: "nearest_existing fs (butlast ps) = (r1, m1)" by fastforce
      have "\<forall>c\<in>set (butlast ps). plain_part c" using "1.prems"(3) by (auto dest: in_set_butlastD)
      then have "resolved_at fs r1 \<and> (\<forall>c\<in>set m1. plain_part c)" using "1.IH" None False n "1.prems"(2) by blast
      then show ?thesis
        using "1.prems"(1,3) None False n by (auto simp: nearest_existing.simps [of fs ps])
    qed
  qed
qed

lemma real_path_resolved:
  assumes "real_path oe fs s = Some w" "is_abs (os_cwd oe)" "fs [] = Some NDir"
  shows "resolved_at fs w"
proof -
  have "\<forall>c\<in>set (split_byte slash (abs_path oe s)). slash \<notin> set c" by (auto dest: split_byte_parts)
  moreover have "resolved_at fs []" using assms(3) by (simp add: resolved_at_def)
  ultimately show ?thesis using assms(1,3) walk_resolved by (auto simp: real_path_def)
qed

text \<open>The answer of the sandbox is a location below the real working directory.\<close>

lemma resolve_path_below:
  assumes "resolve_path oe ct fs path = Inr p" "is_abs (os_cwd oe)" "fs [] = Some NDir"
  obtains w ps where "real_path oe fs (ct_work_dir ct) = Some w" "resolved_at fs w" "p = render ps"
    "prefix w ps" "\<forall>c\<in>set ps. plain_part c"
proof -
  obtain named w where n: "real_path oe fs (ct_work_dir ct) = Some w"
    "p = (case nearest_existing fs (path_parts (abs_path oe named)) of (r, missing) \<Rightarrow> render (r @ missing))"
    "has_prefix p (render w @ [slash]) \<or> p = render w"
    using assms(1) by (auto simp: resolve_path_def Let_def split: if_splits option.splits)
  have w: "resolved_at fs w" by (rule real_path_resolved [OF n(1) assms(2,3)])
  obtain r missing where r: "nearest_existing fs (path_parts (abs_path oe named)) = (r, missing)" by fastforce
  obtain as where "abs_path oe named = render as" "\<forall>c\<in>set as. plain_part c" by (rule abs_path_plain [OF assms(2)])
  then have "\<forall>c\<in>set (path_parts (abs_path oe named)). plain_part c" by simp
  then have rm: "resolved_at fs r" "\<forall>c\<in>set missing. plain_part c" using nearest_existing_parts [OF r assms(3)] by simp_all
  have ps: "p = render (r @ missing)" "\<forall>c\<in>set (r @ missing). plain_part c" using n(2) r rm by (auto simp: resolved_at_def)
  have wp: "\<forall>c\<in>set w. plain_part c" using w by (simp add: resolved_at_def)
  have "prefix w (r @ missing)"
    using n(3)
  proof
    assume "has_prefix p (render w @ [slash])"
    then obtain c cs where "r @ missing = w @ c # cs" using below_render [OF ps(2) wp] ps(1) by blast
    then show ?thesis by (simp add: prefix_def)
  next
    assume "p = render w"
    then show ?thesis using ps render_inject [OF ps(2) wp] by simp
  qed
  then show thesis using that n(1) w ps by blast
qed

lemma below_or_prefix: "prefix w ps \<Longrightarrow> prefix q ps \<Longrightarrow> prefix w q \<or> strict_prefix q w"
  using prefix_same_cases by (auto simp: strict_prefix_def)

lemma make_and_write_changes:
  assumes "make_and_write oe a b (render ps) x fs = (r, fs')" "no_links fs ps" "\<forall>c\<in>set ps. plain_part c"
    and "resolved_at fs w" "prefix w ps" "fs' q \<noteq> fs q"
  shows "prefix w q"
proof -
  obtain k fs1 where m: "mkdir_all fs (butlast ps) = (k, fs1)" by fastforce
  have b: "no_links fs (butlast ps)" "\<forall>c\<in>set (butlast ps). plain_part c"
    using no_links_prefix [OF assms(2) prefixeq_butlast] assms(3) by (auto dest: in_set_butlastD)
  have c1: "\<forall>q. fs1 q \<noteq> fs q \<longrightarrow> prefix q (butlast ps) \<and> fs q = None \<and> fs1 q = Some NDir"
    by (rule mkdir_all_changes [OF m b])
  have made: "prefix w q" if "fs1 q \<noteq> fs q" for q
  proof -
    have "prefix q ps" "fs q = None" using c1 that prefix_order.trans prefixeq_butlast by blast+
    moreover have "fs q \<noteq> None" if "strict_prefix q w" using that assms(4) by (simp add: resolved_at_def)
    ultimately show ?thesis using below_or_prefix [OF assms(5)] by blast
  qed
  have nl1: "no_links fs1 ps" using assms(2) c1 unfolding no_links_def by (metis node.distinct(5) option.inject)
  show ?thesis
  proof (cases "k \<and> (\<exists>fs2. write_path fs1 (render ps) x = Some fs2)")
    case True
    then obtain fs2 where w: "write_path fs1 (render ps) x = Some fs2" by blast
    then have "fs' = fs1(ps \<mapsto> NFile x)"
      using assms(1) True m write_path_changes [OF w nl1 assms(3)] by (simp add: make_and_write_def dir_render [OF assms(3)])
    then show ?thesis using assms(5,6) made by (cases "q = ps") auto
  next
    case False
    then have "fs' = fs1" using assms(1) m
      by (auto simp: make_and_write_def dir_render [OF assms(3)] split: bool.splits option.splits)
    then show ?thesis using made assms(6) by simp
  qed
qed

text \<open>As long as no link lies on the path the guard returns, \<open>write_file\<close> stays inside.\<close>

lemma write_file_confined:
  assumes "is_abs (os_cwd oe)" "fs [] = Some NDir" "real_path oe fs (ct_work_dir ct) = Some w"
    and "\<forall>p. resolve_path oe ct fs path = Inr p \<longrightarrow> no_links fs (path_parts p)"
    and "write_file oe ct fs (Inr (path, x)) = (r, fs')" "fs' q \<noteq> fs q"
  shows "prefix w q"
proof -
  obtain p where p: "resolve_path oe ct fs path = Inr p"
    using assms(5,6) by (auto simp: write_file_def split: sum.splits)
  obtain ps where ps: "resolved_at fs w" "p = render ps" "prefix w ps" "\<forall>c\<in>set ps. plain_part c"
    using resolve_path_below [OF p assms(1,2)] assms(3) by (metis option.inject)
  have nl: "no_links fs ps" using assms(4) p ps(2,4) by simp
  obtain r1 fs1 where m: "make_and_write oe ''creating directories: '' ''writing file: '' p x fs = (r1, fs1)" by fastforce
  have "fs' = fs1"
    using assms(5,6) p m by (auto simp: write_file_def split: if_splits sum.splits prod.splits)
  then show ?thesis using make_and_write_changes [OF m [unfolded ps(2)] nl ps(4,1,3)] assms(6) by simp
qed

definition sample_os :: os_env where
  "sample_os = \<lparr>os_cwd = ''/'', os_home = Some ''/home/u'', os_error_text = (\<lambda>what p. what @ '' '' @ p)\<rparr>"

definition sample_core :: core_tools where
  "sample_core = \<lparr>ct_work_dir = ''/ws'', ct_alias = [], ct_allow_shell = True, ct_kb_enabled = True,
     ct_note_label = [], ct_worker = [], ct_job = [], ct_task = [], ct_denied = []\<rparr>"

definition sample_fs :: fs where
  "sample_fs = map_of [([], NDir), ([''ws''], NDir), ([''etc''], NDir), ([''ws'', ''f''], NFile ''one two''),
     ([''ws'', ''out''], NLink ''/etc/new''), ([''ws'', ''up''], NLink ''..'')]"

text \<open>
  The condition is needed: a link inside the workspace whose target does not exist yet is
  taken for a missing file of the workspace, and the kernel follows it when the file is written.
  Here \<open>write_file\<close> of the relative name \<open>out\<close> creates \<open>/etc/new\<close>.
\<close>

theorem dangling_link_escapes:
  "is_ok (fst (write_file sample_os sample_core sample_fs (Inr (''out'', ''x''))))
   \<and> snd (write_file sample_os sample_core sample_fs (Inr (''out'', ''x''))) [''etc'', ''new''] = Some (NFile ''x'')
   \<and> resolve_path sample_os sample_core sample_fs ''out'' = Inr ''/ws/out''
   \<and> \<not> is_ok (resolve_path sample_os sample_core sample_fs ''up/etc/new'')
   \<and> \<not> is_ok (resolve_path sample_os sample_core sample_fs ''/ws/../etc/new'')"
  by code_simp

section \<open>Edits\<close>

lemma replace_first_at:
  assumes "contains_sub s p"
  shows "\<exists>pre post. s = pre @ p @ post \<and> replace_first p r s = pre @ r @ post
    \<and> (\<forall>i<length pre. \<not> has_prefix (drop i s) p)"
  using assms
proof (induction s)
  case Nil
  then show ?case by simp
next
  case (Cons c s)
  show ?case
  proof (cases "has_prefix (c # s) p")
    case True
    then obtain post where "c # s = p @ post" by (auto simp: has_prefix_def prefix_def)
    then have "replace_first p r (c # s) = r @ post" using True by (metis append_eq_conv_conj replace_first.simps(2))
    then show ?thesis using \<open>c # s = p @ post\<close> by (intro exI [of _ "[]"] exI [of _ post]) simp
  next
    case False
    then obtain pre post where "s = pre @ p @ post" "replace_first p r s = pre @ r @ post"
      "\<forall>i<length pre. \<not> has_prefix (drop i s) p"
      using Cons by auto
    then show ?thesis using False
      by (intro exI [of _ "c # pre"] exI [of _ post]) (auto simp: less_Suc_eq_0_disj)
  qed
qed

lemma count_sub_zero: "p \<noteq> [] \<Longrightarrow> count_sub p s = 0 \<longleftrightarrow> \<not> contains_sub s p"
  by (induction s) auto

text \<open>Counting from the left finds the most occurrences that do not overlap.\<close>

lemma count_sub_greedy:
  assumes "p \<noteq> []"
  shows "(\<forall>c. count_sub p s \<le> count_sub p (c # s)) \<and> (\<forall>k\<le>length p. count_sub p s \<le> Suc (count_sub p (drop k s)))"
proof (induction s rule: length_induct)
  case (1 s)
  have up: "count_sub p (drop k t) \<le> count_sub p t" if "length t \<le> length s" for t k
    using that
  proof (induction k arbitrary: t)
    case (Suc k)
    show ?case
    proof (cases t)
      case (Cons d t')
      then have "count_sub p t' \<le> count_sub p t" using "1" Suc.prems by auto
      then show ?thesis using Suc.IH [of t'] Suc.prems Cons by auto
    qed simp
  qed simp
  have skip: "count_sub p s \<le> Suc (count_sub p (drop k s))" if "k \<le> length p" for k
  proof (cases s)
    case (Cons d t)
    show ?thesis
    proof (cases "has_prefix s p")
      case True
      have "drop (length p - 1) t = drop (length p - k) (drop k s)"
        using that assms Cons by (cases p) (auto simp: drop_Cons')
      moreover have "count_sub p s = Suc (count_sub p (drop (length p - 1) t))" using True Cons by simp
      ultimately show ?thesis using up [of "drop k s" "length p - k"] by simp
    next
      case False
      then have "count_sub p s = count_sub p t" using Cons by simp
      moreover have "count_sub p t \<le> Suc (count_sub p (drop (k - 1) t))"
        using "1" Cons that by auto
      moreover have "k \<noteq> 0 \<Longrightarrow> drop (k - 1) t = drop k s" using Cons by (cases k) auto
      ultimately show ?thesis by (cases "k = 0") auto
    qed
  qed simp
  have "count_sub p s \<le> count_sub p (c # s)" for c
    using skip [of "length p - 1"] by simp
  then show ?case using skip by blast
qed

lemma count_sub_append: "p \<noteq> [] \<Longrightarrow> count_sub p s \<le> count_sub p (a @ s)"
proof (induction a)
  case (Cons c a)
  have "count_sub p (a @ s) \<le> count_sub p (c # a @ s)" using count_sub_greedy [OF Cons.prems] by blast
  then show ?case using Cons by simp
qed simp

lemma count_sub_two: "p \<noteq> [] \<Longrightarrow> 2 \<le> count_sub p (a @ p @ b @ p @ c)"
proof -
  assume p: "p \<noteq> []"
  have step: "Suc (count_sub p t) \<le> count_sub p (p @ t)" for t
  proof -
    obtain d ds where d: "p = d # ds" using p by (cases p) auto
    have "has_prefix (d # ds @ t) p" using has_prefix_append [of p t] by (simp add: d)
    then have "count_sub p (d # ds @ t) = Suc (count_sub p (drop (length p - 1) (ds @ t)))" by simp
    then show ?thesis by (simp add: d)
  qed
  have "1 \<le> count_sub p (p @ c)" using step [of c] by simp
  also have "\<dots> \<le> count_sub p (b @ p @ c)" by (rule count_sub_append [OF p])
  finally have "2 \<le> count_sub p (p @ b @ p @ c)" using step [of "b @ p @ c"] by simp
  also have "\<dots> \<le> count_sub p (a @ p @ b @ p @ c)" by (rule count_sub_append [OF p])
  finally show ?thesis .
qed

text \<open>
  An edit either fails and changes nothing, or the file had the old text, at no two places
  that do not overlap, and exactly its first occurrence is replaced by the new text.
\<close>

theorem edit_file_correct:
  assumes "edit_file oe ct fs (Inr (path, old, new)) = (r, fs')" "old \<noteq> []"
  shows "case r of
      Inl e \<Rightarrow> fs' = fs
    | Inr msg \<Rightarrow> \<exists>p x pre post. resolve_path oe ct fs path = Inr p \<and> stat_path fs p = Some (NFile x)
        \<and> x = pre @ old @ post \<and> (\<forall>i<length pre. \<not> has_prefix (drop i x) old)
        \<and> (\<nexists>a b c. x = a @ old @ b @ old @ c) \<and> write_path fs p (pre @ new @ post) = Some fs'"
proof (cases r)
  case (Inl e)
  then show ?thesis
    using assms by (auto simp: edit_file_def Let_def split: sum.splits option.splits node.splits if_splits)
next
  case (Inr msg)
  then obtain p x where p: "resolve_path oe ct fs path = Inr p" "stat_path fs p = Some (NFile x)"
    "count_text x old = 1" "write_path fs p (replace_first old new x) = Some fs'"
    using assms(1) by (auto simp: edit_file_def Let_def split: sum.splits option.splits node.splits if_splits)
  have n: "count_sub old x = 1" using p(3) assms(2) by (simp add: count_text_def)
  then have "contains_sub x old" using count_sub_zero [OF assms(2), of x] by simp
  then obtain pre post where x: "x = pre @ old @ post" "replace_first old new x = pre @ new @ post"
    "\<forall>i<length pre. \<not> has_prefix (drop i x) old"
    using replace_first_at [of x old new] by blast
  have "\<nexists>a b c. x = a @ old @ b @ old @ c"
    using count_sub_two [OF assms(2)] n by (metis Suc_1 not_less_eq_eq order_refl One_nat_def)
  then have "x = pre @ old @ post \<and> (\<forall>i<length pre. \<not> has_prefix (drop i x) old)
      \<and> (\<nexists>a b c. x = a @ old @ b @ old @ c) \<and> write_path fs p (pre @ new @ post) = Some fs'"
    using p(4) x by simp
  then show ?thesis using Inr p(1,2) unfolding Inr sum.case by blast
qed

lemma edit_file_witness:
  "snd (edit_file sample_os sample_core sample_fs (Inr (''f'', ''two'', ''2''))) [''ws'', ''f''] = Some (NFile ''one 2'')
   \<and> (\<exists>p x pre post. stat_path sample_fs p = Some (NFile x) \<and> x = pre @ ''two'' @ post)"
proof -
  have 1: "is_ok (fst (edit_file sample_os sample_core sample_fs (Inr (''f'', ''two'', ''2''))))
    \<and> snd (edit_file sample_os sample_core sample_fs (Inr (''f'', ''two'', ''2''))) [''ws'', ''f''] = Some (NFile ''one 2'')"
    by code_simp
  obtain r fs' where e: "edit_file sample_os sample_core sample_fs (Inr (''f'', ''two'', ''2'')) = (r, fs')" by fastforce
  have "is_ok r" using 1 unfolding e by simp
  then obtain msg where r: "r = Inr msg" by (auto simp: is_ok_iff)
  have "''two'' \<noteq> ([] :: string)" by simp
  then have "\<exists>p x pre post. stat_path sample_fs p = Some (NFile x) \<and> x = pre @ ''two'' @ post"
    using edit_file_correct [OF e] unfolding r sum.case by blast
  then show ?thesis using 1 by blast
qed

section \<open>Reads\<close>

lemma scan_window_lines:
  assumes "\<forall>l\<in>set ls. int (length l) < max_scan_line_bytes"
  shows "scan_window offset limit n written ls
    = Inr (map (\<lambda>(i, l). numbered_line i l)
        (take (limit - written) (drop (offset - Suc n) (zip [Suc n..<Suc n + length ls] ls))))"
  using assms
proof (induction ls arbitrary: n written)
  case (Cons l ls)
  have z: "zip [Suc n..<Suc n + length (l # ls)] (l # ls) = (Suc n, l) # zip [Suc (Suc n)..<Suc (Suc n) + length ls] ls"
    by (subst upt_conv_Cons) simp_all
  have short: "\<not> max_scan_line_bytes \<le> int (length l)" using Cons.prems by auto
  have IH: "scan_window offset limit m k ls = Inr (map (\<lambda>(i, l). numbered_line i l)
        (take (limit - k) (drop (offset - Suc m) (zip [Suc m..<Suc m + length ls] ls))))" for m k
    using Cons by simp
  show ?case
  proof (cases "Suc n < offset")
    case True
    then have "offset - Suc n = Suc (offset - Suc (Suc n))" by simp
    then show ?thesis unfolding z using short True IH [of "Suc n" written] by (simp del: upt_Suc)
  next
    case False
    then have "offset - Suc n = 0" "offset - Suc (Suc n) = 0" by simp_all
    moreover have "written < limit \<Longrightarrow> limit - written = Suc (limit - Suc written)" by simp
    ultimately show ?thesis unfolding z using short False IH [of "Suc n" "Suc written"]
      by (cases "limit \<le> written") (simp_all del: upt_Suc)
  qed
qed simp

text \<open>
  Reading a file whose lines all fit the scanner returns exactly the lines from the offset
  on, at most the limit of them, each with its own number, whatever the offset and limit; when
  that is none, it says so instead of returning an empty text.
\<close>

theorem read_file_window:
  assumes "resolve_path oe ct fs path = Inr p" "stat_path fs p = Some (NFile x)"
    and "\<forall>l\<in>set (raw_lines x). int (length l) < max_scan_line_bytes"
  shows "\<exists>out. out = map (\<lambda>(i, l). numbered_line i l)
       (take (if limit < 1 then default_read_limit else nat limit)
         (drop (nat offset - 1) (zip [1..<Suc (length (raw_lines x))] (raw_lines x))))
     \<and> read_file oe ct fs (Inr (path, offset, limit))
       = Inr (if out = [] then ''(empty file or offset beyond end)'' else concat out)"
proof -
  have o: "(if offset < 1 then 1 else nat offset) - Suc 0 = nat offset - 1" by auto
  show ?thesis
    unfolding read_file_def sum.case prod.case assms(1) assms(2) option.case node.case
      scan_window_lines [OF assms(3)] o
    by (simp del: upt_Suc split: list.split)
qed

lemma read_file_witness:
  "read_file sample_os sample_core sample_fs (Inr (''f'', 0, 0)) = Inr (''1: one two'' @ [newline])"
proof -
  have 1: "resolve_path sample_os sample_core sample_fs ''f'' = Inr ''/ws/f''"
    "stat_path sample_fs ''/ws/f'' = Some (NFile ''one two'')" by code_simp+
  have 2: "raw_lines ''one two'' = [''one two'']" by code_simp
  have 3: "\<forall>l\<in>set (raw_lines ''one two''). int (length l) < max_scan_line_bytes"
    by (simp add: 2 max_scan_line_bytes_def)
  have 4: "numbered_line 1 ''one two'' = ''1: one two'' @ [newline]" by code_simp
  show ?thesis
    using read_file_window [OF 1 3, of 0 0] 4 unfolding 2
    by (simp add: default_read_limit_def)
qed

section \<open>Job notes\<close>

record note_env =
  ne_time :: string                  \<comment> \<open>the time stamp\<close>
  ne_random :: "string + string"     \<comment> \<open>six hexadecimal digits\<close>

definition notes_dir :: string where "notes_dir = ''.toasters/notes/''"
definition max_note_bytes :: int where "max_note_bytes = 256 * 1024"

text \<open>Bytes outside ASCII count as separators, as their runes do.\<close>

definition token_char :: "char \<Rightarrow> bool" where
  "token_char c \<longleftrightarrow> (let n = of_char c :: nat in 97 \<le> n \<and> n \<le> 122 \<or> 48 \<le> n \<and> n \<le> 57)"

fun dash_runs :: "bool \<Rightarrow> string \<Rightarrow> string" where
  "dash_runs prev [] = []"
| "dash_runs prev (c # s) =
     (if token_char c then c # dash_runs False s
      else if prev then dash_runs True s
      else CHR ''-'' # dash_runs True s)"

definition trim_dashes :: "string \<Rightarrow> string" where
  "trim_dashes s = rev (dropWhile (\<lambda>c. c = CHR ''-'') (rev (dropWhile (\<lambda>c. c = CHR ''-'') s)))"

definition sanitize_note_token :: "string \<Rightarrow> nat \<Rightarrow> string" where
  "sanitize_note_token s max_len =
     (let out = trim_dashes (dash_runs False (to_lower s))
      in if max_len < length out then trim_dashes (take max_len out) else out)"

definition note_source :: "core_tools \<Rightarrow> string" where
  "note_source ct =
     (let a = sanitize_note_token (ct_note_label ct) 40; b = sanitize_note_token (ct_worker ct) 40
      in if a \<noteq> [] then a else if b \<noteq> [] then b else ''worker'')"

definition note_filename :: "note_env \<Rightarrow> string \<Rightarrow> string \<Rightarrow> string + string" where
  "note_filename ne source title =
     (let slug = sanitize_note_token title 40
      in case ne_random ne of
           Inl e \<Rightarrow> Inl (''generating random suffix: '' @ e)
         | Inr x \<Rightarrow> Inr (ne_time ne @ ''-'' @ source @ ''-'' @ (if slug = [] then ''note'' else slug)
                        @ ''-'' @ x @ ''.md''))"

definition trim_left_hashes :: "string \<Rightarrow> string" where
  "trim_left_hashes s = dropWhile (\<lambda>c. c = CHR ''#'') s"

definition derive_note_title :: "string \<Rightarrow> string" where
  "derive_note_title content =
     (case filter (\<lambda>l. l \<noteq> []) (map trim_space (split_byte newline content)) of
        [] \<Rightarrow> ''(untitled note)''
      | l # ls \<Rightarrow> trim_space (trim_left_hashes l))"

definition job_note_write ::
  "os_env \<Rightarrow> note_env \<Rightarrow> core_tools \<Rightarrow> fs \<Rightarrow> string + string \<times> string \<Rightarrow> (string + string) \<times> fs" where
  "job_note_write oe ne ct fs args =
     (case args of
        Inl e \<Rightarrow> (Inl (''parsing arguments: '' @ e), fs)
      | Inr (title, content) \<Rightarrow>
          if trim_space content = [] then (Inl ''content is required'', fs)
          else let heading = trim_space title;
                   stored = (if heading = [] then content
                             else ''# '' @ heading @ [newline, newline] @ content)
            in if max_note_bytes < int (length stored)
               then (Inl (''note content too large: '' @ digits_of (length stored) @ '' bytes (max ''
                       @ fmt_int max_note_bytes @ '')''), fs)
               else case note_filename ne (note_source ct) title of
                  Inl e \<Rightarrow> (Inl e, fs)
                | Inr name \<Rightarrow>
                    (case resolve_path oe ct fs (notes_dir @ name) of
                       Inl e \<Rightarrow> (Inl e, fs)
                     | Inr p \<Rightarrow>
                         (case make_and_write oe ''creating notes directory: '' ''writing note: '' p stored fs of
                            (Inl e, fs1) \<Rightarrow> (Inl e, fs1)
                          | (Inr u, fs1) \<Rightarrow>
                              (Inr (''saved note '' @ fmt_q (if heading = [] then derive_note_title stored else heading)
                                 @ '' (id: '' @ trim_suffix name ''.md'' @ '')''), fs1))))"

definition truncate_bytes_rune_safe :: "string \<Rightarrow> int \<Rightarrow> string" where
  "truncate_bytes_rune_safe s max_bytes =
     (if max_bytes \<le> 0 then []
      else if int (length s) \<le> max_bytes then s
      else take (rune_cut s (nat max_bytes)) s)"

definition ellipsis :: string where "ellipsis = [CHR 0xE2, CHR 0x80, CHR 0xA6]"

definition job_note_read :: "os_env \<Rightarrow> core_tools \<Rightarrow> fs \<Rightarrow> string + string \<Rightarrow> string + string" where
  "job_note_read oe ct fs args =
     (case args of
        Inl e \<Rightarrow> Inl (''parsing arguments: '' @ e)
      | Inr ident \<Rightarrow>
          if ident = [] then Inl ''id is required''
          else case resolve_path oe ct fs (notes_dir @ trim_suffix ident ''.md'' @ ''.md'') of
                 Inl e \<Rightarrow> Inl e
               | Inr p \<Rightarrow>
                   (case read_path fs p of
                      None \<Rightarrow> Inl (''reading note: '' @ os_error_text oe ''open'' p)
                    | Some x \<Rightarrow>
                        Inr (if max_note_bytes < int (length x)
                             then truncate_bytes_rune_safe x max_note_bytes @ [newline] @ ellipsis @ '' (truncated)''
                             else x)))"

lemma dash_runs_chars: "c \<in> set (dash_runs prev s) \<Longrightarrow> token_char c \<or> c = CHR ''-''"
  proof (induction s arbitrary: prev)
  case (Cons d s)
  then show ?case by (cases "token_char d"; cases prev) (simp_all, blast+)
qed simp

lemma trim_dashes_middle: "\<exists>a b. s = a @ trim_dashes s @ b"
proof -
  let ?u = "dropWhile (\<lambda>c. c = CHR ''-'') s"
  obtain ps where ps: "s = ps @ ?u"
    using dropWhile_suffix [where xs = s and P = "\<lambda>c. c = CHR ''-''"] by blast
  obtain qs where "rev ?u = qs @ dropWhile (\<lambda>c. c = CHR ''-'') (rev ?u)"
    using dropWhile_suffix [where xs = "rev ?u" and P = "\<lambda>c. c = CHR ''-''"] by blast
  then have "rev (rev ?u) = rev (dropWhile (\<lambda>c. c = CHR ''-'') (rev ?u)) @ rev qs" by (metis rev_append)
  then have "?u = trim_dashes s @ rev qs" by (simp add: trim_dashes_def)
  then show ?thesis using ps by metis
qed

lemma trim_dashes_bounds: "set (trim_dashes s) \<subseteq> set s" "length (trim_dashes s) \<le> length s"
proof -
  obtain a b where e: "s = a @ trim_dashes s @ b" using trim_dashes_middle by blast
  show "set (trim_dashes s) \<subseteq> set s" by (subst (2) e) auto
  show "length (trim_dashes s) \<le> length s" by (subst (2) e) simp
qed

lemma trim_dashes_ends:
  assumes "trim_dashes s \<noteq> []"
  shows "hd (trim_dashes s) \<noteq> CHR ''-''" "last (trim_dashes s) \<noteq> CHR ''-''"
proof -
  let ?d = "\<lambda>c. c = CHR ''-''" and ?u = "dropWhile (\<lambda>c. c = CHR ''-'') s"
  have ne: "dropWhile ?d (rev ?u) \<noteq> []" using assms by (simp add: trim_dashes_def)
  then show "last (trim_dashes s) \<noteq> CHR ''-''"
    using hd_dropWhile [of ?d "rev ?u"] by (simp add: trim_dashes_def last_rev)
  obtain ps where ps: "rev ?u = ps @ dropWhile ?d (rev ?u)"
    using dropWhile_suffix [where xs = "rev ?u" and P = ?d] by blast
  have u: "?u = trim_dashes s @ rev ps"
    unfolding trim_dashes_def by (subst rev_append [symmetric], subst ps [symmetric]) simp
  then have "?u \<noteq> []" using assms by simp
  then have "hd ?u \<noteq> CHR ''-''" using hd_dropWhile [of ?d s] by simp
  then show "hd (trim_dashes s) \<noteq> CHR ''-''" using u assms by (cases "trim_dashes s") simp_all
qed

lemma sanitized_shape: "\<exists>u. sanitize_note_token s n = trim_dashes u \<and> set u \<subseteq> set (dash_runs False (to_lower s))"
  using trim_dashes_bounds(1) [of "dash_runs False (to_lower s)"]
  by (auto simp: sanitize_note_token_def Let_def dest: in_set_takeD)

text \<open>
  Whatever the title or worker name, the token made of it for a file name has only lower
  case letters, digits and dashes, neither begins nor ends with a dash and is no longer than
  allowed; so a file name never leaves the notes directory.
\<close>

theorem sanitize_note_token_correct:
  "let t = sanitize_note_token s n in (\<forall>c\<in>set t. token_char c \<or> c = CHR ''-'') \<and> length t \<le> n
     \<and> \<not> has_prefix t ''-'' \<and> \<not> has_suffix t ''-''"
proof -
  obtain u where u: "sanitize_note_token s n = trim_dashes u" "set u \<subseteq> set (dash_runs False (to_lower s))"
    using sanitized_shape by blast
  have "length (sanitize_note_token s n) \<le> n"
    using trim_dashes_bounds(2) [of "take n (trim_dashes (dash_runs False (to_lower s)))"]
    by (auto simp: sanitize_note_token_def Let_def)
  moreover have "\<forall>c\<in>set (trim_dashes u). token_char c \<or> c = CHR ''-''"
    using u(2) trim_dashes_bounds(1) dash_runs_chars by blast
  moreover have "\<not> has_prefix (trim_dashes u) ''-''" "\<not> has_suffix (trim_dashes u) ''-''"
    using trim_dashes_ends [of u]
    by (auto simp: has_prefix_def has_suffix_def prefix_def suffix_def)
  ultimately show ?thesis using u(1) by (simp add: Let_def)
qed

lemma sanitize_note_token_witness:
  "sanitize_note_token ''../A b'' 40 = ''a-b'' \<and> list_all token_char ''ab''
     \<and> \<not> has_prefix (sanitize_note_token ''../A b'' 40) ''-''"
proof -
  have "sanitize_note_token ''../A b'' 40 = ''a-b''" by code_simp
  moreover have "list_all token_char ''ab''" by code_simp
  ultimately show ?thesis using sanitize_note_token_correct [of "''../A b''" 40] by (simp add: Let_def)
qed

section \<open>Diffs for the display\<close>

fun split_after :: "char \<Rightarrow> string \<Rightarrow> string list" where
  "split_after c [] = [[]]"
| "split_after c (x # xs) =
     (if x = c then [x] # split_after c xs
      else case split_after c xs of [] \<Rightarrow> [[x]] | p # ps \<Rightarrow> (x # p) # ps)"

definition strip_unified_file_header :: "string \<Rightarrow> string" where
  "strip_unified_file_header diff =
     (case split_after newline diff of
        a # b # ls \<Rightarrow> if has_prefix a ''--- '' \<and> has_prefix b ''+++ '' then concat ls else diff
      | _ \<Rightarrow> diff)"

definition count_diff_lines :: "string \<Rightarrow> nat \<times> nat" where
  "count_diff_lines body =
     (let ls = split_byte newline body
      in (length (filter (\<lambda>l. has_prefix l ''+'') ls), length (filter (\<lambda>l. has_prefix l ''-'') ls)))"

fun cap_lines :: "nat \<Rightarrow> int \<Rightarrow> nat \<Rightarrow> string \<Rightarrow> string list \<Rightarrow> string \<times> bool" where
  "cap_lines max_lines max_bytes i out [] = (out, False)"
| "cap_lines max_lines max_bytes i out (l # ls) =
     (if max_lines \<le> i \<or> max_bytes < int (length out + length l)
      then (if out = [] \<and> l \<noteq> [] then truncate_bytes_rune_safe l max_bytes else out, True)
      else cap_lines max_lines max_bytes (Suc i) (out @ l) ls)"

definition cap_diff :: "string \<Rightarrow> nat \<Rightarrow> int \<Rightarrow> string \<times> bool" where
  "cap_diff body max_lines max_bytes =
     (let ls = split_after newline body
      in cap_lines max_lines max_bytes 0 [] (if last ls = [] then butlast ls else ls))"

lemma truncate_bytes_bounds:
  "prefix (truncate_bytes_rune_safe s n) s" "0 \<le> n \<Longrightarrow> int (length (truncate_bytes_rune_safe s n)) \<le> n"
  using rune_cut_le [of s "nat n"] by (auto simp: truncate_bytes_rune_safe_def take_is_prefix)

lemma concat_split_after: "concat (split_after c s) = s"
proof (induction s)
  case (Cons x xs)
  then show ?case by (cases "split_after c xs") auto
qed simp

lemma cap_lines_bounds:
  assumes "cap_lines max_lines max_bytes i out ls = (d, capped)" "int (length out) \<le> max_bytes"
  shows "prefix d (out @ concat ls) \<and> int (length d) \<le> max_bytes \<and> (\<not> capped \<longrightarrow> d = out @ concat ls)"
  using assms
proof (induction ls arbitrary: i out)
  case (Cons l ls)
  show ?case
  proof (cases "max_lines \<le> i \<or> max_bytes < int (length out + length l)")
    case True
    then have "d = (if out = [] \<and> l \<noteq> [] then truncate_bytes_rune_safe l max_bytes else out)" "capped"
      using Cons.prems(1) by (simp_all split: if_splits)
    then show ?thesis
      using Cons.prems(2) truncate_bytes_bounds [where s = l and n = max_bytes] by (auto intro: prefix_order.trans)
  next
    case False
    then show ?thesis using Cons.IH [of "Suc i" "out @ l"] Cons.prems(1) by simp
  qed
qed simp

text \<open>
  The diff shown to the user is an initial part of the whole diff and never longer than its
  byte limit, even when its first line alone exceeds it; and it is only marked as complete when
  nothing is missing.
\<close>

theorem cap_diff_correct:
  assumes "0 \<le> max_bytes"
  shows "prefix (fst (cap_diff body max_lines max_bytes)) body
    \<and> int (length (fst (cap_diff body max_lines max_bytes))) \<le> max_bytes
    \<and> (\<not> snd (cap_diff body max_lines max_bytes) \<longrightarrow> fst (cap_diff body max_lines max_bytes) = body)"
proof -
  let ?ls = "split_after newline body"
  define ls where "ls = (if last ?ls = [] then butlast ?ls else ?ls)"
  have "?ls \<noteq> []" by (cases body) (auto split: list.split)
  then have "concat ?ls = concat (butlast ?ls) @ last ?ls"
    by (metis append_butlast_last_id concat_append concat.simps append_Nil2)
  then have "concat ls = concat ?ls" by (simp add: ls_def)
  then have c: "concat ls = body" by (simp add: concat_split_after)
  obtain d capped where r: "cap_lines max_lines max_bytes 0 [] ls = (d, capped)" by fastforce
  then have "cap_diff body max_lines max_bytes = (d, capped)" by (simp add: cap_diff_def Let_def ls_def)
  then show ?thesis using cap_lines_bounds [OF r] assms c by simp
qed

lemma cap_diff_witness:
  "int (length (fst (cap_diff ''+a long line'' 120 5))) \<le> 5 \<and> snd (cap_diff ''+a long line'' 120 5)"
proof -
  have "snd (cap_diff ''+a long line'' 120 5)" by code_simp
  then show ?thesis using cap_diff_correct [of 5 "''+a long line''" 120] by simp
qed

end
