(* ===== verification/CoreTools.thy ===== *)
theory CoreTools
  imports FileTools Workspace
begin

text \<open>
  The rest of the workers' core tools (\<open>internal/runtime/tools.go\<close>): the guards of the shell
  tool, its environment and time limit, fetching, spawning, and the dispatch \<open>Execute\<close> over all
  of them; with the dialer of \<open>internal/httputil/ssrf.go\<close> that \<open>web_fetch\<close> connects through.
\<close>

section \<open>Guards on shell commands\<close>

definition shell_meta :: "char \<Rightarrow> bool" where
  "shell_meta c \<longleftrightarrow> c \<in> set ([CHR 0x09, CHR 0x0A, CHR 0x0D, CHR 0x22, CHR 0x27, CHR 0x60, CHR 0x5C] @ '' ;&|()<>*?{}[]$=,:'')"

definition path_token :: "string \<Rightarrow> string" where
  "path_token s = takeWhile (\<lambda>c. \<not> shell_meta c) s"

text \<open>The \<open>~/\<close> form of a directory below the home directory.\<close>

definition tilde_form :: "os_env \<Rightarrow> string \<Rightarrow> string option" where
  "tilde_form oe dir =
     (case os_home oe of
        None \<Rightarrow> None
      | Some home \<Rightarrow>
          if home = [] then None
          else case rel_path home dir of
                 None \<Rightarrow> None
               | Some rel \<Rightarrow>
                   if rel = ''.'' \<or> has_prefix rel ''../'' \<or> rel = ''..'' then None
                   else Some (''~/'' @ rel))"

definition references_canonical_path :: "os_env \<Rightarrow> string \<Rightarrow> string \<Rightarrow> bool" where
  "references_canonical_path oe command alias =
     (command \<noteq> [] \<and> alias \<noteq> []
      \<and> (contains_sub command alias
         \<or> (case tilde_form oe alias of None \<Rightarrow> False | Some t \<Rightarrow> contains_sub command t)))"

definition canonical_workspace :: "core_tools \<Rightarrow> string" where
  "canonical_workspace ct = (if ct_alias ct \<noteq> [] then ct_alias ct else ct_work_dir ct)"

definition token_path :: "os_env \<Rightarrow> string \<Rightarrow> string" where
  "token_path oe token =
     clean (case os_home oe of
              Some home \<Rightarrow> if home \<noteq> [] \<and> has_prefix token ''~/'' then join_path [home, drop 2 token] else token
            | None \<Rightarrow> token)"

definition foreign_token :: "os_env \<Rightarrow> string \<Rightarrow> string \<Rightarrow> bool" where
  "foreign_token oe canonical token \<longleftrightarrow>
     token_path oe token \<noteq> canonical \<and> \<not> has_prefix (token_path oe token) (canonical @ [slash])"

function scan_tokens :: "os_env \<Rightarrow> string \<Rightarrow> string \<Rightarrow> string \<Rightarrow> string option" where
  "scan_tokens oe canonical pre [] = None"
| "scan_tokens oe canonical pre (c # s) =
     (if has_prefix (c # s) pre
      then if foreign_token oe canonical (path_token (c # s)) then Some (path_token (c # s))
           else scan_tokens oe canonical pre (drop (length pre - 1) s)
      else scan_tokens oe canonical pre s)"
  by pat_completeness auto
termination
  by (relation "measure (\<lambda>(oe, canonical, pre, s). length s)") auto

fun first_token :: "string option list \<Rightarrow> string" where
  "first_token [] = []"
| "first_token (None # os) = first_token os"
| "first_token (Some t # os) = t"

definition guard_applies :: "os_env \<Rightarrow> string \<Rightarrow> bool" where
  "guard_applies oe canonical \<longleftrightarrow>
     (let parent = dir_of canonical
      in parent \<noteq> [slash] \<and> parent \<noteq> ''.'' \<and> parent \<noteq> canonical
         \<and> (case os_home oe of None \<Rightarrow> True | Some home \<Rightarrow> home = [] \<or> clean home \<noteq> parent))"

definition foreign_sibling_path :: "os_env \<Rightarrow> string \<Rightarrow> string \<Rightarrow> string" where
  "foreign_sibling_path oe command dir =
     (let canonical = clean dir; parent = dir_of canonical
      in if command = [] \<or> \<not> guard_applies oe canonical then []
         else first_token (map (\<lambda>pre. scan_tokens oe canonical pre command)
           ((parent @ [slash]) # (case tilde_form oe parent of None \<Rightarrow> [] | Some t \<Rightarrow> [t @ [slash]]))))"

section \<open>The environment of a command\<close>

definition shell_env_allowlist :: "string list" where
  "shell_env_allowlist =
     [''HOME'', ''PATH'', ''USER'', ''LOGNAME'', ''SHELL'', ''TERM'', ''TMPDIR'', ''TZ'', ''PWD'', ''LANG'',
      ''GOPATH'', ''GOCACHE'', ''GOMODCACHE'', ''GOROOT'', ''GOFLAGS'', ''GOPROXY'',
      ''HTTP_PROXY'', ''HTTPS_PROXY'', ''NO_PROXY'', ''http_proxy'', ''https_proxy'', ''no_proxy'']"

definition shell_env_allowed :: "string \<Rightarrow> bool" where
  "shell_env_allowed name \<longleftrightarrow> name \<in> set shell_env_allowlist \<or> has_prefix name ''LC_''"

definition scrubbed_env :: "string list \<Rightarrow> string list" where
  "scrubbed_env environ = filter (\<lambda>kv. CHR ''='' \<in> set kv \<and> shell_env_allowed (cut_before CHR ''='' kv)) environ"

section \<open>Running a command\<close>

datatype shell_end = ShellOk | ShellDeadline | ShellWaitDelay | ShellExit string

record shell_env =
  sh_environ :: "string list"
  sh_duration_text :: "int \<Rightarrow> string"
  sh_run :: "string \<Rightarrow> string \<Rightarrow> int \<Rightarrow> string list \<Rightarrow> fs \<Rightarrow> string \<times> shell_end \<times> fs"
    \<comment> \<open>directory, command, time limit, environment\<close>

definition max_shell_timeout :: int where "max_shell_timeout = 600000000000"
definition default_shell_timeout :: int where "default_shell_timeout = 120000000000"

text \<open>The requested seconds become nanoseconds in 64 bits, where the product can wrap.\<close>

definition shell_timeout :: "int \<Rightarrow> int" where
  "shell_timeout seconds =
     (let t = sint ((word_of_int seconds :: 64 word) * 1000000000);
          t1 = (if t \<le> 0 then default_shell_timeout else t)
      in if max_shell_timeout < t1 then max_shell_timeout else t1)"

definition shell_result :: "shell_env \<Rightarrow> int \<Rightarrow> string \<Rightarrow> shell_end \<Rightarrow> string \<times> string option" where
  "shell_result sh timeout out ending =
     (case ending of
        ShellOk \<Rightarrow> (out, None)
      | ShellDeadline \<Rightarrow> (out, Some (''command timed out after '' @ sh_duration_text sh timeout
          @ '' (the entire process tree was killed); ''
          @ ''long-running processes must be started, exercised, and stopped within a single command''))
      | ShellWaitDelay \<Rightarrow> (out, Some (''command exited but a background child kept running and held the output stream; ''
          @ ''start, exercise, and stop background processes within one command (e.g. ''
          @ [CHR 0x60] @ ''srv & sleep 1; curl ...; kill %1'' @ [CHR 0x60] @ '')''))
      | ShellExit e \<Rightarrow> (out @ [newline] @ ''exit status: '' @ e, None))"

definition canonical_refused :: "core_tools \<Rightarrow> string" where
  "canonical_refused ct =
     ''this task runs in an isolated branch and the shell tool cannot reference the ''
     @ ''workspace path '' @ fmt_q (ct_alias ct) @ '' by absolute path here; re-run the command using paths relative to the working ''
     @ ''directory instead (e.g. '' @ [CHR 0x60] @ ''go build ./...'' @ [CHR 0x60] @ '' rather than an absolute path)''"

definition foreign_refused :: "string \<Rightarrow> string" where
  "foreign_refused p =
     ''the command references '' @ fmt_q p @ '', which is outside this session's workspace '' @ em_dash @ '' likely a ''
     @ ''mistyped workspace path or another job's directory; use paths relative to the working directory ''
     @ ''instead (e.g. '' @ [CHR 0x60] @ ''ls backend/'' @ [CHR 0x60] @ '' rather than an absolute path)''"

text \<open>The text for the model, the error if there is one, and the file system afterwards.\<close>

definition shell ::
  "os_env \<Rightarrow> shell_env \<Rightarrow> core_tools \<Rightarrow> fs \<Rightarrow> string + string \<times> int \<Rightarrow> (string \<times> string option) \<times> fs" where
  "shell oe sh ct fs args =
     (if \<not> ct_allow_shell ct then (([], Some ''shell tool is disabled''), fs)
      else case args of
        Inl e \<Rightarrow> (([], Some (''parsing arguments: '' @ e)), fs)
      | Inr (command, seconds) \<Rightarrow>
          if ct_alias ct \<noteq> [] \<and> ct_alias ct \<noteq> ct_work_dir ct \<and> references_canonical_path oe command (ct_alias ct)
          then (([], Some (canonical_refused ct)), fs)
          else let p = foreign_sibling_path oe command (canonical_workspace ct) in
            if p \<noteq> [] then (([], Some (foreign_refused p)), fs)
            else case sh_run sh (ct_work_dir ct) command (shell_timeout seconds) (scrubbed_env (sh_environ sh)) fs of
                   (out, ending, fs1) \<Rightarrow> (shell_result sh (shell_timeout seconds) out ending, fs1))"

section \<open>Fetching\<close>

record net_env =
  nt_split :: "string \<Rightarrow> string + string \<times> string"       \<comment> \<open>host and port\<close>
  nt_lookup :: "string \<Rightarrow> string + ip list"
  nt_ip_text :: "ip \<Rightarrow> string"
  nt_dial :: "ip \<Rightarrow> string \<Rightarrow> string + nat"              \<comment> \<open>an address and a port; a connection\<close>
  nt_url :: "string \<Rightarrow> string + string"                  \<comment> \<open>the scheme\<close>
  nt_do :: "string \<Rightarrow> string + nat \<times> string \<times> string option"
    \<comment> \<open>status, body, error while reading it\<close>

fun dial_first :: "net_env \<Rightarrow> string \<Rightarrow> string \<Rightarrow> ip list \<Rightarrow> string + nat" where
  "dial_first nt port err [] = Inl err"
| "dial_first nt port err (ip # ips) =
     (case nt_dial nt ip port of Inr c \<Rightarrow> Inr c | Inl e \<Rightarrow> dial_first nt port e ips)"

definition safe_dial :: "net_env \<Rightarrow> string \<Rightarrow> string + nat" where
  "safe_dial nt addr =
     (case nt_split nt addr of
        Inl e \<Rightarrow> Inl e
      | Inr (host, port) \<Rightarrow>
          (case nt_lookup nt host of
             Inl e \<Rightarrow> Inl e
           | Inr ips \<Rightarrow>
               (case find is_private_ip ips of
                  Some ip \<Rightarrow> Inl (''access to private/reserved IP '' @ nt_ip_text nt ip @ '' is blocked'')
                | None \<Rightarrow> dial_first nt port [] ips)))"

definition max_body_bytes :: nat where "max_body_bytes = 2 ^ 20"

definition web_fetch :: "net_env \<Rightarrow> string + string \<Rightarrow> string + string" where
  "web_fetch nt args =
     (case args of
        Inl e \<Rightarrow> Inl (''parsing arguments: '' @ e)
      | Inr url \<Rightarrow>
          if url = [] then Inl ''url is required''
          else case nt_url nt url of
                 Inl e \<Rightarrow> Inl (''invalid URL: '' @ e)
               | Inr scheme \<Rightarrow>
                   if scheme \<noteq> ''http'' \<and> scheme \<noteq> ''https''
                   then Inl (''unsupported URL scheme '' @ fmt_q scheme @ '' (only http and https allowed)'')
                   else case nt_do nt url of
                          Inl e \<Rightarrow> Inl (''fetching URL: '' @ e)
                        | Inr (status, stream, fault) \<Rightarrow>
                            if fault \<noteq> None then Inl (''reading response: '' @ the fault)
                            else let body = take max_body_bytes stream
                              in if 400 \<le> status then Inl (''HTTP '' @ digits_of status @ '': '' @ body)
                                 else Inr body)"

section \<open>Dispatch\<close>

text \<open>
  The decoders stand for \<open>json.Unmarshal\<close> into the tools' argument structs. Searching (\<open>glob\<close>,
  \<open>grep\<close>, the notes), the catalogue, the progress tools and spawning are answers of the
  environment here: none of them writes a file.
\<close>

record core_env =
  ce_os :: os_env
  ce_note :: note_env
  ce_shell :: shell_env
  ce_net :: net_env
  ce_read_args :: "string \<Rightarrow> string + string \<times> int \<times> int"
  ce_write_args :: "string \<Rightarrow> string + string \<times> string"
  ce_edit_args :: "string \<Rightarrow> string + string \<times> string \<times> string"
  ce_shell_args :: "string \<Rightarrow> string + string \<times> int"
  ce_url_args :: "string \<Rightarrow> string + string"
  ce_note_args :: "string \<Rightarrow> string + string \<times> string"
  ce_id_args :: "string \<Rightarrow> string + string"
  ce_answer :: "string \<Rightarrow> string \<Rightarrow> fs \<Rightarrow> string + string"

definition as_outcome :: "string + string \<Rightarrow> string \<times> string option" where
  "as_outcome r = (case r of Inl e \<Rightarrow> ([], Some e) | Inr t \<Rightarrow> (t, None))"

definition unknown_core_tool :: "string \<Rightarrow> string \<times> string option" where
  "unknown_core_tool name = ([], Some (''unknown tool: '' @ name))"

definition kb_tools :: "string list" where
  "kb_tools = [''job_note_write'', ''job_notes_search'', ''job_note_read'']"

definition answering_tools :: "string list" where
  "answering_tools = [''glob'', ''grep'', ''spawn_worker'', ''query_graphs'', ''job_notes_search'',
     ''report_task_progress'', ''update_task_status'', ''request_review'', ''query_job_context'', ''log_artifact'']"

definition core_execute ::
  "core_env \<Rightarrow> core_tools \<Rightarrow> string \<Rightarrow> string \<Rightarrow> fs \<Rightarrow> (string \<times> string option) \<times> fs" where
  "core_execute ce ct name args fs =
     (let oe = ce_os ce; answer = (\<lambda>r. (as_outcome r, fs)); change = (\<lambda>(r, fs1). (as_outcome r, fs1))
      in if name \<in> set (ct_denied ct)
         then (([], Some (''tool '' @ fmt_q name @ '' is not allowed for this worker'')), fs)
         else if name \<in> set kb_tools \<and> \<not> ct_kb_enabled ct then (unknown_core_tool name, fs)
         else if name = ''read_file'' then answer (read_file oe ct fs (ce_read_args ce args))
         else if name = ''write_file'' then change (write_file oe ct fs (ce_write_args ce args))
         else if name = ''edit_file'' then change (edit_file oe ct fs (ce_edit_args ce args))
         else if name = ''shell'' then shell oe (ce_shell ce) ct fs (ce_shell_args ce args)
         else if name = ''web_fetch'' then answer (web_fetch (ce_net ce) (ce_url_args ce args))
         else if name = ''job_note_write'' then change (job_note_write oe (ce_note ce) ct fs (ce_note_args ce args))
         else if name = ''job_note_read'' then answer (job_note_read oe ct fs (ce_id_args ce args))
         else if name \<in> set answering_tools then answer (ce_answer ce name args fs)
         else (unknown_core_tool name, fs))"

text \<open>A worker bound to a job and a task reports for them, whatever ids it gives.\<close>

definition session_bound :: "core_tools \<Rightarrow> bool" where
  "session_bound ct \<longleftrightarrow> ct_job ct \<noteq> [] \<and> ct_task ct \<noteq> []"

definition normalize_progress_ids :: "core_tools \<Rightarrow> string \<times> string \<Rightarrow> string \<times> string" where
  "normalize_progress_ids ct ids =
     (if session_bound ct then (ct_job ct, ct_task ct)
      else (if fst ids = [] then ct_job ct else fst ids, if snd ids = [] then ct_task ct else snd ids))"

definition normalize_progress_job_id :: "core_tools \<Rightarrow> string \<Rightarrow> string" where
  "normalize_progress_job_id ct jid = (if session_bound ct \<or> jid = [] then ct_job ct else jid)"

section \<open>Every file tool stays in the sandbox\<close>

definition all_inside :: "string list \<Rightarrow> fs \<Rightarrow> fs \<Rightarrow> bool" where
  "all_inside w fs fs' \<longleftrightarrow> (\<forall>q. fs' q \<noteq> fs q \<longrightarrow> prefix w q)"

lemma all_inside_same [simp]: "all_inside w fs fs"
  by (simp add: all_inside_def)

text \<open>The workspace: an absolute world with a root, and no link where the guard leads.\<close>

definition plain_workspace :: "os_env \<Rightarrow> core_tools \<Rightarrow> fs \<Rightarrow> string list \<Rightarrow> bool" where
  "plain_workspace oe ct fs w \<longleftrightarrow> is_abs (os_cwd oe) \<and> fs [] = Some NDir
     \<and> real_path oe fs (ct_work_dir ct) = Some w
     \<and> (\<forall>path p. resolve_path oe ct fs path = Inr p \<longrightarrow> no_links fs (path_parts p))"

lemma resolved_inside:
  assumes "plain_workspace oe ct fs w" "resolve_path oe ct fs path = Inr p"
  obtains ps where "p = render ps" "\<forall>c\<in>set ps. plain_part c" "no_links fs ps" "resolved_at fs w" "prefix w ps"
proof -
  have w: "is_abs (os_cwd oe)" "fs [] = Some NDir" "real_path oe fs (ct_work_dir ct) = Some w"
    and nl: "no_links fs (path_parts p)"
    using assms unfolding plain_workspace_def by blast+
  obtain w' ps where r: "real_path oe fs (ct_work_dir ct) = Some w'" "resolved_at fs w'" "p = render ps"
    "prefix w' ps" "\<forall>c\<in>set ps. plain_part c"
    by (rule resolve_path_below [OF assms(2) w(1,2)])
  have "w' = w" using r(1) w(3) by simp
  moreover have "no_links fs ps" using nl r(3,5) by simp
  ultimately show thesis using that r by blast
qed

lemma make_and_write_inside:
  assumes "plain_workspace oe ct fs w" "resolve_path oe ct fs path = Inr p"
  shows "all_inside w fs (snd (make_and_write oe a b p x fs))"
proof -
  obtain ps where p: "p = render ps" "\<forall>c\<in>set ps. plain_part c" "no_links fs ps" "resolved_at fs w" "prefix w ps"
    by (rule resolved_inside [OF assms])
  obtain r fs' where m: "make_and_write oe a b (render ps) x fs = (r, fs')" by fastforce
  show ?thesis
    using make_and_write_changes [OF m p(3,2,4,5)] unfolding p(1) m all_inside_def by simp
qed

lemma write_inside:
  assumes "plain_workspace oe ct fs w" "resolve_path oe ct fs path = Inr p" "write_path fs p x = Some fs'"
  shows "all_inside w fs fs'"
proof -
  obtain ps where p: "p = render ps" "\<forall>c\<in>set ps. plain_part c" "no_links fs ps" "resolved_at fs w" "prefix w ps"
    by (rule resolved_inside [OF assms(1,2)])
  have "fs' = fs(ps \<mapsto> NFile x)" using write_path_changes [OF assms(3) [unfolded p(1)] p(3,2)] .
  then show ?thesis using p(5) by (simp add: all_inside_def)
qed

lemma write_file_inside: "plain_workspace oe ct fs w \<Longrightarrow> all_inside w fs (snd (write_file oe ct fs args))"
  using make_and_write_inside [of oe ct fs w]
  by (auto simp: write_file_def split: sum.split prod.split) (metis snd_conv)+

lemma edit_file_inside: "plain_workspace oe ct fs w \<Longrightarrow> all_inside w fs (snd (edit_file oe ct fs args))"
  using write_inside [of oe ct fs w]
  by (auto simp: edit_file_def Let_def split: sum.split option.split node.split)

lemma job_note_inside: "plain_workspace oe ct fs w \<Longrightarrow> all_inside w fs (snd (job_note_write oe ne ct fs args))"
  using make_and_write_inside [of oe ct fs w]
  by (auto simp: job_note_write_def Let_def split: sum.split prod.split) (metis snd_conv)+


section \<open>The shell's guards\<close>

lemma scan_tokens_complete:
  assumes "scan_tokens oe canonical pre s = None" "s = a @ b" "a = [] \<or> shell_meta (last a)"
    and "has_prefix b pre" "pre \<noteq> []" "\<forall>c\<in>set pre. \<not> shell_meta c"
  shows "\<not> foreign_token oe canonical (path_token b)"
  using assms
proof (induction oe canonical pre s arbitrary: a rule: scan_tokens.induct)
  case (1 oe canonical pre)
  then show ?case by (simp add: has_prefix_def)
next
  case (2 oe canonical pre c s)
  show ?case
  proof (cases "has_prefix (c # s) pre")
    case True
    then have nf: "\<not> foreign_token oe canonical (path_token (c # s))"
      and rest: "scan_tokens oe canonical pre (drop (length pre - 1) s) = None"
      using "2.prems"(1) by (auto split: if_splits)
    show ?thesis
    proof (cases a)
      case Nil
      then show ?thesis using nf "2.prems"(2) by simp
    next
      case (Cons d a')
      have "length pre < length a"
      proof (rule ccontr)
        assume "\<not> length pre < length a"
        then have "prefix a pre"
          using True "2.prems"(2) by (metis has_prefix_def linorder_not_less prefixI prefix_length_prefix)
        then have "a = take (length a) pre" by (auto simp: prefix_def)
        then have "last a \<in> set pre" using Cons by (metis in_set_takeD last_in_set list.distinct(1))
        then show False using "2.prems"(3,6) Cons by auto
      qed
      moreover obtain p ps where ps: "pre = p # ps" using "2.prems"(5) by (cases pre) auto
      ultimately have "length ps < length a'" using Cons by simp
      then have "drop (length pre - 1) s = drop (length pre) a @ b" "drop (length pre) a \<noteq> []"
        "last (drop (length pre) a) = last a'"
        using "2.prems"(2) Cons ps by (simp_all add: last_drop)
      then have "drop (length pre - 1) s = drop (length pre) a @ b" "drop (length pre) a \<noteq> []"
        "last (drop (length pre) a) = last a"
        using Cons \<open>length ps < length a'\<close> by auto
      then show ?thesis using "2.IH"(1) [OF True nf rest] "2.prems"(3-6) Cons by auto
    qed
  next
    case False
    then show ?thesis
      using "2.IH"(2) [OF False] "2.prems" by (cases a) (auto split: if_splits)
  qed
qed

lemma shell_timeout_bounds: "0 < shell_timeout s \<and> shell_timeout s \<le> max_shell_timeout"
  by (simp add: shell_timeout_def Let_def max_shell_timeout_def default_shell_timeout_def)

lemma first_token_none:
  "first_token os = [] \<Longrightarrow> \<forall>t\<in>set os. t \<noteq> Some [] \<Longrightarrow> \<forall>t\<in>set os. t = None"
  by (induction os rule: first_token.induct) auto

lemma scan_tokens_some:
  "scan_tokens oe canonical pre s = Some t \<Longrightarrow> pre \<noteq> [] \<Longrightarrow> \<not> shell_meta (hd pre) \<Longrightarrow> t \<noteq> []"
proof (induction oe canonical pre s rule: scan_tokens.induct)
  case (2 oe canonical pre c s)
  have "has_prefix (c # s) pre \<Longrightarrow> hd pre = c" using "2.prems"(2) by (cases pre) (auto simp: has_prefix_def)
  then have "has_prefix (c # s) pre \<Longrightarrow> path_token (c # s) \<noteq> []" using "2.prems"(3) by (simp add: path_token_def)
  then show ?case using 2 by (auto split: if_splits)
qed simp

lemma no_foreign_token:
  assumes "foreign_sibling_path oe command dir = []" "guard_applies oe (clean dir)"
    and "command = a @ b" "a = [] \<or> shell_meta (last a)"
    and "has_prefix b (dir_of (clean dir) @ [slash])"
    and "dir_of (clean dir) \<noteq> []" "\<forall>c\<in>set (dir_of (clean dir)). \<not> shell_meta c"
  shows "\<not> foreign_token oe (clean dir) (path_token b)"
proof (cases "command = []")
  case True
  then show ?thesis using assms(3,5) by (auto simp: has_prefix_def)
next
  case False
  let ?c = "clean dir" and ?p = "dir_of (clean dir)"
  let ?os = "map (\<lambda>pre. scan_tokens oe ?c pre command)
      ((?p @ [slash]) # (case tilde_form oe ?p of None \<Rightarrow> [] | Some t \<Rightarrow> [t @ [slash]]))"
  have first: "first_token ?os = []"
    using assms(1,2) False by (simp add: foreign_sibling_path_def Let_def)
  have sm: "\<not> shell_meta slash" "\<not> shell_meta (CHR ''~'')" by (simp_all add: shell_meta_def slash_def)
  have "hd (t @ [slash]) = CHR ''~''" if "tilde_form oe ?p = Some t" for t
    using that by (auto simp: tilde_form_def split: option.splits if_splits)
  note tilde = this
  have "\<forall>t\<in>set ?os. t \<noteq> Some []"
  proof -
    have "\<not> shell_meta (hd (?p @ [slash]))" using assms(6,7) by simp
    then have "scan_tokens oe ?c (?p @ [slash]) command \<noteq> Some []"
      using scan_tokens_some [of oe ?c "?p @ [slash]" command "[]"] by auto
    moreover have "scan_tokens oe ?c (t @ [slash]) command \<noteq> Some []" if "tilde_form oe ?p = Some t" for t
      using scan_tokens_some [of oe ?c "t @ [slash]" command "[]"] tilde [OF that] sm(2) by auto
    ultimately show ?thesis by (auto split: option.split)
  qed
  then have "scan_tokens oe ?c (?p @ [slash]) command = None" using first_token_none [OF first] by simp
  then show ?thesis
    using scan_tokens_complete [OF _ assms(3,4,5)] assms(7) sm by simp
qed


section \<open>Dialling\<close>

text \<open>
  The client behind \<open>web_fetch\<close> never connects to a private address: what dialling such
  addresses would do makes no difference to any connection.
\<close>

theorem safe_dial_public:
  assumes "\<forall>ip port. \<not> is_private_ip ip \<longrightarrow> d ip port = nt_dial nt ip port"
  shows "safe_dial (nt\<lparr>nt_dial := d\<rparr>) addr = safe_dial nt addr"
proof -
  have "dial_first (nt\<lparr>nt_dial := d\<rparr>) port e ips = dial_first nt port e ips"
    if "\<forall>ip\<in>set ips. \<not> is_private_ip ip" for ips port e
    using that assms by (induction ips arbitrary: e) (auto split: sum.split)
  then have "find is_private_ip ips = None \<Longrightarrow> dial_first (nt\<lparr>nt_dial := d\<rparr>) port e ips = dial_first nt port e ips" for ips port e
    by (simp add: find_None_iff)
  then show ?thesis by (simp add: safe_dial_def split: sum.split option.split prod.split)
qed

section \<open>The statements on concrete calls\<close>

definition plain_fs :: fs where
  "plain_fs = map_of [([], NDir), ([''ws''], NDir), ([''etc''], NDir)]"

definition sample_shell :: shell_env where
  "sample_shell = \<lparr>sh_environ = [''PATH=/bin'', ''ANTHROPIC_API_KEY=k''], sh_duration_text = (\<lambda>n. ''2m0s''),
     sh_run = (\<lambda>d c t e fs. (''ok'', ShellOk, fs))\<rparr>"

definition sample_net :: net_env where
  "sample_net = \<lparr>nt_split = (\<lambda>a. Inr (a, ''443'')), nt_lookup = (\<lambda>h. Inr [[10, 0, 0, 1]]), nt_ip_text = (\<lambda>ip. ''ip''),
     nt_dial = (\<lambda>ip p. Inr 1), nt_url = (\<lambda>u. Inr ''https''), nt_do = (\<lambda>u. Inr (200, ''body'', None))\<rparr>"

definition sample_core_env :: core_env where
  "sample_core_env = \<lparr>ce_os = sample_os, ce_note = \<lparr>ne_time = ''20260101'', ne_random = Inr ''00ff00''\<rparr>,
     ce_shell = sample_shell, ce_net = sample_net, ce_read_args = (\<lambda>a. Inr (a, 0, 0)),
     ce_write_args = (\<lambda>a. Inr (a, ''x'')), ce_edit_args = (\<lambda>a. Inr (a, ''x'', ''y'')),
     ce_shell_args = (\<lambda>a. Inr (a, 5)), ce_url_args = Inr, ce_note_args = (\<lambda>a. Inr (a, ''found it'')),
     ce_id_args = Inr, ce_answer = (\<lambda>n a fs. Inr ''(no matches)'')\<rparr>"

lemma plain_sample: "plain_workspace sample_os sample_core plain_fs [''ws'']"
proof -
  have "no_links plain_fs ps" for ps by (auto simp: no_links_def plain_fs_def)
  moreover have "is_abs (os_cwd sample_os)" "plain_fs [] = Some NDir"
    "real_path sample_os plain_fs (ct_work_dir sample_core) = Some [''ws'']" by code_simp+
  ultimately show ?thesis by (simp add: plain_workspace_def)
qed


definition two_level_core :: core_tools where
  "two_level_core = sample_core\<lparr>ct_work_dir := ''/w/j''\<rparr>"


lemma safe_dial_witness:
  "safe_dial (sample_net\<lparr>nt_dial := \<lambda>ip p. if is_private_ip ip then Inl ''reached'' else Inr 1\<rparr>) ''host''
     = Inl ''access to private/reserved IP ip is blocked''"
proof -
  have "safe_dial (sample_net\<lparr>nt_dial := \<lambda>ip p. if is_private_ip ip then Inl ''reached'' else Inr 1\<rparr>) ''host''
      = safe_dial sample_net ''host''"
    by (rule safe_dial_public) (simp add: sample_net_def)
  also have "\<dots> = Inl ''access to private/reserved IP ip is blocked''" by code_simp
  finally show ?thesis .
qed

end
