(* ===== verification/GraphDef.thy ===== *)
theory GraphDef
  imports Complex_Main Json
begin

text \<open>
  The declarative graphs of \<open>internal/graphexec/definition.go\<close>: the definition a user writes
  and its validation, every error of it in the order of the code. Reading the YAML is left out
  (\<open>gopkg.in/yaml.v3\<close>); the value of a branch's \<open>when\<close> is whatever that package decodes, a
  type parameter here. The text Go prints for a temperature is a parameter as well.
\<close>

section \<open>Definitions\<close>

text \<open>YAML admits \<open>.inf\<close> and \<open>.nan\<close> where a float is expected.\<close>

datatype float64 = Finite rat | PosInf | NegInf | NotNumber

fun float_less :: "float64 \<Rightarrow> float64 \<Rightarrow> bool" where
  "float_less (Finite x) (Finite y) \<longleftrightarrow> x < y"
| "float_less (Finite x) PosInf \<longleftrightarrow> True"
| "float_less NegInf (Finite x) \<longleftrightarrow> True"
| "float_less NegInf PosInf \<longleftrightarrow> True"
| "float_less _ _ \<longleftrightarrow> False"

record fanout_branch =
  fb_role :: string
  fb_slots :: "(string \<times> string) list"
  fb_temperature :: "float64 option"
  fb_thinking :: "bool option"
  fb_model :: string

record reduce_spec =
  rd_strategy :: string
  rd_key :: string
  rd_role :: string

record fanout =
  fo_count :: int
  fo_branch :: "fanout_branch option"
  fo_branches :: "fanout_branch list"
  fo_reduce :: "reduce_spec option"
  fo_max_parallel :: int
  fo_quorum :: int
  fo_on_error :: string

record graph_node =
  gn_id :: string
  gn_role :: string
  gn_graph :: string
  gn_slots :: "(string \<times> string) list"
  gn_fanout :: "fanout option"

record 'v branch =
  br_when :: 'v
  br_to :: string

record 'v router =
  ro_on :: string
  ro_branches :: "'v branch list"
  ro_default :: string

record 'v edge =
  ed_from :: string
  ed_to :: string
  ed_router :: "'v router option"

record 'v graph_def =
  gd_id :: string
  gd_name :: string
  gd_description :: string
  gd_tags :: "string list"
  gd_input_schema :: string
  gd_output_schema :: string
  gd_entry :: string
  gd_exit :: string
  gd_nodes :: "graph_node list"
  gd_edges :: "'v edge list"
  gd_max_iterations :: int

definition end_node :: string where "end_node = ''end''"
definition reduce_collect_name :: string where "reduce_collect_name = ''collect''"
definition reduce_first_success_name :: string where "reduce_first_success_name = ''first_success''"
definition reduce_majority_name :: string where "reduce_majority_name = ''majority''"
definition on_error_continue :: string where "on_error_continue = ''continue''"
definition on_error_fail_fast :: string where "on_error_fail_fast = ''fail_fast''"

lemmas graph_names = end_node_def reduce_collect_name_def reduce_first_success_name_def
  reduce_majority_name_def on_error_continue_def on_error_fail_fast_def

section \<open>Path expressions\<close>

definition name_char :: "char \<Rightarrow> bool" where
  "name_char c \<longleftrightarrow> (CHR ''A'' \<le> c \<and> c \<le> CHR ''Z'') \<or> (CHR ''a'' \<le> c \<and> c \<le> CHR ''z'')
     \<or> (CHR ''0'' \<le> c \<and> c \<le> CHR ''9'') \<or> c = CHR ''_'' \<or> c = CHR ''-''"

definition field_char :: "char \<Rightarrow> bool" where
  "field_char c \<longleftrightarrow> name_char c \<or> c = CHR ''.''"

text \<open>\<open>$node.output.field\<close>: the node's name has no dot, so the first dot ends it.\<close>

definition parse_path :: "string \<Rightarrow> (string \<times> string) option" where
  "parse_path expr =
     (case expr of
        [] \<Rightarrow> None
      | c # s \<Rightarrow>
          if c \<noteq> CHR ''$'' then None
          else let nd = takeWhile name_char s; rest = dropWhile name_char s;
                   fld = drop (length ''.output.'') rest
            in if nd \<noteq> [] \<and> has_prefix rest ''.output.'' \<and> fld \<noteq> [] \<and> list_all field_char fld
               then Some (nd, fld) else None)"

section \<open>Validation\<close>

definition at_node :: "string \<Rightarrow> string \<Rightarrow> string" where
  "at_node gid nid = ''graph '' @ fmt_q gid @ '': node '' @ fmt_q nid @ '': ''"

definition at_edge :: "string \<Rightarrow> nat \<Rightarrow> string" where
  "at_edge gid i = ''graph '' @ fmt_q gid @ '': edge['' @ digits_of i @ '']''"

definition temperature_out_of_range :: "float64 \<Rightarrow> bool" where
  "temperature_out_of_range t \<longleftrightarrow> float_less t (Finite 0) \<or> float_less (Finite 2) t"

definition validate_fanout_branch :: "(float64 \<Rightarrow> string) \<Rightarrow> string \<Rightarrow> string \<Rightarrow> fanout_branch \<Rightarrow> string option" where
  "validate_fanout_branch fv gid nid b =
     (if is_blank (fb_role b) then Some (at_node gid nid @ ''fanout branch role is required'')
      else case fb_temperature b of
        None \<Rightarrow> None
      | Some t \<Rightarrow> if temperature_out_of_range t
                  then Some (at_node gid nid @ ''fanout branch temperature must be in [0, 2], got '' @ fv t)
                  else None)"

fun validate_branch_list ::
  "(float64 \<Rightarrow> string) \<Rightarrow> string \<Rightarrow> string \<Rightarrow> nat \<Rightarrow> fanout_branch list \<Rightarrow> string option" where
  "validate_branch_list fv gid nid i [] = None"
| "validate_branch_list fv gid nid i (b # bs) =
     (case validate_fanout_branch fv gid nid b of
        Some e \<Rightarrow> Some (at_node gid nid @ ''fanout branches['' @ digits_of i @ '']: '' @ e)
      | None \<Rightarrow> validate_branch_list fv gid nid (Suc i) bs)"

definition validate_shape :: "(float64 \<Rightarrow> string) \<Rightarrow> string \<Rightarrow> string \<Rightarrow> fanout \<Rightarrow> string option" where
  "validate_shape fv gid nid f =
     (case (fo_branch f, fo_branches f) of
        (Some b, _ # _) \<Rightarrow> Some (at_node gid nid
            @ ''fanout sets both branch (count form) and branches (list form); pick one'')
      | (None, []) \<Rightarrow> Some (at_node gid nid @ ''fanout must set count+branch or branches'')
      | (Some b, []) \<Rightarrow>
          if fo_count f < 1
          then Some (at_node gid nid @ ''fanout count must be >= 1, got '' @ fmt_int (fo_count f))
          else validate_fanout_branch fv gid nid b
      | (None, bs) \<Rightarrow> validate_branch_list fv gid nid 0 bs)"

definition validate_reduce :: "string \<Rightarrow> string \<Rightarrow> reduce_spec \<Rightarrow> string option" where
  "validate_reduce gid nid r =
     (let has_strategy = \<not> is_blank (rd_strategy r); has_role = \<not> is_blank (rd_role r)
      in if has_strategy \<and> has_role
         then Some (at_node gid nid @ ''fanout reduce sets both strategy and role (pick one)'')
         else if \<not> has_strategy \<and> \<not> has_role
         then Some (at_node gid nid @ ''fanout reduce must set strategy or role'')
         else if has_strategy
         then (if rd_strategy r = reduce_collect_name \<or> rd_strategy r = reduce_first_success_name then None
               else if rd_strategy r = reduce_majority_name
               then (if is_blank (rd_key r)
                     then Some (at_node gid nid @ ''fanout reduce strategy '' @ fmt_q reduce_majority_name
                                @ '' requires a key'')
                     else None)
               else Some (at_node gid nid @ ''unknown fanout reduce strategy '' @ fmt_q (rd_strategy r)))
         else None)"

definition validate_fanout :: "(float64 \<Rightarrow> string) \<Rightarrow> string \<Rightarrow> string \<Rightarrow> fanout \<Rightarrow> string option" where
  "validate_fanout fv gid nid f =
     (case validate_shape fv gid nid f of
        Some e \<Rightarrow> Some e
      | None \<Rightarrow>
          if fo_max_parallel f < 0 then Some (at_node gid nid @ ''fanout max_parallel must be >= 0'')
          else if fo_quorum f < 0 then Some (at_node gid nid @ ''fanout quorum must be >= 0'')
          else if fo_on_error f \<noteq> [] \<and> fo_on_error f \<noteq> on_error_continue \<and> fo_on_error f \<noteq> on_error_fail_fast
          then Some (at_node gid nid @ ''fanout on_error must be '' @ fmt_q on_error_continue @ '' or ''
                     @ fmt_q on_error_fail_fast @ '', got '' @ fmt_q (fo_on_error f))
          else case fo_reduce f of
                 None \<Rightarrow> Some (at_node gid nid @ ''fanout reduce is required'')
               | Some r \<Rightarrow> validate_reduce gid nid r)"

definition handlers_set :: "graph_node \<Rightarrow> nat" where
  "handlers_set n = (if is_blank (gn_role n) then 0 else 1) + (if is_blank (gn_graph n) then 0 else 1)
     + (if gn_fanout n = None then 0 else 1)"

fun validate_nodes ::
  "(float64 \<Rightarrow> string) \<Rightarrow> string \<Rightarrow> nat \<Rightarrow> string list \<Rightarrow> graph_node list \<Rightarrow> string option" where
  "validate_nodes fv gid i seen [] = None"
| "validate_nodes fv gid i seen (n # ns) =
     (if is_blank (gn_id n)
      then Some (''graph '' @ fmt_q gid @ '': node['' @ digits_of i @ ''] has empty id'')
      else if gn_id n = end_node
      then Some (''graph '' @ fmt_q gid @ '': node id '' @ fmt_q (gn_id n) @ '' collides with the end sentinel'')
      else if gn_id n \<in> set seen
      then Some (''graph '' @ fmt_q gid @ '': duplicate node id '' @ fmt_q (gn_id n))
      else if handlers_set n = 0
      then Some (''graph '' @ fmt_q gid @ '': node '' @ fmt_q (gn_id n) @ '' must set role, graph, or fanout'')
      else if 1 < handlers_set n
      then Some (''graph '' @ fmt_q gid @ '': node '' @ fmt_q (gn_id n)
                 @ '' sets more than one of role/graph/fanout (pick one)'')
      else case (case gn_fanout n of None \<Rightarrow> None | Some f \<Rightarrow> validate_fanout fv gid (gn_id n) f) of
             Some e \<Rightarrow> Some e
           | None \<Rightarrow> validate_nodes fv gid (Suc i) (gn_id n # seen) ns)"

definition valid_dest :: "string list \<Rightarrow> string \<Rightarrow> bool" where
  "valid_dest ids d \<longleftrightarrow> d = end_node \<or> d \<in> set ids"

fun validate_branches :: "string list \<Rightarrow> string \<Rightarrow> nat \<Rightarrow> 'v branch list \<Rightarrow> string option" where
  "validate_branches ids pre j [] = None"
| "validate_branches ids pre j (b # bs) =
     (if is_blank (br_to b) then Some (pre @ ''branch['' @ digits_of j @ ''] missing to'')
      else if \<not> valid_dest ids (br_to b)
      then Some (pre @ ''branch['' @ digits_of j @ ''] to '' @ fmt_q (br_to b) @ '' is not a declared node'')
      else validate_branches ids pre (Suc j) bs)"

definition validate_router_shape :: "string list \<Rightarrow> string \<Rightarrow> 'v router \<Rightarrow> string option" where
  "validate_router_shape ids pre r =
     (if is_blank (ro_on r) then Some (pre @ ''router.on is required'')
      else case parse_path (ro_on r) of
        None \<Rightarrow> Some (pre @ ''router.on '' @ fmt_q (ro_on r)
                  @ '' is not a valid expression (expected $node.output.field)'')
      | Some (src, fld) \<Rightarrow>
          if src \<notin> set ids then Some (pre @ ''router.on references unknown node '' @ fmt_q src)
          else if ro_branches r = [] \<and> ro_default r = []
          then Some (pre @ ''router has no branches or default'')
          else case validate_branches ids pre 0 (ro_branches r) of
                 Some e \<Rightarrow> Some e
               | None \<Rightarrow>
                   if ro_default r \<noteq> [] \<and> \<not> valid_dest ids (ro_default r)
                   then Some (pre @ ''router default '' @ fmt_q (ro_default r) @ '' is not a declared node'')
                   else None)"

definition validate_edge :: "string \<Rightarrow> string list \<Rightarrow> nat \<Rightarrow> 'v edge \<Rightarrow> string option" where
  "validate_edge gid ids i e =
     (let from = '' from '' @ fmt_q (ed_from e)
      in if is_blank (ed_from e) then Some (at_edge gid i @ '' missing from'')
         else if ed_from e \<notin> set ids
         then Some (at_edge gid i @ '': from '' @ fmt_q (ed_from e) @ '' is not a declared node'')
         else case (\<not> is_blank (ed_to e), ed_router e) of
           (True, Some r) \<Rightarrow> Some (at_edge gid i @ from @ '' sets both to and router'')
         | (False, None) \<Rightarrow> Some (at_edge gid i @ from @ '' sets neither to nor router'')
         | (True, None) \<Rightarrow>
             if \<not> valid_dest ids (ed_to e)
             then Some (at_edge gid i @ from @ '': to '' @ fmt_q (ed_to e) @ '' is not a declared node'')
             else None
         | (False, Some r) \<Rightarrow> validate_router_shape ids (at_edge gid i @ from @ '': '') r)"

fun validate_edges :: "string \<Rightarrow> string list \<Rightarrow> nat \<Rightarrow> 'v edge list \<Rightarrow> string option" where
  "validate_edges gid ids i [] = None"
| "validate_edges gid ids i (e # es) =
     (case validate_edge gid ids i e of Some err \<Rightarrow> Some err | None \<Rightarrow> validate_edges gid ids (Suc i) es)"

definition node_ids :: "'v graph_def \<Rightarrow> string list" where
  "node_ids d = map gn_id (gd_nodes d)"

definition validate :: "(float64 \<Rightarrow> string) \<Rightarrow> 'v graph_def \<Rightarrow> string option" where
  "validate fv d =
     (let gid = gd_id d; g = ''graph '' @ fmt_q gid
      in if is_blank gid then Some ''graph id is required''
         else if gd_nodes d = [] then Some (g @ '' has no nodes'')
         else if is_blank (gd_entry d) then Some (g @ '' has no entry node'')
         else if gd_max_iterations d < 0
         then Some (g @ '': max_iterations must be >= 0, got '' @ fmt_int (gd_max_iterations d))
         else case validate_nodes fv gid 0 [] (gd_nodes d) of
           Some e \<Rightarrow> Some e
         | None \<Rightarrow>
             if gd_entry d \<notin> set (node_ids d)
             then Some (g @ '': entry '' @ fmt_q (gd_entry d) @ '' is not a declared node'')
             else if gd_exit d \<noteq> [] \<and> gd_exit d \<notin> set (node_ids d)
             then Some (g @ '': exit '' @ fmt_q (gd_exit d) @ '' is not a declared node'')
             else validate_edges gid (node_ids d) 0 (gd_edges d))"

definition parse_definition ::
  "(string \<Rightarrow> string + 'v graph_def) \<Rightarrow> (float64 \<Rightarrow> string) \<Rightarrow> string \<Rightarrow> string + 'v graph_def" where
  "parse_definition yaml fv data =
     (case yaml data of
        Inl e \<Rightarrow> Inl (''parse graph yaml: '' @ e)
      | Inr d \<Rightarrow> (case validate fv d of Some e \<Rightarrow> Inl e | None \<Rightarrow> Inr d))"

section \<open>Well-formed definitions\<close>

definition branch_spec_ok :: "fanout_branch \<Rightarrow> bool" where
  "branch_spec_ok b \<longleftrightarrow> \<not> is_blank (fb_role b)
     \<and> (\<forall>t. fb_temperature b = Some t \<longrightarrow> \<not> temperature_out_of_range t)"

definition reduce_ok :: "reduce_spec \<Rightarrow> bool" where
  "reduce_ok r \<longleftrightarrow>
     (if is_blank (rd_strategy r) then \<not> is_blank (rd_role r)
      else is_blank (rd_role r)
        \<and> rd_strategy r \<in> {reduce_collect_name, reduce_first_success_name, reduce_majority_name}
        \<and> (rd_strategy r = reduce_majority_name \<longrightarrow> \<not> is_blank (rd_key r)))"

definition fanout_ok :: "fanout \<Rightarrow> bool" where
  "fanout_ok f \<longleftrightarrow>
     (case fo_branch f of
        Some b \<Rightarrow> fo_branches f = [] \<and> 1 \<le> fo_count f \<and> branch_spec_ok b
      | None \<Rightarrow> fo_branches f \<noteq> [] \<and> list_all branch_spec_ok (fo_branches f))
     \<and> 0 \<le> fo_max_parallel f \<and> 0 \<le> fo_quorum f
     \<and> fo_on_error f \<in> {[], on_error_continue, on_error_fail_fast}
     \<and> (\<exists>r. fo_reduce f = Some r \<and> reduce_ok r)"

definition node_ok :: "graph_node \<Rightarrow> bool" where
  "node_ok n \<longleftrightarrow> \<not> is_blank (gn_id n) \<and> gn_id n \<noteq> end_node \<and> handlers_set n = 1
     \<and> (\<forall>f. gn_fanout n = Some f \<longrightarrow> fanout_ok f)"

definition router_ok :: "string list \<Rightarrow> 'v router \<Rightarrow> bool" where
  "router_ok ids r \<longleftrightarrow> \<not> is_blank (ro_on r)
     \<and> (\<exists>src fld. parse_path (ro_on r) = Some (src, fld) \<and> src \<in> set ids)
     \<and> (ro_branches r \<noteq> [] \<or> ro_default r \<noteq> [])
     \<and> list_all (\<lambda>b. \<not> is_blank (br_to b) \<and> valid_dest ids (br_to b)) (ro_branches r)
     \<and> (ro_default r = [] \<or> valid_dest ids (ro_default r))"

definition edge_ok :: "string list \<Rightarrow> 'v edge \<Rightarrow> bool" where
  "edge_ok ids e \<longleftrightarrow> \<not> is_blank (ed_from e) \<and> ed_from e \<in> set ids
     \<and> (case ed_router e of
          None \<Rightarrow> \<not> is_blank (ed_to e) \<and> valid_dest ids (ed_to e)
        | Some r \<Rightarrow> is_blank (ed_to e) \<and> router_ok ids r)"

definition graph_ok :: "'v graph_def \<Rightarrow> bool" where
  "graph_ok d \<longleftrightarrow> \<not> is_blank (gd_id d) \<and> gd_nodes d \<noteq> [] \<and> \<not> is_blank (gd_entry d) \<and> 0 \<le> gd_max_iterations d
     \<and> distinct (node_ids d) \<and> list_all node_ok (gd_nodes d)
     \<and> gd_entry d \<in> set (node_ids d) \<and> (gd_exit d = [] \<or> gd_exit d \<in> set (node_ids d))
     \<and> list_all (edge_ok (node_ids d)) (gd_edges d)"

lemma first_error_None [simp]:
  "(case x of None \<Rightarrow> k | Some e \<Rightarrow> Some (g e)) = None \<longleftrightarrow> x = None \<and> k = None"
  by (simp split: option.split)

lemma validate_fanout_branch_iff: "validate_fanout_branch fv gid nid b = None \<longleftrightarrow> branch_spec_ok b"
  by (auto simp: validate_fanout_branch_def branch_spec_ok_def split: option.split)

lemma validate_branch_list_iff: "validate_branch_list fv gid nid i bs = None \<longleftrightarrow> list_all branch_spec_ok bs"
  by (induction bs arbitrary: i) (auto simp: validate_fanout_branch_iff)

lemma validate_reduce_iff: "validate_reduce gid nid r = None \<longleftrightarrow> reduce_ok r"
  by (auto simp: validate_reduce_def reduce_ok_def Let_def graph_names)

lemma validate_shape_iff:
  "validate_shape fv gid nid f = None \<longleftrightarrow>
     (case fo_branch f of
        Some b \<Rightarrow> fo_branches f = [] \<and> 1 \<le> fo_count f \<and> branch_spec_ok b
      | None \<Rightarrow> fo_branches f \<noteq> [] \<and> list_all branch_spec_ok (fo_branches f))"
  by (auto simp: validate_shape_def validate_fanout_branch_iff validate_branch_list_iff
      simp del: validate_branch_list.simps split: option.split list.split)

lemma validate_fanout_iff: "validate_fanout fv gid nid f = None \<longleftrightarrow> fanout_ok f"
  unfolding validate_fanout_def fanout_ok_def validate_shape_iff [of fv gid nid, symmetric]
  by (auto simp: validate_reduce_iff not_less split: option.split if_splits)

lemma validate_nodes_iff:
  "validate_nodes fv gid i seen ns = None \<longleftrightarrow>
     distinct (map gn_id ns) \<and> set (map gn_id ns) \<inter> set seen = {} \<and> list_all node_ok ns"
proof (induction ns arbitrary: i seen)
  case (Cons n ns)
  have "(case gn_fanout n of None \<Rightarrow> None | Some f \<Rightarrow> validate_fanout fv gid (gn_id n) f) = None
      \<longleftrightarrow> (\<forall>f. gn_fanout n = Some f \<longrightarrow> fanout_ok f)"
    by (simp add: validate_fanout_iff split: option.split)
  moreover have "handlers_set n = 1 \<longleftrightarrow> handlers_set n \<noteq> 0 \<and> \<not> 1 < handlers_set n" by auto
  ultimately show ?case
    by (auto simp: Cons.IH node_ok_def)
qed simp

lemma validate_branches_iff:
  "validate_branches ids pre j bs = None \<longleftrightarrow> list_all (\<lambda>b. \<not> is_blank (br_to b) \<and> valid_dest ids (br_to b)) bs"
  by (induction bs arbitrary: j) auto

lemma validate_router_shape_iff: "validate_router_shape ids pre r = None \<longleftrightarrow> router_ok ids r"
  by (auto simp: validate_router_shape_def router_ok_def validate_branches_iff
      simp del: validate_branches.simps split: option.split if_splits)

lemma validate_edge_iff: "validate_edge gid ids i e = None \<longleftrightarrow> edge_ok ids e"
  by (auto simp: validate_edge_def edge_ok_def Let_def validate_router_shape_iff split: option.split bool.split)

lemma validate_edges_iff: "validate_edges gid ids i es = None \<longleftrightarrow> list_all (edge_ok ids) es"
  by (induction es arbitrary: i) (auto simp: validate_edge_iff)

lemma validate_iff: "validate fv d = None \<longleftrightarrow> graph_ok d"
  unfolding validate_def graph_ok_def Let_def
  by (auto simp: validate_nodes_iff validate_edges_iff node_ids_def
      simp del: validate_nodes.simps validate_edges.simps)


text \<open>Not-a-number is neither below 0 nor above 2, so the range check of the code lets it pass.\<close>

lemma nan_temperature_accepted:
  "validate_fanout_branch fv gid nid
     \<lparr>fb_role = ''coder'', fb_slots = [], fb_temperature = Some NotNumber, fb_thinking = None, fb_model = []\<rparr> = None"
  by (simp add: validate_fanout_branch_iff branch_spec_ok_def temperature_out_of_range_def is_blank_def)
     code_simp

end
