(* ===== verification/PromptEngine.thy ===== *)
theory PromptEngine
  imports GraphDef "HOL-Library.AList"
begin

text \<open>
  The prompt engine of \<open>internal/prompt\<close>: roles, toolchains, instructions and output schemas
  as they are loaded from directories (\<open>engine.go\<close>, \<open>schema.go\<close>), and the composition of a
  role's system prompt from its template. The maps are association lists; where the code ranges
  over a map, the order of the list stands for the order of the iteration. Decoding the YAML of
  a frontmatter or a schema is a parameter.
\<close>

section \<open>Definitions of the engine\<close>

record role_def =
  role_name :: string
  role_description :: string
  role_mode :: string
  role_tools :: "string list"
  role_output :: string
  role_access :: string
  role_max_turns :: int
  role_thinking :: "bool option"
  role_temperature :: "float64 option"
  role_slots :: "string list"
  role_body :: string
  role_source :: string

record toolchain =
  tc_id :: string
  tc_name :: string
  tc_description :: string
  tc_vars :: "(string \<times> string) list"
  tc_body :: string

datatype field_def = FieldDef
  (fd_type: string) (fd_description: string) (fd_required: bool)
  (fd_items: "field_def option") (fd_properties: "(string \<times> field_def) list")

record schema =
  sc_name :: string
  sc_description :: string
  sc_fields :: "(string \<times> field_def) list"

record engine =
  en_roles :: "(string \<times> role_def) list"
  en_toolchains :: "(string \<times> toolchain) list"
  en_instructions :: "(string \<times> string) list"
  en_schemas :: "(string \<times> schema) list"
  en_globals :: "(string \<times> string) list"
  en_dirs :: "(string \<times> string) list"
  en_synthetic :: "(string \<times> string) list"

definition new_engine :: engine where
  "new_engine = \<lparr>en_roles = [], en_toolchains = [], en_instructions = [], en_schemas = [],
     en_globals = [], en_dirs = [], en_synthetic = []\<rparr>"

definition set_global :: "string \<Rightarrow> string \<Rightarrow> engine \<Rightarrow> engine" where
  "set_global k v e = e\<lparr>en_globals := AList.update k v (en_globals e)\<rparr>"

definition set_instruction :: "string \<Rightarrow> string \<Rightarrow> engine \<Rightarrow> engine" where
  "set_instruction k body e =
     e\<lparr>en_instructions := AList.update k (trim_space body) (en_instructions e),
       en_synthetic := AList.update k (trim_space body) (en_synthetic e)\<rparr>"

definition apply_granularity :: "string \<Rightarrow> string \<Rightarrow> engine \<Rightarrow> string option \<times> engine" where
  "apply_granularity kind level e =
     (if kind = [] then (Some ''empty granularity kind'', e)
      else let e1 = set_global (kind @ ''.granularity'') level e;
               src = kind @ ''-granularity-'' @ level
        in case map_of (en_instructions e1) src of
             None \<Rightarrow> (Some (''instruction '' @ fmt_q src @ '' not loaded''), e1)
           | Some body \<Rightarrow> (None, set_instruction (kind @ ''-granularity'') body e1))"

section \<open>Templates\<close>

definition word_char :: "char \<Rightarrow> bool" where
  "word_char c \<longleftrightarrow> name_char c"

definition regex_space :: "char \<Rightarrow> bool" where
  "regex_space c \<longleftrightarrow> c = CHR '' '' \<or> c = CHR 0x09 \<or> c = CHR 0x0A \<or> c = CHR 0x0C \<or> c = CHR 0x0D"

text \<open>
  \<open>{{ category.name }}\<close> at the beginning of a text: the two names and the rest. None of the
  character classes meets the character that has to follow it, so the match is unique.
\<close>

definition match_ref :: "string \<Rightarrow> (string \<times> string \<times> string) option" where
  "match_ref s =
     (if \<not> has_prefix s [CHR 0x7B, CHR 0x7B] then None
      else let s1 = dropWhile regex_space (drop 2 s);
               cat = takeWhile word_char s1; s2 = dropWhile word_char s1
        in if cat = [] \<or> \<not> has_prefix s2 ''.'' then None
           else let s3 = tl s2; nm = takeWhile field_char s3; s4 = dropWhile regex_space (dropWhile field_char s3)
             in if nm = [] \<or> \<not> has_prefix s4 [CHR 0x7D, CHR 0x7D] then None
                else Some (cat, nm, drop 2 s4))"

datatype piece = Text char | Ref string string string

lemma dropWhile_length_le: "length (dropWhile P xs) \<le> length xs"
  by (induction xs) auto

lemma match_ref_shorter: "match_ref s = Some (c, n, r) \<Longrightarrow> length r < length s"
proof -
  assume a: "match_ref s = Some (c, n, r)"
  define s1 s2 s4 where "s1 = dropWhile regex_space (drop 2 s)" and "s2 = dropWhile word_char s1"
    and "s4 = dropWhile regex_space (dropWhile field_char (tl s2))"
  from a have p: "has_prefix s [CHR 0x7B, CHR 0x7B]" and r: "r = drop 2 s4"
    by (auto simp: match_ref_def Let_def s1_def s2_def s4_def split: if_splits)
  have "length s4 \<le> length s2"
    using dropWhile_length_le [of regex_space "dropWhile field_char (tl s2)"]
      dropWhile_length_le [of field_char "tl s2"] by (simp add: s4_def)
  also have "\<dots> \<le> length (drop 2 s)"
    using dropWhile_length_le [of word_char s1] dropWhile_length_le [of regex_space "drop 2 s"]
    by (simp add: s1_def s2_def)
  also have "\<dots> < length s" using p by (cases s) (auto simp: has_prefix_def prefix_def)
  finally show "length r < length s" using r by simp
qed

text \<open>The text as the scan of \<open>ReplaceAllStringFunc\<close> divides it; a reference carries its source.\<close>

function pieces :: "string \<Rightarrow> piece list" where
  "pieces [] = []"
| "pieces (x # s) =
     (case match_ref (x # s) of
        None \<Rightarrow> Text x # pieces s
      | Some (c, n, r) \<Rightarrow> Ref c n (take (length (x # s) - length r) (x # s)) # pieces r)"
  by pat_completeness auto
termination
  by (relation "measure length") (auto dest: match_ref_shorter)

declare pieces.simps [simp del]

section \<open>Composition\<close>

definition expand_var :: "toolchain \<Rightarrow> (string \<times> string) list \<Rightarrow> piece \<Rightarrow> string" where
  "expand_var tc overrides p =
     (case p of
        Text c \<Rightarrow> [c]
      | Ref cat n src \<Rightarrow>
          if cat \<noteq> ''vars'' then src
          else case map_of overrides (tc_id tc @ ''.'' @ n) of
                 Some v \<Rightarrow> v
               | None \<Rightarrow> (case map_of (tc_vars tc) n of Some v \<Rightarrow> v | None \<Rightarrow> src))"

definition resolve_toolchain :: "toolchain \<Rightarrow> (string \<times> string) list \<Rightarrow> string" where
  "resolve_toolchain tc overrides = concat (map (expand_var tc overrides) (pieces (tc_body tc)))"

record now_env =
  nw_month :: string
  nw_year :: string
  nw_date :: string

definition with_overrides :: "(string \<times> string) list \<Rightarrow> (string \<times> string) list \<Rightarrow> (string \<times> string) list" where
  "with_overrides overrides g = fold (\<lambda>(k, v). AList.update k v) overrides g"

definition compose_data :: "engine \<Rightarrow> now_env \<Rightarrow> (string \<times> string) list \<Rightarrow> (string \<times> string) list" where
  "compose_data e nw overrides =
     with_overrides overrides
       (AList.update ''now.date'' (nw_date nw) (AList.update ''now.year'' (nw_year nw)
         (AList.update ''now.month'' (nw_month nw) (en_globals e))))"

definition resolved_toolchains :: "engine \<Rightarrow> (string \<times> string) list \<Rightarrow> (string \<times> string) list" where
  "resolved_toolchains e overrides = map (\<lambda>(k, tc). (k, resolve_toolchain tc overrides)) (en_toolchains e)"

definition or_empty :: "string option \<Rightarrow> string" where
  "or_empty x = (case x of None \<Rightarrow> [] | Some s \<Rightarrow> s)"

definition expand_piece ::
  "engine \<Rightarrow> string \<Rightarrow> role_def \<Rightarrow> (string \<times> string) list \<Rightarrow> (string \<times> string) list \<Rightarrow>
   (string \<times> string) list \<Rightarrow> piece \<Rightarrow> string + string" where
  "expand_piece e rn role tcs dat slots p =
     (case p of
        Text c \<Rightarrow> Inr [c]
      | Ref cat n src \<Rightarrow>
          if cat = ''toolchains'' then
            (case map_of tcs n of
               Some body \<Rightarrow> Inr (trim_space body)
             | None \<Rightarrow> Inl (''role '' @ fmt_q rn @ '' references unknown toolchain '' @ fmt_q n))
          else if cat = ''instructions'' then
            (case map_of (en_instructions e) n of
               Some body \<Rightarrow> Inr (trim_space body)
             | None \<Rightarrow> Inl (''role '' @ fmt_q rn @ '' references unknown instruction '' @ fmt_q n))
          else if cat = ''slots'' then
            (if n \<notin> set (role_slots role)
             then Inl (''role '' @ fmt_q rn @ '' references slot '' @ fmt_q n @ '' not declared in frontmatter'')
             else let val = or_empty (map_of slots n)
               in case map_of tcs val of Some body \<Rightarrow> Inr (trim_space body) | None \<Rightarrow> Inr val)
          else Inr (or_empty (map_of dat (cat @ ''.'' @ n))))"

fun expand_all :: "(piece \<Rightarrow> string + string) \<Rightarrow> piece list \<Rightarrow> string + string" where
  "expand_all f [] = Inr []"
| "expand_all f (p # ps) =
     (case f p of
        Inl e \<Rightarrow> Inl e
      | Inr s \<Rightarrow> (case expand_all f ps of Inl e \<Rightarrow> Inl e | Inr r \<Rightarrow> Inr (s @ r)))"

definition compose ::
  "engine \<Rightarrow> now_env \<Rightarrow> string \<Rightarrow> (string \<times> string) list \<Rightarrow> (string \<times> string) list \<Rightarrow> string + string" where
  "compose e nw rn overrides slots =
     (case map_of (en_roles e) rn of
        None \<Rightarrow> Inl (''role '' @ fmt_q rn @ '' not found'')
      | Some role \<Rightarrow>
          (case find (\<lambda>n. map_of slots n = None) (role_slots role) of
             Some n \<Rightarrow> Inl (''role '' @ fmt_q rn @ '': slot '' @ fmt_q n @ '' declared but not bound'')
           | None \<Rightarrow>
               (case expand_all (expand_piece e rn role (resolved_toolchains e overrides)
                       (compose_data e nw overrides) slots) (pieces (role_body role)) of
                  Inl err \<Rightarrow> Inl err
                | Inr s \<Rightarrow> Inr (trim_space s))))"

section \<open>Loading\<close>

text \<open>What a directory holds: an entry's name, whether it is a directory, and its bytes if they can be read.\<close>

datatype listing = NoDirectory | ListError string | Listing "(string \<times> bool \<times> string option) list"

record definition_dir =
  dd_roles :: listing
  dd_toolchains :: listing
  dd_instructions :: listing
  dd_schemas :: listing

record yaml_env =
  ym_role :: "string \<Rightarrow> string + role_def"
  ym_toolchain :: "string \<Rightarrow> string + toolchain"
  ym_schema :: "string \<Rightarrow> string + schema"

definition empty_role :: role_def where
  "empty_role = \<lparr>role_name = [], role_description = [], role_mode = [], role_tools = [], role_output = [],
     role_access = [], role_max_turns = 0, role_thinking = None, role_temperature = None, role_slots = [],
     role_body = [], role_source = []\<rparr>"

definition empty_toolchain :: toolchain where
  "empty_toolchain = \<lparr>tc_id = [], tc_name = [], tc_description = [], tc_vars = [], tc_body = []\<rparr>"

fun index_of :: "string \<Rightarrow> string \<Rightarrow> nat option" where
  "index_of pat [] = (if pat = [] then Some 0 else None)"
| "index_of pat (c # s) = (if has_prefix (c # s) pat then Some 0 else map_option Suc (index_of pat s))"

definition newline_char :: char where "newline_char = CHR 0x0A"

text \<open>The frontmatter, if there is any, and the body.\<close>

definition parse_frontmatter :: "(string \<Rightarrow> string + 'a) \<Rightarrow> 'a \<Rightarrow> string \<Rightarrow> string + ('a \<times> string)" where
  "parse_frontmatter yaml zero content =
     (if \<not> has_prefix content (''---'' @ [newline_char]) then Inr (zero, content)
      else let rest = drop 4 content
        in case index_of (newline_char # ''---'') rest of
             None \<Rightarrow> Inr (zero, content)
           | Some i \<Rightarrow>
               (case yaml (take i rest) of
                  Inl e \<Rightarrow> Inl (''parsing frontmatter: '' @ e)
                | Inr x \<Rightarrow> Inr (x, trim_space (drop (i + 4) rest))))"

definition slug_char :: "char \<Rightarrow> bool" where
  "slug_char c \<longleftrightarrow> (CHR ''a'' \<le> c \<and> c \<le> CHR ''z'') \<or> (CHR ''0'' \<le> c \<and> c \<le> CHR ''9'') \<or> c = CHR ''-''"

definition slugify :: "string \<Rightarrow> string" where
  "slugify s = filter slug_char (map (\<lambda>c. if c = CHR '' '' then CHR ''-'' else c) (to_lower s))"

definition add_role :: "yaml_env \<Rightarrow> string \<Rightarrow> string \<times> bool \<times> string option \<Rightarrow> engine \<Rightarrow> engine" where
  "add_role ye source entry e =
     (case entry of (name, is_dir, content) \<Rightarrow>
        if is_dir \<or> \<not> has_suffix name ''.md'' then e
        else case content of
          None \<Rightarrow> e
        | Some s \<Rightarrow>
            (case parse_frontmatter (ym_role ye) empty_role s of
               Inl _ \<Rightarrow> e
             | Inr (r, body) \<Rightarrow>
                 (let role = r\<lparr>role_body := body, role_source := source\<rparr>;
                      rs = (if role_name role \<noteq> [] then AList.update (slugify (role_name role)) role (en_roles e)
                            else en_roles e)
                  in e\<lparr>en_roles := AList.update (trim_suffix name ''.md'') role rs\<rparr>)))"

definition add_toolchain :: "yaml_env \<Rightarrow> string \<times> bool \<times> string option \<Rightarrow> engine \<Rightarrow> engine" where
  "add_toolchain ye entry e =
     (case entry of (name, is_dir, content) \<Rightarrow>
        if is_dir \<or> \<not> has_suffix name ''.md'' then e
        else case content of
          None \<Rightarrow> e
        | Some s \<Rightarrow>
            (case parse_frontmatter (ym_toolchain ye) empty_toolchain s of
               Inl _ \<Rightarrow> e
             | Inr (t, body) \<Rightarrow>
                 (let key = (if tc_id t = [] then trim_suffix name ''.md'' else tc_id t)
                  in e\<lparr>en_toolchains := AList.update key (t\<lparr>tc_id := key, tc_body := body\<rparr>) (en_toolchains e)\<rparr>)))"

definition add_instruction :: "string \<times> bool \<times> string option \<Rightarrow> engine \<Rightarrow> engine" where
  "add_instruction entry e =
     (case entry of (name, is_dir, content) \<Rightarrow>
        if is_dir \<or> \<not> has_suffix name ''.md'' then e
        else case content of
          None \<Rightarrow> e
        | Some s \<Rightarrow>
            e\<lparr>en_instructions := AList.update (trim_suffix name ''.md'') (trim_space s) (en_instructions e)\<rparr>)"

definition add_schema :: "yaml_env \<Rightarrow> string \<times> bool \<times> string option \<Rightarrow> engine \<Rightarrow> engine" where
  "add_schema ye entry e =
     (case entry of (name, is_dir, content) \<Rightarrow>
        if is_dir \<or> (\<not> has_suffix name ''.yaml'' \<and> \<not> has_suffix name ''.yml'') then e
        else case content of
          None \<Rightarrow> e
        | Some s \<Rightarrow>
            (case ym_schema ye s of
               Inl _ \<Rightarrow> e
             | Inr sc \<Rightarrow>
                 (let key = (if sc_name sc = [] then trim_suffix (trim_suffix name ''.yaml'') ''.yml'' else sc_name sc)
                  in e\<lparr>en_schemas := AList.update key (sc\<lparr>sc_name := key\<rparr>) (en_schemas e)\<rparr>)))"

definition load_listing ::
  "(string \<times> bool \<times> string option \<Rightarrow> engine \<Rightarrow> engine) \<Rightarrow> string \<Rightarrow> listing \<Rightarrow> engine \<Rightarrow> string option \<times> engine" where
  "load_listing add what l e =
     (case l of
        NoDirectory \<Rightarrow> (None, e)
      | ListError err \<Rightarrow> (Some (''loading '' @ what @ '': '' @ err), e)
      | Listing es \<Rightarrow> (None, fold add es e))"

definition then_load :: "string option \<times> engine \<Rightarrow> (engine \<Rightarrow> string option \<times> engine) \<Rightarrow> string option \<times> engine" where
  "then_load r f = (case r of (Some err, e) \<Rightarrow> (Some err, e) | (None, e) \<Rightarrow> f e)"

definition load_dir :: "yaml_env \<Rightarrow> (string \<Rightarrow> definition_dir) \<Rightarrow> string \<Rightarrow> string \<Rightarrow> engine \<Rightarrow> string option \<times> engine" where
  "load_dir ye disk dir source e =
     then_load (load_listing (add_role ye source) ''roles'' (dd_roles (disk dir)) e) (\<lambda>e1.
     then_load (load_listing (add_toolchain ye) ''toolchains'' (dd_toolchains (disk dir)) e1) (\<lambda>e2.
     then_load (load_listing add_instruction ''instructions'' (dd_instructions (disk dir)) e2) (\<lambda>e3.
     then_load (load_listing (add_schema ye) ''schemas'' (dd_schemas (disk dir)) e3) (\<lambda>e4.
       (None, e4\<lparr>en_dirs := en_dirs e4 @ [(dir, source)]\<rparr>)))))"

fun load_dirs :: "yaml_env \<Rightarrow> (string \<Rightarrow> definition_dir) \<Rightarrow> (string \<times> string) list \<Rightarrow> engine \<Rightarrow> string + engine" where
  "load_dirs ye disk [] e = Inr e"
| "load_dirs ye disk ((dir, source) # ds) e =
     (case load_dir ye disk dir source e of
        (Some err, _) \<Rightarrow> Inl (''reloading '' @ source @ '' definitions from '' @ dir @ '': '' @ err)
      | (None, e1) \<Rightarrow> load_dirs ye disk ds e1)"

text \<open>
  \<open>Reload\<close> snapshots under the lock, loads without it and installs under it again; other
  operations may run in between.
\<close>

type_synonym reload_snapshot = "(string \<times> string) list \<times> (string \<times> string) list"

definition reload_snapshot :: "engine \<Rightarrow> reload_snapshot" where
  "reload_snapshot e = (en_dirs e, en_synthetic e)"

definition reload_fresh :: "yaml_env \<Rightarrow> (string \<Rightarrow> definition_dir) \<Rightarrow> reload_snapshot \<Rightarrow> string + engine" where
  "reload_fresh ye disk snap =
     (case load_dirs ye disk (fst snap) new_engine of
        Inl err \<Rightarrow> Inl err
      | Inr fresh \<Rightarrow> Inr (fresh\<lparr>en_instructions := with_overrides (snd snap) (en_instructions fresh)\<rparr>))"

definition reload_install :: "engine \<Rightarrow> engine \<Rightarrow> engine" where
  "reload_install fresh e =
     e\<lparr>en_roles := en_roles fresh, en_toolchains := en_toolchains fresh,
       en_instructions := en_instructions fresh, en_schemas := en_schemas fresh\<rparr>"

definition reload :: "yaml_env \<Rightarrow> (string \<Rightarrow> definition_dir) \<Rightarrow> engine \<Rightarrow> string option \<times> engine" where
  "reload ye disk e =
     (case reload_fresh ye disk (reload_snapshot e) of
        Inl err \<Rightarrow> (Some err, e)
      | Inr fresh \<Rightarrow> (None, reload_install fresh e))"


section \<open>Output schemas\<close>

definition json_type :: "string \<Rightarrow> string" where
  "json_type t =
     (let s = to_lower (trim_space t)
      in if s \<in> set [''bool'', ''boolean''] then ''boolean''
         else if s \<in> set [''int'', ''integer''] then ''integer''
         else if s \<in> set [''number'', ''float'', ''double''] then ''number''
         else if s \<in> set [''string'', ''text''] then ''string''
         else if s \<in> set [''array'', ''list''] then ''array''
         else if s \<in> set [''object'', ''map''] then ''object''
         else if s = [] then ''string'' else t)"

definition required_names :: "(string \<times> field_def) list \<Rightarrow> string list" where
  "required_names fs = map fst (filter (\<lambda>(k, f). fd_required f) (sort_key fst fs))"

definition required_member :: "(string \<times> field_def) list \<Rightarrow> (string \<times> json) list" where
  "required_member fs =
     (if required_names fs = [] then [] else [(''required'', JArr (map JStr (required_names fs)))])"

text \<open>\<open>json.Marshal\<close> writes the members of a map in the order of their keys.\<close>

fun field_to_schema :: "field_def \<Rightarrow> json" where
  "field_to_schema (FieldDef ty descr req items props) =
     JObj ((if descr = [] then [] else [(''description'', JStr (trim_space descr))])
       @ (if json_type ty = ''array''
          then (case items of None \<Rightarrow> [] | Some f \<Rightarrow> [(''items'', field_to_schema f)]) else [])
       @ (if json_type ty = ''object'' \<and> props \<noteq> []
          then (''properties'', JObj (sort_key fst (map (\<lambda>(k, f). (k, field_to_schema f)) props)))
               # required_member props else [])
       @ [(''type'', JStr (json_type ty))])"

definition to_json_schema :: "schema \<Rightarrow> string + string" where
  "to_json_schema s =
     (if sc_fields s = [] then Inl (''schema '' @ fmt_q (sc_name s) @ '' has no fields'')
      else Inr (encode (JObj
        ((''properties'', JObj (sort_key fst (map (\<lambda>(k, f). (k, field_to_schema f)) (sc_fields s))))
         # required_member (sc_fields s) @ [(''type'', JStr ''object'')]))))"

definition default_schema_name :: string where "default_schema_name = ''summary''"

definition resolve_schema :: "engine \<Rightarrow> role_def \<Rightarrow> string + string \<times> schema" where
  "resolve_schema e role =
     (let name = (if role_output role = [] then default_schema_name else role_output role)
      in case map_of (en_schemas e) name of
           None \<Rightarrow> Inl (''role '' @ fmt_q (role_name role) @ '' references unknown schema '' @ fmt_q name)
         | Some s \<Rightarrow> (case to_json_schema s of Inl err \<Rightarrow> Inl err | Inr raw \<Rightarrow> Inr (raw, s)))"

section \<open>When a composition succeeds\<close>

definition resolvable :: "engine \<Rightarrow> role_def \<Rightarrow> piece \<Rightarrow> bool" where
  "resolvable e role p \<longleftrightarrow>
     (case p of
        Text c \<Rightarrow> True
      | Ref cat n src \<Rightarrow>
          (cat = ''toolchains'' \<longrightarrow> n \<in> fst ` set (en_toolchains e))
          \<and> (cat = ''instructions'' \<longrightarrow> n \<in> fst ` set (en_instructions e))
          \<and> (cat = ''slots'' \<longrightarrow> n \<in> set (role_slots role)))"

lemma resolved_keys: "fst ` set (resolved_toolchains e ov) = fst ` set (en_toolchains e)"
  by (force simp: resolved_toolchains_def)

lemma expand_all_Inr: "(\<exists>s. expand_all f ps = Inr s) \<longleftrightarrow> list_all (\<lambda>p. \<exists>s. f p = Inr s) ps"
  by (induction ps) (auto split: sum.splits)

lemma map_of_Some_key: "(\<exists>v. map_of xs k = Some v) \<longleftrightarrow> k \<in> fst ` set xs"
  by (metis map_of_eq_None_iff not_Some_eq)

lemma lookup_Inr:
  "(\<exists>s. (case map_of xs k of None \<Rightarrow> Inl err | Some v \<Rightarrow> Inr (f v)) = Inr s) \<longleftrightarrow> k \<in> fst ` set xs"
  using map_of_Some_key [of xs k] by (auto split: option.splits)

lemma expand_piece_Inr:
  "(\<exists>s. expand_piece e rn role (resolved_toolchains e ov) dat slots p = Inr s) \<longleftrightarrow> resolvable e role p"
proof (cases p)
  case (Ref cat n src)
  consider "cat = ''toolchains''" | "cat = ''instructions''" | "cat = ''slots''"
    | "cat \<notin> {''toolchains'', ''instructions'', ''slots''}" by blast
  then show ?thesis
  proof cases
    case 1
    then show ?thesis
      using lookup_Inr [where xs = "resolved_toolchains e ov" and k = n and f = trim_space]
      by (simp add: Ref expand_piece_def resolvable_def resolved_keys)
  next
    case 2
    then show ?thesis
      using lookup_Inr [where xs = "en_instructions e" and k = n and f = trim_space]
      by (simp add: Ref expand_piece_def resolvable_def)
  next
    case 3
    then show ?thesis
      by (simp add: Ref expand_piece_def resolvable_def Let_def split: option.split)
  qed (simp add: Ref expand_piece_def resolvable_def)
qed (simp add: expand_piece_def resolvable_def)


section \<open>What a reload keeps\<close>

lemma map_of_update: "map_of (AList.update k v xs) = (map_of xs)(k \<mapsto> v)"
  by (rule update_conv')

lemma with_overrides_simps [simp]:
  "with_overrides [] g = g"
  "with_overrides ((k, v) # ov) g = with_overrides ov (AList.update k v g)"
  by (simp_all add: with_overrides_def)

lemma with_overrides_map_of:
  "distinct (map fst ov) \<Longrightarrow> map_of (with_overrides ov g) k = (case map_of ov k of Some v \<Rightarrow> Some v | None \<Rightarrow> map_of g k)"
proof (induction ov arbitrary: g)
  case (Cons a ov)
  obtain x v where a: "a = (x, v)" by (cases a)
  then have "map_of ov x = None" using Cons.prems by (simp add: map_of_eq_None_iff)
  then show ?case using Cons by (simp add: a map_of_update split: option.split)
qed simp

definition engine_ok :: "engine \<Rightarrow> bool" where
  "engine_ok e \<longleftrightarrow> distinct (map fst (en_synthetic e))
     \<and> (\<forall>k b. map_of (en_synthetic e) k = Some b \<longrightarrow> map_of (en_instructions e) k = Some b)"

lemma set_instruction_ok: "engine_ok e \<Longrightarrow> engine_ok (set_instruction k b e)"
  by (simp add: engine_ok_def set_instruction_def distinct_update map_of_update)

text \<open>
  A reload that fails leaves the engine as it was. One that succeeds installs exactly what
  the recorded directories hold now, with the instructions set at run time on top, whatever was
  loaded before; it keeps the globals and the run-time instructions in force, and doing it again
  changes nothing.
\<close>

theorem reload_correct:
  assumes "engine_ok e"
  shows "case reload ye disk e of
      (Some err, e') \<Rightarrow> e' = e
    | (None, e') \<Rightarrow> engine_ok e' \<and> en_globals e' = en_globals e \<and> en_dirs e' = en_dirs e
        \<and> reload ye disk e' = (None, e')
        \<and> (\<forall>e2. en_dirs e2 = en_dirs e \<longrightarrow> en_synthetic e2 = en_synthetic e \<longrightarrow>
              en_roles (snd (reload ye disk e2)) = en_roles e')"
proof (cases "reload_fresh ye disk (en_dirs e, en_synthetic e)")
  case (Inr fresh)
  then obtain base where "fresh = base\<lparr>en_instructions := with_overrides (en_synthetic e) (en_instructions base)\<rparr>"
    by (auto simp: reload_fresh_def split: sum.splits)
  then have "\<forall>k b. map_of (en_synthetic e) k = Some b \<longrightarrow> map_of (en_instructions fresh) k = Some b"
    using assms by (simp add: engine_ok_def with_overrides_map_of)
  then show ?thesis
    using Inr assms by (simp add: reload_def reload_snapshot_def reload_install_def engine_ok_def)
qed (simp add: reload_def reload_snapshot_def)

definition sample_yaml :: yaml_env where
  "sample_yaml = \<lparr>ym_role = (\<lambda>s. Inr empty_role), ym_toolchain = (\<lambda>s. Inr empty_toolchain),
     ym_schema = (\<lambda>s. Inl ''no schema'')\<rparr>"

definition sample_disk :: "string \<Rightarrow> definition_dir" where
  "sample_disk dir = \<lparr>dd_roles = Listing [(''coder.md'', False, Some ''{{ task.description }}'')],
     dd_toolchains = NoDirectory, dd_instructions = Listing [(''tone.md'', False, Some ''calm'')],
     dd_schemas = NoDirectory\<rparr>"

definition sample_engine :: engine where
  "sample_engine = set_instruction ''tone'' ''brief'' (snd (load_dir sample_yaml sample_disk ''defaults'' ''system'' new_engine))"

lemma sample_engine_ok: "engine_ok sample_engine"
proof -
  have "en_synthetic (snd (load_dir sample_yaml sample_disk ''defaults'' ''system'' new_engine)) = []"
    by code_simp
  then have "engine_ok (snd (load_dir sample_yaml sample_disk ''defaults'' ''system'' new_engine))"
    by (simp add: engine_ok_def)
  then show ?thesis unfolding sample_engine_def by (rule set_instruction_ok)
qed

lemma reload_witness:
  "fst (reload sample_yaml sample_disk sample_engine) = None
     \<and> engine_ok (snd (reload sample_yaml sample_disk sample_engine))
     \<and> map_of (en_instructions (snd (reload sample_yaml sample_disk sample_engine))) ''tone'' = Some ''brief''"
proof -
  have r: "fst (reload sample_yaml sample_disk sample_engine) = None" by code_simp
  obtain e' where "reload sample_yaml sample_disk sample_engine = (None, e')"
    using r by (metis prod.collapse)
  moreover have "map_of (en_instructions (snd (reload sample_yaml sample_disk sample_engine))) ''tone'' = Some ''brief''"
    by code_simp
  ultimately show ?thesis
    using reload_correct [OF sample_engine_ok, of sample_yaml sample_disk] by simp
qed

text \<open>What a reference is replaced by is not scanned again: data cannot pull in instructions.\<close>

lemma compose_does_not_expand_data:
  "compose sample_engine \<lparr>nw_month = ''May'', nw_year = ''2025'', nw_date = ''2025-05-01''\<rparr> ''coder''
     [(''task.description'', ''{{ instructions.tone }}'')] [] = Inr ''{{ instructions.tone }}''"
  by code_simp

end
