(* ===== verification/GraphState.thy ===== *)
theory GraphState
  imports PromptEngine
begin

text \<open>
  The state that flows through a graph (\<open>internal/graphexec/state.go\<close>), what a node's output does
  to it (\<open>applyOutput\<close> of \<open>nodes.go\<close>), and Go's untyped JSON values. A \<open>map[string]any\<close> is its
  members in the order of the keys, the order in which \<open>json.Marshal\<close> writes them. The text Go
  prints for the number a literal is read as is a parameter; \<open>None\<close> stands for a literal beyond
  the range of \<open>float64\<close>.
\<close>

section \<open>Untyped JSON values\<close>

record json_env =
  je_number :: "string \<Rightarrow> string option"
  je_error :: "string \<Rightarrow> string"

fun numbers_ok :: "json_env \<Rightarrow> json \<Rightarrow> bool" where
  "numbers_ok je (JNum n) \<longleftrightarrow> je_number je n \<noteq> None"
| "numbers_ok je (JArr js) \<longleftrightarrow> list_all (numbers_ok je) js"
| "numbers_ok je (JObj ms) \<longleftrightarrow> list_all (\<lambda>(k, v). numbers_ok je v) ms"
| "numbers_ok je _ \<longleftrightarrow> True"

text \<open>A later member with the same key replaces an earlier one.\<close>

definition go_map :: "(string \<times> json) list \<Rightarrow> (string \<times> json) list" where
  "go_map ms = sort_key fst (AList.clearjunk (rev ms))"

fun go_value :: "json_env \<Rightarrow> json \<Rightarrow> json" where
  "go_value je (JNum n) = JNum (case je_number je n of None \<Rightarrow> n | Some t \<Rightarrow> t)"
| "go_value je (JArr js) = JArr (map (go_value je) js)"
| "go_value je (JObj ms) = JObj (go_map (map (\<lambda>(k, v). (k, go_value je v)) ms))"
| "go_value je j = j"

definition decode_any :: "json_env \<Rightarrow> string \<Rightarrow> string + json" where
  "decode_any je s =
     (case parse_json s of
        None \<Rightarrow> Inl (je_error je s)
      | Some j \<Rightarrow> if numbers_ok je j then Inr (go_value je j) else Inl (je_error je s))"

lemma set_go_map: "fst ` set (go_map ms) = fst ` set ms"
proof -
  have "fst ` set (AList.clearjunk (rev ms)) = fst ` set (rev ms)"
    by (metis dom_clearjunk dom_map_of_conv_image_fst clearjunk_restrict map_of_clearjunk)
  then show ?thesis by (simp add: go_map_def)
qed

lemma map_of_sort_key: "distinct (map fst xs) \<Longrightarrow> map_of (sort_key fst xs) = map_of xs"
proof (rule map_of_inject_set [THEN iffD2])
  assume d: "distinct (map fst xs)"
  show "distinct (map fst (sort_key fst xs))"
    using d by (simp add: distinct_map inj_on_def)
  show "distinct (map fst xs)" by (rule d)
  show "set (sort_key fst xs) = set xs" by simp
qed

lemma map_of_go_map: "map_of (go_map ms) k = map_of (rev ms) k"
  by (simp add: go_map_def map_of_sort_key distinct_clearjunk map_of_clearjunk)

definition go_type_name :: "json \<Rightarrow> string" where
  "go_type_name j =
     (case j of JNull \<Rightarrow> ''<nil>'' | JBool b \<Rightarrow> ''bool'' | JNum n \<Rightarrow> ''float64'' | JStr s \<Rightarrow> ''string''
      | JArr js \<Rightarrow> ''[]interface {}'' | JObj ms \<Rightarrow> ''map[string]interface {}'')"

fun walk_fields :: "string \<Rightarrow> string list \<Rightarrow> json \<Rightarrow> string + json" where
  "walk_fields path [] cur = Inr cur"
| "walk_fields path (p # ps) cur =
     (case cur of
        JObj ms \<Rightarrow>
          (case map_of ms p of
             None \<Rightarrow> Inl (''field path '' @ fmt_q path @ '': key '' @ fmt_q p @ '' not found'')
           | Some v \<Rightarrow> walk_fields path ps v)
      | _ \<Rightarrow> Inl (''field path '' @ fmt_q path @ '': expected object at '' @ fmt_q p @ '', got '' @ go_type_name cur))"

definition extract_field :: "json_env \<Rightarrow> string \<Rightarrow> string \<Rightarrow> string + json" where
  "extract_field je raw path =
     (case decode_any je raw of
        Inl e \<Rightarrow> Inl (''unmarshal output: '' @ e)
      | Inr doc \<Rightarrow> walk_fields path (split_byte (CHR ''.'') path) doc)"

text \<open>
  Marshalling a \<open>json.RawMessage\<close> compacts it: white space outside strings is dropped, and \<open><\<close>,
  \<open>>\<close>, \<open>&\<close> and the two line separators are escaped. The flags say that the text is inside a
  string, and behind a backslash.
\<close>

fun compact_bytes :: "bool \<Rightarrow> bool \<Rightarrow> string \<Rightarrow> string" where
  "compact_bytes str esc [] = []"
| "compact_bytes str esc (c # s) =
     (if \<not> str \<and> json_space c then compact_bytes False False s
      else if c = CHR ''<'' \<or> c = CHR ''>'' \<or> c = CHR 0x26
      then esc_char c @ compact_bytes str False s
      else (case s of
              d # e # t \<Rightarrow>
                if is_separator c d e
                then [CHR 0x5C, CHR ''u'', CHR ''2'', CHR ''0'', CHR ''2'', if e = CHR 0xA8 then CHR ''8'' else CHR ''9'']
                     @ compact_bytes str False t
                else c # compact_bytes (if c = CHR 0x22 \<and> \<not> esc then \<not> str else str)
                                       (str \<and> \<not> esc \<and> c = CHR 0x5C) s
            | _ \<Rightarrow> c # compact_bytes (if c = CHR 0x22 \<and> \<not> esc then \<not> str else str)
                                     (str \<and> \<not> esc \<and> c = CHR 0x5C) s))"

definition marshal_raw :: "json_env \<Rightarrow> string \<Rightarrow> string + string" where
  "marshal_raw je raw =
     (if raw = [] then Inr ''null''
      else if json_valid raw then Inr (compact_bytes False False raw) else Inl (je_error je raw))"

section \<open>The state of a graph\<close>

record task_state =
  ts_job :: string
  ts_task :: string
  ts_workspace :: string
  ts_base :: string
  ts_provider :: string
  ts_model :: string
  ts_artifacts :: "(string \<times> json) list"
  ts_inputs :: string
  ts_outputs :: "(string \<times> string) list"
  ts_status :: string
  ts_final :: string
  ts_exit :: string

definition new_task_state :: "string \<Rightarrow> string \<Rightarrow> string \<Rightarrow> string \<Rightarrow> string \<Rightarrow> task_state" where
  "new_task_state jid tid dir prov mdl =
     \<lparr>ts_job = jid, ts_task = tid, ts_workspace = dir, ts_base = dir, ts_provider = prov, ts_model = mdl,
      ts_artifacts = [], ts_inputs = [], ts_outputs = [], ts_status = [], ts_final = [], ts_exit = []\<rparr>"

definition set_artifact :: "string \<Rightarrow> json \<Rightarrow> task_state \<Rightarrow> task_state" where
  "set_artifact k v s = s\<lparr>ts_artifacts := AList.update k v (ts_artifacts s)\<rparr>"

definition get_artifact_string :: "string \<Rightarrow> task_state \<Rightarrow> string" where
  "get_artifact_string k s = (case map_of (ts_artifacts s) k of Some (JStr t) \<Rightarrow> t | _ \<Rightarrow> [])"

definition get_node_output :: "string \<Rightarrow> task_state \<Rightarrow> string" where
  "get_node_output nid s = or_empty (map_of (ts_outputs s) nid)"

definition set_node_output :: "json_env \<Rightarrow> string \<Rightarrow> string \<Rightarrow> task_state \<Rightarrow> string option \<times> task_state" where
  "set_node_output je nid raw s =
     (case marshal_raw je raw of
        Inl e \<Rightarrow> (Some (''marshaling output for node '' @ fmt_q nid @ '': '' @ e), s)
      | Inr t \<Rightarrow> (None, s\<lparr>ts_outputs := AList.update nid t (ts_outputs s)\<rparr>))"

definition fold_field :: "string \<Rightarrow> string \<times> json \<Rightarrow> task_state \<Rightarrow> task_state" where
  "fold_field nid kv s =
     (case kv of (name, v) \<Rightarrow>
        let s1 = set_artifact (nid @ ''.'' @ name) v s
        in if name = ''summary'' then (case v of JStr t \<Rightarrow> s1\<lparr>ts_final := t\<rparr> | _ \<Rightarrow> s1) else s1)"

definition apply_output :: "json_env \<Rightarrow> string \<Rightarrow> string \<Rightarrow> task_state \<Rightarrow> string option \<times> task_state" where
  "apply_output je nid raw s =
     (case set_node_output je nid raw s of
        (Some e, s1) \<Rightarrow> (Some e, s1)
      | (None, s1) \<Rightarrow>
          (case decode_any je raw of
             Inr (JObj ms) \<Rightarrow> (None, fold (fold_field nid) ms s1)
           | Inr JNull \<Rightarrow> (None, s1)
           | Inr _ \<Rightarrow> (Some (''node '' @ fmt_q nid @ '': unmarshal output: '' @ je_error je raw), s1)
           | Inl e \<Rightarrow> (Some (''node '' @ fmt_q nid @ '': unmarshal output: '' @ e), s1)))"

section \<open>What an output does to the state\<close>

lemma fold_field_frame [simp]:
  "ts_outputs (fold_field nid kv s) = ts_outputs s" "ts_job (fold_field nid kv s) = ts_job s"
  "ts_task (fold_field nid kv s) = ts_task s" "ts_workspace (fold_field nid kv s) = ts_workspace s"
  "ts_base (fold_field nid kv s) = ts_base s"
  by (auto simp: fold_field_def set_artifact_def Let_def split: prod.split json.split)

lemma fold_fields_frame [simp]:
  "ts_outputs (fold (fold_field nid) ms s) = ts_outputs s" "ts_job (fold (fold_field nid) ms s) = ts_job s"
  "ts_task (fold (fold_field nid) ms s) = ts_task s" "ts_workspace (fold (fold_field nid) ms s) = ts_workspace s"
  "ts_base (fold (fold_field nid) ms s) = ts_base s"
  by (induction ms arbitrary: s) auto

lemma fold_field_artifact:
  "map_of (ts_artifacts (fold_field nid (k, v) s)) = (map_of (ts_artifacts s))(nid @ ''.'' @ k \<mapsto> v)"
  by (auto simp: fold_field_def set_artifact_def Let_def map_of_update split: json.split)

lemma fold_fields_artifact:
  "distinct (map fst ms) \<Longrightarrow> map_of (ts_artifacts (fold (fold_field nid) ms s)) x =
     (case map_of (map (\<lambda>(k, v). (nid @ ''.'' @ k, v)) ms) x of Some v \<Rightarrow> Some v | None \<Rightarrow> map_of (ts_artifacts s) x)"
proof (induction ms arbitrary: s)
  case (Cons m ms)
  obtain k v where m: "m = (k, v)" by (cases m)
  have "map_of (map (\<lambda>(k, v). (nid @ ''.'' @ k, v)) ms) (nid @ ''.'' @ k) = None"
    using Cons.prems by (force simp: map_of_eq_None_iff m)
  then show ?case
    using Cons by (simp add: m fold_field_artifact split: option.split)
qed simp

lemma distinct_go_map: "distinct (map fst (go_map ms))"
  using distinct_clearjunk [of "rev ms"] by (simp add: go_map_def distinct_map inj_on_def)

lemma map_of_prefixed: "map_of (map (\<lambda>(k, v). (p @ k, v)) ms) (p @ x) = map_of ms x"
  by (induction ms) auto

lemma apply_output_objects:
  assumes "parse_json raw = Some (JObj ms)" "numbers_ok je (JObj ms)" "raw \<noteq> []"
  shows "fst (apply_output je nid raw s) = None"
    "get_node_output nid (snd (apply_output je nid raw s)) = compact_bytes False False raw"
    "map_of (ts_artifacts (snd (apply_output je nid raw s))) (nid @ ''.'' @ k) =
       (case map_of (rev ms) k of Some v \<Rightarrow> Some (go_value je v) | None \<Rightarrow> map_of (ts_artifacts s) (nid @ ''.'' @ k))"
proof -
  let ?ms = "go_map (map (\<lambda>(k, v). (k, go_value je v)) ms)"
  have d: "decode_any je raw = Inr (JObj ?ms)" using assms by (simp add: decode_any_def)
  have m: "marshal_raw je raw = Inr (compact_bytes False False raw)"
    using assms by (simp add: marshal_raw_def json_valid_def)
  show "fst (apply_output je nid raw s) = None"
    "get_node_output nid (snd (apply_output je nid raw s)) = compact_bytes False False raw"
    by (simp_all add: apply_output_def set_node_output_def m d get_node_output_def or_empty_def map_of_update)
  have "map_of (map (\<lambda>(k, v). (nid @ ''.'' @ k, v)) ?ms) (nid @ ''.'' @ k) = map_of ?ms k"
    using map_of_prefixed [of "nid @ ''.''" ?ms k] by simp
  moreover have "map_of ?ms k = map_option (go_value je) (map_of (rev ms) k)"
    by (simp add: map_of_go_map map_of_map rev_map [symmetric] flip: map_of_map)
       (simp add: rev_map map_of_map)
  ultimately show "map_of (ts_artifacts (snd (apply_output je nid raw s))) (nid @ ''.'' @ k) =
      (case map_of (rev ms) k of Some v \<Rightarrow> Some (go_value je v) | None \<Rightarrow> map_of (ts_artifacts s) (nid @ ''.'' @ k))"
    by (simp add: apply_output_def set_node_output_def m d fold_fields_artifact distinct_go_map split: option.split)
qed

end
