(* ===== verification/GraphCompile.thy ===== *)
theory GraphCompile
  imports GraphState
begin

text \<open>
  The compiler of \<open>internal/graphexec/compiler.go\<close>, with the registry of \<open>roles.go\<close> and the
  building of fan-out nodes of \<open>fanout_node.go\<close>: a definition becomes calls of the graph library's
  builder (\<open>rhizome\<close>, a parameter that may refuse any call), and a router becomes a function of
  the state together with the destinations it declares.
\<close>

section \<open>Node functions\<close>

record template_config =
  tm_engine :: "engine option"
  tm_model :: string
  tm_thinking :: bool
  tm_temperature :: float64
  tm_temperature_override :: "float64 option"
  tm_thinking_override :: "bool option"
  tm_checkpoints :: bool
  tm_registered :: "string list"    \<comment> \<open>the names of the registry, sorted\<close>

text \<open>A closure is what it was built from.\<close>

datatype node_fn =
    RegisteredNode string template_config string "(string \<times> string) list"
  | RoleNode template_config role_def string "(string \<times> string) list"

datatype graph_fn =
    SimpleNode node_fn
  | FanoutNode string fanout template_config bool "node_fn list" "node_fn option"

definition role_by_name :: "template_config \<Rightarrow> string \<Rightarrow> role_def option" where
  "role_by_name cfg n = (case tm_engine cfg of None \<Rightarrow> None | Some e \<Rightarrow> map_of (en_roles e) n)"

definition build_role ::
  "string \<Rightarrow> string \<Rightarrow> (string \<times> string) list \<Rightarrow> template_config \<Rightarrow> string + node_fn" where
  "build_role name nid slots cfg =
     (if name \<in> set (tm_registered cfg) then Inr (RegisteredNode name cfg nid slots)
      else case tm_engine cfg of
        None \<Rightarrow> Inl (''unknown role '' @ fmt_q name @ '' (no prompt engine configured; registered: ''
                  @ join_strings '', '' (tm_registered cfg) @ '')'')
      | Some e \<Rightarrow>
          (case map_of (en_roles e) name of
             None \<Rightarrow> Inl (''unknown role '' @ fmt_q name @ '' (not in prompt engine; loaded: ''
                       @ join_strings '', '' (map fst (en_roles e)) @ '')'')
           | Some role \<Rightarrow> Inr (RoleNode cfg role nid slots)))"

definition normalize_access :: "string \<Rightarrow> string" where
  "normalize_access a = to_lower (trim_space a)"

definition access_writes_workspace :: "string \<Rightarrow> bool" where
  "access_writes_workspace a \<longleftrightarrow> normalize_access a = ''write'' \<or> normalize_access a = ''all''"

definition branch_config :: "template_config \<Rightarrow> fanout_branch \<Rightarrow> template_config" where
  "branch_config cfg b =
     cfg\<lparr>tm_temperature_override := (case fb_temperature b of None \<Rightarrow> tm_temperature_override cfg | t \<Rightarrow> t),
         tm_thinking_override := (case fb_thinking b of None \<Rightarrow> tm_thinking_override cfg | t \<Rightarrow> t),
         tm_model := (if is_blank (fb_model b) then tm_model cfg else fb_model b)\<rparr>"

text \<open>Thinking and temperature of a node: the branch before the role before the configuration.\<close>

definition effective_worker_defaults :: "template_config \<Rightarrow> role_def option \<Rightarrow> bool \<times> float64" where
  "effective_worker_defaults cfg role =
     (let th = (case role of None \<Rightarrow> tm_thinking cfg
                | Some r \<Rightarrow> (case role_thinking r of None \<Rightarrow> tm_thinking cfg | Some t \<Rightarrow> t));
          tp = (case role of None \<Rightarrow> tm_temperature cfg
                | Some r \<Rightarrow> (case role_temperature r of None \<Rightarrow> tm_temperature cfg | Some t \<Rightarrow> t))
      in ((case tm_thinking_override cfg of None \<Rightarrow> th | Some t \<Rightarrow> t),
          (case tm_temperature_override cfg of None \<Rightarrow> tp | Some t \<Rightarrow> t)))"

section \<open>Fan-out nodes\<close>

text \<open>\<open>Compile\<close> has validated the definition, so the count form has its branch.\<close>

definition branch_specs :: "fanout \<Rightarrow> fanout_branch list" where
  "branch_specs f =
     (if fo_branches f \<noteq> [] then fo_branches f
      else case fo_branch f of None \<Rightarrow> [] | Some b \<Rightarrow> replicate (nat (fo_count f)) b)"

fun build_branches ::
  "template_config \<Rightarrow> string \<Rightarrow> nat \<Rightarrow> fanout_branch list \<Rightarrow> string + node_fn list \<times> bool" where
  "build_branches cfg fid i [] = Inr ([], False)"
| "build_branches cfg fid i (b # bs) =
     (case build_role (fb_role b) fid (fb_slots b) (branch_config cfg b) of
        Inl e \<Rightarrow> Inl (''fanout node '' @ fmt_q fid @ '': branch '' @ digits_of i @ '' (role ''
                   @ fmt_q (fb_role b) @ ''): '' @ e)
      | Inr fn \<Rightarrow>
          (case build_branches cfg fid (Suc i) bs of
             Inl e \<Rightarrow> Inl e
           | Inr (fns, w) \<Rightarrow>
               Inr (fn # fns, w \<or> (case role_by_name cfg (fb_role b) of
                                     None \<Rightarrow> False | Some r \<Rightarrow> access_writes_workspace (role_access r)))))"

definition common_branch_role :: "template_config \<Rightarrow> fanout_branch list \<Rightarrow> role_def option" where
  "common_branch_role cfg bs =
     (case bs of
        [] \<Rightarrow> None
      | b # rest \<Rightarrow> if list_ex (\<lambda>x. fb_role x \<noteq> fb_role b) rest then None else role_by_name cfg (fb_role b))"

definition build_judge :: "template_config \<Rightarrow> string \<Rightarrow> reduce_spec \<Rightarrow> string + node_fn option" where
  "build_judge cfg fid r =
     (if rd_role r = [] then Inr None
      else case build_role (rd_role r) (fid @ ''.judge'') [] cfg of
        Inl e \<Rightarrow> Inl (''fanout node '' @ fmt_q fid @ '': reduce role: '' @ e)
      | Inr fn \<Rightarrow> Inr (Some fn))"

definition fanout_schema_role :: "template_config \<Rightarrow> fanout \<Rightarrow> reduce_spec \<Rightarrow> bool \<Rightarrow> role_def option" where
  "fanout_schema_role cfg f r writes =
     (if rd_strategy r = reduce_collect_name then None
      else if rd_role r \<noteq> [] \<and> \<not> writes then role_by_name cfg (rd_role r)
      else common_branch_role cfg (branch_specs f))"

definition build_fanout_node ::
  "template_config \<Rightarrow> string \<Rightarrow> fanout \<Rightarrow> reduce_spec \<Rightarrow> string + graph_fn \<times> role_def option" where
  "build_fanout_node cfg fid f r =
     (case build_branches cfg fid 0 (branch_specs f) of
        Inl e \<Rightarrow> Inl e
      | Inr (fns, writes) \<Rightarrow>
          (case build_judge cfg fid r of
             Inl e \<Rightarrow> Inl e
           | Inr judge \<Rightarrow>
               if writes \<and> rd_strategy r = reduce_collect_name
               then Inl (''fanout node '' @ fmt_q fid @ '': reduce strategy '' @ fmt_q reduce_collect_name
                 @ '' cannot select a branch to promote for write branches; use first_success, majority, or a reduce role'')
               else Inr (FanoutNode fid f cfg writes fns judge, fanout_schema_role cfg f r writes)))"

section \<open>Slots and routers\<close>

definition validate_slots :: "role_def \<Rightarrow> (string \<times> string) list \<Rightarrow> string option" where
  "validate_slots role bindings =
     (case find (\<lambda>n. map_of bindings n = None) (role_slots role) of
        Some n \<Rightarrow> Some (''role '' @ fmt_q (role_name role) @ '' declares slot '' @ fmt_q n
                     @ '' but the node binds no value'')
      | None \<Rightarrow>
          (case find (\<lambda>n. n \<notin> set (role_slots role)) (map fst bindings) of
             Some n \<Rightarrow> Some (''node binds slot '' @ fmt_q n @ '' but role '' @ fmt_q (role_name role)
                          @ '' declares no such slot (available: '' @ join_strings '', '' (role_slots role) @ '')'')
           | None \<Rightarrow> None))"

record library =
  lb_start :: string
  lb_end :: string

definition resolve_dest :: "library \<Rightarrow> string \<Rightarrow> string" where
  "resolve_dest lb d = (if d = end_node then lb_end lb else d)"

record route =
  rt_on :: string
  rt_from :: string
  rt_source :: string
  rt_field :: string
  rt_branches :: "(string \<times> string) list"     \<comment> \<open>the encoded value and the destination\<close>
  rt_default :: string
  rt_dests :: "string list"

fun encode_branches ::
  "('v \<Rightarrow> string + string) \<Rightarrow> nat \<Rightarrow> 'v branch list \<Rightarrow> string + (string \<times> string) list" where
  "encode_branches enc j [] = Inr []"
| "encode_branches enc j (b # bs) =
     (case enc (br_when b) of
        Inl e \<Rightarrow> Inl (''branch['' @ digits_of j @ ''] when: '' @ e)
      | Inr w \<Rightarrow> (case encode_branches enc (Suc j) bs of Inl e \<Rightarrow> Inl e | Inr r \<Rightarrow> Inr ((w, br_to b) # r)))"

definition add_dest :: "string \<Rightarrow> string list \<Rightarrow> string list" where
  "add_dest d ds = (if d \<in> set ds then ds else ds @ [d])"

definition build_router ::
  "('v \<Rightarrow> string + string) \<Rightarrow> library \<Rightarrow> string \<Rightarrow> 'v router \<Rightarrow> string + route" where
  "build_router enc lb from r =
     (case parse_path (ro_on r) of
        None \<Rightarrow> Inl (''invalid router expression '' @ fmt_q (ro_on r))
      | Some (src, fld) \<Rightarrow>
          (case encode_branches enc 0 (ro_branches r) of
             Inl e \<Rightarrow> Inl e
           | Inr bs \<Rightarrow>
               (let ds = fold (\<lambda>b. add_dest (resolve_dest lb (br_to b))) (ro_branches r) [];
                    dflt = (if ro_default r = [] then [] else resolve_dest lb (ro_default r))
                in Inr \<lparr>rt_on = ro_on r, rt_from = from, rt_source = src, rt_field = fld, rt_branches = bs,
                        rt_default = dflt, rt_dests = (if ro_default r = [] then ds else add_dest dflt ds)\<rparr>)))"

definition run_router :: "json_env \<Rightarrow> library \<Rightarrow> route \<Rightarrow> task_state \<Rightarrow> string + string" where
  "run_router je lb rt s =
     (let pre = ''router '' @ fmt_q (rt_on rt) @ '' from '' @ fmt_q (rt_from rt) @ '': '';
          raw = get_node_output (rt_source rt) s
      in if raw = [] then Inl (pre @ ''no output recorded for node '' @ fmt_q (rt_source rt))
         else case extract_field je raw (rt_field rt) of
           Inl e \<Rightarrow> Inl (pre @ e)
         | Inr v \<Rightarrow>
             (case find (\<lambda>(w, d). w = encode v) (rt_branches rt) of
                Some (w, d) \<Rightarrow> Inr (resolve_dest lb d)
              | None \<Rightarrow> if rt_default rt \<noteq> [] then Inr (rt_default rt)
                        else Inl (pre @ ''no branch matched value '' @ encode v)))"

definition validate_router_schema :: "(string \<times> role_def) list \<Rightarrow> engine \<Rightarrow> 'v router \<Rightarrow> string option" where
  "validate_router_schema roles e r =
     (case parse_path (ro_on r) of
        None \<Rightarrow> Some (''invalid router expression '' @ fmt_q (ro_on r))
      | Some (src, fld) \<Rightarrow>
          (case map_of roles src of
             None \<Rightarrow> None
           | Some role \<Rightarrow>
               (case resolve_schema e role of
                  Inl err \<Rightarrow> Some err
                | Inr (raw, sc) \<Rightarrow>
                    (let hd_fld = takeWhile (\<lambda>c. c \<noteq> CHR ''.'') fld
                     in if map_of (sc_fields sc) hd_fld \<noteq> None then None
                        else Some (''router expression '' @ fmt_q (ro_on r) @ '': node '' @ fmt_q src @ '' (role ''
                          @ fmt_q (role_name role) @ '') emits schema '' @ fmt_q (sc_name sc) @ '' which has no field ''
                          @ fmt_q hd_fld @ '' (available: '' @ join_strings '', '' (map fst (sc_fields sc)) @ '')'')))))"

section \<open>Compilation\<close>

text \<open>The calls the compiler makes on the builder, and what the builder has been given.\<close>

datatype builder_call =
    is_AddNode: AddNode string graph_fn
  | AddEdge string string
  | AddConditionalEdge string route

record compile_options =
  co_max_execs :: "int option"
  co_checkpoints :: bool

record 'g builder =
  bd_library :: library
  bd_refuses :: "builder_call list \<Rightarrow> builder_call \<Rightarrow> string option"
  bd_compile :: "builder_call list \<Rightarrow> compile_options \<Rightarrow> string + 'g"

definition call_builder ::
  "'g builder \<Rightarrow> string \<Rightarrow> builder_call \<Rightarrow> builder_call list \<Rightarrow> string + builder_call list" where
  "call_builder bd ctx c cs = (case bd_refuses bd cs c of Some e \<Rightarrow> Inl (ctx @ e) | None \<Rightarrow> Inr (cs @ [c]))"

definition compile_node ::
  "template_config \<Rightarrow> string \<Rightarrow> graph_node \<Rightarrow> string + graph_fn \<times> role_def option" where
  "compile_node cfg gid n =
     (let ctx = ''compile '' @ fmt_q gid @ '': node '' @ fmt_q (gn_id n)
      in case gn_fanout n of
           Some f \<Rightarrow>
             (case fo_reduce f of
                None \<Rightarrow> Inl (ctx @ '': fanout reduce is required'')
              | Some r \<Rightarrow>
                  (case build_fanout_node cfg (gn_id n) f r of Inl e \<Rightarrow> Inl (ctx @ '': '' @ e) | Inr x \<Rightarrow> Inr x))
         | None \<Rightarrow>
             if gn_graph n \<noteq> []
             then Inl (ctx @ '' references subgraph '' @ fmt_q (gn_graph n) @ '', which is not yet supported'')
             else case build_role (gn_role n) (gn_id n) (gn_slots n) cfg of
               Inl e \<Rightarrow> Inl (ctx @ '': '' @ e)
             | Inr fn \<Rightarrow>
                 (case role_by_name cfg (gn_role n) of
                    None \<Rightarrow> Inr (SimpleNode fn, None)
                  | Some role \<Rightarrow>
                      (case validate_slots role (gn_slots n) of
                         Some e \<Rightarrow> Inl (ctx @ '': '' @ e)
                       | None \<Rightarrow> Inr (SimpleNode fn, Some role))))"

fun compile_nodes ::
  "'g builder \<Rightarrow> template_config \<Rightarrow> string \<Rightarrow> graph_node list \<Rightarrow> (string \<times> role_def) list \<Rightarrow> builder_call list \<Rightarrow>
   string + (string \<times> role_def) list \<times> builder_call list" where
  "compile_nodes bd cfg gid [] roles cs = Inr (roles, cs)"
| "compile_nodes bd cfg gid (n # ns) roles cs =
     (case compile_node cfg gid n of
        Inl e \<Rightarrow> Inl e
      | Inr (fn, role) \<Rightarrow>
          (case call_builder bd (''compile '' @ fmt_q gid @ '': AddNode '' @ fmt_q (gn_id n) @ '': '')
                  (AddNode (gn_id n) fn) cs of
             Inl e \<Rightarrow> Inl e
           | Inr cs1 \<Rightarrow>
               compile_nodes bd cfg gid ns
                 (case role of None \<Rightarrow> roles | Some r \<Rightarrow> (gn_id n, r) # roles) cs1))"

text \<open>The arrow in the text of an error.\<close>

definition arrow :: string where "arrow = [CHR 0xE2, CHR 0x86, CHR 0x92]"

definition compile_edge ::
  "'g builder \<Rightarrow> template_config \<Rightarrow> ('v \<Rightarrow> string + string) \<Rightarrow> string \<Rightarrow> (string \<times> role_def) list \<Rightarrow> nat \<Rightarrow> 'v edge \<Rightarrow>
   builder_call list \<Rightarrow> string + builder_call list" where
  "compile_edge bd cfg enc gid roles i e cs =
     (let ctx = ''compile '' @ fmt_q gid @ '': edge['' @ digits_of i @ '']''; lb = bd_library bd
      in case ed_router e of
           None \<Rightarrow> call_builder bd (ctx @ '' '' @ ed_from e @ arrow @ ed_to e @ '': '')
                     (AddEdge (ed_from e) (resolve_dest lb (ed_to e))) cs
         | Some r \<Rightarrow>
             (case (case tm_engine cfg of None \<Rightarrow> None | Some en \<Rightarrow> validate_router_schema roles en r) of
                Some err \<Rightarrow> Inl (ctx @ '' router from '' @ fmt_q (ed_from e) @ '': '' @ err)
              | None \<Rightarrow>
                  (case build_router enc lb (ed_from e) r of
                     Inl err \<Rightarrow> Inl (ctx @ '' router from '' @ fmt_q (ed_from e) @ '': '' @ err)
                   | Inr rt \<Rightarrow> call_builder bd (ctx @ '' AddConditionalEdge from '' @ fmt_q (ed_from e) @ '': '')
                                 (AddConditionalEdge (ed_from e) rt) cs)))"

fun compile_edges ::
  "'g builder \<Rightarrow> template_config \<Rightarrow> ('v \<Rightarrow> string + string) \<Rightarrow> string \<Rightarrow> (string \<times> role_def) list \<Rightarrow> nat \<Rightarrow> 'v edge list \<Rightarrow>
   builder_call list \<Rightarrow> string + builder_call list" where
  "compile_edges bd cfg enc gid roles i [] cs = Inr cs"
| "compile_edges bd cfg enc gid roles i (e # es) cs =
     (case compile_edge bd cfg enc gid roles i e cs of
        Inl err \<Rightarrow> Inl err | Inr cs1 \<Rightarrow> compile_edges bd cfg enc gid roles (Suc i) es cs1)"

definition edges_from_node :: "'v graph_def \<Rightarrow> string \<Rightarrow> bool" where
  "edges_from_node d n \<longleftrightarrow> list_ex (\<lambda>e. ed_from e = n) (gd_edges d)"

definition compile_exit :: "'g builder \<Rightarrow> 'v graph_def \<Rightarrow> builder_call list \<Rightarrow> string + builder_call list" where
  "compile_exit bd d cs =
     (if gd_exit d \<noteq> [] \<and> \<not> edges_from_node d (gd_exit d)
      then call_builder bd (''compile '' @ fmt_q (gd_id d) @ '': exit'' @ arrow @ ''end: '')
             (AddEdge (gd_exit d) (lb_end (bd_library bd))) cs
      else Inr cs)"

text \<open>The calls, or the first error.\<close>

definition compile_calls ::
  "'g builder \<Rightarrow> template_config \<Rightarrow> ('v \<Rightarrow> string + string) \<Rightarrow> 'v graph_def \<Rightarrow> string + builder_call list" where
  "compile_calls bd cfg enc d =
     (case compile_nodes bd cfg (gd_id d) (gd_nodes d) [] [] of
        Inl e \<Rightarrow> Inl e
      | Inr (roles, cs1) \<Rightarrow>
          (case call_builder bd (''compile '' @ fmt_q (gd_id d) @ '': start'' @ arrow @ fmt_q (gd_entry d) @ '': '')
                  (AddEdge (lb_start (bd_library bd)) (gd_entry d)) cs1 of
             Inl e \<Rightarrow> Inl e
           | Inr cs2 \<Rightarrow>
               (case compile_edges bd cfg enc (gd_id d) roles 0 (gd_edges d) cs2 of
                  Inl e \<Rightarrow> Inl e
                | Inr cs3 \<Rightarrow> compile_exit bd d cs3)))"

definition compile ::
  "'g builder \<Rightarrow> (float64 \<Rightarrow> string) \<Rightarrow> ('v \<Rightarrow> string + string) \<Rightarrow> template_config \<Rightarrow> 'v graph_def option \<Rightarrow>
   string + 'g" where
  "compile bd fv enc cfg def =
     (case def of
        None \<Rightarrow> Inl ''compile: nil definition''
      | Some d \<Rightarrow>
          (case validate fv d of
             Some e \<Rightarrow> Inl (''compile '' @ fmt_q (gd_id d) @ '': '' @ e)
           | None \<Rightarrow>
               (case compile_calls bd cfg enc d of
                  Inl e \<Rightarrow> Inl e
                | Inr cs \<Rightarrow>
                    bd_compile bd cs
                      \<lparr>co_max_execs = (if 0 < gd_max_iterations d then Some (gd_max_iterations d) else None),
                       co_checkpoints = tm_checkpoints cfg\<rparr>)))"


section \<open>Compiled graphs are closed\<close>

lemma encode_branches_dests: "encode_branches enc j bs = Inr cbs \<Longrightarrow> map snd cbs = map br_to bs"
  by (induction bs arbitrary: j cbs) (auto split: sum.splits)

lemma fold_add_dest:
  "set (fold (\<lambda>b. add_dest (f b)) bs ds) = set ds \<union> f ` set bs"
  "distinct ds \<Longrightarrow> distinct (fold (\<lambda>b. add_dest (f b)) bs ds)"
  by (induction bs arbitrary: ds) (auto simp: add_dest_def)

lemma set_add_dest [simp]: "set (add_dest d ds) = insert d (set ds)"
  by (auto simp: add_dest_def)

lemma distinct_add_dest [simp]: "distinct (add_dest d ds) \<longleftrightarrow> distinct ds"
  by (auto simp: add_dest_def)

lemma build_router_Inr:
  assumes "build_router enc lb from r = Inr rt"
  shows "\<exists>fld. parse_path (ro_on r) = Some (rt_source rt, fld)" "rt_from rt = from"
    "map snd (rt_branches rt) = map br_to (ro_branches r)"
    "set (rt_dests rt) = resolve_dest lb ` (br_to ` set (ro_branches r) \<union> ({ro_default r} - {[]}))"
    "distinct (rt_dests rt)" "rt_default rt \<noteq> [] \<Longrightarrow> rt_default rt \<in> set (rt_dests rt)"
  using assms
  by (auto simp: build_router_def Let_def fold_add_dest encode_branches_dests image_image
      split: option.splits sum.splits if_splits)

lemma run_router_declared:
  assumes "build_router enc lb from r = Inr rt" "run_router je lb rt s = Inr x"
  shows "x \<in> set (rt_dests rt)"
proof -
  consider v w d where "find (\<lambda>(w, d). w = v) (rt_branches rt) = Some (w, d)" "x = resolve_dest lb d"
    | "rt_default rt \<noteq> []" "x = rt_default rt"
    using assms(2) by (auto simp: run_router_def Let_def split: if_splits sum.splits option.splits)
  then show ?thesis
  proof cases
    case (1 v w d)
    then have "(w, d) \<in> set (rt_branches rt)" by (metis find_Some_iff nth_mem)
    then have "d \<in> set (map snd (rt_branches rt))" by force
    then have "d \<in> br_to ` set (ro_branches r)" using build_router_Inr(3) [OF assms(1)] by simp
    then show ?thesis using 1 build_router_Inr(4) [OF assms(1)] by auto
  next
    case 2
    then show ?thesis using build_router_Inr(6) [OF assms(1)] by simp
  qed
qed

text \<open>A call only refers to the nodes \<open>ids\<close>; a router goes only where it declares.\<close>

definition call_ok :: "library \<Rightarrow> string list \<Rightarrow> builder_call \<Rightarrow> bool" where
  "call_ok lb ids c =
     (case c of
        AddNode n fn \<Rightarrow> n \<in> set ids
      | AddEdge a b \<Rightarrow> a \<in> insert (lb_start lb) (set ids) \<and> b \<in> insert (lb_end lb) (set ids)
      | AddConditionalEdge a rt \<Rightarrow> a \<in> set ids \<and> rt_source rt \<in> set ids \<and> rt_dests rt \<noteq> [] \<and> distinct (rt_dests rt)
          \<and> set (rt_dests rt) \<subseteq> insert (lb_end lb) (set ids)
          \<and> (\<forall>je s x. run_router je lb rt s = Inr x \<longrightarrow> x \<in> set (rt_dests rt)))"

lemma valid_dest_resolved: "valid_dest ids d \<Longrightarrow> resolve_dest lb d \<in> insert (lb_end lb) (set ids)"
  by (auto simp: valid_dest_def resolve_dest_def)

lemma call_builder_Inr: "call_builder bd ctx c cs = Inr cs' \<longleftrightarrow> cs' = cs @ [c] \<and> bd_refuses bd cs c = None"
  by (auto simp: call_builder_def split: option.splits)

lemma compile_nodes_Inr:
  "compile_nodes bd cfg gid ns roles cs = Inr (roles', cs') \<Longrightarrow>
     \<exists>fns. length fns = length ns \<and> cs' = cs @ map2 AddNode (map gn_id ns) fns"
proof (induction ns arbitrary: roles cs)
  case (Cons n ns)
  obtain fn role cs1 where n: "compile_node cfg gid n = Inr (fn, role)" "cs1 = cs @ [AddNode (gn_id n) fn]"
      "compile_nodes bd cfg gid ns (case role of None \<Rightarrow> roles | Some r \<Rightarrow> (gn_id n, r) # roles) cs1 = Inr (roles', cs')"
    using Cons.prems by (auto simp: call_builder_Inr split: sum.splits)
  then obtain fns where "length fns = length ns" "cs' = cs1 @ map2 AddNode (map gn_id ns) fns"
    using Cons.IH by blast
  then show ?case using n by (intro exI [of _ "fn # fns"]) simp
qed simp

lemma router_call_ok:
  assumes "router_ok ids r" "build_router enc lb from r = Inr rt" "from \<in> set ids"
  shows "call_ok lb ids (AddConditionalEdge from rt)"
proof -
  have "set (rt_dests rt) \<subseteq> insert (lb_end lb) (set ids)"
    using assms(1) build_router_Inr(4) [OF assms(2)] valid_dest_resolved [of ids _ lb]
    by (auto simp: router_ok_def list_all_iff)
  moreover have "rt_dests rt \<noteq> []"
    using assms(1) build_router_Inr(4) [OF assms(2)] by (auto simp: router_ok_def)
  moreover have "rt_source rt \<in> set ids"
    using assms(1) build_router_Inr(1) [OF assms(2)] by (auto simp: router_ok_def)
  ultimately show ?thesis
    using assms(3) build_router_Inr(5) [OF assms(2)] run_router_declared [OF assms(2)]
    by (simp add: call_ok_def)
qed

definition leaves :: "string \<Rightarrow> builder_call \<Rightarrow> bool" where
  "leaves n c = (case c of AddNode _ _ \<Rightarrow> False | AddEdge a _ \<Rightarrow> a = n | AddConditionalEdge a _ \<Rightarrow> a = n)"

lemma compile_edge_Inr:
  assumes "compile_edge bd cfg enc gid roles i e cs = Inr cs'" "edge_ok ids e"
  shows "\<exists>c. cs' = cs @ [c] \<and> call_ok (bd_library bd) ids c \<and> \<not> is_AddNode c \<and> leaves (ed_from e) c"
proof (cases "ed_router e")
  case None
  then show ?thesis
    using assms valid_dest_resolved [of ids "ed_to e" "bd_library bd"]
    by (auto simp: compile_edge_def edge_ok_def call_builder_Inr call_ok_def leaves_def Let_def)
next
  case (Some r)
  then obtain rt where "build_router enc (bd_library bd) (ed_from e) r = Inr rt"
      "cs' = cs @ [AddConditionalEdge (ed_from e) rt]"
    using assms(1) by (auto simp: compile_edge_def call_builder_Inr Let_def split: option.splits sum.splits)
  then show ?thesis
    using assms(2) Some router_call_ok [of ids r enc "bd_library bd" "ed_from e" rt]
    by (auto simp: edge_ok_def leaves_def)
qed


lemma compile_edges_Inr:
  "compile_edges bd cfg enc gid roles i es cs = Inr cs' \<Longrightarrow> list_all (edge_ok ids) es \<Longrightarrow>
     \<exists>new. cs' = cs @ new \<and> list_all (\<lambda>c. call_ok (bd_library bd) ids c \<and> \<not> is_AddNode c) new
       \<and> (\<forall>e\<in>set es. \<exists>c\<in>set new. leaves (ed_from e) c)"
proof (induction es arbitrary: i cs)
  case (Cons e es)
  obtain c where c: "compile_edge bd cfg enc gid roles i e cs = Inr (cs @ [c])"
      "call_ok (bd_library bd) ids c" "\<not> is_AddNode c" "leaves (ed_from e) c"
    using Cons.prems compile_edge_Inr [of bd cfg enc gid roles i e cs _ ids] by (fastforce split: sum.splits)
  then obtain new where "cs' = (cs @ [c]) @ new"
      "list_all (\<lambda>c. call_ok (bd_library bd) ids c \<and> \<not> is_AddNode c) new"
      "\<forall>e\<in>set es. \<exists>c\<in>set new. leaves (ed_from e) c"
    using Cons.IH [of "Suc i" "cs @ [c]"] Cons.prems by auto
  then show ?case using c by (intro exI [of _ "c # new"]) auto
qed simp

text \<open>
  Every node once and in order, then the edges: one into the entry, and one out of the exit
  wherever it leads.
\<close>

definition closed_graph :: "library \<Rightarrow> 'v graph_def \<Rightarrow> builder_call list \<Rightarrow> bool" where
  "closed_graph lb d cs \<longleftrightarrow>
     (\<exists>fns edges. length fns = length (gd_nodes d) \<and> cs = map2 AddNode (node_ids d) fns @ edges
        \<and> list_all (\<lambda>c. call_ok lb (node_ids d) c \<and> \<not> is_AddNode c) edges
        \<and> AddEdge (lb_start lb) (gd_entry d) \<in> set edges
        \<and> (gd_exit d = [] \<or> (\<exists>c\<in>set edges. leaves (gd_exit d) c)))"

lemma compile_calls_closed:
  assumes "graph_ok d" "compile_calls bd cfg enc d = Inr cs"
  shows "closed_graph (bd_library bd) d cs"
proof -
  let ?lb = "bd_library bd" and ?ids = "node_ids d"
  let ?ok = "list_all (\<lambda>c. call_ok ?lb ?ids c \<and> \<not> is_AddNode c)"
  let ?start = "AddEdge (lb_start ?lb) (gd_entry d)"
  obtain roles cs1 cs3 where s: "compile_nodes bd cfg (gd_id d) (gd_nodes d) [] [] = Inr (roles, cs1)"
      "compile_edges bd cfg enc (gd_id d) roles 0 (gd_edges d) (cs1 @ [?start]) = Inr cs3"
      "compile_exit bd d cs3 = Inr cs"
    using assms(2) by (auto simp: compile_calls_def call_builder_Inr split: sum.splits)
  obtain fns where fns: "length fns = length (gd_nodes d)" "cs1 = map2 AddNode ?ids fns"
    using compile_nodes_Inr [OF s(1)] by (auto simp: node_ids_def)
  have es: "list_all (edge_ok ?ids) (gd_edges d)" using assms(1) by (simp add: graph_ok_def)
  obtain new where new: "cs3 = cs1 @ ?start # new" "?ok new" "\<forall>e\<in>set (gd_edges d). \<exists>c\<in>set new. leaves (ed_from e) c"
    using compile_edges_Inr [OF s(2) es] by auto
  have st: "call_ok ?lb ?ids ?start" using assms(1) by (simp add: graph_ok_def call_ok_def)
  show ?thesis
  proof (cases "gd_exit d \<noteq> [] \<and> \<not> edges_from_node d (gd_exit d)")
    case True
    then have "cs = cs3 @ [AddEdge (gd_exit d) (lb_end ?lb)]" "gd_exit d \<in> set ?ids"
      using s(3) assms(1) by (auto simp: compile_exit_def call_builder_Inr graph_ok_def)
    then show ?thesis
      using fns new st unfolding closed_graph_def
      by (intro exI [of _ fns] exI [of _ "?start # new @ [AddEdge (gd_exit d) (lb_end ?lb)]"])
         (auto simp: call_ok_def leaves_def)
  next
    case False
    then have "cs = cs3" using s(3) unfolding compile_exit_def if_not_P [OF False] by simp
    moreover have "gd_exit d = [] \<or> (\<exists>c\<in>set new. leaves (gd_exit d) c)"
      using False new(3) by (auto simp: edges_from_node_def list_ex_iff)
    ultimately show ?thesis
      using fns new st unfolding closed_graph_def
      by (intro exI [of _ fns] exI [of _ "?start # new"]) auto
  qed
qed

text \<open>
  C33. Whatever the graph library answers, a definition that compiles was handed to it as a
  closed graph: each declared node exactly once, before any edge; every edge between declared
  nodes, the start and the end; an edge into the entry and one out of the exit; and routers that
  read a declared node and, whatever it has put out, only ever go to a destination they declared.
\<close>

theorem compile_closed:
  assumes "compile bd fv enc cfg def = Inr g"
  shows "\<exists>d cs opts. def = Some d \<and> graph_ok d \<and> compile_calls bd cfg enc d = Inr cs
    \<and> closed_graph (bd_library bd) d cs \<and> bd_compile bd cs opts = Inr g"
proof -
  obtain d cs opts where d: "def = Some d" "validate fv d = None" "compile_calls bd cfg enc d = Inr cs"
      "bd_compile bd cs opts = Inr g"
    using assms by (auto simp: compile_def split: option.splits sum.splits)
  then have "graph_ok d" using validate_iff by blast
  then show ?thesis using d compile_calls_closed by blast
qed

section \<open>A sample graph\<close>

definition sample_library :: "builder_call list builder" where
  "sample_library = \<lparr>bd_library = \<lparr>lb_start = ''__start__'', lb_end = ''__end__''\<rparr>,
     bd_refuses = (\<lambda>cs c. None), bd_compile = (\<lambda>cs opts. Inr cs)\<rparr>"

definition sample_config :: template_config where
  "sample_config = \<lparr>tm_engine = None, tm_model = ''m'', tm_thinking = False, tm_temperature = Finite 0,
     tm_temperature_override = None, tm_thinking_override = None, tm_checkpoints = False,
     tm_registered = [''coder'', ''reviewer'']\<rparr>"

definition sample_node :: "string \<Rightarrow> string \<Rightarrow> graph_node" where
  "sample_node i r = \<lparr>gn_id = i, gn_role = r, gn_graph = [], gn_slots = [], gn_fanout = None\<rparr>"

definition sample_graph :: "json graph_def" where
  "sample_graph = \<lparr>gd_id = ''g'', gd_name = [], gd_description = [], gd_tags = [], gd_input_schema = [],
     gd_output_schema = [], gd_entry = ''code'', gd_exit = ''review'',
     gd_nodes = [sample_node ''code'' ''coder'', sample_node ''review'' ''reviewer''],
     gd_edges =
       [\<lparr>ed_from = ''code'', ed_to = ''review'', ed_router = None\<rparr>,
        \<lparr>ed_from = ''review'', ed_to = [], ed_router = Some \<lparr>ro_on = ''$review.output.approved'',
           ro_branches = [\<lparr>br_when = JBool True, br_to = ''end''\<rparr>], ro_default = ''code''\<rparr>\<rparr>],
     gd_max_iterations = 20\<rparr>"

lemma compile_closed_witness:
  "\<exists>cs. compile sample_library (\<lambda>t. []) (\<lambda>v. Inr (encode v)) sample_config (Some sample_graph) = Inr cs
     \<and> length cs = 5 \<and> closed_graph (bd_library sample_library) sample_graph cs"
proof -
  have "is_ok (compile sample_library (\<lambda>t. []) (\<lambda>v. Inr (encode v)) sample_config (Some sample_graph))" by code_simp
  then obtain cs where cs: "compile sample_library (\<lambda>t. []) (\<lambda>v. Inr (encode v)) sample_config (Some sample_graph) = Inr cs"
    by (auto simp: is_ok_iff)
  moreover have "closed_graph (bd_library sample_library) sample_graph cs"
    using compile_closed [OF cs] by (auto simp: sample_library_def)
  moreover have "(case compile sample_library (\<lambda>t. []) (\<lambda>v. Inr (encode v)) sample_config (Some sample_graph) of
      Inl _ \<Rightarrow> 0 | Inr cs \<Rightarrow> length cs) = 5" by code_simp
  ultimately show ?thesis by auto
qed

end
