(* ===== verification/Fanout.thy ===== *)
theory Fanout
  imports GraphCompile
begin

text \<open>
  What a fan-out node does at run time (\<open>internal/graphexec/fanout_node.go\<close>): the branches run on
  forks of the state, a reducer folds their results, and where branches write, the workspace of
  the winner is promoted. The branches' and the judge's LLM runs are parameters, and so are the
  two operations on workspaces; running the branches and joining them is \<open>rhizome.Fanout\<close>, which
  hands the results over in the order of the branches.
\<close>

section \<open>Mechanical reducers\<close>

text \<open>A result is the index of its branch and the branch's error or output.\<close>

type_synonym branch_result = "nat \<times> (string + string)"

definition successes :: "branch_result list \<Rightarrow> (nat \<times> string) list" where
  "successes rs = concat (map (\<lambda>(i, r). case r of Inl _ \<Rightarrow> [] | Inr v \<Rightarrow> [(i, v)]) rs)"

definition all_failed :: "string \<Rightarrow> branch_result list \<Rightarrow> string" where
  "all_failed what rs = what @ '': all '' @ digits_of (length rs) @ '' branches failed''"

fun marshal_raws :: "json_env \<Rightarrow> string list \<Rightarrow> string + string list" where
  "marshal_raws je [] = Inr []"
| "marshal_raws je (r # rs) =
     (case marshal_raw je r of
        Inl e \<Rightarrow> Inl e
      | Inr t \<Rightarrow> (case marshal_raws je rs of Inl e \<Rightarrow> Inl e | Inr ts \<Rightarrow> Inr (t # ts)))"

definition reduce_collect :: "json_env \<Rightarrow> branch_result list \<Rightarrow> string + string \<times> int" where
  "reduce_collect je rs =
     (let outs = map snd (successes rs)
      in if outs = [] then Inl (all_failed ''collect'' rs)
         else case marshal_raws je outs of
           Inl e \<Rightarrow> Inl (''collect: marshal: '' @ e)
         | Inr ts \<Rightarrow> Inr ([CHR 0x7B] @ enc_string ''branches'' @ '':['' @ join_strings '','' ts @ '']'' @ [CHR 0x7D], -1))"

text \<open>The winner is the position in the list.\<close>

fun first_success_from :: "nat \<Rightarrow> branch_result list \<Rightarrow> (string \<times> int) option" where
  "first_success_from i [] = None"
| "first_success_from i ((k, r) # rs) =
     (case r of Inr v \<Rightarrow> Some (v, int i) | Inl _ \<Rightarrow> first_success_from (Suc i) rs)"

definition reduce_first_success :: "branch_result list \<Rightarrow> string + string \<times> int" where
  "reduce_first_success rs =
     (case first_success_from 0 rs of Some x \<Rightarrow> Inr x | None \<Rightarrow> Inl (all_failed ''first_success'' rs))"

record tally =
  tl_key :: string
  tl_count :: nat
  tl_winner :: nat
  tl_value :: string

fun add_vote :: "string \<Rightarrow> nat \<Rightarrow> string \<Rightarrow> tally list \<Rightarrow> tally list" where
  "add_vote k i v [] = [\<lparr>tl_key = k, tl_count = 1, tl_winner = i, tl_value = v\<rparr>]"
| "add_vote k i v (t # ts) =
     (if tl_key t = k then t\<lparr>tl_count := Suc (tl_count t)\<rparr> # ts else t # add_vote k i v ts)"

fun count_votes :: "json_env \<Rightarrow> string \<Rightarrow> nat \<Rightarrow> branch_result list \<Rightarrow> tally list \<Rightarrow> string + tally list" where
  "count_votes je key i [] ts = Inr ts"
| "count_votes je key i ((k, r) # rs) ts =
     (case r of
        Inl _ \<Rightarrow> count_votes je key (Suc i) rs ts
      | Inr out \<Rightarrow>
          (case extract_field je out key of
             Inl e \<Rightarrow> Inl (''majority: branch '' @ digits_of i @ '': '' @ e)
           | Inr v \<Rightarrow> count_votes je key (Suc i) rs (add_vote (encode v) i out ts)))"

fun best_tally :: "tally \<Rightarrow> tally list \<Rightarrow> tally" where
  "best_tally b [] = b"
| "best_tally b (t # ts) = best_tally (if tl_count b < tl_count t then t else b) ts"

definition reduce_majority ::
  "json_env \<Rightarrow> string \<Rightarrow> int \<Rightarrow> branch_result list \<Rightarrow> string + string \<times> int" where
  "reduce_majority je key quorum rs =
     (case count_votes je key 0 rs [] of
        Inl e \<Rightarrow> Inl e
      | Inr [] \<Rightarrow> Inl (all_failed ''majority'' rs)
      | Inr (t # ts) \<Rightarrow>
          (let b = best_tally t ts
           in if 0 < quorum \<and> int (tl_count b) < quorum
              then Inl (''majority: winning value on '' @ fmt_q key @ '' had '' @ digits_of (tl_count b)
                     @ '' votes, below quorum '' @ fmt_int quorum)
              else Inr (tl_value b, int (tl_winner b))))"

section \<open>The judge\<close>

definition judge_max_attempts :: nat where "judge_max_attempts = 2"
definition candidates_artifact :: string where "candidates_artifact = ''fanout.candidates''"

text \<open>
  \<open>asIndex\<close> on the text of a \<open>float64\<close>: an integer below the range of \<open>int\<close> is printed in plain
  digits; negative zero is zero.
\<close>

definition as_index :: "json \<Rightarrow> nat option" where
  "as_index v =
     (case v of
        JNum t \<Rightarrow>
          if t = ''-0'' then Some 0
          else if t \<noteq> [] \<and> list_all is_digit t
          then (let n = foldl (\<lambda>a c. a * 10 + (of_char c - 48)) 0 t
                in if int n < 2 ^ 63 then Some n else None)
          else None
      | _ \<Rightarrow> None)"

definition interpret_judge ::
  "json_env \<Rightarrow> bool \<Rightarrow> string \<Rightarrow> string + task_state \<Rightarrow> branch_result list \<Rightarrow> (string \<times> int) option" where
  "interpret_judge je writes label judged rs =
     (case judged of
        Inl _ \<Rightarrow> None
      | Inr s \<Rightarrow>
          (let out = get_node_output label s
           in if out = [] then None
              else if \<not> writes then Some (out, -1)
              else case extract_field je out ''winner'' of
                Inl _ \<Rightarrow> None
              | Inr v \<Rightarrow>
                  (case as_index v of
                     None \<Rightarrow> None
                   | Some w \<Rightarrow>
                       (case find (\<lambda>(i, r). i = w) rs of
                          Some (i, Inr out') \<Rightarrow> Some (out', int w)
                        | _ \<Rightarrow> None))))"

definition candidates_json :: "json_env \<Rightarrow> branch_result list \<Rightarrow> string + string" where
  "candidates_json je rs =
     (case marshal_raws je (map snd (successes rs)) of
        Inl e \<Rightarrow> Inl e
      | Inr ts \<Rightarrow> Inr (''['' @ join_strings '',''
          (map (\<lambda>(i, t). [CHR 0x7B] @ enc_string ''index'' @ '':'' @ digits_of i @ '','' @ enc_string ''output''
                          @ '':'' @ t @ [CHR 0x7D])
               (zip (map fst (successes rs)) ts)) @ '']''))"

text \<open>The judge is a node with tools of its own; it may change the world. \<open>left\<close> attempts remain.\<close>

type_synonym 'w judge = "nat \<Rightarrow> task_state \<Rightarrow> 'w \<Rightarrow> (string + task_state) \<times> 'w"

fun judge_attempts ::
  "json_env \<Rightarrow> bool \<Rightarrow> string \<Rightarrow> 'w judge \<Rightarrow> task_state \<Rightarrow> branch_result list \<Rightarrow> nat \<Rightarrow> 'w \<Rightarrow>
   (string \<times> int) option \<times> 'w" where
  "judge_attempts je writes label judge s rs 0 w = (None, w)"
| "judge_attempts je writes label judge s rs (Suc left) w =
     (case judge left s w of
        (judged, w1) \<Rightarrow>
          (case interpret_judge je writes label judged rs of
             Some x \<Rightarrow> (Some x, w1)
           | None \<Rightarrow> judge_attempts je writes label judge s rs left w1))"

definition reduce_by_role ::
  "json_env \<Rightarrow> bool \<Rightarrow> string \<Rightarrow> 'w judge \<Rightarrow> task_state \<Rightarrow> branch_result list \<Rightarrow> 'w \<Rightarrow> (string + string \<times> int) \<times> 'w" where
  "reduce_by_role je writes fid judge s rs w =
     (if successes rs = [] then (Inl (all_failed ''reduce role'' rs), w)
      else case candidates_json je rs of
        Inl e \<Rightarrow> (Inl (''reduce role: marshal candidates: '' @ e), w)
      | Inr cj \<Rightarrow>
          (case judge_attempts je writes (fid @ ''.judge'') judge (set_artifact candidates_artifact (JStr cj) s) rs
                  judge_max_attempts w of
             (Some x, w1) \<Rightarrow> (Inr x, w1)
           | (None, w1) \<Rightarrow> (reduce_first_success rs, w1)))"

definition reduce_branches ::
  "json_env \<Rightarrow> string \<Rightarrow> reduce_spec \<Rightarrow> int \<Rightarrow> bool \<Rightarrow> 'w judge \<Rightarrow> task_state \<Rightarrow> branch_result list \<Rightarrow> 'w \<Rightarrow>
   (string + string \<times> int) \<times> 'w" where
  "reduce_branches je fid r quorum writes judge s rs w =
     (if rd_role r \<noteq> [] then reduce_by_role je writes fid judge s rs w
      else (if rd_strategy r = reduce_collect_name then reduce_collect je rs
            else if rd_strategy r = reduce_first_success_name then reduce_first_success rs
            else if rd_strategy r = reduce_majority_name then reduce_majority je (rd_key r) quorum rs
            else Inl (''unknown reduce strategy '' @ fmt_q (rd_strategy r)), w))"

section \<open>The node\<close>

record 'w fanout_env =
  fe_isolate :: "string \<Rightarrow> nat \<Rightarrow> 'w \<Rightarrow> (string + string list) \<times> 'w"
  fe_promote :: "string \<Rightarrow> string \<Rightarrow> 'w \<Rightarrow> string option \<times> 'w"
  fe_cleanup :: "string list \<Rightarrow> 'w \<Rightarrow> 'w"
  fe_branch :: "nat \<Rightarrow> string \<Rightarrow> task_state \<Rightarrow> 'w \<Rightarrow> (string + task_state) \<times> 'w"
  fe_judge :: "'w judge"
  fe_first_error :: "branch_result list \<Rightarrow> string"

definition branch_label :: "string \<Rightarrow> nat \<Rightarrow> string" where
  "branch_label fid i = fid @ ''#'' @ digits_of i"

definition branch_state :: "task_state \<Rightarrow> string list \<Rightarrow> nat \<Rightarrow> task_state" where
  "branch_state s dirs i = (if i < length dirs then s\<lparr>ts_workspace := dirs ! i\<rparr> else s)"

definition branch_output :: "string \<Rightarrow> string + task_state \<Rightarrow> string + string" where
  "branch_output label r =
     (case r of
        Inl e \<Rightarrow> Inl e
      | Inr s \<Rightarrow> (let raw = get_node_output label s
                  in if raw = [] then Inl (''branch '' @ fmt_q label @ '' produced no output'') else Inr raw))"

text \<open>
  The branches of \<open>[i..<n]\<close>, one after the other: they only meet in the world, where each works
  in its own workspace. With \<open>fail_fast\<close> an error ends the node without reducing; which one
  is returned, when several fail, is up to the library.
\<close>

fun run_branches ::
  "'w fanout_env \<Rightarrow> string \<Rightarrow> string list \<Rightarrow> task_state \<Rightarrow> nat list \<Rightarrow> 'w \<Rightarrow> branch_result list \<times> 'w" where
  "run_branches fe fid dirs s [] w = ([], w)"
| "run_branches fe fid dirs s (i # is) w =
     (case fe_branch fe i (branch_label fid i) (branch_state s dirs i) w of
        (r, w1) \<Rightarrow> (case run_branches fe fid dirs s is w1 of
                      (rs, w2) \<Rightarrow> ((i, branch_output (branch_label fid i) r) # rs, w2)))"

definition reduce_and_apply ::
  "json_env \<Rightarrow> 'w fanout_env \<Rightarrow> string \<Rightarrow> fanout \<Rightarrow> reduce_spec \<Rightarrow> bool \<Rightarrow> string list \<Rightarrow> task_state \<Rightarrow>
   branch_result list \<Rightarrow> 'w \<Rightarrow> (string option \<times> task_state) \<times> 'w" where
  "reduce_and_apply je fe fid f r writes dirs s rs w0 =
     (case reduce_branches je fid r (fo_quorum f) writes (fe_judge fe) s rs w0 of
        (Inl e, w) \<Rightarrow> ((Some e, s), w)
      | (Inr (out, winner), w) \<Rightarrow>
          if writes \<and> 0 \<le> winner \<and> winner < int (length dirs)
          then (case fe_promote fe (dirs ! nat winner) (ts_workspace s) w of
                  (Some e, w1) \<Rightarrow> ((Some (''promote winning branch '' @ fmt_int winner @ '': '' @ e), s), w1)
                | (None, w1) \<Rightarrow> (apply_output je fid out s, w1))
          else (apply_output je fid out s, w))"

definition run_fanout ::
  "json_env \<Rightarrow> 'w fanout_env \<Rightarrow> string \<Rightarrow> fanout \<Rightarrow> reduce_spec \<Rightarrow> bool \<Rightarrow> nat \<Rightarrow> task_state \<Rightarrow> 'w \<Rightarrow>
   (string option \<times> task_state) \<times> 'w" where
  "run_fanout je fe fid f r writes n s w =
     (case (if writes then fe_isolate fe (ts_workspace s) n w else (Inr [], w)) of
        (Inl e, w1) \<Rightarrow> ((Some (''isolate workspace: '' @ e), s), w1)
      | (Inr dirs, w1) \<Rightarrow>
          (case run_branches fe fid dirs s [0..<n] w1 of
             (rs, w2) \<Rightarrow>
               (case (if fo_on_error f = on_error_fail_fast \<and> list_ex (\<lambda>(i, x). \<not> is_ok x) rs
                     then Some (fe_first_error fe rs) else None) of
                  Some e \<Rightarrow> ((Some e, s), if writes then fe_cleanup fe dirs w2 else w2)
                | None \<Rightarrow>
                    (case reduce_and_apply je fe fid f r writes dirs s rs w2 of
                       (res, w3) \<Rightarrow> (res, if writes then fe_cleanup fe dirs w3 else w3)))))"


section \<open>The majority is one\<close>

definition vote :: "json_env \<Rightarrow> string \<Rightarrow> branch_result \<Rightarrow> string option" where
  "vote je key x =
     (case snd x of Inl _ \<Rightarrow> None
      | Inr out \<Rightarrow> (case extract_field je out key of Inl _ \<Rightarrow> None | Inr v \<Rightarrow> Some (encode v)))"

definition votes :: "json_env \<Rightarrow> string \<Rightarrow> branch_result list \<Rightarrow> string \<Rightarrow> nat" where
  "votes je key rs k = length (filter (\<lambda>x. vote je key x = Some k) rs)"

definition tally_ok :: "json_env \<Rightarrow> string \<Rightarrow> branch_result list \<Rightarrow> tally \<Rightarrow> bool" where
  "tally_ok je key rs t \<longleftrightarrow> tl_count t = votes je key rs (tl_key t) \<and> tl_winner t < length rs
     \<and> snd (rs ! tl_winner t) = Inr (tl_value t) \<and> vote je key (rs ! tl_winner t) = Some (tl_key t)
     \<and> (\<forall>j < tl_winner t. vote je key (rs ! j) \<noteq> Some (tl_key t))"

definition tallies_ok :: "json_env \<Rightarrow> string \<Rightarrow> branch_result list \<Rightarrow> tally list \<Rightarrow> bool" where
  "tallies_ok je key rs ts \<longleftrightarrow> list_all (tally_ok je key rs) ts \<and> sorted_wrt (\<lambda>a b. tl_winner a < tl_winner b) ts
     \<and> distinct (map tl_key ts) \<and> (\<forall>x\<in>set rs. \<forall>k. vote je key x = Some k \<longrightarrow> k \<in> tl_key ` set ts)"

lemma votes_snoc: "votes je key (rs @ [x]) k = (if vote je key x = Some k then Suc (votes je key rs k) else votes je key rs k)"
  by (simp add: votes_def)

lemma tally_ok_snoc:
  "tally_ok je key rs t \<Longrightarrow> vote je key x = Some (tl_key t) \<Longrightarrow>
     tally_ok je key (rs @ [x]) (t\<lparr>tl_count := Suc (tl_count t)\<rparr>)"
  "tally_ok je key rs t \<Longrightarrow> vote je key x \<noteq> Some (tl_key t) \<Longrightarrow> tally_ok je key (rs @ [x]) t"
  by (auto simp: tally_ok_def votes_snoc nth_append)

lemma add_vote_map:
  "k \<in> tl_key ` set ts \<Longrightarrow> distinct (map tl_key ts) \<Longrightarrow>
     add_vote k i v ts = map (\<lambda>t. if tl_key t = k then t\<lparr>tl_count := Suc (tl_count t)\<rparr> else t) ts"
proof (induction ts)
  case (Cons t ts)
  have "\<forall>x\<in>set ts. tl_key x \<noteq> tl_key t" using Cons.prems(2) by (simp, metis imageI)
  then have "tl_key t = k \<Longrightarrow> map (\<lambda>t. if tl_key t = k then t\<lparr>tl_count := Suc (tl_count t)\<rparr> else t) ts = ts"
    by (intro map_idI) auto
  then show ?case using Cons by auto
qed simp

lemma add_vote_new: "k \<notin> tl_key ` set ts \<Longrightarrow> add_vote k i v ts = ts @ [\<lparr>tl_key = k, tl_count = 1, tl_winner = i, tl_value = v\<rparr>]"
  by (induction ts) auto

lemma tallies_no_vote:
  assumes "tallies_ok je key rs ts" "vote je key x = None"
  shows "tallies_ok je key (rs @ [x]) ts"
  using assms by (auto simp: tallies_ok_def list_all_iff intro: tally_ok_snoc(2))

lemma votes_zero: "votes je key rs k = 0 \<longleftrightarrow> (\<forall>x\<in>set rs. vote je key x \<noteq> Some k)"
  by (auto simp: votes_def filter_empty_conv)

lemma tallies_vote:
  assumes "tallies_ok je key rs ts" "snd x = Inr out" "vote je key x = Some k"
  shows "tallies_ok je key (rs @ [x]) (add_vote k (length rs) out ts)"
proof (cases "k \<in> tl_key ` set ts")
  case True
  let ?f = "\<lambda>t. if tl_key t = k then t\<lparr>tl_count := Suc (tl_count t)\<rparr> else t"
  have f: "tl_winner (?f t) = tl_winner t" "tl_key (?f t) = tl_key t" for t by auto
  have "list_all (tally_ok je key (rs @ [x])) (map ?f ts)"
    using assms(1,3) by (auto simp: tallies_ok_def list_all_iff intro: tally_ok_snoc)
  moreover have "sorted_wrt (\<lambda>a b. tl_winner a < tl_winner b) (map ?f ts)"
    using assms(1) by (simp add: tallies_ok_def sorted_wrt_map f)
  moreover have "map tl_key (map ?f ts) = map tl_key ts" by (simp add: f)
  moreover have keys: "tl_key ` set (map ?f ts) = tl_key ` set ts" unfolding set_map image_image f ..
  moreover have "\<forall>y\<in>set (rs @ [x]). \<forall>k'. vote je key y = Some k' \<longrightarrow> k' \<in> tl_key ` set (map ?f ts)"
    unfolding keys using assms(1,3) True by (simp add: tallies_ok_def)
  moreover have "add_vote k (length rs) out ts = map ?f ts"
    using add_vote_map [OF True] assms(1) by (simp add: tallies_ok_def)
  ultimately show ?thesis using assms(1) unfolding tallies_ok_def by presburger
next
  case False
  let ?t = "\<lparr>tl_key = k, tl_count = 1, tl_winner = length rs, tl_value = out\<rparr>"
  have none: "\<forall>y\<in>set rs. vote je key y \<noteq> Some k" using assms(1) False by (auto simp: tallies_ok_def)
  then have "tally_ok je key (rs @ [x]) ?t"
    using assms(2,3) votes_zero [of je key rs k] by (auto simp: tally_ok_def votes_snoc nth_append)
  moreover have "tally_ok je key (rs @ [x]) t" if "t \<in> set ts" for t
  proof (rule tally_ok_snoc(2))
    show "tally_ok je key rs t" using that assms(1) by (simp add: tallies_ok_def list_all_iff)
    show "vote je key x \<noteq> Some (tl_key t)" using that assms(3) False by auto
  qed
  moreover have "tl_winner t < length rs" if "t \<in> set ts" for t
    using that assms(1) by (auto simp: tallies_ok_def list_all_iff tally_ok_def)
  ultimately show ?thesis
    using assms False by (auto simp: tallies_ok_def add_vote_new list_all_iff sorted_wrt_append)
qed

lemma count_votes_ok:
  "tallies_ok je key ps ts \<Longrightarrow> count_votes je key (length ps) rs ts = Inr ts' \<Longrightarrow> tallies_ok je key (ps @ rs) ts'"
proof (induction rs arbitrary: ps ts)
  case (Cons x rs)
  obtain i r where x: "x = (i, r)" by (cases x)
  show ?case
  proof (cases r)
    case (Inl e)
    then have "tallies_ok je key (ps @ [x]) ts"
      using Cons.prems(1) tallies_no_vote by (simp add: x vote_def)
    then show ?thesis using Cons.IH [of "ps @ [x]" ts] Cons.prems(2) Inl by (simp add: x)
  next
    case (Inr out)
    then obtain v where v: "extract_field je out key = Inr v"
        "count_votes je key (Suc (length ps)) rs (add_vote (encode v) (length ps) out ts) = Inr ts'"
      using Cons.prems(2) by (auto simp: x split: sum.splits)
    then have "tallies_ok je key (ps @ [x]) (add_vote (encode v) (length ps) out ts)"
      using tallies_vote [OF Cons.prems(1), of x out "encode v"] Inr by (simp add: x vote_def)
    then show ?thesis using Cons.IH [of "ps @ [x]"] v(2) by simp
  qed
qed simp

lemma best_tally_max:
  "sorted_wrt (\<lambda>a b. tl_winner a < tl_winner b) (b # ts) \<Longrightarrow> c = best_tally b ts \<Longrightarrow>
     c \<in> set (b # ts) \<and> (\<forall>x\<in>set (b # ts). tl_count x < tl_count c \<or> (tl_count x = tl_count c \<and> tl_winner c \<le> tl_winner x))"
proof (induction ts arbitrary: b)
  case (Cons t ts)
  let ?b = "if tl_count b < tl_count t then t else b"
  have "sorted_wrt (\<lambda>a b. tl_winner a < tl_winner b) (?b # ts)" using Cons.prems(1) by auto
  then have IH: "c \<in> set (?b # ts)" "\<forall>x\<in>set (?b # ts). tl_count x < tl_count c \<or> (tl_count x = tl_count c \<and> tl_winner c \<le> tl_winner x)"
    using Cons.IH [of ?b] Cons.prems(2) by auto
  show ?case
  proof (cases "tl_count b < tl_count t")
    case True
    then show ?thesis using IH by auto
  next
    case False
    then have "tl_count t < tl_count c \<or> (tl_count t = tl_count c \<and> tl_winner c \<le> tl_winner b)"
      using IH(2) by auto
    then show ?thesis using IH False Cons.prems(1) by auto
  qed
qed simp

text \<open>
  C39. The majority reducer returns the output of a branch whose value has the most votes, at
  least the quorum; among equally many votes, the value that was cast first; and of the branches
  with the winning value, the first.
\<close>

theorem reduce_majority_correct:
  assumes "reduce_majority je key quorum rs = Inr (out, w)"
  shows "\<exists>i k. w = int i \<and> i < length rs \<and> snd (rs ! i) = Inr out \<and> vote je key (rs ! i) = Some k
    \<and> (quorum > 0 \<longrightarrow> quorum \<le> int (votes je key rs k))
    \<and> (\<forall>k'. votes je key rs k' \<le> votes je key rs k)
    \<and> (\<forall>j < i. \<forall>k'. vote je key (rs ! j) = Some k' \<longrightarrow> votes je key rs k' < votes je key rs k)"
proof -
  obtain t ts where c: "count_votes je key 0 rs [] = Inr (t # ts)"
    using assms by (auto simp: reduce_majority_def split: sum.splits list.splits)
  define b where "b = best_tally t ts"
  have ok: "tallies_ok je key rs (t # ts)"
    using count_votes_ok [of je key "[]" "[]" rs "t # ts"] c by (simp add: tallies_ok_def)
  have b: "b \<in> set (t # ts)"
      "\<forall>x\<in>set (t # ts). tl_count x < tl_count b \<or> (tl_count x = tl_count b \<and> tl_winner b \<le> tl_winner x)"
    using best_tally_max [of t ts b] ok by (auto simp: tallies_ok_def b_def)
  have tok: "tally_ok je key rs x" if "x \<in> set (t # ts)" for x
    using ok that by (auto simp: tallies_ok_def list_all_iff)
  have r: "out = tl_value b" "w = int (tl_winner b)" "quorum > 0 \<longrightarrow> quorum \<le> int (tl_count b)"
    using assms by (auto simp: reduce_majority_def c Let_def b_def [symmetric] split: if_splits)
  have tallied: "\<exists>x\<in>set (t # ts). tl_key x = k'" if nz: "votes je key rs k' \<noteq> 0" for k'
  proof -
    obtain y where "y \<in> set rs" "vote je key y = Some k'" using nz unfolding votes_zero by blast
    then have "k' \<in> tl_key ` set (t # ts)" using ok unfolding tallies_ok_def by blast
    then show ?thesis by blast
  qed
  have le: "votes je key rs k' \<le> votes je key rs (tl_key b)" for k'
  proof (cases "votes je key rs k' = 0")
    case False
    then obtain x where x: "x \<in> set (t # ts)" "tl_key x = k'" using tallied by blast
    then have "tl_count x \<le> tl_count b" using b(2) by fastforce
    then show ?thesis using tok [OF x(1)] tok [OF b(1)] x(2) by (simp add: tally_ok_def)
  qed simp
  have lt: "votes je key rs k' < votes je key rs (tl_key b)"
    if j: "j < tl_winner b" "vote je key (rs ! j) = Some k'" for j k'
  proof -
    have jn: "j < length rs" using j(1) tok [OF b(1)] by (simp add: tally_ok_def)
    then have "votes je key rs k' \<noteq> 0" using j(2) nth_mem unfolding votes_zero by blast
    then obtain x where x: "x \<in> set (t # ts)" "tl_key x = k'" using tallied by blast
    have "tl_winner x \<le> j" using tok [OF x(1)] x(2) j(2) by (auto simp: tally_ok_def not_less)
    then have "tl_count x < tl_count b" using b(2) x(1) j(1) by fastforce
    then show ?thesis using tok [OF x(1)] tok [OF b(1)] x(2) by (simp add: tally_ok_def)
  qed
  show ?thesis
    using r le lt tok [OF b(1)] by (intro exI [of _ "tl_winner b"] exI [of _ "tl_key b"]) (auto simp: tally_ok_def)
qed

section \<open>No judge discards the branches' work\<close>

lemma first_success_Some:
  "successes rs \<noteq> [] \<Longrightarrow> \<exists>i v. first_success_from n rs = Some (v, int (n + i)) \<and> i < length rs \<and> snd (rs ! i) = Inr v"
proof (induction rs arbitrary: n)
  case (Cons x rs)
  obtain k r where x: "x = (k, r)" by (cases x)
  show ?case
  proof (cases r)
    case (Inl e)
    then have "successes rs \<noteq> []" using Cons.prems by (simp add: x successes_def)
    then obtain i v where "first_success_from (Suc n) rs = Some (v, int (Suc n + i))" "i < length rs" "snd (rs ! i) = Inr v"
      using Cons.IH by blast
    then show ?thesis using Inl x by (intro exI [of _ "Suc i"] exI [of _ v]) simp
  qed (use x in auto)
qed (simp add: successes_def)

lemma marshal_raws_ok: "list_all (\<lambda>v. is_ok (marshal_raw je v)) vs \<Longrightarrow> is_ok (marshal_raws je vs)"
  by (induction vs) (auto simp: is_ok_iff)

lemma interpret_judge_Some:
  assumes "interpret_judge je writes label judged rs = Some (out, winner)" "writes" "map fst rs = [0..<length rs]"
  shows "0 \<le> winner \<and> winner < int (length rs) \<and> snd (rs ! nat winner) = Inr out"
proof -
  obtain i n where f: "find (\<lambda>(i, r). i = n) rs = Some (i, Inr out)" "winner = int n"
    using assms(1,2) by (auto simp: interpret_judge_def Let_def split: sum.splits option.splits if_splits)
  then obtain j where j: "j < length rs" "rs ! j = (i, Inr out)" "i = n"
    by (auto simp: find_Some_iff)
  then have "map fst rs ! j = i" by simp
  then have "i = j" using assms(3) j(1) by simp
  then show ?thesis using f j by auto
qed

lemma judge_attempts_Some:
  "judge_attempts je writes label judge s rs n w = (Some x, w') \<Longrightarrow>
     \<exists>judged. interpret_judge je writes label judged rs = Some x"
  by (induction n arbitrary: w) (auto split: prod.splits option.splits)


section \<open>Samples\<close>

definition sample_json :: json_env where
  "sample_json = \<lparr>je_number = Some, je_error = (\<lambda>s. ''invalid'')\<rparr>"

definition verdict :: "bool \<Rightarrow> string" where
  "verdict b = encode (JObj [(''ok'', JBool b)])"

definition sample_results :: "branch_result list" where
  "sample_results = [(0, Inr (verdict False)), (1, Inr (verdict True)), (2, Inl ''timeout''), (3, Inr (verdict True))]"

lemma reduce_majority_witness:
  "\<exists>i. reduce_majority sample_json ''ok'' 2 sample_results = Inr (verdict True, int i) \<and> snd (sample_results ! i) = Inr (verdict True)"
proof -
  have "reduce_majority sample_json ''ok'' 2 sample_results = Inr (verdict True, 1)" by code_simp
  then show ?thesis
    using reduce_majority_correct [of sample_json "''ok''" 2 sample_results "verdict True" 1] by auto
qed


end
