(* ===== verification/Copies.thy ===== *)
theory Copies
  imports FilePath "HOL-Library.List_Lexorder" "HOL-Library.Char_ord"
begin

text \<open>
  The workspaces of a fan-out's branches (\<open>internal/workspace/workspace.go\<close>): independent copies of
  the task's workspace, and the promotion of the winner's working tree. Directories are given by
  the parts of their absolute paths. \<open>used\<close> lists the positions of the file system among which
  \<open>WalkDir\<close> finds the entries, which it visits in lexical order, a directory before what is in it.
\<close>

definition git_dir :: string where "git_dir = ''.git''"

definition in_git :: "string list \<Rightarrow> bool" where
  "in_git rel \<longleftrightarrow> rel \<noteq> [] \<and> hd rel = git_dir"

text \<open>The entries below a root, relative to it; a root that is no directory has none.\<close>

definition walk_dir :: "string list list \<Rightarrow> fs \<Rightarrow> string list \<Rightarrow> string list list option" where
  "walk_dir used fs root =
     (case fs root of
        None \<Rightarrow> None
      | Some NDir \<Rightarrow> Some (sort (remdups (map (drop (length root))
          (filter (\<lambda>p. strict_prefix root p \<and> fs p \<noteq> None) used))))
      | Some _ \<Rightarrow> Some [])"

definition rel_set :: "string list list \<Rightarrow> fs \<Rightarrow> string list \<Rightarrow> string list list option" where
  "rel_set used fs root = map_option (filter (\<lambda>rel. \<not> in_git rel)) (walk_dir used fs root)"

text \<open>\<open>os.RemoveAll\<close>, \<open>os.Remove\<close> and \<open>os.Symlink\<close>: the last name is not followed.\<close>

definition remove_all :: "string list \<Rightarrow> fs \<Rightarrow> fs" where
  "remove_all ps fs =
     (case walk kernel_link_limit fs [] (butlast ps) of
        None \<Rightarrow> fs
      | Some d \<Rightarrow> (\<lambda>q. if prefix (d @ [last ps]) q then None else fs q))"

definition remove_one :: "string list list \<Rightarrow> string list \<Rightarrow> fs \<Rightarrow> fs" where
  "remove_one used ps fs =
     (case walk kernel_link_limit fs [] (butlast ps) of
        None \<Rightarrow> fs
      | Some d \<Rightarrow>
          (let p = d @ [last ps]
           in if list_ex (\<lambda>q. strict_prefix p q \<and> fs q \<noteq> None) used then fs else fs(p := None)))"

text \<open>An operation that may fail half way: whether it succeeded, and the state it left.\<close>

definition symlink :: "string \<Rightarrow> string list \<Rightarrow> fs \<Rightarrow> bool \<times> fs" where
  "symlink targ ps fs =
     (case walk kernel_link_limit fs [] (butlast ps) of
        None \<Rightarrow> (False, fs)
      | Some d \<Rightarrow> (let p = d @ [last ps]
                 in if fs p = None \<and> fs d = Some NDir then (True, fs(p \<mapsto> NLink targ)) else (False, fs)))"

definition copy_file :: "string \<Rightarrow> string list \<Rightarrow> fs \<Rightarrow> bool \<times> fs" where
  "copy_file content targ fs =
     (case mkdir_all fs (butlast targ) of
        (False, fs1) \<Rightarrow> (False, fs1)
      | (True, fs1) \<Rightarrow> (case write_path fs1 (render targ) content of None \<Rightarrow> (False, fs1) | Some fs2 \<Rightarrow> (True, fs2)))"

definition copy_entry :: "string list list \<Rightarrow> string list \<Rightarrow> string list \<Rightarrow> string list \<Rightarrow> fs \<Rightarrow> bool \<times> fs" where
  "copy_entry used src dst rel fs =
     (case fs (src @ rel) of
        None \<Rightarrow> (False, fs)
      | Some NDir \<Rightarrow> mkdir_all fs (dst @ rel)
      | Some (NLink t) \<Rightarrow> symlink t (dst @ rel) (remove_one used (dst @ rel) fs)
      | Some (NFile x) \<Rightarrow> copy_file x (dst @ rel) fs)"

fun copy_entries :: "string list list \<Rightarrow> string list \<Rightarrow> string list \<Rightarrow> string list list \<Rightarrow> fs \<Rightarrow> bool \<times> fs" where
  "copy_entries used src dst [] fs = (True, fs)"
| "copy_entries used src dst (rel # rels) fs =
     (case copy_entry used src dst rel fs of
        (False, fs1) \<Rightarrow> (False, fs1)
      | (True, fs1) \<Rightarrow> copy_entries used src dst rels fs1)"

definition copy_tree ::
  "string list list \<Rightarrow> string list \<Rightarrow> string list \<Rightarrow> bool \<Rightarrow> fs \<Rightarrow> bool \<times> fs" where
  "copy_tree used src dst include_git fs =
     (case walk_dir used fs src of
        None \<Rightarrow> (False, fs)
      | Some rels \<Rightarrow>
          (case mkdir_all fs dst of
             (False, fs1) \<Rightarrow> (False, fs1)
           | (True, fs1) \<Rightarrow> copy_entries used src dst (filter (\<lambda>rel. include_git \<or> \<not> in_git rel) rels) fs1))"

definition promote :: "string list list \<Rightarrow> string list \<Rightarrow> string list \<Rightarrow> fs \<Rightarrow> bool \<times> fs" where
  "promote used winner base fs =
     (case (rel_set used fs winner, rel_set used fs base) of
        (Some keep, Some have) \<Rightarrow>
          copy_tree used winner base False
            (fold (\<lambda>rel. remove_all (base @ rel)) (filter (\<lambda>rel. rel \<notin> set keep) have) fs)
      | _ \<Rightarrow> (False, fs))"

text \<open>
  \<open>temp\<close> is the directory \<open>MkdirTemp\<close> makes, or its error. A failure carries the number of the
  copy that failed.
\<close>

fun copy_branches :: "string list list \<Rightarrow> string list \<Rightarrow> string list \<Rightarrow> nat list \<Rightarrow> fs \<Rightarrow> nat option \<times> fs" where
  "copy_branches used base temp [] fs = (None, fs)"
| "copy_branches used base temp (i # is) fs =
     (case copy_tree used base (temp @ [digits_of i]) True fs of
        (False, fs1) \<Rightarrow> (Some i, fs1)
      | (True, fs1) \<Rightarrow> copy_branches used base temp is fs1)"

definition cleanup :: "string list \<Rightarrow> fs \<Rightarrow> fs" where
  "cleanup temp fs = remove_all temp fs"

definition isolate ::
  "os_env \<Rightarrow> string list list \<Rightarrow> string list \<Rightarrow> nat \<Rightarrow> string + string list \<Rightarrow> fs \<Rightarrow> (string + string list list) \<times> fs" where
  "isolate oe used base n temp fs =
     (if n = 0 then (Inr [], fs)
      else case stat_path fs (render base) of
        None \<Rightarrow> (Inl (''workspace: stat base '' @ fmt_q (render base) @ '': '' @ os_error_text oe ''stat'' (render base)), fs)
      | Some NDir \<Rightarrow>
          (case temp of
             Inl e \<Rightarrow> (Inl (''workspace: create temp root: '' @ e), fs)
           | Inr t \<Rightarrow>
               (case copy_branches used base t [0..<n] (fs(t \<mapsto> NDir)) of
                  (Some i, fs1) \<Rightarrow> (Inl (''workspace: copy base into branch '' @ digits_of i @ '': ''
                      @ os_error_text oe ''copy'' (render (t @ [digits_of i]))), cleanup t fs1)
                | (None, fs1) \<Rightarrow> (Inr (map (\<lambda>i. t @ [digits_of i]) [0..<n]), fs1)))
      | Some _ \<Rightarrow> (Inl (''workspace: base '' @ fmt_q (render base) @ '' is not a directory''), fs))"

section \<open>Paths without links\<close>

definition dir_path :: "fs \<Rightarrow> string list \<Rightarrow> bool" where
  "dir_path fs ps \<longleftrightarrow> (\<forall>q. prefix q ps \<longrightarrow> fs q = Some NDir)"

lemma dir_path_snoc [simp]: "dir_path fs (ps @ [c]) \<longleftrightarrow> dir_path fs ps \<and> fs (ps @ [c]) = Some NDir"
  by (auto simp: dir_path_def prefix_snoc)

lemma walk_dirs:
  "(\<forall>q. prefix q cs \<longrightarrow> fs (dest @ q) = Some NDir) \<Longrightarrow> \<forall>c\<in>set cs. plain_part c \<Longrightarrow> walk n fs dest cs = Some (dest @ cs)"
proof (induction cs arbitrary: dest)
  case (Cons c cs)
  have "fs (dest @ [c]) = Some NDir" using Cons.prems(1) [rule_format, of "[c]"] by simp
  moreover have "fs ((dest @ [c]) @ q) = Some NDir" if "prefix q cs" for q
    using Cons.prems(1) [rule_format, of "c # q"] that by simp
  ultimately show ?case using Cons by (auto simp: plain_part_def)
qed simp

lemma walk_dir_path: "dir_path fs ps \<Longrightarrow> \<forall>c\<in>set ps. plain_part c \<Longrightarrow> walk n fs [] ps = Some ps"
  using walk_dirs [of ps fs "[]"] by (auto simp: dir_path_def)

lemma follow_dirs:
  "(\<forall>q. prefix q cs \<longrightarrow> fs (dest @ q) = Some NDir) \<Longrightarrow> \<forall>c\<in>set cs. plain_part c \<Longrightarrow> plain_part z \<Longrightarrow>
     fs (dest @ cs @ [z]) = None \<or> (\<exists>x. fs (dest @ cs @ [z]) = Some (NFile x)) \<Longrightarrow>
     follow n fs dest (cs @ [z]) = Some (dest @ cs @ [z])"
proof (induction cs arbitrary: dest)
  case (Cons c cs)
  have "fs (dest @ [c]) = Some NDir" using Cons.prems(1) [rule_format, of "[c]"] by simp
  moreover have "fs ((dest @ [c]) @ q) = Some NDir" if "prefix q cs" for q
    using Cons.prems(1) [rule_format, of "c # q"] that by simp
  ultimately show ?case using Cons by (auto simp: plain_part_def)
qed (auto simp: plain_part_def split: option.split)

lemma write_in_dir:
  assumes "dir_path fs ps" "\<forall>c\<in>set (ps @ [z]). plain_part c"
    "fs (ps @ [z]) = None \<or> (\<exists>y. fs (ps @ [z]) = Some (NFile y))"
  shows "write_path fs (render (ps @ [z])) x = Some (fs(ps @ [z] \<mapsto> NFile x))"
  using assms follow_dirs [of ps fs "[]" z kernel_link_limit] walk_render(2) [OF assms(2)]
  by (simp add: write_path_def dir_path_def)

lemma mkdir_existing: "dir_path fs ps \<Longrightarrow> \<forall>c\<in>set ps. plain_part c \<Longrightarrow> mkdir_all fs ps = (True, fs)"
  by (subst mkdir_all.simps) (simp add: walk_dir_path, simp add: dir_path_def)

lemma walk_missing:
  assumes "dir_path fs ps" "\<forall>c\<in>set (ps @ [z]). plain_part c" "fs (ps @ [z]) = None"
  shows "walk n fs [] (ps @ [z]) = None"
proof -
  have "walk n fs dest (cs @ [z]) = None"
    if "\<forall>q. prefix q cs \<longrightarrow> fs (dest @ q) = Some NDir" "\<forall>c\<in>set (cs @ [z]). plain_part c"
      "fs (dest @ cs @ [z]) = None" for cs dest
    using that
  proof (induction cs arbitrary: dest)
    case (Cons c cs)
    have "fs (dest @ [c]) = Some NDir" using Cons.prems(1) [rule_format, of "[c]"] by simp
    moreover have "fs ((dest @ [c]) @ q) = Some NDir" if "prefix q cs" for q
      using Cons.prems(1) [rule_format, of "c # q"] that by simp
    ultimately show ?case using Cons by (auto simp: plain_part_def)
  qed (auto simp: plain_part_def)
  then show ?thesis using assms by (auto simp: dir_path_def)
qed

lemma mkdir_in_dir:
  assumes "dir_path fs ps" "\<forall>c\<in>set (ps @ [z]). plain_part c" "fs (ps @ [z]) \<in> {None, Some NDir}"
  shows "mkdir_all fs (ps @ [z]) = (True, fs(ps @ [z] \<mapsto> NDir))"
proof (cases "fs (ps @ [z])")
  case None
  have "fs ps = Some NDir" using assms(1) by (simp add: dir_path_def)
  then have "make_dir_at fs (ps @ [z]) = (True, fs(ps @ [z] \<mapsto> NDir))"
    using walk_dir_path [OF assms(1)] assms(2) None by (simp add: make_dir_at_def Let_def)
  then show ?thesis
    using walk_missing [OF assms(1,2) None] mkdir_existing [OF assms(1)] assms(2)
    by (subst mkdir_all.simps) simp
next
  case (Some nd)
  then show ?thesis
    using mkdir_existing [of fs "ps @ [z]"] assms by (auto simp: fun_upd_idem)
qed


section \<open>What copying does\<close>

definition tree_ok :: "fs \<Rightarrow> bool" where
  "tree_ok fs \<longleftrightarrow> (\<forall>p q. fs p \<noteq> None \<longrightarrow> strict_prefix q p \<longrightarrow> fs q = Some NDir)"

definition overlay :: "string list \<Rightarrow> string list \<Rightarrow> string list set \<Rightarrow> fs \<Rightarrow> fs" where
  "overlay src dst rels fs = (\<lambda>q. if \<exists>rel\<in>rels. q = dst @ rel then fs (src @ drop (length dst) q) else fs q)"

definition apart :: "string list \<Rightarrow> string list \<Rightarrow> bool" where
  "apart p q \<longleftrightarrow> \<not> prefix p q \<and> \<not> prefix q p"

definition same_kind :: "node option \<Rightarrow> node option \<Rightarrow> bool" where
  "same_kind a b \<longleftrightarrow>
     (case (a, b) of
        (_, None) \<Rightarrow> True
      | (Some NDir, Some NDir) \<Rightarrow> True
      | (Some (NFile _), Some (NFile _)) \<Rightarrow> True
      | (Some (NLink _), Some (NLink _)) \<Rightarrow> True
      | _ \<Rightarrow> False)"

lemma overlay_at [simp]: "rel \<in> rels \<Longrightarrow> overlay src dst rels fs (dst @ rel) = fs (src @ rel)"
  by (auto simp: overlay_def)

lemma overlay_not [simp]: "rel \<notin> rels \<Longrightarrow> overlay src dst rels fs (dst @ rel) = fs (dst @ rel)"
  by (auto simp: overlay_def)

lemma overlay_off: "\<not> prefix dst q \<Longrightarrow> overlay src dst rels fs q = fs q"
  by (auto simp: overlay_def)

lemma apart_off: "apart src dst \<Longrightarrow> \<not> prefix dst (src @ rel)"
  by (metis apart_def prefix_same_cases prefixI)

lemma overlay_insert:
  "fs (src @ rel) = Some nd \<Longrightarrow> (overlay src dst rels fs)(dst @ rel \<mapsto> nd) = overlay src dst (insert rel rels) fs"
  by (auto simp: overlay_def fun_eq_iff)

lemma overlay_prefix_dirs:
  assumes "dir_path fs dst" "[] \<notin> D" "tree_ok fs" "fs (src @ ps @ [z]) \<noteq> None"
    "\<forall>q. strict_prefix q (ps @ [z]) \<longrightarrow> q \<noteq> [] \<longrightarrow> q \<in> D"
  shows "dir_path (overlay src dst D fs) (dst @ ps)"
  unfolding dir_path_def
proof (intro allI impI)
  fix q assume q: "prefix q (dst @ ps)"
  show "overlay src dst D fs q = Some NDir"
  proof (cases "prefix q dst")
    case True
    then have "overlay src dst D fs q = fs q"
      using assms(2) by (auto simp: overlay_def)
    then show ?thesis using True assms(1) by (simp add: dir_path_def)
  next
    case False
    then obtain r where r: "q = dst @ r" "prefix r ps" "r \<noteq> []" using q by (auto simp: prefix_append)
    then have "strict_prefix r (ps @ [z])" by (auto simp: strict_prefix_def prefix_def)
    then have "r \<in> D" "strict_prefix (src @ r) (src @ ps @ [z])"
      using assms(5) r(3) by (auto simp: strict_prefix_def)
    then show ?thesis using assms(3,4) r(1) by (auto simp: tree_ok_def)
  qed
qed

lemma same_kind_cases:
  "same_kind (Some NDir) b \<Longrightarrow> b \<in> {None, Some NDir}"
  "same_kind (Some (NFile x)) b \<Longrightarrow> b = None \<or> (\<exists>y. b = Some (NFile y))"
  "same_kind (Some (NLink x)) b \<Longrightarrow> b = None \<or> (\<exists>y. b = Some (NLink y))"
  by (auto simp: same_kind_def split: option.splits node.splits)

lemma copy_entry_overlay:
  assumes f: "tree_ok fs" "apart src dst" "dir_path fs dst"
    and rel: "rel \<noteq> []" "fs (src @ rel) \<noteq> None" "\<forall>c\<in>set (dst @ rel). plain_part c"
      "same_kind (fs (src @ rel)) (fs (dst @ rel))"
    and D: "[] \<notin> D" "rel \<notin> D" "\<forall>r\<in>D. fs (src @ r) \<noteq> None"
      "\<forall>q. strict_prefix q rel \<longrightarrow> q \<noteq> [] \<longrightarrow> q \<in> D"
  shows "copy_entry used src dst rel (overlay src dst D fs) = (True, overlay src dst (insert rel D) fs)"
proof -
  obtain ps z where pz: "rel = ps @ [z]" using rel(1) by (cases rel rule: rev_cases) auto
  let ?g = "overlay src dst D fs"
  have dirs: "dir_path ?g (dst @ ps)"
    using overlay_prefix_dirs [OF f(3) D(1) f(1)] rel(2) D(4) by (simp add: pz)
  have plain: "\<forall>c\<in>set ((dst @ ps) @ [z]). plain_part c" using rel(3) by (simp add: pz)
  have plain': "\<forall>c\<in>set (dst @ ps). plain_part c" using plain by auto
  have here: "?g (dst @ rel) = fs (dst @ rel)" using D(2) by simp
  have there: "?g (src @ rel) = fs (src @ rel)" by (rule overlay_off) (rule apart_off [OF f(2)])
  obtain nd where nd: "fs (src @ rel) = Some nd" using rel(2) by auto
  have up: "?g(dst @ rel \<mapsto> nd) = overlay src dst (insert rel D) fs" by (rule overlay_insert) (rule nd)
  show ?thesis
  proof (cases nd)
    case NDir
    then have "?g ((dst @ ps) @ [z]) \<in> {None, Some NDir}"
      using same_kind_cases(1) [of "fs (dst @ rel)"] rel(4) nd here by (simp add: pz)
    then show ?thesis
      using mkdir_in_dir [OF dirs plain] up NDir nd there by (simp add: copy_entry_def pz)
  next
    case (NFile x)
    then have "?g ((dst @ ps) @ [z]) = None \<or> (\<exists>y. ?g ((dst @ ps) @ [z]) = Some (NFile y))"
      using same_kind_cases(2) [of x "fs (dst @ rel)"] rel(4) nd here by (simp add: pz)
    then have "write_path ?g (render ((dst @ ps) @ [z])) x = Some (?g((dst @ ps) @ [z] \<mapsto> NFile x))"
      by (rule write_in_dir [OF dirs plain])
    then show ?thesis
      using mkdir_existing [OF dirs plain'] up NFile nd there
      by (simp add: copy_entry_def copy_file_def pz butlast_append)
  next
    case (NLink t)
    then have k: "fs (dst @ rel) = None \<or> (\<exists>y. fs (dst @ rel) = Some (NLink y))"
      using same_kind_cases(3) [of t "fs (dst @ rel)"] rel(4) nd by simp
    have none: "?g q = None" if q: "strict_prefix (dst @ rel) q" for q
    proof (rule ccontr)
      assume g: "?g q \<noteq> None"
      obtain r where r: "q = dst @ r" "strict_prefix rel r" using q by (auto simp: strict_prefix_def prefix_def)
      show False
      proof (cases "r \<in> D")
        case True
        then have "fs (src @ r) \<noteq> None" "strict_prefix (src @ rel) (src @ r)" using D(3) r(2) by (auto simp: strict_prefix_def)
        then have "fs (src @ rel) = Some NDir" using f(1) by (auto simp: tree_ok_def)
        then show False using nd NLink by simp
      next
        case False
        then have "fs q \<noteq> None" using g r(1) by simp
        then have "fs (dst @ rel) = Some NDir" using f(1) q by (auto simp: tree_ok_def)
        then show False using k by auto
      qed
    qed
    have w: "walk kernel_link_limit ?g [] (dst @ ps) = Some (dst @ ps)" by (rule walk_dir_path [OF dirs plain'])
    then have rm: "remove_one used (dst @ rel) ?g = ?g(dst @ rel := None)"
      using none by (auto simp: remove_one_def pz butlast_append Let_def list_ex_iff)
    have dirs': "dir_path (?g(dst @ rel := None)) (dst @ ps)"
      using dirs by (auto simp: dir_path_def pz)
    moreover have "?g (dst @ ps) = Some NDir" using dirs by (simp add: dir_path_def)
    ultimately have "symlink t (dst @ rel) (?g(dst @ rel := None)) = (True, ?g(dst @ rel \<mapsto> NLink t))"
      using walk_dir_path [OF dirs' plain'] by (simp add: symlink_def pz butlast_append Let_def)
    then show ?thesis using rm up NLink nd there by (simp add: copy_entry_def)
  qed
qed

fun parents_first :: "string list set \<Rightarrow> string list list \<Rightarrow> bool" where
  "parents_first D [] \<longleftrightarrow> True"
| "parents_first D (r # rs) \<longleftrightarrow> r \<notin> D \<and> (\<forall>q. strict_prefix q r \<longrightarrow> q \<noteq> [] \<longrightarrow> q \<in> D) \<and> parents_first (insert r D) rs"

lemma copy_entries_overlay:
  assumes "tree_ok fs" "apart src dst" "dir_path fs dst"
    and "\<forall>rel\<in>set rels. rel \<noteq> [] \<and> fs (src @ rel) \<noteq> None \<and> (\<forall>c\<in>set (dst @ rel). plain_part c)
           \<and> same_kind (fs (src @ rel)) (fs (dst @ rel))"
    and "[] \<notin> D" "\<forall>r\<in>D. fs (src @ r) \<noteq> None" "parents_first D rels"
  shows "copy_entries used src dst rels (overlay src dst D fs) = (True, overlay src dst (D \<union> set rels) fs)"
  using assms(4-)
proof (induction rels arbitrary: D)
  case (Cons rel rels)
  have "copy_entry used src dst rel (overlay src dst D fs) = (True, overlay src dst (insert rel D) fs)"
    using Cons.prems by (intro copy_entry_overlay [OF assms(1-3)]) auto
  moreover have "[] \<noteq> rel" using Cons.prems(1) by auto
  ultimately show ?case using Cons.IH [of "insert rel D"] Cons.prems by simp
qed simp

lemma strict_prefix_less: "strict_prefix q r \<Longrightarrow> q < (r :: string list)"
  by (auto simp: strict_prefix_def prefix_def list_less_def neq_Nil_conv intro: lexord_append_rightI)

lemma sorted_parents_first:
  "sorted rels \<Longrightarrow> distinct rels \<Longrightarrow> set rels \<inter> D = {} \<Longrightarrow>
     \<forall>r\<in>set rels. \<forall>q. strict_prefix q r \<longrightarrow> q \<noteq> [] \<longrightarrow> q \<in> D \<union> set rels \<Longrightarrow> parents_first D rels"
proof (induction rels arbitrary: D)
  case (Cons r rels)
  have "q \<in> D" if "strict_prefix q r" "q \<noteq> []" for q
  proof -
    have "q \<in> D \<union> set (r # rels)" using Cons.prems(4) that by simp
    moreover have "q < r" using strict_prefix_less [OF that(1)] .
    then have "q \<notin> set (r # rels)" using Cons.prems(1) by (auto simp: less_le_not_le)
    ultimately show ?thesis by blast
  qed
  moreover have "parents_first (insert r D) rels"
    using Cons.prems by (intro Cons.IH) auto
  ultimately show ?case using Cons.prems(3) by simp
qed simp

lemma walk_dir_Some:
  assumes "fs root = Some NDir" "\<forall>p. prefix root p \<longrightarrow> fs p \<noteq> None \<longrightarrow> p \<in> set used"
  obtains rels where "walk_dir used fs root = Some rels" "sorted rels" "distinct rels"
    "set rels = {rel. rel \<noteq> [] \<and> fs (root @ rel) \<noteq> None}"
proof -
  let ?rels = "sort (remdups (map (drop (length root)) (filter (\<lambda>p. strict_prefix root p \<and> fs p \<noteq> None) used)))"
  have "set ?rels = {rel. rel \<noteq> [] \<and> fs (root @ rel) \<noteq> None}"
  proof (intro set_eqI iffI)
    fix rel assume "rel \<in> set ?rels"
    then show "rel \<in> {rel. rel \<noteq> [] \<and> fs (root @ rel) \<noteq> None}" by (auto simp: strict_prefix_def prefix_def)
  next
    fix rel assume rel: "rel \<in> {rel. rel \<noteq> [] \<and> fs (root @ rel) \<noteq> None}"
    then have "root @ rel \<in> {p\<in>set used. strict_prefix root p \<and> fs p \<noteq> None}" using assms(2) by (auto simp: strict_prefix_def)
    then have "drop (length root) (root @ rel) \<in> drop (length root) ` {p\<in>set used. strict_prefix root p \<and> fs p \<noteq> None}"
      by (rule imageI)
    then show "rel \<in> set ?rels" by simp
  qed
  then show thesis using that [of ?rels] assms(1) by (simp add: walk_dir_def)
qed

lemma walk_dir_cong: "(\<And>q. prefix root q \<Longrightarrow> f q = g q) \<Longrightarrow> walk_dir used f root = walk_dir used g root"
proof -
  assume eq: "\<And>q. prefix root q \<Longrightarrow> f q = g q"
  have fe: "filter (\<lambda>p. strict_prefix root p \<and> f p \<noteq> None) used = filter (\<lambda>p. strict_prefix root p \<and> g p \<noteq> None) used"
    using eq by (intro filter_cong) auto
  show ?thesis unfolding walk_dir_def fe eq [OF prefix_order.refl] ..
qed

text \<open>A copy lays the selected entries over what the directory held.\<close>

definition selected :: "fs \<Rightarrow> string list \<Rightarrow> bool \<Rightarrow> string list set" where
  "selected fs src git = {rel. rel \<noteq> [] \<and> fs (src @ rel) \<noteq> None \<and> (git \<or> \<not> in_git rel)}"

lemma copy_tree_overlay:
  assumes "tree_ok fs" "apart src dst" "dir_path fs dst" "\<forall>c\<in>set dst. plain_part c" "fs src = Some NDir"
    and "\<forall>p. prefix src p \<longrightarrow> fs p \<noteq> None \<longrightarrow> p \<in> set used \<and> (\<forall>c\<in>set p. plain_part c)"
    and "\<forall>rel\<in>selected fs src git. same_kind (fs (src @ rel)) (fs (dst @ rel))"
    and "mkdir_all fs0 dst = (True, fs)" "walk_dir used fs0 src = walk_dir used fs src"
  shows "copy_tree used src dst git fs0 = (True, overlay src dst (selected fs src git) fs)"
proof -
  have u: "\<forall>p. prefix src p \<longrightarrow> fs p \<noteq> None \<longrightarrow> p \<in> set used" using assms(6) by blast
  obtain rels where rels: "walk_dir used fs src = Some rels" "sorted rels" "distinct rels"
      "set rels = {rel. rel \<noteq> [] \<and> fs (src @ rel) \<noteq> None}"
    by (rule walk_dir_Some [where fs = fs and root = src and used = used, OF assms(5) u])
  let ?rels = "filter (\<lambda>rel. git \<or> \<not> in_git rel) rels"
  have set: "set ?rels = selected fs src git" using rels(4) by (auto simp: selected_def)
  have closed: "q \<in> set ?rels" if "r \<in> set ?rels" "strict_prefix q r" "q \<noteq> []" for q r
  proof -
    have "strict_prefix (src @ q) (src @ r)" using that(2) by (auto simp: strict_prefix_def)
    then have "fs (src @ q) = Some NDir" using assms(1) that(1) rels(4) by (auto simp: tree_ok_def)
    moreover have "in_git q \<Longrightarrow> in_git r" using that(2,3) by (auto simp: in_git_def strict_prefix_def prefix_def)
    ultimately show ?thesis using that rels(4) by auto
  qed
  have "parents_first {} ?rels"
  proof (rule sorted_parents_first)
    show "sorted ?rels" using rels(2) by (rule sorted_wrt_filter)
    show "distinct ?rels" using rels(3) by (rule distinct_filter)
    show "\<forall>r\<in>set ?rels. \<forall>q. strict_prefix q r \<longrightarrow> q \<noteq> [] \<longrightarrow> q \<in> {} \<union> set ?rels"
      using closed by blast
  qed simp
  moreover have "\<forall>rel\<in>set ?rels. rel \<noteq> [] \<and> fs (src @ rel) \<noteq> None \<and> (\<forall>c\<in>set (dst @ rel). plain_part c)
      \<and> same_kind (fs (src @ rel)) (fs (dst @ rel))"
  proof
    fix rel assume r: "rel \<in> set ?rels"
    then have "rel \<noteq> []" "fs (src @ rel) \<noteq> None" using rels(4) by auto
    moreover from this have "\<forall>c\<in>set (src @ rel). plain_part c" using assms(6) by (metis prefixI)
    moreover have "same_kind (fs (src @ rel)) (fs (dst @ rel))" using assms(7) r set by blast
    ultimately show "rel \<noteq> [] \<and> fs (src @ rel) \<noteq> None \<and> (\<forall>c\<in>set (dst @ rel). plain_part c)
      \<and> same_kind (fs (src @ rel)) (fs (dst @ rel))" using assms(4) by auto
  qed
  ultimately have "copy_entries used src dst ?rels (overlay src dst {} fs) = (True, overlay src dst (set ?rels) fs)"
    using copy_entries_overlay [OF assms(1-3), of ?rels "{}"] by simp
  moreover have "overlay src dst {} fs = fs" by (simp add: overlay_def)
  ultimately show ?thesis
    using rels(1) assms(8,9) set by (simp add: copy_tree_def)
qed

section \<open>Promotion\<close>

definition removed :: "string list \<Rightarrow> string list set \<Rightarrow> fs \<Rightarrow> fs" where
  "removed base rels fs = (\<lambda>q. if \<exists>r\<in>rels. prefix (base @ r) q then None else fs q)"

lemma prefix_snoc_strict: "strict_prefix xs (xs @ [x])"
  by (simp add: strict_prefix_def)

lemma walk_broken:
  "\<forall>q. prefix q cs \<longrightarrow> fs (dest @ q) \<in> {None, Some NDir} \<Longrightarrow> prefix p cs \<Longrightarrow> p \<noteq> [] \<Longrightarrow> fs (dest @ p) = None \<Longrightarrow>
     \<forall>c\<in>set cs. plain_part c \<Longrightarrow> walk n fs dest cs = None"
proof (induction cs arbitrary: dest p)
  case (Cons c cs)
  have "fs (dest @ [c]) \<in> {None, Some NDir}" using Cons.prems(1) [rule_format, of "[c]"] by simp
  then show ?case
  proof (cases "fs (dest @ [c])")
    case (Some nd)
    obtain p' where p: "p = c # p'" "prefix p' cs" using Cons.prems(2,3) by (cases p) auto
    then have "p' \<noteq> []" using Some Cons.prems(4) by auto
    moreover have "\<forall>q. prefix q cs \<longrightarrow> fs ((dest @ [c]) @ q) \<in> {None, Some NDir}"
      using Cons.prems(1) by (metis Cons_prefix_Cons append_Cons append_Nil append_assoc)
    ultimately have "walk n fs (dest @ [c]) cs = None"
      using Cons.IH [of "dest @ [c]" p'] Cons.prems(4,5) p by simp
    then show ?thesis using Some \<open>fs (dest @ [c]) \<in> _\<close> Cons.prems(5) by (auto simp: plain_part_def)
  qed (use Cons.prems in \<open>auto simp: plain_part_def\<close>)
qed simp

lemma remove_all_removed:
  assumes "tree_ok fs" "fs base = Some NDir" "[] \<notin> R" "rel \<noteq> []" "fs (base @ rel) \<noteq> None" "\<forall>c\<in>set (base @ rel). plain_part c"
  shows "remove_all (base @ rel) (removed base R fs) = removed base (insert rel R) fs"
proof -
  let ?g = "removed base R fs"
  obtain ps z where pz: "rel = ps @ [z]" using assms(4) by (cases rel rule: rev_cases) auto
  have plain: "\<forall>c\<in>set (base @ ps). plain_part c" using assms(6) pz by auto
  have up: "fs q = Some NDir" if "prefix q (base @ ps)" for q
  proof -
    have "strict_prefix q (base @ rel)" using that unfolding pz by (metis append_assoc prefix_order.le_less_trans prefix_snoc_strict)
    then show ?thesis using assms(1,5) by (auto simp: tree_ok_def)
  qed
  show ?thesis
  proof (cases "\<exists>r\<in>R. prefix (base @ r) (base @ ps)")
    case True
    then obtain r where r: "r \<in> R" "prefix (base @ r) (base @ ps)" by blast
    have "walk kernel_link_limit ?g [] (base @ ps) = None"
    proof (rule walk_broken)
      show "\<forall>q. prefix q (base @ ps) \<longrightarrow> ?g ([] @ q) \<in> {None, Some NDir}" using up by (auto simp: removed_def)
      show "prefix (base @ r) (base @ ps)" by (rule r(2))
      show "base @ r \<noteq> []" using r(1) assms(3) by auto
      show "?g ([] @ base @ r) = None" using r(1) by (auto simp: removed_def)
    qed (rule plain)
    moreover have "removed base (insert rel R) fs = ?g"
      using r by (auto simp: removed_def fun_eq_iff pz prefix_def)
    ultimately show ?thesis by (simp add: remove_all_def pz butlast_append)
  next
    case False
    then have "\<not> (\<exists>r\<in>R. prefix (base @ r) q)" if "prefix q (base @ ps)" for q
      using that prefix_order.trans by blast
    then have "dir_path ?g (base @ ps)" using up by (auto simp: dir_path_def removed_def)
    then have "walk kernel_link_limit ?g [] (base @ ps) = Some (base @ ps)" by (rule walk_dir_path) (rule plain)
    then show ?thesis
      by (auto simp: remove_all_def pz butlast_append removed_def fun_eq_iff)
  qed
qed

lemma fold_remove:
  assumes "tree_ok fs" "fs base = Some NDir"
  shows "\<forall>rel\<in>set rels. rel \<noteq> [] \<and> fs (base @ rel) \<noteq> None \<and> (\<forall>c\<in>set (base @ rel). plain_part c) \<Longrightarrow> [] \<notin> R \<Longrightarrow>
    fold (\<lambda>rel. remove_all (base @ rel)) rels (removed base R fs) = removed base (R \<union> set rels) fs"
proof (induction rels arbitrary: R)
  case (Cons rel rels)
  have "remove_all (base @ rel) (removed base R fs) = removed base (insert rel R) fs"
    using Cons.prems by (intro remove_all_removed [OF assms]) auto
  then show ?case using Cons.IH [of "insert rel R"] Cons.prems by auto
qed simp

text \<open>The abstract view: what a directory holds besides its repository's metadata.\<close>

definition work_tree :: "fs \<Rightarrow> string list \<Rightarrow> string list \<Rightarrow> node option" where
  "work_tree fs root = (\<lambda>rel. if rel = [] \<or> in_git rel then None else fs (root @ rel))"

definition in_work_tree :: "string list \<Rightarrow> string list \<Rightarrow> bool" where
  "in_work_tree root q \<longleftrightarrow> (\<exists>rel. q = root @ rel \<and> rel \<noteq> [] \<and> \<not> in_git rel)"

definition listed :: "string list list \<Rightarrow> fs \<Rightarrow> bool" where
  "listed used fs \<longleftrightarrow> (\<forall>p. fs p \<noteq> None \<longrightarrow> p \<in> set used \<and> (\<forall>c\<in>set p. plain_part c))"

definition compatible :: "fs \<Rightarrow> string list \<Rightarrow> string list \<Rightarrow> bool" where
  "compatible fs winner base \<longleftrightarrow>
     (\<forall>rel nd. work_tree fs winner rel = Some nd \<longrightarrow> same_kind (Some nd) (fs (base @ rel)))"

lemma tree_ok_removed: "tree_ok fs \<Longrightarrow> tree_ok (removed base R fs)"
  unfolding tree_ok_def removed_def
  by (metis (mono_tags, lifting) option.distinct(1) prefix_order.less_imp_le prefix_order.trans)

lemma tree_ok_dir_path: "tree_ok fs \<Longrightarrow> fs p = Some NDir \<Longrightarrow> dir_path fs p"
  unfolding tree_ok_def dir_path_def by (metis option.distinct(1) prefix_order.le_less)


section \<open>Isolation\<close>

text \<open>The state after the first \<open>n\<close> copies.\<close>

definition copied :: "fs \<Rightarrow> string list \<Rightarrow> string list \<Rightarrow> nat \<Rightarrow> fs" where
  "copied fs base temp n = (\<lambda>q. if q = temp then Some NDir
     else if \<exists>j<n. prefix (temp @ [digits_of j]) q then fs (base @ drop (Suc (length temp)) q) else fs q)"

definition fresh_dir :: "fs \<Rightarrow> string list \<Rightarrow> bool" where
  "fresh_dir fs temp \<longleftrightarrow> temp \<noteq> [] \<and> fs (butlast temp) = Some NDir \<and> (\<forall>c\<in>set temp. plain_part c)
     \<and> (\<forall>q. prefix temp q \<longrightarrow> fs q = None)"

lemma digits_of_chars: "c \<in> set (digits_of n) \<Longrightarrow> (48 :: nat) \<le> of_char c"
proof (induction n rule: digits_of.induct)
  case (1 n)
  have "(48 :: nat) \<le> of_char (char_of (48 + k) :: char)" if "k < 10" for k :: nat
    using that by simp
  then have "(48 :: nat) \<le> of_char (char_of (48 + n mod 10) :: char)"
    and "n < 10 \<Longrightarrow> (48 :: nat) \<le> of_char (char_of (48 + n) :: char)" by auto
  then show ?case using 1 digits_of.simps [of n] by (auto split: if_splits)
qed

lemma digits_plain: "plain_part (digits_of n)"
proof -
  have "\<not> (48 :: nat) \<le> of_char slash" "\<not> (48 :: nat) \<le> of_char (CHR ''.'')" by (simp_all add: slash_def)
  then have "slash \<notin> set (digits_of n)" "CHR ''.'' \<notin> set (digits_of n)" using digits_of_chars by blast+
  then show ?thesis by (auto simp: plain_part_def)
qed

lemma tree_ok_copied:
  assumes "tree_ok fs" "fs base = Some NDir" "fresh_dir fs temp"
  shows "tree_ok (copied fs base temp n)"
  unfolding tree_ok_def
proof (intro allI impI)
  fix p q
  assume p: "copied fs base temp n p \<noteq> None" and q: "strict_prefix q p"
  have tp: "dir_path fs (butlast temp)" using assms by (intro tree_ok_dir_path) (auto simp: fresh_dir_def)
  have above: "copied fs base temp n q = Some NDir" if "prefix q temp"
  proof (cases "q = temp")
    case False
    then have "prefix q (butlast temp)" "\<not> prefix temp q"
      using that assms(3) by (auto simp: fresh_dir_def prefix_order.antisym) (metis append_butlast_last_id prefix_snoc)
    moreover have "\<not> prefix (temp @ [x]) q" for x using \<open>\<not> prefix temp q\<close> by (auto simp: prefix_def)
    ultimately show ?thesis using tp False by (simp add: copied_def dir_path_def)
  qed (simp add: copied_def)
  show "copied fs base temp n q = Some NDir"
  proof (cases "\<exists>j<n. prefix (temp @ [digits_of j]) p")
    case True
    then obtain j where j: "j < n" "prefix (temp @ [digits_of j]) p" by blast
    then obtain r where r: "p = temp @ [digits_of j] @ r" by (auto simp: prefix_def)
    then have pr: "fs (base @ r) \<noteq> None" using p j by (auto simp: copied_def split: if_splits)
    consider "prefix q temp" | s where "q = temp @ [digits_of j] @ s" "strict_prefix s r"
      using q r by (auto simp: strict_prefix_def prefix_append prefix_Cons)
    then show ?thesis
    proof cases
      case 2
      then have "strict_prefix (base @ s) (base @ r)" by (auto simp: strict_prefix_def)
      then have "fs (base @ s) = Some NDir" using assms(1) pr by (auto simp: tree_ok_def)
      then show ?thesis using 2 j(1) by (auto simp: copied_def)
    qed (rule above)
  next
    case False
    show ?thesis
    proof (cases "p = temp")
      case True
      then show ?thesis using q by (intro above) (auto simp: strict_prefix_def)
    next
      case pt: False
      then have "fs p \<noteq> None" using p False by (auto simp: copied_def)
      then have "\<not> prefix temp p" "fs q = Some NDir" using assms(1,3) q by (auto simp: tree_ok_def fresh_dir_def)
      moreover from this have "\<not> prefix temp q" using q by (metis prefix_order.trans prefix_order.less_imp_le)
      moreover from this have "\<not> prefix (temp @ [x]) q" for x by (auto simp: prefix_def)
      moreover have "q \<noteq> temp" using \<open>\<not> prefix temp q\<close> by auto
      ultimately show ?thesis by (simp add: copied_def)
    qed
  qed
qed

lemma copied_off: "\<not> prefix temp q \<Longrightarrow> copied fs base temp n q = fs q"
  by (auto simp: copied_def prefix_def)

lemma copied_at: "j < n \<Longrightarrow> copied fs base temp n (temp @ digits_of j # rel) = fs (base @ rel)"
  by (auto simp: copied_def)

lemma copied_not_yet: "fresh_dir fs temp \<Longrightarrow> n \<le> i \<Longrightarrow> copied fs base temp n (temp @ digits_of i # rel) = None"
  by (auto simp: copied_def fresh_dir_def dest: digits_of_inject)

lemma copy_branch:
  assumes "tree_ok fs" "fs base = Some NDir" "fresh_dir fs temp" "\<not> prefix base temp" "listed used fs"
  shows "copy_tree used base (temp @ [digits_of n]) True (copied fs base temp n) = (True, copied fs base temp (Suc n))"
proof -
  let ?dst = "temp @ [digits_of n]" and ?c = "copied fs base temp n"
  let ?g = "?c(?dst \<mapsto> NDir)"
  have nb: "\<not> prefix temp base" using assms(2,3) by (auto simp: fresh_dir_def)
  then have nbr: "\<not> prefix temp (base @ rel)" for rel
    using assms(4) by (metis prefixI prefix_same_cases)
  have tree: "tree_ok ?c" by (rule tree_ok_copied [OF assms(1-3)])
  have plain: "\<forall>c\<in>set ?dst. plain_part c" using assms(3) digits_plain by (simp add: fresh_dir_def)
  have none: "?c (temp @ digits_of n # rel) = None" for rel by (rule copied_not_yet [OF assms(3)]) simp
  have dirt: "dir_path ?c temp" by (rule tree_ok_dir_path [OF tree]) (simp add: copied_def)
  have mk: "mkdir_all ?c ?dst = (True, ?g)"
    using mkdir_in_dir [OF dirt plain] none [of "[]"] by simp
  have src: "?g (base @ rel) = fs (base @ rel)" "?c (base @ rel) = fs (base @ rel)" for rel
    using nbr [of rel] by (auto simp: copied_off prefix_def)
  have treeg: "tree_ok ?g"
    using tree none dirt unfolding tree_ok_def dir_path_def
    by (auto simp: strict_prefix_def prefix_snoc)
  have "dir_path ?g ?dst" by (rule tree_ok_dir_path [OF treeg]) simp
  moreover have "apart base ?dst" using assms(4) nb by (auto simp: apart_def prefix_snoc dest: append_prefixD)
  moreover have "\<forall>p. prefix base p \<longrightarrow> ?g p \<noteq> None \<longrightarrow> p \<in> set used \<and> (\<forall>c\<in>set p. plain_part c)"
    using assms(5) src(1) unfolding listed_def by (metis prefixE)
  moreover have "\<forall>rel\<in>selected ?g base True. same_kind (?g (base @ rel)) (?g (?dst @ rel))"
    using none by (auto simp: selected_def same_kind_def split: node.split)
  moreover have "walk_dir used ?c base = walk_dir used ?g base"
    by (rule walk_dir_cong) (metis src prefixE)
  ultimately have "copy_tree used base ?dst True ?c = (True, overlay base ?dst (selected ?g base True) ?g)"
    using copy_tree_overlay [OF treeg _ _ plain, where src = base] mk src(1) [of "[]"] assms(2) by simp
  moreover have "overlay base ?dst (selected ?g base True) ?g = copied fs base temp (Suc n)"
  proof
    fix q
    show "overlay base ?dst (selected ?g base True) ?g q = copied fs base temp (Suc n) q"
    proof (cases "prefix ?dst q")
      case True
      then obtain rel where q: "q = ?dst @ rel" by (auto simp: prefix_def)
      have c: "copied fs base temp (Suc n) q = fs (base @ rel)" using q copied_at [of n "Suc n"] by simp
      show ?thesis
      proof (cases "rel \<in> selected ?g base True")
        case True
        show ?thesis unfolding q overlay_at [OF True] c [unfolded q] src ..
      next
        case False
        then have "rel = [] \<or> fs (base @ rel) = None" by (auto simp: selected_def src simp del: fun_upd_apply)
        then show ?thesis unfolding q overlay_not [OF False] c [unfolded q] using none [of rel] assms(2) by auto
      qed
    next
      case False
      then have "copied fs base temp (Suc n) q = ?c q" by (auto simp: copied_def less_Suc_eq)
      then show ?thesis using False by (auto simp: overlay_off)
    qed
  qed
  ultimately show ?thesis by simp
qed

lemma copy_branches_copied:
  assumes "tree_ok fs" "fs base = Some NDir" "fresh_dir fs temp" "\<not> prefix base temp" "listed used fs"
  shows "copy_branches used base temp [n..<n + k] (copied fs base temp n) = (None, copied fs base temp (n + k))"
proof (induction k arbitrary: n)
  case (Suc k)
  have "[n..<n + Suc k] = n # [Suc n..<Suc n + k]" by (simp add: upt_rec)
  then show ?case using copy_branch [OF assms, of n] Suc.IH [of "Suc n"] by simp
qed simp

text \<open>
  Isolation gives every branch a directory of its own with exactly what the workspace
  holds, the repository's metadata included, and changes nothing outside the temporary directory;
  cleaning up afterwards leaves the file system as it was before.
\<close>

theorem isolate_correct:
  assumes "tree_ok fs" "fs base = Some NDir" "fresh_dir fs temp" "\<not> prefix base temp" "listed used fs" "0 < n"
  shows "\<exists>fs'. isolate oe used base n (Inr temp) fs = (Inr (map (\<lambda>i. temp @ [digits_of i]) [0..<n]), fs')
    \<and> (\<forall>i<n. \<forall>rel. fs' ((temp @ [digits_of i]) @ rel) = fs (base @ rel))
    \<and> (\<forall>q. \<not> prefix temp q \<longrightarrow> fs' q = fs q)
    \<and> cleanup temp fs' = fs"
proof -
  let ?fs' = "copied fs base temp n"
  have plain: "\<forall>c\<in>set base. plain_part c" "\<forall>c\<in>set temp. plain_part c"
    using assms(2,3,5) by (auto simp: listed_def fresh_dir_def)
  have "stat_path fs (render base) = Some NDir"
    using walk_dir_path [OF tree_ok_dir_path [OF assms(1,2)] plain(1)] assms(2)
    by (simp add: stat_path_def walk_render(1) [OF plain(1)])
  moreover have "copied fs base temp 0 = fs(temp \<mapsto> NDir)" by (auto simp: copied_def)
  ultimately have iso: "isolate oe used base n (Inr temp) fs = (Inr (map (\<lambda>i. temp @ [digits_of i]) [0..<n]), ?fs')"
    using copy_branches_copied [OF assms(1-5), of 0 n] assms(6) by (simp add: isolate_def)
  have "dir_path ?fs' (butlast temp)"
  proof (rule tree_ok_dir_path [OF tree_ok_copied [OF assms(1-3)]])
    have "\<not> prefix temp (butlast temp)" using assms(3) by (auto simp: fresh_dir_def prefix_def)
    then show "?fs' (butlast temp) = Some NDir" using assms(3) by (simp add: copied_off fresh_dir_def)
  qed
  moreover have "\<forall>c\<in>set (butlast temp). plain_part c" using plain(2) by (auto dest: in_set_butlastD)
  ultimately have "walk kernel_link_limit ?fs' [] (butlast temp) = Some (butlast temp)" by (rule walk_dir_path)
  then have "cleanup temp ?fs' = (\<lambda>q. if prefix temp q then None else ?fs' q)"
    using assms(3) by (simp add: cleanup_def remove_all_def fresh_dir_def)
  also have "\<dots> = fs" using assms(3) by (auto simp: copied_off fresh_dir_def)
  finally show ?thesis using iso by (auto simp: copied_at copied_off)
qed

section \<open>Samples\<close>

definition sample_used :: "string list list" where
  "sample_used = [[], [''w''], [''w'', ''a''], [''w'', ''old''], [''w'', ''.git''], [''w'', ''.git'', ''HEAD''],
     [''t''], [''t'', ''a''], [''t'', ''d''], [''t'', ''d'', ''b''], [''t'', ''.git''], [''x'']]"

definition sample_fs :: fs where
  "sample_fs = map_of [([], NDir), ([''w''], NDir), ([''w'', ''a''], NFile ''1''), ([''w'', ''old''], NFile ''2''),
     ([''w'', ''.git''], NDir), ([''w'', ''.git'', ''HEAD''], NFile ''h''),
     ([''t''], NDir), ([''t'', ''a''], NFile ''3''), ([''t'', ''d''], NDir), ([''t'', ''d'', ''b''], NLink ''../a''),
     ([''t'', ''.git''], NDir)]"

lemma sample_dom: "sample_fs p \<noteq> None \<Longrightarrow> p \<in> set (butlast sample_used)"
  by (auto simp: sample_fs_def sample_used_def split: if_splits)

lemma sample_tree: "tree_ok sample_fs"
proof -
  have "list_all (\<lambda>p. list_all (\<lambda>n. sample_fs (take n p) = Some NDir) [0..<length p]) (butlast sample_used)" by code_simp
  then have "\<forall>p\<in>set (butlast sample_used). \<forall>n<length p. sample_fs (take n p) = Some NDir" by (simp add: list_all_iff)
  moreover have "\<exists>n<length p. q = take n p" if "strict_prefix q p" for p q :: "string list"
    using that by (intro exI [of _ "length q"]) (auto simp: strict_prefix_def prefix_def)
  ultimately show ?thesis using sample_dom unfolding tree_ok_def by metis
qed

lemma sample_listed: "listed sample_used sample_fs"
proof -
  have "\<forall>p\<in>set (butlast sample_used). \<forall>c\<in>set p. plain_part c" by code_simp
  then show ?thesis using sample_dom unfolding listed_def by (meson in_set_butlastD)
qed

lemma sample_compatible: "compatible sample_fs [''t''] [''w'']"
proof -
  have all: "\<forall>p\<in>set (butlast sample_used). take 1 p = [''t''] \<longrightarrow> \<not> in_git (drop 1 p) \<longrightarrow> drop 1 p \<noteq> [] \<longrightarrow>
      same_kind (sample_fs p) (sample_fs (''w'' # drop 1 p))" by code_simp
  show ?thesis
    unfolding compatible_def
  proof (intro allI impI)
    fix rel nd assume w: "work_tree sample_fs [''t''] rel = Some nd"
    then have "sample_fs (''t'' # rel) = Some nd" "rel \<noteq> []" "\<not> in_git rel" by (auto simp: work_tree_def split: if_splits)
    then show "same_kind (Some nd) (sample_fs ([''w''] @ rel))"
      using all [rule_format, of "''t'' # rel"] sample_dom [of "''t'' # rel"] by simp
  qed
qed


lemma isolate_witness:
  "\<exists>fs'. isolate \<lparr>os_cwd = ''/'', os_home = None, os_error_text = (\<lambda>a b. b)\<rparr> sample_used [''w''] 2 (Inr [''x'']) sample_fs
       = (Inr [[''x'', ''0''], [''x'', ''1'']], fs')
     \<and> fs' [''x'', ''1'', ''.git'', ''HEAD''] = Some (NFile ''h'') \<and> cleanup [''x''] fs' = sample_fs"
proof -
  have "sample_fs [''w''] = Some NDir" "\<not> prefix [''w''] [''x'']" by (simp_all add: sample_fs_def)
  moreover have "fresh_dir sample_fs [''x'']"
    by (auto simp: fresh_dir_def sample_fs_def plain_part_def slash_def)
  moreover have "map (\<lambda>i. [''x''] @ [digits_of i]) [0..<2] = [[''x'', ''0''], [''x'', ''1'']]" by code_simp
  moreover have "digits_of 1 = ''1''" by code_simp
  ultimately obtain fs' where fs':
      "isolate \<lparr>os_cwd = ''/'', os_home = None, os_error_text = (\<lambda>a b. b)\<rparr> sample_used [''w''] 2 (Inr [''x'']) sample_fs
         = (Inr [[''x'', ''0''], [''x'', ''1'']], fs')"
      "\<forall>i<2. \<forall>rel. fs' (([''x''] @ [digits_of i]) @ rel) = sample_fs ([''w''] @ rel)" "cleanup [''x''] fs' = sample_fs"
    using isolate_correct [OF sample_tree _ _ _ sample_listed, where base = "[''w'']" and temp = "[''x'']" and n = 2
        and oe = "\<lparr>os_cwd = ''/'', os_home = None, os_error_text = (\<lambda>a b. b)\<rparr>"] by auto
  have "fs' (([''x''] @ [digits_of 1]) @ [''.git'', ''HEAD'']) = Some (NFile ''h'')"
    using fs'(2) [rule_format, of 1 "[''.git'', ''HEAD'']"] by (simp add: sample_fs_def)
  then show ?thesis using fs'(1,3) \<open>digits_of 1 = ''1''\<close> by auto
qed

text \<open>
  A file the winner put in the place of a link is written through the link that the workspace
  still has: promotion reaches outside the workspace.
\<close>

definition linked_fs :: fs where
  "linked_fs = map_of [([], NDir), ([''w''], NDir), ([''w'', ''a''], NLink ''/etc''), ([''etc''], NFile ''root''),
     ([''t''], NDir), ([''t'', ''a''], NFile ''new'')]"

lemma promote_follows_link:
  "let (ok, fs') = promote [[''w'', ''a''], [''t'', ''a'']] [''t''] [''w''] linked_fs
   in ok \<and> fs' [''etc''] = Some (NFile ''new'') \<and> fs' [''w'', ''a''] = Some (NLink ''/etc'')"
  by code_simp

end
