(* ===== verification/WireCodec.thy ===== *)
theory WireCodec
  imports Json "HOL-Library.AList" "HOL-Library.Word"
begin

text \<open>
  How \<open>encoding/json\<close> writes a Go struct and reads it back, for the field types the wire structs of
  \<open>internal/server\<close> and \<open>internal/client\<close> have. A struct is a record; writing it gives its members in
  the order of the fields, those tagged \<open>omitempty\<close> left out when they are zero; reading a document
  into it goes through the members and sets the field each one names.

  A slice or a map is \<open>None\<close> when it is nil. A map's entries are listed once per key, in the order
  of the keys. An \<open>int\<close> or \<open>int64\<close> is a 64-bit word read as signed. A \<open>json.RawMessage\<close> is the
  document it holds, \<open>None\<close> when it is nil. A \<open>time.Time\<close> is the RFC 3339 text it is written as,
  and a \<open>float64\<close> the number \<open>strconv\<close> prints for it, the shortest one it is read back from.
\<close>

named_theorems wire "how struct members are written and read back"

section \<open>Field types\<close>

type_synonym 'a slice = "'a list option"
type_synonym 'a dict = "(string \<times> 'a) list option"
type_synonym raw = "json option"
type_synonym go_int = "64 word"

datatype timestamp = Time string
datatype json_float = Float string

definition elems :: "'a slice \<Rightarrow> 'a list" where
  "elems s = (case s of None \<Rightarrow> [] | Some xs \<Rightarrow> xs)"

text \<open>Appending to a nil slice leaves it nil when there is nothing to append.\<close>

definition appended :: "'a list \<Rightarrow> 'a slice" where
  "appended xs = (if xs = [] then None else Some xs)"

text \<open>
  The texts \<open>Time.MarshalJSON\<close> writes: date and time of day, an optional fraction of a second, and
  \<open>Z\<close> or an offset.
\<close>

definition two_digits :: "string \<Rightarrow> nat \<Rightarrow> nat" where
  "two_digits s i = 10 * (of_char (s ! i) - 48) + (of_char (s ! Suc i) - 48)"

definition leap_year :: "nat \<Rightarrow> bool" where
  "leap_year y \<longleftrightarrow> y mod 4 = 0 \<and> (y mod 100 \<noteq> 0 \<or> y mod 400 = 0)"

definition days_in :: "nat \<Rightarrow> nat \<Rightarrow> nat" where
  "days_in y m =
     (if m = 2 then (if leap_year y then 29 else 28)
      else if m = 4 \<or> m = 6 \<or> m = 9 \<or> m = 11 then 30 else 31)"

definition zone_ok :: "string \<Rightarrow> bool" where
  "zone_ok r \<longleftrightarrow>
     r = ''Z'' \<or>
     (length r = 6 \<and> (r ! 0 = CHR ''+'' \<or> r ! 0 = CHR ''-'') \<and> r ! 3 = CHR '':'' \<and>
      list_all (\<lambda>i. is_digit (r ! i)) [1, 2, 4, 5] \<and> two_digits r 1 < 24 \<and> two_digits r 4 < 60)"

definition drop_fraction :: "string \<Rightarrow> string" where
  "drop_fraction r =
     (case r of
        c # d \<Rightarrow> if c = CHR ''.'' \<and> takeWhile is_digit d \<noteq> [] then dropWhile is_digit d else r
      | [] \<Rightarrow> r)"

definition rfc3339 :: "string \<Rightarrow> bool" where
  "rfc3339 s \<longleftrightarrow>
     20 \<le> length s \<and>
     list_all (\<lambda>i. is_digit (s ! i)) [0, 1, 2, 3, 5, 6, 8, 9, 11, 12, 14, 15, 17, 18] \<and>
     s ! 4 = CHR ''-'' \<and> s ! 7 = CHR ''-'' \<and> s ! 10 = CHR ''T'' \<and> s ! 13 = CHR '':'' \<and>
     s ! 16 = CHR '':'' \<and>
     1 \<le> two_digits s 5 \<and> two_digits s 5 \<le> 12 \<and> 1 \<le> two_digits s 8 \<and>
     two_digits s 8 \<le> days_in (100 * two_digits s 0 + two_digits s 2) (two_digits s 5) \<and>
     two_digits s 11 < 24 \<and> two_digits s 14 < 60 \<and> two_digits s 17 < 60 \<and>
     zone_ok (drop_fraction (drop 19 s))"

text \<open>The zero time and the other zero values.\<close>

definition zero_time :: timestamp where
  "zero_time = Time ''0001-01-01T00:00:00Z''"

definition zero_float :: json_float where
  "zero_float = Float ''0''"

fun float_is_zero :: "json_float \<Rightarrow> bool" where
  "float_is_zero (Float s) \<longleftrightarrow> s = ''0'' \<or> s = ''-0''"

section \<open>Writing\<close>

definition int_json :: "go_int \<Rightarrow> json" where
  "int_json w = JNum (fmt_int (sint w))"

definition uint_json :: "64 word \<Rightarrow> json" where
  "uint_json w = JNum (digits_of (unat w))"

fun time_json :: "timestamp \<Rightarrow> json" where
  "time_json (Time s) = JStr s"

fun float_json :: "json_float \<Rightarrow> json" where
  "float_json (Float s) = JNum s"

definition raw_json :: "raw \<Rightarrow> json" where
  "raw_json r = (case r of None \<Rightarrow> JNull | Some j \<Rightarrow> j)"

definition slice_json :: "('a \<Rightarrow> json) \<Rightarrow> 'a slice \<Rightarrow> json" where
  "slice_json f s = (case s of None \<Rightarrow> JNull | Some xs \<Rightarrow> JArr (map f xs))"

definition ptr_json :: "('a \<Rightarrow> json) \<Rightarrow> 'a option \<Rightarrow> json" where
  "ptr_json f p = (case p of None \<Rightarrow> JNull | Some v \<Rightarrow> f v)"

definition dict_json :: "('a \<Rightarrow> json) \<Rightarrow> 'a dict \<Rightarrow> json" where
  "dict_json f d = (case d of None \<Rightarrow> JNull | Some kvs \<Rightarrow> JObj (map (\<lambda>(k, v). (k, f v)) kvs))"

definition member :: "string \<Rightarrow> json \<Rightarrow> (string \<times> json) list" where
  "member k j = [(k, j)]"

definition omit_if :: "bool \<Rightarrow> string \<Rightarrow> json \<Rightarrow> (string \<times> json) list" where
  "omit_if zero k j = (if zero then [] else [(k, j)])"

section \<open>Reading\<close>

text \<open>
  A reader takes the document and the value the variable holds, and gives the value it then holds,
  or \<open>None\<close> for an error. A null leaves a string, a number, a time or a struct as it is and clears
  a slice, a map or a pointer; a \<open>json.RawMessage\<close> takes it as a document.
\<close>

type_synonym 'a reader = "json \<Rightarrow> 'a \<Rightarrow> 'a option"

fun read_string :: "string reader" where
  "read_string (JStr s) old = Some s"
| "read_string JNull old = Some old"
| "read_string _ old = None"

fun read_bool :: "bool reader" where
  "read_bool (JBool b) old = Some b"
| "read_bool JNull old = Some old"
| "read_bool _ old = None"

definition parse_digits :: "string \<Rightarrow> nat option" where
  "parse_digits s =
     (if s \<noteq> [] \<and> list_all is_digit s
      then Some (foldl (\<lambda>n c. 10 * n + (of_char c - 48)) 0 s) else None)"

definition parse_int :: "string \<Rightarrow> int option" where
  "parse_int s =
     (case s of
        c # d \<Rightarrow> if c = CHR ''-'' then map_option (\<lambda>n. - int n) (parse_digits d)
                 else map_option int (parse_digits s)
      | [] \<Rightarrow> None)"

fun read_int :: "go_int reader" where
  "read_int (JNum n) old =
     (case parse_int n of
        Some i \<Rightarrow> if - (2 ^ 63) \<le> i \<and> i < 2 ^ 63 then Some (word_of_int i) else None
      | None \<Rightarrow> None)"
| "read_int JNull old = Some old"
| "read_int _ old = None"

fun read_uint :: "64 word reader" where
  "read_uint (JNum n) old =
     (case parse_digits n of
        Some i \<Rightarrow> if i < 2 ^ 64 then Some (word_of_nat i) else None
      | None \<Rightarrow> None)"
| "read_uint JNull old = Some old"
| "read_uint _ old = None"

fun read_float :: "json_float reader" where
  "read_float (JNum n) old = Some (Float n)"
| "read_float JNull old = Some old"
| "read_float _ old = None"

fun read_time :: "timestamp reader" where
  "read_time (JStr s) old = (if rfc3339 s then Some (Time s) else None)"
| "read_time JNull old = Some old"
| "read_time _ old = None"

definition read_raw :: "raw reader" where
  "read_raw j old = Some (Some j)"

fun read_slice :: "'a reader \<Rightarrow> 'a \<Rightarrow> 'a slice reader" where
  "read_slice rd zero (JArr js) old = map_option Some (those (map (\<lambda>j. rd j zero) js))"
| "read_slice rd zero JNull old = Some None"
| "read_slice rd zero _ old = None"

fun read_ptr :: "'a reader \<Rightarrow> 'a \<Rightarrow> 'a option reader" where
  "read_ptr rd zero JNull old = Some None"
| "read_ptr rd zero j old = map_option Some (rd j (case old of None \<Rightarrow> zero | Some v \<Rightarrow> v))"

text \<open>An entry with the key of an earlier one replaces it.\<close>

definition put_entry :: "string \<Rightarrow> 'a \<Rightarrow> (string \<times> 'a) list \<Rightarrow> (string \<times> 'a) list" where
  "put_entry k v kvs = sort_key fst (AList.update k v kvs)"

fun read_entries :: "'a reader \<Rightarrow> 'a \<Rightarrow> (string \<times> json) list \<Rightarrow> (string \<times> 'a) list
    \<Rightarrow> (string \<times> 'a) list option" where
  "read_entries rd zero [] kvs = Some kvs"
| "read_entries rd zero ((k, j) # ms) kvs =
     (case rd j zero of
        None \<Rightarrow> None
      | Some v \<Rightarrow> read_entries rd zero ms (put_entry k v kvs))"

fun read_dict :: "'a reader \<Rightarrow> 'a \<Rightarrow> 'a dict reader" where
  "read_dict rd zero (JObj ms) old = map_option Some (read_entries rd zero ms (elems old))"
| "read_dict rd zero JNull old = Some None"
| "read_dict rd zero _ old = None"

text \<open>
  A struct's fields are a table from their names to what a member of that name sets. A member's
  key names the field it equals, or else the first one it equals up to case; other members are
  ignored.
\<close>

type_synonym 'r fields = "(string \<times> 'r reader) list"

definition field :: "('r \<Rightarrow> 'a) \<Rightarrow> (('a \<Rightarrow> 'a) \<Rightarrow> 'r \<Rightarrow> 'r) \<Rightarrow> 'a reader \<Rightarrow> 'r reader" where
  "field get upd rd j r = map_option (\<lambda>v. upd (\<lambda>_. v) r) (rd j (get r))"

definition find_field :: "'r fields \<Rightarrow> string \<Rightarrow> 'r reader option" where
  "find_field fs k =
     (case map_of fs k of
        Some f \<Rightarrow> Some f
      | None \<Rightarrow> map_option snd (find (\<lambda>(n, f). field_matches n k) fs))"

fun read_members :: "'r fields \<Rightarrow> (string \<times> json) list \<Rightarrow> 'r \<Rightarrow> 'r option" where
  "read_members fs [] r = Some r"
| "read_members fs ((k, j) # ms) r =
     (case find_field fs k of
        None \<Rightarrow> read_members fs ms r
      | Some f \<Rightarrow> (case f j r of None \<Rightarrow> None | Some r' \<Rightarrow> read_members fs ms r'))"

fun read_struct :: "'r fields \<Rightarrow> 'r reader" where
  "read_struct fs (JObj ms) r = read_members fs ms r"
| "read_struct fs JNull r = Some r"
| "read_struct fs _ r = None"


section \<open>What is written is read back\<close>

lemma digit_char: "n < 10 \<Longrightarrow> is_digit (char_of (48 + n)) \<and> of_char (char_of (48 + n) :: char) = 48 + (n :: nat)"
  by (simp add: is_digit_def)

lemma digits_of_digits: "list_all is_digit (digits_of n)"
  by (induction n rule: digits_of.induct) (subst digits_of.simps, simp add: digit_char)

lemma parse_digits_of: "parse_digits (digits_of n) = Some n"
proof -
  have "foldl (\<lambda>n c. 10 * n + (of_char c - 48)) 0 (digits_of n) = n" for n :: nat
    by (induction n rule: digits_of.induct) (subst digits_of.simps, simp add: digit_char)
  then show ?thesis by (simp add: parse_digits_def digits_of_digits)
qed

lemma digits_of_no_sign: "digits_of n = c # s \<Longrightarrow> c \<noteq> CHR ''-''"
  using digits_of_digits [of n] by (auto simp: is_digit_def)

lemma parse_fmt_int: "parse_int (fmt_int i) = Some i"
proof (cases "i < 0")
  case True
  then show ?thesis by (simp add: fmt_int_def parse_int_def parse_digits_of)
next
  case False
  obtain c t where d: "digits_of (nat i) = c # t" by (cases "digits_of (nat i)") simp_all
  have "parse_digits (c # t) = Some (nat i)" using parse_digits_of [of "nat i"] d by simp
  then show ?thesis using False d digits_of_no_sign [OF d] by (simp add: fmt_int_def parse_int_def)
qed

lemma digits_zero: "digits_of 0 = ''0''"
  by code_simp

lemma digits_of_zero: "digits_of n = CHR ''0'' # s \<Longrightarrow> s = []"
proof (induction n arbitrary: s rule: digits_of.induct)
  case (1 n)
  show ?case
  proof (cases "n < 10")
    case True
    then show ?thesis using 1(2) by (subst (asm) digits_of.simps) simp
  next
    case False
    obtain c t where d: "digits_of (n div 10) = c # t"
      by (cases "digits_of (n div 10)") simp_all
    have "digits_of n = (c # t) @ [char_of (48 + n mod 10)]"
      using False d by (subst digits_of.simps) simp
    then have "c = CHR ''0''" using 1(2) by simp
    then have "t = []" using 1(1) [OF False] d by simp
    then have "digits_of (n div 10) = digits_of 0"
      using d \<open>c = CHR ''0''\<close> digits_zero by simp
    then have "n div 10 = 0" by (rule digits_of_inject)
    then show ?thesis using False by simp
  qed
qed

lemma number_end_digits: "number_end (digits_of n) = Some []"
proof -
  obtain c t where d: "digits_of n = c # t" by (cases "digits_of n") simp_all
  have c: "is_digit c" and t: "list_all is_digit t" using digits_of_digits [of n] d by simp_all
  have no: "c \<noteq> CHR ''-''" using digits_of_no_sign [OF d] .
  have all: "\<forall>x\<in>set t. is_digit x" using t by (simp add: list_all_iff)
  have "dropWhile is_digit t = []" using all by simp
  show ?thesis
    using d c no \<open>dropWhile is_digit t = []\<close> digits_of_zero [of n t]
    by (cases "c = CHR ''0''") (simp_all add: number_end_def digits1_def del: dropWhile_eq_Nil_conv)
qed

lemma digits_ok: "valid_number (digits_of n)" "list_all number_char (digits_of n)"
  using number_end_digits digits_of_digits [of n]
  by (simp_all add: valid_number_def number_char_def list_all_iff)


lemma fmt_int_ok: "valid_number (fmt_int i)" "list_all number_char (fmt_int i)"
proof -
  have minus: "valid_number (CHR ''-'' # digits_of n)" for n
  proof -
    obtain c t where d: "digits_of n = c # t" by (cases "digits_of n") simp_all
    show ?thesis
      using number_end_digits [of n] d digits_of_no_sign [OF d]
      by (simp add: valid_number_def number_end_def)
  qed
  show "valid_number (fmt_int i)" "list_all number_char (fmt_int i)"
    using minus digits_ok by (simp_all add: fmt_int_def number_char_def)
qed

text \<open>
  A value that satisfies \<open>P\<close> is written as a JSON document, and reading that into a zero variable
  gives \<open>g\<close> of the value.
\<close>

definition reads :: "'a reader \<Rightarrow> ('a \<Rightarrow> json) \<Rightarrow> ('a \<Rightarrow> 'a) \<Rightarrow> ('a \<Rightarrow> bool) \<Rightarrow> 'a \<Rightarrow> bool" where
  "reads rd f g P zero \<longleftrightarrow> (\<forall>x. P x \<longrightarrow> wf_json (f x) \<and> rd (f x) zero = Some (g x))"

fun time_ok :: "timestamp \<Rightarrow> bool" where
  "time_ok (Time s) \<longleftrightarrow> rfc3339 s"

text \<open>A negative zero is left out by \<open>omitempty\<close> and comes back as zero.\<close>

fun float_ok :: "json_float \<Rightarrow> bool" where
  "float_ok (Float s) \<longleftrightarrow> valid_number s \<and> list_all number_char s \<and> s \<noteq> ''-0''"

definition raw_ok :: "raw \<Rightarrow> bool" where
  "raw_ok r \<longleftrightarrow> (case r of None \<Rightarrow> True | Some j \<Rightarrow> wf_json j)"

definition dict_ok :: "('a \<Rightarrow> bool) \<Rightarrow> 'a dict \<Rightarrow> bool" where
  "dict_ok P d \<longleftrightarrow> sorted (map fst (elems d)) \<and> distinct (map fst (elems d)) \<and> list_all (\<lambda>e. P (snd e)) (elems d)"

definition map_dict :: "('a \<Rightarrow> 'b) \<Rightarrow> 'a dict \<Rightarrow> 'b dict" where
  "map_dict g = map_option (map (\<lambda>(k, v). (k, g v)))"

lemma wf_writers [wire]:
  "wf_json (int_json w)" "wf_json (uint_json u)" "wf_json (time_json t)"
  "float_ok x \<Longrightarrow> wf_json (float_json x)" "raw_ok r \<Longrightarrow> wf_json (raw_json r)"
     apply (simp_all add: int_json_def uint_json_def fmt_int_ok digits_ok)
    apply (cases t, simp)
   apply (cases x, simp)
  apply (cases r; simp add: raw_json_def raw_ok_def)
  done

lemma read_int_json [wire]: "read_int (int_json w) old = Some w"
  using sint_range_size [of w] by (simp add: int_json_def parse_fmt_int word_size)

lemma read_uint_json [wire]: "read_uint (uint_json w) old = Some w"
  using unsigned_less [of w] by (simp add: uint_json_def parse_digits_of)

lemma read_others [wire]:
  "time_ok t \<Longrightarrow> read_time (time_json t) old' = Some t"
  "read_float (float_json x) old'' = Some x"
  "read_raw j r = Some (Some j)"
  by (cases t, simp, cases x, simp, simp add: read_raw_def)

lemma float_zero [wire]: "float_ok x \<Longrightarrow> float_is_zero x \<longleftrightarrow> x = zero_float"
  by (cases x) (auto simp: zero_float_def)

lemma zero_values [simp]:
  "time_ok zero_time" "float_ok zero_float" "raw_ok None"
  by (simp_all add: zero_time_def zero_float_def raw_ok_def rfc3339_def zone_ok_def drop_fraction_def
      two_digits_def days_in_def is_digit_def valid_number_def number_end_def number_char_def)

lemma elems_simps [simp]:
  "elems None = []" "elems (Some xs) = xs" "elems (appended xs) = xs"
  by (simp_all add: elems_def appended_def)

lemma those_map: "(\<And>x. x \<in> set xs \<Longrightarrow> h x = Some (g x)) \<Longrightarrow> those (map h xs) = Some (map g xs)"
  by (induction xs) simp_all

lemma readsD:
  assumes "reads rd f g P zero" "P x"
  shows "wf_json (f x)" "rd (f x) zero = Some (g x)"
  using assms by (simp_all add: reads_def)

lemma reads_slice:
  assumes r: "reads rd f g P zero" and ok: "list_all P (elems s)"
  shows "wf_json (slice_json f s)" "read_slice rd zero (slice_json f s) old = Some (map_option (map g) s)"
  using ok readsD [OF r]
  by (auto simp: slice_json_def list_all_iff comp_def intro!: those_map split: option.split)

lemma put_last:
  assumes "sorted (map fst (kvs @ [(k, v)]))" "distinct (map fst (kvs @ [(k, v)]))"
  shows "put_entry k v kvs = kvs @ [(k, v)]"
proof -
  have "AList.update k v kvs = kvs @ [(k, v)]"
    using assms(2) by (induction kvs) auto
  moreover have "sort_key fst (kvs @ [(k, v)]) = kvs @ [(k, v)]"
    using assms(1) by (rule sort_key_id_if_sorted)
  ultimately show ?thesis by (simp add: put_entry_def)
qed

lemma read_entries_sorted:
  assumes r: "reads rd f g P zero"
  shows "sorted (map fst (kvs @ es)) \<Longrightarrow> distinct (map fst (kvs @ es)) \<Longrightarrow> list_all (\<lambda>e. P (snd e)) es \<Longrightarrow>
    read_entries rd zero (map (\<lambda>(k, v). (k, f v)) es) kvs = Some (kvs @ map (\<lambda>(k, v). (k, g v)) es)"
proof (induction es arbitrary: kvs)
  case (Cons e es)
  obtain k v where e: "e = (k, v)" by (cases e)
  have "put_entry k (g v) kvs = kvs @ [(k, g v)]"
    using Cons.prems e by (intro put_last) (auto simp: sorted_append)
  moreover have "read_entries rd zero (map (\<lambda>(k, v). (k, f v)) es) (kvs @ [(k, g v)])
      = Some ((kvs @ [(k, g v)]) @ map (\<lambda>(k, v). (k, g v)) es)"
    using Cons.prems e by (intro Cons.IH) simp_all
  ultimately show ?case using e Cons.prems readsD [OF r] by simp
qed simp

lemma reads_dict:
  assumes r: "reads rd f g P zero" and ok: "dict_ok P d"
  shows "wf_json (dict_json f d)" "read_dict rd zero (dict_json f d) None = Some (map_dict g d)"
proof -
  show "wf_json (dict_json f d)"
    using ok readsD(1) [OF r] by (force simp: dict_json_def dict_ok_def list_all_iff split: option.split)
  show "read_dict rd zero (dict_json f d) None = Some (map_dict g d)"
    using ok read_entries_sorted [OF r, of "[]" "elems d"]
    by (cases d) (simp_all add: dict_json_def dict_ok_def map_dict_def)
qed

definition ptr_ok :: "('a \<Rightarrow> bool) \<Rightarrow> 'a option \<Rightarrow> bool" where
  "ptr_ok P p \<longleftrightarrow> (case p of None \<Rightarrow> True | Some v \<Rightarrow> P v)"

lemma reads_ptr:
  assumes r: "reads rd f g P zero" and ok: "ptr_ok P p" and no: "\<And>v. f v \<noteq> JNull"
  shows "wf_json (ptr_json f p)" "read_ptr rd zero (ptr_json f p) None = Some (map_option g p)"
proof -
  have "read_ptr rd zero (f v) None = map_option Some (rd (f v) zero)" for v
    using no [of v] by (cases "f v") simp_all
  then show "wf_json (ptr_json f p)" "read_ptr rd zero (ptr_json f p) None = Some (map_option g p)"
    using ok readsD [OF r] by (cases p; simp add: ptr_json_def ptr_ok_def)+
qed

section \<open>Members one by one\<close>

lemma all_members [wire]:
  "list_all p (member k j) \<longleftrightarrow> p (k, j)" "list_all p (omit_if z k j) \<longleftrightarrow> z \<or> p (k, j)"
  by (simp_all add: member_def omit_if_def)

lemma find_field_hit [wire]: "map_of fs k = Some f \<Longrightarrow> find_field fs k = Some f"
  by (simp add: find_field_def)

lemma read_member [wire]:
  "find_field fs k = Some (field get upd rd) \<Longrightarrow> rd j (get r) = Some v \<Longrightarrow>
   read_members fs (member k j @ ms) r = read_members fs ms (upd (\<lambda>_. v) r)"
  by (simp add: member_def field_def)

lemma read_omitted [wire]:
  "find_field fs k = Some (field get upd rd) \<Longrightarrow> rd j (get r) = Some v \<Longrightarrow>
   (z \<Longrightarrow> upd (\<lambda>_. v) r = r) \<Longrightarrow>
   read_members fs (omit_if z k j @ ms) r = read_members fs ms (upd (\<lambda>_. v) r)"
  by (simp add: omit_if_def field_def)

lemmas read_last_member [wire] =
  read_member [where ms = "[]", simplified] read_omitted [where ms = "[]", simplified]

lemma read_omitted_raw [wire]:
  "find_field fs k = Some (field get upd read_raw) \<Longrightarrow> upd (\<lambda>_. None) r = r \<Longrightarrow>
   read_members fs (omit_if (x = None) k (raw_json x) @ ms) r = read_members fs ms (upd (\<lambda>_. x) r)"
  "find_field fs k = Some (field get upd read_raw) \<Longrightarrow> upd (\<lambda>_. None) r = r \<Longrightarrow>
   read_members fs (omit_if (x = None) k (raw_json x)) r = Some (upd (\<lambda>_. x) r)"
  by (cases x; simp add: omit_if_def field_def read_raw_def raw_json_def)+

text \<open>
  A slice tagged \<open>omitempty\<close> comes back as nil when it is empty; a nil \<open>json.RawMessage\<close> that is not
  tagged is written as null and comes back as the document null.
\<close>

lemma read_omitted_slice:
  assumes r: "reads rd f g P zero" and ff: "find_field fs k = Some (field get upd (read_slice rd zero))"
    and ok: "list_all P (elems s)" and old: "upd (\<lambda>_. None) r = r"
  shows "read_members fs (omit_if (elems s = []) k (slice_json f s) @ ms) r
    = read_members fs ms (upd (\<lambda>_. appended (map g (elems s))) r)"
proof (cases s)
  case None
  then show ?thesis using old by (simp add: omit_if_def appended_def)
next
  case (Some xs)
  then show ?thesis
    using reads_slice(2) [OF r ok, of "get r"] ff old
    by (cases xs) (simp_all add: omit_if_def appended_def field_def)
qed


lemmas read_omitted_last_slice = read_omitted_slice [where ms = "[]", simplified]

lemma readsI: "(\<And>x. P x \<Longrightarrow> wf_json (f x) \<and> rd (f x) zero = Some (g x)) \<Longrightarrow> reads rd f g P zero"
  by (simp add: reads_def)

lemma reads_base:
  shows reads_string: "reads read_string JStr (\<lambda>x. x) (\<lambda>_. True) []"
    and reads_time: "reads read_time time_json (\<lambda>x. x) time_ok zero_time"
    and reads_float: "reads read_float float_json (\<lambda>x. x) float_ok zero_float"
  by (simp_all add: reads_def wire)

definition slice_ok :: "('a \<Rightarrow> bool) \<Rightarrow> 'a slice \<Rightarrow> bool" where
  "slice_ok P s \<longleftrightarrow> list_all P (elems s)"

lemma ptr_okD: "ptr_ok P (Some v) \<Longrightarrow> P v"
  by (simp add: ptr_ok_def)

lemma slice_ok_True [wire]: "slice_ok (\<lambda>_. True) s" "list_all (\<lambda>_. True) xs" "list_all P (elems s) \<longleftrightarrow> slice_ok P s"
  by (simp_all add: slice_ok_def list_all_iff)

lemma not_null: "time_json t \<noteq> JNull" "float_json x \<noteq> JNull"
  by (cases t, simp) (cases x, simp)

lemma ident_maps [wire]:
  "map (\<lambda>x. x) = (\<lambda>xs. xs)" "map_option (\<lambda>x. x) = (\<lambda>p. p)" "map_dict (\<lambda>x. x) d = d"
  by (simp_all add: fun_eq_iff map_dict_def option.map_ident option.map_id id_def [symmetric])

lemma reads_slices:
  assumes "reads rd f g P zero"
  shows "reads (read_slice rd zero) (slice_json f) (map_option (map g)) (slice_ok P) None"
  using reads_slice [OF assms] by (simp add: reads_def slice_ok_def)


lemma elems_maps:
  "elems (map_option (map g) s) = map g (elems s)"
  "elems (map_dict h d) = map (\<lambda>(k, v). (k, h v)) (elems d)"
  by (cases s; simp) (cases d; simp add: map_dict_def)

end
