(* ===== verification/WireTypes.thy ===== *)
theory WireTypes
  imports WireCodec
begin

text \<open>
  The entities the REST API and the progress events carry: the structs of \<open>internal/server/types.go\<close>,
  which the client declares again in \<open>internal/client/types.go\<close>. The record and its writer are the
  server's; the table of its fields, by which it is read, is the client's. \<open>received_X\<close> is what the
  client has of an \<open>X\<close> the server wrote, where that differs.
\<close>

record wireJob =
  wireJob_ID :: string
  wireJob_Title :: string
  wireJob_Description :: string
  wireJob_Type :: string
  wireJob_Status :: string
  wireJob_CreatedAt :: timestamp
  wireJob_UpdatedAt :: timestamp
  wireJob_Metadata :: raw

definition wireJob_json :: "wireJob \<Rightarrow> json" where
  "wireJob_json w =
     JObj (
       member ''id'' (JStr (wireJob_ID w)) @
       member ''title'' (JStr (wireJob_Title w)) @
       member ''description'' (JStr (wireJob_Description w)) @
       member ''type'' (JStr (wireJob_Type w)) @
       member ''status'' (JStr (wireJob_Status w)) @
       member ''created_at'' (time_json (wireJob_CreatedAt w)) @
       member ''updated_at'' (time_json (wireJob_UpdatedAt w)) @
       omit_if (wireJob_Metadata w = None) ''metadata'' (raw_json (wireJob_Metadata w)))"

definition zero_wireJob :: wireJob where
  "zero_wireJob = \<lparr>
     wireJob_ID = '''', wireJob_Title = '''', wireJob_Description = '''', wireJob_Type = '''',
     wireJob_Status = '''', wireJob_CreatedAt = zero_time, wireJob_UpdatedAt = zero_time,
     wireJob_Metadata = None\<rparr>"

definition wireJob_fields :: "wireJob fields" where
  "wireJob_fields =
     [(''id'', field wireJob_ID wireJob_ID_update read_string),
      (''title'', field wireJob_Title wireJob_Title_update read_string),
      (''description'', field wireJob_Description wireJob_Description_update read_string),
      (''type'', field wireJob_Type wireJob_Type_update read_string),
      (''status'', field wireJob_Status wireJob_Status_update read_string),
      (''created_at'', field wireJob_CreatedAt wireJob_CreatedAt_update read_time),
      (''updated_at'', field wireJob_UpdatedAt wireJob_UpdatedAt_update read_time),
      (''metadata'', field wireJob_Metadata wireJob_Metadata_update read_raw)]"

definition wireJob_ok :: "wireJob \<Rightarrow> bool" where
  "wireJob_ok w \<longleftrightarrow>
     time_ok (wireJob_CreatedAt w) \<and> time_ok (wireJob_UpdatedAt w) \<and>
     raw_ok (wireJob_Metadata w)"

lemma reads_wireJob:
  "reads (read_struct wireJob_fields) wireJob_json
     (\<lambda>w. w) wireJob_ok zero_wireJob"
  by (rule readsI, rename_tac w, case_tac w)
     (simp add: wireJob_json_def wireJob_fields_def zero_wireJob_def wireJob_ok_def wire)

record wireTask =
  wireTask_ID :: string
  wireTask_JobID :: string
  wireTask_Title :: string
  wireTask_Status :: string
  wireTask_WorkerID :: string
  wireTask_GraphID :: string
  wireTask_ParentID :: string
  wireTask_SortOrder :: go_int
  wireTask_CreatedAt :: timestamp
  wireTask_UpdatedAt :: timestamp
  wireTask_Summary :: string
  wireTask_ResultSummary :: string
  wireTask_Recommendations :: string
  wireTask_Metadata :: raw

definition wireTask_json :: "wireTask \<Rightarrow> json" where
  "wireTask_json w =
     JObj (
       member ''id'' (JStr (wireTask_ID w)) @
       member ''job_id'' (JStr (wireTask_JobID w)) @
       member ''title'' (JStr (wireTask_Title w)) @
       member ''status'' (JStr (wireTask_Status w)) @
       omit_if (wireTask_WorkerID w = '''') ''worker_id'' (JStr (wireTask_WorkerID w)) @
       omit_if (wireTask_GraphID w = '''') ''graph_id'' (JStr (wireTask_GraphID w)) @
       omit_if (wireTask_ParentID w = '''') ''parent_id'' (JStr (wireTask_ParentID w)) @
       member ''sort_order'' (int_json (wireTask_SortOrder w)) @
       member ''created_at'' (time_json (wireTask_CreatedAt w)) @
       member ''updated_at'' (time_json (wireTask_UpdatedAt w)) @
       omit_if (wireTask_Summary w = '''') ''summary'' (JStr (wireTask_Summary w)) @
       omit_if (wireTask_ResultSummary w = '''') ''result_summary'' (JStr (wireTask_ResultSummary w)) @
       omit_if (wireTask_Recommendations w = '''') ''recommendations'' (JStr (wireTask_Recommendations w)) @
       omit_if (wireTask_Metadata w = None) ''metadata'' (raw_json (wireTask_Metadata w)))"

definition zero_wireTask :: wireTask where
  "zero_wireTask = \<lparr>
     wireTask_ID = '''', wireTask_JobID = '''', wireTask_Title = '''', wireTask_Status = '''',
     wireTask_WorkerID = '''', wireTask_GraphID = '''', wireTask_ParentID = '''',
     wireTask_SortOrder = 0, wireTask_CreatedAt = zero_time, wireTask_UpdatedAt = zero_time,
     wireTask_Summary = '''', wireTask_ResultSummary = '''', wireTask_Recommendations = '''',
     wireTask_Metadata = None\<rparr>"

definition wireTask_fields :: "wireTask fields" where
  "wireTask_fields =
     [(''id'', field wireTask_ID wireTask_ID_update read_string),
      (''job_id'', field wireTask_JobID wireTask_JobID_update read_string),
      (''title'', field wireTask_Title wireTask_Title_update read_string),
      (''status'', field wireTask_Status wireTask_Status_update read_string),
      (''worker_id'', field wireTask_WorkerID wireTask_WorkerID_update read_string),
      (''graph_id'', field wireTask_GraphID wireTask_GraphID_update read_string),
      (''parent_id'', field wireTask_ParentID wireTask_ParentID_update read_string),
      (''sort_order'', field wireTask_SortOrder wireTask_SortOrder_update read_int),
      (''created_at'', field wireTask_CreatedAt wireTask_CreatedAt_update read_time),
      (''updated_at'', field wireTask_UpdatedAt wireTask_UpdatedAt_update read_time),
      (''summary'', field wireTask_Summary wireTask_Summary_update read_string),
      (''result_summary'', field wireTask_ResultSummary wireTask_ResultSummary_update read_string),
      (''recommendations'', field wireTask_Recommendations wireTask_Recommendations_update read_string),
      (''metadata'', field wireTask_Metadata wireTask_Metadata_update read_raw)]"

definition wireTask_ok :: "wireTask \<Rightarrow> bool" where
  "wireTask_ok w \<longleftrightarrow>
     time_ok (wireTask_CreatedAt w) \<and> time_ok (wireTask_UpdatedAt w) \<and>
     raw_ok (wireTask_Metadata w)"

lemma reads_wireTask:
  "reads (read_struct wireTask_fields) wireTask_json
     (\<lambda>w. w) wireTask_ok zero_wireTask"
  by (rule readsI, rename_tac w, case_tac w)
     (simp add: wireTask_json_def wireTask_fields_def zero_wireTask_def wireTask_ok_def wire)

record wireProgressReport =
  wireProgressReport_ID :: go_int
  wireProgressReport_JobID :: string
  wireProgressReport_TaskID :: string
  wireProgressReport_WorkerID :: string
  wireProgressReport_Status :: string
  wireProgressReport_Message :: string
  wireProgressReport_CreatedAt :: timestamp

definition wireProgressReport_json :: "wireProgressReport \<Rightarrow> json" where
  "wireProgressReport_json w =
     JObj (
       member ''id'' (int_json (wireProgressReport_ID w)) @
       member ''job_id'' (JStr (wireProgressReport_JobID w)) @
       omit_if (wireProgressReport_TaskID w = '''') ''task_id'' (JStr (wireProgressReport_TaskID w)) @
       omit_if (wireProgressReport_WorkerID w = '''') ''worker_id'' (JStr (wireProgressReport_WorkerID w)) @
       member ''status'' (JStr (wireProgressReport_Status w)) @
       member ''message'' (JStr (wireProgressReport_Message w)) @
       member ''created_at'' (time_json (wireProgressReport_CreatedAt w)))"

definition zero_wireProgressReport :: wireProgressReport where
  "zero_wireProgressReport = \<lparr>
     wireProgressReport_ID = 0, wireProgressReport_JobID = '''', wireProgressReport_TaskID = '''',
     wireProgressReport_WorkerID = '''', wireProgressReport_Status = '''',
     wireProgressReport_Message = '''', wireProgressReport_CreatedAt = zero_time\<rparr>"

definition wireProgressReport_fields :: "wireProgressReport fields" where
  "wireProgressReport_fields =
     [(''id'', field wireProgressReport_ID wireProgressReport_ID_update read_int),
      (''job_id'', field wireProgressReport_JobID wireProgressReport_JobID_update read_string),
      (''task_id'', field wireProgressReport_TaskID wireProgressReport_TaskID_update read_string),
      (''worker_id'', field wireProgressReport_WorkerID wireProgressReport_WorkerID_update read_string),
      (''status'', field wireProgressReport_Status wireProgressReport_Status_update read_string),
      (''message'', field wireProgressReport_Message wireProgressReport_Message_update read_string),
      (''created_at'', field wireProgressReport_CreatedAt wireProgressReport_CreatedAt_update read_time)]"

definition wireProgressReport_ok :: "wireProgressReport \<Rightarrow> bool" where
  "wireProgressReport_ok w \<longleftrightarrow>
     time_ok (wireProgressReport_CreatedAt w)"

lemma reads_wireProgressReport:
  "reads (read_struct wireProgressReport_fields) wireProgressReport_json
     (\<lambda>w. w) wireProgressReport_ok zero_wireProgressReport"
  by (rule readsI, rename_tac w, case_tac w)
     (simp add: wireProgressReport_json_def wireProgressReport_fields_def zero_wireProgressReport_def
        wireProgressReport_ok_def wire)

record wireJobDetail =
  wireJobDetail_Job :: wireJob
  wireJobDetail_Tasks :: "wireTask slice"
  wireJobDetail_Progress :: "wireProgressReport slice"

definition wireJobDetail_json :: "wireJobDetail \<Rightarrow> json" where
  "wireJobDetail_json w =
     JObj (
       member ''job'' (wireJob_json (wireJobDetail_Job w)) @
       member ''tasks'' ((slice_json wireTask_json) (wireJobDetail_Tasks w)) @
       member ''progress'' ((slice_json wireProgressReport_json) (wireJobDetail_Progress w)))"

definition zero_wireJobDetail :: wireJobDetail where
  "zero_wireJobDetail = \<lparr>
     wireJobDetail_Job = zero_wireJob, wireJobDetail_Tasks = None, wireJobDetail_Progress = None\<rparr>"

definition wireJobDetail_fields :: "wireJobDetail fields" where
  "wireJobDetail_fields =
     [(''job'', field wireJobDetail_Job wireJobDetail_Job_update (read_struct wireJob_fields)),
      (''tasks'', field wireJobDetail_Tasks wireJobDetail_Tasks_update (read_slice (read_struct wireTask_fields) zero_wireTask)),
      (''progress'', field wireJobDetail_Progress wireJobDetail_Progress_update (read_slice (read_struct wireProgressReport_fields) zero_wireProgressReport))]"

definition wireJobDetail_ok :: "wireJobDetail \<Rightarrow> bool" where
  "wireJobDetail_ok w \<longleftrightarrow>
     wireJob_ok (wireJobDetail_Job w) \<and> (slice_ok wireTask_ok) (wireJobDetail_Tasks w) \<and>
     (slice_ok wireProgressReport_ok) (wireJobDetail_Progress w)"

lemma reads_wireJobDetail:
  "reads (read_struct wireJobDetail_fields) wireJobDetail_json
     (\<lambda>w. w) wireJobDetail_ok zero_wireJobDetail"
  by (rule readsI, rename_tac w, case_tac w)
     (simp add: wireJobDetail_json_def wireJobDetail_fields_def zero_wireJobDetail_def
        wireJobDetail_ok_def readsD [OF reads_wireJob] reads_slice [OF reads_wireTask]
        reads_slice [OF reads_wireProgressReport] wire)

record wireNoteMeta =
  wireNoteMeta_ID :: string
  wireNoteMeta_Title :: string
  wireNoteMeta_Source :: string
  wireNoteMeta_ModTime :: timestamp
  wireNoteMeta_Size :: go_int

definition wireNoteMeta_json :: "wireNoteMeta \<Rightarrow> json" where
  "wireNoteMeta_json w =
     JObj (
       member ''id'' (JStr (wireNoteMeta_ID w)) @
       member ''title'' (JStr (wireNoteMeta_Title w)) @
       omit_if (wireNoteMeta_Source w = '''') ''source'' (JStr (wireNoteMeta_Source w)) @
       member ''mod_time'' (time_json (wireNoteMeta_ModTime w)) @
       member ''size'' (int_json (wireNoteMeta_Size w)))"

definition zero_wireNoteMeta :: wireNoteMeta where
  "zero_wireNoteMeta = \<lparr>
     wireNoteMeta_ID = '''', wireNoteMeta_Title = '''', wireNoteMeta_Source = '''',
     wireNoteMeta_ModTime = zero_time, wireNoteMeta_Size = 0\<rparr>"

definition wireNoteMeta_fields :: "wireNoteMeta fields" where
  "wireNoteMeta_fields =
     [(''id'', field wireNoteMeta_ID wireNoteMeta_ID_update read_string),
      (''title'', field wireNoteMeta_Title wireNoteMeta_Title_update read_string),
      (''source'', field wireNoteMeta_Source wireNoteMeta_Source_update read_string),
      (''mod_time'', field wireNoteMeta_ModTime wireNoteMeta_ModTime_update read_time),
      (''size'', field wireNoteMeta_Size wireNoteMeta_Size_update read_int)]"

definition wireNoteMeta_ok :: "wireNoteMeta \<Rightarrow> bool" where
  "wireNoteMeta_ok w \<longleftrightarrow>
     time_ok (wireNoteMeta_ModTime w)"

lemma reads_wireNoteMeta:
  "reads (read_struct wireNoteMeta_fields) wireNoteMeta_json
     (\<lambda>w. w) wireNoteMeta_ok zero_wireNoteMeta"
  by (rule readsI, rename_tac w, case_tac w)
     (simp add: wireNoteMeta_json_def wireNoteMeta_fields_def zero_wireNoteMeta_def wireNoteMeta_ok_def
        wire)

record wireSkill =
  wireSkill_ID :: string
  wireSkill_Name :: string
  wireSkill_Description :: string
  wireSkill_Tools :: "string slice"
  wireSkill_Prompt :: string
  wireSkill_Source :: string
  wireSkill_CreatedAt :: timestamp
  wireSkill_UpdatedAt :: timestamp

definition wireSkill_json :: "wireSkill \<Rightarrow> json" where
  "wireSkill_json w =
     JObj (
       member ''id'' (JStr (wireSkill_ID w)) @
       member ''name'' (JStr (wireSkill_Name w)) @
       omit_if (wireSkill_Description w = '''') ''description'' (JStr (wireSkill_Description w)) @
       member ''tools'' ((slice_json JStr) (wireSkill_Tools w)) @
       omit_if (wireSkill_Prompt w = '''') ''prompt'' (JStr (wireSkill_Prompt w)) @
       member ''source'' (JStr (wireSkill_Source w)) @
       member ''created_at'' (time_json (wireSkill_CreatedAt w)) @
       member ''updated_at'' (time_json (wireSkill_UpdatedAt w)))"

definition zero_wireSkill :: wireSkill where
  "zero_wireSkill = \<lparr>
     wireSkill_ID = '''', wireSkill_Name = '''', wireSkill_Description = '''',
     wireSkill_Tools = None, wireSkill_Prompt = '''', wireSkill_Source = '''',
     wireSkill_CreatedAt = zero_time, wireSkill_UpdatedAt = zero_time\<rparr>"

definition wireSkill_fields :: "wireSkill fields" where
  "wireSkill_fields =
     [(''id'', field wireSkill_ID wireSkill_ID_update read_string),
      (''name'', field wireSkill_Name wireSkill_Name_update read_string),
      (''description'', field wireSkill_Description wireSkill_Description_update read_string),
      (''tools'', field wireSkill_Tools wireSkill_Tools_update (read_slice read_string '''')),
      (''prompt'', field wireSkill_Prompt wireSkill_Prompt_update read_string),
      (''source'', field wireSkill_Source wireSkill_Source_update read_string),
      (''created_at'', field wireSkill_CreatedAt wireSkill_CreatedAt_update read_time),
      (''updated_at'', field wireSkill_UpdatedAt wireSkill_UpdatedAt_update read_time)]"

definition wireSkill_ok :: "wireSkill \<Rightarrow> bool" where
  "wireSkill_ok w \<longleftrightarrow>
     time_ok (wireSkill_CreatedAt w) \<and> time_ok (wireSkill_UpdatedAt w)"

lemma reads_wireSkill:
  "reads (read_struct wireSkill_fields) wireSkill_json
     (\<lambda>w. w) wireSkill_ok zero_wireSkill"
  by (rule readsI, rename_tac w, case_tac w)
     (simp add: wireSkill_json_def wireSkill_fields_def zero_wireSkill_def wireSkill_ok_def
        reads_slice [OF reads_string] wire)

record wireGraphEdge =
  wireGraphEdge_From :: string
  wireGraphEdge_To :: string
  wireGraphEdge_Kind :: string
  wireGraphEdge_Label :: string

definition wireGraphEdge_json :: "wireGraphEdge \<Rightarrow> json" where
  "wireGraphEdge_json w =
     JObj (
       member ''from'' (JStr (wireGraphEdge_From w)) @
       member ''to'' (JStr (wireGraphEdge_To w)) @
       member ''kind'' (JStr (wireGraphEdge_Kind w)) @
       omit_if (wireGraphEdge_Label w = '''') ''label'' (JStr (wireGraphEdge_Label w)))"

definition zero_wireGraphEdge :: wireGraphEdge where
  "zero_wireGraphEdge = \<lparr>
     wireGraphEdge_From = '''', wireGraphEdge_To = '''', wireGraphEdge_Kind = '''',
     wireGraphEdge_Label = ''''\<rparr>"

definition wireGraphEdge_fields :: "wireGraphEdge fields" where
  "wireGraphEdge_fields =
     [(''from'', field wireGraphEdge_From wireGraphEdge_From_update read_string),
      (''to'', field wireGraphEdge_To wireGraphEdge_To_update read_string),
      (''kind'', field wireGraphEdge_Kind wireGraphEdge_Kind_update read_string),
      (''label'', field wireGraphEdge_Label wireGraphEdge_Label_update read_string)]"

lemma reads_wireGraphEdge:
  "reads (read_struct wireGraphEdge_fields) wireGraphEdge_json
     (\<lambda>w. w) (\<lambda>w. True) zero_wireGraphEdge"
  by (rule readsI, rename_tac w, case_tac w)
     (simp add: wireGraphEdge_json_def wireGraphEdge_fields_def zero_wireGraphEdge_def wire)

record wireGraphDefinition =
  wireGraphDefinition_ID :: string
  wireGraphDefinition_Name :: string
  wireGraphDefinition_Description :: string
  wireGraphDefinition_Tags :: "string slice"
  wireGraphDefinition_Entry :: string
  wireGraphDefinition_Exit :: string
  wireGraphDefinition_Nodes :: "string slice"
  wireGraphDefinition_Edges :: "wireGraphEdge slice"

definition wireGraphDefinition_json :: "wireGraphDefinition \<Rightarrow> json" where
  "wireGraphDefinition_json w =
     JObj (
       member ''id'' (JStr (wireGraphDefinition_ID w)) @
       omit_if (wireGraphDefinition_Name w = '''') ''name'' (JStr (wireGraphDefinition_Name w)) @
       omit_if (wireGraphDefinition_Description w = '''') ''description'' (JStr (wireGraphDefinition_Description w)) @
       omit_if (elems (wireGraphDefinition_Tags w) = []) ''tags'' ((slice_json JStr) (wireGraphDefinition_Tags w)) @
       member ''entry'' (JStr (wireGraphDefinition_Entry w)) @
       omit_if (wireGraphDefinition_Exit w = '''') ''exit'' (JStr (wireGraphDefinition_Exit w)) @
       member ''nodes'' ((slice_json JStr) (wireGraphDefinition_Nodes w)) @
       omit_if (elems (wireGraphDefinition_Edges w) = []) ''edges'' ((slice_json wireGraphEdge_json) (wireGraphDefinition_Edges w)))"

definition zero_wireGraphDefinition :: wireGraphDefinition where
  "zero_wireGraphDefinition = \<lparr>
     wireGraphDefinition_ID = '''', wireGraphDefinition_Name = '''',
     wireGraphDefinition_Description = '''', wireGraphDefinition_Tags = None,
     wireGraphDefinition_Entry = '''', wireGraphDefinition_Exit = '''',
     wireGraphDefinition_Nodes = None, wireGraphDefinition_Edges = None\<rparr>"

definition wireGraphDefinition_fields :: "wireGraphDefinition fields" where
  "wireGraphDefinition_fields =
     [(''id'', field wireGraphDefinition_ID wireGraphDefinition_ID_update read_string),
      (''name'', field wireGraphDefinition_Name wireGraphDefinition_Name_update read_string),
      (''description'', field wireGraphDefinition_Description wireGraphDefinition_Description_update read_string),
      (''tags'', field wireGraphDefinition_Tags wireGraphDefinition_Tags_update (read_slice read_string '''')),
      (''entry'', field wireGraphDefinition_Entry wireGraphDefinition_Entry_update read_string),
      (''exit'', field wireGraphDefinition_Exit wireGraphDefinition_Exit_update read_string),
      (''nodes'', field wireGraphDefinition_Nodes wireGraphDefinition_Nodes_update (read_slice read_string '''')),
      (''edges'', field wireGraphDefinition_Edges wireGraphDefinition_Edges_update (read_slice (read_struct wireGraphEdge_fields) zero_wireGraphEdge))]"

definition received_wireGraphDefinition :: "wireGraphDefinition \<Rightarrow> wireGraphDefinition" where
  "received_wireGraphDefinition w = w\<lparr>
     wireGraphDefinition_Tags := appended (elems (wireGraphDefinition_Tags w)),
     wireGraphDefinition_Edges := appended (elems (wireGraphDefinition_Edges w))\<rparr>"

lemma reads_wireGraphDefinition:
  "reads (read_struct wireGraphDefinition_fields) wireGraphDefinition_json
     received_wireGraphDefinition (\<lambda>w. True) zero_wireGraphDefinition"
  by (rule readsI, rename_tac w, case_tac w)
     (simp add: wireGraphDefinition_json_def wireGraphDefinition_fields_def zero_wireGraphDefinition_def
        received_wireGraphDefinition_def reads_slice [OF reads_string]
        read_omitted_slice [OF reads_string] reads_slice [OF reads_wireGraphEdge]
        read_omitted_slice [OF reads_wireGraphEdge]
        read_omitted_last_slice [OF reads_wireGraphEdge] wire)

record wireSessionSnapshot =
  wireSessionSnapshot_ID :: string
  wireSessionSnapshot_WorkerID :: string
  wireSessionSnapshot_JobID :: string
  wireSessionSnapshot_TaskID :: string
  wireSessionSnapshot_Status :: string
  wireSessionSnapshot_Model :: string
  wireSessionSnapshot_Provider :: string
  wireSessionSnapshot_StartTime :: timestamp
  wireSessionSnapshot_TokensIn :: go_int
  wireSessionSnapshot_TokensOut :: go_int
  wireSessionSnapshot_CurrentContextTokens :: go_int
  wireSessionSnapshot_ContextWindow :: go_int
  wireSessionSnapshot_Compactions :: go_int

definition wireSessionSnapshot_json :: "wireSessionSnapshot \<Rightarrow> json" where
  "wireSessionSnapshot_json w =
     JObj (
       member ''id'' (JStr (wireSessionSnapshot_ID w)) @
       member ''worker_id'' (JStr (wireSessionSnapshot_WorkerID w)) @
       omit_if (wireSessionSnapshot_JobID w = '''') ''job_id'' (JStr (wireSessionSnapshot_JobID w)) @
       omit_if (wireSessionSnapshot_TaskID w = '''') ''task_id'' (JStr (wireSessionSnapshot_TaskID w)) @
       member ''status'' (JStr (wireSessionSnapshot_Status w)) @
       omit_if (wireSessionSnapshot_Model w = '''') ''model'' (JStr (wireSessionSnapshot_Model w)) @
       omit_if (wireSessionSnapshot_Provider w = '''') ''provider'' (JStr (wireSessionSnapshot_Provider w)) @
       member ''start_time'' (time_json (wireSessionSnapshot_StartTime w)) @
       member ''tokens_in'' (int_json (wireSessionSnapshot_TokensIn w)) @
       member ''tokens_out'' (int_json (wireSessionSnapshot_TokensOut w)) @
       omit_if (wireSessionSnapshot_CurrentContextTokens w = 0) ''current_context_tokens'' (int_json (wireSessionSnapshot_CurrentContextTokens w)) @
       omit_if (wireSessionSnapshot_ContextWindow w = 0) ''context_window'' (int_json (wireSessionSnapshot_ContextWindow w)) @
       omit_if (wireSessionSnapshot_Compactions w = 0) ''compactions'' (int_json (wireSessionSnapshot_Compactions w)))"

definition zero_wireSessionSnapshot :: wireSessionSnapshot where
  "zero_wireSessionSnapshot = \<lparr>
     wireSessionSnapshot_ID = '''', wireSessionSnapshot_WorkerID = '''',
     wireSessionSnapshot_JobID = '''', wireSessionSnapshot_TaskID = '''',
     wireSessionSnapshot_Status = '''', wireSessionSnapshot_Model = '''',
     wireSessionSnapshot_Provider = '''', wireSessionSnapshot_StartTime = zero_time,
     wireSessionSnapshot_TokensIn = 0, wireSessionSnapshot_TokensOut = 0,
     wireSessionSnapshot_CurrentContextTokens = 0, wireSessionSnapshot_ContextWindow = 0,
     wireSessionSnapshot_Compactions = 0\<rparr>"

definition wireSessionSnapshot_fields :: "wireSessionSnapshot fields" where
  "wireSessionSnapshot_fields =
     [(''id'', field wireSessionSnapshot_ID wireSessionSnapshot_ID_update read_string),
      (''worker_id'', field wireSessionSnapshot_WorkerID wireSessionSnapshot_WorkerID_update read_string),
      (''job_id'', field wireSessionSnapshot_JobID wireSessionSnapshot_JobID_update read_string),
      (''task_id'', field wireSessionSnapshot_TaskID wireSessionSnapshot_TaskID_update read_string),
      (''status'', field wireSessionSnapshot_Status wireSessionSnapshot_Status_update read_string),
      (''model'', field wireSessionSnapshot_Model wireSessionSnapshot_Model_update read_string),
      (''provider'', field wireSessionSnapshot_Provider wireSessionSnapshot_Provider_update read_string),
      (''start_time'', field wireSessionSnapshot_StartTime wireSessionSnapshot_StartTime_update read_time),
      (''tokens_in'', field wireSessionSnapshot_TokensIn wireSessionSnapshot_TokensIn_update read_int),
      (''tokens_out'', field wireSessionSnapshot_TokensOut wireSessionSnapshot_TokensOut_update read_int),
      (''current_context_tokens'', field wireSessionSnapshot_CurrentContextTokens wireSessionSnapshot_CurrentContextTokens_update read_int),
      (''context_window'', field wireSessionSnapshot_ContextWindow wireSessionSnapshot_ContextWindow_update read_int),
      (''compactions'', field wireSessionSnapshot_Compactions wireSessionSnapshot_Compactions_update read_int)]"

definition wireSessionSnapshot_ok :: "wireSessionSnapshot \<Rightarrow> bool" where
  "wireSessionSnapshot_ok w \<longleftrightarrow>
     time_ok (wireSessionSnapshot_StartTime w)"

lemma reads_wireSessionSnapshot:
  "reads (read_struct wireSessionSnapshot_fields) wireSessionSnapshot_json
     (\<lambda>w. w) wireSessionSnapshot_ok zero_wireSessionSnapshot"
  by (rule readsI, rename_tac w, case_tac w)
     (simp add: wireSessionSnapshot_json_def wireSessionSnapshot_fields_def zero_wireSessionSnapshot_def
        wireSessionSnapshot_ok_def wire)

record wireActivityItem =
  wireActivityItem_Label :: string
  wireActivityItem_ToolName :: string

definition wireActivityItem_json :: "wireActivityItem \<Rightarrow> json" where
  "wireActivityItem_json w =
     JObj (
       member ''label'' (JStr (wireActivityItem_Label w)) @
       member ''tool_name'' (JStr (wireActivityItem_ToolName w)))"

definition zero_wireActivityItem :: wireActivityItem where
  "zero_wireActivityItem = \<lparr>
     wireActivityItem_Label = '''', wireActivityItem_ToolName = ''''\<rparr>"

definition wireActivityItem_fields :: "wireActivityItem fields" where
  "wireActivityItem_fields =
     [(''label'', field wireActivityItem_Label wireActivityItem_Label_update read_string),
      (''tool_name'', field wireActivityItem_ToolName wireActivityItem_ToolName_update read_string)]"

lemma reads_wireActivityItem:
  "reads (read_struct wireActivityItem_fields) wireActivityItem_json
     (\<lambda>w. w) (\<lambda>w. True) zero_wireActivityItem"
  by (rule readsI, rename_tac w, case_tac w)
     (simp add: wireActivityItem_json_def wireActivityItem_fields_def zero_wireActivityItem_def wire)

record wireSessionDetail =
  wireSessionDetail_Snapshot :: wireSessionSnapshot
  wireSessionDetail_SystemPrompt :: string
  wireSessionDetail_InitialMessage :: string
  wireSessionDetail_Output :: string
  wireSessionDetail_Activities :: "wireActivityItem slice"
  wireSessionDetail_WorkerName :: string
  wireSessionDetail_Task :: string

definition wireSessionDetail_json :: "wireSessionDetail \<Rightarrow> json" where
  "wireSessionDetail_json w =
     JObj (
       member ''snapshot'' (wireSessionSnapshot_json (wireSessionDetail_Snapshot w)) @
       omit_if (wireSessionDetail_SystemPrompt w = '''') ''system_prompt'' (JStr (wireSessionDetail_SystemPrompt w)) @
       omit_if (wireSessionDetail_InitialMessage w = '''') ''initial_message'' (JStr (wireSessionDetail_InitialMessage w)) @
       omit_if (wireSessionDetail_Output w = '''') ''output'' (JStr (wireSessionDetail_Output w)) @
       member ''activities'' ((slice_json wireActivityItem_json) (wireSessionDetail_Activities w)) @
       member ''worker_name'' (JStr (wireSessionDetail_WorkerName w)) @
       omit_if (wireSessionDetail_Task w = '''') ''task'' (JStr (wireSessionDetail_Task w)))"

definition zero_wireSessionDetail :: wireSessionDetail where
  "zero_wireSessionDetail = \<lparr>
     wireSessionDetail_Snapshot = zero_wireSessionSnapshot, wireSessionDetail_SystemPrompt = '''',
     wireSessionDetail_InitialMessage = '''', wireSessionDetail_Output = '''',
     wireSessionDetail_Activities = None, wireSessionDetail_WorkerName = '''',
     wireSessionDetail_Task = ''''\<rparr>"

definition wireSessionDetail_fields :: "wireSessionDetail fields" where
  "wireSessionDetail_fields =
     [(''snapshot'', field wireSessionDetail_Snapshot wireSessionDetail_Snapshot_update (read_struct wireSessionSnapshot_fields)),
      (''system_prompt'', field wireSessionDetail_SystemPrompt wireSessionDetail_SystemPrompt_update read_string),
      (''initial_message'', field wireSessionDetail_InitialMessage wireSessionDetail_InitialMessage_update read_string),
      (''output'', field wireSessionDetail_Output wireSessionDetail_Output_update read_string),
      (''activities'', field wireSessionDetail_Activities wireSessionDetail_Activities_update (read_slice (read_struct wireActivityItem_fields) zero_wireActivityItem)),
      (''worker_name'', field wireSessionDetail_WorkerName wireSessionDetail_WorkerName_update read_string),
      (''task'', field wireSessionDetail_Task wireSessionDetail_Task_update read_string)]"

definition wireSessionDetail_ok :: "wireSessionDetail \<Rightarrow> bool" where
  "wireSessionDetail_ok w \<longleftrightarrow>
     wireSessionSnapshot_ok (wireSessionDetail_Snapshot w)"

lemma reads_wireSessionDetail:
  "reads (read_struct wireSessionDetail_fields) wireSessionDetail_json
     (\<lambda>w. w) wireSessionDetail_ok zero_wireSessionDetail"
  by (rule readsI, rename_tac w, case_tac w)
     (simp add: wireSessionDetail_json_def wireSessionDetail_fields_def zero_wireSessionDetail_def
        wireSessionDetail_ok_def readsD [OF reads_wireSessionSnapshot]
        reads_slice [OF reads_wireActivityItem] wire)

record wireModelInfo =
  wireModelInfo_ID :: string
  wireModelInfo_Name :: string
  wireModelInfo_Provider :: string
  wireModelInfo_State :: string
  wireModelInfo_MaxContextLength :: go_int
  wireModelInfo_LoadedContextLength :: go_int

definition wireModelInfo_json :: "wireModelInfo \<Rightarrow> json" where
  "wireModelInfo_json w =
     JObj (
       member ''id'' (JStr (wireModelInfo_ID w)) @
       member ''name'' (JStr (wireModelInfo_Name w)) @
       member ''provider'' (JStr (wireModelInfo_Provider w)) @
       member ''state'' (JStr (wireModelInfo_State w)) @
       member ''max_context_length'' (int_json (wireModelInfo_MaxContextLength w)) @
       member ''loaded_context_length'' (int_json (wireModelInfo_LoadedContextLength w)))"

definition zero_wireModelInfo :: wireModelInfo where
  "zero_wireModelInfo = \<lparr>
     wireModelInfo_ID = '''', wireModelInfo_Name = '''', wireModelInfo_Provider = '''',
     wireModelInfo_State = '''', wireModelInfo_MaxContextLength = 0,
     wireModelInfo_LoadedContextLength = 0\<rparr>"

definition wireModelInfo_fields :: "wireModelInfo fields" where
  "wireModelInfo_fields =
     [(''id'', field wireModelInfo_ID wireModelInfo_ID_update read_string),
      (''name'', field wireModelInfo_Name wireModelInfo_Name_update read_string),
      (''provider'', field wireModelInfo_Provider wireModelInfo_Provider_update read_string),
      (''state'', field wireModelInfo_State wireModelInfo_State_update read_string),
      (''max_context_length'', field wireModelInfo_MaxContextLength wireModelInfo_MaxContextLength_update read_int),
      (''loaded_context_length'', field wireModelInfo_LoadedContextLength wireModelInfo_LoadedContextLength_update read_int)]"

lemma reads_wireModelInfo:
  "reads (read_struct wireModelInfo_fields) wireModelInfo_json
     (\<lambda>w. w) (\<lambda>w. True) zero_wireModelInfo"
  by (rule readsI, rename_tac w, case_tac w)
     (simp add: wireModelInfo_json_def wireModelInfo_fields_def zero_wireModelInfo_def wire)

record wireAddProviderRequest =
  wireAddProviderRequest_ID :: string
  wireAddProviderRequest_Name :: string
  wireAddProviderRequest_Type :: string
  wireAddProviderRequest_Endpoint :: string
  wireAddProviderRequest_APIKey :: string

definition wireAddProviderRequest_json :: "wireAddProviderRequest \<Rightarrow> json" where
  "wireAddProviderRequest_json w =
     JObj (
       member ''id'' (JStr (wireAddProviderRequest_ID w)) @
       member ''name'' (JStr (wireAddProviderRequest_Name w)) @
       member ''type'' (JStr (wireAddProviderRequest_Type w)) @
       omit_if (wireAddProviderRequest_Endpoint w = '''') ''endpoint'' (JStr (wireAddProviderRequest_Endpoint w)) @
       omit_if (wireAddProviderRequest_APIKey w = '''') ''api_key'' (JStr (wireAddProviderRequest_APIKey w)))"

definition zero_wireAddProviderRequest :: wireAddProviderRequest where
  "zero_wireAddProviderRequest = \<lparr>
     wireAddProviderRequest_ID = '''', wireAddProviderRequest_Name = '''',
     wireAddProviderRequest_Type = '''', wireAddProviderRequest_Endpoint = '''',
     wireAddProviderRequest_APIKey = ''''\<rparr>"

definition wireAddProviderRequest_fields :: "wireAddProviderRequest fields" where
  "wireAddProviderRequest_fields =
     [(''id'', field wireAddProviderRequest_ID wireAddProviderRequest_ID_update read_string),
      (''name'', field wireAddProviderRequest_Name wireAddProviderRequest_Name_update read_string),
      (''type'', field wireAddProviderRequest_Type wireAddProviderRequest_Type_update read_string),
      (''endpoint'', field wireAddProviderRequest_Endpoint wireAddProviderRequest_Endpoint_update read_string),
      (''api_key'', field wireAddProviderRequest_APIKey wireAddProviderRequest_APIKey_update read_string)]"

lemma reads_wireAddProviderRequest:
  "reads (read_struct wireAddProviderRequest_fields) wireAddProviderRequest_json
     (\<lambda>w. w) (\<lambda>w. True) zero_wireAddProviderRequest"
  by (rule readsI, rename_tac w, case_tac w)
     (simp add: wireAddProviderRequest_json_def wireAddProviderRequest_fields_def
        zero_wireAddProviderRequest_def wire)

record wireCatalogModel =
  wireCatalogModel_ID :: string
  wireCatalogModel_Name :: string
  wireCatalogModel_Family :: string
  wireCatalogModel_ToolCall :: bool
  wireCatalogModel_Reasoning :: bool
  wireCatalogModel_StructuredOutput :: bool
  wireCatalogModel_OpenWeights :: bool
  wireCatalogModel_ContextLimit :: go_int
  wireCatalogModel_OutputLimit :: go_int
  wireCatalogModel_InputCost :: json_float
  wireCatalogModel_OutputCost :: json_float

definition wireCatalogModel_json :: "wireCatalogModel \<Rightarrow> json" where
  "wireCatalogModel_json w =
     JObj (
       member ''id'' (JStr (wireCatalogModel_ID w)) @
       member ''name'' (JStr (wireCatalogModel_Name w)) @
       omit_if (wireCatalogModel_Family w = '''') ''family'' (JStr (wireCatalogModel_Family w)) @
       member ''tool_call'' (JBool (wireCatalogModel_ToolCall w)) @
       member ''reasoning'' (JBool (wireCatalogModel_Reasoning w)) @
       member ''structured_output'' (JBool (wireCatalogModel_StructuredOutput w)) @
       member ''open_weights'' (JBool (wireCatalogModel_OpenWeights w)) @
       member ''context_limit'' (int_json (wireCatalogModel_ContextLimit w)) @
       member ''output_limit'' (int_json (wireCatalogModel_OutputLimit w)) @
       member ''input_cost'' (float_json (wireCatalogModel_InputCost w)) @
       member ''output_cost'' (float_json (wireCatalogModel_OutputCost w)))"

definition zero_wireCatalogModel :: wireCatalogModel where
  "zero_wireCatalogModel = \<lparr>
     wireCatalogModel_ID = '''', wireCatalogModel_Name = '''', wireCatalogModel_Family = '''',
     wireCatalogModel_ToolCall = False, wireCatalogModel_Reasoning = False,
     wireCatalogModel_StructuredOutput = False, wireCatalogModel_OpenWeights = False,
     wireCatalogModel_ContextLimit = 0, wireCatalogModel_OutputLimit = 0,
     wireCatalogModel_InputCost = zero_float, wireCatalogModel_OutputCost = zero_float\<rparr>"

definition wireCatalogModel_fields :: "wireCatalogModel fields" where
  "wireCatalogModel_fields =
     [(''id'', field wireCatalogModel_ID wireCatalogModel_ID_update read_string),
      (''name'', field wireCatalogModel_Name wireCatalogModel_Name_update read_string),
      (''family'', field wireCatalogModel_Family wireCatalogModel_Family_update read_string),
      (''tool_call'', field wireCatalogModel_ToolCall wireCatalogModel_ToolCall_update read_bool),
      (''reasoning'', field wireCatalogModel_Reasoning wireCatalogModel_Reasoning_update read_bool),
      (''structured_output'', field wireCatalogModel_StructuredOutput wireCatalogModel_StructuredOutput_update read_bool),
      (''open_weights'', field wireCatalogModel_OpenWeights wireCatalogModel_OpenWeights_update read_bool),
      (''context_limit'', field wireCatalogModel_ContextLimit wireCatalogModel_ContextLimit_update read_int),
      (''output_limit'', field wireCatalogModel_OutputLimit wireCatalogModel_OutputLimit_update read_int),
      (''input_cost'', field wireCatalogModel_InputCost wireCatalogModel_InputCost_update read_float),
      (''output_cost'', field wireCatalogModel_OutputCost wireCatalogModel_OutputCost_update read_float)]"

definition wireCatalogModel_ok :: "wireCatalogModel \<Rightarrow> bool" where
  "wireCatalogModel_ok w \<longleftrightarrow>
     float_ok (wireCatalogModel_InputCost w) \<and> float_ok (wireCatalogModel_OutputCost w)"

lemma reads_wireCatalogModel:
  "reads (read_struct wireCatalogModel_fields) wireCatalogModel_json
     (\<lambda>w. w) wireCatalogModel_ok zero_wireCatalogModel"
  by (rule readsI, rename_tac w, case_tac w)
     (simp add: wireCatalogModel_json_def wireCatalogModel_fields_def zero_wireCatalogModel_def
        wireCatalogModel_ok_def wire)

record wireCatalogProvider =
  wireCatalogProvider_ID :: string
  wireCatalogProvider_Name :: string
  wireCatalogProvider_API :: string
  wireCatalogProvider_Doc :: string
  wireCatalogProvider_Env :: "string slice"
  wireCatalogProvider_Models :: "wireCatalogModel slice"

definition wireCatalogProvider_json :: "wireCatalogProvider \<Rightarrow> json" where
  "wireCatalogProvider_json w =
     JObj (
       member ''id'' (JStr (wireCatalogProvider_ID w)) @
       member ''name'' (JStr (wireCatalogProvider_Name w)) @
       omit_if (wireCatalogProvider_API w = '''') ''api'' (JStr (wireCatalogProvider_API w)) @
       omit_if (wireCatalogProvider_Doc w = '''') ''doc'' (JStr (wireCatalogProvider_Doc w)) @
       omit_if (elems (wireCatalogProvider_Env w) = []) ''env'' ((slice_json JStr) (wireCatalogProvider_Env w)) @
       member ''models'' ((slice_json wireCatalogModel_json) (wireCatalogProvider_Models w)))"

definition zero_wireCatalogProvider :: wireCatalogProvider where
  "zero_wireCatalogProvider = \<lparr>
     wireCatalogProvider_ID = '''', wireCatalogProvider_Name = '''',
     wireCatalogProvider_API = '''', wireCatalogProvider_Doc = '''',
     wireCatalogProvider_Env = None, wireCatalogProvider_Models = None\<rparr>"

definition wireCatalogProvider_fields :: "wireCatalogProvider fields" where
  "wireCatalogProvider_fields =
     [(''id'', field wireCatalogProvider_ID wireCatalogProvider_ID_update read_string),
      (''name'', field wireCatalogProvider_Name wireCatalogProvider_Name_update read_string),
      (''api'', field wireCatalogProvider_API wireCatalogProvider_API_update read_string),
      (''doc'', field wireCatalogProvider_Doc wireCatalogProvider_Doc_update read_string),
      (''env'', field wireCatalogProvider_Env wireCatalogProvider_Env_update (read_slice read_string '''')),
      (''models'', field wireCatalogProvider_Models wireCatalogProvider_Models_update (read_slice (read_struct wireCatalogModel_fields) zero_wireCatalogModel))]"

definition wireCatalogProvider_ok :: "wireCatalogProvider \<Rightarrow> bool" where
  "wireCatalogProvider_ok w \<longleftrightarrow>
     (slice_ok wireCatalogModel_ok) (wireCatalogProvider_Models w)"

definition received_wireCatalogProvider :: "wireCatalogProvider \<Rightarrow> wireCatalogProvider" where
  "received_wireCatalogProvider w = w\<lparr>
     wireCatalogProvider_Env := appended (elems (wireCatalogProvider_Env w))\<rparr>"

lemma reads_wireCatalogProvider:
  "reads (read_struct wireCatalogProvider_fields) wireCatalogProvider_json
     received_wireCatalogProvider wireCatalogProvider_ok zero_wireCatalogProvider"
  by (rule readsI, rename_tac w, case_tac w)
     (simp add: wireCatalogProvider_json_def wireCatalogProvider_fields_def zero_wireCatalogProvider_def
        wireCatalogProvider_ok_def received_wireCatalogProvider_def reads_slice [OF reads_string]
        read_omitted_slice [OF reads_string] reads_slice [OF reads_wireCatalogModel] wire)

record wireMCPToolInfo =
  wireMCPToolInfo_NamespacedName :: string
  wireMCPToolInfo_OriginalName :: string
  wireMCPToolInfo_ServerName :: string
  wireMCPToolInfo_Description :: string
  wireMCPToolInfo_InputSchema :: raw

definition wireMCPToolInfo_json :: "wireMCPToolInfo \<Rightarrow> json" where
  "wireMCPToolInfo_json w =
     JObj (
       member ''namespaced_name'' (JStr (wireMCPToolInfo_NamespacedName w)) @
       member ''original_name'' (JStr (wireMCPToolInfo_OriginalName w)) @
       member ''server_name'' (JStr (wireMCPToolInfo_ServerName w)) @
       member ''description'' (JStr (wireMCPToolInfo_Description w)) @
       member ''input_schema'' (raw_json (wireMCPToolInfo_InputSchema w)))"

definition zero_wireMCPToolInfo :: wireMCPToolInfo where
  "zero_wireMCPToolInfo = \<lparr>
     wireMCPToolInfo_NamespacedName = '''', wireMCPToolInfo_OriginalName = '''',
     wireMCPToolInfo_ServerName = '''', wireMCPToolInfo_Description = '''',
     wireMCPToolInfo_InputSchema = None\<rparr>"

definition wireMCPToolInfo_fields :: "wireMCPToolInfo fields" where
  "wireMCPToolInfo_fields =
     [(''namespaced_name'', field wireMCPToolInfo_NamespacedName wireMCPToolInfo_NamespacedName_update read_string),
      (''original_name'', field wireMCPToolInfo_OriginalName wireMCPToolInfo_OriginalName_update read_string),
      (''server_name'', field wireMCPToolInfo_ServerName wireMCPToolInfo_ServerName_update read_string),
      (''description'', field wireMCPToolInfo_Description wireMCPToolInfo_Description_update read_string),
      (''input_schema'', field wireMCPToolInfo_InputSchema wireMCPToolInfo_InputSchema_update read_raw)]"

definition wireMCPToolInfo_ok :: "wireMCPToolInfo \<Rightarrow> bool" where
  "wireMCPToolInfo_ok w \<longleftrightarrow>
     raw_ok (wireMCPToolInfo_InputSchema w)"

definition received_wireMCPToolInfo :: "wireMCPToolInfo \<Rightarrow> wireMCPToolInfo" where
  "received_wireMCPToolInfo w = w\<lparr>
     wireMCPToolInfo_InputSchema := Some (raw_json (wireMCPToolInfo_InputSchema w))\<rparr>"

lemma reads_wireMCPToolInfo:
  "reads (read_struct wireMCPToolInfo_fields) wireMCPToolInfo_json
     received_wireMCPToolInfo wireMCPToolInfo_ok zero_wireMCPToolInfo"
  by (rule readsI, rename_tac w, case_tac w)
     (simp add: wireMCPToolInfo_json_def wireMCPToolInfo_fields_def zero_wireMCPToolInfo_def
        wireMCPToolInfo_ok_def received_wireMCPToolInfo_def wire)

record wireMCPServerStatus =
  wireMCPServerStatus_Name :: string
  wireMCPServerStatus_Transport :: string
  wireMCPServerStatus_State :: string
  wireMCPServerStatus_Error :: string
  wireMCPServerStatus_ToolCount :: go_int
  wireMCPServerStatus_Tools :: "wireMCPToolInfo slice"

definition wireMCPServerStatus_json :: "wireMCPServerStatus \<Rightarrow> json" where
  "wireMCPServerStatus_json w =
     JObj (
       member ''name'' (JStr (wireMCPServerStatus_Name w)) @
       member ''transport'' (JStr (wireMCPServerStatus_Transport w)) @
       member ''state'' (JStr (wireMCPServerStatus_State w)) @
       omit_if (wireMCPServerStatus_Error w = '''') ''error'' (JStr (wireMCPServerStatus_Error w)) @
       member ''tool_count'' (int_json (wireMCPServerStatus_ToolCount w)) @
       member ''tools'' ((slice_json wireMCPToolInfo_json) (wireMCPServerStatus_Tools w)))"

definition zero_wireMCPServerStatus :: wireMCPServerStatus where
  "zero_wireMCPServerStatus = \<lparr>
     wireMCPServerStatus_Name = '''', wireMCPServerStatus_Transport = '''',
     wireMCPServerStatus_State = '''', wireMCPServerStatus_Error = '''',
     wireMCPServerStatus_ToolCount = 0, wireMCPServerStatus_Tools = None\<rparr>"

definition wireMCPServerStatus_fields :: "wireMCPServerStatus fields" where
  "wireMCPServerStatus_fields =
     [(''name'', field wireMCPServerStatus_Name wireMCPServerStatus_Name_update read_string),
      (''transport'', field wireMCPServerStatus_Transport wireMCPServerStatus_Transport_update read_string),
      (''state'', field wireMCPServerStatus_State wireMCPServerStatus_State_update read_string),
      (''error'', field wireMCPServerStatus_Error wireMCPServerStatus_Error_update read_string),
      (''tool_count'', field wireMCPServerStatus_ToolCount wireMCPServerStatus_ToolCount_update read_int),
      (''tools'', field wireMCPServerStatus_Tools wireMCPServerStatus_Tools_update (read_slice (read_struct wireMCPToolInfo_fields) zero_wireMCPToolInfo))]"

definition wireMCPServerStatus_ok :: "wireMCPServerStatus \<Rightarrow> bool" where
  "wireMCPServerStatus_ok w \<longleftrightarrow>
     (slice_ok wireMCPToolInfo_ok) (wireMCPServerStatus_Tools w)"

definition received_wireMCPServerStatus :: "wireMCPServerStatus \<Rightarrow> wireMCPServerStatus" where
  "received_wireMCPServerStatus w = w\<lparr>
     wireMCPServerStatus_Tools := map_option (map received_wireMCPToolInfo) (wireMCPServerStatus_Tools w)\<rparr>"

lemma reads_wireMCPServerStatus:
  "reads (read_struct wireMCPServerStatus_fields) wireMCPServerStatus_json
     received_wireMCPServerStatus wireMCPServerStatus_ok zero_wireMCPServerStatus"
  by (rule readsI, rename_tac w, case_tac w)
     (simp add: wireMCPServerStatus_json_def wireMCPServerStatus_fields_def zero_wireMCPServerStatus_def
        wireMCPServerStatus_ok_def received_wireMCPServerStatus_def
        reads_slice [OF reads_wireMCPToolInfo] wire)

record wireToolCall =
  wireToolCall_ID :: string
  wireToolCall_Name :: string
  wireToolCall_Arguments :: raw

definition wireToolCall_json :: "wireToolCall \<Rightarrow> json" where
  "wireToolCall_json w =
     JObj (
       member ''id'' (JStr (wireToolCall_ID w)) @
       member ''name'' (JStr (wireToolCall_Name w)) @
       member ''arguments'' (raw_json (wireToolCall_Arguments w)))"

definition zero_wireToolCall :: wireToolCall where
  "zero_wireToolCall = \<lparr>
     wireToolCall_ID = '''', wireToolCall_Name = '''', wireToolCall_Arguments = None\<rparr>"

definition wireToolCall_fields :: "wireToolCall fields" where
  "wireToolCall_fields =
     [(''id'', field wireToolCall_ID wireToolCall_ID_update read_string),
      (''name'', field wireToolCall_Name wireToolCall_Name_update read_string),
      (''arguments'', field wireToolCall_Arguments wireToolCall_Arguments_update read_raw)]"

definition wireToolCall_ok :: "wireToolCall \<Rightarrow> bool" where
  "wireToolCall_ok w \<longleftrightarrow>
     raw_ok (wireToolCall_Arguments w)"

definition received_wireToolCall :: "wireToolCall \<Rightarrow> wireToolCall" where
  "received_wireToolCall w = w\<lparr>
     wireToolCall_Arguments := Some (raw_json (wireToolCall_Arguments w))\<rparr>"

lemma reads_wireToolCall:
  "reads (read_struct wireToolCall_fields) wireToolCall_json
     received_wireToolCall wireToolCall_ok zero_wireToolCall"
  by (rule readsI, rename_tac w, case_tac w)
     (simp add: wireToolCall_json_def wireToolCall_fields_def zero_wireToolCall_def wireToolCall_ok_def
        received_wireToolCall_def wire)

record wireChatMessage =
  wireChatMessage_Role :: string
  wireChatMessage_Content :: string
  wireChatMessage_ToolCalls :: "wireToolCall slice"
  wireChatMessage_ToolCallID :: string

definition wireChatMessage_json :: "wireChatMessage \<Rightarrow> json" where
  "wireChatMessage_json w =
     JObj (
       member ''role'' (JStr (wireChatMessage_Role w)) @
       member ''content'' (JStr (wireChatMessage_Content w)) @
       member ''tool_calls'' ((slice_json wireToolCall_json) (wireChatMessage_ToolCalls w)) @
       omit_if (wireChatMessage_ToolCallID w = '''') ''tool_call_id'' (JStr (wireChatMessage_ToolCallID w)))"

definition zero_wireChatMessage :: wireChatMessage where
  "zero_wireChatMessage = \<lparr>
     wireChatMessage_Role = '''', wireChatMessage_Content = '''',
     wireChatMessage_ToolCalls = None, wireChatMessage_ToolCallID = ''''\<rparr>"

definition wireChatMessage_fields :: "wireChatMessage fields" where
  "wireChatMessage_fields =
     [(''role'', field wireChatMessage_Role wireChatMessage_Role_update read_string),
      (''content'', field wireChatMessage_Content wireChatMessage_Content_update read_string),
      (''tool_calls'', field wireChatMessage_ToolCalls wireChatMessage_ToolCalls_update (read_slice (read_struct wireToolCall_fields) zero_wireToolCall)),
      (''tool_call_id'', field wireChatMessage_ToolCallID wireChatMessage_ToolCallID_update read_string)]"

definition wireChatMessage_ok :: "wireChatMessage \<Rightarrow> bool" where
  "wireChatMessage_ok w \<longleftrightarrow>
     (slice_ok wireToolCall_ok) (wireChatMessage_ToolCalls w)"

definition received_wireChatMessage :: "wireChatMessage \<Rightarrow> wireChatMessage" where
  "received_wireChatMessage w = w\<lparr>
     wireChatMessage_ToolCalls := map_option (map received_wireToolCall) (wireChatMessage_ToolCalls w)\<rparr>"

lemma reads_wireChatMessage:
  "reads (read_struct wireChatMessage_fields) wireChatMessage_json
     received_wireChatMessage wireChatMessage_ok zero_wireChatMessage"
  by (rule readsI, rename_tac w, case_tac w)
     (simp add: wireChatMessage_json_def wireChatMessage_fields_def zero_wireChatMessage_def
        wireChatMessage_ok_def received_wireChatMessage_def reads_slice [OF reads_wireToolCall]
        wire)

record wireChatEntry =
  wireChatEntry_Message :: wireChatMessage
  wireChatEntry_Timestamp :: timestamp
  wireChatEntry_Reasoning :: string
  wireChatEntry_ClaudeMeta :: string

definition wireChatEntry_json :: "wireChatEntry \<Rightarrow> json" where
  "wireChatEntry_json w =
     JObj (
       member ''message'' (wireChatMessage_json (wireChatEntry_Message w)) @
       member ''timestamp'' (time_json (wireChatEntry_Timestamp w)) @
       omit_if (wireChatEntry_Reasoning w = '''') ''reasoning'' (JStr (wireChatEntry_Reasoning w)) @
       omit_if (wireChatEntry_ClaudeMeta w = '''') ''claude_meta'' (JStr (wireChatEntry_ClaudeMeta w)))"

definition zero_wireChatEntry :: wireChatEntry where
  "zero_wireChatEntry = \<lparr>
     wireChatEntry_Message = zero_wireChatMessage, wireChatEntry_Timestamp = zero_time,
     wireChatEntry_Reasoning = '''', wireChatEntry_ClaudeMeta = ''''\<rparr>"

definition wireChatEntry_fields :: "wireChatEntry fields" where
  "wireChatEntry_fields =
     [(''message'', field wireChatEntry_Message wireChatEntry_Message_update (read_struct wireChatMessage_fields)),
      (''timestamp'', field wireChatEntry_Timestamp wireChatEntry_Timestamp_update read_time),
      (''reasoning'', field wireChatEntry_Reasoning wireChatEntry_Reasoning_update read_string),
      (''claude_meta'', field wireChatEntry_ClaudeMeta wireChatEntry_ClaudeMeta_update read_string)]"

definition wireChatEntry_ok :: "wireChatEntry \<Rightarrow> bool" where
  "wireChatEntry_ok w \<longleftrightarrow>
     wireChatMessage_ok (wireChatEntry_Message w) \<and> time_ok (wireChatEntry_Timestamp w)"

definition received_wireChatEntry :: "wireChatEntry \<Rightarrow> wireChatEntry" where
  "received_wireChatEntry w = w\<lparr>
     wireChatEntry_Message := received_wireChatMessage (wireChatEntry_Message w)\<rparr>"

lemma reads_wireChatEntry:
  "reads (read_struct wireChatEntry_fields) wireChatEntry_json
     received_wireChatEntry wireChatEntry_ok zero_wireChatEntry"
  by (rule readsI, rename_tac w, case_tac w)
     (simp add: wireChatEntry_json_def wireChatEntry_fields_def zero_wireChatEntry_def
        wireChatEntry_ok_def received_wireChatEntry_def readsD [OF reads_wireChatMessage] wire)

record wireNodeMetric =
  wireNodeMetric_Node :: string
  wireNodeMetric_Runs :: go_int
  wireNodeMetric_Failures :: go_int
  wireNodeMetric_FailureRate :: json_float
  wireNodeMetric_AvgElapsedMS :: json_float
  wireNodeMetric_MinElapsedMS :: go_int
  wireNodeMetric_MaxElapsedMS :: go_int

definition wireNodeMetric_json :: "wireNodeMetric \<Rightarrow> json" where
  "wireNodeMetric_json w =
     JObj (
       member ''node'' (JStr (wireNodeMetric_Node w)) @
       member ''runs'' (int_json (wireNodeMetric_Runs w)) @
       member ''failures'' (int_json (wireNodeMetric_Failures w)) @
       member ''failure_rate'' (float_json (wireNodeMetric_FailureRate w)) @
       member ''avg_elapsed_ms'' (float_json (wireNodeMetric_AvgElapsedMS w)) @
       member ''min_elapsed_ms'' (int_json (wireNodeMetric_MinElapsedMS w)) @
       member ''max_elapsed_ms'' (int_json (wireNodeMetric_MaxElapsedMS w)))"

definition zero_wireNodeMetric :: wireNodeMetric where
  "zero_wireNodeMetric = \<lparr>
     wireNodeMetric_Node = '''', wireNodeMetric_Runs = 0, wireNodeMetric_Failures = 0,
     wireNodeMetric_FailureRate = zero_float, wireNodeMetric_AvgElapsedMS = zero_float,
     wireNodeMetric_MinElapsedMS = 0, wireNodeMetric_MaxElapsedMS = 0\<rparr>"

definition wireNodeMetric_fields :: "wireNodeMetric fields" where
  "wireNodeMetric_fields =
     [(''node'', field wireNodeMetric_Node wireNodeMetric_Node_update read_string),
      (''runs'', field wireNodeMetric_Runs wireNodeMetric_Runs_update read_int),
      (''failures'', field wireNodeMetric_Failures wireNodeMetric_Failures_update read_int),
      (''failure_rate'', field wireNodeMetric_FailureRate wireNodeMetric_FailureRate_update read_float),
      (''avg_elapsed_ms'', field wireNodeMetric_AvgElapsedMS wireNodeMetric_AvgElapsedMS_update read_float),
      (''min_elapsed_ms'', field wireNodeMetric_MinElapsedMS wireNodeMetric_MinElapsedMS_update read_int),
      (''max_elapsed_ms'', field wireNodeMetric_MaxElapsedMS wireNodeMetric_MaxElapsedMS_update read_int)]"

definition wireNodeMetric_ok :: "wireNodeMetric \<Rightarrow> bool" where
  "wireNodeMetric_ok w \<longleftrightarrow>
     float_ok (wireNodeMetric_FailureRate w) \<and> float_ok (wireNodeMetric_AvgElapsedMS w)"

lemma reads_wireNodeMetric:
  "reads (read_struct wireNodeMetric_fields) wireNodeMetric_json
     (\<lambda>w. w) wireNodeMetric_ok zero_wireNodeMetric"
  by (rule readsI, rename_tac w, case_tac w)
     (simp add: wireNodeMetric_json_def wireNodeMetric_fields_def zero_wireNodeMetric_def
        wireNodeMetric_ok_def wire)

record wireSessionMetric =
  wireSessionMetric_WorkerID :: string
  wireSessionMetric_Sessions :: go_int
  wireSessionMetric_Failures :: go_int
  wireSessionMetric_FailureRate :: json_float
  wireSessionMetric_AvgDurationSeconds :: json_float
  wireSessionMetric_AvgTokensIn :: json_float
  wireSessionMetric_AvgTokensOut :: json_float
  wireSessionMetric_UsageUnavailable :: go_int
  wireSessionMetric_AvgContextPercent :: json_float

definition wireSessionMetric_json :: "wireSessionMetric \<Rightarrow> json" where
  "wireSessionMetric_json w =
     JObj (
       member ''worker_id'' (JStr (wireSessionMetric_WorkerID w)) @
       member ''sessions'' (int_json (wireSessionMetric_Sessions w)) @
       member ''failures'' (int_json (wireSessionMetric_Failures w)) @
       member ''failure_rate'' (float_json (wireSessionMetric_FailureRate w)) @
       member ''avg_duration_seconds'' (float_json (wireSessionMetric_AvgDurationSeconds w)) @
       member ''avg_tokens_in'' (float_json (wireSessionMetric_AvgTokensIn w)) @
       member ''avg_tokens_out'' (float_json (wireSessionMetric_AvgTokensOut w)) @
       member ''usage_unavailable'' (int_json (wireSessionMetric_UsageUnavailable w)) @
       member ''avg_context_percent'' (float_json (wireSessionMetric_AvgContextPercent w)))"

definition zero_wireSessionMetric :: wireSessionMetric where
  "zero_wireSessionMetric = \<lparr>
     wireSessionMetric_WorkerID = '''', wireSessionMetric_Sessions = 0,
     wireSessionMetric_Failures = 0, wireSessionMetric_FailureRate = zero_float,
     wireSessionMetric_AvgDurationSeconds = zero_float,
     wireSessionMetric_AvgTokensIn = zero_float, wireSessionMetric_AvgTokensOut = zero_float,
     wireSessionMetric_UsageUnavailable = 0, wireSessionMetric_AvgContextPercent = zero_float\<rparr>"

definition wireSessionMetric_fields :: "wireSessionMetric fields" where
  "wireSessionMetric_fields =
     [(''worker_id'', field wireSessionMetric_WorkerID wireSessionMetric_WorkerID_update read_string),
      (''sessions'', field wireSessionMetric_Sessions wireSessionMetric_Sessions_update read_int),
      (''failures'', field wireSessionMetric_Failures wireSessionMetric_Failures_update read_int),
      (''failure_rate'', field wireSessionMetric_FailureRate wireSessionMetric_FailureRate_update read_float),
      (''avg_duration_seconds'', field wireSessionMetric_AvgDurationSeconds wireSessionMetric_AvgDurationSeconds_update read_float),
      (''avg_tokens_in'', field wireSessionMetric_AvgTokensIn wireSessionMetric_AvgTokensIn_update read_float),
      (''avg_tokens_out'', field wireSessionMetric_AvgTokensOut wireSessionMetric_AvgTokensOut_update read_float),
      (''usage_unavailable'', field wireSessionMetric_UsageUnavailable wireSessionMetric_UsageUnavailable_update read_int),
      (''avg_context_percent'', field wireSessionMetric_AvgContextPercent wireSessionMetric_AvgContextPercent_update read_float)]"

definition wireSessionMetric_ok :: "wireSessionMetric \<Rightarrow> bool" where
  "wireSessionMetric_ok w \<longleftrightarrow>
     float_ok (wireSessionMetric_FailureRate w) \<and>
     float_ok (wireSessionMetric_AvgDurationSeconds w) \<and>
     float_ok (wireSessionMetric_AvgTokensIn w) \<and>
     float_ok (wireSessionMetric_AvgTokensOut w) \<and>
     float_ok (wireSessionMetric_AvgContextPercent w)"

lemma reads_wireSessionMetric:
  "reads (read_struct wireSessionMetric_fields) wireSessionMetric_json
     (\<lambda>w. w) wireSessionMetric_ok zero_wireSessionMetric"
  by (rule readsI, rename_tac w, case_tac w)
     (simp add: wireSessionMetric_json_def wireSessionMetric_fields_def zero_wireSessionMetric_def
        wireSessionMetric_ok_def wire)

record wireMetricsReport =
  wireMetricsReport_Nodes :: "wireNodeMetric slice"
  wireMetricsReport_Sessions :: "wireSessionMetric slice"

definition wireMetricsReport_json :: "wireMetricsReport \<Rightarrow> json" where
  "wireMetricsReport_json w =
     JObj (
       member ''nodes'' ((slice_json wireNodeMetric_json) (wireMetricsReport_Nodes w)) @
       member ''sessions'' ((slice_json wireSessionMetric_json) (wireMetricsReport_Sessions w)))"

definition zero_wireMetricsReport :: wireMetricsReport where
  "zero_wireMetricsReport = \<lparr>
     wireMetricsReport_Nodes = None, wireMetricsReport_Sessions = None\<rparr>"

definition wireMetricsReport_fields :: "wireMetricsReport fields" where
  "wireMetricsReport_fields =
     [(''nodes'', field wireMetricsReport_Nodes wireMetricsReport_Nodes_update (read_slice (read_struct wireNodeMetric_fields) zero_wireNodeMetric)),
      (''sessions'', field wireMetricsReport_Sessions wireMetricsReport_Sessions_update (read_slice (read_struct wireSessionMetric_fields) zero_wireSessionMetric))]"

definition wireMetricsReport_ok :: "wireMetricsReport \<Rightarrow> bool" where
  "wireMetricsReport_ok w \<longleftrightarrow>
     (slice_ok wireNodeMetric_ok) (wireMetricsReport_Nodes w) \<and>
     (slice_ok wireSessionMetric_ok) (wireMetricsReport_Sessions w)"

lemma reads_wireMetricsReport:
  "reads (read_struct wireMetricsReport_fields) wireMetricsReport_json
     (\<lambda>w. w) wireMetricsReport_ok zero_wireMetricsReport"
  by (rule readsI, rename_tac w, case_tac w)
     (simp add: wireMetricsReport_json_def wireMetricsReport_fields_def zero_wireMetricsReport_def
        wireMetricsReport_ok_def reads_slice [OF reads_wireNodeMetric]
        reads_slice [OF reads_wireSessionMetric] wire)

record wireGraphNode =
  wireGraphNode_SessionID :: string
  wireGraphNode_JobID :: string
  wireGraphNode_TaskID :: string
  wireGraphNode_Node :: string
  wireGraphNode_StartedAt :: timestamp

definition wireGraphNode_json :: "wireGraphNode \<Rightarrow> json" where
  "wireGraphNode_json w =
     JObj (
       member ''session_id'' (JStr (wireGraphNode_SessionID w)) @
       member ''job_id'' (JStr (wireGraphNode_JobID w)) @
       member ''task_id'' (JStr (wireGraphNode_TaskID w)) @
       member ''node'' (JStr (wireGraphNode_Node w)) @
       member ''started_at'' (time_json (wireGraphNode_StartedAt w)))"

definition zero_wireGraphNode :: wireGraphNode where
  "zero_wireGraphNode = \<lparr>
     wireGraphNode_SessionID = '''', wireGraphNode_JobID = '''', wireGraphNode_TaskID = '''',
     wireGraphNode_Node = '''', wireGraphNode_StartedAt = zero_time\<rparr>"

definition wireGraphNode_fields :: "wireGraphNode fields" where
  "wireGraphNode_fields =
     [(''session_id'', field wireGraphNode_SessionID wireGraphNode_SessionID_update read_string),
      (''job_id'', field wireGraphNode_JobID wireGraphNode_JobID_update read_string),
      (''task_id'', field wireGraphNode_TaskID wireGraphNode_TaskID_update read_string),
      (''node'', field wireGraphNode_Node wireGraphNode_Node_update read_string),
      (''started_at'', field wireGraphNode_StartedAt wireGraphNode_StartedAt_update read_time)]"

definition wireGraphNode_ok :: "wireGraphNode \<Rightarrow> bool" where
  "wireGraphNode_ok w \<longleftrightarrow>
     time_ok (wireGraphNode_StartedAt w)"

lemma reads_wireGraphNode:
  "reads (read_struct wireGraphNode_fields) wireGraphNode_json
     (\<lambda>w. w) wireGraphNode_ok zero_wireGraphNode"
  by (rule readsI, rename_tac w, case_tac w)
     (simp add: wireGraphNode_json_def wireGraphNode_fields_def zero_wireGraphNode_def
        wireGraphNode_ok_def wire)

record wireWorkerSession =
  wireWorkerSession_ID :: string
  wireWorkerSession_WorkerID :: string
  wireWorkerSession_JobID :: string
  wireWorkerSession_TaskID :: string
  wireWorkerSession_Status :: string
  wireWorkerSession_Model :: string
  wireWorkerSession_Provider :: string
  wireWorkerSession_TokensIn :: go_int
  wireWorkerSession_TokensOut :: go_int
  wireWorkerSession_StartedAt :: timestamp
  wireWorkerSession_EndedAt :: "timestamp option"
  wireWorkerSession_CostUSD :: "json_float option"

definition wireWorkerSession_json :: "wireWorkerSession \<Rightarrow> json" where
  "wireWorkerSession_json w =
     JObj (
       member ''id'' (JStr (wireWorkerSession_ID w)) @
       member ''worker_id'' (JStr (wireWorkerSession_WorkerID w)) @
       omit_if (wireWorkerSession_JobID w = '''') ''job_id'' (JStr (wireWorkerSession_JobID w)) @
       omit_if (wireWorkerSession_TaskID w = '''') ''task_id'' (JStr (wireWorkerSession_TaskID w)) @
       member ''status'' (JStr (wireWorkerSession_Status w)) @
       omit_if (wireWorkerSession_Model w = '''') ''model'' (JStr (wireWorkerSession_Model w)) @
       omit_if (wireWorkerSession_Provider w = '''') ''provider'' (JStr (wireWorkerSession_Provider w)) @
       member ''tokens_in'' (int_json (wireWorkerSession_TokensIn w)) @
       member ''tokens_out'' (int_json (wireWorkerSession_TokensOut w)) @
       member ''started_at'' (time_json (wireWorkerSession_StartedAt w)) @
       omit_if (wireWorkerSession_EndedAt w = None) ''ended_at'' ((ptr_json time_json) (wireWorkerSession_EndedAt w)) @
       omit_if (wireWorkerSession_CostUSD w = None) ''cost_usd'' ((ptr_json float_json) (wireWorkerSession_CostUSD w)))"

definition zero_wireWorkerSession :: wireWorkerSession where
  "zero_wireWorkerSession = \<lparr>
     wireWorkerSession_ID = '''', wireWorkerSession_WorkerID = '''',
     wireWorkerSession_JobID = '''', wireWorkerSession_TaskID = '''',
     wireWorkerSession_Status = '''', wireWorkerSession_Model = '''',
     wireWorkerSession_Provider = '''', wireWorkerSession_TokensIn = 0,
     wireWorkerSession_TokensOut = 0, wireWorkerSession_StartedAt = zero_time,
     wireWorkerSession_EndedAt = None, wireWorkerSession_CostUSD = None\<rparr>"

definition wireWorkerSession_fields :: "wireWorkerSession fields" where
  "wireWorkerSession_fields =
     [(''id'', field wireWorkerSession_ID wireWorkerSession_ID_update read_string),
      (''worker_id'', field wireWorkerSession_WorkerID wireWorkerSession_WorkerID_update read_string),
      (''job_id'', field wireWorkerSession_JobID wireWorkerSession_JobID_update read_string),
      (''task_id'', field wireWorkerSession_TaskID wireWorkerSession_TaskID_update read_string),
      (''status'', field wireWorkerSession_Status wireWorkerSession_Status_update read_string),
      (''model'', field wireWorkerSession_Model wireWorkerSession_Model_update read_string),
      (''provider'', field wireWorkerSession_Provider wireWorkerSession_Provider_update read_string),
      (''tokens_in'', field wireWorkerSession_TokensIn wireWorkerSession_TokensIn_update read_int),
      (''tokens_out'', field wireWorkerSession_TokensOut wireWorkerSession_TokensOut_update read_int),
      (''started_at'', field wireWorkerSession_StartedAt wireWorkerSession_StartedAt_update read_time),
      (''ended_at'', field wireWorkerSession_EndedAt wireWorkerSession_EndedAt_update (read_ptr read_time zero_time)),
      (''cost_usd'', field wireWorkerSession_CostUSD wireWorkerSession_CostUSD_update (read_ptr read_float zero_float))]"

definition wireWorkerSession_ok :: "wireWorkerSession \<Rightarrow> bool" where
  "wireWorkerSession_ok w \<longleftrightarrow>
     time_ok (wireWorkerSession_StartedAt w) \<and>
     (ptr_ok time_ok) (wireWorkerSession_EndedAt w) \<and>
     (ptr_ok float_ok) (wireWorkerSession_CostUSD w)"

lemma reads_wireWorkerSession:
  "reads (read_struct wireWorkerSession_fields) wireWorkerSession_json
     (\<lambda>w. w) wireWorkerSession_ok zero_wireWorkerSession"
  by (rule readsI, rename_tac w, case_tac w)
     (simp add: wireWorkerSession_json_def wireWorkerSession_fields_def zero_wireWorkerSession_def
        wireWorkerSession_ok_def reads_ptr [OF reads_time _ not_null(1)]
        reads_ptr [OF reads_float _ not_null(2)] wire)

record wireFeedEntry =
  wireFeedEntry_ID :: go_int
  wireFeedEntry_JobID :: string
  wireFeedEntry_EntryType :: string
  wireFeedEntry_Content :: string
  wireFeedEntry_Metadata :: raw
  wireFeedEntry_CreatedAt :: timestamp

definition wireFeedEntry_json :: "wireFeedEntry \<Rightarrow> json" where
  "wireFeedEntry_json w =
     JObj (
       member ''id'' (int_json (wireFeedEntry_ID w)) @
       omit_if (wireFeedEntry_JobID w = '''') ''job_id'' (JStr (wireFeedEntry_JobID w)) @
       member ''entry_type'' (JStr (wireFeedEntry_EntryType w)) @
       member ''content'' (JStr (wireFeedEntry_Content w)) @
       omit_if (wireFeedEntry_Metadata w = None) ''metadata'' (raw_json (wireFeedEntry_Metadata w)) @
       member ''created_at'' (time_json (wireFeedEntry_CreatedAt w)))"

definition zero_wireFeedEntry :: wireFeedEntry where
  "zero_wireFeedEntry = \<lparr>
     wireFeedEntry_ID = 0, wireFeedEntry_JobID = '''', wireFeedEntry_EntryType = '''',
     wireFeedEntry_Content = '''', wireFeedEntry_Metadata = None,
     wireFeedEntry_CreatedAt = zero_time\<rparr>"

definition wireFeedEntry_fields :: "wireFeedEntry fields" where
  "wireFeedEntry_fields =
     [(''id'', field wireFeedEntry_ID wireFeedEntry_ID_update read_int),
      (''job_id'', field wireFeedEntry_JobID wireFeedEntry_JobID_update read_string),
      (''entry_type'', field wireFeedEntry_EntryType wireFeedEntry_EntryType_update read_string),
      (''content'', field wireFeedEntry_Content wireFeedEntry_Content_update read_string),
      (''metadata'', field wireFeedEntry_Metadata wireFeedEntry_Metadata_update read_raw),
      (''created_at'', field wireFeedEntry_CreatedAt wireFeedEntry_CreatedAt_update read_time)]"

definition wireFeedEntry_ok :: "wireFeedEntry \<Rightarrow> bool" where
  "wireFeedEntry_ok w \<longleftrightarrow>
     raw_ok (wireFeedEntry_Metadata w) \<and> time_ok (wireFeedEntry_CreatedAt w)"

lemma reads_wireFeedEntry:
  "reads (read_struct wireFeedEntry_fields) wireFeedEntry_json
     (\<lambda>w. w) wireFeedEntry_ok zero_wireFeedEntry"
  by (rule readsI, rename_tac w, case_tac w)
     (simp add: wireFeedEntry_json_def wireFeedEntry_fields_def zero_wireFeedEntry_def
        wireFeedEntry_ok_def wire)

record wireProgressState =
  wireProgressState_Jobs :: "wireJob slice"
  wireProgressState_Tasks :: "(wireTask slice) dict"
  wireProgressState_Reports :: "(wireProgressReport slice) dict"
  wireProgressState_ActiveSessions :: "wireWorkerSession slice"
  wireProgressState_LiveSnapshots :: "wireSessionSnapshot slice"
  wireProgressState_GraphNodes :: "wireGraphNode slice"
  wireProgressState_FeedEntries :: "wireFeedEntry slice"

definition wireProgressState_json :: "wireProgressState \<Rightarrow> json" where
  "wireProgressState_json w =
     JObj (
       member ''jobs'' ((slice_json wireJob_json) (wireProgressState_Jobs w)) @
       member ''tasks'' ((dict_json (slice_json wireTask_json)) (wireProgressState_Tasks w)) @
       member ''reports'' ((dict_json (slice_json wireProgressReport_json)) (wireProgressState_Reports w)) @
       member ''active_sessions'' ((slice_json wireWorkerSession_json) (wireProgressState_ActiveSessions w)) @
       member ''live_snapshots'' ((slice_json wireSessionSnapshot_json) (wireProgressState_LiveSnapshots w)) @
       omit_if (elems (wireProgressState_GraphNodes w) = []) ''active_graph_nodes'' ((slice_json wireGraphNode_json) (wireProgressState_GraphNodes w)) @
       member ''feed_entries'' ((slice_json wireFeedEntry_json) (wireProgressState_FeedEntries w)))"

definition zero_wireProgressState :: wireProgressState where
  "zero_wireProgressState = \<lparr>
     wireProgressState_Jobs = None, wireProgressState_Tasks = None,
     wireProgressState_Reports = None, wireProgressState_ActiveSessions = None,
     wireProgressState_LiveSnapshots = None, wireProgressState_GraphNodes = None,
     wireProgressState_FeedEntries = None\<rparr>"

definition wireProgressState_fields :: "wireProgressState fields" where
  "wireProgressState_fields =
     [(''jobs'', field wireProgressState_Jobs wireProgressState_Jobs_update (read_slice (read_struct wireJob_fields) zero_wireJob)),
      (''tasks'', field wireProgressState_Tasks wireProgressState_Tasks_update (read_dict (read_slice (read_struct wireTask_fields) zero_wireTask) None)),
      (''reports'', field wireProgressState_Reports wireProgressState_Reports_update (read_dict (read_slice (read_struct wireProgressReport_fields) zero_wireProgressReport) None)),
      (''active_sessions'', field wireProgressState_ActiveSessions wireProgressState_ActiveSessions_update (read_slice (read_struct wireWorkerSession_fields) zero_wireWorkerSession)),
      (''live_snapshots'', field wireProgressState_LiveSnapshots wireProgressState_LiveSnapshots_update (read_slice (read_struct wireSessionSnapshot_fields) zero_wireSessionSnapshot)),
      (''active_graph_nodes'', field wireProgressState_GraphNodes wireProgressState_GraphNodes_update (read_slice (read_struct wireGraphNode_fields) zero_wireGraphNode)),
      (''feed_entries'', field wireProgressState_FeedEntries wireProgressState_FeedEntries_update (read_slice (read_struct wireFeedEntry_fields) zero_wireFeedEntry))]"

definition wireProgressState_ok :: "wireProgressState \<Rightarrow> bool" where
  "wireProgressState_ok w \<longleftrightarrow>
     (slice_ok wireJob_ok) (wireProgressState_Jobs w) \<and>
     (dict_ok (slice_ok wireTask_ok)) (wireProgressState_Tasks w) \<and>
     (dict_ok (slice_ok wireProgressReport_ok)) (wireProgressState_Reports w) \<and>
     (slice_ok wireWorkerSession_ok) (wireProgressState_ActiveSessions w) \<and>
     (slice_ok wireSessionSnapshot_ok) (wireProgressState_LiveSnapshots w) \<and>
     (slice_ok wireGraphNode_ok) (wireProgressState_GraphNodes w) \<and>
     (slice_ok wireFeedEntry_ok) (wireProgressState_FeedEntries w)"

definition received_wireProgressState :: "wireProgressState \<Rightarrow> wireProgressState" where
  "received_wireProgressState w = w\<lparr>
     wireProgressState_GraphNodes := appended (elems (wireProgressState_GraphNodes w))\<rparr>"

lemma reads_wireProgressState:
  "reads (read_struct wireProgressState_fields) wireProgressState_json
     received_wireProgressState wireProgressState_ok zero_wireProgressState"
  by (rule readsI, rename_tac w, case_tac w)
     (simp add: wireProgressState_json_def wireProgressState_fields_def zero_wireProgressState_def
        wireProgressState_ok_def received_wireProgressState_def reads_slice [OF reads_wireJob]
        reads_dict [OF reads_slices [OF reads_wireTask]]
        reads_dict [OF reads_slices [OF reads_wireProgressReport]]
        reads_slice [OF reads_wireWorkerSession] reads_slice [OF reads_wireSessionSnapshot]
        reads_slice [OF reads_wireGraphNode] read_omitted_slice [OF reads_wireGraphNode]
        reads_slice [OF reads_wireFeedEntry] wire)

record wireToolCallResult =
  wireToolCallResult_CallID :: string
  wireToolCallResult_Name :: string
  wireToolCallResult_Result :: string
  wireToolCallResult_Error :: string

definition wireToolCallResult_json :: "wireToolCallResult \<Rightarrow> json" where
  "wireToolCallResult_json w =
     JObj (
       member ''call_id'' (JStr (wireToolCallResult_CallID w)) @
       member ''name'' (JStr (wireToolCallResult_Name w)) @
       member ''result'' (JStr (wireToolCallResult_Result w)) @
       omit_if (wireToolCallResult_Error w = '''') ''error'' (JStr (wireToolCallResult_Error w)))"

definition zero_wireToolCallResult :: wireToolCallResult where
  "zero_wireToolCallResult = \<lparr>
     wireToolCallResult_CallID = '''', wireToolCallResult_Name = '''',
     wireToolCallResult_Result = '''', wireToolCallResult_Error = ''''\<rparr>"

definition wireToolCallResult_fields :: "wireToolCallResult fields" where
  "wireToolCallResult_fields =
     [(''call_id'', field wireToolCallResult_CallID wireToolCallResult_CallID_update read_string),
      (''name'', field wireToolCallResult_Name wireToolCallResult_Name_update read_string),
      (''result'', field wireToolCallResult_Result wireToolCallResult_Result_update read_string),
      (''error'', field wireToolCallResult_Error wireToolCallResult_Error_update read_string)]"

lemma reads_wireToolCallResult:
  "reads (read_struct wireToolCallResult_fields) wireToolCallResult_json
     (\<lambda>w. w) (\<lambda>w. True) zero_wireToolCallResult"
  by (rule readsI, rename_tac w, case_tac w)
     (simp add: wireToolCallResult_json_def wireToolCallResult_fields_def zero_wireToolCallResult_def wire)

record noteContentResponse =
  noteContentResponse_Content :: string

definition noteContentResponse_json :: "noteContentResponse \<Rightarrow> json" where
  "noteContentResponse_json w =
     JObj (
       member ''content'' (JStr (noteContentResponse_Content w)))"

definition zero_noteContentResponse :: noteContentResponse where
  "zero_noteContentResponse = \<lparr>
     noteContentResponse_Content = ''''\<rparr>"

definition noteContentResponse_fields :: "noteContentResponse fields" where
  "noteContentResponse_fields =
     [(''content'', field noteContentResponse_Content noteContentResponse_Content_update read_string)]"

lemma reads_noteContentResponse:
  "reads (read_struct noteContentResponse_fields) noteContentResponse_json
     (\<lambda>w. w) (\<lambda>w. True) zero_noteContentResponse"
  by (rule readsI, rename_tac w, case_tac w)
     (simp add: noteContentResponse_json_def noteContentResponse_fields_def zero_noteContentResponse_def
        wire)

record logsResponse =
  logsResponse_Content :: string

definition logsResponse_json :: "logsResponse \<Rightarrow> json" where
  "logsResponse_json w =
     JObj (
       member ''content'' (JStr (logsResponse_Content w)))"

definition zero_logsResponse :: logsResponse where
  "zero_logsResponse = \<lparr>
     logsResponse_Content = ''''\<rparr>"

definition logsResponse_fields :: "logsResponse fields" where
  "logsResponse_fields =
     [(''content'', field logsResponse_Content logsResponse_Content_update read_string)]"

lemma reads_logsResponse:
  "reads (read_struct logsResponse_fields) logsResponse_json
     (\<lambda>w. w) (\<lambda>w. True) zero_logsResponse"
  by (rule readsI, rename_tac w, case_tac w)
     (simp add: logsResponse_json_def logsResponse_fields_def zero_logsResponse_def wire)

end
