(* ===== verification/WirePayloads.thy ===== *)
theory WirePayloads
  imports WireTypes
begin

text \<open>
  The payloads of the server-sent events, one struct per event type, on both sides.
\<close>

record wirePromptQuestion =
  wirePromptQuestion_Question :: string
  wirePromptQuestion_Options :: "string slice"

definition wirePromptQuestion_json :: "wirePromptQuestion \<Rightarrow> json" where
  "wirePromptQuestion_json w =
     JObj (
       member ''question'' (JStr (wirePromptQuestion_Question w)) @
       omit_if (elems (wirePromptQuestion_Options w) = []) ''options'' ((slice_json JStr) (wirePromptQuestion_Options w)))"

definition zero_wirePromptQuestion :: wirePromptQuestion where
  "zero_wirePromptQuestion = \<lparr>
     wirePromptQuestion_Question = '''', wirePromptQuestion_Options = None\<rparr>"

definition wirePromptQuestion_fields :: "wirePromptQuestion fields" where
  "wirePromptQuestion_fields =
     [(''question'', field wirePromptQuestion_Question wirePromptQuestion_Question_update read_string),
      (''options'', field wirePromptQuestion_Options wirePromptQuestion_Options_update (read_slice read_string ''''))]"

definition received_wirePromptQuestion :: "wirePromptQuestion \<Rightarrow> wirePromptQuestion" where
  "received_wirePromptQuestion w = w\<lparr>
     wirePromptQuestion_Options := appended (elems (wirePromptQuestion_Options w))\<rparr>"

lemma reads_wirePromptQuestion:
  "reads (read_struct wirePromptQuestion_fields) wirePromptQuestion_json
     received_wirePromptQuestion (\<lambda>w. True) zero_wirePromptQuestion"
  by (rule readsI, rename_tac w, case_tac w)
     (simp add: wirePromptQuestion_json_def wirePromptQuestion_fields_def zero_wirePromptQuestion_def
        received_wirePromptQuestion_def reads_slice [OF reads_string]
        read_omitted_slice [OF reads_string] read_omitted_last_slice [OF reads_string] wire)

record wireFileTouch =
  wireFileTouch_Path :: string
  wireFileTouch_Size :: go_int
  wireFileTouch_IsNew :: bool

definition wireFileTouch_json :: "wireFileTouch \<Rightarrow> json" where
  "wireFileTouch_json w =
     JObj (
       member ''path'' (JStr (wireFileTouch_Path w)) @
       omit_if (wireFileTouch_Size w = 0) ''size'' (int_json (wireFileTouch_Size w)) @
       omit_if (\<not> wireFileTouch_IsNew w) ''is_new'' (JBool (wireFileTouch_IsNew w)))"

definition zero_wireFileTouch :: wireFileTouch where
  "zero_wireFileTouch = \<lparr>
     wireFileTouch_Path = '''', wireFileTouch_Size = 0, wireFileTouch_IsNew = False\<rparr>"

definition wireFileTouch_fields :: "wireFileTouch fields" where
  "wireFileTouch_fields =
     [(''path'', field wireFileTouch_Path wireFileTouch_Path_update read_string),
      (''size'', field wireFileTouch_Size wireFileTouch_Size_update read_int),
      (''is_new'', field wireFileTouch_IsNew wireFileTouch_IsNew_update read_bool)]"

lemma reads_wireFileTouch:
  "reads (read_struct wireFileTouch_fields) wireFileTouch_json
     (\<lambda>w. w) (\<lambda>w. True) zero_wireFileTouch"
  by (rule readsI, rename_tac w, case_tac w)
     (simp add: wireFileTouch_json_def wireFileTouch_fields_def zero_wireFileTouch_def wire)

record wireOperationResult =
  wireOperationResult_OperationID :: string
  wireOperationResult_Content :: string
  wireOperationResult_Error :: string

definition wireOperationResult_json :: "wireOperationResult \<Rightarrow> json" where
  "wireOperationResult_json w =
     JObj (
       member ''operation_id'' (JStr (wireOperationResult_OperationID w)) @
       omit_if (wireOperationResult_Content w = '''') ''content'' (JStr (wireOperationResult_Content w)) @
       omit_if (wireOperationResult_Error w = '''') ''error'' (JStr (wireOperationResult_Error w)))"

definition zero_wireOperationResult :: wireOperationResult where
  "zero_wireOperationResult = \<lparr>
     wireOperationResult_OperationID = '''', wireOperationResult_Content = '''',
     wireOperationResult_Error = ''''\<rparr>"

definition wireOperationResult_fields :: "wireOperationResult fields" where
  "wireOperationResult_fields =
     [(''operation_id'', field wireOperationResult_OperationID wireOperationResult_OperationID_update read_string),
      (''content'', field wireOperationResult_Content wireOperationResult_Content_update read_string),
      (''error'', field wireOperationResult_Error wireOperationResult_Error_update read_string)]"

lemma reads_wireOperationResult:
  "reads (read_struct wireOperationResult_fields) wireOperationResult_json
     (\<lambda>w. w) (\<lambda>w. True) zero_wireOperationResult"
  by (rule readsI, rename_tac w, case_tac w)
     (simp add: wireOperationResult_json_def wireOperationResult_fields_def zero_wireOperationResult_def
        wire)

record wireOperatorTextPayload =
  wireOperatorTextPayload_Text :: string
  wireOperatorTextPayload_Reasoning :: string

definition wireOperatorTextPayload_json :: "wireOperatorTextPayload \<Rightarrow> json" where
  "wireOperatorTextPayload_json w =
     JObj (
       member ''text'' (JStr (wireOperatorTextPayload_Text w)) @
       omit_if (wireOperatorTextPayload_Reasoning w = '''') ''reasoning'' (JStr (wireOperatorTextPayload_Reasoning w)))"

definition zero_wireOperatorTextPayload :: wireOperatorTextPayload where
  "zero_wireOperatorTextPayload = \<lparr>
     wireOperatorTextPayload_Text = '''', wireOperatorTextPayload_Reasoning = ''''\<rparr>"

definition wireOperatorTextPayload_fields :: "wireOperatorTextPayload fields" where
  "wireOperatorTextPayload_fields =
     [(''text'', field wireOperatorTextPayload_Text wireOperatorTextPayload_Text_update read_string),
      (''reasoning'', field wireOperatorTextPayload_Reasoning wireOperatorTextPayload_Reasoning_update read_string)]"

lemma reads_wireOperatorTextPayload:
  "reads (read_struct wireOperatorTextPayload_fields) wireOperatorTextPayload_json
     (\<lambda>w. w) (\<lambda>w. True) zero_wireOperatorTextPayload"
  by (rule readsI, rename_tac w, case_tac w)
     (simp add: wireOperatorTextPayload_json_def wireOperatorTextPayload_fields_def
        zero_wireOperatorTextPayload_def wire)

record wireOperatorDonePayload =
  wireOperatorDonePayload_ModelName :: string
  wireOperatorDonePayload_TokensIn :: go_int
  wireOperatorDonePayload_TokensOut :: go_int
  wireOperatorDonePayload_ReasoningTokens :: go_int
  wireOperatorDonePayload_ContextTokens :: go_int

definition wireOperatorDonePayload_json :: "wireOperatorDonePayload \<Rightarrow> json" where
  "wireOperatorDonePayload_json w =
     JObj (
       member ''model_name'' (JStr (wireOperatorDonePayload_ModelName w)) @
       member ''tokens_in'' (int_json (wireOperatorDonePayload_TokensIn w)) @
       member ''tokens_out'' (int_json (wireOperatorDonePayload_TokensOut w)) @
       member ''reasoning_tokens'' (int_json (wireOperatorDonePayload_ReasoningTokens w)) @
       omit_if (wireOperatorDonePayload_ContextTokens w = 0) ''context_tokens'' (int_json (wireOperatorDonePayload_ContextTokens w)))"

definition zero_wireOperatorDonePayload :: wireOperatorDonePayload where
  "zero_wireOperatorDonePayload = \<lparr>
     wireOperatorDonePayload_ModelName = '''', wireOperatorDonePayload_TokensIn = 0,
     wireOperatorDonePayload_TokensOut = 0, wireOperatorDonePayload_ReasoningTokens = 0,
     wireOperatorDonePayload_ContextTokens = 0\<rparr>"

definition wireOperatorDonePayload_fields :: "wireOperatorDonePayload fields" where
  "wireOperatorDonePayload_fields =
     [(''model_name'', field wireOperatorDonePayload_ModelName wireOperatorDonePayload_ModelName_update read_string),
      (''tokens_in'', field wireOperatorDonePayload_TokensIn wireOperatorDonePayload_TokensIn_update read_int),
      (''tokens_out'', field wireOperatorDonePayload_TokensOut wireOperatorDonePayload_TokensOut_update read_int),
      (''reasoning_tokens'', field wireOperatorDonePayload_ReasoningTokens wireOperatorDonePayload_ReasoningTokens_update read_int),
      (''context_tokens'', field wireOperatorDonePayload_ContextTokens wireOperatorDonePayload_ContextTokens_update read_int)]"

lemma reads_wireOperatorDonePayload:
  "reads (read_struct wireOperatorDonePayload_fields) wireOperatorDonePayload_json
     (\<lambda>w. w) (\<lambda>w. True) zero_wireOperatorDonePayload"
  by (rule readsI, rename_tac w, case_tac w)
     (simp add: wireOperatorDonePayload_json_def wireOperatorDonePayload_fields_def
        zero_wireOperatorDonePayload_def wire)

record wireOperatorToolCallPayload =
  wireOperatorToolCallPayload_Name :: string
  wireOperatorToolCallPayload_Args :: raw
  wireOperatorToolCallPayload_Result :: string
  wireOperatorToolCallPayload_IsError :: bool

definition wireOperatorToolCallPayload_json :: "wireOperatorToolCallPayload \<Rightarrow> json" where
  "wireOperatorToolCallPayload_json w =
     JObj (
       member ''name'' (JStr (wireOperatorToolCallPayload_Name w)) @
       omit_if (wireOperatorToolCallPayload_Args w = None) ''args'' (raw_json (wireOperatorToolCallPayload_Args w)) @
       omit_if (wireOperatorToolCallPayload_Result w = '''') ''result'' (JStr (wireOperatorToolCallPayload_Result w)) @
       omit_if (\<not> wireOperatorToolCallPayload_IsError w) ''is_error'' (JBool (wireOperatorToolCallPayload_IsError w)))"

definition zero_wireOperatorToolCallPayload :: wireOperatorToolCallPayload where
  "zero_wireOperatorToolCallPayload = \<lparr>
     wireOperatorToolCallPayload_Name = '''', wireOperatorToolCallPayload_Args = None,
     wireOperatorToolCallPayload_Result = '''', wireOperatorToolCallPayload_IsError = False\<rparr>"

definition wireOperatorToolCallPayload_fields :: "wireOperatorToolCallPayload fields" where
  "wireOperatorToolCallPayload_fields =
     [(''name'', field wireOperatorToolCallPayload_Name wireOperatorToolCallPayload_Name_update read_string),
      (''args'', field wireOperatorToolCallPayload_Args wireOperatorToolCallPayload_Args_update read_raw),
      (''result'', field wireOperatorToolCallPayload_Result wireOperatorToolCallPayload_Result_update read_string),
      (''is_error'', field wireOperatorToolCallPayload_IsError wireOperatorToolCallPayload_IsError_update read_bool)]"

definition wireOperatorToolCallPayload_ok :: "wireOperatorToolCallPayload \<Rightarrow> bool" where
  "wireOperatorToolCallPayload_ok w \<longleftrightarrow>
     raw_ok (wireOperatorToolCallPayload_Args w)"

lemma reads_wireOperatorToolCallPayload:
  "reads (read_struct wireOperatorToolCallPayload_fields) wireOperatorToolCallPayload_json
     (\<lambda>w. w) wireOperatorToolCallPayload_ok zero_wireOperatorToolCallPayload"
  by (rule readsI, rename_tac w, case_tac w)
     (simp add: wireOperatorToolCallPayload_json_def wireOperatorToolCallPayload_fields_def
        zero_wireOperatorToolCallPayload_def wireOperatorToolCallPayload_ok_def wire)

record wireOperatorCompactionPayload =
  wireOperatorCompactionPayload_BeforeTokens :: go_int
  wireOperatorCompactionPayload_EstimatedAfterTokens :: go_int
  wireOperatorCompactionPayload_ArchiveFile :: string

definition wireOperatorCompactionPayload_json :: "wireOperatorCompactionPayload \<Rightarrow> json" where
  "wireOperatorCompactionPayload_json w =
     JObj (
       member ''before_tokens'' (int_json (wireOperatorCompactionPayload_BeforeTokens w)) @
       member ''estimated_after_tokens'' (int_json (wireOperatorCompactionPayload_EstimatedAfterTokens w)) @
       omit_if (wireOperatorCompactionPayload_ArchiveFile w = '''') ''archive_file'' (JStr (wireOperatorCompactionPayload_ArchiveFile w)))"

definition zero_wireOperatorCompactionPayload :: wireOperatorCompactionPayload where
  "zero_wireOperatorCompactionPayload = \<lparr>
     wireOperatorCompactionPayload_BeforeTokens = 0,
     wireOperatorCompactionPayload_EstimatedAfterTokens = 0,
     wireOperatorCompactionPayload_ArchiveFile = ''''\<rparr>"

definition wireOperatorCompactionPayload_fields :: "wireOperatorCompactionPayload fields" where
  "wireOperatorCompactionPayload_fields =
     [(''before_tokens'', field wireOperatorCompactionPayload_BeforeTokens wireOperatorCompactionPayload_BeforeTokens_update read_int),
      (''estimated_after_tokens'', field wireOperatorCompactionPayload_EstimatedAfterTokens wireOperatorCompactionPayload_EstimatedAfterTokens_update read_int),
      (''archive_file'', field wireOperatorCompactionPayload_ArchiveFile wireOperatorCompactionPayload_ArchiveFile_update read_string)]"

lemma reads_wireOperatorCompactionPayload:
  "reads (read_struct wireOperatorCompactionPayload_fields) wireOperatorCompactionPayload_json
     (\<lambda>w. w) (\<lambda>w. True) zero_wireOperatorCompactionPayload"
  by (rule readsI, rename_tac w, case_tac w)
     (simp add: wireOperatorCompactionPayload_json_def wireOperatorCompactionPayload_fields_def
        zero_wireOperatorCompactionPayload_def wire)

record wireSessionCompactionPayload =
  wireSessionCompactionPayload_SessionID :: string
  wireSessionCompactionPayload_Tier :: go_int
  wireSessionCompactionPayload_BeforeTokens :: go_int
  wireSessionCompactionPayload_EstimatedAfterTokens :: go_int

definition wireSessionCompactionPayload_json :: "wireSessionCompactionPayload \<Rightarrow> json" where
  "wireSessionCompactionPayload_json w =
     JObj (
       member ''session_id'' (JStr (wireSessionCompactionPayload_SessionID w)) @
       member ''tier'' (int_json (wireSessionCompactionPayload_Tier w)) @
       member ''before_tokens'' (int_json (wireSessionCompactionPayload_BeforeTokens w)) @
       member ''estimated_after_tokens'' (int_json (wireSessionCompactionPayload_EstimatedAfterTokens w)))"

definition zero_wireSessionCompactionPayload :: wireSessionCompactionPayload where
  "zero_wireSessionCompactionPayload = \<lparr>
     wireSessionCompactionPayload_SessionID = '''', wireSessionCompactionPayload_Tier = 0,
     wireSessionCompactionPayload_BeforeTokens = 0,
     wireSessionCompactionPayload_EstimatedAfterTokens = 0\<rparr>"

definition wireSessionCompactionPayload_fields :: "wireSessionCompactionPayload fields" where
  "wireSessionCompactionPayload_fields =
     [(''session_id'', field wireSessionCompactionPayload_SessionID wireSessionCompactionPayload_SessionID_update read_string),
      (''tier'', field wireSessionCompactionPayload_Tier wireSessionCompactionPayload_Tier_update read_int),
      (''before_tokens'', field wireSessionCompactionPayload_BeforeTokens wireSessionCompactionPayload_BeforeTokens_update read_int),
      (''estimated_after_tokens'', field wireSessionCompactionPayload_EstimatedAfterTokens wireSessionCompactionPayload_EstimatedAfterTokens_update read_int)]"

lemma reads_wireSessionCompactionPayload:
  "reads (read_struct wireSessionCompactionPayload_fields) wireSessionCompactionPayload_json
     (\<lambda>w. w) (\<lambda>w. True) zero_wireSessionCompactionPayload"
  by (rule readsI, rename_tac w, case_tac w)
     (simp add: wireSessionCompactionPayload_json_def wireSessionCompactionPayload_fields_def
        zero_wireSessionCompactionPayload_def wire)

record wireBlockerPayload =
  wireBlockerPayload_RequestID :: string
  wireBlockerPayload_Source :: string
  wireBlockerPayload_JobID :: string
  wireBlockerPayload_TaskID :: string
  wireBlockerPayload_Questions :: "wirePromptQuestion slice"
  wireBlockerPayload_CreatedAt :: timestamp

definition wireBlockerPayload_json :: "wireBlockerPayload \<Rightarrow> json" where
  "wireBlockerPayload_json w =
     JObj (
       member ''request_id'' (JStr (wireBlockerPayload_RequestID w)) @
       omit_if (wireBlockerPayload_Source w = '''') ''source'' (JStr (wireBlockerPayload_Source w)) @
       omit_if (wireBlockerPayload_JobID w = '''') ''job_id'' (JStr (wireBlockerPayload_JobID w)) @
       omit_if (wireBlockerPayload_TaskID w = '''') ''task_id'' (JStr (wireBlockerPayload_TaskID w)) @
       omit_if (elems (wireBlockerPayload_Questions w) = []) ''questions'' ((slice_json wirePromptQuestion_json) (wireBlockerPayload_Questions w)) @
       member ''created_at'' (time_json (wireBlockerPayload_CreatedAt w)))"

definition zero_wireBlockerPayload :: wireBlockerPayload where
  "zero_wireBlockerPayload = \<lparr>
     wireBlockerPayload_RequestID = '''', wireBlockerPayload_Source = '''',
     wireBlockerPayload_JobID = '''', wireBlockerPayload_TaskID = '''',
     wireBlockerPayload_Questions = None, wireBlockerPayload_CreatedAt = zero_time\<rparr>"

definition wireBlockerPayload_fields :: "wireBlockerPayload fields" where
  "wireBlockerPayload_fields =
     [(''request_id'', field wireBlockerPayload_RequestID wireBlockerPayload_RequestID_update read_string),
      (''source'', field wireBlockerPayload_Source wireBlockerPayload_Source_update read_string),
      (''job_id'', field wireBlockerPayload_JobID wireBlockerPayload_JobID_update read_string),
      (''task_id'', field wireBlockerPayload_TaskID wireBlockerPayload_TaskID_update read_string),
      (''questions'', field wireBlockerPayload_Questions wireBlockerPayload_Questions_update (read_slice (read_struct wirePromptQuestion_fields) zero_wirePromptQuestion)),
      (''created_at'', field wireBlockerPayload_CreatedAt wireBlockerPayload_CreatedAt_update read_time)]"

definition wireBlockerPayload_ok :: "wireBlockerPayload \<Rightarrow> bool" where
  "wireBlockerPayload_ok w \<longleftrightarrow>
     time_ok (wireBlockerPayload_CreatedAt w)"

definition received_wireBlockerPayload :: "wireBlockerPayload \<Rightarrow> wireBlockerPayload" where
  "received_wireBlockerPayload w = w\<lparr>
     wireBlockerPayload_Questions := appended (map received_wirePromptQuestion (elems (wireBlockerPayload_Questions w)))\<rparr>"

lemma reads_wireBlockerPayload:
  "reads (read_struct wireBlockerPayload_fields) wireBlockerPayload_json
     received_wireBlockerPayload wireBlockerPayload_ok zero_wireBlockerPayload"
  by (rule readsI, rename_tac w, case_tac w)
     (simp add: wireBlockerPayload_json_def wireBlockerPayload_fields_def zero_wireBlockerPayload_def
        wireBlockerPayload_ok_def received_wireBlockerPayload_def
        reads_slice [OF reads_wirePromptQuestion] read_omitted_slice [OF reads_wirePromptQuestion]
        wire)

record wireBlockerResolvedPayload =
  wireBlockerResolvedPayload_RequestID :: string
  wireBlockerResolvedPayload_Disposition :: string

definition wireBlockerResolvedPayload_json :: "wireBlockerResolvedPayload \<Rightarrow> json" where
  "wireBlockerResolvedPayload_json w =
     JObj (
       member ''request_id'' (JStr (wireBlockerResolvedPayload_RequestID w)) @
       omit_if (wireBlockerResolvedPayload_Disposition w = '''') ''disposition'' (JStr (wireBlockerResolvedPayload_Disposition w)))"

definition zero_wireBlockerResolvedPayload :: wireBlockerResolvedPayload where
  "zero_wireBlockerResolvedPayload = \<lparr>
     wireBlockerResolvedPayload_RequestID = '''', wireBlockerResolvedPayload_Disposition = ''''\<rparr>"

definition wireBlockerResolvedPayload_fields :: "wireBlockerResolvedPayload fields" where
  "wireBlockerResolvedPayload_fields =
     [(''request_id'', field wireBlockerResolvedPayload_RequestID wireBlockerResolvedPayload_RequestID_update read_string),
      (''disposition'', field wireBlockerResolvedPayload_Disposition wireBlockerResolvedPayload_Disposition_update read_string)]"

lemma reads_wireBlockerResolvedPayload:
  "reads (read_struct wireBlockerResolvedPayload_fields) wireBlockerResolvedPayload_json
     (\<lambda>w. w) (\<lambda>w. True) zero_wireBlockerResolvedPayload"
  by (rule readsI, rename_tac w, case_tac w)
     (simp add: wireBlockerResolvedPayload_json_def wireBlockerResolvedPayload_fields_def
        zero_wireBlockerResolvedPayload_def wire)

record wireJobCreatedPayload =
  wireJobCreatedPayload_JobID :: string
  wireJobCreatedPayload_Title :: string
  wireJobCreatedPayload_Description :: string

definition wireJobCreatedPayload_json :: "wireJobCreatedPayload \<Rightarrow> json" where
  "wireJobCreatedPayload_json w =
     JObj (
       member ''job_id'' (JStr (wireJobCreatedPayload_JobID w)) @
       member ''title'' (JStr (wireJobCreatedPayload_Title w)) @
       member ''description'' (JStr (wireJobCreatedPayload_Description w)))"

definition zero_wireJobCreatedPayload :: wireJobCreatedPayload where
  "zero_wireJobCreatedPayload = \<lparr>
     wireJobCreatedPayload_JobID = '''', wireJobCreatedPayload_Title = '''',
     wireJobCreatedPayload_Description = ''''\<rparr>"

definition wireJobCreatedPayload_fields :: "wireJobCreatedPayload fields" where
  "wireJobCreatedPayload_fields =
     [(''job_id'', field wireJobCreatedPayload_JobID wireJobCreatedPayload_JobID_update read_string),
      (''title'', field wireJobCreatedPayload_Title wireJobCreatedPayload_Title_update read_string),
      (''description'', field wireJobCreatedPayload_Description wireJobCreatedPayload_Description_update read_string)]"

lemma reads_wireJobCreatedPayload:
  "reads (read_struct wireJobCreatedPayload_fields) wireJobCreatedPayload_json
     (\<lambda>w. w) (\<lambda>w. True) zero_wireJobCreatedPayload"
  by (rule readsI, rename_tac w, case_tac w)
     (simp add: wireJobCreatedPayload_json_def wireJobCreatedPayload_fields_def
        zero_wireJobCreatedPayload_def wire)

record wireTaskCreatedPayload =
  wireTaskCreatedPayload_TaskID :: string
  wireTaskCreatedPayload_JobID :: string
  wireTaskCreatedPayload_Title :: string
  wireTaskCreatedPayload_GraphID :: string

definition wireTaskCreatedPayload_json :: "wireTaskCreatedPayload \<Rightarrow> json" where
  "wireTaskCreatedPayload_json w =
     JObj (
       member ''task_id'' (JStr (wireTaskCreatedPayload_TaskID w)) @
       member ''job_id'' (JStr (wireTaskCreatedPayload_JobID w)) @
       member ''title'' (JStr (wireTaskCreatedPayload_Title w)) @
       omit_if (wireTaskCreatedPayload_GraphID w = '''') ''graph_id'' (JStr (wireTaskCreatedPayload_GraphID w)))"

definition zero_wireTaskCreatedPayload :: wireTaskCreatedPayload where
  "zero_wireTaskCreatedPayload = \<lparr>
     wireTaskCreatedPayload_TaskID = '''', wireTaskCreatedPayload_JobID = '''',
     wireTaskCreatedPayload_Title = '''', wireTaskCreatedPayload_GraphID = ''''\<rparr>"

definition wireTaskCreatedPayload_fields :: "wireTaskCreatedPayload fields" where
  "wireTaskCreatedPayload_fields =
     [(''task_id'', field wireTaskCreatedPayload_TaskID wireTaskCreatedPayload_TaskID_update read_string),
      (''job_id'', field wireTaskCreatedPayload_JobID wireTaskCreatedPayload_JobID_update read_string),
      (''title'', field wireTaskCreatedPayload_Title wireTaskCreatedPayload_Title_update read_string),
      (''graph_id'', field wireTaskCreatedPayload_GraphID wireTaskCreatedPayload_GraphID_update read_string)]"

lemma reads_wireTaskCreatedPayload:
  "reads (read_struct wireTaskCreatedPayload_fields) wireTaskCreatedPayload_json
     (\<lambda>w. w) (\<lambda>w. True) zero_wireTaskCreatedPayload"
  by (rule readsI, rename_tac w, case_tac w)
     (simp add: wireTaskCreatedPayload_json_def wireTaskCreatedPayload_fields_def
        zero_wireTaskCreatedPayload_def wire)

record wireTaskAssignedPayload =
  wireTaskAssignedPayload_TaskID :: string
  wireTaskAssignedPayload_JobID :: string
  wireTaskAssignedPayload_GraphID :: string
  wireTaskAssignedPayload_Title :: string

definition wireTaskAssignedPayload_json :: "wireTaskAssignedPayload \<Rightarrow> json" where
  "wireTaskAssignedPayload_json w =
     JObj (
       member ''task_id'' (JStr (wireTaskAssignedPayload_TaskID w)) @
       member ''job_id'' (JStr (wireTaskAssignedPayload_JobID w)) @
       member ''graph_id'' (JStr (wireTaskAssignedPayload_GraphID w)) @
       member ''title'' (JStr (wireTaskAssignedPayload_Title w)))"

definition zero_wireTaskAssignedPayload :: wireTaskAssignedPayload where
  "zero_wireTaskAssignedPayload = \<lparr>
     wireTaskAssignedPayload_TaskID = '''', wireTaskAssignedPayload_JobID = '''',
     wireTaskAssignedPayload_GraphID = '''', wireTaskAssignedPayload_Title = ''''\<rparr>"

definition wireTaskAssignedPayload_fields :: "wireTaskAssignedPayload fields" where
  "wireTaskAssignedPayload_fields =
     [(''task_id'', field wireTaskAssignedPayload_TaskID wireTaskAssignedPayload_TaskID_update read_string),
      (''job_id'', field wireTaskAssignedPayload_JobID wireTaskAssignedPayload_JobID_update read_string),
      (''graph_id'', field wireTaskAssignedPayload_GraphID wireTaskAssignedPayload_GraphID_update read_string),
      (''title'', field wireTaskAssignedPayload_Title wireTaskAssignedPayload_Title_update read_string)]"

lemma reads_wireTaskAssignedPayload:
  "reads (read_struct wireTaskAssignedPayload_fields) wireTaskAssignedPayload_json
     (\<lambda>w. w) (\<lambda>w. True) zero_wireTaskAssignedPayload"
  by (rule readsI, rename_tac w, case_tac w)
     (simp add: wireTaskAssignedPayload_json_def wireTaskAssignedPayload_fields_def
        zero_wireTaskAssignedPayload_def wire)

record wireTaskStartedPayload =
  wireTaskStartedPayload_TaskID :: string
  wireTaskStartedPayload_JobID :: string
  wireTaskStartedPayload_GraphID :: string
  wireTaskStartedPayload_Title :: string

definition wireTaskStartedPayload_json :: "wireTaskStartedPayload \<Rightarrow> json" where
  "wireTaskStartedPayload_json w =
     JObj (
       member ''task_id'' (JStr (wireTaskStartedPayload_TaskID w)) @
       member ''job_id'' (JStr (wireTaskStartedPayload_JobID w)) @
       member ''graph_id'' (JStr (wireTaskStartedPayload_GraphID w)) @
       member ''title'' (JStr (wireTaskStartedPayload_Title w)))"

definition zero_wireTaskStartedPayload :: wireTaskStartedPayload where
  "zero_wireTaskStartedPayload = \<lparr>
     wireTaskStartedPayload_TaskID = '''', wireTaskStartedPayload_JobID = '''',
     wireTaskStartedPayload_GraphID = '''', wireTaskStartedPayload_Title = ''''\<rparr>"

definition wireTaskStartedPayload_fields :: "wireTaskStartedPayload fields" where
  "wireTaskStartedPayload_fields =
     [(''task_id'', field wireTaskStartedPayload_TaskID wireTaskStartedPayload_TaskID_update read_string),
      (''job_id'', field wireTaskStartedPayload_JobID wireTaskStartedPayload_JobID_update read_string),
      (''graph_id'', field wireTaskStartedPayload_GraphID wireTaskStartedPayload_GraphID_update read_string),
      (''title'', field wireTaskStartedPayload_Title wireTaskStartedPayload_Title_update read_string)]"

lemma reads_wireTaskStartedPayload:
  "reads (read_struct wireTaskStartedPayload_fields) wireTaskStartedPayload_json
     (\<lambda>w. w) (\<lambda>w. True) zero_wireTaskStartedPayload"
  by (rule readsI, rename_tac w, case_tac w)
     (simp add: wireTaskStartedPayload_json_def wireTaskStartedPayload_fields_def
        zero_wireTaskStartedPayload_def wire)

record wireTaskCompletedPayload =
  wireTaskCompletedPayload_TaskID :: string
  wireTaskCompletedPayload_JobID :: string
  wireTaskCompletedPayload_GraphID :: string
  wireTaskCompletedPayload_Summary :: string
  wireTaskCompletedPayload_Recommendations :: string
  wireTaskCompletedPayload_HasNextTask :: bool

definition wireTaskCompletedPayload_json :: "wireTaskCompletedPayload \<Rightarrow> json" where
  "wireTaskCompletedPayload_json w =
     JObj (
       member ''task_id'' (JStr (wireTaskCompletedPayload_TaskID w)) @
       member ''job_id'' (JStr (wireTaskCompletedPayload_JobID w)) @
       member ''graph_id'' (JStr (wireTaskCompletedPayload_GraphID w)) @
       member ''summary'' (JStr (wireTaskCompletedPayload_Summary w)) @
       omit_if (wireTaskCompletedPayload_Recommendations w = '''') ''recommendations'' (JStr (wireTaskCompletedPayload_Recommendations w)) @
       member ''has_next_task'' (JBool (wireTaskCompletedPayload_HasNextTask w)))"

definition zero_wireTaskCompletedPayload :: wireTaskCompletedPayload where
  "zero_wireTaskCompletedPayload = \<lparr>
     wireTaskCompletedPayload_TaskID = '''', wireTaskCompletedPayload_JobID = '''',
     wireTaskCompletedPayload_GraphID = '''', wireTaskCompletedPayload_Summary = '''',
     wireTaskCompletedPayload_Recommendations = '''', wireTaskCompletedPayload_HasNextTask = False\<rparr>"

definition wireTaskCompletedPayload_fields :: "wireTaskCompletedPayload fields" where
  "wireTaskCompletedPayload_fields =
     [(''task_id'', field wireTaskCompletedPayload_TaskID wireTaskCompletedPayload_TaskID_update read_string),
      (''job_id'', field wireTaskCompletedPayload_JobID wireTaskCompletedPayload_JobID_update read_string),
      (''graph_id'', field wireTaskCompletedPayload_GraphID wireTaskCompletedPayload_GraphID_update read_string),
      (''summary'', field wireTaskCompletedPayload_Summary wireTaskCompletedPayload_Summary_update read_string),
      (''recommendations'', field wireTaskCompletedPayload_Recommendations wireTaskCompletedPayload_Recommendations_update read_string),
      (''has_next_task'', field wireTaskCompletedPayload_HasNextTask wireTaskCompletedPayload_HasNextTask_update read_bool)]"

lemma reads_wireTaskCompletedPayload:
  "reads (read_struct wireTaskCompletedPayload_fields) wireTaskCompletedPayload_json
     (\<lambda>w. w) (\<lambda>w. True) zero_wireTaskCompletedPayload"
  by (rule readsI, rename_tac w, case_tac w)
     (simp add: wireTaskCompletedPayload_json_def wireTaskCompletedPayload_fields_def
        zero_wireTaskCompletedPayload_def wire)

record wireTaskFailedPayload =
  wireTaskFailedPayload_TaskID :: string
  wireTaskFailedPayload_JobID :: string
  wireTaskFailedPayload_GraphID :: string
  wireTaskFailedPayload_Error :: string

definition wireTaskFailedPayload_json :: "wireTaskFailedPayload \<Rightarrow> json" where
  "wireTaskFailedPayload_json w =
     JObj (
       member ''task_id'' (JStr (wireTaskFailedPayload_TaskID w)) @
       member ''job_id'' (JStr (wireTaskFailedPayload_JobID w)) @
       member ''graph_id'' (JStr (wireTaskFailedPayload_GraphID w)) @
       member ''error'' (JStr (wireTaskFailedPayload_Error w)))"

definition zero_wireTaskFailedPayload :: wireTaskFailedPayload where
  "zero_wireTaskFailedPayload = \<lparr>
     wireTaskFailedPayload_TaskID = '''', wireTaskFailedPayload_JobID = '''',
     wireTaskFailedPayload_GraphID = '''', wireTaskFailedPayload_Error = ''''\<rparr>"

definition wireTaskFailedPayload_fields :: "wireTaskFailedPayload fields" where
  "wireTaskFailedPayload_fields =
     [(''task_id'', field wireTaskFailedPayload_TaskID wireTaskFailedPayload_TaskID_update read_string),
      (''job_id'', field wireTaskFailedPayload_JobID wireTaskFailedPayload_JobID_update read_string),
      (''graph_id'', field wireTaskFailedPayload_GraphID wireTaskFailedPayload_GraphID_update read_string),
      (''error'', field wireTaskFailedPayload_Error wireTaskFailedPayload_Error_update read_string)]"

lemma reads_wireTaskFailedPayload:
  "reads (read_struct wireTaskFailedPayload_fields) wireTaskFailedPayload_json
     (\<lambda>w. w) (\<lambda>w. True) zero_wireTaskFailedPayload"
  by (rule readsI, rename_tac w, case_tac w)
     (simp add: wireTaskFailedPayload_json_def wireTaskFailedPayload_fields_def
        zero_wireTaskFailedPayload_def wire)

record wireJobCompletedPayload =
  wireJobCompletedPayload_JobID :: string
  wireJobCompletedPayload_Title :: string
  wireJobCompletedPayload_Summary :: string
  wireJobCompletedPayload_Status :: string
  wireJobCompletedPayload_Workspace :: string
  wireJobCompletedPayload_StartedAt :: timestamp
  wireJobCompletedPayload_EndedAt :: timestamp
  wireJobCompletedPayload_TasksTotal :: go_int
  wireJobCompletedPayload_TasksCompleted :: go_int
  wireJobCompletedPayload_TasksFailed :: go_int
  wireJobCompletedPayload_TokensIn :: go_int
  wireJobCompletedPayload_TokensOut :: go_int
  wireJobCompletedPayload_CostUSD :: json_float
  wireJobCompletedPayload_FilesTouched :: "wireFileTouch slice"
  wireJobCompletedPayload_FilesTouchedExtra :: go_int

definition wireJobCompletedPayload_json :: "wireJobCompletedPayload \<Rightarrow> json" where
  "wireJobCompletedPayload_json w =
     JObj (
       member ''job_id'' (JStr (wireJobCompletedPayload_JobID w)) @
       member ''title'' (JStr (wireJobCompletedPayload_Title w)) @
       member ''summary'' (JStr (wireJobCompletedPayload_Summary w)) @
       omit_if (wireJobCompletedPayload_Status w = '''') ''status'' (JStr (wireJobCompletedPayload_Status w)) @
       omit_if (wireJobCompletedPayload_Workspace w = '''') ''workspace'' (JStr (wireJobCompletedPayload_Workspace w)) @
       omit_if (False) ''started_at'' (time_json (wireJobCompletedPayload_StartedAt w)) @
       omit_if (False) ''ended_at'' (time_json (wireJobCompletedPayload_EndedAt w)) @
       omit_if (wireJobCompletedPayload_TasksTotal w = 0) ''tasks_total'' (int_json (wireJobCompletedPayload_TasksTotal w)) @
       omit_if (wireJobCompletedPayload_TasksCompleted w = 0) ''tasks_completed'' (int_json (wireJobCompletedPayload_TasksCompleted w)) @
       omit_if (wireJobCompletedPayload_TasksFailed w = 0) ''tasks_failed'' (int_json (wireJobCompletedPayload_TasksFailed w)) @
       omit_if (wireJobCompletedPayload_TokensIn w = 0) ''tokens_in'' (int_json (wireJobCompletedPayload_TokensIn w)) @
       omit_if (wireJobCompletedPayload_TokensOut w = 0) ''tokens_out'' (int_json (wireJobCompletedPayload_TokensOut w)) @
       omit_if (float_is_zero (wireJobCompletedPayload_CostUSD w)) ''cost_usd'' (float_json (wireJobCompletedPayload_CostUSD w)) @
       omit_if (elems (wireJobCompletedPayload_FilesTouched w) = []) ''files_touched'' ((slice_json wireFileTouch_json) (wireJobCompletedPayload_FilesTouched w)) @
       omit_if (wireJobCompletedPayload_FilesTouchedExtra w = 0) ''files_touched_extra'' (int_json (wireJobCompletedPayload_FilesTouchedExtra w)))"

definition zero_wireJobCompletedPayload :: wireJobCompletedPayload where
  "zero_wireJobCompletedPayload = \<lparr>
     wireJobCompletedPayload_JobID = '''', wireJobCompletedPayload_Title = '''',
     wireJobCompletedPayload_Summary = '''', wireJobCompletedPayload_Status = '''',
     wireJobCompletedPayload_Workspace = '''', wireJobCompletedPayload_StartedAt = zero_time,
     wireJobCompletedPayload_EndedAt = zero_time, wireJobCompletedPayload_TasksTotal = 0,
     wireJobCompletedPayload_TasksCompleted = 0, wireJobCompletedPayload_TasksFailed = 0,
     wireJobCompletedPayload_TokensIn = 0, wireJobCompletedPayload_TokensOut = 0,
     wireJobCompletedPayload_CostUSD = zero_float, wireJobCompletedPayload_FilesTouched = None,
     wireJobCompletedPayload_FilesTouchedExtra = 0\<rparr>"

definition wireJobCompletedPayload_fields :: "wireJobCompletedPayload fields" where
  "wireJobCompletedPayload_fields =
     [(''job_id'', field wireJobCompletedPayload_JobID wireJobCompletedPayload_JobID_update read_string),
      (''title'', field wireJobCompletedPayload_Title wireJobCompletedPayload_Title_update read_string),
      (''summary'', field wireJobCompletedPayload_Summary wireJobCompletedPayload_Summary_update read_string),
      (''status'', field wireJobCompletedPayload_Status wireJobCompletedPayload_Status_update read_string),
      (''workspace'', field wireJobCompletedPayload_Workspace wireJobCompletedPayload_Workspace_update read_string),
      (''started_at'', field wireJobCompletedPayload_StartedAt wireJobCompletedPayload_StartedAt_update read_time),
      (''ended_at'', field wireJobCompletedPayload_EndedAt wireJobCompletedPayload_EndedAt_update read_time),
      (''tasks_total'', field wireJobCompletedPayload_TasksTotal wireJobCompletedPayload_TasksTotal_update read_int),
      (''tasks_completed'', field wireJobCompletedPayload_TasksCompleted wireJobCompletedPayload_TasksCompleted_update read_int),
      (''tasks_failed'', field wireJobCompletedPayload_TasksFailed wireJobCompletedPayload_TasksFailed_update read_int),
      (''tokens_in'', field wireJobCompletedPayload_TokensIn wireJobCompletedPayload_TokensIn_update read_int),
      (''tokens_out'', field wireJobCompletedPayload_TokensOut wireJobCompletedPayload_TokensOut_update read_int),
      (''cost_usd'', field wireJobCompletedPayload_CostUSD wireJobCompletedPayload_CostUSD_update read_float),
      (''files_touched'', field wireJobCompletedPayload_FilesTouched wireJobCompletedPayload_FilesTouched_update (read_slice (read_struct wireFileTouch_fields) zero_wireFileTouch)),
      (''files_touched_extra'', field wireJobCompletedPayload_FilesTouchedExtra wireJobCompletedPayload_FilesTouchedExtra_update read_int)]"

definition wireJobCompletedPayload_ok :: "wireJobCompletedPayload \<Rightarrow> bool" where
  "wireJobCompletedPayload_ok w \<longleftrightarrow>
     time_ok (wireJobCompletedPayload_StartedAt w) \<and>
     time_ok (wireJobCompletedPayload_EndedAt w) \<and>
     float_ok (wireJobCompletedPayload_CostUSD w)"

definition received_wireJobCompletedPayload :: "wireJobCompletedPayload \<Rightarrow> wireJobCompletedPayload" where
  "received_wireJobCompletedPayload w = w\<lparr>
     wireJobCompletedPayload_FilesTouched := appended (elems (wireJobCompletedPayload_FilesTouched w))\<rparr>"

lemma reads_wireJobCompletedPayload:
  "reads (read_struct wireJobCompletedPayload_fields) wireJobCompletedPayload_json
     received_wireJobCompletedPayload wireJobCompletedPayload_ok zero_wireJobCompletedPayload"
  by (rule readsI, rename_tac w, case_tac w)
     (simp add: wireJobCompletedPayload_json_def wireJobCompletedPayload_fields_def
        zero_wireJobCompletedPayload_def wireJobCompletedPayload_ok_def
        received_wireJobCompletedPayload_def reads_slice [OF reads_wireFileTouch]
        read_omitted_slice [OF reads_wireFileTouch] wire)

record wireProgressUpdatePayload =
  wireProgressUpdatePayload_State :: wireProgressState

definition wireProgressUpdatePayload_json :: "wireProgressUpdatePayload \<Rightarrow> json" where
  "wireProgressUpdatePayload_json w =
     JObj (
       member ''state'' (wireProgressState_json (wireProgressUpdatePayload_State w)))"

definition zero_wireProgressUpdatePayload :: wireProgressUpdatePayload where
  "zero_wireProgressUpdatePayload = \<lparr>
     wireProgressUpdatePayload_State = zero_wireProgressState\<rparr>"

definition wireProgressUpdatePayload_fields :: "wireProgressUpdatePayload fields" where
  "wireProgressUpdatePayload_fields =
     [(''state'', field wireProgressUpdatePayload_State wireProgressUpdatePayload_State_update (read_struct wireProgressState_fields))]"

definition wireProgressUpdatePayload_ok :: "wireProgressUpdatePayload \<Rightarrow> bool" where
  "wireProgressUpdatePayload_ok w \<longleftrightarrow>
     wireProgressState_ok (wireProgressUpdatePayload_State w)"

definition received_wireProgressUpdatePayload :: "wireProgressUpdatePayload \<Rightarrow> wireProgressUpdatePayload" where
  "received_wireProgressUpdatePayload w = w\<lparr>
     wireProgressUpdatePayload_State := received_wireProgressState (wireProgressUpdatePayload_State w)\<rparr>"

lemma reads_wireProgressUpdatePayload:
  "reads (read_struct wireProgressUpdatePayload_fields) wireProgressUpdatePayload_json
     received_wireProgressUpdatePayload wireProgressUpdatePayload_ok zero_wireProgressUpdatePayload"
  by (rule readsI, rename_tac w, case_tac w)
     (simp add: wireProgressUpdatePayload_json_def wireProgressUpdatePayload_fields_def
        zero_wireProgressUpdatePayload_def wireProgressUpdatePayload_ok_def
        received_wireProgressUpdatePayload_def readsD [OF reads_wireProgressState] wire)

record wireSessionStartedPayload =
  wireSessionStartedPayload_SessionID :: string
  wireSessionStartedPayload_WorkerName :: string
  wireSessionStartedPayload_Task :: string
  wireSessionStartedPayload_JobID :: string
  wireSessionStartedPayload_TaskID :: string
  wireSessionStartedPayload_SystemPrompt :: string
  wireSessionStartedPayload_InitialMessage :: string

definition wireSessionStartedPayload_json :: "wireSessionStartedPayload \<Rightarrow> json" where
  "wireSessionStartedPayload_json w =
     JObj (
       member ''session_id'' (JStr (wireSessionStartedPayload_SessionID w)) @
       member ''worker_name'' (JStr (wireSessionStartedPayload_WorkerName w)) @
       omit_if (wireSessionStartedPayload_Task w = '''') ''task'' (JStr (wireSessionStartedPayload_Task w)) @
       omit_if (wireSessionStartedPayload_JobID w = '''') ''job_id'' (JStr (wireSessionStartedPayload_JobID w)) @
       omit_if (wireSessionStartedPayload_TaskID w = '''') ''task_id'' (JStr (wireSessionStartedPayload_TaskID w)) @
       omit_if (wireSessionStartedPayload_SystemPrompt w = '''') ''system_prompt'' (JStr (wireSessionStartedPayload_SystemPrompt w)) @
       omit_if (wireSessionStartedPayload_InitialMessage w = '''') ''initial_message'' (JStr (wireSessionStartedPayload_InitialMessage w)))"

definition zero_wireSessionStartedPayload :: wireSessionStartedPayload where
  "zero_wireSessionStartedPayload = \<lparr>
     wireSessionStartedPayload_SessionID = '''', wireSessionStartedPayload_WorkerName = '''',
     wireSessionStartedPayload_Task = '''', wireSessionStartedPayload_JobID = '''',
     wireSessionStartedPayload_TaskID = '''', wireSessionStartedPayload_SystemPrompt = '''',
     wireSessionStartedPayload_InitialMessage = ''''\<rparr>"

definition wireSessionStartedPayload_fields :: "wireSessionStartedPayload fields" where
  "wireSessionStartedPayload_fields =
     [(''session_id'', field wireSessionStartedPayload_SessionID wireSessionStartedPayload_SessionID_update read_string),
      (''worker_name'', field wireSessionStartedPayload_WorkerName wireSessionStartedPayload_WorkerName_update read_string),
      (''task'', field wireSessionStartedPayload_Task wireSessionStartedPayload_Task_update read_string),
      (''job_id'', field wireSessionStartedPayload_JobID wireSessionStartedPayload_JobID_update read_string),
      (''task_id'', field wireSessionStartedPayload_TaskID wireSessionStartedPayload_TaskID_update read_string),
      (''system_prompt'', field wireSessionStartedPayload_SystemPrompt wireSessionStartedPayload_SystemPrompt_update read_string),
      (''initial_message'', field wireSessionStartedPayload_InitialMessage wireSessionStartedPayload_InitialMessage_update read_string)]"

lemma reads_wireSessionStartedPayload:
  "reads (read_struct wireSessionStartedPayload_fields) wireSessionStartedPayload_json
     (\<lambda>w. w) (\<lambda>w. True) zero_wireSessionStartedPayload"
  by (rule readsI, rename_tac w, case_tac w)
     (simp add: wireSessionStartedPayload_json_def wireSessionStartedPayload_fields_def
        zero_wireSessionStartedPayload_def wire)

record wireSessionTextPayload =
  wireSessionTextPayload_Text :: string

definition wireSessionTextPayload_json :: "wireSessionTextPayload \<Rightarrow> json" where
  "wireSessionTextPayload_json w =
     JObj (
       member ''text'' (JStr (wireSessionTextPayload_Text w)))"

definition zero_wireSessionTextPayload :: wireSessionTextPayload where
  "zero_wireSessionTextPayload = \<lparr>
     wireSessionTextPayload_Text = ''''\<rparr>"

definition wireSessionTextPayload_fields :: "wireSessionTextPayload fields" where
  "wireSessionTextPayload_fields =
     [(''text'', field wireSessionTextPayload_Text wireSessionTextPayload_Text_update read_string)]"

lemma reads_wireSessionTextPayload:
  "reads (read_struct wireSessionTextPayload_fields) wireSessionTextPayload_json
     (\<lambda>w. w) (\<lambda>w. True) zero_wireSessionTextPayload"
  by (rule readsI, rename_tac w, case_tac w)
     (simp add: wireSessionTextPayload_json_def wireSessionTextPayload_fields_def
        zero_wireSessionTextPayload_def wire)

record wireSessionReasoningPayload =
  wireSessionReasoningPayload_Text :: string

definition wireSessionReasoningPayload_json :: "wireSessionReasoningPayload \<Rightarrow> json" where
  "wireSessionReasoningPayload_json w =
     JObj (
       member ''text'' (JStr (wireSessionReasoningPayload_Text w)))"

definition zero_wireSessionReasoningPayload :: wireSessionReasoningPayload where
  "zero_wireSessionReasoningPayload = \<lparr>
     wireSessionReasoningPayload_Text = ''''\<rparr>"

definition wireSessionReasoningPayload_fields :: "wireSessionReasoningPayload fields" where
  "wireSessionReasoningPayload_fields =
     [(''text'', field wireSessionReasoningPayload_Text wireSessionReasoningPayload_Text_update read_string)]"

lemma reads_wireSessionReasoningPayload:
  "reads (read_struct wireSessionReasoningPayload_fields) wireSessionReasoningPayload_json
     (\<lambda>w. w) (\<lambda>w. True) zero_wireSessionReasoningPayload"
  by (rule readsI, rename_tac w, case_tac w)
     (simp add: wireSessionReasoningPayload_json_def wireSessionReasoningPayload_fields_def
        zero_wireSessionReasoningPayload_def wire)

record wireSessionToolCallPayload =
  wireSessionToolCallPayload_ToolCall :: wireToolCall

definition wireSessionToolCallPayload_json :: "wireSessionToolCallPayload \<Rightarrow> json" where
  "wireSessionToolCallPayload_json w =
     JObj (
       member ''tool_call'' (wireToolCall_json (wireSessionToolCallPayload_ToolCall w)))"

definition zero_wireSessionToolCallPayload :: wireSessionToolCallPayload where
  "zero_wireSessionToolCallPayload = \<lparr>
     wireSessionToolCallPayload_ToolCall = zero_wireToolCall\<rparr>"

definition wireSessionToolCallPayload_fields :: "wireSessionToolCallPayload fields" where
  "wireSessionToolCallPayload_fields =
     [(''tool_call'', field wireSessionToolCallPayload_ToolCall wireSessionToolCallPayload_ToolCall_update (read_struct wireToolCall_fields))]"

definition wireSessionToolCallPayload_ok :: "wireSessionToolCallPayload \<Rightarrow> bool" where
  "wireSessionToolCallPayload_ok w \<longleftrightarrow>
     wireToolCall_ok (wireSessionToolCallPayload_ToolCall w)"

definition received_wireSessionToolCallPayload :: "wireSessionToolCallPayload \<Rightarrow> wireSessionToolCallPayload" where
  "received_wireSessionToolCallPayload w = w\<lparr>
     wireSessionToolCallPayload_ToolCall := received_wireToolCall (wireSessionToolCallPayload_ToolCall w)\<rparr>"

lemma reads_wireSessionToolCallPayload:
  "reads (read_struct wireSessionToolCallPayload_fields) wireSessionToolCallPayload_json
     received_wireSessionToolCallPayload wireSessionToolCallPayload_ok zero_wireSessionToolCallPayload"
  by (rule readsI, rename_tac w, case_tac w)
     (simp add: wireSessionToolCallPayload_json_def wireSessionToolCallPayload_fields_def
        zero_wireSessionToolCallPayload_def wireSessionToolCallPayload_ok_def
        received_wireSessionToolCallPayload_def readsD [OF reads_wireToolCall] wire)

record wireSessionToolResultPayload =
  wireSessionToolResultPayload_Result :: wireToolCallResult

definition wireSessionToolResultPayload_json :: "wireSessionToolResultPayload \<Rightarrow> json" where
  "wireSessionToolResultPayload_json w =
     JObj (
       member ''result'' (wireToolCallResult_json (wireSessionToolResultPayload_Result w)))"

definition zero_wireSessionToolResultPayload :: wireSessionToolResultPayload where
  "zero_wireSessionToolResultPayload = \<lparr>
     wireSessionToolResultPayload_Result = zero_wireToolCallResult\<rparr>"

definition wireSessionToolResultPayload_fields :: "wireSessionToolResultPayload fields" where
  "wireSessionToolResultPayload_fields =
     [(''result'', field wireSessionToolResultPayload_Result wireSessionToolResultPayload_Result_update (read_struct wireToolCallResult_fields))]"

lemma reads_wireSessionToolResultPayload:
  "reads (read_struct wireSessionToolResultPayload_fields) wireSessionToolResultPayload_json
     (\<lambda>w. w) (\<lambda>w. True) zero_wireSessionToolResultPayload"
  by (rule readsI, rename_tac w, case_tac w)
     (simp add: wireSessionToolResultPayload_json_def wireSessionToolResultPayload_fields_def
        zero_wireSessionToolResultPayload_def readsD [OF reads_wireToolCallResult] wire)

record wireSessionFileChangePayload =
  wireSessionFileChangePayload_ToolName :: string
  wireSessionFileChangePayload_Path :: string
  wireSessionFileChangePayload_Diff :: string
  wireSessionFileChangePayload_Added :: go_int
  wireSessionFileChangePayload_Removed :: go_int
  wireSessionFileChangePayload_Created :: bool
  wireSessionFileChangePayload_Truncated :: bool

definition wireSessionFileChangePayload_json :: "wireSessionFileChangePayload \<Rightarrow> json" where
  "wireSessionFileChangePayload_json w =
     JObj (
       member ''tool_name'' (JStr (wireSessionFileChangePayload_ToolName w)) @
       member ''path'' (JStr (wireSessionFileChangePayload_Path w)) @
       member ''diff'' (JStr (wireSessionFileChangePayload_Diff w)) @
       member ''added'' (int_json (wireSessionFileChangePayload_Added w)) @
       member ''removed'' (int_json (wireSessionFileChangePayload_Removed w)) @
       omit_if (\<not> wireSessionFileChangePayload_Created w) ''created'' (JBool (wireSessionFileChangePayload_Created w)) @
       omit_if (\<not> wireSessionFileChangePayload_Truncated w) ''truncated'' (JBool (wireSessionFileChangePayload_Truncated w)))"

definition zero_wireSessionFileChangePayload :: wireSessionFileChangePayload where
  "zero_wireSessionFileChangePayload = \<lparr>
     wireSessionFileChangePayload_ToolName = '''', wireSessionFileChangePayload_Path = '''',
     wireSessionFileChangePayload_Diff = '''', wireSessionFileChangePayload_Added = 0,
     wireSessionFileChangePayload_Removed = 0, wireSessionFileChangePayload_Created = False,
     wireSessionFileChangePayload_Truncated = False\<rparr>"

definition wireSessionFileChangePayload_fields :: "wireSessionFileChangePayload fields" where
  "wireSessionFileChangePayload_fields =
     [(''tool_name'', field wireSessionFileChangePayload_ToolName wireSessionFileChangePayload_ToolName_update read_string),
      (''path'', field wireSessionFileChangePayload_Path wireSessionFileChangePayload_Path_update read_string),
      (''diff'', field wireSessionFileChangePayload_Diff wireSessionFileChangePayload_Diff_update read_string),
      (''added'', field wireSessionFileChangePayload_Added wireSessionFileChangePayload_Added_update read_int),
      (''removed'', field wireSessionFileChangePayload_Removed wireSessionFileChangePayload_Removed_update read_int),
      (''created'', field wireSessionFileChangePayload_Created wireSessionFileChangePayload_Created_update read_bool),
      (''truncated'', field wireSessionFileChangePayload_Truncated wireSessionFileChangePayload_Truncated_update read_bool)]"

lemma reads_wireSessionFileChangePayload:
  "reads (read_struct wireSessionFileChangePayload_fields) wireSessionFileChangePayload_json
     (\<lambda>w. w) (\<lambda>w. True) zero_wireSessionFileChangePayload"
  by (rule readsI, rename_tac w, case_tac w)
     (simp add: wireSessionFileChangePayload_json_def wireSessionFileChangePayload_fields_def
        zero_wireSessionFileChangePayload_def wire)

record wireSessionShellExecPayload =
  wireSessionShellExecPayload_Command :: string
  wireSessionShellExecPayload_ExitCode :: go_int
  wireSessionShellExecPayload_DurationMs :: go_int
  wireSessionShellExecPayload_OutputBytes :: go_int
  wireSessionShellExecPayload_Truncated :: bool
  wireSessionShellExecPayload_TimedOut :: bool

definition wireSessionShellExecPayload_json :: "wireSessionShellExecPayload \<Rightarrow> json" where
  "wireSessionShellExecPayload_json w =
     JObj (
       member ''command'' (JStr (wireSessionShellExecPayload_Command w)) @
       member ''exit_code'' (int_json (wireSessionShellExecPayload_ExitCode w)) @
       member ''duration_ms'' (int_json (wireSessionShellExecPayload_DurationMs w)) @
       member ''output_bytes'' (int_json (wireSessionShellExecPayload_OutputBytes w)) @
       omit_if (\<not> wireSessionShellExecPayload_Truncated w) ''truncated'' (JBool (wireSessionShellExecPayload_Truncated w)) @
       omit_if (\<not> wireSessionShellExecPayload_TimedOut w) ''timed_out'' (JBool (wireSessionShellExecPayload_TimedOut w)))"

definition zero_wireSessionShellExecPayload :: wireSessionShellExecPayload where
  "zero_wireSessionShellExecPayload = \<lparr>
     wireSessionShellExecPayload_Command = '''', wireSessionShellExecPayload_ExitCode = 0,
     wireSessionShellExecPayload_DurationMs = 0, wireSessionShellExecPayload_OutputBytes = 0,
     wireSessionShellExecPayload_Truncated = False, wireSessionShellExecPayload_TimedOut = False\<rparr>"

definition wireSessionShellExecPayload_fields :: "wireSessionShellExecPayload fields" where
  "wireSessionShellExecPayload_fields =
     [(''command'', field wireSessionShellExecPayload_Command wireSessionShellExecPayload_Command_update read_string),
      (''exit_code'', field wireSessionShellExecPayload_ExitCode wireSessionShellExecPayload_ExitCode_update read_int),
      (''duration_ms'', field wireSessionShellExecPayload_DurationMs wireSessionShellExecPayload_DurationMs_update read_int),
      (''output_bytes'', field wireSessionShellExecPayload_OutputBytes wireSessionShellExecPayload_OutputBytes_update read_int),
      (''truncated'', field wireSessionShellExecPayload_Truncated wireSessionShellExecPayload_Truncated_update read_bool),
      (''timed_out'', field wireSessionShellExecPayload_TimedOut wireSessionShellExecPayload_TimedOut_update read_bool)]"

lemma reads_wireSessionShellExecPayload:
  "reads (read_struct wireSessionShellExecPayload_fields) wireSessionShellExecPayload_json
     (\<lambda>w. w) (\<lambda>w. True) zero_wireSessionShellExecPayload"
  by (rule readsI, rename_tac w, case_tac w)
     (simp add: wireSessionShellExecPayload_json_def wireSessionShellExecPayload_fields_def
        zero_wireSessionShellExecPayload_def wire)

record wireSessionWorkerSpawnPayload =
  wireSessionWorkerSpawnPayload_Role :: string
  wireSessionWorkerSpawnPayload_Task :: string
  wireSessionWorkerSpawnPayload_JobID :: string
  wireSessionWorkerSpawnPayload_Depth :: go_int
  wireSessionWorkerSpawnPayload_Failed :: bool
  wireSessionWorkerSpawnPayload_Error :: string

definition wireSessionWorkerSpawnPayload_json :: "wireSessionWorkerSpawnPayload \<Rightarrow> json" where
  "wireSessionWorkerSpawnPayload_json w =
     JObj (
       member ''role'' (JStr (wireSessionWorkerSpawnPayload_Role w)) @
       omit_if (wireSessionWorkerSpawnPayload_Task w = '''') ''task'' (JStr (wireSessionWorkerSpawnPayload_Task w)) @
       omit_if (wireSessionWorkerSpawnPayload_JobID w = '''') ''job_id'' (JStr (wireSessionWorkerSpawnPayload_JobID w)) @
       omit_if (wireSessionWorkerSpawnPayload_Depth w = 0) ''depth'' (int_json (wireSessionWorkerSpawnPayload_Depth w)) @
       omit_if (\<not> wireSessionWorkerSpawnPayload_Failed w) ''failed'' (JBool (wireSessionWorkerSpawnPayload_Failed w)) @
       omit_if (wireSessionWorkerSpawnPayload_Error w = '''') ''error'' (JStr (wireSessionWorkerSpawnPayload_Error w)))"

definition zero_wireSessionWorkerSpawnPayload :: wireSessionWorkerSpawnPayload where
  "zero_wireSessionWorkerSpawnPayload = \<lparr>
     wireSessionWorkerSpawnPayload_Role = '''', wireSessionWorkerSpawnPayload_Task = '''',
     wireSessionWorkerSpawnPayload_JobID = '''', wireSessionWorkerSpawnPayload_Depth = 0,
     wireSessionWorkerSpawnPayload_Failed = False, wireSessionWorkerSpawnPayload_Error = ''''\<rparr>"

definition wireSessionWorkerSpawnPayload_fields :: "wireSessionWorkerSpawnPayload fields" where
  "wireSessionWorkerSpawnPayload_fields =
     [(''role'', field wireSessionWorkerSpawnPayload_Role wireSessionWorkerSpawnPayload_Role_update read_string),
      (''task'', field wireSessionWorkerSpawnPayload_Task wireSessionWorkerSpawnPayload_Task_update read_string),
      (''job_id'', field wireSessionWorkerSpawnPayload_JobID wireSessionWorkerSpawnPayload_JobID_update read_string),
      (''depth'', field wireSessionWorkerSpawnPayload_Depth wireSessionWorkerSpawnPayload_Depth_update read_int),
      (''failed'', field wireSessionWorkerSpawnPayload_Failed wireSessionWorkerSpawnPayload_Failed_update read_bool),
      (''error'', field wireSessionWorkerSpawnPayload_Error wireSessionWorkerSpawnPayload_Error_update read_string)]"

lemma reads_wireSessionWorkerSpawnPayload:
  "reads (read_struct wireSessionWorkerSpawnPayload_fields) wireSessionWorkerSpawnPayload_json
     (\<lambda>w. w) (\<lambda>w. True) zero_wireSessionWorkerSpawnPayload"
  by (rule readsI, rename_tac w, case_tac w)
     (simp add: wireSessionWorkerSpawnPayload_json_def wireSessionWorkerSpawnPayload_fields_def
        zero_wireSessionWorkerSpawnPayload_def wire)

record wireSessionKBPayload =
  wireSessionKBPayload_Scope :: string
  wireSessionKBPayload_Op :: string
  wireSessionKBPayload_Source :: string
  wireSessionKBPayload_Preview :: string

definition wireSessionKBPayload_json :: "wireSessionKBPayload \<Rightarrow> json" where
  "wireSessionKBPayload_json w =
     JObj (
       member ''scope'' (JStr (wireSessionKBPayload_Scope w)) @
       member ''op'' (JStr (wireSessionKBPayload_Op w)) @
       omit_if (wireSessionKBPayload_Source w = '''') ''source'' (JStr (wireSessionKBPayload_Source w)) @
       omit_if (wireSessionKBPayload_Preview w = '''') ''preview'' (JStr (wireSessionKBPayload_Preview w)))"

definition zero_wireSessionKBPayload :: wireSessionKBPayload where
  "zero_wireSessionKBPayload = \<lparr>
     wireSessionKBPayload_Scope = '''', wireSessionKBPayload_Op = '''',
     wireSessionKBPayload_Source = '''', wireSessionKBPayload_Preview = ''''\<rparr>"

definition wireSessionKBPayload_fields :: "wireSessionKBPayload fields" where
  "wireSessionKBPayload_fields =
     [(''scope'', field wireSessionKBPayload_Scope wireSessionKBPayload_Scope_update read_string),
      (''op'', field wireSessionKBPayload_Op wireSessionKBPayload_Op_update read_string),
      (''source'', field wireSessionKBPayload_Source wireSessionKBPayload_Source_update read_string),
      (''preview'', field wireSessionKBPayload_Preview wireSessionKBPayload_Preview_update read_string)]"

lemma reads_wireSessionKBPayload:
  "reads (read_struct wireSessionKBPayload_fields) wireSessionKBPayload_json
     (\<lambda>w. w) (\<lambda>w. True) zero_wireSessionKBPayload"
  by (rule readsI, rename_tac w, case_tac w)
     (simp add: wireSessionKBPayload_json_def wireSessionKBPayload_fields_def
        zero_wireSessionKBPayload_def wire)

record wireSessionDonePayload =
  wireSessionDonePayload_WorkerName :: string
  wireSessionDonePayload_JobID :: string
  wireSessionDonePayload_TaskID :: string
  wireSessionDonePayload_Status :: string
  wireSessionDonePayload_FinalText :: string

definition wireSessionDonePayload_json :: "wireSessionDonePayload \<Rightarrow> json" where
  "wireSessionDonePayload_json w =
     JObj (
       member ''worker_name'' (JStr (wireSessionDonePayload_WorkerName w)) @
       omit_if (wireSessionDonePayload_JobID w = '''') ''job_id'' (JStr (wireSessionDonePayload_JobID w)) @
       omit_if (wireSessionDonePayload_TaskID w = '''') ''task_id'' (JStr (wireSessionDonePayload_TaskID w)) @
       member ''status'' (JStr (wireSessionDonePayload_Status w)) @
       omit_if (wireSessionDonePayload_FinalText w = '''') ''final_text'' (JStr (wireSessionDonePayload_FinalText w)))"

definition zero_wireSessionDonePayload :: wireSessionDonePayload where
  "zero_wireSessionDonePayload = \<lparr>
     wireSessionDonePayload_WorkerName = '''', wireSessionDonePayload_JobID = '''',
     wireSessionDonePayload_TaskID = '''', wireSessionDonePayload_Status = '''',
     wireSessionDonePayload_FinalText = ''''\<rparr>"

definition wireSessionDonePayload_fields :: "wireSessionDonePayload fields" where
  "wireSessionDonePayload_fields =
     [(''worker_name'', field wireSessionDonePayload_WorkerName wireSessionDonePayload_WorkerName_update read_string),
      (''job_id'', field wireSessionDonePayload_JobID wireSessionDonePayload_JobID_update read_string),
      (''task_id'', field wireSessionDonePayload_TaskID wireSessionDonePayload_TaskID_update read_string),
      (''status'', field wireSessionDonePayload_Status wireSessionDonePayload_Status_update read_string),
      (''final_text'', field wireSessionDonePayload_FinalText wireSessionDonePayload_FinalText_update read_string)]"

lemma reads_wireSessionDonePayload:
  "reads (read_struct wireSessionDonePayload_fields) wireSessionDonePayload_json
     (\<lambda>w. w) (\<lambda>w. True) zero_wireSessionDonePayload"
  by (rule readsI, rename_tac w, case_tac w)
     (simp add: wireSessionDonePayload_json_def wireSessionDonePayload_fields_def
        zero_wireSessionDonePayload_def wire)

record wireSessionPromptPayload =
  wireSessionPromptPayload_SessionID :: string
  wireSessionPromptPayload_SystemPrompt :: string
  wireSessionPromptPayload_InitialMessage :: string

definition wireSessionPromptPayload_json :: "wireSessionPromptPayload \<Rightarrow> json" where
  "wireSessionPromptPayload_json w =
     JObj (
       member ''session_id'' (JStr (wireSessionPromptPayload_SessionID w)) @
       omit_if (wireSessionPromptPayload_SystemPrompt w = '''') ''system_prompt'' (JStr (wireSessionPromptPayload_SystemPrompt w)) @
       omit_if (wireSessionPromptPayload_InitialMessage w = '''') ''initial_message'' (JStr (wireSessionPromptPayload_InitialMessage w)))"

definition zero_wireSessionPromptPayload :: wireSessionPromptPayload where
  "zero_wireSessionPromptPayload = \<lparr>
     wireSessionPromptPayload_SessionID = '''', wireSessionPromptPayload_SystemPrompt = '''',
     wireSessionPromptPayload_InitialMessage = ''''\<rparr>"

definition wireSessionPromptPayload_fields :: "wireSessionPromptPayload fields" where
  "wireSessionPromptPayload_fields =
     [(''session_id'', field wireSessionPromptPayload_SessionID wireSessionPromptPayload_SessionID_update read_string),
      (''system_prompt'', field wireSessionPromptPayload_SystemPrompt wireSessionPromptPayload_SystemPrompt_update read_string),
      (''initial_message'', field wireSessionPromptPayload_InitialMessage wireSessionPromptPayload_InitialMessage_update read_string)]"

lemma reads_wireSessionPromptPayload:
  "reads (read_struct wireSessionPromptPayload_fields) wireSessionPromptPayload_json
     (\<lambda>w. w) (\<lambda>w. True) zero_wireSessionPromptPayload"
  by (rule readsI, rename_tac w, case_tac w)
     (simp add: wireSessionPromptPayload_json_def wireSessionPromptPayload_fields_def
        zero_wireSessionPromptPayload_def wire)

record wireSessionMetaPayload =
  wireSessionMetaPayload_SessionID :: string
  wireSessionMetaPayload_Model :: string
  wireSessionMetaPayload_Provider :: string
  wireSessionMetaPayload_Temperature :: json_float
  wireSessionMetaPayload_Thinking :: bool

definition wireSessionMetaPayload_json :: "wireSessionMetaPayload \<Rightarrow> json" where
  "wireSessionMetaPayload_json w =
     JObj (
       member ''session_id'' (JStr (wireSessionMetaPayload_SessionID w)) @
       omit_if (wireSessionMetaPayload_Model w = '''') ''model'' (JStr (wireSessionMetaPayload_Model w)) @
       omit_if (wireSessionMetaPayload_Provider w = '''') ''provider'' (JStr (wireSessionMetaPayload_Provider w)) @
       omit_if (float_is_zero (wireSessionMetaPayload_Temperature w)) ''temperature'' (float_json (wireSessionMetaPayload_Temperature w)) @
       omit_if (\<not> wireSessionMetaPayload_Thinking w) ''thinking'' (JBool (wireSessionMetaPayload_Thinking w)))"

definition zero_wireSessionMetaPayload :: wireSessionMetaPayload where
  "zero_wireSessionMetaPayload = \<lparr>
     wireSessionMetaPayload_SessionID = '''', wireSessionMetaPayload_Model = '''',
     wireSessionMetaPayload_Provider = '''', wireSessionMetaPayload_Temperature = zero_float,
     wireSessionMetaPayload_Thinking = False\<rparr>"

definition wireSessionMetaPayload_fields :: "wireSessionMetaPayload fields" where
  "wireSessionMetaPayload_fields =
     [(''session_id'', field wireSessionMetaPayload_SessionID wireSessionMetaPayload_SessionID_update read_string),
      (''model'', field wireSessionMetaPayload_Model wireSessionMetaPayload_Model_update read_string),
      (''provider'', field wireSessionMetaPayload_Provider wireSessionMetaPayload_Provider_update read_string),
      (''temperature'', field wireSessionMetaPayload_Temperature wireSessionMetaPayload_Temperature_update read_float),
      (''thinking'', field wireSessionMetaPayload_Thinking wireSessionMetaPayload_Thinking_update read_bool)]"

definition wireSessionMetaPayload_ok :: "wireSessionMetaPayload \<Rightarrow> bool" where
  "wireSessionMetaPayload_ok w \<longleftrightarrow>
     float_ok (wireSessionMetaPayload_Temperature w)"

lemma reads_wireSessionMetaPayload:
  "reads (read_struct wireSessionMetaPayload_fields) wireSessionMetaPayload_json
     (\<lambda>w. w) wireSessionMetaPayload_ok zero_wireSessionMetaPayload"
  by (rule readsI, rename_tac w, case_tac w)
     (simp add: wireSessionMetaPayload_json_def wireSessionMetaPayload_fields_def
        zero_wireSessionMetaPayload_def wireSessionMetaPayload_ok_def wire)

record wireSessionContextPayload =
  wireSessionContextPayload_SessionID :: string
  wireSessionContextPayload_ContextTokens :: go_int

definition wireSessionContextPayload_json :: "wireSessionContextPayload \<Rightarrow> json" where
  "wireSessionContextPayload_json w =
     JObj (
       member ''session_id'' (JStr (wireSessionContextPayload_SessionID w)) @
       member ''context_tokens'' (int_json (wireSessionContextPayload_ContextTokens w)))"

definition zero_wireSessionContextPayload :: wireSessionContextPayload where
  "zero_wireSessionContextPayload = \<lparr>
     wireSessionContextPayload_SessionID = '''', wireSessionContextPayload_ContextTokens = 0\<rparr>"

definition wireSessionContextPayload_fields :: "wireSessionContextPayload fields" where
  "wireSessionContextPayload_fields =
     [(''session_id'', field wireSessionContextPayload_SessionID wireSessionContextPayload_SessionID_update read_string),
      (''context_tokens'', field wireSessionContextPayload_ContextTokens wireSessionContextPayload_ContextTokens_update read_int)]"

lemma reads_wireSessionContextPayload:
  "reads (read_struct wireSessionContextPayload_fields) wireSessionContextPayload_json
     (\<lambda>w. w) (\<lambda>w. True) zero_wireSessionContextPayload"
  by (rule readsI, rename_tac w, case_tac w)
     (simp add: wireSessionContextPayload_json_def wireSessionContextPayload_fields_def
        zero_wireSessionContextPayload_def wire)

record wireOperationCompletedPayload =
  wireOperationCompletedPayload_Kind :: string
  wireOperationCompletedPayload_Result :: wireOperationResult

definition wireOperationCompletedPayload_json :: "wireOperationCompletedPayload \<Rightarrow> json" where
  "wireOperationCompletedPayload_json w =
     JObj (
       member ''kind'' (JStr (wireOperationCompletedPayload_Kind w)) @
       member ''result'' (wireOperationResult_json (wireOperationCompletedPayload_Result w)))"

definition zero_wireOperationCompletedPayload :: wireOperationCompletedPayload where
  "zero_wireOperationCompletedPayload = \<lparr>
     wireOperationCompletedPayload_Kind = '''',
     wireOperationCompletedPayload_Result = zero_wireOperationResult\<rparr>"

definition wireOperationCompletedPayload_fields :: "wireOperationCompletedPayload fields" where
  "wireOperationCompletedPayload_fields =
     [(''kind'', field wireOperationCompletedPayload_Kind wireOperationCompletedPayload_Kind_update read_string),
      (''result'', field wireOperationCompletedPayload_Result wireOperationCompletedPayload_Result_update (read_struct wireOperationResult_fields))]"

lemma reads_wireOperationCompletedPayload:
  "reads (read_struct wireOperationCompletedPayload_fields) wireOperationCompletedPayload_json
     (\<lambda>w. w) (\<lambda>w. True) zero_wireOperationCompletedPayload"
  by (rule readsI, rename_tac w, case_tac w)
     (simp add: wireOperationCompletedPayload_json_def wireOperationCompletedPayload_fields_def
        zero_wireOperationCompletedPayload_def readsD [OF reads_wireOperationResult] wire)

record wireOperationFailedPayload =
  wireOperationFailedPayload_Kind :: string
  wireOperationFailedPayload_Error :: string

definition wireOperationFailedPayload_json :: "wireOperationFailedPayload \<Rightarrow> json" where
  "wireOperationFailedPayload_json w =
     JObj (
       member ''kind'' (JStr (wireOperationFailedPayload_Kind w)) @
       member ''error'' (JStr (wireOperationFailedPayload_Error w)))"

definition zero_wireOperationFailedPayload :: wireOperationFailedPayload where
  "zero_wireOperationFailedPayload = \<lparr>
     wireOperationFailedPayload_Kind = '''', wireOperationFailedPayload_Error = ''''\<rparr>"

definition wireOperationFailedPayload_fields :: "wireOperationFailedPayload fields" where
  "wireOperationFailedPayload_fields =
     [(''kind'', field wireOperationFailedPayload_Kind wireOperationFailedPayload_Kind_update read_string),
      (''error'', field wireOperationFailedPayload_Error wireOperationFailedPayload_Error_update read_string)]"

lemma reads_wireOperationFailedPayload:
  "reads (read_struct wireOperationFailedPayload_fields) wireOperationFailedPayload_json
     (\<lambda>w. w) (\<lambda>w. True) zero_wireOperationFailedPayload"
  by (rule readsI, rename_tac w, case_tac w)
     (simp add: wireOperationFailedPayload_json_def wireOperationFailedPayload_fields_def
        zero_wireOperationFailedPayload_def wire)

record wireHeartbeatPayload =
  wireHeartbeatPayload_ServerTime :: timestamp

definition wireHeartbeatPayload_json :: "wireHeartbeatPayload \<Rightarrow> json" where
  "wireHeartbeatPayload_json w =
     JObj (
       member ''server_time'' (time_json (wireHeartbeatPayload_ServerTime w)))"

definition zero_wireHeartbeatPayload :: wireHeartbeatPayload where
  "zero_wireHeartbeatPayload = \<lparr>
     wireHeartbeatPayload_ServerTime = zero_time\<rparr>"

definition wireHeartbeatPayload_fields :: "wireHeartbeatPayload fields" where
  "wireHeartbeatPayload_fields =
     [(''server_time'', field wireHeartbeatPayload_ServerTime wireHeartbeatPayload_ServerTime_update read_time)]"

definition wireHeartbeatPayload_ok :: "wireHeartbeatPayload \<Rightarrow> bool" where
  "wireHeartbeatPayload_ok w \<longleftrightarrow>
     time_ok (wireHeartbeatPayload_ServerTime w)"

lemma reads_wireHeartbeatPayload:
  "reads (read_struct wireHeartbeatPayload_fields) wireHeartbeatPayload_json
     (\<lambda>w. w) wireHeartbeatPayload_ok zero_wireHeartbeatPayload"
  by (rule readsI, rename_tac w, case_tac w)
     (simp add: wireHeartbeatPayload_json_def wireHeartbeatPayload_fields_def
        zero_wireHeartbeatPayload_def wireHeartbeatPayload_ok_def wire)

record wireConnectionLostPayload =
  wireConnectionLostPayload_Error :: string

definition wireConnectionLostPayload_json :: "wireConnectionLostPayload \<Rightarrow> json" where
  "wireConnectionLostPayload_json w =
     JObj (
       member ''error'' (JStr (wireConnectionLostPayload_Error w)))"

definition zero_wireConnectionLostPayload :: wireConnectionLostPayload where
  "zero_wireConnectionLostPayload = \<lparr>
     wireConnectionLostPayload_Error = ''''\<rparr>"

definition wireConnectionLostPayload_fields :: "wireConnectionLostPayload fields" where
  "wireConnectionLostPayload_fields =
     [(''error'', field wireConnectionLostPayload_Error wireConnectionLostPayload_Error_update read_string)]"

lemma reads_wireConnectionLostPayload:
  "reads (read_struct wireConnectionLostPayload_fields) wireConnectionLostPayload_json
     (\<lambda>w. w) (\<lambda>w. True) zero_wireConnectionLostPayload"
  by (rule readsI, rename_tac w, case_tac w)
     (simp add: wireConnectionLostPayload_json_def wireConnectionLostPayload_fields_def
        zero_wireConnectionLostPayload_def wire)

record wireGraphNodeStartedPayload =
  wireGraphNodeStartedPayload_JobID :: string
  wireGraphNodeStartedPayload_TaskID :: string
  wireGraphNodeStartedPayload_Node :: string

definition wireGraphNodeStartedPayload_json :: "wireGraphNodeStartedPayload \<Rightarrow> json" where
  "wireGraphNodeStartedPayload_json w =
     JObj (
       member ''job_id'' (JStr (wireGraphNodeStartedPayload_JobID w)) @
       member ''task_id'' (JStr (wireGraphNodeStartedPayload_TaskID w)) @
       member ''node'' (JStr (wireGraphNodeStartedPayload_Node w)))"

definition zero_wireGraphNodeStartedPayload :: wireGraphNodeStartedPayload where
  "zero_wireGraphNodeStartedPayload = \<lparr>
     wireGraphNodeStartedPayload_JobID = '''', wireGraphNodeStartedPayload_TaskID = '''',
     wireGraphNodeStartedPayload_Node = ''''\<rparr>"

definition wireGraphNodeStartedPayload_fields :: "wireGraphNodeStartedPayload fields" where
  "wireGraphNodeStartedPayload_fields =
     [(''job_id'', field wireGraphNodeStartedPayload_JobID wireGraphNodeStartedPayload_JobID_update read_string),
      (''task_id'', field wireGraphNodeStartedPayload_TaskID wireGraphNodeStartedPayload_TaskID_update read_string),
      (''node'', field wireGraphNodeStartedPayload_Node wireGraphNodeStartedPayload_Node_update read_string)]"

lemma reads_wireGraphNodeStartedPayload:
  "reads (read_struct wireGraphNodeStartedPayload_fields) wireGraphNodeStartedPayload_json
     (\<lambda>w. w) (\<lambda>w. True) zero_wireGraphNodeStartedPayload"
  by (rule readsI, rename_tac w, case_tac w)
     (simp add: wireGraphNodeStartedPayload_json_def wireGraphNodeStartedPayload_fields_def
        zero_wireGraphNodeStartedPayload_def wire)

record wireGraphNodeCompletedPayload =
  wireGraphNodeCompletedPayload_JobID :: string
  wireGraphNodeCompletedPayload_TaskID :: string
  wireGraphNodeCompletedPayload_Node :: string
  wireGraphNodeCompletedPayload_Status :: string

definition wireGraphNodeCompletedPayload_json :: "wireGraphNodeCompletedPayload \<Rightarrow> json" where
  "wireGraphNodeCompletedPayload_json w =
     JObj (
       member ''job_id'' (JStr (wireGraphNodeCompletedPayload_JobID w)) @
       member ''task_id'' (JStr (wireGraphNodeCompletedPayload_TaskID w)) @
       member ''node'' (JStr (wireGraphNodeCompletedPayload_Node w)) @
       member ''status'' (JStr (wireGraphNodeCompletedPayload_Status w)))"

definition zero_wireGraphNodeCompletedPayload :: wireGraphNodeCompletedPayload where
  "zero_wireGraphNodeCompletedPayload = \<lparr>
     wireGraphNodeCompletedPayload_JobID = '''', wireGraphNodeCompletedPayload_TaskID = '''',
     wireGraphNodeCompletedPayload_Node = '''', wireGraphNodeCompletedPayload_Status = ''''\<rparr>"

definition wireGraphNodeCompletedPayload_fields :: "wireGraphNodeCompletedPayload fields" where
  "wireGraphNodeCompletedPayload_fields =
     [(''job_id'', field wireGraphNodeCompletedPayload_JobID wireGraphNodeCompletedPayload_JobID_update read_string),
      (''task_id'', field wireGraphNodeCompletedPayload_TaskID wireGraphNodeCompletedPayload_TaskID_update read_string),
      (''node'', field wireGraphNodeCompletedPayload_Node wireGraphNodeCompletedPayload_Node_update read_string),
      (''status'', field wireGraphNodeCompletedPayload_Status wireGraphNodeCompletedPayload_Status_update read_string)]"

lemma reads_wireGraphNodeCompletedPayload:
  "reads (read_struct wireGraphNodeCompletedPayload_fields) wireGraphNodeCompletedPayload_json
     (\<lambda>w. w) (\<lambda>w. True) zero_wireGraphNodeCompletedPayload"
  by (rule readsI, rename_tac w, case_tac w)
     (simp add: wireGraphNodeCompletedPayload_json_def wireGraphNodeCompletedPayload_fields_def
        zero_wireGraphNodeCompletedPayload_def wire)

record wireGraphCompletedPayload =
  wireGraphCompletedPayload_JobID :: string
  wireGraphCompletedPayload_TaskID :: string
  wireGraphCompletedPayload_Summary :: string

definition wireGraphCompletedPayload_json :: "wireGraphCompletedPayload \<Rightarrow> json" where
  "wireGraphCompletedPayload_json w =
     JObj (
       member ''job_id'' (JStr (wireGraphCompletedPayload_JobID w)) @
       member ''task_id'' (JStr (wireGraphCompletedPayload_TaskID w)) @
       member ''summary'' (JStr (wireGraphCompletedPayload_Summary w)))"

definition zero_wireGraphCompletedPayload :: wireGraphCompletedPayload where
  "zero_wireGraphCompletedPayload = \<lparr>
     wireGraphCompletedPayload_JobID = '''', wireGraphCompletedPayload_TaskID = '''',
     wireGraphCompletedPayload_Summary = ''''\<rparr>"

definition wireGraphCompletedPayload_fields :: "wireGraphCompletedPayload fields" where
  "wireGraphCompletedPayload_fields =
     [(''job_id'', field wireGraphCompletedPayload_JobID wireGraphCompletedPayload_JobID_update read_string),
      (''task_id'', field wireGraphCompletedPayload_TaskID wireGraphCompletedPayload_TaskID_update read_string),
      (''summary'', field wireGraphCompletedPayload_Summary wireGraphCompletedPayload_Summary_update read_string)]"

lemma reads_wireGraphCompletedPayload:
  "reads (read_struct wireGraphCompletedPayload_fields) wireGraphCompletedPayload_json
     (\<lambda>w. w) (\<lambda>w. True) zero_wireGraphCompletedPayload"
  by (rule readsI, rename_tac w, case_tac w)
     (simp add: wireGraphCompletedPayload_json_def wireGraphCompletedPayload_fields_def
        zero_wireGraphCompletedPayload_def wire)

record wireGraphFailedPayload =
  wireGraphFailedPayload_JobID :: string
  wireGraphFailedPayload_TaskID :: string
  wireGraphFailedPayload_Error :: string

definition wireGraphFailedPayload_json :: "wireGraphFailedPayload \<Rightarrow> json" where
  "wireGraphFailedPayload_json w =
     JObj (
       member ''job_id'' (JStr (wireGraphFailedPayload_JobID w)) @
       member ''task_id'' (JStr (wireGraphFailedPayload_TaskID w)) @
       member ''error'' (JStr (wireGraphFailedPayload_Error w)))"

definition zero_wireGraphFailedPayload :: wireGraphFailedPayload where
  "zero_wireGraphFailedPayload = \<lparr>
     wireGraphFailedPayload_JobID = '''', wireGraphFailedPayload_TaskID = '''',
     wireGraphFailedPayload_Error = ''''\<rparr>"

definition wireGraphFailedPayload_fields :: "wireGraphFailedPayload fields" where
  "wireGraphFailedPayload_fields =
     [(''job_id'', field wireGraphFailedPayload_JobID wireGraphFailedPayload_JobID_update read_string),
      (''task_id'', field wireGraphFailedPayload_TaskID wireGraphFailedPayload_TaskID_update read_string),
      (''error'', field wireGraphFailedPayload_Error wireGraphFailedPayload_Error_update read_string)]"

lemma reads_wireGraphFailedPayload:
  "reads (read_struct wireGraphFailedPayload_fields) wireGraphFailedPayload_json
     (\<lambda>w. w) (\<lambda>w. True) zero_wireGraphFailedPayload"
  by (rule readsI, rename_tac w, case_tac w)
     (simp add: wireGraphFailedPayload_json_def wireGraphFailedPayload_fields_def
        zero_wireGraphFailedPayload_def wire)

end
