(* ===== verification/ServiceTypes.thy ===== *)
theory ServiceTypes
  imports WireCodec
begin

text \<open>
  The data transfer objects of \<open>internal/service\<close>: its entities (\<open>types.go\<close>) and the payloads of its
  events (\<open>events.go\<close>). The named string types (\<open>JobStatus\<close> and its like) are strings.
\<close>

record FileTouch =
  FileTouch_Path :: string
  FileTouch_Size :: go_int
  FileTouch_IsNew :: bool

record Job =
  Job_ID :: string
  Job_Title :: string
  Job_Description :: string
  Job_Type :: string
  Job_Status :: string
  Job_WorkspaceDir :: string
  Job_CreatedAt :: timestamp
  Job_UpdatedAt :: timestamp
  Job_Metadata :: raw

record Task =
  Task_ID :: string
  Task_JobID :: string
  Task_Title :: string
  Task_Status :: string
  Task_WorkerID :: string
  Task_GraphID :: string
  Task_ParentID :: string
  Task_SortOrder :: go_int
  Task_CreatedAt :: timestamp
  Task_UpdatedAt :: timestamp
  Task_Summary :: string
  Task_ResultSummary :: string
  Task_Recommendations :: string
  Task_Metadata :: raw

record ProgressReport =
  ProgressReport_ID :: go_int
  ProgressReport_JobID :: string
  ProgressReport_TaskID :: string
  ProgressReport_WorkerID :: string
  ProgressReport_Status :: string
  ProgressReport_Message :: string
  ProgressReport_CreatedAt :: timestamp

record JobDetail =
  JobDetail_Job :: Job
  JobDetail_Tasks :: "Task slice"
  JobDetail_Progress :: "ProgressReport slice"

record WorkerSession =
  WorkerSession_ID :: string
  WorkerSession_WorkerID :: string
  WorkerSession_JobID :: string
  WorkerSession_TaskID :: string
  WorkerSession_Status :: string
  WorkerSession_Model :: string
  WorkerSession_Provider :: string
  WorkerSession_TokensIn :: go_int
  WorkerSession_TokensOut :: go_int
  WorkerSession_StartedAt :: timestamp
  WorkerSession_EndedAt :: "timestamp option"
  WorkerSession_CostUSD :: "json_float option"

record SessionSnapshot =
  SessionSnapshot_ID :: string
  SessionSnapshot_WorkerID :: string
  SessionSnapshot_JobID :: string
  SessionSnapshot_TaskID :: string
  SessionSnapshot_Status :: string
  SessionSnapshot_Model :: string
  SessionSnapshot_Provider :: string
  SessionSnapshot_StartTime :: timestamp
  SessionSnapshot_TokensIn :: go_int
  SessionSnapshot_TokensOut :: go_int
  SessionSnapshot_CurrentContextTokens :: go_int
  SessionSnapshot_ContextWindow :: go_int
  SessionSnapshot_Compactions :: go_int

record GraphNodeSnapshot =
  GraphNodeSnapshot_SessionID :: string
  GraphNodeSnapshot_JobID :: string
  GraphNodeSnapshot_TaskID :: string
  GraphNodeSnapshot_Node :: string
  GraphNodeSnapshot_StartedAt :: timestamp

record ActivityItem =
  ActivityItem_Label :: string
  ActivityItem_ToolName :: string

record SessionDetail =
  SessionDetail_Snapshot :: SessionSnapshot
  SessionDetail_SystemPrompt :: string
  SessionDetail_InitialMessage :: string
  SessionDetail_Output :: string
  SessionDetail_Activities :: "ActivityItem slice"
  SessionDetail_WorkerName :: string
  SessionDetail_Task :: string

record FeedEntry =
  FeedEntry_ID :: go_int
  FeedEntry_JobID :: string
  FeedEntry_EntryType :: string
  FeedEntry_Content :: string
  FeedEntry_Metadata :: raw
  FeedEntry_CreatedAt :: timestamp

record Skill =
  Skill_ID :: string
  Skill_Name :: string
  Skill_Description :: string
  Skill_Tools :: "string slice"
  Skill_Prompt :: string
  Skill_Source :: string
  Skill_SourcePath :: string
  Skill_CreatedAt :: timestamp
  Skill_UpdatedAt :: timestamp

record GraphEdge =
  GraphEdge_From :: string
  GraphEdge_To :: string
  GraphEdge_Kind :: string
  GraphEdge_Label :: string

record GraphDefinition =
  GraphDefinition_ID :: string
  GraphDefinition_Name :: string
  GraphDefinition_Description :: string
  GraphDefinition_Tags :: "string slice"
  GraphDefinition_Entry :: string
  GraphDefinition_Exit :: string
  GraphDefinition_Nodes :: "string slice"
  GraphDefinition_Edges :: "GraphEdge slice"

record JobSnapshot =
  JobSnapshot_JobID :: string
  JobSnapshot_Title :: string
  JobSnapshot_Status :: string
  JobSnapshot_TasksCompleted :: go_int
  JobSnapshot_TasksTotal :: go_int
  JobSnapshot_TasksFailed :: go_int
  JobSnapshot_CreatedAt :: timestamp
  JobSnapshot_UpdatedAt :: timestamp

record JobResultSnapshot =
  JobResultSnapshot_JobID :: string
  JobResultSnapshot_Title :: string
  JobResultSnapshot_Summary :: string
  JobResultSnapshot_Status :: string
  JobResultSnapshot_Workspace :: string
  JobResultSnapshot_StartedAt :: timestamp
  JobResultSnapshot_EndedAt :: timestamp
  JobResultSnapshot_TasksTotal :: go_int
  JobResultSnapshot_TasksCompleted :: go_int
  JobResultSnapshot_TasksFailed :: go_int
  JobResultSnapshot_TokensIn :: go_int
  JobResultSnapshot_TokensOut :: go_int
  JobResultSnapshot_CostUSD :: json_float
  JobResultSnapshot_FilesTouched :: "FileTouch slice"
  JobResultSnapshot_FilesTouchedExtra :: go_int

record WorkerStreamItem =
  WorkerStreamItem_Kind :: go_int
  WorkerStreamItem_Text :: string
  WorkerStreamItem_ToolID :: string
  WorkerStreamItem_ToolName :: string
  WorkerStreamItem_ToolArgs :: raw
  WorkerStreamItem_ToolResult :: string
  WorkerStreamItem_ToolError :: bool
  WorkerStreamItem_StartedAt :: timestamp
  WorkerStreamItem_EndedAt :: timestamp
  WorkerStreamItem_FileDiff :: string
  WorkerStreamItem_DiffAdded :: go_int
  WorkerStreamItem_DiffRemoved :: go_int
  WorkerStreamItem_DiffCreated :: bool
  WorkerStreamItem_DiffTruncated :: bool
  WorkerStreamItem_HasShellExec :: bool
  WorkerStreamItem_ShellExitCode :: go_int
  WorkerStreamItem_ShellDurationMs :: go_int
  WorkerStreamItem_ShellOutputBytes :: go_int
  WorkerStreamItem_ShellTruncated :: bool
  WorkerStreamItem_ShellTimedOut :: bool
  WorkerStreamItem_HasWorkerSpawn :: bool
  WorkerStreamItem_SpawnRole :: string
  WorkerStreamItem_SpawnTask :: string
  WorkerStreamItem_SpawnJobID :: string
  WorkerStreamItem_SpawnDepth :: go_int
  WorkerStreamItem_SpawnFailed :: bool
  WorkerStreamItem_SpawnError :: string

record WorkerStreamSnapshot =
  WorkerStreamSnapshot_WorkerName :: string
  WorkerStreamSnapshot_JobID :: string
  WorkerStreamSnapshot_TaskID :: string
  WorkerStreamSnapshot_SessionID :: string
  WorkerStreamSnapshot_Items :: "WorkerStreamItem slice"
  WorkerStreamSnapshot_StartedAt :: timestamp
  WorkerStreamSnapshot_LastActivity :: timestamp
  WorkerStreamSnapshot_Done :: bool

record ToolCall =
  ToolCall_ID :: string
  ToolCall_Name :: string
  ToolCall_Arguments :: raw

record ToolCallResult =
  ToolCallResult_CallID :: string
  ToolCallResult_Name :: string
  ToolCallResult_Result :: string
  ToolCallResult_Error :: string

record ChatMessage =
  ChatMessage_Role :: string
  ChatMessage_Content :: string
  ChatMessage_ToolCalls :: "ToolCall slice"
  ChatMessage_ToolCallID :: string

record ChatEntry =
  ChatEntry_Message :: ChatMessage
  ChatEntry_Timestamp :: timestamp
  ChatEntry_Reasoning :: string
  ChatEntry_ClaudeMeta :: string
  ChatEntry_Kind :: string
  ChatEntry_JobUpdate :: "JobSnapshot option"
  ChatEntry_JobResult :: "JobResultSnapshot option"
  ChatEntry_WorkerStream :: "WorkerStreamSnapshot option"

record MCPToolInfo =
  MCPToolInfo_NamespacedName :: string
  MCPToolInfo_OriginalName :: string
  MCPToolInfo_ServerName :: string
  MCPToolInfo_Description :: string
  MCPToolInfo_InputSchema :: raw

record MCPServerStatus =
  MCPServerStatus_Name :: string
  MCPServerStatus_Transport :: string
  MCPServerStatus_State :: string
  MCPServerStatus_Error :: string
  MCPServerStatus_ToolCount :: go_int
  MCPServerStatus_Tools :: "MCPToolInfo slice"

record ModelInfo =
  ModelInfo_ID :: string
  ModelInfo_Name :: string
  ModelInfo_Provider :: string
  ModelInfo_State :: string
  ModelInfo_MaxContextLength :: go_int
  ModelInfo_LoadedContextLength :: go_int

record CatalogModel =
  CatalogModel_ID :: string
  CatalogModel_Name :: string
  CatalogModel_Family :: string
  CatalogModel_ToolCall :: bool
  CatalogModel_Reasoning :: bool
  CatalogModel_StructuredOutput :: bool
  CatalogModel_OpenWeights :: bool
  CatalogModel_ContextLimit :: go_int
  CatalogModel_OutputLimit :: go_int
  CatalogModel_InputCost :: json_float
  CatalogModel_OutputCost :: json_float

record CatalogProvider =
  CatalogProvider_ID :: string
  CatalogProvider_Name :: string
  CatalogProvider_API :: string
  CatalogProvider_Doc :: string
  CatalogProvider_Env :: "string slice"
  CatalogProvider_Models :: "CatalogModel slice"

record AddProviderRequest =
  AddProviderRequest_ID :: string
  AddProviderRequest_Name :: string
  AddProviderRequest_Type :: string
  AddProviderRequest_Endpoint :: string
  AddProviderRequest_APIKey :: string

record ProgressState =
  ProgressState_Jobs :: "Job slice"
  ProgressState_Tasks :: "(Task slice) dict"
  ProgressState_Reports :: "(ProgressReport slice) dict"
  ProgressState_ActiveSessions :: "WorkerSession slice"
  ProgressState_LiveSnapshots :: "SessionSnapshot slice"
  ProgressState_ActiveGraphNodes :: "GraphNodeSnapshot slice"
  ProgressState_FeedEntries :: "FeedEntry slice"
  ProgressState_MCPServers :: "MCPServerStatus slice"

record NodeMetric =
  NodeMetric_Node :: string
  NodeMetric_Runs :: go_int
  NodeMetric_Failures :: go_int
  NodeMetric_FailureRate :: json_float
  NodeMetric_AvgElapsedMS :: json_float
  NodeMetric_MinElapsedMS :: go_int
  NodeMetric_MaxElapsedMS :: go_int

record SessionMetric =
  SessionMetric_WorkerID :: string
  SessionMetric_Sessions :: go_int
  SessionMetric_Failures :: go_int
  SessionMetric_FailureRate :: json_float
  SessionMetric_AvgDurationSeconds :: json_float
  SessionMetric_AvgTokensIn :: json_float
  SessionMetric_AvgTokensOut :: json_float
  SessionMetric_UsageUnavailable :: go_int
  SessionMetric_AvgContextPercent :: json_float

record MetricsReport =
  MetricsReport_Nodes :: "NodeMetric slice"
  MetricsReport_Sessions :: "SessionMetric slice"

record OperationResult =
  OperationResult_OperationID :: string
  OperationResult_Content :: string
  OperationResult_Error :: string

record NoteMeta =
  NoteMeta_ID :: string
  NoteMeta_Title :: string
  NoteMeta_Source :: string
  NoteMeta_ModTime :: timestamp
  NoteMeta_Size :: go_int

record PromptQuestion =
  PromptQuestion_Question :: string
  PromptQuestion_Options :: "string slice"

record OperatorTextPayload =
  OperatorTextPayload_Text :: string
  OperatorTextPayload_Reasoning :: string

record OperatorToolCallPayload =
  OperatorToolCallPayload_Name :: string
  OperatorToolCallPayload_Args :: raw
  OperatorToolCallPayload_Result :: string
  OperatorToolCallPayload_IsError :: bool

record OperatorDonePayload =
  OperatorDonePayload_ModelName :: string
  OperatorDonePayload_TokensIn :: go_int
  OperatorDonePayload_TokensOut :: go_int
  OperatorDonePayload_ReasoningTokens :: go_int
  OperatorDonePayload_ContextTokens :: go_int

record OperatorCompactionPayload =
  OperatorCompactionPayload_BeforeTokens :: go_int
  OperatorCompactionPayload_EstimatedAfterTokens :: go_int
  OperatorCompactionPayload_ArchiveFile :: string

record SessionCompactionPayload =
  SessionCompactionPayload_SessionID :: string
  SessionCompactionPayload_Tier :: go_int
  SessionCompactionPayload_BeforeTokens :: go_int
  SessionCompactionPayload_EstimatedAfterTokens :: go_int

record Blocker =
  Blocker_RequestID :: string
  Blocker_Source :: string
  Blocker_JobID :: string
  Blocker_TaskID :: string
  Blocker_Questions :: "PromptQuestion slice"
  Blocker_CreatedAt :: timestamp

record BlockerResolvedPayload =
  BlockerResolvedPayload_RequestID :: string
  BlockerResolvedPayload_Disposition :: string

record JobCreatedPayload =
  JobCreatedPayload_JobID :: string
  JobCreatedPayload_Title :: string
  JobCreatedPayload_Description :: string

record TaskCreatedPayload =
  TaskCreatedPayload_TaskID :: string
  TaskCreatedPayload_JobID :: string
  TaskCreatedPayload_Title :: string
  TaskCreatedPayload_GraphID :: string

record TaskAssignedPayload =
  TaskAssignedPayload_TaskID :: string
  TaskAssignedPayload_JobID :: string
  TaskAssignedPayload_GraphID :: string
  TaskAssignedPayload_Title :: string

record TaskStartedPayload =
  TaskStartedPayload_TaskID :: string
  TaskStartedPayload_JobID :: string
  TaskStartedPayload_GraphID :: string
  TaskStartedPayload_Title :: string

record TaskCompletedPayload =
  TaskCompletedPayload_TaskID :: string
  TaskCompletedPayload_JobID :: string
  TaskCompletedPayload_GraphID :: string
  TaskCompletedPayload_Summary :: string
  TaskCompletedPayload_Recommendations :: string
  TaskCompletedPayload_HasNextTask :: bool

record TaskFailedPayload =
  TaskFailedPayload_TaskID :: string
  TaskFailedPayload_JobID :: string
  TaskFailedPayload_GraphID :: string
  TaskFailedPayload_Error :: string

record JobCompletedPayload =
  JobCompletedPayload_JobID :: string
  JobCompletedPayload_Title :: string
  JobCompletedPayload_Summary :: string
  JobCompletedPayload_Status :: string
  JobCompletedPayload_Workspace :: string
  JobCompletedPayload_StartedAt :: timestamp
  JobCompletedPayload_EndedAt :: timestamp
  JobCompletedPayload_TasksTotal :: go_int
  JobCompletedPayload_TasksCompleted :: go_int
  JobCompletedPayload_TasksFailed :: go_int
  JobCompletedPayload_TokensIn :: go_int
  JobCompletedPayload_TokensOut :: go_int
  JobCompletedPayload_CostUSD :: json_float
  JobCompletedPayload_FilesTouched :: "FileTouch slice"
  JobCompletedPayload_FilesTouchedExtra :: go_int

record ProgressUpdatePayload =
  ProgressUpdatePayload_State :: ProgressState

record SessionStartedPayload =
  SessionStartedPayload_SessionID :: string
  SessionStartedPayload_WorkerName :: string
  SessionStartedPayload_Task :: string
  SessionStartedPayload_JobID :: string
  SessionStartedPayload_TaskID :: string
  SessionStartedPayload_SystemPrompt :: string
  SessionStartedPayload_InitialMessage :: string

record SessionTextPayload =
  SessionTextPayload_Text :: string

record SessionReasoningPayload =
  SessionReasoningPayload_Text :: string

record SessionToolCallPayload =
  SessionToolCallPayload_ToolCall :: ToolCall

record SessionToolResultPayload =
  SessionToolResultPayload_Result :: ToolCallResult

record SessionFileChangePayload =
  SessionFileChangePayload_ToolName :: string
  SessionFileChangePayload_Path :: string
  SessionFileChangePayload_Diff :: string
  SessionFileChangePayload_Added :: go_int
  SessionFileChangePayload_Removed :: go_int
  SessionFileChangePayload_Created :: bool
  SessionFileChangePayload_Truncated :: bool

record SessionShellExecPayload =
  SessionShellExecPayload_Command :: string
  SessionShellExecPayload_ExitCode :: go_int
  SessionShellExecPayload_DurationMs :: go_int
  SessionShellExecPayload_OutputBytes :: go_int
  SessionShellExecPayload_Truncated :: bool
  SessionShellExecPayload_TimedOut :: bool

record SessionWorkerSpawnPayload =
  SessionWorkerSpawnPayload_Role :: string
  SessionWorkerSpawnPayload_Task :: string
  SessionWorkerSpawnPayload_JobID :: string
  SessionWorkerSpawnPayload_Depth :: go_int
  SessionWorkerSpawnPayload_Failed :: bool
  SessionWorkerSpawnPayload_Error :: string

record SessionKBPayload =
  SessionKBPayload_Scope :: string
  SessionKBPayload_Op :: string
  SessionKBPayload_Source :: string
  SessionKBPayload_Preview :: string

record SessionDonePayload =
  SessionDonePayload_WorkerName :: string
  SessionDonePayload_JobID :: string
  SessionDonePayload_TaskID :: string
  SessionDonePayload_Status :: string
  SessionDonePayload_FinalText :: string

record SessionMetaPayload =
  SessionMetaPayload_SessionID :: string
  SessionMetaPayload_Model :: string
  SessionMetaPayload_Provider :: string
  SessionMetaPayload_Temperature :: json_float
  SessionMetaPayload_Thinking :: bool

record SessionContextPayload =
  SessionContextPayload_SessionID :: string
  SessionContextPayload_ContextTokens :: go_int

record SessionPromptPayload =
  SessionPromptPayload_SessionID :: string
  SessionPromptPayload_SystemPrompt :: string
  SessionPromptPayload_InitialMessage :: string

record OperationCompletedPayload =
  OperationCompletedPayload_Kind :: string
  OperationCompletedPayload_Result :: OperationResult

record OperationFailedPayload =
  OperationFailedPayload_Kind :: string
  OperationFailedPayload_Error :: string

record HeartbeatPayload =
  HeartbeatPayload_ServerTime :: timestamp

record ConnectionLostPayload =
  ConnectionLostPayload_Error :: string

record GraphNodeStartedPayload =
  GraphNodeStartedPayload_JobID :: string
  GraphNodeStartedPayload_TaskID :: string
  GraphNodeStartedPayload_Node :: string

record GraphNodeCompletedPayload =
  GraphNodeCompletedPayload_JobID :: string
  GraphNodeCompletedPayload_TaskID :: string
  GraphNodeCompletedPayload_Node :: string
  GraphNodeCompletedPayload_Status :: string

record GraphCompletedPayload =
  GraphCompletedPayload_JobID :: string
  GraphCompletedPayload_TaskID :: string
  GraphCompletedPayload_Summary :: string

record GraphFailedPayload =
  GraphFailedPayload_JobID :: string
  GraphFailedPayload_TaskID :: string
  GraphFailedPayload_Error :: string

end
