(* ===== verification/WireEntities.thy ===== *)
theory WireEntities
  imports WireTypes ServiceTypes
begin

text \<open>
  The entities between the service and the wire: the \<open>...ToWire\<close> functions of
  \<open>internal/server/types.go\<close>, the \<open>wire...ToService\<close> functions of \<open>internal/client/types.go\<close>, and what
  the client's caller sees of an entity the server sent.
\<close>

definition jobToWire :: "Job \<Rightarrow> wireJob" where
  "jobToWire j = \<lparr>
     wireJob_ID = Job_ID j, wireJob_Title = Job_Title j, wireJob_Description = Job_Description j,
     wireJob_Type = Job_Type j, wireJob_Status = Job_Status j,
     wireJob_CreatedAt = Job_CreatedAt j, wireJob_UpdatedAt = Job_UpdatedAt j,
     wireJob_Metadata = Job_Metadata j\<rparr>"

definition wireJobToService :: "wireJob \<Rightarrow> Job" where
  "wireJobToService w = \<lparr>
     Job_ID = wireJob_ID w, Job_Title = wireJob_Title w, Job_Description = wireJob_Description w,
     Job_Type = wireJob_Type w, Job_Status = wireJob_Status w, Job_WorkspaceDir = '''',
     Job_CreatedAt = wireJob_CreatedAt w, Job_UpdatedAt = wireJob_UpdatedAt w,
     Job_Metadata = wireJob_Metadata w\<rparr>"

definition taskToWire :: "Task \<Rightarrow> wireTask" where
  "taskToWire t = \<lparr>
     wireTask_ID = Task_ID t, wireTask_JobID = Task_JobID t, wireTask_Title = Task_Title t,
     wireTask_Status = Task_Status t, wireTask_WorkerID = Task_WorkerID t,
     wireTask_GraphID = Task_GraphID t, wireTask_ParentID = Task_ParentID t,
     wireTask_SortOrder = Task_SortOrder t, wireTask_CreatedAt = Task_CreatedAt t,
     wireTask_UpdatedAt = Task_UpdatedAt t, wireTask_Summary = Task_Summary t,
     wireTask_ResultSummary = Task_ResultSummary t,
     wireTask_Recommendations = Task_Recommendations t, wireTask_Metadata = Task_Metadata t\<rparr>"

definition wireTaskToService :: "wireTask \<Rightarrow> Task" where
  "wireTaskToService w = \<lparr>
     Task_ID = wireTask_ID w, Task_JobID = wireTask_JobID w, Task_Title = wireTask_Title w,
     Task_Status = wireTask_Status w, Task_WorkerID = wireTask_WorkerID w,
     Task_GraphID = wireTask_GraphID w, Task_ParentID = wireTask_ParentID w,
     Task_SortOrder = wireTask_SortOrder w, Task_CreatedAt = wireTask_CreatedAt w,
     Task_UpdatedAt = wireTask_UpdatedAt w, Task_Summary = wireTask_Summary w,
     Task_ResultSummary = wireTask_ResultSummary w,
     Task_Recommendations = wireTask_Recommendations w, Task_Metadata = wireTask_Metadata w\<rparr>"

definition progressReportToWire :: "ProgressReport \<Rightarrow> wireProgressReport" where
  "progressReportToWire p = \<lparr>
     wireProgressReport_ID = ProgressReport_ID p,
     wireProgressReport_JobID = ProgressReport_JobID p,
     wireProgressReport_TaskID = ProgressReport_TaskID p,
     wireProgressReport_WorkerID = ProgressReport_WorkerID p,
     wireProgressReport_Status = ProgressReport_Status p,
     wireProgressReport_Message = ProgressReport_Message p,
     wireProgressReport_CreatedAt = ProgressReport_CreatedAt p\<rparr>"

definition wireProgressReportToService :: "wireProgressReport \<Rightarrow> ProgressReport" where
  "wireProgressReportToService w = \<lparr>
     ProgressReport_ID = wireProgressReport_ID w,
     ProgressReport_JobID = wireProgressReport_JobID w,
     ProgressReport_TaskID = wireProgressReport_TaskID w,
     ProgressReport_WorkerID = wireProgressReport_WorkerID w,
     ProgressReport_Status = wireProgressReport_Status w,
     ProgressReport_Message = wireProgressReport_Message w,
     ProgressReport_CreatedAt = wireProgressReport_CreatedAt w\<rparr>"

definition jobDetailToWire :: "JobDetail \<Rightarrow> wireJobDetail" where
  "jobDetailToWire jd = \<lparr>
     wireJobDetail_Job = jobToWire (JobDetail_Job jd),
     wireJobDetail_Tasks = Some (map taskToWire (elems (JobDetail_Tasks jd))),
     wireJobDetail_Progress = Some (map progressReportToWire (elems (JobDetail_Progress jd)))\<rparr>"

definition wireJobDetailToService :: "wireJobDetail \<Rightarrow> JobDetail" where
  "wireJobDetailToService w = \<lparr>
     JobDetail_Job = wireJobToService (wireJobDetail_Job w),
     JobDetail_Tasks = Some (map wireTaskToService (elems (wireJobDetail_Tasks w))),
     JobDetail_Progress = Some (map wireProgressReportToService (elems (wireJobDetail_Progress w)))\<rparr>"

definition noteMetaToWire :: "NoteMeta \<Rightarrow> wireNoteMeta" where
  "noteMetaToWire n = \<lparr>
     wireNoteMeta_ID = NoteMeta_ID n, wireNoteMeta_Title = NoteMeta_Title n,
     wireNoteMeta_Source = NoteMeta_Source n, wireNoteMeta_ModTime = NoteMeta_ModTime n,
     wireNoteMeta_Size = NoteMeta_Size n\<rparr>"

definition wireNoteMetaToService :: "wireNoteMeta \<Rightarrow> NoteMeta" where
  "wireNoteMetaToService w = \<lparr>
     NoteMeta_ID = wireNoteMeta_ID w, NoteMeta_Title = wireNoteMeta_Title w,
     NoteMeta_Source = wireNoteMeta_Source w, NoteMeta_ModTime = wireNoteMeta_ModTime w,
     NoteMeta_Size = wireNoteMeta_Size w\<rparr>"

definition skillToWire :: "Skill \<Rightarrow> wireSkill" where
  "skillToWire s = \<lparr>
     wireSkill_ID = Skill_ID s, wireSkill_Name = Skill_Name s,
     wireSkill_Description = Skill_Description s, wireSkill_Tools = Some (elems (Skill_Tools s)),
     wireSkill_Prompt = Skill_Prompt s, wireSkill_Source = Skill_Source s,
     wireSkill_CreatedAt = Skill_CreatedAt s, wireSkill_UpdatedAt = Skill_UpdatedAt s\<rparr>"

definition wireSkillToService :: "wireSkill \<Rightarrow> Skill" where
  "wireSkillToService w = \<lparr>
     Skill_ID = wireSkill_ID w, Skill_Name = wireSkill_Name w,
     Skill_Description = wireSkill_Description w, Skill_Tools = wireSkill_Tools w,
     Skill_Prompt = wireSkill_Prompt w, Skill_Source = wireSkill_Source w,
     Skill_SourcePath = '''', Skill_CreatedAt = wireSkill_CreatedAt w,
     Skill_UpdatedAt = wireSkill_UpdatedAt w\<rparr>"

definition graphEdgeToWire :: "GraphEdge \<Rightarrow> wireGraphEdge" where
  "graphEdgeToWire e = \<lparr>
     wireGraphEdge_From = GraphEdge_From e, wireGraphEdge_To = GraphEdge_To e,
     wireGraphEdge_Kind = GraphEdge_Kind e, wireGraphEdge_Label = GraphEdge_Label e\<rparr>"

definition wireGraphEdgeToService :: "wireGraphEdge \<Rightarrow> GraphEdge" where
  "wireGraphEdgeToService e = \<lparr>
     GraphEdge_From = wireGraphEdge_From e, GraphEdge_To = wireGraphEdge_To e,
     GraphEdge_Kind = wireGraphEdge_Kind e, GraphEdge_Label = wireGraphEdge_Label e\<rparr>"

definition graphDefinitionToWire :: "GraphDefinition \<Rightarrow> wireGraphDefinition" where
  "graphDefinitionToWire d = \<lparr>
     wireGraphDefinition_ID = GraphDefinition_ID d,
     wireGraphDefinition_Name = GraphDefinition_Name d,
     wireGraphDefinition_Description = GraphDefinition_Description d,
     wireGraphDefinition_Tags = GraphDefinition_Tags d,
     wireGraphDefinition_Entry = GraphDefinition_Entry d,
     wireGraphDefinition_Exit = GraphDefinition_Exit d,
     wireGraphDefinition_Nodes = GraphDefinition_Nodes d,
     wireGraphDefinition_Edges = appended (map graphEdgeToWire (elems (GraphDefinition_Edges d)))\<rparr>"

definition wireGraphDefinitionToService :: "wireGraphDefinition \<Rightarrow> GraphDefinition" where
  "wireGraphDefinitionToService w = \<lparr>
     GraphDefinition_ID = wireGraphDefinition_ID w,
     GraphDefinition_Name = wireGraphDefinition_Name w,
     GraphDefinition_Description = wireGraphDefinition_Description w,
     GraphDefinition_Tags = wireGraphDefinition_Tags w,
     GraphDefinition_Entry = wireGraphDefinition_Entry w,
     GraphDefinition_Exit = wireGraphDefinition_Exit w,
     GraphDefinition_Nodes = wireGraphDefinition_Nodes w,
     GraphDefinition_Edges = appended (map wireGraphEdgeToService (elems (wireGraphDefinition_Edges w)))\<rparr>"

definition sessionSnapshotToWire :: "SessionSnapshot \<Rightarrow> wireSessionSnapshot" where
  "sessionSnapshotToWire s = \<lparr>
     wireSessionSnapshot_ID = SessionSnapshot_ID s,
     wireSessionSnapshot_WorkerID = SessionSnapshot_WorkerID s,
     wireSessionSnapshot_JobID = SessionSnapshot_JobID s,
     wireSessionSnapshot_TaskID = SessionSnapshot_TaskID s,
     wireSessionSnapshot_Status = SessionSnapshot_Status s,
     wireSessionSnapshot_Model = SessionSnapshot_Model s,
     wireSessionSnapshot_Provider = SessionSnapshot_Provider s,
     wireSessionSnapshot_StartTime = SessionSnapshot_StartTime s,
     wireSessionSnapshot_TokensIn = SessionSnapshot_TokensIn s,
     wireSessionSnapshot_TokensOut = SessionSnapshot_TokensOut s,
     wireSessionSnapshot_CurrentContextTokens = SessionSnapshot_CurrentContextTokens s,
     wireSessionSnapshot_ContextWindow = SessionSnapshot_ContextWindow s,
     wireSessionSnapshot_Compactions = SessionSnapshot_Compactions s\<rparr>"

definition wireSessionSnapshotToService :: "wireSessionSnapshot \<Rightarrow> SessionSnapshot" where
  "wireSessionSnapshotToService w = \<lparr>
     SessionSnapshot_ID = wireSessionSnapshot_ID w,
     SessionSnapshot_WorkerID = wireSessionSnapshot_WorkerID w,
     SessionSnapshot_JobID = wireSessionSnapshot_JobID w,
     SessionSnapshot_TaskID = wireSessionSnapshot_TaskID w,
     SessionSnapshot_Status = wireSessionSnapshot_Status w,
     SessionSnapshot_Model = wireSessionSnapshot_Model w,
     SessionSnapshot_Provider = wireSessionSnapshot_Provider w,
     SessionSnapshot_StartTime = wireSessionSnapshot_StartTime w,
     SessionSnapshot_TokensIn = wireSessionSnapshot_TokensIn w,
     SessionSnapshot_TokensOut = wireSessionSnapshot_TokensOut w,
     SessionSnapshot_CurrentContextTokens = wireSessionSnapshot_CurrentContextTokens w,
     SessionSnapshot_ContextWindow = wireSessionSnapshot_ContextWindow w,
     SessionSnapshot_Compactions = wireSessionSnapshot_Compactions w\<rparr>"

definition activityItemToWire :: "ActivityItem \<Rightarrow> wireActivityItem" where
  "activityItemToWire a = \<lparr>
     wireActivityItem_Label = ActivityItem_Label a,
     wireActivityItem_ToolName = ActivityItem_ToolName a\<rparr>"

definition wireActivityItemToService :: "wireActivityItem \<Rightarrow> ActivityItem" where
  "wireActivityItemToService a = \<lparr>
     ActivityItem_Label = wireActivityItem_Label a,
     ActivityItem_ToolName = wireActivityItem_ToolName a\<rparr>"

definition sessionDetailToWire :: "SessionDetail \<Rightarrow> wireSessionDetail" where
  "sessionDetailToWire sd = \<lparr>
     wireSessionDetail_Snapshot = sessionSnapshotToWire (SessionDetail_Snapshot sd),
     wireSessionDetail_SystemPrompt = SessionDetail_SystemPrompt sd,
     wireSessionDetail_InitialMessage = SessionDetail_InitialMessage sd,
     wireSessionDetail_Output = SessionDetail_Output sd,
     wireSessionDetail_Activities = Some (map activityItemToWire (elems (SessionDetail_Activities sd))),
     wireSessionDetail_WorkerName = SessionDetail_WorkerName sd,
     wireSessionDetail_Task = SessionDetail_Task sd\<rparr>"

definition wireSessionDetailToService :: "wireSessionDetail \<Rightarrow> SessionDetail" where
  "wireSessionDetailToService w = \<lparr>
     SessionDetail_Snapshot = wireSessionSnapshotToService (wireSessionDetail_Snapshot w),
     SessionDetail_SystemPrompt = wireSessionDetail_SystemPrompt w,
     SessionDetail_InitialMessage = wireSessionDetail_InitialMessage w,
     SessionDetail_Output = wireSessionDetail_Output w,
     SessionDetail_Activities = Some (map wireActivityItemToService (elems (wireSessionDetail_Activities w))),
     SessionDetail_WorkerName = wireSessionDetail_WorkerName w,
     SessionDetail_Task = wireSessionDetail_Task w\<rparr>"

definition modelInfoToWire :: "ModelInfo \<Rightarrow> wireModelInfo" where
  "modelInfoToWire m = \<lparr>
     wireModelInfo_ID = ModelInfo_ID m, wireModelInfo_Name = ModelInfo_Name m,
     wireModelInfo_Provider = ModelInfo_Provider m, wireModelInfo_State = ModelInfo_State m,
     wireModelInfo_MaxContextLength = ModelInfo_MaxContextLength m,
     wireModelInfo_LoadedContextLength = ModelInfo_LoadedContextLength m\<rparr>"

definition wireModelInfoToService :: "wireModelInfo \<Rightarrow> ModelInfo" where
  "wireModelInfoToService w = \<lparr>
     ModelInfo_ID = wireModelInfo_ID w, ModelInfo_Name = wireModelInfo_Name w,
     ModelInfo_Provider = wireModelInfo_Provider w, ModelInfo_State = wireModelInfo_State w,
     ModelInfo_MaxContextLength = wireModelInfo_MaxContextLength w,
     ModelInfo_LoadedContextLength = wireModelInfo_LoadedContextLength w\<rparr>"

definition catalogModelToWire :: "CatalogModel \<Rightarrow> wireCatalogModel" where
  "catalogModelToWire m = \<lparr>
     wireCatalogModel_ID = CatalogModel_ID m, wireCatalogModel_Name = CatalogModel_Name m,
     wireCatalogModel_Family = CatalogModel_Family m,
     wireCatalogModel_ToolCall = CatalogModel_ToolCall m,
     wireCatalogModel_Reasoning = CatalogModel_Reasoning m,
     wireCatalogModel_StructuredOutput = CatalogModel_StructuredOutput m,
     wireCatalogModel_OpenWeights = CatalogModel_OpenWeights m,
     wireCatalogModel_ContextLimit = CatalogModel_ContextLimit m,
     wireCatalogModel_OutputLimit = CatalogModel_OutputLimit m,
     wireCatalogModel_InputCost = CatalogModel_InputCost m,
     wireCatalogModel_OutputCost = CatalogModel_OutputCost m\<rparr>"

definition wireCatalogModelToService :: "wireCatalogModel \<Rightarrow> CatalogModel" where
  "wireCatalogModelToService m = \<lparr>
     CatalogModel_ID = wireCatalogModel_ID m, CatalogModel_Name = wireCatalogModel_Name m,
     CatalogModel_Family = wireCatalogModel_Family m,
     CatalogModel_ToolCall = wireCatalogModel_ToolCall m,
     CatalogModel_Reasoning = wireCatalogModel_Reasoning m,
     CatalogModel_StructuredOutput = wireCatalogModel_StructuredOutput m,
     CatalogModel_OpenWeights = wireCatalogModel_OpenWeights m,
     CatalogModel_ContextLimit = wireCatalogModel_ContextLimit m,
     CatalogModel_OutputLimit = wireCatalogModel_OutputLimit m,
     CatalogModel_InputCost = wireCatalogModel_InputCost m,
     CatalogModel_OutputCost = wireCatalogModel_OutputCost m\<rparr>"

definition catalogProviderToWire :: "CatalogProvider \<Rightarrow> wireCatalogProvider" where
  "catalogProviderToWire p = \<lparr>
     wireCatalogProvider_ID = CatalogProvider_ID p,
     wireCatalogProvider_Name = CatalogProvider_Name p,
     wireCatalogProvider_API = CatalogProvider_API p,
     wireCatalogProvider_Doc = CatalogProvider_Doc p,
     wireCatalogProvider_Env = CatalogProvider_Env p,
     wireCatalogProvider_Models = Some (map catalogModelToWire (elems (CatalogProvider_Models p)))\<rparr>"

definition wireCatalogProviderToService :: "wireCatalogProvider \<Rightarrow> CatalogProvider" where
  "wireCatalogProviderToService w = \<lparr>
     CatalogProvider_ID = wireCatalogProvider_ID w,
     CatalogProvider_Name = wireCatalogProvider_Name w,
     CatalogProvider_API = wireCatalogProvider_API w,
     CatalogProvider_Doc = wireCatalogProvider_Doc w,
     CatalogProvider_Env = wireCatalogProvider_Env w,
     CatalogProvider_Models = Some (map wireCatalogModelToService (elems (wireCatalogProvider_Models w)))\<rparr>"

definition mcpToolInfoToWire :: "MCPToolInfo \<Rightarrow> wireMCPToolInfo" where
  "mcpToolInfoToWire t = \<lparr>
     wireMCPToolInfo_NamespacedName = MCPToolInfo_NamespacedName t,
     wireMCPToolInfo_OriginalName = MCPToolInfo_OriginalName t,
     wireMCPToolInfo_ServerName = MCPToolInfo_ServerName t,
     wireMCPToolInfo_Description = MCPToolInfo_Description t,
     wireMCPToolInfo_InputSchema = MCPToolInfo_InputSchema t\<rparr>"

definition wireMCPToolInfoToService :: "wireMCPToolInfo \<Rightarrow> MCPToolInfo" where
  "wireMCPToolInfoToService w = \<lparr>
     MCPToolInfo_NamespacedName = wireMCPToolInfo_NamespacedName w,
     MCPToolInfo_OriginalName = wireMCPToolInfo_OriginalName w,
     MCPToolInfo_ServerName = wireMCPToolInfo_ServerName w,
     MCPToolInfo_Description = wireMCPToolInfo_Description w,
     MCPToolInfo_InputSchema = wireMCPToolInfo_InputSchema w\<rparr>"

definition mcpServerStatusToWire :: "MCPServerStatus \<Rightarrow> wireMCPServerStatus" where
  "mcpServerStatusToWire s = \<lparr>
     wireMCPServerStatus_Name = MCPServerStatus_Name s,
     wireMCPServerStatus_Transport = MCPServerStatus_Transport s,
     wireMCPServerStatus_State = MCPServerStatus_State s,
     wireMCPServerStatus_Error = MCPServerStatus_Error s,
     wireMCPServerStatus_ToolCount = MCPServerStatus_ToolCount s,
     wireMCPServerStatus_Tools = Some (map mcpToolInfoToWire (elems (MCPServerStatus_Tools s)))\<rparr>"

definition wireMCPServerStatusToService :: "wireMCPServerStatus \<Rightarrow> MCPServerStatus" where
  "wireMCPServerStatusToService w = \<lparr>
     MCPServerStatus_Name = wireMCPServerStatus_Name w,
     MCPServerStatus_Transport = wireMCPServerStatus_Transport w,
     MCPServerStatus_State = wireMCPServerStatus_State w,
     MCPServerStatus_Error = wireMCPServerStatus_Error w,
     MCPServerStatus_ToolCount = wireMCPServerStatus_ToolCount w,
     MCPServerStatus_Tools = Some (map wireMCPToolInfoToService (elems (wireMCPServerStatus_Tools w)))\<rparr>"

definition toolCallToWire :: "ToolCall \<Rightarrow> wireToolCall" where
  "toolCallToWire tc = \<lparr>
     wireToolCall_ID = ToolCall_ID tc, wireToolCall_Name = ToolCall_Name tc,
     wireToolCall_Arguments = ToolCall_Arguments tc\<rparr>"

definition wireToolCallToService :: "wireToolCall \<Rightarrow> ToolCall" where
  "wireToolCallToService w = \<lparr>
     ToolCall_ID = wireToolCall_ID w, ToolCall_Name = wireToolCall_Name w,
     ToolCall_Arguments = wireToolCall_Arguments w\<rparr>"

definition wireToolCallResultToService :: "wireToolCallResult \<Rightarrow> ToolCallResult" where
  "wireToolCallResultToService w = \<lparr>
     ToolCallResult_CallID = wireToolCallResult_CallID w,
     ToolCallResult_Name = wireToolCallResult_Name w,
     ToolCallResult_Result = wireToolCallResult_Result w,
     ToolCallResult_Error = wireToolCallResult_Error w\<rparr>"

definition chatMessageToWire :: "ChatMessage \<Rightarrow> wireChatMessage" where
  "chatMessageToWire m = \<lparr>
     wireChatMessage_Role = ChatMessage_Role m, wireChatMessage_Content = ChatMessage_Content m,
     wireChatMessage_ToolCalls = Some (map toolCallToWire (elems (ChatMessage_ToolCalls m))),
     wireChatMessage_ToolCallID = ChatMessage_ToolCallID m\<rparr>"

definition wireChatMessageToService :: "wireChatMessage \<Rightarrow> ChatMessage" where
  "wireChatMessageToService w = \<lparr>
     ChatMessage_Role = wireChatMessage_Role w, ChatMessage_Content = wireChatMessage_Content w,
     ChatMessage_ToolCalls = Some (map wireToolCallToService (elems (wireChatMessage_ToolCalls w))),
     ChatMessage_ToolCallID = wireChatMessage_ToolCallID w\<rparr>"

definition chatEntryToWire :: "ChatEntry \<Rightarrow> wireChatEntry" where
  "chatEntryToWire e = \<lparr>
     wireChatEntry_Message = chatMessageToWire (ChatEntry_Message e),
     wireChatEntry_Timestamp = ChatEntry_Timestamp e,
     wireChatEntry_Reasoning = ChatEntry_Reasoning e,
     wireChatEntry_ClaudeMeta = ChatEntry_ClaudeMeta e\<rparr>"

definition wireChatEntryToService :: "wireChatEntry \<Rightarrow> ChatEntry" where
  "wireChatEntryToService w = \<lparr>
     ChatEntry_Message = wireChatMessageToService (wireChatEntry_Message w),
     ChatEntry_Timestamp = wireChatEntry_Timestamp w,
     ChatEntry_Reasoning = wireChatEntry_Reasoning w,
     ChatEntry_ClaudeMeta = wireChatEntry_ClaudeMeta w, ChatEntry_Kind = '''',
     ChatEntry_JobUpdate = None, ChatEntry_JobResult = None, ChatEntry_WorkerStream = None\<rparr>"

definition nodeMetricToWire :: "NodeMetric \<Rightarrow> wireNodeMetric" where
  "nodeMetricToWire m = \<lparr>
     wireNodeMetric_Node = NodeMetric_Node m, wireNodeMetric_Runs = NodeMetric_Runs m,
     wireNodeMetric_Failures = NodeMetric_Failures m,
     wireNodeMetric_FailureRate = NodeMetric_FailureRate m,
     wireNodeMetric_AvgElapsedMS = NodeMetric_AvgElapsedMS m,
     wireNodeMetric_MinElapsedMS = NodeMetric_MinElapsedMS m,
     wireNodeMetric_MaxElapsedMS = NodeMetric_MaxElapsedMS m\<rparr>"

definition wireNodeMetricToService :: "wireNodeMetric \<Rightarrow> NodeMetric" where
  "wireNodeMetricToService w = \<lparr>
     NodeMetric_Node = wireNodeMetric_Node w, NodeMetric_Runs = wireNodeMetric_Runs w,
     NodeMetric_Failures = wireNodeMetric_Failures w,
     NodeMetric_FailureRate = wireNodeMetric_FailureRate w,
     NodeMetric_AvgElapsedMS = wireNodeMetric_AvgElapsedMS w,
     NodeMetric_MinElapsedMS = wireNodeMetric_MinElapsedMS w,
     NodeMetric_MaxElapsedMS = wireNodeMetric_MaxElapsedMS w\<rparr>"

definition sessionMetricToWire :: "SessionMetric \<Rightarrow> wireSessionMetric" where
  "sessionMetricToWire m = \<lparr>
     wireSessionMetric_WorkerID = SessionMetric_WorkerID m,
     wireSessionMetric_Sessions = SessionMetric_Sessions m,
     wireSessionMetric_Failures = SessionMetric_Failures m,
     wireSessionMetric_FailureRate = SessionMetric_FailureRate m,
     wireSessionMetric_AvgDurationSeconds = SessionMetric_AvgDurationSeconds m,
     wireSessionMetric_AvgTokensIn = SessionMetric_AvgTokensIn m,
     wireSessionMetric_AvgTokensOut = SessionMetric_AvgTokensOut m,
     wireSessionMetric_UsageUnavailable = SessionMetric_UsageUnavailable m,
     wireSessionMetric_AvgContextPercent = SessionMetric_AvgContextPercent m\<rparr>"

definition wireSessionMetricToService :: "wireSessionMetric \<Rightarrow> SessionMetric" where
  "wireSessionMetricToService w = \<lparr>
     SessionMetric_WorkerID = wireSessionMetric_WorkerID w,
     SessionMetric_Sessions = wireSessionMetric_Sessions w,
     SessionMetric_Failures = wireSessionMetric_Failures w,
     SessionMetric_FailureRate = wireSessionMetric_FailureRate w,
     SessionMetric_AvgDurationSeconds = wireSessionMetric_AvgDurationSeconds w,
     SessionMetric_AvgTokensIn = wireSessionMetric_AvgTokensIn w,
     SessionMetric_AvgTokensOut = wireSessionMetric_AvgTokensOut w,
     SessionMetric_UsageUnavailable = wireSessionMetric_UsageUnavailable w,
     SessionMetric_AvgContextPercent = wireSessionMetric_AvgContextPercent w\<rparr>"

definition metricsReportToWire :: "MetricsReport \<Rightarrow> wireMetricsReport" where
  "metricsReportToWire r = \<lparr>
     wireMetricsReport_Nodes = Some (map nodeMetricToWire (elems (MetricsReport_Nodes r))),
     wireMetricsReport_Sessions = Some (map sessionMetricToWire (elems (MetricsReport_Sessions r)))\<rparr>"

definition wireMetricsReportToService :: "wireMetricsReport \<Rightarrow> MetricsReport" where
  "wireMetricsReportToService w = \<lparr>
     MetricsReport_Nodes = Some (map wireNodeMetricToService (elems (wireMetricsReport_Nodes w))),
     MetricsReport_Sessions = Some (map wireSessionMetricToService (elems (wireMetricsReport_Sessions w)))\<rparr>"

definition workerSessionToWire :: "WorkerSession \<Rightarrow> wireWorkerSession" where
  "workerSessionToWire s = \<lparr>
     wireWorkerSession_ID = WorkerSession_ID s,
     wireWorkerSession_WorkerID = WorkerSession_WorkerID s,
     wireWorkerSession_JobID = WorkerSession_JobID s,
     wireWorkerSession_TaskID = WorkerSession_TaskID s,
     wireWorkerSession_Status = WorkerSession_Status s,
     wireWorkerSession_Model = WorkerSession_Model s,
     wireWorkerSession_Provider = WorkerSession_Provider s,
     wireWorkerSession_TokensIn = WorkerSession_TokensIn s,
     wireWorkerSession_TokensOut = WorkerSession_TokensOut s,
     wireWorkerSession_StartedAt = WorkerSession_StartedAt s,
     wireWorkerSession_EndedAt = WorkerSession_EndedAt s,
     wireWorkerSession_CostUSD = WorkerSession_CostUSD s\<rparr>"

definition wireWorkerSessionToService :: "wireWorkerSession \<Rightarrow> WorkerSession" where
  "wireWorkerSessionToService w = \<lparr>
     WorkerSession_ID = wireWorkerSession_ID w,
     WorkerSession_WorkerID = wireWorkerSession_WorkerID w,
     WorkerSession_JobID = wireWorkerSession_JobID w,
     WorkerSession_TaskID = wireWorkerSession_TaskID w,
     WorkerSession_Status = wireWorkerSession_Status w,
     WorkerSession_Model = wireWorkerSession_Model w,
     WorkerSession_Provider = wireWorkerSession_Provider w,
     WorkerSession_TokensIn = wireWorkerSession_TokensIn w,
     WorkerSession_TokensOut = wireWorkerSession_TokensOut w,
     WorkerSession_StartedAt = wireWorkerSession_StartedAt w,
     WorkerSession_EndedAt = wireWorkerSession_EndedAt w,
     WorkerSession_CostUSD = wireWorkerSession_CostUSD w\<rparr>"

definition feedEntryToWire :: "FeedEntry \<Rightarrow> wireFeedEntry" where
  "feedEntryToWire fe = \<lparr>
     wireFeedEntry_ID = FeedEntry_ID fe, wireFeedEntry_JobID = FeedEntry_JobID fe,
     wireFeedEntry_EntryType = FeedEntry_EntryType fe,
     wireFeedEntry_Content = FeedEntry_Content fe, wireFeedEntry_Metadata = FeedEntry_Metadata fe,
     wireFeedEntry_CreatedAt = FeedEntry_CreatedAt fe\<rparr>"

definition wireFeedEntryToService :: "wireFeedEntry \<Rightarrow> FeedEntry" where
  "wireFeedEntryToService w = \<lparr>
     FeedEntry_ID = wireFeedEntry_ID w, FeedEntry_JobID = wireFeedEntry_JobID w,
     FeedEntry_EntryType = wireFeedEntry_EntryType w, FeedEntry_Content = wireFeedEntry_Content w,
     FeedEntry_Metadata = wireFeedEntry_Metadata w,
     FeedEntry_CreatedAt = wireFeedEntry_CreatedAt w\<rparr>"

definition graphNodeToWire :: "GraphNodeSnapshot \<Rightarrow> wireGraphNode" where
  "graphNodeToWire gn = \<lparr>
     wireGraphNode_SessionID = GraphNodeSnapshot_SessionID gn,
     wireGraphNode_JobID = GraphNodeSnapshot_JobID gn,
     wireGraphNode_TaskID = GraphNodeSnapshot_TaskID gn,
     wireGraphNode_Node = GraphNodeSnapshot_Node gn,
     wireGraphNode_StartedAt = GraphNodeSnapshot_StartedAt gn\<rparr>"

definition wireGraphNodeToService :: "wireGraphNode \<Rightarrow> GraphNodeSnapshot" where
  "wireGraphNodeToService gn = \<lparr>
     GraphNodeSnapshot_SessionID = wireGraphNode_SessionID gn,
     GraphNodeSnapshot_JobID = wireGraphNode_JobID gn,
     GraphNodeSnapshot_TaskID = wireGraphNode_TaskID gn,
     GraphNodeSnapshot_Node = wireGraphNode_Node gn,
     GraphNodeSnapshot_StartedAt = wireGraphNode_StartedAt gn\<rparr>"

definition progressStateToWire :: "ProgressState \<Rightarrow> wireProgressState" where
  "progressStateToWire ps = \<lparr>
     wireProgressState_Jobs = Some (map jobToWire (elems (ProgressState_Jobs ps))),
     wireProgressState_Tasks = Some (map (\<lambda>(k, v). (k, Some (map taskToWire (elems v)))) (elems (ProgressState_Tasks ps))),
     wireProgressState_Reports = Some (map (\<lambda>(k, v). (k, Some (map progressReportToWire (elems v)))) (elems (ProgressState_Reports ps))),
     wireProgressState_ActiveSessions = Some (map workerSessionToWire (elems (ProgressState_ActiveSessions ps))),
     wireProgressState_LiveSnapshots = Some (map sessionSnapshotToWire (elems (ProgressState_LiveSnapshots ps))),
     wireProgressState_GraphNodes = Some (map graphNodeToWire (elems (ProgressState_ActiveGraphNodes ps))),
     wireProgressState_FeedEntries = Some (map feedEntryToWire (elems (ProgressState_FeedEntries ps)))\<rparr>"

definition wireProgressStateToService :: "wireProgressState \<Rightarrow> ProgressState" where
  "wireProgressStateToService w = \<lparr>
     ProgressState_Jobs = Some (map wireJobToService (elems (wireProgressState_Jobs w))),
     ProgressState_Tasks = Some (map (\<lambda>(k, v). (k, Some (map wireTaskToService (elems v)))) (elems (wireProgressState_Tasks w))),
     ProgressState_Reports = Some (map (\<lambda>(k, v). (k, Some (map wireProgressReportToService (elems v)))) (elems (wireProgressState_Reports w))),
     ProgressState_ActiveSessions = Some (map wireWorkerSessionToService (elems (wireProgressState_ActiveSessions w))),
     ProgressState_LiveSnapshots = Some (map wireSessionSnapshotToService (elems (wireProgressState_LiveSnapshots w))),
     ProgressState_ActiveGraphNodes = Some (map wireGraphNodeToService (elems (wireProgressState_GraphNodes w))),
     ProgressState_FeedEntries = Some (map wireFeedEntryToService (elems (wireProgressState_FeedEntries w))),
     ProgressState_MCPServers = None\<rparr>"

section \<open>There and back\<close>

text \<open>
  \<open>seen_X x\<close> is the \<open>X\<close> the client hands to its caller when the server had \<open>x\<close>: the fields kept from
  the client are zero, and a nil slice the server made empty is empty.
\<close>

named_theorems trip "conversion to the wire type and back"

lemmas [trip] = elems_maps comp_def split_def

definition seen_Job :: "Job \<Rightarrow> Job" where
  "seen_Job x = x\<lparr>
     Job_WorkspaceDir := ''''\<rparr>"

lemma trip_Job [trip]:
  "wireJobToService (jobToWire x) = seen_Job x"
  by (cases x) (simp add: jobToWire_def wireJobToService_def seen_Job_def trip)

lemma trip_Task [trip]:
  "wireTaskToService (taskToWire x) = x"
  by (cases x) (simp add: taskToWire_def wireTaskToService_def trip)

lemma trip_ProgressReport [trip]:
  "wireProgressReportToService (progressReportToWire x) = x"
  by (cases x) (simp add: progressReportToWire_def wireProgressReportToService_def trip)

definition seen_JobDetail :: "JobDetail \<Rightarrow> JobDetail" where
  "seen_JobDetail x = x\<lparr>
     JobDetail_Job := seen_Job (JobDetail_Job x),
     JobDetail_Tasks := Some (elems (JobDetail_Tasks x)),
     JobDetail_Progress := Some (elems (JobDetail_Progress x))\<rparr>"

lemma trip_JobDetail [trip]:
  "wireJobDetailToService (jobDetailToWire x) = seen_JobDetail x"
  by (cases x) (simp add: jobDetailToWire_def wireJobDetailToService_def seen_JobDetail_def trip)

lemma trip_NoteMeta [trip]:
  "wireNoteMetaToService (noteMetaToWire x) = x"
  by (cases x) (simp add: noteMetaToWire_def wireNoteMetaToService_def trip)

definition seen_Skill :: "Skill \<Rightarrow> Skill" where
  "seen_Skill x = x\<lparr>
     Skill_Tools := Some (elems (Skill_Tools x)), Skill_SourcePath := ''''\<rparr>"

lemma trip_Skill [trip]:
  "wireSkillToService (skillToWire x) = seen_Skill x"
  by (cases x) (simp add: skillToWire_def wireSkillToService_def seen_Skill_def trip)

lemma trip_GraphEdge [trip]:
  "wireGraphEdgeToService (graphEdgeToWire x) = x"
  by (cases x) (simp add: graphEdgeToWire_def wireGraphEdgeToService_def trip)

definition seen_GraphDefinition :: "GraphDefinition \<Rightarrow> GraphDefinition" where
  "seen_GraphDefinition x = x\<lparr>
     GraphDefinition_Tags := appended (elems (GraphDefinition_Tags x)),
     GraphDefinition_Edges := appended (elems (GraphDefinition_Edges x))\<rparr>"

lemma trip_GraphDefinition [trip]:
  "wireGraphDefinitionToService (received_wireGraphDefinition (graphDefinitionToWire x)) = seen_GraphDefinition x"
  by (cases x) (simp add: graphDefinitionToWire_def wireGraphDefinitionToService_def received_wireGraphDefinition_def
      seen_GraphDefinition_def trip)

lemma trip_SessionSnapshot [trip]:
  "wireSessionSnapshotToService (sessionSnapshotToWire x) = x"
  by (cases x) (simp add: sessionSnapshotToWire_def wireSessionSnapshotToService_def trip)

lemma trip_ActivityItem [trip]:
  "wireActivityItemToService (activityItemToWire x) = x"
  by (cases x) (simp add: activityItemToWire_def wireActivityItemToService_def trip)

definition seen_SessionDetail :: "SessionDetail \<Rightarrow> SessionDetail" where
  "seen_SessionDetail x = x\<lparr>
     SessionDetail_Activities := Some (elems (SessionDetail_Activities x))\<rparr>"

lemma trip_SessionDetail [trip]:
  "wireSessionDetailToService (sessionDetailToWire x) = seen_SessionDetail x"
  by (cases x) (simp add: sessionDetailToWire_def wireSessionDetailToService_def seen_SessionDetail_def trip)

lemma trip_ModelInfo [trip]:
  "wireModelInfoToService (modelInfoToWire x) = x"
  by (cases x) (simp add: modelInfoToWire_def wireModelInfoToService_def trip)

lemma trip_CatalogModel [trip]:
  "wireCatalogModelToService (catalogModelToWire x) = x"
  by (cases x) (simp add: catalogModelToWire_def wireCatalogModelToService_def trip)

definition seen_CatalogProvider :: "CatalogProvider \<Rightarrow> CatalogProvider" where
  "seen_CatalogProvider x = x\<lparr>
     CatalogProvider_Env := appended (elems (CatalogProvider_Env x)),
     CatalogProvider_Models := Some (elems (CatalogProvider_Models x))\<rparr>"

lemma trip_CatalogProvider [trip]:
  "wireCatalogProviderToService (received_wireCatalogProvider (catalogProviderToWire x)) = seen_CatalogProvider x"
  by (cases x) (simp add: catalogProviderToWire_def wireCatalogProviderToService_def received_wireCatalogProvider_def
      seen_CatalogProvider_def trip)

definition seen_MCPToolInfo :: "MCPToolInfo \<Rightarrow> MCPToolInfo" where
  "seen_MCPToolInfo x = x\<lparr>
     MCPToolInfo_InputSchema := Some (raw_json (MCPToolInfo_InputSchema x))\<rparr>"

lemma trip_MCPToolInfo [trip]:
  "wireMCPToolInfoToService (received_wireMCPToolInfo (mcpToolInfoToWire x)) = seen_MCPToolInfo x"
  by (cases x) (simp add: mcpToolInfoToWire_def wireMCPToolInfoToService_def received_wireMCPToolInfo_def
      seen_MCPToolInfo_def trip)

definition seen_MCPServerStatus :: "MCPServerStatus \<Rightarrow> MCPServerStatus" where
  "seen_MCPServerStatus x = x\<lparr>
     MCPServerStatus_Tools := Some (map seen_MCPToolInfo (elems (MCPServerStatus_Tools x)))\<rparr>"

lemma trip_MCPServerStatus [trip]:
  "wireMCPServerStatusToService (received_wireMCPServerStatus (mcpServerStatusToWire x)) = seen_MCPServerStatus x"
  by (cases x) (simp add: mcpServerStatusToWire_def wireMCPServerStatusToService_def received_wireMCPServerStatus_def
      seen_MCPServerStatus_def trip)

definition seen_ToolCall :: "ToolCall \<Rightarrow> ToolCall" where
  "seen_ToolCall x = x\<lparr>
     ToolCall_Arguments := Some (raw_json (ToolCall_Arguments x))\<rparr>"

lemma trip_ToolCall [trip]:
  "wireToolCallToService (received_wireToolCall (toolCallToWire x)) = seen_ToolCall x"
  by (cases x) (simp add: toolCallToWire_def wireToolCallToService_def received_wireToolCall_def seen_ToolCall_def
      trip)

definition seen_ChatMessage :: "ChatMessage \<Rightarrow> ChatMessage" where
  "seen_ChatMessage x = x\<lparr>
     ChatMessage_ToolCalls := Some (map seen_ToolCall (elems (ChatMessage_ToolCalls x)))\<rparr>"

lemma trip_ChatMessage [trip]:
  "wireChatMessageToService (received_wireChatMessage (chatMessageToWire x)) = seen_ChatMessage x"
  by (cases x) (simp add: chatMessageToWire_def wireChatMessageToService_def received_wireChatMessage_def
      seen_ChatMessage_def trip)

definition seen_ChatEntry :: "ChatEntry \<Rightarrow> ChatEntry" where
  "seen_ChatEntry x = x\<lparr>
     ChatEntry_Message := seen_ChatMessage (ChatEntry_Message x), ChatEntry_Kind := '''',
     ChatEntry_JobUpdate := None, ChatEntry_JobResult := None, ChatEntry_WorkerStream := None\<rparr>"

lemma trip_ChatEntry [trip]:
  "wireChatEntryToService (received_wireChatEntry (chatEntryToWire x)) = seen_ChatEntry x"
  by (cases x) (simp add: chatEntryToWire_def wireChatEntryToService_def received_wireChatEntry_def seen_ChatEntry_def
      trip)

lemma trip_NodeMetric [trip]:
  "wireNodeMetricToService (nodeMetricToWire x) = x"
  by (cases x) (simp add: nodeMetricToWire_def wireNodeMetricToService_def trip)

lemma trip_SessionMetric [trip]:
  "wireSessionMetricToService (sessionMetricToWire x) = x"
  by (cases x) (simp add: sessionMetricToWire_def wireSessionMetricToService_def trip)

definition seen_MetricsReport :: "MetricsReport \<Rightarrow> MetricsReport" where
  "seen_MetricsReport x = x\<lparr>
     MetricsReport_Nodes := Some (elems (MetricsReport_Nodes x)),
     MetricsReport_Sessions := Some (elems (MetricsReport_Sessions x))\<rparr>"

lemma trip_MetricsReport [trip]:
  "wireMetricsReportToService (metricsReportToWire x) = seen_MetricsReport x"
  by (cases x) (simp add: metricsReportToWire_def wireMetricsReportToService_def seen_MetricsReport_def trip)

lemma trip_GraphNodeSnapshot [trip]:
  "wireGraphNodeToService (graphNodeToWire x) = x"
  by (cases x) (simp add: graphNodeToWire_def wireGraphNodeToService_def trip)

lemma trip_WorkerSession [trip]:
  "wireWorkerSessionToService (workerSessionToWire x) = x"
  by (cases x) (simp add: workerSessionToWire_def wireWorkerSessionToService_def trip)

lemma trip_FeedEntry [trip]:
  "wireFeedEntryToService (feedEntryToWire x) = x"
  by (cases x) (simp add: feedEntryToWire_def wireFeedEntryToService_def trip)

definition seen_ProgressState :: "ProgressState \<Rightarrow> ProgressState" where
  "seen_ProgressState x = x\<lparr>
     ProgressState_Jobs := Some (map seen_Job (elems (ProgressState_Jobs x))),
     ProgressState_Tasks := Some (map (\<lambda>(k, v). (k, Some (elems v))) (elems (ProgressState_Tasks x))),
     ProgressState_Reports := Some (map (\<lambda>(k, v). (k, Some (elems v))) (elems (ProgressState_Reports x))),
     ProgressState_ActiveSessions := Some (elems (ProgressState_ActiveSessions x)),
     ProgressState_LiveSnapshots := Some (elems (ProgressState_LiveSnapshots x)),
     ProgressState_ActiveGraphNodes := Some (elems (ProgressState_ActiveGraphNodes x)),
     ProgressState_FeedEntries := Some (elems (ProgressState_FeedEntries x)),
     ProgressState_MCPServers := None\<rparr>"

lemma trip_ProgressState [trip]:
  "wireProgressStateToService (received_wireProgressState (progressStateToWire x)) = seen_ProgressState x"
  by (cases x) (simp add: progressStateToWire_def wireProgressStateToService_def received_wireProgressState_def
      seen_ProgressState_def trip)

end
