(* ===== verification/EventPayloads.thy ===== *)
theory EventPayloads
  imports WirePayloads WireEntities
begin

text \<open>
  The payloads of the events: \<open>EventPayloadToWire\<close> on the server and \<open>ParseSSEPayload\<close> on the client,
  case by case.
\<close>

definition toolCallResultToWire :: "ToolCallResult \<Rightarrow> wireToolCallResult" where
  "toolCallResultToWire r = \<lparr>
     wireToolCallResult_CallID = ToolCallResult_CallID r,
     wireToolCallResult_Name = ToolCallResult_Name r,
     wireToolCallResult_Result = ToolCallResult_Result r,
     wireToolCallResult_Error = ToolCallResult_Error r\<rparr>"

definition operationResultToWire :: "OperationResult \<Rightarrow> wireOperationResult" where
  "operationResultToWire r = \<lparr>
     wireOperationResult_OperationID = OperationResult_OperationID r,
     wireOperationResult_Content = OperationResult_Content r,
     wireOperationResult_Error = OperationResult_Error r\<rparr>"

definition operationResultToService :: "wireOperationResult \<Rightarrow> OperationResult" where
  "operationResultToService w = \<lparr>
     OperationResult_OperationID = wireOperationResult_OperationID w,
     OperationResult_Content = wireOperationResult_Content w,
     OperationResult_Error = wireOperationResult_Error w\<rparr>"

definition promptQuestionToWire :: "PromptQuestion \<Rightarrow> wirePromptQuestion" where
  "promptQuestionToWire q = \<lparr>
     wirePromptQuestion_Question = PromptQuestion_Question q,
     wirePromptQuestion_Options = PromptQuestion_Options q\<rparr>"

definition promptQuestionToService :: "wirePromptQuestion \<Rightarrow> PromptQuestion" where
  "promptQuestionToService q = \<lparr>
     PromptQuestion_Question = wirePromptQuestion_Question q,
     PromptQuestion_Options = wirePromptQuestion_Options q\<rparr>"

definition fileTouchToWire :: "FileTouch \<Rightarrow> wireFileTouch" where
  "fileTouchToWire f = \<lparr>
     wireFileTouch_Path = FileTouch_Path f, wireFileTouch_Size = FileTouch_Size f,
     wireFileTouch_IsNew = FileTouch_IsNew f\<rparr>"

definition fileTouchToService :: "wireFileTouch \<Rightarrow> FileTouch" where
  "fileTouchToService f = \<lparr>
     FileTouch_Path = wireFileTouch_Path f, FileTouch_Size = wireFileTouch_Size f,
     FileTouch_IsNew = wireFileTouch_IsNew f\<rparr>"

definition operatorTextToWire :: "OperatorTextPayload \<Rightarrow> wireOperatorTextPayload" where
  "operatorTextToWire p = \<lparr>
     wireOperatorTextPayload_Text = OperatorTextPayload_Text p,
     wireOperatorTextPayload_Reasoning = OperatorTextPayload_Reasoning p\<rparr>"

definition operatorTextToService :: "wireOperatorTextPayload \<Rightarrow> OperatorTextPayload" where
  "operatorTextToService w = \<lparr>
     OperatorTextPayload_Text = wireOperatorTextPayload_Text w,
     OperatorTextPayload_Reasoning = wireOperatorTextPayload_Reasoning w\<rparr>"

definition operatorToolCallToWire :: "OperatorToolCallPayload \<Rightarrow> wireOperatorToolCallPayload" where
  "operatorToolCallToWire p = \<lparr>
     wireOperatorToolCallPayload_Name = OperatorToolCallPayload_Name p,
     wireOperatorToolCallPayload_Args = OperatorToolCallPayload_Args p,
     wireOperatorToolCallPayload_Result = OperatorToolCallPayload_Result p,
     wireOperatorToolCallPayload_IsError = OperatorToolCallPayload_IsError p\<rparr>"

definition operatorToolCallToService :: "wireOperatorToolCallPayload \<Rightarrow> OperatorToolCallPayload" where
  "operatorToolCallToService w = \<lparr>
     OperatorToolCallPayload_Name = wireOperatorToolCallPayload_Name w,
     OperatorToolCallPayload_Args = wireOperatorToolCallPayload_Args w,
     OperatorToolCallPayload_Result = wireOperatorToolCallPayload_Result w,
     OperatorToolCallPayload_IsError = wireOperatorToolCallPayload_IsError w\<rparr>"

definition operatorDoneToWire :: "OperatorDonePayload \<Rightarrow> wireOperatorDonePayload" where
  "operatorDoneToWire p = \<lparr>
     wireOperatorDonePayload_ModelName = OperatorDonePayload_ModelName p,
     wireOperatorDonePayload_TokensIn = OperatorDonePayload_TokensIn p,
     wireOperatorDonePayload_TokensOut = OperatorDonePayload_TokensOut p,
     wireOperatorDonePayload_ReasoningTokens = OperatorDonePayload_ReasoningTokens p,
     wireOperatorDonePayload_ContextTokens = OperatorDonePayload_ContextTokens p\<rparr>"

definition operatorDoneToService :: "wireOperatorDonePayload \<Rightarrow> OperatorDonePayload" where
  "operatorDoneToService w = \<lparr>
     OperatorDonePayload_ModelName = wireOperatorDonePayload_ModelName w,
     OperatorDonePayload_TokensIn = wireOperatorDonePayload_TokensIn w,
     OperatorDonePayload_TokensOut = wireOperatorDonePayload_TokensOut w,
     OperatorDonePayload_ReasoningTokens = wireOperatorDonePayload_ReasoningTokens w,
     OperatorDonePayload_ContextTokens = wireOperatorDonePayload_ContextTokens w\<rparr>"

definition operatorCompactionToWire :: "OperatorCompactionPayload \<Rightarrow> wireOperatorCompactionPayload" where
  "operatorCompactionToWire p = \<lparr>
     wireOperatorCompactionPayload_BeforeTokens = OperatorCompactionPayload_BeforeTokens p,
     wireOperatorCompactionPayload_EstimatedAfterTokens = OperatorCompactionPayload_EstimatedAfterTokens p,
     wireOperatorCompactionPayload_ArchiveFile = OperatorCompactionPayload_ArchiveFile p\<rparr>"

definition operatorCompactionToService :: "wireOperatorCompactionPayload \<Rightarrow> OperatorCompactionPayload" where
  "operatorCompactionToService w = \<lparr>
     OperatorCompactionPayload_BeforeTokens = wireOperatorCompactionPayload_BeforeTokens w,
     OperatorCompactionPayload_EstimatedAfterTokens = wireOperatorCompactionPayload_EstimatedAfterTokens w,
     OperatorCompactionPayload_ArchiveFile = wireOperatorCompactionPayload_ArchiveFile w\<rparr>"

definition sessionCompactionToWire :: "SessionCompactionPayload \<Rightarrow> wireSessionCompactionPayload" where
  "sessionCompactionToWire p = \<lparr>
     wireSessionCompactionPayload_SessionID = SessionCompactionPayload_SessionID p,
     wireSessionCompactionPayload_Tier = SessionCompactionPayload_Tier p,
     wireSessionCompactionPayload_BeforeTokens = SessionCompactionPayload_BeforeTokens p,
     wireSessionCompactionPayload_EstimatedAfterTokens = SessionCompactionPayload_EstimatedAfterTokens p\<rparr>"

definition sessionCompactionToService :: "wireSessionCompactionPayload \<Rightarrow> SessionCompactionPayload" where
  "sessionCompactionToService w = \<lparr>
     SessionCompactionPayload_SessionID = wireSessionCompactionPayload_SessionID w,
     SessionCompactionPayload_Tier = wireSessionCompactionPayload_Tier w,
     SessionCompactionPayload_BeforeTokens = wireSessionCompactionPayload_BeforeTokens w,
     SessionCompactionPayload_EstimatedAfterTokens = wireSessionCompactionPayload_EstimatedAfterTokens w\<rparr>"

definition blockerToWire :: "Blocker \<Rightarrow> wireBlockerPayload" where
  "blockerToWire p = \<lparr>
     wireBlockerPayload_RequestID = Blocker_RequestID p,
     wireBlockerPayload_Source = Blocker_Source p, wireBlockerPayload_JobID = Blocker_JobID p,
     wireBlockerPayload_TaskID = Blocker_TaskID p,
     wireBlockerPayload_Questions = appended (map promptQuestionToWire (elems (Blocker_Questions p))),
     wireBlockerPayload_CreatedAt = Blocker_CreatedAt p\<rparr>"

definition blockerToService :: "wireBlockerPayload \<Rightarrow> Blocker" where
  "blockerToService w = \<lparr>
     Blocker_RequestID = wireBlockerPayload_RequestID w,
     Blocker_Source = wireBlockerPayload_Source w, Blocker_JobID = wireBlockerPayload_JobID w,
     Blocker_TaskID = wireBlockerPayload_TaskID w,
     Blocker_Questions = appended (map promptQuestionToService (elems (wireBlockerPayload_Questions w))),
     Blocker_CreatedAt = wireBlockerPayload_CreatedAt w\<rparr>"

definition blockerResolvedToWire :: "BlockerResolvedPayload \<Rightarrow> wireBlockerResolvedPayload" where
  "blockerResolvedToWire p = \<lparr>
     wireBlockerResolvedPayload_RequestID = BlockerResolvedPayload_RequestID p,
     wireBlockerResolvedPayload_Disposition = BlockerResolvedPayload_Disposition p\<rparr>"

definition blockerResolvedToService :: "wireBlockerResolvedPayload \<Rightarrow> BlockerResolvedPayload" where
  "blockerResolvedToService w = \<lparr>
     BlockerResolvedPayload_RequestID = wireBlockerResolvedPayload_RequestID w,
     BlockerResolvedPayload_Disposition = wireBlockerResolvedPayload_Disposition w\<rparr>"

definition jobCreatedToWire :: "JobCreatedPayload \<Rightarrow> wireJobCreatedPayload" where
  "jobCreatedToWire p = \<lparr>
     wireJobCreatedPayload_JobID = JobCreatedPayload_JobID p,
     wireJobCreatedPayload_Title = JobCreatedPayload_Title p,
     wireJobCreatedPayload_Description = JobCreatedPayload_Description p\<rparr>"

definition jobCreatedToService :: "wireJobCreatedPayload \<Rightarrow> JobCreatedPayload" where
  "jobCreatedToService w = \<lparr>
     JobCreatedPayload_JobID = wireJobCreatedPayload_JobID w,
     JobCreatedPayload_Title = wireJobCreatedPayload_Title w,
     JobCreatedPayload_Description = wireJobCreatedPayload_Description w\<rparr>"

definition taskCreatedToWire :: "TaskCreatedPayload \<Rightarrow> wireTaskCreatedPayload" where
  "taskCreatedToWire p = \<lparr>
     wireTaskCreatedPayload_TaskID = TaskCreatedPayload_TaskID p,
     wireTaskCreatedPayload_JobID = TaskCreatedPayload_JobID p,
     wireTaskCreatedPayload_Title = TaskCreatedPayload_Title p,
     wireTaskCreatedPayload_GraphID = TaskCreatedPayload_GraphID p\<rparr>"

definition taskCreatedToService :: "wireTaskCreatedPayload \<Rightarrow> TaskCreatedPayload" where
  "taskCreatedToService w = \<lparr>
     TaskCreatedPayload_TaskID = wireTaskCreatedPayload_TaskID w,
     TaskCreatedPayload_JobID = wireTaskCreatedPayload_JobID w,
     TaskCreatedPayload_Title = wireTaskCreatedPayload_Title w,
     TaskCreatedPayload_GraphID = wireTaskCreatedPayload_GraphID w\<rparr>"

definition taskAssignedToWire :: "TaskAssignedPayload \<Rightarrow> wireTaskAssignedPayload" where
  "taskAssignedToWire p = \<lparr>
     wireTaskAssignedPayload_TaskID = TaskAssignedPayload_TaskID p,
     wireTaskAssignedPayload_JobID = TaskAssignedPayload_JobID p,
     wireTaskAssignedPayload_GraphID = TaskAssignedPayload_GraphID p,
     wireTaskAssignedPayload_Title = TaskAssignedPayload_Title p\<rparr>"

definition taskAssignedToService :: "wireTaskAssignedPayload \<Rightarrow> TaskAssignedPayload" where
  "taskAssignedToService w = \<lparr>
     TaskAssignedPayload_TaskID = wireTaskAssignedPayload_TaskID w,
     TaskAssignedPayload_JobID = wireTaskAssignedPayload_JobID w,
     TaskAssignedPayload_GraphID = wireTaskAssignedPayload_GraphID w,
     TaskAssignedPayload_Title = wireTaskAssignedPayload_Title w\<rparr>"

definition taskStartedToWire :: "TaskStartedPayload \<Rightarrow> wireTaskStartedPayload" where
  "taskStartedToWire p = \<lparr>
     wireTaskStartedPayload_TaskID = TaskStartedPayload_TaskID p,
     wireTaskStartedPayload_JobID = TaskStartedPayload_JobID p,
     wireTaskStartedPayload_GraphID = TaskStartedPayload_GraphID p,
     wireTaskStartedPayload_Title = TaskStartedPayload_Title p\<rparr>"

definition taskStartedToService :: "wireTaskStartedPayload \<Rightarrow> TaskStartedPayload" where
  "taskStartedToService w = \<lparr>
     TaskStartedPayload_TaskID = wireTaskStartedPayload_TaskID w,
     TaskStartedPayload_JobID = wireTaskStartedPayload_JobID w,
     TaskStartedPayload_GraphID = wireTaskStartedPayload_GraphID w,
     TaskStartedPayload_Title = wireTaskStartedPayload_Title w\<rparr>"

definition taskCompletedToWire :: "TaskCompletedPayload \<Rightarrow> wireTaskCompletedPayload" where
  "taskCompletedToWire p = \<lparr>
     wireTaskCompletedPayload_TaskID = TaskCompletedPayload_TaskID p,
     wireTaskCompletedPayload_JobID = TaskCompletedPayload_JobID p,
     wireTaskCompletedPayload_GraphID = TaskCompletedPayload_GraphID p,
     wireTaskCompletedPayload_Summary = TaskCompletedPayload_Summary p,
     wireTaskCompletedPayload_Recommendations = TaskCompletedPayload_Recommendations p,
     wireTaskCompletedPayload_HasNextTask = TaskCompletedPayload_HasNextTask p\<rparr>"

definition taskCompletedToService :: "wireTaskCompletedPayload \<Rightarrow> TaskCompletedPayload" where
  "taskCompletedToService w = \<lparr>
     TaskCompletedPayload_TaskID = wireTaskCompletedPayload_TaskID w,
     TaskCompletedPayload_JobID = wireTaskCompletedPayload_JobID w,
     TaskCompletedPayload_GraphID = wireTaskCompletedPayload_GraphID w,
     TaskCompletedPayload_Summary = wireTaskCompletedPayload_Summary w,
     TaskCompletedPayload_Recommendations = wireTaskCompletedPayload_Recommendations w,
     TaskCompletedPayload_HasNextTask = wireTaskCompletedPayload_HasNextTask w\<rparr>"

definition taskFailedToWire :: "TaskFailedPayload \<Rightarrow> wireTaskFailedPayload" where
  "taskFailedToWire p = \<lparr>
     wireTaskFailedPayload_TaskID = TaskFailedPayload_TaskID p,
     wireTaskFailedPayload_JobID = TaskFailedPayload_JobID p,
     wireTaskFailedPayload_GraphID = TaskFailedPayload_GraphID p,
     wireTaskFailedPayload_Error = TaskFailedPayload_Error p\<rparr>"

definition taskFailedToService :: "wireTaskFailedPayload \<Rightarrow> TaskFailedPayload" where
  "taskFailedToService w = \<lparr>
     TaskFailedPayload_TaskID = wireTaskFailedPayload_TaskID w,
     TaskFailedPayload_JobID = wireTaskFailedPayload_JobID w,
     TaskFailedPayload_GraphID = wireTaskFailedPayload_GraphID w,
     TaskFailedPayload_Error = wireTaskFailedPayload_Error w\<rparr>"

definition jobCompletedToWire :: "JobCompletedPayload \<Rightarrow> wireJobCompletedPayload" where
  "jobCompletedToWire p = \<lparr>
     wireJobCompletedPayload_JobID = JobCompletedPayload_JobID p,
     wireJobCompletedPayload_Title = JobCompletedPayload_Title p,
     wireJobCompletedPayload_Summary = JobCompletedPayload_Summary p,
     wireJobCompletedPayload_Status = JobCompletedPayload_Status p,
     wireJobCompletedPayload_Workspace = JobCompletedPayload_Workspace p,
     wireJobCompletedPayload_StartedAt = JobCompletedPayload_StartedAt p,
     wireJobCompletedPayload_EndedAt = JobCompletedPayload_EndedAt p,
     wireJobCompletedPayload_TasksTotal = JobCompletedPayload_TasksTotal p,
     wireJobCompletedPayload_TasksCompleted = JobCompletedPayload_TasksCompleted p,
     wireJobCompletedPayload_TasksFailed = JobCompletedPayload_TasksFailed p,
     wireJobCompletedPayload_TokensIn = JobCompletedPayload_TokensIn p,
     wireJobCompletedPayload_TokensOut = JobCompletedPayload_TokensOut p,
     wireJobCompletedPayload_CostUSD = JobCompletedPayload_CostUSD p,
     wireJobCompletedPayload_FilesTouched = Some (map fileTouchToWire (elems (JobCompletedPayload_FilesTouched p))),
     wireJobCompletedPayload_FilesTouchedExtra = JobCompletedPayload_FilesTouchedExtra p\<rparr>"

definition jobCompletedToService :: "wireJobCompletedPayload \<Rightarrow> JobCompletedPayload" where
  "jobCompletedToService w = \<lparr>
     JobCompletedPayload_JobID = wireJobCompletedPayload_JobID w,
     JobCompletedPayload_Title = wireJobCompletedPayload_Title w,
     JobCompletedPayload_Summary = wireJobCompletedPayload_Summary w,
     JobCompletedPayload_Status = wireJobCompletedPayload_Status w,
     JobCompletedPayload_Workspace = wireJobCompletedPayload_Workspace w,
     JobCompletedPayload_StartedAt = wireJobCompletedPayload_StartedAt w,
     JobCompletedPayload_EndedAt = wireJobCompletedPayload_EndedAt w,
     JobCompletedPayload_TasksTotal = wireJobCompletedPayload_TasksTotal w,
     JobCompletedPayload_TasksCompleted = wireJobCompletedPayload_TasksCompleted w,
     JobCompletedPayload_TasksFailed = wireJobCompletedPayload_TasksFailed w,
     JobCompletedPayload_TokensIn = wireJobCompletedPayload_TokensIn w,
     JobCompletedPayload_TokensOut = wireJobCompletedPayload_TokensOut w,
     JobCompletedPayload_CostUSD = wireJobCompletedPayload_CostUSD w,
     JobCompletedPayload_FilesTouched = Some (map fileTouchToService (elems (wireJobCompletedPayload_FilesTouched w))),
     JobCompletedPayload_FilesTouchedExtra = wireJobCompletedPayload_FilesTouchedExtra w\<rparr>"

definition progressUpdateToWire :: "ProgressUpdatePayload \<Rightarrow> wireProgressUpdatePayload" where
  "progressUpdateToWire p = \<lparr>
     wireProgressUpdatePayload_State = progressStateToWire (ProgressUpdatePayload_State p)\<rparr>"

definition progressUpdateToService :: "wireProgressUpdatePayload \<Rightarrow> ProgressUpdatePayload" where
  "progressUpdateToService w = \<lparr>
     ProgressUpdatePayload_State = wireProgressStateToService (wireProgressUpdatePayload_State w)\<rparr>"

definition sessionStartedToWire :: "SessionStartedPayload \<Rightarrow> wireSessionStartedPayload" where
  "sessionStartedToWire p = \<lparr>
     wireSessionStartedPayload_SessionID = SessionStartedPayload_SessionID p,
     wireSessionStartedPayload_WorkerName = SessionStartedPayload_WorkerName p,
     wireSessionStartedPayload_Task = SessionStartedPayload_Task p,
     wireSessionStartedPayload_JobID = SessionStartedPayload_JobID p,
     wireSessionStartedPayload_TaskID = SessionStartedPayload_TaskID p,
     wireSessionStartedPayload_SystemPrompt = SessionStartedPayload_SystemPrompt p,
     wireSessionStartedPayload_InitialMessage = SessionStartedPayload_InitialMessage p\<rparr>"

definition sessionStartedToService :: "wireSessionStartedPayload \<Rightarrow> SessionStartedPayload" where
  "sessionStartedToService w = \<lparr>
     SessionStartedPayload_SessionID = wireSessionStartedPayload_SessionID w,
     SessionStartedPayload_WorkerName = wireSessionStartedPayload_WorkerName w,
     SessionStartedPayload_Task = wireSessionStartedPayload_Task w,
     SessionStartedPayload_JobID = wireSessionStartedPayload_JobID w,
     SessionStartedPayload_TaskID = wireSessionStartedPayload_TaskID w,
     SessionStartedPayload_SystemPrompt = wireSessionStartedPayload_SystemPrompt w,
     SessionStartedPayload_InitialMessage = wireSessionStartedPayload_InitialMessage w\<rparr>"

definition sessionTextToWire :: "SessionTextPayload \<Rightarrow> wireSessionTextPayload" where
  "sessionTextToWire p = \<lparr>
     wireSessionTextPayload_Text = SessionTextPayload_Text p\<rparr>"

definition sessionTextToService :: "wireSessionTextPayload \<Rightarrow> SessionTextPayload" where
  "sessionTextToService w = \<lparr>
     SessionTextPayload_Text = wireSessionTextPayload_Text w\<rparr>"

definition sessionReasoningToWire :: "SessionReasoningPayload \<Rightarrow> wireSessionReasoningPayload" where
  "sessionReasoningToWire p = \<lparr>
     wireSessionReasoningPayload_Text = SessionReasoningPayload_Text p\<rparr>"

definition sessionReasoningToService :: "wireSessionReasoningPayload \<Rightarrow> SessionReasoningPayload" where
  "sessionReasoningToService w = \<lparr>
     SessionReasoningPayload_Text = wireSessionReasoningPayload_Text w\<rparr>"

definition sessionToolCallToWire :: "SessionToolCallPayload \<Rightarrow> wireSessionToolCallPayload" where
  "sessionToolCallToWire p = \<lparr>
     wireSessionToolCallPayload_ToolCall = toolCallToWire (SessionToolCallPayload_ToolCall p)\<rparr>"

definition sessionToolCallToService :: "wireSessionToolCallPayload \<Rightarrow> SessionToolCallPayload" where
  "sessionToolCallToService w = \<lparr>
     SessionToolCallPayload_ToolCall = wireToolCallToService (wireSessionToolCallPayload_ToolCall w)\<rparr>"

definition sessionToolResultToWire :: "SessionToolResultPayload \<Rightarrow> wireSessionToolResultPayload" where
  "sessionToolResultToWire p = \<lparr>
     wireSessionToolResultPayload_Result = toolCallResultToWire (SessionToolResultPayload_Result p)\<rparr>"

definition sessionToolResultToService :: "wireSessionToolResultPayload \<Rightarrow> SessionToolResultPayload" where
  "sessionToolResultToService w = \<lparr>
     SessionToolResultPayload_Result = wireToolCallResultToService (wireSessionToolResultPayload_Result w)\<rparr>"

definition sessionFileChangeToWire :: "SessionFileChangePayload \<Rightarrow> wireSessionFileChangePayload" where
  "sessionFileChangeToWire p = \<lparr>
     wireSessionFileChangePayload_ToolName = SessionFileChangePayload_ToolName p,
     wireSessionFileChangePayload_Path = SessionFileChangePayload_Path p,
     wireSessionFileChangePayload_Diff = SessionFileChangePayload_Diff p,
     wireSessionFileChangePayload_Added = SessionFileChangePayload_Added p,
     wireSessionFileChangePayload_Removed = SessionFileChangePayload_Removed p,
     wireSessionFileChangePayload_Created = SessionFileChangePayload_Created p,
     wireSessionFileChangePayload_Truncated = SessionFileChangePayload_Truncated p\<rparr>"

definition sessionFileChangeToService :: "wireSessionFileChangePayload \<Rightarrow> SessionFileChangePayload" where
  "sessionFileChangeToService w = \<lparr>
     SessionFileChangePayload_ToolName = wireSessionFileChangePayload_ToolName w,
     SessionFileChangePayload_Path = wireSessionFileChangePayload_Path w,
     SessionFileChangePayload_Diff = wireSessionFileChangePayload_Diff w,
     SessionFileChangePayload_Added = wireSessionFileChangePayload_Added w,
     SessionFileChangePayload_Removed = wireSessionFileChangePayload_Removed w,
     SessionFileChangePayload_Created = wireSessionFileChangePayload_Created w,
     SessionFileChangePayload_Truncated = wireSessionFileChangePayload_Truncated w\<rparr>"

definition sessionShellExecToWire :: "SessionShellExecPayload \<Rightarrow> wireSessionShellExecPayload" where
  "sessionShellExecToWire p = \<lparr>
     wireSessionShellExecPayload_Command = SessionShellExecPayload_Command p,
     wireSessionShellExecPayload_ExitCode = SessionShellExecPayload_ExitCode p,
     wireSessionShellExecPayload_DurationMs = SessionShellExecPayload_DurationMs p,
     wireSessionShellExecPayload_OutputBytes = SessionShellExecPayload_OutputBytes p,
     wireSessionShellExecPayload_Truncated = SessionShellExecPayload_Truncated p,
     wireSessionShellExecPayload_TimedOut = SessionShellExecPayload_TimedOut p\<rparr>"

definition sessionShellExecToService :: "wireSessionShellExecPayload \<Rightarrow> SessionShellExecPayload" where
  "sessionShellExecToService w = \<lparr>
     SessionShellExecPayload_Command = wireSessionShellExecPayload_Command w,
     SessionShellExecPayload_ExitCode = wireSessionShellExecPayload_ExitCode w,
     SessionShellExecPayload_DurationMs = wireSessionShellExecPayload_DurationMs w,
     SessionShellExecPayload_OutputBytes = wireSessionShellExecPayload_OutputBytes w,
     SessionShellExecPayload_Truncated = wireSessionShellExecPayload_Truncated w,
     SessionShellExecPayload_TimedOut = wireSessionShellExecPayload_TimedOut w\<rparr>"

definition sessionWorkerSpawnToWire :: "SessionWorkerSpawnPayload \<Rightarrow> wireSessionWorkerSpawnPayload" where
  "sessionWorkerSpawnToWire p = \<lparr>
     wireSessionWorkerSpawnPayload_Role = SessionWorkerSpawnPayload_Role p,
     wireSessionWorkerSpawnPayload_Task = SessionWorkerSpawnPayload_Task p,
     wireSessionWorkerSpawnPayload_JobID = SessionWorkerSpawnPayload_JobID p,
     wireSessionWorkerSpawnPayload_Depth = SessionWorkerSpawnPayload_Depth p,
     wireSessionWorkerSpawnPayload_Failed = SessionWorkerSpawnPayload_Failed p,
     wireSessionWorkerSpawnPayload_Error = SessionWorkerSpawnPayload_Error p\<rparr>"

definition sessionWorkerSpawnToService :: "wireSessionWorkerSpawnPayload \<Rightarrow> SessionWorkerSpawnPayload" where
  "sessionWorkerSpawnToService w = \<lparr>
     SessionWorkerSpawnPayload_Role = wireSessionWorkerSpawnPayload_Role w,
     SessionWorkerSpawnPayload_Task = wireSessionWorkerSpawnPayload_Task w,
     SessionWorkerSpawnPayload_JobID = wireSessionWorkerSpawnPayload_JobID w,
     SessionWorkerSpawnPayload_Depth = wireSessionWorkerSpawnPayload_Depth w,
     SessionWorkerSpawnPayload_Failed = wireSessionWorkerSpawnPayload_Failed w,
     SessionWorkerSpawnPayload_Error = wireSessionWorkerSpawnPayload_Error w\<rparr>"

definition sessionKBToWire :: "SessionKBPayload \<Rightarrow> wireSessionKBPayload" where
  "sessionKBToWire p = \<lparr>
     wireSessionKBPayload_Scope = SessionKBPayload_Scope p,
     wireSessionKBPayload_Op = SessionKBPayload_Op p,
     wireSessionKBPayload_Source = SessionKBPayload_Source p,
     wireSessionKBPayload_Preview = SessionKBPayload_Preview p\<rparr>"

definition sessionKBToService :: "wireSessionKBPayload \<Rightarrow> SessionKBPayload" where
  "sessionKBToService w = \<lparr>
     SessionKBPayload_Scope = wireSessionKBPayload_Scope w,
     SessionKBPayload_Op = wireSessionKBPayload_Op w,
     SessionKBPayload_Source = wireSessionKBPayload_Source w,
     SessionKBPayload_Preview = wireSessionKBPayload_Preview w\<rparr>"

definition sessionDoneToWire :: "SessionDonePayload \<Rightarrow> wireSessionDonePayload" where
  "sessionDoneToWire p = \<lparr>
     wireSessionDonePayload_WorkerName = SessionDonePayload_WorkerName p,
     wireSessionDonePayload_JobID = SessionDonePayload_JobID p,
     wireSessionDonePayload_TaskID = SessionDonePayload_TaskID p,
     wireSessionDonePayload_Status = SessionDonePayload_Status p,
     wireSessionDonePayload_FinalText = SessionDonePayload_FinalText p\<rparr>"

definition sessionDoneToService :: "wireSessionDonePayload \<Rightarrow> SessionDonePayload" where
  "sessionDoneToService w = \<lparr>
     SessionDonePayload_WorkerName = wireSessionDonePayload_WorkerName w,
     SessionDonePayload_JobID = wireSessionDonePayload_JobID w,
     SessionDonePayload_TaskID = wireSessionDonePayload_TaskID w,
     SessionDonePayload_Status = wireSessionDonePayload_Status w,
     SessionDonePayload_FinalText = wireSessionDonePayload_FinalText w\<rparr>"

definition sessionPromptToWire :: "SessionPromptPayload \<Rightarrow> wireSessionPromptPayload" where
  "sessionPromptToWire p = \<lparr>
     wireSessionPromptPayload_SessionID = SessionPromptPayload_SessionID p,
     wireSessionPromptPayload_SystemPrompt = SessionPromptPayload_SystemPrompt p,
     wireSessionPromptPayload_InitialMessage = SessionPromptPayload_InitialMessage p\<rparr>"

definition sessionPromptToService :: "wireSessionPromptPayload \<Rightarrow> SessionPromptPayload" where
  "sessionPromptToService w = \<lparr>
     SessionPromptPayload_SessionID = wireSessionPromptPayload_SessionID w,
     SessionPromptPayload_SystemPrompt = wireSessionPromptPayload_SystemPrompt w,
     SessionPromptPayload_InitialMessage = wireSessionPromptPayload_InitialMessage w\<rparr>"

definition sessionMetaToWire :: "SessionMetaPayload \<Rightarrow> wireSessionMetaPayload" where
  "sessionMetaToWire p = \<lparr>
     wireSessionMetaPayload_SessionID = SessionMetaPayload_SessionID p,
     wireSessionMetaPayload_Model = SessionMetaPayload_Model p,
     wireSessionMetaPayload_Provider = SessionMetaPayload_Provider p,
     wireSessionMetaPayload_Temperature = SessionMetaPayload_Temperature p,
     wireSessionMetaPayload_Thinking = SessionMetaPayload_Thinking p\<rparr>"

definition sessionMetaToService :: "wireSessionMetaPayload \<Rightarrow> SessionMetaPayload" where
  "sessionMetaToService w = \<lparr>
     SessionMetaPayload_SessionID = wireSessionMetaPayload_SessionID w,
     SessionMetaPayload_Model = wireSessionMetaPayload_Model w,
     SessionMetaPayload_Provider = wireSessionMetaPayload_Provider w,
     SessionMetaPayload_Temperature = wireSessionMetaPayload_Temperature w,
     SessionMetaPayload_Thinking = wireSessionMetaPayload_Thinking w\<rparr>"

definition sessionContextToWire :: "SessionContextPayload \<Rightarrow> wireSessionContextPayload" where
  "sessionContextToWire p = \<lparr>
     wireSessionContextPayload_SessionID = SessionContextPayload_SessionID p,
     wireSessionContextPayload_ContextTokens = SessionContextPayload_ContextTokens p\<rparr>"

definition sessionContextToService :: "wireSessionContextPayload \<Rightarrow> SessionContextPayload" where
  "sessionContextToService w = \<lparr>
     SessionContextPayload_SessionID = wireSessionContextPayload_SessionID w,
     SessionContextPayload_ContextTokens = wireSessionContextPayload_ContextTokens w\<rparr>"

definition operationCompletedToWire :: "OperationCompletedPayload \<Rightarrow> wireOperationCompletedPayload" where
  "operationCompletedToWire p = \<lparr>
     wireOperationCompletedPayload_Kind = OperationCompletedPayload_Kind p,
     wireOperationCompletedPayload_Result = operationResultToWire (OperationCompletedPayload_Result p)\<rparr>"

definition operationCompletedToService :: "wireOperationCompletedPayload \<Rightarrow> OperationCompletedPayload" where
  "operationCompletedToService w = \<lparr>
     OperationCompletedPayload_Kind = wireOperationCompletedPayload_Kind w,
     OperationCompletedPayload_Result = operationResultToService (wireOperationCompletedPayload_Result w)\<rparr>"

definition operationFailedToWire :: "OperationFailedPayload \<Rightarrow> wireOperationFailedPayload" where
  "operationFailedToWire p = \<lparr>
     wireOperationFailedPayload_Kind = OperationFailedPayload_Kind p,
     wireOperationFailedPayload_Error = OperationFailedPayload_Error p\<rparr>"

definition operationFailedToService :: "wireOperationFailedPayload \<Rightarrow> OperationFailedPayload" where
  "operationFailedToService w = \<lparr>
     OperationFailedPayload_Kind = wireOperationFailedPayload_Kind w,
     OperationFailedPayload_Error = wireOperationFailedPayload_Error w\<rparr>"

definition heartbeatToWire :: "HeartbeatPayload \<Rightarrow> wireHeartbeatPayload" where
  "heartbeatToWire p = \<lparr>
     wireHeartbeatPayload_ServerTime = HeartbeatPayload_ServerTime p\<rparr>"

definition heartbeatToService :: "wireHeartbeatPayload \<Rightarrow> HeartbeatPayload" where
  "heartbeatToService w = \<lparr>
     HeartbeatPayload_ServerTime = wireHeartbeatPayload_ServerTime w\<rparr>"

definition connectionLostToWire :: "ConnectionLostPayload \<Rightarrow> wireConnectionLostPayload" where
  "connectionLostToWire p = \<lparr>
     wireConnectionLostPayload_Error = ConnectionLostPayload_Error p\<rparr>"

definition connectionLostToService :: "wireConnectionLostPayload \<Rightarrow> ConnectionLostPayload" where
  "connectionLostToService w = \<lparr>
     ConnectionLostPayload_Error = wireConnectionLostPayload_Error w\<rparr>"

definition graphNodeStartedToWire :: "GraphNodeStartedPayload \<Rightarrow> wireGraphNodeStartedPayload" where
  "graphNodeStartedToWire p = \<lparr>
     wireGraphNodeStartedPayload_JobID = GraphNodeStartedPayload_JobID p,
     wireGraphNodeStartedPayload_TaskID = GraphNodeStartedPayload_TaskID p,
     wireGraphNodeStartedPayload_Node = GraphNodeStartedPayload_Node p\<rparr>"

definition graphNodeStartedToService :: "wireGraphNodeStartedPayload \<Rightarrow> GraphNodeStartedPayload" where
  "graphNodeStartedToService w = \<lparr>
     GraphNodeStartedPayload_JobID = wireGraphNodeStartedPayload_JobID w,
     GraphNodeStartedPayload_TaskID = wireGraphNodeStartedPayload_TaskID w,
     GraphNodeStartedPayload_Node = wireGraphNodeStartedPayload_Node w\<rparr>"

definition graphNodeCompletedToWire :: "GraphNodeCompletedPayload \<Rightarrow> wireGraphNodeCompletedPayload" where
  "graphNodeCompletedToWire p = \<lparr>
     wireGraphNodeCompletedPayload_JobID = GraphNodeCompletedPayload_JobID p,
     wireGraphNodeCompletedPayload_TaskID = GraphNodeCompletedPayload_TaskID p,
     wireGraphNodeCompletedPayload_Node = GraphNodeCompletedPayload_Node p,
     wireGraphNodeCompletedPayload_Status = GraphNodeCompletedPayload_Status p\<rparr>"

definition graphNodeCompletedToService :: "wireGraphNodeCompletedPayload \<Rightarrow> GraphNodeCompletedPayload" where
  "graphNodeCompletedToService w = \<lparr>
     GraphNodeCompletedPayload_JobID = wireGraphNodeCompletedPayload_JobID w,
     GraphNodeCompletedPayload_TaskID = wireGraphNodeCompletedPayload_TaskID w,
     GraphNodeCompletedPayload_Node = wireGraphNodeCompletedPayload_Node w,
     GraphNodeCompletedPayload_Status = wireGraphNodeCompletedPayload_Status w\<rparr>"

definition graphCompletedToWire :: "GraphCompletedPayload \<Rightarrow> wireGraphCompletedPayload" where
  "graphCompletedToWire p = \<lparr>
     wireGraphCompletedPayload_JobID = GraphCompletedPayload_JobID p,
     wireGraphCompletedPayload_TaskID = GraphCompletedPayload_TaskID p,
     wireGraphCompletedPayload_Summary = GraphCompletedPayload_Summary p\<rparr>"

definition graphCompletedToService :: "wireGraphCompletedPayload \<Rightarrow> GraphCompletedPayload" where
  "graphCompletedToService w = \<lparr>
     GraphCompletedPayload_JobID = wireGraphCompletedPayload_JobID w,
     GraphCompletedPayload_TaskID = wireGraphCompletedPayload_TaskID w,
     GraphCompletedPayload_Summary = wireGraphCompletedPayload_Summary w\<rparr>"

definition graphFailedToWire :: "GraphFailedPayload \<Rightarrow> wireGraphFailedPayload" where
  "graphFailedToWire p = \<lparr>
     wireGraphFailedPayload_JobID = GraphFailedPayload_JobID p,
     wireGraphFailedPayload_TaskID = GraphFailedPayload_TaskID p,
     wireGraphFailedPayload_Error = GraphFailedPayload_Error p\<rparr>"

definition graphFailedToService :: "wireGraphFailedPayload \<Rightarrow> GraphFailedPayload" where
  "graphFailedToService w = \<lparr>
     GraphFailedPayload_JobID = wireGraphFailedPayload_JobID w,
     GraphFailedPayload_TaskID = wireGraphFailedPayload_TaskID w,
     GraphFailedPayload_Error = wireGraphFailedPayload_Error w\<rparr>"

section \<open>There and back\<close>

lemma trip_ToolCallResult [trip]:
  "wireToolCallResultToService (toolCallResultToWire x) = x"
  by (cases x) (simp add: toolCallResultToWire_def wireToolCallResultToService_def trip)

lemma trip_OperationResult [trip]:
  "operationResultToService (operationResultToWire x) = x"
  by (cases x) (simp add: operationResultToWire_def operationResultToService_def trip)

definition seen_PromptQuestion :: "PromptQuestion \<Rightarrow> PromptQuestion" where
  "seen_PromptQuestion x = x\<lparr>
     PromptQuestion_Options := appended (elems (PromptQuestion_Options x))\<rparr>"

lemma trip_PromptQuestion [trip]:
  "promptQuestionToService (received_wirePromptQuestion (promptQuestionToWire x)) = seen_PromptQuestion x"
  by (cases x) (simp add: promptQuestionToWire_def promptQuestionToService_def received_wirePromptQuestion_def
      seen_PromptQuestion_def trip)

lemma trip_FileTouch [trip]:
  "fileTouchToService (fileTouchToWire x) = x"
  by (cases x) (simp add: fileTouchToWire_def fileTouchToService_def trip)

lemma trip_OperatorTextPayload [trip]:
  "operatorTextToService (operatorTextToWire x) = x"
  by (cases x) (simp add: operatorTextToWire_def operatorTextToService_def trip)

lemma trip_OperatorToolCallPayload [trip]:
  "operatorToolCallToService (operatorToolCallToWire x) = x"
  by (cases x) (simp add: operatorToolCallToWire_def operatorToolCallToService_def trip)

lemma trip_OperatorDonePayload [trip]:
  "operatorDoneToService (operatorDoneToWire x) = x"
  by (cases x) (simp add: operatorDoneToWire_def operatorDoneToService_def trip)

lemma trip_OperatorCompactionPayload [trip]:
  "operatorCompactionToService (operatorCompactionToWire x) = x"
  by (cases x) (simp add: operatorCompactionToWire_def operatorCompactionToService_def trip)

lemma trip_SessionCompactionPayload [trip]:
  "sessionCompactionToService (sessionCompactionToWire x) = x"
  by (cases x) (simp add: sessionCompactionToWire_def sessionCompactionToService_def trip)

definition seen_Blocker :: "Blocker \<Rightarrow> Blocker" where
  "seen_Blocker x = x\<lparr>
     Blocker_Questions := appended (map seen_PromptQuestion (elems (Blocker_Questions x)))\<rparr>"

lemma trip_Blocker [trip]:
  "blockerToService (received_wireBlockerPayload (blockerToWire x)) = seen_Blocker x"
  by (cases x) (simp add: blockerToWire_def blockerToService_def received_wireBlockerPayload_def seen_Blocker_def trip)

lemma trip_BlockerResolvedPayload [trip]:
  "blockerResolvedToService (blockerResolvedToWire x) = x"
  by (cases x) (simp add: blockerResolvedToWire_def blockerResolvedToService_def trip)

lemma trip_JobCreatedPayload [trip]:
  "jobCreatedToService (jobCreatedToWire x) = x"
  by (cases x) (simp add: jobCreatedToWire_def jobCreatedToService_def trip)

lemma trip_TaskCreatedPayload [trip]:
  "taskCreatedToService (taskCreatedToWire x) = x"
  by (cases x) (simp add: taskCreatedToWire_def taskCreatedToService_def trip)

lemma trip_TaskAssignedPayload [trip]:
  "taskAssignedToService (taskAssignedToWire x) = x"
  by (cases x) (simp add: taskAssignedToWire_def taskAssignedToService_def trip)

lemma trip_TaskStartedPayload [trip]:
  "taskStartedToService (taskStartedToWire x) = x"
  by (cases x) (simp add: taskStartedToWire_def taskStartedToService_def trip)

lemma trip_TaskCompletedPayload [trip]:
  "taskCompletedToService (taskCompletedToWire x) = x"
  by (cases x) (simp add: taskCompletedToWire_def taskCompletedToService_def trip)

lemma trip_TaskFailedPayload [trip]:
  "taskFailedToService (taskFailedToWire x) = x"
  by (cases x) (simp add: taskFailedToWire_def taskFailedToService_def trip)

definition seen_JobCompletedPayload :: "JobCompletedPayload \<Rightarrow> JobCompletedPayload" where
  "seen_JobCompletedPayload x = x\<lparr>
     JobCompletedPayload_FilesTouched := Some (elems (JobCompletedPayload_FilesTouched x))\<rparr>"

lemma trip_JobCompletedPayload [trip]:
  "jobCompletedToService (received_wireJobCompletedPayload (jobCompletedToWire x)) = seen_JobCompletedPayload x"
  by (cases x) (simp add: jobCompletedToWire_def jobCompletedToService_def received_wireJobCompletedPayload_def
      seen_JobCompletedPayload_def trip)

definition seen_ProgressUpdatePayload :: "ProgressUpdatePayload \<Rightarrow> ProgressUpdatePayload" where
  "seen_ProgressUpdatePayload x = x\<lparr>
     ProgressUpdatePayload_State := seen_ProgressState (ProgressUpdatePayload_State x)\<rparr>"

lemma trip_ProgressUpdatePayload [trip]:
  "progressUpdateToService (received_wireProgressUpdatePayload (progressUpdateToWire x)) = seen_ProgressUpdatePayload x"
  by (cases x) (simp add: progressUpdateToWire_def progressUpdateToService_def received_wireProgressUpdatePayload_def
      seen_ProgressUpdatePayload_def trip)

lemma trip_SessionStartedPayload [trip]:
  "sessionStartedToService (sessionStartedToWire x) = x"
  by (cases x) (simp add: sessionStartedToWire_def sessionStartedToService_def trip)

lemma trip_SessionTextPayload [trip]:
  "sessionTextToService (sessionTextToWire x) = x"
  by (cases x) (simp add: sessionTextToWire_def sessionTextToService_def trip)

lemma trip_SessionReasoningPayload [trip]:
  "sessionReasoningToService (sessionReasoningToWire x) = x"
  by (cases x) (simp add: sessionReasoningToWire_def sessionReasoningToService_def trip)

definition seen_SessionToolCallPayload :: "SessionToolCallPayload \<Rightarrow> SessionToolCallPayload" where
  "seen_SessionToolCallPayload x = x\<lparr>
     SessionToolCallPayload_ToolCall := seen_ToolCall (SessionToolCallPayload_ToolCall x)\<rparr>"

lemma trip_SessionToolCallPayload [trip]:
  "sessionToolCallToService (received_wireSessionToolCallPayload (sessionToolCallToWire x)) = seen_SessionToolCallPayload x"
  by (cases x) (simp add: sessionToolCallToWire_def sessionToolCallToService_def
      received_wireSessionToolCallPayload_def seen_SessionToolCallPayload_def trip)

lemma trip_SessionToolResultPayload [trip]:
  "sessionToolResultToService (sessionToolResultToWire x) = x"
  by (cases x) (simp add: sessionToolResultToWire_def sessionToolResultToService_def trip)

lemma trip_SessionFileChangePayload [trip]:
  "sessionFileChangeToService (sessionFileChangeToWire x) = x"
  by (cases x) (simp add: sessionFileChangeToWire_def sessionFileChangeToService_def trip)

lemma trip_SessionShellExecPayload [trip]:
  "sessionShellExecToService (sessionShellExecToWire x) = x"
  by (cases x) (simp add: sessionShellExecToWire_def sessionShellExecToService_def trip)

lemma trip_SessionWorkerSpawnPayload [trip]:
  "sessionWorkerSpawnToService (sessionWorkerSpawnToWire x) = x"
  by (cases x) (simp add: sessionWorkerSpawnToWire_def sessionWorkerSpawnToService_def trip)

lemma trip_SessionKBPayload [trip]:
  "sessionKBToService (sessionKBToWire x) = x"
  by (cases x) (simp add: sessionKBToWire_def sessionKBToService_def trip)

lemma trip_SessionDonePayload [trip]:
  "sessionDoneToService (sessionDoneToWire x) = x"
  by (cases x) (simp add: sessionDoneToWire_def sessionDoneToService_def trip)

lemma trip_SessionPromptPayload [trip]:
  "sessionPromptToService (sessionPromptToWire x) = x"
  by (cases x) (simp add: sessionPromptToWire_def sessionPromptToService_def trip)

lemma trip_SessionMetaPayload [trip]:
  "sessionMetaToService (sessionMetaToWire x) = x"
  by (cases x) (simp add: sessionMetaToWire_def sessionMetaToService_def trip)

lemma trip_SessionContextPayload [trip]:
  "sessionContextToService (sessionContextToWire x) = x"
  by (cases x) (simp add: sessionContextToWire_def sessionContextToService_def trip)

lemma trip_OperationCompletedPayload [trip]:
  "operationCompletedToService (operationCompletedToWire x) = x"
  by (cases x) (simp add: operationCompletedToWire_def operationCompletedToService_def trip)

lemma trip_OperationFailedPayload [trip]:
  "operationFailedToService (operationFailedToWire x) = x"
  by (cases x) (simp add: operationFailedToWire_def operationFailedToService_def trip)

lemma trip_HeartbeatPayload [trip]:
  "heartbeatToService (heartbeatToWire x) = x"
  by (cases x) (simp add: heartbeatToWire_def heartbeatToService_def trip)

lemma trip_ConnectionLostPayload [trip]:
  "connectionLostToService (connectionLostToWire x) = x"
  by (cases x) (simp add: connectionLostToWire_def connectionLostToService_def trip)

lemma trip_GraphNodeStartedPayload [trip]:
  "graphNodeStartedToService (graphNodeStartedToWire x) = x"
  by (cases x) (simp add: graphNodeStartedToWire_def graphNodeStartedToService_def trip)

lemma trip_GraphNodeCompletedPayload [trip]:
  "graphNodeCompletedToService (graphNodeCompletedToWire x) = x"
  by (cases x) (simp add: graphNodeCompletedToWire_def graphNodeCompletedToService_def trip)

lemma trip_GraphCompletedPayload [trip]:
  "graphCompletedToService (graphCompletedToWire x) = x"
  by (cases x) (simp add: graphCompletedToWire_def graphCompletedToService_def trip)

lemma trip_GraphFailedPayload [trip]:
  "graphFailedToService (graphFailedToWire x) = x"
  by (cases x) (simp add: graphFailedToWire_def graphFailedToService_def trip)

section \<open>The payload of an event\<close>

text \<open>The dynamic type of \<open>Event.Payload\<close>; \<open>PNil\<close> is an event without one.\<close>

datatype payload =
    PNil
  | POperatorText OperatorTextPayload
  | POperatorToolCall OperatorToolCallPayload
  | POperatorDone OperatorDonePayload
  | POperatorCompaction OperatorCompactionPayload
  | PSessionCompaction SessionCompactionPayload
  | PBlockerAdded Blocker
  | PBlockerResolved BlockerResolvedPayload
  | PJobCreated JobCreatedPayload
  | PTaskCreated TaskCreatedPayload
  | PTaskAssigned TaskAssignedPayload
  | PTaskStarted TaskStartedPayload
  | PTaskCompleted TaskCompletedPayload
  | PTaskFailed TaskFailedPayload
  | PJobCompleted JobCompletedPayload
  | PProgressUpdate ProgressUpdatePayload
  | PSessionStarted SessionStartedPayload
  | PSessionText SessionTextPayload
  | PSessionReasoning SessionReasoningPayload
  | PSessionToolCall SessionToolCallPayload
  | PSessionToolResult SessionToolResultPayload
  | PSessionFileChange SessionFileChangePayload
  | PSessionShellExec SessionShellExecPayload
  | PSessionWorkerSpawn SessionWorkerSpawnPayload
  | PSessionKB SessionKBPayload
  | PSessionDone SessionDonePayload
  | PSessionPrompt SessionPromptPayload
  | PSessionMeta SessionMetaPayload
  | PSessionContext SessionContextPayload
  | POperationCompleted OperationCompletedPayload
  | POperationFailed OperationFailedPayload
  | PHeartbeat HeartbeatPayload
  | PConnectionLost ConnectionLostPayload
  | PConnectionRestored
  | PGraphNodeStarted GraphNodeStartedPayload
  | PGraphNodeCompleted GraphNodeCompletedPayload
  | PGraphCompleted GraphCompletedPayload
  | PGraphFailed GraphFailedPayload

primrec EventPayloadToWire :: "payload \<Rightarrow> json" where
  "EventPayloadToWire PNil = JNull"
| "EventPayloadToWire (POperatorText p) = wireOperatorTextPayload_json (operatorTextToWire p)"
| "EventPayloadToWire (POperatorToolCall p) = wireOperatorToolCallPayload_json (operatorToolCallToWire p)"
| "EventPayloadToWire (POperatorDone p) = wireOperatorDonePayload_json (operatorDoneToWire p)"
| "EventPayloadToWire (POperatorCompaction p) = wireOperatorCompactionPayload_json (operatorCompactionToWire p)"
| "EventPayloadToWire (PSessionCompaction p) = wireSessionCompactionPayload_json (sessionCompactionToWire p)"
| "EventPayloadToWire (PBlockerAdded p) = wireBlockerPayload_json (blockerToWire p)"
| "EventPayloadToWire (PBlockerResolved p) = wireBlockerResolvedPayload_json (blockerResolvedToWire p)"
| "EventPayloadToWire (PJobCreated p) = wireJobCreatedPayload_json (jobCreatedToWire p)"
| "EventPayloadToWire (PTaskCreated p) = wireTaskCreatedPayload_json (taskCreatedToWire p)"
| "EventPayloadToWire (PTaskAssigned p) = wireTaskAssignedPayload_json (taskAssignedToWire p)"
| "EventPayloadToWire (PTaskStarted p) = wireTaskStartedPayload_json (taskStartedToWire p)"
| "EventPayloadToWire (PTaskCompleted p) = wireTaskCompletedPayload_json (taskCompletedToWire p)"
| "EventPayloadToWire (PTaskFailed p) = wireTaskFailedPayload_json (taskFailedToWire p)"
| "EventPayloadToWire (PJobCompleted p) = wireJobCompletedPayload_json (jobCompletedToWire p)"
| "EventPayloadToWire (PProgressUpdate p) = wireProgressUpdatePayload_json (progressUpdateToWire p)"
| "EventPayloadToWire (PSessionStarted p) = wireSessionStartedPayload_json (sessionStartedToWire p)"
| "EventPayloadToWire (PSessionText p) = wireSessionTextPayload_json (sessionTextToWire p)"
| "EventPayloadToWire (PSessionReasoning p) = wireSessionReasoningPayload_json (sessionReasoningToWire p)"
| "EventPayloadToWire (PSessionToolCall p) = wireSessionToolCallPayload_json (sessionToolCallToWire p)"
| "EventPayloadToWire (PSessionToolResult p) = wireSessionToolResultPayload_json (sessionToolResultToWire p)"
| "EventPayloadToWire (PSessionFileChange p) = wireSessionFileChangePayload_json (sessionFileChangeToWire p)"
| "EventPayloadToWire (PSessionShellExec p) = wireSessionShellExecPayload_json (sessionShellExecToWire p)"
| "EventPayloadToWire (PSessionWorkerSpawn p) = wireSessionWorkerSpawnPayload_json (sessionWorkerSpawnToWire p)"
| "EventPayloadToWire (PSessionKB p) = wireSessionKBPayload_json (sessionKBToWire p)"
| "EventPayloadToWire (PSessionDone p) = wireSessionDonePayload_json (sessionDoneToWire p)"
| "EventPayloadToWire (PSessionPrompt p) = wireSessionPromptPayload_json (sessionPromptToWire p)"
| "EventPayloadToWire (PSessionMeta p) = wireSessionMetaPayload_json (sessionMetaToWire p)"
| "EventPayloadToWire (PSessionContext p) = wireSessionContextPayload_json (sessionContextToWire p)"
| "EventPayloadToWire (POperationCompleted p) = wireOperationCompletedPayload_json (operationCompletedToWire p)"
| "EventPayloadToWire (POperationFailed p) = wireOperationFailedPayload_json (operationFailedToWire p)"
| "EventPayloadToWire (PHeartbeat p) = wireHeartbeatPayload_json (heartbeatToWire p)"
| "EventPayloadToWire (PConnectionLost p) = wireConnectionLostPayload_json (connectionLostToWire p)"
| "EventPayloadToWire PConnectionRestored = JObj []"
| "EventPayloadToWire (PGraphNodeStarted p) = wireGraphNodeStartedPayload_json (graphNodeStartedToWire p)"
| "EventPayloadToWire (PGraphNodeCompleted p) = wireGraphNodeCompletedPayload_json (graphNodeCompletedToWire p)"
| "EventPayloadToWire (PGraphCompleted p) = wireGraphCompletedPayload_json (graphCompletedToWire p)"
| "EventPayloadToWire (PGraphFailed p) = wireGraphFailedPayload_json (graphFailedToWire p)"

text \<open>The event type a payload is sent under.\<close>

primrec event_type :: "payload \<Rightarrow> string" where
  "event_type PNil = ''definitions.reloaded''"
| "event_type (POperatorText p) = ''operator.text''"
| "event_type (POperatorToolCall p) = ''operator.tool_call''"
| "event_type (POperatorDone p) = ''operator.done''"
| "event_type (POperatorCompaction p) = ''operator.compaction''"
| "event_type (PSessionCompaction p) = ''session.compaction''"
| "event_type (PBlockerAdded p) = ''blocker.added''"
| "event_type (PBlockerResolved p) = ''blocker.resolved''"
| "event_type (PJobCreated p) = ''job.created''"
| "event_type (PTaskCreated p) = ''task.created''"
| "event_type (PTaskAssigned p) = ''task.assigned''"
| "event_type (PTaskStarted p) = ''task.started''"
| "event_type (PTaskCompleted p) = ''task.completed''"
| "event_type (PTaskFailed p) = ''task.failed''"
| "event_type (PJobCompleted p) = ''job.completed''"
| "event_type (PProgressUpdate p) = ''progress.update''"
| "event_type (PSessionStarted p) = ''session.started''"
| "event_type (PSessionText p) = ''session.text''"
| "event_type (PSessionReasoning p) = ''session.reasoning''"
| "event_type (PSessionToolCall p) = ''session.tool_call''"
| "event_type (PSessionToolResult p) = ''session.tool_result''"
| "event_type (PSessionFileChange p) = ''session.file_change''"
| "event_type (PSessionShellExec p) = ''session.shell_exec''"
| "event_type (PSessionWorkerSpawn p) = ''session.worker_spawn''"
| "event_type (PSessionKB p) = ''session.kb''"
| "event_type (PSessionDone p) = ''session.done''"
| "event_type (PSessionPrompt p) = ''session.prompt''"
| "event_type (PSessionMeta p) = ''session.meta''"
| "event_type (PSessionContext p) = ''session.context''"
| "event_type (POperationCompleted p) = ''operation.completed''"
| "event_type (POperationFailed p) = ''operation.failed''"
| "event_type (PHeartbeat p) = ''heartbeat''"
| "event_type (PConnectionLost p) = ''connection.lost''"
| "event_type PConnectionRestored = ''connection.restored''"
| "event_type (PGraphNodeStarted p) = ''graph.node_started''"
| "event_type (PGraphNodeCompleted p) = ''graph.node_completed''"
| "event_type (PGraphCompleted p) = ''graph.completed''"
| "event_type (PGraphFailed p) = ''graph.failed''"

text \<open>Decoding one payload; the cause that \<open>json.Unmarshal\<close> adds to the message is left out.\<close>

definition decode_payload :: "string \<Rightarrow> 'w fields \<Rightarrow> 'w \<Rightarrow> ('w \<Rightarrow> payload) \<Rightarrow> string \<Rightarrow> string + payload" where
  "decode_payload ty fs zero conv raw =
     (case Option.bind (parse_json raw) (\<lambda>j. read_struct fs j zero) of
        None \<Rightarrow> Inl (''decoding '' @ ty @ '' payload'')
      | Some w \<Rightarrow> Inr (conv w))"

definition payload_readers :: "(string \<times> (string \<Rightarrow> string + payload)) list" where
  "payload_readers =
     [(''operator.text'', decode_payload ''operator.text'' wireOperatorTextPayload_fields zero_wireOperatorTextPayload (\<lambda>w. POperatorText (operatorTextToService w))),
      (''operator.tool_call'', decode_payload ''operator.tool_call'' wireOperatorToolCallPayload_fields zero_wireOperatorToolCallPayload (\<lambda>w. POperatorToolCall (operatorToolCallToService w))),
      (''operator.done'', decode_payload ''operator.done'' wireOperatorDonePayload_fields zero_wireOperatorDonePayload (\<lambda>w. POperatorDone (operatorDoneToService w))),
      (''operator.compaction'', decode_payload ''operator.compaction'' wireOperatorCompactionPayload_fields zero_wireOperatorCompactionPayload (\<lambda>w. POperatorCompaction (operatorCompactionToService w))),
      (''session.compaction'', decode_payload ''session.compaction'' wireSessionCompactionPayload_fields zero_wireSessionCompactionPayload (\<lambda>w. PSessionCompaction (sessionCompactionToService w))),
      (''blocker.added'', decode_payload ''blocker.added'' wireBlockerPayload_fields zero_wireBlockerPayload (\<lambda>w. PBlockerAdded (blockerToService w))),
      (''blocker.resolved'', decode_payload ''blocker.resolved'' wireBlockerResolvedPayload_fields zero_wireBlockerResolvedPayload (\<lambda>w. PBlockerResolved (blockerResolvedToService w))),
      (''job.created'', decode_payload ''job.created'' wireJobCreatedPayload_fields zero_wireJobCreatedPayload (\<lambda>w. PJobCreated (jobCreatedToService w))),
      (''task.created'', decode_payload ''task.created'' wireTaskCreatedPayload_fields zero_wireTaskCreatedPayload (\<lambda>w. PTaskCreated (taskCreatedToService w))),
      (''task.assigned'', decode_payload ''task.assigned'' wireTaskAssignedPayload_fields zero_wireTaskAssignedPayload (\<lambda>w. PTaskAssigned (taskAssignedToService w))),
      (''task.started'', decode_payload ''task.started'' wireTaskStartedPayload_fields zero_wireTaskStartedPayload (\<lambda>w. PTaskStarted (taskStartedToService w))),
      (''task.completed'', decode_payload ''task.completed'' wireTaskCompletedPayload_fields zero_wireTaskCompletedPayload (\<lambda>w. PTaskCompleted (taskCompletedToService w))),
      (''task.failed'', decode_payload ''task.failed'' wireTaskFailedPayload_fields zero_wireTaskFailedPayload (\<lambda>w. PTaskFailed (taskFailedToService w))),
      (''job.completed'', decode_payload ''job.completed'' wireJobCompletedPayload_fields zero_wireJobCompletedPayload (\<lambda>w. PJobCompleted (jobCompletedToService w))),
      (''progress.update'', decode_payload ''progress.update'' wireProgressUpdatePayload_fields zero_wireProgressUpdatePayload (\<lambda>w. PProgressUpdate (progressUpdateToService w))),
      (''session.started'', decode_payload ''session.started'' wireSessionStartedPayload_fields zero_wireSessionStartedPayload (\<lambda>w. PSessionStarted (sessionStartedToService w))),
      (''session.text'', decode_payload ''session.text'' wireSessionTextPayload_fields zero_wireSessionTextPayload (\<lambda>w. PSessionText (sessionTextToService w))),
      (''session.reasoning'', decode_payload ''session.reasoning'' wireSessionReasoningPayload_fields zero_wireSessionReasoningPayload (\<lambda>w. PSessionReasoning (sessionReasoningToService w))),
      (''session.tool_call'', decode_payload ''session.tool_call'' wireSessionToolCallPayload_fields zero_wireSessionToolCallPayload (\<lambda>w. PSessionToolCall (sessionToolCallToService w))),
      (''session.tool_result'', decode_payload ''session.tool_result'' wireSessionToolResultPayload_fields zero_wireSessionToolResultPayload (\<lambda>w. PSessionToolResult (sessionToolResultToService w))),
      (''session.file_change'', decode_payload ''session.file_change'' wireSessionFileChangePayload_fields zero_wireSessionFileChangePayload (\<lambda>w. PSessionFileChange (sessionFileChangeToService w))),
      (''session.shell_exec'', decode_payload ''session.shell_exec'' wireSessionShellExecPayload_fields zero_wireSessionShellExecPayload (\<lambda>w. PSessionShellExec (sessionShellExecToService w))),
      (''session.worker_spawn'', decode_payload ''session.worker_spawn'' wireSessionWorkerSpawnPayload_fields zero_wireSessionWorkerSpawnPayload (\<lambda>w. PSessionWorkerSpawn (sessionWorkerSpawnToService w))),
      (''session.kb'', decode_payload ''session.kb'' wireSessionKBPayload_fields zero_wireSessionKBPayload (\<lambda>w. PSessionKB (sessionKBToService w))),
      (''session.done'', decode_payload ''session.done'' wireSessionDonePayload_fields zero_wireSessionDonePayload (\<lambda>w. PSessionDone (sessionDoneToService w))),
      (''session.prompt'', decode_payload ''session.prompt'' wireSessionPromptPayload_fields zero_wireSessionPromptPayload (\<lambda>w. PSessionPrompt (sessionPromptToService w))),
      (''session.meta'', decode_payload ''session.meta'' wireSessionMetaPayload_fields zero_wireSessionMetaPayload (\<lambda>w. PSessionMeta (sessionMetaToService w))),
      (''session.context'', decode_payload ''session.context'' wireSessionContextPayload_fields zero_wireSessionContextPayload (\<lambda>w. PSessionContext (sessionContextToService w))),
      (''operation.completed'', decode_payload ''operation.completed'' wireOperationCompletedPayload_fields zero_wireOperationCompletedPayload (\<lambda>w. POperationCompleted (operationCompletedToService w))),
      (''operation.failed'', decode_payload ''operation.failed'' wireOperationFailedPayload_fields zero_wireOperationFailedPayload (\<lambda>w. POperationFailed (operationFailedToService w))),
      (''heartbeat'', decode_payload ''heartbeat'' wireHeartbeatPayload_fields zero_wireHeartbeatPayload (\<lambda>w. PHeartbeat (heartbeatToService w))),
      (''connection.lost'', decode_payload ''connection.lost'' wireConnectionLostPayload_fields zero_wireConnectionLostPayload (\<lambda>w. PConnectionLost (connectionLostToService w))),
      (''connection.restored'', \<lambda>raw. Inr PConnectionRestored),
      (''graph.node_started'', decode_payload ''graph.node_started'' wireGraphNodeStartedPayload_fields zero_wireGraphNodeStartedPayload (\<lambda>w. PGraphNodeStarted (graphNodeStartedToService w))),
      (''graph.node_completed'', decode_payload ''graph.node_completed'' wireGraphNodeCompletedPayload_fields zero_wireGraphNodeCompletedPayload (\<lambda>w. PGraphNodeCompleted (graphNodeCompletedToService w))),
      (''graph.completed'', decode_payload ''graph.completed'' wireGraphCompletedPayload_fields zero_wireGraphCompletedPayload (\<lambda>w. PGraphCompleted (graphCompletedToService w))),
      (''graph.failed'', decode_payload ''graph.failed'' wireGraphFailedPayload_fields zero_wireGraphFailedPayload (\<lambda>w. PGraphFailed (graphFailedToService w)))]"

definition ParseSSEPayload :: "string \<Rightarrow> string \<Rightarrow> string + payload" where
  "ParseSSEPayload ty raw =
     (if ty = ''definitions.reloaded'' then Inr PNil
      else if raw = [] \<or> raw = ''null'' then Inr PNil
      else case map_of payload_readers ty of
             Some rd \<Rightarrow> rd raw
           | None \<Rightarrow> Inr PNil)"

text \<open>Its times, numbers and documents can be written.\<close>

primrec payload_ok :: "payload \<Rightarrow> bool" where
  "payload_ok PNil \<longleftrightarrow> True"
| "payload_ok (POperatorText p) \<longleftrightarrow> True"
| "payload_ok (POperatorToolCall p) \<longleftrightarrow> wireOperatorToolCallPayload_ok (operatorToolCallToWire p)"
| "payload_ok (POperatorDone p) \<longleftrightarrow> True"
| "payload_ok (POperatorCompaction p) \<longleftrightarrow> True"
| "payload_ok (PSessionCompaction p) \<longleftrightarrow> True"
| "payload_ok (PBlockerAdded p) \<longleftrightarrow> wireBlockerPayload_ok (blockerToWire p)"
| "payload_ok (PBlockerResolved p) \<longleftrightarrow> True"
| "payload_ok (PJobCreated p) \<longleftrightarrow> True"
| "payload_ok (PTaskCreated p) \<longleftrightarrow> True"
| "payload_ok (PTaskAssigned p) \<longleftrightarrow> True"
| "payload_ok (PTaskStarted p) \<longleftrightarrow> True"
| "payload_ok (PTaskCompleted p) \<longleftrightarrow> True"
| "payload_ok (PTaskFailed p) \<longleftrightarrow> True"
| "payload_ok (PJobCompleted p) \<longleftrightarrow> wireJobCompletedPayload_ok (jobCompletedToWire p)"
| "payload_ok (PProgressUpdate p) \<longleftrightarrow> wireProgressUpdatePayload_ok (progressUpdateToWire p)"
| "payload_ok (PSessionStarted p) \<longleftrightarrow> True"
| "payload_ok (PSessionText p) \<longleftrightarrow> True"
| "payload_ok (PSessionReasoning p) \<longleftrightarrow> True"
| "payload_ok (PSessionToolCall p) \<longleftrightarrow> wireSessionToolCallPayload_ok (sessionToolCallToWire p)"
| "payload_ok (PSessionToolResult p) \<longleftrightarrow> True"
| "payload_ok (PSessionFileChange p) \<longleftrightarrow> True"
| "payload_ok (PSessionShellExec p) \<longleftrightarrow> True"
| "payload_ok (PSessionWorkerSpawn p) \<longleftrightarrow> True"
| "payload_ok (PSessionKB p) \<longleftrightarrow> True"
| "payload_ok (PSessionDone p) \<longleftrightarrow> True"
| "payload_ok (PSessionPrompt p) \<longleftrightarrow> True"
| "payload_ok (PSessionMeta p) \<longleftrightarrow> wireSessionMetaPayload_ok (sessionMetaToWire p)"
| "payload_ok (PSessionContext p) \<longleftrightarrow> True"
| "payload_ok (POperationCompleted p) \<longleftrightarrow> True"
| "payload_ok (POperationFailed p) \<longleftrightarrow> True"
| "payload_ok (PHeartbeat p) \<longleftrightarrow> wireHeartbeatPayload_ok (heartbeatToWire p)"
| "payload_ok (PConnectionLost p) \<longleftrightarrow> True"
| "payload_ok PConnectionRestored \<longleftrightarrow> True"
| "payload_ok (PGraphNodeStarted p) \<longleftrightarrow> True"
| "payload_ok (PGraphNodeCompleted p) \<longleftrightarrow> True"
| "payload_ok (PGraphCompleted p) \<longleftrightarrow> True"
| "payload_ok (PGraphFailed p) \<longleftrightarrow> True"

primrec seen_payload :: "payload \<Rightarrow> payload" where
  "seen_payload PNil = PNil"
| "seen_payload (POperatorText p) = POperatorText p"
| "seen_payload (POperatorToolCall p) = POperatorToolCall p"
| "seen_payload (POperatorDone p) = POperatorDone p"
| "seen_payload (POperatorCompaction p) = POperatorCompaction p"
| "seen_payload (PSessionCompaction p) = PSessionCompaction p"
| "seen_payload (PBlockerAdded p) = PBlockerAdded (seen_Blocker p)"
| "seen_payload (PBlockerResolved p) = PBlockerResolved p"
| "seen_payload (PJobCreated p) = PJobCreated p"
| "seen_payload (PTaskCreated p) = PTaskCreated p"
| "seen_payload (PTaskAssigned p) = PTaskAssigned p"
| "seen_payload (PTaskStarted p) = PTaskStarted p"
| "seen_payload (PTaskCompleted p) = PTaskCompleted p"
| "seen_payload (PTaskFailed p) = PTaskFailed p"
| "seen_payload (PJobCompleted p) = PJobCompleted (seen_JobCompletedPayload p)"
| "seen_payload (PProgressUpdate p) = PProgressUpdate (seen_ProgressUpdatePayload p)"
| "seen_payload (PSessionStarted p) = PSessionStarted p"
| "seen_payload (PSessionText p) = PSessionText p"
| "seen_payload (PSessionReasoning p) = PSessionReasoning p"
| "seen_payload (PSessionToolCall p) = PSessionToolCall (seen_SessionToolCallPayload p)"
| "seen_payload (PSessionToolResult p) = PSessionToolResult p"
| "seen_payload (PSessionFileChange p) = PSessionFileChange p"
| "seen_payload (PSessionShellExec p) = PSessionShellExec p"
| "seen_payload (PSessionWorkerSpawn p) = PSessionWorkerSpawn p"
| "seen_payload (PSessionKB p) = PSessionKB p"
| "seen_payload (PSessionDone p) = PSessionDone p"
| "seen_payload (PSessionPrompt p) = PSessionPrompt p"
| "seen_payload (PSessionMeta p) = PSessionMeta p"
| "seen_payload (PSessionContext p) = PSessionContext p"
| "seen_payload (POperationCompleted p) = POperationCompleted p"
| "seen_payload (POperationFailed p) = POperationFailed p"
| "seen_payload (PHeartbeat p) = PHeartbeat p"
| "seen_payload (PConnectionLost p) = PConnectionLost p"
| "seen_payload PConnectionRestored = PConnectionRestored"
| "seen_payload (PGraphNodeStarted p) = PGraphNodeStarted p"
| "seen_payload (PGraphNodeCompleted p) = PGraphNodeCompleted p"
| "seen_payload (PGraphCompleted p) = PGraphCompleted p"
| "seen_payload (PGraphFailed p) = PGraphFailed p"

section \<open>Decoding what was sent\<close>

lemma decode_written:
  assumes "reads (read_struct fs) f g P zero" "P w"
  shows "decode_payload ty fs zero conv (encode (f w)) = Inr (conv (g w))"
  using readsD [OF assms] parse_encode [of "f w"] by (simp add: decode_payload_def)

lemma encoded_struct:
  assumes "j = JObj ms"
  shows "encode j \<noteq> []" "encode j \<noteq> ''null''"
  using assms by simp_all

text \<open>The decoding of the case an event type selects.\<close>

lemma parse_selected:
  assumes "map_of payload_readers ty = Some (decode_payload ty fs zero conv)"
    and "ty \<noteq> ''definitions.reloaded''" and "reads (read_struct fs) f g P zero" and "P w" and "f w = JObj ms"
  shows "ParseSSEPayload ty (encode (f w)) = Inr (conv (g w))"
  using assms(1,2) encoded_struct [OF assms(5)] decode_written [OF assms(3,4), of ty conv]
  by (simp add: ParseSSEPayload_def)

lemma parse_POperatorText:
  "ParseSSEPayload ''operator.text'' (encode (wireOperatorTextPayload_json (operatorTextToWire p)))
    = Inr (POperatorText p)"
  using parse_selected [OF _ _ reads_wireOperatorTextPayload,
    where ty = "''operator.text''"
      and conv = "\<lambda>w. POperatorText (operatorTextToService w)" and w = "operatorTextToWire p"]
  by (simp add: payload_readers_def wireOperatorTextPayload_json_def trip)

lemma parse_POperatorToolCall:
  "wireOperatorToolCallPayload_ok (operatorToolCallToWire p) \<Longrightarrow>
   ParseSSEPayload ''operator.tool_call'' (encode (wireOperatorToolCallPayload_json (operatorToolCallToWire p)))
    = Inr (POperatorToolCall p)"
  using parse_selected [OF _ _ reads_wireOperatorToolCallPayload,
    where ty = "''operator.tool_call''"
      and conv = "\<lambda>w. POperatorToolCall (operatorToolCallToService w)" and w = "operatorToolCallToWire p"]
  by (simp add: payload_readers_def wireOperatorToolCallPayload_json_def trip)

lemma parse_POperatorDone:
  "ParseSSEPayload ''operator.done'' (encode (wireOperatorDonePayload_json (operatorDoneToWire p)))
    = Inr (POperatorDone p)"
  using parse_selected [OF _ _ reads_wireOperatorDonePayload,
    where ty = "''operator.done''"
      and conv = "\<lambda>w. POperatorDone (operatorDoneToService w)" and w = "operatorDoneToWire p"]
  by (simp add: payload_readers_def wireOperatorDonePayload_json_def trip)

lemma parse_POperatorCompaction:
  "ParseSSEPayload ''operator.compaction'' (encode (wireOperatorCompactionPayload_json (operatorCompactionToWire p)))
    = Inr (POperatorCompaction p)"
  using parse_selected [OF _ _ reads_wireOperatorCompactionPayload,
    where ty = "''operator.compaction''"
      and conv = "\<lambda>w. POperatorCompaction (operatorCompactionToService w)" and w = "operatorCompactionToWire p"]
  by (simp add: payload_readers_def wireOperatorCompactionPayload_json_def trip)

lemma parse_PSessionCompaction:
  "ParseSSEPayload ''session.compaction'' (encode (wireSessionCompactionPayload_json (sessionCompactionToWire p)))
    = Inr (PSessionCompaction p)"
  using parse_selected [OF _ _ reads_wireSessionCompactionPayload,
    where ty = "''session.compaction''"
      and conv = "\<lambda>w. PSessionCompaction (sessionCompactionToService w)" and w = "sessionCompactionToWire p"]
  by (simp add: payload_readers_def wireSessionCompactionPayload_json_def trip)

lemma parse_PBlockerAdded:
  "wireBlockerPayload_ok (blockerToWire p) \<Longrightarrow>
   ParseSSEPayload ''blocker.added'' (encode (wireBlockerPayload_json (blockerToWire p)))
    = Inr (PBlockerAdded (seen_Blocker p))"
  using parse_selected [OF _ _ reads_wireBlockerPayload,
    where ty = "''blocker.added''"
      and conv = "\<lambda>w. PBlockerAdded (blockerToService w)" and w = "blockerToWire p"]
  by (simp add: payload_readers_def wireBlockerPayload_json_def trip)

lemma parse_PBlockerResolved:
  "ParseSSEPayload ''blocker.resolved'' (encode (wireBlockerResolvedPayload_json (blockerResolvedToWire p)))
    = Inr (PBlockerResolved p)"
  using parse_selected [OF _ _ reads_wireBlockerResolvedPayload,
    where ty = "''blocker.resolved''"
      and conv = "\<lambda>w. PBlockerResolved (blockerResolvedToService w)" and w = "blockerResolvedToWire p"]
  by (simp add: payload_readers_def wireBlockerResolvedPayload_json_def trip)

lemma parse_PJobCreated:
  "ParseSSEPayload ''job.created'' (encode (wireJobCreatedPayload_json (jobCreatedToWire p)))
    = Inr (PJobCreated p)"
  using parse_selected [OF _ _ reads_wireJobCreatedPayload,
    where ty = "''job.created''"
      and conv = "\<lambda>w. PJobCreated (jobCreatedToService w)" and w = "jobCreatedToWire p"]
  by (simp add: payload_readers_def wireJobCreatedPayload_json_def trip)

lemma parse_PTaskCreated:
  "ParseSSEPayload ''task.created'' (encode (wireTaskCreatedPayload_json (taskCreatedToWire p)))
    = Inr (PTaskCreated p)"
  using parse_selected [OF _ _ reads_wireTaskCreatedPayload,
    where ty = "''task.created''"
      and conv = "\<lambda>w. PTaskCreated (taskCreatedToService w)" and w = "taskCreatedToWire p"]
  by (simp add: payload_readers_def wireTaskCreatedPayload_json_def trip)

lemma parse_PTaskAssigned:
  "ParseSSEPayload ''task.assigned'' (encode (wireTaskAssignedPayload_json (taskAssignedToWire p)))
    = Inr (PTaskAssigned p)"
  using parse_selected [OF _ _ reads_wireTaskAssignedPayload,
    where ty = "''task.assigned''"
      and conv = "\<lambda>w. PTaskAssigned (taskAssignedToService w)" and w = "taskAssignedToWire p"]
  by (simp add: payload_readers_def wireTaskAssignedPayload_json_def trip)

lemma parse_PTaskStarted:
  "ParseSSEPayload ''task.started'' (encode (wireTaskStartedPayload_json (taskStartedToWire p)))
    = Inr (PTaskStarted p)"
  using parse_selected [OF _ _ reads_wireTaskStartedPayload,
    where ty = "''task.started''"
      and conv = "\<lambda>w. PTaskStarted (taskStartedToService w)" and w = "taskStartedToWire p"]
  by (simp add: payload_readers_def wireTaskStartedPayload_json_def trip)

lemma parse_PTaskCompleted:
  "ParseSSEPayload ''task.completed'' (encode (wireTaskCompletedPayload_json (taskCompletedToWire p)))
    = Inr (PTaskCompleted p)"
  using parse_selected [OF _ _ reads_wireTaskCompletedPayload,
    where ty = "''task.completed''"
      and conv = "\<lambda>w. PTaskCompleted (taskCompletedToService w)" and w = "taskCompletedToWire p"]
  by (simp add: payload_readers_def wireTaskCompletedPayload_json_def trip)

lemma parse_PTaskFailed:
  "ParseSSEPayload ''task.failed'' (encode (wireTaskFailedPayload_json (taskFailedToWire p)))
    = Inr (PTaskFailed p)"
  using parse_selected [OF _ _ reads_wireTaskFailedPayload,
    where ty = "''task.failed''"
      and conv = "\<lambda>w. PTaskFailed (taskFailedToService w)" and w = "taskFailedToWire p"]
  by (simp add: payload_readers_def wireTaskFailedPayload_json_def trip)

lemma parse_PJobCompleted:
  "wireJobCompletedPayload_ok (jobCompletedToWire p) \<Longrightarrow>
   ParseSSEPayload ''job.completed'' (encode (wireJobCompletedPayload_json (jobCompletedToWire p)))
    = Inr (PJobCompleted (seen_JobCompletedPayload p))"
  using parse_selected [OF _ _ reads_wireJobCompletedPayload,
    where ty = "''job.completed''"
      and conv = "\<lambda>w. PJobCompleted (jobCompletedToService w)" and w = "jobCompletedToWire p"]
  by (simp add: payload_readers_def wireJobCompletedPayload_json_def trip)

lemma parse_PProgressUpdate:
  "wireProgressUpdatePayload_ok (progressUpdateToWire p) \<Longrightarrow>
   ParseSSEPayload ''progress.update'' (encode (wireProgressUpdatePayload_json (progressUpdateToWire p)))
    = Inr (PProgressUpdate (seen_ProgressUpdatePayload p))"
  using parse_selected [OF _ _ reads_wireProgressUpdatePayload,
    where ty = "''progress.update''"
      and conv = "\<lambda>w. PProgressUpdate (progressUpdateToService w)" and w = "progressUpdateToWire p"]
  by (simp add: payload_readers_def wireProgressUpdatePayload_json_def trip)

lemma parse_PSessionStarted:
  "ParseSSEPayload ''session.started'' (encode (wireSessionStartedPayload_json (sessionStartedToWire p)))
    = Inr (PSessionStarted p)"
  using parse_selected [OF _ _ reads_wireSessionStartedPayload,
    where ty = "''session.started''"
      and conv = "\<lambda>w. PSessionStarted (sessionStartedToService w)" and w = "sessionStartedToWire p"]
  by (simp add: payload_readers_def wireSessionStartedPayload_json_def trip)

lemma parse_PSessionText:
  "ParseSSEPayload ''session.text'' (encode (wireSessionTextPayload_json (sessionTextToWire p)))
    = Inr (PSessionText p)"
  using parse_selected [OF _ _ reads_wireSessionTextPayload,
    where ty = "''session.text''"
      and conv = "\<lambda>w. PSessionText (sessionTextToService w)" and w = "sessionTextToWire p"]
  by (simp add: payload_readers_def wireSessionTextPayload_json_def trip)

lemma parse_PSessionReasoning:
  "ParseSSEPayload ''session.reasoning'' (encode (wireSessionReasoningPayload_json (sessionReasoningToWire p)))
    = Inr (PSessionReasoning p)"
  using parse_selected [OF _ _ reads_wireSessionReasoningPayload,
    where ty = "''session.reasoning''"
      and conv = "\<lambda>w. PSessionReasoning (sessionReasoningToService w)" and w = "sessionReasoningToWire p"]
  by (simp add: payload_readers_def wireSessionReasoningPayload_json_def trip)

lemma parse_PSessionToolCall:
  "wireSessionToolCallPayload_ok (sessionToolCallToWire p) \<Longrightarrow>
   ParseSSEPayload ''session.tool_call'' (encode (wireSessionToolCallPayload_json (sessionToolCallToWire p)))
    = Inr (PSessionToolCall (seen_SessionToolCallPayload p))"
  using parse_selected [OF _ _ reads_wireSessionToolCallPayload,
    where ty = "''session.tool_call''"
      and conv = "\<lambda>w. PSessionToolCall (sessionToolCallToService w)" and w = "sessionToolCallToWire p"]
  by (simp add: payload_readers_def wireSessionToolCallPayload_json_def trip)

lemma parse_PSessionToolResult:
  "ParseSSEPayload ''session.tool_result'' (encode (wireSessionToolResultPayload_json (sessionToolResultToWire p)))
    = Inr (PSessionToolResult p)"
  using parse_selected [OF _ _ reads_wireSessionToolResultPayload,
    where ty = "''session.tool_result''"
      and conv = "\<lambda>w. PSessionToolResult (sessionToolResultToService w)" and w = "sessionToolResultToWire p"]
  by (simp add: payload_readers_def wireSessionToolResultPayload_json_def trip)

lemma parse_PSessionFileChange:
  "ParseSSEPayload ''session.file_change'' (encode (wireSessionFileChangePayload_json (sessionFileChangeToWire p)))
    = Inr (PSessionFileChange p)"
  using parse_selected [OF _ _ reads_wireSessionFileChangePayload,
    where ty = "''session.file_change''"
      and conv = "\<lambda>w. PSessionFileChange (sessionFileChangeToService w)" and w = "sessionFileChangeToWire p"]
  by (simp add: payload_readers_def wireSessionFileChangePayload_json_def trip)

lemma parse_PSessionShellExec:
  "ParseSSEPayload ''session.shell_exec'' (encode (wireSessionShellExecPayload_json (sessionShellExecToWire p)))
    = Inr (PSessionShellExec p)"
  using parse_selected [OF _ _ reads_wireSessionShellExecPayload,
    where ty = "''session.shell_exec''"
      and conv = "\<lambda>w. PSessionShellExec (sessionShellExecToService w)" and w = "sessionShellExecToWire p"]
  by (simp add: payload_readers_def wireSessionShellExecPayload_json_def trip)

lemma parse_PSessionWorkerSpawn:
  "ParseSSEPayload ''session.worker_spawn'' (encode (wireSessionWorkerSpawnPayload_json (sessionWorkerSpawnToWire p)))
    = Inr (PSessionWorkerSpawn p)"
  using parse_selected [OF _ _ reads_wireSessionWorkerSpawnPayload,
    where ty = "''session.worker_spawn''"
      and conv = "\<lambda>w. PSessionWorkerSpawn (sessionWorkerSpawnToService w)" and w = "sessionWorkerSpawnToWire p"]
  by (simp add: payload_readers_def wireSessionWorkerSpawnPayload_json_def trip)

lemma parse_PSessionKB:
  "ParseSSEPayload ''session.kb'' (encode (wireSessionKBPayload_json (sessionKBToWire p)))
    = Inr (PSessionKB p)"
  using parse_selected [OF _ _ reads_wireSessionKBPayload,
    where ty = "''session.kb''"
      and conv = "\<lambda>w. PSessionKB (sessionKBToService w)" and w = "sessionKBToWire p"]
  by (simp add: payload_readers_def wireSessionKBPayload_json_def trip)

lemma parse_PSessionDone:
  "ParseSSEPayload ''session.done'' (encode (wireSessionDonePayload_json (sessionDoneToWire p)))
    = Inr (PSessionDone p)"
  using parse_selected [OF _ _ reads_wireSessionDonePayload,
    where ty = "''session.done''"
      and conv = "\<lambda>w. PSessionDone (sessionDoneToService w)" and w = "sessionDoneToWire p"]
  by (simp add: payload_readers_def wireSessionDonePayload_json_def trip)

lemma parse_PSessionPrompt:
  "ParseSSEPayload ''session.prompt'' (encode (wireSessionPromptPayload_json (sessionPromptToWire p)))
    = Inr (PSessionPrompt p)"
  using parse_selected [OF _ _ reads_wireSessionPromptPayload,
    where ty = "''session.prompt''"
      and conv = "\<lambda>w. PSessionPrompt (sessionPromptToService w)" and w = "sessionPromptToWire p"]
  by (simp add: payload_readers_def wireSessionPromptPayload_json_def trip)

lemma parse_PSessionMeta:
  "wireSessionMetaPayload_ok (sessionMetaToWire p) \<Longrightarrow>
   ParseSSEPayload ''session.meta'' (encode (wireSessionMetaPayload_json (sessionMetaToWire p)))
    = Inr (PSessionMeta p)"
  using parse_selected [OF _ _ reads_wireSessionMetaPayload,
    where ty = "''session.meta''"
      and conv = "\<lambda>w. PSessionMeta (sessionMetaToService w)" and w = "sessionMetaToWire p"]
  by (simp add: payload_readers_def wireSessionMetaPayload_json_def trip)

lemma parse_PSessionContext:
  "ParseSSEPayload ''session.context'' (encode (wireSessionContextPayload_json (sessionContextToWire p)))
    = Inr (PSessionContext p)"
  using parse_selected [OF _ _ reads_wireSessionContextPayload,
    where ty = "''session.context''"
      and conv = "\<lambda>w. PSessionContext (sessionContextToService w)" and w = "sessionContextToWire p"]
  by (simp add: payload_readers_def wireSessionContextPayload_json_def trip)

lemma parse_POperationCompleted:
  "ParseSSEPayload ''operation.completed'' (encode (wireOperationCompletedPayload_json (operationCompletedToWire p)))
    = Inr (POperationCompleted p)"
  using parse_selected [OF _ _ reads_wireOperationCompletedPayload,
    where ty = "''operation.completed''"
      and conv = "\<lambda>w. POperationCompleted (operationCompletedToService w)" and w = "operationCompletedToWire p"]
  by (simp add: payload_readers_def wireOperationCompletedPayload_json_def trip)

lemma parse_POperationFailed:
  "ParseSSEPayload ''operation.failed'' (encode (wireOperationFailedPayload_json (operationFailedToWire p)))
    = Inr (POperationFailed p)"
  using parse_selected [OF _ _ reads_wireOperationFailedPayload,
    where ty = "''operation.failed''"
      and conv = "\<lambda>w. POperationFailed (operationFailedToService w)" and w = "operationFailedToWire p"]
  by (simp add: payload_readers_def wireOperationFailedPayload_json_def trip)

lemma parse_PHeartbeat:
  "wireHeartbeatPayload_ok (heartbeatToWire p) \<Longrightarrow>
   ParseSSEPayload ''heartbeat'' (encode (wireHeartbeatPayload_json (heartbeatToWire p)))
    = Inr (PHeartbeat p)"
  using parse_selected [OF _ _ reads_wireHeartbeatPayload,
    where ty = "''heartbeat''"
      and conv = "\<lambda>w. PHeartbeat (heartbeatToService w)" and w = "heartbeatToWire p"]
  by (simp add: payload_readers_def wireHeartbeatPayload_json_def trip)

lemma parse_PConnectionLost:
  "ParseSSEPayload ''connection.lost'' (encode (wireConnectionLostPayload_json (connectionLostToWire p)))
    = Inr (PConnectionLost p)"
  using parse_selected [OF _ _ reads_wireConnectionLostPayload,
    where ty = "''connection.lost''"
      and conv = "\<lambda>w. PConnectionLost (connectionLostToService w)" and w = "connectionLostToWire p"]
  by (simp add: payload_readers_def wireConnectionLostPayload_json_def trip)

lemma parse_PGraphNodeStarted:
  "ParseSSEPayload ''graph.node_started'' (encode (wireGraphNodeStartedPayload_json (graphNodeStartedToWire p)))
    = Inr (PGraphNodeStarted p)"
  using parse_selected [OF _ _ reads_wireGraphNodeStartedPayload,
    where ty = "''graph.node_started''"
      and conv = "\<lambda>w. PGraphNodeStarted (graphNodeStartedToService w)" and w = "graphNodeStartedToWire p"]
  by (simp add: payload_readers_def wireGraphNodeStartedPayload_json_def trip)

lemma parse_PGraphNodeCompleted:
  "ParseSSEPayload ''graph.node_completed'' (encode (wireGraphNodeCompletedPayload_json (graphNodeCompletedToWire p)))
    = Inr (PGraphNodeCompleted p)"
  using parse_selected [OF _ _ reads_wireGraphNodeCompletedPayload,
    where ty = "''graph.node_completed''"
      and conv = "\<lambda>w. PGraphNodeCompleted (graphNodeCompletedToService w)" and w = "graphNodeCompletedToWire p"]
  by (simp add: payload_readers_def wireGraphNodeCompletedPayload_json_def trip)

lemma parse_PGraphCompleted:
  "ParseSSEPayload ''graph.completed'' (encode (wireGraphCompletedPayload_json (graphCompletedToWire p)))
    = Inr (PGraphCompleted p)"
  using parse_selected [OF _ _ reads_wireGraphCompletedPayload,
    where ty = "''graph.completed''"
      and conv = "\<lambda>w. PGraphCompleted (graphCompletedToService w)" and w = "graphCompletedToWire p"]
  by (simp add: payload_readers_def wireGraphCompletedPayload_json_def trip)

lemma parse_PGraphFailed:
  "ParseSSEPayload ''graph.failed'' (encode (wireGraphFailedPayload_json (graphFailedToWire p)))
    = Inr (PGraphFailed p)"
  using parse_selected [OF _ _ reads_wireGraphFailedPayload,
    where ty = "''graph.failed''"
      and conv = "\<lambda>w. PGraphFailed (graphFailedToService w)" and w = "graphFailedToWire p"]
  by (simp add: payload_readers_def wireGraphFailedPayload_json_def trip)

lemmas parse_payloads =
  parse_POperatorText parse_POperatorToolCall parse_POperatorDone parse_POperatorCompaction
  parse_PSessionCompaction parse_PBlockerAdded parse_PBlockerResolved parse_PJobCreated
  parse_PTaskCreated parse_PTaskAssigned parse_PTaskStarted parse_PTaskCompleted parse_PTaskFailed
  parse_PJobCompleted parse_PProgressUpdate parse_PSessionStarted parse_PSessionText
  parse_PSessionReasoning parse_PSessionToolCall parse_PSessionToolResult parse_PSessionFileChange
  parse_PSessionShellExec parse_PSessionWorkerSpawn parse_PSessionKB parse_PSessionDone
  parse_PSessionPrompt parse_PSessionMeta parse_PSessionContext parse_POperationCompleted
  parse_POperationFailed parse_PHeartbeat parse_PConnectionLost parse_PGraphNodeStarted
  parse_PGraphNodeCompleted parse_PGraphCompleted parse_PGraphFailed

lemmas wf_payloads =
  readsD(1) [OF reads_wireOperatorTextPayload] readsD(1) [OF reads_wireOperatorToolCallPayload]
  readsD(1) [OF reads_wireOperatorDonePayload] readsD(1) [OF reads_wireOperatorCompactionPayload]
  readsD(1) [OF reads_wireSessionCompactionPayload] readsD(1) [OF reads_wireBlockerPayload]
  readsD(1) [OF reads_wireBlockerResolvedPayload] readsD(1) [OF reads_wireJobCreatedPayload]
  readsD(1) [OF reads_wireTaskCreatedPayload] readsD(1) [OF reads_wireTaskAssignedPayload]
  readsD(1) [OF reads_wireTaskStartedPayload] readsD(1) [OF reads_wireTaskCompletedPayload]
  readsD(1) [OF reads_wireTaskFailedPayload] readsD(1) [OF reads_wireJobCompletedPayload]
  readsD(1) [OF reads_wireProgressUpdatePayload] readsD(1) [OF reads_wireSessionStartedPayload]
  readsD(1) [OF reads_wireSessionTextPayload] readsD(1) [OF reads_wireSessionReasoningPayload]
  readsD(1) [OF reads_wireSessionToolCallPayload]
  readsD(1) [OF reads_wireSessionToolResultPayload]
  readsD(1) [OF reads_wireSessionFileChangePayload]
  readsD(1) [OF reads_wireSessionShellExecPayload]
  readsD(1) [OF reads_wireSessionWorkerSpawnPayload] readsD(1) [OF reads_wireSessionKBPayload]
  readsD(1) [OF reads_wireSessionDonePayload] readsD(1) [OF reads_wireSessionPromptPayload]
  readsD(1) [OF reads_wireSessionMetaPayload] readsD(1) [OF reads_wireSessionContextPayload]
  readsD(1) [OF reads_wireOperationCompletedPayload]
  readsD(1) [OF reads_wireOperationFailedPayload] readsD(1) [OF reads_wireHeartbeatPayload]
  readsD(1) [OF reads_wireConnectionLostPayload] readsD(1) [OF reads_wireGraphNodeStartedPayload]
  readsD(1) [OF reads_wireGraphNodeCompletedPayload]
  readsD(1) [OF reads_wireGraphCompletedPayload] readsD(1) [OF reads_wireGraphFailedPayload]

end
