(* ===== verification/EventStream.thy ===== *)
theory EventStream
  imports EventPayloads
begin

text \<open>
  An event as the text of a server-sent event: \<open>writeSSEEvent\<close> (\<open>internal/server/sse.go\<close>), the
  reader shared by the clients (\<open>internal/sse/reader.go\<close>) and the loop of \<open>readSSE\<close>
  (\<open>internal/client/events.go\<close>).
\<close>

section \<open>Writing an event\<close>

record event =
  ev_Seq :: "64 word"
  ev_Type :: string
  ev_Timestamp :: timestamp
  ev_TurnID :: string
  ev_SessionID :: string
  ev_OperationID :: string
  ev_Payload :: payload

definition SSEEvent_json :: "event \<Rightarrow> json" where
  "SSEEvent_json ev =
     JObj (
       member ''seq'' (uint_json (ev_Seq ev)) @
       member ''type'' (JStr (ev_Type ev)) @
       member ''timestamp'' (time_json (ev_Timestamp ev)) @
       omit_if (ev_TurnID ev = '''') ''turn_id'' (JStr (ev_TurnID ev)) @
       omit_if (ev_SessionID ev = '''') ''session_id'' (JStr (ev_SessionID ev)) @
       omit_if (ev_OperationID ev = '''') ''operation_id'' (JStr (ev_OperationID ev)) @
       member ''payload'' (EventPayloadToWire (ev_Payload ev)))"

definition line_feed :: char where
  "line_feed = CHR 0x0A"

definition writeSSEEvent :: "event \<Rightarrow> string" where
  "writeSSEEvent ev =
     ''id: '' @ digits_of (unat (ev_Seq ev)) @ [line_feed] @
     ''event: '' @ ev_Type ev @ [line_feed] @
     ''data: '' @ encode (SSEEvent_json ev) @ [line_feed, line_feed]"

section \<open>Reading the stream\<close>

text \<open>
  \<open>bufio.Scanner\<close> gives the lines without their ends, a trailing carriage return dropped; it stops
  with an error at a line that does not fit its buffer together with the newline.
\<close>

definition maxLineSize :: nat where
  "maxLineSize = 10 * 1024 * 1024"

definition strip_cr :: "string \<Rightarrow> string" where
  "strip_cr l = (if l \<noteq> [] \<and> last l = CHR 0x0D then butlast l else l)"

definition stream_lines :: "string \<Rightarrow> string list" where
  "stream_lines s =
     (let ls = split_byte line_feed s in if last ls = [] then butlast ls else ls)"

definition line_fits :: "string \<Rightarrow> bool" where
  "line_fits l \<longleftrightarrow> length l < maxLineSize"

text \<open>\<open>pump\<close>: the events, as pairs of a type and data, and whether the scanner failed.\<close>

fun pump :: "string \<Rightarrow> string list \<Rightarrow> (string \<times> string) list \<times> bool" where
  "pump ty [] = ([], False)"
| "pump ty (l # ls) =
     (if \<not> line_fits l then ([], True)
      else
        let line = strip_cr l in
        if line = [] then pump [] ls
        else if has_prefix line ''event: '' then pump (trim_prefix line ''event: '') ls
        else if \<not> has_prefix line ''data:'' then pump ty ls
        else
          let (evs, failed) = pump ty ls in
          ((ty, trim_space (trim_prefix line ''data:'')) # evs, failed))"

definition read_frames :: "string \<Rightarrow> (string \<times> string) list \<times> bool" where
  "read_frames s = pump [] (stream_lines s)"

section \<open>The client's side of an event\<close>

record sseEvent =
  sseEvent_Seq :: "64 word"
  sseEvent_Type :: string
  sseEvent_Timestamp :: timestamp
  sseEvent_TurnID :: string
  sseEvent_SessionID :: string
  sseEvent_OperationID :: string
  sseEvent_Payload :: raw

definition zero_sseEvent :: sseEvent where
  "zero_sseEvent = \<lparr>
     sseEvent_Seq = 0, sseEvent_Type = '''', sseEvent_Timestamp = zero_time, sseEvent_TurnID = '''',
     sseEvent_SessionID = '''', sseEvent_OperationID = '''', sseEvent_Payload = None\<rparr>"

definition sseEvent_fields :: "sseEvent fields" where
  "sseEvent_fields =
     [(''seq'', field sseEvent_Seq sseEvent_Seq_update read_uint),
      (''type'', field sseEvent_Type sseEvent_Type_update read_string),
      (''timestamp'', field sseEvent_Timestamp sseEvent_Timestamp_update read_time),
      (''turn_id'', field sseEvent_TurnID sseEvent_TurnID_update read_string),
      (''session_id'', field sseEvent_SessionID sseEvent_SessionID_update read_string),
      (''operation_id'', field sseEvent_OperationID sseEvent_OperationID_update read_string),
      (''payload'', field sseEvent_Payload sseEvent_Payload_update read_raw)]"

definition maxSSEEventSize :: nat where
  "maxSSEEventSize = 10 * 1024 * 1024"

text \<open>One round of the loop of \<open>readSSE\<close>: the event it delivers, if any.\<close>

definition receive_data :: "string \<Rightarrow> event option" where
  "receive_data data =
     (if length data > maxSSEEventSize then None
      else case Option.bind (parse_json data) (\<lambda>j. read_struct sseEvent_fields j zero_sseEvent) of
        None \<Rightarrow> None
      | Some w \<Rightarrow>
          (case ParseSSEPayload (sseEvent_Type w)
                  (case sseEvent_Payload w of None \<Rightarrow> [] | Some j \<Rightarrow> encode j) of
             Inl err \<Rightarrow> None
           | Inr p \<Rightarrow>
               Some \<lparr>ev_Seq = sseEvent_Seq w, ev_Type = sseEvent_Type w,
                     ev_Timestamp = sseEvent_Timestamp w, ev_TurnID = sseEvent_TurnID w,
                     ev_SessionID = sseEvent_SessionID w, ev_OperationID = sseEvent_OperationID w,
                     ev_Payload = p\<rparr>))"

definition readSSE :: "string \<Rightarrow> event list" where
  "readSSE s = List.map_filter (\<lambda>(ty, data). receive_data data) (fst (read_frames s))"

section \<open>The text of a document\<close>

text \<open>An encoded document has no control characters, so it stays on one line.\<close>

definition on_line :: "string \<Rightarrow> bool" where
  "on_line s \<longleftrightarrow> list_all (\<lambda>c. (32 :: nat) \<le> of_char c) s"

lemma on_line_append [simp]: "on_line (s @ t) \<longleftrightarrow> on_line s \<and> on_line t"
  by (simp add: on_line_def)

lemma on_line_Cons [simp]: "on_line (c # t) \<longleftrightarrow> (32 :: nat) \<le> of_char c \<and> on_line t" "on_line []"
  by (simp_all add: on_line_def)

lemma esc_char_on_line: "on_line (esc_char c)"
proof -
  have "n < 16 \<Longrightarrow> (32 :: nat) \<le> of_char (hex_digit n)" for n
    by (simp add: hex_digit_def)
  then show ?thesis
    using of_char_bound [of c] by (auto simp: esc_char_def)
qed

lemma enc_body_on_line: "on_line (enc_body s)"
  by (induction s rule: enc_body.induct) (auto simp: esc_char_on_line)

lemma join_on_line: "on_line sep \<Longrightarrow> list_all on_line xs \<Longrightarrow> on_line (join_strings sep xs)"
  by (induction sep xs rule: join_strings.induct) auto

lemma encode_on_line: "wf_json j \<Longrightarrow> on_line (encode j)"
proof (induction j)
  case (JNum n)
  then show ?case by (auto simp: on_line_def list_all_iff number_char_def is_digit_def)
next
  case (JObj ms)
  have "list_all on_line (map (\<lambda>(k, v). enc_string k @ '':'' @ encode v) ms)"
    using JObj by (force simp: list_all_iff enc_string_def enc_body_on_line)
  then show ?case by (auto intro!: join_on_line)
next
  case (JArr js)
  then show ?case by (auto intro!: join_on_line simp: list_all_iff)
qed (auto simp: enc_string_def enc_body_on_line)


section \<open>What is written is read\<close>

lemma event_type_on_line: "on_line (event_type p)"
  by (cases p) simp_all

lemma payload_wf: "payload_ok p \<Longrightarrow> wf_json (EventPayloadToWire p)"
  by (cases p) (simp_all add: wf_payloads)

lemma parse_written_payload:
  "payload_ok p \<Longrightarrow> ParseSSEPayload (event_type p) (encode (EventPayloadToWire p)) = Inr (seen_payload p)"
proof (cases p)
  case PNil
  then show ?thesis by (simp add: ParseSSEPayload_def)
next
  case PConnectionRestored
  then show ?thesis by (simp add: ParseSSEPayload_def payload_readers_def)
qed (simp_all add: parse_payloads)

definition event_ok :: "event \<Rightarrow> bool" where
  "event_ok ev \<longleftrightarrow>
     payload_ok (ev_Payload ev) \<and> time_ok (ev_Timestamp ev) \<and>
     length (''data: '' @ encode (SSEEvent_json ev)) < maxLineSize"

definition well_typed :: "event \<Rightarrow> bool" where
  "well_typed ev \<longleftrightarrow> ev_Type ev = event_type (ev_Payload ev)"

definition seen_event :: "event \<Rightarrow> event" where
  "seen_event ev = ev\<lparr>ev_Payload := seen_payload (ev_Payload ev)\<rparr>"

lemma SSEEvent_wf: "event_ok ev \<Longrightarrow> wf_json (SSEEvent_json ev)"
  by (simp add: SSEEvent_json_def event_ok_def wire payload_wf)

definition envelope_of :: "event \<Rightarrow> sseEvent" where
  "envelope_of ev = \<lparr>
     sseEvent_Seq = ev_Seq ev, sseEvent_Type = ev_Type ev, sseEvent_Timestamp = ev_Timestamp ev,
     sseEvent_TurnID = ev_TurnID ev, sseEvent_SessionID = ev_SessionID ev,
     sseEvent_OperationID = ev_OperationID ev, sseEvent_Payload = Some (EventPayloadToWire (ev_Payload ev))\<rparr>"

lemma read_envelope:
  "time_ok (ev_Timestamp ev) \<Longrightarrow>
   read_struct sseEvent_fields (SSEEvent_json ev) zero_sseEvent = Some (envelope_of ev)"
  by (cases ev) (simp add: SSEEvent_json_def sseEvent_fields_def zero_sseEvent_def envelope_of_def wire)

lemma receive_written:
  assumes ok: "event_ok ev" and ty: "well_typed ev"
  shows "receive_data (encode (SSEEvent_json ev)) = Some (seen_event ev)"
proof -
  have size: "\<not> length (encode (SSEEvent_json ev)) > maxSSEEventSize"
    using ok by (simp add: event_ok_def maxSSEEventSize_def maxLineSize_def del: encode.simps)
  have "parse_json (encode (SSEEvent_json ev)) = Some (SSEEvent_json ev)"
    using SSEEvent_wf [OF ok] by (rule parse_encode)
  moreover have "ParseSSEPayload (ev_Type ev) (encode (EventPayloadToWire (ev_Payload ev)))
      = Inr (seen_payload (ev_Payload ev))"
    using ok ty parse_written_payload by (simp add: event_ok_def well_typed_def)
  ultimately show ?thesis
    using size ok unfolding receive_data_def
    by (simp add: event_ok_def read_envelope envelope_of_def seen_event_def)
qed

text \<open>The lines of one event.\<close>

definition event_lines :: "event \<Rightarrow> string list" where
  "event_lines ev =
     [''id: '' @ digits_of (unat (ev_Seq ev)), ''event: '' @ ev_Type ev,
      ''data: '' @ encode (SSEEvent_json ev), []]"

lemma on_line_no_feed: "on_line s \<Longrightarrow> line_feed \<notin> set s"
  by (auto simp: on_line_def list_all_iff line_feed_def)

lemma on_line_no_cr: "on_line s \<Longrightarrow> strip_cr s = s"
  by (auto simp: on_line_def list_all_iff strip_cr_def dest!: last_in_set)

lemma digits_on_line: "on_line (digits_of n)"
  using digits_of_digits [of n] by (auto simp: on_line_def list_all_iff is_digit_def)

lemma split_written:
  assumes "event_ok ev" "well_typed ev"
  shows "split_byte line_feed (writeSSEEvent ev @ rest) = event_lines ev @ split_byte line_feed rest"
proof -
  have no: "line_feed \<notin> set (''id: '' @ digits_of (unat (ev_Seq ev)))"
    "line_feed \<notin> set (''event: '' @ ev_Type ev)"
    "line_feed \<notin> set (''data: '' @ encode (SSEEvent_json ev))"
    using assms event_type_on_line encode_on_line [OF SSEEvent_wf [OF assms(1)]] digits_on_line
    by (intro on_line_no_feed; simp add: well_typed_def del: encode.simps)+
  have "writeSSEEvent ev @ rest =
      (''id: '' @ digits_of (unat (ev_Seq ev))) @ line_feed # (''event: '' @ ev_Type ev) @ line_feed #
      (''data: '' @ encode (SSEEvent_json ev)) @ line_feed # [] @ line_feed # rest"
    by (simp add: writeSSEEvent_def)
  also have "split_byte line_feed \<dots> = event_lines ev @ split_byte line_feed rest"
    using split_byte_append [OF no(1)] split_byte_append [OF no(2)] split_byte_append [OF no(3)]
    unfolding event_lines_def by simp
  finally show ?thesis .
qed

lemma stream_lines_written:
  assumes "\<And>ev. ev \<in> set evs \<Longrightarrow> event_ok ev \<and> well_typed ev"
  shows "stream_lines (concat (map writeSSEEvent evs)) = concat (map event_lines evs)"
proof -
  have "split_byte line_feed (concat (map writeSSEEvent evs)) = concat (map event_lines evs) @ [[]]"
    using assms by (induction evs) (simp_all add: split_written)
  then show ?thesis by (simp add: stream_lines_def)
qed

lemma trim_object: "trim_space (CHR '' '' # encode (JObj ms)) = encode (JObj ms)"
proof -
  have "trim_left (CHR '' '' # encode (JObj ms)) = encode (JObj ms)"
    by (simp add: trim_left_def trim_left_by.simps space_encodings_def)
  moreover have "trim_right (encode (JObj ms)) = encode (JObj ms)"
    by (simp add: trim_right_def trim_left_by.simps space_encodings_def)
  ultimately show ?thesis by (simp add: trim_space_def)
qed


lemma digits_length: "n < 10 ^ Suc k \<Longrightarrow> length (digits_of n) \<le> Suc k"
proof (induction k arbitrary: n)
  case 0
  then show ?case by (subst digits_of.simps) simp
next
  case (Suc k)
  then have "n div 10 < 10 ^ Suc k" by (simp add: less_mult_imp_div_less)
  from Suc.IH [OF this] show ?case by (subst digits_of.simps) simp
qed

lemma seq_line_fits: "line_fits (''id: '' @ digits_of (unat (w :: 64 word)))"
proof -
  have "unat w < 10 ^ Suc 19" using unsigned_less [of w, where ?'a = nat] by simp
  from digits_length [OF this] show ?thesis by (simp add: line_fits_def maxLineSize_def)
qed

lemma type_line_fits: "line_fits (''event: '' @ event_type p)"
  by (cases p) (simp_all add: line_fits_def maxLineSize_def)

lemma pump_lines:
  assumes "line_fits l" "strip_cr l = l" "l \<noteq> []"
  shows "\<not> has_prefix l ''event: '' \<Longrightarrow> \<not> has_prefix l ''data:'' \<Longrightarrow> pump t (l # ls) = pump t ls"
    and "has_prefix l ''event: '' \<Longrightarrow> trim_prefix l ''event: '' = x \<Longrightarrow> pump t (l # ls) = pump x ls"
    and "\<not> has_prefix l ''event: '' \<Longrightarrow> has_prefix l ''data:'' \<Longrightarrow>
      trim_space (trim_prefix l ''data:'') = d \<Longrightarrow>
      pump t (l # ls) = ((t, d) # fst (pump t ls), snd (pump t ls))"
  using assms by (simp_all add: split_def Let_def)

lemma pump_written:
  assumes ok: "event_ok ev" and ty: "well_typed ev"
  shows "pump t (event_lines ev @ ls) =
    ((ev_Type ev, encode (SSEEvent_json ev)) # fst (pump [] ls), snd (pump [] ls))"
proof -
  let ?d = "''data: '' @ encode (SSEEvent_json ev)"
  have fits: "line_fits (''id: '' @ digits_of (unat (ev_Seq ev)))" "line_fits (''event: '' @ ev_Type ev)"
    "line_fits ?d" "line_fits []"
    using ok ty seq_line_fits type_line_fits
    by (simp_all add: event_ok_def well_typed_def line_fits_def maxLineSize_def del: encode.simps)
  have cr: "strip_cr (''id: '' @ digits_of (unat (ev_Seq ev))) = ''id: '' @ digits_of (unat (ev_Seq ev))"
    "strip_cr (''event: '' @ ev_Type ev) = ''event: '' @ ev_Type ev" "strip_cr ?d = ?d" "strip_cr [] = []"
    using ty event_type_on_line encode_on_line [OF SSEEvent_wf [OF ok]] digits_on_line
    by (intro on_line_no_cr; simp add: well_typed_def del: encode.simps)+
  have data: "trim_space (trim_prefix ?d ''data:'') = encode (SSEEvent_json ev)"
  proof -
    obtain ms where j: "SSEEvent_json ev = JObj ms" by (simp add: SSEEvent_json_def)
    have "trim_prefix ?d ''data:'' = CHR '' '' # encode (SSEEvent_json ev)"
      using trim_prefix_append [of "''data:''" "CHR '' '' # encode (SSEEvent_json ev)"] by simp
    then show ?thesis unfolding j by (simp only: trim_object)
  qed
  have id: "pump t ((''id: '' @ digits_of (unat (ev_Seq ev))) # xs) = pump t xs" for t xs
    using fits(1) cr(1) by (intro pump_lines(1)) (simp_all add: has_prefix_code)
  have event: "pump t ((''event: '' @ ev_Type ev) # xs) = pump (ev_Type ev) xs" for t xs
    using fits(2) cr(2) by (rule pump_lines(2)) (simp, rule has_prefix_append, rule trim_prefix_append)
  have "has_prefix ?d ''data:''"
    using has_prefix_append [of "''data:''" "'' '' @ encode (SSEEvent_json ev)"] by simp
  then have dt: "pump t (?d # xs) = ((t, encode (SSEEvent_json ev)) # fst (pump t xs), snd (pump t xs))" for t xs
    by (intro pump_lines(3) fits cr data) (simp_all add: has_prefix_code)
  have blank: "pump t ([] # xs) = pump [] xs" for t xs
    using fits(4) cr(4) by simp
  have "event_lines ev @ ls =
      (''id: '' @ digits_of (unat (ev_Seq ev))) # (''event: '' @ ev_Type ev) # ?d # [] # ls"
    by (simp add: event_lines_def)
  then show ?thesis by (simp only: id event dt blank)
qed

lemma read_frames_written:
  assumes "\<And>ev. ev \<in> set evs \<Longrightarrow> event_ok ev \<and> well_typed ev"
  shows "read_frames (concat (map writeSSEEvent evs)) = (map (\<lambda>ev. (ev_Type ev, encode (SSEEvent_json ev))) evs, False)"
proof -
  have "pump [] (concat (map event_lines evs)) = (map (\<lambda>ev. (ev_Type ev, encode (SSEEvent_json ev))) evs, False)"
    using assms by (induction evs) (simp_all add: pump_written del: encode.simps)
  then show ?thesis by (simp add: read_frames_def stream_lines_written [OF assms])
qed


section \<open>Large events\<close>

text \<open>
  The reader gives up on a line of 10 MiB before the client's own size check can skip the event:
  no data longer than the limit ever reaches the check.
\<close>

lemma pump_data_length: "(t, d) \<in> set (fst (pump ty ls)) \<Longrightarrow> length d + 5 < maxLineSize"
proof (induction ty ls rule: pump.induct)
  case (2 ty l ls)
  have five: "length ''data:'' = 5" by simp
  have len: "length (trim_space (trim_prefix (strip_cr l) ''data:'')) + 5 \<le> length l"
    if "has_prefix (strip_cr l) ''data:''"
  proof -
    have "strip_cr l = ''data:'' @ trim_prefix (strip_cr l) ''data:''"
      using that by (auto simp: has_prefix_def trim_prefix_def prefix_def)
    then have "length (strip_cr l) = 5 + length (trim_prefix (strip_cr l) ''data:'')"
      by (metis (no_types) length_append five)
    moreover have "length (strip_cr l) \<le> length l" by (simp add: strip_cr_def)
    ultimately show ?thesis using trim_space_length [of "trim_prefix (strip_cr l) ''data:''"] by linarith
  qed
  show ?case using 2 len by (auto simp: Let_def line_fits_def split_def split: if_splits)
qed simp

lemma size_check_never_fires:
  "(t, d) \<in> set (fst (read_frames s)) \<Longrightarrow> \<not> length d > maxSSEEventSize"
  using pump_data_length unfolding read_frames_def maxLineSize_def maxSSEEventSize_def by fastforce

text \<open>An event too long for the reader ends the stream with an error, whatever follows it.\<close>

lemma long_event_ends_stream:
  "\<not> line_fits (''data: '' @ d) \<Longrightarrow> pump ty ((''data: '' @ d) # ls) = ([], True)"
  by simp

definition sample_events :: "event list" where
  "sample_events =
     [\<lparr>ev_Seq = 41, ev_Type = ''operator.text'', ev_Timestamp = Time ''2025-06-01T10:20:30.25Z'',
       ev_TurnID = ''t1'', ev_SessionID = '''', ev_OperationID = '''',
       ev_Payload = POperatorText \<lparr>OperatorTextPayload_Text = ''a<b'' @ [line_feed],
         OperatorTextPayload_Reasoning = ''''\<rparr>\<rparr>,
      \<lparr>ev_Seq = 42, ev_Type = ''session.tool_call'', ev_Timestamp = zero_time,
       ev_TurnID = '''', ev_SessionID = ''s'', ev_OperationID = '''',
       ev_Payload = PSessionToolCall \<lparr>SessionToolCallPayload_ToolCall =
         \<lparr>ToolCall_ID = ''c'', ToolCall_Name = ''shell'', ToolCall_Arguments = None\<rparr>\<rparr>\<rparr>]"

lemma sample_events_ok: "\<forall>ev\<in>set sample_events. event_ok ev \<and> well_typed ev"
  by (simp add: sample_events_def event_ok_def well_typed_def zero_time_def maxLineSize_def SSEEvent_json_def
      member_def omit_if_def uint_json_def digits_of.simps operatorTextToWire_def sessionToolCallToWire_def
      toolCallToWire_def wireOperatorTextPayload_json_def wireSessionToolCallPayload_json_def
      wireToolCall_json_def wireSessionToolCallPayload_ok_def wireToolCall_ok_def raw_ok_def raw_json_def
      rfc3339_def zone_ok_def drop_fraction_def two_digits_def days_in_def leap_year_def is_digit_def
      enc_string_def esc_char_def is_separator_def hex_digit_def line_feed_def)


end
