(* ===== verification/EventHub.thy ===== *)
theory EventHub
  imports EventStream
begin

text \<open>
  How events reach a client: \<open>LocalService.broadcast\<close> numbers an event and puts it into the channel of
  every subscriber (\<open>internal/service/local_events.go\<close>), a goroutine of the server keeps the last ones in
  a ring (\<open>internal/server/eventring.go\<close>), the handler of a connection replays what the client missed
  and then forwards its channel (\<open>internal/server/sse.go\<close>), and the client remembers the last number it
  saw for its next connection (\<open>internal/client/events.go\<close>).
\<close>

section \<open>The operations\<close>

definition seq :: "event \<Rightarrow> nat" where
  "seq ev = unat (ev_Seq ev)"

definition channelSize :: nat where
  "channelSize = 256"

text \<open>A send that does not block: a full channel drops the event.\<close>

definition offer :: "event \<Rightarrow> event list \<Rightarrow> event list" where
  "offer ev ch = (if length ch < channelSize then ch @ [ev] else ch)"

definition stamp_event :: "64 word \<Rightarrow> timestamp \<Rightarrow> event \<Rightarrow> event" where
  "stamp_event n now ev = ev\<lparr>ev_Seq := n, ev_Timestamp := now\<rparr>"

definition eventRingSize :: nat where
  "eventRingSize = 512"

definition ring_add :: "event \<Rightarrow> event list \<Rightarrow> event list" where
  "ring_add ev buf = (if length buf \<ge> eventRingSize then tl buf else buf) @ [ev]"

definition ring_since :: "64 word \<Rightarrow> event list \<Rightarrow> event list" where
  "ring_since n buf = dropWhile (\<lambda>ev. \<not> ev_Seq ev > n) buf"

text \<open>The header \<open>Last-Event-ID\<close>: absent until an event was seen; \<open>strconv.ParseUint\<close> reads it.\<close>

definition last_event_id :: "64 word \<Rightarrow> string" where
  "last_event_id n = (if n > 0 then digits_of (unat n) else [])"

definition parse_event_id :: "string \<Rightarrow> 64 word option" where
  "parse_event_id s =
     (case parse_digits s of
        Some i \<Rightarrow> if i < 2 ^ 64 then Some (word_of_nat i) else None
      | None \<Rightarrow> None)"

definition replay :: "string \<Rightarrow> event list \<Rightarrow> event list" where
  "replay header ring =
     (if header = [] then []
      else case parse_event_id header of Some n \<Rightarrow> ring_since n ring | None \<Rightarrow> [])"

text \<open>What the connection's loop does with an event it takes from the channel.\<close>

definition already_sent :: "64 word \<Rightarrow> event \<Rightarrow> bool" where
  "already_sent lastSent ev \<longleftrightarrow> ev_Seq ev \<noteq> 0 \<and> ev_Seq ev \<le> lastSent"

definition note_seq :: "64 word \<Rightarrow> event \<Rightarrow> 64 word" where
  "note_seq lastSeq ev = (if ev_Seq ev > lastSeq then ev_Seq ev else lastSeq)"

section \<open>The system\<close>

text \<open>
  A connection: its channel, the events still to replay (\<open>None\<close> before the ring was read), the number
  last written, and what was written and not yet read. The system: the service's counter, the
  channel of the recorder and its ring, the connection, and the client's last number with the events
  it has received so far.
\<close>

record connection =
  conn_channel :: "event list"
  conn_replay :: "event list option"
  conn_lastSent :: "64 word"
  conn_net :: "event list"

record hub =
  sys_seq :: "64 word"
  sys_recorder :: "event list"
  sys_ring :: "event list"
  sys_conn :: "connection option"
  sys_lastSeq :: "64 word"
  sys_received :: "event list"

definition hub_start :: hub where
  "hub_start = \<lparr>sys_seq = 0, sys_recorder = [], sys_ring = [], sys_conn = None, sys_lastSeq = 0,
     sys_received = []\<rparr>"

definition new_connection :: connection where
  "new_connection = \<lparr>conn_channel = [], conn_replay = None, conn_lastSent = 0, conn_net = []\<rparr>"

definition broadcast_event :: "timestamp \<Rightarrow> event \<Rightarrow> hub \<Rightarrow> hub" where
  "broadcast_event now ev s =
     (let ev' = stamp_event (sys_seq s + 1) now ev in
      s\<lparr>sys_seq := sys_seq s + 1, sys_recorder := offer ev' (sys_recorder s),
        sys_conn := map_option (\<lambda>c. c\<lparr>conn_channel := offer ev' (conn_channel c)\<rparr>) (sys_conn s)\<rparr>)"

definition record_event :: "hub \<Rightarrow> hub" where
  "record_event s =
     (case sys_recorder s of
        [] \<Rightarrow> s
      | ev # q \<Rightarrow> s\<lparr>sys_recorder := q, sys_ring := ring_add ev (sys_ring s)\<rparr>)"

definition connect :: "hub \<Rightarrow> hub" where
  "connect s = s\<lparr>sys_conn := Some new_connection\<rparr>"

definition read_ring :: "connection \<Rightarrow> hub \<Rightarrow> hub" where
  "read_ring c s =
     s\<lparr>sys_conn := Some (c\<lparr>conn_replay := Some (replay (last_event_id (sys_lastSeq s)) (sys_ring s))\<rparr>)\<rparr>"

definition write_event :: "event \<Rightarrow> connection \<Rightarrow> connection" where
  "write_event ev c = c\<lparr>conn_lastSent := ev_Seq ev, conn_net := conn_net c @ [ev]\<rparr>"

definition replay_event :: "connection \<Rightarrow> event \<Rightarrow> event list \<Rightarrow> hub \<Rightarrow> hub" where
  "replay_event c ev evs s = s\<lparr>sys_conn := Some (write_event ev (c\<lparr>conn_replay := Some evs\<rparr>))\<rparr>"

definition forward_event :: "connection \<Rightarrow> event \<Rightarrow> event list \<Rightarrow> hub \<Rightarrow> hub" where
  "forward_event c ev evs s =
     (let c' = c\<lparr>conn_channel := evs\<rparr> in
      s\<lparr>sys_conn := Some (if already_sent (conn_lastSent c) ev then c' else write_event ev c')\<rparr>)"

definition receive_event :: "connection \<Rightarrow> event \<Rightarrow> event list \<Rightarrow> hub \<Rightarrow> hub" where
  "receive_event c ev evs s =
     s\<lparr>sys_conn := Some (c\<lparr>conn_net := evs\<rparr>), sys_lastSeq := note_seq (sys_lastSeq s) ev,
       sys_received := sys_received s @ [ev]\<rparr>"

definition disconnect :: "hub \<Rightarrow> hub" where
  "disconnect s = s\<lparr>sys_conn := None\<rparr>"

text \<open>
  The steps, in any order the goroutines take them. The counter does not wrap: that takes \<open>2 ^ 64\<close>
  events. A connection may go down at any moment, and what was written and not read is lost.
\<close>

inductive sys_step :: "hub \<Rightarrow> hub \<Rightarrow> bool" where
  Broadcast: "sys_seq s \<noteq> - 1 \<Longrightarrow> sys_step s (broadcast_event now ev s)"
| Record: "sys_step s (record_event s)"
| Connect: "sys_conn s = None \<Longrightarrow> sys_step s (connect s)"
| ReadRing: "sys_conn s = Some c \<Longrightarrow> conn_replay c = None \<Longrightarrow> sys_step s (read_ring c s)"
| Replay: "sys_conn s = Some c \<Longrightarrow> conn_replay c = Some (ev # evs) \<Longrightarrow> sys_step s (replay_event c ev evs s)"
| Forward: "sys_conn s = Some c \<Longrightarrow> conn_replay c = Some [] \<Longrightarrow> conn_channel c = ev # evs \<Longrightarrow>
    sys_step s (forward_event c ev evs s)"
| Receive: "sys_conn s = Some c \<Longrightarrow> conn_net c = ev # evs \<Longrightarrow> sys_step s (receive_event c ev evs s)"
| Disconnect: "sys_step s (disconnect s)"

inductive reachable :: "hub \<Rightarrow> bool" where
  start: "reachable hub_start"
| step: "reachable s \<Longrightarrow> sys_step s t \<Longrightarrow> reachable t"

section \<open>Delivery in order, at most once\<close>

definition ascending :: "event list \<Rightarrow> bool" where
  "ascending evs \<longleftrightarrow> sorted_wrt (\<lambda>a b. seq a < seq b) evs"

text \<open>All numbers of a list lie above one bound and up to another.\<close>

definition within :: "nat \<Rightarrow> nat \<Rightarrow> event list \<Rightarrow> bool" where
  "within lo hi evs \<longleftrightarrow> (\<forall>ev\<in>set evs. lo < seq ev \<and> seq ev \<le> hi)"

text \<open>
  What holds of a connection: \<open>n\<close> is the service's counter, \<open>l\<close> the client's last number, \<open>b\<close> the counter
  when the connection subscribed.
\<close>

definition pending :: "connection \<Rightarrow> event list" where
  "pending c = conn_net c @ (case conn_replay c of None \<Rightarrow> [] | Some evs \<Rightarrow> evs)"

definition conn_inv :: "nat \<Rightarrow> nat \<Rightarrow> nat \<Rightarrow> connection \<Rightarrow> bool" where
  "conn_inv n l b c \<longleftrightarrow>
     ascending (conn_channel c) \<and> within b n (conn_channel c) \<and>
     ascending (pending c) \<and> within l n (pending c) \<and>
     (\<forall>ev\<in>set (conn_net c). seq ev \<le> unat (conn_lastSent c)) \<and>
     l \<le> max b (unat (conn_lastSent c)) \<and> b \<le> n \<and> unat (conn_lastSent c) \<le> n \<and>
     (conn_replay c = None \<longrightarrow> conn_net c = [])"

definition sys_inv :: "hub \<Rightarrow> bool" where
  "sys_inv s \<longleftrightarrow>
     (let n = unat (sys_seq s); l = unat (sys_lastSeq s) in
      ascending (sys_ring s @ sys_recorder s) \<and> within 0 n (sys_ring s @ sys_recorder s) \<and>
      ascending (sys_received s) \<and> within 0 l (sys_received s) \<and> l \<le> n \<and>
      (case sys_conn s of None \<Rightarrow> True | Some c \<Rightarrow> \<exists>b. conn_inv n l b c))"

lemma ascending_simps [simp]:
  "ascending []" "ascending (ev # evs) \<longleftrightarrow> (\<forall>e\<in>set evs. seq ev < seq e) \<and> ascending evs"
  "ascending (xs @ ys) \<longleftrightarrow> ascending xs \<and> ascending ys \<and> (\<forall>x\<in>set xs. \<forall>y\<in>set ys. seq x < seq y)"
  by (auto simp: ascending_def sorted_wrt_append)

lemma within_simps [simp]:
  "within lo hi []" "within lo hi (ev # evs) \<longleftrightarrow> lo < seq ev \<and> seq ev \<le> hi \<and> within lo hi evs"
  "within lo hi (xs @ ys) \<longleftrightarrow> within lo hi xs \<and> within lo hi ys"
  by (auto simp: within_def)

lemma withinD: "within lo hi evs \<Longrightarrow> ev \<in> set evs \<Longrightarrow> lo < seq ev \<and> seq ev \<le> hi"
  by (simp add: within_def)

lemma within_mono: "within lo hi evs \<Longrightarrow> hi \<le> hi' \<Longrightarrow> within lo hi' evs"
  by (auto simp: within_def)

lemma seq_order: "ev_Seq x > n \<longleftrightarrow> seq x > unat n" "ev_Seq x \<le> n \<longleftrightarrow> seq x \<le> unat n"
  by (simp_all add: seq_def word_less_nat_alt word_le_nat_alt)

lemma offer_ascending:
  assumes "ascending ch" "within b n ch" "seq ev = Suc n" "b \<le> n"
  shows "ascending (offer ev ch) \<and> within b (Suc n) (offer ev ch)"
  using assms by (auto simp: offer_def dest: withinD intro: within_mono)

lemma next_seq:
  assumes "w \<noteq> (- 1 :: 64 word)"
  shows "unat (w + 1) = Suc (unat w)"
  using assms eq_neg_iff_add_eq_0 [of w 1] unatSuc [of w] by (simp add: add.commute)

lemma parse_last_event_id: "n > 0 \<Longrightarrow> parse_event_id (last_event_id n) = Some n"
  using unsigned_less [of n, where ?'a = nat]
  by (simp add: parse_event_id_def last_event_id_def parse_digits_of)

lemma ring_since_above:
  assumes "ascending ring"
  shows "ascending (ring_since n ring) \<and> set (ring_since n ring) = {ev \<in> set ring. seq ev > unat n}"
  using assms unfolding ring_since_def
proof (induction ring)
  case (Cons ev ring)
  show ?case
  proof (cases "ev_Seq ev > n")
    case True
    then show ?thesis using Cons.prems by (auto simp: seq_order)
  next
    case False
    then show ?thesis using Cons by (auto simp: seq_order)
  qed
qed simp

lemma replay_above:
  assumes "ascending ring" "within 0 m ring"
  shows "ascending (replay (last_event_id n) ring) \<and> within (unat n) m (replay (last_event_id n) ring)"
proof (cases "n > 0")
  case True
  then show ?thesis
    using ring_since_above [OF assms(1), of n] assms(2)
    by (auto simp: replay_def parse_last_event_id within_def)
qed (simp add: replay_def last_event_id_def)

lemma broadcast_event_inv:
  assumes inv: "sys_inv s" and wrap: "sys_seq s \<noteq> - 1"
  shows "sys_inv (broadcast_event now ev s)"
proof -
  let ?e = "stamp_event (sys_seq s + 1) now ev"
  have e: "seq ?e = Suc (unat (sys_seq s))" using next_seq [OF wrap] by (simp add: seq_def stamp_event_def)
  have rec: "ascending (sys_ring s @ offer ?e (sys_recorder s))
      \<and> within 0 (Suc (unat (sys_seq s))) (sys_ring s @ offer ?e (sys_recorder s))"
    using inv e by (auto simp: sys_inv_def Let_def offer_def dest: withinD intro: within_mono)
  have conn: "\<exists>b. conn_inv (Suc (unat (sys_seq s))) (unat (sys_lastSeq s)) b (c\<lparr>conn_channel := offer ?e (conn_channel c)\<rparr>)"
    if cs: "sys_conn s = Some c" for c
  proof -
    obtain b where c: "conn_inv (unat (sys_seq s)) (unat (sys_lastSeq s)) b c"
      using inv cs by (auto simp: sys_inv_def Let_def)
    then have "ascending (offer ?e (conn_channel c)) \<and> within b (Suc (unat (sys_seq s))) (offer ?e (conn_channel c))"
      by (intro offer_ascending e) (auto simp: conn_inv_def)
    then have "conn_inv (Suc (unat (sys_seq s))) (unat (sys_lastSeq s)) b
        (c\<lparr>conn_channel := offer ?e (conn_channel c)\<rparr>)"
      using c within_mono [OF _ le_SucI [OF order_refl]] by (auto simp: conn_inv_def pending_def)
    then show ?thesis by blast
  qed
  show ?thesis
    using inv rec conn next_seq [OF wrap]
    by (auto simp: sys_inv_def Let_def broadcast_event_def split: option.splits)
qed

lemma record_inv: "sys_inv s \<Longrightarrow> sys_inv (record_event s)"
  by (cases "sys_recorder s"; cases "sys_ring s")
     (auto simp: record_event_def ring_add_def sys_inv_def Let_def split: option.splits)

lemma connect_inv: "sys_inv s \<Longrightarrow> sys_inv (connect s)"
  by (auto simp: sys_inv_def Let_def connect_def new_connection_def conn_inv_def pending_def
      split: option.splits)

lemma conn_step_inv:
  assumes inv: "sys_inv s" and conn: "sys_conn s = Some c"
    and keep: "\<And>b. conn_inv (unat (sys_seq s)) (unat (sys_lastSeq s)) b c
      \<Longrightarrow> conn_inv (unat (sys_seq s)) (unat (sys_lastSeq s)) b c'"
  shows "sys_inv (s\<lparr>sys_conn := Some c'\<rparr>)"
  using inv conn keep by (auto simp: sys_inv_def Let_def)

lemma read_ring_inv:
  assumes inv: "sys_inv s" and conn: "sys_conn s = Some c" and new: "conn_replay c = None"
  shows "sys_inv (read_ring c s)"
proof -
  have "ascending (sys_ring s)" "within 0 (unat (sys_seq s)) (sys_ring s)"
    using inv by (simp_all add: sys_inv_def Let_def)
  from replay_above [OF this, of "sys_lastSeq s"] show ?thesis
    unfolding read_ring_def using new
    by (intro conn_step_inv [OF inv conn]) (auto simp: conn_inv_def pending_def)
qed

lemma replay_event_inv:
  assumes inv: "sys_inv s" and conn: "sys_conn s = Some c" and more: "conn_replay c = Some (ev # evs)"
  shows "sys_inv (replay_event c ev evs s)"
  unfolding replay_event_def using more
  by (intro conn_step_inv [OF inv conn])
     (fastforce simp: conn_inv_def pending_def write_event_def seq_def)

lemma forward_event_inv:
  assumes inv: "sys_inv s" and conn: "sys_conn s = Some c" and started: "conn_replay c = Some []"
    and ch: "conn_channel c = ev # evs"
  shows "sys_inv (forward_event c ev evs s)"
  unfolding forward_event_def Let_def
proof (rule conn_step_inv [OF inv conn])
  fix b assume c: "conn_inv (unat (sys_seq s)) (unat (sys_lastSeq s)) b c"
  show "conn_inv (unat (sys_seq s)) (unat (sys_lastSeq s)) b
      (if already_sent (conn_lastSent c) ev then c\<lparr>conn_channel := evs\<rparr>
       else write_event ev (c\<lparr>conn_channel := evs\<rparr>))"
  proof (cases "already_sent (conn_lastSent c) ev")
    case True
    then show ?thesis using c ch by (auto simp: conn_inv_def pending_def)
  next
    case False
    have "b < seq ev" using c ch by (simp add: conn_inv_def)
    then have "ev_Seq ev \<noteq> 0" by (auto simp: seq_def)
    with False have "unat (conn_lastSent c) < seq ev"
      by (simp add: already_sent_def seq_order not_le)
    then show ?thesis
      using False c ch started \<open>b < seq ev\<close>
      by (fastforce simp: conn_inv_def pending_def write_event_def seq_def [symmetric])
  qed
qed

lemma receive_event_inv:
  assumes inv: "sys_inv s" and conn: "sys_conn s = Some c" and net: "conn_net c = ev # evs"
  shows "sys_inv (receive_event c ev evs s)"
proof -
  let ?n = "unat (sys_seq s)" and ?l = "unat (sys_lastSeq s)"
  obtain b where c: "conn_inv ?n ?l b c" using inv conn by (auto simp: sys_inv_def Let_def)
  have above: "?l < seq ev" "seq ev \<le> ?n" using c net by (simp_all add: conn_inv_def pending_def)
  have last: "unat (note_seq (sys_lastSeq s) ev) = seq ev"
    using above(1) by (simp add: note_seq_def seq_order) (simp add: seq_def)
  have "conn_inv ?n (seq ev) b (c\<lparr>conn_net := evs\<rparr>)"
    using c net by (fastforce simp: conn_inv_def pending_def within_def)
  moreover have "ascending (sys_received s @ [ev])" "within 0 (seq ev) (sys_received s @ [ev])"
    using inv above by (auto simp: sys_inv_def Let_def dest: withinD intro: within_mono)
  ultimately show ?thesis
    using inv above last by (auto simp: sys_inv_def Let_def receive_event_def)
qed

lemma disconnect_inv: "sys_inv s \<Longrightarrow> sys_inv (disconnect s)"
  by (auto simp: sys_inv_def Let_def disconnect_def)

lemmas sys_step_inv = broadcast_event_inv record_inv connect_inv read_ring_inv replay_event_inv
  forward_event_inv receive_event_inv disconnect_inv

lemma reachable_inv: "reachable s \<Longrightarrow> sys_inv s"
proof (induction rule: reachable.induct)
  case start
  then show ?case by (simp add: hub_start_def sys_inv_def Let_def)
next
  case (step s t)
  from step.hyps(2) step.IH show ?case
    by (cases rule: sys_step.cases) (blast intro: sys_step_inv)+
qed

text \<open>
  C20. However the goroutines interleave, connections drop and come back, and replays overlap with
  live events, the client receives events in the order the service numbered them, none of them
  twice.
\<close>

theorem delivered_in_order:
  assumes "reachable s"
  shows "sorted_wrt (\<lambda>a b. ev_Seq a < ev_Seq b) (sys_received s)"
proof -
  have "ascending (sys_received s)" using reachable_inv [OF assms] by (simp add: sys_inv_def Let_def)
  then show ?thesis by (simp add: ascending_def seq_def word_less_nat_alt)
qed

section \<open>Resuming\<close>

text \<open>The events one connection writes, from the ring it read and the events of its channel.\<close>

fun forward :: "64 word \<Rightarrow> event list \<Rightarrow> event list" where
  "forward lastSent [] = []"
| "forward lastSent (ev # evs) =
     (if already_sent lastSent ev then forward lastSent evs else ev # forward (ev_Seq ev) evs)"

definition connection_writes :: "64 word \<Rightarrow> event list \<Rightarrow> event list \<Rightarrow> event list" where
  "connection_writes lastSeq ring arrivals =
     (let missed = replay (last_event_id lastSeq) ring in
      missed @ forward (if missed = [] then 0 else ev_Seq (last missed)) arrivals)"

text \<open>The events numbered from \<open>a\<close> up to, not including, \<open>b\<close>.\<close>

definition numbered :: "nat \<Rightarrow> nat \<Rightarrow> event list \<Rightarrow> bool" where
  "numbered a b evs \<longleftrightarrow> map seq evs = [a..<b]"

lemma numbered_Cons: "numbered a b (ev # evs) \<longleftrightarrow> seq ev = a \<and> a < b \<and> numbered (Suc a) b evs"
  by (cases "a < b") (auto simp: numbered_def upt_conv_Cons)

lemma numbered_Nil: "numbered a b [] \<longleftrightarrow> b \<le> a"
  using upt_eq_Nil_conv [of a b] by (auto simp: numbered_def eq_commute [of "[]"])

lemma numbered_last: "numbered a b evs \<Longrightarrow> evs \<noteq> [] \<Longrightarrow> seq (last evs) = b - 1 \<and> a < b"
  by (cases "a < b") (auto simp: numbered_def simp flip: last_map)

lemma ring_since_numbered:
  assumes "numbered a b ring" "a \<le> Suc (unat n)"
  shows "numbered (max a (Suc (unat n))) (max b (Suc (unat n))) (ring_since n ring)"
  using assms unfolding ring_since_def
proof (induction ring arbitrary: a)
  case Nil
  then have "b \<le> a" by (simp add: numbered_Nil)
  then show ?case using Nil.prems by (simp add: numbered_Nil)
next
  case (Cons ev ring)
  have ev: "seq ev = a" "a < b" "numbered (Suc a) b ring" using Cons.prems(1) by (simp_all add: numbered_Cons)
  show ?case
  proof (cases "a \<le> unat n")
    case True
    then show ?thesis using Cons.IH [OF ev(3)] ev by (simp add: seq_order)
  next
    case False
    then have "a = Suc (unat n)" using Cons.prems(2) by simp
    then show ?thesis using ev Cons.prems by (simp add: seq_order numbered_Cons max_def)
  qed
qed

lemma forward_above: "numbered a b evs \<Longrightarrow> unat lastSent < a \<Longrightarrow> forward lastSent evs = evs"
proof (induction lastSent evs arbitrary: a rule: forward.induct)
  case (2 lastSent ev evs)
  have ev: "seq ev = a" "numbered (Suc a) b evs" using 2(3) by (simp_all add: numbered_Cons)
  then have sent: "\<not> already_sent lastSent ev" using 2(4) by (simp add: already_sent_def seq_order)
  then show ?case using 2(2) [OF sent ev(2)] ev(1) by (simp add: seq_def)
qed simp

lemma forward_numbered:
  assumes "numbered a b evs" "0 < a" "a \<le> Suc (unat lastSent)"
  shows "numbered (Suc (unat lastSent)) (max b (Suc (unat lastSent))) (forward lastSent evs)"
  using assms
proof (induction lastSent evs arbitrary: a rule: forward.induct)
  case (1 lastSent)
  then have "b \<le> a" by (simp add: numbered_Nil)
  then show ?case using 1 by (simp add: numbered_Nil)
next
  case (2 lastSent ev evs)
  have ev: "seq ev = a" "a < b" "numbered (Suc a) b evs" using 2 by (simp_all add: numbered_Cons)
  have nz: "ev_Seq ev \<noteq> 0" using ev(1) 2(4) by (auto simp: seq_def)
  show ?case
  proof (cases "a \<le> unat lastSent")
    case True
    then have "already_sent lastSent ev" using nz ev by (simp add: already_sent_def seq_order)
    then show ?thesis using 2(1) [of "Suc a"] ev True by simp
  next
    case False
    then have a: "a = Suc (unat lastSent)" using 2(5) by simp
    then have "forward lastSent (ev # evs) = ev # evs"
      using forward_above [OF 2(3), of lastSent] a by simp
    then show ?thesis using 2(3) a ev by (simp add: max_def)
  qed
qed

text \<open>
  C21. A client that had seen every event up to \<open>lastSeq\<close> misses nothing and gets nothing twice when it
  reconnects, provided the ring reaches back to it and forward to the moment of the subscription,
  and the channel took every event from then on: the connection writes exactly the events after
  \<open>lastSeq\<close>, in order, whatever the overlap of ring and channel.
\<close>

theorem resume_complete:
  assumes seen: "0 < lastSeq" "unat lastSeq < first_live"
    and ring: "numbered a b ring" "a \<le> Suc (unat lastSeq)" "first_live \<le> b"
    and live: "numbered first_live n arrivals" "b \<le> n"
  shows "numbered (Suc (unat lastSeq)) n (connection_writes lastSeq ring arrivals)"
proof -
  let ?missed = "ring_since lastSeq ring"
  have b: "Suc (unat lastSeq) \<le> b" using seen ring by simp
  have missed: "numbered (Suc (unat lastSeq)) b ?missed"
    using ring_since_numbered [OF ring(1,2)] ring(2) b by (simp add: max_def)
  have header: "replay (last_event_id lastSeq) ring = ?missed"
    using seen(1) parse_last_event_id [OF seen(1)] by (simp add: replay_def last_event_id_def)
  show ?thesis
  proof (cases "?missed = []")
    case True
    then have bl: "b = Suc (unat lastSeq)" using missed b by (simp add: numbered_Nil)
    then have fl: "first_live = Suc (unat lastSeq)" using seen ring(3) by simp
    have "forward 0 arrivals = arrivals" using forward_above [OF live(1), of 0] fl by simp
    then show ?thesis using True header fl live(1) by (simp add: connection_writes_def Let_def)
  next
    case False
    have l: "Suc (unat (ev_Seq (last ?missed))) = b"
      using numbered_last [OF missed False] by (simp add: seq_def)
    have "numbered b (max n b) (forward (ev_Seq (last ?missed)) arrivals)"
      using forward_numbered [OF live(1), of "ev_Seq (last ?missed)"] seen ring(3) l by simp
    then have "numbered (Suc (unat lastSeq)) n (?missed @ forward (ev_Seq (last ?missed)) arrivals)"
      using missed b live(2) upt_add_eq_append [of "Suc (unat lastSeq)" b "n - b"]
      by (simp add: numbered_def max_def)
    then show ?thesis using False header by (simp add: connection_writes_def Let_def)
  qed
qed

section \<open>A run\<close>

definition sample_event :: "64 word \<Rightarrow> event" where
  "sample_event n = \<lparr>ev_Seq = n, ev_Type = ''session.text'', ev_Timestamp = zero_time, ev_TurnID = [],
     ev_SessionID = ''s'', ev_OperationID = [], ev_Payload = PSessionText \<lparr>SessionTextPayload_Text = ''x''\<rparr>\<rparr>"

lemma sample_event_simps [simp]:
  "ev_Seq (sample_event n) = n" "stamp_event n zero_time (sample_event m) = sample_event n"
  by (simp_all add: sample_event_def stamp_event_def)

abbreviation snapshot where
  "snapshot n rec ring c l got \<equiv>
     \<lparr>sys_seq = n, sys_recorder = map sample_event rec, sys_ring = map sample_event ring, sys_conn = c,
      sys_lastSeq = l, sys_received = map sample_event got\<rparr>"

abbreviation up where
  "up ch rp sent net \<equiv>
     Some \<lparr>conn_channel = map sample_event ch, conn_replay = rp, conn_lastSent = sent, conn_net = map sample_event net\<rparr>"

lemma then_reachable: "reachable s \<Longrightarrow> sys_step s t \<Longrightarrow> t = u \<Longrightarrow> reachable u"
  by (auto intro: reachable.step)

lemma replay_empty_ring: "replay h [] = []"
  by (simp add: replay_def ring_since_def split: option.split)

text \<open>
  The recorder runs behind the broadcasts. A client that reconnects between a broadcast and its
  recording finds the event neither in the ring nor in its channel; the next event it receives
  moves its last number past it, so no later connection replays it either.
\<close>

lemma resume_run: "reachable (snapshot 3 [3] [1, 2] (up [] (Some []) 3 []) 3 [1, 3])"
proof -
  note ops = broadcast_event_def record_event_def connect_def read_ring_def forward_event_def receive_event_def
    disconnect_def Let_def offer_def channelSize_def new_connection_def write_event_def already_sent_def
    note_seq_def ring_add_def eventRingSize_def replay_empty_ring
  have "reachable (snapshot 0 [] [] (up [] None 0 []) 0 [])"
    by (rule then_reachable [OF reachable.start sys_step.Connect]) (simp add: hub_start_def ops)+
  then have "reachable (snapshot 0 [] [] (up [] (Some []) 0 []) 0 [])"
    by (rule then_reachable [OF _ sys_step.ReadRing]) (simp add: ops)+
  then have "reachable (snapshot 1 [1] [] (up [1] (Some []) 0 []) 0 [])"
    by (rule then_reachable [OF _ sys_step.Broadcast [where now = zero_time and ev = "sample_event 0"]]) (simp add: ops)+
  then have "reachable (snapshot 1 [1] [] (up [] (Some []) 1 [1]) 0 [])"
    by (rule then_reachable [OF _ sys_step.Forward]) (simp add: ops)+
  then have "reachable (snapshot 1 [1] [] (up [] (Some []) 1 []) 1 [1])"
    by (rule then_reachable [OF _ sys_step.Receive]) (simp add: ops)+
  then have "reachable (snapshot 1 [1] [] None 1 [1])"
    by (rule then_reachable [OF _ sys_step.Disconnect]) (simp add: ops)+
  then have "reachable (snapshot 2 [1, 2] [] None 1 [1])"
    by (rule then_reachable [OF _ sys_step.Broadcast [where now = zero_time and ev = "sample_event 0"]]) (simp add: ops)+
  then have "reachable (snapshot 2 [1, 2] [] (up [] None 0 []) 1 [1])"
    by (rule then_reachable [OF _ sys_step.Connect]) (simp add: ops)+
  then have "reachable (snapshot 2 [1, 2] [] (up [] (Some []) 0 []) 1 [1])"
    by (rule then_reachable [OF _ sys_step.ReadRing]) (simp add: ops)+
  then have "reachable (snapshot 2 [2] [1] (up [] (Some []) 0 []) 1 [1])"
    by (rule then_reachable [OF _ sys_step.Record]) (simp add: ops)+
  then have "reachable (snapshot 2 [] [1, 2] (up [] (Some []) 0 []) 1 [1])"
    by (rule then_reachable [OF _ sys_step.Record]) (simp add: ops)+
  then have "reachable (snapshot 3 [3] [1, 2] (up [3] (Some []) 0 []) 1 [1])"
    by (rule then_reachable [OF _ sys_step.Broadcast [where now = zero_time and ev = "sample_event 0"]]) (simp add: ops)+
  then have "reachable (snapshot 3 [3] [1, 2] (up [] (Some []) 3 [3]) 1 [1])"
    by (rule then_reachable [OF _ sys_step.Forward]) (simp add: ops)+
  then show ?thesis
    by (rule then_reachable [OF _ sys_step.Receive]) (simp add: ops)+
qed

lemma resume_can_miss:
  "\<exists>s c. reachable s \<and> sys_conn s = Some c \<and> conn_channel c = [] \<and> conn_net c = [] \<and>
     sys_lastSeq s = 3 \<and> sample_event 2 \<in> set (sys_ring s) \<and> sample_event 2 \<notin> set (sys_received s)"
  using resume_run by (intro exI conjI) (assumption | simp add: sample_event_def)+

lemma delivered_in_order_witness:
  "sorted_wrt (\<lambda>a b. ev_Seq a < ev_Seq b) [sample_event 1, sample_event 3]"
  using delivered_in_order [OF resume_run] by simp

lemma resume_complete_witness:
  "numbered 3 6 (connection_writes 2 (map sample_event [1, 2, 3, 4]) (map sample_event [4, 5]))"
  using resume_complete [of 2 4 1 5 "map sample_event [1, 2, 3, 4]" 6 "map sample_event [4, 5]"]
  by (simp add: numbered_def seq_def upt_rec)

end
