(* ===== verification/RoleNode.thy ===== *)
theory RoleNode
  imports GraphCompile WorkerRun
begin

text \<open>
  A node of a graph as it runs (\<open>RoleNode\<close> of \<open>internal/graphexec/nodes.go\<close>): composing the role's
  prompt, the tools it gets, the first message, and the rounds in which it asks the user for context.
  The agent loop of the \<open>mycelium\<close> library and the user behind an interrupt are parameters, indexed by
  the round. Where the source ranges over a map, the model takes the entries in the order listed.
\<close>

section \<open>Prompt and slots\<close>

text \<open>A slot value that is one template reference and nothing else.\<close>

definition slot_ref :: "string \<Rightarrow> (string \<times> string) option" where
  "slot_ref v =
     (case match_ref (dropWhile regex_space v) of
        Some (category, key, rest) \<Rightarrow> if list_all regex_space rest then Some (category, key) else None
      | None \<Rightarrow> None)"

datatype slot_error =
    InstructionNotFound string string
  | NoTaskData string string string

definition resolve_slot :: "(string \<times> string) list \<Rightarrow> (string \<times> string) list \<Rightarrow> string \<times> string \<Rightarrow>
    slot_error + string" where
  "resolve_slot artifacts instructions slot =
     (case slot of (name, v) \<Rightarrow>
        (case slot_ref v of
           None \<Rightarrow> Inr v
         | Some (category, key) \<Rightarrow>
             if category = ''instructions'' then
               (case map_of instructions key of
                  None \<Rightarrow> Inl (InstructionNotFound name v)
                | Some body \<Rightarrow> Inr (trim_space body))
             else
               (let full = category @ ''.'' @ key in
                case map_of artifacts full of
                  None \<Rightarrow> Inl (NoTaskData name v full)
                | Some t \<Rightarrow> if t = [] then Inl (NoTaskData name v full) else Inr t)))"

fun resolve_slot_values :: "(string \<times> string) list \<Rightarrow> (string \<times> string) list \<Rightarrow> (string \<times> string) list \<Rightarrow>
    slot_error + (string \<times> string) list" where
  "resolve_slot_values [] artifacts instructions = Inr []"
| "resolve_slot_values ((name, v) # slots) artifacts instructions =
     (case resolve_slot artifacts instructions (name, v) of
        Inl e \<Rightarrow> Inl e
      | Inr r \<Rightarrow>
          (case resolve_slot_values slots artifacts instructions of
             Inl e \<Rightarrow> Inl e
           | Inr rs \<Rightarrow> Inr ((name, r) # rs)))"

text \<open>The artifacts that are strings.\<close>

definition string_artifacts :: "task_state \<Rightarrow> (string \<times> string) list" where
  "string_artifacts st = List.map_filter (\<lambda>(k, v). case v of JStr s \<Rightarrow> Some (k, s) | _ \<Rightarrow> None) (ts_artifacts st)"

definition role_label :: "role_def \<Rightarrow> string" where
  "role_label role = (if role_name role \<noteq> [] then role_name role else ''a worker'')"

definition role_lookup_key :: "role_def \<Rightarrow> string" where
  "role_lookup_key role = (if role_name role \<noteq> [] then slugify (role_name role) else ''role'')"

datatype node_error =
    NoPromptEngine
  | SchemaError string
  | SlotError slot_error
  | ComposeError string
  | RunError string
  | StillNeedsContext "(string \<times> string) list"
  | ContextNotSupplied "(string \<times> string) list" string
  | NodeReported string
  | UnexpectedStatus string
  | OutputError string

definition compose_prompt :: "now_env \<Rightarrow> engine option \<Rightarrow> role_def \<Rightarrow> task_state \<Rightarrow> (string \<times> string) list \<Rightarrow>
    node_error + string" where
  "compose_prompt nw eng role st slots =
     (case eng of
        None \<Rightarrow> Inr (''You are '' @ role_label role @ ''. Task: '' @ get_artifact_string ''task.description'' st)
      | Some e \<Rightarrow>
          (case resolve_slot_values slots (string_artifacts st) (en_instructions e) of
             Inl err \<Rightarrow> Inl (SlotError err)
           | Inr resolved \<Rightarrow>
               (case compose e nw (role_lookup_key role) (string_artifacts st) resolved of
                  Inl err \<Rightarrow> Inl (ComposeError err)
                | Inr s \<Rightarrow> Inr s)))"

section \<open>Tools\<close>

definition job_note_tools :: "string list" where
  "job_note_tools = [''job_note_write'', ''job_notes_search'', ''job_note_read'']"

definition read_only_tools :: "string list" where
  "read_only_tools = [''read_file'', ''glob'', ''grep''] @ job_note_tools"

definition write_tools :: "string list" where
  "write_tools = [''read_file'', ''write_file'', ''edit_file'', ''glob'', ''grep'', ''shell''] @ job_note_tools"

definition test_tools :: "string list" where
  "test_tools = [''read_file'', ''glob'', ''grep'', ''shell''] @ job_note_tools"

definition base_allowlist_for_access :: "string \<Rightarrow> string list" where
  "base_allowlist_for_access access =
     (if access = ''write'' then write_tools
      else if access = ''test'' then test_tools
      else read_only_tools)"

text \<open>The names of the tools the executor defines that pass the filter; no filter passes all.\<close>

definition adapt_tools :: "string list option \<Rightarrow> string list option \<Rightarrow> string list" where
  "adapt_tools defs allowed =
     (case defs of
        None \<Rightarrow> []
      | Some ds \<Rightarrow> (case allowed of None \<Rightarrow> ds | Some al \<Rightarrow> filter (\<lambda>d. d \<in> set al) ds))"

definition add_opt_in :: "string list \<Rightarrow> string \<Rightarrow> string list" where
  "add_opt_in allow t = (if t \<in> set allow then allow else allow @ [t])"

definition tools_for_role :: "string list option \<Rightarrow> role_def \<Rightarrow> string list" where
  "tools_for_role defs role =
     (let access = to_lower (trim_space (role_access role));
          adapted = (if access = ''all'' then adapt_tools defs None
                     else adapt_tools defs (Some (foldl add_opt_in (base_allowlist_for_access access) (role_tools role))))
      in if ''ask_user'' \<in> set (role_tools role) then ''ask_user'' # adapted else adapted)"

section \<open>The first message\<close>

definition workspace_note :: string where
  "workspace_note =
     ''Workspace: your working directory. File tools and shell commands run inside it and resolve '' @
     ''relative paths against it. Always use relative paths in your work, commands, and outputs; '' @
     ''never construct an absolute path to the workspace.''"

definition artifact_keys :: "task_state \<Rightarrow> string list" where
  "artifact_keys st =
     sort (filter (\<lambda>k. \<not> has_prefix k ''task.'' \<and> \<not> has_prefix k ''job.'') (map fst (ts_artifacts st)))"

definition artifact_section :: "task_state \<Rightarrow> string \<Rightarrow> string list" where
  "artifact_section st k =
     (case map_of (ts_artifacts st) k of
        Some (JStr s) \<Rightarrow> if s \<noteq> [] then [''## '' @ k @ [newline_char] @ s] else []
      | _ \<Rightarrow> [])"

definition build_initial_message :: "task_state \<Rightarrow> string" where
  "build_initial_message st =
     (let desc = get_artifact_string ''task.description'' st;
          parts = (if desc \<noteq> [] then [''Task: '' @ desc] else []) @
                  (if ts_workspace st \<noteq> [] \<or> ts_base st \<noteq> [] then [workspace_note] else []) @
                  concat (map (artifact_section st) (artifact_keys st))
      in if parts = [] then ''Please complete the assigned task.''
         else join_strings [newline_char, newline_char] parts)"

definition em_dash :: string where
  "em_dash = [CHR 0xE2, CHR 0x80, CHR 0x94]"

definition resume_hygiene_preamble :: string where
  "resume_hygiene_preamble =
     ''NOTE: This task is resuming after an interruption '' @ em_dash @ '' '' @
     ''a previous attempt of this step did not finish. Earlier steps completed and are '' @
     ''saved (they will not re-run), but THIS step may have partially executed before the '' @
     ''interruption. Before acting, inspect the current state of the workspace; if you use '' @
     ''version control, run `git status` and `git log` first. Continue from where it left '' @
     ''off and do NOT duplicate work that is already present '' @ em_dash @ '' e.g. recreating files that '' @
     ''already exist, or repeating a commit that was already made.'' @ [newline_char, newline_char]"

section \<open>Rounds\<close>

datatype agent_status = Completed | NeedsContext | AgentError string | OtherStatus string

record agent_result =
  ag_status :: agent_status
  ag_output :: string
  ag_required :: "(string \<times> string) list"
  ag_history :: "message list"

record agent_request =
  rq_model :: string
  rq_system :: string
  rq_messages :: "message list"
  rq_tools :: "string list"
  rq_schema :: string
  rq_max_turns :: int
  rq_thinking :: bool
  rq_temperature :: float64

text \<open>What the agent loop does in a round, and what the user answers to the questions asked after it.\<close>

record node_env =
  ne_run :: "nat \<Rightarrow> agent_request \<Rightarrow> string + agent_result"
  ne_ask :: "nat \<Rightarrow> string list \<Rightarrow> string + string"

definition context_question :: "string \<times> string \<Rightarrow> string" where
  "context_question need =
     (case need of (key, description) \<Rightarrow>
        (let q = trim_space description in if q = [] then ''Please provide: '' @ key else q))"

definition context_questions :: "(string \<times> string) list \<Rightarrow> string list" where
  "context_questions needs =
     (if needs = [] then [''The task needs more information to proceed. What should it know?'']
      else map context_question needs)"

definition request_context_via_hitl :: "(string list \<Rightarrow> string + string) \<Rightarrow> (string \<times> string) list \<Rightarrow> string + string" where
  "request_context_via_hitl ask needs =
     (case ask (context_questions needs) of
        Inl e \<Rightarrow> Inl e
      | Inr text \<Rightarrow> if is_blank text then Inl ''empty response'' else Inr text)"

definition strip_trailing_tool_call :: "message list \<Rightarrow> message list" where
  "strip_trailing_tool_call h =
     (if h \<noteq> [] \<and> msg_role (last h) = ''assistant'' \<and> msg_tool_calls (last h) \<noteq> [] then butlast h else h)"

definition max_context_rounds :: nat where
  "max_context_rounds = 3"

definition supplied_message :: "string \<Rightarrow> message" where
  "supplied_message answer =
     text_message ''user'' (''Here is the additional context you requested:'' @ [newline_char, newline_char] @ answer)"

text \<open>A node's outcome with the requests it sent and the questions it put to the user.\<close>

record node_trace =
  nt_error :: "node_error option"
  nt_state :: task_state
  nt_requests :: "agent_request list"
  nt_prompts :: "string list list"

definition ended :: "node_error option \<Rightarrow> task_state \<Rightarrow> node_trace" where
  "ended e st = \<lparr>nt_error = e, nt_state = st, nt_requests = [], nt_prompts = []\<rparr>"

definition finish_node :: "json_env \<Rightarrow> string \<Rightarrow> string \<Rightarrow> task_state \<Rightarrow> node_trace" where
  "finish_node je nid raw st =
     (case apply_output je nid raw st of (e, st') \<Rightarrow> ended (map_option OutputError e) st')"

function role_rounds :: "node_env \<Rightarrow> json_env \<Rightarrow> string \<Rightarrow> agent_request \<Rightarrow> task_state \<Rightarrow> nat \<Rightarrow> message list \<Rightarrow> node_trace" where
  "role_rounds env je nid rq st rnd msgs =
     (let req = rq\<lparr>rq_messages := msgs\<rparr>;
          out = (case ne_run env rnd req of
             Inl e \<Rightarrow> ended (Some (RunError e)) st
           | Inr res \<Rightarrow>
               (case ag_status res of
                  Completed \<Rightarrow> finish_node je nid (ag_output res) st
                | AgentError e \<Rightarrow> ended (Some (NodeReported e)) st
                | OtherStatus s \<Rightarrow> ended (Some (UnexpectedStatus s)) st
                | NeedsContext \<Rightarrow>
                    if rnd \<ge> max_context_rounds then ended (Some (StillNeedsContext (ag_required res))) st
                    else
                      (let qs = context_questions (ag_required res);
                           next_trace = (case request_context_via_hitl (ne_ask env rnd) (ag_required res) of
                             Inl e \<Rightarrow> ended (Some (ContextNotSupplied (ag_required res) e)) st
                           | Inr answer \<Rightarrow>
                               role_rounds env je nid rq st (Suc rnd)
                                 (strip_trailing_tool_call (ag_history res) @ [supplied_message answer]))
                       in next_trace\<lparr>nt_prompts := qs # nt_prompts next_trace\<rparr>)))
      in out\<lparr>nt_requests := req # nt_requests out\<rparr>)"
  by pat_completeness auto
termination
  by (relation "measure (\<lambda>(env, je, nid, rq, st, rnd, msgs). Suc max_context_rounds - rnd)") auto

declare role_rounds.simps [simp del]

text \<open>The node: its schema, prompt, tools and sampling, then the rounds.\<close>

definition role_node :: "node_env \<Rightarrow> now_env \<Rightarrow> json_env \<Rightarrow> template_config \<Rightarrow> string list option \<Rightarrow> bool \<Rightarrow>
    role_def \<Rightarrow> string \<Rightarrow> (string \<times> string) list \<Rightarrow> task_state \<Rightarrow> node_trace" where
  "role_node env nw je cfg defs resuming role nid slots st =
     (case tm_engine cfg of
        None \<Rightarrow> ended (Some NoPromptEngine) st
      | Some e \<Rightarrow>
          (case resolve_schema e role of
             Inl err \<Rightarrow> ended (Some (SchemaError err)) st
           | Inr (schema, _) \<Rightarrow>
               (case compose_prompt nw (Some e) role st slots of
                  Inl err \<Rightarrow> ended (Some err) st
                | Inr sys \<Rightarrow>
                    (case effective_worker_defaults cfg (Some role) of (thinking, temperature) \<Rightarrow>
                       role_rounds env je nid
                         \<lparr>rq_model = tm_model cfg, rq_system = sys, rq_messages = [],
                          rq_tools = tools_for_role defs role, rq_schema = schema,
                          rq_max_turns = role_max_turns role, rq_thinking = thinking,
                          rq_temperature = temperature\<rparr> st 0
                         [text_message ''user''
                            ((if resuming then resume_hygiene_preamble else []) @ build_initial_message st)]))))"


section \<open>How often a node runs, and what it sends\<close>

text \<open>The histories the agent loop hands back end cleanly once a final open call is dropped.\<close>

definition runs_cleanly :: "node_env \<Rightarrow> bool" where
  "runs_cleanly env \<longleftrightarrow>
     (\<forall>i req res. acceptable (rq_messages req) \<longrightarrow> ne_run env i req = Inr res \<longrightarrow>
        acceptable (strip_trailing_tool_call (ag_history res)))"

lemma user_message_acceptable: "acceptable [text_message ''user'' t]"
  by (simp add: acceptable_def text_message_def is_tool_def)

lemma context_questions_ask:
  "context_questions needs \<noteq> []" "q \<in> set (context_questions needs) \<Longrightarrow> q \<noteq> []"
  by (auto simp: context_questions_def context_question_def Let_def split: if_splits prod.splits)

lemma ended_simps [simp]:
  "nt_requests (ended e st) = []" "nt_prompts (ended e st) = []" "nt_error (ended e st) = e"
  "nt_state (ended e st) = st"
  by (simp_all add: ended_def)

lemma finish_node_simps [simp]:
  "nt_requests (finish_node je nid raw st) = []" "nt_prompts (finish_node je nid raw st) = []"
  by (simp_all add: finish_node_def split: prod.split)

definition sound_request :: "agent_request \<Rightarrow> bool" where
  "sound_request req \<longleftrightarrow> acceptable (rq_messages req) \<and> rq_messages req \<noteq> [] \<and> is_user (last (rq_messages req))"

definition sound_prompt :: "string list \<Rightarrow> bool" where
  "sound_prompt qs \<longleftrightarrow> qs \<noteq> [] \<and> [] \<notin> set qs"

lemma sound_questions: "sound_prompt (context_questions needs)"
  using context_questions_ask by (auto simp: sound_prompt_def)

lemma role_rounds_bounded:
  "runs_cleanly env \<Longrightarrow> acceptable msgs \<Longrightarrow> msgs \<noteq> [] \<Longrightarrow> is_user (last msgs) \<Longrightarrow> rnd \<le> max_context_rounds \<Longrightarrow>
    length (nt_requests (role_rounds env je nid rq st rnd msgs)) \<le> Suc max_context_rounds - rnd \<and>
    length (nt_prompts (role_rounds env je nid rq st rnd msgs)) \<le> max_context_rounds - rnd \<and>
    list_all sound_request (nt_requests (role_rounds env je nid rq st rnd msgs)) \<and>
    list_all sound_prompt (nt_prompts (role_rounds env je nid rq st rnd msgs))"
proof (induction env je nid rq st rnd msgs rule: role_rounds.induct)
  case (1 env je nid rq st rnd msgs)
  let ?req = "rq\<lparr>rq_messages := msgs\<rparr>"
  have req: "sound_request ?req" using 1(3-5) by (simp add: sound_request_def)
  show ?case
  proof (cases "\<exists>res answer. ne_run env rnd ?req = Inr res \<and> ag_status res = NeedsContext \<and>
      \<not> rnd \<ge> max_context_rounds \<and> request_context_via_hitl (ne_ask env rnd) (ag_required res) = Inr answer")
    case True
    then obtain res answer where r: "ne_run env rnd ?req = Inr res" "ag_status res = NeedsContext"
      "\<not> rnd \<ge> max_context_rounds" "request_context_via_hitl (ne_ask env rnd) (ag_required res) = Inr answer"
      by blast
    let ?next = "strip_trailing_tool_call (ag_history res) @ [supplied_message answer]"
    have "acceptable (rq_messages ?req)" using 1(3) by simp
    then have "acceptable (strip_trailing_tool_call (ag_history res))"
      using 1(2) r(1) unfolding runs_cleanly_def by blast
    then have ok: "acceptable ?next"
      using user_message_acceptable by (simp add: acceptable_append supplied_message_def)
    have user: "is_user (last ?next)" by (simp add: supplied_message_def text_message_def is_user_def)
    note prompt = sound_questions [of "ag_required res"]
    have "length (nt_requests (role_rounds env je nid rq st (Suc rnd) ?next)) \<le> Suc max_context_rounds - Suc rnd \<and>
        length (nt_prompts (role_rounds env je nid rq st (Suc rnd) ?next)) \<le> max_context_rounds - Suc rnd \<and>
        list_all sound_request (nt_requests (role_rounds env je nid rq st (Suc rnd) ?next)) \<and>
        list_all sound_prompt (nt_prompts (role_rounds env je nid rq st (Suc rnd) ?next))"
      using 1(1) [OF refl r(1,2,3) refl r(4) 1(2) ok _ user] r(3) by simp
    moreover have "role_rounds env je nid rq st rnd msgs =
        (let n = role_rounds env je nid rq st (Suc rnd) ?next in
         n\<lparr>nt_prompts := context_questions (ag_required res) # nt_prompts n,
           nt_requests := ?req # nt_requests n\<rparr>)"
      using r by (simp add: role_rounds.simps [of env je nid rq st rnd msgs] Let_def)
    ultimately show ?thesis using req prompt r(3) by (auto simp: Let_def)
  next
    case False
    then show ?thesis
      using req 1(6) sound_questions
      unfolding role_rounds.simps [of env je nid rq st rnd msgs] Let_def
      by (auto split: sum.split agent_status.split)
  qed
qed


section \<open>The workspace path stays out of the conversation\<close>

text \<open>The state with other workspace directories.\<close>

definition relocate :: "string \<Rightarrow> string \<Rightarrow> task_state \<Rightarrow> task_state" where
  "relocate dir base st = st\<lparr>ts_workspace := dir, ts_base := base\<rparr>"

lemma relocate_simps [simp]:
  "ts_artifacts (relocate d b st) = ts_artifacts st" "ts_workspace (relocate d b st) = d"
  "ts_base (relocate d b st) = b"
  by (simp_all add: relocate_def)

lemma initial_message_relocate:
  assumes "(d \<noteq> [] \<or> b \<noteq> []) \<longleftrightarrow> (ts_workspace st \<noteq> [] \<or> ts_base st \<noteq> [])"
  shows "build_initial_message (relocate d b st) = build_initial_message st"
proof -
  have "artifact_section (relocate d b st) = artifact_section st"
    by (simp add: artifact_section_def fun_eq_iff)
  then show ?thesis
    using assms by (simp add: build_initial_message_def Let_def artifact_keys_def get_artifact_string_def)
qed

lemma compose_relocate: "compose_prompt nw eng role (relocate d b st) slots = compose_prompt nw eng role st slots"
proof -
  have "string_artifacts (relocate d b st) = string_artifacts st"
    "get_artifact_string k (relocate d b st) = get_artifact_string k st" for k
    by (simp_all add: string_artifacts_def get_artifact_string_def)
  then show ?thesis by (simp only: compose_prompt_def)
qed

lemma rounds_relocate:
  "nt_requests (role_rounds env je nid rq st rnd msgs) = nt_requests (role_rounds env je nid rq st' rnd msgs) \<and>
   nt_prompts (role_rounds env je nid rq st rnd msgs) = nt_prompts (role_rounds env je nid rq st' rnd msgs)"
proof (induction env je nid rq st rnd msgs rule: role_rounds.induct)
  case (1 env je nid rq st rnd msgs)
  show ?case
    unfolding role_rounds.simps [of env je nid rq st rnd msgs] role_rounds.simps [of env je nid rq st' rnd msgs] Let_def
    using 1 by (auto split: sum.split agent_status.split)
qed


section \<open>Which tools a role gets\<close>

lemma add_opt_in_set: "set (foldl add_opt_in al ts) = set al \<union> set ts"
  by (induction ts arbitrary: al) (auto simp: add_opt_in_def)

text \<open>
  A role never gets a tool its access level does not include unless its \<open>tools:\<close> list names it;
  in particular a role without write access edits files only when it asks for the tool.
\<close>

theorem tools_within_access:
  assumes "t \<in> set (tools_for_role defs role)" and "normalize_access (role_access role) \<noteq> ''all''"
  shows "t \<in> set (base_allowlist_for_access (normalize_access (role_access role))) \<union> set (role_tools role) \<and>
    (t \<in> {''write_file'', ''edit_file''} \<longrightarrow> t \<in> set (role_tools role) \<or> access_writes_workspace (role_access role))"
proof -
  have t: "t \<in> set (base_allowlist_for_access (normalize_access (role_access role))) \<union> set (role_tools role)"
    using assms unfolding tools_for_role_def Let_def normalize_access_def [symmetric]
    by (auto simp: adapt_tools_def add_opt_in_set split: if_splits option.splits)
  then show ?thesis
    by (auto simp: access_writes_workspace_def base_allowlist_for_access_def test_tools_def read_only_tools_def
        job_note_tools_def split: if_splits)
qed

text \<open>
  Fan-out decides by the access level alone whether its branches need workspaces of their own, and
  does not see the tools a role opts into.
\<close>

definition opting_role :: role_def where
  "opting_role = empty_role\<lparr>role_name := ''coder'', role_access := ''readonly'', role_tools := [''write_file'']\<rparr>"

lemma opt_in_writes_shared:
  "\<not> access_writes_workspace (role_access opting_role) \<and>
   ''write_file'' \<in> set (tools_for_role (Some [''read_file'', ''write_file'']) opting_role)"
  by code_simp

section \<open>A node that asks once\<close>

definition sample_node_env :: node_env where
  "sample_node_env =
     \<lparr>ne_run = (\<lambda>i req. Inr
        \<lparr>ag_status = (if i = 0 then NeedsContext else Completed), ag_output = ''{}'',
         ag_required = [(''repo'', ''Which repository?'')],
         ag_history = [text_message ''user'' ''Task'',
           \<lparr>msg_role = ''assistant'', msg_content = [],
            msg_tool_calls = [tool_call.make ''1'' ''request_context'' ''{}''], msg_tool_call_id = []\<rparr>]\<rparr>),
      ne_ask = (\<lambda>i qs. Inr ''toasters'')\<rparr>"

definition sample_cfg :: template_config where
  "sample_cfg =
     \<lparr>tm_engine = Some (new_engine\<lparr>en_roles := [(''coder'', opting_role)],
        en_schemas := [(''summary'', \<lparr>sc_name = ''summary'', sc_description = [],
          sc_fields = [(''summary'', FieldDef ''string'' [] True None [])]\<rparr>)]\<rparr>),
      tm_model = ''m'', tm_thinking = False, tm_temperature = Finite 0, tm_temperature_override = None,
      tm_thinking_override = None, tm_checkpoints = False, tm_registered = []\<rparr>"

lemma sample_node_clean: "runs_cleanly sample_node_env"
proof -
  have "acceptable [text_message ''user'' ''Task'']" by (rule user_message_acceptable)
  then show ?thesis
    by (auto simp: runs_cleanly_def sample_node_env_def strip_trailing_tool_call_def)
qed



lemma tools_within_access_witness:
  "''write_file'' \<in> set (role_tools opting_role) \<and> \<not> access_writes_workspace (role_access opting_role)"
proof -
  have all: "normalize_access (role_access opting_role) \<noteq> ''all''" by code_simp
  from tools_within_access [OF conjunct2 [OF opt_in_writes_shared] all] opt_in_writes_shared show ?thesis by simp
qed

text \<open>The node above: one interrupt, and a second run with the answer.\<close>

lemma sample_node_runs:
  "let t = role_node sample_node_env \<lparr>nw_month = [], nw_year = [], nw_date = []\<rparr>
        \<lparr>je_number = Some, je_error = id\<rparr> sample_cfg None False opting_role ''n'' []
        (new_task_state ''j'' ''t'' ''/w'' ''p'' ''m'')
   in nt_error t = None \<and> length (nt_requests t) = 2 \<and> nt_prompts t = [[''Which repository?'']]"
  by code_simp

end
