(* ===== verification/JsonPrefix.thy ===== *)
theory JsonPrefix
  imports Json
begin

text \<open>
  Decoding from the front of a text: a decoded value consumes a part of it, what follows that part
  does not matter, and a value cut short is not decoded. This is what the streaming decoder of
  \<open>encoding/json\<close> is used for.
\<close>

section \<open>Decoding consumes its input\<close>

text \<open>A decoded string is no longer than what was read for it, and something was read.\<close>

lemma utf8_encode_length: "length (utf8_encode n) \<le> 4"
  by (simp add: utf8_encode_def)

lemma prepend_SomeD: "prepend p x = Some (s, r) \<Longrightarrow> \<exists>t. x = Some (t, r) \<and> s = p @ t"
  by (auto simp: prepend_def)

lemma parse_body_length: "parse_body s = Some (t, r) \<Longrightarrow> length t + length r < length s"
proof (induction "length s" arbitrary: s t r rule: less_induct)
  case less
  have IH: "length w + length r' < length s'" if "parse_body s' = Some (w, r')" "length s' < length s" for s' w r'
    using less(1) [OF that(2) that(1)] .
  obtain c s1 where s: "s = c # s1" using less(2) by (cases s) (simp_all add: parse_body.simps(1))
  have p: "parse_body (c # s1) = Some (t, r)" using less(2) s by simp
  show ?case
  proof (cases "c = CHR 0x5C \<and> (\<exists>s'. s1 = CHR ''u'' # s')")
    case True
    then obtain s' where c: "c = CHR 0x5C" "s1 = CHR ''u'' # s'" by blast
    obtain h1 h2 h3 h4 s'' u where e: "s' = h1 # h2 # h3 # h4 # s''" "hex4 h1 h2 h3 h4 = Some u"
      using p c by (auto simp: parse_body.simps(2) [of "CHR 0x5C"] split: list.splits option.splits)
    obtain v w r' where v: "parse_body r' = Some (w, r)" "t = utf8_encode v @ w" "r' = s'' \<or> r' = drop 6 s''"
      using p c e
      by (auto simp: parse_body.simps(2) [of "CHR 0x5C"] split: if_splits option.splits dest!: prepend_SomeD)
    have "length r' \<le> length s''" using v(3) by auto
    moreover from this have "length w + length r < length r'" using IH [OF v(1)] s c e by simp
    ultimately show ?thesis using utf8_encode_length [of v] v(2) s c e by simp
  next
    case False
    have "(c = CHR 0x22 \<and> t = [] \<and> r = s1) \<or> (\<exists>x r'. parse_body r' = Some (x, r) \<and> length t = Suc (length x)
        \<and> (r' = s1 \<or> r' = tl s1 \<and> s1 \<noteq> []))"
      using p False
      by (subst (asm) parse_body.simps(2))
         (fastforce split: if_splits option.splits list.splits dest!: prepend_SomeD)
    then show ?thesis
    proof (elim disjE exE conjE)
      fix x r' assume x: "parse_body r' = Some (x, r)" "length t = Suc (length x)" "r' = s1"
      then show ?thesis using IH [OF x(1)] s by simp
    next
      fix x r' assume x: "parse_body r' = Some (x, r)" "length t = Suc (length x)" "r' = tl s1" "s1 \<noteq> []"
      then show ?thesis using IH [OF x(1)] s by (cases s1) simp_all
    qed (use s in simp)
  qed
qed

lemma skip_ws_length: "length (skip_ws s) \<le> length s"
  by (simp add: skip_ws_def length_dropWhile_le)

lemma expect_length: "expect w v s = Some (j, r) \<Longrightarrow> w \<noteq> [] \<Longrightarrow> length r < length s"
  by (auto simp: expect_def split: if_splits) (metis diff_less length_greater_0_conv take_eq_Nil)

lemma parse_number_length: "parse_number s = Some (j, r) \<Longrightarrow> length r < length s"
proof -
  assume p: "parse_number s = Some (j, r)"
  then have ne: "takeWhile number_char s \<noteq> []" and r: "r = dropWhile number_char s"
    by (auto simp: parse_number_def Let_def valid_number_def number_end_def split: if_splits)
  have "length s = length (takeWhile number_char s) + length r"
    unfolding r by (metis length_append takeWhile_dropWhile_id)
  then show ?thesis using ne by (cases "takeWhile number_char s") simp_all
qed

text \<open>The ways a value, the elements of an array and the members of an object are read.\<close>

lemma parse_valueE:
  assumes "parse_value (Suc n) s = Some (j, r)"
  obtains (string) u t where "skip_ws s = CHR 0x22 # u" "parse_body u = Some (t, r)" "j = JStr t"
  | (no_elements) u where "skip_ws s = CHR ''['' # u" "skip_ws u = CHR '']'' # r" "j = JArr []"
  | (elements) u d u' js where "skip_ws s = CHR ''['' # u" "skip_ws u = d # u'" "d \<noteq> CHR '']''"
      "parse_elems n u = Some (js, r)" "j = JArr js"
  | (no_members) u where "skip_ws s = CHR 0x7B # u" "skip_ws u = CHR 0x7D # r" "j = JObj []"
  | (members) u d u' ms where "skip_ws s = CHR 0x7B # u" "skip_ws u = d # u'" "d \<noteq> CHR 0x7D"
      "parse_members n u = Some (ms, r)" "j = JObj ms"
  | (literal) w v c u where "skip_ws s = c # u" "(c, w, v) \<in> {(CHR ''t'', ''true'', JBool True),
      (CHR ''f'', ''false'', JBool False), (CHR ''n'', ''null'', JNull)}" "expect w v (c # u) = Some (j, r)"
  | (number) c u where "skip_ws s = c # u" "c \<notin> {CHR 0x22, CHR ''['', CHR 0x7B, CHR ''t'', CHR ''f'', CHR ''n''}"
      "parse_number (c # u) = Some (j, r)"
proof -
  obtain c u where c: "skip_ws s = c # u" using assms by (cases "skip_ws s") simp_all
  consider "c = CHR 0x22" | "c = CHR ''[''" | "c = CHR 0x7B" | "c = CHR ''t''" | "c = CHR ''f''" | "c = CHR ''n''"
    | "c \<notin> {CHR 0x22, CHR ''['', CHR 0x7B, CHR ''t'', CHR ''f'', CHR ''n''}" by blast
  then show thesis
  proof cases
    case 1 then show thesis using assms c string by auto
  next
    case 2
    then obtain d u' where "skip_ws u = d # u'" using assms c by (cases "skip_ws u") simp_all
    then show thesis using 2 assms c no_elements elements by (auto split: if_splits)
  next
    case 3
    then obtain d u' where "skip_ws u = d # u'" using assms c by (cases "skip_ws u") simp_all
    then show thesis using 3 assms c no_members members by (auto split: if_splits)
  next
    case 4 then show thesis using assms c literal [of c u "''true''"] by simp
  next
    case 5 then show thesis using assms c literal [of c u "''false''"] by simp
  next
    case 6 then show thesis using assms c literal [of c u "''null''"] by simp
  next
    case 7 then show thesis using assms c number by simp
  qed
qed

lemma parse_elemsE:
  assumes "parse_elems (Suc n) s = Some (js, r)"
  obtains (last) j u where "parse_value n s = Some (j, u)" "skip_ws u = CHR '']'' # r" "js = [j]"
  | (more) j u u' js' where "parse_value n s = Some (j, u)" "skip_ws u = CHR '','' # u'"
      "parse_elems n u' = Some (js', r)" "js = j # js'"
  using assms by (auto split: option.splits list.splits if_splits)

lemma parse_membersE:
  assumes "parse_members (Suc n) s = Some (ms, r)"
  obtains (last) a k u u' v u'' where "skip_ws s = CHR 0x22 # a" "parse_body a = Some (k, u)"
      "skip_ws u = CHR '':'' # u'" "parse_value n u' = Some (v, u'')" "skip_ws u'' = CHR 0x7D # r" "ms = [(k, v)]"
  | (more) a k u u' v u'' b ms' where "skip_ws s = CHR 0x22 # a" "parse_body a = Some (k, u)"
      "skip_ws u = CHR '':'' # u'" "parse_value n u' = Some (v, u'')" "skip_ws u'' = CHR '','' # b"
      "parse_members n b = Some (ms', r)" "ms = (k, v) # ms'"
  using assms by (auto split: option.splits list.splits if_splits)


lemma parse_lengths:
  "parse_value n s = Some (j, r) \<Longrightarrow> length r < length s \<and> (\<forall>t. j = JStr t \<longrightarrow> length t < length s)"
  "parse_elems n s = Some (js, r) \<Longrightarrow> length r < length s"
  "parse_members n s = Some (ms, r) \<Longrightarrow> length r < length s"
proof (induction n arbitrary: s j r js ms)
  case (Suc n)
  have ws: "length u \<le> length v" if "skip_ws v = u" for u v using skip_ws_length that by metis
  {
    case 1
    then show ?case
    proof (cases rule: parse_valueE)
      case (string u t)
      then show ?thesis using ws [OF string(1)] parse_body_length [OF string(2)] by simp
    next
      case (no_elements u)
      then show ?thesis using ws [OF no_elements(1)] ws [OF no_elements(2)] by simp
    next
      case (elements u d u' js)
      then show ?thesis using ws [OF elements(1)] Suc.IH(2) [OF elements(4)] by simp
    next
      case (no_members u)
      then show ?thesis using ws [OF no_members(1)] ws [OF no_members(2)] by simp
    next
      case (members u d u' ms)
      then show ?thesis using ws [OF members(1)] Suc.IH(3) [OF members(4)] by simp
    next
      case (literal w v c u)
      then have "w \<noteq> []" "j = v" "\<forall>t. v \<noteq> JStr t" by (auto simp: expect_def split: if_splits)
      then show ?thesis using ws [OF literal(1)] expect_length [OF literal(3)] by auto
    next
      case (number c u)
      then have "\<forall>t. j \<noteq> JStr t" by (auto simp: parse_number_def Let_def split: if_splits)
      then show ?thesis using ws [OF number(1)] parse_number_length [OF number(3)] by auto
    qed
  next
    case 2
    then show ?case
    proof (cases rule: parse_elemsE)
      case (last j u)
      then show ?thesis using ws [OF last(2)] Suc.IH(1) [OF last(1)] by simp
    next
      case (more j u u' js')
      then show ?thesis using ws [OF more(2)] Suc.IH(1) [OF more(1)] Suc.IH(2) [OF more(3)] by simp
    qed
  next
    case 3
    then show ?case
    proof (cases rule: parse_membersE)
      case (last a k u u' v u'')
      then show ?thesis
        using ws [OF last(1)] parse_body_length [OF last(2)] ws [OF last(3)] Suc.IH(1) [OF last(4)] ws [OF last(5)]
        by simp
    next
      case (more a k u u' v u'' b ms')
      then show ?thesis
        using ws [OF more(1)] parse_body_length [OF more(2)] ws [OF more(3)] Suc.IH(1) [OF more(4)] ws [OF more(5)]
          Suc.IH(3) [OF more(6)]
        by simp
    qed
  }
qed simp_all

section \<open>What follows does not matter\<close>

lemma skip_ws_extend: "skip_ws s = c # u \<Longrightarrow> skip_ws (s @ q) = c # u @ q"
  by (auto simp: skip_ws_def dropWhile_append dest: dropWhile_eq_Nil_conv [THEN iffD2])

lemma low_follows_keep: "low_follows s = Some l \<Longrightarrow> low_follows (s @ q) = Some l \<and> drop 6 (s @ q) = drop 6 s @ q"
  by (cases s rule: low_follows.cases) (auto split: if_splits)

lemma low_follows_extend: "parse_body s = Some x \<Longrightarrow> low_follows (s @ q) = low_follows s"
proof (cases "6 \<le> length s")
  case True
  then obtain a b c d e f s' where "s = a # b # c # d # e # f # s'"
    by (auto simp: numeral_eq_Suc Suc_le_length_iff)
  then show ?thesis by simp
next
  case False
  assume p: "parse_body s = Some x"
  have no: "low_follows s = None" using False by (cases s rule: low_follows.cases) auto
  have "low_follows (s @ q) = None"
  proof (rule ccontr)
    assume "low_follows (s @ q) \<noteq> None"
    then obtain t where t: "s @ q = CHR 0x5C # CHR ''u'' # t"
      by (cases "s @ q" rule: low_follows.cases) (auto split: if_splits)
    show False
    proof (cases s)
      case (Cons c s1)
      then have c: "c = CHR 0x5C" using t by simp
      show False
        using p False t Cons c
        by (cases s1) (auto simp: parse_body.simps(2) [of "CHR 0x5C"] split: list.splits)
    qed (use p in \<open>simp add: parse_body.simps(1)\<close>)
  qed
  then show ?thesis using no by simp
qed

lemma parse_body_extend: "parse_body s = Some (t, r) \<Longrightarrow> parse_body (s @ q) = Some (t, r @ q)"
proof (induction "length s" arbitrary: s t r rule: less_induct)
  case less
  have IH: "parse_body (s' @ q) = Some (w, r' @ q)" if "parse_body s' = Some (w, r')" "length s' < length s" for s' w r'
    using less(1) [OF that(2) that(1)] .
  obtain c s1 where s: "s = c # s1" using less(2) by (cases s) (simp_all add: parse_body.simps(1))
  have p: "parse_body (c # s1) = Some (t, r)" using less(2) s by simp
  show ?case
  proof (cases "c = CHR 0x5C \<and> (\<exists>s'. s1 = CHR ''u'' # s')")
    case True
    then obtain s' where c: "c = CHR 0x5C" "s1 = CHR ''u'' # s'" by blast
    obtain h1 h2 h3 h4 s'' u where e: "s' = h1 # h2 # h3 # h4 # s''" "hex4 h1 h2 h3 h4 = Some u"
      using p c by (auto simp: parse_body.simps(2) [of "CHR 0x5C"] split: list.splits option.splits)
    have here: "parse_body s = (if surrogate_high u then
        (case low_follows s'' of
           Some l \<Rightarrow> prepend (utf8_encode (0x10000 + (u - 0xD800) * 1024 + (l - 0xDC00))) (parse_body (drop 6 s''))
         | None \<Rightarrow> prepend (utf8_encode 0xFFFD) (parse_body s''))
       else prepend (utf8_encode (if surrogate_low u then 0xFFFD else u)) (parse_body s''))"
      and there: "parse_body (s @ q) = (if surrogate_high u then
        (case low_follows (s'' @ q) of
           Some l \<Rightarrow> prepend (utf8_encode (0x10000 + (u - 0xD800) * 1024 + (l - 0xDC00))) (parse_body (drop 6 (s'' @ q)))
         | None \<Rightarrow> prepend (utf8_encode 0xFFFD) (parse_body (s'' @ q)))
       else prepend (utf8_encode (if surrogate_low u then 0xFFFD else u)) (parse_body (s'' @ q)))"
      using s c e by (simp_all add: parse_body.simps(2) [of "CHR 0x5C"])
    have len: "length s'' < length s" "length (drop 6 s'') < length s" using s c e by simp_all
    show ?thesis
    proof (cases "low_follows s''")
      case None
      then obtain v w where v: "parse_body s'' = Some (w, r)" "t = utf8_encode v @ w"
          "v = (if surrogate_high u \<or> surrogate_low u then 0xFFFD else u)"
        using less(2) here by (auto split: if_splits dest!: prepend_SomeD)
      then show ?thesis
        unfolding there using IH [OF v(1) len(1)] low_follows_extend [OF v(1)] None by (simp del: append_assoc)
    next
      case (Some l)
      show ?thesis
      proof (cases "surrogate_high u")
        case True
        then obtain w where w: "parse_body (drop 6 s'') = Some (w, r)"
            "t = utf8_encode (0x10000 + (u - 0xD800) * 1024 + (l - 0xDC00)) @ w"
          using less(2) here Some by (auto dest!: prepend_SomeD)
        then show ?thesis unfolding there using IH [OF w(1) len(2)] low_follows_keep [OF Some, of q] True by simp
      next
        case False
        then obtain w where w: "parse_body s'' = Some (w, r)"
            "t = utf8_encode (if surrogate_low u then 0xFFFD else u) @ w"
          using less(2) here by (auto dest!: prepend_SomeD)
        then show ?thesis unfolding there using IH [OF w(1) len(1)] False by simp
      qed
    qed
  next
    case False
    show ?thesis
      unfolding s append_Cons using p False s IH
      by (subst (asm) parse_body.simps(2), subst parse_body.simps(2) [of c])
         (fastforce split: if_splits option.splits list.splits dest!: prepend_SomeD)
  qed
qed


lemma expect_extend: "expect w v s = Some (j, r) \<Longrightarrow> expect w v (s @ q) = Some (j, r @ q)"
  by (auto simp: expect_def split: if_splits) (metis append_take_drop_id length_take min.absorb_iff2 not_le_imp_less
      order_le_less take_all_iff)

lemma parse_number_extend:
  assumes "parse_number s = Some (j, r)" "r \<noteq> []"
  shows "parse_number (s @ q) = Some (j, r @ q)"
proof -
  have r: "r = dropWhile number_char s" using assms(1) by (auto simp: parse_number_def Let_def split: if_splits)
  then have "\<exists>c\<in>set s. \<not> number_char c" using assms(2) by (metis dropWhile_eq_Nil_conv)
  then have "takeWhile number_char (s @ q) = takeWhile number_char s" "dropWhile number_char (s @ q) = r @ q"
    using r by (auto simp: takeWhile_append1 dropWhile_append1)
  then show ?thesis using assms(1) by (auto simp: parse_number_def Let_def split: if_splits)
qed

text \<open>A number may go on; after any other value, or a number that something follows, more text is left alone.\<close>

lemma parse_extend:
  "parse_value n s = Some (j, r) \<Longrightarrow> r \<noteq> [] \<or> (\<forall>x. j \<noteq> JNum x) \<Longrightarrow> parse_value n (s @ q) = Some (j, r @ q)"
  "parse_elems n s = Some (js, r) \<Longrightarrow> parse_elems n (s @ q) = Some (js, r @ q)"
  "parse_members n s = Some (ms, r) \<Longrightarrow> parse_members n (s @ q) = Some (ms, r @ q)"
proof (induction n arbitrary: s j r js ms)
  case (Suc n)
  {
    case 1
    from 1(1) show ?case
    proof (cases rule: parse_valueE)
      case (string u t)
      then show ?thesis using skip_ws_extend [OF string(1)] parse_body_extend [OF string(2)] by simp
    next
      case (no_elements u)
      then show ?thesis using skip_ws_extend [OF no_elements(1)] skip_ws_extend [OF no_elements(2)] by simp
    next
      case (elements u d u' js)
      then show ?thesis
        using skip_ws_extend [OF elements(1)] skip_ws_extend [OF elements(2)] Suc.IH(2) [OF elements(4)] by simp
    next
      case (no_members u)
      then show ?thesis using skip_ws_extend [OF no_members(1)] skip_ws_extend [OF no_members(2)] by simp
    next
      case (members u d u' ms)
      then show ?thesis
        using skip_ws_extend [OF members(1)] skip_ws_extend [OF members(2)] Suc.IH(3) [OF members(4)] by simp
    next
      case (literal w v c u)
      then show ?thesis
        using skip_ws_extend [OF literal(1), of q] expect_extend [OF literal(3), of q] by auto
    next
      case (number c u)
      have "\<exists>x. j = JNum x" using number(3) by (auto simp: parse_number_def Let_def split: if_splits)
      then have "r \<noteq> []" using 1(2) by auto
      then show ?thesis
        using skip_ws_extend [OF number(1), of q] parse_number_extend [OF number(3), of q] number(2) by simp
    qed
  next
    case 2
    then show ?case
    proof (cases rule: parse_elemsE)
      case (last j u)
      then have "u \<noteq> []" by auto
      then show ?thesis using last skip_ws_extend [OF last(2)] Suc.IH(1) [OF last(1)] by simp
    next
      case (more j u u' js')
      then have "u \<noteq> []" by auto
      then show ?thesis
        using more skip_ws_extend [OF more(2)] Suc.IH(1) [OF more(1)] Suc.IH(2) [OF more(3)] by simp
    qed
  next
    case 3
    then show ?case
    proof (cases rule: parse_membersE)
      case (last a k u u' v u'')
      then have "u'' \<noteq> []" by auto
      then show ?thesis
        using last skip_ws_extend [OF last(1)] parse_body_extend [OF last(2)] skip_ws_extend [OF last(3)]
          Suc.IH(1) [OF last(4)] skip_ws_extend [OF last(5)] by simp
    next
      case (more a k u u' v u'' b ms')
      then have "u'' \<noteq> []" by auto
      then show ?thesis
        using more skip_ws_extend [OF more(1)] parse_body_extend [OF more(2)] skip_ws_extend [OF more(3)]
          Suc.IH(1) [OF more(4)] skip_ws_extend [OF more(5)] Suc.IH(3) [OF more(6)] by simp
    qed
  }
qed simp_all

text \<open>More fuel does not change what is read.\<close>

lemma parse_more_fuel:
  "parse_value n s = Some (j, r) \<Longrightarrow> parse_value (Suc n) s = Some (j, r)"
  "parse_elems n s = Some (js, r) \<Longrightarrow> parse_elems (Suc n) s = Some (js, r)"
  "parse_members n s = Some (ms, r) \<Longrightarrow> parse_members (Suc n) s = Some (ms, r)"
proof (induction n arbitrary: s j r js ms)
  case (Suc n)
  {
    case 1
    then show ?case
    proof (cases rule: parse_valueE)
      case (elements u d u' js)
      then show ?thesis using Suc.IH(2) [OF elements(4)] by (simp del: parse_elems.simps)
    next
      case (members u d u' ms)
      then show ?thesis using Suc.IH(3) [OF members(4)] by (simp del: parse_members.simps)
    qed (auto split: if_splits)
  next
    case 2
    then show ?case
    proof (cases rule: parse_elemsE)
      case (last j u)
      then show ?thesis using Suc.IH(1) [OF last(1)] by (simp del: parse_value.simps)
    next
      case (more j u u' js')
      then show ?thesis using Suc.IH(1) [OF more(1)] Suc.IH(2) [OF more(3)]
        by (simp del: parse_value.simps parse_elems.simps add: parse_elems.simps(2) [of "Suc n"])
    qed
  next
    case 3
    then show ?case
    proof (cases rule: parse_membersE)
      case (last a k u u' v u'')
      then show ?thesis using Suc.IH(1) [OF last(4)] by (simp del: parse_value.simps)
    next
      case (more a k u u' v u'' b ms')
      then show ?thesis using Suc.IH(1) [OF more(4)] Suc.IH(3) [OF more(6)]
        by (simp del: parse_value.simps parse_members.simps add: parse_members.simps(2) [of "Suc n"])
    qed
  }
qed simp_all

lemma parse_fuel: "parse_value n s = Some (j, r) \<Longrightarrow> n \<le> m \<Longrightarrow> parse_value m s = Some (j, r)"
  by (induction m) (auto simp del: parse_value.simps dest: parse_more_fuel(1) elim!: le_SucE)

text \<open>So an encoded object, array, string, boolean or null that is cut short is not decoded.\<close>

lemma cut_short:
  assumes wf: "wf_json j" and not_num: "\<forall>x. j \<noteq> JNum x" and e: "encode j = p @ q" "q \<noteq> []"
  shows "parse_value n p = None"
proof (rule ccontr)
  assume "parse_value n p \<noteq> None"
  then obtain j' r where "parse_value n p = Some (j', r)" by force
  then have p: "parse_value (Suc (n + length (encode j))) p = Some (j', r)" by (rule parse_fuel) simp
  have whole: "parse_value (Suc (n + length (encode j))) (p @ q) = Some (j, [])"
    using wf_parses [OF wf] e by (metis append_Nil2 ends_number_punct(1) le_add2 parses_def)
  show False
  proof (cases "r \<noteq> [] \<or> (\<forall>x. j' \<noteq> JNum x)")
    case True
    then show False using parse_extend(1) [OF p, of q] whole e by (simp del: parse_value.simps)
  next
    case False
    then obtain x where x: "j' = JNum x" by auto
    from p show False
    proof (cases rule: parse_valueE)
      case (number c u)
      obtain d cs where d: "encode j = d # cs" "d \<in> {CHR 0x22, CHR ''['', CHR 0x7B, CHR ''t'', CHR ''f'', CHR ''n''}"
      proof (cases j)
        case (JBool b)
        then show ?thesis using that by (cases b) simp_all
      qed (use not_num that in \<open>auto simp: enc_string_def\<close>)
      obtain d' p' where p': "p = d' # p'" using number(1) by (cases p) simp_all
      then have "d' = d" using e d by simp
      then have "skip_ws p = p" using p' d(2) by (auto simp: skip_ws_def json_space_def)
      then show False using number p' d \<open>d' = d\<close> by auto
    qed (use x in \<open>auto simp: expect_def split: if_splits\<close>)
  qed
qed

end
