(* ===== verification/Questions.thy ===== *)
theory Questions
  imports JsonPrefix WireCodec
begin

text \<open>
  The questions of an \<open>ask_user\<close> call (\<open>internal/graphexec/worker_tools.go\<close>): a node's model writes
  them in whatever shape it likes, and what it completes is asked even when the rest is cut off.
  An error is one of its cases; the texts of the errors are left out.
\<close>

section \<open>Reading the questions\<close>

record prompt_question =
  pq_question :: string
  pq_options :: "string slice"

definition no_question :: prompt_question where
  "no_question = \<lparr>pq_question = [], pq_options = None\<rparr>"

definition prompt_question_fields :: "prompt_question fields" where
  "prompt_question_fields =
     [(''Question'', field pq_question pq_question_update read_string),
      (''Options'', field pq_options pq_options_update (read_slice read_string []))]"

text \<open>
  Streaming the elements of an array: \<open>More\<close> says no at the end of the text, at a bracket or at a
  brace; \<open>Decode\<close> wants a comma before every element but the first. An element that is not complete
  ends the loop. The fuel of the decoder is the caller's.
\<close>

function array_elements :: "nat \<Rightarrow> bool \<Rightarrow> string \<Rightarrow> json list" where
  "array_elements n fst_elem s =
     (case skip_ws s of
        [] \<Rightarrow> []
      | c # u \<Rightarrow>
          if c = CHR '']'' \<or> c = CHR 0x7D then []
          else if \<not> fst_elem \<and> c \<noteq> CHR '','' then []
          else
            (case parse_value n (if fst_elem then c # u else u) of
               None \<Rightarrow> []
             | Some (j, r) \<Rightarrow> j # array_elements n False r))"
  by pat_completeness auto
termination
proof (relation "measure (\<lambda>(n, b, s). length s)")
  fix n fst_elem s c u x j r
  assume s: "skip_ws s = c # u" and p: "parse_value n (if fst_elem then c # u else u) = Some x" "(j, r) = x"
  obtain m where "n = Suc m" using p by (cases n) simp_all
  then have "length r < length (if fst_elem then c # u else u)" using parse_lengths(1) [of n] p by metis
  then show "((n, False, r), (n, fst_elem, s)) \<in> measure (\<lambda>(n, b, s). length s)"
    using skip_ws_length [of s] s by (auto split: if_splits)
qed simp

declare array_elements.simps [simp del] parse_value.simps(2) [simp del]

lemma array_elements_string: "JStr t \<in> set (array_elements n b s) \<Longrightarrow> length t < length s"
proof (induction n b s rule: array_elements.induct)
  case (1 n b s)
  show ?case
  proof (cases "skip_ws s")
    case Nil
    then show ?thesis using 1(2) by (simp add: array_elements.simps)
  next
    case (Cons c u)
    let ?t = "if b then c # u else u"
    have go: "\<not> (c = CHR '']'' \<or> c = CHR 0x7D)" "\<not> (\<not> b \<and> c \<noteq> CHR '','')"
      using 1(2) Cons by (auto simp: array_elements.simps [of n b s] split: if_splits)
    moreover have "parse_value n ?t \<noteq> None"
    proof
      assume "parse_value n ?t = None"
      then show False using 1(2) Cons go by (simp add: array_elements.simps [of n b s])
    qed
    ultimately obtain j r where p: "parse_value n ?t = Some (j, r)" by force
    obtain m where "n = Suc m" using p by (cases n) simp_all
    then have "length r < length ?t" "\<forall>x. j = JStr x \<longrightarrow> length x < length ?t"
      using parse_lengths(1) [of n ?t j r] p by simp_all
    moreover have "length ?t \<le> length s" using skip_ws_length [of s] Cons by simp
    moreover have "array_elements n b s = j # array_elements n False r"
      using Cons go p by (simp add: array_elements.simps [of n b s])
    ultimately show ?thesis using 1(1) [OF Cons go(1,2) p refl] 1(2) by auto
  qed
qed

lemma parse_json_string: "parse_json s = Some (JStr t) \<Longrightarrow> length t < length s"
  using parse_lengths(1) [of "Suc (length s)" s "JStr t"]
  by (auto simp del: parse_value.simps simp: parse_json_def split: option.splits if_splits)

datatype question_error = Bad_json | No_parseable | Unexpected_json

text \<open>
  \<open>QuestionsFromString\<close> never fails. The two functions call each other: a string may hold an array
  whose elements are strings again.
\<close>

function parse_prompt_questions :: "string \<Rightarrow> question_error + prompt_question list"
  and questions_from_string :: "string \<Rightarrow> prompt_question list" where
  "parse_prompt_questions raw0 =
     (let raw = trim_space raw0 in
      case raw of
        [] \<Rightarrow> Inr []
      | c # rest \<Rightarrow>
          if raw = ''null'' then Inr []
          else if c = CHR 0x22 then
            (case parse_json raw of
               Some (JStr s) \<Rightarrow> Inr (questions_from_string s)
             | _ \<Rightarrow> Inl Bad_json)
          else if c = CHR 0x7B then
            (case Option.bind (parse_json raw) (\<lambda>j. read_struct prompt_question_fields j no_question) of
               Some q \<Rightarrow> Inr [q]
             | None \<Rightarrow> Inl Bad_json)
          else if c = CHR ''['' then
            (let els = array_elements (Suc (length raw)) True rest;
                 out = concat (map (\<lambda>el.
                   case el of
                     JStr s \<Rightarrow> questions_from_string s
                   | _ \<Rightarrow> (case read_struct prompt_question_fields el no_question of
                             Some q \<Rightarrow> [q] | None \<Rightarrow> [])) els)
             in if els = [] then Inl No_parseable
                else if out = [] then Inl No_parseable
                else Inr out)
          else Inl Unexpected_json)"
| "questions_from_string s0 =
     (let s = trim_space s0 in
      case s of
        [] \<Rightarrow> []
      | c # rest \<Rightarrow>
          (case (if c = CHR ''['' \<or> c = CHR 0x7B then parse_prompt_questions s else Inr []) of
             Inr (q # qs) \<Rightarrow> q # qs
           | _ \<Rightarrow> [\<lparr>pq_question = s, pq_options = None\<rparr>]))"
  by pat_completeness auto
termination
proof (relation "measure (\<lambda>x. case x of Inl raw \<Rightarrow> 2 * length raw + 1 | Inr s \<Rightarrow> 2 * length s + 2)", simp, goal_cases)
  case (1 raw0 raw c rest j s)
  have "length s < length (trim_space raw0)"
    using parse_json_string [of "trim_space raw0" s] 1 by simp
  then show ?case using trim_space_length [of raw0] by simp
next
  case (2 raw0 raw c rest els el s)
  have "length s < length rest" using array_elements_string [of s] 2 by simp
  moreover have "Suc (length rest) = length (trim_space raw0)" using 2 by (metis length_Cons)
  ultimately show ?case using trim_space_length [of raw0] by simp
next
  case (3 s0 s c rest)
  then show ?case using trim_space_length [of s0] by simp
qed

declare parse_prompt_questions.simps [simp del] questions_from_string.simps [simp del]

section \<open>The arguments of the tool\<close>

record ask_user_payload =
  au_question :: string
  au_options :: "string slice"
  au_questions :: "prompt_question list"

record ask_user_raw =
  ar_question :: string
  ar_options :: "string slice"
  ar_questions :: raw

definition ask_user_fields :: "ask_user_raw fields" where
  "ask_user_fields =
     [(''question'', field ar_question ar_question_update read_string),
      (''options'', field ar_options ar_options_update (read_slice read_string [])),
      (''questions'', field ar_questions ar_questions_update read_raw)]"

text \<open>The questions are parsed from their document as it is written compactly.\<close>

definition parse_ask_user_payload :: "string \<Rightarrow> question_error + ask_user_payload" where
  "parse_ask_user_payload args =
     (if trim_space args = [] then Inr \<lparr>au_question = [], au_options = None, au_questions = []\<rparr>
      else
        (case Option.bind (parse_json args) (\<lambda>j. read_struct ask_user_fields j
                \<lparr>ar_question = [], ar_options = None, ar_questions = None\<rparr>) of
           None \<Rightarrow> Inl Bad_json
         | Some raw \<Rightarrow>
             (case parse_prompt_questions (case ar_questions raw of None \<Rightarrow> [] | Some j \<Rightarrow> encode j) of
                Inl e \<Rightarrow> Inl e
              | Inr qs \<Rightarrow>
                  (let q = ar_question raw; from_q = questions_from_string q in
                   if qs = [] \<and> q \<noteq> [] \<and> from_q \<noteq> [] \<and> \<not> (length from_q = 1 \<and> pq_question (hd from_q) = q)
                   then Inr \<lparr>au_question = [], au_options = ar_options raw, au_questions = from_q\<rparr>
                   else Inr \<lparr>au_question = q, au_options = ar_options raw, au_questions = qs\<rparr>))))"

datatype ask_user_error = Ask_args question_error | Ask_nothing | Ask_interrupt string

text \<open>The handler of the tool; \<open>interrupt\<close> is the answer of the graph library's \<open>Interrupt\<close>.\<close>

definition ask_user_tool :: "(ask_user_payload \<Rightarrow> string + string option) \<Rightarrow> string \<Rightarrow> ask_user_error + string" where
  "ask_user_tool interrupt args =
     (case parse_ask_user_payload args of
        Inl e \<Rightarrow> Inl (Ask_args e)
      | Inr payload \<Rightarrow>
          if au_question payload = [] \<and> au_questions payload = [] then Inl Ask_nothing
          else
            (case interrupt payload of
               Inl e \<Rightarrow> Inl (Ask_interrupt e)
             | Inr resp \<Rightarrow> Inr (case resp of None \<Rightarrow> [] | Some text \<Rightarrow> text)))"


section \<open>What the model completed is asked\<close>

text \<open>A question as the tool's schema asks for it.\<close>

definition question_json :: "prompt_question \<Rightarrow> json" where
  "question_json q = JObj [(''question'', JStr (pq_question q)), (''options'', slice_json JStr (pq_options q))]"

text \<open>
  What may follow the complete elements of an array: nothing, the closing bracket and any text, or a
  comma and a part of one more question.
\<close>

definition cut_tail :: "string \<Rightarrow> bool" where
  "cut_tail t \<longleftrightarrow> t = [] \<or> (\<exists>u. t = CHR '']'' # u)
     \<or> (\<exists>p s q. t = CHR '','' # p \<and> s \<noteq> [] \<and> encode (question_json q) = p @ s)"

definition written_questions :: "prompt_question list \<Rightarrow> string \<Rightarrow> string" where
  "written_questions qs tail = ''['' @ join_strings '','' (map (encode \<circ> question_json) qs) @ tail"

lemma question_wf: "wf_json (question_json q)"
  by (auto simp: question_json_def slice_json_def list_all_iff split: option.split)

lemma question_plain: "\<forall>x. question_json q \<noteq> JNum x"
  by (simp add: question_json_def)

lemma question_read: "read_struct prompt_question_fields (question_json q) no_question = Some q"
proof -
  have "field_matches ''Question'' ''question''" "\<not> field_matches ''Question'' ''options''"
    "field_matches ''Options'' ''options''"
    by code_simp+
  then have "find_field prompt_question_fields ''question'' = Some (field pq_question pq_question_update read_string)"
    "find_field prompt_question_fields ''options'' = Some (field pq_options pq_options_update (read_slice read_string []))"
    by (simp_all add: find_field_def prompt_question_fields_def)
  moreover have "read_slice read_string [] (slice_json JStr (pq_options q)) None = Some (pq_options q)"
    using reads_slices [OF reads_string] by (simp add: reads_def wire)
  ultimately show ?thesis
    by (simp add: question_json_def field_def no_question_def)
qed

lemma cut_tail_prefix: "cut_tail (t @ z) \<Longrightarrow> cut_tail t"
proof (cases t)
  case (Cons c u)
  assume "cut_tail (t @ z)"
  then consider "c = CHR '']''" | s q where "c = CHR '',''" "s \<noteq> []" "encode (question_json q) = (u @ z) @ s"
    using Cons by (auto simp: cut_tail_def)
  then show ?thesis
  proof cases
    case 2
    then have "z @ s \<noteq> []" "encode (question_json q) = u @ z @ s" by simp_all
    then show ?thesis using Cons 2(1) unfolding cut_tail_def by blast
  qed (simp add: Cons cut_tail_def)
qed (simp add: cut_tail_def)

lemma comma_tail: "cut_tail tail \<Longrightarrow> list_all wf_json js \<Longrightarrow>
   \<forall>j\<in>set js. \<forall>x. j \<noteq> JNum x \<Longrightarrow>
   length (concat (map (\<lambda>j. CHR '','' # encode j) js) @ tail) \<le> n \<Longrightarrow>
   array_elements (Suc n) False (concat (map (\<lambda>j. CHR '','' # encode j) js) @ tail) = js"
proof (induction js)
  case Nil
  then consider "tail = []" | u where "tail = CHR '']'' # u"
    | p s q where "tail = CHR '','' # p" "s \<noteq> []" "encode (question_json q) = p @ s"
    by (auto simp: cut_tail_def)
  then show ?case
  proof cases
    case 3
    then have "parse_value (Suc n) p = None"
      using cut_short [OF question_wf question_plain 3(3,2)] by simp
    then show ?thesis using 3 by (simp del: parse_value.simps add: array_elements.simps)
  qed (simp_all del: parse_value.simps add: array_elements.simps)
next
  case (Cons j js)
  let ?rest = "concat (map (\<lambda>j. CHR '','' # encode j) js) @ tail"
  have ends: "ends_number ?rest"
    using Cons.prems(1) by (cases js) (auto simp: cut_tail_def)
  have "parse_value (Suc n) (encode j @ ?rest) = Some (j, ?rest)"
    using wf_parses [of j] Cons.prems ends unfolding parses_def by simp
  moreover have "array_elements (Suc n) False ?rest = js" using Cons by simp
  ultimately show ?case by (simp add: array_elements.simps [of _ _ "_ # _"])
qed

lemma join_commas: "join_strings '','' (x # xs) = x @ concat (map (\<lambda>y. CHR '','' # y) xs)"
  by (induction xs arbitrary: x) (simp_all)

lemma elements_read:
  assumes "cut_tail tail" "qs \<noteq> []"
  shows "array_elements (Suc (length (written_questions qs tail))) True (tl (written_questions qs tail))
    = map question_json qs"
proof -
  obtain q ks where qs: "qs = q # ks" using assms(2) by (cases qs) auto
  let ?rest = "concat (map (\<lambda>j. CHR '','' # encode j) (map question_json ks)) @ tail"
  let ?n = "length (written_questions qs tail)"
  have t: "tl (written_questions qs tail) = encode (question_json q) @ ?rest"
    by (simp add: written_questions_def qs join_commas comp_def del: join_strings.simps)
  have len: "length (encode (question_json q)) + length ?rest \<le> ?n"
    using t by (simp add: written_questions_def qs)
  have ends: "ends_number ?rest" using assms(1) by (cases ks) (auto simp: cut_tail_def)
  have p: "parse_value (Suc ?n) (encode (question_json q) @ ?rest) = Some (question_json q, ?rest)"
    using wf_parses [OF question_wf, of q] len ends unfolding parses_def by simp
  have r: "array_elements (Suc ?n) False ?rest = map question_json ks"
    using assms(1) len by (intro comma_tail) (auto simp: list_all_iff question_wf question_plain)
  obtain e where "encode (question_json q) = CHR 0x7B # e" by (simp add: question_json_def)
  moreover from this have "skip_ws (encode (question_json q) @ ?rest) = encode (question_json q) @ ?rest" by simp
  ultimately show ?thesis using p r t by (simp add: qs array_elements.simps [of _ True])
qed

lemma join_ends: "xs \<noteq> [] \<Longrightarrow> \<forall>x\<in>set xs. \<exists>y. x = y @ [c] \<Longrightarrow> \<exists>y. join_strings sep xs = y @ [c]"
  by (induction xs rule: join_strings.induct) auto

lemma trim_written:
  assumes "cut_tail tail" "qs \<noteq> []"
  shows "\<exists>t. trim_space (written_questions qs tail) = written_questions qs t \<and> cut_tail t"
proof -
  obtain x where x: "join_strings '','' (map (encode \<circ> question_json) qs) = x @ [CHR 0x7D]"
    using join_ends [of "map (encode \<circ> question_json) qs" "CHR 0x7D" "'',''"] assms(2)
    by (auto simp: question_json_def)
  show ?thesis
    using trim_keeps [of "CHR 0x7D" "CHR ''[''" x tail] cut_tail_prefix assms(1)
    by (auto simp: written_questions_def x)
qed

lemma written_parsed:
  assumes "cut_tail tail" "qs \<noteq> []"
  shows "parse_prompt_questions (written_questions qs tail) = Inr qs"
proof -
  obtain t where t: "trim_space (written_questions qs tail) = written_questions qs t" "cut_tail t"
    using trim_written [OF assms] by blast
  obtain u where u: "written_questions qs t = CHR ''['' # u" by (simp add: written_questions_def)
  have "array_elements (Suc (length (CHR ''['' # u))) True u = map question_json qs"
    using elements_read [OF t(2) assms(2)] by (simp add: u)
  moreover have "concat (map (\<lambda>el. case el of JStr s \<Rightarrow> questions_from_string s
      | _ \<Rightarrow> (case read_struct prompt_question_fields el no_question of Some q \<Rightarrow> [q] | None \<Rightarrow> []))
      (map question_json qs)) = qs"
  proof (induction qs)
    case (Cons q qs)
    moreover obtain ms where "question_json q = JObj ms" by (simp add: question_json_def)
    ultimately show ?case using question_read [of q] by simp
  qed simp
  ultimately show ?thesis
    using assms(2) by (simp add: parse_prompt_questions.simps [of "written_questions qs tail"] t(1) u Let_def)
qed

lemma written_in_string: "cut_tail tail \<Longrightarrow> qs \<noteq> [] \<Longrightarrow> questions_from_string (written_questions qs tail) = qs"
proof -
  assume a: "cut_tail tail" "qs \<noteq> []"
  obtain t where t: "trim_space (written_questions qs tail) = written_questions qs t" "cut_tail t"
    using trim_written [OF a] by blast
  obtain u where u: "written_questions qs t = CHR ''['' # u" by (simp add: written_questions_def)
  obtain q ks where qs: "qs = q # ks" using a(2) by (cases qs) auto
  have "parse_prompt_questions (CHR ''['' # u) = Inr (q # ks)" using written_parsed [OF t(2) a(2)] u qs by simp
  moreover have "trim_space (written_questions qs tail) = CHR ''['' # u" using t(1) u by simp
  ultimately show ?thesis by (simp add: questions_from_string.simps [of "written_questions qs tail"] Let_def) (simp add: qs)
qed

lemma question_shorter: "length (pq_question q) < length (written_questions [q] tail)"
  using parse_body_length [OF parse_enc_string [of "pq_question q" "[]"]]
  by (simp add: written_questions_def question_json_def enc_string_def)

text \<open>
  C28. A model that writes a list of questions as the tool's schema asks, and is cut off anywhere
  after the first one, still gets every question it completed asked, whether it writes the list as
  JSON or packs it into a string, as the questions or as the single question; and a list it
  completes arrives whole.
\<close>

theorem cut_off_questions_kept:
  assumes "cut_tail tail" "qs \<noteq> []"
  shows "parse_prompt_questions (written_questions qs tail) = Inr qs
    \<and> parse_prompt_questions (enc_string (written_questions qs tail)) = Inr qs
    \<and> parse_ask_user_payload (encode (JObj [(''question'', JStr (written_questions qs tail))]))
        = Inr \<lparr>au_question = [], au_options = None, au_questions = qs\<rparr>
    \<and> parse_ask_user_payload (encode (JObj [(''questions'', JArr (map question_json qs))]))
        = Inr \<lparr>au_question = [], au_options = None, au_questions = qs\<rparr>"
proof (intro conjI)
  let ?w = "written_questions qs tail"
  show "parse_prompt_questions ?w = Inr qs" by (rule written_parsed [OF assms])
  have trim: "trim_space (encode (JObj ms)) \<noteq> []" for ms
    using trim_keeps [of "CHR 0x7D" "CHR 0x7B" _ "[]"] by auto
  obtain x where x: "enc_string ?w = CHR 0x22 # x" by (simp add: enc_string_def)
  have "parse_json (enc_string ?w) = Some (JStr ?w)" using parse_encode [of "JStr ?w"] by simp
  moreover have "trim_space (enc_string ?w) = enc_string ?w"
    using trim_keeps [of "CHR 0x22" "CHR 0x22" "enc_body ?w" "[]"] by (simp add: enc_string_def)
  ultimately show "parse_prompt_questions (enc_string ?w) = Inr qs"
    using written_in_string [OF assms]
    by (simp add: x parse_prompt_questions.simps [of "CHR 0x22 # x"] Let_def)
  have "parse_json (encode (JObj [(''question'', JStr ?w)])) = Some (JObj [(''question'', JStr ?w)])"
    by (intro parse_encode) simp
  moreover have "length qs = 1 \<Longrightarrow> pq_question (hd qs) \<noteq> ?w"
    using question_shorter [of "hd qs" tail] by (cases qs) auto
  moreover have "?w \<noteq> []" by (simp add: written_questions_def)
  ultimately show "parse_ask_user_payload (encode (JObj [(''question'', JStr ?w)]))
        = Inr \<lparr>au_question = [], au_options = None, au_questions = qs\<rparr>"
    using written_in_string [OF assms] trim assms(2)
    by (simp add: parse_ask_user_payload_def ask_user_fields_def find_field_def field_def Let_def
        parse_prompt_questions.simps [of "[]"] del: encode.simps)
  let ?a = "JArr (map question_json qs)"
  have "parse_json (encode (JObj [(''questions'', ?a)])) = Some (JObj [(''questions'', ?a)])"
    by (intro parse_encode) (auto simp: list_all_iff question_wf)
  moreover have "encode ?a = written_questions qs '']''" by (simp add: written_questions_def)
  moreover have "parse_prompt_questions (written_questions qs '']'') = Inr qs"
    using assms(2) by (intro written_parsed) (simp_all add: cut_tail_def)
  ultimately show "parse_ask_user_payload (encode (JObj [(''questions'', ?a)]))
        = Inr \<lparr>au_question = [], au_options = None, au_questions = qs\<rparr>"
    using trim assms(2)
    by (simp add: parse_ask_user_payload_def ask_user_fields_def find_field_def field_def Let_def read_raw_def
        del: encode.simps)
qed

text \<open>
  The recursion is bounded because a string is shorter than what it was read from, not because an
  array never leads back to a string: the elements of an array may be strings that hold arrays.
\<close>

lemma string_path_reentered:
  "parse_prompt_questions (''['' @ enc_string (''['' @ enc_string ''x'' @ '']'') @ '']'')
     = Inr [\<lparr>pq_question = ''x'', pq_options = None\<rparr>]"
  by (code_simp)

text \<open>An element that is null, or an object without a question, is asked as an empty question.\<close>

lemma empty_question_asked:
  "parse_prompt_questions ''[null, {}]'' = Inr [no_question, no_question]"
  by code_simp

lemma cut_off_questions_witness:
  "parse_prompt_questions (written_questions [\<lparr>pq_question = ''a'', pq_options = Some [''b'']\<rparr>] '',{'')
     = Inr [\<lparr>pq_question = ''a'', pq_options = Some [''b'']\<rparr>]"
proof -
  have "encode (question_json no_question) = CHR 0x7B # tl (encode (question_json no_question))
      \<and> tl (encode (question_json no_question)) \<noteq> []"
    by (simp add: question_json_def no_question_def)
  then have "cut_tail '',{''" unfolding cut_tail_def by (metis append_Cons append_Nil)
  then show ?thesis using cut_off_questions_kept [of "'',{''" "[\<lparr>pq_question = ''a'', pq_options = Some [''b'']\<rparr>]"] by simp
qed

end
