(* ===== verification/LlmStream.thy ===== *)
theory LlmStream
  imports WorkerRun EventStream
begin

text \<open>
  The streamed answers of the language models: \<open>streamResponse\<close> of the two providers
  (\<open>internal/provider/openai.go\<close> and \<open>anthropic.go\<close>, with the payloads of \<open>internal/sse\<close>), from
  the frames the SSE reader delivers to the events a session consumes.

  The consumer is an oracle that says of every send whether it was received; a send that is not
  received finds the context cancelled. The frames are those the reader delivers before it ends,
  because the response is over, because it fails or because the context is cancelled.
\<close>

section \<open>Sending\<close>

record stream_ctx =
  sc_accept :: "nat \<Rightarrow> bool"
  sc_err :: "string option"          \<comment> \<open>\<open>ctx.Err\<close> when the reader has ended\<close>
  sc_reader_err :: "string option"   \<comment> \<open>\<open>reader.Err\<close> then\<close>
  sc_json_err :: "string \<Rightarrow> string"  \<comment> \<open>the text of a decoding error\<close>

record outbox =
  ob_tried :: nat
  ob_sent :: "stream_event list"

definition send_event :: "stream_ctx \<Rightarrow> stream_event \<Rightarrow> outbox \<Rightarrow> bool \<times> outbox" where
  "send_event c ev b =
     (let ok = sc_accept c (ob_tried b)
      in (ok, \<lparr>ob_tried = Suc (ob_tried b), ob_sent = (if ok then ob_sent b @ [ev] else ob_sent b)\<rparr>))"

text \<open>Sending one after the other, as long as they are received.\<close>

fun send_all :: "stream_ctx \<Rightarrow> stream_event list \<Rightarrow> outbox \<Rightarrow> bool \<times> outbox" where
  "send_all c [] b = (True, b)"
| "send_all c (ev # evs) b =
     (let (ok, b') = send_event c ev b in if ok then send_all c evs b' else (False, b'))"

text \<open>The end of the reader: a cancelled context first, then the reader's error.\<close>

definition reader_end :: "stream_ctx \<Rightarrow> stream_event option" where
  "reader_end c =
     (case sc_err c of
        Some e \<Rightarrow> Some (EvError (OtherError e))
      | None \<Rightarrow> map_option (\<lambda>e. EvError (OtherError (''reading stream: '' @ e))) (sc_reader_err c))"

definition decode :: "'a reader \<Rightarrow> 'a \<Rightarrow> string \<Rightarrow> 'a option" where
  "decode rd zero data = Option.bind (parse_json data) (\<lambda>j. rd j zero)"

definition parse_failed :: "stream_ctx \<Rightarrow> string \<Rightarrow> string \<Rightarrow> stream_event" where
  "parse_failed c what data = EvError (OtherError (''parsing '' @ what @ '': '' @ sc_json_err c data))"

section \<open>Chunks of the OpenAI protocol\<close>

record openAIToolCallFunction =
  fn_Name :: string
  fn_Arguments :: string

record openAIToolCall =
  otc_Index :: go_int
  otc_ID :: string
  otc_Type :: string
  otc_Function :: openAIToolCallFunction

record openAIDelta =
  od_Content :: string
  od_Role :: string
  od_Reasoning :: string
  od_ToolCalls :: "openAIToolCall slice"

record openAIChoice =
  oc_Delta :: openAIDelta
  oc_FinishReason :: string

record openAIUsage =
  ou_PromptTokens :: go_int
  ou_CompletionTokens :: go_int
  ou_TotalTokens :: go_int

record openAIChunk =
  och_ID :: string
  och_Choices :: "openAIChoice slice"
  och_Model :: string
  och_Usage :: "openAIUsage option"

definition zero_function :: openAIToolCallFunction where
  "zero_function = \<lparr>fn_Name = [], fn_Arguments = []\<rparr>"

definition zero_openAIToolCall :: openAIToolCall where
  "zero_openAIToolCall = \<lparr>otc_Index = 0, otc_ID = [], otc_Type = [], otc_Function = zero_function\<rparr>"

definition zero_openAIChoice :: openAIChoice where
  "zero_openAIChoice =
     \<lparr>oc_Delta = \<lparr>od_Content = [], od_Role = [], od_Reasoning = [], od_ToolCalls = None\<rparr>, oc_FinishReason = []\<rparr>"

definition zero_openAIUsage :: openAIUsage where
  "zero_openAIUsage = \<lparr>ou_PromptTokens = 0, ou_CompletionTokens = 0, ou_TotalTokens = 0\<rparr>"

definition zero_openAIChunk :: openAIChunk where
  "zero_openAIChunk = \<lparr>och_ID = [], och_Choices = None, och_Model = [], och_Usage = None\<rparr>"

definition function_fields :: "openAIToolCallFunction fields" where
  "function_fields =
     [(''name'', field fn_Name fn_Name_update read_string),
      (''arguments'', field fn_Arguments fn_Arguments_update read_string)]"

definition openAIToolCall_fields :: "openAIToolCall fields" where
  "openAIToolCall_fields =
     [(''index'', field otc_Index otc_Index_update read_int),
      (''id'', field otc_ID otc_ID_update read_string),
      (''type'', field otc_Type otc_Type_update read_string),
      (''function'', field otc_Function otc_Function_update (read_struct function_fields))]"

definition openAIDelta_fields :: "openAIDelta fields" where
  "openAIDelta_fields =
     [(''content'', field od_Content od_Content_update read_string),
      (''role'', field od_Role od_Role_update read_string),
      (''reasoning'', field od_Reasoning od_Reasoning_update read_string),
      (''tool_calls'', field od_ToolCalls od_ToolCalls_update
          (read_slice (read_struct openAIToolCall_fields) zero_openAIToolCall))]"

definition openAIChoice_fields :: "openAIChoice fields" where
  "openAIChoice_fields =
     [(''delta'', field oc_Delta oc_Delta_update (read_struct openAIDelta_fields)),
      (''finish_reason'', field oc_FinishReason oc_FinishReason_update read_string)]"

definition openAIUsage_fields :: "openAIUsage fields" where
  "openAIUsage_fields =
     [(''prompt_tokens'', field ou_PromptTokens ou_PromptTokens_update read_int),
      (''completion_tokens'', field ou_CompletionTokens ou_CompletionTokens_update read_int),
      (''total_tokens'', field ou_TotalTokens ou_TotalTokens_update read_int)]"

definition openAIChunk_fields :: "openAIChunk fields" where
  "openAIChunk_fields =
     [(''id'', field och_ID och_ID_update read_string),
      (''choices'', field och_Choices och_Choices_update
          (read_slice (read_struct openAIChoice_fields) zero_openAIChoice)),
      (''model'', field och_Model och_Model_update read_string),
      (''usage'', field och_Usage och_Usage_update (read_ptr (read_struct openAIUsage_fields) zero_openAIUsage))]"

definition decode_chunk :: "string \<Rightarrow> openAIChunk option" where
  "decode_chunk = decode (read_struct openAIChunk_fields) zero_openAIChunk"

section \<open>The OpenAI stream\<close>

record tool_accumulator =
  ta_ID :: string
  ta_Name :: string
  ta_Args :: string

text \<open>The map from an index to its accumulator, as its entries in the order they were made.\<close>

type_synonym accumulated = "(go_int \<times> tool_accumulator) list"

definition accumulate_delta :: "openAIToolCall \<Rightarrow> accumulated \<Rightarrow> accumulated" where
  "accumulate_delta partial m =
     (let idx = otc_Index partial;
          f = otc_Function partial;
          entry = (case map_of m idx of
                     None \<Rightarrow> \<lparr>ta_ID = otc_ID partial, ta_Name = fn_Name f, ta_Args = []\<rparr>
                   | Some e \<Rightarrow> e);
          e1 = entry\<lparr>ta_Args := ta_Args entry @ fn_Arguments f\<rparr>;
          e2 = (if otc_ID partial \<noteq> [] \<and> ta_ID e1 = [] then e1\<lparr>ta_ID := otc_ID partial\<rparr> else e1);
          e3 = (if fn_Name f \<noteq> [] \<and> ta_Name e2 = [] then e2\<lparr>ta_Name := fn_Name f\<rparr> else e2)
      in AList.update idx e3 m)"

definition tool_call_of :: "tool_accumulator \<Rightarrow> tool_call" where
  "tool_call_of a = tool_call.make (ta_ID a) (ta_Name a) (ta_Args a)"

text \<open>\<open>emitToolCalls\<close>: in the order of the indices.\<close>

definition tool_call_events :: "accumulated \<Rightarrow> stream_event list" where
  "tool_call_events m = map (\<lambda>(i, a). EvToolCall (Some (tool_call_of a))) (sort_key (\<lambda>(i, a). sint i) m)"

record openai_state =
  os_accumulated :: accumulated
  os_usage :: "(int \<times> int) option"

definition openai_start :: openai_state where
  "openai_start = \<lparr>os_accumulated = [], os_usage = None\<rparr>"

text \<open>What a chunk makes of the state, and the events it sends.\<close>

definition take_usage :: "openAIChunk \<Rightarrow> openai_state \<Rightarrow> openai_state" where
  "take_usage ch s =
     (case och_Usage ch of
        None \<Rightarrow> s
      | Some u \<Rightarrow> s\<lparr>os_usage := Some (sint (ou_PromptTokens u), sint (ou_CompletionTokens u))\<rparr>)"

definition take_choice :: "bool \<Rightarrow> openAIChunk \<Rightarrow> openai_state \<Rightarrow> openai_state" where
  "take_choice has_tools ch s =
     (case elems (och_Choices ch) of
        [] \<Rightarrow> s
      | choice # _ \<Rightarrow>
          if has_tools
          then s\<lparr>os_accumulated := fold accumulate_delta (elems (od_ToolCalls (oc_Delta choice))) (os_accumulated s)\<rparr>
          else s)"

definition chunk_events :: "openAIChunk \<Rightarrow> stream_event list" where
  "chunk_events ch =
     (case elems (och_Choices ch) of
        [] \<Rightarrow> []
      | choice # _ \<Rightarrow>
          (let d = oc_Delta choice in
           (if od_Reasoning d \<noteq> [] then [EvReasoning (od_Reasoning d)] else []) @
           (if od_Content d \<noteq> [] then [EvText (od_Content d)] else [])))"

definition closing_events :: "bool \<Rightarrow> openai_state \<Rightarrow> stream_event list" where
  "closing_events has_tools s =
     (if has_tools \<and> os_accumulated s \<noteq> [] then tool_call_events (os_accumulated s) else []) @
     (case os_usage s of None \<Rightarrow> [] | Some u \<Rightarrow> [EvUsage (Some u)]) @ [EvDone]"

fun openai_loop :: "stream_ctx \<Rightarrow> bool \<Rightarrow> (string \<times> string) list \<Rightarrow> openai_state \<Rightarrow> outbox \<Rightarrow> outbox" where
  "openai_loop c has_tools [] s b =
     (case reader_end c of
        Some ev \<Rightarrow> snd (send_event c ev b)
      | None \<Rightarrow> snd (send_all c (closing_events has_tools s) b))"
| "openai_loop c has_tools ((ty, data) # fs) s b =
     (if data = ''[DONE]'' then snd (send_all c (closing_events has_tools s) b)
      else
        (case decode_chunk data of
           None \<Rightarrow> snd (send_event c (parse_failed c ''chunk'' data) b)
         | Some ch \<Rightarrow>
             (case send_all c (chunk_events ch) b of
                (True, b') \<Rightarrow> openai_loop c has_tools fs (take_choice has_tools ch (take_usage ch s)) b'
              | (False, b') \<Rightarrow> b')))"

text \<open>The answer to the request: a failure to send it, or a status with a body.\<close>

datatype http_answer = No_answer string | Answer int string

definition error_body :: "string \<Rightarrow> string" where
  "error_body body = trim_space (take (1024 * 1024) body)"

text \<open>The frames of a good answer are those of its body, as many as the reader delivers.\<close>

definition openai_stream :: "string \<Rightarrow> stream_ctx \<Rightarrow> bool \<Rightarrow> http_answer \<Rightarrow> (string \<times> string) list \<Rightarrow> stream_event list" where
  "openai_stream name c has_tools answer frames =
     (let b = \<lparr>ob_tried = 0, ob_sent = []\<rparr> in
      ob_sent
        (case answer of
           No_answer e \<Rightarrow> snd (send_event c (EvError (OtherError (''sending request: '' @ e))) b)
         | Answer status body \<Rightarrow>
             if status \<noteq> 200 then snd (send_event c (EvError (ApiError name status (error_body body))) b)
             else openai_loop c has_tools frames openai_start b))"


section \<open>Events of the Anthropic protocol\<close>

record AnthropicUsage =
  au_InputTokens :: go_int
  au_OutputTokens :: go_int

record AnthropicMessage =
  am_Model :: string
  am_Usage :: AnthropicUsage

record AnthropicMessageStartEvent =
  ams_Type :: string
  ams_Message :: AnthropicMessage

record AnthropicContentBlock =
  acb_Type :: string
  acb_ID :: string
  acb_Name :: string

record AnthropicContentBlockStartEvent =
  acs_Type :: string
  acs_Index :: go_int
  acs_ContentBlock :: AnthropicContentBlock

record AnthropicDelta =
  ad_Type :: string
  ad_Text :: string
  ad_PartialJSON :: string
  ad_Thinking :: string
  ad_Signature :: string

record AnthropicContentBlockDeltaEvent =
  acd_Type :: string
  acd_Index :: go_int
  acd_Delta :: AnthropicDelta

record AnthropicStop =
  ast_StopReason :: string

record AnthropicMessageDeltaEvent =
  amd_Type :: string
  amd_Delta :: AnthropicStop
  amd_Usage :: AnthropicUsage

record AnthropicErrorDetail =
  aed_Type :: string
  aed_Message :: string

record AnthropicErrorEvent =
  aee_Type :: string
  aee_Error :: AnthropicErrorDetail

definition zero_AnthropicUsage :: AnthropicUsage where
  "zero_AnthropicUsage = \<lparr>au_InputTokens = 0, au_OutputTokens = 0\<rparr>"

definition AnthropicUsage_fields :: "AnthropicUsage fields" where
  "AnthropicUsage_fields =
     [(''input_tokens'', field au_InputTokens au_InputTokens_update read_int),
      (''output_tokens'', field au_OutputTokens au_OutputTokens_update read_int)]"

definition AnthropicMessage_fields :: "AnthropicMessage fields" where
  "AnthropicMessage_fields =
     [(''model'', field am_Model am_Model_update read_string),
      (''usage'', field am_Usage am_Usage_update (read_struct AnthropicUsage_fields))]"

definition decode_message_start :: "string \<Rightarrow> AnthropicMessageStartEvent option" where
  "decode_message_start =
     decode (read_struct
       [(''type'', field ams_Type ams_Type_update read_string),
        (''message'', field ams_Message ams_Message_update (read_struct AnthropicMessage_fields))])
       \<lparr>ams_Type = [], ams_Message = \<lparr>am_Model = [], am_Usage = zero_AnthropicUsage\<rparr>\<rparr>"

definition AnthropicContentBlock_fields :: "AnthropicContentBlock fields" where
  "AnthropicContentBlock_fields =
     [(''type'', field acb_Type acb_Type_update read_string),
      (''id'', field acb_ID acb_ID_update read_string),
      (''name'', field acb_Name acb_Name_update read_string)]"

definition decode_block_start :: "string \<Rightarrow> AnthropicContentBlockStartEvent option" where
  "decode_block_start =
     decode (read_struct
       [(''type'', field acs_Type acs_Type_update read_string),
        (''index'', field acs_Index acs_Index_update read_int),
        (''content_block'', field acs_ContentBlock acs_ContentBlock_update (read_struct AnthropicContentBlock_fields))])
       \<lparr>acs_Type = [], acs_Index = 0, acs_ContentBlock = \<lparr>acb_Type = [], acb_ID = [], acb_Name = []\<rparr>\<rparr>"

definition AnthropicDelta_fields :: "AnthropicDelta fields" where
  "AnthropicDelta_fields =
     [(''type'', field ad_Type ad_Type_update read_string),
      (''text'', field ad_Text ad_Text_update read_string),
      (''partial_json'', field ad_PartialJSON ad_PartialJSON_update read_string),
      (''thinking'', field ad_Thinking ad_Thinking_update read_string),
      (''signature'', field ad_Signature ad_Signature_update read_string)]"

definition decode_block_delta :: "string \<Rightarrow> AnthropicContentBlockDeltaEvent option" where
  "decode_block_delta =
     decode (read_struct
       [(''type'', field acd_Type acd_Type_update read_string),
        (''index'', field acd_Index acd_Index_update read_int),
        (''delta'', field acd_Delta acd_Delta_update (read_struct AnthropicDelta_fields))])
       \<lparr>acd_Type = [], acd_Index = 0,
         acd_Delta = \<lparr>ad_Type = [], ad_Text = [], ad_PartialJSON = [], ad_Thinking = [], ad_Signature = []\<rparr>\<rparr>"

definition decode_message_delta :: "string \<Rightarrow> AnthropicMessageDeltaEvent option" where
  "decode_message_delta =
     decode (read_struct
       [(''type'', field amd_Type amd_Type_update read_string),
        (''delta'', field amd_Delta amd_Delta_update
           (read_struct [(''stop_reason'', field ast_StopReason ast_StopReason_update read_string)])),
        (''usage'', field amd_Usage amd_Usage_update (read_struct AnthropicUsage_fields))])
       \<lparr>amd_Type = [], amd_Delta = \<lparr>ast_StopReason = []\<rparr>, amd_Usage = zero_AnthropicUsage\<rparr>"

definition decode_error_event :: "string \<Rightarrow> AnthropicErrorEvent option" where
  "decode_error_event =
     decode (read_struct
       [(''type'', field aee_Type aee_Type_update read_string),
        (''error'', field aee_Error aee_Error_update
           (read_struct [(''type'', field aed_Type aed_Type_update read_string),
                         (''message'', field aed_Message aed_Message_update read_string)]))])
       \<lparr>aee_Type = [], aee_Error = \<lparr>aed_Type = [], aed_Message = []\<rparr>\<rparr>"

section \<open>The Anthropic stream\<close>

record anthropic_state =
  as_blocks :: accumulated
  as_input :: int

definition anthropic_start :: anthropic_state where
  "anthropic_start = \<lparr>as_blocks = [], as_input = 0\<rparr>"

text \<open>
  What an event makes of the state, the events it sends and whether the stream goes on. An event
  of another type is passed over.
\<close>

datatype outcome =
    Proceed anthropic_state "stream_event list"
  | Halt "stream_event list"
  | Hand_over "stream_event list" "stream_event list"  \<comment> \<open>the tool calls, and what is sent after them\<close>

definition block_started :: "AnthropicContentBlockStartEvent \<Rightarrow> anthropic_state \<Rightarrow> anthropic_state" where
  "block_started ev s =
     (let blk = acs_ContentBlock ev in
      if acb_Type blk = ''tool_use''
      then s\<lparr>as_blocks := AList.update (acs_Index ev)
               \<lparr>ta_ID = acb_ID blk, ta_Name = acb_Name blk, ta_Args = []\<rparr> (as_blocks s)\<rparr>
      else s)"

definition block_delta :: "AnthropicContentBlockDeltaEvent \<Rightarrow> anthropic_state \<Rightarrow> anthropic_state \<times> stream_event list" where
  "block_delta ev s =
     (let d = acd_Delta ev in
      if ad_Type d = ''text_delta'' then (s, if ad_Text d \<noteq> [] then [EvText (ad_Text d)] else [])
      else if ad_Type d = ''thinking_delta'' then
        (s, if ad_Thinking d \<noteq> [] then [EvReasoning (ad_Thinking d)] else [])
      else if ad_Type d = ''input_json_delta'' then
        (case map_of (as_blocks s) (acd_Index ev) of
           None \<Rightarrow> (s, [])
         | Some a \<Rightarrow>
             (s\<lparr>as_blocks := AList.update (acd_Index ev) (a\<lparr>ta_Args := ta_Args a @ ad_PartialJSON d\<rparr>) (as_blocks s)\<rparr>, []))
      else (s, []))"

definition message_delta :: "AnthropicMessageDeltaEvent \<Rightarrow> anthropic_state \<Rightarrow> outcome" where
  "message_delta ev s =
     (let usage = EvUsage (Some (as_input s, sint (au_OutputTokens (amd_Usage ev)))) in
      if ast_StopReason (amd_Delta ev) = ''tool_use'' \<and> as_blocks s \<noteq> []
      then Hand_over (tool_call_events (as_blocks s)) [usage, EvDone]
      else Proceed s [usage])"

definition anthropic_event :: "stream_ctx \<Rightarrow> string \<Rightarrow> string \<Rightarrow> anthropic_state \<Rightarrow> outcome" where
  "anthropic_event c ty data s =
     (if ty = ''message_start'' then
        (case decode_message_start data of
           None \<Rightarrow> Halt [parse_failed c ''message_start'' data]
         | Some ev \<Rightarrow> Proceed (s\<lparr>as_input := sint (au_InputTokens (am_Usage (ams_Message ev)))\<rparr>) [])
      else if ty = ''content_block_start'' then
        (case decode_block_start data of
           None \<Rightarrow> Halt [parse_failed c ''content_block_start'' data]
         | Some ev \<Rightarrow> Proceed (block_started ev s) [])
      else if ty = ''content_block_delta'' then
        (case decode_block_delta data of
           None \<Rightarrow> Halt [parse_failed c ''content_block_delta'' data]
         | Some ev \<Rightarrow> (case block_delta ev s of (s', evs) \<Rightarrow> Proceed s' evs))
      else if ty = ''message_delta'' then
        (case decode_message_delta data of
           None \<Rightarrow> Halt [parse_failed c ''message_delta'' data]
         | Some ev \<Rightarrow> message_delta ev s)
      else if ty = ''message_stop'' then Halt [EvDone]
      else if ty = ''error'' then
        (case decode_error_event data of
           None \<Rightarrow> Halt [parse_failed c ''error event'' data]
         | Some ev \<Rightarrow> Halt [EvError (OtherError (''anthropic API error: '' @ aed_Type (aee_Error ev) @ '': '' @
             aed_Message (aee_Error ev)))])
      else Proceed s [])"

text \<open>
  After the tool calls the usage and the end are sent whether or not they are received; every other
  send that is not received ends the loop.
\<close>

definition send_anyway :: "stream_ctx \<Rightarrow> stream_event list \<Rightarrow> outbox \<Rightarrow> outbox" where
  "send_anyway c evs b = fold (\<lambda>ev b. snd (send_event c ev b)) evs b"

fun anthropic_loop :: "stream_ctx \<Rightarrow> (string \<times> string) list \<Rightarrow> anthropic_state \<Rightarrow> outbox \<Rightarrow> outbox" where
  "anthropic_loop c [] s b =
     (case reader_end c of
        Some ev \<Rightarrow> snd (send_event c ev b)
      | None \<Rightarrow> snd (send_event c EvDone b))"
| "anthropic_loop c ((ty, data) # fs) s b =
     (case anthropic_event c ty data s of
        Halt evs \<Rightarrow> snd (send_all c evs b)
      | Proceed s' evs \<Rightarrow>
          (case send_all c evs b of
             (True, b') \<Rightarrow> anthropic_loop c fs s' b'
           | (False, b') \<Rightarrow> b')
      | Hand_over calls rest \<Rightarrow>
          (case send_all c calls b of
             (True, b') \<Rightarrow> send_anyway c rest b'
           | (False, b') \<Rightarrow> b'))"

definition anthropic_stream :: "string \<Rightarrow> stream_ctx \<Rightarrow> http_answer \<Rightarrow> (string \<times> string) list \<Rightarrow> stream_event list" where
  "anthropic_stream name c answer frames =
     (let b = \<lparr>ob_tried = 0, ob_sent = []\<rparr> in
      ob_sent
        (case answer of
           No_answer e \<Rightarrow> snd (send_event c (EvError (OtherError (''sending request: '' @ e))) b)
         | Answer status body \<Rightarrow>
             if status \<noteq> 200 then snd (send_event c (EvError (ApiError name status (error_body body))) b)
             else anthropic_loop c frames anthropic_start b))"

section \<open>A whole answer as text\<close>

text \<open>\<open>Complete\<close>: the text up to the end or the first error.\<close>

fun complete_events :: "string \<Rightarrow> stream_event list \<Rightarrow> go_error + string" where
  "complete_events acc [] = Inr (trim_space acc)"
| "complete_events acc (ev # evs) =
     (case ev of
        EvText t \<Rightarrow> complete_events (acc @ t) evs
      | EvError e \<Rightarrow> Inl e
      | EvDone \<Rightarrow> Inr (trim_space acc)
      | _ \<Rightarrow> complete_events acc evs)"


section \<open>A consumer that takes everything\<close>

lemma send_event_taken:
  "sc_accept c = (\<lambda>_. True) \<Longrightarrow>
   send_event c ev b = (True, \<lparr>ob_tried = Suc (ob_tried b), ob_sent = ob_sent b @ [ev]\<rparr>)"
  by (simp add: send_event_def)

lemma send_all_taken:
  "sc_accept c = (\<lambda>_. True) \<Longrightarrow>
   send_all c evs b = (True, \<lparr>ob_tried = ob_tried b + length evs, ob_sent = ob_sent b @ evs\<rparr>)"
  by (induction evs arbitrary: b) (simp_all add: send_event_taken)

section \<open>Every stream ends once\<close>

definition is_end :: "stream_event \<Rightarrow> bool" where
  "is_end ev \<longleftrightarrow> ev = EvDone \<or> (\<exists>e. ev = EvError e)"

text \<open>Nothing follows the end.\<close>

definition ends_once :: "stream_event list \<Rightarrow> bool" where
  "ends_once evs \<longleftrightarrow> list_all (\<lambda>ev. \<not> is_end ev) (butlast evs)"

definition unended :: "stream_event list \<Rightarrow> bool" where
  "unended evs \<longleftrightarrow> list_all (\<lambda>ev. \<not> is_end ev) evs"

lemma unended_simps [simp]:
  "unended []" "unended (a @ b) \<longleftrightarrow> unended a \<and> unended b" "unended (ev # evs) \<longleftrightarrow> \<not> is_end ev \<and> unended evs"
  by (simp_all add: unended_def)

lemma is_end_simps [simp]:
  "\<not> is_end (EvText t)" "\<not> is_end (EvReasoning t)" "\<not> is_end (EvToolCall tc)" "\<not> is_end (EvUsage u)"
  "is_end EvDone" "is_end (EvError e)"
  by (simp_all add: is_end_def)

lemma unended_ends_once: "unended evs \<Longrightarrow> ends_once evs" "unended evs \<Longrightarrow> ends_once (evs @ [ev])"
  by (auto simp: ends_once_def unended_def list_all_iff dest: in_set_butlastD)

lemma send_event_once: "unended (ob_sent b) \<Longrightarrow> ends_once (ob_sent (snd (send_event c ev b)))"
  by (simp add: send_event_def Let_def unended_ends_once)

lemma send_all_unended:
  "unended evs \<Longrightarrow> unended (ob_sent b) \<Longrightarrow> unended (ob_sent (snd (send_all c evs b)))"
  by (induction evs arbitrary: b) (auto simp: send_event_def Let_def)

lemma send_all_once:
  "unended evs \<Longrightarrow> unended (ob_sent b) \<Longrightarrow> ends_once (ob_sent (snd (send_all c (evs @ [ev]) b)))"
  by (induction evs arbitrary: b) (auto simp: send_event_def Let_def unended_ends_once)

lemma calls_unended: "unended (tool_call_events m)"
  by (auto simp: tool_call_events_def unended_def list_all_iff)

lemma chunk_unended: "unended (chunk_events ch)"
  by (auto simp: chunk_events_def Let_def split: list.splits)

lemma closing_once:
  "unended (ob_sent b) \<Longrightarrow> ends_once (ob_sent (snd (send_all c (closing_events h s) b)))"
proof -
  define pre where "pre = (if h \<and> os_accumulated s \<noteq> [] then tool_call_events (os_accumulated s) else []) @
     (case os_usage s of None \<Rightarrow> [] | Some u \<Rightarrow> [EvUsage (Some u)])"
  have "closing_events h s = pre @ [EvDone]" "unended pre"
    by (simp_all add: closing_events_def pre_def calls_unended split: option.split)
  then show "unended (ob_sent b) \<Longrightarrow> ?thesis" using send_all_once by simp
qed

lemma openai_loop_once: "unended (ob_sent b) \<Longrightarrow> ends_once (ob_sent (openai_loop c h fs s b))"
proof (induction fs arbitrary: s b)
  case Nil
  then show ?case by (auto simp: closing_once send_event_once split: option.split)
next
  case (Cons f fs)
  obtain ty data where f: "f = (ty, data)" by (cases f)
  have "unended (ob_sent (snd (send_all c (chunk_events ch) b)))" for ch
    using Cons.prems by (intro send_all_unended chunk_unended)
  then show ?case
    using Cons by (auto simp: f closing_once send_event_once unended_ends_once split: option.split prod.split bool.split)
      (metis snd_conv unended_ends_once(1))+
qed

lemma anthropic_proceed_unended:
  "anthropic_event c ty data s = Proceed s' evs \<Longrightarrow> unended evs"
  "anthropic_event c ty data s = Hand_over calls rest \<Longrightarrow> unended calls \<and> (\<exists>u. rest = [EvUsage u, EvDone])"
  "anthropic_event c ty data s = Halt evs \<Longrightarrow> \<exists>ev. evs = [ev] \<and> is_end ev"
  by (auto simp: anthropic_event_def block_delta_def message_delta_def Let_def parse_failed_def calls_unended
      split: if_splits option.splits)

lemma anthropic_loop_once: "unended (ob_sent b) \<Longrightarrow> ends_once (ob_sent (anthropic_loop c fs s b))"
proof (induction fs arbitrary: s b)
  case Nil
  then show ?case by (auto simp: send_event_once split: option.split)
next
  case (Cons f fs)
  obtain ty data where f: "f = (ty, data)" by (cases f)
  show ?case
  proof (cases "anthropic_event c ty data s")
    case (Proceed s' evs)
    obtain ok b' where r: "send_all c evs b = (ok, b')" by fastforce
    have "unended (ob_sent b')"
      using send_all_unended [OF anthropic_proceed_unended(1) [OF Proceed] Cons.prems, of c] r by simp
    then show ?thesis using Cons.IH by (cases ok) (simp_all add: f Proceed r unended_ends_once)
  next
    case (Halt evs)
    then obtain ev where "evs = [ev]" using anthropic_proceed_unended(3) by blast
    then show ?thesis using send_all_once [of "[]" b c ev] Cons.prems by (simp add: f Halt del: send_all.simps)
  next
    case (Hand_over calls rest)
    obtain ok b' where r: "send_all c calls b = (ok, b')" by fastforce
    have u: "unended calls" "\<exists>u. rest = [EvUsage u, EvDone]" using anthropic_proceed_unended(2) [OF Hand_over] by auto
    have "unended (ob_sent b')" using send_all_unended [OF u(1) Cons.prems, of c] r by simp
    then show ?thesis
      using u(2) by (cases ok) (auto simp: f Hand_over r unended_ends_once send_anyway_def send_event_def Let_def)
  qed
qed

text \<open>A consumer that takes everything is told the end.\<close>

lemma openai_loop_ends:
  "sc_accept c = (\<lambda>_. True) \<Longrightarrow> ob_sent (openai_loop c h fs s b) \<noteq> [] \<and> is_end (last (ob_sent (openai_loop c h fs s b)))"
  by (induction fs arbitrary: s b)
     (auto simp: send_event_taken send_all_taken closing_events_def reader_end_def parse_failed_def
        split: option.split option.split_asm if_splits)

lemma anthropic_loop_ends:
  "sc_accept c = (\<lambda>_. True) \<Longrightarrow>
   ob_sent (anthropic_loop c fs s b) \<noteq> [] \<and> is_end (last (ob_sent (anthropic_loop c fs s b)))"
proof (induction fs arbitrary: s b)
  case Nil
  then show ?case by (auto simp: send_event_taken reader_end_def split: option.split)
next
  case (Cons f fs)
  obtain ty data where f: "f = (ty, data)" by (cases f)
  show ?case
  proof (cases "anthropic_event c ty data s")
    case (Halt evs)
    then obtain ev where "evs = [ev]" "is_end ev" using anthropic_proceed_unended(3) by blast
    then show ?thesis using Cons.prems by (simp add: f Halt send_event_taken)
  next
    case (Hand_over calls rest)
    then obtain u where "rest = [EvUsage u, EvDone]" using anthropic_proceed_unended(2) by blast
    then show ?thesis using Cons.prems by (simp add: f Hand_over send_all_taken send_anyway_def send_event_taken)
  qed (use Cons in \<open>simp add: f send_all_taken\<close>)
qed

text \<open>
  C22. Whatever a server answers, however it breaks off and whenever the consumer goes away, both
  providers send at most one end of the stream, a success or an error, and nothing after it; a
  consumer that takes everything is always told the end.
\<close>

theorem streams_end_once:
  "ends_once (openai_stream name c h answer frames) \<and> ends_once (anthropic_stream name c answer frames)
   \<and> (sc_accept c = (\<lambda>_. True) \<longrightarrow>
        is_end (last (openai_stream name c h answer frames)) \<and> openai_stream name c h answer frames \<noteq> []
      \<and> is_end (last (anthropic_stream name c answer frames)) \<and> anthropic_stream name c answer frames \<noteq> [])"
proof -
  have "ends_once (ob_sent (snd (send_event c ev \<lparr>ob_tried = 0, ob_sent = []\<rparr>)))" for ev
    by (simp add: send_event_once)
  then show ?thesis
    using openai_loop_once [of "\<lparr>ob_tried = 0, ob_sent = []\<rparr>"] anthropic_loop_once [of "\<lparr>ob_tried = 0, ob_sent = []\<rparr>"]
    by (auto simp: openai_stream_def anthropic_stream_def Let_def send_event_taken openai_loop_ends anthropic_loop_ends
        split: http_answer.split)
qed


section \<open>The fragments of a tool call are put together\<close>

text \<open>
  What a list of fragments means: one call for each index, in the order of the indices, with the
  first id and name given and all the arguments in the order they came.
\<close>

definition first_text :: "string list \<Rightarrow> string" where
  "first_text xs = (case filter (\<lambda>x. x \<noteq> []) xs of [] \<Rightarrow> [] | x # _ \<Rightarrow> x)"

definition call_of_index :: "openAIToolCall list \<Rightarrow> go_int \<Rightarrow> tool_call" where
  "call_of_index ds i =
     (let ps = filter (\<lambda>p. otc_Index p = i) ds in
      tool_call.make (first_text (map otc_ID ps)) (first_text (map (fn_Name \<circ> otc_Function) ps))
        (concat (map (fn_Arguments \<circ> otc_Function) ps)))"

definition streamed_calls :: "openAIToolCall list \<Rightarrow> tool_call list" where
  "streamed_calls ds = map (call_of_index ds) (sort_key sint (remdups (map otc_Index ds)))"

definition acc_ok :: "openAIToolCall list \<Rightarrow> accumulated \<Rightarrow> bool" where
  "acc_ok ds m \<longleftrightarrow> distinct (map fst m) \<and> fst ` set m = otc_Index ` set ds
     \<and> (\<forall>i a. map_of m i = Some a \<longrightarrow> tool_call_of a = call_of_index ds i)"

lemma first_text_snoc: "first_text (xs @ [x]) = (if first_text xs = [] then x else first_text xs)"
  by (auto simp: first_text_def split: list.splits dest: filter_eq_ConsD)

lemma call_of_index_snoc:
  "call_of_index (ds @ [p]) i =
     (if otc_Index p = i
      then tool_call.make
        (if tc_id (call_of_index ds i) = [] then otc_ID p else tc_id (call_of_index ds i))
        (if tc_name (call_of_index ds i) = [] then fn_Name (otc_Function p) else tc_name (call_of_index ds i))
        (tc_args (call_of_index ds i) @ fn_Arguments (otc_Function p))
      else call_of_index ds i)"
  by (simp add: call_of_index_def Let_def first_text_snoc tool_call.make_def)

lemma call_of_new_index: "i \<notin> otc_Index ` set ds \<Longrightarrow> call_of_index ds i = tool_call.make [] [] []"
proof -
  assume "i \<notin> otc_Index ` set ds"
  then have "filter (\<lambda>p. otc_Index p = i) ds = []" by (auto simp: filter_empty_conv)
  then show ?thesis by (simp add: call_of_index_def first_text_def)
qed

lemma accumulate_ok:
  assumes "acc_ok ds m"
  shows "acc_ok (ds @ [p]) (accumulate_delta p m)"
proof -
  let ?i = "otc_Index p"
  obtain e where e: "accumulate_delta p m = AList.update ?i e m" "tool_call_of e = call_of_index (ds @ [p]) ?i"
  proof (cases "map_of m ?i")
    case None
    then have "?i \<notin> otc_Index ` set ds" using assms by (auto simp: acc_ok_def map_of_eq_None_iff)
    then have "call_of_index ds ?i = tool_call.make [] [] []" by (rule call_of_new_index)
    then show thesis using None that
      by (simp add: accumulate_delta_def Let_def tool_call_of_def call_of_index_snoc tool_call.make_def)
  next
    case (Some a)
    then have "call_of_index ds ?i = tool_call_of a" using assms by (simp add: acc_ok_def)
    then show thesis using Some that
      by (auto simp: accumulate_delta_def Let_def tool_call_of_def call_of_index_snoc tool_call.make_def)
  qed
  show ?thesis
    using assms e by (auto simp: acc_ok_def distinct_update update_conv' call_of_index_snoc dom_update
        simp flip: dom_map_of_conv_image_fst)
qed

lemma fold_accumulate: "acc_ok ds m \<Longrightarrow> acc_ok (ds @ ps) (fold accumulate_delta ps m)"
proof (induction ps arbitrary: ds m)
  case (Cons p ps)
  show ?case using Cons.IH [OF accumulate_ok [OF Cons.prems]] by simp
qed simp

lemma sorted_indices:
  assumes "distinct (map fst m)" "fst ` set m = otc_Index ` set ds"
  shows "map fst (sort_key (\<lambda>(i, a). sint i) m) = sort_key sint (remdups (map otc_Index ds))" (is "?l = ?r")
proof -
  have inj: "inj (sint :: go_int \<Rightarrow> int)" by (rule injI) (rule signed_word_eqI)
  have m: "(\<lambda>(i, a). sint i) = sint \<circ> fst" by (auto simp: fun_eq_iff)
  have "map sint ?l = map sint ?r"
  proof (rule sorted_distinct_set_unique)
    show "sorted (map sint ?l)" using sorted_sort_key [of "sint \<circ> fst" m] by (simp add: m comp_def)
    have "distinct ?l" using assms(1) by (simp add: distinct_map)
    then show "distinct (map sint ?l)" using inj by (metis distinct_map inj_on_subset subset_UNIV)
    show "sorted (map sint ?r)" by simp
    show "distinct (map sint ?r)" by (simp add: distinct_map inj_on_subset [OF inj])
    show "set (map sint ?l) = set (map sint ?r)" by (simp add: image_image flip: assms(2))
  qed
  then show ?thesis using inj by (metis inj_map_eq_map)
qed

lemma calls_put_together:
  assumes "acc_ok ds m"
  shows "tool_call_events m = map (EvToolCall \<circ> Some) (streamed_calls ds)"
proof -
  let ?s = "sort_key (\<lambda>(i, a). sint i) m"
  have "tool_call_of a = call_of_index ds i" if "(i, a) \<in> set ?s" for i a
    using that assms by (auto simp: acc_ok_def)
  then have "map (\<lambda>(i, a). EvToolCall (Some (tool_call_of a))) ?s = map ((EvToolCall \<circ> Some \<circ> call_of_index ds) \<circ> fst) ?s"
    by (auto intro!: map_cong)
  then show ?thesis
    using sorted_indices [of m ds] assms
    by (simp add: tool_call_events_def streamed_calls_def acc_ok_def flip: map_map)
qed


section \<open>An OpenAI answer arrives as it was meant\<close>

text \<open>What the chunks of an answer mean.\<close>

definition fragments :: "openAIChunk list \<Rightarrow> openAIToolCall list" where
  "fragments chs = concat (map (\<lambda>ch. case elems (och_Choices ch) of [] \<Rightarrow> []
     | choice # _ \<Rightarrow> elems (od_ToolCalls (oc_Delta choice))) chs)"

definition content_of :: "openAIChunk list \<Rightarrow> string" where
  "content_of chs = concat (map (\<lambda>ch. case elems (och_Choices ch) of [] \<Rightarrow> []
     | choice # _ \<Rightarrow> od_Content (oc_Delta choice)) chs)"

fun last_usage :: "openAIChunk list \<Rightarrow> (int \<times> int) option \<Rightarrow> (int \<times> int) option" where
  "last_usage [] u = u"
| "last_usage (ch # chs) u =
     last_usage chs (case och_Usage ch of None \<Rightarrow> u
       | Some w \<Rightarrow> Some (sint (ou_PromptTokens w), sint (ou_CompletionTokens w)))"

text \<open>The frames of an answer: chunks, then the end marker and anything, or just the end of the body.\<close>

definition answers :: "(string \<times> string) list \<Rightarrow> openAIChunk list \<Rightarrow> bool" where
  "answers frames chs \<longleftrightarrow>
     (\<exists>fs rest. frames = fs @ rest
        \<and> list_all2 (\<lambda>(ty, data) ch. data \<noteq> ''[DONE]'' \<and> decode_chunk data = Some ch) fs chs
        \<and> (rest = [] \<or> snd (hd rest) = ''[DONE]''))"

definition counted :: "(int \<times> int) option \<Rightarrow> session \<Rightarrow> session" where
  "counted u s =
     (case u of
        None \<Rightarrow> s
      | Some (i, out) \<Rightarrow>
          s\<lparr>ses_tokens_in := ses_tokens_in s + i, ses_tokens_out := ses_tokens_out s + out, ses_last_input := i\<rparr>)"

definition chunk_state :: "bool \<Rightarrow> openAIChunk list \<Rightarrow> openai_state \<Rightarrow> openai_state" where
  "chunk_state h chs s = fold (\<lambda>ch s. take_choice h ch (take_usage ch s)) chs s"

lemma openai_loop_chunks:
  assumes "sc_accept c = (\<lambda>_. True)" "reader_end c = None" "rest = [] \<or> snd (hd rest) = ''[DONE]''"
  shows "list_all2 (\<lambda>(ty, data) ch. data \<noteq> ''[DONE]'' \<and> decode_chunk data = Some ch) fs chs \<Longrightarrow>
    ob_sent (openai_loop c h (fs @ rest) s b)
      = ob_sent b @ concat (map chunk_events chs) @ closing_events h (chunk_state h chs s)"
proof (induction fs chs arbitrary: s b rule: list_all2_induct)
  case Nil
  show ?case
    using assms by (cases rest) (auto simp: send_all_taken chunk_state_def)
next
  case (Cons f fs ch chs)
  then show ?case using assms by (cases f) (auto simp: send_all_taken chunk_state_def)
qed

lemma chunk_state_usage: "os_usage (chunk_state h chs s) = last_usage chs (os_usage s)"
proof (induction chs arbitrary: s)
  case (Cons ch chs)
  have "os_usage (take_choice h ch t) = os_usage t" for t by (simp add: take_choice_def split: list.split)
  then show ?case using Cons by (simp add: chunk_state_def take_usage_def split: option.split)
qed (simp add: chunk_state_def)

lemma chunk_state_calls:
  "acc_ok ds (os_accumulated s) \<Longrightarrow> acc_ok (ds @ fragments chs) (os_accumulated (chunk_state True chs s))"
proof (induction chs arbitrary: s ds)
  case (Cons ch chs)
  let ?ps = "fragments [ch]"
  have "os_accumulated (take_choice True ch (take_usage ch s)) = fold accumulate_delta ?ps (os_accumulated s)"
    by (simp add: take_choice_def take_usage_def fragments_def split: list.split option.split)
  then have "acc_ok (ds @ ?ps) (os_accumulated (take_choice True ch (take_usage ch s)))"
    using fold_accumulate [OF Cons.prems] by simp
  from Cons.IH [OF this] show ?case by (simp add: chunk_state_def fragments_def)
qed (simp add: chunk_state_def fragments_def)

lemma collect_chunks:
  "collect_response ce s acc tcs (concat (map chunk_events chs) @ evs) d
     = collect_response ce s (acc @ content_of chs) tcs evs d"
  by (induction chs arbitrary: acc)
     (auto simp: chunk_events_def content_of_def Let_def split: list.split)

lemma collect_calls:
  "collect_response ce s acc tcs (map (EvToolCall \<circ> Some) calls @ evs) d
     = collect_response ce s acc (tcs @ calls) evs d"
  by (induction calls arbitrary: tcs) simp_all

text \<open>
  C11. However an OpenAI-compatible server cuts its answer into chunks, the session that consumes the
  stream gets one message: the content in full, and for each index one tool call, in the order of the
  indices, with the first id and name the server gave and the arguments put together in the order
  they came; the usage counted is the last one reported, also when it follows the chunk that ends
  the tool calls, and it does not matter whether the end marker is sent.
\<close>

theorem openai_answer_received:
  assumes "answers frames chs" "sc_accept c = (\<lambda>_. True)" "reader_end c = None"
  shows "collect_response ce s [] [] (openai_stream name c True (Answer 200 body) frames) False =
    (counted (last_usage chs None) s,
     Inr (\<lparr>msg_role = ''assistant'', msg_content = content_of chs,
           msg_tool_calls = streamed_calls (fragments chs), msg_tool_call_id = []\<rparr>,
          streamed_calls (fragments chs)))"
proof -
  let ?st = "chunk_state True chs openai_start"
  obtain fs rest where "frames = fs @ rest" "rest = [] \<or> snd (hd rest) = ''[DONE]''"
      "list_all2 (\<lambda>(ty, data) ch. data \<noteq> ''[DONE]'' \<and> decode_chunk data = Some ch) fs chs"
    using assms(1) by (auto simp: answers_def)
  then have evs: "openai_stream name c True (Answer 200 body) frames = concat (map chunk_events chs) @ closing_events True ?st"
    using openai_loop_chunks [OF assms(2,3), of rest fs chs True openai_start]
    by (simp add: openai_stream_def)
  have ok: "acc_ok (fragments chs) (os_accumulated ?st)"
    using chunk_state_calls [of "[]" openai_start chs] by (simp add: acc_ok_def openai_start_def)
  have "tool_call_events (os_accumulated ?st) = map (EvToolCall \<circ> Some) (streamed_calls (fragments chs))"
    by (rule calls_put_together [OF ok])
  moreover have "os_accumulated ?st = [] \<Longrightarrow> streamed_calls (fragments chs) = []"
    using calls_put_together [OF ok] by (simp add: tool_call_events_def)
  ultimately have "closing_events True ?st = map (EvToolCall \<circ> Some) (streamed_calls (fragments chs)) @
      (case last_usage chs None of None \<Rightarrow> [] | Some u \<Rightarrow> [EvUsage (Some u)]) @ [EvDone]"
    using chunk_state_usage [of True chs openai_start]
    by (simp add: closing_events_def) (simp add: openai_start_def)
  then show ?thesis
    unfolding evs by (cases "last_usage chs None") (auto simp: collect_chunks collect_calls counted_def)
qed


section \<open>An Anthropic answer arrives as it was meant\<close>

text \<open>What a frame between the start and the end of a message means.\<close>

datatype block_event =
    Start go_int string string string    \<comment> \<open>index, type, id, name\<close>
  | Text_part string
  | Thinking_part string
  | Json_part go_int string
  | Pass

fun frame_means :: "string \<times> string \<Rightarrow> block_event \<Rightarrow> bool" where
  "frame_means (ty, data) (Start i k bid nm) \<longleftrightarrow> ty = ''content_block_start''
     \<and> (case decode_block_start data of None \<Rightarrow> False | Some ev \<Rightarrow> acs_Index ev = i
          \<and> acs_ContentBlock ev = \<lparr>acb_Type = k, acb_ID = bid, acb_Name = nm\<rparr>)"
| "frame_means (ty, data) (Text_part t) \<longleftrightarrow> ty = ''content_block_delta''
     \<and> (case decode_block_delta data of None \<Rightarrow> False | Some ev \<Rightarrow>
          ad_Type (acd_Delta ev) = ''text_delta'' \<and> ad_Text (acd_Delta ev) = t)"
| "frame_means (ty, data) (Thinking_part t) \<longleftrightarrow> ty = ''content_block_delta''
     \<and> (case decode_block_delta data of None \<Rightarrow> False | Some ev \<Rightarrow>
          ad_Type (acd_Delta ev) = ''thinking_delta'' \<and> ad_Thinking (acd_Delta ev) = t)"
| "frame_means (ty, data) (Json_part i t) \<longleftrightarrow> ty = ''content_block_delta''
     \<and> (case decode_block_delta data of None \<Rightarrow> False | Some ev \<Rightarrow>
          acd_Index ev = i \<and> ad_Type (acd_Delta ev) = ''input_json_delta'' \<and> ad_PartialJSON (acd_Delta ev) = t)"
| "frame_means (ty, data) Pass \<longleftrightarrow> ty = ''content_block_stop'' \<or> ty = ''ping''"

fun tool_starts :: "block_event list \<Rightarrow> (go_int \<times> string \<times> string) list" where
  "tool_starts [] = []"
| "tool_starts (Start i k bid nm # es) =
     (if k = ''tool_use'' then (i, bid, nm) # tool_starts es else tool_starts es)"
| "tool_starts (_ # es) = tool_starts es"

fun json_parts :: "go_int \<Rightarrow> block_event list \<Rightarrow> string" where
  "json_parts i [] = []"
| "json_parts i (Json_part j t # es) = (if j = i then t @ json_parts i es else json_parts i es)"
| "json_parts i (_ # es) = json_parts i es"

fun text_parts :: "block_event list \<Rightarrow> string" where
  "text_parts [] = []"
| "text_parts (Text_part t # es) = t @ text_parts es"
| "text_parts (_ # es) = text_parts es"

text \<open>A tool's block has its own index, and its input follows its start.\<close>

fun in_order :: "go_int list \<Rightarrow> block_event list \<Rightarrow> bool" where
  "in_order open_idx [] \<longleftrightarrow> True"
| "in_order open_idx (Start i k bid nm # es) \<longleftrightarrow>
     (if k = ''tool_use'' then i \<notin> set open_idx \<and> in_order (open_idx @ [i]) es else in_order open_idx es)"
| "in_order open_idx (Json_part i t # es) \<longleftrightarrow> i \<in> set open_idx \<and> in_order open_idx es"
| "in_order open_idx (_ # es) \<longleftrightarrow> in_order open_idx es"

definition block_calls :: "block_event list \<Rightarrow> tool_call list" where
  "block_calls es = map (\<lambda>(i, bid, nm). tool_call.make bid nm (json_parts i es))
     (sort_key (\<lambda>(i, _). sint i) (tool_starts es))"

definition blocks_of :: "block_event list \<Rightarrow> accumulated" where
  "blocks_of es = map (\<lambda>(i, bid, nm). (i, \<lparr>ta_ID = bid, ta_Name = nm, ta_Args = json_parts i es\<rparr>)) (tool_starts es)"

definition event_of_part :: "block_event \<Rightarrow> stream_event list" where
  "event_of_part e = (case e of
       Text_part t \<Rightarrow> if t \<noteq> [] then [EvText t] else []
     | Thinking_part t \<Rightarrow> if t \<noteq> [] then [EvReasoning t] else []
     | _ \<Rightarrow> [])"

lemma parts_append [simp]:
  "tool_starts (es @ [e]) = tool_starts es @ tool_starts [e]"
  "json_parts i (es @ [e]) = json_parts i es @ json_parts i [e]"
  by (induction es rule: tool_starts.induct; simp) (induction i es rule: json_parts.induct; simp)

lemma update_nonkey: "i \<notin> fst ` set xs \<Longrightarrow> AList.update i v xs = xs @ [(i, v)]"
  by (induction xs) auto

lemma map_update_key:
  "distinct (map fst xs) \<Longrightarrow> i \<in> fst ` set xs \<Longrightarrow>
   AList.update i (h (the (map_of xs i))) xs = map (\<lambda>(j, v). (j, if j = i then h v else v)) xs"
proof (induction xs)
  case (Cons x xs)
  have "map (\<lambda>(j, v). (j, if j = i then h v else v)) xs = xs" if "i \<notin> fst ` set xs"
    using that by (induction xs) auto
  then show ?case using Cons by (cases x) auto
qed simp

lemma in_order_snoc: "in_order idx (es @ [e]) \<longleftrightarrow> in_order idx es \<and> in_order (idx @ map fst (tool_starts es)) [e]"
  by (induction idx es rule: in_order.induct) auto

lemma starts_distinct: "in_order idx es \<Longrightarrow> distinct idx \<Longrightarrow> distinct (idx @ map fst (tool_starts es))"
  by (induction idx es rule: in_order.induct) (auto split: if_splits)

lemma json_before_start: "in_order idx es \<Longrightarrow> i \<notin> set idx \<Longrightarrow> i \<notin> fst ` set (tool_starts es) \<Longrightarrow> json_parts i es = []"
  by (induction idx es rule: in_order.induct) (auto split: if_splits)

lemma blocks_keys: "map fst (blocks_of es) = map fst (tool_starts es)"
  by (simp add: blocks_of_def comp_def split_def)

lemma anthropic_part:
  assumes "frame_means f e" "in_order [] (es @ [e])" "as_blocks s = blocks_of es"
  shows "\<exists>s'. anthropic_event c (fst f) (snd f) s = Proceed s' (event_of_part e)
    \<and> as_blocks s' = blocks_of (es @ [e]) \<and> as_input s' = as_input s"
proof (cases e)
  case (Start i k bid nm)
  obtain ev where ev: "fst f = ''content_block_start''" "decode_block_start (snd f) = Some ev" "acs_Index ev = i"
      "acs_ContentBlock ev = \<lparr>acb_Type = k, acb_ID = bid, acb_Name = nm\<rparr>"
    using assms(1) Start by (cases f) (auto split: option.splits)
  have same: "blocks_of (es @ [e]) = blocks_of es @ (if k = ''tool_use'' then
      [(i, \<lparr>ta_ID = bid, ta_Name = nm, ta_Args = []\<rparr>)] else [])"
    using assms(2) json_before_start [of "[]" es i] Start by (auto simp: blocks_of_def in_order_snoc)
  have new: "AList.update i v (blocks_of es) = blocks_of es @ [(i, v)]" if "k = ''tool_use''" for v
  proof -
    have "i \<notin> fst ` set (blocks_of es)"
      using assms(2) that Start blocks_keys [of es] by (simp add: in_order_snoc) (metis list.set_map)
    then show ?thesis by (simp add: update_nonkey)
  qed
  show ?thesis
    using ev assms(3) same new Start
    by (auto simp: anthropic_event_def event_of_part_def block_started_def Let_def)
next
  case (Json_part i t)
  obtain ev where ev: "fst f = ''content_block_delta''" "decode_block_delta (snd f) = Some ev" "acd_Index ev = i"
      "ad_Type (acd_Delta ev) = ''input_json_delta''" "ad_PartialJSON (acd_Delta ev) = t"
    using assms(1) Json_part by (cases f) (auto split: option.splits)
  have i: "i \<in> fst ` set (blocks_of es)" and d: "distinct (map fst (blocks_of es))"
    using assms(2) starts_distinct [of "[]" es] Json_part blocks_keys [of es]
    by (simp_all add: in_order_snoc) (metis list.set_map)
  then obtain a where a: "map_of (blocks_of es) i = Some a" by (metis eq_key_imp_eq_value map_of_eq_None_iff option.exhaust)
  have "AList.update i (a\<lparr>ta_Args := ta_Args a @ t\<rparr>) (blocks_of es) = blocks_of (es @ [e])"
    using map_update_key [OF d i, of "\<lambda>a. a\<lparr>ta_Args := ta_Args a @ t\<rparr>"] a Json_part
    by (auto simp: blocks_of_def)
  then show ?thesis
    using ev assms(3) a Json_part
    by (simp add: anthropic_event_def event_of_part_def block_delta_def Let_def)
next
  case (Text_part t)
  have "blocks_of (es @ [e]) = blocks_of es" using Text_part by (simp add: blocks_of_def)
  moreover obtain ty data where f: "f = (ty, data)" by (cases f)
  moreover obtain ev where "ty = ''content_block_delta''" "decode_block_delta data = Some ev"
      "ad_Type (acd_Delta ev) = ''text_delta''" "ad_Text (acd_Delta ev) = t"
    using assms(1) Text_part f by (auto split: option.splits)
  ultimately show ?thesis
    using assms(3) by (simp add: anthropic_event_def block_delta_def event_of_part_def Text_part Let_def)
next
  case (Thinking_part t)
  have "blocks_of (es @ [e]) = blocks_of es" using Thinking_part by (simp add: blocks_of_def)
  moreover obtain ty data where f: "f = (ty, data)" by (cases f)
  moreover obtain ev where "ty = ''content_block_delta''" "decode_block_delta data = Some ev"
      "ad_Type (acd_Delta ev) = ''thinking_delta''" "ad_Thinking (acd_Delta ev) = t"
    using assms(1) Thinking_part f by (auto split: option.splits)
  ultimately show ?thesis
    using assms(3) by (simp add: anthropic_event_def block_delta_def event_of_part_def Thinking_part Let_def)
next
  case Pass
  then have "fst f = ''content_block_stop'' \<or> fst f = ''ping''" using assms(1) by (cases f) simp
  then have "anthropic_event c (fst f) (snd f) s = Proceed s []" by (auto simp: anthropic_event_def)
  then show ?thesis using assms(3) Pass by (simp add: event_of_part_def blocks_of_def)
qed

lemma anthropic_parts:
  assumes "sc_accept c = (\<lambda>_. True)"
  shows "list_all2 frame_means fs es \<Longrightarrow> in_order [] (es0 @ es) \<Longrightarrow> as_blocks s = blocks_of es0 \<Longrightarrow>
    \<exists>s' b'. anthropic_loop c (fs @ rest) s b = anthropic_loop c rest s' b' \<and> as_blocks s' = blocks_of (es0 @ es)
      \<and> as_input s' = as_input s \<and> ob_sent b' = ob_sent b @ concat (map event_of_part es)"
proof (induction fs es arbitrary: es0 s b rule: list_all2_induct)
  case Nil
  then show ?case by auto
next
  case (Cons f fs e es)
  have "in_order [] (es0 @ [e])"
    using Cons.prems(1) by (induction es rule: rev_induct) (simp_all flip: append_assoc append_Cons add: in_order_snoc)
  then obtain s' where s': "anthropic_event c (fst f) (snd f) s = Proceed s' (event_of_part e)"
      "as_blocks s' = blocks_of (es0 @ [e])" "as_input s' = as_input s"
    using anthropic_part [OF Cons.hyps(1) _ Cons.prems(2)] by blast
  have "anthropic_loop c ((f # fs) @ rest) s b = anthropic_loop c (fs @ rest) s'
      \<lparr>ob_tried = ob_tried b + length (event_of_part e), ob_sent = ob_sent b @ event_of_part e\<rparr>"
    using s'(1) by (cases f) (simp add: send_all_taken [OF assms])
  moreover obtain s2 b2 where "anthropic_loop c (fs @ rest) s'
      \<lparr>ob_tried = ob_tried b + length (event_of_part e), ob_sent = ob_sent b @ event_of_part e\<rparr> = anthropic_loop c rest s2 b2"
    "as_blocks s2 = blocks_of (es0 @ e # es)" "as_input s2 = as_input s"
    "ob_sent b2 = ob_sent b @ event_of_part e @ concat (map event_of_part es)"
    using Cons.IH [of "es0 @ [e]" s' "\<lparr>ob_tried = ob_tried b + length (event_of_part e), ob_sent = ob_sent b @ event_of_part e\<rparr>"]
      Cons.prems(1) s'(2,3) by auto
  ultimately show ?case by auto
qed

lemma insort_key_map: "insort_key f (g x) (map g xs) = map g (insort_key (f \<circ> g) x xs)"
  by (induction xs) auto

lemma sort_key_of_map: "sort_key f (map g xs) = map g (sort_key (f \<circ> g) xs)"
  by (induction xs) (auto simp: sort_key_def insort_key_map comp_def)

lemma block_calls_events: "tool_call_events (blocks_of es) = map (EvToolCall \<circ> Some) (block_calls es)"
  by (auto simp: tool_call_events_def blocks_of_def block_calls_def sort_key_of_map comp_def split_def tool_call_of_def)

lemma collect_parts:
  "collect_response ce s acc tcs (concat (map event_of_part es) @ evs) d
     = collect_response ce s (acc @ text_parts es) tcs evs d"
  by (induction es arbitrary: acc rule: text_parts.induct) (auto simp: event_of_part_def)

text \<open>The frames of a message: its start, its parts, and its end with the reason it stopped.\<close>

definition message_frames :: "(string \<times> string) list \<Rightarrow> int \<Rightarrow> block_event list \<Rightarrow> string \<Rightarrow> int \<Rightarrow> bool" where
  "message_frames frames tokens_in es reason tokens_out \<longleftrightarrow>
     (\<exists>start fs delta rest. frames = (''message_start'', start) # fs @ (''message_delta'', delta) # (''message_stop'', []) # rest
        \<and> (case decode_message_start start of None \<Rightarrow> False
             | Some ev \<Rightarrow> sint (au_InputTokens (am_Usage (ams_Message ev))) = tokens_in)
        \<and> list_all2 frame_means fs es
        \<and> (case decode_message_delta delta of None \<Rightarrow> False
             | Some ev \<Rightarrow> ast_StopReason (amd_Delta ev) = reason \<and> sint (au_OutputTokens (amd_Usage ev)) = tokens_out))"



section \<open>Examples\<close>

definition taking :: stream_ctx where
  "taking = \<lparr>sc_accept = (\<lambda>_. True), sc_err = None, sc_reader_err = None, sc_json_err = (\<lambda>_. [])\<rparr>"

lemma decode_encode: "wf_json j \<Longrightarrow> decode rd zero (encode j) = rd j zero"
  by (simp add: decode_def parse_encode)

definition sample_chunk :: "string \<Rightarrow> string \<Rightarrow> string \<Rightarrow> json" where
  "sample_chunk text call args = JObj [(''choices'', JArr [JObj [(''delta'', JObj [(''content'', JStr text),
     (''tool_calls'', JArr [JObj [(''id'', JStr call), (''function'', JObj [(''name'', JStr call), (''arguments'', JStr args)])]])])]])]"

definition sample_openAIChunk :: "string \<Rightarrow> string \<Rightarrow> string \<Rightarrow> openAIChunk" where
  "sample_openAIChunk text call args = zero_openAIChunk\<lparr>och_Choices := Some [zero_openAIChoice\<lparr>oc_Delta :=
     \<lparr>od_Content = text, od_Role = [], od_Reasoning = [], od_ToolCalls = Some [\<lparr>otc_Index = 0, otc_ID = call, otc_Type = [],
        otc_Function = \<lparr>fn_Name = call, fn_Arguments = args\<rparr>\<rparr>]\<rparr>\<rparr>]\<rparr>"

lemma sample_chunk_decoded: "decode_chunk (encode (sample_chunk text call args)) = Some (sample_openAIChunk text call args)"
proof -
  have "wf_json (sample_chunk text call args)" by (simp add: sample_chunk_def)
  then have "decode_chunk (encode (sample_chunk text call args))
      = read_struct openAIChunk_fields (sample_chunk text call args) zero_openAIChunk"
    by (simp only: decode_chunk_def decode_encode)
  also have "\<dots> = Some (sample_openAIChunk text call args)"
    by (simp add: sample_chunk_def sample_openAIChunk_def zero_openAIChunk_def
        openAIChunk_fields_def find_field_def field_def openAIChoice_fields_def zero_openAIChoice_def openAIDelta_fields_def
        openAIToolCall_fields_def zero_openAIToolCall_def zero_function_def function_fields_def)
  finally show ?thesis .
qed

lemma chunk_no_marker: "encode (sample_chunk text call args) \<noteq> ''[DONE]''"
  by (simp add: sample_chunk_def)

lemma openai_answer_witness:
  "snd (collect_response (OtherError []) (new_session True []) [] []
      (openai_stream ''p'' taking True (Answer 200 [])
        [([], encode (sample_chunk ''hi'' ''c'' ''{'')), ([], encode (sample_chunk '' you'' [] ''}'')), ([], ''[DONE]'')]) False)
   = Inr (\<lparr>msg_role = ''assistant'', msg_content = ''hi you'',
           msg_tool_calls = [\<lparr>tc_id = ''c'', tc_name = ''c'', tc_args = ''{}''\<rparr>], msg_tool_call_id = []\<rparr>,
          [\<lparr>tc_id = ''c'', tc_name = ''c'', tc_args = ''{}''\<rparr>])"
proof -
  let ?frames = "[([], encode (sample_chunk ''hi'' ''c'' ''{'')), ([], encode (sample_chunk '' you'' [] ''}'')), ([], ''[DONE]'')]"
  let ?chs = "[sample_openAIChunk ''hi'' ''c'' ''{'', sample_openAIChunk '' you'' [] ''}'']"
  have "answers ?frames ?chs"
    unfolding answers_def
    by (intro exI [of _ "take 2 ?frames"] exI [of _ "drop 2 ?frames"]) (simp add: sample_chunk_decoded chunk_no_marker)
  then show ?thesis
    using openai_answer_received [of ?frames ?chs taking "OtherError []" "new_session True []" "''p''" "[]"]
    by (simp add: taking_def reader_end_def content_of_def fragments_def sample_openAIChunk_def streamed_calls_def
        call_of_index_def first_text_def tool_call.make_def)
qed

lemma streams_end_once_witness:
  "is_end (last (openai_stream ''p'' taking True (Answer 200 []) [([], ''[DONE]'')]))"
  using streams_end_once [of "''p''" taking True "Answer 200 []" "[([], ''[DONE]'')]"] by (simp add: taking_def)


definition sample_message :: "(string \<times> string) list" where
  "sample_message =
     [(''message_start'', encode (JObj [(''message'', JObj [(''usage'', JObj [(''input_tokens'', JNum ''7'')])])])),
      (''content_block_start'', encode (JObj [(''index'', JNum ''1''), (''content_block'',
          JObj [(''type'', JStr ''tool_use''), (''id'', JStr ''c''), (''name'', JStr ''f'')])])),
      (''ping'', []),
      (''content_block_delta'', encode (JObj [(''index'', JNum ''0''),
          (''delta'', JObj [(''type'', JStr ''text_delta''), (''text'', JStr ''hi'')])])),
      (''content_block_delta'', encode (JObj [(''index'', JNum ''1''),
          (''delta'', JObj [(''type'', JStr ''input_json_delta''), (''partial_json'', JStr ''{}'')])])),
      (''message_delta'', encode (JObj [(''delta'', JObj [(''stop_reason'', JStr ''tool_use'')]),
          (''usage'', JObj [(''output_tokens'', JNum ''3'')])])),
      (''message_stop'', [])]"

lemma sample_message_frames:
  "message_frames sample_message 7
     [Start 1 ''tool_use'' ''c'' ''f'', Pass, Text_part ''hi'', Json_part 1 ''{}''] ''tool_use'' 3"
proof -
  have "case decode_message_start (snd (sample_message ! 0)) of None \<Rightarrow> False
      | Some ev \<Rightarrow> sint (au_InputTokens (am_Usage (ams_Message ev))) = 7"
    by code_simp
  moreover have "list_all2 frame_means (take 4 (drop 1 sample_message))
      [Start 1 ''tool_use'' ''c'' ''f'', Pass, Text_part ''hi'', Json_part 1 ''{}'']"
    by code_simp
  moreover have "case decode_message_delta (snd (sample_message ! 5)) of None \<Rightarrow> False
      | Some ev \<Rightarrow> ast_StopReason (amd_Delta ev) = ''tool_use'' \<and> sint (au_OutputTokens (amd_Usage ev)) = 3"
    by code_simp
  moreover have "sample_message = (''message_start'', snd (sample_message ! 0)) # take 4 (drop 1 sample_message)
      @ (''message_delta'', snd (sample_message ! 5)) # (''message_stop'', []) # []"
    by (simp add: sample_message_def)
  ultimately show ?thesis unfolding message_frames_def by blast
qed


end
