(* ===== verification/LlmRequest.thy ===== *)
theory LlmRequest
  imports LlmStream GraphState
begin

text \<open>
  The requests the two providers send to a language model (\<open>internal/provider/openai.go\<close> and
  \<open>anthropic.go\<close>): addresses, bodies and the conversion of a conversation to the messages of the
  Anthropic API. The types of a chat request belong to the \<open>mycelium\<close> library; a record holds the
  fields the code reads.
\<close>

section \<open>Addresses\<close>

definition trim_slashes :: "string \<Rightarrow> string" where
  "trim_slashes s = rev (dropWhile (\<lambda>c. c = CHR ''/'') (rev s))"

text \<open>The digits at the end of an address, behind \<open>/v\<close>: \<open>versionPathSuffix\<close>, and what is before it.\<close>

definition version_suffix :: "string \<Rightarrow> string option" where
  "version_suffix s =
     (let r = rev s; ds = takeWhile is_digit r; rest = dropWhile is_digit r in
      if ds \<noteq> [] \<and> take 2 rest = ''v/'' then Some (rev (drop 2 rest)) else None)"

definition api_url :: "string \<Rightarrow> string \<Rightarrow> string" where
  "api_url path endpoint0 =
     (let endpoint = trim_slashes endpoint0 in
      if has_suffix endpoint path then endpoint
      else if version_suffix endpoint \<noteq> None then endpoint @ path
      else endpoint @ ''/v1'' @ path)"

definition chatCompletionsURL :: "string \<Rightarrow> string" where
  "chatCompletionsURL = api_url ''/chat/completions''"

definition modelsURL :: "string \<Rightarrow> string" where
  "modelsURL = api_url ''/models''"

definition embeddingsURL :: "string \<Rightarrow> string" where
  "embeddingsURL = api_url ''/embeddings''"

definition lmStudioModelsURL :: "string \<Rightarrow> string" where
  "lmStudioModelsURL endpoint =
     (let base = trim_slashes endpoint in
      (case version_suffix base of None \<Rightarrow> base | Some b \<Rightarrow> b) @ ''/api/v0/models'')"

text \<open>The host \<open>url.Parse\<close> finds in the address is a parameter.\<close>

definition isLocalEndpoint :: "(string \<Rightarrow> string option) \<Rightarrow> string \<Rightarrow> bool" where
  "isLocalEndpoint url_host endpoint =
     (let host0 = (case url_host endpoint of Some h \<Rightarrow> if h \<noteq> [] then h else endpoint | None \<Rightarrow> endpoint);
          host = trim_suffix (trim_prefix host0 ''['') '']'' in
      host \<in> {''localhost'', ''0.0.0.0'', ''::1''} \<or> has_prefix host ''127.'' \<or> has_prefix host ''10.''
      \<or> has_prefix host ''192.168.'' \<or> has_suffix host ''.local'')"

section \<open>The OpenAI request\<close>

record llm_tool =
  lt_name :: string
  lt_description :: string
  lt_parameters :: raw

record chat_request =
  cr_model :: string
  cr_messages :: "message list"
  cr_tools :: "llm_tool list"
  cr_system :: string
  cr_max_tokens :: go_int
  cr_temperature :: "json_float option"
  cr_stop :: "string slice"

record sampling_params =
  sp_RepeatPenalty :: "json_float option"
  sp_RepeatLastN :: "go_int option"
  sp_DRYMultiplier :: "json_float option"
  sp_DRYBase :: "json_float option"
  sp_DRYAllowedLength :: "go_int option"
  sp_DRYPenaltyLastN :: "go_int option"

definition no_sampling :: sampling_params where
  "no_sampling = \<lparr>sp_RepeatPenalty = None, sp_RepeatLastN = None, sp_DRYMultiplier = None,
     sp_DRYBase = None, sp_DRYAllowedLength = None, sp_DRYPenaltyLastN = None\<rparr>"

definition defaultLocalSampling :: sampling_params where
  "defaultLocalSampling = \<lparr>sp_RepeatPenalty = Some (Float ''1.1''), sp_RepeatLastN = Some 64,
     sp_DRYMultiplier = Some (Float ''0.8''), sp_DRYBase = Some (Float ''1.75''),
     sp_DRYAllowedLength = Some 2, sp_DRYPenaltyLastN = Some (- 1)\<rparr>"

definition omit_nil :: "string \<Rightarrow> ('a \<Rightarrow> json) \<Rightarrow> 'a option \<Rightarrow> (string \<times> json) list" where
  "omit_nil k f p = omit_if (p = None) k (ptr_json f p)"

definition sampling_members :: "sampling_params \<Rightarrow> (string \<times> json) list" where
  "sampling_members p =
     omit_nil ''repeat_penalty'' float_json (sp_RepeatPenalty p) @
     omit_nil ''repeat_last_n'' int_json (sp_RepeatLastN p) @
     omit_nil ''dry_multiplier'' float_json (sp_DRYMultiplier p) @
     omit_nil ''dry_base'' float_json (sp_DRYBase p) @
     omit_nil ''dry_allowed_length'' int_json (sp_DRYAllowedLength p) @
     omit_nil ''dry_penalty_last_n'' int_json (sp_DRYPenaltyLastN p)"

definition openAIToolCall_json :: "tool_call \<Rightarrow> json" where
  "openAIToolCall_json tc = JObj (
     omit_if (tool_call.tc_id tc = []) ''id'' (JStr (tool_call.tc_id tc)) @
     member ''type'' (JStr ''function'') @
     member ''function'' (JObj (
       omit_if (tool_call.tc_name tc = []) ''name'' (JStr (tool_call.tc_name tc)) @
       omit_if (tool_call.tc_args tc = []) ''arguments'' (JStr (tool_call.tc_args tc)))))"

definition openAIMessage_json :: "message \<Rightarrow> json" where
  "openAIMessage_json m = JObj (
     member ''role'' (JStr (msg_role m)) @
     member ''content'' (JStr (msg_content m)) @
     omit_if (msg_tool_call_id m = []) ''tool_call_id'' (JStr (msg_tool_call_id m)) @
     omit_if (msg_tool_calls m = []) ''tool_calls'' (JArr (map openAIToolCall_json (msg_tool_calls m))))"

definition openAITool_json :: "llm_tool \<Rightarrow> json" where
  "openAITool_json t = JObj (
     member ''type'' (JStr ''function'') @
     member ''function'' (JObj (
       member ''name'' (JStr (lt_name t)) @
       omit_if (lt_description t = []) ''description'' (JStr (lt_description t)) @
       omit_if (lt_parameters t = None) ''parameters'' (raw_json (lt_parameters t)))))"

record openai_provider =
  op_name :: string
  op_endpoint :: string
  op_default_model :: string
  op_sampling :: sampling_params

definition NewOpenAI :: "(string \<Rightarrow> string option) \<Rightarrow> string \<Rightarrow> string \<Rightarrow> string \<Rightarrow> openai_provider" where
  "NewOpenAI url_host name endpoint0 model =
     (let endpoint = trim_slashes endpoint0 in
      \<lparr>op_name = name, op_endpoint = endpoint, op_default_model = model,
       op_sampling = (if isLocalEndpoint url_host endpoint then defaultLocalSampling else no_sampling)\<rparr>)"

text \<open>The conversation with the system prompt in front, as the body lists it.\<close>

definition openai_messages :: "chat_request \<Rightarrow> message list" where
  "openai_messages req =
     (if cr_system req \<noteq> [] then [text_message ''system'' (cr_system req)] else []) @ cr_messages req"

definition openai_body :: "openai_provider \<Rightarrow> chat_request \<Rightarrow> json" where
  "openai_body p req = JObj (
     member ''model'' (JStr (if cr_model req = [] then op_default_model p else cr_model req)) @
     member ''messages'' (slice_json openAIMessage_json (appended (openai_messages req))) @
     member ''stream'' (JBool True) @
     member ''stream_options'' (JObj (member ''include_usage'' (JBool True))) @
     omit_if (cr_tools req = []) ''tools'' (JArr (map openAITool_json (cr_tools req))) @
     omit_nil ''temperature'' float_json (cr_temperature req) @
     omit_if (sint (cr_max_tokens req) \<le> 0) ''max_tokens'' (int_json (cr_max_tokens req)) @
     omit_if (elems (cr_stop req) = []) ''stop'' (JArr (map JStr (elems (cr_stop req)))) @
     sampling_members (op_sampling p))"

definition openai_request :: "openai_provider \<Rightarrow> chat_request \<Rightarrow> string \<times> string" where
  "openai_request p req = (chatCompletionsURL (op_endpoint p), encode (openai_body p req))"

section \<open>The Anthropic request\<close>

record anthropicMsg =
  ant_Role :: string
  ant_Content :: json

text \<open>\<open>json.Marshal\<close> of the maps: their members in the order of the keys.\<close>

definition text_block :: "string \<Rightarrow> json" where
  "text_block t = JObj [(''text'', JStr t), (''type'', JStr ''text'')]"

definition tool_use_input :: "json_env \<Rightarrow> string \<Rightarrow> json" where
  "tool_use_input je args = (case decode_any je args of Inl e \<Rightarrow> JObj [] | Inr j \<Rightarrow> j)"

definition tool_use_block :: "json_env \<Rightarrow> tool_call \<Rightarrow> json" where
  "tool_use_block je tc = JObj [(''id'', JStr (tool_call.tc_id tc)), (''input'', tool_use_input je (tool_call.tc_args tc)),
     (''name'', JStr (tool_call.tc_name tc)), (''type'', JStr ''tool_use'')]"

definition tool_result_block :: "message \<Rightarrow> json" where
  "tool_result_block m = JObj [(''content'', JStr (msg_content m)), (''tool_use_id'', JStr (msg_tool_call_id m)),
     (''type'', JStr ''tool_result'')]"

text \<open>
  The blocks of a message of tool results. They hold only strings and their keys are in order, so
  decoding and encoding them again, as the code does to append one, gives them back.
\<close>

definition result_blocks :: "anthropicMsg list \<Rightarrow> json list option" where
  "result_blocks out =
     (if out \<noteq> [] \<and> ant_Role (last out) = ''user'' then
        (case ant_Content (last out) of
           JArr (JObj ms # bs) \<Rightarrow>
             if map_of ms ''type'' = Some (JStr ''tool_result'') then Some (JObj ms # bs) else None
         | _ \<Rightarrow> None)
      else None)"

definition convert_message :: "json_env \<Rightarrow> message \<Rightarrow> anthropicMsg list \<Rightarrow> anthropicMsg list" where
  "convert_message je m out =
     (if msg_role m = ''assistant'' then
        (if msg_tool_calls m \<noteq> [] then
           out @ [\<lparr>ant_Role = ''assistant'', ant_Content = JArr (
             (if msg_content m \<noteq> [] then [text_block (msg_content m)] else []) @
             map (tool_use_block je) (msg_tool_calls m))\<rparr>]
         else if msg_content m \<noteq> [] then out @ [\<lparr>ant_Role = ''assistant'', ant_Content = JStr (msg_content m)\<rparr>]
         else out)
      else if msg_role m = ''tool'' then
        (case result_blocks out of
           Some bs \<Rightarrow> butlast out @ [(last out)\<lparr>ant_Content := JArr (bs @ [tool_result_block m])\<rparr>]
         | None \<Rightarrow> out @ [\<lparr>ant_Role = ''user'', ant_Content = JArr [tool_result_block m]\<rparr>])
      else if msg_role m = ''user'' \<and> msg_content m \<noteq> [] then
        out @ [\<lparr>ant_Role = ''user'', ant_Content = JStr (msg_content m)\<rparr>]
      else out)"

definition convertMessagesToAnthropic :: "json_env \<Rightarrow> message list \<Rightarrow> anthropicMsg list" where
  "convertMessagesToAnthropic je msgs = fold (convert_message je) msgs []"

definition anthropicMsg_json :: "anthropicMsg \<Rightarrow> json" where
  "anthropicMsg_json m = JObj (member ''role'' (JStr (ant_Role m)) @ member ''content'' (ant_Content m))"

definition anthropicToolDef_json :: "llm_tool \<Rightarrow> json" where
  "anthropicToolDef_json t = JObj (
     member ''name'' (JStr (lt_name t)) @
     omit_if (lt_description t = []) ''description'' (JStr (lt_description t)) @
     omit_if (lt_parameters t = None) ''input_schema'' (raw_json (lt_parameters t)))"

definition anthropic_body :: "json_env \<Rightarrow> string \<Rightarrow> chat_request \<Rightarrow> json" where
  "anthropic_body je default_model req = JObj (
     member ''model'' (JStr (if cr_model req = [] then default_model else cr_model req)) @
     member ''max_tokens'' (int_json (if cr_max_tokens req = 0 then 4096 else cr_max_tokens req)) @
     member ''stream'' (JBool True) @
     member ''messages'' (slice_json anthropicMsg_json (appended (convertMessagesToAnthropic je (cr_messages req)))) @
     omit_if (cr_system req = []) ''system'' (JStr (cr_system req)) @
     omit_if (cr_tools req = []) ''tools'' (JArr (map anthropicToolDef_json (cr_tools req))) @
     omit_nil ''temperature'' float_json (cr_temperature req))"


section \<open>Addresses are stable\<close>

lemma trim_slashes_idem [simp]: "trim_slashes (trim_slashes s) = trim_slashes s"
  by (simp add: trim_slashes_def)

lemma trim_slashes_end: "s = [] \<or> last s \<noteq> CHR ''/'' \<Longrightarrow> trim_slashes s = s"
  by (cases s rule: rev_cases) (simp_all add: trim_slashes_def)

lemma trim_slashes_slash: "trim_slashes (s @ ''/'') = trim_slashes s"
  by (simp add: trim_slashes_def)

lemma api_url_stable:
  assumes "path \<noteq> []" "last path \<noteq> CHR ''/''"
  shows "has_suffix (api_url path e) path \<and> api_url path (api_url path e) = api_url path e
    \<and> api_url path (e @ ''/'') = api_url path e"
proof -
  have "has_suffix (api_url path e) path"
    by (auto simp: api_url_def Let_def has_suffix_def suffix_def)
  moreover from this have "last (api_url path e) \<noteq> CHR ''/''"
    using assms by (auto simp: has_suffix_def suffix_def)
  then have "trim_slashes (api_url path e) = api_url path e" by (simp add: trim_slashes_end)
  ultimately have "api_url path (api_url path e) = api_url path e"
    by (simp add: api_url_def [of path "api_url path e"] Let_def)
  then show ?thesis using \<open>has_suffix (api_url path e) path\<close> by (simp add: api_url_def trim_slashes_slash)
qed

section \<open>The server reads the conversation that was sent\<close>

text \<open>How a server reads a message, with the names of the protocol.\<close>

definition function_view :: "tool_call fields" where
  "function_view =
     [(''name'', field tool_call.tc_name tool_call.tc_name_update read_string),
      (''arguments'', field tool_call.tc_args tool_call.tc_args_update read_string)]"

definition call_view :: "tool_call fields" where
  "call_view =
     [(''id'', field tool_call.tc_id tool_call.tc_id_update read_string), (''function'', read_struct function_view)]"

definition message_view :: "message fields" where
  "message_view =
     [(''role'', field msg_role msg_role_update read_string),
      (''content'', field msg_content msg_content_update read_string),
      (''tool_call_id'', field msg_tool_call_id msg_tool_call_id_update read_string),
      (''tool_calls'', (\<lambda>j m. map_option (\<lambda>s. m\<lparr>msg_tool_calls := elems s\<rparr>)
          (read_slice (read_struct call_view) (tool_call.make [] [] []) j None)))]"

definition read_message :: "json \<Rightarrow> message option" where
  "read_message j = read_struct message_view j (text_message [] [])"

definition body_messages :: "string \<Rightarrow> message list option" where
  "body_messages body =
     (case parse_json body of
        Some (JObj ms) \<Rightarrow>
          (case map_of ms ''messages'' of
             Some (JArr js) \<Rightarrow> those (map read_message js)
           | Some JNull \<Rightarrow> Some []
           | _ \<Rightarrow> None)
      | _ \<Rightarrow> None)"

lemma call_read: "read_struct call_view (openAIToolCall_json tc) (tool_call.make [] [] []) = Some tc"
proof -
  have ff: "find_field function_view ''name'' = Some (field tool_call.tc_name tool_call.tc_name_update read_string)"
    "find_field function_view ''arguments'' = Some (field tool_call.tc_args tool_call.tc_args_update read_string)"
    "find_field call_view ''id'' = Some (field tool_call.tc_id tool_call.tc_id_update read_string)"
    "find_field call_view ''function'' = Some (read_struct function_view)"
    by (simp_all add: find_field_def function_view_def call_view_def)
  have "find_field call_view ''type'' = None" by code_simp
  then show ?thesis using ff
    by (cases tc) (auto simp: openAIToolCall_json_def member_def omit_if_def field_def tool_call.make_def)
qed

lemma message_read: "read_message (openAIMessage_json m) = Some m"
proof -
  have ff: "find_field message_view ''role'' = Some (field msg_role msg_role_update read_string)"
    "find_field message_view ''content'' = Some (field msg_content msg_content_update read_string)"
    "find_field message_view ''tool_call_id'' = Some (field msg_tool_call_id msg_tool_call_id_update read_string)"
    "find_field message_view ''tool_calls'' = Some (\<lambda>j m. map_option (\<lambda>s. m\<lparr>msg_tool_calls := elems s\<rparr>)
          (read_slice (read_struct call_view) (tool_call.make [] [] []) j None))"
    by (simp_all add: find_field_def message_view_def)
  have "those (map ((\<lambda>j. read_struct call_view j (tool_call.make [] [] [])) \<circ> openAIToolCall_json) tcs) = Some tcs" for tcs
    using those_map [of tcs "(\<lambda>j. read_struct call_view j (tool_call.make [] [] [])) \<circ> openAIToolCall_json" "\<lambda>x. x"]
    by (simp add: call_read)
  then show ?thesis using ff
    by (cases m) (auto simp: read_message_def openAIMessage_json_def member_def omit_if_def field_def text_message_def)
qed

definition sampling_ok :: "sampling_params \<Rightarrow> bool" where
  "sampling_ok p \<longleftrightarrow> list_all (\<lambda>f. ptr_ok float_ok f) [sp_RepeatPenalty p, sp_DRYMultiplier p, sp_DRYBase p]"

definition request_ok :: "chat_request \<Rightarrow> bool" where
  "request_ok req \<longleftrightarrow> list_all (\<lambda>t. raw_ok (lt_parameters t)) (cr_tools req) \<and> ptr_ok float_ok (cr_temperature req)"

lemma defaultLocalSampling_ok: "sampling_ok defaultLocalSampling" "sampling_ok no_sampling"
  by (simp_all add: sampling_ok_def defaultLocalSampling_def no_sampling_def ptr_ok_def valid_number_def number_end_def
      digits1_def is_digit_def number_char_def)

lemma openai_messages_wf: "wf_json (openAIMessage_json m)"
  by (auto simp: openAIMessage_json_def openAIToolCall_json_def member_def omit_if_def list_all_iff)

lemma openai_body_wf:
  assumes "sampling_ok (op_sampling p)" "request_ok req"
  shows "wf_json (openai_body p req)"
proof -
  have f: "wf_json (ptr_json float_json f)" if "ptr_ok float_ok f" for f
    using that wf_writers(4) by (cases f) (simp_all add: ptr_json_def ptr_ok_def)
  have i: "wf_json (ptr_json int_json f)" for f
    using wf_writers(1) by (cases f) (simp_all add: ptr_json_def)
  have t: "wf_json (openAITool_json t)" if "raw_ok (lt_parameters t)" for t
    using that wf_writers(5) by (simp add: openAITool_json_def wire)
  have m: "wf_json (slice_json openAIMessage_json s)" for s
    using openai_messages_wf by (auto simp: slice_json_def list_all_iff split: option.split)
  show ?thesis
    using assms f i t m wf_writers(1)
    by (simp add: openai_body_def sampling_members_def omit_nil_def wire sampling_ok_def request_ok_def)
       (auto simp: list_all_iff)
qed


lemma appended_elems: "elems (appended xs) = xs"
  by simp

text \<open>
  C15. Whatever the conversation, the tools and the parameters, the body of an OpenAI request is a
  JSON document, and the server reads from it exactly the conversation, behind the system prompt:
  every role, text, tool call and answered call; the address it is sent to ends with the path of the
  chat API and does not depend on slashes at the end of the configured address.
\<close>

theorem openai_request_faithful:
  assumes "sampling_ok (op_sampling p)" "request_ok req"
  shows "body_messages (snd (openai_request p req)) = Some (openai_messages req)
    \<and> has_suffix (fst (openai_request p req)) ''/chat/completions''
    \<and> fst (openai_request (p\<lparr>op_endpoint := op_endpoint p @ ''/''\<rparr>) req) = fst (openai_request p req)"
proof (intro conjI)
  have parsed: "parse_json (snd (openai_request p req)) = Some (openai_body p req)"
    using parse_encode [OF openai_body_wf [OF assms]] by (simp add: openai_request_def)
  obtain ms where ms: "openai_body p req = JObj ms"
      "map_of ms ''messages'' = Some (slice_json openAIMessage_json (appended (openai_messages req)))"
    by (simp add: openai_body_def member_def)
  have "those (map (read_message \<circ> openAIMessage_json) msgs) = Some msgs" for msgs
    using those_map [of msgs "read_message \<circ> openAIMessage_json" "\<lambda>x. x"] by (simp add: message_read)
  then show "body_messages (snd (openai_request p req)) = Some (openai_messages req)"
    using ms by (simp add: body_messages_def parsed slice_json_def appended_def)
  show "has_suffix (fst (openai_request p req)) ''/chat/completions''"
    "fst (openai_request (p\<lparr>op_endpoint := op_endpoint p @ ''/''\<rparr>) req) = fst (openai_request p req)"
    using api_url_stable [of "''/chat/completions''"] by (simp_all add: openai_request_def chatCompletionsURL_def)
qed

section \<open>The Anthropic messages answer each other\<close>

text \<open>The calls a message makes and those it answers.\<close>

fun block_ids :: "string \<Rightarrow> string \<Rightarrow> json \<Rightarrow> string list" where
  "block_ids kind key (JObj ms) =
     (if map_of ms ''type'' = Some (JStr kind) then (case map_of ms key of Some (JStr i) \<Rightarrow> [i] | _ \<Rightarrow> []) else [])"
| "block_ids kind key _ = []"

fun content_ids :: "string \<Rightarrow> string \<Rightarrow> json \<Rightarrow> string list" where
  "content_ids kind key (JArr bs) = concat (map (block_ids kind key) bs)"
| "content_ids kind key _ = []"

definition made_calls :: "anthropicMsg \<Rightarrow> string list" where
  "made_calls m = (if ant_Role m = ''assistant'' then content_ids ''tool_use'' ''id'' (ant_Content m) else [])"

definition answered_calls :: "anthropicMsg \<Rightarrow> string list" where
  "answered_calls m = (if ant_Role m = ''user'' then content_ids ''tool_result'' ''tool_use_id'' (ant_Content m) else [])"

text \<open>What the API demands: a message answers exactly the calls of the message before it.\<close>

fun answer_chain :: "string list \<Rightarrow> anthropicMsg list \<Rightarrow> bool" where
  "answer_chain ids [] \<longleftrightarrow> True"
| "answer_chain ids (m # ms) \<longleftrightarrow> set (answered_calls m) = set ids \<and> answer_chain (made_calls m) ms"

definition last_calls :: "anthropicMsg list \<Rightarrow> string list" where
  "last_calls ms = (if ms = [] then [] else made_calls (last ms))"

definition anthropic_accepts :: "anthropicMsg list \<Rightarrow> bool" where
  "anthropic_accepts ms \<longleftrightarrow> answer_chain [] ms \<and> last_calls ms = []"

lemma answer_chain_snoc:
  "answer_chain ids (ms @ [m]) \<longleftrightarrow> answer_chain ids ms \<and> set (answered_calls m) = set (if ms = [] then ids else made_calls (last ms))"
  by (induction ids ms rule: answer_chain.induct) auto

lemma chain_start: "answer_chain [] (ms @ [m]) \<longleftrightarrow> answer_chain [] ms \<and> set (answered_calls m) = set (last_calls ms)"
  by (simp add: answer_chain_snoc last_calls_def)

lemma tool_block_ids [simp]:
  "block_ids ''tool_use'' ''id'' (tool_use_block je tc) = [tool_call.tc_id tc]"
  "block_ids ''tool_use'' ''id'' (text_block t) = []"
  "block_ids ''tool_result'' ''tool_use_id'' (tool_result_block m) = [msg_tool_call_id m]"
  by (simp_all add: tool_use_block_def text_block_def tool_result_block_def)

lemma concat_singletons: "concat (map (block_ids k i \<circ> f) xs) = map g xs" if "\<And>x. block_ids k i (f x) = [g x]"
  using that by (induction xs) simp_all

text \<open>The results that follow a round of calls are gathered in one message.\<close>

lemma results_gathered:
  assumes "result_blocks out = Some bs" "\<forall>t\<in>set ts. msg_role t = ''tool''"
  shows "fold (convert_message je) ts out
    = butlast out @ [(last out)\<lparr>ant_Content := JArr (bs @ map tool_result_block ts)\<rparr>]"
  using assms
proof (induction ts arbitrary: out bs)
  case Nil
  then show ?case
    by (cases out rule: rev_cases) (auto simp: result_blocks_def split: if_splits json.splits list.splits)
next
  case (Cons t ts)
  have step: "convert_message je t out = butlast out @ [(last out)\<lparr>ant_Content := JArr (bs @ [tool_result_block t])\<rparr>]"
    using Cons.prems by (simp add: convert_message_def)
  have "result_blocks (convert_message je t out) = Some (bs @ [tool_result_block t])"
    using Cons.prems(1) unfolding step by (auto simp: result_blocks_def split: if_splits json.splits list.splits)
  from Cons.IH [OF this] Cons.prems(2) show ?case by (simp add: step)
qed

lemma plain_message:
  assumes "answer_chain [] out" "last_calls out = []" "msg_role m \<noteq> ''tool''" "msg_tool_calls m = []"
  shows "answer_chain [] (convert_message je m out) \<and> last_calls (convert_message je m out) = []"
  using assms by (auto simp: convert_message_def chain_start) (auto simp: last_calls_def made_calls_def answered_calls_def)

lemma call_round:
  assumes "answer_chain [] out" "last_calls out = []" "is_assistant m" "msg_tool_calls m \<noteq> []"
    "\<forall>t\<in>set ts. is_tool t" "set (map msg_tool_call_id ts) = set (map tool_call.tc_id (msg_tool_calls m))"
  shows "answer_chain [] (fold (convert_message je) ts (convert_message je m out))
    \<and> last_calls (fold (convert_message je) ts (convert_message je m out)) = []"
proof -
  define a where "a = \<lparr>ant_Role = ''assistant'', ant_Content = JArr (
      (if msg_content m \<noteq> [] then [text_block (msg_content m)] else []) @ map (tool_use_block je) (msg_tool_calls m))\<rparr>"
  obtain t ts' where ts: "ts = t # ts'" using assms(4,6) by (cases ts) auto
  define u where "u bs = \<lparr>ant_Role = ''user'', ant_Content = JArr bs\<rparr>" for bs
  have am: "convert_message je m out = out @ [a]" using assms(3,4) by (simp add: convert_message_def a_def is_assistant_def)
  have "result_blocks (out @ [a]) = None" by (simp add: result_blocks_def a_def)
  then have "convert_message je t (out @ [a]) = out @ [a, u [tool_result_block t]]"
    using assms(5) by (simp add: ts convert_message_def is_tool_def u_def)
  moreover have "result_blocks (out @ [a, u [tool_result_block t]]) = Some [tool_result_block t]"
    by (simp add: result_blocks_def u_def tool_result_block_def)
  from results_gathered [OF this, of ts' je] have
    "fold (convert_message je) ts' (out @ [a, u [tool_result_block t]]) = out @ [a, u (map tool_result_block ts)]"
    using assms(5) by (simp add: ts is_tool_def butlast_append u_def)
  ultimately have all: "fold (convert_message je) ts (convert_message je m out) = (out @ [a]) @ [u (map tool_result_block ts)]"
    by (simp add: ts am)
  have "made_calls a = map tool_call.tc_id (msg_tool_calls m)" "answered_calls a = []"
    by (simp_all add: made_calls_def answered_calls_def a_def concat_singletons [where g = tool_call.tc_id])
  moreover have "answered_calls (u (map tool_result_block ts)) = map msg_tool_call_id ts" "made_calls (u bs) = []" for bs
    by (simp_all add: made_calls_def answered_calls_def u_def concat_singletons [where g = msg_tool_call_id])
  ultimately show ?thesis
    using assms(1,2,6) unfolding all chain_start by (simp add: last_calls_def)
qed

lemma convert_accepts:
  "paired [] h \<Longrightarrow> answered h \<Longrightarrow> calls_by_assistant h \<Longrightarrow> answer_chain [] out \<Longrightarrow> last_calls out = [] \<Longrightarrow>
   answer_chain [] (fold (convert_message je) h out) \<and> last_calls (fold (convert_message je) h out) = []"
proof (induction "length h" arbitrary: h out rule: less_induct)
  case less
  show ?case
  proof (cases h)
    case (Cons m ms)
    have m: "\<not> is_tool m" "paired (map tool_call.tc_id (msg_tool_calls m)) ms" "answered ms" "calls_by_assistant ms"
      using less.prems Cons by (auto simp: calls_by_assistant_def split: if_splits)
    show ?thesis
    proof (cases "msg_tool_calls m = []")
      case True
      have "answer_chain [] (convert_message je m out) \<and> last_calls (convert_message je m out) = []"
        using less.prems m(1) True by (intro plain_message) (simp_all add: is_tool_def)
      then show ?thesis using less.hyps [of ms "convert_message je m out"] m True Cons by simp
    next
      case False
      let ?ts = "takeWhile is_tool ms" and ?rest = "dropWhile is_tool ms"
      have ids: "set (map msg_tool_call_id ?ts) \<subseteq> set ids \<and> paired [] ?rest" if "paired ids ms" for ids
        using that by (induction ms) (auto split: if_splits)
      have "set (map tool_call.tc_id (msg_tool_calls m)) \<subseteq> set (map msg_tool_call_id ?ts)"
        using less.prems(2) Cons by auto
      then have same: "set (map msg_tool_call_id ?ts) = set (map tool_call.tc_id (msg_tool_calls m))"
        using ids [OF m(2)] by blast
      have "is_assistant m" using less.prems(3) False Cons by (simp add: calls_by_assistant_def)
      then have r: "answer_chain [] (fold (convert_message je) ?ts (convert_message je m out))
          \<and> last_calls (fold (convert_message je) ?ts (convert_message je m out)) = []"
        using less.prems(4,5) False same by (intro call_round) (auto dest: set_takeWhileD)
      have "answered ?rest" "calls_by_assistant ?rest" "length ?rest < length h"
        using m(3,4) Cons answered_append_right [of ?ts ?rest]
        by (auto simp: calls_by_assistant_def dest: set_dropWhileD intro: le_imp_less_Suc length_dropWhile_le)
      then have "answer_chain [] (fold (convert_message je) ?rest (fold (convert_message je) ?ts (convert_message je m out)))
          \<and> last_calls (fold (convert_message je) ?rest (fold (convert_message je) ?ts (convert_message je m out))) = []"
        using less.hyps [of ?rest "fold (convert_message je) ?ts (convert_message je m out)"] ids [OF m(2)] r by blast
      then show ?thesis
        using Cons by (metis comp_apply fold_Cons fold_append takeWhile_dropWhile_id)
    qed
  qed (use less.prems in simp)
qed


section \<open>Nothing that was said is lost\<close>

datatype item =
    Said string string            \<comment> \<open>role, text\<close>
  | Called string string json     \<comment> \<open>id, tool, input\<close>
  | Answered string string        \<comment> \<open>id, result\<close>

definition text_of :: "(string \<times> json) list \<Rightarrow> string \<Rightarrow> string" where
  "text_of ms k = (case map_of ms k of Some (JStr s) \<Rightarrow> s | _ \<Rightarrow> [])"

fun block_items :: "string \<Rightarrow> json \<Rightarrow> item list" where
  "block_items role (JObj ms) =
     (let k = text_of ms ''type'' in
      if k = ''text'' then [Said role (text_of ms ''text'')]
      else if k = ''tool_use'' then
        [Called (text_of ms ''id'') (text_of ms ''name'') (case map_of ms ''input'' of Some j \<Rightarrow> j | None \<Rightarrow> JNull)]
      else if k = ''tool_result'' then [Answered (text_of ms ''tool_use_id'') (text_of ms ''content'')]
      else [])"
| "block_items role _ = []"

definition sent_items :: "anthropicMsg \<Rightarrow> item list" where
  "sent_items m =
     (case ant_Content m of
        JStr t \<Rightarrow> [Said (ant_Role m) t]
      | JArr bs \<Rightarrow> concat (map (block_items (ant_Role m)) bs)
      | _ \<Rightarrow> [])"

text \<open>A system message belongs to the field of the system prompt, and an empty text is not sent.\<close>

definition message_items :: "json_env \<Rightarrow> message \<Rightarrow> item list" where
  "message_items je m =
     (let said = (if msg_content m \<noteq> [] then [Said (msg_role m) (msg_content m)] else []) in
      if is_assistant m then
        said @ map (\<lambda>tc. Called (tool_call.tc_id tc) (tool_call.tc_name tc) (tool_use_input je (tool_call.tc_args tc))) (msg_tool_calls m)
      else if is_tool m then [Answered (msg_tool_call_id m) (msg_content m)]
      else if is_user m then said
      else [])"

lemma block_items_simps [simp]:
  "block_items r (text_block t) = [Said r t]"
  "block_items r (tool_use_block je tc) = [Called (tool_call.tc_id tc) (tool_call.tc_name tc) (tool_use_input je (tool_call.tc_args tc))]"
  "block_items r (tool_result_block m) = [Answered (msg_tool_call_id m) (msg_content m)]"
  by (simp_all add: text_block_def tool_use_block_def tool_result_block_def text_of_def)

lemma convert_step_items:
  "concat (map sent_items (convert_message je m out)) = concat (map sent_items out) @ message_items je m"
proof (cases "is_tool m")
  case True
  then show ?thesis
  proof (cases "result_blocks out")
    case (Some bs)
    then obtain o' l where "out = o' @ [l]" "ant_Content l = JArr bs"
      by (cases out rule: rev_cases) (auto simp: result_blocks_def split: if_splits json.splits list.splits)
    then show ?thesis
      using Some True by (simp add: convert_message_def message_items_def is_tool_def is_assistant_def sent_items_def)
  qed (simp add: convert_message_def message_items_def is_tool_def is_assistant_def sent_items_def)
next
  case False
  have "concat (map (block_items ''assistant'' \<circ> tool_use_block je) tcs)
      = map (\<lambda>tc. Called (tool_call.tc_id tc) (tool_call.tc_name tc) (tool_use_input je (tool_call.tc_args tc))) tcs" for tcs
    by (induction tcs) simp_all
  then show ?thesis
    using False by (simp add: convert_message_def message_items_def is_tool_def is_assistant_def is_user_def sent_items_def Let_def)
qed

lemma convert_items:
  "concat (map sent_items (fold (convert_message je) h out))
     = concat (map sent_items out) @ concat (map (message_items je) h)"
  by (induction h arbitrary: out) (simp_all add: convert_step_items)


text \<open>
  The input of a call goes through Go's untyped values: null arguments stay null, which the API does
  not take for an object.
\<close>

lemma null_input_sent: "tool_use_input je ''null'' = JNull"
proof -
  have "parse_json ''null'' = Some JNull" by code_simp
  then show ?thesis by (simp add: tool_use_input_def decode_any_def)
qed

section \<open>Examples\<close>

definition sample_request :: chat_request where
  "sample_request = \<lparr>cr_model = [], cr_messages = sample_conversation,
     cr_tools = [\<lparr>lt_name = ''t'', lt_description = [], lt_parameters = Some (JObj [])\<rparr>],
     cr_system = ''s'', cr_max_tokens = 0, cr_temperature = None, cr_stop = None\<rparr>"

lemma openai_request_witness:
  "body_messages (snd (openai_request (NewOpenAI (\<lambda>_. Some ''localhost'') ''p'' ''http://localhost:1234'' ''m'') sample_request))
     = Some (text_message ''system'' ''s'' # sample_conversation)"
proof -
  let ?p = "NewOpenAI (\<lambda>_. Some ''localhost'') ''p'' ''http://localhost:1234'' ''m''"
  have "sampling_ok (op_sampling ?p)" using defaultLocalSampling_ok by (simp add: NewOpenAI_def Let_def)
  moreover have "request_ok sample_request" by (simp add: request_ok_def sample_request_def raw_ok_def ptr_ok_def)
  ultimately show ?thesis
    using openai_request_faithful [of ?p sample_request] by (simp add: openai_messages_def sample_request_def)
qed


end
