(* ===== verification/LlmModels.thy ===== *)
theory LlmModels
  imports LlmRequest
begin

text \<open>
  The calls of the OpenAI provider that are not streamed (\<open>internal/provider/openai.go\<close>), the listing
  of models with its fallbacks and the embeddings, and \<open>ChatCompletion\<close> of \<open>provider.go\<close>.
\<close>

section \<open>Listing models\<close>

record model_info =
  mi_ID :: string
  mi_Name :: string
  mi_Provider :: string
  mi_MaxContextLength :: go_int
  mi_LoadedContextLength :: go_int

record listed_model =
  lm_ID :: string
  lm_MaxContextLength :: go_int
  lm_LoadedContextLength :: go_int

definition zero_listed :: listed_model where
  "zero_listed = \<lparr>lm_ID = [], lm_MaxContextLength = 0, lm_LoadedContextLength = 0\<rparr>"

definition lm_studio_fields :: "listed_model fields" where
  "lm_studio_fields =
     [(''id'', field lm_ID lm_ID_update read_string),
      (''max_context_length'', field lm_MaxContextLength lm_MaxContextLength_update read_int),
      (''loaded_context_length'', field lm_LoadedContextLength lm_LoadedContextLength_update read_int)]"

definition listed_fields :: "listed_model fields" where
  "listed_fields = [(''id'', field lm_ID lm_ID_update read_string)]"

record 'm listing = li_Data :: "'m slice"

text \<open>
  A decoder takes the first document of the body and leaves the rest; the text of its error is a
  parameter.
\<close>

definition decode_first :: "'a reader \<Rightarrow> 'a \<Rightarrow> string \<Rightarrow> 'a option" where
  "decode_first rd zero body =
     (case parse_value (Suc (length body)) body of None \<Rightarrow> None | Some (j, rest) \<Rightarrow> rd j zero)"

definition fetch_models ::
  "(string \<Rightarrow> string) \<Rightarrow> listed_model fields \<Rightarrow> (listed_model \<Rightarrow> model_info) \<Rightarrow> http_answer \<Rightarrow> string + model_info list" where
  "fetch_models json_err fs info answer =
     (case answer of
        No_answer e \<Rightarrow> Inl (''fetching models: '' @ e)
      | Answer status body \<Rightarrow>
          if status \<noteq> 200 then Inl (''unexpected status '' @ fmt_int status)
          else
            (case decode_first (read_struct [(''data'', field li_Data li_Data_update
                    (read_slice (read_struct fs) zero_listed))]) \<lparr>li_Data = None\<rparr> body of
               None \<Rightarrow> Inl (''decoding response: '' @ json_err body)
             | Some l \<Rightarrow> Inr (map info (elems (li_Data l)))))"

definition fetchLMStudioModels :: "(string \<Rightarrow> string) \<Rightarrow> string \<Rightarrow> http_answer \<Rightarrow> string + model_info list" where
  "fetchLMStudioModels json_err name = fetch_models json_err lm_studio_fields (\<lambda>m.
     \<lparr>mi_ID = lm_ID m, mi_Name = lm_ID m, mi_Provider = name,
      mi_MaxContextLength = lm_MaxContextLength m, mi_LoadedContextLength = lm_LoadedContextLength m\<rparr>)"

definition fetchOpenAIModels :: "(string \<Rightarrow> string) \<Rightarrow> string \<Rightarrow> http_answer \<Rightarrow> string + model_info list" where
  "fetchOpenAIModels json_err name = fetch_models json_err listed_fields (\<lambda>m.
     \<lparr>mi_ID = lm_ID m, mi_Name = lm_ID m, mi_Provider = name,
      mi_MaxContextLength = 0, mi_LoadedContextLength = 0\<rparr>)"

definition isMissingModelsEndpoint :: "string \<Rightarrow> bool" where
  "isMissingModelsEndpoint msg \<longleftrightarrow>
     contains_sub msg ''unexpected status 404'' \<or> contains_sub msg ''unexpected status 405''"

text \<open>The answers of the two addresses are parameters; the second is only asked after the first.\<close>

definition openai_models ::
  "(string \<Rightarrow> string) \<Rightarrow> string \<Rightarrow> http_answer \<Rightarrow> http_answer \<Rightarrow> string + model_info list" where
  "openai_models json_err name native standard =
     (case fetchLMStudioModels json_err name native of
        Inl e \<Rightarrow>
          if \<not> isMissingModelsEndpoint e then Inl e
          else
            (case fetchOpenAIModels json_err name standard of
               Inr models \<Rightarrow> Inr models
             | Inl e' \<Rightarrow> if isMissingModelsEndpoint e' then Inr [] else Inl e')
      | Inr models \<Rightarrow>
          if models \<noteq> [] then Inr models
          else
            (case fetchOpenAIModels json_err name standard of
               Inr models' \<Rightarrow> Inr models'
             | Inl e' \<Rightarrow> if isMissingModelsEndpoint e' then Inr [] else Inl e'))"

definition anthropic_models :: "string \<Rightarrow> model_info list" where
  "anthropic_models name = map (\<lambda>(i, n). \<lparr>mi_ID = i, mi_Name = n, mi_Provider = name,
      mi_MaxContextLength = 0, mi_LoadedContextLength = 0\<rparr>)
     [(''claude-opus-4-6'', ''Claude Opus 4.6''), (''claude-sonnet-4-6'', ''Claude Sonnet 4.6''),
      (''claude-haiku-4-5'', ''Claude Haiku 4.5'')]"

section \<open>Embeddings\<close>

type_synonym vector = "json_float list"

record embedding_data =
  ed_Index :: go_int
  ed_Embedding :: "vector option"

definition embedding_fields :: "embedding_data fields" where
  "embedding_fields =
     [(''index'', field ed_Index ed_Index_update read_int),
      (''embedding'', field ed_Embedding ed_Embedding_update (read_slice read_float zero_float))]"

record embedding_response = er_Data :: "embedding_data slice"

datatype embed_error =
    Too_few nat nat | Out_of_range int nat | Missing nat | Embed_api string int string | Embed_other string

text \<open>The vectors are placed by their index, a later one over an earlier one.\<close>

fun place_embeddings :: "nat \<Rightarrow> embedding_data list \<Rightarrow> vector option list \<Rightarrow> embed_error + vector option list" where
  "place_embeddings n [] out = Inr out"
| "place_embeddings n (d # ds) out =
     (let i = sint (ed_Index d) in
      if i < 0 \<or> int n \<le> i then Inl (Out_of_range i n)
      else place_embeddings n ds (out[nat i := ed_Embedding d]))"

fun all_present :: "nat \<Rightarrow> vector option list \<Rightarrow> embed_error + vector list" where
  "all_present i [] = Inr []"
| "all_present i (None # vs) = Inl (Missing i)"
| "all_present i (Some v # vs) = map_sum id (\<lambda>ws. v # ws) (all_present (Suc i) vs)"

definition embed_result :: "nat \<Rightarrow> embedding_data list \<Rightarrow> embed_error + vector list" where
  "embed_result n ds =
     (if length ds < n then Inl (Too_few (length ds) n)
      else
        (case place_embeddings n ds (replicate n None) of
           Inl e \<Rightarrow> Inl e
         | Inr out \<Rightarrow> all_present 0 out))"

definition embed_body :: "string \<Rightarrow> string \<Rightarrow> string list \<Rightarrow> json" where
  "embed_body default_model model inputs = JObj (
     member ''model'' (JStr (if model = [] then default_model else model)) @
     member ''input'' (JArr (map JStr inputs)) @
     member ''encoding_format'' (JStr ''float''))"

definition openai_embed ::
  "(string \<Rightarrow> string) \<Rightarrow> string \<Rightarrow> nat \<Rightarrow> http_answer \<Rightarrow> embed_error + vector list" where
  "openai_embed json_err name n answer =
     (case answer of
        No_answer e \<Rightarrow> Inl (Embed_other (''sending request: '' @ e))
      | Answer status body \<Rightarrow>
          if status \<noteq> 200 then Inl (Embed_api name status (error_body body))
          else
            (case decode_first (read_struct [(''data'', field er_Data er_Data_update
                    (read_slice (read_struct embedding_fields) \<lparr>ed_Index = 0, ed_Embedding = None\<rparr>))])
                    \<lparr>er_Data = None\<rparr> body of
               None \<Rightarrow> Inl (Embed_other (''decoding response: '' @ json_err body))
             | Some r \<Rightarrow> embed_result n (elems (er_Data r))))"

lemma place_length: "place_embeddings n ds out = Inr out' \<Longrightarrow> length out' = length out"
  by (induction n ds out rule: place_embeddings.induct) (auto simp: Let_def split: if_splits)

lemma place_at:
  "place_embeddings n ds out = Inr out' \<Longrightarrow> length out = n \<Longrightarrow> i < n \<Longrightarrow> distinct (map ed_Index ds) \<Longrightarrow>
   out' ! i = (case find (\<lambda>d. sint (ed_Index d) = int i) ds of Some d \<Rightarrow> ed_Embedding d | None \<Rightarrow> out ! i)"
proof (induction n ds out rule: place_embeddings.induct)
  case (2 n d ds out)
  let ?k = "sint (ed_Index d)"
  have k: "0 \<le> ?k" "?k < int n" and p: "place_embeddings n ds (out[nat ?k := ed_Embedding d]) = Inr out'"
    using 2(2) by (auto simp: Let_def split: if_splits)
  have IH: "out' ! i = (case find (\<lambda>d. sint (ed_Index d) = int i) ds of Some d \<Rightarrow> ed_Embedding d
      | None \<Rightarrow> out[nat ?k := ed_Embedding d] ! i)"
    using 2(1) [OF refl _ p] 2(3-5) k by simp
  show ?case
  proof (cases "?k = int i")
    case True
    have "find (\<lambda>d. sint (ed_Index d) = int i) ds = None"
      using 2(5) True by (auto simp: find_None_iff) (metis image_eqI signed_word_eqI)
    then show ?thesis using IH True 2(3,4) by simp
  next
    case False
    then have "nat ?k \<noteq> i" using k by auto
    then show ?thesis using IH False by (simp split: option.split)
  qed
qed simp

lemma all_present_Inr: "all_present k vs = Inr ws \<longleftrightarrow> vs = map Some ws"
proof (induction k vs arbitrary: ws rule: all_present.induct)
  case (3 i v vs)
  then show ?case by (cases "all_present (Suc i) vs") (auto simp: Cons_eq_map_conv map_sum_def)
qed auto

lemma place_range: "place_embeddings n ds out = Inr out' \<Longrightarrow> d \<in> set ds \<Longrightarrow> 0 \<le> sint (ed_Index d) \<and> sint (ed_Index d) < int n"
  by (induction n ds out rule: place_embeddings.induct) (auto simp: Let_def split: if_splits)

text \<open>In whatever order a server returns the vectors, they come out in the order of the inputs.\<close>

lemma embeddings_in_order:
  assumes "embed_result n ds = Inr vs" "distinct (map ed_Index ds)"
  shows "length vs = n \<and> (\<forall>d\<in>set ds. nat (sint (ed_Index d)) < n \<and> ed_Embedding d = Some (vs ! nat (sint (ed_Index d))))"
proof -
  obtain out where out: "place_embeddings n ds (replicate n None) = Inr out" "out = map Some vs"
    using assms(1) by (auto simp: embed_result_def all_present_Inr split: if_splits sum.splits)
  have len: "length vs = n" using place_length [OF out(1)] out(2) by simp
  have "nat (sint (ed_Index d)) < n \<and> ed_Embedding d = Some (vs ! nat (sint (ed_Index d)))" if d: "d \<in> set ds" for d
  proof -
    let ?i = "nat (sint (ed_Index d))"
    have i: "?i < n" "int ?i = sint (ed_Index d)" using place_range [OF out(1) d] by auto
    have "find (\<lambda>e. sint (ed_Index e) = int ?i) ds = Some d"
    proof -
      have "find (\<lambda>e. sint (ed_Index e) = int ?i) ds \<noteq> None"
        using d i(2) by (auto simp: find_None_iff)
      then obtain e where e: "find (\<lambda>e. sint (ed_Index e) = int ?i) ds = Some e" by blast
      then have "e \<in> set ds" "sint (ed_Index e) = int ?i" by (auto simp: find_Some_iff)
      then have "ed_Index e = ed_Index d" using i(2) by (simp add: signed_word_eqI)
      then have "e = d" using assms(2) \<open>e \<in> set ds\<close> d by (auto simp: distinct_map inj_on_def)
      then show ?thesis using e by simp
    qed
    then have "out ! ?i = ed_Embedding d" using place_at [OF out(1) _ i(1) assms(2)] by simp
    then show ?thesis using out(2) len i(1) by simp
  qed
  then show ?thesis using len by blast
qed

section \<open>A whole completion\<close>

text \<open>
  \<open>ChatCompletion\<close> moves the system messages into the system prompt and gathers the text of the
  stream; \<open>chat\<close> is the provider.
\<close>

definition completion_request :: "message list \<Rightarrow> chat_request" where
  "completion_request msgs =
     \<lparr>cr_model = [], cr_messages = filter (\<lambda>m. msg_role m \<noteq> ''system'') msgs, cr_tools = [],
      cr_system = join_strings [CHR 0x0A, CHR 0x0A]
        (filter (\<lambda>t. t \<noteq> []) (map msg_content (filter (\<lambda>m. msg_role m = ''system'') msgs))),
      cr_max_tokens = 0, cr_temperature = None, cr_stop = None\<rparr>"

definition complete_chat :: "(chat_request \<Rightarrow> go_error + stream_event list) \<Rightarrow> chat_request \<Rightarrow> go_error + string" where
  "complete_chat chat req = (case chat req of Inl e \<Rightarrow> Inl e | Inr evs \<Rightarrow> complete_events [] evs)"

definition chat_completion :: "(chat_request \<Rightarrow> go_error + stream_event list) \<Rightarrow> message list \<Rightarrow> go_error + string" where
  "chat_completion chat msgs = complete_chat chat (completion_request msgs)"

text \<open>The text of a completed stream is all its text, trimmed.\<close>

lemma complete_unended:
  "unended evs \<Longrightarrow> complete_events acc (evs @ [EvDone])
     = Inr (trim_space (acc @ concat (map (\<lambda>ev. case ev of EvText t \<Rightarrow> t | _ \<Rightarrow> []) evs)))"
  by (induction evs arbitrary: acc) (auto split: stream_event.split)

end
