(* ===== verification/Throttle.thy ===== *)
theory Throttle
  imports LlmRequest
begin

text \<open>
  What stands between a session and a provider: the registry and the scheduler of
  \<open>internal/provider\<close> (\<open>registry.go\<close>, \<open>scheduler.go\<close>), and the batching of streamed text on its way
  to the clients (\<open>textBatcher\<close> of \<open>internal/service/batcher.go\<close>).
\<close>

section \<open>Registry\<close>

record provider_config =
  pc_id :: string
  pc_name :: string
  pc_type :: string
  pc_endpoint :: string
  pc_api_key :: string
  pc_model :: string
  pc_concurrency :: int
  pc_context_window :: int

definition config_key :: "provider_config \<Rightarrow> string" where
  "config_key c = (if pc_id c \<noteq> [] then pc_id c else pc_name c)"

datatype provider =
    OpenAI openai_provider string              \<comment> \<open>with its API key\<close>
  | Anthropic string string string string      \<comment> \<open>name, API key, base URL, default model\<close>

definition defaultAnthropicBaseURL :: string where
  "defaultAnthropicBaseURL = ''https://api.anthropic.com''"

definition NewAnthropic :: "string \<Rightarrow> string \<Rightarrow> string option \<Rightarrow> string option \<Rightarrow> provider" where
  "NewAnthropic name key base_url model =
     Anthropic name key (case base_url of None \<Rightarrow> defaultAnthropicBaseURL | Some u \<Rightarrow> trim_slashes u)
       (case model of None \<Rightarrow> [] | Some m \<Rightarrow> m)"

text \<open>\<open>strconv.Quote\<close> is a parameter.\<close>

definition NewFromConfig ::
  "(string \<Rightarrow> string) \<Rightarrow> (string \<Rightarrow> string option) \<Rightarrow> provider_config \<Rightarrow> string + provider" where
  "NewFromConfig quote url_host c =
     (if pc_type c = ''openai'' then
        (if pc_endpoint c = [] then Inl (''openai provider '' @ quote (config_key c) @ '' requires an endpoint'')
         else Inr (OpenAI (NewOpenAI url_host (pc_name c) (pc_endpoint c) (pc_model c)) (pc_api_key c)))
      else if pc_type c = ''local'' then
        (let endpoint = (if pc_endpoint c = [] then ''http://localhost:1234'' else pc_endpoint c)
         in Inr (OpenAI (NewOpenAI url_host (pc_name c) endpoint (pc_model c)) []))
      else if pc_type c = ''anthropic'' then
        Inr (NewAnthropic (pc_name c) (pc_api_key c) (if pc_endpoint c = [] then None else Some (pc_endpoint c))
          (if pc_model c = [] then None else Some (pc_model c)))
      else Inl (''unknown provider type '' @ quote (pc_type c) @ '' for provider '' @ quote (config_key c)))"


text \<open>The registry's map, as its entries in the order they were made.\<close>

definition registry_register :: "string \<Rightarrow> 'p \<Rightarrow> (string \<times> 'p) list \<Rightarrow> (string \<times> 'p) list" where
  "registry_register name p r = AList.update name p r"

definition registry_get :: "(string \<times> 'p) list \<Rightarrow> string \<Rightarrow> 'p option" where
  "registry_get r name = map_of r name"

definition registry_list :: "(string \<times> 'p) list \<Rightarrow> string list" where
  "registry_list r = sort (map fst r)"

section \<open>Scheduler\<close>

text \<open>
  A call to \<open>ChatStream\<close>: it waits for a slot, starts the provider's stream, forwards its events and
  gives the slot back when the stream is closed; a cancelled context makes it drain the stream first.
  The phases are the places where the code can be.
\<close>

datatype phase = Waiting | Starting | Forwarding | Draining | Closed | Refused

record scheduled =
  sc_phase :: phase
  sc_stream :: "stream_event list"    \<comment> \<open>what the provider's stream delivers\<close>
  sc_unread :: "stream_event list"
  sc_out :: "stream_event list"
  sc_cancelled :: bool

record scheduler =
  sd_capacity :: nat
  sd_used :: nat
  sd_calls :: "scheduled list"

definition NewScheduler :: "int \<Rightarrow> scheduler" where
  "NewScheduler capacity =
     \<lparr>sd_capacity = (if capacity \<le> 0 then 1 else nat capacity), sd_used = 0, sd_calls = []\<rparr>"

datatype sched_action =
    Request
  | Acquire nat
  | Give_up nat                          \<comment> \<open>the context ends while it waits\<close>
  | Start_failed nat
  | Started nat "stream_event list"
  | Forward nat
  | Cancelled nat
  | Discard nat                          \<comment> \<open>reading on without a consumer\<close>
  | Source_closed nat

definition holds_slot :: "scheduled \<Rightarrow> bool" where
  "holds_slot c \<longleftrightarrow> sc_phase c \<in> {Starting, Forwarding, Draining}"

definition set_call :: "nat \<Rightarrow> scheduled \<Rightarrow> scheduler \<Rightarrow> scheduler" where
  "set_call i c s = s\<lparr>sd_calls := (sd_calls s)[i := c]\<rparr>"

text \<open>An action that is not possible where the call is changes nothing.\<close>

definition call_action :: "nat \<Rightarrow> phase \<Rightarrow> scheduler \<Rightarrow> (scheduled \<Rightarrow> scheduler) \<Rightarrow> scheduler" where
  "call_action i ph s f =
     (if i < length (sd_calls s) \<and> sc_phase (sd_calls s ! i) = ph then f (sd_calls s ! i) else s)"

definition release :: "scheduler \<Rightarrow> scheduler" where
  "release s = s\<lparr>sd_used := sd_used s - 1\<rparr>"

fun sched_step :: "scheduler \<Rightarrow> sched_action \<Rightarrow> scheduler" where
  "sched_step s Request =
     s\<lparr>sd_calls := sd_calls s @ [\<lparr>sc_phase = Waiting, sc_stream = [], sc_unread = [], sc_out = [], sc_cancelled = False\<rparr>]\<rparr>"
| "sched_step s (Acquire i) = call_action i Waiting s (\<lambda>c.
     if sd_used s < sd_capacity s then (set_call i (c\<lparr>sc_phase := Starting\<rparr>) s)\<lparr>sd_used := sd_used s + 1\<rparr> else s)"
| "sched_step s (Give_up i) = call_action i Waiting s (\<lambda>c. set_call i (c\<lparr>sc_phase := Refused\<rparr>) s)"
| "sched_step s (Start_failed i) = call_action i Starting s (\<lambda>c. release (set_call i (c\<lparr>sc_phase := Refused\<rparr>) s))"
| "sched_step s (Started i evs) = call_action i Starting s (\<lambda>c.
     set_call i (c\<lparr>sc_phase := Forwarding, sc_stream := evs, sc_unread := evs\<rparr>) s)"
| "sched_step s (Forward i) = call_action i Forwarding s (\<lambda>c.
     case sc_unread c of
       [] \<Rightarrow> s
     | ev # evs \<Rightarrow> set_call i (c\<lparr>sc_unread := evs, sc_out := sc_out c @ [ev]\<rparr>) s)"
| "sched_step s (Cancelled i) = call_action i Forwarding s (\<lambda>c.
     case sc_unread c of
       [] \<Rightarrow> s
     | ev # evs \<Rightarrow> set_call i (c\<lparr>sc_phase := Draining, sc_unread := evs, sc_cancelled := True\<rparr>) s)"
| "sched_step s (Discard i) = call_action i Draining s (\<lambda>c. set_call i (c\<lparr>sc_unread := drop 1 (sc_unread c)\<rparr>) s)"
| "sched_step s (Source_closed i) =
     call_action i Forwarding
       (call_action i Draining s (\<lambda>c. if sc_unread c = [] then release (set_call i (c\<lparr>sc_phase := Closed\<rparr>) s) else s))
       (\<lambda>c. if sc_unread c = [] then release (set_call i (c\<lparr>sc_phase := Closed\<rparr>) s) else s)"

text \<open>The events a call has delivered are the first ones of its stream, all of them unless it was cancelled.\<close>

definition delivery_ok :: "scheduled \<Rightarrow> bool" where
  "delivery_ok c \<longleftrightarrow>
     (if sc_phase c \<in> {Waiting, Starting, Refused} then sc_out c = [] \<and> sc_stream c = [] \<and> \<not> sc_cancelled c
      else if sc_cancelled c then prefix (sc_out c) (sc_stream c)
      else sc_stream c = sc_out c @ sc_unread c)
     \<and> (sc_phase c = Closed \<longrightarrow> sc_unread c = []) \<and> (sc_phase c = Draining \<longrightarrow> sc_cancelled c)
     \<and> (sc_phase c = Forwarding \<longrightarrow> \<not> sc_cancelled c)"

definition sched_ok :: "scheduler \<Rightarrow> bool" where
  "sched_ok s \<longleftrightarrow> sd_used s = length (filter holds_slot (sd_calls s)) \<and> sd_used s \<le> sd_capacity s
     \<and> 0 < sd_capacity s \<and> list_all delivery_ok (sd_calls s)"

lemma filter_update:
  assumes "i < length xs"
  shows "length (filter p (xs[i := x])) + (if p (xs ! i) then 1 else 0) = length (filter p xs) + (if p x then 1 else 0)"
  using assms
proof (induction xs arbitrary: i)
  case (Cons y ys)
  show ?case
  proof (cases i)
    case (Suc k)
    then show ?thesis using Cons.IH [of k] Cons.prems by simp
  qed simp
qed simp

text \<open>Replacing a call keeps the books when the slots follow its phase.\<close>

lemma set_call_ok:
  assumes "sched_ok s" "i < length (sd_calls s)" "delivery_ok c"
    "u + (if holds_slot (sd_calls s ! i) then 1 else 0) = sd_used s + (if holds_slot c then 1 else 0)" "u \<le> sd_capacity s"
  shows "sched_ok ((set_call i c s)\<lparr>sd_used := u\<rparr>)"
  using assms filter_update [OF assms(2), of holds_slot c]
  by (auto simp: sched_ok_def set_call_def list_all_length nth_list_update)

lemma set_call_kept:
  assumes "sched_ok s" "i < length (sd_calls s)" "delivery_ok c" "holds_slot (sd_calls s ! i) = holds_slot c"
  shows "sched_ok (set_call i c s)"
proof -
  have "set_call i c s = (set_call i c s)\<lparr>sd_used := sd_used s\<rparr>" by (simp add: set_call_def)
  moreover have "sched_ok ((set_call i c s)\<lparr>sd_used := sd_used s\<rparr>)"
    using assms by (intro set_call_ok) (auto simp: sched_ok_def)
  ultimately show ?thesis by simp
qed

lemma set_call_released:
  assumes "sched_ok s" "i < length (sd_calls s)" "delivery_ok c" "holds_slot (sd_calls s ! i)" "\<not> holds_slot c" "0 < sd_used s"
  shows "sched_ok (release (set_call i c s))"
proof -
  have "release (set_call i c s) = (set_call i c s)\<lparr>sd_used := sd_used s - 1\<rparr>" by (simp add: set_call_def release_def)
  moreover have "sched_ok ((set_call i c s)\<lparr>sd_used := sd_used s - 1\<rparr>)"
    using assms by (intro set_call_ok) (auto simp: sched_ok_def)
  ultimately show ?thesis by simp
qed

lemma call_action_ok:
  assumes "sched_ok s"
    "i < length (sd_calls s) \<Longrightarrow> sc_phase (sd_calls s ! i) = ph \<Longrightarrow> delivery_ok (sd_calls s ! i) \<Longrightarrow>
       holds_slot (sd_calls s ! i) \<longleftrightarrow> ph \<in> {Starting, Forwarding, Draining} \<Longrightarrow>
       (ph \<in> {Starting, Forwarding, Draining} \<longrightarrow> 0 < sd_used s) \<Longrightarrow> sched_ok (f (sd_calls s ! i))"
  shows "sched_ok (call_action i ph s f)"
proof (cases "i < length (sd_calls s) \<and> sc_phase (sd_calls s ! i) = ph")
  case True
  have "holds_slot (sd_calls s ! i) \<longleftrightarrow> ph \<in> {Starting, Forwarding, Draining}" using True by (simp add: holds_slot_def)
  moreover have "0 < length (filter holds_slot (sd_calls s))" if "holds_slot (sd_calls s ! i)"
    using that True by (auto simp: filter_empty_conv)
  ultimately have "sched_ok (f (sd_calls s ! i))"
    using assms True by (auto simp: sched_ok_def list_all_length)
  then show ?thesis using True by (simp add: call_action_def)
qed (use assms in \<open>auto simp: call_action_def\<close>)

lemma sched_step_ok: "sched_ok s \<Longrightarrow> sched_ok (sched_step s a)"
proof (cases a)
  case Request
  then show "sched_ok s \<Longrightarrow> ?thesis" by (simp add: sched_ok_def delivery_ok_def holds_slot_def)
next
  case (Acquire i)
  assume ok: "sched_ok s"
  show ?thesis
    unfolding Acquire sched_step.simps
    using ok by (intro call_action_ok) (auto intro!: set_call_ok simp: holds_slot_def delivery_ok_def)
next
  case (Give_up i)
  assume ok: "sched_ok s"
  then show ?thesis
    unfolding Give_up sched_step.simps
    by (intro call_action_ok) (auto intro!: set_call_kept simp: holds_slot_def delivery_ok_def)
next
  case (Start_failed i)
  assume ok: "sched_ok s"
  then show ?thesis
    unfolding Start_failed sched_step.simps
    by (intro call_action_ok) (auto intro!: set_call_released simp: holds_slot_def delivery_ok_def)
next
  case (Started i evs)
  assume ok: "sched_ok s"
  then show ?thesis
    unfolding Started sched_step.simps
    by (intro call_action_ok) (auto intro!: set_call_kept simp: holds_slot_def delivery_ok_def)
next
  case (Forward i)
  assume ok: "sched_ok s"
  then show ?thesis
    unfolding Forward sched_step.simps
    by (intro call_action_ok) (auto intro!: set_call_kept simp: holds_slot_def delivery_ok_def split: list.split if_splits)
next
  case (Cancelled i)
  assume ok: "sched_ok s"
  then show ?thesis
    unfolding Cancelled sched_step.simps
    by (intro call_action_ok) (auto intro!: set_call_kept simp: holds_slot_def delivery_ok_def split: list.split if_splits)
next
  case (Discard i)
  assume ok: "sched_ok s"
  then show ?thesis
    unfolding Discard sched_step.simps
    by (intro call_action_ok) (auto intro!: set_call_kept simp: holds_slot_def delivery_ok_def)
next
  case (Source_closed i)
  assume ok: "sched_ok s"
  let ?f = "\<lambda>c. if sc_unread c = [] then release (set_call i (c\<lparr>sc_phase := Closed\<rparr>) s) else s"
  have drained: "sched_ok (call_action i Draining s ?f)"
    using ok by (intro call_action_ok) (auto intro!: set_call_released simp: holds_slot_def delivery_ok_def split: if_splits)
  have "call_action i Forwarding (call_action i Draining s ?f) ?f
      = (if i < length (sd_calls s) \<and> sc_phase (sd_calls s ! i) = Forwarding then ?f (sd_calls s ! i)
         else call_action i Draining s ?f)"
    by (auto simp: call_action_def set_call_def release_def)
  moreover have "sched_ok (call_action i Forwarding s ?f)"
    using ok by (intro call_action_ok) (auto intro!: set_call_released simp: holds_slot_def delivery_ok_def split: if_splits)
  ultimately show ?thesis
    using drained unfolding Source_closed sched_step.simps by (auto simp: call_action_def split: if_splits)
qed

interpretation scheduler_machine: preserving_machine sched_step sched_ok
  by unfold_locales (rule sched_step_ok)

lemma new_scheduler_ok: "sched_ok (NewScheduler n)"
  by (simp add: sched_ok_def NewScheduler_def)

text \<open>
  C23. However calls, streams and cancellations interleave, a scheduler holds one slot for each call
  between its start and the close of its stream and never more than its capacity, so that a waiting
  call can start whenever fewer are held; a call delivers the first events of its stream in their
  order, and all of them when it closes without having been cancelled.
\<close>

theorem scheduler_bounded:
  "let s = run_steps sched_step (NewScheduler n) acts in
     sd_used s = length (filter holds_slot (sd_calls s)) \<and> sd_used s \<le> (if n \<le> 0 then 1 else nat n)
     \<and> (\<forall>i < length (sd_calls s). let c = sd_calls s ! i in prefix (sc_out c) (sc_stream c)
          \<and> (sc_phase c = Closed \<and> \<not> sc_cancelled c \<longrightarrow> sc_out c = sc_stream c)
          \<and> (sc_phase c = Waiting \<and> sd_used s < sd_capacity s \<longrightarrow>
               sc_phase (sd_calls (sched_step s (Acquire i)) ! i) = Starting))"
proof -
  let ?s = "run_steps sched_step (NewScheduler n) acts"
  have ok: "sched_ok ?s" by (rule scheduler_machine.run_inv [OF new_scheduler_ok])
  have cap: "sd_capacity (sched_step t a) = sd_capacity t" for t a
    by (cases a) (auto simp: call_action_def set_call_def release_def split: list.split)
  have "sd_capacity (run_steps sched_step t acts) = sd_capacity t" for t
    by (induction acts arbitrary: t) (simp_all add: cap)
  then have "sd_capacity ?s = (if n \<le> 0 then 1 else nat n)" by (simp add: NewScheduler_def)
  moreover have "delivery_ok (sd_calls ?s ! i)" if "i < length (sd_calls ?s)" for i
    using ok that by (simp add: sched_ok_def list_all_length)
  then have "prefix (sc_out (sd_calls ?s ! i)) (sc_stream (sd_calls ?s ! i))
      \<and> (sc_phase (sd_calls ?s ! i) = Closed \<and> \<not> sc_cancelled (sd_calls ?s ! i) \<longrightarrow>
           sc_out (sd_calls ?s ! i) = sc_stream (sd_calls ?s ! i))" if "i < length (sd_calls ?s)" for i
    using that by (force simp: delivery_ok_def split: if_splits)
  moreover have "sc_phase (sd_calls (sched_step ?s (Acquire i)) ! i) = Starting"
    if "i < length (sd_calls ?s)" "sc_phase (sd_calls ?s ! i) = Waiting" "sd_used ?s < sd_capacity ?s" for i
    using that by (simp add: call_action_def set_call_def)
  ultimately show ?thesis using ok by (simp add: Let_def sched_ok_def del: sched_step.simps)
qed

section \<open>Batching\<close>

text \<open>
  A batcher: the text gathered, whether \<open>timer\<close> is set, how many callbacks of timers are still to
  run, and what was flushed. A timer that fires while the lock is held runs its callback later, also
  when \<open>Stop\<close> comes too late for it.
\<close>

record batcher =
  bt_buf :: string
  bt_timer :: bool
  bt_pending :: nat
  bt_flushed :: "string list"
  bt_added :: string       \<comment> \<open>all that was added, for the specification\<close>

definition newTextBatcher :: batcher where
  "newTextBatcher = \<lparr>bt_buf = [], bt_timer = False, bt_pending = 0, bt_flushed = [], bt_added = []\<rparr>"

datatype batch_action = Add string | Timer_fired | Flush bool   \<comment> \<open>whether \<open>Stop\<close> comes in time\<close>

definition drain :: "batcher \<Rightarrow> batcher" where
  "drain b = b\<lparr>bt_buf := [], bt_flushed := (if bt_buf b \<noteq> [] then bt_flushed b @ [bt_buf b] else bt_flushed b)\<rparr>"

fun batch_step :: "batcher \<Rightarrow> batch_action \<Rightarrow> batcher" where
  "batch_step b (Add text) =
     (let b1 = b\<lparr>bt_buf := bt_buf b @ text, bt_added := bt_added b @ text\<rparr> in
      if \<not> bt_timer b then b1\<lparr>bt_timer := True, bt_pending := bt_pending b + 1\<rparr> else b1)"
| "batch_step b Timer_fired =
     (if bt_pending b = 0 then b else (drain b)\<lparr>bt_timer := False, bt_pending := bt_pending b - 1\<rparr>)"
| "batch_step b (Flush in_time) =
     (drain b)\<lparr>bt_timer := False,
       bt_pending := (if bt_timer b \<and> in_time then bt_pending b - 1 else bt_pending b)\<rparr>"

definition batch_ok :: "batcher \<Rightarrow> bool" where
  "batch_ok b \<longleftrightarrow> concat (bt_flushed b) @ bt_buf b = bt_added b \<and> (bt_buf b \<noteq> [] \<longrightarrow> bt_timer b)
     \<and> (bt_timer b \<longrightarrow> 0 < bt_pending b) \<and> [] \<notin> set (bt_flushed b)"

interpretation batcher_machine: preserving_machine batch_step batch_ok
proof
  fix b a
  show "batch_ok b \<Longrightarrow> batch_ok (batch_step b a)"
    by (cases a) (auto simp: batch_ok_def drain_def Let_def)
qed

text \<open>
  In every interleaving of additions, timers and flushes the batches are the text that was added,
  in its order and without a loss; what is still held back has a timer that will flush it, and a
  flush at the end of a turn leaves nothing behind.
\<close>

theorem batches_are_the_text:
  "let b = run_steps batch_step newTextBatcher acts in
     concat (bt_flushed b) @ bt_buf b = bt_added b
     \<and> (bt_buf b \<noteq> [] \<longrightarrow> 0 < bt_pending b \<and> concat (bt_flushed (batch_step b Timer_fired)) = bt_added b)
     \<and> concat (bt_flushed (batch_step b (Flush in_time))) = bt_added b"
proof -
  let ?b = "run_steps batch_step newTextBatcher acts"
  have "batch_ok ?b" by (rule batcher_machine.run_inv) (simp add: batch_ok_def newTextBatcher_def)
  then show ?thesis by (auto simp: batch_ok_def Let_def drain_def)
qed


section \<open>Examples\<close>

lemma scheduler_bounded_witness:
  "let s = run_steps sched_step (NewScheduler 1)
      [Request, Request, Acquire 0, Acquire 1, Started 0 [EvText ''a'', EvDone], Forward 0, Forward 0, Source_closed 0] in
   sc_out (sd_calls s ! 0) = [EvText ''a'', EvDone] \<and> sd_used s = 0
   \<and> sc_phase (sd_calls (sched_step s (Acquire 1)) ! 1) = Starting"
  using scheduler_bounded [of 1 "[Request, Request, Acquire 0, Acquire 1, Started 0 [EvText ''a'', EvDone], Forward 0, Forward 0, Source_closed 0]"]
  by (simp add: NewScheduler_def call_action_def set_call_def release_def Let_def)

lemma batches_are_the_text_witness:
  "concat (bt_flushed (run_steps batch_step newTextBatcher [Add ''a'', Timer_fired, Add ''b'', Flush False, Timer_fired])) = ''ab''"
  using batches_are_the_text [of "[Add ''a'', Timer_fired, Add ''b'', Flush False, Timer_fired]" True]
  by (simp add: newTextBatcher_def drain_def Let_def)

end
