(* ===== verification/ServiceErrors.thy ===== *)
theory ServiceErrors
  imports GoText
begin

text \<open>
  Errors and what a client may read of them (\<open>internal/service/errors.go\<close>): the sentinels and the
  errors classified by them, \<open>errors.Is\<close> along the chain of wrapped errors, and the removal of
  filesystem paths from a message. The sentinels of \<open>internal/client/http.go\<close>, which the errors of
  the remote client wrap, are constructors of the same type.
\<close>

section \<open>Sentinels and error chains\<close>

datatype sentinel =
    ErrNotFound | ErrConflict | ErrUnavailable | ErrInvalid | ErrBusy
  | ClientConnectionFailed | ClientUnauthorized | ClientConflict | ClientUnprocessable
  | ClientRateLimited | ClientServerError | ClientServiceUnavailable

fun sentinel_text :: "sentinel \<Rightarrow> string" where
  "sentinel_text ErrNotFound = ''not found''"
| "sentinel_text ErrConflict = ''conflict''"
| "sentinel_text ErrUnavailable = ''unavailable''"
| "sentinel_text ErrInvalid = ''invalid''"
| "sentinel_text ErrBusy = ''busy''"
| "sentinel_text ClientConnectionFailed = ''connection failed''"
| "sentinel_text ClientUnauthorized = ''unauthorized''"
| "sentinel_text ClientConflict = ''conflict''"
| "sentinel_text ClientUnprocessable = ''unprocessable entity''"
| "sentinel_text ClientRateLimited = ''rate limited''"
| "sentinel_text ClientServerError = ''server error''"
| "sentinel_text ClientServiceUnavailable = ''service unavailable''"

text \<open>
  An error is a plain one (\<open>errors.New\<close>, or \<open>fmt.Errorf\<close> without \<open>%w\<close>), a sentinel, a classified
  message, a message that wraps another error (\<open>%w\<close>; the whole text is kept), or a sanitized one.
\<close>

datatype go_error =
    Plain string
  | Sentinel sentinel
  | Classified sentinel string
  | Wrapped string go_error
  | Sanitized string go_error

fun error_text :: "go_error \<Rightarrow> string" where
  "error_text (Plain msg) = msg"
| "error_text (Sentinel s) = sentinel_text s"
| "error_text (Classified s msg) = msg"
| "error_text (Wrapped msg e) = msg"
| "error_text (Sanitized msg e) = msg"

text \<open>\<open>errors.Is(err, s)\<close>: the chain of \<open>Unwrap\<close> reaches the sentinel.\<close>

fun errors_is :: "go_error \<Rightarrow> sentinel \<Rightarrow> bool" where
  "errors_is (Plain msg) s \<longleftrightarrow> False"
| "errors_is (Sentinel t) s \<longleftrightarrow> t = s"
| "errors_is (Classified t msg) s \<longleftrightarrow> t = s"
| "errors_is (Wrapped msg e) s \<longleftrightarrow> errors_is e s"
| "errors_is (Sanitized msg e) s \<longleftrightarrow> errors_is e s"

definition Conflictf :: "string \<Rightarrow> go_error" where
  "Conflictf msg = Classified ErrConflict msg"

definition Unavailablef :: "string \<Rightarrow> go_error" where
  "Unavailablef msg = Classified ErrUnavailable msg"

definition Invalidf :: "string \<Rightarrow> go_error" where
  "Invalidf msg = Classified ErrInvalid msg"

definition Busyf :: "string \<Rightarrow> go_error" where
  "Busyf msg = Classified ErrBusy msg"

text \<open>\<open>fmt.Errorf("op: %w", err)\<close>.\<close>

definition wrap_error :: "string \<Rightarrow> go_error \<Rightarrow> go_error" where
  "wrap_error op e = Wrapped (op @ '': '' @ error_text e) e"

lemma errors_is_wrap [simp]: "errors_is (wrap_error op e) s \<longleftrightarrow> errors_is e s"
  by (simp add: wrap_error_def)

text \<open>An error is of at most one class: the end of its chain decides.\<close>

lemma errors_is_unique: "errors_is e s \<Longrightarrow> errors_is e t \<Longrightarrow> s = t"
  by (induction e) auto

section \<open>Removing filesystem paths\<close>

definition path_roots :: "string list" where
  "path_roots = [''Users/'', ''home/'', ''tmp/'', ''var/'', ''etc/'', ''opt/'', ''usr/'', ''private/'']"

text \<open>The class \<open>[^\s"':;,\)]\<close>; \<open>\s\<close> is tab, line feed, form feed, carriage return and space.\<close>

definition path_char :: "char \<Rightarrow> bool" where
  "path_char c \<longleftrightarrow> c \<notin> {CHR 0x09, CHR 0x0A, CHR 0x0C, CHR 0x0D, CHR '' '', CHR 0x22, CHR 0x27,
     CHR '':'', CHR '';'', CHR '','', CHR '')''}"

text \<open>
  A match of \<open>pathPattern\<close> at the head of the text, as what follows it. The roots end in a slash and
  none is a prefix of another, so at most one alternative can match; the class takes all it can.
\<close>

definition path_match :: "string \<Rightarrow> string option" where
  "path_match s =
     (case s of
        [] \<Rightarrow> None
      | c # t \<Rightarrow>
          if c \<noteq> CHR ''/'' then None
          else (case find (has_prefix t) path_roots of
                  None \<Rightarrow> None
                | Some r \<Rightarrow>
                    (case drop (length r) t of
                       [] \<Rightarrow> None
                     | d # u \<Rightarrow> if path_char d then Some (dropWhile path_char u) else None)))"

lemma path_matchE:
  assumes "path_match s = Some r"
  obtains t root d u where "s = CHR ''/'' # t" "root \<in> set path_roots" "t = root @ d # u" "path_char d"
    "r = dropWhile path_char u"
proof -
  obtain c t where s: "s = c # t" using assms by (cases s) (simp_all add: path_match_def)
  then have c: "c = CHR ''/''" using assms by (simp add: path_match_def split: if_splits)
  then obtain root where f: "find (has_prefix t) path_roots = Some root"
    using assms s by (cases "find (has_prefix t) path_roots") (simp_all add: path_match_def)
  then obtain d u where d: "drop (length root) t = d # u"
    using assms s c by (cases "drop (length root) t") (simp_all add: path_match_def)
  then have "path_char d" "r = dropWhile path_char u"
    using assms s c f by (simp_all add: path_match_def split: if_splits)
  moreover have "root \<in> set path_roots" "has_prefix t root" using f by (auto simp: find_Some_iff)
  moreover from this d have "t = root @ d # u" by (metis append_take_drop_id has_prefix_code)
  ultimately show ?thesis using s c that by blast
qed

lemma path_match_shorter: "path_match s = Some r \<Longrightarrow> length r < length s"
  by (erule path_matchE) (simp add: less_Suc_eq_le trans_le_add2 length_dropWhile_le le_SucI)

text \<open>\<open>pathPattern.ReplaceAllString(s, "[path]")\<close>.\<close>

function SanitizeErrorMessage :: "string \<Rightarrow> string" where
  "SanitizeErrorMessage s =
     (case path_match s of
        Some r \<Rightarrow> ''[path]'' @ SanitizeErrorMessage r
      | None \<Rightarrow> (case s of [] \<Rightarrow> [] | c # t \<Rightarrow> c # SanitizeErrorMessage t))"
  by pat_completeness auto
termination
  by (relation "measure length") (auto dest: path_match_shorter)

declare SanitizeErrorMessage.simps [simp del]

definition sanitizeError :: "go_error \<Rightarrow> go_error" where
  "sanitizeError e =
     (let cleaned = SanitizeErrorMessage (error_text e)
      in if cleaned = error_text e then e else Sanitized cleaned e)"

definition sanitizeErrorString :: "go_error option \<Rightarrow> string" where
  "sanitizeErrorString err = (case err of None \<Rightarrow> [] | Some e \<Rightarrow> error_text (sanitizeError e))"

lemma sanitize_text: "error_text (sanitizeError e) = SanitizeErrorMessage (error_text e)"
  by (simp add: sanitizeError_def Let_def)

text \<open>Sanitizing keeps the class of an error.\<close>

lemma sanitize_class [simp]: "errors_is (sanitizeError e) s \<longleftrightarrow> errors_is e s"
  by (simp add: sanitizeError_def Let_def)

section \<open>What is left holds no path\<close>

text \<open>Some path of one of the roots starts somewhere in the text.\<close>

definition shows_path :: "string \<Rightarrow> bool" where
  "shows_path s \<longleftrightarrow> (\<exists>n \<le> length s. path_match (drop n s) \<noteq> None)"

lemma shows_path_Cons: "shows_path (c # s) \<longleftrightarrow> path_match (c # s) \<noteq> None \<or> shows_path s"
proof
  assume "shows_path (c # s)"
  then obtain n where "n \<le> length (c # s)" "path_match (drop n (c # s)) \<noteq> None" by (auto simp: shows_path_def)
  then show "path_match (c # s) \<noteq> None \<or> shows_path s"
    by (cases n) (auto simp: shows_path_def)
next
  assume "path_match (c # s) \<noteq> None \<or> shows_path s"
  then show "shows_path (c # s)"
    unfolding shows_path_def by (metis Suc_le_mono drop0 drop_Suc_Cons le0 length_Cons)
qed

lemma shows_path_Nil [simp]: "\<not> shows_path []"
  by (simp add: shows_path_def path_match_def)

text \<open>What the cleaned text starts with, up to a bracket, the text itself starts with.\<close>

lemma sanitize_prefix:
  "SanitizeErrorMessage t = p @ u \<Longrightarrow> CHR ''['' \<notin> set p \<Longrightarrow>
   \<exists>t'. t = p @ t' \<and> u = SanitizeErrorMessage t'"
proof (induction p arbitrary: t)
  case (Cons x p)
  show ?case
  proof (cases "path_match t")
    case (Some r)
    then show ?thesis using Cons.prems by (subst (asm) SanitizeErrorMessage.simps) auto
  next
    case None
    then obtain t1 where "t = x # t1" "SanitizeErrorMessage t1 = p @ u"
      using Cons.prems(1) by (subst (asm) SanitizeErrorMessage.simps) (auto split: list.splits)
    then show ?thesis using Cons.IH [of t1] Cons.prems(2) by auto
  qed
qed simp

lemma path_root_plain: "r \<in> set path_roots \<Longrightarrow> CHR ''['' \<notin> set r"
  by (auto simp: path_roots_def)

lemma head_path_char:
  assumes "SanitizeErrorMessage t = d # u" "path_char d"
  shows "\<exists>d' u'. t = d' # u' \<and> path_char d'"
proof (cases "path_match t")
  case (Some r)
  then have "hd t = CHR ''/''" "t \<noteq> []" by (auto simp: path_match_def split: list.splits if_splits)
  then show ?thesis by (cases t) (auto simp: path_char_def)
next
  case None
  then show ?thesis using assms by (subst (asm) SanitizeErrorMessage.simps) (auto split: list.splits)
qed

lemma path_match_iff:
  "path_match s \<noteq> None \<longleftrightarrow> (\<exists>r\<in>set path_roots. \<exists>d u. s = CHR ''/'' # r @ d # u \<and> path_char d)"
proof
  assume "path_match s \<noteq> None"
  then obtain r where "path_match s = Some r" by blast
  then show "\<exists>r\<in>set path_roots. \<exists>d u. s = CHR ''/'' # r @ d # u \<and> path_char d"
    by (elim path_matchE) blast
next
  assume "\<exists>r\<in>set path_roots. \<exists>d u. s = CHR ''/'' # r @ d # u \<and> path_char d"
  then show "path_match s \<noteq> None"
    by (auto simp: path_match_def path_roots_def has_prefix_code)
qed

lemma copied_char_shows_nothing:
  assumes "path_match (c # t) = None"
  shows "path_match (c # SanitizeErrorMessage t) = None"
proof (rule ccontr)
  assume "path_match (c # SanitizeErrorMessage t) \<noteq> None"
  then obtain r d u where r: "r \<in> set path_roots" "c = CHR ''/''" "SanitizeErrorMessage t = r @ d # u" "path_char d"
    unfolding path_match_iff by blast
  obtain t' where t': "t = r @ t'" "d # u = SanitizeErrorMessage t'"
    using sanitize_prefix [OF r(3) path_root_plain [OF r(1)]] by blast
  obtain d' u' where "t' = d' # u'" "path_char d'" using head_path_char t'(2) r(4) by metis
  then have "path_match (c # t) \<noteq> None" using r t' unfolding path_match_iff by blast
  then show False using assms by simp
qed

lemma brackets_show_nothing: "shows_path (''[path]'' @ s) \<longleftrightarrow> shows_path s"
  by (simp add: shows_path_Cons path_match_def)

lemma sanitized_shows_no_path: "\<not> shows_path (SanitizeErrorMessage s)"
proof (induction s rule: SanitizeErrorMessage.induct)
  case (1 s)
  show ?case
  proof (cases "path_match s")
    case None
    show ?thesis
    proof (cases s)
      case (Cons c t)
      then have "SanitizeErrorMessage s = c # SanitizeErrorMessage t"
        using None by (subst SanitizeErrorMessage.simps) simp
      then show ?thesis using 1(1) [OF None Cons] copied_char_shows_nothing None Cons by (simp add: shows_path_Cons)
    qed (subst SanitizeErrorMessage.simps, simp add: path_match_def)
  next
    case (Some r)
    then show ?thesis using 1(2) brackets_show_nothing by (subst SanitizeErrorMessage.simps) simp
  qed
qed

text \<open>A text without such paths is left alone; so cleaning twice is cleaning once.\<close>

lemma sanitize_clean: "\<not> shows_path s \<Longrightarrow> SanitizeErrorMessage s = s"
  by (induction s) (subst SanitizeErrorMessage.simps, auto simp: shows_path_Cons path_match_def)+

lemma sanitize_idem: "SanitizeErrorMessage (SanitizeErrorMessage s) = SanitizeErrorMessage s"
  by (rule sanitize_clean) (rule sanitized_shows_no_path)

text \<open>A cleaned message shows no path of the known roots, and cleaning it again changes nothing.\<close>

theorem messages_cleaned:
  "\<not> shows_path (SanitizeErrorMessage s) \<and>
   SanitizeErrorMessage (SanitizeErrorMessage s) = SanitizeErrorMessage s"
  by (simp add: sanitized_shows_no_path sanitize_idem)

text \<open>
  Paths under other roots are not recognised, and a path with a space in it is cut at the space.
\<close>

lemma other_roots_shown: "SanitizeErrorMessage ''open /root/secret: denied'' = ''open /root/secret: denied''"
  by (rule sanitize_clean) (simp add: shows_path_Cons path_match_def path_roots_def has_prefix_code)

lemma rest_of_path_shown: "SanitizeErrorMessage ''open /home/me/My Documents/plan'' = ''open [path] Documents/plan''"
  by (simp add: SanitizeErrorMessage.simps path_match_def path_roots_def path_char_def has_prefix_code)

end
