(* ===== verification/HttpBodies.thy ===== *)
theory HttpBodies
  imports WireEntities EventPayloads ServiceErrors
begin

text \<open>
  The remaining types of the HTTP interface: the request bodies and response envelopes of
  \<open>internal/server/types.go\<close> and \<open>internal/client/types.go\<close> with their JSON, and the interfaces of
  \<open>internal/service/service.go\<close> as records of operations on a state of any type. Where the server
  and the client declare the same struct, one record stands for both; \<open>received\<close> and \<open>ok\<close> have the
  meaning they have for the entities.
\<close>

section \<open>Envelopes and requests\<close>

record ErrorDetail =
  ErrorDetail_Code :: string
  ErrorDetail_Message :: string

definition ErrorDetail_json :: "ErrorDetail \<Rightarrow> json" where
  "ErrorDetail_json w =
     JObj (
       member ''code'' (JStr (ErrorDetail_Code w)) @
       member ''message'' (JStr (ErrorDetail_Message w)))"

definition zero_ErrorDetail :: ErrorDetail where
  "zero_ErrorDetail = \<lparr>
     ErrorDetail_Code = '''', ErrorDetail_Message = ''''\<rparr>"

definition ErrorDetail_fields :: "ErrorDetail fields" where
  "ErrorDetail_fields =
     [(''code'', field ErrorDetail_Code ErrorDetail_Code_update read_string),
      (''message'', field ErrorDetail_Message ErrorDetail_Message_update read_string)]"

lemma reads_ErrorDetail:
  "reads (read_struct ErrorDetail_fields) ErrorDetail_json
     (\<lambda>w. w) (\<lambda>w. True) zero_ErrorDetail"
  by (rule readsI, rename_tac w, case_tac w)
     (simp add: ErrorDetail_json_def ErrorDetail_fields_def zero_ErrorDetail_def wire)

record ErrorResponse =
  ErrorResponse_Error :: ErrorDetail

definition ErrorResponse_json :: "ErrorResponse \<Rightarrow> json" where
  "ErrorResponse_json w =
     JObj (
       member ''error'' (ErrorDetail_json (ErrorResponse_Error w)))"

definition zero_ErrorResponse :: ErrorResponse where
  "zero_ErrorResponse = \<lparr>
     ErrorResponse_Error = zero_ErrorDetail\<rparr>"

definition ErrorResponse_fields :: "ErrorResponse fields" where
  "ErrorResponse_fields =
     [(''error'', field ErrorResponse_Error ErrorResponse_Error_update (read_struct ErrorDetail_fields))]"

lemma reads_ErrorResponse:
  "reads (read_struct ErrorResponse_fields) ErrorResponse_json
     (\<lambda>w. w) (\<lambda>w. True) zero_ErrorResponse"
  by (rule readsI, rename_tac w, case_tac w)
     (simp add: ErrorResponse_json_def ErrorResponse_fields_def zero_ErrorResponse_def
        readsD [OF reads_ErrorDetail] wire)

record AsyncResponse =
  AsyncResponse_OperationID :: string

definition AsyncResponse_json :: "AsyncResponse \<Rightarrow> json" where
  "AsyncResponse_json w =
     JObj (
       member ''operation_id'' (JStr (AsyncResponse_OperationID w)))"

definition zero_AsyncResponse :: AsyncResponse where
  "zero_AsyncResponse = \<lparr>
     AsyncResponse_OperationID = ''''\<rparr>"

definition AsyncResponse_fields :: "AsyncResponse fields" where
  "AsyncResponse_fields =
     [(''operation_id'', field AsyncResponse_OperationID AsyncResponse_OperationID_update read_string)]"

lemma reads_AsyncResponse:
  "reads (read_struct AsyncResponse_fields) AsyncResponse_json
     (\<lambda>w. w) (\<lambda>w. True) zero_AsyncResponse"
  by (rule readsI, rename_tac w, case_tac w)
     (simp add: AsyncResponse_json_def AsyncResponse_fields_def zero_AsyncResponse_def wire)

record TurnResponse =
  TurnResponse_TurnID :: string

definition TurnResponse_json :: "TurnResponse \<Rightarrow> json" where
  "TurnResponse_json w =
     JObj (
       member ''turn_id'' (JStr (TurnResponse_TurnID w)))"

definition zero_TurnResponse :: TurnResponse where
  "zero_TurnResponse = \<lparr>
     TurnResponse_TurnID = ''''\<rparr>"

definition TurnResponse_fields :: "TurnResponse fields" where
  "TurnResponse_fields =
     [(''turn_id'', field TurnResponse_TurnID TurnResponse_TurnID_update read_string)]"

lemma reads_TurnResponse:
  "reads (read_struct TurnResponse_fields) TurnResponse_json
     (\<lambda>w. w) (\<lambda>w. True) zero_TurnResponse"
  by (rule readsI, rename_tac w, case_tac w)
     (simp add: TurnResponse_json_def TurnResponse_fields_def zero_TurnResponse_def wire)

record SendMessageRequest =
  SendMessageRequest_Message :: string

definition SendMessageRequest_json :: "SendMessageRequest \<Rightarrow> json" where
  "SendMessageRequest_json w =
     JObj (
       member ''message'' (JStr (SendMessageRequest_Message w)))"

definition zero_SendMessageRequest :: SendMessageRequest where
  "zero_SendMessageRequest = \<lparr>
     SendMessageRequest_Message = ''''\<rparr>"

definition SendMessageRequest_fields :: "SendMessageRequest fields" where
  "SendMessageRequest_fields =
     [(''message'', field SendMessageRequest_Message SendMessageRequest_Message_update read_string)]"

lemma reads_SendMessageRequest:
  "reads (read_struct SendMessageRequest_fields) SendMessageRequest_json
     (\<lambda>w. w) (\<lambda>w. True) zero_SendMessageRequest"
  by (rule readsI, rename_tac w, case_tac w)
     (simp add: SendMessageRequest_json_def SendMessageRequest_fields_def zero_SendMessageRequest_def wire)

record RespondToPromptRequest =
  RespondToPromptRequest_Response :: string

definition RespondToPromptRequest_json :: "RespondToPromptRequest \<Rightarrow> json" where
  "RespondToPromptRequest_json w =
     JObj (
       member ''response'' (JStr (RespondToPromptRequest_Response w)))"

definition zero_RespondToPromptRequest :: RespondToPromptRequest where
  "zero_RespondToPromptRequest = \<lparr>
     RespondToPromptRequest_Response = ''''\<rparr>"

definition RespondToPromptRequest_fields :: "RespondToPromptRequest fields" where
  "RespondToPromptRequest_fields =
     [(''response'', field RespondToPromptRequest_Response RespondToPromptRequest_Response_update read_string)]"

lemma reads_RespondToPromptRequest:
  "reads (read_struct RespondToPromptRequest_fields) RespondToPromptRequest_json
     (\<lambda>w. w) (\<lambda>w. True) zero_RespondToPromptRequest"
  by (rule readsI, rename_tac w, case_tac w)
     (simp add: RespondToPromptRequest_json_def RespondToPromptRequest_fields_def
        zero_RespondToPromptRequest_def wire)

record CreateSkillRequest =
  CreateSkillRequest_Name :: string

definition CreateSkillRequest_json :: "CreateSkillRequest \<Rightarrow> json" where
  "CreateSkillRequest_json w =
     JObj (
       member ''name'' (JStr (CreateSkillRequest_Name w)))"

definition zero_CreateSkillRequest :: CreateSkillRequest where
  "zero_CreateSkillRequest = \<lparr>
     CreateSkillRequest_Name = ''''\<rparr>"

definition CreateSkillRequest_fields :: "CreateSkillRequest fields" where
  "CreateSkillRequest_fields =
     [(''name'', field CreateSkillRequest_Name CreateSkillRequest_Name_update read_string)]"

lemma reads_CreateSkillRequest:
  "reads (read_struct CreateSkillRequest_fields) CreateSkillRequest_json
     (\<lambda>w. w) (\<lambda>w. True) zero_CreateSkillRequest"
  by (rule readsI, rename_tac w, case_tac w)
     (simp add: CreateSkillRequest_json_def CreateSkillRequest_fields_def zero_CreateSkillRequest_def wire)

record GenerateRequest =
  GenerateRequest_Prompt :: string

definition GenerateRequest_json :: "GenerateRequest \<Rightarrow> json" where
  "GenerateRequest_json w =
     JObj (
       member ''prompt'' (JStr (GenerateRequest_Prompt w)))"

definition zero_GenerateRequest :: GenerateRequest where
  "zero_GenerateRequest = \<lparr>
     GenerateRequest_Prompt = ''''\<rparr>"

definition GenerateRequest_fields :: "GenerateRequest fields" where
  "GenerateRequest_fields =
     [(''prompt'', field GenerateRequest_Prompt GenerateRequest_Prompt_update read_string)]"

lemma reads_GenerateRequest:
  "reads (read_struct GenerateRequest_fields) GenerateRequest_json
     (\<lambda>w. w) (\<lambda>w. True) zero_GenerateRequest"
  by (rule readsI, rename_tac w, case_tac w)
     (simp add: GenerateRequest_json_def GenerateRequest_fields_def zero_GenerateRequest_def wire)

record HealthResponse =
  HealthResponse_Status :: string
  HealthResponse_Version :: string
  HealthResponse_UptimeSeconds :: json_float

definition HealthResponse_json :: "HealthResponse \<Rightarrow> json" where
  "HealthResponse_json w =
     JObj (
       member ''status'' (JStr (HealthResponse_Status w)) @
       member ''version'' (JStr (HealthResponse_Version w)) @
       member ''uptime_seconds'' (float_json (HealthResponse_UptimeSeconds w)))"

definition zero_HealthResponse :: HealthResponse where
  "zero_HealthResponse = \<lparr>
     HealthResponse_Status = '''', HealthResponse_Version = '''',
     HealthResponse_UptimeSeconds = zero_float\<rparr>"

definition HealthResponse_fields :: "HealthResponse fields" where
  "HealthResponse_fields =
     [(''status'', field HealthResponse_Status HealthResponse_Status_update read_string),
      (''version'', field HealthResponse_Version HealthResponse_Version_update read_string),
      (''uptime_seconds'', field HealthResponse_UptimeSeconds HealthResponse_UptimeSeconds_update read_float)]"

definition HealthResponse_ok :: "HealthResponse \<Rightarrow> bool" where
  "HealthResponse_ok w \<longleftrightarrow>
     float_ok (HealthResponse_UptimeSeconds w)"

lemma reads_HealthResponse:
  "reads (read_struct HealthResponse_fields) HealthResponse_json
     (\<lambda>w. w) HealthResponse_ok zero_HealthResponse"
  by (rule readsI, rename_tac w, case_tac w)
     (simp add: HealthResponse_json_def HealthResponse_fields_def zero_HealthResponse_def
        HealthResponse_ok_def wire)

record OperatorStatusResponse =
  OperatorStatusResponse_State :: string
  OperatorStatusResponse_CurrentTurnID :: string
  OperatorStatusResponse_ModelName :: string
  OperatorStatusResponse_Endpoint :: string
  OperatorStatusResponse_ContextWindow :: go_int

definition OperatorStatusResponse_json :: "OperatorStatusResponse \<Rightarrow> json" where
  "OperatorStatusResponse_json w =
     JObj (
       member ''state'' (JStr (OperatorStatusResponse_State w)) @
       member ''current_turn_id'' (JStr (OperatorStatusResponse_CurrentTurnID w)) @
       member ''model_name'' (JStr (OperatorStatusResponse_ModelName w)) @
       member ''endpoint'' (JStr (OperatorStatusResponse_Endpoint w)) @
       omit_if (OperatorStatusResponse_ContextWindow w = 0) ''context_window'' (int_json (OperatorStatusResponse_ContextWindow w)))"

definition zero_OperatorStatusResponse :: OperatorStatusResponse where
  "zero_OperatorStatusResponse = \<lparr>
     OperatorStatusResponse_State = '''', OperatorStatusResponse_CurrentTurnID = '''',
     OperatorStatusResponse_ModelName = '''', OperatorStatusResponse_Endpoint = '''',
     OperatorStatusResponse_ContextWindow = 0\<rparr>"

definition OperatorStatusResponse_fields :: "OperatorStatusResponse fields" where
  "OperatorStatusResponse_fields =
     [(''state'', field OperatorStatusResponse_State OperatorStatusResponse_State_update read_string),
      (''current_turn_id'', field OperatorStatusResponse_CurrentTurnID OperatorStatusResponse_CurrentTurnID_update read_string),
      (''model_name'', field OperatorStatusResponse_ModelName OperatorStatusResponse_ModelName_update read_string),
      (''endpoint'', field OperatorStatusResponse_Endpoint OperatorStatusResponse_Endpoint_update read_string),
      (''context_window'', field OperatorStatusResponse_ContextWindow OperatorStatusResponse_ContextWindow_update read_int)]"

lemma reads_OperatorStatusResponse:
  "reads (read_struct OperatorStatusResponse_fields) OperatorStatusResponse_json
     (\<lambda>w. w) (\<lambda>w. True) zero_OperatorStatusResponse"
  by (rule readsI, rename_tac w, case_tac w)
     (simp add: OperatorStatusResponse_json_def OperatorStatusResponse_fields_def
        zero_OperatorStatusResponse_def wire)

record Settings =
  Settings_CoarseGranularity :: string
  Settings_FineGranularity :: string
  Settings_WorkerThinkingEnabled :: bool
  Settings_WorkerTemperature :: json_float
  Settings_ShowJobsPanelByDefault :: bool
  Settings_ShowOperatorPanelByDefault :: bool
  Settings_FleetRowDensity :: string
  Settings_SidebarSide :: string
  Settings_OperatorCompactionThreshold :: go_int
  Settings_WorkerCompactionThreshold :: go_int

definition Settings_json :: "Settings \<Rightarrow> json" where
  "Settings_json w =
     JObj (
       member ''coarse_granularity'' (JStr (Settings_CoarseGranularity w)) @
       member ''fine_granularity'' (JStr (Settings_FineGranularity w)) @
       member ''worker_thinking_enabled'' (JBool (Settings_WorkerThinkingEnabled w)) @
       member ''worker_temperature'' (float_json (Settings_WorkerTemperature w)) @
       member ''show_jobs_panel_by_default'' (JBool (Settings_ShowJobsPanelByDefault w)) @
       member ''show_operator_panel_by_default'' (JBool (Settings_ShowOperatorPanelByDefault w)) @
       member ''fleet_row_density'' (JStr (Settings_FleetRowDensity w)) @
       member ''sidebar_side'' (JStr (Settings_SidebarSide w)) @
       member ''operator_compaction_threshold'' (int_json (Settings_OperatorCompactionThreshold w)) @
       member ''worker_compaction_threshold'' (int_json (Settings_WorkerCompactionThreshold w)))"

definition zero_Settings :: Settings where
  "zero_Settings = \<lparr>
     Settings_CoarseGranularity = '''', Settings_FineGranularity = '''',
     Settings_WorkerThinkingEnabled = False, Settings_WorkerTemperature = zero_float,
     Settings_ShowJobsPanelByDefault = False, Settings_ShowOperatorPanelByDefault = False,
     Settings_FleetRowDensity = '''', Settings_SidebarSide = '''',
     Settings_OperatorCompactionThreshold = 0, Settings_WorkerCompactionThreshold = 0\<rparr>"

definition Settings_fields :: "Settings fields" where
  "Settings_fields =
     [(''coarse_granularity'', field Settings_CoarseGranularity Settings_CoarseGranularity_update read_string),
      (''fine_granularity'', field Settings_FineGranularity Settings_FineGranularity_update read_string),
      (''worker_thinking_enabled'', field Settings_WorkerThinkingEnabled Settings_WorkerThinkingEnabled_update read_bool),
      (''worker_temperature'', field Settings_WorkerTemperature Settings_WorkerTemperature_update read_float),
      (''show_jobs_panel_by_default'', field Settings_ShowJobsPanelByDefault Settings_ShowJobsPanelByDefault_update read_bool),
      (''show_operator_panel_by_default'', field Settings_ShowOperatorPanelByDefault Settings_ShowOperatorPanelByDefault_update read_bool),
      (''fleet_row_density'', field Settings_FleetRowDensity Settings_FleetRowDensity_update read_string),
      (''sidebar_side'', field Settings_SidebarSide Settings_SidebarSide_update read_string),
      (''operator_compaction_threshold'', field Settings_OperatorCompactionThreshold Settings_OperatorCompactionThreshold_update read_int),
      (''worker_compaction_threshold'', field Settings_WorkerCompactionThreshold Settings_WorkerCompactionThreshold_update read_int)]"

definition Settings_ok :: "Settings \<Rightarrow> bool" where
  "Settings_ok w \<longleftrightarrow>
     float_ok (Settings_WorkerTemperature w)"

lemma reads_Settings:
  "reads (read_struct Settings_fields) Settings_json
     (\<lambda>w. w) Settings_ok zero_Settings"
  by (rule readsI, rename_tac w, case_tac w)
     (simp add: Settings_json_def Settings_fields_def zero_Settings_def Settings_ok_def wire)
text \<open>A list response, for any type of items.\<close>

record 'a PaginatedResponse =
  PaginatedResponse_Items :: "'a slice"
  PaginatedResponse_Total :: go_int

definition PaginatedResponse_json :: "('a \<Rightarrow> json) \<Rightarrow> 'a PaginatedResponse \<Rightarrow> json" where
  "PaginatedResponse_json f w =
     JObj (
       member ''items'' (slice_json f (PaginatedResponse_Items w)) @
       member ''total'' (int_json (PaginatedResponse_Total w)))"

definition zero_PaginatedResponse :: "'a PaginatedResponse" where
  "zero_PaginatedResponse = \<lparr>PaginatedResponse_Items = None, PaginatedResponse_Total = 0\<rparr>"

definition PaginatedResponse_fields :: "'a reader \<Rightarrow> 'a \<Rightarrow> 'a PaginatedResponse fields" where
  "PaginatedResponse_fields rd zero =
     [(''items'', field PaginatedResponse_Items PaginatedResponse_Items_update (read_slice rd zero)),
      (''total'', field PaginatedResponse_Total PaginatedResponse_Total_update read_int)]"

definition PaginatedResponse_ok :: "('a \<Rightarrow> bool) \<Rightarrow> 'a PaginatedResponse \<Rightarrow> bool" where
  "PaginatedResponse_ok P w \<longleftrightarrow> slice_ok P (PaginatedResponse_Items w)"

definition received_PaginatedResponse :: "('a \<Rightarrow> 'a) \<Rightarrow> 'a PaginatedResponse \<Rightarrow> 'a PaginatedResponse" where
  "received_PaginatedResponse g w = w\<lparr>PaginatedResponse_Items := map_option (map g) (PaginatedResponse_Items w)\<rparr>"

lemma reads_PaginatedResponse:
  assumes "reads rd f g P zero"
  shows "reads (read_struct (PaginatedResponse_fields rd zero)) (PaginatedResponse_json f)
    (received_PaginatedResponse g) (PaginatedResponse_ok P) zero_PaginatedResponse"
  by (rule readsI, rename_tac w, case_tac w)
     (simp add: PaginatedResponse_json_def PaginatedResponse_fields_def zero_PaginatedResponse_def
        PaginatedResponse_ok_def received_PaginatedResponse_def reads_slice [OF assms] wire)

text \<open>\<open>wireBlockerRecord\<close> embeds \<open>wireBlockerPayload\<close>: its members come first.\<close>

record wireBlockerRecord = wireBlockerPayload +
  wireBlockerRecord_ResolvedAt :: timestamp
  wireBlockerRecord_Disposition :: string
  wireBlockerRecord_Answer :: string

definition wireBlockerRecord_json :: "wireBlockerRecord \<Rightarrow> json" where
  "wireBlockerRecord_json w =
     JObj (
       member ''request_id'' (JStr (wireBlockerPayload_RequestID w)) @
       omit_if (wireBlockerPayload_Source w = '''') ''source'' (JStr (wireBlockerPayload_Source w)) @
       omit_if (wireBlockerPayload_JobID w = '''') ''job_id'' (JStr (wireBlockerPayload_JobID w)) @
       omit_if (wireBlockerPayload_TaskID w = '''') ''task_id'' (JStr (wireBlockerPayload_TaskID w)) @
       omit_if (elems (wireBlockerPayload_Questions w) = []) ''questions'' ((slice_json wirePromptQuestion_json) (wireBlockerPayload_Questions w)) @
       member ''created_at'' (time_json (wireBlockerPayload_CreatedAt w)) @
       member ''resolved_at'' (time_json (wireBlockerRecord_ResolvedAt w)) @
       member ''disposition'' (JStr (wireBlockerRecord_Disposition w)) @
       omit_if (wireBlockerRecord_Answer w = '''') ''answer'' (JStr (wireBlockerRecord_Answer w)))"

definition zero_wireBlockerRecord :: wireBlockerRecord where
  "zero_wireBlockerRecord = \<lparr>
     wireBlockerPayload_RequestID = '''', wireBlockerPayload_Source = '''',
     wireBlockerPayload_JobID = '''', wireBlockerPayload_TaskID = '''',
     wireBlockerPayload_Questions = None, wireBlockerPayload_CreatedAt = zero_time,
     wireBlockerRecord_ResolvedAt = zero_time, wireBlockerRecord_Disposition = '''',
     wireBlockerRecord_Answer = ''''\<rparr>"

definition wireBlockerRecord_fields :: "wireBlockerRecord fields" where
  "wireBlockerRecord_fields =
     [(''request_id'', field wireBlockerPayload_RequestID wireBlockerPayload_RequestID_update read_string),
      (''source'', field wireBlockerPayload_Source wireBlockerPayload_Source_update read_string),
      (''job_id'', field wireBlockerPayload_JobID wireBlockerPayload_JobID_update read_string),
      (''task_id'', field wireBlockerPayload_TaskID wireBlockerPayload_TaskID_update read_string),
      (''questions'', field wireBlockerPayload_Questions wireBlockerPayload_Questions_update (read_slice (read_struct wirePromptQuestion_fields) zero_wirePromptQuestion)),
      (''created_at'', field wireBlockerPayload_CreatedAt wireBlockerPayload_CreatedAt_update read_time),
      (''resolved_at'', field wireBlockerRecord_ResolvedAt wireBlockerRecord_ResolvedAt_update read_time),
      (''disposition'', field wireBlockerRecord_Disposition wireBlockerRecord_Disposition_update read_string),
      (''answer'', field wireBlockerRecord_Answer wireBlockerRecord_Answer_update read_string)]"

definition wireBlockerRecord_ok :: "wireBlockerRecord \<Rightarrow> bool" where
  "wireBlockerRecord_ok w \<longleftrightarrow>
     time_ok (wireBlockerPayload_CreatedAt w) \<and> time_ok (wireBlockerRecord_ResolvedAt w)"

definition received_wireBlockerRecord :: "wireBlockerRecord \<Rightarrow> wireBlockerRecord" where
  "received_wireBlockerRecord w = w\<lparr>
     wireBlockerPayload_Questions := appended (map received_wirePromptQuestion (elems (wireBlockerPayload_Questions w)))\<rparr>"

lemma reads_wireBlockerRecord:
  "reads (read_struct wireBlockerRecord_fields) wireBlockerRecord_json
     received_wireBlockerRecord wireBlockerRecord_ok zero_wireBlockerRecord"
  by (rule readsI, rename_tac w, case_tac w)
     (simp add: wireBlockerRecord_json_def wireBlockerRecord_fields_def zero_wireBlockerRecord_def
        wireBlockerRecord_ok_def received_wireBlockerRecord_def
        reads_slice [OF reads_wirePromptQuestion] read_omitted_slice [OF reads_wirePromptQuestion]
        wire)

text \<open>The operator's provider: the client writes a map, whose keys are sorted.\<close>

record operator_provider =
  op_ProviderID :: string
  op_Model :: string

definition operator_provider_json :: "operator_provider \<Rightarrow> json" where
  "operator_provider_json w =
     JObj [(''model'', JStr (op_Model w)), (''provider_id'', JStr (op_ProviderID w))]"

definition zero_operator_provider :: operator_provider where
  "zero_operator_provider = \<lparr>op_ProviderID = '''', op_Model = ''''\<rparr>"

definition operator_provider_fields :: "operator_provider fields" where
  "operator_provider_fields =
     [(''provider_id'', field op_ProviderID op_ProviderID_update read_string),
      (''model'', field op_Model op_Model_update read_string)]"

lemma reads_operator_provider:
  "reads (read_struct operator_provider_fields) operator_provider_json (\<lambda>w. w) (\<lambda>w. True) zero_operator_provider"
  by (rule readsI, rename_tac w, case_tac w)
     (simp add: operator_provider_json_def operator_provider_fields_def zero_operator_provider_def
        field_def find_field_def)

lemma reads_strings: "reads (read_slice read_string '''') (slice_json JStr) (\<lambda>x. x) (slice_ok (\<lambda>_. True)) None"
  using reads_slices [OF reads_string] by (simp add: wire)

section \<open>Values of the service\<close>

record JobListFilter =
  JobListFilter_Status :: "string option"
  JobListFilter_Type :: "string option"
  JobListFilter_Limit :: int
  JobListFilter_Offset :: int

record OperatorStatus =
  OperatorStatus_State :: string
  OperatorStatus_CurrentTurnID :: string
  OperatorStatus_ModelName :: string
  OperatorStatus_Endpoint :: string
  OperatorStatus_ContextWindow :: go_int

record HealthStatus =
  HealthStatus_Status :: string
  HealthStatus_Version :: string
  HealthStatus_Uptime :: go_int

record BlockerRecord =
  BlockerRecord_Blocker :: Blocker
  BlockerRecord_ResolvedAt :: timestamp
  BlockerRecord_Disposition :: string
  BlockerRecord_Answer :: string

section \<open>The interfaces of the service\<close>

text \<open>A call answers, returns an error, or panics; whatever it does, it may change the state.\<close>

datatype 'a answer = Answer 'a | Failed go_error | Crashed string

type_synonym ('s, 'a) op = "'s \<Rightarrow> 'a answer \<times> 's"

record 's OperatorService =
  os_SendMessage :: "string \<Rightarrow> ('s, string) op"
  os_RespondToPrompt :: "string \<Rightarrow> string \<Rightarrow> ('s, unit) op"
  os_DismissPrompt :: "string \<Rightarrow> ('s, unit) op"
  os_Blockers :: "('s, Blocker slice) op"
  os_BlockerHistory :: "int \<Rightarrow> ('s, BlockerRecord slice) op"
  os_Status :: "('s, OperatorStatus) op"
  os_History :: "('s, ChatEntry slice) op"

record 's DefinitionService =
  ds_ListSkills :: "('s, Skill slice) op"
  ds_GetSkill :: "string \<Rightarrow> ('s, Skill) op"
  ds_CreateSkill :: "string \<Rightarrow> ('s, Skill) op"
  ds_DeleteSkill :: "string \<Rightarrow> ('s, unit) op"
  ds_GenerateSkill :: "string \<Rightarrow> ('s, string) op"
  ds_ListGraphs :: "('s, GraphDefinition slice) op"
  ds_GetGraph :: "string \<Rightarrow> ('s, GraphDefinition) op"

record 's JobService =
  js_List :: "JobListFilter option \<Rightarrow> ('s, Job slice) op"
  js_ListAll :: "('s, Job slice) op"
  js_Get :: "string \<Rightarrow> ('s, JobDetail) op"
  js_Cancel :: "string \<Rightarrow> ('s, unit) op"
  js_RetryTask :: "string \<Rightarrow> ('s, unit) op"

record 's SessionService =
  ss_List :: "('s, SessionSnapshot slice) op"
  ss_Get :: "string \<Rightarrow> ('s, SessionDetail) op"
  ss_Cancel :: "string \<Rightarrow> ('s, unit) op"

record 's SystemService =
  sy_Health :: "('s, HealthStatus) op"
  sy_ListModels :: "('s, ModelInfo slice) op"
  sy_ListMCPServers :: "('s, MCPServerStatus slice) op"
  sy_GetProgressState :: "('s, ProgressState) op"
  sy_GetLogs :: "('s, string) op"
  sy_ListCatalogProviders :: "('s, CatalogProvider slice) op"
  sy_AddProvider :: "AddProviderRequest \<Rightarrow> ('s, unit) op"
  sy_UpdateProvider :: "AddProviderRequest \<Rightarrow> ('s, unit) op"
  sy_ListConfiguredProviderIDs :: "('s, string slice) op"
  sy_SetOperatorProvider :: "string \<Rightarrow> string \<Rightarrow> ('s, unit) op"
  sy_ListProviderModels :: "string \<Rightarrow> ('s, ModelInfo slice) op"
  sy_GetSettings :: "('s, Settings) op"
  sy_UpdateSettings :: "Settings \<Rightarrow> ('s, unit) op"
  sy_Metrics :: "('s, MetricsReport) op"

record 's KnowledgeService =
  ks_ListJobNotes :: "string \<Rightarrow> ('s, NoteMeta slice) op"
  ks_ReadJobNote :: "string \<Rightarrow> string \<Rightarrow> ('s, string) op"

text \<open>The events of the service are modelled with the event stream.\<close>

record 's Service =
  svc_Operator :: "'s OperatorService"
  svc_Definitions :: "'s DefinitionService"
  svc_Jobs :: "'s JobService"
  svc_Sessions :: "'s SessionService"
  svc_System :: "'s SystemService"
  svc_Knowledge :: "'s KnowledgeService"

section \<open>Bodies on the wire\<close>

text \<open>
  \<open>json.NewDecoder(r).Decode\<close>: the first JSON value of the stream. The server's reader stops with
  an error after 1 MiB (\<open>http.MaxBytesReader\<close>), the client's ends there (\<open>io.LimitReader\<close>). A value
  that is not closed by a bracket is over only when the byte after it, or the end, has been seen.
\<close>

definition maxRequestBody :: nat where
  "maxRequestBody = 2 ^ 20"

definition maxResponseSize :: nat where
  "maxResponseSize = 10 * 2 ^ 20"

fun closes_itself :: "json \<Rightarrow> bool" where
  "closes_itself (JObj ms) = True"
| "closes_itself (JArr js) = True"
| "closes_itself _ = False"

definition first_value :: "string \<Rightarrow> (json \<times> string) option" where
  "first_value s = parse_value (Suc (length s)) s"

definition request_value :: "string \<Rightarrow> json option" where
  "request_value s =
     (case first_value (take maxRequestBody s) of
        None \<Rightarrow> None
      | Some (j, rest) \<Rightarrow>
          if rest = [] \<and> maxRequestBody < length s \<and> \<not> closes_itself j then None else Some j)"

definition response_value :: "string \<Rightarrow> json option" where
  "response_value s = map_option fst (first_value (take maxResponseSize s))"

lemma first_value_written:
  assumes "wf_json j" "ends_number r"
  shows "first_value (encode j @ r) = Some (j, r)"
  using wf_parses [OF assms(1)] assms(2) by (simp add: first_value_def parses_def del: parse_value.simps)

lemma request_value_written:
  assumes "wf_json j" "length (encode j) \<le> maxRequestBody"
  shows "request_value (encode j) = Some j"
  using first_value_written [OF assms(1), of "[]"] assms(2) by (simp add: request_value_def)

text \<open>\<open>json.Encoder.Encode\<close> ends the value with a line feed.\<close>

definition written :: "json \<Rightarrow> string" where
  "written j = encode j @ [CHR 0x0A]"

lemma response_value_written:
  assumes "wf_json j" "length (encode j) \<le> maxResponseSize"
  shows "response_value (written j) = Some j"
proof -
  have e: "ends_number r" if "r = [] \<or> r = [CHR 0x0A]" for r
    using that by (auto simp: ends_number_def number_char_def is_digit_def)
  have "take maxResponseSize (written j) = encode j @ take (maxResponseSize - length (encode j)) [CHR 0x0A]"
    using assms(2) by (simp add: written_def)
  moreover have "take (maxResponseSize - length (encode j)) [CHR 0x0A] \<in> {[], [CHR 0x0A :: char]}"
    by (cases "maxResponseSize - length (encode j)") simp_all
  ultimately show ?thesis
    using first_value_written [OF assms(1) e] by (auto simp: response_value_def)
qed

end
