(* ===== verification/HttpPaths.thy ===== *)
theory HttpPaths
  imports WireCodec
begin

text \<open>
  Paths and queries of the requests: \<open>url.PathEscape\<close>, \<open>url.Values.Encode\<close> and \<open>url.ParseQuery\<close> as
  the client and the server use them, the patterns of \<open>http.ServeMux\<close>, and \<open>strconv.Atoi\<close> on
  query values. A client that escapes an identifier reaches the handler with that identifier.
\<close>

section \<open>Percent encoding\<close>

definition unreserved :: "char \<Rightarrow> bool" where
  "unreserved c \<longleftrightarrow> (CHR ''a'' \<le> c \<and> c \<le> CHR ''z'') \<or> (CHR ''A'' \<le> c \<and> c \<le> CHR ''Z'')
     \<or> is_digit c \<or> c \<in> set ''-_.~''"

text \<open>\<open>shouldEscape\<close> for a path segment and for a part of a query.\<close>

definition segment_plain :: "char \<Rightarrow> bool" where
  "segment_plain c \<longleftrightarrow> unreserved c \<or> c \<in> set ''$&+=:@''"

definition upper_hex :: "nat \<Rightarrow> char" where
  "upper_hex n = (if n < 10 then char_of (48 + n) else char_of (55 + n))"

definition percent :: "char \<Rightarrow> string" where
  "percent c = [CHR ''%'', upper_hex (of_char c div 16), upper_hex (of_char c mod 16)]"

definition PathEscape :: "string \<Rightarrow> string" where
  "PathEscape s = concat (map (\<lambda>c. if segment_plain c then [c] else percent c) s)"

definition QueryEscape :: "string \<Rightarrow> string" where
  "QueryEscape s = concat (map (\<lambda>c. if unreserved c then [c] else if c = CHR '' '' then ''+'' else percent c) s)"

text \<open>\<open>unescape\<close>, for a path segment (a plus stands for itself) and for a query (for a space).\<close>

fun unescape :: "bool \<Rightarrow> string \<Rightarrow> string option" where
  "unescape query [] = Some []"
| "unescape query (c # s) =
     (if c = CHR ''%'' then
        (case s of
           a # b # t \<Rightarrow>
             (case (hex_val a, hex_val b) of
                (Some x, Some y) \<Rightarrow> map_option (\<lambda>u. char_of (x * 16 + y) # u) (unescape query t)
              | _ \<Rightarrow> None)
         | _ \<Rightarrow> None)
      else map_option (\<lambda>u. (if query \<and> c = CHR ''+'' then CHR '' '' else c) # u) (unescape query s))"

lemma hex_upper: "n < 16 \<Longrightarrow> hex_val (upper_hex n) = Some n"
  by (auto simp: upper_hex_def hex_val_def Let_def of_char_of take_bit_eq_mod)

lemma nibbles: "of_char c div 16 < (16 :: nat)" "of_char c mod 16 < (16 :: nat)"
  using of_char_bound [of c] by (simp_all add: less_mult_imp_div_less)

lemma unescape_percent: "unescape q (percent c @ s) = map_option ((#) c) (unescape q s)"
proof -
  have "hex_val (upper_hex (of_char c div 16)) = Some (of_char c div 16)"
      "hex_val (upper_hex (of_char c mod 16)) = Some (of_char c mod 16)"
    by (simp_all add: hex_upper nibbles)
  then show ?thesis by (simp add: percent_def)
qed

lemma unescape_path: "unescape False (PathEscape s) = Some s"
proof (induction s)
  case (Cons c s)
  have "segment_plain c \<Longrightarrow> c \<noteq> CHR ''%''"
    by (auto simp: segment_plain_def unreserved_def is_digit_def less_eq_char_def)
  then show ?case using Cons unescape_percent by (auto simp: PathEscape_def)
qed (simp add: PathEscape_def)

lemma unescape_query: "unescape True (QueryEscape s) = Some s"
proof (induction s)
  case (Cons c s)
  have "unreserved c \<Longrightarrow> c \<noteq> CHR ''%'' \<and> c \<noteq> CHR ''+''"
    by (auto simp: unreserved_def is_digit_def less_eq_char_def)
  then show ?case using Cons unescape_percent by (auto simp: QueryEscape_def)
qed (simp add: QueryEscape_def)

text \<open>The characters of an escaped text.\<close>

definition escaped_char :: "char \<Rightarrow> bool" where
  "escaped_char c \<longleftrightarrow> segment_plain c \<or> c = CHR ''%''"

lemma upper_hex_plain: "n < 16 \<Longrightarrow> unreserved (upper_hex n)"
  by (auto simp: upper_hex_def unreserved_def is_digit_def less_eq_char_def of_char_of take_bit_eq_mod)

lemma percent_chars: "d \<in> set (percent c) \<Longrightarrow> unreserved d \<or> d = CHR ''%''"
  by (auto simp: percent_def upper_hex_plain nibbles)

lemma path_chars: "d \<in> set (PathEscape s) \<Longrightarrow> segment_plain d \<or> d = CHR ''%''"
  by (auto simp: PathEscape_def segment_plain_def split: if_splits dest: percent_chars)

lemma query_chars: "d \<in> set (QueryEscape s) \<Longrightarrow> unreserved d \<or> d = CHR ''%'' \<or> d = CHR ''+''"
  by (auto simp: QueryEscape_def split: if_splits dest: percent_chars)

lemma path_separators: "CHR ''/'' \<notin> set (PathEscape s)" "CHR ''?'' \<notin> set (PathEscape s)"
  by (auto dest!: path_chars simp: segment_plain_def unreserved_def is_digit_def less_eq_char_def)

lemma query_separators:
  "CHR ''&'' \<notin> set (QueryEscape s)" "CHR ''='' \<notin> set (QueryEscape s)" "CHR '';'' \<notin> set (QueryEscape s)"
  by (auto dest!: query_chars simp: unreserved_def is_digit_def less_eq_char_def)

lemma path_escape_empty: "PathEscape s = [] \<longleftrightarrow> s = []"
  by (cases s) (simp_all add: PathEscape_def percent_def)

section \<open>Queries\<close>

type_synonym query = "(string \<times> string) list"

text \<open>\<open>url.Values.Encode\<close>; the keys the client sets come sorted.\<close>

definition encode_query :: "query \<Rightarrow> string" where
  "encode_query kvs = join_strings ''&'' (map (\<lambda>(k, v). QueryEscape k @ ''='' @ QueryEscape v) kvs)"

definition cut_at :: "char \<Rightarrow> string \<Rightarrow> string \<times> string" where
  "cut_at c s = (takeWhile (\<lambda>d. d \<noteq> c) s, drop 1 (dropWhile (\<lambda>d. d \<noteq> c) s))"

text \<open>
  \<open>url.ParseQuery\<close>: the parts between ampersands; an empty part, one with a semicolon and one with a
  bad escape are left out.
\<close>

definition parse_pair :: "string \<Rightarrow> (string \<times> string) option" where
  "parse_pair part =
     (if part = [] \<or> CHR '';'' \<in> set part then None
      else let (k, v) = cut_at (CHR ''='') part
           in case unescape True k of
                None \<Rightarrow> None
              | Some k' \<Rightarrow> map_option (Pair k') (unescape True v))"

definition parse_query :: "string \<Rightarrow> query" where
  "parse_query s = List.map_filter parse_pair (split_byte (CHR ''&'') s)"

text \<open>\<open>Values.Get\<close>: the first value, or the empty string.\<close>

definition query_get :: "query \<Rightarrow> string \<Rightarrow> string" where
  "query_get q k = (case map_of q k of Some v \<Rightarrow> v | None \<Rightarrow> [])"

lemma cut_at_sep: "c \<notin> set s \<Longrightarrow> cut_at c (s @ c # t) = (s, t)"
  by (simp add: cut_at_def takeWhile_append2 dropWhile_append)

lemma parse_pair_encoded: "parse_pair (QueryEscape k @ CHR ''='' # QueryEscape v) = Some (k, v)"
proof -
  have "CHR '';'' \<notin> set (QueryEscape k @ CHR ''='' # QueryEscape v)" using query_separators(3) by auto
  then show ?thesis
    using cut_at_sep [OF query_separators(2)] by (simp add: parse_pair_def unescape_query)
qed

lemma split_join_amp:
  "xs \<noteq> [] \<Longrightarrow> \<forall>x\<in>set xs. CHR ''&'' \<notin> set x \<Longrightarrow> split_byte (CHR ''&'') (join_strings ''&'' xs) = xs"
proof (induction xs)
  case (Cons x xs)
  then show ?case
    by (cases xs) (simp_all add: split_byte_plain split_byte_append)
qed simp

text \<open>The server reads the keys and values the client encodes.\<close>

lemma parse_encoded_query: "parse_query (encode_query kvs) = kvs"
proof (cases "kvs = []")
  case True
  then show ?thesis
    by (simp add: encode_query_def parse_query_def List.map_filter_def parse_pair_def)
next
  case False
  let ?part = "\<lambda>(k, v). QueryEscape k @ ''='' @ QueryEscape v"
  have "split_byte (CHR ''&'') (encode_query kvs) = map ?part kvs"
    unfolding encode_query_def by (rule split_join_amp) (use False query_separators(1) in auto)
  moreover have "List.map_filter parse_pair (map ?part kvs) = kvs"
    by (induction kvs) (auto simp: List.map_filter_def parse_pair_encoded)
  ultimately show ?thesis by (simp add: parse_query_def)
qed

text \<open>\<open>strconv.Atoi\<close>: an optional sign, decimal digits, and a value that fits 64 bits.\<close>

definition Atoi :: "string \<Rightarrow> int option" where
  "Atoi s =
     (let (neg, ds) = (case s of [] \<Rightarrow> (False, [])
                       | c # t \<Rightarrow> if c = CHR ''-'' then (True, t) else if c = CHR ''+'' then (False, t) else (False, s))
      in case parse_digits ds of
           None \<Rightarrow> None
         | Some n \<Rightarrow> (let i = (if neg then - int n else int n)
                      in if - (2 ^ 63) \<le> i \<and> i < 2 ^ 63 then Some i else None))"

lemma Atoi_digits: "int n < 2 ^ 63 \<Longrightarrow> Atoi (digits_of n) = Some (int n)"
proof -
  assume n: "int n < 2 ^ 63"
  obtain c s where d: "digits_of n = c # s" by (cases "digits_of n") simp_all
  have "is_digit c" using digits_of_digits [of n] d by simp
  then have "c \<noteq> CHR ''-''" "c \<noteq> CHR ''+''" by (auto simp: is_digit_def)
  then show ?thesis using n d parse_digits_of [of n] by (simp add: Atoi_def)
qed

section \<open>Route patterns\<close>

datatype segment = Lit string | Wild string

type_synonym pattern = "string \<times> segment list"

text \<open>
  \<open>ServeMux\<close> walks the escaped path segment by segment: a literal segment of the pattern matches a
  segment that unescapes to it, a wildcard matches any segment but the empty one a trailing slash
  leaves, and takes the unescaped segment. A segment that cannot be unescaped stands for itself.
\<close>

definition unescaped :: "string \<Rightarrow> string" where
  "unescaped s = (case unescape False s of Some t \<Rightarrow> t | None \<Rightarrow> s)"

fun match_segments :: "segment list \<Rightarrow> string list \<Rightarrow> (string \<times> string) list option" where
  "match_segments [] [] = Some []"
| "match_segments (Lit l # ps) (s # ss) = (if unescaped s = l then match_segments ps ss else None)"
| "match_segments (Wild n # ps) (s # ss) =
     (if s = [] then None else map_option ((#) (n, unescaped s)) (match_segments ps ss))"
| "match_segments _ _ = None"

text \<open>The segments of a path that starts with a slash.\<close>

definition path_segments :: "string \<Rightarrow> string list" where
  "path_segments p = split_byte (CHR ''/'') (drop 1 p)"

text \<open>
  \<open>cleanPath\<close> leaves a path alone exactly when it is rooted and has no empty segment but a last one,
  and no dot segments; every other path is answered with a redirection.
\<close>

definition clean_path :: "string \<Rightarrow> bool" where
  "clean_path p \<longleftrightarrow> has_prefix p ''/'' \<and> list_all (\<lambda>s. s \<noteq> []) (butlast (path_segments p)) \<and>
     list_all (\<lambda>s. s \<noteq> ''.'' \<and> s \<noteq> ''..'') (path_segments p)"

text \<open>\<open>GET\<close> patterns serve \<open>HEAD\<close> too.\<close>

definition method_matches :: "string \<Rightarrow> string \<Rightarrow> bool" where
  "method_matches pm m \<longleftrightarrow> pm = m \<or> (pm = ''GET'' \<and> m = ''HEAD'')"

fun pattern_match :: "pattern \<Rightarrow> string \<Rightarrow> string \<Rightarrow> (string \<times> string) list option" where
  "pattern_match (pm, segs) m p =
     (if method_matches pm m then match_segments segs (path_segments p) else None)"

text \<open>Two patterns that no request matches both.\<close>

fun segments_apart :: "segment list \<Rightarrow> segment list \<Rightarrow> bool" where
  "segments_apart [] [] = False"
| "segments_apart (Lit a # ps) (Lit b # qs) = (a \<noteq> b \<or> segments_apart ps qs)"
| "segments_apart (_ # ps) (_ # qs) = segments_apart ps qs"
| "segments_apart _ _ = True"

lemma match_ends [simp]:
  "match_segments [] ss = (if ss = [] then Some [] else None)" "match_segments (p # ps) [] = None"
  by (cases ss; simp) (cases p; simp)

lemma apart_excludes:
  "segments_apart ps qs \<Longrightarrow> match_segments ps ss \<noteq> None \<Longrightarrow> match_segments qs ss = None"
proof (induction ps arbitrary: qs ss)
  case Nil
  then show ?case by (cases qs) (auto split: if_splits)
next
  case (Cons p ps)
  show ?case
  proof (cases qs)
    case Nil
    then show ?thesis using Cons.prems(2) by (cases ss) auto
  next
    case qs: (Cons q qs')
    show ?thesis
      using Cons qs by (cases ss; cases p; cases q) (auto split: if_splits)
  qed
qed

text \<open>The path a client builds from literal segments and escaped values.\<close>

definition built_path :: "segment list \<Rightarrow> (string \<Rightarrow> string) \<Rightarrow> string" where
  "built_path segs v =
     concat (map (\<lambda>s. CHR ''/'' # (case s of Lit l \<Rightarrow> l | Wild n \<Rightarrow> PathEscape (v n))) segs)"

text \<open>Identifiers that come through: not empty and no dot segments.\<close>

definition id_ok :: "string \<Rightarrow> bool" where
  "id_ok s \<longleftrightarrow> s \<noteq> [] \<and> s \<noteq> ''.'' \<and> s \<noteq> ''..''"

definition lit_ok :: "string \<Rightarrow> bool" where
  "lit_ok l \<longleftrightarrow> id_ok l \<and> list_all (\<lambda>c. unreserved c) l"

fun names_of :: "segment list \<Rightarrow> string list" where
  "names_of [] = []"
| "names_of (Lit l # ps) = names_of ps"
| "names_of (Wild n # ps) = n # names_of ps"

definition segment_text :: "(string \<Rightarrow> string) \<Rightarrow> segment \<Rightarrow> string" where
  "segment_text v s = (case s of Lit l \<Rightarrow> l | Wild n \<Rightarrow> PathEscape (v n))"

definition segment_ok :: "(string \<Rightarrow> string) \<Rightarrow> segment \<Rightarrow> bool" where
  "segment_ok v s = (case s of Lit l \<Rightarrow> lit_ok l | Wild n \<Rightarrow> id_ok (v n))"

lemma lit_is_escaped: "lit_ok l \<Longrightarrow> PathEscape l = l"
proof -
  assume "lit_ok l"
  then have "list_all unreserved l" by (simp add: lit_ok_def)
  then show ?thesis by (induction l) (simp_all add: PathEscape_def segment_plain_def)
qed

lemma segment_text_escaped:
  "segment_ok v s \<Longrightarrow> segment_text v s = PathEscape (case s of Lit l \<Rightarrow> l | Wild n \<Rightarrow> v n)"
  by (cases s) (simp_all add: segment_text_def segment_ok_def lit_is_escaped)

lemma escape_dots: "PathEscape s = ''.'' \<longleftrightarrow> s = ''.''" "PathEscape s = ''..'' \<longleftrightarrow> s = ''..''"
proof -
  have e: "PathEscape ''.'' = ''.''" "PathEscape ''..'' = ''..''"
    by (simp_all add: PathEscape_def segment_plain_def unreserved_def)
  show "PathEscape s = ''.'' \<longleftrightarrow> s = ''.''" "PathEscape s = ''..'' \<longleftrightarrow> s = ''..''"
    using unescape_path [of s] unescape_path [of "''.''"] unescape_path [of "''..''"] e by (metis option.inject)+
qed

lemma segment_text_clean:
  assumes "segment_ok v s"
  shows "CHR ''/'' \<notin> set (segment_text v s)" "segment_text v s \<noteq> []"
    "segment_text v s \<noteq> ''.''" "segment_text v s \<noteq> ''..''"
  using assms segment_text_escaped [OF assms] path_separators(1)
  by (cases s; simp add: segment_ok_def lit_ok_def id_ok_def path_escape_empty escape_dots)+

lemma built_segments:
  "segs \<noteq> [] \<Longrightarrow> \<forall>s\<in>set segs. CHR ''/'' \<notin> set (segment_text v s) \<Longrightarrow>
   path_segments (built_path segs v) = map (segment_text v) segs"
proof -
  have shape: "concat (map (\<lambda>s. CHR ''/'' # segment_text v s) segs)
      = (if segs = [] then [] else CHR ''/'' # join_strings ''/'' (map (segment_text v) segs))" for segs
  proof (induction segs)
    case (Cons s segs)
    then show ?case by (cases segs) simp_all
  qed simp
  have split: "xs \<noteq> [] \<Longrightarrow> \<forall>x\<in>set xs. CHR ''/'' \<notin> set x \<Longrightarrow> split_byte (CHR ''/'') (join_strings ''/'' xs) = xs" for xs
  proof (induction xs)
    case (Cons x xs)
    then show ?case by (cases xs) (simp_all add: split_byte_plain split_byte_append)
  qed simp
  assume "segs \<noteq> []" "\<forall>s\<in>set segs. CHR ''/'' \<notin> set (segment_text v s)"
  then show ?thesis using shape [of segs] split [of "map (segment_text v) segs"]
    by (simp add: path_segments_def built_path_def segment_text_def [abs_def])
qed

lemma match_built:
  "\<forall>s\<in>set segs. segment_ok v s \<Longrightarrow>
   match_segments segs (map (segment_text v) segs) = Some (map (\<lambda>n. (n, v n)) (names_of segs))"
proof (induction segs)
  case (Cons s segs)
  have ok: "segment_ok v s" using Cons.prems by simp
  have "unescaped (segment_text v s) = (case s of Lit l \<Rightarrow> l | Wild n \<Rightarrow> v n)"
    using segment_text_escaped [OF ok] by (simp add: unescaped_def unescape_path)
  then show ?case using Cons segment_text_clean(2) [OF ok] by (cases s) simp_all
qed simp

lemma built_path_reaches:
  assumes "segs \<noteq> []" "\<forall>s\<in>set segs. segment_ok v s" "method_matches pm m"
  shows "clean_path (built_path segs v) \<and>
    pattern_match (pm, segs) m (built_path segs v) = Some (map (\<lambda>n. (n, v n)) (names_of segs))"
proof -
  have segs: "path_segments (built_path segs v) = map (segment_text v) segs"
    using assms segment_text_clean(1) by (intro built_segments) auto
  moreover have "has_prefix (built_path segs v) ''/''"
    using assms(1) by (cases segs) (simp_all add: built_path_def has_prefix_code)
  moreover have "list_all (\<lambda>s. s \<noteq> [] \<and> s \<noteq> ''.'' \<and> s \<noteq> ''..'') (map (segment_text v) segs)"
    using assms(2) segment_text_clean by (auto simp: list_all_iff)
  moreover from this have "list_all (\<lambda>s. s \<noteq> []) (butlast (map (segment_text v) segs))"
    unfolding list_all_iff by (meson in_set_butlastD)
  ultimately show ?thesis
    using match_built [OF assms(2)] assms(3)
    by (simp add: clean_path_def list_all_iff)
qed

end
