(* ===== verification/HttpServer.thy ===== *)
theory HttpServer
  imports HttpBodies HttpPaths
begin

text \<open>
  The HTTP server (\<open>internal/server\<close>): the response writer, the helpers of \<open>helpers.go\<close>, the
  middleware of \<open>middleware.go\<close> in the order \<open>Start\<close> chains it, the routes and the handlers of
  \<open>handlers.go\<close>. A handler gets the request and a connection, which holds the writer, the state of
  the service and the log; it returns or panics. The service is a record of operations, so that the
  handlers are those of any service. The event stream's handler, the request ids \<open>uuid.NewV4\<close> makes,
  the host of an origin (\<open>url.Parse\<close>) and the redirection of an unclean path are parameters.
\<close>

section \<open>Requests and responses\<close>

type_synonym headers = "(string \<times> string) list"

record request =
  rq_Method :: string
  rq_Path :: string                       \<comment> \<open>escaped, as sent\<close>
  rq_RawQuery :: string
  rq_Header :: headers                    \<comment> \<open>canonical keys\<close>
  rq_Body :: "string option"
  rq_ContentLength :: int                 \<comment> \<open>-1 when it is not known\<close>
  rq_RequestID :: "string option"         \<comment> \<open>the value of the context\<close>
  rq_PathValues :: "(string \<times> string) list"

definition header_get :: "headers \<Rightarrow> string \<Rightarrow> string" where
  "header_get h k = (case map_of h k of Some v \<Rightarrow> v | None \<Rightarrow> [])"

definition url_path :: "request \<Rightarrow> string" where
  "url_path r = unescaped (rq_Path r)"

definition url_query :: "request \<Rightarrow> string \<Rightarrow> string" where
  "url_query r k = query_get (parse_query (rq_RawQuery r)) k"

definition path_value :: "request \<Rightarrow> string \<Rightarrow> string" where
  "path_value r k = (case map_of (rq_PathValues r) k of Some v \<Rightarrow> v | None \<Rightarrow> [])"

text \<open>
  The response writer: the first \<open>WriteHeader\<close> fixes the status and the headers, a write without one
  means 200, and a second \<open>WriteHeader\<close> is ignored.
\<close>

record writer =
  w_Header :: headers
  w_Sent :: "(nat \<times> headers) option"
  w_Body :: string

definition set_header :: "string \<Rightarrow> string \<Rightarrow> writer \<Rightarrow> writer" where
  "set_header k v w = w\<lparr>w_Header := AList.update k v (w_Header w)\<rparr>"

definition write_header :: "nat \<Rightarrow> writer \<Rightarrow> writer" where
  "write_header code w = (case w_Sent w of None \<Rightarrow> w\<lparr>w_Sent := Some (code, w_Header w)\<rparr> | Some _ \<Rightarrow> w)"

definition write_body :: "string \<Rightarrow> writer \<Rightarrow> writer" where
  "write_body b w = (write_header 200 w)\<lparr>w_Body := w_Body w @ b\<rparr>"

record response =
  rs_Status :: nat
  rs_Header :: headers
  rs_Body :: string

text \<open>What is sent when the handler is done: no body to \<open>HEAD\<close> and none with 204.\<close>

definition finish :: "string \<Rightarrow> writer \<Rightarrow> response" where
  "finish m w =
     (let (code, h) = (case w_Sent w of Some sent \<Rightarrow> sent | None \<Rightarrow> (200, w_Header w))
      in \<lparr>rs_Status = code, rs_Header = h, rs_Body = (if m = ''HEAD'' \<or> code = 204 then [] else w_Body w)\<rparr>)"

datatype log_entry =
    LogInternal string string string string     \<comment> \<open>error, method, path, request id\<close>
  | LogPanic string string string string
  | LogRequest string string nat string         \<comment> \<open>method, path, status, request id\<close>
  | LogModels string string                     \<comment> \<open>provider, error\<close>

record 's conn =
  cn_W :: writer
  cn_Svc :: 's
  cn_Log :: "log_entry list"

datatype 'c outcome = Returned 'c | Panicked 'c string

type_synonym 's handler = "request \<Rightarrow> 's conn \<Rightarrow> 's conn outcome"

definition on_writer :: "(writer \<Rightarrow> writer) \<Rightarrow> 's conn \<Rightarrow> 's conn" where
  "on_writer f c = c\<lparr>cn_W := f (cn_W c)\<rparr>"

definition add_log :: "log_entry \<Rightarrow> 's conn \<Rightarrow> 's conn" where
  "add_log e c = c\<lparr>cn_Log := cn_Log c @ [e]\<rparr>"

text \<open>A call of the service: on an answer or an error the handler goes on, a panic goes up.\<close>

definition call :: "('s, 'a) op \<Rightarrow> (go_error \<Rightarrow> 's conn \<Rightarrow> 's conn outcome)
    \<Rightarrow> ('a \<Rightarrow> 's conn \<Rightarrow> 's conn outcome) \<Rightarrow> 's conn \<Rightarrow> 's conn outcome" where
  "call f bad ok c =
     (case f (cn_Svc c) of
        (Answer x, s) \<Rightarrow> ok x (c\<lparr>cn_Svc := s\<rparr>)
      | (Failed e, s) \<Rightarrow> bad e (c\<lparr>cn_Svc := s\<rparr>)
      | (Crashed msg, s) \<Rightarrow> Panicked (c\<lparr>cn_Svc := s\<rparr>) msg)"

section \<open>Helpers\<close>

definition writeJSON :: "nat \<Rightarrow> json \<Rightarrow> writer \<Rightarrow> writer" where
  "writeJSON status v w = write_body (written v) (write_header status (set_header ''Content-Type'' ''application/json'' w))"

definition writeError :: "nat \<Rightarrow> string \<Rightarrow> string \<Rightarrow> writer \<Rightarrow> writer" where
  "writeError status code msg =
     writeJSON status (ErrorResponse_json \<lparr>ErrorResponse_Error = \<lparr>ErrorDetail_Code = code, ErrorDetail_Message = msg\<rparr>\<rparr>)"

definition reply_json :: "nat \<Rightarrow> json \<Rightarrow> 's conn \<Rightarrow> 's conn outcome" where
  "reply_json status v c = Returned (on_writer (writeJSON status v) c)"

definition reply_error :: "nat \<Rightarrow> string \<Rightarrow> string \<Rightarrow> 's conn \<Rightarrow> 's conn outcome" where
  "reply_error status code msg c = Returned (on_writer (writeError status code msg) c)"

definition reply_status :: "nat \<Rightarrow> 's conn \<Rightarrow> 's conn outcome" where
  "reply_status status c = Returned (on_writer (write_header status) c)"

definition bad_request :: "string \<Rightarrow> 's conn \<Rightarrow> 's conn outcome" where
  "bad_request msg = reply_error 400 ''bad_request'' msg"

definition decodeBody :: "'a fields \<Rightarrow> 'a \<Rightarrow> ('a \<Rightarrow> 's conn \<Rightarrow> 's conn outcome) \<Rightarrow> 's handler" where
  "decodeBody fs zero k r c =
     (case rq_Body r of
        None \<Rightarrow> bad_request ''request body is required'' c
      | Some b \<Rightarrow>
          (case Option.bind (request_value b) (\<lambda>j. read_struct fs j zero) of
             None \<Rightarrow> bad_request ''invalid JSON in request body'' c
           | Some v \<Rightarrow> k v c))"

definition mapServiceError :: "go_error \<Rightarrow> nat \<times> string" where
  "mapServiceError e =
     (if errors_is e ErrNotFound then (404, ''not_found'')
      else if errors_is e ErrConflict then (409, ''conflict'')
      else if errors_is e ErrInvalid then (422, ''unprocessable_entity'')
      else if errors_is e ErrBusy then (429, ''too_many_requests'')
      else if errors_is e ErrUnavailable then (503, ''service_unavailable'')
      else if contains_sub (error_text e) ''invalid provider ID'' then (422, ''unprocessable_entity'')
      else (500, ''internal_error''))"

definition requestID :: "request \<Rightarrow> string" where
  "requestID r = (case rq_RequestID r of Some i \<Rightarrow> i | None \<Rightarrow> [])"

definition handleServiceError :: "request \<Rightarrow> go_error \<Rightarrow> 's conn \<Rightarrow> 's conn outcome" where
  "handleServiceError r e c =
     (let (status, code) = mapServiceError e
      in if status = 500
         then reply_error status code ''internal server error''
                (add_log (LogInternal (error_text e) (rq_Method r) (url_path r) (requestID r)) c)
         else reply_error status code (SanitizeErrorMessage (error_text e)) c)"

definition setRetryAfterIfRateLimited :: "go_error \<Rightarrow> 's conn \<Rightarrow> 's conn" where
  "setRetryAfterIfRateLimited e c =
     (if snd (mapServiceError e) = ''too_many_requests'' then on_writer (set_header ''Retry-After'' ''5'') c else c)"

record PaginationParams =
  pg_Limit :: int
  pg_Offset :: int

definition parsePagination :: "request \<Rightarrow> string + PaginationParams" where
  "parsePagination r =
     (let v = url_query r ''limit''; u = url_query r ''offset'' in
      bindR (if v = [] then Inr 50
             else case Atoi v of
                    None \<Rightarrow> Inl (''invalid limit: '' @ v)
                  | Some n \<Rightarrow> if n < 0 \<or> 200 < n then Inl (''limit must be between 0 and 200, got '' @ fmt_int n) else Inr n)
        (\<lambda>limit.
          bindR (if u = [] then Inr 0
                 else case Atoi u of
                        None \<Rightarrow> Inl (''invalid offset: '' @ u)
                      | Some n \<Rightarrow> if n < 0 then Inl (''offset must be non-negative, got '' @ fmt_int n) else Inr n)
            (\<lambda>offset. Inr \<lparr>pg_Limit = limit, pg_Offset = offset\<rparr>)))"

text \<open>The limit is at most 200 and the offset below the length, so the sum does not overflow.\<close>

definition paginate :: "'a list \<Rightarrow> PaginationParams \<Rightarrow> 'a list \<times> nat" where
  "paginate items p =
     (let n = length items in
      if pg_Offset p \<ge> int n then ([], n)
      else let e = pg_Offset p + pg_Limit p;
               stop = (if e > int n then int n else e)
           in (drop (nat (pg_Offset p)) (take (nat stop) items), n))"

definition page_json :: "('a \<Rightarrow> json) \<Rightarrow> 'a list \<Rightarrow> nat \<Rightarrow> json" where
  "page_json f items n =
     PaginatedResponse_json f \<lparr>PaginatedResponse_Items = Some items, PaginatedResponse_Total = of_nat n\<rparr>"

definition reply_list :: "('a \<Rightarrow> json) \<Rightarrow> 'a list \<Rightarrow> 's conn \<Rightarrow> 's conn outcome" where
  "reply_list f items = reply_json 200 (page_json f items (length items))"

definition status_ok :: json where
  "status_ok = JObj [(''status'', JStr ''ok'')]"

section \<open>Operator handlers\<close>

definition maxMessageBytes :: nat where
  "maxMessageBytes = 100000"

definition maxPromptBytes :: nat where
  "maxPromptBytes = 10000"

definition maxResponseBytes :: nat where
  "maxResponseBytes = 50000"

definition too_long :: "string \<Rightarrow> string \<Rightarrow> nat \<Rightarrow> string" where
  "too_long what s bound = what @ '' too long: '' @ digits_of (length s) @ '' bytes exceeds maximum '' @ digits_of bound"

definition sendMessage :: "'s Service \<Rightarrow> 's handler" where
  "sendMessage svc r =
     decodeBody SendMessageRequest_fields zero_SendMessageRequest (\<lambda>req.
       let m = SendMessageRequest_Message req in
       if is_blank m then bad_request ''message is required''
       else if maxMessageBytes < length m then bad_request (too_long ''message'' m maxMessageBytes)
       else call (os_SendMessage (svc_Operator svc) m) (handleServiceError r)
              (\<lambda>turn. reply_json 202 (TurnResponse_json \<lparr>TurnResponse_TurnID = turn\<rparr>))) r"

definition respondToPrompt :: "'s Service \<Rightarrow> 's handler" where
  "respondToPrompt svc r c =
     (let i = path_value r ''requestId'' in
      if i = [] then bad_request ''requestId is required'' c
      else decodeBody RespondToPromptRequest_fields zero_RespondToPromptRequest (\<lambda>req.
        let a = RespondToPromptRequest_Response req in
        if is_blank a then bad_request ''response is required''
        else if maxResponseBytes < length a then bad_request (too_long ''response'' a maxResponseBytes)
        else call (os_RespondToPrompt (svc_Operator svc) i a) (handleServiceError r) (\<lambda>_. reply_status 204)) r c)"

definition dismissPrompt :: "'s Service \<Rightarrow> 's handler" where
  "dismissPrompt svc r c =
     (let i = path_value r ''requestId'' in
      if i = [] then bad_request ''requestId is required'' c
      else call (os_DismissPrompt (svc_Operator svc) i) (handleServiceError r) (\<lambda>_. reply_status 204) c)"

definition operatorStatus :: "'s Service \<Rightarrow> 's handler" where
  "operatorStatus svc r =
     call (os_Status (svc_Operator svc)) (handleServiceError r)
       (\<lambda>st. reply_json 200 (OperatorStatusResponse_json
          \<lparr>OperatorStatusResponse_State = OperatorStatus_State st,
           OperatorStatusResponse_CurrentTurnID = OperatorStatus_CurrentTurnID st,
           OperatorStatusResponse_ModelName = OperatorStatus_ModelName st,
           OperatorStatusResponse_Endpoint = OperatorStatus_Endpoint st,
           OperatorStatusResponse_ContextWindow = OperatorStatus_ContextWindow st\<rparr>))"

definition operatorHistory :: "'s Service \<Rightarrow> 's handler" where
  "operatorHistory svc r =
     call (os_History (svc_Operator svc)) (handleServiceError r)
       (\<lambda>entries. reply_list wireChatEntry_json (map chatEntryToWire (elems entries)))"

definition question_to_wire :: "PromptQuestion \<Rightarrow> wirePromptQuestion" where
  "question_to_wire q =
     \<lparr>wirePromptQuestion_Question = PromptQuestion_Question q, wirePromptQuestion_Options = PromptQuestion_Options q\<rparr>"

definition blocker_to_wire :: "Blocker \<Rightarrow> wireBlockerPayload" where
  "blocker_to_wire b =
     \<lparr>wireBlockerPayload_RequestID = Blocker_RequestID b, wireBlockerPayload_Source = Blocker_Source b,
      wireBlockerPayload_JobID = Blocker_JobID b, wireBlockerPayload_TaskID = Blocker_TaskID b,
      wireBlockerPayload_Questions = appended (map question_to_wire (elems (Blocker_Questions b))),
      wireBlockerPayload_CreatedAt = Blocker_CreatedAt b\<rparr>"

definition operatorBlockers :: "'s Service \<Rightarrow> 's handler" where
  "operatorBlockers svc r =
     call (os_Blockers (svc_Operator svc)) (handleServiceError r)
       (\<lambda>bs. reply_list wireBlockerPayload_json (map blocker_to_wire (elems bs)))"

definition blocker_record_to_wire :: "BlockerRecord \<Rightarrow> wireBlockerRecord" where
  "blocker_record_to_wire rec =
     wireBlockerPayload.extend (blocker_to_wire (BlockerRecord_Blocker rec))
       (wireBlockerRecord.fields (BlockerRecord_ResolvedAt rec) (BlockerRecord_Disposition rec) (BlockerRecord_Answer rec))"

definition blockerHistory :: "'s Service \<Rightarrow> 's handler" where
  "blockerHistory svc r =
     (let v = url_query r ''limit'' in
      case (if v = [] then Some 0 else Atoi v) of
        None \<Rightarrow> bad_request ''limit must be a non-negative integer''
      | Some limit \<Rightarrow>
          if limit < 0 then bad_request ''limit must be a non-negative integer''
          else call (os_BlockerHistory (svc_Operator svc) limit) (handleServiceError r)
                 (\<lambda>recs. reply_list wireBlockerRecord_json (map blocker_record_to_wire (elems recs))))"

section \<open>Definition handlers\<close>

definition reply_page :: "('a \<Rightarrow> json) \<Rightarrow> 'a list \<Rightarrow> PaginationParams \<Rightarrow> 's conn \<Rightarrow> 's conn outcome" where
  "reply_page f items pg = (let (page, n) = paginate items pg in reply_json 200 (page_json f page n))"

definition listSkills :: "'s Service \<Rightarrow> 's handler" where
  "listSkills svc r =
     (case parsePagination r of
        Inl msg \<Rightarrow> bad_request msg
      | Inr pg \<Rightarrow>
          call (ds_ListSkills (svc_Definitions svc)) (handleServiceError r)
            (\<lambda>skills. reply_page wireSkill_json (map skillToWire (elems skills)) pg))"

definition getSkill :: "'s Service \<Rightarrow> 's handler" where
  "getSkill svc r =
     call (ds_GetSkill (svc_Definitions svc) (path_value r ''id'')) (handleServiceError r)
       (\<lambda>sk. reply_json 200 (wireSkill_json (skillToWire sk)))"

definition createSkill :: "'s Service \<Rightarrow> 's handler" where
  "createSkill svc r =
     decodeBody CreateSkillRequest_fields zero_CreateSkillRequest (\<lambda>req.
       if is_blank (CreateSkillRequest_Name req) then bad_request ''name is required''
       else call (ds_CreateSkill (svc_Definitions svc) (CreateSkillRequest_Name req)) (handleServiceError r)
              (\<lambda>sk c. reply_json 201 (wireSkill_json (skillToWire sk))
                 (on_writer (set_header ''Location'' (''/api/v1/skills/'' @ Skill_ID sk)) c))) r"

definition deleteSkill :: "'s Service \<Rightarrow> 's handler" where
  "deleteSkill svc r =
     call (ds_DeleteSkill (svc_Definitions svc) (path_value r ''id'')) (handleServiceError r) (\<lambda>_. reply_status 204)"

definition generateSkill :: "'s Service \<Rightarrow> 's handler" where
  "generateSkill svc r =
     decodeBody GenerateRequest_fields zero_GenerateRequest (\<lambda>req.
       let p = GenerateRequest_Prompt req in
       if is_blank p then bad_request ''prompt is required''
       else if maxPromptBytes < length p then bad_request (too_long ''prompt'' p maxPromptBytes)
       else call (ds_GenerateSkill (svc_Definitions svc) p)
              (\<lambda>e c. handleServiceError r e (setRetryAfterIfRateLimited e c))
              (\<lambda>opid. reply_json 202 (AsyncResponse_json \<lparr>AsyncResponse_OperationID = opid\<rparr>))) r"

definition listGraphs :: "'s Service \<Rightarrow> 's handler" where
  "listGraphs svc r =
     (case parsePagination r of
        Inl msg \<Rightarrow> bad_request msg
      | Inr pg \<Rightarrow>
          call (ds_ListGraphs (svc_Definitions svc)) (handleServiceError r)
            (\<lambda>graphs. reply_page wireGraphDefinition_json (map graphDefinitionToWire (elems graphs)) pg))"

definition getGraph :: "'s Service \<Rightarrow> 's handler" where
  "getGraph svc r =
     call (ds_GetGraph (svc_Definitions svc) (path_value r ''id'')) (handleServiceError r)
       (\<lambda>g. reply_json 200 (wireGraphDefinition_json (graphDefinitionToWire g)))"

section \<open>Job, task and session handlers\<close>

definition validJobStatuses :: "string list" where
  "validJobStatuses = [''pending'', ''setting_up'', ''decomposing'', ''active'', ''paused'', ''completed'',
     ''failed'', ''cancelled'']"

text \<open>The second query, without a page, counts; when it fails the length of the page is the total.\<close>

definition listJobs :: "'s Service \<Rightarrow> 's handler" where
  "listJobs svc r =
     (if url_query r ''all'' = ''true''
      then call (js_ListAll (svc_Jobs svc)) (handleServiceError r)
             (\<lambda>jobs. reply_list wireJob_json (map jobToWire (elems jobs)))
      else case parsePagination r of
        Inl msg \<Rightarrow> bad_request msg
      | Inr pg \<Rightarrow>
          (let st = url_query r ''status''; ty = url_query r ''type'' in
           if st \<noteq> [] \<and> st \<notin> set validJobStatuses then bad_request (''invalid status filter: '' @ fmt_q st)
           else let filt = \<lparr>JobListFilter_Status = (if st = [] then None else Some st),
                            JobListFilter_Type = (if ty = [] then None else Some ty),
                            JobListFilter_Limit = pg_Limit pg, JobListFilter_Offset = pg_Offset pg\<rparr>
                in call (js_List (svc_Jobs svc) (Some filt)) (handleServiceError r) (\<lambda>jobs.
                     call (js_List (svc_Jobs svc) (Some (filt\<lparr>JobListFilter_Limit := 0, JobListFilter_Offset := 0\<rparr>)))
                       (\<lambda>_. reply_list wireJob_json (map jobToWire (elems jobs)))
                       (\<lambda>everything. reply_json 200
                          (page_json wireJob_json (map jobToWire (elems jobs)) (length (elems everything)))))))"

definition getJob :: "'s Service \<Rightarrow> 's handler" where
  "getJob svc r =
     call (js_Get (svc_Jobs svc) (path_value r ''id'')) (handleServiceError r)
       (\<lambda>jd. reply_json 200 (wireJobDetail_json (jobDetailToWire jd)))"

definition cancelJob :: "'s Service \<Rightarrow> 's handler" where
  "cancelJob svc r =
     call (js_Cancel (svc_Jobs svc) (path_value r ''id'')) (handleServiceError r) (\<lambda>_. reply_status 204)"

definition listJobNotes :: "'s Service \<Rightarrow> 's handler" where
  "listJobNotes svc r =
     call (ks_ListJobNotes (svc_Knowledge svc) (path_value r ''id'')) (handleServiceError r)
       (\<lambda>notes. reply_list wireNoteMeta_json (map noteMetaToWire (elems notes)))"

definition getJobNote :: "'s Service \<Rightarrow> 's handler" where
  "getJobNote svc r =
     call (ks_ReadJobNote (svc_Knowledge svc) (path_value r ''id'') (path_value r ''noteID'')) (handleServiceError r)
       (\<lambda>content. reply_json 200 (noteContentResponse_json \<lparr>noteContentResponse_Content = content\<rparr>))"

definition retryTask :: "'s Service \<Rightarrow> 's handler" where
  "retryTask svc r =
     call (js_RetryTask (svc_Jobs svc) (path_value r ''id'')) (handleServiceError r) (\<lambda>_. reply_status 204)"

definition listSessions :: "'s Service \<Rightarrow> 's handler" where
  "listSessions svc r =
     (case parsePagination r of
        Inl msg \<Rightarrow> bad_request msg
      | Inr pg \<Rightarrow>
          call (ss_List (svc_Sessions svc)) (handleServiceError r)
            (\<lambda>snaps. reply_page wireSessionSnapshot_json (map sessionSnapshotToWire (elems snaps)) pg))"

definition getSession :: "'s Service \<Rightarrow> 's handler" where
  "getSession svc r =
     call (ss_Get (svc_Sessions svc) (path_value r ''id'')) (handleServiceError r)
       (\<lambda>sd. reply_json 200 (wireSessionDetail_json (sessionDetailToWire sd)))"

definition cancelSession :: "'s Service \<Rightarrow> 's handler" where
  "cancelSession svc r =
     call (ss_Cancel (svc_Sessions svc) (path_value r ''id'')) (handleServiceError r) (\<lambda>_. reply_status 204)"

section \<open>System handlers\<close>

text \<open>\<open>Duration.Seconds\<close> is floating-point arithmetic: a parameter.\<close>

definition health :: "(go_int \<Rightarrow> json_float) \<Rightarrow> 's Service \<Rightarrow> 's handler" where
  "health seconds svc r =
     call (sy_Health (svc_System svc)) (handleServiceError r)
       (\<lambda>h. reply_json 200 (HealthResponse_json
          \<lparr>HealthResponse_Status = HealthStatus_Status h, HealthResponse_Version = HealthStatus_Version h,
           HealthResponse_UptimeSeconds = seconds (HealthStatus_Uptime h)\<rparr>))"

definition listModels :: "'s Service \<Rightarrow> 's handler" where
  "listModels svc r =
     call (sy_ListModels (svc_System svc)) (handleServiceError r)
       (\<lambda>models. reply_list wireModelInfo_json (map modelInfoToWire (elems models)))"

definition provider_request :: "wireAddProviderRequest \<Rightarrow> AddProviderRequest" where
  "provider_request req =
     \<lparr>AddProviderRequest_ID = wireAddProviderRequest_ID req, AddProviderRequest_Name = wireAddProviderRequest_Name req,
      AddProviderRequest_Type = wireAddProviderRequest_Type req,
      AddProviderRequest_Endpoint = wireAddProviderRequest_Endpoint req,
      AddProviderRequest_APIKey = wireAddProviderRequest_APIKey req\<rparr>"

definition addProvider :: "'s Service \<Rightarrow> 's handler" where
  "addProvider svc r =
     decodeBody wireAddProviderRequest_fields zero_wireAddProviderRequest (\<lambda>req.
       call (sy_AddProvider (svc_System svc) (provider_request req)) (handleServiceError r)
         (\<lambda>_. reply_json 201 status_ok)) r"

definition updateProvider :: "'s Service \<Rightarrow> 's handler" where
  "updateProvider svc r =
     decodeBody wireAddProviderRequest_fields zero_wireAddProviderRequest (\<lambda>req.
       call (sy_UpdateProvider (svc_System svc) (provider_request req)) (handleServiceError r)
         (\<lambda>_. reply_json 200 status_ok)) r"

definition listConfiguredProviderIDs :: "'s Service \<Rightarrow> 's handler" where
  "listConfiguredProviderIDs svc r =
     call (sy_ListConfiguredProviderIDs (svc_System svc)) (handleServiceError r)
       (\<lambda>ids. reply_json 200 (slice_json JStr ids))"

definition setOperatorProvider :: "'s Service \<Rightarrow> 's handler" where
  "setOperatorProvider svc r =
     decodeBody operator_provider_fields zero_operator_provider (\<lambda>req.
       call (sy_SetOperatorProvider (svc_System svc) (op_ProviderID req) (op_Model req)) (handleServiceError r)
         (\<lambda>_. reply_json 200 status_ok)) r"

definition listProviderModels :: "'s Service \<Rightarrow> 's handler" where
  "listProviderModels svc r =
     (let i = path_value r ''id'' in
      call (sy_ListProviderModels (svc_System svc) i)
        (\<lambda>e c. reply_error 502 ''provider_error'' (SanitizeErrorMessage (error_text e))
                 (add_log (LogModels i (error_text e)) c))
        (\<lambda>models. reply_list wireModelInfo_json (map modelInfoToWire (elems models))))"

definition listCatalog :: "'s Service \<Rightarrow> 's handler" where
  "listCatalog svc r =
     call (sy_ListCatalogProviders (svc_System svc)) (handleServiceError r)
       (\<lambda>ps. reply_list wireCatalogProvider_json (map catalogProviderToWire (elems ps)))"

definition listMCPServers :: "'s Service \<Rightarrow> 's handler" where
  "listMCPServers svc r =
     call (sy_ListMCPServers (svc_System svc)) (handleServiceError r)
       (\<lambda>servers. reply_list wireMCPServerStatus_json (map mcpServerStatusToWire (elems servers)))"

definition getProgress :: "'s Service \<Rightarrow> 's handler" where
  "getProgress svc r =
     call (sy_GetProgressState (svc_System svc)) (handleServiceError r)
       (\<lambda>ps. reply_json 200 (wireProgressState_json (progressStateToWire ps)))"

definition getSettings :: "'s Service \<Rightarrow> 's handler" where
  "getSettings svc r =
     call (sy_GetSettings (svc_System svc)) (handleServiceError r) (\<lambda>st. reply_json 200 (Settings_json st))"

definition updateSettings :: "'s Service \<Rightarrow> 's handler" where
  "updateSettings svc r =
     decodeBody Settings_fields zero_Settings (\<lambda>req.
       call (sy_UpdateSettings (svc_System svc) req)
         (\<lambda>e. bad_request (SanitizeErrorMessage (error_text e)))
         (\<lambda>_. reply_json 200 status_ok)) r"

definition getLogs :: "'s Service \<Rightarrow> 's handler" where
  "getLogs svc r =
     call (sy_GetLogs (svc_System svc)) (handleServiceError r)
       (\<lambda>content. reply_json 200 (logsResponse_json \<lparr>logsResponse_Content = content\<rparr>))"

definition getMetrics :: "'s Service \<Rightarrow> 's handler" where
  "getMetrics svc r =
     call (sy_Metrics (svc_System svc)) (handleServiceError r)
       (\<lambda>report. reply_json 200 (wireMetricsReport_json (metricsReportToWire report)))"

section \<open>Routes\<close>

definition api :: "segment list \<Rightarrow> segment list" where
  "api segs = [Lit ''api'', Lit ''v1''] @ segs"

definition routes :: "'s handler \<Rightarrow> (go_int \<Rightarrow> json_float) \<Rightarrow> 's Service \<Rightarrow> (pattern \<times> 's handler) list" where
  "routes events seconds svc =
     [((''POST'', api [Lit ''operator'', Lit ''messages'']), sendMessage svc),
      ((''POST'', api [Lit ''operator'', Lit ''prompts'', Wild ''requestId'', Lit ''respond'']), respondToPrompt svc),
      ((''POST'', api [Lit ''operator'', Lit ''prompts'', Wild ''requestId'', Lit ''dismiss'']), dismissPrompt svc),
      ((''GET'', api [Lit ''operator'', Lit ''status'']), operatorStatus svc),
      ((''GET'', api [Lit ''operator'', Lit ''history'']), operatorHistory svc),
      ((''GET'', api [Lit ''operator'', Lit ''blockers'']), operatorBlockers svc),
      ((''GET'', api [Lit ''operator'', Lit ''blockers'', Lit ''history'']), blockerHistory svc),
      ((''GET'', api [Lit ''skills'']), listSkills svc),
      ((''GET'', api [Lit ''skills'', Wild ''id'']), getSkill svc),
      ((''POST'', api [Lit ''skills'']), createSkill svc),
      ((''DELETE'', api [Lit ''skills'', Wild ''id'']), deleteSkill svc),
      ((''POST'', api [Lit ''skills'', Lit ''generate'']), generateSkill svc),
      ((''GET'', api [Lit ''graphs'']), listGraphs svc),
      ((''GET'', api [Lit ''graphs'', Wild ''id'']), getGraph svc),
      ((''GET'', api [Lit ''jobs'']), listJobs svc),
      ((''GET'', api [Lit ''jobs'', Wild ''id'']), getJob svc),
      ((''POST'', api [Lit ''jobs'', Wild ''id'', Lit ''cancel'']), cancelJob svc),
      ((''GET'', api [Lit ''jobs'', Wild ''id'', Lit ''notes'']), listJobNotes svc),
      ((''GET'', api [Lit ''jobs'', Wild ''id'', Lit ''notes'', Wild ''noteID'']), getJobNote svc),
      ((''POST'', api [Lit ''tasks'', Wild ''id'', Lit ''retry'']), retryTask svc),
      ((''GET'', api [Lit ''sessions'']), listSessions svc),
      ((''GET'', api [Lit ''sessions'', Wild ''id'']), getSession svc),
      ((''POST'', api [Lit ''sessions'', Wild ''id'', Lit ''cancel'']), cancelSession svc),
      ((''GET'', api [Lit ''health'']), health seconds svc),
      ((''GET'', api [Lit ''logs'']), getLogs svc),
      ((''GET'', api [Lit ''models'']), listModels svc),
      ((''GET'', api [Lit ''catalog'']), listCatalog svc),
      ((''POST'', api [Lit ''providers'']), addProvider svc),
      ((''PUT'', api [Lit ''providers'']), updateProvider svc),
      ((''GET'', api [Lit ''providers'', Lit ''configured'']), listConfiguredProviderIDs svc),
      ((''PUT'', api [Lit ''operator'', Lit ''provider'']), setOperatorProvider svc),
      ((''GET'', api [Lit ''providers'', Wild ''id'', Lit ''models'']), listProviderModels svc),
      ((''GET'', api [Lit ''mcp'', Lit ''servers'']), listMCPServers svc),
      ((''GET'', api [Lit ''progress'']), getProgress svc),
      ((''GET'', api [Lit ''settings'']), getSettings svc),
      ((''PUT'', api [Lit ''settings'']), updateSettings svc),
      ((''GET'', api [Lit ''metrics'']), getMetrics svc),
      ((''GET'', api [Lit ''events'']), events)]"

text \<open>\<open>http.ServeMux\<close> over these routes, none of which a request shares with another.\<close>

definition plain_error :: "nat \<Rightarrow> string \<Rightarrow> 's conn \<Rightarrow> 's conn outcome" where
  "plain_error status msg c =
     Returned (on_writer (write_body (msg @ [CHR 0x0A]) \<circ> write_header status
       \<circ> set_header ''X-Content-Type-Options'' ''nosniff'' \<circ> set_header ''Content-Type'' ''text/plain; charset=utf-8'') c)"

definition allowed_methods :: "(pattern \<times> 'h) list \<Rightarrow> string \<Rightarrow> string list" where
  "allowed_methods rs p =
     (let ms = map (fst \<circ> fst) (filter (\<lambda>(pat, h). match_segments (snd pat) (path_segments p) \<noteq> None) rs)
      in sort (remdups (ms @ (if ''GET'' \<in> set ms then [''HEAD''] else []))))"

fun dispatch :: "(pattern \<times> 's handler) list \<Rightarrow> request \<Rightarrow> ('s handler \<times> (string \<times> string) list) option" where
  "dispatch [] r = None"
| "dispatch ((pat, h) # rs) r =
     (case pattern_match pat (rq_Method r) (rq_Path r) of
        Some vs \<Rightarrow> Some (h, vs)
      | None \<Rightarrow> dispatch rs r)"

definition serve_mux :: "'s handler \<Rightarrow> (pattern \<times> 's handler) list \<Rightarrow> 's handler" where
  "serve_mux redirect rs r c =
     (if rq_Method r \<noteq> ''CONNECT'' \<and> \<not> clean_path (rq_Path r) then redirect r c
      else case dispatch rs r of
        Some (h, vs) \<Rightarrow> h (r\<lparr>rq_PathValues := vs\<rparr>) c
      | None \<Rightarrow>
          (let ms = allowed_methods rs (rq_Path r) in
           if ms = [] then plain_error 404 ''404 page not found'' c
           else plain_error 405 ''Method Not Allowed'' (on_writer (set_header ''Allow'' (join_strings '', '' ms)) c)))"

section \<open>Middleware\<close>

definition recoveryMiddleware :: "'s handler \<Rightarrow> 's handler" where
  "recoveryMiddleware h r c =
     (case h r c of
        Returned c' \<Rightarrow> Returned c'
      | Panicked c' msg \<Rightarrow>
          reply_error 500 ''internal_error'' ''internal server error''
            (add_log (LogPanic msg (rq_Method r) (url_path r) (requestID r)) c'))"

definition isValidRequestID :: "string \<Rightarrow> bool" where
  "isValidRequestID s \<longleftrightarrow>
     s \<noteq> [] \<and> length s \<le> 64 \<and>
     list_all (\<lambda>c. (CHR ''a'' \<le> c \<and> c \<le> CHR ''z'') \<or> (CHR ''A'' \<le> c \<and> c \<le> CHR ''Z'')
       \<or> (CHR ''0'' \<le> c \<and> c \<le> CHR ''9'') \<or> c = CHR ''-'' \<or> c = CHR ''_'' \<or> c = CHR ''.'') s"

text \<open>The id \<open>uuid.NewV4\<close> makes, or none when it fails, is a parameter.\<close>

definition requestIDMiddleware :: "string option \<Rightarrow> 's handler \<Rightarrow> 's handler" where
  "requestIDMiddleware new_id h r c =
     (let given = header_get (rq_Header r) ''X-Request-Id'';
          i = (if isValidRequestID given then given else case new_id of Some u \<Rightarrow> u | None \<Rightarrow> given)
      in h (r\<lparr>rq_RequestID := Some i\<rparr>) (on_writer (set_header ''X-Request-Id'' i) c))"

definition authMiddleware :: "string \<Rightarrow> 's handler \<Rightarrow> 's handler" where
  "authMiddleware token h r c =
     (if token = [] \<or> url_path r = ''/api/v1/health'' then h r c
      else if trim_prefix (header_get (rq_Header r) ''Authorization'') ''Bearer '' \<noteq> token
      then reply_error 401 ''unauthorized'' ''invalid or missing bearer token'' c
      else h r c)"

definition loggingMiddleware :: "'s handler \<Rightarrow> 's handler" where
  "loggingMiddleware h r c =
     (case h r c of
        Returned c' \<Rightarrow>
          Returned (add_log (LogRequest (rq_Method r) (url_path r)
            (case w_Sent (cn_W c') of Some (code, _) \<Rightarrow> code | None \<Rightarrow> 200) (requestID r)) c')
      | Panicked c' msg \<Rightarrow> Panicked c' msg)"

definition isAllowedOrigin :: "(string \<Rightarrow> string option) \<Rightarrow> string \<Rightarrow> bool" where
  "isAllowedOrigin hostname origin =
     (case hostname origin of
        None \<Rightarrow> False
      | Some h \<Rightarrow> h \<in> set [''localhost'', ''127.0.0.1'', ''::1'', ''[::1]''])"

definition corsMiddleware :: "(string \<Rightarrow> string option) \<Rightarrow> 's handler \<Rightarrow> 's handler" where
  "corsMiddleware hostname h r c =
     (let origin = header_get (rq_Header r) ''Origin'';
          c1 = (if origin \<noteq> [] \<and> isAllowedOrigin hostname origin
                then on_writer (set_header ''Access-Control-Expose-Headers'' ''X-Request-ID, Location''
                  \<circ> set_header ''Access-Control-Allow-Headers'' ''Content-Type, X-Request-ID, Authorization''
                  \<circ> set_header ''Access-Control-Allow-Methods'' ''GET, POST, PUT, DELETE, OPTIONS''
                  \<circ> set_header ''Access-Control-Allow-Origin'' origin) c
                else c)
      in if rq_Method r = ''OPTIONS'' then reply_status 204 c1 else h r c1)"

definition securityHeadersMiddleware :: "'s handler \<Rightarrow> 's handler" where
  "securityHeadersMiddleware h r c =
     h r (on_writer (set_header ''Cache-Control'' ''no-store'' \<circ> set_header ''X-Frame-Options'' ''DENY''
       \<circ> set_header ''X-Content-Type-Options'' ''nosniff'') c)"

definition contentTypeMiddleware :: "'s handler \<Rightarrow> 's handler" where
  "contentTypeMiddleware h r c =
     (if rq_Method r \<in> set [''POST'', ''PUT'', ''PATCH'']
      then if rq_ContentLength r = 0 \<or> rq_Body r = None then h r c
           else let ct = header_get (rq_Header r) ''Content-Type'' in
                if ct = [] \<or> \<not> has_prefix ct ''application/json''
                then bad_request ''Content-Type must be application/json'' c
                else h r c
      else h r c)"

definition chain :: "('s handler \<Rightarrow> 's handler) list \<Rightarrow> 's handler \<Rightarrow> 's handler" where
  "chain ms final = foldr (\<lambda>m h. m h) ms final"

section \<open>The server\<close>

record 's server_env =
  se_Service :: "'s Service"
  se_Token :: string
  se_NewID :: "string option"
  se_Hostname :: "string \<Rightarrow> string option"
  se_Seconds :: "go_int \<Rightarrow> json_float"
  se_Events :: "'s handler"
  se_Redirect :: "'s handler"

definition server_handler :: "'s server_env \<Rightarrow> 's handler" where
  "server_handler env =
     chain [recoveryMiddleware, requestIDMiddleware (se_NewID env), authMiddleware (se_Token env),
            loggingMiddleware, corsMiddleware (se_Hostname env), securityHeadersMiddleware, contentTypeMiddleware]
       (serve_mux (se_Redirect env) (routes (se_Events env) (se_Seconds env) (se_Service env)))"

definition fresh_conn :: "'s \<Rightarrow> 's conn" where
  "fresh_conn s = \<lparr>cn_W = \<lparr>w_Header = [], w_Sent = None, w_Body = []\<rparr>, cn_Svc = s, cn_Log = []\<rparr>"

definition serve_from :: "'s server_env \<Rightarrow> request \<Rightarrow> 's \<Rightarrow> response \<times> 's \<times> log_entry list" where
  "serve_from env r s =
     (case server_handler env r (fresh_conn s) of
        Returned c \<Rightarrow> (finish (rq_Method r) (cn_W c), cn_Svc c, cn_Log c)
      | Panicked c msg \<Rightarrow> (finish (rq_Method r) (cn_W c), cn_Svc c, cn_Log c))"

end
