(* ===== verification/HttpGuards.thy ===== *)
theory HttpGuards
  imports HttpServer
begin

text \<open>
  What holds of every request the server of \<open>HttpServer\<close> answers: the routes exclude each other, a
  request without the token reaches no operation of the service but the health check, what a failed
  call lets a client see depends on the error's class and cleaned message only, and the pages of a
  list are the list.
\<close>

section \<open>Routes\<close>

definition patterns_apart :: "pattern \<Rightarrow> pattern \<Rightarrow> bool" where
  "patterns_apart p q \<longleftrightarrow>
     (fst p \<noteq> fst q \<and> fst p \<noteq> ''HEAD'' \<and> fst q \<noteq> ''HEAD'') \<or> segments_apart (snd p) (snd q)"

fun all_apart :: "pattern list \<Rightarrow> bool" where
  "all_apart [] = True"
| "all_apart (p # ps) \<longleftrightarrow> list_all (patterns_apart p) ps \<and> all_apart ps"

definition route_patterns :: "pattern list" where
  "route_patterns =
     [(''POST'', api [Lit ''operator'', Lit ''messages'']),
      (''POST'', api [Lit ''operator'', Lit ''prompts'', Wild ''requestId'', Lit ''respond'']),
      (''POST'', api [Lit ''operator'', Lit ''prompts'', Wild ''requestId'', Lit ''dismiss'']),
      (''GET'', api [Lit ''operator'', Lit ''status'']), (''GET'', api [Lit ''operator'', Lit ''history'']),
      (''GET'', api [Lit ''operator'', Lit ''blockers'']),
      (''GET'', api [Lit ''operator'', Lit ''blockers'', Lit ''history'']),
      (''GET'', api [Lit ''skills'']), (''GET'', api [Lit ''skills'', Wild ''id'']), (''POST'', api [Lit ''skills'']),
      (''DELETE'', api [Lit ''skills'', Wild ''id'']), (''POST'', api [Lit ''skills'', Lit ''generate'']),
      (''GET'', api [Lit ''graphs'']), (''GET'', api [Lit ''graphs'', Wild ''id'']),
      (''GET'', api [Lit ''jobs'']), (''GET'', api [Lit ''jobs'', Wild ''id'']),
      (''POST'', api [Lit ''jobs'', Wild ''id'', Lit ''cancel'']), (''GET'', api [Lit ''jobs'', Wild ''id'', Lit ''notes'']),
      (''GET'', api [Lit ''jobs'', Wild ''id'', Lit ''notes'', Wild ''noteID'']),
      (''POST'', api [Lit ''tasks'', Wild ''id'', Lit ''retry'']), (''GET'', api [Lit ''sessions'']),
      (''GET'', api [Lit ''sessions'', Wild ''id'']), (''POST'', api [Lit ''sessions'', Wild ''id'', Lit ''cancel'']),
      (''GET'', api [Lit ''health'']), (''GET'', api [Lit ''logs'']), (''GET'', api [Lit ''models'']),
      (''GET'', api [Lit ''catalog'']), (''POST'', api [Lit ''providers'']), (''PUT'', api [Lit ''providers'']),
      (''GET'', api [Lit ''providers'', Lit ''configured'']), (''PUT'', api [Lit ''operator'', Lit ''provider'']),
      (''GET'', api [Lit ''providers'', Wild ''id'', Lit ''models'']), (''GET'', api [Lit ''mcp'', Lit ''servers'']),
      (''GET'', api [Lit ''progress'']), (''GET'', api [Lit ''settings'']), (''PUT'', api [Lit ''settings'']),
      (''GET'', api [Lit ''metrics'']), (''GET'', api [Lit ''events''])]"

lemma patterns_of_routes: "map fst (routes events seconds svc) = route_patterns"
  by (simp add: routes_def route_patterns_def)

lemma routes_apart: "all_apart route_patterns"
  by code_simp

lemma apart_no_both:
  assumes "patterns_apart p q" "pattern_match p m path \<noteq> None"
  shows "pattern_match q m path = None"
proof -
  obtain pm ps qm qs where pq: "p = (pm, ps)" "q = (qm, qs)" by (cases p; cases q)
  show ?thesis
  proof (cases "segments_apart ps qs")
    case True
    then show ?thesis using assms(2) pq apart_excludes by (auto split: if_splits)
  next
    case False
    then have "pm \<noteq> qm" "pm \<noteq> ''HEAD''" "qm \<noteq> ''HEAD''" using assms(1) pq by (auto simp: patterns_apart_def)
    then show ?thesis using assms(2) pq by (auto simp: method_matches_def split: if_splits)
  qed
qed

lemma dispatch_apart:
  "all_apart (map fst rs) \<Longrightarrow> (pat, h) \<in> set rs \<Longrightarrow> pattern_match pat (rq_Method r) (rq_Path r) = Some vs \<Longrightarrow>
   dispatch rs r = Some (h, vs)"
proof (induction rs)
  case (Cons x rs)
  obtain p k where x: "x = (p, k)" by (cases x)
  show ?case
  proof (cases "(pat, h) = (p, k)")
    case True
    then show ?thesis using Cons.prems x by simp
  next
    case False
    then have "(pat, h) \<in> set rs" using Cons.prems(2) x by auto
    moreover from this have "patterns_apart p pat" using Cons.prems(1) x by (force simp: list_all_iff)
    then have "pattern_match p (rq_Method r) (rq_Path r) = None"
      using apart_no_both [of p pat] Cons.prems(3) by fastforce
    ultimately show ?thesis using Cons x by simp
  qed
qed simp

lemma route_found:
  assumes "(pat, h) \<in> set (routes events seconds svc)" "pattern_match pat (rq_Method r) (rq_Path r) = Some vs"
  shows "dispatch (routes events seconds svc) r = Some (h, vs)"
  by (rule dispatch_apart) (use assms routes_apart patterns_of_routes [of events seconds svc] in simp_all)

lemma dispatch_cases:
  "dispatch rs r = Some (h, vs) \<Longrightarrow> \<exists>pat. (pat, h) \<in> set rs \<and> pattern_match pat (rq_Method r) (rq_Path r) = Some vs"
proof (induction rs)
  case (Cons x rs)
  obtain p k where x: "x = (p, k)" by (cases x)
  show ?case
  proof (cases "pattern_match p (rq_Method r) (rq_Path r)")
    case None
    then have "dispatch rs r = Some (h, vs)" using Cons.prems x by simp
    then obtain pat where "(pat, h) \<in> set rs" "pattern_match pat (rq_Method r) (rq_Path r) = Some vs"
      using Cons.IH by blast
    then show ?thesis using x by (intro exI [of _ pat]) simp
  next
    case (Some ws)
    then show ?thesis using Cons.prems x by (intro exI [of _ p]) simp
  qed
qed simp

section \<open>The token\<close>

text \<open>Unescaping a path goes segment by segment.\<close>

lemma unescape_at_slash:
  "unescape False (a @ CHR ''/'' # b) = Some u \<Longrightarrow>
   \<exists>ua ub. unescape False a = Some ua \<and> unescape False b = Some ub \<and> u = ua @ CHR ''/'' # ub"
proof (induction a arbitrary: u rule: length_induct)
  case (1 a)
  show ?case
  proof (cases a)
    case Nil
    then show ?thesis using 1(2) by auto
  next
    case a: (Cons c s)
    show ?thesis
    proof (cases "c = CHR ''%''")
      case False
      then obtain u' where "unescape False (s @ CHR ''/'' # b) = Some u'" "u = c # u'" using 1(2) a by auto
      then show ?thesis using 1(1) [rule_format, of s u'] a False by auto
    next
      case True
      have no: "hex_val (CHR ''/'') = None" by (simp add: hex_val_def)
      then obtain d e t where s: "s = d # e # t"
        using 1(2) a True by (cases s; cases "tl s") (auto split: list.splits option.splits)
      then obtain x y where xy: "hex_val d = Some x" "hex_val e = Some y"
        using 1(2) a True by (auto split: option.splits)
      then obtain u' where "unescape False (t @ CHR ''/'' # b) = Some u'" "u = char_of (x * 16 + y) # u'"
        using 1(2) a True s by auto
      then show ?thesis using 1(1) [rule_format, of t u'] a True s xy by auto
    qed
  qed
qed

lemma unescape_segments:
  "unescape False (join_strings ''/'' xs) = Some u \<Longrightarrow> u = join_strings ''/'' (map unescaped xs)"
proof (induction xs arbitrary: u)
  case (Cons x xs)
  show ?case
  proof (cases xs)
    case Nil
    then show ?thesis using Cons.prems by (simp add: unescaped_def)
  next
    case (Cons y ys)
    then obtain ua ub where "unescape False x = Some ua" "unescape False (join_strings ''/'' xs) = Some ub" "u = ua @ CHR ''/'' # ub"
      using Cons.prems unescape_at_slash [of x "join_strings ''/'' xs" u] by auto
    then show ?thesis using Cons.IH Cons by (simp add: unescaped_def)
  qed
qed simp

lemma match_values:
  "match_segments segs ss = Some vs \<Longrightarrow>
   list_all2 (\<lambda>p s. case p of Lit l \<Rightarrow> unescaped s = l | Wild n \<Rightarrow> True) segs ss"
  by (induction segs ss arbitrary: vs rule: match_segments.induct) (auto split: if_splits)

text \<open>The only route a request to \<open>/api/v1/health\<close> can take is the health check.\<close>

definition not_health :: "pattern \<Rightarrow> bool" where
  "not_health p \<longleftrightarrow> (case snd p of
     a # b # Lit l # rest \<Rightarrow> a = Lit ''api'' \<and> b = Lit ''v1'' \<and> l \<noteq> [] \<and> hd l \<noteq> CHR ''h''
   | _ \<Rightarrow> False)"

lemma only_health: "list_all (\<lambda>p. p = (''GET'', api [Lit ''health'']) \<or> not_health p) route_patterns"
  by code_simp

lemma join_three: "join_strings ''/'' (a # b # c # xs) = a @ ''/'' @ b @ ''/'' @ c @ (if xs = [] then [] else ''/'' @ join_strings ''/'' xs)"
  by (cases xs) simp_all

lemma health_route:
  assumes "unescape False (rq_Path r) \<noteq> None" "url_path r = ''/api/v1/health''" "has_prefix (rq_Path r) ''/''"
    and "pattern_match p (rq_Method r) (rq_Path r) = Some vs" "not_health p"
  shows False
proof -
  obtain rest where path: "rq_Path r = CHR ''/'' # rest"
    using assms(3) by (cases "rq_Path r") (simp_all add: has_prefix_code)
  let ?ss = "path_segments (rq_Path r)"
  have join: "join_strings ''/'' ?ss = rest" using join_split_byte [of "CHR ''/''" rest] path by (simp add: path_segments_def)
  obtain u where u: "unescape False rest = Some u" using assms(1) path by auto
  then have "u = join_strings ''/'' (map unescaped ?ss)" using unescape_segments join by metis
  then have whole: "join_strings ''/'' (map unescaped ?ss) = ''api/v1/health''"
    using assms(2) path u by (simp add: url_path_def unescaped_def)
  obtain m segs where p: "p = (m, segs)" by (cases p)
  obtain a b l more where segs: "segs = a # b # Lit l # more" "a = Lit ''api''" "b = Lit ''v1''" "l \<noteq> []" "hd l \<noteq> CHR ''h''"
    using assms(5) p by (auto simp: not_health_def split: list.splits segment.splits)
  have "match_segments segs ?ss = Some vs" using assms(4) p by (simp split: if_splits)
  from match_values [OF this] obtain x y z more' where "?ss = x # y # z # more'" "unescaped x = ''api''"
      "unescaped y = ''v1''" "unescaped z = l"
    using segs by (auto simp: list_all2_Cons1)
  then have "l @ (if more' = [] then [] else ''/'' @ join_strings ''/'' (map unescaped more')) = ''health''"
    using whole join_three [of "''api''" "''v1''" l "map unescaped more'"] by (simp split: if_splits)
  then show False using segs(4,5) by (cases l) simp_all
qed

lemma health_only:
  assumes "unescape False (rq_Path r) \<noteq> None" "url_path r = ''/api/v1/health''" "clean_path (rq_Path r)"
    and "dispatch (routes events seconds svc) r = Some (h, vs)"
  shows "h = health seconds svc"
proof -
  obtain pat where pat: "(pat, h) \<in> set (routes events seconds svc)" "pattern_match pat (rq_Method r) (rq_Path r) = Some vs"
    using dispatch_cases [OF assms(4)] by blast
  have "pat \<in> set (map fst (routes events seconds svc))" using pat(1) by force
  then have "pat \<in> set route_patterns" by (simp only: patterns_of_routes)
  moreover have "\<not> not_health pat" using health_route [OF assms(1,2) _ pat(2)] assms(3) by (auto simp: clean_path_def)
  ultimately have p: "pat = (''GET'', api [Lit ''health''])" using only_health by (auto simp: list_all_iff)
  have "((''GET'', api [Lit ''health'']), health seconds svc) \<in> set (routes events seconds svc)" by (simp add: routes_def)
  from route_found [OF this pat(2) [unfolded p]] show ?thesis using assms(4) by simp
qed

text \<open>What the middleware and the multiplexer leave of the service's state.\<close>

definition keeps_service :: "'s handler \<Rightarrow> bool" where
  "keeps_service h \<longleftrightarrow> (\<forall>r c. \<exists>c'. h r c = Returned c' \<and> cn_Svc c' = cn_Svc c)"

definition state_of :: "'s conn outcome \<Rightarrow> 's" where
  "state_of x = (case x of Returned c \<Rightarrow> cn_Svc c | Panicked c msg \<Rightarrow> cn_Svc c)"

lemma state_of_simps [simp]: "state_of (Returned c) = cn_Svc c" "state_of (Panicked c msg) = cn_Svc c"
  by (simp_all add: state_of_def)

lemma writer_keeps [simp]:
  "cn_Svc (on_writer f c) = cn_Svc c" "cn_Svc (add_log e c) = cn_Svc c"
  by (simp_all add: on_writer_def add_log_def)

lemma replies_keep [simp]:
  "state_of (reply_json code j c) = cn_Svc c" "state_of (reply_error code k msg c) = cn_Svc c"
  "state_of (reply_status code c) = cn_Svc c" "state_of (bad_request msg c) = cn_Svc c"
  "state_of (plain_error code msg c) = cn_Svc c" "state_of (handleServiceError r e c) = cn_Svc c"
  by (simp_all add: reply_json_def reply_error_def reply_status_def bad_request_def plain_error_def
      handleServiceError_def Let_def split: prod.splits)

lemma recovery_keeps: "state_of (recoveryMiddleware h r c) = state_of (h r c)"
  by (simp add: recoveryMiddleware_def split: outcome.splits)

lemma logging_keeps: "state_of (loggingMiddleware h r c) = state_of (h r c)"
  by (simp add: loggingMiddleware_def split: outcome.splits)

lemma health_state: "state_of (health seconds svc r c) = snd (sy_Health (svc_System svc) (cn_Svc c))"
  by (cases "sy_Health (svc_System svc) (cn_Svc c)") (simp add: health_def call_def split: answer.splits)

lemma serve_state: "serve_from env r s = (resp, s', l) \<Longrightarrow> s' = state_of (server_handler env r (fresh_conn s))"
  by (auto simp: serve_from_def split: outcome.splits)

lemma chain_unfold:
  "server_handler env = recoveryMiddleware (requestIDMiddleware (se_NewID env) (authMiddleware (se_Token env)
     (loggingMiddleware (corsMiddleware (se_Hostname env) (securityHeadersMiddleware (contentTypeMiddleware
       (serve_mux (se_Redirect env) (routes (se_Events env) (se_Seconds env) (se_Service env)))))))))"
  by (simp add: server_handler_def chain_def)

text \<open>A handler that does one thing to the state, or nothing, still does so behind the middleware.\<close>

definition confined :: "('s \<Rightarrow> 's) \<Rightarrow> request \<Rightarrow> 's handler \<Rightarrow> bool" where
  "confined F r h \<longleftrightarrow> (\<forall>c. state_of (h r c) \<in> {cn_Svc c, F (cn_Svc c)})"

lemma confined_middleware:
  assumes "confined F r h"
  shows "confined F r (contentTypeMiddleware h)" "confined F r (securityHeadersMiddleware h)"
    "confined F r (corsMiddleware hostname h)" "confined F r (loggingMiddleware h)"
    "confined F r (authMiddleware token h)" "confined F r (recoveryMiddleware h)"
proof -
  have h: "state_of (h r c) \<in> {cn_Svc c, F (cn_Svc c)}" for c using assms by (simp add: confined_def)
  have w: "state_of (h r (on_writer f c)) \<in> {cn_Svc c, F (cn_Svc c)}" for f c using h [of "on_writer f c"] by simp
  show "confined F r (contentTypeMiddleware h)" "confined F r (securityHeadersMiddleware h)"
    "confined F r (corsMiddleware hostname h)" "confined F r (loggingMiddleware h)"
    "confined F r (authMiddleware token h)" "confined F r (recoveryMiddleware h)"
    using h w unfolding confined_def contentTypeMiddleware_def securityHeadersMiddleware_def corsMiddleware_def
      authMiddleware_def logging_keeps recovery_keeps Let_def
    by (simp_all del: insert_iff singleton_iff) simp_all
qed

lemma confined_mux:
  assumes "unescape False (rq_Path r) \<noteq> None" "url_path r = ''/api/v1/health''" "keeps_service redirect"
  shows "confined (\<lambda>s. snd (sy_Health (svc_System svc) s)) r (serve_mux redirect (routes events seconds svc))"
proof -
  have "state_of (serve_mux redirect (routes events seconds svc) r c)
      \<in> {cn_Svc c, snd (sy_Health (svc_System svc) (cn_Svc c))}" for c
  proof (cases "rq_Method r \<noteq> ''CONNECT'' \<and> \<not> clean_path (rq_Path r)")
    case True
    obtain c' where "redirect r c = Returned c'" "cn_Svc c' = cn_Svc c"
      using assms(3) by (auto simp: keeps_service_def)
    then show ?thesis using True by (simp add: serve_mux_def)
  next
    case False
    show ?thesis
    proof (cases "dispatch (routes events seconds svc) r")
      case None
      then show ?thesis using False by (auto simp: serve_mux_def Let_def)
    next
      case (Some hvs)
      obtain h vs where hvs: "hvs = (h, vs)" by (cases hvs)
      show ?thesis
      proof (cases "clean_path (rq_Path r)")
        case True
        then have "h = health seconds svc" using health_only [OF assms(1,2)] Some hvs by blast
        then show ?thesis using False Some hvs by (auto simp: serve_mux_def health_state)
      next
        case unclean: False
        then have "rq_Method r = ''CONNECT''" using False by simp
        moreover obtain pat where "(pat, h) \<in> set (routes events seconds svc)"
            "pattern_match pat (rq_Method r) (rq_Path r) = Some vs"
          using dispatch_cases Some hvs by blast
        ultimately show ?thesis by (auto simp: routes_def method_matches_def)
      qed
    qed
  qed
  then show ?thesis by (simp add: confined_def)
qed

text \<open>C26. A request without the token reaches no operation of the service but the health check.\<close>

theorem token_guards_service:
  assumes "se_Token env \<noteq> []"
    and "trim_prefix (header_get (rq_Header r) ''Authorization'') ''Bearer '' \<noteq> se_Token env"
    and "unescape False (rq_Path r) \<noteq> None" "keeps_service (se_Redirect env)"
    and "serve_from env r s = (resp, s', l)"
  shows "if url_path r = ''/api/v1/health'' then s' \<in> {s, snd (sy_Health (svc_System (se_Service env)) s)}
         else s' = s \<and> rs_Status resp = 401"
proof (cases "url_path r = ''/api/v1/health''")
  case True
  let ?F = "\<lambda>s. snd (sy_Health (svc_System (se_Service env)) s)"
  obtain i f where req: "requestIDMiddleware (se_NewID env) h r c = h (r\<lparr>rq_RequestID := Some i\<rparr>) (on_writer f c)" for h and c :: "'a conn"
    by (simp add: requestIDMiddleware_def Let_def)
  let ?h = "authMiddleware (se_Token env) (loggingMiddleware (corsMiddleware (se_Hostname env)
      (securityHeadersMiddleware (contentTypeMiddleware
        (serve_mux (se_Redirect env) (routes (se_Events env) (se_Seconds env) (se_Service env)))))))"
  have "confined ?F (r\<lparr>rq_RequestID := Some i\<rparr>) ?h"
    by (intro confined_middleware confined_mux) (use assms(3,4) True in \<open>simp_all add: url_path_def\<close>)
  then have "state_of (?h (r\<lparr>rq_RequestID := Some i\<rparr>) (on_writer f (fresh_conn s))) \<in> {s, ?F s}"
    unfolding confined_def by (metis fresh_conn_def conn.select_convs(2) writer_keeps(1))
  then have "state_of (server_handler env r (fresh_conn s)) \<in> {s, ?F s}"
    by (simp only: chain_unfold recovery_keeps req)
  then show ?thesis using serve_state [OF assms(5)] True by simp
next
  case False
  let ?i = "\<lambda>r. r\<lparr>rq_RequestID := Some (i :: string)\<rparr>"
  have "server_handler env r (fresh_conn s) =
      (let given = header_get (rq_Header r) ''X-Request-Id'';
           i = (if isValidRequestID given then given else case se_NewID env of Some u \<Rightarrow> u | None \<Rightarrow> given)
       in reply_error 401 ''unauthorized'' ''invalid or missing bearer token'' (on_writer (set_header ''X-Request-Id'' i) (fresh_conn s)))"
    using assms(1,2) False
    by (simp add: chain_unfold recoveryMiddleware_def requestIDMiddleware_def authMiddleware_def Let_def
        url_path_def reply_error_def)
  then show ?thesis using assms(5) False
    by (auto simp: serve_from_def Let_def reply_error_def writeError_def writeJSON_def write_body_def write_header_def
        set_header_def on_writer_def fresh_conn_def finish_def)
qed

text \<open>A service whose every call fails, and a request to it, for examples.\<close>

definition failing_service :: "go_error \<Rightarrow> 's Service" where
  "failing_service e =
     \<lparr>svc_Operator = \<lparr>os_SendMessage = \<lambda>_. Pair (Failed e), os_RespondToPrompt = \<lambda>_ _. Pair (Failed e),
        os_DismissPrompt = \<lambda>_. Pair (Failed e), os_Blockers = Pair (Failed e),
        os_BlockerHistory = \<lambda>_. Pair (Failed e), os_Status = Pair (Failed e), os_History = Pair (Failed e)\<rparr>,
      svc_Definitions = \<lparr>ds_ListSkills = Pair (Failed e), ds_GetSkill = \<lambda>_. Pair (Failed e),
        ds_CreateSkill = \<lambda>_. Pair (Failed e), ds_DeleteSkill = \<lambda>_. Pair (Failed e),
        ds_GenerateSkill = \<lambda>_. Pair (Failed e), ds_ListGraphs = Pair (Failed e), ds_GetGraph = \<lambda>_. Pair (Failed e)\<rparr>,
      svc_Jobs = \<lparr>js_List = \<lambda>_. Pair (Failed e), js_ListAll = Pair (Failed e), js_Get = \<lambda>_. Pair (Failed e),
        js_Cancel = \<lambda>_. Pair (Failed e), js_RetryTask = \<lambda>_. Pair (Failed e)\<rparr>,
      svc_Sessions = \<lparr>ss_List = Pair (Failed e), ss_Get = \<lambda>_. Pair (Failed e), ss_Cancel = \<lambda>_. Pair (Failed e)\<rparr>,
      svc_System = \<lparr>sy_Health = Pair (Failed e), sy_ListModels = Pair (Failed e), sy_ListMCPServers = Pair (Failed e),
        sy_GetProgressState = Pair (Failed e), sy_GetLogs = Pair (Failed e), sy_ListCatalogProviders = Pair (Failed e),
        sy_AddProvider = \<lambda>_. Pair (Failed e), sy_UpdateProvider = \<lambda>_. Pair (Failed e),
        sy_ListConfiguredProviderIDs = Pair (Failed e), sy_SetOperatorProvider = \<lambda>_ _. Pair (Failed e),
        sy_ListProviderModels = \<lambda>_. Pair (Failed e), sy_GetSettings = Pair (Failed e),
        sy_UpdateSettings = \<lambda>_. Pair (Failed e), sy_Metrics = Pair (Failed e)\<rparr>,
      svc_Knowledge = \<lparr>ks_ListJobNotes = \<lambda>_. Pair (Failed e), ks_ReadJobNote = \<lambda>_ _. Pair (Failed e)\<rparr>\<rparr>"

definition sample_env :: "'s Service \<Rightarrow> 's server_env" where
  "sample_env svc =
     \<lparr>se_Service = svc, se_Token = ''secret'', se_NewID = Some ''id-1'', se_Hostname = \<lambda>_. None,
      se_Seconds = \<lambda>_. zero_float, se_Events = \<lambda>r c. reply_status 200 c, se_Redirect = \<lambda>r c. reply_status 307 c\<rparr>"

definition sample_request :: "string \<Rightarrow> string \<Rightarrow> headers \<Rightarrow> request" where
  "sample_request m p h =
     \<lparr>rq_Method = m, rq_Path = p, rq_RawQuery = [], rq_Header = h, rq_Body = Some [], rq_ContentLength = 0,
      rq_RequestID = None, rq_PathValues = []\<rparr>"

lemma token_guards_service_witness:
  "let svc = failing_service (Plain ''down'')\<lparr>svc_Jobs := \<lparr>js_List = \<lambda>_. Pair (Failed (Plain ''down'')),
         js_ListAll = Pair (Failed (Plain ''down'')), js_Get = \<lambda>_. Pair (Failed (Plain ''down'')),
         js_Cancel = \<lambda>_ n. (Answer (), Suc n), js_RetryTask = \<lambda>_ n. (Answer (), Suc n)\<rparr>\<rparr>;
       (resp, s', l) = serve_from (sample_env svc)
         (sample_request ''POST'' ''/api/v1/jobs/j1/cancel'' [(''Authorization'', ''Bearer guess'')]) 0
   in s' = 0 \<and> rs_Status resp = 401"
proof -
  define svc :: "nat Service" where "svc = failing_service (Plain ''down'')\<lparr>svc_Jobs := \<lparr>js_List = \<lambda>_. Pair (Failed (Plain ''down'')),
         js_ListAll = Pair (Failed (Plain ''down'')), js_Get = \<lambda>_. Pair (Failed (Plain ''down'')),
         js_Cancel = \<lambda>_ n. (Answer (), Suc n), js_RetryTask = \<lambda>_ n. (Answer (), Suc n)\<rparr>\<rparr>"
  let ?r = "sample_request ''POST'' ''/api/v1/jobs/j1/cancel'' [(''Authorization'', ''Bearer guess'')]"
  obtain resp s' l where e: "serve_from (sample_env svc) ?r 0 = (resp, s', l)" by (metis prod_cases3)
  have path: "url_path ?r = ''/api/v1/jobs/j1/cancel''" "unescape False (rq_Path ?r) \<noteq> None"
    by (simp_all add: url_path_def sample_request_def unescaped_def)
  have "if url_path ?r = ''/api/v1/health''
        then s' \<in> {0, snd (sy_Health (svc_System (se_Service (sample_env svc))) 0)} else s' = 0 \<and> rs_Status resp = 401"
    by (rule token_guards_service [OF _ _ path(2) _ e])
       (simp_all add: sample_env_def sample_request_def header_get_def trim_prefix_def has_prefix_code
          keeps_service_def reply_status_def)
  then show ?thesis using e path(1) by (simp add: svc_def [symmetric])
qed

section \<open>What errors reveal\<close>

text \<open>
  Two errors of the same class: the server answers them with the same status and code and, unless
  that is 500, the same cleaned message. Two errors with the same text: their cleaned messages agree.
\<close>

definition same_class :: "go_error \<Rightarrow> go_error \<Rightarrow> bool" where
  "same_class e e' \<longleftrightarrow> mapServiceError e = mapServiceError e' \<and>
     (fst (mapServiceError e) = 500 \<or> SanitizeErrorMessage (error_text e) = SanitizeErrorMessage (error_text e'))"

definition same_text :: "go_error \<Rightarrow> go_error \<Rightarrow> bool" where
  "same_text e e' \<longleftrightarrow> SanitizeErrorMessage (error_text e) = SanitizeErrorMessage (error_text e')"

fun answer_alike :: "(go_error \<Rightarrow> go_error \<Rightarrow> bool) \<Rightarrow> 'a answer \<Rightarrow> 'a answer \<Rightarrow> bool" where
  "answer_alike R (Answer x) (Answer y) \<longleftrightarrow> x = y"
| "answer_alike R (Failed e) (Failed e') \<longleftrightarrow> R e e'"
| "answer_alike R (Crashed m) (Crashed m') \<longleftrightarrow> True"
| "answer_alike R _ _ \<longleftrightarrow> False"

definition op_alike :: "(go_error \<Rightarrow> go_error \<Rightarrow> bool) \<Rightarrow> ('s, 'a) op \<Rightarrow> ('s, 'a) op \<Rightarrow> bool" where
  "op_alike R f f' \<longleftrightarrow> (\<forall>s. snd (f s) = snd (f' s) \<and> answer_alike R (fst (f s)) (fst (f' s)))"

text \<open>
  Services that answer alike and differ in their errors as far as clients must not see: in the two
  calls whose errors are shown whatever their class the texts agree, in all others the classes do.
\<close>

definition services_alike :: "'s Service \<Rightarrow> 's Service \<Rightarrow> bool" where
  "services_alike svc svc' \<longleftrightarrow>
     (\<forall>x. op_alike same_class (os_SendMessage (svc_Operator svc) x) (os_SendMessage (svc_Operator svc') x)) \<and>
     (\<forall>x y. op_alike same_class (os_RespondToPrompt (svc_Operator svc) x y) (os_RespondToPrompt (svc_Operator svc') x y)) \<and>
     (\<forall>x. op_alike same_class (os_DismissPrompt (svc_Operator svc) x) (os_DismissPrompt (svc_Operator svc') x)) \<and>
     op_alike same_class (os_Blockers (svc_Operator svc)) (os_Blockers (svc_Operator svc')) \<and>
     (\<forall>x. op_alike same_class (os_BlockerHistory (svc_Operator svc) x) (os_BlockerHistory (svc_Operator svc') x)) \<and>
     op_alike same_class (os_Status (svc_Operator svc)) (os_Status (svc_Operator svc')) \<and>
     op_alike same_class (os_History (svc_Operator svc)) (os_History (svc_Operator svc')) \<and>
     op_alike same_class (ds_ListSkills (svc_Definitions svc)) (ds_ListSkills (svc_Definitions svc')) \<and>
     (\<forall>x. op_alike same_class (ds_GetSkill (svc_Definitions svc) x) (ds_GetSkill (svc_Definitions svc') x)) \<and>
     (\<forall>x. op_alike same_class (ds_CreateSkill (svc_Definitions svc) x) (ds_CreateSkill (svc_Definitions svc') x)) \<and>
     (\<forall>x. op_alike same_class (ds_DeleteSkill (svc_Definitions svc) x) (ds_DeleteSkill (svc_Definitions svc') x)) \<and>
     (\<forall>x. op_alike same_class (ds_GenerateSkill (svc_Definitions svc) x) (ds_GenerateSkill (svc_Definitions svc') x)) \<and>
     op_alike same_class (ds_ListGraphs (svc_Definitions svc)) (ds_ListGraphs (svc_Definitions svc')) \<and>
     (\<forall>x. op_alike same_class (ds_GetGraph (svc_Definitions svc) x) (ds_GetGraph (svc_Definitions svc') x)) \<and>
     (\<forall>x. op_alike same_class (js_List (svc_Jobs svc) x) (js_List (svc_Jobs svc') x)) \<and>
     op_alike same_class (js_ListAll (svc_Jobs svc)) (js_ListAll (svc_Jobs svc')) \<and>
     (\<forall>x. op_alike same_class (js_Get (svc_Jobs svc) x) (js_Get (svc_Jobs svc') x)) \<and>
     (\<forall>x. op_alike same_class (js_Cancel (svc_Jobs svc) x) (js_Cancel (svc_Jobs svc') x)) \<and>
     (\<forall>x. op_alike same_class (js_RetryTask (svc_Jobs svc) x) (js_RetryTask (svc_Jobs svc') x)) \<and>
     op_alike same_class (ss_List (svc_Sessions svc)) (ss_List (svc_Sessions svc')) \<and>
     (\<forall>x. op_alike same_class (ss_Get (svc_Sessions svc) x) (ss_Get (svc_Sessions svc') x)) \<and>
     (\<forall>x. op_alike same_class (ss_Cancel (svc_Sessions svc) x) (ss_Cancel (svc_Sessions svc') x)) \<and>
     op_alike same_class (sy_Health (svc_System svc)) (sy_Health (svc_System svc')) \<and>
     op_alike same_class (sy_ListModels (svc_System svc)) (sy_ListModels (svc_System svc')) \<and>
     op_alike same_class (sy_ListMCPServers (svc_System svc)) (sy_ListMCPServers (svc_System svc')) \<and>
     op_alike same_class (sy_GetProgressState (svc_System svc)) (sy_GetProgressState (svc_System svc')) \<and>
     op_alike same_class (sy_GetLogs (svc_System svc)) (sy_GetLogs (svc_System svc')) \<and>
     op_alike same_class (sy_ListCatalogProviders (svc_System svc)) (sy_ListCatalogProviders (svc_System svc')) \<and>
     (\<forall>x. op_alike same_class (sy_AddProvider (svc_System svc) x) (sy_AddProvider (svc_System svc') x)) \<and>
     (\<forall>x. op_alike same_class (sy_UpdateProvider (svc_System svc) x) (sy_UpdateProvider (svc_System svc') x)) \<and>
     op_alike same_class (sy_ListConfiguredProviderIDs (svc_System svc)) (sy_ListConfiguredProviderIDs (svc_System svc')) \<and>
     (\<forall>x y. op_alike same_class (sy_SetOperatorProvider (svc_System svc) x y) (sy_SetOperatorProvider (svc_System svc') x y)) \<and>
     (\<forall>x. op_alike same_text (sy_ListProviderModels (svc_System svc) x) (sy_ListProviderModels (svc_System svc') x)) \<and>
     op_alike same_class (sy_GetSettings (svc_System svc)) (sy_GetSettings (svc_System svc')) \<and>
     (\<forall>x. op_alike same_text (sy_UpdateSettings (svc_System svc) x) (sy_UpdateSettings (svc_System svc') x)) \<and>
     op_alike same_class (sy_Metrics (svc_System svc)) (sy_Metrics (svc_System svc')) \<and>
     (\<forall>x. op_alike same_class (ks_ListJobNotes (svc_Knowledge svc) x) (ks_ListJobNotes (svc_Knowledge svc') x)) \<and>
     (\<forall>x y. op_alike same_class (ks_ReadJobNote (svc_Knowledge svc) x y) (ks_ReadJobNote (svc_Knowledge svc') x y))"

definition same_conn :: "'s conn \<Rightarrow> 's conn \<Rightarrow> bool" where
  "same_conn c c' \<longleftrightarrow> cn_W c = cn_W c' \<and> cn_Svc c = cn_Svc c'"

fun same_outcome :: "'s conn outcome \<Rightarrow> 's conn outcome \<Rightarrow> bool" where
  "same_outcome (Returned c) (Returned c') \<longleftrightarrow> same_conn c c'"
| "same_outcome (Panicked c m) (Panicked c' m') \<longleftrightarrow> same_conn c c'"
| "same_outcome _ _ \<longleftrightarrow> False"

definition handlers_alike :: "'s handler \<Rightarrow> 's handler \<Rightarrow> bool" where
  "handlers_alike h h' \<longleftrightarrow> (\<forall>r c c'. same_conn c c' \<longrightarrow> same_outcome (h r c) (h' r c'))"

named_theorems alike "what goes alike on connections that differ in the log only"

lemma alike_handlers: "(\<And>r c c'. same_conn c c' \<Longrightarrow> same_outcome (h r c) (h' r c')) \<Longrightarrow> handlers_alike h h'"
  by (simp add: handlers_alike_def)

lemma alike_conn [alike]:
  "same_conn c c' \<Longrightarrow> same_conn (on_writer f c) (on_writer f c')"
  "same_conn c c' \<Longrightarrow> same_conn (add_log e c) (add_log e' c')"
  by (simp_all add: same_conn_def on_writer_def add_log_def)

lemma alike_replies [alike]:
  "same_conn c c' \<Longrightarrow> same_outcome (reply_json code j c) (reply_json code j c')"
  "same_conn c c' \<Longrightarrow> same_outcome (reply_error code k msg c) (reply_error code k msg c')"
  "same_conn c c' \<Longrightarrow> same_outcome (reply_status code c) (reply_status code c')"
  "same_conn c c' \<Longrightarrow> same_outcome (bad_request msg c) (bad_request msg c')"
  "same_conn c c' \<Longrightarrow> same_outcome (plain_error code msg c) (plain_error code msg c')"
  "same_conn c c' \<Longrightarrow> same_outcome (reply_list f items c) (reply_list f items c')"
  "same_conn c c' \<Longrightarrow> same_outcome (reply_page f items pg c) (reply_page f items pg c')"
  by (simp_all add: reply_json_def reply_error_def reply_status_def bad_request_def plain_error_def reply_list_def
      reply_page_def alike split: prod.splits)

lemma alike_error [alike]:
  "same_class e e' \<Longrightarrow> same_conn c c' \<Longrightarrow> same_outcome (handleServiceError r e c) (handleServiceError r e' c')"
  by (auto simp: handleServiceError_def same_class_def alike split: prod.splits)

lemma alike_retry:
  "same_class e e' \<Longrightarrow> same_conn c c' \<Longrightarrow>
   same_conn (setRetryAfterIfRateLimited e c) (setRetryAfterIfRateLimited e' c')"
  by (simp add: setRetryAfterIfRateLimited_def same_class_def alike)

lemma alike_call:
  assumes "op_alike R f f'" "same_conn c c'"
    and "\<And>e e' c c'. R e e' \<Longrightarrow> same_conn c c' \<Longrightarrow> same_outcome (bad e c) (bad' e' c')"
    and "\<And>x c c'. same_conn c c' \<Longrightarrow> same_outcome (ok x c) (ok' x c')"
  shows "same_outcome (call f bad ok c) (call f' bad' ok' c')"
proof -
  obtain a s a' s' where fs: "f (cn_Svc c) = (a, s)" "f' (cn_Svc c) = (a', s')" by (metis prod.exhaust)
  have "cn_Svc c' = cn_Svc c" using assms(2) by (simp add: same_conn_def)
  moreover have "s = s'" "answer_alike R a a'"
    using assms(1) fs by (metis fst_conv op_alike_def snd_conv)+
  moreover have "same_conn (c\<lparr>cn_Svc := s\<rparr>) (c'\<lparr>cn_Svc := s\<rparr>)" using assms(2) by (simp add: same_conn_def)
  ultimately show ?thesis
    using fs assms(3,4) by (cases a; cases a') (simp_all add: call_def)
qed

lemma alike_body:
  "(\<And>v c c'. same_conn c c' \<Longrightarrow> same_outcome (k v c) (k' v c')) \<Longrightarrow> same_conn c c' \<Longrightarrow>
   same_outcome (decodeBody fs zero k r c) (decodeBody fs zero k' r c')"
  by (simp add: decodeBody_def alike split: option.splits)

lemma alike_ops:
  assumes "services_alike svc svc'"
  shows "op_alike same_class (os_SendMessage (svc_Operator svc) x0) (os_SendMessage (svc_Operator svc') x0)"
    "op_alike same_class (os_RespondToPrompt (svc_Operator svc) x1 y1) (os_RespondToPrompt (svc_Operator svc') x1 y1)"
    "op_alike same_class (os_DismissPrompt (svc_Operator svc) x2) (os_DismissPrompt (svc_Operator svc') x2)"
    "op_alike same_class (os_Blockers (svc_Operator svc)) (os_Blockers (svc_Operator svc'))"
    "op_alike same_class (os_BlockerHistory (svc_Operator svc) x4) (os_BlockerHistory (svc_Operator svc') x4)"
    "op_alike same_class (os_Status (svc_Operator svc)) (os_Status (svc_Operator svc'))"
    "op_alike same_class (os_History (svc_Operator svc)) (os_History (svc_Operator svc'))"
    "op_alike same_class (ds_ListSkills (svc_Definitions svc)) (ds_ListSkills (svc_Definitions svc'))"
    "op_alike same_class (ds_GetSkill (svc_Definitions svc) x8) (ds_GetSkill (svc_Definitions svc') x8)"
    "op_alike same_class (ds_CreateSkill (svc_Definitions svc) x9) (ds_CreateSkill (svc_Definitions svc') x9)"
    "op_alike same_class (ds_DeleteSkill (svc_Definitions svc) x10) (ds_DeleteSkill (svc_Definitions svc') x10)"
    "op_alike same_class (ds_GenerateSkill (svc_Definitions svc) x11) (ds_GenerateSkill (svc_Definitions svc') x11)"
    "op_alike same_class (ds_ListGraphs (svc_Definitions svc)) (ds_ListGraphs (svc_Definitions svc'))"
    "op_alike same_class (ds_GetGraph (svc_Definitions svc) x13) (ds_GetGraph (svc_Definitions svc') x13)"
    "op_alike same_class (js_List (svc_Jobs svc) x14) (js_List (svc_Jobs svc') x14)"
    "op_alike same_class (js_ListAll (svc_Jobs svc)) (js_ListAll (svc_Jobs svc'))"
    "op_alike same_class (js_Get (svc_Jobs svc) x16) (js_Get (svc_Jobs svc') x16)"
    "op_alike same_class (js_Cancel (svc_Jobs svc) x17) (js_Cancel (svc_Jobs svc') x17)"
    "op_alike same_class (js_RetryTask (svc_Jobs svc) x18) (js_RetryTask (svc_Jobs svc') x18)"
    "op_alike same_class (ss_List (svc_Sessions svc)) (ss_List (svc_Sessions svc'))"
    "op_alike same_class (ss_Get (svc_Sessions svc) x20) (ss_Get (svc_Sessions svc') x20)"
    "op_alike same_class (ss_Cancel (svc_Sessions svc) x21) (ss_Cancel (svc_Sessions svc') x21)"
    "op_alike same_class (sy_Health (svc_System svc)) (sy_Health (svc_System svc'))"
    "op_alike same_class (sy_ListModels (svc_System svc)) (sy_ListModels (svc_System svc'))"
    "op_alike same_class (sy_ListMCPServers (svc_System svc)) (sy_ListMCPServers (svc_System svc'))"
    "op_alike same_class (sy_GetProgressState (svc_System svc)) (sy_GetProgressState (svc_System svc'))"
    "op_alike same_class (sy_GetLogs (svc_System svc)) (sy_GetLogs (svc_System svc'))"
    "op_alike same_class (sy_ListCatalogProviders (svc_System svc)) (sy_ListCatalogProviders (svc_System svc'))"
    "op_alike same_class (sy_AddProvider (svc_System svc) x28) (sy_AddProvider (svc_System svc') x28)"
    "op_alike same_class (sy_UpdateProvider (svc_System svc) x29) (sy_UpdateProvider (svc_System svc') x29)"
    "op_alike same_class (sy_ListConfiguredProviderIDs (svc_System svc)) (sy_ListConfiguredProviderIDs (svc_System svc'))"
    "op_alike same_class (sy_SetOperatorProvider (svc_System svc) x31 y31) (sy_SetOperatorProvider (svc_System svc') x31 y31)"
    "op_alike same_text (sy_ListProviderModels (svc_System svc) x32) (sy_ListProviderModels (svc_System svc') x32)"
    "op_alike same_class (sy_GetSettings (svc_System svc)) (sy_GetSettings (svc_System svc'))"
    "op_alike same_text (sy_UpdateSettings (svc_System svc) x34) (sy_UpdateSettings (svc_System svc') x34)"
    "op_alike same_class (sy_Metrics (svc_System svc)) (sy_Metrics (svc_System svc'))"
    "op_alike same_class (ks_ListJobNotes (svc_Knowledge svc) x36) (ks_ListJobNotes (svc_Knowledge svc') x36)"
    "op_alike same_class (ks_ReadJobNote (svc_Knowledge svc) x37 y37) (ks_ReadJobNote (svc_Knowledge svc') x37 y37)"
  using assms by (simp_all add: services_alike_def)

lemma alike_sendMessage: "services_alike svc svc' \<Longrightarrow> handlers_alike (sendMessage svc) (sendMessage svc')"
  by (rule alike_handlers, unfold sendMessage_def Let_def)
     (auto simp: alike intro!: alike_call [OF alike_ops(1)] alike_body)

lemma alike_respondToPrompt: "services_alike svc svc' \<Longrightarrow> handlers_alike (respondToPrompt svc) (respondToPrompt svc')"
  by (rule alike_handlers, unfold respondToPrompt_def Let_def)
     (auto simp: alike intro!: alike_call [OF alike_ops(2)] alike_body)

lemma alike_dismissPrompt: "services_alike svc svc' \<Longrightarrow> handlers_alike (dismissPrompt svc) (dismissPrompt svc')"
  by (rule alike_handlers, unfold dismissPrompt_def Let_def)
     (auto simp: alike intro!: alike_call [OF alike_ops(3)])

lemma alike_operatorStatus: "services_alike svc svc' \<Longrightarrow> handlers_alike (operatorStatus svc) (operatorStatus svc')"
  by (rule alike_handlers, unfold operatorStatus_def Let_def)
     (auto simp: alike intro!: alike_call [OF alike_ops(6)])

lemma alike_operatorHistory: "services_alike svc svc' \<Longrightarrow> handlers_alike (operatorHistory svc) (operatorHistory svc')"
  by (rule alike_handlers, unfold operatorHistory_def Let_def)
     (auto simp: alike intro!: alike_call [OF alike_ops(7)])

lemma alike_operatorBlockers: "services_alike svc svc' \<Longrightarrow> handlers_alike (operatorBlockers svc) (operatorBlockers svc')"
  by (rule alike_handlers, unfold operatorBlockers_def Let_def)
     (auto simp: alike intro!: alike_call [OF alike_ops(4)])

lemma alike_blockerHistory: "services_alike svc svc' \<Longrightarrow> handlers_alike (blockerHistory svc) (blockerHistory svc')"
  by (rule alike_handlers, unfold blockerHistory_def Let_def)
     (auto simp: alike split: option.split intro!: alike_call [OF alike_ops(5)])

lemma alike_listSkills: "services_alike svc svc' \<Longrightarrow> handlers_alike (listSkills svc) (listSkills svc')"
  by (rule alike_handlers, unfold listSkills_def Let_def)
     (auto simp: alike split: sum.split intro!: alike_call [OF alike_ops(8)])

lemma alike_getSkill: "services_alike svc svc' \<Longrightarrow> handlers_alike (getSkill svc) (getSkill svc')"
  by (rule alike_handlers, unfold getSkill_def Let_def)
     (auto simp: alike intro!: alike_call [OF alike_ops(9)])

lemma alike_createSkill: "services_alike svc svc' \<Longrightarrow> handlers_alike (createSkill svc) (createSkill svc')"
  by (rule alike_handlers, unfold createSkill_def Let_def)
     (auto simp: alike intro!: alike_call [OF alike_ops(10)] alike_body)

lemma alike_deleteSkill: "services_alike svc svc' \<Longrightarrow> handlers_alike (deleteSkill svc) (deleteSkill svc')"
  by (rule alike_handlers, unfold deleteSkill_def Let_def)
     (auto simp: alike intro!: alike_call [OF alike_ops(11)])

lemma alike_generateSkill: "services_alike svc svc' \<Longrightarrow> handlers_alike (generateSkill svc) (generateSkill svc')"
  by (rule alike_handlers, unfold generateSkill_def Let_def)
     (auto simp: alike alike_retry intro!: alike_call [OF alike_ops(12)] alike_body)

lemma alike_listGraphs: "services_alike svc svc' \<Longrightarrow> handlers_alike (listGraphs svc) (listGraphs svc')"
  by (rule alike_handlers, unfold listGraphs_def Let_def)
     (auto simp: alike split: sum.split intro!: alike_call [OF alike_ops(13)])

lemma alike_getGraph: "services_alike svc svc' \<Longrightarrow> handlers_alike (getGraph svc) (getGraph svc')"
  by (rule alike_handlers, unfold getGraph_def Let_def)
     (auto simp: alike intro!: alike_call [OF alike_ops(14)])

lemma alike_listJobs: "services_alike svc svc' \<Longrightarrow> handlers_alike (listJobs svc) (listJobs svc')"
  by (rule alike_handlers, unfold listJobs_def Let_def)
     (auto simp: alike split: sum.split intro!: alike_call [OF alike_ops(16)] alike_call [OF alike_ops(15)])

lemma alike_getJob: "services_alike svc svc' \<Longrightarrow> handlers_alike (getJob svc) (getJob svc')"
  by (rule alike_handlers, unfold getJob_def Let_def)
     (auto simp: alike intro!: alike_call [OF alike_ops(17)])

lemma alike_cancelJob: "services_alike svc svc' \<Longrightarrow> handlers_alike (cancelJob svc) (cancelJob svc')"
  by (rule alike_handlers, unfold cancelJob_def Let_def)
     (auto simp: alike intro!: alike_call [OF alike_ops(18)])

lemma alike_listJobNotes: "services_alike svc svc' \<Longrightarrow> handlers_alike (listJobNotes svc) (listJobNotes svc')"
  by (rule alike_handlers, unfold listJobNotes_def Let_def)
     (auto simp: alike intro!: alike_call [OF alike_ops(37)])

lemma alike_getJobNote: "services_alike svc svc' \<Longrightarrow> handlers_alike (getJobNote svc) (getJobNote svc')"
  by (rule alike_handlers, unfold getJobNote_def Let_def)
     (auto simp: alike intro!: alike_call [OF alike_ops(38)])

lemma alike_retryTask: "services_alike svc svc' \<Longrightarrow> handlers_alike (retryTask svc) (retryTask svc')"
  by (rule alike_handlers, unfold retryTask_def Let_def)
     (auto simp: alike intro!: alike_call [OF alike_ops(19)])

lemma alike_listSessions: "services_alike svc svc' \<Longrightarrow> handlers_alike (listSessions svc) (listSessions svc')"
  by (rule alike_handlers, unfold listSessions_def Let_def)
     (auto simp: alike split: sum.split intro!: alike_call [OF alike_ops(20)])

lemma alike_getSession: "services_alike svc svc' \<Longrightarrow> handlers_alike (getSession svc) (getSession svc')"
  by (rule alike_handlers, unfold getSession_def Let_def)
     (auto simp: alike intro!: alike_call [OF alike_ops(21)])

lemma alike_cancelSession: "services_alike svc svc' \<Longrightarrow> handlers_alike (cancelSession svc) (cancelSession svc')"
  by (rule alike_handlers, unfold cancelSession_def Let_def)
     (auto simp: alike intro!: alike_call [OF alike_ops(22)])

lemma alike_listModels: "services_alike svc svc' \<Longrightarrow> handlers_alike (listModels svc) (listModels svc')"
  by (rule alike_handlers, unfold listModels_def Let_def)
     (auto simp: alike intro!: alike_call [OF alike_ops(24)])

lemma alike_addProvider: "services_alike svc svc' \<Longrightarrow> handlers_alike (addProvider svc) (addProvider svc')"
  by (rule alike_handlers, unfold addProvider_def Let_def)
     (auto simp: alike intro!: alike_call [OF alike_ops(29)] alike_body)

lemma alike_updateProvider: "services_alike svc svc' \<Longrightarrow> handlers_alike (updateProvider svc) (updateProvider svc')"
  by (rule alike_handlers, unfold updateProvider_def Let_def)
     (auto simp: alike intro!: alike_call [OF alike_ops(30)] alike_body)

lemma alike_listConfiguredProviderIDs: "services_alike svc svc' \<Longrightarrow> handlers_alike (listConfiguredProviderIDs svc) (listConfiguredProviderIDs svc')"
  by (rule alike_handlers, unfold listConfiguredProviderIDs_def Let_def)
     (auto simp: alike intro!: alike_call [OF alike_ops(31)])

lemma alike_setOperatorProvider: "services_alike svc svc' \<Longrightarrow> handlers_alike (setOperatorProvider svc) (setOperatorProvider svc')"
  by (rule alike_handlers, unfold setOperatorProvider_def Let_def)
     (auto simp: alike intro!: alike_call [OF alike_ops(32)] alike_body)

lemma alike_listProviderModels: "services_alike svc svc' \<Longrightarrow> handlers_alike (listProviderModels svc) (listProviderModels svc')"
  by (rule alike_handlers, unfold listProviderModels_def Let_def)
     (auto simp: alike same_text_def intro!: alike_call [OF alike_ops(33)])

lemma alike_listCatalog: "services_alike svc svc' \<Longrightarrow> handlers_alike (listCatalog svc) (listCatalog svc')"
  by (rule alike_handlers, unfold listCatalog_def Let_def)
     (auto simp: alike intro!: alike_call [OF alike_ops(28)])

lemma alike_listMCPServers: "services_alike svc svc' \<Longrightarrow> handlers_alike (listMCPServers svc) (listMCPServers svc')"
  by (rule alike_handlers, unfold listMCPServers_def Let_def)
     (auto simp: alike intro!: alike_call [OF alike_ops(25)])

lemma alike_getProgress: "services_alike svc svc' \<Longrightarrow> handlers_alike (getProgress svc) (getProgress svc')"
  by (rule alike_handlers, unfold getProgress_def Let_def)
     (auto simp: alike intro!: alike_call [OF alike_ops(26)])

lemma alike_getSettings: "services_alike svc svc' \<Longrightarrow> handlers_alike (getSettings svc) (getSettings svc')"
  by (rule alike_handlers, unfold getSettings_def Let_def)
     (auto simp: alike intro!: alike_call [OF alike_ops(34)])

lemma alike_updateSettings: "services_alike svc svc' \<Longrightarrow> handlers_alike (updateSettings svc) (updateSettings svc')"
  by (rule alike_handlers, unfold updateSettings_def Let_def)
     (auto simp: alike same_text_def intro!: alike_call [OF alike_ops(35)] alike_body)

lemma alike_getLogs: "services_alike svc svc' \<Longrightarrow> handlers_alike (getLogs svc) (getLogs svc')"
  by (rule alike_handlers, unfold getLogs_def Let_def)
     (auto simp: alike intro!: alike_call [OF alike_ops(27)])

lemma alike_getMetrics: "services_alike svc svc' \<Longrightarrow> handlers_alike (getMetrics svc) (getMetrics svc')"
  by (rule alike_handlers, unfold getMetrics_def Let_def)
     (auto simp: alike intro!: alike_call [OF alike_ops(36)])

lemma alike_health: "services_alike svc svc' \<Longrightarrow> handlers_alike (health seconds svc) (health seconds svc')"
  by (rule alike_handlers, unfold health_def Let_def)
     (auto simp: alike intro!: alike_call [OF alike_ops(23)])

lemma alike_routes:
  assumes "services_alike svc svc'" "handlers_alike events events'"
  shows "list_all2 (\<lambda>x y. fst x = fst y \<and> handlers_alike (snd x) (snd y))
    (routes events seconds svc) (routes events' seconds svc')"
  using assms by (simp add: routes_def alike_sendMessage alike_respondToPrompt alike_dismissPrompt alike_operatorStatus alike_operatorHistory alike_operatorBlockers alike_blockerHistory alike_listSkills alike_getSkill alike_createSkill alike_deleteSkill alike_generateSkill alike_listGraphs alike_getGraph alike_listJobs alike_getJob alike_cancelJob alike_listJobNotes alike_getJobNote alike_retryTask alike_listSessions alike_getSession alike_cancelSession alike_listModels alike_addProvider alike_updateProvider alike_listConfiguredProviderIDs alike_setOperatorProvider alike_listProviderModels alike_listCatalog alike_listMCPServers alike_getProgress alike_getSettings alike_updateSettings alike_getLogs alike_getMetrics alike_health)

lemma alike_dispatch:
  "list_all2 (\<lambda>x y. fst x = fst y \<and> handlers_alike (snd x) (snd y)) rs rs' \<Longrightarrow>
   rel_option (rel_prod handlers_alike (=)) (dispatch rs r) (dispatch rs' r)"
  by (induction rs rs' rule: list_all2_induct) (auto split: option.splits)

lemma alike_allowed:
  "list_all2 (\<lambda>x y. fst x = fst y \<and> handlers_alike (snd x) (snd y)) rs rs' \<Longrightarrow>
   allowed_methods rs p = allowed_methods rs' p"
proof -
  assume "list_all2 (\<lambda>x y. fst x = fst y \<and> handlers_alike (snd x) (snd y)) rs rs'"
  then have "map fst (filter (\<lambda>x. match_segments (snd (fst x)) (path_segments p) \<noteq> None) rs)
      = map fst (filter (\<lambda>x. match_segments (snd (fst x)) (path_segments p) \<noteq> None) rs')"
    by (induction rs rs' rule: list_all2_induct) auto
  then have "map (fst \<circ> fst) (filter (\<lambda>(pat, h). match_segments (snd pat) (path_segments p) \<noteq> None) rs)
      = map (fst \<circ> fst) (filter (\<lambda>(pat, h). match_segments (snd pat) (path_segments p) \<noteq> None) rs')"
    by (simp add: split_def flip: map_map)
  then show ?thesis by (simp add: allowed_methods_def)
qed

lemma alike_mux:
  assumes rs: "list_all2 (\<lambda>x y. fst x = fst y \<and> handlers_alike (snd x) (snd y)) rs rs'"
    and "handlers_alike redirect redirect'"
  shows "handlers_alike (serve_mux redirect rs) (serve_mux redirect' rs')"
proof (rule alike_handlers)
  fix r and c c' :: "'a conn"
  assume c: "same_conn c c'"
  show "same_outcome (serve_mux redirect rs r c) (serve_mux redirect' rs' r c')"
    using alike_dispatch [OF rs, of r] alike_allowed [OF rs] assms(2) c
    by (cases "dispatch rs r"; cases "dispatch rs' r")
       (auto simp: serve_mux_def handlers_alike_def Let_def alike)
qed

lemma alike_middleware:
  assumes "handlers_alike h h'"
  shows "handlers_alike (recoveryMiddleware h) (recoveryMiddleware h')"
    "handlers_alike (requestIDMiddleware new_id h) (requestIDMiddleware new_id h')"
    "handlers_alike (authMiddleware token h) (authMiddleware token h')"
    "handlers_alike (loggingMiddleware h) (loggingMiddleware h')"
    "handlers_alike (corsMiddleware hostname h) (corsMiddleware hostname h')"
    "handlers_alike (securityHeadersMiddleware h) (securityHeadersMiddleware h')"
    "handlers_alike (contentTypeMiddleware h) (contentTypeMiddleware h')"
proof -
  have h: "same_conn c c' \<Longrightarrow> same_outcome (h r c) (h' r c')" for r c c'
    using assms by (simp add: handlers_alike_def)
  show "handlers_alike (recoveryMiddleware h) (recoveryMiddleware h')"
  proof (rule alike_handlers)
    fix r and c c' :: "'a conn"
    assume "same_conn c c'"
    from h [OF this, of r] show "same_outcome (recoveryMiddleware h r c) (recoveryMiddleware h' r c')"
      by (cases "h r c"; cases "h' r c'") (simp_all add: recoveryMiddleware_def alike)
  qed
  show "handlers_alike (loggingMiddleware h) (loggingMiddleware h')"
  proof (rule alike_handlers)
    fix r and c c' :: "'a conn"
    assume "same_conn c c'"
    from h [OF this, of r] show "same_outcome (loggingMiddleware h r c) (loggingMiddleware h' r c')"
      by (cases "h r c"; cases "h' r c'") (simp_all add: loggingMiddleware_def alike)
  qed
  show "handlers_alike (requestIDMiddleware new_id h) (requestIDMiddleware new_id h')"
    "handlers_alike (authMiddleware token h) (authMiddleware token h')"
    "handlers_alike (corsMiddleware hostname h) (corsMiddleware hostname h')"
    "handlers_alike (securityHeadersMiddleware h) (securityHeadersMiddleware h')"
    "handlers_alike (contentTypeMiddleware h) (contentTypeMiddleware h')"
    by (rule alike_handlers; simp add: requestIDMiddleware_def authMiddleware_def corsMiddleware_def
        securityHeadersMiddleware_def contentTypeMiddleware_def Let_def h alike)+
qed

text \<open>C29. Of the errors of the service a response reveals the class and the cleaned message only.\<close>

theorem errors_reveal_only_class:
  assumes "services_alike svc (se_Service env)"
    and "handlers_alike (se_Events env) (se_Events env)" "handlers_alike (se_Redirect env) (se_Redirect env)"
  shows "(case serve_from (env\<lparr>se_Service := svc\<rparr>) r s of (resp, s', l) \<Rightarrow> (resp, s'))
    = (case serve_from env r s of (resp, s', l) \<Rightarrow> (resp, s'))"
proof -
  have "handlers_alike (server_handler (env\<lparr>se_Service := svc\<rparr>)) (server_handler env)"
    unfolding chain_unfold by (simp, intro alike_middleware alike_mux alike_routes assms)
  then have "same_outcome (server_handler (env\<lparr>se_Service := svc\<rparr>) r (fresh_conn s)) (server_handler env r (fresh_conn s))"
    by (simp add: handlers_alike_def same_conn_def)
  then show ?thesis
    by (cases "server_handler (env\<lparr>se_Service := svc\<rparr>) r (fresh_conn s)"; cases "server_handler env r (fresh_conn s)")
       (simp_all add: serve_from_def same_conn_def)
qed

lemma errors_reveal_only_class_witness:
  "(case serve_from (sample_env (failing_service (Conflictf ''in use: /tmp/a'')))
      (sample_request ''GET'' ''/api/v1/logs'' [(''Authorization'', ''Bearer secret'')]) () of (resp, s', l) \<Rightarrow> (resp, s'))
   = (case serve_from (sample_env (failing_service (Conflictf ''in use: /home/b/c'')))
      (sample_request ''GET'' ''/api/v1/logs'' [(''Authorization'', ''Bearer secret'')]) () of (resp, s', l) \<Rightarrow> (resp, s'))"
proof -
  have "SanitizeErrorMessage ''in use: /tmp/a'' = SanitizeErrorMessage ''in use: /home/b/c''"
    by (simp add: SanitizeErrorMessage.simps path_match_def path_roots_def path_char_def has_prefix_code)
  then have "services_alike (failing_service (Conflictf ''in use: /tmp/a''))
      (se_Service (sample_env (failing_service (Conflictf ''in use: /home/b/c'')) :: unit server_env))"
    by (simp add: services_alike_def failing_service_def sample_env_def op_alike_def same_class_def same_text_def
        mapServiceError_def Conflictf_def)
  from errors_reveal_only_class [OF this, of "sample_request ''GET'' ''/api/v1/logs'' [(''Authorization'', ''Bearer secret'')]" "()"]
  show ?thesis
    by (simp add: sample_env_def handlers_alike_def alike)
qed

section \<open>Pages\<close>

lemma page_of:
  "fst (paginate xs \<lparr>pg_Limit = int k, pg_Offset = int n\<rparr>) = drop n (take (n + k) xs)"
proof (cases "length xs \<le> n")
  case False
  have "nat (if int n + int k > int (length xs) then int (length xs) else int n + int k) = min (n + k) (length xs)"
    by auto
  then show ?thesis using False by (simp add: paginate_def Let_def min_def)
qed (simp add: paginate_def)

text \<open>The pages of a list, one after the other, are the list.\<close>

theorem pages_make_the_list:
  "concat (map (\<lambda>i. fst (paginate xs \<lparr>pg_Limit = int k, pg_Offset = int (i * k)\<rparr>)) [0..<n]) = take (n * k) xs"
proof (induction n)
  case (Suc n)
  have "drop (n * k) (take (n * k + k) xs) = take k (drop (n * k) xs)" by (simp add: drop_take)
  moreover have "Suc n * k = n * k + k" by simp
  ultimately have "take (n * k) xs @ drop (n * k) (take (n * k + k) xs) = take (Suc n * k) xs" by (simp only: take_add)
  then show ?case using Suc page_of [of xs k "n * k"] by (simp add: add.commute)
qed simp

lemma page_bounded: "0 \<le> pg_Limit p \<Longrightarrow> 0 \<le> pg_Offset p \<Longrightarrow> length (fst (paginate xs p)) \<le> nat (pg_Limit p)"
  using page_of [of xs "nat (pg_Limit p)" "nat (pg_Offset p)"] by (cases p) simp

section \<open>Details of the middleware\<close>

text \<open>The token is accepted without the word \<open>Bearer\<close> too.\<close>

lemma bare_token_accepted:
  assumes "header_get (rq_Header r) ''Authorization'' = token" "\<not> has_prefix token ''Bearer ''"
  shows "authMiddleware token h r c = h r c"
  using assms by (simp add: authMiddleware_def trim_prefix_def)

text \<open>
  A browser's preflight request carries no token, and authentication comes before CORS: with a token
  set, it is refused without the headers that would allow the request that follows.
\<close>

lemma preflight_refused:
  assumes "se_Token env \<noteq> []" "header_get (rq_Header r) ''Authorization'' = []" "rq_Method r = ''OPTIONS''"
    and "url_path r \<noteq> ''/api/v1/health''" "serve_from env r s = (resp, s', l)"
  shows "rs_Status resp = 401 \<and> map_of (rs_Header resp) ''Access-Control-Allow-Origin'' = None"
proof -
  have t: "trim_prefix [] ''Bearer '' \<noteq> se_Token env" using assms(1) by (simp add: trim_prefix_def has_prefix_code)
  show ?thesis using assms t
    by (auto simp: serve_from_def chain_unfold recoveryMiddleware_def requestIDMiddleware_def authMiddleware_def Let_def
        url_path_def reply_error_def writeError_def writeJSON_def write_body_def write_header_def
        set_header_def on_writer_def fresh_conn_def finish_def)
qed

text \<open>The recovery middleware sees the request before it has an id, so it logs an empty one.\<close>

lemma panic_logged_without_id:
  "h r c = Panicked c' msg \<Longrightarrow> rq_RequestID r = None \<Longrightarrow>
   recoveryMiddleware h r c = reply_error 500 ''internal_error'' ''internal server error''
     (add_log (LogPanic msg (rq_Method r) (url_path r) []) c')"
  by (simp add: recoveryMiddleware_def requestID_def)

end
