(* ===== verification/HttpClient.thy ===== *)
theory HttpClient
  imports HttpBodies HttpPaths
begin

text \<open>
  The remote client (\<open>internal/client/client.go\<close>, \<open>internal/client/http.go\<close>): the requests the
  transport sends, the errors it makes of statuses and network failures, the decoding of responses,
  and the operations of \<open>RemoteClient\<close>, which together are a \<open>service.Service\<close>. The network, with
  \<open>http.NewRequest\<close> and \<open>http.Client.Do\<close>, is a function on a state, the world the client talks to;
  the texts of \<open>encoding/json\<close>'s errors are not modelled.
\<close>

section \<open>Transport\<close>

record http_request =
  hr_Method :: string
  hr_URL :: string
  hr_Header :: "(string \<times> string) list"
  hr_Body :: "string option"

record http_response =
  hs_Status :: nat
  hs_Body :: string

text \<open>
  How a request can fail: it cannot be built, the connection fails (a \<open>net.Error\<close> or a
  \<open>net.OpError\<close>), or something else does.
\<close>

datatype net_failure = BadRequest string | NetError string | OtherError string

type_synonym 's network = "http_request \<Rightarrow> 's \<Rightarrow> (net_failure + http_response) \<times> 's"

record 's transport =
  ht_baseURL :: string
  ht_token :: string
  ht_Do :: "'s network"

definition auth_header :: "string \<Rightarrow> (string \<times> string) list" where
  "auth_header token = (if token \<noteq> [] then [(''Authorization'', ''Bearer '' @ token)] else [])"

fun asConnectionError :: "net_failure \<Rightarrow> go_error option" where
  "asConnectionError (NetError msg) =
     Some (Wrapped (sentinel_text ClientConnectionFailed @ '': '' @ msg) (Sentinel ClientConnectionFailed))"
| "asConnectionError _ = None"

definition isConnectionError :: "go_error \<Rightarrow> bool" where
  "isConnectionError e \<longleftrightarrow> errors_is e ClientConnectionFailed"

definition transport_error :: "string \<Rightarrow> string \<Rightarrow> net_failure \<Rightarrow> go_error" where
  "transport_error meth path f =
     (case asConnectionError f of
        Some e \<Rightarrow> e
      | None \<Rightarrow>
          (case f of
             BadRequest msg \<Rightarrow> wrap_error (''creating '' @ meth @ '' request'') (Plain msg)
           | OtherError msg \<Rightarrow> wrap_error (''executing '' @ meth @ '' '' @ path) (Plain msg)
           | NetError msg \<Rightarrow> Plain msg))"

definition http_send :: "'s transport \<Rightarrow> string \<Rightarrow> string \<Rightarrow> (string \<times> string) list \<Rightarrow> string option
    \<Rightarrow> 's \<Rightarrow> (go_error + http_response) \<times> 's" where
  "http_send tr meth path hs b s =
     (case ht_Do tr \<lparr>hr_Method = meth, hr_URL = ht_baseURL tr @ path,
             hr_Header = (''Accept'', ''application/json'') # hs @ auth_header (ht_token tr), hr_Body = b\<rparr> s of
        (Inl f, s') \<Rightarrow> (Inl (transport_error meth path f), s')
      | (Inr resp, s') \<Rightarrow> (Inr resp, s'))"

definition http_get :: "'s transport \<Rightarrow> string \<Rightarrow> 's \<Rightarrow> (go_error + http_response) \<times> 's" where
  "http_get tr path = http_send tr ''GET'' path [] None"

definition http_delete :: "'s transport \<Rightarrow> string \<Rightarrow> 's \<Rightarrow> (go_error + http_response) \<times> 's" where
  "http_delete tr path = http_send tr ''DELETE'' path [] None"

definition doWithBody :: "'s transport \<Rightarrow> string \<Rightarrow> string \<Rightarrow> json option \<Rightarrow> 's \<Rightarrow> (go_error + http_response) \<times> 's" where
  "doWithBody tr meth path b =
     http_send tr meth path (if b \<noteq> None then [(''Content-Type'', ''application/json'')] else [])
       (map_option encode b)"

definition http_post :: "'s transport \<Rightarrow> string \<Rightarrow> json option \<Rightarrow> 's \<Rightarrow> (go_error + http_response) \<times> 's" where
  "http_post tr path b = doWithBody tr ''POST'' path b"

definition http_put :: "'s transport \<Rightarrow> string \<Rightarrow> json option \<Rightarrow> 's \<Rightarrow> (go_error + http_response) \<times> 's" where
  "http_put tr path b = doWithBody tr ''PUT'' path b"

section \<open>Responses\<close>

text \<open>\<open>http.StatusText\<close>, of the statuses the server and its multiplexer answer with.\<close>

definition StatusText :: "nat \<Rightarrow> string" where
  "StatusText code =
     (case map_of [(400, ''Bad Request''), (401, ''Unauthorized''), (403, ''Forbidden''), (404, ''Not Found''),
        (405, ''Method Not Allowed''), (409, ''Conflict''), (422, ''Unprocessable Entity''),
        (429, ''Too Many Requests''), (500, ''Internal Server Error''), (502, ''Bad Gateway''),
        (503, ''Service Unavailable''), (504, ''Gateway Timeout'')] code of
        Some t \<Rightarrow> t | None \<Rightarrow> [])"

definition extractErrorMessage :: "http_response \<Rightarrow> string" where
  "extractErrorMessage resp =
     (case Option.bind (response_value (hs_Body resp)) (\<lambda>j. read_struct ErrorResponse_fields j zero_ErrorResponse) of
        Some w \<Rightarrow> (if ErrorDetail_Message (ErrorResponse_Error w) \<noteq> [] then ErrorDetail_Message (ErrorResponse_Error w)
                   else StatusText (hs_Status resp))
      | None \<Rightarrow> StatusText (hs_Status resp))"

definition sentinel_error :: "sentinel \<Rightarrow> string \<Rightarrow> go_error" where
  "sentinel_error s msg = Wrapped (sentinel_text s @ '': '' @ msg) (Sentinel s)"

definition mapStatusToError :: "nat \<Rightarrow> string \<Rightarrow> go_error" where
  "mapStatusToError status msg =
     (if status = 401 then sentinel_error ClientUnauthorized msg
      else if status = 404 then sentinel_error ErrNotFound msg
      else if status = 409 then sentinel_error ClientConflict msg
      else if status = 422 then sentinel_error ClientUnprocessable msg
      else if status = 429 then sentinel_error ClientRateLimited msg
      else if status = 500 then sentinel_error ClientServerError msg
      else if status = 503 then sentinel_error ClientServiceUnavailable msg
      else Plain (''unexpected status '' @ digits_of status @ '': '' @ msg))"

definition decodeResponse :: "'a reader \<Rightarrow> 'a \<Rightarrow> http_response \<Rightarrow> go_error + 'a" where
  "decodeResponse rd zero resp =
     (if hs_Status resp = 204 then Inr zero
      else if 200 \<le> hs_Status resp \<and> hs_Status resp < 300
      then (case Option.bind (response_value (hs_Body resp)) (\<lambda>j. rd j zero) of
              Some v \<Rightarrow> Inr v
            | None \<Rightarrow> Inl (Plain ''decoding response body''))
      else Inl (mapStatusToError (hs_Status resp) (extractErrorMessage resp)))"

definition decodeNoContent :: "http_response \<Rightarrow> go_error + unit" where
  "decodeNoContent resp =
     (if 200 \<le> hs_Status resp \<and> hs_Status resp < 300 then Inr ()
      else Inl (mapStatusToError (hs_Status resp) (extractErrorMessage resp)))"

text \<open>A response decoded into a struct, and one decoded into a list response whose items are converted.\<close>

definition decode_as :: "'w fields \<Rightarrow> 'w \<Rightarrow> ('w \<Rightarrow> 'a) \<Rightarrow> http_response \<Rightarrow> go_error + 'a" where
  "decode_as fs zero conv resp = map_sum (\<lambda>e. e) conv (decodeResponse (read_struct fs) zero resp)"

definition decode_list :: "'w fields \<Rightarrow> 'w \<Rightarrow> ('w \<Rightarrow> 'a) \<Rightarrow> http_response \<Rightarrow> go_error + 'a slice" where
  "decode_list fs zero conv =
     decode_as (PaginatedResponse_fields (read_struct fs) zero) zero_PaginatedResponse
       (\<lambda>pr. Some (map conv (elems (PaginatedResponse_Items pr))))"

text \<open>Every operation sends its request and decodes the response; an error of either is wrapped.\<close>

definition remote_call :: "string \<Rightarrow> ('s \<Rightarrow> (go_error + http_response) \<times> 's) \<Rightarrow> (http_response \<Rightarrow> go_error + 'a)
    \<Rightarrow> ('s, 'a) op" where
  "remote_call opname send dec s =
     (case send s of
        (Inl e, s') \<Rightarrow> (Failed (wrap_error opname e), s')
      | (Inr resp, s') \<Rightarrow>
          (case dec resp of
             Inl e \<Rightarrow> (Failed (wrap_error opname e), s')
           | Inr x \<Rightarrow> (Answer x, s')))"

section \<open>Conversions\<close>

definition operator_status :: "OperatorStatusResponse \<Rightarrow> OperatorStatus" where
  "operator_status w =
     \<lparr>OperatorStatus_State = OperatorStatusResponse_State w,
      OperatorStatus_CurrentTurnID = OperatorStatusResponse_CurrentTurnID w,
      OperatorStatus_ModelName = OperatorStatusResponse_ModelName w,
      OperatorStatus_Endpoint = OperatorStatusResponse_Endpoint w,
      OperatorStatus_ContextWindow = OperatorStatusResponse_ContextWindow w\<rparr>"

definition wireBlockerToService :: "'a wireBlockerPayload_scheme \<Rightarrow> Blocker" where
  "wireBlockerToService w =
     \<lparr>Blocker_RequestID = wireBlockerPayload_RequestID w, Blocker_Source = wireBlockerPayload_Source w,
      Blocker_JobID = wireBlockerPayload_JobID w, Blocker_TaskID = wireBlockerPayload_TaskID w,
      Blocker_Questions = appended (map (\<lambda>q. \<lparr>PromptQuestion_Question = wirePromptQuestion_Question q,
         PromptQuestion_Options = wirePromptQuestion_Options q\<rparr>) (elems (wireBlockerPayload_Questions w))),
      Blocker_CreatedAt = wireBlockerPayload_CreatedAt w\<rparr>"

definition blocker_record :: "wireBlockerRecord \<Rightarrow> BlockerRecord" where
  "blocker_record w =
     \<lparr>BlockerRecord_Blocker = wireBlockerToService w, BlockerRecord_ResolvedAt = wireBlockerRecord_ResolvedAt w,
      BlockerRecord_Disposition = wireBlockerRecord_Disposition w, BlockerRecord_Answer = wireBlockerRecord_Answer w\<rparr>"

text \<open>The query of a filter: what is nil, empty or not positive is left out.\<close>

definition filter_query :: "JobListFilter option \<Rightarrow> string" where
  "filter_query filt =
     (case filt of
        None \<Rightarrow> []
      | Some f \<Rightarrow>
          (let q = encode_query (
                 (if JobListFilter_Limit f > 0 then [(''limit'', fmt_int (JobListFilter_Limit f))] else []) @
                 (if JobListFilter_Offset f > 0 then [(''offset'', fmt_int (JobListFilter_Offset f))] else []) @
                 (case JobListFilter_Status f of Some st \<Rightarrow> [(''status'', st)] | None \<Rightarrow> []) @
                 (case JobListFilter_Type f of Some ty \<Rightarrow> [(''type'', ty)] | None \<Rightarrow> []))
           in if q = [] then [] else ''?'' @ q))"

text \<open>A floating-point product converted to a duration: a parameter.\<close>

definition health_status :: "(json_float \<Rightarrow> go_int) \<Rightarrow> HealthResponse \<Rightarrow> HealthStatus" where
  "health_status duration w =
     \<lparr>HealthStatus_Status = HealthResponse_Status w, HealthStatus_Version = HealthResponse_Version w,
      HealthStatus_Uptime = duration (HealthResponse_UptimeSeconds w)\<rparr>"

definition provider_to_wire :: "AddProviderRequest \<Rightarrow> wireAddProviderRequest" where
  "provider_to_wire req =
     \<lparr>wireAddProviderRequest_ID = AddProviderRequest_ID req, wireAddProviderRequest_Name = AddProviderRequest_Name req,
      wireAddProviderRequest_Type = AddProviderRequest_Type req,
      wireAddProviderRequest_Endpoint = AddProviderRequest_Endpoint req,
      wireAddProviderRequest_APIKey = AddProviderRequest_APIKey req\<rparr>"

section \<open>Operations\<close>

subsection \<open>The operator\<close>

definition rc_SendMessage :: "'s transport \<Rightarrow> string \<Rightarrow> ('s, string) op" where
  "rc_SendMessage tr message =
     remote_call ''send message''
       (http_post tr ''/api/v1/operator/messages''
          (Some (SendMessageRequest_json \<lparr>SendMessageRequest_Message = message\<rparr>)))
       (decode_as TurnResponse_fields zero_TurnResponse TurnResponse_TurnID)"

definition rc_RespondToPrompt :: "'s transport \<Rightarrow> string \<Rightarrow> string \<Rightarrow> ('s, unit) op" where
  "rc_RespondToPrompt tr requestID response =
     remote_call ''respond to prompt''
       (http_post tr (''/api/v1/operator/prompts/'' @ PathEscape requestID @ ''/respond'')
          (Some (RespondToPromptRequest_json \<lparr>RespondToPromptRequest_Response = response\<rparr>)))
       decodeNoContent"

definition rc_DismissPrompt :: "'s transport \<Rightarrow> string \<Rightarrow> ('s, unit) op" where
  "rc_DismissPrompt tr requestID =
     remote_call ''dismiss prompt''
       (http_post tr (''/api/v1/operator/prompts/'' @ PathEscape requestID @ ''/dismiss'')
          (Some (JObj [])))
       decodeNoContent"

definition rc_Status :: "'s transport \<Rightarrow> ('s, OperatorStatus) op" where
  "rc_Status tr =
     remote_call ''get operator status'' (http_get tr ''/api/v1/operator/status'')
       (decode_as OperatorStatusResponse_fields zero_OperatorStatusResponse operator_status)"

definition rc_History :: "'s transport \<Rightarrow> ('s, ChatEntry slice) op" where
  "rc_History tr =
     remote_call ''get operator history'' (http_get tr ''/api/v1/operator/history'')
       (decode_list wireChatEntry_fields zero_wireChatEntry wireChatEntryToService)"

definition rc_Blockers :: "'s transport \<Rightarrow> ('s, Blocker slice) op" where
  "rc_Blockers tr =
     remote_call ''get operator blockers'' (http_get tr ''/api/v1/operator/blockers'')
       (decode_list wireBlockerPayload_fields zero_wireBlockerPayload wireBlockerToService)"

definition rc_BlockerHistory :: "'s transport \<Rightarrow> int \<Rightarrow> ('s, BlockerRecord slice) op" where
  "rc_BlockerHistory tr limit =
     remote_call ''get blocker history''
       (http_get tr (''/api/v1/operator/blockers/history'' @ (if limit > 0 then ''?limit='' @ fmt_int limit else [])))
       (decode_list wireBlockerRecord_fields zero_wireBlockerRecord blocker_record)"

subsection \<open>Definitions\<close>

definition rc_ListSkills :: "'s transport \<Rightarrow> ('s, Skill slice) op" where
  "rc_ListSkills tr =
     remote_call ''list skills'' (http_get tr ''/api/v1/skills'')
       (decode_list wireSkill_fields zero_wireSkill wireSkillToService)"

definition rc_GetSkill :: "'s transport \<Rightarrow> string \<Rightarrow> ('s, Skill) op" where
  "rc_GetSkill tr key =
     remote_call ''get skill'' (http_get tr (''/api/v1/skills/'' @ PathEscape key))
       (decode_as wireSkill_fields zero_wireSkill wireSkillToService)"

definition rc_CreateSkill :: "'s transport \<Rightarrow> string \<Rightarrow> ('s, Skill) op" where
  "rc_CreateSkill tr name =
     remote_call ''create skill''
       (http_post tr ''/api/v1/skills''
          (Some (CreateSkillRequest_json \<lparr>CreateSkillRequest_Name = name\<rparr>)))
       (decode_as wireSkill_fields zero_wireSkill wireSkillToService)"

definition rc_DeleteSkill :: "'s transport \<Rightarrow> string \<Rightarrow> ('s, unit) op" where
  "rc_DeleteSkill tr key =
     remote_call ''delete skill'' (http_delete tr (''/api/v1/skills/'' @ PathEscape key))
       decodeNoContent"

definition rc_GenerateSkill :: "'s transport \<Rightarrow> string \<Rightarrow> ('s, string) op" where
  "rc_GenerateSkill tr prompt =
     remote_call ''generate skill''
       (http_post tr ''/api/v1/skills/generate''
          (Some (GenerateRequest_json \<lparr>GenerateRequest_Prompt = prompt\<rparr>)))
       (decode_as AsyncResponse_fields zero_AsyncResponse AsyncResponse_OperationID)"

definition rc_ListGraphs :: "'s transport \<Rightarrow> ('s, GraphDefinition slice) op" where
  "rc_ListGraphs tr =
     remote_call ''list graphs'' (http_get tr ''/api/v1/graphs'')
       (decode_list wireGraphDefinition_fields zero_wireGraphDefinition wireGraphDefinitionToService)"

definition rc_GetGraph :: "'s transport \<Rightarrow> string \<Rightarrow> ('s, GraphDefinition) op" where
  "rc_GetGraph tr key =
     remote_call ''get graph'' (http_get tr (''/api/v1/graphs/'' @ PathEscape key))
       (decode_as wireGraphDefinition_fields zero_wireGraphDefinition wireGraphDefinitionToService)"

subsection \<open>Jobs and tasks\<close>

definition rc_ListJobs :: "'s transport \<Rightarrow> JobListFilter option \<Rightarrow> ('s, Job slice) op" where
  "rc_ListJobs tr filt =
     remote_call ''list jobs'' (http_get tr (''/api/v1/jobs'' @ filter_query filt))
       (decode_list wireJob_fields zero_wireJob wireJobToService)"

definition rc_ListAllJobs :: "'s transport \<Rightarrow> ('s, Job slice) op" where
  "rc_ListAllJobs tr =
     remote_call ''list all jobs'' (http_get tr ''/api/v1/jobs?all=true'')
       (decode_list wireJob_fields zero_wireJob wireJobToService)"

definition rc_GetJob :: "'s transport \<Rightarrow> string \<Rightarrow> ('s, JobDetail) op" where
  "rc_GetJob tr key =
     remote_call ''get job'' (http_get tr (''/api/v1/jobs/'' @ PathEscape key))
       (decode_as wireJobDetail_fields zero_wireJobDetail wireJobDetailToService)"

definition rc_CancelJob :: "'s transport \<Rightarrow> string \<Rightarrow> ('s, unit) op" where
  "rc_CancelJob tr key =
     remote_call ''cancel job'' (http_post tr (''/api/v1/jobs/'' @ PathEscape key @ ''/cancel'') None)
       decodeNoContent"

definition rc_RetryTask :: "'s transport \<Rightarrow> string \<Rightarrow> ('s, unit) op" where
  "rc_RetryTask tr key =
     remote_call ''retry task'' (http_post tr (''/api/v1/tasks/'' @ PathEscape key @ ''/retry'') None)
       decodeNoContent"

subsection \<open>Sessions\<close>

definition rc_ListSessions :: "'s transport \<Rightarrow> ('s, SessionSnapshot slice) op" where
  "rc_ListSessions tr =
     remote_call ''list sessions'' (http_get tr ''/api/v1/sessions'')
       (decode_list wireSessionSnapshot_fields zero_wireSessionSnapshot wireSessionSnapshotToService)"

definition rc_GetSession :: "'s transport \<Rightarrow> string \<Rightarrow> ('s, SessionDetail) op" where
  "rc_GetSession tr key =
     remote_call ''get session'' (http_get tr (''/api/v1/sessions/'' @ PathEscape key))
       (decode_as wireSessionDetail_fields zero_wireSessionDetail wireSessionDetailToService)"

definition rc_CancelSession :: "'s transport \<Rightarrow> string \<Rightarrow> ('s, unit) op" where
  "rc_CancelSession tr key =
     remote_call ''cancel session''
       (http_post tr (''/api/v1/sessions/'' @ PathEscape key @ ''/cancel'') None)
       decodeNoContent"

subsection \<open>The system\<close>

definition rc_Health :: "'s transport \<Rightarrow> (json_float \<Rightarrow> go_int) \<Rightarrow> ('s, HealthStatus) op" where
  "rc_Health tr duration =
     remote_call ''health check'' (http_get tr ''/api/v1/health'')
       (decode_as HealthResponse_fields zero_HealthResponse (health_status duration))"

definition rc_ListModels :: "'s transport \<Rightarrow> ('s, ModelInfo slice) op" where
  "rc_ListModels tr =
     remote_call ''list models'' (http_get tr ''/api/v1/models'')
       (decode_list wireModelInfo_fields zero_wireModelInfo wireModelInfoToService)"

definition rc_ListCatalogProviders :: "'s transport \<Rightarrow> ('s, CatalogProvider slice) op" where
  "rc_ListCatalogProviders tr =
     remote_call ''list catalog'' (http_get tr ''/api/v1/catalog'')
       (decode_list wireCatalogProvider_fields zero_wireCatalogProvider wireCatalogProviderToService)"

definition rc_AddProvider :: "'s transport \<Rightarrow> AddProviderRequest \<Rightarrow> ('s, unit) op" where
  "rc_AddProvider tr req =
     remote_call ''add provider''
       (http_post tr ''/api/v1/providers'' (Some (wireAddProviderRequest_json (provider_to_wire req))))
       decodeNoContent"

definition rc_UpdateProvider :: "'s transport \<Rightarrow> AddProviderRequest \<Rightarrow> ('s, unit) op" where
  "rc_UpdateProvider tr req =
     remote_call ''update provider''
       (http_put tr ''/api/v1/providers'' (Some (wireAddProviderRequest_json (provider_to_wire req))))
       decodeNoContent"

definition rc_ListConfiguredProviderIDs :: "'s transport \<Rightarrow> ('s, string slice) op" where
  "rc_ListConfiguredProviderIDs tr =
     remote_call ''list configured providers'' (http_get tr ''/api/v1/providers/configured'')
       (decodeResponse (read_slice read_string '''') None)"

definition rc_SetOperatorProvider :: "'s transport \<Rightarrow> string \<Rightarrow> string \<Rightarrow> ('s, unit) op" where
  "rc_SetOperatorProvider tr providerID model =
     remote_call ''set operator provider''
       (http_put tr ''/api/v1/operator/provider''
          (Some (operator_provider_json \<lparr>op_ProviderID = providerID, op_Model = model\<rparr>)))
       decodeNoContent"

definition rc_GetSettings :: "'s transport \<Rightarrow> ('s, Settings) op" where
  "rc_GetSettings tr =
     remote_call ''get settings'' (http_get tr ''/api/v1/settings'')
       (decode_as Settings_fields zero_Settings (\<lambda>w. w))"

definition rc_UpdateSettings :: "'s transport \<Rightarrow> Settings \<Rightarrow> ('s, unit) op" where
  "rc_UpdateSettings tr settings =
     remote_call ''update settings'' (http_put tr ''/api/v1/settings'' (Some (Settings_json settings)))
       decodeNoContent"

definition rc_ListProviderModels :: "'s transport \<Rightarrow> string \<Rightarrow> ('s, ModelInfo slice) op" where
  "rc_ListProviderModels tr providerID =
     remote_call ''list provider models''
       (http_get tr (''/api/v1/providers/'' @ PathEscape providerID @ ''/models''))
       (decode_list wireModelInfo_fields zero_wireModelInfo wireModelInfoToService)"

definition rc_ListMCPServers :: "'s transport \<Rightarrow> ('s, MCPServerStatus slice) op" where
  "rc_ListMCPServers tr =
     remote_call ''list MCP servers'' (http_get tr ''/api/v1/mcp/servers'')
       (decode_list wireMCPServerStatus_fields zero_wireMCPServerStatus wireMCPServerStatusToService)"

definition rc_GetProgressState :: "'s transport \<Rightarrow> ('s, ProgressState) op" where
  "rc_GetProgressState tr =
     remote_call ''get progress state'' (http_get tr ''/api/v1/progress'')
       (decode_as wireProgressState_fields zero_wireProgressState wireProgressStateToService)"

definition rc_GetLogs :: "'s transport \<Rightarrow> ('s, string) op" where
  "rc_GetLogs tr =
     remote_call ''get logs'' (http_get tr ''/api/v1/logs'')
       (decode_as logsResponse_fields zero_logsResponse logsResponse_Content)"

definition rc_Metrics :: "'s transport \<Rightarrow> ('s, MetricsReport) op" where
  "rc_Metrics tr =
     remote_call ''get metrics'' (http_get tr ''/api/v1/metrics'')
       (decode_as wireMetricsReport_fields zero_wireMetricsReport wireMetricsReportToService)"

subsection \<open>Notes\<close>

definition rc_ListJobNotes :: "'s transport \<Rightarrow> string \<Rightarrow> ('s, NoteMeta slice) op" where
  "rc_ListJobNotes tr jobID =
     remote_call ''list job notes'' (http_get tr (''/api/v1/jobs/'' @ PathEscape jobID @ ''/notes''))
       (decode_list wireNoteMeta_fields zero_wireNoteMeta wireNoteMetaToService)"

definition rc_ReadJobNote :: "'s transport \<Rightarrow> string \<Rightarrow> string \<Rightarrow> ('s, string) op" where
  "rc_ReadJobNote tr jobID key =
     remote_call ''read job note''
       (http_get tr (''/api/v1/jobs/'' @ PathEscape jobID @ ''/notes/'' @ PathEscape key))
       (decode_as noteContentResponse_fields zero_noteContentResponse noteContentResponse_Content)"


section \<open>The client as a service\<close>

definition RemoteClient :: "'s transport \<Rightarrow> (json_float \<Rightarrow> go_int) \<Rightarrow> 's Service" where
  "RemoteClient tr duration =
     \<lparr>svc_Operator =
        \<lparr>os_SendMessage = rc_SendMessage tr, os_RespondToPrompt = rc_RespondToPrompt tr,
         os_DismissPrompt = rc_DismissPrompt tr, os_Blockers = rc_Blockers tr,
         os_BlockerHistory = rc_BlockerHistory tr, os_Status = rc_Status tr, os_History = rc_History tr\<rparr>,
      svc_Definitions =
        \<lparr>ds_ListSkills = rc_ListSkills tr, ds_GetSkill = rc_GetSkill tr, ds_CreateSkill = rc_CreateSkill tr,
         ds_DeleteSkill = rc_DeleteSkill tr, ds_GenerateSkill = rc_GenerateSkill tr,
         ds_ListGraphs = rc_ListGraphs tr, ds_GetGraph = rc_GetGraph tr\<rparr>,
      svc_Jobs =
        \<lparr>js_List = rc_ListJobs tr, js_ListAll = rc_ListAllJobs tr, js_Get = rc_GetJob tr,
         js_Cancel = rc_CancelJob tr, js_RetryTask = rc_RetryTask tr\<rparr>,
      svc_Sessions =
        \<lparr>ss_List = rc_ListSessions tr, ss_Get = rc_GetSession tr, ss_Cancel = rc_CancelSession tr\<rparr>,
      svc_System =
        \<lparr>sy_Health = rc_Health tr duration, sy_ListModels = rc_ListModels tr,
         sy_ListMCPServers = rc_ListMCPServers tr, sy_GetProgressState = rc_GetProgressState tr,
         sy_GetLogs = rc_GetLogs tr, sy_ListCatalogProviders = rc_ListCatalogProviders tr,
         sy_AddProvider = rc_AddProvider tr, sy_UpdateProvider = rc_UpdateProvider tr,
         sy_ListConfiguredProviderIDs = rc_ListConfiguredProviderIDs tr,
         sy_SetOperatorProvider = rc_SetOperatorProvider tr, sy_ListProviderModels = rc_ListProviderModels tr,
         sy_GetSettings = rc_GetSettings tr, sy_UpdateSettings = rc_UpdateSettings tr, sy_Metrics = rc_Metrics tr\<rparr>,
      svc_Knowledge = \<lparr>ks_ListJobNotes = rc_ListJobNotes tr, ks_ReadJobNote = rc_ReadJobNote tr\<rparr>\<rparr>"

end
