(* ===== verification/HttpRemote.thy ===== *)
theory HttpRemote
  imports HttpGuards HttpClient
begin

text \<open>
  The remote client talking to the server: what a caller of \<open>RemoteClient\<close> gets is what the service
  behind the server answers, as the client sees its values, or an error made of the class and the
  cleaned message of the service's error. The network is perfect here: it hands every request to the
  server and the response back. A redirection, which the server sends only for an unclean path, is not
  followed.
\<close>

section \<open>A network that ends at the server\<close>

definition net_of :: "'s server_env \<Rightarrow> string \<Rightarrow> 's network" where
  "net_of env base req s =
     (let (path, rest) = cut_at (CHR ''?'') (drop (length base) (hr_URL req));
          b = (case hr_Body req of Some b \<Rightarrow> b | None \<Rightarrow> []);
          (resp, s', l) = serve_from env
            \<lparr>rq_Method = hr_Method req, rq_Path = path, rq_RawQuery = rest, rq_Header = hr_Header req, rq_Body = Some b,
             rq_ContentLength = int (length b), rq_RequestID = None, rq_PathValues = []\<rparr> s
      in (Inr \<lparr>hs_Status = rs_Status resp, hs_Body = rs_Body resp\<rparr>, s'))"

definition connected :: "'s server_env \<Rightarrow> 's transport \<Rightarrow> bool" where
  "connected env tr \<longleftrightarrow> ht_Do tr = net_of env (ht_baseURL tr) \<and> (se_Token env = [] \<or> ht_token tr = se_Token env)"

section \<open>Through the middleware\<close>

text \<open>The response a handler's outcome becomes, as the client sees it.\<close>

definition response_of :: "string \<Rightarrow> writer \<Rightarrow> http_response" where
  "response_of m w = (let p = finish m w in \<lparr>hs_Status = rs_Status p, hs_Body = rs_Body p\<rparr>)"

definition viewed :: "string \<Rightarrow> 's conn outcome \<Rightarrow> http_response \<times> 's" where
  "viewed m x =
     (case x of
        Returned c \<Rightarrow> (response_of m (cn_W c), cn_Svc c)
      | Panicked c msg \<Rightarrow>
          (response_of m (writeError 500 ''internal_error'' ''internal server error'' (cn_W c)), cn_Svc c))"

definition fresh_writer :: "writer \<Rightarrow> bool" where
  "fresh_writer w \<longleftrightarrow> w_Sent w = None \<and> w_Body w = []"

lemma fresh_set_header [simp]: "fresh_writer (set_header k v w) \<longleftrightarrow> fresh_writer w"
  by (simp add: fresh_writer_def set_header_def)

lemma response_simps [simp]:
  "fresh_writer w \<Longrightarrow> m \<noteq> ''HEAD'' \<Longrightarrow> code \<noteq> 204 \<Longrightarrow>
   response_of m (writeJSON code j w) = \<lparr>hs_Status = code, hs_Body = written j\<rparr>"
  "fresh_writer w \<Longrightarrow> response_of m (write_header 204 w) = \<lparr>hs_Status = 204, hs_Body = []\<rparr>"
  by (simp_all add: response_of_def finish_def Let_def writeJSON_def write_body_def write_header_def set_header_def
      fresh_writer_def)

definition error_body :: "nat \<Rightarrow> string \<Rightarrow> string \<Rightarrow> http_response" where
  "error_body status code msg =
     \<lparr>hs_Status = status, hs_Body = written (ErrorResponse_json
        \<lparr>ErrorResponse_Error = \<lparr>ErrorDetail_Code = code, ErrorDetail_Message = msg\<rparr>\<rparr>)\<rparr>"

lemma response_error [simp]:
  "fresh_writer w \<Longrightarrow> m \<noteq> ''HEAD'' \<Longrightarrow> status \<noteq> 204 \<Longrightarrow>
   response_of m (writeError status code msg w) = error_body status code msg"
  by (simp add: writeError_def error_body_def)

lemma served:
  fixes env :: "'s server_env"
  assumes m: "rq_Method r \<in> {''GET'', ''POST'', ''PUT'', ''DELETE''}"
    and token: "se_Token env = [] \<or> trim_prefix (header_get (rq_Header r) ''Authorization'') ''Bearer '' = se_Token env"
    and "header_get (rq_Header r) ''Origin'' = []"
    and ct: "rq_ContentLength r = 0 \<or> header_get (rq_Header r) ''Content-Type'' = ''application/json''"
    and path: "clean_path (rq_Path r)"
    and route: "(pat, h) \<in> set (routes (se_Events env) (se_Seconds env) (se_Service env))"
      "pattern_match pat (rq_Method r) (rq_Path r) = Some vs"
  obtains i w where "fresh_writer w"
    "(case serve_from env r s of (resp, s', l) \<Rightarrow> (\<lparr>hs_Status = rs_Status resp, hs_Body = rs_Body resp\<rparr>, s'))
      = viewed (rq_Method r) (h (r\<lparr>rq_RequestID := Some i, rq_PathValues := vs\<rparr>) \<lparr>cn_W = w, cn_Svc = s, cn_Log = []\<rparr>)"
proof -
  define i where "i = (let given = header_get (rq_Header r) ''X-Request-Id'' in
    if isValidRequestID given then given else case se_NewID env of Some u \<Rightarrow> u | None \<Rightarrow> given)"
  define w where "w = (set_header ''Cache-Control'' ''no-store'' \<circ> set_header ''X-Frame-Options'' ''DENY''
     \<circ> set_header ''X-Content-Type-Options'' ''nosniff'' \<circ> set_header ''X-Request-Id'' i)
     \<lparr>w_Header = [], w_Sent = None, w_Body = []\<rparr>"
  let ?r = "r\<lparr>rq_RequestID := Some i\<rparr>" and ?c = "\<lparr>cn_W = w, cn_Svc = s, cn_Log = []\<rparr>"
  let ?mux = "serve_mux (se_Redirect env) (routes (se_Events env) (se_Seconds env) (se_Service env))"
  have "dispatch (routes (se_Events env) (se_Seconds env) (se_Service env)) ?r = Some (h, vs)"
    by (rule route_found [OF route(1)]) (use route(2) in simp)
  then have mux: "?mux ?r c = h (?r\<lparr>rq_PathValues := vs\<rparr>) c" for c
    using path by (simp add: serve_mux_def)
  have content: "contentTypeMiddleware g ?r c = g ?r c" for g and c :: "'s conn"
    using m ct by (auto simp: contentTypeMiddleware_def Let_def has_prefix_code)
  have cors: "corsMiddleware hostname g ?r c = g ?r c" for hostname g and c :: "'s conn"
    using m assms(3) by (auto simp: corsMiddleware_def)
  have auth: "authMiddleware (se_Token env) g ?r c = g ?r c" for g and c :: "'s conn"
    using token by (auto simp: authMiddleware_def)
  have "requestIDMiddleware (se_NewID env) g r c = g ?r (on_writer (set_header ''X-Request-Id'' i) c)" for g and c :: "'s conn"
    by (simp add: requestIDMiddleware_def i_def Let_def)
  moreover have "securityHeadersMiddleware (contentTypeMiddleware ?mux) ?r
      (on_writer (set_header ''X-Request-Id'' i) (fresh_conn s)) = ?mux ?r ?c"
    unfolding securityHeadersMiddleware_def content by (simp add: on_writer_def fresh_conn_def w_def)
  ultimately have "server_handler env r (fresh_conn s)
      = recoveryMiddleware (\<lambda>_ _. loggingMiddleware (\<lambda>_ _. ?mux ?r ?c) ?r ?c) r (fresh_conn s)"
    by (simp add: chain_unfold recoveryMiddleware_def auth loggingMiddleware_def cors)
  then have "(case serve_from env r s of (resp, s', l) \<Rightarrow> (\<lparr>hs_Status = rs_Status resp, hs_Body = rs_Body resp\<rparr>, s'))
      = viewed (rq_Method r) (h (?r\<lparr>rq_PathValues := vs\<rparr>) ?c)"
    by (simp add: serve_from_def mux viewed_def response_of_def Let_def recoveryMiddleware_def loggingMiddleware_def
        reply_error_def add_log_def on_writer_def split: outcome.split)
  moreover have "fresh_writer w" unfolding w_def by (simp add: fresh_writer_def set_header_def)
  ultimately show ?thesis using that by simp
qed

section \<open>A remote call\<close>

definition client_error :: "http_response \<Rightarrow> go_error" where
  "client_error resp = mapStatusToError (hs_Status resp) (extractErrorMessage resp)"

definition crash_response :: http_response where
  "crash_response = error_body 500 ''internal_error'' ''internal server error''"

text \<open>What a caller sees of an operation, given what its answers and its errors become.\<close>

definition seen_result :: "string \<Rightarrow> ('a \<Rightarrow> 'b) \<Rightarrow> (go_error \<Rightarrow> go_error) \<Rightarrow> 'a answer \<times> 's \<Rightarrow> 'b answer \<times> 's" where
  "seen_result opname k err res =
     (case res of
        (Answer x, s') \<Rightarrow> (Answer (k x), s')
      | (Failed e, s') \<Rightarrow> (Failed (wrap_error opname (err e)), s')
      | (Crashed msg, s') \<Rightarrow> (Failed (wrap_error opname (client_error crash_response)), s'))"

text \<open>A decoder of the client makes an error of every response that is not a success.\<close>

definition refuses_errors :: "(http_response \<Rightarrow> go_error + 'a) \<Rightarrow> bool" where
  "refuses_errors dec \<longleftrightarrow> (\<forall>resp. \<not> (200 \<le> hs_Status resp \<and> hs_Status resp < 300) \<longrightarrow> dec resp = Inl (client_error resp))"

lemma decoders_refuse [simp]:
  "refuses_errors decodeNoContent" "refuses_errors (decodeResponse rd zero)" "refuses_errors (decode_as fs z conv)"
  "refuses_errors (decode_list fs z conv)"
  by (auto simp: refuses_errors_def decodeNoContent_def decodeResponse_def decode_as_def decode_list_def client_error_def)

lemma cut_at_none:
  assumes "c \<notin> set s"
  shows "cut_at c s = (s, [])"
proof -
  have all: "\<forall>x\<in>set s. x \<noteq> c" using assms by blast
  then have t: "takeWhile (\<lambda>d. d \<noteq> c) s = s" by (simp add: takeWhile_eq_all_conv)
  have d: "dropWhile (\<lambda>d. d \<noteq> c) s = []" unfolding dropWhile_eq_Nil_conv using all .
  show ?thesis unfolding cut_at_def t d by simp
qed

lemma sent_to:
  assumes "connected env tr" "CHR ''?'' \<notin> set path"
  shows "http_send tr meth (path @ (if q = [] then [] else CHR ''?'' # q)) hs b s
    = (case serve_from env
         \<lparr>rq_Method = meth, rq_Path = path, rq_RawQuery = q,
          rq_Header = (''Accept'', ''application/json'') # hs @ auth_header (ht_token tr),
          rq_Body = Some (case b of Some b \<Rightarrow> b | None \<Rightarrow> []),
          rq_ContentLength = int (length (case b of Some b \<Rightarrow> b | None \<Rightarrow> [])), rq_RequestID = None, rq_PathValues = []\<rparr> s
       of (resp, s', l) \<Rightarrow> (Inr \<lparr>hs_Status = rs_Status resp, hs_Body = rs_Body resp\<rparr>, s'))"
proof -
  have "cut_at (CHR ''?'') path = (path, [])" using cut_at_none [OF assms(2)] .
  then have "cut_at (CHR ''?'') (path @ (if q = [] then [] else CHR ''?'' # q)) = (path, q)"
    using cut_at_sep [OF assms(2), of q] by simp
  then show ?thesis
    using assms(1) by (simp add: http_send_def connected_def net_of_def split: prod.splits)
qed

lemma remote_exchange:
  assumes conn: "connected env tr"
    and route: "((meth, segs), h) \<in> set (routes (se_Events env) (se_Seconds env) (se_Service env))"
      "meth \<in> {''GET'', ''POST'', ''PUT'', ''DELETE''}" "segs \<noteq> []" "\<forall>x\<in>set segs. segment_ok v x"
    and hs: "hs = [] \<and> b = None \<or> hs = [(''Content-Type'', ''application/json'')]"
    and handler: "\<And>r c. rq_PathValues r = map (\<lambda>n. (n, v n)) (names_of segs) \<Longrightarrow> rq_RawQuery r = q \<Longrightarrow>
      rq_Body r = Some (case b of Some b \<Rightarrow> b | None \<Rightarrow> []) \<Longrightarrow> cn_Svc c = s \<Longrightarrow> h r c = call f (bad r) ok c"
    and good: "\<And>x w s'. fst (f s) = Answer x \<Longrightarrow> fresh_writer w \<Longrightarrow>
      viewed meth (ok x \<lparr>cn_W = w, cn_Svc = s', cn_Log = []\<rparr>) = (good x, s') \<and> dec (good x) = Inr (k x)"
    and err: "\<And>e r w s'. fst (f s) = Failed e \<Longrightarrow> fresh_writer w \<Longrightarrow>
      viewed meth (bad r e \<lparr>cn_W = w, cn_Svc = s', cn_Log = []\<rparr>) = (failed e, s') \<and>
      \<not> (200 \<le> hs_Status (failed e) \<and> hs_Status (failed e) < 300)"
    and dec: "refuses_errors dec"
  shows "remote_call opname (http_send tr meth (built_path segs v @ (if q = [] then [] else CHR ''?'' # q)) hs b) dec s
    = seen_result opname k (\<lambda>e. client_error (failed e)) (f s)"
proof -
  define path where "path = built_path segs v"
  have reach: "clean_path path" "pattern_match (meth, segs) meth path = Some (map (\<lambda>n. (n, v n)) (names_of segs))"
    using built_path_reaches [OF route(3,4), of meth meth] by (simp_all add: path_def method_matches_def)
  have "CHR ''?'' \<notin> set (segment_text v x)" if "segment_ok v x" for x
    using segment_text_escaped [OF that] path_separators(2) by metis
  then have "CHR ''?'' \<notin> set path"
    using route(4) by (auto simp: path_def built_path_def segment_text_def [symmetric])
  note sent = sent_to [OF conn this, of meth q hs b s]
  define body where "body = (case b of Some b \<Rightarrow> b | None \<Rightarrow> [])"
  define r where "r = \<lparr>rq_Method = meth, rq_Path = path, rq_RawQuery = q,
     rq_Header = (''Accept'', ''application/json'') # hs @ auth_header (ht_token tr),
     rq_Body = Some body, rq_ContentLength = int (length body), rq_RequestID = None, rq_PathValues = []\<rparr>"
  have headers: "header_get (rq_Header r) ''Origin'' = []"
      "se_Token env = [] \<or> trim_prefix (header_get (rq_Header r) ''Authorization'') ''Bearer '' = se_Token env"
      "rq_ContentLength r = 0 \<or> header_get (rq_Header r) ''Content-Type'' = ''application/json''"
    using hs conn by (auto simp: r_def header_get_def auth_header_def connected_def trim_prefix_def has_prefix_code body_def)
  obtain i w where w: "fresh_writer w"
    and view: "(case serve_from env r s of (resp, s', l) \<Rightarrow> (\<lparr>hs_Status = rs_Status resp, hs_Body = rs_Body resp\<rparr>, s'))
      = viewed meth (h (r\<lparr>rq_RequestID := Some i, rq_PathValues := map (\<lambda>n. (n, v n)) (names_of segs)\<rparr>) \<lparr>cn_W = w, cn_Svc = s, cn_Log = []\<rparr>)"
  proof -
    have r: "rq_Method r = meth" "rq_Path r = path" by (simp_all add: r_def)
    show ?thesis
      by (rule served [OF _ headers(2,1,3) _ route(1), of "map (\<lambda>n. (n, v n)) (names_of segs)" s])
         (use reach route(2) that r in simp_all)
  qed
  let ?r = "r\<lparr>rq_RequestID := Some i, rq_PathValues := map (\<lambda>n. (n, v n)) (names_of segs)\<rparr>"
  have h: "h ?r \<lparr>cn_W = w, cn_Svc = s, cn_Log = []\<rparr> = call f (bad ?r) ok \<lparr>cn_W = w, cn_Svc = s, cn_Log = []\<rparr>"
    by (rule handler) (simp_all add: r_def body_def)
  obtain a s' where f: "f s = (a, s')" by (cases "f s")
  define shown where "shown = (case a of Answer x \<Rightarrow> good x | Failed e \<Rightarrow> failed e | Crashed msg \<Rightarrow> crash_response)"
  have "viewed meth (call f (bad ?r) ok \<lparr>cn_W = w, cn_Svc = s, cn_Log = []\<rparr>) = (shown, s')"
    using f good [of _ w s'] err [of _ w ?r s'] w route(2)
    by (cases a) (auto simp: call_def shown_def viewed_def crash_response_def)
  then have "http_send tr meth (path @ (if q = [] then [] else CHR ''?'' # q)) hs b s = (Inr shown, s')"
    using sent view h by (simp add: r_def body_def split: prod.splits)
  moreover have "dec shown = (case a of Answer x \<Rightarrow> Inr (k x) | Failed e \<Rightarrow> Inl (client_error (failed e))
      | Crashed msg \<Rightarrow> Inl (client_error crash_response))"
    using f good [OF _ w] err [OF _ w] dec
    by (cases a) (auto simp: shown_def refuses_errors_def crash_response_def error_body_def)
  ultimately show ?thesis
    using f by (cases a) (simp_all add: remote_call_def seen_result_def path_def)
qed

section \<open>Errors and values on the way\<close>

text \<open>What the server makes of an error of the service, and what the client makes of that.\<close>

definition shown_text :: "go_error \<Rightarrow> string" where
  "shown_text e = (if fst (mapServiceError e) = 500 then ''internal server error'' else SanitizeErrorMessage (error_text e))"

definition service_failure :: "go_error \<Rightarrow> http_response" where
  "service_failure e = error_body (fst (mapServiceError e)) (snd (mapServiceError e)) (shown_text e)"

definition remote_error :: "go_error \<Rightarrow> go_error" where
  "remote_error e = client_error (service_failure e)"

lemma map_status: "fst (mapServiceError e) \<in> {404, 409, 422, 429, 503, 500}"
  by (simp add: mapServiceError_def)

lemma failure_shown:
  assumes "fresh_writer w" "m \<noteq> ''HEAD''"
  shows "viewed m (handleServiceError r e \<lparr>cn_W = w, cn_Svc = s', cn_Log = []\<rparr>) = (service_failure e, s') \<and>
    \<not> (200 \<le> hs_Status (service_failure e) \<and> hs_Status (service_failure e) < 300)"
  using assms map_status [of e]
  by (auto simp: handleServiceError_def viewed_def reply_error_def on_writer_def add_log_def service_failure_def
      shown_text_def error_body_def split: prod.split)

lemma read_written:
  assumes "reads rd jf g P zero" "P x" "length (encode (jf x)) \<le> maxResponseSize" "200 \<le> code" "code < 300" "code \<noteq> 204"
  shows "decodeResponse rd zero \<lparr>hs_Status = code, hs_Body = written (jf x)\<rparr> = Inr (g x)"
  using readsD [OF assms(1,2)] response_value_written [of "jf x"] assms(3-) by (simp add: decodeResponse_def)

text \<open>The message of an error response that is not too long comes through.\<close>

lemma error_message_received:
  assumes "length (encode (ErrorResponse_json \<lparr>ErrorResponse_Error = \<lparr>ErrorDetail_Code = code, ErrorDetail_Message = msg\<rparr>\<rparr>))
      \<le> maxResponseSize"
  shows "client_error (error_body status code msg) = mapStatusToError status (if msg = [] then StatusText status else msg)"
proof -
  have "response_value (hs_Body (error_body status code msg))
      = Some (ErrorResponse_json \<lparr>ErrorResponse_Error = \<lparr>ErrorDetail_Code = code, ErrorDetail_Message = msg\<rparr>\<rparr>)"
    unfolding error_body_def using response_value_written assms readsD(1) [OF reads_ErrorResponse] by simp
  then show ?thesis
    using readsD(2) [OF reads_ErrorResponse, of "\<lparr>ErrorResponse_Error = \<lparr>ErrorDetail_Code = code, ErrorDetail_Message = msg\<rparr>\<rparr>"]
    by (simp add: client_error_def extractErrorMessage_def error_body_def)
qed

text \<open>A value can be sent: it is well-formed and its text fits what the client reads.\<close>

definition sendable :: "('w \<Rightarrow> bool) \<Rightarrow> ('w \<Rightarrow> json) \<Rightarrow> 'w \<Rightarrow> bool" where
  "sendable P jf x \<longleftrightarrow> P x \<and> length (encode (jf x)) \<le> maxResponseSize"

lemma reply_viewed:
  "fresh_writer w \<Longrightarrow> m \<noteq> ''HEAD'' \<Longrightarrow> code \<noteq> 204 \<Longrightarrow>
   viewed m (reply_json code j \<lparr>cn_W = w, cn_Svc = s', cn_Log = []\<rparr>) = (\<lparr>hs_Status = code, hs_Body = written j\<rparr>, s')"
  "fresh_writer w \<Longrightarrow> viewed m (reply_status 204 \<lparr>cn_W = w, cn_Svc = s', cn_Log = []\<rparr>) = (\<lparr>hs_Status = 204, hs_Body = []\<rparr>, s')"
  "fresh_writer w \<Longrightarrow> m \<noteq> ''HEAD'' \<Longrightarrow> status \<noteq> 204 \<Longrightarrow>
   viewed m (reply_error status k msg \<lparr>cn_W = w, cn_Svc = s', cn_Log = l\<rparr>) = (error_body status k msg, s')"
  by (simp_all add: reply_json_def reply_status_def reply_error_def viewed_def on_writer_def)

lemma remote_value:
  assumes "connected env tr" "((meth, segs), h) \<in> set (routes (se_Events env) (se_Seconds env) (se_Service env))"
      "meth \<in> {''GET'', ''POST'', ''PUT'', ''DELETE''}" "segs \<noteq> []" "\<forall>x\<in>set segs. segment_ok v x"
      "hs = [] \<and> b = None \<or> hs = [(''Content-Type'', ''application/json'')]"
    and "\<And>r c. rq_PathValues r = map (\<lambda>n. (n, v n)) (names_of segs) \<Longrightarrow> rq_RawQuery r = q \<Longrightarrow>
      rq_Body r = Some (case b of Some b \<Rightarrow> b | None \<Rightarrow> []) \<Longrightarrow> cn_Svc c = s \<Longrightarrow>
      h r c = call f (bad r) (\<lambda>x. reply_json code (jf (to x)) \<circ> prep x) c"
    and prep: "\<And>x w s'. fresh_writer w \<Longrightarrow> \<exists>w'. fresh_writer w' \<and>
      prep x \<lparr>cn_W = w, cn_Svc = s', cn_Log = []\<rparr> = \<lparr>cn_W = w', cn_Svc = s', cn_Log = []\<rparr>"
    and "\<And>e r w s'. fst (f s) = Failed e \<Longrightarrow> fresh_writer w \<Longrightarrow>
      viewed meth (bad r e \<lparr>cn_W = w, cn_Svc = s', cn_Log = []\<rparr>) = (failed e, s') \<and>
      \<not> (200 \<le> hs_Status (failed e) \<and> hs_Status (failed e) < 300)"
    and code: "200 \<le> code" "code < 300" "code \<noteq> 204"
    and rd: "reads rd jf g P zero" "\<And>x. fst (f s) = Answer x \<Longrightarrow> sendable P jf (to x)"
  shows "remote_call opname (http_send tr meth (built_path segs v @ (if q = [] then [] else CHR ''?'' # q)) hs b)
      (\<lambda>resp. map_sum (\<lambda>e. e) conv (decodeResponse rd zero resp)) s
    = seen_result opname (\<lambda>x. conv (g (to x))) (\<lambda>e. client_error (failed e)) (f s)"
proof (rule remote_exchange [OF assms(1-7)])
  fix x w s'
  assume x: "fst (f s) = Answer x" and w: "fresh_writer w"
  obtain w' where w': "fresh_writer w'" "prep x \<lparr>cn_W = w, cn_Svc = s', cn_Log = []\<rparr> = \<lparr>cn_W = w', cn_Svc = s', cn_Log = []\<rparr>"
    using prep [OF w] by blast
  have "meth \<noteq> ''HEAD''" using assms(3) by auto
  then show "viewed meth ((reply_json code (jf (to x)) \<circ> prep x) \<lparr>cn_W = w, cn_Svc = s', cn_Log = []\<rparr>)
      = (\<lparr>hs_Status = code, hs_Body = written (jf (to x))\<rparr>, s') \<and>
      map_sum (\<lambda>e. e) conv (decodeResponse rd zero \<lparr>hs_Status = code, hs_Body = written (jf (to x))\<rparr>) = Inr (conv (g (to x)))"
    using w' reply_viewed(1) [OF w'(1)] read_written [OF rd(1)] rd(2) [OF x] code by (simp add: sendable_def)
next
  show "refuses_errors (\<lambda>resp. map_sum (\<lambda>e. e) conv (decodeResponse rd zero resp))"
    by (auto simp: refuses_errors_def decodeResponse_def client_error_def)
qed (assumption | rule assms(9))+

text \<open>The common case: the handler only calls the service, and its errors are those of the service.\<close>

lemma remote_plain:
  assumes "connected env tr" "((meth, segs), h) \<in> set (routes (se_Events env) (se_Seconds env) (se_Service env))"
      "meth \<in> {''GET'', ''POST'', ''PUT'', ''DELETE''}" "segs \<noteq> []" "\<forall>x\<in>set segs. segment_ok v x"
      "hs = [] \<and> b = None \<or> hs = [(''Content-Type'', ''application/json'')]"
    and h: "\<And>r c. rq_PathValues r = map (\<lambda>n. (n, v n)) (names_of segs) \<Longrightarrow> rq_RawQuery r = q \<Longrightarrow>
      rq_Body r = Some (case b of Some b \<Rightarrow> b | None \<Rightarrow> []) \<Longrightarrow> cn_Svc c = s \<Longrightarrow>
      h r c = call f (handleServiceError r) (\<lambda>x. reply_json code (jf (to x))) c"
    and "200 \<le> code" "code < 300" "code \<noteq> 204" "reads rd jf g P zero" "\<And>x. fst (f s) = Answer x \<Longrightarrow> sendable P jf (to x)"
  shows "remote_call opname (http_send tr meth (built_path segs v @ (if q = [] then [] else CHR ''?'' # q)) hs b)
      (\<lambda>resp. map_sum (\<lambda>e. e) conv (decodeResponse rd zero resp)) s
    = seen_result opname (\<lambda>x. conv (g (to x))) remote_error (f s)"
proof -
  have m: "meth \<noteq> ''HEAD''" using assms(3) by auto
  show ?thesis
    unfolding remote_error_def
  proof (rule remote_value [where prep = "\<lambda>_ c. c" and bad = handleServiceError, OF assms(1-6) _ _ _ assms(8-12)])
    fix r :: request and c :: "'a conn"
    assume "rq_PathValues r = map (\<lambda>n. (n, v n)) (names_of segs)" "rq_RawQuery r = q"
      "rq_Body r = Some (case b of Some b \<Rightarrow> b | None \<Rightarrow> [])" "cn_Svc c = s"
    then show "h r c = call f (handleServiceError r) (\<lambda>x. reply_json code (jf (to x)) \<circ> (\<lambda>c. c)) c"
      using h by (simp add: comp_def)
  qed ((rule exI, rule conjI, assumption, rule refl) | (rule failure_shown, assumption, rule m))+
qed

lemma remote_nothing:
  assumes "connected env tr" "((meth, segs), h) \<in> set (routes (se_Events env) (se_Seconds env) (se_Service env))"
      "meth \<in> {''GET'', ''POST'', ''PUT'', ''DELETE''}" "segs \<noteq> []" "\<forall>x\<in>set segs. segment_ok v x"
      "hs = [] \<and> b = None \<or> hs = [(''Content-Type'', ''application/json'')]"
    and "\<And>r c. rq_PathValues r = map (\<lambda>n. (n, v n)) (names_of segs) \<Longrightarrow> rq_RawQuery r = q \<Longrightarrow>
      rq_Body r = Some (case b of Some b \<Rightarrow> b | None \<Rightarrow> []) \<Longrightarrow> cn_Svc c = s \<Longrightarrow>
      h r c = call f (bad r) ok c"
    and ok: "ok = (\<lambda>_. reply_status 204) \<or> (\<exists>code j. ok = (\<lambda>_. reply_json code j) \<and> 200 \<le> code \<and> code < 300 \<and> code \<noteq> 204)"
    and bad: "\<And>e r w s'. fst (f s) = Failed e \<Longrightarrow> fresh_writer w \<Longrightarrow>
      viewed meth (bad r e \<lparr>cn_W = w, cn_Svc = s', cn_Log = []\<rparr>) = (failed e, s') \<and>
      \<not> (200 \<le> hs_Status (failed e) \<and> hs_Status (failed e) < 300)"
  shows "remote_call opname (http_send tr meth (built_path segs v @ (if q = [] then [] else CHR ''?'' # q)) hs b)
      decodeNoContent s = seen_result opname (\<lambda>_. ()) (\<lambda>e. client_error (failed e)) (f s)"
proof -
  have m: "meth \<noteq> ''HEAD''" using assms(3) by auto
  have "\<exists>good. \<forall>x w s'. fresh_writer w \<longrightarrow>
      viewed meth (ok x \<lparr>cn_W = w, cn_Svc = s', cn_Log = []\<rparr>) = (good, s') \<and> decodeNoContent good = Inr ()"
    using ok
  proof
    assume "ok = (\<lambda>_. reply_status 204)"
    then show ?thesis by (intro exI [of _ "\<lparr>hs_Status = 204, hs_Body = []\<rparr>"]) (simp add: reply_viewed(2) decodeNoContent_def)
  next
    assume "\<exists>code j. ok = (\<lambda>_. reply_json code j) \<and> 200 \<le> code \<and> code < 300 \<and> code \<noteq> 204"
    then obtain code j where "ok = (\<lambda>_. reply_json code j)" "200 \<le> code" "code < 300" "code \<noteq> 204" by blast
    then show ?thesis
      by (intro exI [of _ "\<lparr>hs_Status = code, hs_Body = written j\<rparr>"]) (simp add: reply_viewed(1) [OF _ m] decodeNoContent_def)
  qed
  then obtain good where good: "\<forall>x w s'. fresh_writer w \<longrightarrow>
      viewed meth (ok x \<lparr>cn_W = w, cn_Svc = s', cn_Log = []\<rparr>) = (good, s') \<and> decodeNoContent good = Inr ()" by blast
  show ?thesis
    by (rule remote_exchange [where good = "\<lambda>_. good" and bad = bad and ok = ok, OF assms(1-7)]) (use good bad in auto)
qed

section \<open>Operations that read\<close>

lemma remote_get_one:
  assumes "connected env tr" "path = built_path segs v @ (if q = [] then [] else CHR ''?'' # q)"
      "((''GET'', segs), h) \<in> set (routes (se_Events env) (se_Seconds env) (se_Service env))"
      "segs \<noteq> []" "\<forall>x\<in>set segs. segment_ok v x"
    and "\<And>r c. rq_PathValues r = map (\<lambda>n. (n, v n)) (names_of segs) \<Longrightarrow> rq_RawQuery r = q \<Longrightarrow>
      h r c = call f (handleServiceError r) (\<lambda>x. reply_json 200 (jf (to x))) c"
    and "reads rd jf g P zero" "\<And>x. fst (f s) = Answer x \<Longrightarrow> sendable P jf (to x)" "\<And>x. conv (g (to x)) = k x"
  shows "remote_call opname (http_get tr path) (\<lambda>resp. map_sum (\<lambda>e. e) conv (decodeResponse rd zero resp)) s
    = seen_result opname k remote_error (f s)"
  unfolding http_get_def assms(2) using assms(9)
    remote_plain [OF assms(1,3) _ assms(4,5), where hs = "[]" and b = None and q = q and f = f and code = 200 and jf = jf
      and to = to and rd = rd and g = g and P = P and zero = zero and s = s and opname = opname and conv = conv]
    assms(6-8) by simp

lemma remote_get_list:
  assumes "connected env tr" "path = built_path segs v @ (if q = [] then [] else CHR ''?'' # q)"
      "((''GET'', segs), h) \<in> set (routes (se_Events env) (se_Seconds env) (se_Service env))"
      "segs \<noteq> []" "\<forall>x\<in>set segs. segment_ok v x"
    and "\<And>r c. rq_PathValues r = map (\<lambda>n. (n, v n)) (names_of segs) \<Longrightarrow> rq_RawQuery r = q \<Longrightarrow>
      h r c = call f (handleServiceError r) (\<lambda>x. reply_json 200 (page_json jf (items x) (whole x))) c"
    and "reads (read_struct fs) jf g P zero"
    and "\<And>x. fst (f s) = Answer x \<Longrightarrow> list_all P (items x) \<and> length (encode (page_json jf (items x) (whole x))) \<le> maxResponseSize"
    and "\<And>x. map (\<lambda>w. conv (g w)) (items x) = k x"
  shows "remote_call opname (http_get tr path) (decode_list fs zero conv) s
    = seen_result opname (\<lambda>x. Some (k x)) remote_error (f s)"
  unfolding decode_list_def decode_as_def [abs_def]
  by (rule remote_get_one [where to = "\<lambda>x. \<lparr>PaginatedResponse_Items = Some (items x), PaginatedResponse_Total = of_nat (whole x)\<rparr>",
        OF assms(1-5) _ reads_PaginatedResponse [OF assms(7)]])
     (use assms(6,8,9) in \<open>simp_all add: page_json_def sendable_def PaginatedResponse_ok_def slice_ok_def
        received_PaginatedResponse_def comp_def\<close>)

lemmas request_simps = take_map cut_at_def is_digit_def built_path_def api_def segment_ok_def lit_ok_def id_ok_def unreserved_def path_value_def url_query_def
  parse_query_def query_get_def List.map_filter_def parse_pair_def

definition fits_list :: "('w \<Rightarrow> bool) \<Rightarrow> ('w \<Rightarrow> json) \<Rightarrow> 'w list \<Rightarrow> nat \<Rightarrow> bool" where
  "fits_list P jf items n \<longleftrightarrow> list_all P items \<and> length (encode (page_json jf items n)) \<le> maxResponseSize"

lemma paginate_fifty: "paginate xs \<lparr>pg_Limit = 50, pg_Offset = 0\<rparr> = (take 50 xs, length xs)"
  using page_of [of xs 50 0] by (simp add: paginate_def Let_def prod_eq_iff)

definition status_to_wire :: "OperatorStatus \<Rightarrow> OperatorStatusResponse" where
  "status_to_wire st =
     \<lparr>OperatorStatusResponse_State = OperatorStatus_State st,
      OperatorStatusResponse_CurrentTurnID = OperatorStatus_CurrentTurnID st,
      OperatorStatusResponse_ModelName = OperatorStatus_ModelName st,
      OperatorStatusResponse_Endpoint = OperatorStatus_Endpoint st,
      OperatorStatusResponse_ContextWindow = OperatorStatus_ContextWindow st\<rparr>"

lemma remote_ListSkills:
  assumes "connected env tr"
    and "\<And>x. fst ((ds_ListSkills (svc_Definitions (se_Service env))) s) = Answer x \<Longrightarrow> fits_list wireSkill_ok wireSkill_json (map skillToWire (take 50 (elems x))) (length (elems x))"
  shows "ds_ListSkills (svc_Definitions (RemoteClient tr duration)) s
    = seen_result ''list skills'' (\<lambda>x. Some (map seen_Skill (take 50 (elems x)))) remote_error ((ds_ListSkills (svc_Definitions (se_Service env))) s)"
  unfolding RemoteClient_def rc_ListSkills_def
  by (simp, rule remote_get_list [where q = "[]" and v = "\<lambda>_. []" and h = "listSkills (se_Service env)" and segs = "api [Lit ''skills'']"
          and items = "\<lambda>x. map skillToWire (take 50 (elems x))" and whole = "\<lambda>x. length (elems x)",
        OF assms(1) _ _ _ _ _ reads_wireSkill])
     (use assms in \<open>simp_all add: request_simps routes_def listSkills_def reply_list_def fits_list_def trip parsePagination_def reply_page_def paginate_fifty\<close>)

lemma remote_GetSkill:
  assumes "connected env tr" "id_ok key"
    and "\<And>x. fst ((ds_GetSkill (svc_Definitions (se_Service env)) key) s) = Answer x \<Longrightarrow> sendable wireSkill_ok wireSkill_json (skillToWire x)"
  shows "ds_GetSkill (svc_Definitions (RemoteClient tr duration)) key s = seen_result ''get skill'' seen_Skill remote_error ((ds_GetSkill (svc_Definitions (se_Service env)) key) s)"
  unfolding RemoteClient_def rc_GetSkill_def decode_as_def [abs_def]
  by (simp, rule remote_get_one [where to = "\<lambda>x. skillToWire x" and q = "[]" and v = "\<lambda>_. key" and h = "getSkill (se_Service env)" and segs = "api [Lit ''skills'', Wild ''id'']",
        OF assms(1) _ _ _ _ _ reads_wireSkill])
     (use assms in \<open>simp_all add: request_simps routes_def getSkill_def trip\<close>)

lemma remote_ListGraphs:
  assumes "connected env tr"
    and "\<And>x. fst ((ds_ListGraphs (svc_Definitions (se_Service env))) s) = Answer x \<Longrightarrow> fits_list (\<lambda>w. True) wireGraphDefinition_json (map graphDefinitionToWire (take 50 (elems x))) (length (elems x))"
  shows "ds_ListGraphs (svc_Definitions (RemoteClient tr duration)) s
    = seen_result ''list graphs'' (\<lambda>x. Some (map seen_GraphDefinition (take 50 (elems x)))) remote_error ((ds_ListGraphs (svc_Definitions (se_Service env))) s)"
  unfolding RemoteClient_def rc_ListGraphs_def
  by (simp, rule remote_get_list [where q = "[]" and v = "\<lambda>_. []" and h = "listGraphs (se_Service env)" and segs = "api [Lit ''graphs'']"
          and items = "\<lambda>x. map graphDefinitionToWire (take 50 (elems x))" and whole = "\<lambda>x. length (elems x)",
        OF assms(1) _ _ _ _ _ reads_wireGraphDefinition])
     (use assms in \<open>simp_all add: request_simps routes_def listGraphs_def reply_list_def fits_list_def trip parsePagination_def reply_page_def paginate_fifty\<close>)

lemma remote_GetGraph:
  assumes "connected env tr" "id_ok key"
    and "\<And>x. fst ((ds_GetGraph (svc_Definitions (se_Service env)) key) s) = Answer x \<Longrightarrow> sendable (\<lambda>w. True) wireGraphDefinition_json (graphDefinitionToWire x)"
  shows "ds_GetGraph (svc_Definitions (RemoteClient tr duration)) key s = seen_result ''get graph'' seen_GraphDefinition remote_error ((ds_GetGraph (svc_Definitions (se_Service env)) key) s)"
  unfolding RemoteClient_def rc_GetGraph_def decode_as_def [abs_def]
  by (simp, rule remote_get_one [where to = "\<lambda>x. graphDefinitionToWire x" and q = "[]" and v = "\<lambda>_. key" and h = "getGraph (se_Service env)" and segs = "api [Lit ''graphs'', Wild ''id'']",
        OF assms(1) _ _ _ _ _ reads_wireGraphDefinition])
     (use assms in \<open>simp_all add: request_simps routes_def getGraph_def trip\<close>)

lemma remote_ListAllJobs:
  assumes "connected env tr"
    and "\<And>x. fst ((js_ListAll (svc_Jobs (se_Service env))) s) = Answer x \<Longrightarrow> fits_list wireJob_ok wireJob_json (map jobToWire (elems x)) (length (elems x))"
  shows "js_ListAll (svc_Jobs (RemoteClient tr duration)) s
    = seen_result ''list all jobs'' (\<lambda>x. Some (map seen_Job (elems x))) remote_error ((js_ListAll (svc_Jobs (se_Service env))) s)"
  unfolding RemoteClient_def rc_ListAllJobs_def
  by (simp, rule remote_get_list [where q = "''all=true''" and v = "\<lambda>_. []" and h = "listJobs (se_Service env)" and segs = "api [Lit ''jobs'']"
          and items = "\<lambda>x. map jobToWire (elems x)" and whole = "\<lambda>x. length (elems x)",
        OF assms(1) _ _ _ _ _ reads_wireJob])
     (use assms in \<open>simp_all add: request_simps routes_def listJobs_def reply_list_def fits_list_def trip\<close>)

text \<open>A job read remotely is the service's job as clients see it, or the service's error.\<close>

theorem remote_GetJob:
  assumes "connected env tr" "id_ok key"
    and "\<And>x. fst ((js_Get (svc_Jobs (se_Service env)) key) s) = Answer x \<Longrightarrow> sendable wireJobDetail_ok wireJobDetail_json (jobDetailToWire x)"
  shows "js_Get (svc_Jobs (RemoteClient tr duration)) key s = seen_result ''get job'' seen_JobDetail remote_error ((js_Get (svc_Jobs (se_Service env)) key) s)"
  unfolding RemoteClient_def rc_GetJob_def decode_as_def [abs_def]
  by (simp, rule remote_get_one [where to = "\<lambda>x. jobDetailToWire x" and q = "[]" and v = "\<lambda>_. key" and h = "getJob (se_Service env)" and segs = "api [Lit ''jobs'', Wild ''id'']",
        OF assms(1) _ _ _ _ _ reads_wireJobDetail])
     (use assms in \<open>simp_all add: request_simps routes_def getJob_def trip\<close>)

lemma remote_ListSessions:
  assumes "connected env tr"
    and "\<And>x. fst ((ss_List (svc_Sessions (se_Service env))) s) = Answer x \<Longrightarrow> fits_list wireSessionSnapshot_ok wireSessionSnapshot_json (map sessionSnapshotToWire (take 50 (elems x))) (length (elems x))"
  shows "ss_List (svc_Sessions (RemoteClient tr duration)) s
    = seen_result ''list sessions'' (\<lambda>x. Some (take 50 (elems x))) remote_error ((ss_List (svc_Sessions (se_Service env))) s)"
  unfolding RemoteClient_def rc_ListSessions_def
  by (simp, rule remote_get_list [where q = "[]" and v = "\<lambda>_. []" and h = "listSessions (se_Service env)" and segs = "api [Lit ''sessions'']"
          and items = "\<lambda>x. map sessionSnapshotToWire (take 50 (elems x))" and whole = "\<lambda>x. length (elems x)",
        OF assms(1) _ _ _ _ _ reads_wireSessionSnapshot])
     (use assms in \<open>simp_all add: request_simps routes_def listSessions_def reply_list_def fits_list_def trip parsePagination_def reply_page_def paginate_fifty\<close>)

lemma remote_GetSession:
  assumes "connected env tr" "id_ok key"
    and "\<And>x. fst ((ss_Get (svc_Sessions (se_Service env)) key) s) = Answer x \<Longrightarrow> sendable wireSessionDetail_ok wireSessionDetail_json (sessionDetailToWire x)"
  shows "ss_Get (svc_Sessions (RemoteClient tr duration)) key s = seen_result ''get session'' seen_SessionDetail remote_error ((ss_Get (svc_Sessions (se_Service env)) key) s)"
  unfolding RemoteClient_def rc_GetSession_def decode_as_def [abs_def]
  by (simp, rule remote_get_one [where to = "\<lambda>x. sessionDetailToWire x" and q = "[]" and v = "\<lambda>_. key" and h = "getSession (se_Service env)" and segs = "api [Lit ''sessions'', Wild ''id'']",
        OF assms(1) _ _ _ _ _ reads_wireSessionDetail])
     (use assms in \<open>simp_all add: request_simps routes_def getSession_def trip\<close>)

lemma remote_History:
  assumes "connected env tr"
    and "\<And>x. fst ((os_History (svc_Operator (se_Service env))) s) = Answer x \<Longrightarrow> fits_list wireChatEntry_ok wireChatEntry_json (map chatEntryToWire (elems x)) (length (elems x))"
  shows "os_History (svc_Operator (RemoteClient tr duration)) s
    = seen_result ''get operator history'' (\<lambda>x. Some (map seen_ChatEntry (elems x))) remote_error ((os_History (svc_Operator (se_Service env))) s)"
  unfolding RemoteClient_def rc_History_def
  by (simp, rule remote_get_list [where q = "[]" and v = "\<lambda>_. []" and h = "operatorHistory (se_Service env)" and segs = "api [Lit ''operator'', Lit ''history'']"
          and items = "\<lambda>x. map chatEntryToWire (elems x)" and whole = "\<lambda>x. length (elems x)",
        OF assms(1) _ _ _ _ _ reads_wireChatEntry])
     (use assms in \<open>simp_all add: request_simps routes_def operatorHistory_def reply_list_def fits_list_def trip\<close>)

lemma remote_Status:
  assumes "connected env tr"
    and "\<And>x. fst ((os_Status (svc_Operator (se_Service env))) s) = Answer x \<Longrightarrow> sendable (\<lambda>w. True) OperatorStatusResponse_json (status_to_wire x)"
  shows "os_Status (svc_Operator (RemoteClient tr duration)) s = seen_result ''get operator status'' (\<lambda>st. st) remote_error ((os_Status (svc_Operator (se_Service env))) s)"
  unfolding RemoteClient_def rc_Status_def decode_as_def [abs_def]
  by (simp, rule remote_get_one [where to = "\<lambda>x. status_to_wire x" and q = "[]" and v = "\<lambda>_. []" and h = "operatorStatus (se_Service env)" and segs = "api [Lit ''operator'', Lit ''status'']",
        OF assms(1) _ _ _ _ _ reads_OperatorStatusResponse])
     (use assms in \<open>simp_all add: request_simps routes_def operatorStatus_def trip status_to_wire_def operator_status_def\<close>)

lemma remote_ListModels:
  assumes "connected env tr"
    and "\<And>x. fst ((sy_ListModels (svc_System (se_Service env))) s) = Answer x \<Longrightarrow> fits_list (\<lambda>w. True) wireModelInfo_json (map modelInfoToWire (elems x)) (length (elems x))"
  shows "sy_ListModels (svc_System (RemoteClient tr duration)) s
    = seen_result ''list models'' (\<lambda>x. Some (elems x)) remote_error ((sy_ListModels (svc_System (se_Service env))) s)"
  unfolding RemoteClient_def rc_ListModels_def
  by (simp, rule remote_get_list [where q = "[]" and v = "\<lambda>_. []" and h = "listModels (se_Service env)" and segs = "api [Lit ''models'']"
          and items = "\<lambda>x. map modelInfoToWire (elems x)" and whole = "\<lambda>x. length (elems x)",
        OF assms(1) _ _ _ _ _ reads_wireModelInfo])
     (use assms in \<open>simp_all add: request_simps routes_def listModels_def reply_list_def fits_list_def trip\<close>)

lemma remote_ListCatalogProviders:
  assumes "connected env tr"
    and "\<And>x. fst ((sy_ListCatalogProviders (svc_System (se_Service env))) s) = Answer x \<Longrightarrow> fits_list wireCatalogProvider_ok wireCatalogProvider_json (map catalogProviderToWire (elems x)) (length (elems x))"
  shows "sy_ListCatalogProviders (svc_System (RemoteClient tr duration)) s
    = seen_result ''list catalog'' (\<lambda>x. Some (map seen_CatalogProvider (elems x))) remote_error ((sy_ListCatalogProviders (svc_System (se_Service env))) s)"
  unfolding RemoteClient_def rc_ListCatalogProviders_def
  by (simp, rule remote_get_list [where q = "[]" and v = "\<lambda>_. []" and h = "listCatalog (se_Service env)" and segs = "api [Lit ''catalog'']"
          and items = "\<lambda>x. map catalogProviderToWire (elems x)" and whole = "\<lambda>x. length (elems x)",
        OF assms(1) _ _ _ _ _ reads_wireCatalogProvider])
     (use assms in \<open>simp_all add: request_simps routes_def listCatalog_def reply_list_def fits_list_def trip\<close>)

lemma remote_ListMCPServers:
  assumes "connected env tr"
    and "\<And>x. fst ((sy_ListMCPServers (svc_System (se_Service env))) s) = Answer x \<Longrightarrow> fits_list wireMCPServerStatus_ok wireMCPServerStatus_json (map mcpServerStatusToWire (elems x)) (length (elems x))"
  shows "sy_ListMCPServers (svc_System (RemoteClient tr duration)) s
    = seen_result ''list MCP servers'' (\<lambda>x. Some (map seen_MCPServerStatus (elems x))) remote_error ((sy_ListMCPServers (svc_System (se_Service env))) s)"
  unfolding RemoteClient_def rc_ListMCPServers_def
  by (simp, rule remote_get_list [where q = "[]" and v = "\<lambda>_. []" and h = "listMCPServers (se_Service env)" and segs = "api [Lit ''mcp'', Lit ''servers'']"
          and items = "\<lambda>x. map mcpServerStatusToWire (elems x)" and whole = "\<lambda>x. length (elems x)",
        OF assms(1) _ _ _ _ _ reads_wireMCPServerStatus])
     (use assms in \<open>simp_all add: request_simps routes_def listMCPServers_def reply_list_def fits_list_def trip\<close>)

lemma remote_GetProgressState:
  assumes "connected env tr"
    and "\<And>x. fst ((sy_GetProgressState (svc_System (se_Service env))) s) = Answer x \<Longrightarrow> sendable wireProgressState_ok wireProgressState_json (progressStateToWire x)"
  shows "sy_GetProgressState (svc_System (RemoteClient tr duration)) s = seen_result ''get progress state'' seen_ProgressState remote_error ((sy_GetProgressState (svc_System (se_Service env))) s)"
  unfolding RemoteClient_def rc_GetProgressState_def decode_as_def [abs_def]
  by (simp, rule remote_get_one [where to = "\<lambda>x. progressStateToWire x" and q = "[]" and v = "\<lambda>_. []" and h = "getProgress (se_Service env)" and segs = "api [Lit ''progress'']",
        OF assms(1) _ _ _ _ _ reads_wireProgressState])
     (use assms in \<open>simp_all add: request_simps routes_def getProgress_def trip\<close>)

lemma remote_GetSettings:
  assumes "connected env tr"
    and "\<And>x. fst ((sy_GetSettings (svc_System (se_Service env))) s) = Answer x \<Longrightarrow> sendable Settings_ok Settings_json (x)"
  shows "sy_GetSettings (svc_System (RemoteClient tr duration)) s = seen_result ''get settings'' (\<lambda>x. x) remote_error ((sy_GetSettings (svc_System (se_Service env))) s)"
  unfolding RemoteClient_def rc_GetSettings_def decode_as_def [abs_def]
  by (simp, rule remote_get_one [where to = "\<lambda>x. x" and q = "[]" and v = "\<lambda>_. []" and h = "getSettings (se_Service env)" and segs = "api [Lit ''settings'']",
        OF assms(1) _ _ _ _ _ reads_Settings])
     (use assms in \<open>simp_all add: request_simps routes_def getSettings_def trip\<close>)

lemma remote_GetLogs:
  assumes "connected env tr"
    and "\<And>x. fst ((sy_GetLogs (svc_System (se_Service env))) s) = Answer x \<Longrightarrow> sendable (\<lambda>w. True) logsResponse_json (\<lparr>logsResponse_Content = x\<rparr>)"
  shows "sy_GetLogs (svc_System (RemoteClient tr duration)) s = seen_result ''get logs'' (\<lambda>x. x) remote_error ((sy_GetLogs (svc_System (se_Service env))) s)"
  unfolding RemoteClient_def rc_GetLogs_def decode_as_def [abs_def]
  by (simp, rule remote_get_one [where to = "\<lambda>x. \<lparr>logsResponse_Content = x\<rparr>" and q = "[]" and v = "\<lambda>_. []" and h = "getLogs (se_Service env)" and segs = "api [Lit ''logs'']",
        OF assms(1) _ _ _ _ _ reads_logsResponse])
     (use assms in \<open>simp_all add: request_simps routes_def getLogs_def trip\<close>)

lemma remote_Metrics:
  assumes "connected env tr"
    and "\<And>x. fst ((sy_Metrics (svc_System (se_Service env))) s) = Answer x \<Longrightarrow> sendable wireMetricsReport_ok wireMetricsReport_json (metricsReportToWire x)"
  shows "sy_Metrics (svc_System (RemoteClient tr duration)) s = seen_result ''get metrics'' seen_MetricsReport remote_error ((sy_Metrics (svc_System (se_Service env))) s)"
  unfolding RemoteClient_def rc_Metrics_def decode_as_def [abs_def]
  by (simp, rule remote_get_one [where to = "\<lambda>x. metricsReportToWire x" and q = "[]" and v = "\<lambda>_. []" and h = "getMetrics (se_Service env)" and segs = "api [Lit ''metrics'']",
        OF assms(1) _ _ _ _ _ reads_wireMetricsReport])
     (use assms in \<open>simp_all add: request_simps routes_def getMetrics_def trip\<close>)

lemma remote_ListJobNotes:
  assumes "connected env tr" "id_ok key"
    and "\<And>x. fst ((ks_ListJobNotes (svc_Knowledge (se_Service env)) key) s) = Answer x \<Longrightarrow> fits_list wireNoteMeta_ok wireNoteMeta_json (map noteMetaToWire (elems x)) (length (elems x))"
  shows "ks_ListJobNotes (svc_Knowledge (RemoteClient tr duration)) key s
    = seen_result ''list job notes'' (\<lambda>x. Some (elems x)) remote_error ((ks_ListJobNotes (svc_Knowledge (se_Service env)) key) s)"
  unfolding RemoteClient_def rc_ListJobNotes_def
  by (simp, rule remote_get_list [where q = "[]" and v = "\<lambda>_. key" and h = "listJobNotes (se_Service env)" and segs = "api [Lit ''jobs'', Wild ''id'', Lit ''notes'']"
          and items = "\<lambda>x. map noteMetaToWire (elems x)" and whole = "\<lambda>x. length (elems x)",
        OF assms(1) _ _ _ _ _ reads_wireNoteMeta])
     (use assms in \<open>simp_all add: request_simps routes_def listJobNotes_def reply_list_def fits_list_def trip\<close>)

lemma remote_ReadJobNote:
  assumes "connected env tr" "id_ok jobID" "id_ok key"
    and "\<And>x. fst ((ks_ReadJobNote (svc_Knowledge (se_Service env)) jobID key) s) = Answer x \<Longrightarrow> sendable (\<lambda>w. True) noteContentResponse_json (\<lparr>noteContentResponse_Content = x\<rparr>)"
  shows "ks_ReadJobNote (svc_Knowledge (RemoteClient tr duration)) jobID key s = seen_result ''read job note'' (\<lambda>x. x) remote_error ((ks_ReadJobNote (svc_Knowledge (se_Service env)) jobID key) s)"
  unfolding RemoteClient_def rc_ReadJobNote_def decode_as_def [abs_def]
  by (simp, rule remote_get_one [where to = "\<lambda>x. \<lparr>noteContentResponse_Content = x\<rparr>" and q = "[]" and v = "\<lambda>n. if n = ''id'' then jobID else key" and h = "getJobNote (se_Service env)" and segs = "api [Lit ''jobs'', Wild ''id'', Lit ''notes'', Wild ''noteID'']",
        OF assms(1) _ _ _ _ _ reads_noteContentResponse])
     (use assms in \<open>simp_all add: request_simps routes_def getJobNote_def trip\<close>)

section \<open>Operations that change something\<close>

lemma remote_act:
  assumes "connected env tr" "path = built_path segs v"
      "((meth, segs), h) \<in> set (routes (se_Events env) (se_Seconds env) (se_Service env))"
      "meth \<in> {''GET'', ''POST'', ''PUT'', ''DELETE''}" "segs \<noteq> []" "\<forall>x\<in>set segs. segment_ok v x"
    and "\<And>r c. rq_PathValues r = map (\<lambda>n. (n, v n)) (names_of segs) \<Longrightarrow>
      h r c = call f (handleServiceError r) (\<lambda>_. reply_status 204) c"
  shows "remote_call opname (http_send tr meth path [] None) decodeNoContent s
    = seen_result opname (\<lambda>_. ()) remote_error (f s)"
proof -
  have m: "meth \<noteq> ''HEAD''" using assms(4) by auto
  have "path = built_path segs v @ (if ([] :: string) = [] then [] else CHR ''?'' # [])" using assms(2) by simp
  then show ?thesis
    unfolding remote_error_def
    by (simp only:, intro remote_nothing [where b = None and bad = handleServiceError and ok = "\<lambda>_. reply_status 204", OF assms(1,3-6)])
       (use assms(7) failure_shown [OF _ m] in simp_all)
qed

lemma remote_DeleteSkill:
  assumes "connected env tr" "id_ok key"
  shows "ds_DeleteSkill (svc_Definitions (RemoteClient tr duration)) key s
    = seen_result ''delete skill'' (\<lambda>_. ()) remote_error (ds_DeleteSkill (svc_Definitions (se_Service env)) key s)"
  unfolding RemoteClient_def rc_DeleteSkill_def
  by (simp add: http_delete_def, rule remote_act [where v = "\<lambda>_. key" and h = "deleteSkill (se_Service env)" and segs = "api [Lit ''skills'', Wild ''id'']", OF assms(1)])
     (use assms in \<open>simp_all add: request_simps routes_def deleteSkill_def\<close>)

lemma remote_CancelJob:
  assumes "connected env tr" "id_ok key"
  shows "js_Cancel (svc_Jobs (RemoteClient tr duration)) key s
    = seen_result ''cancel job'' (\<lambda>_. ()) remote_error (js_Cancel (svc_Jobs (se_Service env)) key s)"
  unfolding RemoteClient_def rc_CancelJob_def
  by (simp add: http_post_def doWithBody_def, rule remote_act [where v = "\<lambda>_. key" and h = "cancelJob (se_Service env)" and segs = "api [Lit ''jobs'', Wild ''id'', Lit ''cancel'']", OF assms(1)])
     (use assms in \<open>simp_all add: request_simps routes_def cancelJob_def\<close>)

lemma remote_RetryTask:
  assumes "connected env tr" "id_ok key"
  shows "js_RetryTask (svc_Jobs (RemoteClient tr duration)) key s
    = seen_result ''retry task'' (\<lambda>_. ()) remote_error (js_RetryTask (svc_Jobs (se_Service env)) key s)"
  unfolding RemoteClient_def rc_RetryTask_def
  by (simp add: http_post_def doWithBody_def, rule remote_act [where v = "\<lambda>_. key" and h = "retryTask (se_Service env)" and segs = "api [Lit ''tasks'', Wild ''id'', Lit ''retry'']", OF assms(1)])
     (use assms in \<open>simp_all add: request_simps routes_def retryTask_def\<close>)

lemma remote_CancelSession:
  assumes "connected env tr" "id_ok key"
  shows "ss_Cancel (svc_Sessions (RemoteClient tr duration)) key s
    = seen_result ''cancel session'' (\<lambda>_. ()) remote_error (ss_Cancel (svc_Sessions (se_Service env)) key s)"
  unfolding RemoteClient_def rc_CancelSession_def
  by (simp add: http_post_def doWithBody_def, rule remote_act [where v = "\<lambda>_. key" and h = "cancelSession (se_Service env)" and segs = "api [Lit ''sessions'', Wild ''id'', Lit ''cancel'']", OF assms(1)])
     (use assms in \<open>simp_all add: request_simps routes_def cancelSession_def\<close>)

section \<open>Operations that send a body\<close>

lemma body_read:
  assumes "reads (read_struct fs) jf g P zero" "P x" "length (encode (jf x)) \<le> maxRequestBody" "rq_Body r = Some (encode (jf x))"
  shows "decodeBody fs zero k r c = k (g x) c"
  using readsD [OF assms(1,2)] request_value_written [of "jf x"] assms(3,4) by (simp add: decodeBody_def)

text \<open>A byte becomes at most six in a JSON string.\<close>

lemma escape_length: "length (esc_char c) \<le> 6"
  by (simp add: esc_char_def Let_def)

lemma enc_body_length: "length (enc_body s) \<le> 6 * length s"
proof (induction s rule: enc_body.induct)
  case (1 c d e s)
  then show ?case using escape_length [of c] by (cases "is_separator c d e") auto
qed (auto intro!: escape_length add_mono [of _ 6 _ 6, simplified])

lemma enc_string_length: "length (enc_string s) \<le> 6 * length s + 2"
  using enc_body_length [of s] by (simp add: enc_string_def)

text \<open>A message the server accepts reaches the operator, however many of its bytes are escaped.\<close>

lemma message_fits:
  "length m \<le> maxMessageBytes \<Longrightarrow> length (encode (SendMessageRequest_json \<lparr>SendMessageRequest_Message = m\<rparr>)) \<le> maxRequestBody"
  using enc_string_length [of m] enc_string_length [of "''message''"]
  by (simp add: SendMessageRequest_json_def member_def maxRequestBody_def maxMessageBytes_def)

lemma remote_SendMessage:
  assumes "connected env tr" "\<not> is_blank message" "length message \<le> maxMessageBytes"
    and "\<And>turn. fst (os_SendMessage (svc_Operator (se_Service env)) message s) = Answer turn \<Longrightarrow>
      length (encode (TurnResponse_json \<lparr>TurnResponse_TurnID = turn\<rparr>)) \<le> maxResponseSize"
  shows "os_SendMessage (svc_Operator (RemoteClient tr duration)) message s
    = seen_result ''send message'' (\<lambda>turn. turn) remote_error (os_SendMessage (svc_Operator (se_Service env)) message s)"
proof -
  let ?segs = "api [Lit ''operator'', Lit ''messages'']"
  let ?req = "SendMessageRequest_json \<lparr>SendMessageRequest_Message = message\<rparr>"
  have path: "''/api/v1/operator/messages'' = built_path ?segs (\<lambda>_. []) @ (if ([] :: string) = [] then [] else CHR ''?'' # [])"
    by (simp add: built_path_def api_def)
  have "remote_call ''send message'' (http_send tr ''POST'' ''/api/v1/operator/messages'' [(''Content-Type'', ''application/json'')] (Some (encode ?req)))
      (\<lambda>resp. map_sum (\<lambda>e. e) TurnResponse_TurnID (decodeResponse (read_struct TurnResponse_fields) zero_TurnResponse resp)) s
    = seen_result ''send message'' (\<lambda>turn. TurnResponse_TurnID \<lparr>TurnResponse_TurnID = turn\<rparr>) remote_error
        (os_SendMessage (svc_Operator (se_Service env)) message s)"
    unfolding path
  proof (rule remote_plain [where h = "sendMessage (se_Service env)" and code = 202 and to = "\<lambda>turn. \<lparr>TurnResponse_TurnID = turn\<rparr>",
        OF assms(1) _ _ _ _ _ _ _ _ _ reads_TurnResponse])
    fix r :: request and c :: "'a conn"
    assume "rq_Body r = Some (case Some (encode ?req) of Some b \<Rightarrow> b | None \<Rightarrow> [])"
    then show "sendMessage (se_Service env) r c
        = call (os_SendMessage (svc_Operator (se_Service env)) message) (handleServiceError r)
            (\<lambda>turn. reply_json 202 (TurnResponse_json \<lparr>TurnResponse_TurnID = turn\<rparr>)) c"
      using assms(2,3) by (simp add: sendMessage_def Let_def body_read [OF reads_SendMessageRequest _ message_fits [OF assms(3)]])
  qed (use assms(4) in \<open>simp_all add: routes_def request_simps sendable_def\<close>)
  then show ?thesis
    by (simp add: RemoteClient_def rc_SendMessage_def http_post_def doWithBody_def decode_as_def [abs_def])
qed

section \<open>Filtered jobs\<close>

text \<open>
  The server asks twice: for the page, and for everything the filter matches, to count it. The answer
  and the state are those of both calls.
\<close>

definition counted_list :: "'s JobService \<Rightarrow> JobListFilter \<Rightarrow> ('s, Job slice \<times> nat) op" where
  "counted_list js f s =
     (case js_List js (Some f) s of
        (Failed e, s1) \<Rightarrow> (Failed e, s1)
      | (Crashed msg, s1) \<Rightarrow> (Crashed msg, s1)
      | (Answer jobs, s1) \<Rightarrow>
          (case js_List js (Some (f\<lparr>JobListFilter_Limit := 0, JobListFilter_Offset := 0\<rparr>)) s1 of
             (Answer everything, s2) \<Rightarrow> (Answer (jobs, length (elems everything)), s2)
           | (Failed e, s2) \<Rightarrow> (Answer (jobs, length (elems jobs)), s2)
           | (Crashed msg, s2) \<Rightarrow> (Crashed msg, s2)))"

text \<open>A filter the server takes as the client meant it.\<close>

definition filter_ok :: "JobListFilter \<Rightarrow> bool" where
  "filter_ok f \<longleftrightarrow>
     0 < JobListFilter_Limit f \<and> JobListFilter_Limit f \<le> 200 \<and>
     0 \<le> JobListFilter_Offset f \<and> JobListFilter_Offset f < 2 ^ 63 \<and>
     (case JobListFilter_Status f of Some st \<Rightarrow> st \<in> set validJobStatuses | None \<Rightarrow> True) \<and>
     JobListFilter_Type f \<noteq> Some []"

definition filter_pairs :: "JobListFilter \<Rightarrow> query" where
  "filter_pairs f =
     (if JobListFilter_Limit f > 0 then [(''limit'', fmt_int (JobListFilter_Limit f))] else []) @
     (if JobListFilter_Offset f > 0 then [(''offset'', fmt_int (JobListFilter_Offset f))] else []) @
     (case JobListFilter_Status f of Some st \<Rightarrow> [(''status'', st)] | None \<Rightarrow> []) @
     (case JobListFilter_Type f of Some ty \<Rightarrow> [(''type'', ty)] | None \<Rightarrow> [])"

lemma Atoi_fmt: "0 \<le> i \<Longrightarrow> i < 2 ^ 63 \<Longrightarrow> Atoi (fmt_int i) = Some i"
  using Atoi_digits [of "nat i"] by (simp add: fmt_int_def)

lemma fmt_int_nonempty [simp]: "fmt_int i \<noteq> []"
  by (simp add: fmt_int_def)

lemma filter_parsed:
  assumes "filter_ok f" "rq_RawQuery r = encode_query (filter_pairs f)"
  shows "parsePagination r = Inr \<lparr>pg_Limit = JobListFilter_Limit f, pg_Offset = JobListFilter_Offset f\<rparr>"
    "url_query r ''all'' \<noteq> ''true''"
    "url_query r ''status'' = (case JobListFilter_Status f of Some st \<Rightarrow> st | None \<Rightarrow> [])"
    "url_query r ''type'' = (case JobListFilter_Type f of Some ty \<Rightarrow> ty | None \<Rightarrow> [])"
proof -
  have q: "url_query r k = query_get (filter_pairs f) k" for k
    by (simp add: url_query_def assms(2) parse_encoded_query)
  show "parsePagination r = Inr \<lparr>pg_Limit = JobListFilter_Limit f, pg_Offset = JobListFilter_Offset f\<rparr>"
    using assms(1) Atoi_fmt [of "JobListFilter_Limit f"] Atoi_fmt [of "JobListFilter_Offset f"]
    by (auto simp: parsePagination_def q query_get_def filter_pairs_def filter_ok_def split: option.splits)
  show "url_query r ''all'' \<noteq> ''true''"
    "url_query r ''status'' = (case JobListFilter_Status f of Some st \<Rightarrow> st | None \<Rightarrow> [])"
    "url_query r ''type'' = (case JobListFilter_Type f of Some ty \<Rightarrow> ty | None \<Rightarrow> [])"
    by (auto simp: q query_get_def filter_pairs_def split: option.splits)
qed

lemma listJobs_counted:
  assumes "filter_ok f" "rq_RawQuery r = encode_query (filter_pairs f)"
  shows "listJobs svc r c = call (counted_list (svc_Jobs svc) f) (handleServiceError r)
    (\<lambda>(jobs, n). reply_json 200 (page_json wireJob_json (map jobToWire (elems jobs)) n)) c"
proof -
  have "(case JobListFilter_Status f of Some st \<Rightarrow> st | None \<Rightarrow> []) \<noteq> [] \<Longrightarrow>
      (case JobListFilter_Status f of Some st \<Rightarrow> st | None \<Rightarrow> []) \<in> set validJobStatuses"
    using assms(1) by (auto simp: filter_ok_def split: option.splits)
  moreover have "\<lparr>JobListFilter_Status = (if url_query r ''status'' = [] then None else Some (url_query r ''status'')),
      JobListFilter_Type = (if url_query r ''type'' = [] then None else Some (url_query r ''type'')),
      JobListFilter_Limit = JobListFilter_Limit f, JobListFilter_Offset = JobListFilter_Offset f\<rparr> = f"
    using assms(1) by (cases f) (auto simp: filter_parsed [OF assms] filter_ok_def validJobStatuses_def split: option.splits)
  ultimately show ?thesis
    using filter_parsed(1,2) [OF assms]
    by (auto simp: listJobs_def Let_def filter_parsed(3) [OF assms, symmetric] call_def counted_list_def reply_list_def
        split: prod.splits answer.splits)
qed


definition sample_transport :: "'s server_env \<Rightarrow> 's transport" where
  "sample_transport env = \<lparr>ht_baseURL = ''http://localhost:8421'', ht_token = ''secret'', ht_Do = net_of env ''http://localhost:8421''\<rparr>"

definition sample_job :: Job where
  "sample_job = wireJobToService (zero_wireJob\<lparr>wireJob_ID := ''a/b'', wireJob_Title := ''Fix it''\<rparr>)"

definition sample_service :: "nat Service" where
  "sample_service = failing_service (Plain ''down'')\<lparr>svc_Jobs :=
     \<lparr>js_List = \<lambda>f n. (Answer (Some [sample_job]), Suc n), js_ListAll = \<lambda>n. (Answer (Some [sample_job]), Suc n),
      js_Get = \<lambda>key n. (Answer \<lparr>JobDetail_Job = sample_job, JobDetail_Tasks = None, JobDetail_Progress = None\<rparr>, Suc n),
      js_Cancel = \<lambda>key n. (Answer (), Suc n), js_RetryTask = \<lambda>key n. (Answer (), Suc n)\<rparr>\<rparr>"

lemma short_fits: "length s \<le> 500 \<Longrightarrow> length s \<le> maxResponseSize"
  by (simp add: maxResponseSize_def)

lemma sample_connected: "connected (sample_env svc) (sample_transport (sample_env svc))"
  by (simp add: connected_def sample_transport_def sample_env_def)

lemma sample_answers:
  "svc_Jobs (se_Service (sample_env sample_service)) = svc_Jobs sample_service"
  "js_Get (svc_Jobs sample_service) key n =
     (Answer \<lparr>JobDetail_Job = sample_job, JobDetail_Tasks = None, JobDetail_Progress = None\<rparr>, Suc n)"
  "js_List (svc_Jobs sample_service) f n = (Answer (Some [sample_job]), Suc n)"
  by (simp_all add: sample_env_def sample_service_def)

lemma remote_GetJob_witness:
  "js_Get (svc_Jobs (RemoteClient (sample_transport (sample_env sample_service)) (\<lambda>_. 0))) ''a/b'' 7
   = (Answer (seen_JobDetail \<lparr>JobDetail_Job = sample_job, JobDetail_Tasks = None, JobDetail_Progress = None\<rparr>), 8)"
proof -
  let ?d = "\<lparr>JobDetail_Job = sample_job, JobDetail_Tasks = None, JobDetail_Progress = None\<rparr>"
  have "wireJobDetail_ok (jobDetailToWire ?d)" "length (encode (wireJobDetail_json (jobDetailToWire ?d))) \<le> 500"
    by code_simp+
  then have "sendable wireJobDetail_ok wireJobDetail_json (jobDetailToWire ?d)" using short_fits by (simp add: sendable_def)
  then have "js_Get (svc_Jobs (RemoteClient (sample_transport (sample_env sample_service)) (\<lambda>_. 0))) ''a/b'' 7
      = seen_result ''get job'' seen_JobDetail remote_error (js_Get (svc_Jobs (se_Service (sample_env sample_service))) ''a/b'' 7)"
    by (intro remote_GetJob) (simp_all add: sample_connected id_ok_def sample_answers)
  then show ?thesis by (simp add: sample_answers seen_result_def)
qed


text \<open>A limit of zero, which means all to the service, is not sent: the server then takes its own, 50.\<close>

lemma no_limit_becomes_fifty:
  assumes "JobListFilter_Limit f = 0" "JobListFilter_Offset f = 0" "rq_RawQuery r = encode_query (filter_pairs f)"
  shows "parsePagination r = Inr \<lparr>pg_Limit = 50, pg_Offset = 0\<rparr>"
  using assms by (auto simp: parsePagination_def url_query_def parse_encoded_query query_get_def filter_pairs_def split: option.splits)

section \<open>Classes of errors\<close>

text \<open>\<open>errors.Is\<close> finds \<open>ErrNotFound\<close> in a remote error as in the service's.\<close>

lemma not_found_recognised: "errors_is (remote_error e) ErrNotFound \<longleftrightarrow> errors_is e ErrNotFound"
  by (simp add: remote_error_def client_error_def service_failure_def error_body_def mapServiceError_def
      mapStatusToError_def sentinel_error_def)

text \<open>The other classes become sentinels of the client, which the service's callers do not look for.\<close>

lemma other_classes_lost:
  "s \<in> {ErrConflict, ErrInvalid, ErrBusy, ErrUnavailable} \<Longrightarrow> \<not> errors_is (remote_error e) s"
  by (auto simp: remote_error_def client_error_def service_failure_def error_body_def mapServiceError_def
      mapStatusToError_def sentinel_error_def)

text \<open>An internal error tells a remote caller nothing.\<close>

lemma internal_error_hidden:
  assumes "fst (mapServiceError e) = 500"
  shows "error_text (remote_error e) = ''server error: internal server error''"
proof -
  have "remote_error e = client_error (error_body 500 ''internal_error'' ''internal server error'')"
    using assms by (auto simp: remote_error_def service_failure_def shown_text_def mapServiceError_def split: if_splits)
  also have "\<dots> = mapStatusToError 500 ''internal server error''"
    by (subst error_message_received, rule short_fits, code_simp, simp)
  finally show ?thesis by (simp add: mapStatusToError_def sentinel_error_def)
qed

end
