(* ===== verification/McpResults.thy ===== *)
theory McpResults
  imports GraphState
begin

text \<open>
  What a tool of an MCP server returns before a model reads it (\<open>internal/mcp/slim.go\<close> and
  \<open>truncate.go\<close>): members of little value are removed from a JSON document, and a result that is
  still too long is cut, between elements where it is an array and at a byte otherwise.
\<close>

section \<open>Slimming\<close>

definition hasAnyKey :: "(string \<times> json) list \<Rightarrow> string list \<Rightarrow> bool" where
  "hasAnyKey obj keys = list_ex (\<lambda>k. map_of obj k \<noteq> None) keys"

definition primary_keys :: "string list" where
  "primary_keys = [''title'', ''name'', ''message'', ''body'', ''description'', ''full_name'']"

definition base64_char :: "char \<Rightarrow> bool" where
  "base64_char c \<longleftrightarrow> (CHR ''A'' \<le> c \<and> c \<le> CHR ''Z'') \<or> (CHR ''a'' \<le> c \<and> c \<le> CHR ''z'')
     \<or> (CHR ''0'' \<le> c \<and> c \<le> CHR ''9'')
     \<or> c = CHR ''+'' \<or> c = CHR ''/'' \<or> c = CHR ''='' \<or> c = CHR 0x0A \<or> c = CHR 0x0D \<or> c = CHR 0x20"

definition isOpaqueBlob :: "string \<Rightarrow> bool" where
  "isOpaqueBlob s \<longleftrightarrow> has_prefix s ''-----BEGIN '' \<or> list_all base64_char (take 1024 s)"

text \<open>What becomes of a member: it is dropped, kept as it is, or kept with its value slimmed.\<close>

datatype member_verdict = Dropped | Verbatim | Slimmed

definition droppable_text :: "string \<Rightarrow> bool" where
  "droppable_text s \<longleftrightarrow>
     has_prefix s ''http'' \<and> CHR 0x7B \<in> set s \<and> CHR 0x7D \<in> set s
     \<or> has_prefix s ''https://api.''
     \<or> 500 < length s \<and> isOpaqueBlob s"

definition slim_member :: "bool \<Rightarrow> string \<Rightarrow> json \<Rightarrow> member_verdict" where
  "slim_member isPrimary key val =
     (if val = JNull then Dropped
      else if key = ''node_id'' \<or> key = ''gravatar_id'' then Dropped
      else if has_suffix key ''_url'' \<and> key = ''html_url'' \<and> isPrimary then Verbatim
      else (case val of
              JStr s \<Rightarrow>
                if has_suffix key ''_url'' then Dropped
                else if key = ''url'' \<and> has_prefix s ''http'' then Dropped
                else if droppable_text s then Dropped
                else Slimmed
            | _ \<Rightarrow> Slimmed))"

fun slimValue :: "json \<Rightarrow> json"
  and slimObject :: "bool \<Rightarrow> (string \<times> json) list \<Rightarrow> (string \<times> json) list" where
  "slimValue (JObj obj) = JObj (slimObject (hasAnyKey obj primary_keys) obj)"
| "slimValue (JArr arr) = JArr (map slimValue arr)"
| "slimValue v = v"
| "slimObject isPrimary [] = []"
| "slimObject isPrimary ((key, val) # obj) =
     (case slim_member isPrimary key val of
        Dropped \<Rightarrow> slimObject isPrimary obj
      | Verbatim \<Rightarrow> (key, val) # slimObject isPrimary obj
      | Slimmed \<Rightarrow> (key, slimValue val) # slimObject isPrimary obj)"

definition SlimJSON :: "json_env \<Rightarrow> string \<Rightarrow> string" where
  "SlimJSON je result =
     (case decode_any je result of Inl e \<Rightarrow> result | Inr parsed \<Rightarrow> encode (slimValue parsed))"

section \<open>Truncating\<close>

definition DefaultMaxResultLen :: nat where
  "DefaultMaxResultLen = 16000"

definition shortened_note :: "nat \<Rightarrow> nat \<Rightarrow> json" where
  "shortened_note keep items =
     JObj [(''_truncated'', JStr (''Showing '' @ fmt_int (int keep) @ '' of '' @ fmt_int (int items)
                                  @ '' items (result exceeded size limit)''))]"

definition tryMarshalArray :: "json list \<Rightarrow> nat \<Rightarrow> nat \<Rightarrow> bool" where
  "tryMarshalArray elements items maxLen \<longleftrightarrow>
     length (encode (JArr (elements @ [shortened_note (length elements) items]))) \<le> maxLen"

text \<open>The search for the greatest number that fits; the guess is above the lower bound.\<close>

function bisect :: "(nat \<Rightarrow> bool) \<Rightarrow> nat \<Rightarrow> nat \<Rightarrow> nat" where
  "bisect fits lo hi =
     (if lo < hi
      then let mid = (lo + hi + 1) div 2 in
           if fits mid then bisect fits mid hi else bisect fits lo (mid - 1)
      else lo)"
  by pat_completeness auto
termination by (relation "measure (\<lambda>(fits, lo, hi). hi - lo)") auto

declare bisect.simps [simp del]

definition elements_kept :: "json list \<Rightarrow> nat \<Rightarrow> nat" where
  "elements_kept arr maxLen =
     bisect (\<lambda>mid. tryMarshalArray (take mid arr) (length arr) maxLen) 0 (length arr)"

definition truncateJSONArray :: "json list \<Rightarrow> nat \<Rightarrow> string option" where
  "truncateJSONArray arr maxLen =
     (let items = length arr; keep = elements_kept arr maxLen in
      if items = 0 then None
      else if keep = items then None
      else let s = encode (JArr (take keep arr @ [shortened_note keep items])) in
           if maxLen < length s then None else Some s)"

definition truncateObjectArray :: "json list \<Rightarrow> nat \<Rightarrow> json list option" where
  "truncateObjectArray arr maxLen =
     (let items = length arr; keep = elements_kept arr maxLen in
      if keep = items then None
      else if keep = 0 then Some [shortened_note 0 items]
      else Some (take keep arr @ [shortened_note keep items]))"

text \<open>The new value of a member of an object, if it is changed.\<close>

definition shortened_member :: "nat \<Rightarrow> json \<Rightarrow> json option" where
  "shortened_member maxLen val =
     (case val of
        JArr arr \<Rightarrow> if length arr \<le> 5 then None else map_option JArr (truncateObjectArray arr maxLen)
      | _ \<Rightarrow> None)"

definition truncateJSONObject :: "(string \<times> json) list \<Rightarrow> nat \<Rightarrow> string option" where
  "truncateJSONObject obj maxLen =
     (if list_all (\<lambda>(key, val). shortened_member maxLen val = None) obj then None
      else let s = encode (JObj (map (\<lambda>(key, val).
                     (key, case shortened_member maxLen val of None \<Rightarrow> val | Some v \<Rightarrow> v)) obj)) in
           if maxLen < length s then None else Some s)"

definition truncateJSON :: "json_env \<Rightarrow> string \<Rightarrow> nat \<Rightarrow> string option" where
  "truncateJSON je result maxLen =
     (case decode_any je result of
        Inl e \<Rightarrow> None
      | Inr (JArr v) \<Rightarrow> truncateJSONArray v maxLen
      | Inr (JObj v) \<Rightarrow> truncateJSONObject v maxLen
      | Inr _ \<Rightarrow> None)"

definition cut_notice :: "nat \<Rightarrow> string" where
  "cut_notice items = CHR 0x0A # ''...[truncated, '' @ fmt_int (int items) @ '' total bytes]''"

definition TruncateResult :: "json_env \<Rightarrow> string \<Rightarrow> nat \<Rightarrow> string" where
  "TruncateResult je result maxLen =
     (let slim = SlimJSON je result in
      if length slim \<le> maxLen then slim
      else case truncateJSON je slim maxLen of
             Some truncated \<Rightarrow> truncated
           | None \<Rightarrow> take (rune_cut slim maxLen) slim @ cut_notice (length slim))"

text \<open>The wrapper around the caller of the servers; the limit is positive once it is built.\<close>

record ('s) truncating_caller =
  tc_inner :: "string \<Rightarrow> string \<Rightarrow> 's \<Rightarrow> (string + string) \<times> 's"
  tc_maxLen :: nat

definition NewTruncatingCaller ::
  "(string \<Rightarrow> string \<Rightarrow> 's \<Rightarrow> (string + string) \<times> 's) \<Rightarrow> int \<Rightarrow> 's truncating_caller" where
  "NewTruncatingCaller inner maxLen =
     \<lparr>tc_inner = inner, tc_maxLen = (if maxLen \<le> 0 then DefaultMaxResultLen else nat maxLen)\<rparr>"

definition truncating_Call ::
  "json_env \<Rightarrow> 's truncating_caller \<Rightarrow> string \<Rightarrow> string \<Rightarrow> 's \<Rightarrow> (string + string) \<times> 's" where
  "truncating_Call je tc namespacedName args s =
     (case tc_inner tc namespacedName args s of
        (Inl e, s') \<Rightarrow> (Inl e, s')
      | (Inr result, s') \<Rightarrow> (Inr (TruncateResult je result (tc_maxLen tc)), s'))"

section \<open>What slimming keeps\<close>

text \<open>
  The text Go prints for a number is a number, and reading it back prints the same text. This is
  what \<open>strconv\<close> documents of the shortest decimal form.
\<close>

definition prints_numbers :: "json_env \<Rightarrow> bool" where
  "prints_numbers je \<longleftrightarrow>
     (\<forall>n t. je_number je n = Some t \<longrightarrow> valid_number t \<and> list_all number_char t \<and> je_number je t = Some t)"

fun canonical :: "json_env \<Rightarrow> json \<Rightarrow> bool" where
  "canonical je (JNum n) \<longleftrightarrow> je_number je n = Some n"
| "canonical je (JArr js) \<longleftrightarrow> list_all (canonical je) js"
| "canonical je (JObj ms) \<longleftrightarrow>
     sorted (map fst ms) \<and> distinct (map fst ms) \<and> list_all (\<lambda>(k, v). canonical je v) ms"
| "canonical je _ \<longleftrightarrow> True"

lemma sorted_go_map: "sorted (map fst (go_map ms))" by (simp add: go_map_def)

lemma clearjunk_same: "distinct (map fst ms) \<Longrightarrow> AList.clearjunk ms = ms"
  by (induction ms rule: clearjunk.induct)
     (auto simp: AList.delete_eq rev_image_eqI intro!: filter_True [THEN trans [OF arg_cong [where f = AList.clearjunk]]])

lemma go_map_same:
  assumes "sorted (map fst ms)" "distinct (map fst ms)"
  shows "go_map ms = ms"
proof -
  have "AList.clearjunk (rev ms) = rev ms" using assms(2) by (intro clearjunk_same) (simp add: rev_map [symmetric])
  then have "set (go_map ms) = set ms" by (simp add: go_map_def)
  moreover have "map fst (go_map ms) = map fst ms"
    using assms calculation by (intro sorted_distinct_set_unique) (auto simp: sorted_go_map distinct_go_map)
  ultimately show ?thesis
    using assms distinct_go_map [of ms] sorted_go_map [of ms]
    by (intro map_sorted_distinct_set_unique [of fst]) (auto simp: distinct_map inj_on_def)
qed

lemma in_slimObject:
  "(k, w) \<in> set (slimObject p ms) \<longleftrightarrow>
     (\<exists>v. (k, v) \<in> set ms \<and> (slim_member p k v = Verbatim \<and> w = v \<or> slim_member p k v = Slimmed \<and> w = slimValue v))"
  by (induction ms) (auto split: member_verdict.splits)

lemma slimObject_keys: "k \<in> fst ` set (slimObject p ms) \<Longrightarrow> k \<in> fst ` set ms"
  by (force simp: in_slimObject)

lemma slimObject_ordered:
  "sorted (map fst ms) \<Longrightarrow> distinct (map fst ms) \<Longrightarrow>
     sorted (map fst (slimObject p ms)) \<and> distinct (map fst (slimObject p ms))"
proof (induction ms)
  case (Cons m ms)
  obtain k v where m: "m = (k, v)" by (cases m)
  have "k \<le> k' \<and> k \<noteq> k'" if "k' \<in> fst ` set (slimObject p ms)" for k'
    using slimObject_keys [OF that] Cons.prems m by auto
  then show ?case using Cons m by (auto split: member_verdict.splits)
qed simp

lemma canonical_slim: "canonical je v \<Longrightarrow> canonical je (slimValue v)"
proof (induction v)
  case (JArr js)
  then show ?case by (auto simp: list_all_iff)
next
  case (JObj ms)
  then show ?case using slimObject_ordered [of ms "hasAnyKey ms primary_keys"]
    by (force simp: list_all_iff in_slimObject)
qed simp_all

lemma canonical_go_value:
  assumes "prints_numbers je"
  shows "numbers_ok je v \<Longrightarrow> canonical je (go_value je v)"
proof (induction v)
  case (JNum n)
  then show ?case using assms by (auto simp: prints_numbers_def)
next
  case (JArr js)
  then show ?case by (auto simp: list_all_iff)
next
  case (JObj ms)
  have "canonical je w" if "(k, w) \<in> set (go_map (map (\<lambda>(k, v). (k, go_value je v)) ms))" for k w
  proof -
    have "map_of (go_map (map (\<lambda>(k, v). (k, go_value je v)) ms)) k = Some w"
      using that distinct_go_map by simp
    then have "(k, w) \<in> set (map (\<lambda>(k, v). (k, go_value je v)) ms)"
      unfolding map_of_go_map by (auto dest!: map_of_SomeD)
    then show ?thesis using JObj by (force simp: list_all_iff)
  qed
  then show ?case by (auto simp: sorted_go_map distinct_go_map list_all_iff)
qed simp_all

lemma go_value_canonical: "canonical je v \<Longrightarrow> go_value je v = v \<and> numbers_ok je v"
proof (induction v)
  case (JArr js)
  then show ?case by (auto simp: list_all_iff map_idI)
next
  case (JObj ms)
  then have "map (\<lambda>(k, v). (k, go_value je v)) ms = ms" by (intro map_idI) (force simp: list_all_iff)
  then show ?case using JObj by (force simp: list_all_iff go_map_same)
qed simp_all

lemma canonical_wf: "prints_numbers je \<Longrightarrow> canonical je v \<Longrightarrow> wf_json v"
  by (induction v) (force simp: prints_numbers_def list_all_iff)+

lemma decode_canonical:
  "prints_numbers je \<Longrightarrow> canonical je v \<Longrightarrow> decode_any je (encode v) = Inr v"
  using go_value_canonical [of je v] canonical_wf [of je v] by (simp add: decode_any_def parse_encode)

lemma decoded_canonical:
  "prints_numbers je \<Longrightarrow> decode_any je s = Inr v \<Longrightarrow> canonical je v"
  by (auto simp: decode_any_def canonical_go_value split: option.splits if_splits)

lemma decode_slimmed:
  assumes "prints_numbers je" "decode_any je s = Inr v"
  shows "decode_any je (SlimJSON je s) = Inr (slimValue v)" "SlimJSON je s = encode (slimValue v)"
  using assms by (simp_all add: SlimJSON_def decode_canonical canonical_slim decoded_canonical)

section \<open>The greatest number of elements\<close>

lemma bisect_greatest:
  assumes "lo \<le> hi" "\<forall>m n. 0 < m \<and> m \<le> n \<and> fits n \<longrightarrow> fits m" "lo = 0 \<or> fits lo"
  shows "bisect fits lo hi \<in> {lo..hi} \<and> (bisect fits lo hi = 0 \<or> fits (bisect fits lo hi))
     \<and> (\<forall>k. bisect fits lo hi < k \<and> k \<le> hi \<longrightarrow> \<not> fits k)"
  using assms
proof (induction fits lo hi rule: bisect.induct)
  case (1 fits lo hi)
  let ?mid = "(lo + hi + 1) div 2"
  show ?case
  proof (cases "lo < hi")
    case False
    then have "bisect fits lo hi = lo" by (simp add: bisect.simps)
    then show ?thesis using 1(3,5) False by auto
  next
    case True
    then have mid: "lo < ?mid" "?mid \<le> hi" by auto
    show ?thesis
    proof (cases "fits ?mid")
      case fit: True
      have "bisect fits lo hi = bisect fits ?mid hi"
        using True fit by (subst bisect.simps) (simp add: Let_def)
      moreover have "bisect fits ?mid hi \<in> {?mid..hi} \<and> (bisect fits ?mid hi = 0 \<or> fits (bisect fits ?mid hi))
          \<and> (\<forall>k. bisect fits ?mid hi < k \<and> k \<le> hi \<longrightarrow> \<not> fits k)"
        using 1(1) [OF True refl fit mid(2) 1(4)] fit by blast
      ultimately show ?thesis using mid by auto
    next
      case unfit: False
      have below: "lo \<le> ?mid - 1" using mid(1) by linarith
      have "bisect fits lo hi = bisect fits lo (?mid - 1)"
        using True unfit by (subst bisect.simps) (simp add: Let_def)
      moreover have "bisect fits lo (?mid - 1) \<in> {lo..?mid - 1}
          \<and> (bisect fits lo (?mid - 1) = 0 \<or> fits (bisect fits lo (?mid - 1)))
          \<and> (\<forall>k. bisect fits lo (?mid - 1) < k \<and> k \<le> ?mid - 1 \<longrightarrow> \<not> fits k)"
        using 1(2) [OF True refl unfit _ 1(4) 1(5)] below by blast
      moreover have "\<not> fits k" if "\<not> k \<le> ?mid - 1" for k
      proof -
        have "0 < ?mid" "?mid \<le> k" using that mid(1) by linarith+
        then show ?thesis using 1(4) unfit by blast
      qed
      ultimately show ?thesis using mid by (metis (no_types, lifting) atLeastAtMost_iff diff_le_self le_trans)
    qed
  qed
qed

lemma digits_of_mono: "m \<le> n \<Longrightarrow> length (digits_of m) \<le> length (digits_of n)"
proof (induction n arbitrary: m rule: digits_of.induct)
  case (1 n)
  show ?case
  proof (cases "m < 10")
    case True
    then have "length (digits_of m) = 1" by (subst digits_of.simps) simp
    then show ?thesis by (simp add: Suc_le_eq)
  next
    case False
    then have "length (digits_of (m div 10)) \<le> length (digits_of (n div 10))"
      using 1 by (intro 1(1)) (auto intro: div_le_mono)
    then show ?thesis using False 1(2) by (subst (1 2) digits_of.simps) simp
  qed
qed

definition plain_char :: "char \<Rightarrow> bool" where
  "plain_char c \<longleftrightarrow> esc_char c = [c] \<and> c \<noteq> CHR 0xE2"

lemma enc_body_plain: "list_all plain_char s \<Longrightarrow> enc_body s = s"
  by (induction s rule: enc_body.induct) (simp_all add: plain_char_def is_separator_def)

lemma plain_digits: "list_all plain_char (digits_of n)"
proof (induction n rule: digits_of.induct)
  case (1 n)
  have "plain_char (char_of (48 + k))" if "k < 10" for k :: nat
  proof -
    define c :: char where "c = char_of (48 + k)"
    have "of_char c = 48 + k" using that by (simp add: c_def take_bit_eq_mod)
    then have "c \<noteq> d" if "of_char d < (48 :: nat) \<or> 58 \<le> (of_char d :: nat)" for d
      using that \<open>k < 10\<close> by auto
    moreover have "\<not> of_char c < (32 :: nat)" using \<open>of_char c = 48 + k\<close> by simp
    ultimately show ?thesis unfolding c_def [symmetric] by (simp add: plain_char_def esc_char_def)
  qed
  then show ?case using 1 by (subst digits_of.simps) simp
qed

lemma note_text: "encode (shortened_note m items) =
  CHR 0x7B # CHR 0x22 # ''_truncated'' @ [CHR 0x22, CHR '':'', CHR 0x22] @ ''Showing '' @ digits_of m @ '' of '' @ digits_of items
    @ '' items (result exceeded size limit)'' @ [CHR 0x22, CHR 0x7D]"
proof -
  have "enc_body ''_truncated'' = ''_truncated''" by (intro enc_body_plain) (simp add: plain_char_def esc_char_def)
  moreover have "enc_body (''Showing '' @ digits_of m @ '' of '' @ digits_of items @ '' items (result exceeded size limit)'')
      = ''Showing '' @ digits_of m @ '' of '' @ digits_of items @ '' items (result exceeded size limit)''"
    using plain_digits by (intro enc_body_plain) (simp add: plain_char_def esc_char_def)
  ultimately show ?thesis by (simp add: shortened_note_def enc_string_def fmt_int_def)
qed

lemma note_mono: "m \<le> n \<Longrightarrow> length (encode (shortened_note m items)) \<le> length (encode (shortened_note n items))"
  using digits_of_mono [of m n] by (simp add: note_text)

lemma encode_array_length:
  "length (encode (JArr js)) = 2 + (\<Sum>j\<leftarrow>js. length (encode j)) + (length js - 1)"
proof -
  have "length (join_strings '','' xs) = (\<Sum>x\<leftarrow>xs. length x) + (length xs - 1)" for xs
    by (induction "'',''" xs rule: join_strings.induct) auto
  then show ?thesis by (simp add: o_def)
qed

lemma fits_shorter:
  assumes "0 < m" "m \<le> n" "tryMarshalArray (take n arr) items maxLen"
  shows "tryMarshalArray (take m arr) items maxLen"
proof -
  let ?l = "\<lambda>k. length (take k arr)" and ?s = "\<lambda>k. \<Sum>j\<leftarrow>take k arr. length (encode j)"
  have "take n arr = take m arr @ take (n - m) (drop m arr)"
    using assms(2) by (metis le_add_diff_inverse take_add)
  then have "?s m \<le> ?s n" by (metis le_add1 map_append sum_list_append)
  moreover have "?l m \<le> ?l n" using assms(2) by simp
  ultimately show ?thesis
    using assms(3) note_mono [of "?l m" "?l n" items] by (simp add: tryMarshalArray_def encode_array_length del: encode.simps)
qed

lemma elements_kept_greatest:
  "elements_kept arr maxLen \<le> length arr
   \<and> (elements_kept arr maxLen = 0 \<or> tryMarshalArray (take (elements_kept arr maxLen) arr) (length arr) maxLen)
   \<and> (\<forall>k. elements_kept arr maxLen < k \<and> k \<le> length arr \<longrightarrow> \<not> tryMarshalArray (take k arr) (length arr) maxLen)"
proof -
  let ?fits = "\<lambda>k. tryMarshalArray (take k arr) (length arr) maxLen"
  have "\<forall>m n. 0 < m \<and> m \<le> n \<and> ?fits n \<longrightarrow> ?fits m" using fits_shorter by blast
  from bisect_greatest [OF le0 this disjI1 [OF refl], of "length arr"] show ?thesis
    unfolding elements_kept_def atLeastAtMost_iff by blast
qed

text \<open>The whole of an array with a note is longer than the array.\<close>

lemma all_too_long:
  "maxLen < length (encode (JArr arr)) \<Longrightarrow> \<not> tryMarshalArray (take (length arr) arr) items maxLen"
  by (simp add: tryMarshalArray_def encode_array_length del: encode.simps)

lemma long_array_cut:
  assumes "maxLen < length (encode (JArr arr))"
  shows "elements_kept arr maxLen < length arr \<or> arr = []"
  using elements_kept_greatest [of arr maxLen] all_too_long [OF assms, of "length arr"]
  by (metis le_neq_implies_less length_0_conv)

text \<open>
  C30. A long array is cut between its elements: the longest start that fits with the note is kept,
  and the bytes are cut only when not even the note alone fits.
\<close>

theorem long_array_greatest:
  assumes "prints_numbers je" "decode_any je result = Inr (JArr arr)" "arr \<noteq> []"
    and "maxLen < length (SlimJSON je result)"
    and "length (encode (JArr [shortened_note 0 (length arr)])) \<le> maxLen"
  shows "\<exists>keep < length arr.
     TruncateResult je result maxLen
       = encode (JArr (take keep (map slimValue arr) @ [shortened_note keep (length arr)]))
     \<and> length (TruncateResult je result maxLen) \<le> maxLen
     \<and> (\<forall>k. keep < k \<and> k \<le> length arr \<longrightarrow>
          maxLen < length (encode (JArr (take k (map slimValue arr) @ [shortened_note k (length arr)]))))"
proof -
  let ?arr = "map slimValue arr" let ?keep = "elements_kept ?arr maxLen"
  let ?out = "encode (JArr (take ?keep ?arr @ [shortened_note ?keep (length arr)]))"
  have slim: "SlimJSON je result = encode (JArr ?arr)" "decode_any je (encode (JArr ?arr)) = Inr (JArr ?arr)"
    using decode_slimmed [OF assms(1,2)] by (simp_all del: encode.simps)
  have keep: "?keep < length arr" using long_array_cut [of maxLen ?arr] assms(3,4) slim(1) by simp
  have "tryMarshalArray (take ?keep ?arr) (length arr) maxLen"
    using elements_kept_greatest [of ?arr maxLen] assms(5) keep
    by (cases "?keep = 0") (simp_all add: tryMarshalArray_def)
  then have fits: "length ?out \<le> maxLen" using keep by (simp add: tryMarshalArray_def min_absorb2 del: encode.simps)
  then have "TruncateResult je result maxLen = ?out"
    using assms(3,4) slim keep
    by (simp add: TruncateResult_def truncateJSON_def truncateJSONArray_def Let_def del: encode.simps)
  moreover have "maxLen < length (encode (JArr (take k ?arr @ [shortened_note k (length arr)])))"
    if "?keep < k" "k \<le> length arr" for k
    using elements_kept_greatest [of ?arr maxLen] that
    by (simp add: tryMarshalArray_def min_absorb2 not_le del: encode.simps)
  ultimately show ?thesis using keep fits by metis
qed

section \<open>The bound of the results\<close>

text \<open>
  A result is within the limit, or its bytes are cut at a rune and a notice follows: then it can be
  longer than the limit by the length of the notice.
\<close>

lemma results_bounded:
  "length (TruncateResult je result maxLen) \<le> maxLen
   \<or> (\<exists>c \<le> maxLen. TruncateResult je result maxLen
          = take c (SlimJSON je result) @ cut_notice (length (SlimJSON je result))
        \<and> (c = 0 \<or> rune_start (SlimJSON je result ! c)))"
proof -
  have "length s \<le> maxLen" if "truncateJSON je r maxLen = Some s" for r s
    using that by (auto simp: truncateJSON_def truncateJSONArray_def truncateJSONObject_def Let_def
        split: sum.splits json.splits if_splits)
  then show ?thesis
    using rune_cut_le [of "SlimJSON je result" maxLen] rune_cut_boundary [of "SlimJSON je result" maxLen]
    by (auto simp: TruncateResult_def Let_def split: option.split)
qed

definition plain_numbers :: json_env where
  "plain_numbers = \<lparr>je_number = (\<lambda>n. if valid_number n \<and> list_all number_char n then Some n else None),
     je_error = (\<lambda>s. ''invalid'')\<rparr>"

lemma plain_prints: "prints_numbers plain_numbers"
  by (simp add: prints_numbers_def plain_numbers_def)

lemma longer_than_the_limit:
  "TruncateResult plain_numbers ''no json here'' 2
     = ''no'' @ CHR 0x0A # ''...[truncated, 12 total bytes]''"
  by code_simp

text \<open>
  The share of an array in an object is the whole limit, so an array that is cut usually leaves no
  room for the braces and the key of its object, and the object falls back to the cut of its bytes,
  although a shorter array would have fitted.
\<close>

lemma object_left_no_room:
  defines "arr \<equiv> replicate 24 (JNum ''1'')"
  shows "truncateJSONObject [(''items'', JArr arr)] 110 = None
    \<and> length (encode (JObj [(''items'', JArr (take 10 arr @ [shortened_note 10 24]))])) \<le> 110"
  unfolding arr_def by code_simp

lemma slim_dropped:
  "slim_member p k v = Dropped \<Longrightarrow> v = JNull \<or> k = ''node_id'' \<or> k = ''gravatar_id''
     \<or> (\<exists>s. v = JStr s \<and> (has_suffix k ''_url'' \<or> has_prefix s ''http'' \<or> 500 < length s \<and> isOpaqueBlob s))"
proof (cases v)
  case (JStr s)
  have "has_prefix s ''http''" if "has_prefix s ''https://api.''"
    using that by (auto simp: has_prefix_def prefix_def)
  moreover assume "slim_member p k v = Dropped"
  ultimately show ?thesis using JStr by (auto simp: slim_member_def droppable_text_def split: if_splits)
qed (auto simp: slim_member_def split: if_splits)

lemma slim_kept:
  "slim_member p k v \<noteq> Dropped \<Longrightarrow> v \<noteq> JNull \<and> (slim_member p k v = Verbatim \<longrightarrow> k = ''html_url'' \<and> p)"
  by (cases v) (auto simp: slim_member_def split: if_splits)

text \<open>
  Slimming an object drops only null members, two members known to be useless, and strings that
  are links or blobs; every other member stays under its key with its value slimmed (or as it was),
  and arrays keep their lengths.
\<close>

theorem slimming_loses_only:
  assumes "prints_numbers je" "decode_any je result = Inr (JObj obj)"
  shows "\<exists>obj'. decode_any je (SlimJSON je result) = Inr (JObj obj')
    \<and> (\<forall>k v. map_of obj k = Some v \<longrightarrow>
         (case map_of obj' k of
            Some w \<Rightarrow> v \<noteq> JNull \<and> (w = slimValue v \<or> w = v \<and> k = ''html_url'' \<and> hasAnyKey obj primary_keys)
          | None \<Rightarrow> v = JNull \<or> k = ''node_id'' \<or> k = ''gravatar_id''
               \<or> (\<exists>s. v = JStr s \<and> (has_suffix k ''_url'' \<or> has_prefix s ''http'' \<or> 500 < length s \<and> isOpaqueBlob s))))
    \<and> (\<forall>k. map_of obj k = None \<longrightarrow> map_of obj' k = None)"
proof -
  let ?p = "hasAnyKey obj primary_keys" let ?obj = "slimObject ?p obj"
  have can: "canonical je (JObj obj)" using decoded_canonical [OF assms] .
  then have d: "distinct (map fst obj)" "distinct (map fst ?obj)" using slimObject_ordered by auto
  have "decode_any je (SlimJSON je result) = Inr (JObj ?obj)" using decode_slimmed [OF assms] by simp
  moreover have "case map_of ?obj k of
      Some w \<Rightarrow> v \<noteq> JNull \<and> (w = slimValue v \<or> w = v \<and> k = ''html_url'' \<and> ?p)
    | None \<Rightarrow> v = JNull \<or> k = ''node_id'' \<or> k = ''gravatar_id''
         \<or> (\<exists>s. v = JStr s \<and> (has_suffix k ''_url'' \<or> has_prefix s ''http'' \<or> 500 < length s \<and> isOpaqueBlob s))"
    if kv: "map_of obj k = Some v" for k v
  proof (cases "map_of ?obj k")
    case None
    then have "(k, w) \<notin> set ?obj" for w by (force simp: map_of_eq_None_iff)
    then have "slim_member ?p k v = Dropped"
      using map_of_SomeD [OF kv] by (cases "slim_member ?p k v") (auto simp: in_slimObject)
    then show ?thesis using None slim_dropped by simp
  next
    case (Some w)
    then obtain v' where v': "(k, v') \<in> set obj" and w:
        "slim_member ?p k v' = Verbatim \<and> w = v' \<or> slim_member ?p k v' = Slimmed \<and> w = slimValue v'"
      using map_of_SomeD [OF Some] by (auto simp: in_slimObject)
    have "v' = v" using v' kv d(1) by simp
    then show ?thesis using Some w slim_kept [of ?p k v] by auto
  qed
  moreover have "map_of ?obj k = None" if "map_of obj k = None" for k
    using that slimObject_keys [of k ?p obj] by (metis map_of_eq_None_iff)
  ultimately show ?thesis by blast
qed

definition sample_object :: string where
  "sample_object = CHR 0x7B # CHR 0x22 # ''id'' @ CHR 0x22 # '':7'' @ [CHR 0x7D]"

lemma sample_object_decoded: "decode_any plain_numbers sample_object = Inr (JObj [(''id'', JNum ''7'')])"
  by code_simp

lemma slimming_loses_only_witness:
  "\<exists>obj' w. decode_any plain_numbers (SlimJSON plain_numbers sample_object) = Inr (JObj obj')
     \<and> map_of obj' ''id'' = Some w"
proof -
  obtain obj' where o: "decode_any plain_numbers (SlimJSON plain_numbers sample_object) = Inr (JObj obj')"
    and kept: "\<forall>k v. map_of [(''id'', JNum ''7'')] k = Some v \<longrightarrow>
         (case map_of obj' k of
            Some w \<Rightarrow> v \<noteq> JNull \<and> (w = slimValue v \<or> w = v \<and> k = ''html_url''
              \<and> hasAnyKey [(''id'', JNum ''7'')] primary_keys)
          | None \<Rightarrow> v = JNull \<or> k = ''node_id'' \<or> k = ''gravatar_id''
               \<or> (\<exists>s. v = JStr s \<and> (has_suffix k ''_url'' \<or> has_prefix s ''http'' \<or> 500 < length s \<and> isOpaqueBlob s)))"
    using slimming_loses_only [OF plain_prints sample_object_decoded] by blast
  have "map_of obj' ''id'' \<noteq> None" using kept [rule_format, of "''id''" "JNum ''7''"] by (auto split: option.splits)
  then show ?thesis using o by auto
qed

lemma long_array_greatest_witness:
  "\<exists>keep < 40. TruncateResult plain_numbers (encode (JArr (replicate 40 (JNum ''12'')))) 90
     = encode (JArr (take keep (map slimValue (replicate 40 (JNum ''12''))) @ [shortened_note keep 40]))"
proof -
  have "decode_any plain_numbers (encode (JArr (replicate 40 (JNum ''12'')))) = Inr (JArr (replicate 40 (JNum ''12'')))"
    by code_simp
  moreover have "90 < length (SlimJSON plain_numbers (encode (JArr (replicate 40 (JNum ''12'')))))" by code_simp
  moreover have "length (encode (JArr [shortened_note 0 (length (replicate 40 (JNum ''12'')))])) \<le> 90" by code_simp
  ultimately show ?thesis
    using long_array_greatest [OF plain_prints, of _ "replicate 40 (JNum ''12'')" 90] by force
qed

end
