(* ===== verification/Resolver.thy ===== *)
theory Resolver
  imports Throttle LlmModels
begin

text \<open>
  Context windows (\<open>internal/contextwindow/resolver.go\<close>): a cache of the lengths providers report and
  of the answers of the models.dev catalogue, filled by background fetches that a lookup starts and
  does not wait for. Times are nanoseconds since Go's zero time, which is 0; the clock is far above
  the times to live. A nil resolver answers 0 and has no state.
\<close>

section \<open>State\<close>

definition second :: int where "second = 1000000000"

definition modelListTTL :: int where "modelListTTL = 60 * second"
definition errorTTL :: int where "errorTTL = 15 * second"
definition catalogTTL :: int where "catalogTTL = 3600 * second"
definition catalogMissTTL :: int where "catalogMissTTL = 60 * second"

record provider_cache =
  pch_windows :: "string \<rightharpoonup> int"
  pch_fetchedAt :: int
  pch_failedAt :: int

record catalog_entry =
  cte_window :: int
  cte_found :: bool
  cte_checkedAt :: int

record resolver =
  rs_reported :: "string \<rightharpoonup> provider_cache"
  rs_catalogHits :: "string \<rightharpoonup> catalog_entry"
  rs_inflight :: "string set"

text \<open>Which of the optional dependencies are there, and the length a listed model has.\<close>

record resolver_deps =
  rd_providers :: bool
  rd_catalog :: bool
  rd_ContextLength :: "model_info \<Rightarrow> int"

definition NewResolver :: resolver where
  "NewResolver = \<lparr>rs_reported = Map.empty, rs_catalogHits = Map.empty, rs_inflight = {}\<rparr>"

text \<open>The background work: the list of a provider, or the catalogue's answer for a model.\<close>

datatype fetch = Models_fetch string | Catalog_lookup string string string

fun fetch_key :: "fetch \<Rightarrow> string" where
  "fetch_key (Models_fetch key) = ''models:'' @ key"
| "fetch_key (Catalog_lookup ck key modelID) = ''catalog:'' @ ck"

section \<open>Operations\<close>

text \<open>A key is taken before a display name; of equal names the first.\<close>

definition lookupConfig :: "provider_config list option \<Rightarrow> string \<Rightarrow> string \<times> provider_config option" where
  "lookupConfig configs providerName =
     (case configs of
        None \<Rightarrow> (providerName, None)
      | Some cfgs \<Rightarrow>
          (case find (\<lambda>cfg. config_key cfg = providerName) cfgs of
             Some cfg \<Rightarrow> (providerName, Some cfg)
           | None \<Rightarrow>
               (case find (\<lambda>cfg. pc_name cfg = providerName) cfgs of
                  Some cfg \<Rightarrow> (config_key cfg, Some cfg)
                | None \<Rightarrow> (providerName, None))))"

definition spawnLocked :: "fetch \<Rightarrow> resolver \<Rightarrow> resolver \<times> fetch list" where
  "spawnLocked f r =
     (if fetch_key f \<in> rs_inflight r then (r, [])
      else (r\<lparr>rs_inflight := insert (fetch_key f) (rs_inflight r)\<rparr>, [f]))"

definition models_stale :: "int \<Rightarrow> provider_cache option \<Rightarrow> bool" where
  "models_stale now entry =
     (case entry of
        None \<Rightarrow> True
      | Some e \<Rightarrow> modelListTTL \<le> now - pch_fetchedAt e \<and> errorTTL \<le> now - pch_failedAt e)"

definition catalog_stale :: "int \<Rightarrow> catalog_entry option \<Rightarrow> bool" where
  "catalog_stale now entry =
     (case entry of
        None \<Rightarrow> True
      | Some e \<Rightarrow> if cte_found e then catalogTTL \<le> now - cte_checkedAt e
                  else \<not> now - cte_checkedAt e < catalogMissTTL)"

definition catalog_key :: "string \<Rightarrow> string \<Rightarrow> string" where
  "catalog_key key modelID = key @ CHR 0x00 # modelID"

definition resolved :: "int \<Rightarrow> provider_config option \<Rightarrow> catalog_entry option \<Rightarrow> int" where
  "resolved reportedW cfg catalog =
     (if 0 < reportedW then reportedW
      else if (case cfg of None \<Rightarrow> False | Some c \<Rightarrow> 0 < pc_context_window c) then pc_context_window (the cfg)
      else case catalog of None \<Rightarrow> 0 | Some e \<Rightarrow> if cte_found e then cte_window e else 0)"

definition reported_window :: "resolver \<Rightarrow> string \<Rightarrow> string \<Rightarrow> int" where
  "reported_window r key modelID =
     (case rs_reported r key of
        None \<Rightarrow> 0
      | Some e \<Rightarrow> (case pch_windows e modelID of None \<Rightarrow> 0 | Some w \<Rightarrow> w))"

text \<open>The window, the resolver and the goroutines started.\<close>

definition Window :: "resolver_deps \<Rightarrow> provider_config list option \<Rightarrow> int \<Rightarrow> string \<Rightarrow> string \<Rightarrow> resolver
    \<Rightarrow> int \<times> resolver \<times> fetch list" where
  "Window deps configs now providerName modelID r =
     (if modelID = [] then (0, r, [])
      else case lookupConfig configs providerName of
        (key, cfg) \<Rightarrow>
          (let reportedW = reported_window r key modelID;
               (r1, started1) =
                 (if models_stale now (rs_reported r key) \<and> rd_providers deps
                  then spawnLocked (Models_fetch key) r else (r, []));
               ck = catalog_key key modelID;
               entry = (if rd_catalog deps then rs_catalogHits r1 ck else None);
               (r2, started2) =
                 (if rd_catalog deps \<and> catalog_stale now entry
                  then spawnLocked (Catalog_lookup ck key modelID) r1 else (r1, []))
           in (resolved reportedW cfg entry, r2, started1 @ started2)))"

definition windows_of :: "resolver_deps \<Rightarrow> model_info list \<Rightarrow> string \<rightharpoonup> int" where
  "windows_of deps models = foldl (\<lambda>w m. w(mi_ID m \<mapsto> rd_ContextLength deps m)) Map.empty models"

definition store_models :: "resolver_deps \<Rightarrow> string \<Rightarrow> model_info list \<Rightarrow> int \<Rightarrow> resolver \<Rightarrow> resolver" where
  "store_models deps key models now r =
     r\<lparr>rs_reported := (rs_reported r)(key \<mapsto>
         \<lparr>pch_windows = windows_of deps models, pch_fetchedAt = now, pch_failedAt = 0\<rparr>)\<rparr>"

definition ObserveModels :: "resolver_deps \<Rightarrow> string \<Rightarrow> model_info list \<Rightarrow> int \<Rightarrow> resolver \<Rightarrow> resolver" where
  "ObserveModels deps providerKey models now r =
     (if providerKey = [] then r else store_models deps providerKey models now r)"

text \<open>What a fetch stores once the provider has answered; without a list the provider is unknown or failed.\<close>

definition fetchModels :: "resolver_deps \<Rightarrow> string \<Rightarrow> model_info list option \<Rightarrow> int \<Rightarrow> resolver \<Rightarrow> resolver" where
  "fetchModels deps key answer now r =
     (case answer of
        None \<Rightarrow>
          (let entry = (case rs_reported r key of
                          None \<Rightarrow> \<lparr>pch_windows = Map.empty, pch_fetchedAt = 0, pch_failedAt = 0\<rparr>
                        | Some e \<Rightarrow> e)
           in r\<lparr>rs_reported := (rs_reported r)(key \<mapsto> entry\<lparr>pch_failedAt := now\<rparr>)\<rparr>)
      | Some models \<Rightarrow> store_models deps key models now r)"

definition lookupCatalog :: "string \<Rightarrow> int \<times> bool \<Rightarrow> int \<Rightarrow> resolver \<Rightarrow> resolver" where
  "lookupCatalog ck answer now r =
     (case answer of (w, found) \<Rightarrow>
        r\<lparr>rs_catalogHits := (rs_catalogHits r)(ck \<mapsto>
            \<lparr>cte_window = w, cte_found = found, cte_checkedAt = now\<rparr>)\<rparr>)"

definition release_flight :: "fetch \<Rightarrow> resolver \<Rightarrow> resolver" where
  "release_flight f r = r\<lparr>rs_inflight := rs_inflight r - {fetch_key f}\<rparr>"

section \<open>Interleavings\<close>

text \<open>
  A goroutine asks its source, stores the answer and then gives up its key; a lookup may have read the
  clock before it got the lock. The log, the latest entry first, tells when fetches were started
  and when their answers were stored.
\<close>

datatype goroutine = Fetching fetch | Releasing fetch

fun goroutine_fetch :: "goroutine \<Rightarrow> fetch" where
  "goroutine_fetch (Fetching f) = f"
| "goroutine_fetch (Releasing f) = f"

datatype resolver_event = Launched fetch | Stored fetch

record resolver_sys =
  rsys_resolver :: resolver
  rsys_running :: "goroutine list"
  rsys_clock :: int
  rsys_log :: "(int \<times> resolver_event) list"

definition resolver_start :: "int \<Rightarrow> resolver_sys" where
  "resolver_start now =
     \<lparr>rsys_resolver = NewResolver, rsys_running = [], rsys_clock = now, rsys_log = []\<rparr>"

inductive resolver_step :: "resolver_deps \<Rightarrow> resolver_sys \<Rightarrow> resolver_sys \<Rightarrow> bool" for deps where
  tick: "rsys_clock s \<le> t \<Longrightarrow> resolver_step deps s (s\<lparr>rsys_clock := t\<rparr>)"
| look_up: "t \<le> rsys_clock s \<Longrightarrow> Window deps configs t providerName modelID (rsys_resolver s) = (w, r', started)
    \<Longrightarrow> resolver_step deps s (s\<lparr>rsys_resolver := r', rsys_running := map Fetching started @ rsys_running s,
          rsys_log := map (\<lambda>f. (t, Launched f)) (rev started) @ rsys_log s\<rparr>)"
| observe: "resolver_step deps s
    (s\<lparr>rsys_resolver := ObserveModels deps key models (rsys_clock s) (rsys_resolver s)\<rparr>)"
| store_list: "rsys_running s = gs @ Fetching (Models_fetch key) # gs'
    \<Longrightarrow> resolver_step deps s (s\<lparr>rsys_resolver := fetchModels deps key answer (rsys_clock s) (rsys_resolver s),
          rsys_running := gs @ Releasing (Models_fetch key) # gs',
          rsys_log := (rsys_clock s, Stored (Models_fetch key)) # rsys_log s\<rparr>)"
| store_entry: "rsys_running s = gs @ Fetching (Catalog_lookup ck key modelID) # gs'
    \<Longrightarrow> resolver_step deps s (s\<lparr>rsys_resolver := lookupCatalog ck hit (rsys_clock s) (rsys_resolver s),
          rsys_running := gs @ Releasing (Catalog_lookup ck key modelID) # gs',
          rsys_log := (rsys_clock s, Stored (Catalog_lookup ck key modelID)) # rsys_log s\<rparr>)"
| release_key: "rsys_running s = gs @ Releasing f # gs'
    \<Longrightarrow> resolver_step deps s (s\<lparr>rsys_resolver := release_flight f (rsys_resolver s), rsys_running := gs @ gs'\<rparr>)"

definition resolver_reachable :: "resolver_deps \<Rightarrow> resolver_sys \<Rightarrow> bool" where
  "resolver_reachable deps s \<longleftrightarrow> (\<exists>now. (resolver_step deps)\<^sup>*\<^sup>* (resolver_start now) s)"

section \<open>Lookups\<close>

definition running_keys :: "resolver_sys \<Rightarrow> string list" where
  "running_keys s = map (\<lambda>g. fetch_key (goroutine_fetch g)) (rsys_running s)"

text \<open>What a lookup starts is new, and is all that changes.\<close>

lemma Window_started:
  assumes "Window deps configs t name m r = (w, r', started)"
  shows "distinct (map fetch_key started)" "\<forall>f \<in> set started. fetch_key f \<notin> rs_inflight r"
    and "rs_inflight r' = fetch_key ` set started \<union> rs_inflight r"
    and "rs_reported r' = rs_reported r" "rs_catalogHits r' = rs_catalogHits r"
    and "Models_fetch key \<in> set started \<Longrightarrow> models_stale t (rs_reported r key)"
  using assms
  by (auto simp: Window_def spawnLocked_def Let_def split: if_splits prod.splits)

lemma Window_shape:
  assumes "Window deps configs t name m r = (w, r', started)"
  obtains (none) "started = []" | (list) k where "started = [Models_fetch k]"
    | (entry) ck k m' where "started = [Catalog_lookup ck k m']"
    | (both) k ck k' m' where "started = [Models_fetch k, Catalog_lookup ck k' m']"
  using assms that by (auto simp: Window_def spawnLocked_def Let_def split: if_splits prod.splits)

lemma fetchModels_keeps [simp]: "rs_inflight (fetchModels deps key answer now r) = rs_inflight r"
  by (simp add: fetchModels_def store_models_def Let_def split: option.split)

lemma lookupCatalog_keeps [simp]:
  "rs_inflight (lookupCatalog ck hit now r) = rs_inflight r" "rs_reported (lookupCatalog ck hit now r) = rs_reported r"
  by (simp_all add: lookupCatalog_def split: prod.split)

lemma ObserveModels_keeps [simp]: "rs_inflight (ObserveModels deps key models now r) = rs_inflight r"
  by (simp add: ObserveModels_def store_models_def)

lemma release_keeps [simp]:
  "rs_inflight (release_flight f r) = rs_inflight r - {fetch_key f}" "rs_reported (release_flight f r) = rs_reported r"
  by (simp_all add: release_flight_def)

text \<open>The keys in flight are those of the goroutines, one for each.\<close>

definition flights_ok :: "resolver_sys \<Rightarrow> bool" where
  "flights_ok s \<longleftrightarrow> distinct (running_keys s) \<and> rs_inflight (rsys_resolver s) = set (running_keys s)"

lemma flights_step:
  assumes "resolver_step deps s s'" "flights_ok s"
  shows "flights_ok s'"
  using assms
proof (cases rule: resolver_step.cases)
  case (look_up t configs name m w r' started)
  note W = Window_started [OF look_up(3)]
  then show ?thesis using assms(2) W(1,2,3) look_up(1)
    by (auto simp: flights_ok_def running_keys_def image_image comp_def)
qed (auto simp: flights_ok_def running_keys_def)

section \<open>How often a provider is asked\<close>

text \<open>Times that the entry of a key shows: no lookup before the time to live starts a fetch.\<close>

definition shows_time :: "resolver \<Rightarrow> string \<Rightarrow> int \<Rightarrow> bool" where
  "shows_time r key c \<longleftrightarrow>
     (case rs_reported r key of None \<Rightarrow> False | Some e \<Rightarrow> c \<le> pch_fetchedAt e \<or> c \<le> pch_failedAt e)"

lemma shown_is_fresh: "shows_time r key c \<Longrightarrow> models_stale t (rs_reported r key) \<Longrightarrow> c + errorTTL \<le> t"
  by (auto simp: shows_time_def models_stale_def modelListTTL_def errorTTL_def second_def split: option.splits)

lemma store_shows:
  "shows_time (fetchModels deps key answer now r) key now"
  "shows_time r key' c \<Longrightarrow> c \<le> now \<Longrightarrow> shows_time (fetchModels deps key answer now r) key' c"
  "shows_time r key' c \<Longrightarrow> c \<le> now \<Longrightarrow> shows_time (ObserveModels deps key models now r) key' c"
  by (auto simp: shows_time_def fetchModels_def ObserveModels_def store_models_def Let_def split: option.splits)

text \<open>The part of the log after the last start of a provider's fetch.\<close>

definition since_launch :: "string \<Rightarrow> (int \<times> resolver_event) list \<Rightarrow> (int \<times> resolver_event) list" where
  "since_launch key evs = takeWhile (\<lambda>e. snd e \<noteq> Launched (Models_fetch key)) evs"

definition spaced :: "string \<Rightarrow> (int \<times> resolver_event) list \<Rightarrow> bool" where
  "spaced key evs \<longleftrightarrow>
     (\<forall>later between earlier t t'.
        evs = later @ (t', Launched (Models_fetch key)) # between @ (t, Launched (Models_fetch key)) # earlier
        \<longrightarrow> (\<exists>c. (c, Stored (Models_fetch key)) \<in> set between \<and> c + errorTTL \<le> t'))"

lemma spaced_other: "snd e \<noteq> Launched (Models_fetch key) \<Longrightarrow> spaced key evs \<Longrightarrow> spaced key (e # evs)"
  by (fastforce simp: spaced_def Cons_eq_append_conv)

lemma spaced_launch:
  assumes "spaced key evs"
    and "Launched (Models_fetch key) \<in> snd ` set evs \<Longrightarrow>
      \<exists>c. (c, Stored (Models_fetch key)) \<in> set (since_launch key evs) \<and> c + errorTTL \<le> t'"
  shows "spaced key ((t', Launched (Models_fetch key)) # evs)"
  unfolding spaced_def
proof (intro allI impI)
  fix later between earlier t u
  assume split: "(t', Launched (Models_fetch key)) # evs
    = later @ (u, Launched (Models_fetch key)) # between @ (t, Launched (Models_fetch key)) # earlier"
  show "\<exists>c. (c, Stored (Models_fetch key)) \<in> set between \<and> c + errorTTL \<le> u"
  proof (cases later)
    case Nil
    then have evs: "evs = between @ (t, Launched (Models_fetch key)) # earlier" "u = t'" using split by auto
    then obtain c where c: "(c, Stored (Models_fetch key)) \<in> set (since_launch key evs)" "c + errorTTL \<le> t'"
      using assms(2) by force
    have "set (since_launch key evs) \<subseteq> set between"
      unfolding evs since_launch_def by (induction between) auto
    then show ?thesis using c evs(2) by auto
  next
    case (Cons e later')
    then show ?thesis using split assms(1) unfolding spaced_def by auto
  qed
qed

text \<open>
  Every provider was asked before only with a fetch that still runs or that has stored its answer
  since, at a time its entry shows.
\<close>

definition provider_answered :: "resolver_sys \<Rightarrow> string \<Rightarrow> bool" where
  "provider_answered s key \<longleftrightarrow>
     Launched (Models_fetch key) \<in> snd ` set (rsys_log s) \<longrightarrow>
       Fetching (Models_fetch key) \<in> set (rsys_running s)
       \<or> (\<exists>c. (c, Stored (Models_fetch key)) \<in> set (since_launch key (rsys_log s))
            \<and> c \<le> rsys_clock s \<and> shows_time (rsys_resolver s) key c)"

definition log_ok :: "resolver_sys \<Rightarrow> bool" where
  "log_ok s \<longleftrightarrow> flights_ok s \<and> (\<forall>key. provider_answered s key \<and> spaced key (rsys_log s))"

lemma log_step:
  assumes "resolver_step deps s s'" "log_ok s"
  shows "log_ok s'"
proof -
  have fl: "flights_ok s'" using flights_step assms unfolding log_ok_def by blast
  have old: "provider_answered s key" "spaced key (rsys_log s)" for key using assms(2) by (auto simp: log_ok_def)
  have "provider_answered s' key \<and> spaced key (rsys_log s')" for key
    using assms(1)
  proof (cases rule: resolver_step.cases)
    case (tick t)
    then show ?thesis using old [of key] by (force simp: provider_answered_def)
  next
    case (look_up t configs name m w r' started)
    note W = Window_started [OF look_up(3)]
    have sh: "shows_time r' k c = shows_time (rsys_resolver s) k c" for k c
      by (simp add: shows_time_def W(4))
    have same: ?thesis if "Models_fetch key \<notin> set started"
      using old [of key] that look_up(1) sh
      by (cases rule: Window_shape [OF look_up(3)]) (auto simp: provider_answered_def since_launch_def intro!: spaced_other)
    have new: ?thesis if "Models_fetch key \<in> set started"
    proof -
      have "fetch_key (Models_fetch key) \<notin> set (running_keys s)"
        using W(2) that assms(2) by (auto simp: log_ok_def flights_ok_def)
      then have "Fetching (Models_fetch key) \<notin> set (rsys_running s)" by (force simp: running_keys_def)
      then have "spaced key ((t, Launched (Models_fetch key)) # rsys_log s)"
        using old [of key] shown_is_fresh W(6) [OF that] by (intro spaced_launch) (auto simp: provider_answered_def)
      then show ?thesis using that look_up(1)
        by (cases rule: Window_shape [OF look_up(3)]) (auto simp: provider_answered_def intro!: spaced_other)
    qed
    from same new show ?thesis by blast
  next
    case (observe key' models)
    then show ?thesis using old [of key] store_shows(3) by (fastforce simp: provider_answered_def)
  next
    case (store_list gs key' gs' answer)
    show ?thesis
    proof (cases "key' = key")
      case True
      then show ?thesis using old [of key] store_list store_shows(1)
        by (auto simp: provider_answered_def since_launch_def intro!: spaced_other)
    next
      case False
      then show ?thesis using old [of key] store_list store_shows(2)
        by (fastforce simp: provider_answered_def since_launch_def intro!: spaced_other)
    qed
  next
    case (store_entry gs ck key' m gs' hit)
    then show ?thesis using old [of key]
      by (auto simp: provider_answered_def since_launch_def shows_time_def intro!: spaced_other)
  next
    case (release_key gs f gs')
    then show ?thesis using old [of key] by (auto simp: provider_answered_def shows_time_def)
  qed
  then show ?thesis using fl by (simp add: log_ok_def)
qed

lemma log_reachable:
  assumes "resolver_reachable deps s"
  shows "log_ok s"
proof -
  obtain now where "(resolver_step deps)\<^sup>*\<^sup>* (resolver_start now) s"
    using assms by (auto simp: resolver_reachable_def)
  then show ?thesis
  proof (induction rule: rtranclp_induct)
    case base
    show ?case
      by (simp add: log_ok_def flights_ok_def provider_answered_def spaced_def resolver_start_def running_keys_def NewResolver_def)
  qed (rule log_step)
qed

text \<open>
  C18. However lookups, fetches and observed lists interleave, at most one fetch runs for a provider
  and for a model, and between two fetches of a provider's list the answer of the first is stored,
  and at least the time to live of a failure passes.
\<close>

theorem fetches_spaced:
  assumes "resolver_reachable deps s"
  shows "distinct (map (\<lambda>g. fetch_key (goroutine_fetch g)) (rsys_running s))
    \<and> (\<forall>later between earlier t t'.
        rsys_log s = later @ (t', Launched (Models_fetch key)) # between @ (t, Launched (Models_fetch key)) # earlier
        \<longrightarrow> (\<exists>c. (c, Stored (Models_fetch key)) \<in> set between \<and> c + errorTTL \<le> t'))"
  using log_reachable [OF assms] by (simp add: log_ok_def flights_ok_def running_keys_def spaced_def)

section \<open>What a lookup answers\<close>

text \<open>
  A length the provider reports is the answer of the next lookup, by the key of the provider or by a
  display name that is not a key itself.
\<close>

lemma reported_wins:
  assumes "windows_of deps models m = Some w" "0 < w" "m \<noteq> []" "fst (lookupConfig configs name) = key"
  shows "fst (Window deps configs t name m (fetchModels deps key (Some models) now r)) = w"
  using assms by (auto simp: Window_def fetchModels_def store_models_def reported_window_def resolved_def Let_def
      split: prod.splits)

lemma display_name_resolves:
  assumes "find (\<lambda>cfg. config_key cfg = name) cfgs = None" "find (\<lambda>cfg. pc_name cfg = name) cfgs = Some cfg"
    and "find (\<lambda>c. config_key c = config_key cfg) cfgs = Some cfg"
  shows "Window deps (Some cfgs) t name m r = Window deps (Some cfgs) t (config_key cfg) m r"
  using assms by (simp add: Window_def lookupConfig_def)

text \<open>A fetch that fails leaves every answer as it was.\<close>

lemma failure_keeps_serving:
  "fst (Window deps configs t name m (fetchModels deps key None now r)) = fst (Window deps configs t name m r)"
proof -
  have "reported_window (fetchModels deps key None now r) k m = reported_window r k m" for k
    by (simp add: reported_window_def fetchModels_def Let_def split: option.split)
  moreover have "rs_catalogHits (fetchModels deps key None now r) = rs_catalogHits r"
    by (simp add: fetchModels_def Let_def split: option.split)
  moreover have "rs_catalogHits (fst (spawnLocked f x)) = rs_catalogHits x" for f x
    by (simp add: spawnLocked_def)
  ultimately show ?thesis
    by (auto simp: Window_def Let_def spawnLocked_def split: prod.splits if_splits)
qed

section \<open>A run with two fetches\<close>

definition sample_deps :: resolver_deps where
  "sample_deps = \<lparr>rd_providers = True, rd_catalog = False, rd_ContextLength = (\<lambda>m. 0)\<rparr>"

definition sample_begin :: int where "sample_begin = 1000000 * second"

definition sample_lookup :: "resolver_sys \<Rightarrow> resolver_sys" where
  "sample_lookup s =
     (case Window sample_deps None (rsys_clock s) ''p'' ''m'' (rsys_resolver s) of
        (w, r', started) \<Rightarrow>
          s\<lparr>rsys_resolver := r', rsys_running := map Fetching started @ rsys_running s,
            rsys_log := map (\<lambda>f. (rsys_clock s, Launched f)) (rev started) @ rsys_log s\<rparr>)"

lemma sample_lookup_step: "resolver_step sample_deps s (sample_lookup s)"
  by (cases "Window sample_deps None (rsys_clock s) ''p'' ''m'' (rsys_resolver s)")
     (auto simp: sample_lookup_def intro: look_up)

lemma sample_started:
  assumes "rsys_running s = []" "''models:p'' \<notin> rs_inflight (rsys_resolver s)"
    and "models_stale (rsys_clock s) (rs_reported (rsys_resolver s) ''p'')"
  shows "sample_lookup s = s\<lparr>rsys_resolver := (rsys_resolver s)\<lparr>rs_inflight := insert ''models:p'' (rs_inflight (rsys_resolver s))\<rparr>,
    rsys_running := [Fetching (Models_fetch ''p'')],
    rsys_log := (rsys_clock s, Launched (Models_fetch ''p'')) # rsys_log s\<rparr>"
  using assms by (simp add: sample_lookup_def Window_def sample_deps_def lookupConfig_def spawnLocked_def)

lemma fetches_spaced_witness:
  "\<exists>s c. resolver_reachable sample_deps s
     \<and> rsys_log s = [(sample_begin + errorTTL, Launched (Models_fetch ''p'')), (sample_begin, Stored (Models_fetch ''p'')),
                     (sample_begin, Launched (Models_fetch ''p''))]
     \<and> (c, Stored (Models_fetch ''p'')) \<in> set [(sample_begin, Stored (Models_fetch ''p''))]
     \<and> c + errorTTL \<le> sample_begin + errorTTL"
proof -
  let ?f = "Models_fetch ''p''"
  define s1 where "s1 = sample_lookup (resolver_start sample_begin)"
  define r2 where "r2 = fetchModels sample_deps ''p'' None sample_begin (rsys_resolver s1)"
  define s2 where "s2 = s1\<lparr>rsys_resolver := r2, rsys_running := [Releasing ?f], rsys_log := (sample_begin, Stored ?f) # rsys_log s1\<rparr>"
  define s3 where "s3 = s2\<lparr>rsys_resolver := release_flight ?f r2, rsys_running := []\<rparr>"
  define s4 where "s4 = s3\<lparr>rsys_clock := sample_begin + errorTTL\<rparr>"
  have one: "s1 = \<lparr>rsys_resolver = NewResolver\<lparr>rs_inflight := {''models:p''}\<rparr>, rsys_running = [Fetching ?f],
      rsys_clock = sample_begin, rsys_log = [(sample_begin, Launched ?f)]\<rparr>"
    unfolding s1_def by (subst sample_started) (simp_all add: resolver_start_def NewResolver_def models_stale_def)
  have "resolver_step sample_deps s1 s2"
    using store_list [of s1 "[]" "''p''" "[]" sample_deps None] by (simp add: one s2_def r2_def)
  moreover have "resolver_step sample_deps s2 s3"
    using release_key [of s2 "[]" ?f "[]" sample_deps] by (simp add: s2_def s3_def)
  moreover have "resolver_step sample_deps s3 s4"
    using tick [of s3 "sample_begin + errorTTL" sample_deps] by (simp add: one s2_def s3_def s4_def errorTTL_def second_def)
  moreover have "resolver_step sample_deps (resolver_start sample_begin) s1" "resolver_step sample_deps s4 (sample_lookup s4)"
    unfolding s1_def by (rule sample_lookup_step)+
  ultimately have "(resolver_step sample_deps)\<^sup>*\<^sup>* (resolver_start sample_begin) (sample_lookup s4)"
    by (meson rtranclp.intros)
  then have reach: "resolver_reachable sample_deps (sample_lookup s4)" unfolding resolver_reachable_def by blast
  have log: "rsys_log (sample_lookup s4) = [(sample_begin + errorTTL, Launched ?f), (sample_begin, Stored ?f), (sample_begin, Launched ?f)]"
    by (subst sample_started)
       (simp_all add: one s2_def s3_def s4_def r2_def NewResolver_def models_stale_def fetchModels_def release_flight_def Let_def
          errorTTL_def modelListTTL_def sample_begin_def second_def)
  then have "rsys_log (sample_lookup s4) = [] @ (sample_begin + errorTTL, Launched ?f) # [(sample_begin, Stored ?f)]
      @ (sample_begin, Launched ?f) # []" by simp
  then have "\<exists>c. (c, Stored ?f) \<in> set [(sample_begin, Stored ?f)] \<and> c + errorTTL \<le> sample_begin + errorTTL"
    using fetches_spaced [OF reach, of "''p''"] by blast
  then show ?thesis using reach log by blast
qed

end
