(* ===== verification/WorkerRegistry.thy ===== *)
theory WorkerRegistry
  imports GoText Prelude
begin

text \<open>
  Workers from spawning to their end (\<open>internal/runtime/runtime.go\<close>, with \<open>composite_tools.go\<close> and
  \<open>layered_tools.go\<close>): the tools a worker gets, what refuses it, and the registry of running
  workers, which a shutdown closes, cancels and waits for. What a worker does while it runs is the
  subject of \<open>WorkerRun\<close>; here a run ends at any time with any status.
\<close>

section \<open>Tool executors\<close>

record tool_def =
  td_Name :: string
  td_Description :: string
  td_Parameters :: string

text \<open>Errors that wrap \<open>ErrUnknownTool\<close> are told from the others.\<close>

datatype tool_error = UnknownTool string | ToolFailed string

type_synonym 's tool_call_fun = "string \<Rightarrow> string \<Rightarrow> 's \<Rightarrow> (tool_error + string) \<times> 's"

record 's tool_executor =
  te_Execute :: "'s tool_call_fun"
  te_Definitions :: "tool_def list"

definition unknown_tool_error :: "string \<Rightarrow> tool_error" where
  "unknown_tool_error name = UnknownTool (''unknown tool: '' @ name)"

fun is_unknown :: "tool_error + string \<Rightarrow> bool" where
  "is_unknown (Inl (UnknownTool e)) = True"
| "is_unknown _ = False"

definition has_double_underscore :: "string \<Rightarrow> bool" where
  "has_double_underscore name = contains_sub name ''__''"

definition CompositeTools :: "'s tool_executor \<Rightarrow> 's tool_call_fun option \<Rightarrow> tool_def list \<Rightarrow> 's tool_executor" where
  "CompositeTools core mcp mcpDefs =
     \<lparr>te_Execute = (\<lambda>name args s.
        case te_Execute core name args s of
          (result, s') \<Rightarrow>
            (case mcp of
               Some call \<Rightarrow>
                 if is_unknown result \<and> has_double_underscore name then call name args s' else (result, s')
             | None \<Rightarrow> (result, s'))),
      te_Definitions = te_Definitions core @ mcpDefs\<rparr>"

definition LayeredToolExecutor :: "'s tool_executor \<Rightarrow> 's tool_executor \<Rightarrow> 's tool_executor" where
  "LayeredToolExecutor base overlay =
     \<lparr>te_Execute = (\<lambda>name args s.
        case te_Execute overlay name args s of
          (result, s') \<Rightarrow> if is_unknown result then te_Execute base name args s' else (result, s')),
      te_Definitions =
        te_Definitions overlay
        @ filter (\<lambda>td. td_Name td \<notin> td_Name ` set (te_Definitions overlay)) (te_Definitions base)\<rparr>"

definition filteredToolExecutor :: "'s tool_executor \<Rightarrow> tool_def list \<Rightarrow> 's tool_executor" where
  "filteredToolExecutor inner allowed =
     \<lparr>te_Execute = (\<lambda>name args s.
        if list_ex (\<lambda>td. td_Name td = name) allowed then te_Execute inner name args s
        else (Inl (unknown_tool_error name), s)),
      te_Definitions = allowed\<rparr>"

section \<open>Spawning\<close>

record 's spawn_opts =
  so_WorkerID :: string
  so_ProviderName :: string
  so_Tools :: "tool_def list"
  so_DisallowedTools :: "string list"
  so_ToolExecutor :: "'s tool_executor option"
  so_ExtraTools :: "'s tool_executor option"
  so_JobID :: string
  so_TaskID :: string
  so_MaxTurns :: int
  so_MaxDepth :: int
  so_Depth :: int
  so_Hidden :: bool

definition defaultMaxTurns :: int where "defaultMaxTurns = 50"
definition defaultMaxDepth :: int where "defaultMaxDepth = 1"

definition max_turns_of :: "'s spawn_opts \<Rightarrow> int" where
  "max_turns_of opts = (if so_MaxTurns opts \<le> 0 then defaultMaxTurns else so_MaxTurns opts)"

definition max_depth_of :: "'s spawn_opts \<Rightarrow> int" where
  "max_depth_of opts = (if so_MaxDepth opts \<le> 0 then defaultMaxDepth else so_MaxDepth opts)"

text \<open>The checks before a session exists; the identifier of a session is given or fails.\<close>

definition spawn_checks :: "(string \<Rightarrow> bool) \<Rightarrow> string + string \<Rightarrow> 's spawn_opts \<Rightarrow> string + string" where
  "spawn_checks has_provider new_id opts =
     (if so_ToolExecutor opts \<noteq> None \<and> so_ExtraTools opts \<noteq> None
      then Inl ''SpawnOpts.ToolExecutor and SpawnOpts.ExtraTools are mutually exclusive''
      else if \<not> has_provider (so_ProviderName opts)
      then Inl (''provider '' @ fmt_q (so_ProviderName opts) @ '' not found'')
      else case new_id of
             Inl e \<Rightarrow> Inl (''generating session ID: '' @ e)
           | Inr uid \<Rightarrow> Inr uid)"

definition SpawnWorker_result ::
  "(string \<Rightarrow> bool) \<Rightarrow> string + string \<Rightarrow> 's spawn_opts \<Rightarrow> bool \<Rightarrow> string + string" where
  "SpawnWorker_result has_provider new_id opts closed =
     (case spawn_checks has_provider new_id opts of
        Inl e \<Rightarrow> Inl e
      | Inr uid \<Rightarrow> if closed then Inl ''runtime is shut down'' else Inr uid)"

text \<open>
  The tools of a session. The core tools are built from the denied names, the depth and its bound.
\<close>

definition session_tools ::
  "(string list \<Rightarrow> int \<Rightarrow> int \<Rightarrow> 's tool_executor) \<Rightarrow> ('s tool_call_fun \<times> tool_def list) option
   \<Rightarrow> 's spawn_opts \<Rightarrow> 's tool_executor" where
  "session_tools core_tools mcp opts =
     (let tools = (case so_ToolExecutor opts of
                     Some e \<Rightarrow> e
                   | None \<Rightarrow>
                       (let core = core_tools (so_DisallowedTools opts) (so_Depth opts) (max_depth_of opts)
                        in case mcp of
                             Some (call, defs) \<Rightarrow> CompositeTools core (Some call) defs
                           | None \<Rightarrow> core));
          layered = (case so_ExtraTools opts of None \<Rightarrow> tools | Some extra \<Rightarrow> LayeredToolExecutor tools extra)
      in if so_Tools opts \<noteq> [] then filteredToolExecutor layered (so_Tools opts) else layered)"

text \<open>A session that was given tools executes no others, whatever the model asks for.\<close>

lemma restricted_session:
  assumes "so_Tools opts \<noteq> []"
  shows "te_Definitions (session_tools core mcp opts) = so_Tools opts"
    and "name \<notin> td_Name ` set (so_Tools opts) \<Longrightarrow>
      te_Execute (session_tools core mcp opts) name args s = (Inl (unknown_tool_error name), s)"
  using assms by (auto simp: session_tools_def Let_def filteredToolExecutor_def list_ex_iff)

text \<open>A name that the core tools know, even one they refuse, does not reach the MCP servers.\<close>

lemma known_stays_local:
  assumes "te_Execute core name args s = (r, s')" "\<not> is_unknown r \<or> \<not> has_double_underscore name"
  shows "te_Execute (CompositeTools core mcp defs) name args s = (r, s')"
  using assms by (auto simp: CompositeTools_def split: option.split)

text \<open>The overlay shadows the tools of the same name, in what is offered as in what is executed.\<close>

lemma overlay_shadows:
  assumes "distinct (map td_Name (te_Definitions base))" "distinct (map td_Name (te_Definitions overlay))"
  shows "distinct (map td_Name (te_Definitions (LayeredToolExecutor base overlay)))"
    and "td_Name ` set (te_Definitions (LayeredToolExecutor base overlay))
         = td_Name ` set (te_Definitions base) \<union> td_Name ` set (te_Definitions overlay)"
proof -
  let ?rest = "filter (\<lambda>td. td_Name td \<notin> td_Name ` set (te_Definitions overlay)) (te_Definitions base)"
  have "distinct (map td_Name ?rest)" by (rule distinct_map_filter) (rule assms(1))
  moreover have "set (map td_Name (te_Definitions overlay)) \<inter> set (map td_Name ?rest) = {}" by auto (metis imageI)
  ultimately show "distinct (map td_Name (te_Definitions (LayeredToolExecutor base overlay)))"
    using assms(2) unfolding LayeredToolExecutor_def by (simp only: tool_executor.simps map_append distinct_append)
qed (auto simp: LayeredToolExecutor_def)

section \<open>The registry\<close>

text \<open>
  Where the goroutines of a spawn are. The session exists from \<open>Created\<close> on; it is registered with the
  wait group counted, its row is written, its goroutine runs, writes the row again, removes the
  session and tells the wait group.
\<close>

datatype spawn_phase = Created | Refused | Registered | Recorded | Running | Ended | Updated | Removed | Gone

datatype run_status = Active | Completed | Failed | Cancelled

text \<open>
  What a caller that waits for a worker gets: the session is over, with its error and its last text,
  or the caller's own context is, which cancels the session.
\<close>

datatype wait_end = Session_over run_status "string option" string | Caller_over string

definition SpawnAndWait :: "string + string \<Rightarrow> wait_end \<Rightarrow> (string + string) \<times> bool" where
  "SpawnAndWait spawned ending =
     (case spawned of
        Inl e \<Rightarrow> (Inl (''spawning worker: '' @ e), False)
      | Inr uid \<Rightarrow>
          (case ending of
             Caller_over e \<Rightarrow> (Inl e, True)
           | Session_over st termErr finalText \<Rightarrow>
               (if st = Failed \<or> st = Cancelled
                then let what = ''child session '' @ (if st = Failed then ''failed'' else ''cancelled'')
                     in (Inl (case termErr of Some e \<Rightarrow> what @ '': '' @ e | None \<Rightarrow> what), False)
                else (Inr finalText, False))))"

lemma only_success_counts:
  "fst (SpawnAndWait spawned ending) = Inr t \<Longrightarrow>
     \<exists>st e. ending = Session_over st e t \<and> st \<noteq> Failed \<and> st \<noteq> Cancelled"
  by (auto simp: SpawnAndWait_def Let_def split: sum.splits wait_end.splits if_splits)

record worker_session =
  ws_job :: string
  ws_cancelled :: bool
  ws_status :: run_status
  ws_phase :: spawn_phase

record registry =
  rg_closed :: bool
  rg_sessions :: "string set"
  rg_wait :: nat
  rg_objects :: "string \<rightharpoonup> worker_session"
  rg_rows :: "string \<rightharpoonup> run_status"
  rg_waited :: bool

definition New_runtime :: registry where
  "New_runtime = \<lparr>rg_closed = False, rg_sessions = {}, rg_wait = 0, rg_objects = Map.empty,
     rg_rows = Map.empty, rg_waited = False\<rparr>"

definition with_session :: "string \<Rightarrow> (worker_session \<Rightarrow> worker_session) \<Rightarrow> registry \<Rightarrow> registry" where
  "with_session i f g = g\<lparr>rg_objects := (rg_objects g)(i := map_option f (rg_objects g i))\<rparr>"

definition to_phase :: "spawn_phase \<Rightarrow> string \<Rightarrow> registry \<Rightarrow> registry" where
  "to_phase p i = with_session i (\<lambda>w. w\<lparr>ws_phase := p\<rparr>)"

definition at_phase :: "registry \<Rightarrow> string \<Rightarrow> spawn_phase \<Rightarrow> bool" where
  "at_phase g i p \<longleftrightarrow> map_option ws_phase (rg_objects g i) = Some p"

definition made_session :: "string \<Rightarrow> string \<Rightarrow> registry \<Rightarrow> registry" where
  "made_session i job g =
     g\<lparr>rg_objects := (rg_objects g)(i \<mapsto>
         \<lparr>ws_job = job, ws_cancelled = False, ws_status = Active, ws_phase = Created\<rparr>)\<rparr>"

text \<open>One critical section: a closed registry refuses, an open one enters the session and counts it.\<close>

definition register_session :: "string \<Rightarrow> registry \<Rightarrow> registry" where
  "register_session i g =
     (if rg_closed g then to_phase Refused i g
      else to_phase Registered i (g\<lparr>rg_sessions := insert i (rg_sessions g), rg_wait := Suc (rg_wait g)\<rparr>))"

definition record_session :: "bool \<Rightarrow> string \<Rightarrow> registry \<Rightarrow> registry" where
  "record_session stored i g =
     to_phase Recorded i (if stored then g\<lparr>rg_rows := (rg_rows g)(i \<mapsto> Active)\<rparr> else g)"

definition end_session :: "run_status \<Rightarrow> string \<Rightarrow> registry \<Rightarrow> registry" where
  "end_session st i g = to_phase Ended i (with_session i (\<lambda>w. w\<lparr>ws_status := st\<rparr>) g)"

definition update_session :: "bool \<Rightarrow> string \<Rightarrow> registry \<Rightarrow> registry" where
  "update_session stored i g =
     to_phase Updated i
       (if stored \<and> rg_rows g i \<noteq> None
        then g\<lparr>rg_rows := (rg_rows g)(i := map_option ws_status (rg_objects g i))\<rparr> else g)"

definition remove_session :: "string \<Rightarrow> registry \<Rightarrow> registry" where
  "remove_session i g = to_phase Removed i (g\<lparr>rg_sessions := rg_sessions g - {i}\<rparr>)"

definition leave_group :: "string \<Rightarrow> registry \<Rightarrow> registry" where
  "leave_group i g = to_phase Gone i (g\<lparr>rg_wait := rg_wait g - 1\<rparr>)"

definition cancel_object :: "string \<Rightarrow> registry \<Rightarrow> registry" where
  "cancel_object i = with_session i (\<lambda>w. w\<lparr>ws_cancelled := True\<rparr>)"

text \<open>What the cancelling operations find under the lock; they cancel it after they left it.\<close>

definition CancelSession :: "string \<Rightarrow> registry \<Rightarrow> string option \<times> string set" where
  "CancelSession i g =
     (if i \<in> rg_sessions g then (None, {i}) else (Some (''session '' @ fmt_q i @ '' not found''), {}))"

definition CancelJobSessions :: "string \<Rightarrow> registry \<Rightarrow> string set" where
  "CancelJobSessions job g = {i \<in> rg_sessions g. map_option ws_job (rg_objects g i) = Some job}"

definition ActiveSessions :: "registry \<Rightarrow> string set" where
  "ActiveSessions g = {i \<in> rg_sessions g. map_option ws_status (rg_objects g i) = Some Active}"

text \<open>The critical section of \<open>Shutdown\<close>: it closes the registry and cancels what is in it.\<close>

definition close_registry :: "registry \<Rightarrow> registry" where
  "close_registry g =
     g\<lparr>rg_closed := True,
       rg_objects := (\<lambda>i. if i \<in> rg_sessions g then map_option (\<lambda>w. w\<lparr>ws_cancelled := True\<rparr>) (rg_objects g i)
                          else rg_objects g i)\<rparr>"

text \<open>
  Every order of the steps of any number of spawns, of cancellations that arrive late, of the critical
  section of \<open>Shutdown\<close> and of its wait; a wait that times out changes nothing.
\<close>

inductive registry_step :: "registry \<Rightarrow> registry \<Rightarrow> bool" where
  create: "rg_objects g i = None \<Longrightarrow> registry_step g (made_session i job g)"
| enter: "at_phase g i Created \<Longrightarrow> registry_step g (register_session i g)"
| persist: "at_phase g i Registered \<Longrightarrow> registry_step g (record_session stored i g)"
| go: "at_phase g i Recorded \<Longrightarrow> registry_step g (to_phase Running i g)"
| finish: "at_phase g i Running \<Longrightarrow> st \<noteq> Active \<Longrightarrow> registry_step g (end_session st i g)"
| settle: "at_phase g i Ended \<Longrightarrow> registry_step g (update_session stored i g)"
| remove: "at_phase g i Updated \<Longrightarrow> registry_step g (remove_session i g)"
| leave: "at_phase g i Removed \<Longrightarrow> registry_step g (leave_group i g)"
| cancel: "rg_objects g i = Some w \<Longrightarrow> ws_phase w \<notin> {Created, Refused} \<Longrightarrow> registry_step g (cancel_object i g)"
| close: "registry_step g (close_registry g)"
| waited: "rg_closed g \<Longrightarrow> rg_wait g = 0 \<Longrightarrow> registry_step g (g\<lparr>rg_waited := True\<rparr>)"

definition registry_reachable :: "registry \<Rightarrow> bool" where
  "registry_reachable g \<longleftrightarrow> registry_step\<^sup>*\<^sup>* New_runtime g"

section \<open>The books of the registry\<close>

definition counted_phases :: "spawn_phase set" where
  "counted_phases = {Registered, Recorded, Running, Ended, Updated, Removed}"

definition registered_phases :: "spawn_phase set" where
  "registered_phases = {Registered, Recorded, Running, Ended, Updated}"

definition in_phases :: "registry \<Rightarrow> spawn_phase set \<Rightarrow> string set" where
  "in_phases g P = {i. \<exists>w. rg_objects g i = Some w \<and> ws_phase w \<in> P}"

definition registry_ok :: "registry \<Rightarrow> bool" where
  "registry_ok g \<longleftrightarrow>
     finite (dom (rg_objects g)) \<and> rg_sessions g = in_phases g registered_phases
     \<and> rg_wait g = card (in_phases g counted_phases)
     \<and> (rg_closed g \<longrightarrow> (\<forall>i\<in>rg_sessions g. map_option ws_cancelled (rg_objects g i) = Some True))
     \<and> (rg_waited g \<longrightarrow> rg_closed g \<and> in_phases g counted_phases = {})"

lemma in_phases_finite: "finite (dom (rg_objects g)) \<Longrightarrow> finite (in_phases g P)"
  by (rule finite_subset [rotated]) (auto simp: in_phases_def)

lemma with_session_simps [simp]:
  "rg_closed (with_session i f g) = rg_closed g" "rg_sessions (with_session i f g) = rg_sessions g"
  "rg_wait (with_session i f g) = rg_wait g" "rg_rows (with_session i f g) = rg_rows g"
  "rg_waited (with_session i f g) = rg_waited g"
  "rg_objects (with_session i f g) j = (if j = i then map_option f (rg_objects g i) else rg_objects g j)"
  "dom (rg_objects (with_session i f g)) = dom (rg_objects g)"
  by (auto simp: with_session_def split: if_splits)

lemma to_phase_simps [simp]:
  "rg_closed (to_phase p i g) = rg_closed g" "rg_sessions (to_phase p i g) = rg_sessions g"
  "rg_wait (to_phase p i g) = rg_wait g" "rg_rows (to_phase p i g) = rg_rows g"
  "rg_waited (to_phase p i g) = rg_waited g"
  "rg_objects (to_phase p i g) j = (if j = i then map_option (\<lambda>w. w\<lparr>ws_phase := p\<rparr>) (rg_objects g i) else rg_objects g j)"
  "dom (rg_objects (to_phase p i g)) = dom (rg_objects g)"
  by (simp_all add: to_phase_def)

lemma in_phases_to_phase:
  assumes "rg_objects g i = Some w"
  shows "in_phases (to_phase p i g) P = (if p \<in> P then insert i (in_phases g P) else in_phases g P - {i})"
  using assms by (auto simp: in_phases_def split: if_splits)

lemma in_phases_same:
  "(\<And>j. map_option ws_phase (rg_objects g' j) = map_option ws_phase (rg_objects g j)) \<Longrightarrow> in_phases g' P = in_phases g P"
  by (auto simp: in_phases_def) (metis map_option_eq_Some)+

text \<open>
  A step of one session keeps the books when it moves the session among the phases the registry
  lists and counts as it changes the list and the count.
\<close>

lemma phase_move:
  assumes ok: "registry_ok g" and at: "at_phase g i q"
    and g': "rg_closed g' = rg_closed g" "rg_waited g' = rg_waited g" "dom (rg_objects g') = dom (rg_objects g)"
    and others: "\<And>j. j \<noteq> i \<Longrightarrow> rg_objects g' j = rg_objects g j"
    and self: "map_option ws_phase (rg_objects g' i) = Some p"
      "map_option ws_cancelled (rg_objects g' i) = map_option ws_cancelled (rg_objects g i)"
    and sessions: "rg_sessions g' = (if p \<in> registered_phases then insert i (rg_sessions g) else rg_sessions g - {i})"
    and wait: "rg_wait g' + (if q \<in> counted_phases then 1 else 0) = rg_wait g + (if p \<in> counted_phases then 1 else 0)"
    and enters: "q \<notin> registered_phases \<Longrightarrow> p \<in> registered_phases \<Longrightarrow> \<not> rg_closed g" "q \<notin> counted_phases \<Longrightarrow> p \<in> counted_phases \<Longrightarrow> \<not> rg_closed g"
  shows "registry_ok g'"
proof -
  obtain w where w: "rg_objects g i = Some w" "ws_phase w = q" using at by (auto simp: at_phase_def)
  have phases: "in_phases g' P = (if p \<in> P then insert i (in_phases g P) else in_phases g P - {i})" for P
    using others self(1) by (auto simp: in_phases_def split: if_splits) (metis option.simps(9) option.inject)+
  have fin: "finite (in_phases g counted_phases)" using ok in_phases_finite by (auto simp: registry_ok_def)
  have iq: "i \<in> in_phases g P \<longleftrightarrow> q \<in> P" for P using w by (auto simp: in_phases_def)
  have "rg_wait g' = card (in_phases g' counted_phases)"
    using wait fin iq [of counted_phases] ok card_gt_0_iff [of "in_phases g counted_phases"]
    by (auto simp: phases registry_ok_def insert_absorb card_insert_if split: if_splits)
  moreover have "rg_sessions g' = in_phases g' registered_phases" using sessions ok by (simp add: phases registry_ok_def)
  moreover have "map_option ws_cancelled (rg_objects g' j) = Some True" if "rg_closed g'" "j \<in> rg_sessions g'" for j
  proof -
    have "j \<in> rg_sessions g" using that sessions enters(1) ok iq [of registered_phases] g'(1)
      by (auto simp: registry_ok_def split: if_splits)
    then show ?thesis using that g' ok others self(2) by (cases "j = i") (auto simp: registry_ok_def)
  qed
  moreover have "in_phases g' counted_phases = {}" if "rg_waited g'"
    using that ok g' enters(2) iq [of counted_phases] by (auto simp: phases registry_ok_def)
  ultimately show ?thesis using ok g' by (simp add: registry_ok_def)
qed

lemmas phase_sets = counted_phases_def registered_phases_def

lemma registry_keeps: "registry_step g g' \<Longrightarrow> registry_ok g \<Longrightarrow> registry_ok g'"
proof (induction rule: registry_step.induct)
  case (create g i job)
  have "in_phases (made_session i job g) P = in_phases g P" if "Created \<notin> P" for P
    using create(1) that by (auto simp: in_phases_def made_session_def)
  moreover have "i \<notin> rg_sessions g" using create by (auto simp: registry_ok_def in_phases_def)
  ultimately show ?case using create(2) by (auto simp: registry_ok_def made_session_def phase_sets)
next
  case (enter g i)
  show ?case
  proof (cases "rg_closed g")
    case True
    show ?thesis by (rule phase_move [OF enter(2,1), where p = Refused])
      (use True enter in \<open>auto simp: register_session_def phase_sets at_phase_def registry_ok_def in_phases_def\<close>)
  next
    case False
    show ?thesis by (rule phase_move [OF enter(2,1), where p = Registered])
      (use False enter in \<open>auto simp: register_session_def phase_sets at_phase_def\<close>)
  qed
next
  case (persist g i stored)
  show ?case by (rule phase_move [OF persist(2,1), where p = Recorded])
    (use persist in \<open>auto simp: record_session_def phase_sets at_phase_def registry_ok_def in_phases_def\<close>)
next
  case (go g i)
  show ?case by (rule phase_move [OF go(2,1), where p = Running])
    (use go in \<open>auto simp: phase_sets at_phase_def registry_ok_def in_phases_def\<close>)
next
  case (finish g i st)
  show ?case by (rule phase_move [OF finish(3,1), where p = Ended])
    (use finish in \<open>auto simp: end_session_def phase_sets at_phase_def registry_ok_def in_phases_def\<close>)
next
  case (settle g i stored)
  show ?case by (rule phase_move [OF settle(2,1), where p = Updated])
    (use settle in \<open>auto simp: update_session_def phase_sets at_phase_def registry_ok_def in_phases_def\<close>)
next
  case (remove g i)
  show ?case by (rule phase_move [OF remove(2,1), where p = Removed])
    (use remove in \<open>auto simp: remove_session_def phase_sets at_phase_def\<close>)
next
  case (leave g i)
  have "i \<in> in_phases g counted_phases" using leave(1) by (auto simp: at_phase_def in_phases_def phase_sets)
  then have "0 < rg_wait g" using leave(2) in_phases_finite by (auto simp: registry_ok_def card_gt_0_iff)
  then show ?case by (intro phase_move [OF leave(2,1), where p = Gone])
    (use leave in \<open>auto simp: leave_group_def phase_sets at_phase_def registry_ok_def in_phases_def\<close>)
next
  case (cancel g i w)
  have "in_phases (cancel_object i g) P = in_phases g P" for P
    by (rule in_phases_same) (simp add: cancel_object_def option.map_comp comp_def)
  then show ?case using cancel by (auto simp: registry_ok_def cancel_object_def)
next
  case (close g)
  have "in_phases (close_registry g) P = in_phases g P" for P
    by (rule in_phases_same) (simp add: close_registry_def option.map_comp comp_def)
  moreover have "dom (rg_objects (close_registry g)) = dom (rg_objects g)"
    by (auto simp: close_registry_def split: if_splits)
  moreover have "map_option ws_cancelled (rg_objects (close_registry g) i) = Some True" if "i \<in> in_phases g registered_phases" for i
    using that close by (auto simp: registry_ok_def in_phases_def close_registry_def)
  moreover have "rg_sessions (close_registry g) = rg_sessions g" "rg_wait (close_registry g) = rg_wait g"
      "rg_waited (close_registry g) = rg_waited g" "rg_closed (close_registry g)"
    by (simp_all add: close_registry_def)
  ultimately show ?case using close unfolding registry_ok_def by (simp only:) blast
next
  case (waited g)
  then have "in_phases g counted_phases = {}" using in_phases_finite by (auto simp: registry_ok_def)
  moreover have "in_phases (g\<lparr>rg_waited := True\<rparr>) P = in_phases g P" for P by (simp add: in_phases_def)
  ultimately show ?case using waited by (simp add: registry_ok_def)
qed

lemma reachable_ok:
  assumes "registry_reachable g"
  shows "registry_ok g"
proof -
  have "registry_step\<^sup>*\<^sup>* New_runtime g" using assms by (simp add: registry_reachable_def)
  then show ?thesis
  proof (induction rule: rtranclp_induct)
    case base
    show ?case by (simp add: registry_ok_def New_runtime_def in_phases_def)
  qed (rule registry_keeps)
qed

section \<open>Shutting down\<close>

text \<open>The next step of a session that is still counted.\<close>

fun phase_rank :: "spawn_phase \<Rightarrow> nat" where
  "phase_rank Registered = 6" | "phase_rank Recorded = 5" | "phase_rank Running = 4"
| "phase_rank Ended = 3" | "phase_rank Updated = 2" | "phase_rank Removed = 1" | "phase_rank _ = 0"

lemma session_advances:
  assumes "at_phase g i p" "p \<in> counted_phases"
  shows "\<exists>g' q. registry_step g g' \<and> at_phase g' i q \<and> phase_rank q < phase_rank p \<and> (q \<in> counted_phases \<or> q = Gone)
    \<and> rg_closed g' = rg_closed g \<and> (\<forall>j. j \<noteq> i \<longrightarrow> rg_objects g' j = rg_objects g j)"
proof -
  have "p = Registered \<or> p = Recorded \<or> p = Running \<or> p = Ended \<or> p = Updated \<or> p = Removed"
    using assms(2) by (auto simp: counted_phases_def)
  then show ?thesis
  proof (elim disjE)
    assume p: "p = Registered"
    show ?thesis
      by (rule exI [of _ "record_session True i g"], rule exI [of _ Recorded])
         (use assms persist [of g i True] in \<open>auto simp: p record_session_def at_phase_def counted_phases_def\<close>)
  next
    assume p: "p = Recorded"
    show ?thesis
      by (rule exI [of _ "to_phase Running i g"], rule exI [of _ Running])
         (use assms go [of g i] in \<open>auto simp: p at_phase_def counted_phases_def\<close>)
  next
    assume p: "p = Running"
    show ?thesis
      by (rule exI [of _ "end_session Cancelled i g"], rule exI [of _ Ended])
         (use assms finish [of g i Cancelled] in \<open>auto simp: p end_session_def at_phase_def counted_phases_def\<close>)
  next
    assume p: "p = Ended"
    show ?thesis
      by (rule exI [of _ "update_session True i g"], rule exI [of _ Updated])
         (use assms settle [of g i True] in \<open>auto simp: p update_session_def at_phase_def counted_phases_def\<close>)
  next
    assume p: "p = Updated"
    show ?thesis
      by (rule exI [of _ "remove_session i g"], rule exI [of _ Removed])
         (use assms remove [of g i] in \<open>auto simp: p remove_session_def at_phase_def counted_phases_def\<close>)
  next
    assume p: "p = Removed"
    show ?thesis
      by (rule exI [of _ "leave_group i g"], rule exI [of _ Gone])
         (use assms leave [of g i] in \<open>auto simp: p leave_group_def at_phase_def counted_phases_def\<close>)
  qed
qed

lemma session_ends:
  "at_phase g i p \<Longrightarrow> p \<in> counted_phases \<Longrightarrow>
     \<exists>g'. registry_step\<^sup>*\<^sup>* g g' \<and> rg_closed g' = rg_closed g \<and> in_phases g' counted_phases = in_phases g counted_phases - {i}"
proof (induction "phase_rank p" arbitrary: g p rule: less_induct)
  case less
  from session_advances [OF less(2,3)] obtain g1 q where g1: "registry_step g g1" "at_phase g1 i q"
      "phase_rank q < phase_rank p" "q \<in> counted_phases \<or> q = Gone" "rg_closed g1 = rg_closed g"
      "\<forall>j. j \<noteq> i \<longrightarrow> rg_objects g1 j = rg_objects g j" by blast
  have others: "in_phases g1 counted_phases - {i} = in_phases g counted_phases - {i}"
    using g1(6) by (auto simp: in_phases_def)
  show ?case
  proof (cases "q \<in> counted_phases")
    case True
    then obtain g' where "registry_step\<^sup>*\<^sup>* g1 g'" "rg_closed g' = rg_closed g1"
        "in_phases g' counted_phases = in_phases g1 counted_phases - {i}"
      using less(1) [OF g1(3) g1(2)] by blast
    then show ?thesis using g1(1,5) others by (metis converse_rtranclp_into_rtranclp)
  next
    case False
    then have "i \<notin> in_phases g1 counted_phases" using g1(2) by (auto simp: at_phase_def in_phases_def)
    then show ?thesis using g1(1,5) others by (metis Diff_insert_absorb Diff_empty insert_Diff1 r_into_rtranclp Diff_insert0)
  qed
qed

lemma all_end:
  "finite S \<Longrightarrow> in_phases g counted_phases = S \<Longrightarrow>
     \<exists>g'. registry_step\<^sup>*\<^sup>* g g' \<and> rg_closed g' = rg_closed g \<and> in_phases g' counted_phases = {}"
proof (induction S arbitrary: g rule: finite_induct)
  case empty
  then show ?case by blast
next
  case (insert i S)
  obtain w where "rg_objects g i = Some w" "ws_phase w \<in> counted_phases" using insert(4) by (auto simp: in_phases_def)
  then obtain g1 where g1: "registry_step\<^sup>*\<^sup>* g g1" "rg_closed g1 = rg_closed g" "in_phases g1 counted_phases = S"
    using session_ends [of g i "ws_phase w"] insert(2,4) by (auto simp: at_phase_def)
  then show ?case using insert(3) [OF g1(3)] by (metis rtranclp_trans)
qed

text \<open>Once the wait is over, no step writes a row, and the wait stays over.\<close>

lemma quiet_step:
  assumes "registry_step g g'" "registry_ok g" "rg_waited g"
  shows "rg_rows g' = rg_rows g \<and> rg_waited g'"
proof -
  have none: "\<not> at_phase g i p" if "p \<in> counted_phases" for i p
    using assms(2,3) that by (auto simp: registry_ok_def in_phases_def at_phase_def)
  show ?thesis using assms(1,3) none
    by (cases rule: registry_step.cases)
       (auto simp: counted_phases_def made_session_def register_session_def close_registry_def cancel_object_def
          end_session_def remove_session_def leave_group_def)
qed

lemma quiet_run: "registry_step\<^sup>*\<^sup>* g g' \<Longrightarrow> registry_ok g \<Longrightarrow> rg_waited g \<Longrightarrow> rg_rows g' = rg_rows g"
proof (induction rule: converse_rtranclp_induct)
  case (step g g1)
  then show ?case using quiet_step [OF step(1)] registry_keeps [OF step(1)] by simp
qed simp

text \<open>
  C24. Shutting the runtime down cancels every session that is still registered, can be waited for
  until the last goroutine is gone, and once it was waited for no worker writes to the store again.
\<close>

theorem shutdown_settles:
  assumes "registry_reachable g"
  shows "(rg_closed g \<longrightarrow>
       (\<forall>i w. rg_objects g i = Some w \<and> ws_phase w \<in> {Registered, Recorded, Running, Ended, Updated} \<longrightarrow> ws_cancelled w)
       \<and> (\<exists>g'. registry_step\<^sup>*\<^sup>* g g' \<and> rg_waited g'))
    \<and> (rg_waited g \<longrightarrow> (\<forall>g'. registry_step\<^sup>*\<^sup>* g g' \<longrightarrow> rg_rows g' = rg_rows g))"
proof (intro conjI impI allI)
  have ok: "registry_ok g" using reachable_ok [OF assms] .
  {
    fix i w
    assume "rg_closed g" "rg_objects g i = Some w \<and> ws_phase w \<in> {Registered, Recorded, Running, Ended, Updated}"
    moreover from this have "i \<in> rg_sessions g"
      using ok unfolding registry_ok_def in_phases_def registered_phases_def by blast
    ultimately have "map_option ws_cancelled (rg_objects g i) = Some True" using ok unfolding registry_ok_def by blast
    then show "ws_cancelled w" using \<open>rg_objects g i = Some w \<and> _\<close> by simp
  next
    assume closed: "rg_closed g"
    obtain g1 where g1: "registry_step\<^sup>*\<^sup>* g g1" "rg_closed g1" "in_phases g1 counted_phases = {}"
      using all_end [OF in_phases_finite refl, of g] ok closed by (auto simp: registry_ok_def)
    have "registry_reachable g1" using assms g1(1) by (auto simp: registry_reachable_def)
    then have "rg_wait g1 = 0" using reachable_ok g1(3) by (simp add: registry_ok_def)
    then have "registry_step g1 (g1\<lparr>rg_waited := True\<rparr>)" using g1(2) by (rule waited [rotated])
    then show "\<exists>g'. registry_step\<^sup>*\<^sup>* g g' \<and> rg_waited g'"
      using g1(1) by (intro exI [of _ "g1\<lparr>rg_waited := True\<rparr>"]) auto
  next
    fix g'
    assume "rg_waited g" "registry_step\<^sup>*\<^sup>* g g'"
    then show "rg_rows g' = rg_rows g" using quiet_run ok by blast
  }
qed

definition sample_shutdown :: registry where
  "sample_shutdown = close_registry (to_phase Running ''w'' (record_session True ''w''
     (register_session ''w'' (made_session ''w'' ''j'' New_runtime))))"

lemma sample_shutdown_reachable: "registry_reachable sample_shutdown"
proof -
  let ?g1 = "made_session ''w'' ''j'' New_runtime"
  let ?g2 = "register_session ''w'' ?g1" let ?g3 = "record_session True ''w'' ?g2" let ?g4 = "to_phase Running ''w'' ?g3"
  have "registry_step New_runtime ?g1" by (rule create) (simp add: New_runtime_def)
  moreover have "registry_step ?g1 ?g2"
    by (rule enter) (simp add: at_phase_def made_session_def)
  moreover have "registry_step ?g2 ?g3"
    by (rule persist) (simp add: at_phase_def made_session_def register_session_def New_runtime_def)
  moreover have "registry_step ?g3 ?g4"
    by (rule go) (simp add: at_phase_def made_session_def register_session_def record_session_def New_runtime_def)
  moreover have "registry_step ?g4 sample_shutdown" unfolding sample_shutdown_def by (rule close)
  ultimately show ?thesis unfolding registry_reachable_def by (meson rtranclp.intros)
qed

lemma shutdown_settles_witness:
  "map_option ws_cancelled (rg_objects sample_shutdown ''w'') = Some True
   \<and> (\<exists>g'. registry_step\<^sup>*\<^sup>* sample_shutdown g' \<and> rg_waited g')"
proof -
  have w: "rg_objects sample_shutdown ''w'' = Some \<lparr>ws_job = ''j'', ws_cancelled = True, ws_status = Active, ws_phase = Running\<rparr>"
    "rg_closed sample_shutdown"
    by (simp_all add: sample_shutdown_def close_registry_def made_session_def register_session_def record_session_def New_runtime_def)
  then show ?thesis using shutdown_settles [OF sample_shutdown_reachable] by simp
qed

end
