(* ===== verification/Spec2Isabelle.thy ===== *)
theory Spec2Isabelle
  imports Stopping CoreTools Fanout Copies EventHub RoleNode Questions LlmModels Throttle HttpRemote
    McpResults Resolver WorkerRegistry
begin

text \<open>
  A verification development for toasters (\<open>github.com/jefflinse/toasters\<close>), a server that lets an
  LLM \<open>operator\<close> split a user's request into jobs and tasks and runs each task as a graph of LLM
  nodes with tools. The theories model the Go code under \<open>src/internal\<close> and prove what makes it
  correct. This theory holds nothing of its own: it collects the others.

  \<^bold>\<open>How the parts interact.\<close> The operator (\<open>operator\<close>) owns a queue of events and one
  conversation. A user message starts a turn: the model is asked, its tool calls are executed, the
  results are appended, until it answers without a call. The tools change the store (\<open>db\<close>) and
  start graph runs through the service (\<open>service\<close>) and the executor (\<open>graphexec\<close>). A run
  ends with a broadcast that queues an event, which lets the operator's loop start the next task
  of the job or complete it. Inside a run, workers (\<open>runtime\<close>) hold conversations of their own
  and act on a workspace directory through the core tools.

  \<^bold>\<open>Theories, bottom up.\<close>
  \<^item> \<open>Prelude\<close>: results, named collections, list lemmas and the locale \<open>preserving_machine\<close> (a step
    function and an invariant it keeps), interpreted for the store and for the whole system.
  \<^item> \<open>GoText\<close>, \<open>Json\<close>, \<open>FilePath\<close>: what the program uses of Go's \<open>strings\<close>, \<open>fmt\<close>,
    \<open>encoding/json\<close>, \<open>path/filepath\<close> and \<open>os\<close>. A Go string is its list of bytes. The file system
    is a map from absolute positions to files, directories and symbolic links.
  \<^item> \<open>History\<close>: \<open>contextwindow/history.go\<close> and the restoring of conversations; which message lists a
    provider accepts (\<open>acceptable\<close>), and that every cut of the code keeps that. The locale
    \<open>window_cut\<close> is the contract of the two cuts.
  \<^item> \<open>WorkerSession\<close>, \<open>WorkerRun\<close>: \<open>runtime/session.go\<close> and \<open>session_compact.go\<close>, the worker's
    conversation loop, its two-tier compaction and the transcript in the store.
  \<^item> \<open>WorkerRegistry\<close>: \<open>runtime/runtime.go\<close>, the tools a worker is given and the registry of running
    workers as a step relation, with its shutdown.
  \<^item> \<open>Store\<close>: \<open>db/sqlite.go\<close>, one definition per statement or transaction, over tables as lists
    of rows; a fault oracle lets any statement fail. The locale \<open>keyed_table\<close> is what updates by
    key keep. \<open>World\<close> adds the runs started and the messages sent, and the invariant \<open>world_ok\<close>
    of serial execution (at most one task of a job in progress).
  \<^item> \<open>Decompose\<close>: \<open>service/decompose.go\<close>, \<open>service/local_broadcast_jobs.go\<close> and
    \<open>graphexec/siblings.go\<close>. \<open>SystemTools\<close>: \<open>operator/system_tools.go\<close>, the tools behind the
    locale \<open>tool_host\<close>, which the service implements. \<open>Workspace\<close>: \<open>operator/workspace_tools.go\<close>
    and the private networks of \<open>httputil/ssrf.go\<close>.
  \<^item> \<open>OperatorTurn\<close>, \<open>Handoff\<close>, \<open>EventLoop\<close>: \<open>operator/operator.go\<close>, \<open>handoff.go\<close> and \<open>digest.go\<close>:
    a turn, the replacing of a conversation that grew too long (locale \<open>turn_host\<close>), the events.
  \<^item> \<open>Executor\<close>, \<open>Orchestration\<close>, \<open>Stopping\<close>: \<open>graphexec/executor.go\<close>, \<open>service/local_jobs.go\<close> and
    \<open>service/local.go\<close>: the life cycle of runs, and the machine whose steps are the handlers of
    operator, executor and service in any order, with crashes and restarts.
  \<^item> \<open>FileTools\<close>, \<open>CoreTools\<close>: \<open>runtime/tools.go\<close>, \<open>runtime/diff.go\<close> and the dialer of
    \<open>httputil/ssrf.go\<close>: the sandbox, files, notes, the shell's guards, the dispatch of a call.
  \<^item> \<open>GraphDef\<close>: \<open>graphexec/definition.go\<close>, the graphs a user declares and their validation.
    \<open>PromptEngine\<close>: \<open>prompt/engine.go\<close>, \<open>schema.go\<close> and \<open>granularity.go\<close>, loading and reloading the
    roles, toolchains, instructions and output schemas and composing a role's prompt.
  \<^item> \<open>GraphState\<close>, \<open>GraphCompile\<close>: \<open>graphexec/state.go\<close>, \<open>templates.go\<close>, \<open>roles.go\<close> and
    \<open>compiler.go\<close>: the artifacts that flow through a graph, and the compiler as the list of calls it
    makes on the graph library's builder.
  \<^item> \<open>Fanout\<close>, \<open>Copies\<close>: \<open>graphexec/fanout_node.go\<close> and \<open>workspace/workspace.go\<close>: splitting a node
    into branches, the reducers and the judge, the branches' copies of the workspace and the promotion
    of the winner's. \<open>RoleNode\<close>: \<open>graphexec/nodes.go\<close> and the helpers of \<open>worker_tools.go\<close> and
    \<open>tuned_provider.go\<close> it calls: the slots, prompt, tools, first message and question rounds of a
    node, around a parameter for the agent loop.
  \<^item> \<open>JsonPrefix\<close>, \<open>Questions\<close>: how Go's JSON decoder reads one document from the front of a text, and
    the questions of an \<open>ask_user\<close> call (\<open>graphexec/worker_tools.go\<close>), of which the complete ones are
    asked even when the rest is cut off.
  \<^item> \<open>LlmStream\<close>, \<open>LlmRequest\<close>, \<open>LlmModels\<close>, \<open>Throttle\<close>: \<open>provider\<close>: the
    answer streams of the two providers read into a session's events, the request bodies built from
    messages and tools, the listing of models, embeddings, the registry and the scheduler, and the
    batching of streamed text (\<open>service/batcher.go\<close>).
  \<^item> \<open>McpResults\<close>: \<open>mcp/slim.go\<close> and \<open>truncate.go\<close>, what a model sees of the results of MCP tools.
    \<open>Resolver\<close>: \<open>contextwindow/resolver.go\<close>, the cache of context windows and its background fetches as
    a step relation.
  \<^item> \<open>WireCodec\<close>: what the wire uses of \<open>encoding/json\<close> on structs: field tables with names and
    \<open>omitempty\<close>, readers for each field type, their round-trip rules. \<open>WireTypes\<close>, \<open>WirePayloads\<close>:
    the structs of \<open>server/types.go\<close> and \<open>client/types.go\<close>. \<open>ServiceTypes\<close>: the entities and event
    payloads of \<open>service\<close>. \<open>WireEntities\<close>, \<open>EventPayloads\<close>: the conversions on both sides
    (\<open>...ToWire\<close>, the client's \<open>toService\<close> functions) and that an entity or a payload that crosses the
    wire arrives as it was sent, up to what JSON forgets.
  \<^item> \<open>EventStream\<close>, \<open>EventHub\<close>: an event as the text of a server-sent event (\<open>server/sse.go\<close>,
    \<open>sse/reader.go\<close>, \<open>client/events.go\<close>), and the path of the events as a step relation: the
    broadcast of \<open>service/local_events.go\<close>, the recorder and its ring (\<open>server/eventring.go\<close>), replay
    and forwarding on a connection, the client's tracking of the last number, losses and reconnects.
  \<^item> \<open>ServiceErrors\<close>: the error classes of \<open>service/errors.go\<close>, \<open>errors.Is\<close> on chains of wrapped
    errors, and the cleaning of messages shown to a client. \<open>HttpPaths\<close>: path escaping, query strings and the patterns
    of \<open>http.ServeMux\<close>. \<open>HttpBodies\<close>: the envelopes, the request bodies and the interface of the
    service as a record of its methods.
  \<^item> \<open>HttpServer\<close>: \<open>server/server.go\<close>, \<open>middleware.go\<close>, \<open>helpers.go\<close> and \<open>handlers.go\<close>:
    the response writer, the handlers, the routes, the chain of middleware. \<open>HttpGuards\<close>: no two
    patterns match one request, what a request without the token can reach, and what an error reply can reveal.
  \<^item> \<open>HttpClient\<close>, \<open>HttpRemote\<close>: \<open>client/http.go\<close> and \<open>client.go\<close>: building a request,
    mapping a status to an error class, decoding; and the client composed with the server, so that an
    operation called through HTTP gives what the service's own method gives.

  \<^bold>\<open>Correspondence.\<close> Definitions keep the names of the code in snake case; a struct is a record whose
  fields carry a short prefix (\<open>task_\<close>, \<open>ses_\<close>, \<open>op_\<close>), an enumeration a datatype. A function that
  returns \<open>(T, error)\<close> returns a sum, with \<open>Inl\<close> the text of the error; a method takes its receiver's
  record and returns it changed; an \<open>act\<close> is a function on the \<open>world\<close>. Go's \<open>int\<close> is \<open>int\<close> or, where
  the code only counts up from zero, \<open>nat\<close>: the quantities are counts and sizes far below the 64-bit
  range; address bytes are \<open>8 word\<close>. Code outside the repository is a parameter: the LLM providers
  (\<open>re_chat\<close>, \<open>oe_chat\<close>), the clock, UUIDs, DNS, git, the shell, YAML, and the graph library
  \<open>rhizome\<close>. Every such parameter is a total function, so the theorems hold for whatever it answers;
  where a theorem needs more, the need is a named predicate of its statement. On the wire a time is
  its RFC 3339 text, a \<open>float64\<close> its printed number, a \<open>json.RawMessage\<close> the document it holds, a
  slice an option of a list (\<open>None\<close> is \<open>nil\<close>), and an \<open>int\<close> or a \<open>uint64\<close> a \<open>64 word\<close>.

  \<^bold>\<open>What the lemmas show.\<close> Invariants: a worker's and the operator's conversation stay acceptable
  to the provider and mirrored by the persisted rows; the store's rows stay keyed and closed under
  references; a job has at most one task in progress through every interleaving of handlers. Safety:
  the tools change nothing outside the workspace, the shell runs only guarded commands with a scrubbed
  environment, private addresses are not reached, git runs only on checked addresses. Function: what
  dispatch, completion check, cancelling, retry, readiness and recovery do on every branch.
  Progress: a turn of a stuck model stops, the next assignment starts a task whenever it can.
  Equivalence: a run depends only on the provider's answers to acceptable histories; validation
  accepts exactly the well-formed graphs, and what compilation builds from them is closed.
  Refinement: promoting a branch implements the assignment of its working tree to the workspace.
  Delivery: the text of any sequence of events is read back as those events, and in every
  interleaving a client gets the numbered events in order, without duplicates, and without a gap it
  cannot see when the ring still covers its last number. Remote access: without the token no request
  reaches the service, the reply to a failure depends on its class and cleaned message only, and the
  remote client's reads return what the service returned.

  \<^bold>\<open>Bounds and fuel.\<close> \<open>Json.parse_value\<close> takes the length of the document as fuel; every nested
  call is behind a consumed byte, and \<open>parse_encode\<close> shows that it suffices on every encoded
  document. \<open>FilePath.walk\<close> follows at most 255 links (the limit of \<open>EvalSymlinks\<close>) or 40 (the
  kernel's), as the code does, and fails beyond. The loops of sessions and turns are recursive
  functions with a termination proof: a session by its turns left and its one retry, a turn by the
  bound \<open>max_turn_rounds\<close> of the operator's configuration. The theorem on restoring the operator's
  conversation assumes fewer calls per round than the window holds (\<open>few_calls\<close>). The capacities of
  the code are the code's constants: the ring's 512 events, the channels' 256, the reader's lines of
  10 MiB, a node's four agent runs. The number of an event is assumed not to wrap around 64 bits.

  \<^bold>\<open>Not modelled.\<close> The terminal UI (\<open>tui\<close>) renders state; \<open>cmd\<close>, \<open>bootstrap\<close>, \<open>config\<close>,
  \<open>loader\<close> and \<open>auth\<close> read files and wire the parts together; the servers of MCP, the knowledge base and SQLite
  are interfaces to other programs. Of HTTP the handlers, the routing, the middleware, the client's
  operations and the bodies are modelled; the transport (connections, time-outs, redirects, graceful
  shutdown), \<open>url.Parse\<close>, the texts of the decoder's errors, request identifiers and durations are
  parameters or left out, and so are the limit on connections, the client's backoff and the polling
  of the progress. Goroutines are modelled as steps that interleave at the granularity of handlers,
  or of single statements where a theorem says so; memory races inside a
  handler, which the code excludes with mutexes, are not. The manifest names each part that is left
  out with its reason.
\<close>

end
